(* ===== verification/Prelude.thy ===== *)
theory Prelude
  imports Main "HOL-Library.Word" "HOL-Library.Monad_Syntax"
begin

text \<open>
  Shared vocabulary of the development: the machine integers of
  \<^verbatim>\<open>src/common/integers.h\<close>, byte strings (C++ \<^verbatim>\<open>std::string_view\<close> and raw buffers are
  both lists of bytes), the error values that stand for \<^verbatim>\<open>Fatal\<close> and for the undefined
  behaviour the source relies on not meeting, and the collections of rules that carry the
  component proofs.
\<close>

unbundle bit_operations_syntax

subsection \<open>Machine integers and byte strings\<close>

type_synonym u8 = "8 word"
type_synonym u16 = "16 word"
type_synonym u32 = "32 word"
type_synonym u64 = "64 word"
type_synonym bytes = "u8 list"

text \<open>A string literal of the source as the bytes it denotes.\<close>

definition str :: "string \<Rightarrow> bytes" where
  "str s = map of_char s"

lemma length_str [simp]: "length (str s) = length s"
  by (simp add: str_def)

subsection \<open>Rule collections\<close>

named_theorems codec_simps \<open>encode/decode equations of the on-disk structures\<close>
named_theorems step_simps \<open>one-step equations of the byte machines\<close>
named_theorems codec_intros \<open>rules that build the codec of a structure from its members\<close>

subsection \<open>Errors\<close>

text \<open>
  \<open>Fatal\<close> is the linker's diagnosed exit (\<^verbatim>\<open>Fatal(ctx) << ...\<close>, which never returns);
  \<open>OutOfBounds\<close> is a read or write past the end of a buffer and \<open>Undefined\<close> any other
  undefined behaviour of C++ (a shift by at least the width of its operand), both of which
  the program would carry on from; \<open>Unreachable\<close> is the macro of that name.
\<close>

datatype failure = Fatal string | OutOfBounds | Undefined | Unreachable

type_synonym 'a result = "failure + 'a"

definition bind_result :: "'a result \<Rightarrow> ('a \<Rightarrow> 'b result) \<Rightarrow> 'b result" where
  "bind_result r f = (case r of Inl e \<Rightarrow> Inl e | Inr x \<Rightarrow> f x)"

lemma bind_result_simps [simp]:
  "bind_result (Inl e) f = Inl e"
  "bind_result (Inr x) f = f x"
  by (simp_all add: bind_result_def)

lemma bind_result_eq_Inr:
  "bind_result r f = Inr y \<longleftrightarrow> (\<exists>x. r = Inr x \<and> f x = Inr y)"
  by (cases r) auto

text \<open>A loop over a list whose body can fail; it stops at the first failure.\<close>

fun foldM :: "('s \<Rightarrow> 'a \<Rightarrow> 's result) \<Rightarrow> 's \<Rightarrow> 'a list \<Rightarrow> 's result" where
  "foldM f s [] = Inr s"
| "foldM f s (x # xs) = bind_result (f s x) (\<lambda>s'. foldM f s' xs)"

definition guard_result :: "bool \<Rightarrow> failure \<Rightarrow> unit result" where
  "guard_result b e = (if b then Inr () else Inl e)"

lemma guard_result_eq_Inr [simp]: "guard_result b e = Inr u \<longleftrightarrow> b"
  by (simp add: guard_result_def)

lemma bind_eq_SomeE:
  assumes "Option.bind m f = Some y"
  obtains x where "m = Some x" and "f x = Some y"
  using assms by (cases m) auto

subsection \<open>Lists\<close>

text \<open>\<^verbatim>\<open>std::string_view::substr(pos, n)\<close> for a position inside the string.\<close>

definition substr :: "bytes \<Rightarrow> nat \<Rightarrow> nat \<Rightarrow> bytes" where
  "substr s pos n = take n (drop pos s)"

lemma length_substr [simp]: "length (substr s pos n) = min (length s - pos) n"
  by (simp add: substr_def min.commute)

fun starts_with :: "'a list \<Rightarrow> 'a list \<Rightarrow> bool" where
  "starts_with _ [] = True"
| "starts_with [] (_ # _) = False"
| "starts_with (x # xs) (p # ps) = (x = p \<and> starts_with xs ps)"

lemma starts_with_iff: "starts_with s p \<longleftrightarrow> (\<exists>r. s = p @ r)"
  by (induction s p rule: starts_with.induct) auto

lemma starts_with_take: "starts_with s p \<longleftrightarrow> take (length p) s = p"
  by (induction s p rule: starts_with.induct) auto

lemma starts_with_append [simp]: "starts_with (p @ r) p"
  by (simp add: starts_with_iff)

lemma starts_with_length: "starts_with s p \<Longrightarrow> length p \<le> length s"
  by (auto simp: starts_with_iff)

text \<open>Position of the first element that satisfies a predicate (\<^verbatim>\<open>find\<close>, \<^verbatim>\<open>memchr\<close>).\<close>

fun find_pos :: "('a \<Rightarrow> bool) \<Rightarrow> 'a list \<Rightarrow> nat option" where
  "find_pos P [] = None"
| "find_pos P (x # xs) = (if P x then Some 0 else map_option Suc (find_pos P xs))"

lemma find_pos_None: "find_pos P xs = None \<longleftrightarrow> (\<forall>x\<in>set xs. \<not> P x)"
  by (induction xs) auto

lemma find_pos_Some:
  "find_pos P xs = Some i \<Longrightarrow> i < length xs \<and> P (xs ! i) \<and> (\<forall>j<i. \<not> P (xs ! j))"
proof (induction xs arbitrary: i)
  case (Cons x xs)
  show ?case
  proof (cases "P x")
    case False
    with Cons.prems obtain k where k: "find_pos P xs = Some k" and i: "i = Suc k"
      by (auto split: if_splits)
    from Cons.IH [OF k] False show ?thesis
      by (auto simp: i nth_Cons split: nat.splits)
  qed (use Cons.prems in auto)
qed simp

text \<open>Position of the first occurrence of a substring (\<^verbatim>\<open>std::string_view::find\<close>).\<close>

fun find_sub :: "'a list \<Rightarrow> 'a list \<Rightarrow> nat option" where
  "find_sub s p = (if starts_with s p then Some 0
     else case s of [] \<Rightarrow> None | _ # xs \<Rightarrow> map_option Suc (find_sub xs p))"

declare find_sub.simps [simp del]

lemma find_sub_Nil: "find_sub [] p = (if p = [] then Some 0 else None)"
  by (cases p) (simp_all add: find_sub.simps)

lemma find_sub_Cons:
  "find_sub (x # xs) p = (if starts_with (x # xs) p then Some 0 else map_option Suc (find_sub xs p))"
  by (simp add: find_sub.simps)

lemma find_sub_Some:
  "find_sub s p = Some i \<Longrightarrow>
     starts_with (drop i s) p \<and> i \<le> length s \<and> (\<forall>j<i. \<not> starts_with (drop j s) p)"
proof (induction s arbitrary: i)
  case Nil
  then show ?case by (auto simp: find_sub_Nil split: if_splits)
next
  case (Cons x xs)
  show ?case
  proof (cases "starts_with (x # xs) p")
    case True
    with Cons.prems show ?thesis by (simp add: find_sub_Cons)
  next
    case False
    with Cons.prems obtain k where k: "find_sub xs p = Some k" and i: "i = Suc k"
      by (auto simp: find_sub_Cons)
    from Cons.IH [OF k] False show ?thesis
      by (auto simp: i drop_Cons split: nat.splits)
  qed
qed

lemma find_sub_None:
  "find_sub s p = None \<Longrightarrow> \<not> starts_with (drop j s) p"
proof (induction s arbitrary: j)
  case Nil
  then show ?case by (cases p) (auto simp: find_sub_Nil)
next
  case (Cons x xs)
  then show ?case
    by (cases j) (auto simp: find_sub_Cons split: if_splits)
qed

subsection \<open>Words\<close>

lemma unat_ucast_le:
  "LENGTH('a) \<le> LENGTH('b) \<Longrightarrow> unat (ucast (x :: 'a::len word) :: 'b::len word) = unat x"
  by (simp add: unsigned_ucast_eq take_bit_nat_eq_self_iff order_less_le_trans [OF unsigned_less])

lemma bit_ucast_u8 [simp]:
  "bit (ucast (x :: 'a::len word) :: u8) n \<longleftrightarrow> n < 8 \<and> bit x n"
  by (auto simp: bit_ucast_iff)

lemma u8_bit_less: "bit (b :: u8) n \<Longrightarrow> n < 8"
  using bit_imp_le_length [of b n] by simp

lemma unat_drop_bit: "unat (drop_bit n w) = unat (w :: 'a::len word) div 2 ^ n"
  by (simp add: unsigned_drop_bit_eq drop_bit_eq_div [where ?'a = nat] take_bit_nat_eq_self unsigned_less)

lemma unat_take_bit: "unat (take_bit n w) = unat (w :: 'a::len word) mod 2 ^ n"
  by (simp add: unsigned_take_bit_eq take_bit_eq_mod [where ?'a = nat])

lemma unat_push_bit:
  "unat w * 2 ^ n < 2 ^ LENGTH('a) \<Longrightarrow> unat (push_bit n w) = unat (w :: 'a::len word) * 2 ^ n"
  by (simp add: unsigned_push_bit_eq take_bit_nat_eq_self push_bit_eq_mult [where ?'a = nat])

lemma unat_power2: "k < LENGTH('a) \<Longrightarrow> unat (2 ^ k :: 'a::len word) = 2 ^ k"
  using unat_push_bit [of "1 :: 'a word" k] by (simp add: push_bit_eq_mult)

lemma sint_small:
  assumes "unat (w :: 'a::len word) < 2 ^ (LENGTH('a) - Suc 0)"
  shows "sint w = int (unat w)"
proof -
  have "int (unat w) < int (2 ^ (LENGTH('a) - Suc 0))" using assms by (simp only: of_nat_less_iff)
  then have "uint w < 2 ^ (LENGTH('a) - Suc 0)" by simp
  moreover have "- (2 ^ (LENGTH('a) - Suc 0)) \<le> uint w" by (rule order_trans [OF _ uint_ge_0]) simp
  ultimately have "signed_take_bit (LENGTH('a) - Suc 0) (uint w) = uint w"
    by (intro signed_take_bit_int_eq_self)
  moreover have "sint w = signed_take_bit (LENGTH('a) - Suc 0) (uint w)" by (rule sint_uint)
  ultimately show ?thesis by simp
qed

lemma word_eq_of_unat: "unat (w :: 'a::len word) = n \<Longrightarrow> w = of_nat n"
  by auto

text \<open>Facts about single bytes are checked on all 256 of them.\<close>

lemma u8_all:
  assumes "list_all (\<lambda>n. P (of_nat n :: u8)) [0..<256]"
  shows "P b"
proof -
  have "unat b \<in> set [0..<256]" using unsigned_less [of b, where 'a = nat] by simp
  with assms have "P (of_nat (unat b))" by (metis list_all_iff)
  then show ?thesis by simp
qed

end
