(* ===== verification/Bits.thy ===== *)
theory Bits
  imports Prelude
begin

text \<open>
  The bit utilities of \<^verbatim>\<open>src/common/common.h\<close> (\<^verbatim>\<open>has_single_bit\<close>, \<^verbatim>\<open>bit_ceil\<close>, \<^verbatim>\<open>align_to\<close>,
  \<^verbatim>\<open>align_down\<close>, \<^verbatim>\<open>bit\<close>, \<^verbatim>\<open>bits\<close>, \<^verbatim>\<open>sign_extend\<close>, \<^verbatim>\<open>combine_hash\<close>) on 64-bit words, and the class
  \<^verbatim>\<open>BitVector\<close>. An \<^verbatim>\<open>assert\<close> is off in the release build the project ships, so it is a
  hypothesis of the theorems and not a branch of the definitions.
\<close>

subsection \<open>Counting bits\<close>

definition popcount :: "'a::len word \<Rightarrow> nat" where
  "popcount w = length (filter (bit w) [0..<LENGTH('a)])"

definition countl_zero :: "'a::len word \<Rightarrow> nat" where
  "countl_zero w = length (takeWhile (\<lambda>i. \<not> bit w i) (rev [0..<LENGTH('a)]))"

definition has_single_bit :: "u64 \<Rightarrow> bool" where
  "has_single_bit val \<longleftrightarrow> popcount val = 1"

text \<open>\<^verbatim>\<open>1LL << n\<close> is undefined for \<open>n = 64\<close>, which happens for a value above \<open>2 ^ 63\<close>.\<close>

definition bit_ceil :: "u64 \<Rightarrow> u64 result" where
  "bit_ceil val =
     (if has_single_bit val then Inr val
      else if countl_zero val = 0 then Inl Undefined
      else Inr (push_bit (64 - countl_zero val) 1))"

definition align_to :: "u64 \<Rightarrow> u64 \<Rightarrow> u64" where
  "align_to val align =
     (if align = 0 then val else (val + align - 1) AND NOT (align - 1))"

definition align_down :: "u64 \<Rightarrow> u64 \<Rightarrow> u64" where
  "align_down val align = val AND NOT (align - 1)"

definition bit_at :: "u64 \<Rightarrow> nat \<Rightarrow> u64" where
  "bit_at val pos = drop_bit pos val AND 1"

definition bits :: "u64 \<Rightarrow> nat \<Rightarrow> nat \<Rightarrow> u64" where
  "bits val hi lo = drop_bit lo val AND (push_bit (hi - lo + 1) 1 - 1)"

definition sign_extend :: "u64 \<Rightarrow> nat \<Rightarrow> u64" where
  "sign_extend val sz = signed_drop_bit (63 - sz) (push_bit (63 - sz) val)"

definition combine_hash :: "u64 \<Rightarrow> u64 \<Rightarrow> u64" where
  "combine_hash a b = a XOR (b + 0x9e3779b9 + push_bit 6 a + drop_bit 2 a)"

subsection \<open>Powers of two\<close>

lemma popcount_1_iff: "popcount (w :: 'a::len word) = 1 \<longleftrightarrow> (\<exists>k<LENGTH('a). w = 2 ^ k)"
proof
  assume "popcount w = 1"
  then obtain k where k: "filter (bit w) [0..<LENGTH('a)] = [k]"
    by (auto simp: popcount_def length_Suc_conv)
  have "set (filter (bit w) [0..<LENGTH('a)]) = {i. i < LENGTH('a) \<and> bit w i}"
    by auto
  with k have set: "{i. i < LENGTH('a) \<and> bit w i} = {k}" by simp
  then have kl: "k < LENGTH('a)" by blast
  have "w = 2 ^ k"
  proof (rule bit_word_eqI)
    fix n assume "n < LENGTH('a)"
    with set show "bit w n \<longleftrightarrow> bit (2 ^ k :: 'a word) n"
      using kl by (auto simp: bit_exp_iff)
  qed
  with kl show "\<exists>k<LENGTH('a). w = 2 ^ k" by blast
next
  assume "\<exists>k<LENGTH('a). w = 2 ^ k"
  then obtain k where k: "k < LENGTH('a)" and w: "w = 2 ^ k" by blast
  have "filter (bit w) [0..<LENGTH('a)] = filter (\<lambda>i. i = k) [0..<LENGTH('a)]"
    using k by (intro filter_cong) (auto simp: w bit_exp_iff)
  moreover have "distinct (filter (\<lambda>i. i = k) [0..<LENGTH('a)])" by simp
  then have "length (filter (\<lambda>i. i = k) [0..<LENGTH('a)])
      = card (set (filter (\<lambda>i. i = k) [0..<LENGTH('a)]))"
    by (simp only: distinct_card)
  moreover have "set (filter (\<lambda>i. i = k) [0..<LENGTH('a)]) = {k}" using k by auto
  ultimately show "popcount w = 1" by (simp add: popcount_def)
qed

lemma has_single_bit_iff: "has_single_bit v \<longleftrightarrow> (\<exists>k<64. v = 2 ^ k)"
  using popcount_1_iff [of v] by (simp add: has_single_bit_def)

lemma has_single_bitE:
  assumes "has_single_bit v"
  obtains k where "k < 64" and "v = 2 ^ k" and "unat v = 2 ^ k"
proof -
  from assms obtain k where k: "k < 64" "v = 2 ^ k" by (auto simp: has_single_bit_iff)
  then have "unat v = 2 ^ k" by (simp add: unat_power2)
  with k that show thesis by blast
qed

lemma and_not_mask_unat:
  "unat (x AND NOT (2 ^ k - 1) :: u64) = unat x div 2 ^ k * 2 ^ k"
proof -
  have "x AND NOT (2 ^ k - 1) = push_bit k (drop_bit k x)"
    by (rule bit_word_eqI)
      (auto simp: bit_and_iff bit_not_iff bit_push_bit_iff bit_drop_bit_eq simp flip: mask_eq_exp_minus_1
        simp: bit_mask_iff)
  moreover have "unat x div 2 ^ k * 2 ^ k < 2 ^ 64"
    using order_le_less_trans [OF div_times_less_eq_dividend unsigned_less [of x]] by simp
  ultimately show ?thesis
    by (simp add: unat_push_bit unat_drop_bit)
qed

lemma align_down_unat:
  assumes "has_single_bit a"
  shows "unat (align_down v a) = unat v div unat a * unat a"
  using assms by (elim has_single_bitE) (simp add: align_down_def and_not_mask_unat)

lemma align_to_unat:
  assumes "has_single_bit a" and "unat v + unat a - 1 < 2 ^ 64"
  shows "unat (align_to v a) = (unat v + unat a - 1) div unat a * unat a"
proof -
  from assms(1) obtain k where k: "a = 2 ^ k" "unat a = 2 ^ k" by (elim has_single_bitE)
  then have "a \<noteq> 0" by (metis power_not_zero unsigned_0 zero_neq_numeral)
  moreover have "unat (v + (a - 1)) = unat v + unat a - 1"
  proof -
    have "unat (a - 1) = unat a - 1" using \<open>a \<noteq> 0\<close> by (simp add: unat_minus_one)
    moreover have "1 \<le> unat a" using k by simp
    ultimately show ?thesis using assms(2) by (simp add: unat_word_ariths)
  qed
  ultimately show ?thesis
    using and_not_mask_unat [of "v + (a - 1)" k] k by (simp add: align_to_def add_diff_eq)
qed

text \<open>\<open>align_to\<close> returns the least multiple of the alignment that is not below the value.\<close>

lemma round_up_least:
  fixes v a m :: nat
  assumes "0 < a"
  shows "v \<le> (v + a - 1) div a * a" and "(v + a - 1) div a * a < v + a"
    and "a dvd m \<Longrightarrow> v \<le> m \<Longrightarrow> (v + a - 1) div a * a \<le> m"
proof -
  have split: "(v + a - 1) div a * a + (v + a - 1) mod a = v + a - 1" by simp
  have "(v + a - 1) mod a \<le> a - 1" using assms by (simp add: Suc_leI less_Suc_eq_le [symmetric])
  with split assms show "v \<le> (v + a - 1) div a * a" by linarith
  from split assms show "(v + a - 1) div a * a < v + a" by linarith
  assume "a dvd m" and "v \<le> m"
  then obtain q where m: "m = a * q" by (elim dvdE)
  with \<open>v \<le> m\<close> have "v + a - 1 \<le> a * q + (a - 1)" using assms by linarith
  then have "(v + a - 1) div a \<le> (a * q + (a - 1)) div a" by (rule div_le_mono)
  also have "\<dots> = q" using assms by (simp only: div_mult_self4) simp
  finally show "(v + a - 1) div a * a \<le> m" using m by (simp add: mult.commute)
qed

lemma bits_unat:
  assumes "lo \<le> hi" and "hi < 64" and "hi - lo < 63"
  shows "unat (bits v hi lo) = unat v div 2 ^ lo mod 2 ^ (hi - lo + 1)"
proof -
  have "push_bit (hi - lo + 1) 1 - 1 = (mask (hi - lo + 1) :: u64)"
    by (simp add: mask_eq_exp_minus_1 push_bit_eq_mult)
  then have "bits v hi lo = take_bit (hi - lo + 1) (drop_bit lo v)"
    by (simp add: bits_def take_bit_eq_mask)
  then show ?thesis
    by (simp only: unat_take_bit unat_drop_bit)
qed

lemma sign_extend_sint:
  assumes "sz \<le> 63"
  shows "sint (sign_extend v sz) = signed_take_bit sz (uint v)"
proof -
  have "bit (sint (sign_extend v sz)) n \<longleftrightarrow> bit (signed_take_bit sz (uint v)) n" for n
  proof (cases "n < sz")
    case True
    with assms show ?thesis
      by (auto simp: sign_extend_def bit_sint_iff bit_signed_drop_bit_iff bit_push_bit_iff
          bit_signed_take_bit_iff bit_uint_iff min_def)
  next
    case False
    then have "bit (sint (sign_extend v sz)) n \<longleftrightarrow> bit v sz"
    proof (cases "n = sz")
      case True
      with assms show ?thesis
        by (auto simp: sign_extend_def bit_sint_iff bit_signed_drop_bit_iff bit_push_bit_iff)
    next
      case ne: False
      with False have "sz < n" by simp
      with assms show ?thesis
        by (auto simp: sign_extend_def bit_sint_iff bit_signed_drop_bit_iff bit_push_bit_iff)
    qed
    moreover have "bit (signed_take_bit sz (uint v)) n \<longleftrightarrow> bit v sz"
      using False assms by (simp add: bit_signed_take_bit_iff bit_uint_iff min_def)
    ultimately show ?thesis by simp
  qed
  then show ?thesis by (simp add: bit_eq_iff)
qed

subsection \<open>bit_ceil\<close>

lemma countl_zero_bounds:
  assumes "w \<noteq> (0 :: 'a::len word)"
  shows "countl_zero w < LENGTH('a)" and "2 ^ (LENGTH('a) - 1 - countl_zero w) \<le> unat w"
    and "unat w < 2 ^ (LENGTH('a) - countl_zero w)"
proof -
  let ?L = "LENGTH('a)" and ?xs = "rev [0..<LENGTH('a)]" and ?c = "countl_zero w"
  have nth: "?xs ! i = ?L - 1 - i" if "i < ?L" for i
    using that by (simp add: rev_nth)
  have "\<exists>i<?L. bit w i"
    using assms bit_word_eqI [of w 0] by auto
  then have ne: "takeWhile (\<lambda>i. \<not> bit w i) ?xs \<noteq> ?xs"
    by (auto simp: takeWhile_eq_all_conv)
  have le: "?c \<le> ?L"
    using length_takeWhile_le [of _ ?xs] by (simp add: countl_zero_def)
  have c: "?c < ?L"
  proof (rule ccontr)
    assume "\<not> ?c < ?L"
    with le have "length (takeWhile (\<lambda>i. \<not> bit w i) ?xs) = length ?xs"
      by (simp add: countl_zero_def)
    with ne show False using takeWhile_eq_take [of _ ?xs] by (metis take_all order_refl)
  qed
  then show "?c < ?L" .
  have "bit w (?xs ! ?c)"
    using c nth_length_takeWhile [of "\<lambda>i. \<not> bit w i" ?xs] by (simp add: countl_zero_def)
  then have "bit w (?L - 1 - ?c)" using c nth by simp
  then have "bit (unat w) (?L - 1 - ?c)" by (simp add: bit_unsigned_iff)
  then show "2 ^ (?L - 1 - ?c) \<le> unat w"
    by (metis bit_iff_odd div_less even_zero linorder_not_le)
  have zero: "\<not> bit w j" if "?L - ?c \<le> j" for j
  proof
    assume b: "bit w j"
    then have j: "j < ?L" by (rule bit_imp_le_length)
    with that have "?L - 1 - j < ?c" by simp
    then have "takeWhile (\<lambda>i. \<not> bit w i) ?xs ! (?L - 1 - j) = ?xs ! (?L - 1 - j)"
      and "?L - 1 - j < length (takeWhile (\<lambda>i. \<not> bit w i) ?xs)"
      by (simp_all add: countl_zero_def takeWhile_nth)
    then have "\<not> bit w (?xs ! (?L - 1 - j))"
      by (metis nth_mem set_takeWhileD)
    with b j show False using nth [of "?L - 1 - j"] by simp
  qed
  have "take_bit (?L - ?c) w = w"
    by (rule bit_word_eqI) (use zero in \<open>auto simp: bit_take_bit_iff linorder_not_le [symmetric]\<close>)
  then have "take_bit (?L - ?c) (unat w) = unat w"
    by (metis unsigned_take_bit_eq)
  then show "unat w < 2 ^ (?L - ?c)" by (simp add: take_bit_nat_eq_self_iff)
qed

lemma bit_ceil_least_power:
  assumes "bit_ceil v = Inr r"
  obtains k where "k < 64" and "r = 2 ^ k" and "unat v \<le> 2 ^ k"
    and "\<And>m. unat v \<le> 2 ^ m \<Longrightarrow> k \<le> m"
proof (cases "has_single_bit v")
  case True
  then obtain k where "k < 64" "v = 2 ^ k" "unat v = 2 ^ k" by (elim has_single_bitE)
  with assms True that [of k] show thesis by (auto simp: bit_ceil_def)
next
  case False
  let ?k = "64 - countl_zero v"
  from assms False have c: "countl_zero v \<noteq> 0" and r: "r = 2 ^ ?k"
    by (auto simp: bit_ceil_def push_bit_eq_mult split: if_splits)
  show thesis
  proof (cases "v = 0")
    case True
    have "countl_zero (0 :: u64) = 64" by (simp add: countl_zero_def takeWhile_eq_all_conv [THEN iffD2])
    with that [of 0] True r show ?thesis by simp
  next
    case nz: False
    note b = countl_zero_bounds [OF nz, simplified]
    have "unat v \<noteq> 2 ^ (63 - countl_zero v)"
    proof
      assume "unat v = 2 ^ (63 - countl_zero v)"
      then have "v = of_nat (2 ^ (63 - countl_zero v))" by (rule word_eq_of_unat)
      then have "v = 2 ^ (63 - countl_zero v)" by simp
      with False show False by (auto simp: has_single_bit_iff)
    qed
    with b(2) have lt: "2 ^ (63 - countl_zero v) < unat v" by linarith
    show ?thesis
    proof (rule that [of ?k])
      show "?k < 64" using c by simp
      show "r = 2 ^ ?k" by (rule r)
      show "unat v \<le> 2 ^ ?k" using b(3) by simp
      fix m assume "unat v \<le> 2 ^ m"
      with lt have "(2 :: nat) ^ (63 - countl_zero v) < 2 ^ m" by linarith
      then have "63 - countl_zero v < m" by simp
      with b(1) show "?k \<le> m" by linarith
    qed
  qed
qed

text \<open>
  \<open>align_to\<close> rounds up: for a power of two \<open>a\<close>, if the sum does not leave 64 bits, the result
  is the least multiple of \<open>a\<close> that is at least the value, and it is less than \<open>a\<close> away.
\<close>

theorem align_to_least_multiple:
  assumes "has_single_bit a" and "unat v + unat a - 1 < 2 ^ 64"
  shows "unat a dvd unat (align_to v a) \<and> v \<le> align_to v a \<and>
    unat (align_to v a) < unat v + unat a \<and>
    (unat a dvd m \<and> unat v \<le> m \<longrightarrow> unat (align_to v a) \<le> m)"
proof -
  from assms(1) have "0 < unat a" by (elim has_single_bitE) simp
  note round = round_up_least [where v = "unat v", OF this]
  show ?thesis
    unfolding word_le_nat_alt align_to_unat [OF assms] using round(1,2) round(3) [of m] by auto
qed

theorem align_to_least_multiple_witness:
  "unat (align_to 5000 4096) \<le> 8192 \<and> (5000 :: u64) \<le> align_to 5000 4096"
proof -
  have "has_single_bit 4096" by (simp add: has_single_bit_iff) (rule exI [of _ 12], simp)
  from align_to_least_multiple [OF this, of 5000 8192] show ?thesis by simp
qed

end
