(* ===== verification/BitVector.thy ===== *)
theory BitVector
  imports Bits
begin

text \<open>
  The class \<^verbatim>\<open>BitVector\<close> of \<^verbatim>\<open>src/common/common.h\<close>: a vector of bytes addressed bit by bit.
  The specification is a set of indices below a capacity (locale \<open>index_set\<close>); the class
  implements it. \<^verbatim>\<open>(size + 7) / 8\<close> is computed in 32 bits and can wrap.
\<close>

subsection \<open>The class\<close>

record BitVector =
  vec :: bytes

definition BitVector_resize :: "BitVector \<Rightarrow> u32 \<Rightarrow> BitVector" where
  "BitVector_resize v sz =
     (let n = unat ((sz + 7) div 8)
      in v\<lparr>vec := take n (vec v) @ replicate (n - length (vec v)) 0\<rparr>)"

definition BitVector_new :: "u32 \<Rightarrow> BitVector" where
  "BitVector_new sz = \<lparr>vec = replicate (unat ((sz + 7) div 8)) 0\<rparr>"

definition BitVector_get :: "BitVector \<Rightarrow> u32 \<Rightarrow> bool result" where
  "BitVector_get v idx =
     (if unat (idx div 8) < length (vec v)
      then Inr (vec v ! unat (idx div 8) AND push_bit (unat (idx mod 8)) 1 \<noteq> 0)
      else Inl OutOfBounds)"

definition BitVector_set :: "BitVector \<Rightarrow> u32 \<Rightarrow> BitVector result" where
  "BitVector_set v idx =
     (if unat (idx div 8) < length (vec v)
      then Inr (v\<lparr>vec := (vec v)[unat (idx div 8) :=
             vec v ! unat (idx div 8) OR push_bit (unat (idx mod 8)) 1]\<rparr>)
      else Inl OutOfBounds)"

subsection \<open>What a set of indices promises\<close>

locale index_set =
  fixes capacity :: "'s \<Rightarrow> nat"
    and elems :: "'s \<Rightarrow> nat set"
    and get :: "'s \<Rightarrow> u32 \<Rightarrow> bool result"
    and set_bit :: "'s \<Rightarrow> u32 \<Rightarrow> 's result"
  assumes get_in: "unat i < capacity s \<Longrightarrow> get s i = Inr (unat i \<in> elems s)"
    and get_out: "capacity s \<le> unat i \<Longrightarrow> get s i = Inl OutOfBounds"
    and set_out: "capacity s \<le> unat i \<Longrightarrow> set_bit s i = Inl OutOfBounds"
    and set_in: "unat i < capacity s \<Longrightarrow>
      \<exists>s'. set_bit s i = Inr s' \<and> elems s' = insert (unat i) (elems s) \<and> capacity s' = capacity s"
begin

lemma set_all_elems:
  assumes "\<forall>i\<in>set is. unat i < capacity s"
  shows "\<exists>s'. foldM set_bit s is = Inr s' \<and> elems s' = elems s \<union> unat ` set is
              \<and> capacity s' = capacity s"
  using assms
proof (induction "is" arbitrary: s)
  case (Cons i "is")
  then have "unat i < capacity s" by simp
  then obtain t where t: "set_bit s i = Inr t" "elems t = insert (unat i) (elems s)"
    "capacity t = capacity s" using set_in by blast
  with Cons.IH [of t] Cons.prems show ?case by auto
qed simp

end

subsection \<open>The class implements it\<close>

definition bv_elems :: "BitVector \<Rightarrow> nat set" where
  "bv_elems v = {i. i div 8 < length (vec v) \<and> bit (vec v ! (i div 8)) (i mod 8)}"

lemma unat_div8: "unat (i div 8 :: u32) = unat i div 8"
  and unat_mod8: "unat (i mod 8 :: u32) = unat i mod 8"
  by (simp_all add: unat_div unat_mod)

lemma and_bit_neq_0: "n < 8 \<Longrightarrow> (b :: u8) AND 2 ^ n \<noteq> 0 \<longleftrightarrow> bit b n"
proof -
  assume n: "n < 8"
  have "(b AND 2 ^ n = 0) \<longleftrightarrow> (\<forall>k. \<not> bit (b AND 2 ^ n) k)"
    by (metis bit_0_eq bot_apply bot_bool_def bit_eq_iff)
  also have "\<dots> \<longleftrightarrow> \<not> bit b n"
    using n by (auto simp: bit_and_iff bit_exp_iff)
  finally show ?thesis by simp
qed

lemma BitVector_get_eq:
  "BitVector_get v i = (if unat i < 8 * length (vec v) then Inr (unat i \<in> bv_elems v)
                        else Inl OutOfBounds)"
proof -
  have "unat i div 8 < length (vec v) \<longleftrightarrow> unat i < 8 * length (vec v)"
    by (simp add: div_less_iff_less_mult mult.commute)
  then show ?thesis
    by (simp add: BitVector_get_def bv_elems_def unat_div8 unat_mod8 and_bit_neq_0)
qed

lemma bv_elems_set:
  assumes "unat i div 8 < length (vec v)"
  shows "bv_elems (v\<lparr>vec := (vec v)[unat i div 8 := vec v ! (unat i div 8)
            OR 2 ^ (unat i mod 8)]\<rparr>) = insert (unat i) (bv_elems v)"
proof -
  have eq: "k div 8 = unat i div 8 \<Longrightarrow> (k mod 8 = unat i mod 8) \<longleftrightarrow> (k = unat i)" for k
    by (metis div_mult_mod_eq)
  have *: "bit (b OR 2 ^ (unat i mod 8)) (k mod 8) \<longleftrightarrow> bit b (k mod 8) \<or> k mod 8 = unat i mod 8"
    for b :: u8 and k :: nat
    by (auto simp: bit_or_iff bit_exp_iff)
  show ?thesis
    using assms eq by (auto simp: bv_elems_def nth_list_update * split: if_splits)
qed

interpretation bv: index_set "\<lambda>v. 8 * length (vec v)" bv_elems BitVector_get BitVector_set
proof unfold_locales
  fix i :: u32 and s :: BitVector
  have d: "unat i div 8 < length (vec s) \<longleftrightarrow> unat i < 8 * length (vec s)"
    by (simp add: div_less_iff_less_mult mult.commute)
  show "unat i < 8 * length (vec s) \<Longrightarrow> BitVector_get s i = Inr (unat i \<in> bv_elems s)"
    by (simp add: BitVector_get_eq)
  show "8 * length (vec s) \<le> unat i \<Longrightarrow> BitVector_get s i = Inl OutOfBounds"
    by (simp add: BitVector_get_eq)
  show "8 * length (vec s) \<le> unat i \<Longrightarrow> BitVector_set s i = Inl OutOfBounds"
    using d by (simp add: BitVector_set_def unat_div8)
  show "\<exists>s'. BitVector_set s i = Inr s' \<and> bv_elems s' = insert (unat i) (bv_elems s)
          \<and> 8 * length (vec s') = 8 * length (vec s)" if "unat i < 8 * length (vec s)"
    using that d by (simp add: BitVector_set_def unat_div8 unat_mod8 bv_elems_set)
qed

lemma bv_elems_new [simp]: "bv_elems (BitVector_new n) = {}"
  by (auto simp: bv_elems_def BitVector_new_def)

lemma capacity_new:
  assumes "unat n + 7 < 2 ^ 32"
  shows "unat n \<le> 8 * length (vec (BitVector_new n))"
proof -
  have "unat (n + 7) = unat n + 7" using assms by (simp add: unat_word_ariths)
  then have "unat ((n + 7) div 8) = (unat n + 7) div 8" by (simp add: unat_div8)
  then show ?thesis by (simp add: BitVector_new_def)
qed

text \<open>
  a bit vector made for \<open>n\<close> bits, after any sequence of \<open>set\<close> calls with indices below
  \<open>n\<close>, answers \<open>get\<close> for every index below \<open>n\<close> with whether that index was set; no access
  is out of bounds.
\<close>

theorem bitvector_set_get:
  assumes "unat n + 7 < 2 ^ 32" and "\<forall>i\<in>set is. i < n" and "j < n"
  shows "\<exists>v. foldM BitVector_set (BitVector_new n) is = Inr v \<and> BitVector_get v j = Inr (j \<in> set is)"
proof -
  have cap: "unat i < 8 * length (vec (BitVector_new n))" if "i < n" for i
    using capacity_new [OF assms(1)] that by (simp add: word_less_nat_alt)
  with assms(2) bv.set_all_elems [of "is" "BitVector_new n"]
  obtain v where v: "foldM BitVector_set (BitVector_new n) is = Inr v"
    "bv_elems v = unat ` set is" "length (vec v) = length (vec (BitVector_new n))" by auto
  with cap [OF assms(3)] show ?thesis
    by (auto simp: bv.get_in image_iff simp flip: word_unat_eq_iff)
qed

theorem bitvector_set_get_witness:
  "\<exists>v. foldM BitVector_set (BitVector_new 20) [3, 17] = Inr v \<and> BitVector_get v 17 = Inr True"
  using bitvector_set_get [of 20 "[3, 17]" 17] by simp

end
