(* ===== verification/Leb.thy ===== *)
theory Leb
  imports Bits
begin

text \<open>
  LEB128 in \<^verbatim>\<open>src/common/common.h\<close>: the encoders \<^verbatim>\<open>encode_uleb\<close>, \<^verbatim>\<open>encode_sleb\<close> and
  \<^verbatim>\<open>write_uleb\<close>, the three readers named \<^verbatim>\<open>read_uleb\<close> (unchecked, bounded by an end pointer,
  on a \<^verbatim>\<open>string_view\<close>) and \<^verbatim>\<open>uleb_size\<close>. The reference is the value of a digit list in
  base 128. The unchecked reader shifts a 32-bit \<^verbatim>\<open>int\<close>, which is modelled as such.
\<close>

subsection \<open>Encoders\<close>

lemma drop_bit_7_less: "(v :: u64) \<noteq> 0 \<Longrightarrow> unat (drop_bit 7 v) < unat v"
  by (simp add: unat_drop_bit unat_gt_0)

function encode_uleb :: "bytes \<Rightarrow> u64 \<Rightarrow> bytes" where
  "encode_uleb vec val =
     (let byte = ucast (val AND 0x7f) :: u8; val' = drop_bit 7 val;
          vec' = vec @ [if val' \<noteq> 0 then byte OR 0x80 else byte]
      in if val' \<noteq> 0 then encode_uleb vec' val' else vec')"
  by pat_completeness auto
termination
  by (relation "measure (\<lambda>(vec, val). unat val)") (auto intro: drop_bit_7_less)

declare encode_uleb.simps [simp del]

text \<open>
  \<^verbatim>\<open>write_uleb(buf, val)\<close> stores at \<^verbatim>\<open>buf[i++]\<close>; the buffer is the memory from \<^verbatim>\<open>buf\<close> on.
  It returns the number of bytes and the memory.
\<close>

function write_uleb_loop :: "bytes \<Rightarrow> nat \<Rightarrow> u64 \<Rightarrow> (nat \<times> bytes) result" where
  "write_uleb_loop buf i val =
     (let byte = ucast (val AND 0x7f) :: u8; val' = drop_bit 7 val
      in if length buf \<le> i then Inl OutOfBounds
         else let buf' = buf[i := if val' \<noteq> 0 then byte OR 0x80 else byte]
              in if val' \<noteq> 0 then write_uleb_loop buf' (Suc i) val' else Inr (Suc i, buf'))"
  by pat_completeness auto
termination
  by (relation "measure (\<lambda>(buf, i, val). unat val)") (auto intro: drop_bit_7_less)

declare write_uleb_loop.simps [simp del]

definition write_uleb :: "bytes \<Rightarrow> u64 \<Rightarrow> (nat \<times> bytes) result" where
  "write_uleb buf val = write_uleb_loop buf 0 val"

text \<open>\<^verbatim>\<open>encode_sleb\<close>; \<^verbatim>\<open>val >>= 7\<close> on a signed value is an arithmetic shift.\<close>

lemma signed_drop_7:
  "sint (signed_drop_bit 7 (v :: u64)) = sint v div 128"
  by (simp add: sint_signed_drop_bit_eq drop_bit_eq_div)

function encode_sleb :: "bytes \<Rightarrow> u64 \<Rightarrow> bytes" where
  "encode_sleb vec val =
     (let byte = ucast (val AND 0x7f) :: u8; val' = signed_drop_bit 7 val;
          neg = (byte AND 0x40 \<noteq> 0)
      in if (val' = 0 \<and> \<not> neg) \<or> (val' = -1 \<and> neg) then vec @ [byte]
         else encode_sleb (vec @ [byte OR 0x80]) val')"
  by pat_completeness auto
termination
proof (relation "measure (\<lambda>(vec, val). nat (if 0 \<le> sint val then sint val else - sint val - 1))",
    goal_cases)
  case 1
  then show ?case by simp
next
  case (2 vec val byte val' neg)
  have "val \<noteq> 0" using 2 by auto
  moreover have "val \<noteq> - 1" using 2 by auto
  ultimately have "sint val \<noteq> 0" and "sint val \<noteq> - 1"
    by (metis signed_0 signed_word_eqI, metis signed_minus_1 signed_word_eqI)
  moreover have "sint val' = sint val div 128" using 2 by (simp add: signed_drop_7)
  ultimately show ?case by (cases "0 \<le> sint val") auto
qed

declare encode_sleb.simps [simp del]

subsection \<open>Readers\<close>

text \<open>
  The unchecked reader: \<^verbatim>\<open>(byte & 0x7f) << shift\<close> has type \<^verbatim>\<open>int\<close>, so the shift happens in
  32 bits, is undefined from 32 on, and its result is sign-extended to 64 bits.
\<close>

fun read_uleb_loop :: "u64 \<Rightarrow> nat \<Rightarrow> bytes \<Rightarrow> (u64 \<times> bytes) result" where
  "read_uleb_loop val shift [] = Inl OutOfBounds"
| "read_uleb_loop val shift (byte # buf) =
     (if 32 \<le> shift then Inl Undefined
      else let val' = val OR scast (push_bit shift (ucast (byte AND 0x7f) :: 32 word))
           in if byte AND 0x80 \<noteq> 0 then read_uleb_loop val' (shift + 7) buf else Inr (val', buf))"

definition read_uleb :: "bytes \<Rightarrow> (u64 \<times> bytes) result" where
  "read_uleb buf = read_uleb_loop 0 0 buf"

text \<open>
  The reader with an end pointer: the buffer is what lies before \<^verbatim>\<open>end\<close>. It returns whether it
  succeeded, the value left in \<^verbatim>\<open>val\<close> and the advanced pointer.
\<close>

fun read_uleb_end_loop :: "nat \<Rightarrow> u64 \<Rightarrow> bytes \<Rightarrow> bool \<times> u64 \<times> bytes" where
  "read_uleb_end_loop i val [] = (False, val, [])"
| "read_uleb_end_loop i val (byte # buf) =
     (if 10 \<le> i then (False, val, byte # buf)
      else if i = 9 \<and> byte AND 0xfe \<noteq> 0 then (False, val, buf)
      else let val' = val OR push_bit (i * 7) (ucast (byte AND 0x7f))
           in if byte AND 0x80 = 0 then (True, val', buf)
              else read_uleb_end_loop (Suc i) val' buf)"

definition read_uleb_end :: "bytes \<Rightarrow> bool \<times> u64 \<times> bytes" where
  "read_uleb_end buf = read_uleb_end_loop 0 0 buf"

text \<open>On a \<^verbatim>\<open>string_view\<close> the view only advances on success.\<close>

definition read_uleb_view :: "bytes \<Rightarrow> bool \<times> u64 \<times> bytes" where
  "read_uleb_view s =
     (case read_uleb_end s of (True, val, rest) \<Rightarrow> (True, val, rest)
      | (False, val, _) \<Rightarrow> (False, val, s))"

definition read_uleb_view_unchecked :: "bytes \<Rightarrow> (u64 \<times> bytes) result" where
  "read_uleb_view_unchecked s = read_uleb s"

definition uleb_size :: "u64 \<Rightarrow> nat" where
  "uleb_size val =
     (case find (\<lambda>i. val < push_bit (7 * i) 1) [1..<9] of Some i \<Rightarrow> i | None \<Rightarrow> 9)"

subsection \<open>The reference: digits in base 128\<close>

fun uleb_val :: "bytes \<Rightarrow> nat" where
  "uleb_val [] = 0"
| "uleb_val (b # bs) = unat b mod 128 + 128 * uleb_val bs"

abbreviation uleb :: "u64 \<Rightarrow> bytes" where
  "uleb v \<equiv> encode_uleb [] v"

lemma byte_low: "unat (b AND 0x7f :: u8) = unat b mod 128"
proof -
  have "b AND 0x7f = take_bit 7 b" by (simp add: take_bit_eq_mask mask_eq_exp_minus_1)
  then show ?thesis by (simp add: unat_take_bit)
qed

lemma byte_high: "b AND 0x80 = 0 \<longleftrightarrow> unat (b :: u8) < 128"
  by (rule u8_all) code_simp

lemma byte_fe: "b AND 0xfe = 0 \<longleftrightarrow> unat (b :: u8) < 2"
  by (rule u8_all) code_simp

lemma byte_or_80: "unat (b :: u8) < 128 \<Longrightarrow> unat (b OR 0x80) = unat b + 128"
proof -
  have "unat b < 128 \<longrightarrow> unat (b OR 0x80) = unat b + 128"
    by (rule u8_all) code_simp
  then show "unat (b :: u8) < 128 \<Longrightarrow> unat (b OR 0x80) = unat b + 128" by simp
qed

lemma or_push_bit_unat:
  assumes "unat (a :: 'a::len word) < 2 ^ n" and "unat b * 2 ^ n < 2 ^ LENGTH('a)"
    and "unat a + unat b * 2 ^ n < 2 ^ LENGTH('a)"
  shows "unat (a OR push_bit n b) = unat a + unat b * 2 ^ n"
proof -
  have "take_bit n a = a"
    using assms(1) by (intro word_unat_eq_iff [THEN iffD2]) (simp add: unat_take_bit)
  then have "\<not> bit a k" if "n \<le> k" for k
    using that by (metis bit_take_bit_iff linorder_not_le)
  then have "a AND push_bit n b = 0"
    by (intro bit_word_eqI) (auto simp: bit_and_iff bit_push_bit_iff)
  then have "a OR push_bit n b = a + push_bit n b"
    by (simp add: disjunctive_add_eq_or)
  then show ?thesis
    using assms by (simp add: unat_word_ariths unat_push_bit)
qed

subsection \<open>The encoder against the reference\<close>

lemma encode_uleb_append: "encode_uleb vec v = vec @ uleb v"
proof (induction v arbitrary: vec rule: measure_induct_rule [of unat])
  case (less v)
  show ?case
  proof (cases "drop_bit 7 v = 0")
    case True
    then show ?thesis by (simp add: encode_uleb.simps [of _ v] Let_def)
  next
    case False
    then have "v \<noteq> 0" by auto
    then have "unat (drop_bit 7 v) < unat v" by (rule drop_bit_7_less)
    from less.IH [OF this, of "vec @ _"] less.IH [OF this, of "[_]"] False
    show ?thesis by (simp add: encode_uleb.simps [of _ v] Let_def)
  qed
qed

lemma low7: "unat (ucast ((v :: u64) AND 0x7f) :: u8) = unat v mod 128"
proof -
  have "v AND 0x7f = take_bit 7 v" by (simp add: take_bit_eq_mask mask_eq_exp_minus_1)
  then have "unat (v AND 0x7f) = unat v mod 128" by (simp add: unat_take_bit)
  then show ?thesis by (simp add: unsigned_ucast_eq take_bit_eq_mod)
qed

lemma drop7_eq_0: "drop_bit 7 (v :: u64) = 0 \<longleftrightarrow> unat v < 128"
  by (simp add: unat_eq_0 [symmetric] unat_drop_bit div_eq_0_iff del: unat_eq_0)

lemma uleb_small: "unat v < 128 \<Longrightarrow> uleb v = [ucast (v AND 0x7f)]"
  by (simp add: encode_uleb.simps Let_def drop7_eq_0)

lemma uleb_large:
  "128 \<le> unat v \<Longrightarrow> uleb v = (ucast (v AND 0x7f) OR 0x80) # uleb (drop_bit 7 v)"
  by (subst encode_uleb.simps)
    (simp add: Let_def drop7_eq_0 encode_uleb_append [of "[_]"] not_less [symmetric])

lemma uleb_induct [case_names small large]:
  assumes "\<And>v. unat v < 128 \<Longrightarrow> P v"
    and "\<And>v. 128 \<le> unat v \<Longrightarrow> P (drop_bit 7 v) \<Longrightarrow> P v"
  shows "P (v :: u64)"
proof (induction v rule: measure_induct_rule [of unat])
  case (less v)
  show ?case
  proof (cases "unat v < 128")
    case False
    then have "v \<noteq> 0" by auto
    with False assms(2) less.IH [OF drop_bit_7_less] show ?thesis by simp
  qed (rule assms(1))
qed

lemma uleb_val_uleb: "uleb_val (uleb v) = unat v"
proof (induction v rule: uleb_induct)
  case (small v)
  then show ?case by (simp add: uleb_small low7)
next
  case (large v)
  then show ?case
    by (simp add: uleb_large byte_or_80 low7 unat_drop_bit)
qed

lemma uleb_not_Nil [simp]: "uleb v \<noteq> []"
  by (cases "unat v < 128") (simp_all add: uleb_small uleb_large)

lemma length_uleb: "0 < n \<Longrightarrow> length (uleb v) \<le> n \<longleftrightarrow> unat v < 2 ^ (7 * n)"
proof (induction v arbitrary: n rule: uleb_induct)
  case (small v)
  have "(2 :: nat) ^ 7 \<le> 2 ^ (7 * n)" using small.prems by (intro power_increasing) auto
  with small show ?case by (simp add: uleb_small)
next
  case (large v)
  show ?case
  proof (cases "n = 1")
    case True
    have "\<not> length (uleb v) \<le> 1" using uleb_large [OF large.hyps] uleb_not_Nil by simp
    with True large.hyps show ?thesis by simp
  next
    case False
    with large.prems obtain m where m: "n = Suc m" "0 < m" by (cases n) auto
    have "unat v div 128 < 2 ^ (7 * m) \<longleftrightarrow> unat v < 2 ^ (7 * n)"
      by (simp add: m power_add div_less_iff_less_mult mult.commute)
    moreover have "length (uleb v) = Suc (length (uleb (drop_bit 7 v)))"
      using uleb_large [OF large.hyps] by simp
    ultimately show ?thesis
      using large.IH [OF m(2)] by (simp add: m(1) unat_drop_bit)
  qed
qed

lemma uleb_size_eq:
  "length (uleb v) = (if unat v < 2 ^ 63 then uleb_size v else Suc (uleb_size v))"
proof -
  have lt: "v < push_bit (7 * i) 1 \<longleftrightarrow> length (uleb v) \<le> i" if "i \<in> {1..8}" for i
  proof -
    have "unat (push_bit (7 * i) 1 :: u64) = 2 ^ (7 * i)" using that by (simp add: unat_power2)
    then show ?thesis using length_uleb [of i v] that by (simp add: word_less_nat_alt)
  qed
  have "find (\<lambda>i. v < push_bit (7 * i) 1) [1..<9] = find (\<lambda>i. length (uleb v) \<le> i) [1..<9]"
    by (intro find_cong refl) (use lt in auto)
  then have size: "uleb_size v = (case find (\<lambda>i. length (uleb v) \<le> i) [1, 2, 3, 4, 5, 6, 7, 8]
      of Some i \<Rightarrow> i | None \<Rightarrow> 9)"
    by (simp add: uleb_size_def upt_rec del: push_bit_of_1)
  have pos: "1 \<le> length (uleb v)" by (simp add: Suc_le_eq)
  have ten: "length (uleb v) \<le> 10"
    using length_uleb [of 10 v] unsigned_less [of v, where 'a = nat] by simp
  have nine: "length (uleb v) \<le> 9 \<longleftrightarrow> unat v < 2 ^ 63" using length_uleb [of 9 v] by simp
  have "uleb_size v = min (length (uleb v)) 9"
    unfolding size using pos by (simp add: min_def)
  with nine ten show ?thesis by auto
qed

subsection \<open>The bounded reader\<close>

lemma power_split: "n \<le> m \<Longrightarrow> (2 :: nat) ^ (m - n) * 2 ^ n = 2 ^ m"
  by (simp flip: power_add)

lemma read_step:
  assumes "unat acc < 2 ^ (7 * i)" and "i \<le> 9" and "i = 9 \<Longrightarrow> unat (b :: u8) < 2"
  shows "unat (acc OR push_bit (i * 7) (ucast (b AND 0x7f)) :: u64)
          = unat acc + unat b mod 128 * 2 ^ (7 * i)"
    and "i \<le> 8 \<Longrightarrow> unat acc + unat b mod 128 * 2 ^ (7 * i) < 2 ^ (7 * Suc i)"
proof -
  let ?d = "unat b mod 128"
  have d: "unat (ucast (b AND 0x7f) :: u64) = ?d" by (simp add: unat_ucast_le byte_low)
  show small: "unat acc + ?d * 2 ^ (7 * i) < 2 ^ (7 * Suc i)" if "i \<le> 8"
  proof -
    have "?d * 2 ^ (7 * i) \<le> 127 * 2 ^ (7 * i)" by (intro mult_right_mono) auto
    with assms(1) have "unat acc + ?d * 2 ^ (7 * i) < 2 ^ (7 * i) + 127 * 2 ^ (7 * i)"
      by (rule add_less_le_mono)
    then show ?thesis by (simp add: power_add)
  qed
  have "unat acc + ?d * 2 ^ (7 * i) < 2 ^ 64"
  proof (cases "i = 9")
    case True
    have "?d \<le> 1" using assms(3) [OF True] by simp
    then have "?d * 2 ^ (7 * i) \<le> 1 * 2 ^ (7 * i)" by (intro mult_right_mono) auto
    with assms(1) have "unat acc + ?d * 2 ^ (7 * i) < 2 ^ (7 * i) + 1 * 2 ^ (7 * i)"
      by (rule add_less_le_mono)
    with True show ?thesis by simp
  next
    case False
    with assms(2) have "i \<le> 8" by simp
    moreover from this have "(2 :: nat) ^ (7 * Suc i) \<le> 2 ^ 64" by (intro power_increasing) auto
    ultimately show ?thesis using small by linarith
  qed
  then show "unat (acc OR push_bit (i * 7) (ucast (b AND 0x7f)) :: u64) = unat acc + ?d * 2 ^ (7 * i)"
    using or_push_bit_unat [of acc "7 * i" "ucast (b AND 0x7f)"] assms(1) d
    by (simp add: mult.commute)
qed

lemma read_uleb_end_loop_sound:
  assumes "read_uleb_end_loop i acc bs = (True, v, r)" and "unat acc < 2 ^ (7 * i)"
  shows "\<exists>p. bs = p @ r \<and> p \<noteq> [] \<and> i + length p \<le> 10 \<and>
             unat v = unat acc + uleb_val p * 2 ^ (7 * i)"
  using assms
proof (induction i acc bs rule: read_uleb_end_loop.induct)
  case (2 i acc b bs)
  let ?acc = "acc OR push_bit (i * 7) (ucast (b AND 0x7f))"
  from "2.prems"(1) have i: "i \<le> 9" and nine: "i = 9 \<Longrightarrow> unat b < 2"
    by (auto simp: byte_fe split: if_splits)
  note st = read_step [OF "2.prems"(2) i nine]
  show ?case
  proof (cases "b AND 0x80 = 0")
    case True
    with "2.prems"(1) i nine have "v = ?acc" and "r = bs"
      by (auto simp: Let_def byte_fe split: if_splits)
    with st(1) i show ?thesis by (intro exI [of _ "[b]"]) simp
  next
    case False
    with nine have i8: "i \<le> 8" using i by (cases "i = 9") (auto simp: byte_high)
    have "read_uleb_end_loop (Suc i) ?acc bs = (True, v, r)"
      using "2.prems"(1) False i8 by (simp add: Let_def)
    moreover have "unat ?acc < 2 ^ (7 * Suc i)" using st i8 by simp
    ultimately obtain p where p: "bs = p @ r" "p \<noteq> []" "Suc i + length p \<le> 10"
      "unat v = unat ?acc + uleb_val p * 2 ^ (7 * Suc i)"
      using "2.IH" i8 False by (auto simp: Let_def byte_fe)
    have "unat v = unat acc + uleb_val (b # p) * 2 ^ (7 * i)"
      by (simp add: p(4) st(1) power_add algebra_simps)
    with p show ?thesis by (intro exI [of _ "b # p"]) simp
  qed
qed simp

lemma read_uleb_end_loop_uleb:
  assumes "unat acc < 2 ^ (7 * i)" and "i \<le> 9" and "unat v * 2 ^ (7 * i) < 2 ^ 64"
  shows "\<exists>w. read_uleb_end_loop i acc (uleb v @ r) = (True, w, r) \<and>
             unat w = unat acc + unat v * 2 ^ (7 * i)"
  using assms
proof (induction v arbitrary: i acc rule: uleb_induct)
  case (small v)
  let ?b = "ucast (v AND 0x7f) :: u8"
  have b: "unat ?b = unat v" using small.hyps by (simp add: low7)
  have nine: "i = 9 \<Longrightarrow> unat ?b < 2" using small.prems(3) b by simp
  have "?b AND 0x80 = 0" using small.hyps b by (simp add: byte_high)
  with nine read_step(1) [OF small.prems(1,2) nine] small.prems(2) small.hyps b show ?case
    by (simp add: uleb_small [OF small.hyps] Let_def byte_fe)
next
  case (large v)
  let ?b = "ucast (v AND 0x7f) OR 0x80 :: u8"
  have b: "unat ?b = unat v mod 128 + 128" by (simp add: byte_or_80 low7)
  then have hi: "?b AND 0x80 \<noteq> 0" by (simp add: byte_high)
  have i8: "i \<le> 8"
  proof (rule ccontr)
    assume "\<not> i \<le> 8"
    with large.prems(2) have "i = 9" by simp
    with large.prems(3) large.hyps show False by simp
  qed
  let ?acc = "acc OR push_bit (i * 7) (ucast (?b AND 0x7f))"
  have st: "unat ?acc = unat acc + unat v mod 128 * 2 ^ (7 * i)" "unat ?acc < 2 ^ (7 * Suc i)"
    using read_step [of acc i ?b] large.prems(1) i8 b by auto
  have "unat v * 2 ^ (7 * i) = (unat v mod 128 + 128 * (unat v div 128)) * 2 ^ (7 * i)"
    by (simp only: mod_mult_div_eq)
  also have "\<dots> = unat v mod 128 * 2 ^ (7 * i) + unat v div 128 * 2 ^ (7 * Suc i)"
    by (simp only: distrib_right) (simp add: power_add)
  finally have split: "unat v * 2 ^ (7 * i)
      = unat v mod 128 * 2 ^ (7 * i) + unat v div 128 * 2 ^ (7 * Suc i)" .
  have "unat v div 128 * 2 ^ (7 * Suc i) = unat v div 128 * 128 * 2 ^ (7 * i)"
    by (simp add: power_add)
  also have "\<dots> \<le> unat v * 2 ^ (7 * i)" by (intro mult_right_mono) auto
  finally have "unat (drop_bit 7 v) * 2 ^ (7 * Suc i) < 2 ^ 64"
    using large.prems(3) by (simp add: unat_drop_bit)
  with large.IH [OF st(2)] i8 obtain w where
    w: "read_uleb_end_loop (Suc i) ?acc (uleb (drop_bit 7 v) @ r) = (True, w, r)"
      "unat w = unat ?acc + unat (drop_bit 7 v) * 2 ^ (7 * Suc i)" by auto
  have "unat w = unat acc + unat v * 2 ^ (7 * i)"
    using w(2) st(1) split by (simp add: unat_drop_bit)
  with w(1) hi i8 show ?case
    by (simp add: uleb_large [OF large.hyps] Let_def)
qed

lemma read_uleb_end_uleb: "read_uleb_end (uleb v @ r) = (True, v, r)"
proof -
  have "unat v < 2 ^ 64" using unsigned_less [of v, where 'a = nat] by simp
  then obtain w where "read_uleb_end (uleb v @ r) = (True, w, r)" "unat w = unat v"
    using read_uleb_end_loop_uleb [of 0 0 v r] by (auto simp: read_uleb_end_def)
  then show ?thesis by (simp add: word_unat_eq_iff)
qed

lemma read_uleb_end_sound:
  assumes "read_uleb_end bs = (True, v, r)"
  shows "\<exists>p. bs = p @ r \<and> length p \<le> 10 \<and> unat v = uleb_val p"
  using read_uleb_end_loop_sound [of 0 0 bs v r] assms by (auto simp: read_uleb_end_def)

subsection \<open>write_uleb\<close>

lemma write_uleb_loop_eq:
  "write_uleb_loop buf i v =
     (if i + length (uleb v) \<le> length buf
      then Inr (i + length (uleb v), take i buf @ uleb v @ drop (i + length (uleb v)) buf)
      else Inl OutOfBounds)"
proof (induction v arbitrary: buf i rule: uleb_induct)
  case (small v)
  then show ?case
    by (subst write_uleb_loop.simps)
      (auto simp: Let_def drop7_eq_0 uleb_small upd_conv_take_nth_drop)
next
  case (large v)
  let ?b = "ucast (v AND 0x7f) OR 0x80 :: u8"
  have "drop_bit 7 v \<noteq> 0" using large.hyps by (simp add: drop7_eq_0)
  then have "write_uleb_loop buf i v = (if length buf \<le> i then Inl OutOfBounds
      else write_uleb_loop (buf[i := ?b]) (Suc i) (drop_bit 7 v))"
    by (subst write_uleb_loop.simps) (simp add: Let_def)
  with large.IH [of "buf[i := ?b]" "Suc i"] show ?case
    by (auto simp: uleb_large [OF large.hyps] take_Suc_conv_app_nth)
qed

subsection \<open>Signed LEB128\<close>

text \<open>The reference reader (dyld's): a digit with bit 7 continues, bit 6 of the last is the sign.\<close>

fun read_sleb :: "bytes \<Rightarrow> (int \<times> bytes) option" where
  "read_sleb [] = None"
| "read_sleb (b # bs) =
     (if 128 \<le> unat b
      then map_option (\<lambda>(v, r). (int (unat b mod 128) + 128 * v, r)) (read_sleb bs)
      else Some (if 64 \<le> unat b then int (unat b) - 128 else int (unat b), bs))"

lemma byte_40: "unat (b :: u8) < 128 \<Longrightarrow> b AND 0x40 \<noteq> 0 \<longleftrightarrow> 64 \<le> unat b"
proof -
  have "unat b < 128 \<longrightarrow> (b AND 0x40 \<noteq> 0 \<longleftrightarrow> 64 \<le> unat b)" by (rule u8_all) code_simp
  then show "unat b < 128 \<Longrightarrow> b AND 0x40 \<noteq> 0 \<longleftrightarrow> 64 \<le> unat b" by simp
qed

lemma sint_mod_128: "sint (v :: u64) mod 128 = int (unat v mod 128)"
proof -
  have "sint v mod 128 = take_bit 7 (signed_take_bit 63 (uint v))"
    by (simp add: take_bit_eq_mod sint_uint)
  also have "\<dots> = take_bit 7 (uint v)" by (simp add: take_bit_signed_take_bit)
  finally show ?thesis by (simp add: take_bit_eq_mod zmod_int)
qed

definition sleb_stop :: "u64 \<Rightarrow> bool" where
  "sleb_stop v \<longleftrightarrow> (signed_drop_bit 7 v = 0 \<and> unat v mod 128 < 64) \<or>
                  (signed_drop_bit 7 v = -1 \<and> 64 \<le> unat v mod 128)"

lemma encode_sleb_rec:
  "encode_sleb vec v =
     (if sleb_stop v then vec @ [ucast (v AND 0x7f)]
      else encode_sleb (vec @ [ucast (v AND 0x7f) OR 0x80]) (signed_drop_bit 7 v))"
proof -
  have "ucast (v AND 0x7f) AND (0x40 :: u8) \<noteq> 0 \<longleftrightarrow> 64 \<le> unat v mod 128"
    using byte_40 [of "ucast (v AND 0x7f)"] by (simp add: low7)
  then show ?thesis by (subst encode_sleb.simps) (auto simp: Let_def sleb_stop_def not_le)
qed

lemma encode_sleb_append: "encode_sleb w v = w @ encode_sleb [] v"
proof -
  fix vec :: bytes
  have "\<forall>w. encode_sleb w v = w @ encode_sleb [] v"
  proof (induction vec v rule: encode_sleb.induct)
    case (1 vec v)
    show ?case
    proof (cases "sleb_stop v")
      case True
      then show ?thesis by (simp add: encode_sleb_rec [of _ v])
    next
      case False
      have "\<not> ((signed_drop_bit 7 v = 0 \<and> \<not> ucast (v AND 0x7f) AND (0x40 :: u8) \<noteq> 0) \<or>
          (signed_drop_bit 7 v = -1 \<and> ucast (v AND 0x7f) AND (0x40 :: u8) \<noteq> 0))"
        using False byte_40 [of "ucast (v AND 0x7f)"] by (auto simp: low7 sleb_stop_def not_le)
      then have IH: "encode_sleb w (signed_drop_bit 7 v)
          = w @ encode_sleb [] (signed_drop_bit 7 v)" for w
        using "1.IH" [OF refl refl refl] by blast
      show ?thesis
        using IH [of "_ @ _"] IH [of "[_]"] False by (simp add: encode_sleb_rec [of _ v])
    qed
  qed
  then show ?thesis by blast
qed

lemma sleb_induct [case_names stop step]:
  assumes "\<And>v. sleb_stop v \<Longrightarrow> P v"
    and "\<And>v. \<not> sleb_stop v \<Longrightarrow> P (signed_drop_bit 7 v) \<Longrightarrow> P v"
  shows "P (v :: u64)"
proof -
  fix vec :: bytes
  show "P v"
  proof (induction vec v rule: encode_sleb.induct)
    case (1 vec v)
    show ?case
    proof (cases "sleb_stop v")
      case False
      have "\<not> ((signed_drop_bit 7 v = 0 \<and> \<not> ucast (v AND 0x7f) AND (0x40 :: u8) \<noteq> 0) \<or>
          (signed_drop_bit 7 v = -1 \<and> ucast (v AND 0x7f) AND (0x40 :: u8) \<noteq> 0))"
        using False byte_40 [of "ucast (v AND 0x7f)"] by (auto simp: low7 sleb_stop_def not_le)
      with "1.IH" [OF refl refl refl] assms(2) [OF False] show ?thesis by blast
    qed (rule assms(1))
  qed
qed

lemma read_sleb_encode_sleb: "read_sleb (encode_sleb [] v @ r) = Some (sint v, r)"
proof (induction v rule: sleb_induct)
  case (stop v)
  have m: "sint v = 128 * (sint v div 128) + int (unat v mod 128)"
    using sint_mod_128 [of v] by (metis mult_div_mod_eq)
  from stop consider "sint v div 128 = 0" "unat v mod 128 < 64"
    | "sint v div 128 = -1" "64 \<le> unat v mod 128"
    by (auto simp: sleb_stop_def simp flip: signed_drop_7)
  moreover have "\<not> 128 \<le> unat v mod 128" by (simp add: not_le)
  ultimately show ?case
    using stop m by cases (simp_all add: encode_sleb_rec low7)
next
  case (step v)
  have "read_sleb (encode_sleb [] v @ r)
      = Some (int (unat v mod 128) + 128 * sint (signed_drop_bit 7 v), r)"
    using step
    by (simp add: encode_sleb_rec [of "[]" v] encode_sleb_append [of "[_]"] byte_or_80 low7)
  also have "int (unat v mod 128) + 128 * sint (signed_drop_bit 7 v) = sint v"
    unfolding signed_drop_7 sint_mod_128 [symmetric] by simp
  finally show ?case .
qed

subsection \<open>The unchecked reader\<close>

lemma unat_scast_small:
  assumes "unat (x :: 32 word) < 2 ^ 31"
  shows "unat (scast x :: u64) = unat x"
proof -
  have "int (unat x) < int (2 ^ 31)" using assms by (simp only: of_nat_less_iff)
  then have "uint x < 2 ^ 31" by simp
  moreover have "- (2 ^ 31) \<le> uint x" by (rule order_trans [OF _ uint_ge_0]) simp
  ultimately have "signed_take_bit 31 (uint x) = uint x" by (rule signed_take_bit_int_eq_self [rotated])
  moreover have "sint x = signed_take_bit (LENGTH(32) - Suc 0) (uint x)" by (rule sint_uint)
  moreover have "LENGTH(32) - Suc 0 = 31" by simp
  ultimately have "sint x = uint x" by (simp only:)
  then have "scast x = (ucast x :: u64)" by (simp add: scast_eq)
  then show ?thesis by (simp add: unat_ucast_le)
qed

lemma read_unchecked_step:
  assumes "unat acc < 2 ^ (7 * i)" and "i \<le> 4" and "unat b mod 128 * 2 ^ (7 * i) < 2 ^ 31"
  shows "unat (acc OR scast (push_bit (7 * i) (ucast (b AND 0x7f :: u8) :: 32 word)) :: u64)
          = unat acc + unat b mod 128 * 2 ^ (7 * i)"
proof -
  let ?p = "push_bit (7 * i) (ucast (b AND 0x7f) :: 32 word)"
  have d: "unat (ucast (b AND 0x7f) :: 32 word) = unat b mod 128"
    "unat (ucast (b AND 0x7f) :: u64) = unat b mod 128"
    by (simp_all add: unat_ucast_le byte_low)
  have "unat ?p = unat b mod 128 * 2 ^ (7 * i)"
    using assms(3) by (simp add: unat_push_bit d)
  then have "unat (scast ?p :: u64) = unat b mod 128 * 2 ^ (7 * i)"
    using assms(3) unat_scast_small [of ?p] by simp
  also have "\<dots> = unat (push_bit (7 * i) (ucast (b AND 0x7f)) :: u64)"
    using assms(3) by (simp add: unat_push_bit d)
  finally have eq: "scast ?p = (push_bit (7 * i) (ucast (b AND 0x7f)) :: u64)"
    by (simp add: word_unat_eq_iff)
  have "(2 :: nat) ^ (7 * i) \<le> 2 ^ 28" using assms(2) by (intro power_increasing) auto
  with assms(1,3) show ?thesis
    unfolding eq by (subst or_push_bit_unat) (simp_all add: d)
qed

lemma read_uleb_loop_uleb:
  assumes "unat acc < 2 ^ (7 * i)" and "i \<le> 4" and "unat v * 2 ^ (7 * i) < 2 ^ 31"
  shows "\<exists>w. read_uleb_loop acc (7 * i) (uleb v @ r) = Inr (w, r) \<and>
             unat w = unat acc + unat v * 2 ^ (7 * i)"
  using assms
proof (induction v arbitrary: i acc rule: uleb_induct)
  case (small v)
  let ?b = "ucast (v AND 0x7f) :: u8"
  have b: "unat ?b = unat v" using small.hyps by (simp add: low7)
  then have "?b AND 0x80 = 0" using small.hyps by (simp add: byte_high)
  with read_unchecked_step [OF small.prems(1,2), of ?b] small b show ?case
    by (simp add: uleb_small [OF small.hyps] Let_def)
next
  case (large v)
  let ?b = "ucast (v AND 0x7f) OR 0x80 :: u8" and ?X = "2 ^ (7 * i) :: nat"
  have b: "unat ?b = unat v mod 128 + 128" by (simp add: byte_or_80 low7)
  then have hi: "?b AND 0x80 \<noteq> 0" by (simp add: byte_high)
  have i3: "i \<le> 3"
  proof (rule ccontr)
    assume "\<not> i \<le> 3"
    with large.prems(2) have "i = 4" by simp
    with large.prems(3) large.hyps show False by simp
  qed
  let ?acc = "acc OR scast (push_bit (7 * i) (ucast (?b AND 0x7f) :: 32 word))"
  have "unat v mod 128 * ?X \<le> unat v * ?X" by (intro mult_right_mono) auto
  then have "unat v mod 128 * ?X < 2 ^ 31" using large.prems(3) by (rule order_le_less_trans)
  then have lt: "unat ?b mod 128 * ?X < 2 ^ 31" using b by simp
  have st: "unat ?acc = unat acc + unat v mod 128 * ?X"
    using read_unchecked_step [OF large.prems(1,2) lt] b by simp
  have "unat v mod 128 * ?X \<le> 127 * ?X" by (intro mult_right_mono) auto
  with large.prems(1) have "unat acc + unat v mod 128 * ?X < ?X + 127 * ?X"
    by (rule add_less_le_mono)
  with st have acc: "unat ?acc < 2 ^ (7 * Suc i)" by (simp add: power_add)
  have "unat v * ?X = (unat v mod 128 + 128 * (unat v div 128)) * ?X"
    by (simp only: mod_mult_div_eq)
  then have split: "unat v * ?X = unat v mod 128 * ?X + unat v div 128 * 2 ^ (7 * Suc i)"
    by (simp only: distrib_right) (simp add: power_add)
  then have "unat (drop_bit 7 v) * 2 ^ (7 * Suc i) < 2 ^ 31"
    using large.prems(3) by (simp add: unat_drop_bit)
  with large.IH [OF acc] i3 obtain w where
    w: "read_uleb_loop ?acc (7 * Suc i) (uleb (drop_bit 7 v) @ r) = Inr (w, r)"
      "unat w = unat ?acc + unat (drop_bit 7 v) * 2 ^ (7 * Suc i)" by auto
  have "unat w = unat acc + unat v * ?X" using w(2) st split by (simp add: unat_drop_bit)
  with w(1) hi i3 show ?case
    by (simp add: uleb_large [OF large.hyps] Let_def add.commute)
qed

lemma read_uleb_uleb: "unat v < 2 ^ 31 \<Longrightarrow> read_uleb (uleb v @ r) = Inr (v, r)"
  using read_uleb_loop_uleb [of 0 0 v r] by (auto simp: read_uleb_def word_unat_eq_iff)

subsection \<open>Properties\<close>

text \<open>
  C39: what \<open>encode_uleb\<close> appends to a vector, the bounded \<open>read_uleb\<close> reads back: it succeeds
  for every 64-bit value, whatever follows in the buffer, returns that value and stops
  right behind it; the \<^verbatim>\<open>string_view\<close> overload does the same.
\<close>

theorem uleb_roundtrip:
  "read_uleb_end (drop (length vec) (encode_uleb vec v @ rest)) = (True, v, rest) \<and>
   read_uleb_view (drop (length vec) (encode_uleb vec v @ rest)) = (True, v, rest)"
  by (simp add: encode_uleb_append [of vec] read_uleb_end_uleb read_uleb_view_def)

text \<open>
  the bounded \<open>read_uleb\<close> never loses bits: whenever it reports success, what it consumed
  is at most 10 bytes and the value it returns is exactly the base-128 value of those bytes
  (an encoding of a number of more than 64 bits is refused, not truncated).
\<close>

theorem read_uleb_exact:
  assumes "read_uleb_end buf = (True, v, rest)"
  shows "\<exists>p. buf = p @ rest \<and> length p \<le> 10 \<and> unat v = uleb_val p"
  using assms by (rule read_uleb_end_sound)

theorem read_uleb_exact_witness:
  "\<exists>p. [0x80, 0x01, 0xff :: u8] = p @ [0xff] \<and> length p \<le> 10 \<and> unat (128 :: u64) = uleb_val p"
proof -
  have "read_uleb_end [0x80, 0x01, 0xff] = (True, 128, [0xff])"
    by (simp add: read_uleb_end_def)
  then show ?thesis by (rule read_uleb_exact)
qed

text \<open>
  \<open>write_uleb\<close> and \<open>uleb_size\<close> agree with \<open>encode_uleb\<close>: if the buffer has room for the
  encoding, \<open>write_uleb\<close> overwrites exactly its first bytes with it and returns its length;
  otherwise it writes past the end. \<open>uleb_size\<close> is that length below \<open>2 ^ 63\<close>; from
  \<open>2 ^ 63\<close> on it is one too small (its loop stops at 9, the encoding has 10 bytes).
\<close>

theorem write_uleb_encode_uleb:
  "write_uleb buf v =
     (let e = encode_uleb [] v
      in if length e \<le> length buf then Inr (length e, e @ drop (length e) buf)
         else Inl OutOfBounds) \<and>
   length (encode_uleb [] v) = (if unat v < 2 ^ 63 then uleb_size v else uleb_size v + 1)"
  using uleb_size_eq [of v] by (simp add: write_uleb_def write_uleb_loop_eq Let_def)

text \<open>
  signed LEB128: a reader that sign-extends the last digit reads back every 64-bit
  signed value that \<open>encode_sleb\<close> wrote, and stops right behind it.
\<close>

theorem sleb_roundtrip:
  "read_sleb (drop (length vec) (encode_sleb vec v @ rest)) = Some (sint v, rest)"
  by (simp add: encode_sleb_append [of vec] read_sleb_encode_sleb)

text \<open>
  the unchecked \<open>read_uleb\<close> reads back every value below \<open>2 ^ 31\<close>, but not
  \<open>2 ^ 31\<close> itself: its 32-bit shift reaches the sign bit and the result is
  sign-extended to \<open>0xffffffff80000000\<close>; and from \<open>2 ^ 35\<close> on the shift is undefined.
\<close>

theorem read_uleb_unchecked:
  "(unat v < 2 ^ 31 \<longrightarrow> read_uleb (encode_uleb [] v @ rest) = Inr (v, rest)) \<and>
   read_uleb (encode_uleb [] 0x80000000) = Inr (0xffffffff80000000, []) \<and>
   read_uleb (encode_uleb [] 0x800000000) = Inl Undefined"
proof (intro conjI impI)
  assume "unat v < 2 ^ 31"
  then show "read_uleb (encode_uleb [] v @ rest) = Inr (v, rest)" by (rule read_uleb_uleb)
next
  show "read_uleb (encode_uleb [] 0x80000000) = Inr (0xffffffff80000000, [])"
    by (simp add: read_uleb_def encode_uleb.simps Let_def)
  show "read_uleb (encode_uleb [] 0x800000000) = Inl Undefined"
    by (simp add: read_uleb_def encode_uleb.simps Let_def)
qed

theorem read_uleb_unchecked_witness:
  "read_uleb (encode_uleb [] 300 @ [7]) = Inr (300, [7])"
  using read_uleb_unchecked [of 300 "[7]"] by simp

end
