(* ===== verification/Integers.thy ===== *)
theory Integers
  imports Prelude
begin

text \<open>
  The endian-aware integers of \<^verbatim>\<open>src/common/integers.h\<close>: \<^verbatim>\<open>bswap\<close>, \<^verbatim>\<open>LittleEndian<T, SIZE>\<close>
  and \<^verbatim>\<open>BigEndian<T, SIZE>\<close> with their conversion, assignment and compound operators. The
  host's byte order is a parameter, as it is in the source (\<^verbatim>\<open>std::endian::native\<close>), so
  that "these types don't depend on host byte order" (lines 1-19 of that file) is a theorem.
  The locale \<open>codec\<close> is the interface that every on-disk structure of the linker
  implements: a fixed size, an encoder and a decoder that returns the rest of the buffer.
\<close>

subsection \<open>Bytes of a word, least significant first\<close>

fun le_bytes :: "nat \<Rightarrow> 'a::len word \<Rightarrow> bytes" where
  "le_bytes 0 x = []"
| "le_bytes (Suc n) x = ucast x # le_bytes n (drop_bit 8 x)"

fun le_word :: "bytes \<Rightarrow> 'a::len word" where
  "le_word [] = 0"
| "le_word (b # bs) = ucast b OR push_bit 8 (le_word bs)"

lemma length_le_bytes [simp]: "length (le_bytes n x) = n"
  by (induction n arbitrary: x) auto

lemma nth_le_bytes: "i < n \<Longrightarrow> le_bytes n x ! i = ucast (drop_bit (8 * i) x)"
proof (induction n arbitrary: x i)
  case (Suc n)
  then show ?case by (cases i) (simp_all add: drop_bit_drop_bit ac_simps)
qed simp

lemma bit_le_word:
  "bit (le_word bs :: 'a::len word) k \<longleftrightarrow>
     k < LENGTH('a) \<and> k div 8 < length bs \<and> bit (bs ! (k div 8)) (k mod 8)"
proof (induction bs arbitrary: k)
  case (Cons b bs)
  show ?case
  proof (cases "k < 8")
    case True
    then show ?thesis
      by (auto simp: bit_or_iff bit_push_bit_iff bit_ucast_iff)
  next
    case False
    then have k: "k div 8 = Suc ((k - 8) div 8)" "k mod 8 = (k - 8) mod 8"
      by (simp_all add: le_div_geq le_mod_geq)
    from False have "\<not> bit b k" using u8_bit_less by force
    with False show ?thesis
      by (auto simp: bit_or_iff bit_push_bit_iff bit_ucast_iff Cons.IH k)
  qed
qed simp

lemma le_word_le_bytes: "le_word (le_bytes n x) = take_bit (8 * n) (x :: 'a::len word)"
proof (rule bit_word_eqI)
  fix k assume k: "k < LENGTH('a)"
  have "k div 8 < n \<longleftrightarrow> k < 8 * n" by (auto simp: div_less_iff_less_mult ac_simps)
  moreover have "bit (drop_bit (8 * (k div 8)) x) (k mod 8) \<longleftrightarrow> bit x k"
    by (simp add: bit_drop_bit_eq)
  ultimately show "bit (le_word (le_bytes n x) :: 'a word) k \<longleftrightarrow> bit (take_bit (8 * n) x) k"
    using k by (auto simp: bit_le_word nth_le_bytes bit_take_bit_iff)
qed

lemma le_word_le_bytes_full [simp]:
  "LENGTH('a) \<le> 8 * n \<Longrightarrow> le_word (le_bytes n x) = (x :: 'a::len word)"
  by (simp add: le_word_le_bytes take_bit_word_eq_self)

lemma le_bytes_le_word:
  assumes "8 * length bs \<le> LENGTH('a::len)"
  shows "le_bytes (length bs) (le_word bs :: 'a word) = bs"
proof (rule nth_equalityI)
  fix i assume "i < length (le_bytes (length bs) (le_word bs :: 'a word))"
  then have i: "i < length bs" by simp
  have "bit (le_word bs :: 'a word) (8 * i + k) \<longleftrightarrow> bit (bs ! i) k" if "k < 8" for k
    using that i assms by (auto simp: bit_le_word)
  then show "le_bytes (length bs) (le_word bs :: 'a word) ! i = bs ! i"
    using i by (auto simp: nth_le_bytes bit_drop_bit_eq intro!: bit_word_eqI)
qed simp

lemma le_bytes_inj:
  assumes "LENGTH('a::len) \<le> 8 * n" and "le_bytes n x = le_bytes n (y :: 'a word)"
  shows "x = y"
  using assms le_word_le_bytes_full [of n x] le_word_le_bytes_full [of n y] by metis

subsection \<open>Memory representation on a host, and bswap\<close>

datatype endian = LittleHost | BigHost

definition sizeof :: "'a::len itself \<Rightarrow> nat" where
  "sizeof _ = LENGTH('a) div 8"

text \<open>\<^verbatim>\<open>memcpy(val, &x, sizeof(T))\<close> and \<^verbatim>\<open>memcpy(&x, val, sizeof(T))\<close> on the given host.\<close>

definition mem_store :: "endian \<Rightarrow> 'a::len word \<Rightarrow> bytes" where
  "mem_store host x = (let bs = le_bytes (sizeof TYPE('a)) x
                       in case host of LittleHost \<Rightarrow> bs | BigHost \<Rightarrow> rev bs)"

definition mem_load :: "endian \<Rightarrow> bytes \<Rightarrow> 'a::len word" where
  "mem_load host bs = (case host of LittleHost \<Rightarrow> le_word bs | BigHost \<Rightarrow> le_word (rev bs))"

definition bswap :: "'a::len word \<Rightarrow> 'a word" where
  "bswap x = le_word (rev (le_bytes (sizeof TYPE('a)) x))"

subsection \<open>LittleEndian and BigEndian\<close>

definition LE_get :: "endian \<Rightarrow> nat \<Rightarrow> bytes \<Rightarrow> 'a::len word" where
  "LE_get host SIZE val =
     (if sizeof TYPE('a) = SIZE
      then let x = mem_load host val in if host = BigHost then bswap x else x
      else push_bit 16 (ucast (val ! 2)) OR push_bit 8 (ucast (val ! 1)) OR ucast (val ! 0))"

definition LE_set :: "endian \<Rightarrow> nat \<Rightarrow> 'a::len word \<Rightarrow> bytes" where
  "LE_set host SIZE x =
     (if sizeof TYPE('a) = SIZE
      then mem_store host (if host = BigHost then bswap x else x)
      else [ucast x, ucast (drop_bit 8 x), ucast (drop_bit 16 x)])"

definition BE_get :: "endian \<Rightarrow> nat \<Rightarrow> bytes \<Rightarrow> 'a::len word" where
  "BE_get host SIZE val =
     (if sizeof TYPE('a) = SIZE
      then let x = mem_load host val in if host = LittleHost then bswap x else x
      else push_bit 16 (ucast (val ! 0)) OR push_bit 8 (ucast (val ! 1)) OR ucast (val ! 2))"

definition BE_set :: "endian \<Rightarrow> nat \<Rightarrow> 'a::len word \<Rightarrow> bytes" where
  "BE_set host SIZE x =
     (if sizeof TYPE('a) = SIZE
      then mem_store host (if host = LittleHost then bswap x else x)
      else [ucast (drop_bit 16 x), ucast (drop_bit 8 x), ucast x])"

text \<open>
  The compound operators (\<^verbatim>\<open>++\<close>, \<^verbatim>\<open>--\<close>, \<^verbatim>\<open>+=\<close>, \<^verbatim>\<open>-=\<close>, \<^verbatim>\<open>&=\<close>, \<^verbatim>\<open>|=\<close>) all read the value, combine
  it and assign it back; \<open>LE_op\<close> and \<open>BE_op\<close> are that shape, and the postfix forms
  also return the old value.
\<close>

definition LE_op :: "endian \<Rightarrow> nat \<Rightarrow> ('a::len word \<Rightarrow> 'a word) \<Rightarrow> bytes \<Rightarrow> bytes" where
  "LE_op host SIZE f val = LE_set host SIZE (f (LE_get host SIZE val))"

definition BE_op :: "endian \<Rightarrow> nat \<Rightarrow> ('a::len word \<Rightarrow> 'a word) \<Rightarrow> bytes \<Rightarrow> bytes" where
  "BE_op host SIZE f val = BE_set host SIZE (f (BE_get host SIZE val))"

definition LE_postfix ::
    "endian \<Rightarrow> nat \<Rightarrow> ('a::len word \<Rightarrow> 'a word) \<Rightarrow> bytes \<Rightarrow> 'a word \<times> bytes" where
  "LE_postfix host SIZE f val = (LE_get host SIZE val, LE_op host SIZE f val)"

definition BE_postfix ::
    "endian \<Rightarrow> nat \<Rightarrow> ('a::len word \<Rightarrow> 'a word) \<Rightarrow> bytes \<Rightarrow> 'a word \<times> bytes" where
  "BE_postfix host SIZE f val = (BE_get host SIZE val, BE_op host SIZE f val)"

subsection \<open>Host independence\<close>

text \<open>The sizes the source instantiates: the full width of \<open>T\<close>, or 3 bytes of a wider one.\<close>

definition valid_size :: "'a::len itself \<Rightarrow> nat \<Rightarrow> bool" where
  "valid_size _ SIZE \<longleftrightarrow> LENGTH('a) = 8 * SIZE \<or> (SIZE = 3 \<and> LENGTH('a) = 32)"

lemma length_eq_3: "length xs = 3 \<longleftrightarrow> (\<exists>a b c. xs = [a, b, c])"
  by (auto simp: length_Suc_conv numeral_3_eq_3)

lemma valid_size_cases:
  assumes "valid_size TYPE('a::len) SIZE"
  obtains (full) "LENGTH('a) = 8 * SIZE" "sizeof TYPE('a) = SIZE"
    | (three) "SIZE = 3" "LENGTH('a) = 32" "sizeof TYPE('a) = 4"
  using assms by (auto simp: valid_size_def sizeof_def)

lemma le_bytes_3:
  "le_bytes 3 (x :: 'a::len word) = [ucast x, ucast (drop_bit 8 x), ucast (drop_bit 16 x)]"
  by (simp add: numeral_3_eq_3 drop_bit_drop_bit)

lemma le_word_3:
  "le_word [a, b, c] =
     push_bit 16 (ucast c) OR push_bit 8 (ucast b) OR (ucast a :: 'a::len word)"
  by (simp add: push_bit_or ac_simps or.assoc)

lemma bswap_le_word:
  assumes "length bs = SIZE" and "LENGTH('a::len) = 8 * SIZE"
  shows "bswap (le_word bs :: 'a word) = le_word (rev bs)"
proof -
  have "le_bytes (length bs) (le_word bs :: 'a word) = bs"
    by (rule le_bytes_le_word) (simp add: assms)
  then show ?thesis using assms by (simp add: bswap_def sizeof_def)
qed

lemma le_bytes_bswap:
  assumes "LENGTH('a::len) = 8 * SIZE"
  shows "le_bytes SIZE (bswap (x :: 'a word)) = rev (le_bytes SIZE x)"
  using le_bytes_le_word [of "rev (le_bytes SIZE x)", where 'a = 'a] assms
  by (simp add: bswap_def sizeof_def)

lemma LE_get_eq:
  assumes "valid_size TYPE('a::len) SIZE" and "length val = SIZE"
  shows "LE_get host SIZE val = (le_word val :: 'a word)"
  using assms(1)
proof (cases rule: valid_size_cases)
  case full
  then show ?thesis using assms(2)
    by (cases host) (simp_all add: LE_get_def mem_load_def Let_def bswap_le_word)
next
  case three
  then obtain a b c where "val = [a, b, c]" using assms(2) by (auto simp: length_eq_3)
  with three show ?thesis by (simp add: LE_get_def le_word_3 numeral_2_eq_2 del: le_word.simps)
qed

lemma BE_get_eq:
  assumes "valid_size TYPE('a::len) SIZE" and "length val = SIZE"
  shows "BE_get host SIZE val = (le_word (rev val) :: 'a word)"
  using assms(1)
proof (cases rule: valid_size_cases)
  case full
  then show ?thesis using assms(2)
    by (cases host) (simp_all add: BE_get_def mem_load_def Let_def bswap_le_word)
next
  case three
  then obtain a b c where "val = [a, b, c]" using assms(2) by (auto simp: length_eq_3)
  with three show ?thesis by (simp add: BE_get_def le_word_3 numeral_2_eq_2 del: le_word.simps)
qed

lemma LE_set_eq:
  assumes "valid_size TYPE('a::len) SIZE"
  shows "LE_set host SIZE (x :: 'a word) = le_bytes SIZE x"
  using assms
proof (cases rule: valid_size_cases)
  case full
  then show ?thesis
    by (cases host) (simp_all add: LE_set_def mem_store_def le_bytes_bswap)
qed (simp add: LE_set_def le_bytes_3)

lemma BE_set_eq:
  assumes "valid_size TYPE('a::len) SIZE"
  shows "BE_set host SIZE (x :: 'a word) = rev (le_bytes SIZE x)"
  using assms
proof (cases rule: valid_size_cases)
  case full
  then show ?thesis
    by (cases host) (simp_all add: BE_set_def mem_store_def le_bytes_bswap)
qed (simp add: BE_set_def le_bytes_3)

lemma LE_get_set:
  assumes "valid_size TYPE('a::len) SIZE"
  shows "LE_get host SIZE (LE_set host' SIZE x) = take_bit (8 * SIZE) (x :: 'a word)"
  using assms by (simp add: LE_set_eq LE_get_eq le_word_le_bytes)

lemma BE_get_set:
  assumes "valid_size TYPE('a::len) SIZE"
  shows "BE_get host SIZE (BE_set host' SIZE x) = take_bit (8 * SIZE) (x :: 'a word)"
  using assms by (simp add: BE_set_eq BE_get_eq le_word_le_bytes)

text \<open>Reading big-endian is reading the reversed bytes little-endian.\<close>

lemma BE_get_rev:
  assumes "valid_size TYPE('a::len) SIZE" and "length val = SIZE"
  shows "(BE_get host SIZE val :: 'a word) = LE_get host' SIZE (rev val)"
  using assms by (simp add: LE_get_eq BE_get_eq)

text \<open>
  the on-disk integers do not depend on the host: a value stored by a linker running on a
  host of either byte order is read back on a host of either byte order, the stored bytes are the
  same on both hosts, and the big-endian bytes are the little-endian ones reversed. The 3-byte
  type keeps the low 24 bits.
\<close>

theorem endian_host_independent:
  assumes "valid_size TYPE('a::len) SIZE"
  shows "LE_set host SIZE (x :: 'a word) = LE_set host' SIZE x \<and>
    LE_get host SIZE (LE_set host' SIZE x) = take_bit (8 * SIZE) x \<and>
    BE_get host SIZE (BE_set host' SIZE x) = take_bit (8 * SIZE) x \<and>
    BE_set host SIZE x = rev (LE_set host' SIZE x)"
  using LE_get_set [OF assms, of host host' x] BE_get_set [OF assms, of host host' x] assms
  by (simp add: LE_set_eq BE_set_eq)

theorem endian_host_independent_witness:
  "LE_get BigHost 3 (LE_set LittleHost 3 (0x12345678 :: u32)) = (0x345678 :: u32)"
  using endian_host_independent [of 3 BigHost "0x12345678 :: u32" LittleHost]
  by (simp add: valid_size_def take_bit_eq_mask mask_eq_exp_minus_1)

end
