(* ===== verification/Codec.thy ===== *)
theory Codec
  imports Integers
begin

text \<open>
  The interface between the linker's code and the files it reads and writes. A structure of
  \<^verbatim>\<open>macho.h\<close> or \<^verbatim>\<open>elf.h\<close> is accessed by casting a pointer into the mapped file, so what
  the code relies on is: the structure has a fixed size, reading what was written gives it
  back, and a read past the end of the buffer is what must not happen (\<open>None\<close>). The locale
  \<open>codec\<close> states these laws; every integer type and every structure interprets it.
\<close>

subsection \<open>The interface\<close>

locale codec =
  fixes ok :: "'a \<Rightarrow> bool"
    and enc :: "'a \<Rightarrow> bytes"
    and dec :: "bytes \<Rightarrow> ('a \<times> bytes) option"
    and sz :: nat
  assumes dec_enc: "ok x \<Longrightarrow> dec (enc x @ r) = Some (x, r)"
    and dec_SomeD: "dec bs = Some (x, r) \<Longrightarrow> ok x \<and> bs = enc x @ r"
    and length_enc: "ok x \<Longrightarrow> length (enc x) = sz"
    and dec_total: "sz \<le> length bs \<Longrightarrow> \<exists>x r. dec bs = Some (x, r)"
begin

lemma dec_None_iff: "dec bs = None \<longleftrightarrow> length bs < sz"
proof
  assume "dec bs = None"
  then show "length bs < sz" using dec_total [of bs] by force
next
  assume short: "length bs < sz"
  show "dec bs = None"
  proof (cases "dec bs")
    case (Some p)
    then have "dec bs = Some (fst p, snd p)" by simp
    then have "ok (fst p)" and bs: "bs = enc (fst p) @ snd p" using dec_SomeD by blast+
    then have "length (enc (fst p)) = sz" by (simp add: length_enc)
    with bs have "sz \<le> length bs" by simp
    with short show ?thesis by simp
  qed
qed

lemma dec_rest: "dec bs = Some (x, r) \<Longrightarrow> r = drop sz bs"
  using dec_SomeD [of bs x r] length_enc [of x] by (metis append_eq_conv_conj)

lemma enc_inject: "ok x \<Longrightarrow> ok y \<Longrightarrow> enc x = enc y \<longleftrightarrow> x = y"
  using dec_enc [of x "[]"] dec_enc [of y "[]"] by (metis fst_conv option.inject)

lemma dec_take: "dec bs = Some (x, r) \<Longrightarrow> enc x = take sz bs"
  using dec_SomeD [of bs x r] length_enc [of x] by (metis append_eq_conv_conj)

lemma dec_append: "dec bs = Some (x, r) \<Longrightarrow> dec (bs @ s) = Some (x, r @ s)"
  using dec_SomeD [of bs x r] dec_enc [of x "r @ s"] by (metis append_assoc)

end

subsection \<open>Arrays of a structure\<close>

fun enc_list :: "('a \<Rightarrow> bytes) \<Rightarrow> 'a list \<Rightarrow> bytes" where
  "enc_list e [] = []"
| "enc_list e (x # xs) = e x @ enc_list e xs"

fun dec_list :: "(bytes \<Rightarrow> ('a \<times> bytes) option) \<Rightarrow> nat \<Rightarrow> bytes \<Rightarrow> ('a list \<times> bytes) option" where
  "dec_list d 0 bs = Some ([], bs)"
| "dec_list d (Suc n) bs =
     (case d bs of None \<Rightarrow> None
      | Some (x, r) \<Rightarrow> map_option (\<lambda>(xs, r'). (x # xs, r')) (dec_list d n r))"

definition array_ok :: "('a \<Rightarrow> bool) \<Rightarrow> nat \<Rightarrow> 'a list \<Rightarrow> bool" where
  "array_ok ok n xs \<longleftrightarrow> length xs = n \<and> list_all ok xs"

locale codec_array = codec ok enc dec sz
  for ok :: "'a \<Rightarrow> bool" and enc :: "'a \<Rightarrow> bytes"
    and dec :: "bytes \<Rightarrow> ('a \<times> bytes) option" and sz :: nat +
  fixes n :: nat
begin

lemma dec_list_enc_list:
  "list_all ok xs \<Longrightarrow> dec_list dec (length xs) (enc_list enc xs @ r) = Some (xs, r)"
  by (induction xs) (simp_all add: dec_enc)

lemma dec_list_SomeD:
  "dec_list dec m bs = Some (xs, r) \<Longrightarrow>
     length xs = m \<and> list_all ok xs \<and> bs = enc_list enc xs @ r"
proof (induction m arbitrary: bs xs)
  case (Suc m)
  then obtain x b ys where "dec bs = Some (x, b)" "dec_list dec m b = Some (ys, r)" "xs = x # ys"
    by (auto split: option.splits)
  with Suc.IH [of b ys] dec_SomeD [of bs x b] show ?case by simp
qed simp

lemma length_enc_list: "list_all ok xs \<Longrightarrow> length (enc_list enc xs) = length xs * sz"
  by (induction xs) (simp_all add: length_enc)

lemma dec_list_total: "m * sz \<le> length bs \<Longrightarrow> \<exists>xs r. dec_list dec m bs = Some (xs, r)"
proof (induction m arbitrary: bs)
  case (Suc m)
  then have "sz \<le> length bs" by simp
  then obtain x r where xr: "dec bs = Some (x, r)" using dec_total by blast
  from dec_rest [OF xr] Suc.prems have "m * sz \<le> length r" by simp
  with Suc.IH obtain ys r' where "dec_list dec m r = Some (ys, r')" by blast
  with xr show ?case by simp
qed simp

sublocale arr: codec "array_ok ok n" "enc_list enc" "dec_list dec n" "n * sz"
proof unfold_locales
  show "\<And>x r. array_ok ok n x \<Longrightarrow> dec_list dec n (enc_list enc x @ r) = Some (x, r)"
    using dec_list_enc_list by (auto simp: array_ok_def)
  show "\<And>bs x r. dec_list dec n bs = Some (x, r) \<Longrightarrow> array_ok ok n x \<and> bs = enc_list enc x @ r"
    using dec_list_SomeD by (auto simp: array_ok_def)
  show "\<And>x. array_ok ok n x \<Longrightarrow> length (enc_list enc x) = n * sz"
    by (simp add: array_ok_def length_enc_list)
  show "\<And>bs. n * sz \<le> length bs \<Longrightarrow> \<exists>x r. dec_list dec n bs = Some (x, r)"
    by (rule dec_list_total)
qed

end

subsection \<open>The integer types\<close>

definition fits :: "nat \<Rightarrow> 'a::len word \<Rightarrow> bool" where
  "fits n x \<longleftrightarrow> take_bit (8 * n) x = x"

definition le_enc :: "nat \<Rightarrow> 'a::len word \<Rightarrow> bytes" where
  "le_enc n x = LE_set LittleHost n x"

definition le_dec :: "nat \<Rightarrow> bytes \<Rightarrow> ('a::len word \<times> bytes) option" where
  "le_dec n bs = (if length bs < n then None
                  else Some (LE_get LittleHost n (take n bs), drop n bs))"

definition be_enc :: "nat \<Rightarrow> 'a::len word \<Rightarrow> bytes" where
  "be_enc n x = BE_set LittleHost n x"

definition be_dec :: "nat \<Rightarrow> bytes \<Rightarrow> ('a::len word \<times> bytes) option" where
  "be_dec n bs = (if length bs < n then None
                  else Some (BE_get LittleHost n (take n bs), drop n bs))"

lemma le_codec:
  assumes "valid_size TYPE('a::len) n"
  shows "codec (fits n) (le_enc n :: 'a word \<Rightarrow> bytes) (le_dec n) n"
proof -
  have wb: "le_bytes n (le_word bs :: 'a word) = bs" if "length bs = n" for bs
    using le_bytes_le_word [of bs, where 'a = 'a] that assms by (auto simp: valid_size_def)
  then have "fits n (le_word bs :: 'a word)" if "length bs = n" for bs
    using that le_word_le_bytes [of n "le_word bs :: 'a word"] by (simp add: fits_def)
  with wb show ?thesis
    using assms
    by unfold_locales
      (auto simp: le_enc_def le_dec_def LE_get_eq LE_set_eq le_word_le_bytes fits_def
        not_less split: if_splits)
qed

lemma be_codec:
  assumes "valid_size TYPE('a::len) n"
  shows "codec (fits n) (be_enc n :: 'a word \<Rightarrow> bytes) (be_dec n) n"
proof -
  have wb: "le_bytes n (le_word bs :: 'a word) = bs" if "length bs = n" for bs
    using le_bytes_le_word [of bs, where 'a = 'a] that assms by (auto simp: valid_size_def)
  have rv: "rev (le_bytes n (le_word (rev bs) :: 'a word)) = bs" if "length bs = n" for bs
    using wb [of "rev bs"] that by simp
  have "fits n (le_word bs :: 'a word)" if "length bs = n" for bs
    using that wb le_word_le_bytes [of n "le_word bs :: 'a word"] by (simp add: fits_def)
  with rv show ?thesis
    using assms
    by unfold_locales
      (auto simp: be_enc_def be_dec_def BE_get_eq BE_set_eq le_word_le_bytes fits_def
        not_less split: if_splits)
qed

lemma fits_full: "LENGTH('a) \<le> 8 * n \<Longrightarrow> fits n (x :: 'a::len word)"
  by (simp add: fits_def take_bit_word_eq_self)

abbreviation ul16_enc :: "u16 \<Rightarrow> bytes" where "ul16_enc \<equiv> le_enc 2"
abbreviation ul16_dec :: "bytes \<Rightarrow> (u16 \<times> bytes) option" where "ul16_dec \<equiv> le_dec 2"
abbreviation ul24_enc :: "u32 \<Rightarrow> bytes" where "ul24_enc \<equiv> le_enc 3"
abbreviation ul24_dec :: "bytes \<Rightarrow> (u32 \<times> bytes) option" where "ul24_dec \<equiv> le_dec 3"
abbreviation ul32_enc :: "u32 \<Rightarrow> bytes" where "ul32_enc \<equiv> le_enc 4"
abbreviation ul32_dec :: "bytes \<Rightarrow> (u32 \<times> bytes) option" where "ul32_dec \<equiv> le_dec 4"
abbreviation ul64_enc :: "u64 \<Rightarrow> bytes" where "ul64_enc \<equiv> le_enc 8"
abbreviation ul64_dec :: "bytes \<Rightarrow> (u64 \<times> bytes) option" where "ul64_dec \<equiv> le_dec 8"
abbreviation ub16_enc :: "u16 \<Rightarrow> bytes" where "ub16_enc \<equiv> be_enc 2"
abbreviation ub16_dec :: "bytes \<Rightarrow> (u16 \<times> bytes) option" where "ub16_dec \<equiv> be_dec 2"
abbreviation ub24_enc :: "u32 \<Rightarrow> bytes" where "ub24_enc \<equiv> be_enc 3"
abbreviation ub24_dec :: "bytes \<Rightarrow> (u32 \<times> bytes) option" where "ub24_dec \<equiv> be_dec 3"
abbreviation ub32_enc :: "u32 \<Rightarrow> bytes" where "ub32_enc \<equiv> be_enc 4"
abbreviation ub32_dec :: "bytes \<Rightarrow> (u32 \<times> bytes) option" where "ub32_dec \<equiv> be_dec 4"
abbreviation ub64_enc :: "u64 \<Rightarrow> bytes" where "ub64_enc \<equiv> be_enc 8"
abbreviation ub64_dec :: "bytes \<Rightarrow> (u64 \<times> bytes) option" where "ub64_dec \<equiv> be_dec 8"

definition u8_enc :: "u8 \<Rightarrow> bytes" where
  "u8_enc x = [x]"

definition u8_dec :: "bytes \<Rightarrow> (u8 \<times> bytes) option" where
  "u8_dec bs = (case bs of [] \<Rightarrow> None | b # r \<Rightarrow> Some (b, r))"

interpretation u8c: codec "\<lambda>_. True" u8_enc u8_dec 1
  by unfold_locales (auto simp: u8_enc_def u8_dec_def Suc_le_length_iff split: list.splits)
interpretation ul16: codec "fits 2" ul16_enc ul16_dec 2
  by (rule le_codec) (simp add: valid_size_def)
interpretation ul24: codec "fits 3" ul24_enc ul24_dec 3
  by (rule le_codec) (simp add: valid_size_def)
interpretation ul32: codec "fits 4" ul32_enc ul32_dec 4
  by (rule le_codec) (simp add: valid_size_def)
interpretation ul64: codec "fits 8" ul64_enc ul64_dec 8
  by (rule le_codec) (simp add: valid_size_def)
interpretation ub16: codec "fits 2" ub16_enc ub16_dec 2
  by (rule be_codec) (simp add: valid_size_def)
interpretation ub24: codec "fits 3" ub24_enc ub24_dec 3
  by (rule be_codec) (simp add: valid_size_def)
interpretation ub32: codec "fits 4" ub32_enc ub32_dec 4
  by (rule be_codec) (simp add: valid_size_def)
interpretation ub64: codec "fits 8" ub64_enc ub64_dec 8
  by (rule be_codec) (simp add: valid_size_def)
interpretation chars16: codec_array "\<lambda>_. True" u8_enc u8_dec 1 16
  by unfold_locales

lemma fits_u16 [simp]: "fits 2 (y :: u16)"
  and fits_u32 [simp]: "fits 4 (z :: u32)" and fits_u64 [simp]: "fits 8 (w :: u64)"
  by (simp_all add: fits_full)

lemma array_ok_u8 [simp]: "array_ok (\<lambda>_. True) n xs \<longleftrightarrow> length xs = n"
  by (simp add: array_ok_def list_all_iff)

lemmas int_codec_simps [codec_simps] =
  u8c.dec_enc ul16.dec_enc ul24.dec_enc ul32.dec_enc ul64.dec_enc
  ub16.dec_enc ub32.dec_enc ub64.dec_enc
  u8c.length_enc ul16.length_enc ul24.length_enc ul32.length_enc ul64.length_enc
  ub16.length_enc ub32.length_enc ub64.length_enc chars16.arr.dec_enc chars16.arr.length_enc

lemmas int_codec_dests =
  u8c.dec_SomeD ul16.dec_SomeD ul24.dec_SomeD ul32.dec_SomeD ul64.dec_SomeD
  ub16.dec_SomeD ub32.dec_SomeD ub64.dec_SomeD chars16.arr.dec_SomeD

subsection \<open>Structures\<close>

text \<open>
  A structure is the sequence of its members: \<open>pair\<close> puts two members next to each other and
  \<open>iso\<close> names the members (\<open>f\<close> lists the members of a record, \<open>g\<close> makes the record).
\<close>

definition pair_ok :: "('a \<Rightarrow> bool) \<Rightarrow> ('b \<Rightarrow> bool) \<Rightarrow> 'a \<times> 'b \<Rightarrow> bool" where
  "pair_ok ok1 ok2 p \<longleftrightarrow> ok1 (fst p) \<and> ok2 (snd p)"

definition pair_enc :: "('a \<Rightarrow> bytes) \<Rightarrow> ('b \<Rightarrow> bytes) \<Rightarrow> 'a \<times> 'b \<Rightarrow> bytes" where
  "pair_enc e1 e2 p = e1 (fst p) @ e2 (snd p)"

definition pair_dec ::
    "(bytes \<Rightarrow> ('a \<times> bytes) option) \<Rightarrow> (bytes \<Rightarrow> ('b \<times> bytes) option) \<Rightarrow>
     bytes \<Rightarrow> (('a \<times> 'b) \<times> bytes) option" where
  "pair_dec d1 d2 bs =
     (case d1 bs of
        None \<Rightarrow> None
      | Some (x, r) \<Rightarrow> map_option (\<lambda>(y, r'). ((x, y), r')) (d2 r))"

definition iso_enc :: "('a \<Rightarrow> 'b) \<Rightarrow> ('b \<Rightarrow> bytes) \<Rightarrow> 'a \<Rightarrow> bytes" where
  "iso_enc f e x = e (f x)"

definition iso_dec :: "('b \<Rightarrow> 'a) \<Rightarrow> (bytes \<Rightarrow> ('b \<times> bytes) option) \<Rightarrow> bytes \<Rightarrow> ('a \<times> bytes) option" where
  "iso_dec g d bs = map_option (apfst g) (d bs)"

lemma codec_pair [codec_intros]:
  assumes "codec ok1 e1 d1 s1" and "codec ok2 e2 d2 s2"
  shows "codec (pair_ok ok1 ok2) (pair_enc e1 e2) (pair_dec d1 d2) (s1 + s2)"
proof
  fix x r assume "pair_ok ok1 ok2 x"
  then show "pair_dec d1 d2 (pair_enc e1 e2 x @ r) = Some (x, r)"
    using codec.dec_enc [OF assms(1)] codec.dec_enc [OF assms(2)]
    by (simp add: pair_ok_def pair_enc_def pair_dec_def)
next
  fix bs x r assume "pair_dec d1 d2 bs = Some (x, r)"
  then obtain s where "d1 bs = Some (fst x, s)" and "d2 s = Some (snd x, r)"
    by (auto simp: pair_dec_def split: option.splits)
  then show "pair_ok ok1 ok2 x \<and> bs = pair_enc e1 e2 x @ r"
    using codec.dec_SomeD [OF assms(1)] codec.dec_SomeD [OF assms(2)]
    by (force simp: pair_ok_def pair_enc_def)
next
  fix x assume "pair_ok ok1 ok2 x"
  then show "length (pair_enc e1 e2 x) = s1 + s2"
    using codec.length_enc [OF assms(1)] codec.length_enc [OF assms(2)]
    by (simp add: pair_ok_def pair_enc_def)
next
  fix bs :: bytes assume len: "s1 + s2 \<le> length bs"
  then obtain x r where xr: "d1 bs = Some (x, r)" using codec.dec_total [OF assms(1), of bs] by auto
  with len have "s2 \<le> length r" using codec.dec_rest [OF assms(1) xr] by simp
  then obtain y r' where "d2 r = Some (y, r')" using codec.dec_total [OF assms(2), of r] by auto
  with xr show "\<exists>x r. pair_dec d1 d2 bs = Some (x, r)" by (simp add: pair_dec_def)
qed

lemma codec_iso:
  assumes c: "codec ok e d s" and x: "\<And>x. ok' x \<Longrightarrow> g (f x) = x \<and> ok (f x)"
    and y: "\<And>y. ok y \<Longrightarrow> f (g y) = y \<and> ok' (g y)"
  shows "codec ok' (iso_enc f e) (iso_dec g d) s"
proof
  fix a r assume "ok' a"
  then show "iso_dec g d (iso_enc f e a @ r) = Some (a, r)"
    using x [of a] codec.dec_enc [OF c] by (simp add: iso_enc_def iso_dec_def)
next
  fix bs a r assume "iso_dec g d bs = Some (a, r)"
  then obtain b where b: "d bs = Some (b, r)" "a = g b"
    by (auto simp: iso_dec_def)
  then show "ok' a \<and> bs = iso_enc f e a @ r"
    using codec.dec_SomeD [OF c b(1)] y [of b] by (simp add: iso_enc_def)
next
  fix a assume "ok' a"
  then show "length (iso_enc f e a) = s"
    using x [of a] codec.length_enc [OF c] by (simp add: iso_enc_def)
next
  fix bs :: bytes assume "s \<le> length bs"
  then show "\<exists>a r. iso_dec g d bs = Some (a, r)"
    using codec.dec_total [OF c, of bs] by (auto simp: iso_dec_def)
qed

lemma codec_cong:
  assumes "codec ok e d s" and "\<And>x. ok' x \<longleftrightarrow> ok x" and "s = s'"
  shows "codec ok' e d s'"
proof -
  have "ok' = ok" using assms(2) by blast
  with assms(1, 3) show ?thesis by simp
qed

text \<open>A structure: its members in a row, under the names and the size of the source.\<close>

lemma codec_struct:
  assumes "codec ok e d s" and "s = s'" and "\<And>x. ok' x \<Longrightarrow> g (f x) = x \<and> ok (f x)"
    and "\<And>y. ok y \<Longrightarrow> f (g y) = y \<and> ok' (g y)"
  shows "codec ok' (iso_enc f e) (iso_dec g d) s'"
  using codec_iso [OF assms(1, 3, 4)] assms(2) by simp

lemma codec_True: "codec ok e d s \<Longrightarrow> (\<And>x. ok x) \<Longrightarrow> codec (\<lambda>_. True) e d s"
  by (erule codec_cong) simp_all

lemma codec_chars16 [codec_intros]: "codec (\<lambda>s. length s = 16) (enc_list u8_enc) (dec_list u8_dec 16) 16"
  by (rule codec_cong [OF chars16.arr.codec_axioms]) simp_all

lemma int_codecs [codec_intros]:
  "codec (\<lambda>_. True) u8_enc u8_dec 1"
  "codec (\<lambda>_. True) ul16_enc ul16_dec 2" "codec (fits 3) ul24_enc ul24_dec 3"
  "codec (\<lambda>_. True) ul32_enc ul32_dec 4" "codec (\<lambda>_. True) ul64_enc ul64_dec 8"
  "codec (\<lambda>_. True) ub16_enc ub16_dec 2" "codec (fits 3) ub24_enc ub24_dec 3"
  "codec (\<lambda>_. True) ub32_enc ub32_dec 4" "codec (\<lambda>_. True) ub64_enc ub64_dec 8"
  by (rule u8c.codec_axioms ul24.codec_axioms ub24.codec_axioms
      codec_True [OF ul16.codec_axioms] codec_True [OF ul32.codec_axioms]
      codec_True [OF ul64.codec_axioms] codec_True [OF ub16.codec_axioms]
      codec_True [OF ub32.codec_axioms] codec_True [OF ub64.codec_axioms], simp?)+

subsection \<open>32-bit values kept in 64 bits\<close>

lemma ucast_u32_u64 [simp]: "(ucast (ucast (v :: u32) :: u64) :: u32) = v"
  by (rule bit_word_eqI) (simp add: bit_simps)

lemma take_bit_self_unat: "take_bit n (w :: 'a::len word) = w \<longleftrightarrow> unat w < 2 ^ n"
proof -
  have "take_bit n w = w \<longleftrightarrow> unat w mod 2 ^ n = unat w"
    by (metis unat_take_bit word_unat_eq_iff)
  also have "\<dots> \<longleftrightarrow> unat w < 2 ^ n"
    by (metis mod_less mod_less_divisor zero_less_numeral zero_less_power)
  finally show ?thesis .
qed

lemma u32_in_u64: "unat (w :: u64) < 2 ^ 32 \<longleftrightarrow> (ucast (ucast w :: u32) :: u64) = w"
proof -
  have "(ucast (ucast w :: u32) :: u64) = take_bit 32 w"
    by (rule bit_word_eqI) (auto simp: bit_simps)
  then show ?thesis using take_bit_self_unat [of 32 w] by metis
qed

end
