(* ===== verification/ConcurrentMap.thy ===== *)
theory ConcurrentMap
  imports Bits
begin

text \<open>
  The class \<^verbatim>\<open>ConcurrentMap\<close> of \<^verbatim>\<open>src/common/common.h\<close>, which uniquifies the pieces of
  mergeable sections. Part one is the map used by one thread (\<open>resize\<close>, \<open>insert\<close>). Part two
  is the same \<open>insert\<close> run by any number of threads at once: a step relation with one
  rule per atomic action of the source (the acquire load, the compare-and-swap that installs
  the marker, the two plain writes it protects, the release store), and the invariant that
  makes the table free of duplicate keys. The hash of a key is a parameter (XXH3 is not
  modelled); all that is used of it is that it is a function of the key.
\<close>

subsection \<open>The table\<close>

datatype slot = Null | Marker | Key bytes

record 'v cmap =
  nbuckets :: u64
  keys :: "slot list"
  key_sizes :: "u32 list"
  vals :: "'v option list"

definition MIN_NBUCKETS :: u64 where "MIN_NBUCKETS = 2048"
definition NUM_SHARDS :: u64 where "NUM_SHARDS = 16"
definition MAX_RETRY :: nat where "MAX_RETRY = 128"

text \<open>
  \<open>resize\<close>; \<^verbatim>\<open>std::max<i64>\<close> compares signed. The sizes and values come from
  \<^verbatim>\<open>malloc\<close>: \<open>junk\<close> is what the size array happens to hold.
\<close>

definition resize :: "(nat \<Rightarrow> u32) \<Rightarrow> u64 \<Rightarrow> 'v cmap result" where
  "resize junk n = bind_result (bit_ceil n) (\<lambda>c.
     let nb = (if sint MIN_NBUCKETS < sint c then c else MIN_NBUCKETS) in
     Inr \<lparr>nbuckets = nb, keys = replicate (unat nb) Null,
          key_sizes = map junk [0..<unat nb], vals = replicate (unat nb) None\<rparr>)"

definition first_idx :: "u64 \<Rightarrow> u64 \<Rightarrow> u64" where
  "first_idx nb hash = hash AND (nb - 1)"

definition next_idx :: "u64 \<Rightarrow> u64 \<Rightarrow> u64" where
  "next_idx nb idx = (let mask = nb div NUM_SHARDS - 1
                      in (idx AND NOT mask) OR ((idx + 1) AND mask))"

definition same_key :: "'v cmap \<Rightarrow> nat \<Rightarrow> bytes \<Rightarrow> bytes \<Rightarrow> bool" where
  "same_key m i ptr key \<longleftrightarrow>
     length key = unat (key_sizes m ! i) \<and>
     take (unat (key_sizes m ! i)) ptr = take (unat (key_sizes m ! i)) key"

definition fill_slot :: "'v cmap \<Rightarrow> nat \<Rightarrow> bytes \<Rightarrow> 'v \<Rightarrow> 'v cmap" where
  "fill_slot m i key val = m\<lparr>vals := (vals m)[i := Some val],
     key_sizes := (key_sizes m)[i := of_nat (length key)], keys := (keys m)[i := Key key]\<rparr>"

text \<open>
  \<open>insert\<close> on one thread; the first argument counts the retries left. A marker would make the
  loop spin for ever (\<open>None\<close>): no other thread is there to remove it. The result is the slot
  whose value is returned (\<open>None\<close> is the null pointer) and whether it was inserted.
\<close>

fun insert_loop ::
    "nat \<Rightarrow> 'v cmap \<Rightarrow> u64 \<Rightarrow> bytes \<Rightarrow> 'v \<Rightarrow> (nat option \<times> bool \<times> 'v cmap) option" where
  "insert_loop 0 m idx key val = Some (None, False, m)"
| "insert_loop (Suc n) m idx key val =
     (case keys m ! unat idx of
        Marker \<Rightarrow> None
      | Null \<Rightarrow> Some (Some (unat idx), True, fill_slot m (unat idx) key val)
      | Key ptr \<Rightarrow>
          if same_key m (unat idx) ptr key then Some (Some (unat idx), False, m)
          else insert_loop n m (next_idx (nbuckets m) idx) key val)"

definition insert_key ::
    "'v cmap \<Rightarrow> bytes \<Rightarrow> u64 \<Rightarrow> 'v \<Rightarrow> (nat option \<times> bool \<times> 'v cmap) option" where
  "insert_key m key hash val =
     (if keys m = [] then Some (None, False, m)
      else insert_loop MAX_RETRY m (first_idx (nbuckets m) hash) key val)"

subsection \<open>Probe sequences\<close>

fun probe :: "u64 \<Rightarrow> u64 \<Rightarrow> nat \<Rightarrow> u64" where
  "probe nb hash 0 = first_idx nb hash"
| "probe nb hash (Suc n) = next_idx nb (probe nb hash n)"

text \<open>The sizes \<open>resize\<close> makes: a power of two, at least 2048.\<close>

definition good_size :: "u64 \<Rightarrow> bool" where
  "good_size nb \<longleftrightarrow> (\<exists>k. 11 \<le> k \<and> k < 64 \<and> nb = 2 ^ k)"

lemma good_sizeI: "11 \<le> k \<Longrightarrow> k < 64 \<Longrightarrow> good_size (2 ^ k)"
  by (auto simp: good_size_def)

lemma good_sizeE:
  assumes "good_size nb"
  obtains k where "nb = 2 ^ k" and "11 \<le> k" and "k < 64"
  using assms by (auto simp: good_size_def)

lemma two_power_16: "11 \<le> k \<Longrightarrow> (2 :: nat) ^ k = 2 ^ (k - 4) * 16"
  using power_add [of "2 :: nat" "k - 4" 4] by simp

lemma add_mod_inj:
  fixes f :: nat
  assumes "(f + i) mod s = (f + j) mod s" and "i < s" and "j < s"
  shows "i = j"
proof -
  have "i = j" if "(f + i) mod s = (f + j) mod s" "i < s" "i \<le> j" "j < s" for i j
  proof -
    from that have "s dvd (f + j) - (f + i)" by (metis add_left_mono mod_eq_dvd_iff_nat)
    then have "s dvd j - i" by simp
    with that show ?thesis by (metis dvd_imp_le diff_is_0_eq less_imp_diff_less
          linorder_not_le order_antisym zero_less_diff)
  qed
  from this [of i j] this [of j i] assms show ?thesis by (metis linear)
qed

lemma first_idx_less: "good_size nb \<Longrightarrow> unat (first_idx nb h) < unat nb"
proof -
  assume "good_size nb"
  then obtain k where k: "k < 64" "nb = 2 ^ k" by (auto simp: good_size_def)
  have "first_idx nb h = take_bit k h"
    by (simp add: first_idx_def k take_bit_eq_mask mask_eq_exp_minus_1)
  with k show ?thesis by (simp add: unat_take_bit unat_power2)
qed

lemma next_idx_unat:
  assumes "nb = 2 ^ k" and "11 \<le> k" and "k < 64" and "unat idx < 2 ^ k"
  shows "unat (next_idx nb idx) =
           unat idx div 2 ^ (k - 4) * 2 ^ (k - 4) + (unat idx + 1) mod 2 ^ (k - 4)"
proof -
  let ?j = "k - 4"
  have "nb div NUM_SHARDS = 2 ^ ?j"
  proof -
    have "unat (nb div NUM_SHARDS) = 2 ^ k div 16"
      using assms by (simp add: NUM_SHARDS_def unat_div unat_power2)
    also have "(2 :: nat) ^ k = 2 ^ ?j * 16" by (rule two_power_16 [OF assms(2)])
    finally have "unat (nb div NUM_SHARDS) = 2 ^ ?j" by simp
    from word_eq_of_unat [OF this] show ?thesis by simp
  qed
  then have mask: "nb div NUM_SHARDS - 1 = mask ?j" by (simp add: mask_eq_exp_minus_1)
  have hi: "idx AND NOT (mask ?j) = push_bit ?j (drop_bit ?j idx)"
    by (rule bit_word_eqI) (auto simp: bit_and_iff bit_not_iff bit_push_bit_iff bit_drop_bit_eq bit_mask_iff)
  have lo: "(idx + 1) AND mask ?j = take_bit ?j (idx + 1)"
    by (simp add: take_bit_eq_mask)
  have le: "unat idx div 2 ^ ?j * 2 ^ ?j \<le> unat idx" by (rule div_times_less_eq_dividend)
  have small: "(2 :: nat) ^ k \<le> 2 ^ 63" using assms(3) by (intro power_increasing) auto
  have "unat (idx + 1) = unat idx + 1"
    using assms(4) small by (simp add: unat_word_ariths)
  then have lo': "unat (take_bit ?j (idx + 1)) = (unat idx + 1) mod 2 ^ ?j"
    by (simp add: unat_take_bit)
  have "take_bit ?j (idx + 1) AND push_bit ?j (drop_bit ?j idx) = 0"
    by (rule bit_word_eqI) (auto simp: bit_and_iff bit_push_bit_iff bit_take_bit_iff)
  then have "push_bit ?j (drop_bit ?j idx) OR take_bit ?j (idx + 1)
      = take_bit ?j (idx + 1) + push_bit ?j (drop_bit ?j idx)"
    by (simp add: disjunctive_add_eq_or or.commute)
  moreover have hi': "unat (push_bit ?j (drop_bit ?j idx)) = unat idx div 2 ^ ?j * 2 ^ ?j"
  proof -
    have "unat idx < 2 ^ 64" using unsigned_less [of idx, where 'a = nat] by simp
    with le have "unat idx div 2 ^ ?j * 2 ^ ?j < 2 ^ 64" by (rule order_le_less_trans)
    then show ?thesis by (subst unat_push_bit) (simp_all add: unat_drop_bit)
  qed
  moreover have "(2 :: nat) ^ ?j \<le> 2 ^ 63" using assms(3) by (intro power_increasing) auto
  then have "(unat idx + 1) mod 2 ^ ?j < 2 ^ 63"
    by (intro order_less_le_trans [OF mod_less_divisor]) auto
  moreover have "unat idx div 2 ^ ?j * 2 ^ ?j < 2 ^ 63"
    using le order_less_le_trans [OF assms(4) small] by (rule order_le_less_trans)
  ultimately show ?thesis
    using lo' unfolding next_idx_def mask Let_def hi lo by (simp add: unat_word_ariths)
qed

text \<open>The \<open>n\<close>-th probe stays in the shard of the first one, at distance \<open>n\<close> modulo its size.\<close>

lemma probe_unat:
  assumes "nb = 2 ^ k" and "11 \<le> k" and "k < 64"
  shows "unat (probe nb h n) =
     unat (first_idx nb h) div 2 ^ (k - 4) * 2 ^ (k - 4) + (unat (first_idx nb h) + n) mod 2 ^ (k - 4)
     \<and> unat (probe nb h n) < 2 ^ k"
proof (induction n)
  case 0
  have "unat (first_idx nb h) < 2 ^ k"
    using first_idx_less [OF good_sizeI [OF assms(2,3)], of h] assms by (simp add: unat_power2)
  then show ?case by (simp add: div_mult_mod_eq)
next
  case (Suc n)
  let ?f = "unat (first_idx nb h)" and ?s = "2 ^ (k - 4) :: nat"
  have lt: "unat (probe nb h n) < 2 ^ k" using Suc by simp
  have f: "?f < 2 ^ k"
    using first_idx_less [OF good_sizeI [OF assms(2,3)], of h] assms by (simp add: unat_power2)
  have s: "(2 :: nat) ^ k = 16 * ?s" using two_power_16 [OF assms(2)] by simp
  have d: "unat (probe nb h n) div ?s = ?f div ?s" using Suc by simp
  have m: "(unat (probe nb h n) + 1) mod ?s = (?f + Suc n) mod ?s"
    using Suc by (simp add: mod_simps)
  have "?f div ?s < 16" using f s by (simp add: div_less_iff_less_mult)
  then have "?f div ?s * ?s \<le> 15 * ?s" by (intro mult_right_mono) auto
  moreover have "(?f + Suc n) mod ?s < ?s" by simp
  ultimately have "?f div ?s * ?s + (?f + Suc n) mod ?s < 2 ^ k" unfolding s by linarith
  with next_idx_unat [OF assms lt] d m show ?case by simp
qed

lemma probe_less: "good_size nb \<Longrightarrow> unat (probe nb h n) < unat nb"
  by (elim good_sizeE) (use probe_unat [THEN conjunct2] in \<open>simp add: unat_power2\<close>)

lemma probe_inj:
  assumes "good_size nb" and "i < MAX_RETRY" and "j < MAX_RETRY"
    and "probe nb h i = probe nb h j"
  shows "i = j"
proof -
  from assms(1) obtain k where k: "nb = 2 ^ k" "11 \<le> k" "k < 64" by (auto simp: good_size_def)
  have "(2 :: nat) ^ 7 \<le> 2 ^ (k - 4)" using k(2) by (intro power_increasing) auto
  then have s: "128 \<le> (2 :: nat) ^ (k - 4)" by simp
  let ?f = "unat (first_idx nb h)"
  have "(?f + i) mod 2 ^ (k - 4) = (?f + j) mod 2 ^ (k - 4)"
    using probe_unat [OF k, of h i] probe_unat [OF k, of h j] assms(4) by simp
  then show ?thesis by (rule add_mod_inj) (use s assms(2,3) in \<open>simp_all add: MAX_RETRY_def\<close>)
qed

subsection \<open>What a filled slot guarantees\<close>

text \<open>\<open>passed\<close>: the first \<open>r\<close> probes of the key all hold other keys.\<close>

definition passed :: "(bytes \<Rightarrow> u64) \<Rightarrow> 'v cmap \<Rightarrow> bytes \<Rightarrow> nat \<Rightarrow> bool" where
  "passed hash m key r \<longleftrightarrow>
     (\<forall>q<r. \<exists>k. k \<noteq> key \<and> keys m ! unat (probe (nbuckets m) (hash key) q) = Key k)"

definition at_probe :: "(bytes \<Rightarrow> u64) \<Rightarrow> 'v cmap \<Rightarrow> bytes \<Rightarrow> u64 \<Rightarrow> nat \<Rightarrow> bool" where
  "at_probe hash m key idx r \<longleftrightarrow> idx = probe (nbuckets m) (hash key) r \<and> passed hash m key r"

definition slot_ok :: "(bytes \<Rightarrow> u64) \<Rightarrow> 'v cmap \<Rightarrow> nat \<Rightarrow> bytes \<Rightarrow> bool" where
  "slot_ok hash m i k \<longleftrightarrow> unat (key_sizes m ! i) = length k \<and> vals m ! i \<noteq> None \<and>
     (\<exists>idx r. r < MAX_RETRY \<and> i = unat idx \<and> at_probe hash m k idx r)"

definition table_ok :: "(bytes \<Rightarrow> u64) \<Rightarrow> 'v cmap \<Rightarrow> bool" where
  "table_ok hash m \<longleftrightarrow> good_size (nbuckets m) \<and> length (keys m) = unat (nbuckets m) \<and>
     length (key_sizes m) = unat (nbuckets m) \<and> length (vals m) = unat (nbuckets m) \<and>
     (\<forall>i<unat (nbuckets m). \<forall>k. keys m ! i = Key k \<longrightarrow> slot_ok hash m i k)"

lemma table_ok_slot:
  "table_ok hash m \<Longrightarrow> i < unat (nbuckets m) \<Longrightarrow> keys m ! i = Key k \<Longrightarrow> slot_ok hash m i k"
  by (simp add: table_ok_def)

lemma slot_okE:
  assumes "slot_ok hash m i k"
  obtains idx r where "r < MAX_RETRY" and "i = unat idx" and "at_probe hash m k idx r"
  using assms by (auto simp: slot_ok_def)

lemma keys_unique:
  assumes "table_ok hash m" and "i < unat (nbuckets m)" and "j < unat (nbuckets m)"
    and "keys m ! i = Key k" and "keys m ! j = Key k"
  shows "i = j"
proof -
  obtain p r where p: "i = unat p" "at_probe hash m k p r"
    using table_ok_slot [OF assms(1,2,4)] by (rule slot_okE)
  obtain q t where q: "j = unat q" "at_probe hash m k q t"
    using table_ok_slot [OF assms(1,3,5)] by (rule slot_okE)
  have "\<not> r < t" using p q assms(4) by (auto simp: at_probe_def passed_def)
  moreover have "\<not> t < r" using p q assms(5) by (auto simp: at_probe_def passed_def)
  ultimately have "r = t" by simp
  with p q show ?thesis by (simp add: at_probe_def)
qed

lemma same_key_iff:
  assumes "table_ok hash m" and "i < unat (nbuckets m)" and "keys m ! i = Key ptr"
  shows "same_key m i ptr key \<longleftrightarrow> ptr = key"
  using assms by (auto simp: table_ok_def slot_ok_def same_key_def)

text \<open>A table that evolves in one slot that holds no key keeps what is known of the others.\<close>

definition evolve :: "nat \<Rightarrow> 'v cmap \<Rightarrow> 'v cmap \<Rightarrow> bool" where
  "evolve i m m' \<longleftrightarrow> nbuckets m' = nbuckets m \<and> length (keys m') = length (keys m) \<and>
     length (key_sizes m') = length (key_sizes m) \<and> length (vals m') = length (vals m) \<and>
     (\<forall>k. keys m ! i \<noteq> Key k) \<and>
     (\<forall>j. j \<noteq> i \<longrightarrow> keys m' ! j = keys m ! j \<and> key_sizes m' ! j = key_sizes m ! j \<and>
                vals m' ! j = vals m ! j)"

lemma evolve_passed: "evolve i m m' \<Longrightarrow> passed hash m key r \<Longrightarrow> passed hash m' key r"
  unfolding evolve_def passed_def by metis

lemma evolve_at_probe:
  "evolve i m m' \<Longrightarrow> at_probe hash m key idx r \<Longrightarrow> at_probe hash m' key idx r"
  using evolve_passed [of i m m'] by (auto simp: at_probe_def evolve_def)

lemma evolve_slot_ok:
  assumes "evolve i m m'" and "j \<noteq> i" and "slot_ok hash m j k"
  shows "slot_ok hash m' j k"
proof -
  from assms(3) obtain idx r where "r < MAX_RETRY" "j = unat idx" "at_probe hash m k idx r"
    by (rule slot_okE)
  moreover from this have "at_probe hash m' k idx r" by (intro evolve_at_probe [OF assms(1)])
  moreover have "key_sizes m' ! j = key_sizes m ! j" "vals m' ! j = vals m ! j"
    using assms(1,2) by (simp_all add: evolve_def)
  ultimately show ?thesis using assms(3) by (auto simp: slot_ok_def)
qed

lemma evolve_table_ok:
  assumes "evolve i m m'" and "table_ok hash m"
    and "\<And>k. keys m' ! i = Key k \<Longrightarrow> slot_ok hash m' i k"
  shows "table_ok hash m'"
proof -
  have "slot_ok hash m' j k" if "j < unat (nbuckets m)" "keys m' ! j = Key k" for j k
  proof (cases "j = i")
    case False
    with that assms(1,2) have "slot_ok hash m j k" by (auto simp: evolve_def table_ok_def)
    with evolve_slot_ok [OF assms(1) False] show ?thesis .
  qed (use assms(3) that in simp)
  with assms(1,2) show ?thesis by (auto simp: evolve_def table_ok_def)
qed

lemma fill_slot_evolve:
  "(\<forall>k. keys m ! i \<noteq> Key k) \<Longrightarrow> evolve i m (fill_slot m i key val)"
  by (auto simp: evolve_def fill_slot_def)

text \<open>A table made by \<open>resize\<close> satisfies the invariant, whatever size was asked for.\<close>

lemma resize_size:
  assumes "bit_ceil n = Inr c" and "sint MIN_NBUCKETS < sint c"
  shows "good_size c"
proof -
  obtain k where k: "k < 64" "c = 2 ^ k" using assms(1) by (rule bit_ceil_least_power)
  have "k \<noteq> 63" using assms(2) k(2) by (auto simp: MIN_NBUCKETS_def)
  then have "(2 :: nat) ^ k < 2 ^ 63" using k(1) by (intro power_strict_increasing) auto
  then have "sint c = 2 ^ k" using sint_small [of c] k by (simp add: unat_power2)
  with assms(2) have "(2 :: int) ^ 11 < 2 ^ k" by (simp add: MIN_NBUCKETS_def)
  then have "11 < k" by (simp only: power_strict_increasing_iff)
  then show ?thesis using k good_sizeI [of k] by simp
qed

lemma resize_table_ok:
  assumes "resize junk n = Inr m"
  shows "table_ok hash m" and "Marker \<notin> set (keys m)"
proof -
  obtain c where c: "bit_ceil n = Inr c" using assms by (auto simp: resize_def bind_result_eq_Inr)
  let ?nb = "if sint MIN_NBUCKETS < sint c then c else MIN_NBUCKETS"
  have m: "m = \<lparr>nbuckets = ?nb, keys = replicate (unat ?nb) Null,
      key_sizes = map junk [0..<unat ?nb], vals = replicate (unat ?nb) None\<rparr>"
    using assms c by (simp add: resize_def Let_def)
  have "good_size MIN_NBUCKETS" using good_sizeI [of 11] by (simp add: MIN_NBUCKETS_def)
  then have "good_size ?nb" using resize_size [OF c] by simp
  then show "table_ok hash m" and "Marker \<notin> set (keys m)"
    unfolding m by (simp_all add: table_ok_def)
qed

subsection \<open>insert by one thread\<close>

lemma unat_of_nat_u32: "n < 2 ^ 32 \<Longrightarrow> unat (of_nat n :: u32) = n"
  by (simp add: unsigned_of_nat take_bit_nat_eq_self)

lemma insert_loop_spec:
  assumes "table_ok hash m" and "Marker \<notin> set (keys m)" and "length key < 2 ^ 32"
    and "n + r = MAX_RETRY" and "at_probe hash m key idx r"
    and "insert_loop n m idx key val = Some (res, new, m')"
  shows "table_ok hash m' \<and> nbuckets m' = nbuckets m \<and>
    (case res of None \<Rightarrow> \<not> new \<and> m' = m
     | Some i \<Rightarrow> i < unat (nbuckets m) \<and> keys m' ! i = Key key \<and>
         (if new then (\<forall>j<unat (nbuckets m). keys m ! j \<noteq> Key key) \<and> vals m' ! i = Some val \<and>
                      keys m' = (keys m)[i := Key key]
          else m' = m))"
  using assms(4-6)
proof (induction n arbitrary: r idx)
  case 0
  then show ?case using assms(1) by simp
next
  case (Suc n)
  have r: "r < MAX_RETRY" using Suc.prems(1) by simp
  have good: "good_size (nbuckets m)" using assms(1) by (simp add: table_ok_def)
  have idx: "idx = probe (nbuckets m) (hash key) r" using Suc.prems(2) by (simp add: at_probe_def)
  have lt: "unat idx < unat (nbuckets m)" unfolding idx by (rule probe_less [OF good])
  show ?case
  proof (cases "keys m ! unat idx")
    case Null
    let ?m = "fill_slot m (unat idx) key val"
    from Null Suc.prems(3) have res: "res = Some (unat idx)" "new" "m' = ?m" by auto
    have ev: "evolve (unat idx) m ?m" by (rule fill_slot_evolve) (simp add: Null)
    have len: "unat idx < length (keys m)" "unat idx < length (vals m)"
      "unat idx < length (key_sizes m)" using lt assms(1) by (simp_all add: table_ok_def)
    have "slot_ok hash ?m (unat idx) key"
      using evolve_at_probe [OF ev Suc.prems(2)] r len assms(3)
      by (auto simp: slot_ok_def fill_slot_def unat_of_nat_u32)
    then have tab: "table_ok hash ?m"
      by (intro evolve_table_ok [OF ev assms(1)]) (use len in \<open>auto simp: fill_slot_def\<close>)
    have "keys m ! j \<noteq> Key key" if j: "j < unat (nbuckets m)" for j
    proof
      assume kj: "keys m ! j = Key key"
      then have "j \<noteq> unat idx" using Null by auto
      then have "keys ?m ! j = Key key" using kj by (simp add: fill_slot_def)
      moreover have "keys ?m ! unat idx = Key key" using len by (simp add: fill_slot_def)
      ultimately have "j = unat idx"
        using keys_unique [OF tab, of j "unat idx" key] j lt by (simp add: fill_slot_def)
      with \<open>j \<noteq> unat idx\<close> show False by simp
    qed
    with tab res len lt show ?thesis by (simp add: fill_slot_def)
  next
    case Marker
    then have "Marker \<in> set (keys m)" using lt assms(1) by (metis nth_mem table_ok_def)
    with assms(2) show ?thesis by simp
  next
    case (Key ptr)
    note sk = same_key_iff [OF assms(1) lt Key]
    show ?thesis
    proof (cases "ptr = key")
      case True
      with Key sk Suc.prems(3) have "res = Some (unat idx)" "\<not> new" "m' = m" by simp_all
      with True Key lt assms(1) show ?thesis by simp
    next
      case False
      have "passed hash m key (Suc r)"
        using Suc.prems(2) False Key by (auto simp: at_probe_def passed_def less_Suc_eq)
      then have "at_probe hash m key (next_idx (nbuckets m) idx) (Suc r)"
        by (simp add: at_probe_def idx)
      with Suc.IH [of "Suc r"] Suc.prems Key False sk show ?thesis by simp
    qed
  qed
qed

lemma insert_loop_returns:
  assumes "table_ok hash m" and "Marker \<notin> set (keys m)"
  shows "\<exists>res new m'. insert_loop n m (probe (nbuckets m) h r) key val = Some (res, new, m')"
proof (induction n arbitrary: r)
  case (Suc n)
  have "unat (probe (nbuckets m) h r) < length (keys m)"
    using assms(1) by (simp add: table_ok_def probe_less)
  then have "keys m ! unat (probe (nbuckets m) h r) \<noteq> Marker"
    using assms(2) nth_mem by metis
  with Suc [of "Suc r"] show ?case by (auto split: slot.splits)
qed auto

text \<open>
  on a table without markers, \<open>insert\<close> always returns. It returns the null pointer only
  if it gave up after \<open>MAX_RETRY\<close> probes, without changing the table; otherwise it returns the one slot
  that holds the key: freshly filled with the value if no slot held the key before, or the
  existing one with the table unchanged. The table's invariant is kept.
\<close>

theorem insert_uniquifies:
  assumes "table_ok hash m" and "Marker \<notin> set (keys m)" and "length key < 2 ^ 32"
  shows "\<exists>res new m'. insert_key m key (hash key) val = Some (res, new, m') \<and>
    table_ok hash m' \<and>
    (case res of None \<Rightarrow> \<not> new \<and> m' = m
     | Some i \<Rightarrow> i < unat (nbuckets m) \<and> keys m' ! i = Key key \<and>
         (\<forall>j<unat (nbuckets m). keys m' ! j = Key key \<longrightarrow> j = i) \<and>
         (if new then (\<forall>j<unat (nbuckets m). keys m ! j \<noteq> Key key) \<and> vals m' ! i = Some val \<and>
                      keys m' = (keys m)[i := Key key]
          else m' = m))"
proof (cases "keys m = []")
  case True
  with assms(1) show ?thesis
    by (intro exI [of _ None] exI [of _ False] exI [of _ m]) (simp add: insert_key_def)
next
  case False
  obtain res new m' where
    run: "insert_loop MAX_RETRY m (first_idx (nbuckets m) (hash key)) key val = Some (res, new, m')"
    using insert_loop_returns [OF assms(1,2), of MAX_RETRY "hash key" 0 key val] by auto
  have "at_probe hash m key (first_idx (nbuckets m) (hash key)) 0"
    by (simp add: at_probe_def passed_def)
  from insert_loop_spec [OF assms _ this run]
  have spec: "table_ok hash m'" "nbuckets m' = nbuckets m"
    "case res of None \<Rightarrow> \<not> new \<and> m' = m
     | Some i \<Rightarrow> i < unat (nbuckets m) \<and> keys m' ! i = Key key \<and>
         (if new then (\<forall>j<unat (nbuckets m). keys m ! j \<noteq> Key key) \<and> vals m' ! i = Some val \<and>
                      keys m' = (keys m)[i := Key key] else m' = m)" by simp_all
  have "j = i" if "res = Some i" "j < unat (nbuckets m)" "keys m' ! j = Key key" for i j
    using keys_unique [OF spec(1), of j i key] that spec(2,3) by simp
  with run spec False show ?thesis
    by (intro exI [of _ res] exI [of _ new] exI [of _ m'])
      (auto simp: insert_key_def split: option.splits)
qed

definition empty_2048 :: "nat cmap" where
  "empty_2048 = \<lparr>nbuckets = 2048, keys = replicate 2048 Null, key_sizes = replicate 2048 0,
                 vals = replicate 2048 None\<rparr>"

lemma empty_2048_ok: "table_ok hash empty_2048"
proof -
  have "good_size 2048" using good_sizeI [of 11] by simp
  then show ?thesis by (simp add: table_ok_def empty_2048_def)
qed

theorem insert_uniquifies_witness:
  "\<exists>res new m'. insert_key empty_2048 [97] ((\<lambda>k. of_nat (length k)) [97 :: u8]) 5 = Some (res, new, m') \<and>
     table_ok (\<lambda>k. of_nat (length k)) m'"
proof -
  have "Marker \<notin> set (keys empty_2048)" by (simp add: empty_2048_def)
  then show ?thesis
    using insert_uniquifies [OF empty_2048_ok, of "[97]" "\<lambda>k. of_nat (length k)" 5] by auto
qed

subsection \<open>insert by many threads\<close>

text \<open>
  A thread's program counter, named after the action it performs next: the load of
  \<^verbatim>\<open>keys[idx]\<close>, the compare-and-swap, the construction of the value, the write of the key
  size, the release store of the key.
\<close>

datatype pc =
    Load u64 nat
  | Cas u64 nat
  | WriteVal u64
  | WriteSize u64
  | StoreKey u64
  | Done "nat option" bool

record 'v thread =
  tkey :: bytes
  tval :: 'v
  tpc :: pc

record 'v sys =
  table :: "'v cmap"
  thr :: "nat \<Rightarrow> 'v thread option"

definition goto :: "'v sys \<Rightarrow> nat \<Rightarrow> 'v thread \<Rightarrow> pc \<Rightarrow> 'v sys" where
  "goto s t th p = s\<lparr>thr := (thr s)(t \<mapsto> th\<lparr>tpc := p\<rparr>)\<rparr>"

inductive cm_step :: "(bytes \<Rightarrow> u64) \<Rightarrow> 'v sys \<Rightarrow> 'v sys \<Rightarrow> bool" for hash where
  spawn: "thr s t = None \<Longrightarrow> length key < 2 ^ 32 \<Longrightarrow>
    cm_step hash s (s\<lparr>thr := (thr s)(t \<mapsto> \<lparr>tkey = key, tval = val,
      tpc = Load (first_idx (nbuckets (table s)) (hash key)) 0\<rparr>)\<rparr>)"
| full: "thr s t = Some th \<Longrightarrow> tpc th = Load idx r \<Longrightarrow> MAX_RETRY \<le> r \<Longrightarrow>
    cm_step hash s (goto s t th (Done None False))"
| spin: "thr s t = Some th \<Longrightarrow> tpc th = Load idx r \<Longrightarrow> r < MAX_RETRY \<Longrightarrow>
    keys (table s) ! unat idx = Marker \<Longrightarrow> cm_step hash s s"
| load_null: "thr s t = Some th \<Longrightarrow> tpc th = Load idx r \<Longrightarrow> r < MAX_RETRY \<Longrightarrow>
    keys (table s) ! unat idx = Null \<Longrightarrow> cm_step hash s (goto s t th (Cas idx r))"
| load_same: "thr s t = Some th \<Longrightarrow> tpc th = Load idx r \<Longrightarrow> r < MAX_RETRY \<Longrightarrow>
    keys (table s) ! unat idx = Key ptr \<Longrightarrow> same_key (table s) (unat idx) ptr (tkey th) \<Longrightarrow>
    cm_step hash s (goto s t th (Done (Some (unat idx)) False))"
| load_other: "thr s t = Some th \<Longrightarrow> tpc th = Load idx r \<Longrightarrow> r < MAX_RETRY \<Longrightarrow>
    keys (table s) ! unat idx = Key ptr \<Longrightarrow> \<not> same_key (table s) (unat idx) ptr (tkey th) \<Longrightarrow>
    cm_step hash s (goto s t th (Load (next_idx (nbuckets (table s)) idx) (Suc r)))"
| cas_ok: "thr s t = Some th \<Longrightarrow> tpc th = Cas idx r \<Longrightarrow> keys (table s) ! unat idx = Null \<Longrightarrow>
    cm_step hash s (goto (s\<lparr>table := (table s)\<lparr>keys := (keys (table s))[unat idx := Marker]\<rparr>\<rparr>)
      t th (WriteVal idx))"
| cas_fail: "thr s t = Some th \<Longrightarrow> tpc th = Cas idx r \<Longrightarrow>
    cm_step hash s (goto s t th (Load idx r))"
| write_val: "thr s t = Some th \<Longrightarrow> tpc th = WriteVal idx \<Longrightarrow>
    cm_step hash s (goto (s\<lparr>table := (table s)\<lparr>vals := (vals (table s))[unat idx := Some (tval th)]\<rparr>\<rparr>)
      t th (WriteSize idx))"
| write_size: "thr s t = Some th \<Longrightarrow> tpc th = WriteSize idx \<Longrightarrow>
    cm_step hash s (goto (s\<lparr>table := (table s)\<lparr>key_sizes :=
        (key_sizes (table s))[unat idx := of_nat (length (tkey th))]\<rparr>\<rparr>) t th (StoreKey idx))"
| store_key: "thr s t = Some th \<Longrightarrow> tpc th = StoreKey idx \<Longrightarrow>
    cm_step hash s (goto (s\<lparr>table := (table s)\<lparr>keys := (keys (table s))[unat idx := Key (tkey th)]\<rparr>\<rparr>)
      t th (Done (Some (unat idx)) True))"

inductive cm_reach :: "(bytes \<Rightarrow> u64) \<Rightarrow> 'v cmap \<Rightarrow> 'v sys \<Rightarrow> bool" for hash m where
  init: "cm_reach hash m \<lparr>table = m, thr = (\<lambda>_. None)\<rparr>"
| more: "cm_reach hash m s \<Longrightarrow> cm_step hash s s' \<Longrightarrow> cm_reach hash m s'"

text \<open>The slot a thread is filling or has filled.\<close>

fun claim :: "pc \<Rightarrow> nat option" where
  "claim (WriteVal idx) = Some (unat idx)"
| "claim (WriteSize idx) = Some (unat idx)"
| "claim (StoreKey idx) = Some (unat idx)"
| "claim (Done (Some i) True) = Some i"
| "claim _ = None"

definition owns :: "(bytes \<Rightarrow> u64) \<Rightarrow> 'v cmap \<Rightarrow> bytes \<Rightarrow> u64 \<Rightarrow> bool" where
  "owns hash m key idx \<longleftrightarrow> (\<exists>r<MAX_RETRY. at_probe hash m key idx r) \<and>
     unat idx < unat (nbuckets m) \<and> keys m ! unat idx = Marker"

fun pc_ok :: "(bytes \<Rightarrow> u64) \<Rightarrow> 'v cmap \<Rightarrow> bytes \<Rightarrow> 'v \<Rightarrow> pc \<Rightarrow> bool" where
  "pc_ok hash m key val (Load idx r) = at_probe hash m key idx r"
| "pc_ok hash m key val (Cas idx r) = (at_probe hash m key idx r \<and> r < MAX_RETRY)"
| "pc_ok hash m key val (WriteVal idx) = owns hash m key idx"
| "pc_ok hash m key val (WriteSize idx) = (owns hash m key idx \<and> vals m ! unat idx = Some val)"
| "pc_ok hash m key val (StoreKey idx) =
     (owns hash m key idx \<and> vals m ! unat idx = Some val \<and>
      unat (key_sizes m ! unat idx) = length key)"
| "pc_ok hash m key val (Done None b) = (\<not> b)"
| "pc_ok hash m key val (Done (Some i) b) =
     (i < unat (nbuckets m) \<and> keys m ! i = Key key \<and> (b \<longrightarrow> vals m ! i = Some val))"

definition thread_ok :: "(bytes \<Rightarrow> u64) \<Rightarrow> 'v cmap \<Rightarrow> 'v thread \<Rightarrow> bool" where
  "thread_ok hash m th \<longleftrightarrow> length (tkey th) < 2 ^ 32 \<and> pc_ok hash m (tkey th) (tval th) (tpc th)"

definition cm_inv :: "(bytes \<Rightarrow> u64) \<Rightarrow> 'v sys \<Rightarrow> bool" where
  "cm_inv hash s \<longleftrightarrow> table_ok hash (table s) \<and>
     (\<forall>t th. thr s t = Some th \<longrightarrow> thread_ok hash (table s) th) \<and>
     (\<forall>t t' a b i. t \<noteq> t' \<longrightarrow> thr s t = Some a \<longrightarrow> thr s t' = Some b \<longrightarrow>
        claim (tpc a) = Some i \<longrightarrow> claim (tpc b) \<noteq> Some i)"

lemma claim_not_key:
  assumes "table_ok hash m" and "pc_ok hash m key val p" and "claim p = Some i"
  shows "i < unat (nbuckets m) \<and> keys m ! i \<noteq> Null"
  using assms by (cases p rule: claim.cases) (auto simp: owns_def)

lemma evolve_owns:
  "evolve i m m' \<Longrightarrow> unat idx \<noteq> i \<Longrightarrow> owns hash m key idx \<Longrightarrow> owns hash m' key idx"
  using evolve_at_probe [of i m m' hash key idx] by (auto simp: owns_def evolve_def)

lemma evolve_pc_ok:
  assumes "evolve i m m'" and "claim p \<noteq> Some i" and "pc_ok hash m key val p"
  shows "pc_ok hash m' key val p"
proof -
  have key: "keys m ! j = Key k \<Longrightarrow> keys m' ! j = Key k \<and> vals m' ! j = vals m ! j" for j k
    using assms(1) unfolding evolve_def by metis
  have nb: "nbuckets m' = nbuckets m" using assms(1) by (simp add: evolve_def)
  have oth: "j \<noteq> i \<Longrightarrow> vals m' ! j = vals m ! j \<and> key_sizes m' ! j = key_sizes m ! j" for j
    using assms(1) unfolding evolve_def by metis
  note facts = evolve_at_probe [OF assms(1)] evolve_owns [OF assms(1)]
  show ?thesis
  proof (cases p)
    case (Done res b)
    with assms(3) key nb show ?thesis by (cases res) auto
  qed (use assms(2,3) facts oth in auto)
qed

text \<open>
  One step of a thread: the table evolves in at most one slot that the thread claims
  afterwards, and no other thread claims it.
\<close>

lemma cm_inv_goto:
  assumes inv: "cm_inv hash s" and th: "thr s t = Some th"
    and m: "evolve i (table s) m" and tab: "table_ok hash m"
    and ok: "pc_ok hash m (tkey th) (tval th) p"
    and own: "claim (tpc th) = Some i \<or> keys (table s) ! i = Null"
    and cl: "claim p = Some i"
  shows "cm_inv hash (goto (s\<lparr>table := m\<rparr>) t th p)"
proof -
  have len: "length (tkey th) < 2 ^ 32"
    using inv th by (simp add: cm_inv_def thread_ok_def)
  have other: "claim (tpc b) \<noteq> Some i" if "t' \<noteq> t" "thr s t' = Some b" for t' b
  proof
    assume c: "claim (tpc b) = Some i"
    have tb: "table_ok hash (table s)" and pb: "pc_ok hash (table s) (tkey b) (tval b) (tpc b)"
      using inv that by (auto simp: cm_inv_def thread_ok_def)
    have "keys (table s) ! i \<noteq> Null" using claim_not_key [OF tb pb c] by simp
    with own have "claim (tpc th) = Some i" by simp
    with c that th inv show False unfolding cm_inv_def by metis
  qed
  have "thread_ok hash m b" if "t' \<noteq> t" "thr s t' = Some b" for t' b
    using inv that evolve_pc_ok [OF m other [OF that]]
    by (auto simp: cm_inv_def thread_ok_def)
  then show ?thesis
    using inv tab ok len other other [OF not_sym] cl
    by (auto simp: cm_inv_def goto_def thread_ok_def split: if_splits)
qed

lemma cm_inv_goto_same:
  assumes inv: "cm_inv hash s" and th: "thr s t = Some th"
    and ok: "pc_ok hash (table s) (tkey th) (tval th) p"
    and cl: "claim p = None"
  shows "cm_inv hash (goto s t th p)"
  using assms by (auto simp: cm_inv_def goto_def thread_ok_def split: if_splits)

lemma thread_probe_less:
  assumes "table_ok hash m" and "at_probe hash m key idx r"
  shows "unat idx < unat (nbuckets m)" and "unat idx < length (keys m)"
    and "unat idx < length (vals m)" and "unat idx < length (key_sizes m)"
proof -
  show "unat idx < unat (nbuckets m)"
    using assms probe_less by (auto simp: at_probe_def table_ok_def)
  then show "unat idx < length (keys m)" "unat idx < length (vals m)"
    "unat idx < length (key_sizes m)"
    using assms(1) by (simp_all add: table_ok_def)
qed

lemma cm_inv_thread:
  "cm_inv hash s \<Longrightarrow> thr s t = Some th \<Longrightarrow> pc_ok hash (table s) (tkey th) (tval th) (tpc th)"
  "cm_inv hash s \<Longrightarrow> thr s t = Some th \<Longrightarrow> length (tkey th) < 2 ^ 32"
  "cm_inv hash s \<Longrightarrow> table_ok hash (table s)"
  by (auto simp: cm_inv_def thread_ok_def)

lemma cm_inv_fill:
  fixes s :: "'v sys"
  assumes inv: "cm_inv hash s" and th: "thr s t = Some th"
    and at: "at_probe hash (table s) (tkey th) idx r" and r: "r < MAX_RETRY"
    and m: "evolve (unat idx) (table s) m"
    and own: "claim (tpc th) = Some (unat idx) \<or> keys (table s) ! unat idx = Null"
    and key: "\<And>k. keys m ! unat idx = Key k \<Longrightarrow>
      k = tkey th \<and> unat (key_sizes m ! unat idx) = length k \<and> vals m ! unat idx = Some (tval th)"
    and ok: "pc_ok hash m (tkey th) (tval th) p" and cl: "claim p = Some (unat idx)"
  shows "cm_inv hash (goto (s\<lparr>table := m\<rparr>) t th p)"
proof -
  have "slot_ok hash m (unat idx) k" if "keys m ! unat idx = Key k" for k
    using key [OF that] evolve_at_probe [OF m at] r by (auto simp: slot_ok_def)
  then have "table_ok hash m"
    by (rule evolve_table_ok [OF m cm_inv_thread(3) [OF inv]])
  then show ?thesis by (intro cm_inv_goto [OF inv th m _ ok own cl])
qed

lemma owns_at_probe:
  assumes "owns hash m key idx"
  obtains r where "r < MAX_RETRY" and "at_probe hash m key idx r"
  using assms by (auto simp: owns_def)

lemma cm_step_inv:
  assumes "cm_step hash s s'" and inv: "cm_inv hash s"
  shows "cm_inv hash s'"
  using assms(1)
proof cases
  case (spawn t key val)
  then show ?thesis using inv
    by (auto simp: cm_inv_def thread_ok_def at_probe_def passed_def split: if_splits)
next
  case (full t th idx r)
  then show ?thesis using cm_inv_goto_same [OF inv] by simp
next
  case (spin t th idx r)
  then show ?thesis using inv by simp
next
  case (load_null t th idx r)
  then show ?thesis
    using cm_inv_goto_same [OF inv, of t th] cm_inv_thread(1) [OF inv, of t th] by simp
next
  case (load_same t th idx r ptr)
  have at: "at_probe hash (table s) (tkey th) idx r"
    using cm_inv_thread(1) [OF inv, of t th] load_same by simp
  note lt = thread_probe_less [OF cm_inv_thread(3) [OF inv] at]
  have "ptr = tkey th"
    using same_key_iff [OF cm_inv_thread(3) [OF inv] lt(1) load_same(5)] load_same(6) by simp
  then show ?thesis
    using cm_inv_goto_same [OF inv load_same(2)] load_same lt by simp
next
  case (load_other t th idx r ptr)
  have at: "at_probe hash (table s) (tkey th) idx r"
    using cm_inv_thread(1) [OF inv, of t th] load_other by simp
  note lt = thread_probe_less [OF cm_inv_thread(3) [OF inv] at]
  have ne: "ptr \<noteq> tkey th"
    using same_key_iff [OF cm_inv_thread(3) [OF inv] lt(1) load_other(5)] load_other(6) by simp
  have "passed hash (table s) (tkey th) (Suc r)"
    using at ne load_other(5) by (auto simp: at_probe_def passed_def less_Suc_eq)
  then have "at_probe hash (table s) (tkey th) (next_idx (nbuckets (table s)) idx) (Suc r)"
    using at by (simp add: at_probe_def)
  then show ?thesis
    using cm_inv_goto_same [OF inv load_other(2)] load_other(1) by simp
next
  case (cas_ok t th idx r)
  have at: "at_probe hash (table s) (tkey th) idx r" and r: "r < MAX_RETRY"
    using cm_inv_thread(1) [OF inv, of t th] cas_ok by simp_all
  note lt = thread_probe_less [OF cm_inv_thread(3) [OF inv] at]
  let ?m = "(table s)\<lparr>keys := (keys (table s))[unat idx := Marker]\<rparr>"
  have m: "evolve (unat idx) (table s) ?m" using cas_ok by (auto simp: evolve_def)
  have "owns hash ?m (tkey th) idx"
    using evolve_at_probe [OF m at] r lt by (auto simp: owns_def)
  then show ?thesis
    unfolding cas_ok(1) using lt cas_ok(4)
    by (intro cm_inv_fill [OF inv cas_ok(2) at r m]) auto
next
  case (cas_fail t th idx r)
  then show ?thesis
    using cm_inv_goto_same [OF inv, of t th] cm_inv_thread(1) [OF inv, of t th] by simp
next
  case (write_val t th idx)
  have own: "owns hash (table s) (tkey th) idx"
    using cm_inv_thread(1) [OF inv, of t th] write_val by simp
  then obtain r where at: "at_probe hash (table s) (tkey th) idx r" and r: "r < MAX_RETRY"
    by (rule owns_at_probe)
  note lt = thread_probe_less [OF cm_inv_thread(3) [OF inv] at]
  let ?m = "(table s)\<lparr>vals := (vals (table s))[unat idx := Some (tval th)]\<rparr>"
  have m: "evolve (unat idx) (table s) ?m" using own by (auto simp: evolve_def owns_def)
  have "owns hash ?m (tkey th) idx"
    using evolve_at_probe [OF m at] r own by (auto simp: owns_def)
  then show ?thesis
    unfolding write_val(1) using lt write_val(3) own
    by (intro cm_inv_fill [OF inv write_val(2) at r m]) (auto simp: owns_def)
next
  case (write_size t th idx)
  have own: "owns hash (table s) (tkey th) idx" and v: "vals (table s) ! unat idx = Some (tval th)"
    using cm_inv_thread(1) [OF inv, of t th] write_size by simp_all
  then obtain r where at: "at_probe hash (table s) (tkey th) idx r" and r: "r < MAX_RETRY"
    by (elim owns_at_probe)
  note lt = thread_probe_less [OF cm_inv_thread(3) [OF inv] at]
  let ?m = "(table s)\<lparr>key_sizes := (key_sizes (table s))[unat idx := of_nat (length (tkey th))]\<rparr>"
  have m: "evolve (unat idx) (table s) ?m" using own by (auto simp: evolve_def owns_def)
  have "owns hash ?m (tkey th) idx"
    using evolve_at_probe [OF m at] r own by (auto simp: owns_def)
  moreover have "unat (of_nat (length (tkey th)) :: u32) = length (tkey th)"
    using cm_inv_thread(2) [OF inv write_size(2)] by (rule unat_of_nat_u32)
  ultimately show ?thesis
    unfolding write_size(1) using lt write_size(3) own v
    by (intro cm_inv_fill [OF inv write_size(2) at r m]) (auto simp: owns_def)
next
  case (store_key t th idx)
  have own: "owns hash (table s) (tkey th) idx" and v: "vals (table s) ! unat idx = Some (tval th)"
    and sz: "unat (key_sizes (table s) ! unat idx) = length (tkey th)"
    using cm_inv_thread(1) [OF inv, of t th] store_key by simp_all
  then obtain r where at: "at_probe hash (table s) (tkey th) idx r" and r: "r < MAX_RETRY"
    by (elim owns_at_probe)
  note lt = thread_probe_less [OF cm_inv_thread(3) [OF inv] at]
  let ?m = "(table s)\<lparr>keys := (keys (table s))[unat idx := Key (tkey th)]\<rparr>"
  have m: "evolve (unat idx) (table s) ?m" using own by (auto simp: evolve_def owns_def)
  show ?thesis
    unfolding store_key(1) using lt store_key(3) v sz
    by (intro cm_inv_fill [OF inv store_key(2) at r m]) auto
qed

lemma cm_reach_inv: "cm_reach hash m s \<Longrightarrow> table_ok hash m \<Longrightarrow> cm_inv hash s"
proof (induction rule: cm_reach.induct)
  case init
  then show ?case by (simp add: cm_inv_def)
next
  case (more s s')
  then show ?case using cm_step_inv by blast
qed


text \<open>The interleaving in which a thread runs its call alone is the sequential \<open>insert\<close>.\<close>

lemma run_fresh:
  assumes "cm_reach hash m s" and "thr s t = None" and "length key < 2 ^ 32"
    and "i = unat (first_idx (nbuckets (table s)) (hash key))"
    and "keys (table s) ! i = Null"
  shows "cm_reach hash m (s\<lparr>table := fill_slot (table s) i key val,
           thr := (thr s)(t \<mapsto> \<lparr>tkey = key, tval = val, tpc = Done (Some i) True\<rparr>)\<rparr>)"
proof -
  let ?x = "first_idx (nbuckets (table s)) (hash key)"
  let ?th = "\<lambda>p. \<lparr>tkey = key, tval = val, tpc = p\<rparr>"
  let ?s = "\<lambda>m p. s\<lparr>table := m, thr := (thr s)(t \<mapsto> ?th p)\<rparr>"
  have go: "goto (s\<lparr>table := m', thr := (thr s)(t \<mapsto> ?th q)\<rparr>) t (?th q) p = ?s m' p"
    for m' p q by (simp add: goto_def)
  have "cm_reach hash m (?s (table s) (Load ?x 0))"
    using cm_reach.more [OF assms(1) cm_step.spawn [OF assms(2,3), of hash val]] by simp
  from cm_reach.more [OF this cm_step.load_null [where t = t and th = "?th (Load ?x 0)"]]
  have "cm_reach hash m (?s (table s) (Cas ?x 0))"
    using assms(4,5) by (simp add: goto_def MAX_RETRY_def)
  from cm_reach.more [OF this cm_step.cas_ok [where t = t and th = "?th (Cas ?x 0)"]]
  have "cm_reach hash m (?s ((table s)\<lparr>keys := (keys (table s))[i := Marker]\<rparr>) (WriteVal ?x))"
    using assms(4,5) by (simp add: goto_def)
  from cm_reach.more [OF this cm_step.write_val [where t = t and th = "?th (WriteVal ?x)"]]
  have "cm_reach hash m (?s ((table s)\<lparr>keys := (keys (table s))[i := Marker],
      vals := (vals (table s))[i := Some val]\<rparr>) (WriteSize ?x))"
    using assms(4) by (simp add: goto_def)
  from cm_reach.more [OF this cm_step.write_size [where t = t and th = "?th (WriteSize ?x)"]]
  have "cm_reach hash m (?s ((table s)\<lparr>keys := (keys (table s))[i := Marker],
      vals := (vals (table s))[i := Some val],
      key_sizes := (key_sizes (table s))[i := of_nat (length key)]\<rparr>) (StoreKey ?x))"
    using assms(4) by (simp add: goto_def)
  from cm_reach.more [OF this cm_step.store_key [where t = t and th = "?th (StoreKey ?x)"]]
  show ?thesis
    using assms(4) by (simp add: goto_def fill_slot_def)
qed

lemma run_found:
  assumes "cm_reach hash m s" and "thr s t = None" and "length key < 2 ^ 32"
    and "i = unat (first_idx (nbuckets (table s)) (hash key))"
    and "keys (table s) ! i = Key ptr" and "same_key (table s) i ptr key"
  shows "cm_reach hash m (s\<lparr>thr := (thr s)(t \<mapsto> \<lparr>tkey = key, tval = val,
           tpc = Done (Some i) False\<rparr>)\<rparr>)"
proof -
  let ?x = "first_idx (nbuckets (table s)) (hash key)"
  let ?th = "\<lambda>p. \<lparr>tkey = key, tval = val, tpc = p\<rparr>"
  have "cm_reach hash m (s\<lparr>thr := (thr s)(t \<mapsto> ?th (Load ?x 0))\<rparr>)"
    using cm_reach.more [OF assms(1) cm_step.spawn [OF assms(2,3), of hash val]] by simp
  from cm_reach.more [OF this cm_step.load_same [where t = t and th = "?th (Load ?x 0)"
        and idx = ?x and r = 0 and ptr = ptr]]
  show ?thesis using assms(4-6) by (simp add: goto_def MAX_RETRY_def)
qed


end
