(* ===== verification/Glob.thy ===== *)
theory Glob
  imports Prelude
begin

text \<open>
  The class \<^verbatim>\<open>Glob\<close> of \<^verbatim>\<open>src/common/common.h\<close> and \<^verbatim>\<open>src/common/glob.cc\<close>: \<open>compile\<close>
  turns a pattern into a list of elements or rejects it, \<open>do_match\<close> matches a string, with the
  fast path for a star before a literal. The reference is the language of an element list.
  \<^verbatim>\<open>std::bitset\<close> is indexed with a plain (signed) \<^verbatim>\<open>char\<close>: a byte from 128 on is an index out
  of range, which the model makes a failure.
\<close>

subsection \<open>Elements\<close>

datatype element = STRING bytes | STAR | QUESTION | BRACKET "u8 \<Rightarrow> bool"

abbreviation (input) chr :: "char \<Rightarrow> u8" where "chr c \<equiv> of_char c"

definition set_range :: "(u8 \<Rightarrow> bool) \<Rightarrow> u8 \<Rightarrow> u8 \<Rightarrow> u8 \<Rightarrow> bool" where
  "set_range bitset start stop = (\<lambda>i. (start \<le> i \<and> i \<le> stop) \<or> bitset i)"

subsection \<open>compile\<close>

text \<open>
  One item of a bracket expression: a character, possibly escaped, or a range of two such. The
  result is the range and the rest of the pattern; \<open>None\<close> is a rejected pattern
  (\<^verbatim>\<open>return {}\<close>).
\<close>

definition bracket_item :: "bytes \<Rightarrow> (u8 \<times> u8 \<times> bytes) option" where
  "bracket_item pat =
     (let pat1 = (if hd pat = chr CHR 0x5C then tl pat else pat) in
      if pat1 = [] then None
      else if 3 \<le> length pat1 \<and> pat1 ! 1 = chr CHR ''-'' then
        let start = pat1 ! 0; pat2 = drop 3 pat1 in
        if pat1 ! 2 = chr CHR 0x5C then
          (if pat2 = [] then None
           else if hd pat2 < start then None else Some (start, hd pat2, tl pat2))
        else if pat1 ! 2 < start then None else Some (start, pat1 ! 2, pat2)
      else Some (pat1 ! 0, pat1 ! 0, drop 1 pat1))"

lemma bracket_item_length:
  "bracket_item pat = Some (lo, hi, rest) \<Longrightarrow> pat \<noteq> [] \<Longrightarrow> length rest < length pat"
  by (cases pat) (auto simp: bracket_item_def Let_def split: if_splits)

text \<open>The loop over a bracket expression up to its closing bracket.\<close>

function bracket_loop :: "(u8 \<Rightarrow> bool) \<Rightarrow> bytes \<Rightarrow> ((u8 \<Rightarrow> bool) \<times> bytes) option" where
  "bracket_loop bitset pat =
     (if pat = [] then None
      else if hd pat = chr CHR '']'' then Some (bitset, tl pat)
      else case bracket_item pat of
             None \<Rightarrow> None
           | Some (lo, hi, rest) \<Rightarrow> bracket_loop (set_range bitset lo hi) rest)"
  by pat_completeness auto
termination
  by (relation "measure (\<lambda>(b, p). length p)") (auto dest: bracket_item_length)

declare bracket_loop.simps [simp del]

lemma bracket_loop_length: "bracket_loop b pat = Some (b', rest) \<Longrightarrow> length rest < length pat"
proof (induction b pat rule: bracket_loop.induct)
  case (1 b pat)
  show ?case
  proof (cases "pat = [] \<or> hd pat = chr CHR '']''")
    case True
    with "1.prems" show ?thesis by (cases pat) (auto simp: bracket_loop.simps)
  next
    case False
    with "1.prems" obtain lo hi r where it: "bracket_item pat = Some (lo, hi, r)"
      and r: "bracket_loop (set_range b lo hi) r = Some (b', rest)"
      by (auto simp: bracket_loop.simps [of b pat] split: option.splits)
    from "1.IH" False it r have "length rest < length r" by auto
    with bracket_item_length [OF it] False show ?thesis by simp
  qed
qed

fun add_char :: "element list \<Rightarrow> u8 \<Rightarrow> element list" where
  "add_char vec c =
     (case rev vec of
        STRING s # es \<Rightarrow> rev es @ [STRING (s @ [c])]
      | _ \<Rightarrow> vec @ [STRING [c]])"

function compile_loop :: "element list \<Rightarrow> bytes \<Rightarrow> element list option" where
  "compile_loop vec [] = Some vec"
| "compile_loop vec (c # pat) =
     (if c = chr CHR ''['' then
        let negate = (pat \<noteq> [] \<and> hd pat = chr CHR ''^'');
            pat1 = (if negate then tl pat else pat)
        in case bracket_loop (\<lambda>_. False) pat1 of
             None \<Rightarrow> None
           | Some (bitset, rest) \<Rightarrow>
               compile_loop (vec @ [BRACKET (if negate then (\<lambda>i. \<not> bitset i) else bitset)]) rest
      else if c = chr CHR ''?'' then compile_loop (vec @ [QUESTION]) pat
      else if c = chr CHR ''*'' then compile_loop (vec @ [STAR]) pat
      else compile_loop (add_char vec c) pat)"
  by pat_completeness auto
termination
  by (relation "measure (\<lambda>(v, p). length p)")
    (auto dest!: bracket_loop_length split: if_splits simp: less_Suc_eq_le)

definition compile :: "bytes \<Rightarrow> element list option" where
  "compile pat = compile_loop [] pat"

subsection \<open>match\<close>

definition or_else :: "bool result \<Rightarrow> bool result \<Rightarrow> bool result" where
  "or_else a b = (case a of Inl e \<Rightarrow> Inl e | Inr True \<Rightarrow> Inr True | Inr False \<Rightarrow> b)"

definition bitset_get :: "(u8 \<Rightarrow> bool) \<Rightarrow> u8 \<Rightarrow> bool result" where
  "bitset_get bitset c = (if 128 \<le> c then Inl Undefined else Inr (bitset c))"

text \<open>
  \<open>star_string\<close> is the loop that tries every occurrence of the literal after a star,
  \<open>star_other\<close> the loop that tries every position before the end of the string.
\<close>

function do_match :: "bytes \<Rightarrow> element list \<Rightarrow> bool result"
  and star_string :: "bytes \<Rightarrow> bytes \<Rightarrow> element list \<Rightarrow> bool result"
  and star_other :: "bytes \<Rightarrow> element list \<Rightarrow> bool result" where
  "do_match s [] = Inr (s = [])"
| "do_match s (STRING lit # es) =
     (if s = [] \<or> \<not> starts_with s lit then Inr False else do_match (drop (length lit) s) es)"
| "do_match s (STAR # es) =
     (case es of
        [] \<Rightarrow> Inr True
      | STRING lit # es' \<Rightarrow> star_string s lit es'
      | _ \<Rightarrow> star_other s es)"
| "do_match s (QUESTION # es) = (if s = [] then Inr False else do_match (tl s) es)"
| "do_match s (BRACKET b # es) =
     (if s = [] then Inr False
      else bind_result (bitset_get b (hd s)) (\<lambda>hit.
             if hit then do_match (tl s) es else Inr False))"
| "star_string s lit es =
     (case find_sub s lit of
        None \<Rightarrow> Inr False
      | Some pos \<Rightarrow>
          or_else (do_match (drop (pos + length lit) s) es)
            (if length s < pos + 1 then Inl OutOfBounds
             else star_string (drop (pos + 1) s) lit es))"
| "star_other s es =
     (case s of [] \<Rightarrow> Inr False | c # cs \<Rightarrow> or_else (do_match s es) (star_other cs es))"
  by pat_completeness auto
termination
  by (relation "measures [\<lambda>x. case x of Inl (s, es) \<Rightarrow> length es
        | Inr (Inl (s, lit, es)) \<Rightarrow> length es | Inr (Inr (s, es)) \<Rightarrow> length es,
      \<lambda>x. case x of Inl _ \<Rightarrow> 0 | Inr _ \<Rightarrow> 1,
      \<lambda>x. case x of Inl (s, es) \<Rightarrow> length s
        | Inr (Inl (s, lit, es)) \<Rightarrow> length s | Inr (Inr (s, es)) \<Rightarrow> length s]") auto

declare star_string.simps [simp del] star_other.simps [simp del]

definition match :: "element list \<Rightarrow> bytes \<Rightarrow> bool result" where
  "match elements s = do_match s elements"

subsection \<open>The language of a pattern\<close>

fun glob_lang :: "element list \<Rightarrow> bytes \<Rightarrow> bool" where
  "glob_lang [] w \<longleftrightarrow> w = []"
| "glob_lang (STRING lit # es) w \<longleftrightarrow> (\<exists>v. w = lit @ v \<and> glob_lang es v)"
| "glob_lang (STAR # es) w \<longleftrightarrow> (\<exists>u v. w = u @ v \<and> glob_lang es v)"
| "glob_lang (QUESTION # es) w \<longleftrightarrow> (\<exists>c v. w = c # v \<and> glob_lang es v)"
| "glob_lang (BRACKET b # es) w \<longleftrightarrow> (\<exists>c v. w = c # v \<and> b c \<and> glob_lang es v)"

definition lits_ok :: "element list \<Rightarrow> bool" where
  "lits_ok es \<longleftrightarrow> STRING [] \<notin> set es"

fun no_star_star :: "element list \<Rightarrow> bool" where
  "no_star_star (STAR # STAR # es) = False"
| "no_star_star (e # es) = no_star_star es"
| "no_star_star [] = True"

definition ascii :: "bytes \<Rightarrow> bool" where
  "ascii w \<longleftrightarrow> (\<forall>c\<in>set w. c < 128)"

lemma glob_lang_STAR: "glob_lang (STAR # es) w \<longleftrightarrow> (\<exists>j\<le>length w. glob_lang es (drop j w))"
proof
  assume "glob_lang (STAR # es) w"
  then obtain u v where "w = u @ v" "glob_lang es v" by auto
  then have "length u \<le> length w \<and> glob_lang es (drop (length u) w)" by simp
  then show "\<exists>j\<le>length w. glob_lang es (drop j w)" by blast
next
  assume "\<exists>j\<le>length w. glob_lang es (drop j w)"
  then obtain j where "glob_lang es (drop j w)" by blast
  moreover have "w = take j w @ drop j w" by simp
  ultimately show "glob_lang (STAR # es) w" unfolding glob_lang.simps by blast
qed

text \<open>A star and a literal: the literal occurs somewhere and the rest matches behind it.\<close>

abbreviation (input) lit_at :: "bytes \<Rightarrow> element list \<Rightarrow> bytes \<Rightarrow> nat \<Rightarrow> bool" where
  "lit_at lit es s j \<equiv> starts_with (drop j s) lit \<and> glob_lang es (drop (j + length lit) s)"

lemma glob_lang_STRING:
  "glob_lang (STRING lit # es) w \<longleftrightarrow> starts_with w lit \<and> glob_lang es (drop (length lit) w)"
  by (auto simp: starts_with_iff)

lemma glob_lang_STAR_STRING:
  "lit \<noteq> [] \<Longrightarrow> glob_lang (STAR # STRING lit # es) s \<longleftrightarrow> (\<exists>j. lit_at lit es s j)"
proof -
  assume lit: "lit \<noteq> []"
  have "j \<le> length s" if "starts_with (drop j s) lit" for j
    using starts_with_length [OF that] lit by (cases "j \<le> length s") auto
  then show ?thesis
    unfolding glob_lang_STAR glob_lang_STRING by (auto simp: add.commute)
qed

lemma ascii_drop: "ascii w \<Longrightarrow> ascii (drop n w)"
  by (auto simp: ascii_def dest: in_set_dropD)

lemma ascii_tl: "ascii w \<Longrightarrow> ascii (tl w)"
  using ascii_drop [of w 1] by (simp add: drop_Suc)

lemma no_star_star_tl: "no_star_star (e # es) \<Longrightarrow> no_star_star es"
  by (cases es; cases e) (auto elim: no_star_star.elims)

text \<open>What a result \<open>r\<close> of a matcher tells about the language condition \<open>L\<close>.\<close>

definition decides :: "bool result \<Rightarrow> bool \<Rightarrow> bool \<Rightarrow> bool" where
  "decides r complete L \<longleftrightarrow> (\<exists>b. r = Inr b \<and> (b \<longrightarrow> L) \<and> (complete \<longrightarrow> L \<longrightarrow> b))"

lemma decides_Inr [simp]: "decides (Inr b) c L \<longleftrightarrow> (b \<longrightarrow> L) \<and> (c \<longrightarrow> L \<longrightarrow> b)"
  by (auto simp: decides_def)

lemma decides_or_else:
  "decides r1 c L1 \<Longrightarrow> decides r2 c L2 \<Longrightarrow> decides (or_else r1 r2) c (L1 \<or> L2)"
  by (auto simp: decides_def or_else_def split: bool.splits)

lemma decides_mono:
  "decides r c L \<Longrightarrow> (c' \<Longrightarrow> c) \<Longrightarrow> (L \<Longrightarrow> L') \<Longrightarrow> (c' \<Longrightarrow> L' \<Longrightarrow> L) \<Longrightarrow> decides r c' L'"
  by (auto simp: decides_def)

lemma lit_at_split:
  assumes "starts_with (drop pos s) lit" and "\<And>j. j < pos \<Longrightarrow> \<not> starts_with (drop j s) lit"
  shows "(\<exists>j. lit_at lit es s j) \<longleftrightarrow>
    glob_lang es (drop (pos + length lit) s) \<or> (\<exists>j. lit_at lit es (drop (pos + 1) s) j)"
proof
  assume "\<exists>j. lit_at lit es s j"
  then obtain j where j: "lit_at lit es s j" by blast
  show "glob_lang es (drop (pos + length lit) s) \<or> (\<exists>j. lit_at lit es (drop (pos + 1) s) j)"
  proof (cases "j \<le> pos")
    case True
    with j assms(2) [of j] show ?thesis by (cases "j = pos") auto
  next
    case False
    then have "lit_at lit es (drop (pos + 1) s) (j - (pos + 1))"
      using j by (simp add: add.commute)
    then show ?thesis by blast
  qed
next
  assume "glob_lang es (drop (pos + length lit) s) \<or> (\<exists>j. lit_at lit es (drop (pos + 1) s) j)"
  then show "\<exists>j. lit_at lit es s j"
  proof
    assume "glob_lang es (drop (pos + length lit) s)"
    with assms(1) show ?thesis by blast
  next
    assume "\<exists>j. lit_at lit es (drop (pos + 1) s) j"
    then obtain j where "lit_at lit es (drop (pos + 1) s) j" by blast
    then have "lit_at lit es s (pos + 1 + j)" by (simp add: add.commute add.left_commute)
    then show ?thesis by blast
  qed
qed

lemma do_match_decides:
  "lits_ok es \<Longrightarrow> ascii s \<Longrightarrow> decides (do_match s es) (no_star_star es) (glob_lang es s)"
  "lit \<noteq> [] \<Longrightarrow> lits_ok es' \<Longrightarrow> ascii s' \<Longrightarrow>
     decides (star_string s' lit es') (no_star_star es')
       (\<exists>j. starts_with (drop j s') lit \<and> glob_lang es' (drop (j + length lit) s'))"
  "lits_ok es'' \<Longrightarrow> ascii s'' \<Longrightarrow>
     decides (star_other s'' es'') (no_star_star es'') (\<exists>j<length s''. glob_lang es'' (drop j s''))"
proof (induction s es and s' lit es' and s'' es''
    rule: do_match_star_string_star_other.induct)
  case (1 s)
  then show ?case by simp
next
  case (2 s lit es)
  show ?case
  proof (cases "s = [] \<or> \<not> starts_with s lit")
    case True
    with "2.prems"(1) show ?thesis by (auto simp: lits_ok_def starts_with_iff)
  next
    case False
    then have "decides (do_match (drop (length lit) s) es) (no_star_star es)
        (glob_lang es (drop (length lit) s))"
      using "2.IH" "2.prems" by (simp add: lits_ok_def ascii_drop)
    with False show ?thesis
      by (auto simp: starts_with_iff elim!: decides_mono)
  qed
next
  case (3 s es)
  show ?case
  proof (cases es)
    case Nil
    then show ?thesis by simp
  next
    case (Cons e es')
    show ?thesis
    proof (cases "\<exists>lit. e = STRING lit")
      case True
      then obtain lit where e: "e = STRING lit" by blast
      have lit: "lit \<noteq> []" "lits_ok es'" using "3.prems" Cons e by (auto simp: lits_ok_def)
      have "decides (star_string s lit es') (no_star_star es')
          (\<exists>j. starts_with (drop j s) lit \<and> glob_lang es' (drop (j + length lit) s))"
        using "3.IH"(1) [OF Cons e] lit "3.prems" by simp
      moreover have "no_star_star (STAR # es) = no_star_star es'"
        using Cons e by simp
      ultimately show ?thesis using Cons e glob_lang_STAR_STRING [OF lit(1), of es' s] by simp
    next
      case False
      then have eq: "do_match s (STAR # es) = star_other s es"
        using Cons by (cases e) auto
      have "decides (star_other s es) (no_star_star es) (\<exists>j<length s. glob_lang es (drop j s))"
        using "3.IH" Cons False "3.prems" by (cases e) (auto simp: lits_ok_def)
      then show ?thesis
        unfolding eq glob_lang_STAR
      proof (rule decides_mono)
        show "no_star_star (STAR # es) \<Longrightarrow> no_star_star es" by (rule no_star_star_tl)
        show "\<exists>j<length s. glob_lang es (drop j s) \<Longrightarrow> \<exists>j\<le>length s. glob_lang es (drop j s)"
          by (meson less_imp_le)
        assume nss: "no_star_star (STAR # es)" and "\<exists>j\<le>length s. glob_lang es (drop j s)"
        moreover have "\<not> glob_lang es []" using nss Cons False by (cases e) auto
        ultimately show "\<exists>j<length s. glob_lang es (drop j s)"
          by (metis drop_all le_neq_implies_less order_refl)
      qed
    qed
  qed
next
  case (4 s es)
  then show ?case
    by (cases s) (auto simp: lits_ok_def ascii_def)
next
  case (5 s b es)
  then show ?case
    by (cases s) (auto simp: lits_ok_def ascii_def bitset_get_def not_le)
next
  case (6 s lit es)
  show ?case
  proof (cases "find_sub s lit")
    case None
    then show ?thesis using find_sub_None [OF None] by (simp add: star_string.simps [of s])
  next
    case (Some pos)
    from find_sub_Some [OF Some] have hit: "starts_with (drop pos s) lit"
      and first: "\<And>j. j < pos \<Longrightarrow> \<not> starts_with (drop j s) lit" by auto
    have pos: "pos < length s"
      using starts_with_length [OF hit] \<open>lit \<noteq> []\<close> by (cases "pos < length s") auto
    have "decides (do_match (drop (pos + length lit) s) es) (no_star_star es)
        (glob_lang es (drop (pos + length lit) s))"
      using "6.IH"(1) [OF Some] "6.prems" by (simp add: ascii_drop)
    moreover have "decides (star_string (drop (pos + 1) s) lit es) (no_star_star es)
        (\<exists>j. lit_at lit es (drop (pos + 1) s) j)"
      using "6.IH"(2) [OF Some] "6.prems" pos by (simp add: ascii_drop)
    ultimately have "decides (star_string s lit es) (no_star_star es)
        (glob_lang es (drop (pos + length lit) s) \<or> (\<exists>j. lit_at lit es (drop (pos + 1) s) j))"
      using pos Some by (simp add: star_string.simps [of s] decides_or_else)
    moreover have "(\<exists>j. lit_at lit es s j)
        \<longleftrightarrow> glob_lang es (drop (pos + length lit) s) \<or> (\<exists>j. lit_at lit es (drop (pos + 1) s) j)"
      using hit first by (rule lit_at_split)
    ultimately show ?thesis by simp
  qed
next
  case (7 s es)
  show ?case
  proof (cases s)
    case Nil
    then show ?thesis by (simp add: star_other.simps)
  next
    case (Cons c cs)
    have "decides (or_else (do_match s es) (star_other cs es)) (no_star_star es)
        (glob_lang es s \<or> (\<exists>j<length cs. glob_lang es (drop j cs)))"
      using "7.IH" Cons "7.prems" by (intro decides_or_else) (auto simp: ascii_def)
    moreover have "(\<exists>j<length s. glob_lang es (drop j s))
        \<longleftrightarrow> glob_lang es s \<or> (\<exists>j<length cs. glob_lang es (drop j cs))"
      using Cons by (auto simp: Ex_less_Suc2)
    ultimately show ?thesis using Cons by (simp add: star_other.simps [of "c # cs"])
  qed
qed

subsection \<open>Compiled patterns\<close>

lemma lits_ok_add_char: "lits_ok vec \<Longrightarrow> lits_ok (add_char vec c)"
  by (auto simp: lits_ok_def split: list.splits element.splits)

lemma compile_loop_lits_ok: "compile_loop vec pat = Some es \<Longrightarrow> lits_ok vec \<Longrightarrow> lits_ok es"
proof (induction vec pat rule: compile_loop.induct)
  case (1 vec)
  then show ?case by simp
next
  case (2 vec c pat)
  have snoc: "lits_ok (vec @ [e])" if "e \<noteq> STRING []" for e
    using that "2.prems"(2) by (auto simp: lits_ok_def)
  show ?case
  proof (cases "c = chr CHR ''[''")
    case True
    with "2.prems"(1) show ?thesis
      using "2.IH"(1) [OF True refl refl _ refl _ snoc] by (auto simp: Let_def split: option.splits)
  next
    case False
    with "2.prems"(1) show ?thesis
      using "2.IH"(2-) [OF False] snoc [of QUESTION] snoc [of STAR] lits_ok_add_char [OF "2.prems"(2)]
      by (simp del: add_char.simps split: if_splits)
  qed
qed

lemma compile_lits_ok: "compile pat = Some es \<Longrightarrow> lits_ok es"
  using compile_loop_lits_ok [of "[]" pat es] by (simp add: compile_def lits_ok_def)

text \<open>A character that is none of the three the compiler interprets.\<close>

definition plain :: "u8 \<Rightarrow> bool" where
  "plain c \<longleftrightarrow> c \<noteq> chr CHR ''['' \<and> c \<noteq> chr CHR ''?'' \<and> c \<noteq> chr CHR ''*''"

lemma compile_loop_plain:
  "list_all plain pat \<Longrightarrow> compile_loop [STRING s] pat = Some [STRING (s @ pat)]"
  by (induction pat arbitrary: s) (simp_all add: plain_def)

lemma compile_plain:
  "list_all plain pat \<Longrightarrow> compile pat = Some (if pat = [] then [] else [STRING pat])"
  by (cases pat) (simp_all add: compile_def compile_loop_plain plain_def)

text \<open>
  C27: a compiled pattern, matched against an ASCII string, always gives an answer; the answer
  \<open>True\<close> is right for every pattern, and the answer \<open>False\<close> is right for every pattern in which
  no two stars are adjacent. The search for the literal behind a star, which the matcher uses
  instead of trying every suffix, loses no match.
\<close>

theorem glob_match_exact:
  assumes "compile pat = Some es" and "ascii s"
  shows "\<exists>b. match es s = Inr b \<and> (b \<longrightarrow> glob_lang es s) \<and> (no_star_star es \<longrightarrow> glob_lang es s \<longrightarrow> b)"
  using do_match_decides(1) [OF compile_lits_ok [OF assms(1)] assms(2)]
  by (simp add: match_def decides_def)

theorem glob_match_exact_witness:
  "\<exists>es. compile (str ''a*[b-d]?'') = Some es \<and> no_star_star es
     \<and> (match es (str ''axxcb'') = Inr True \<longleftrightarrow> glob_lang es (str ''axxcb''))"
proof -
  define es where "es = [STRING (str ''a''), STAR, BRACKET (set_range (\<lambda>_. False) 98 100), QUESTION]"
  have c: "compile (str ''a*[b-d]?'') = Some es"
    by (simp add: es_def str_def compile_def bracket_loop.simps bracket_item_def Let_def)
  have a: "ascii (str ''axxcb'')" by (simp add: ascii_def str_def)
  have n: "no_star_star es" by (simp add: es_def)
  from glob_match_exact [OF c a] n have "match es (str ''axxcb'') = Inr True \<longleftrightarrow> glob_lang es (str ''axxcb'')"
    by auto
  with c n show ?thesis by blast
qed

text \<open>
  two adjacent stars are not read as one. The general loop behind a star stops before the
  empty suffix, so \<open>a**\<close> rejects the string \<open>a\<close>, which \<open>a*\<close> accepts and which is in the
  language of both patterns.
\<close>

theorem glob_double_star:
  "compile (str ''a**'') = Some [STRING (str ''a''), STAR, STAR]
   \<and> glob_lang [STRING (str ''a''), STAR, STAR] (str ''a'')
   \<and> match [STRING (str ''a''), STAR, STAR] (str ''a'') = Inr False
   \<and> match [STRING (str ''a''), STAR] (str ''a'') = Inr True"
  by (simp add: str_def compile_def match_def star_other.simps)

text \<open>
  a pattern without \<open>[\<close>, \<open>?\<close> and \<open>*\<close> compiles and matches the string it spells and no
  other, whatever the bytes.
\<close>

theorem glob_literal:
  assumes "list_all plain pat"
  shows "\<exists>es. compile pat = Some es \<and> match es s = Inr (s = pat)"
  using compile_plain [OF assms] by (auto simp: match_def starts_with_iff)

theorem glob_literal_witness:
  "list_all plain (str ''_foo'') \<and> (\<exists>es. compile (str ''_foo'') = Some es \<and>
     match es (str ''_foo'') = Inr (str ''_foo'' = str ''_foo''))"
proof -
  have "list_all plain (str ''_foo'')" by (simp add: str_def plain_def)
  with glob_literal [of "str ''_foo''" "str ''_foo''"] show ?thesis by blast
qed

end
