(* ===== verification/BitFields.thy ===== *)
theory BitFields
  imports Integers
begin

text \<open>
  Bit fields of the structures of \<^verbatim>\<open>src/elf/elf.h\<close> and \<^verbatim>\<open>src/macho/macho.h\<close>: a list of widths and values
  that fill a word. The compilers the project supports give the first declared field the low
  bits on a little-endian host and the high bits on a big-endian host.
\<close>

fun pack_fields :: "(nat \<times> 'a::len word) list \<Rightarrow> 'a word" where
  "pack_fields [] = 0"
| "pack_fields ((w, v) # fs) = take_bit w v OR push_bit w (pack_fields fs)"

fun unpack_fields :: "nat list \<Rightarrow> 'a::len word \<Rightarrow> 'a word list" where
  "unpack_fields [] b = []"
| "unpack_fields (w # ws) b = take_bit w b # unpack_fields ws (drop_bit w b)"

definition write_fields :: "endian \<Rightarrow> (nat \<times> 'a::len word) list \<Rightarrow> 'a word" where
  "write_fields host fs = (case host of LittleHost \<Rightarrow> pack_fields fs | BigHost \<Rightarrow> pack_fields (rev fs))"

definition read_fields :: "endian \<Rightarrow> nat list \<Rightarrow> 'a::len word \<Rightarrow> 'a word list" where
  "read_fields host ws b =
     (case host of LittleHost \<Rightarrow> unpack_fields ws b | BigHost \<Rightarrow> rev (unpack_fields (rev ws) b))"

lemma bit_pack_fields: "bit (pack_fields fs) n \<Longrightarrow> n < sum_list (map fst fs)"
  by (induction fs arbitrary: n rule: pack_fields.induct) (fastforce simp: bit_simps)+

lemma unpack_pack:
  "list_all (\<lambda>(w, v). take_bit w v = v) fs \<Longrightarrow> sum_list (map fst fs) \<le> LENGTH('a) \<Longrightarrow>
     unpack_fields (map fst fs) (pack_fields fs) = map snd (fs :: (nat \<times> 'a::len word) list)"
proof (induction fs rule: pack_fields.induct)
  case (2 w v fs)
  have "take_bit w (take_bit w v OR push_bit w (pack_fields fs)) = v"
    using "2.prems"(1) by (simp add: take_bit_push_bit)
  moreover have "drop_bit w (take_bit w v OR push_bit w (pack_fields fs)) = pack_fields fs"
  proof (rule bit_word_eqI)
    fix n assume "n < LENGTH('a)"
    show "bit (drop_bit w (take_bit w v OR push_bit w (pack_fields fs))) n = bit (pack_fields fs) n"
      using bit_pack_fields [of fs n] "2.prems"(2) by (auto simp: bit_simps)
  qed
  ultimately show ?case using "2.IH" "2.prems" by simp
qed simp

lemma pack_unpack: "pack_fields (zip ws (unpack_fields ws b)) = take_bit (sum_list ws) b"
proof (induction ws arbitrary: b)
  case (Cons w ws)
  show ?case
    by (rule bit_word_eqI) (auto simp: Cons bit_simps)
qed simp

lemma length_unpack [simp]: "length (unpack_fields ws b) = length ws"
  by (induction ws arbitrary: b) simp_all

text \<open>Fields that fit and fill a word are read back on a host of the same byte order.\<close>

lemma read_write_fields:
  assumes "list_all (\<lambda>(w, v). take_bit w v = v) fs" and "sum_list (map fst fs) \<le> LENGTH('a)"
  shows "read_fields host (map fst fs) (write_fields host fs) = map snd (fs :: (nat \<times> 'a::len word) list)"
proof (cases host)
  case LittleHost
  with unpack_pack [OF assms] show ?thesis by (simp add: read_fields_def write_fields_def)
next
  case BigHost
  have "list_all (\<lambda>(w, v). take_bit w v = v) (rev fs)" using assms(1) by (simp add: list_all_iff)
  moreover have "sum_list (map fst (rev fs)) \<le> LENGTH('a)"
    using assms(2) by (simp add: sum_list_rev rev_map [symmetric])
  ultimately have "unpack_fields (map fst (rev fs)) (pack_fields (rev fs)) = map snd (rev fs)"
    by (rule unpack_pack)
  with BigHost show ?thesis by (simp add: read_fields_def write_fields_def rev_map [symmetric])
qed

lemma write_read_fields:
  assumes "sum_list ws = LENGTH('a)"
  shows "write_fields host (zip ws (read_fields host ws b)) = (b :: 'a::len word)"
proof (cases host)
  case LittleHost
  then show ?thesis
    using pack_unpack [of ws b] assms by (simp add: read_fields_def write_fields_def take_bit_word_eq_self)
next
  case BigHost
  have "rev (zip ws (rev (unpack_fields (rev ws) b))) = zip (rev ws) (unpack_fields (rev ws) b)"
    by (simp add: zip_rev [symmetric])
  moreover have "take_bit (sum_list (rev ws)) b = b"
    using assms by (simp add: sum_list_rev take_bit_word_eq_self)
  ultimately show ?thesis
    using BigHost pack_unpack [of "rev ws" b] by (simp add: read_fields_def write_fields_def)
qed

lemma read_fields_fit:
  "list_all2 (\<lambda>w v. take_bit w v = v) ws (read_fields host ws b)"
proof -
  have "list_all2 (\<lambda>w v. take_bit w v = v) ws (unpack_fields ws b)" for ws and b :: "'a::len word"
    by (induction ws arbitrary: b) simp_all
  from this [of ws b] this [of "rev ws" b] show ?thesis
    by (cases host) (simp_all add: read_fields_def list_all2_rev1)
qed

end
