(* ===== verification/Strings.thy ===== *)
theory Strings
  imports Prelude
begin

text \<open>
  Number formatting the sources use: \<^verbatim>\<open>std::to_string\<close> of an unsigned integer, and the
  \<^verbatim>\<open>%0<n>o\<close> conversion of \<^verbatim>\<open>snprintf\<close>, both as digits in a base of at most ten.
\<close>

fun digits :: "nat \<Rightarrow> nat \<Rightarrow> bytes" where
  "digits b n = (if b < 2 \<or> n < b then [48 + of_nat n] else digits b (n div b) @ [48 + of_nat (n mod b)])"

declare digits.simps [simp del]

definition to_string :: "nat \<Rightarrow> bytes" where
  "to_string n = digits 10 n"

text \<open>The value of a string of digits.\<close>

definition digits_val :: "nat \<Rightarrow> bytes \<Rightarrow> nat" where
  "digits_val b s = foldl (\<lambda>acc c. acc * b + unat (c - 48)) 0 s"

lemma unat_small: "n < 10 \<Longrightarrow> unat (of_nat n :: u8) = n"
  by (simp add: unsigned_of_nat take_bit_nat_eq_self)

lemma digits_val_snoc [simp]: "digits_val b (s @ [c]) = digits_val b s * b + unat (c - 48)"
  by (simp add: digits_val_def)

lemma digits_val_single: "n < 10 \<Longrightarrow> digits_val b [48 + of_nat n] = n"
  by (simp add: digits_val_def unat_small)

lemma digits_val_digits:
  assumes "2 \<le> b" and "b \<le> 10"
  shows "digits_val b (digits b n) = n"
proof (induction n rule: less_induct)
  case (less n)
  show ?case
  proof (cases "n < b")
    case True
    with assms show ?thesis by (simp add: digits.simps [of b n] digits_val_single)
  next
    case False
    have "n mod b < b" using assms by simp
    then have m: "n mod b < 10" using assms by linarith
    have "n div b < n" using assms False by simp
    with less [of "n div b"] False assms m show ?thesis
      by (simp add: digits.simps [of b n] unat_small)
  qed
qed

lemma to_string_inject: "to_string m = to_string n \<longleftrightarrow> m = n"
proof
  assume "to_string m = to_string n"
  then have "digits_val 10 (digits 10 m) = digits_val 10 (digits 10 n)" by (simp add: to_string_def)
  then show "m = n" by (simp add: digits_val_digits)
qed simp

lemma digits_not_Nil [simp]: "digits b n \<noteq> []"
  by (simp add: digits.simps [of b n])

text \<open>How many digits a number has.\<close>

lemma length_digits_le:
  assumes "2 \<le> b"
  shows "length (digits b n) \<le> k \<longleftrightarrow> (if k = 0 then False else n < b ^ k)"
proof (induction k arbitrary: n)
  case 0
  then show ?case by simp
next
  case (Suc k)
  show ?case
  proof (cases "n < b")
    case True
    moreover from assms have "b \<le> b ^ Suc k" by simp
    ultimately have "n < b ^ Suc k" by (rule order_less_le_trans)
    with True assms show ?thesis by (simp add: digits.simps [of b n])
  next
    case False
    with assms have "length (digits b n) \<le> Suc k \<longleftrightarrow> length (digits b (n div b)) \<le> k"
      by (simp add: digits.simps [of b n])
    also have "\<dots> \<longleftrightarrow> (if k = 0 then False else n div b < b ^ k)" by (rule Suc)
    also have "\<dots> \<longleftrightarrow> n < b ^ Suc k"
      using False assms by (auto simp: div_less_iff_less_mult mult.commute)
    finally show ?thesis by simp
  qed
qed

lemma length_digits_mono: "2 \<le> b \<Longrightarrow> m \<le> n \<Longrightarrow> length (digits b m) \<le> length (digits b n)"
  using length_digits_le [of b n "length (digits b n)"] length_digits_le [of b m "length (digits b n)"]
  by (simp split: if_splits)

end
