(* ===== verification/Elf_Consts.thy ===== *)
theory Elf_Consts
  imports Prelude
begin

text \<open>
  The constants of \<^verbatim>\<open>src/elf/elf.h\<close> that are not relocation types: section, symbol, segment, dynamic
  tag, note, machine and DWARF constants, one definition per enumerator, with a bundle of the
  defining equations per enumeration. The bit fields that hold some of them are narrower than
  32 bits; the last lemmas show that the values fit.
\<close>

definition R_NONE :: u32 where "R_NONE = 0"

definition SHN_UNDEF :: u32 where "SHN_UNDEF = 0"
definition SHN_ABS :: u32 where "SHN_ABS = 0xfff1"
definition SHN_COMMON :: u32 where "SHN_COMMON = 0xfff2"
definition SHN_LORESERVE :: u32 where "SHN_LORESERVE = 0xff00"
definition SHN_XINDEX :: u32 where "SHN_XINDEX = 0xffff"

lemmas SHN_defs =
  SHN_UNDEF_def SHN_ABS_def SHN_COMMON_def SHN_LORESERVE_def SHN_XINDEX_def

definition SHT_NULL :: u32 where "SHT_NULL = 0"
definition SHT_PROGBITS :: u32 where "SHT_PROGBITS = 1"
definition SHT_SYMTAB :: u32 where "SHT_SYMTAB = 2"
definition SHT_STRTAB :: u32 where "SHT_STRTAB = 3"
definition SHT_RELA :: u32 where "SHT_RELA = 4"
definition SHT_HASH :: u32 where "SHT_HASH = 5"
definition SHT_DYNAMIC :: u32 where "SHT_DYNAMIC = 6"
definition SHT_NOTE :: u32 where "SHT_NOTE = 7"
definition SHT_NOBITS :: u32 where "SHT_NOBITS = 8"
definition SHT_REL :: u32 where "SHT_REL = 9"
definition SHT_SHLIB :: u32 where "SHT_SHLIB = 10"
definition SHT_DYNSYM :: u32 where "SHT_DYNSYM = 11"
definition SHT_INIT_ARRAY :: u32 where "SHT_INIT_ARRAY = 14"
definition SHT_FINI_ARRAY :: u32 where "SHT_FINI_ARRAY = 15"
definition SHT_PREINIT_ARRAY :: u32 where "SHT_PREINIT_ARRAY = 16"
definition SHT_GROUP :: u32 where "SHT_GROUP = 17"
definition SHT_SYMTAB_SHNDX :: u32 where "SHT_SYMTAB_SHNDX = 18"
definition SHT_RELR :: u32 where "SHT_RELR = 19"
definition SHT_LLVM_ADDRSIG :: u32 where "SHT_LLVM_ADDRSIG = 0x6fff4c03"
definition SHT_GNU_HASH :: u32 where "SHT_GNU_HASH = 0x6ffffff6"
definition SHT_GNU_VERDEF :: u32 where "SHT_GNU_VERDEF = 0x6ffffffd"
definition SHT_GNU_VERNEED :: u32 where "SHT_GNU_VERNEED = 0x6ffffffe"
definition SHT_GNU_VERSYM :: u32 where "SHT_GNU_VERSYM = 0x6fffffff"
definition SHT_X86_64_UNWIND :: u32 where "SHT_X86_64_UNWIND = 0x70000001"
definition SHT_ARM_EXIDX :: u32 where "SHT_ARM_EXIDX = 0x70000001"
definition SHT_ARM_ATTRIBUTES :: u32 where "SHT_ARM_ATTRIBUTES = 0x70000003"

lemmas SHT_defs =
    SHT_NULL_def SHT_PROGBITS_def SHT_SYMTAB_def SHT_STRTAB_def SHT_RELA_def SHT_HASH_def
  SHT_DYNAMIC_def SHT_NOTE_def SHT_NOBITS_def SHT_REL_def SHT_SHLIB_def SHT_DYNSYM_def
  SHT_INIT_ARRAY_def SHT_FINI_ARRAY_def SHT_PREINIT_ARRAY_def SHT_GROUP_def SHT_SYMTAB_SHNDX_def
  SHT_RELR_def SHT_LLVM_ADDRSIG_def SHT_GNU_HASH_def SHT_GNU_VERDEF_def SHT_GNU_VERNEED_def
  SHT_GNU_VERSYM_def SHT_X86_64_UNWIND_def SHT_ARM_EXIDX_def SHT_ARM_ATTRIBUTES_def

definition SHF_WRITE :: u32 where "SHF_WRITE = 1"
definition SHF_ALLOC :: u32 where "SHF_ALLOC = 2"
definition SHF_EXECINSTR :: u32 where "SHF_EXECINSTR = 4"
definition SHF_MERGE :: u32 where "SHF_MERGE = 16"
definition SHF_STRINGS :: u32 where "SHF_STRINGS = 32"
definition SHF_INFO_LINK :: u32 where "SHF_INFO_LINK = 64"
definition SHF_LINK_ORDER :: u32 where "SHF_LINK_ORDER = 128"
definition SHF_GROUP :: u32 where "SHF_GROUP = 0x200"
definition SHF_TLS :: u32 where "SHF_TLS = 0x400"
definition SHF_COMPRESSED :: u32 where "SHF_COMPRESSED = 0x800"
definition SHF_GNU_RETAIN :: u32 where "SHF_GNU_RETAIN = 0x200000"
definition SHF_EXCLUDE :: u32 where "SHF_EXCLUDE = 0x80000000"

lemmas SHF_defs =
    SHF_WRITE_def SHF_ALLOC_def SHF_EXECINSTR_def SHF_MERGE_def SHF_STRINGS_def
  SHF_INFO_LINK_def SHF_LINK_ORDER_def SHF_GROUP_def SHF_TLS_def SHF_COMPRESSED_def
  SHF_GNU_RETAIN_def SHF_EXCLUDE_def

definition GRP_COMDAT :: u32 where "GRP_COMDAT = 1"

definition STT_NOTYPE :: u32 where "STT_NOTYPE = 0"
definition STT_OBJECT :: u32 where "STT_OBJECT = 1"
definition STT_FUNC :: u32 where "STT_FUNC = 2"
definition STT_SECTION :: u32 where "STT_SECTION = 3"
definition STT_FILE :: u32 where "STT_FILE = 4"
definition STT_COMMON :: u32 where "STT_COMMON = 5"
definition STT_TLS :: u32 where "STT_TLS = 6"
definition STT_GNU_IFUNC :: u32 where "STT_GNU_IFUNC = 10"
definition STT_SPARC_REGISTER :: u32 where "STT_SPARC_REGISTER = 13"

lemmas STT_defs =
    STT_NOTYPE_def STT_OBJECT_def STT_FUNC_def STT_SECTION_def STT_FILE_def STT_COMMON_def
  STT_TLS_def STT_GNU_IFUNC_def STT_SPARC_REGISTER_def

definition STB_LOCAL :: u32 where "STB_LOCAL = 0"
definition STB_GLOBAL :: u32 where "STB_GLOBAL = 1"
definition STB_WEAK :: u32 where "STB_WEAK = 2"
definition STB_GNU_UNIQUE :: u32 where "STB_GNU_UNIQUE = 10"

lemmas STB_defs =
  STB_LOCAL_def STB_GLOBAL_def STB_WEAK_def STB_GNU_UNIQUE_def

definition STV_DEFAULT :: u32 where "STV_DEFAULT = 0"
definition STV_INTERNAL :: u32 where "STV_INTERNAL = 1"
definition STV_HIDDEN :: u32 where "STV_HIDDEN = 2"
definition STV_PROTECTED :: u32 where "STV_PROTECTED = 3"

lemmas STV_defs =
  STV_DEFAULT_def STV_INTERNAL_def STV_HIDDEN_def STV_PROTECTED_def

definition VER_NDX_LOCAL :: u32 where "VER_NDX_LOCAL = 0"
definition VER_NDX_GLOBAL :: u32 where "VER_NDX_GLOBAL = 1"
definition VER_NDX_LAST_RESERVED :: u32 where "VER_NDX_LAST_RESERVED = 1"

lemmas VER_NDX_defs =
  VER_NDX_LOCAL_def VER_NDX_GLOBAL_def VER_NDX_LAST_RESERVED_def

definition VER_FLG_BASE :: u32 where "VER_FLG_BASE = 1"
definition VER_FLG_WEAK :: u32 where "VER_FLG_WEAK = 2"
definition VER_FLG_INFO :: u32 where "VER_FLG_INFO = 4"

lemmas VER_FLG_defs =
  VER_FLG_BASE_def VER_FLG_WEAK_def VER_FLG_INFO_def

definition VERSYM_HIDDEN :: u32 where "VERSYM_HIDDEN = 0x8000"

definition PT_NULL :: u32 where "PT_NULL = 0"
definition PT_LOAD :: u32 where "PT_LOAD = 1"
definition PT_DYNAMIC :: u32 where "PT_DYNAMIC = 2"
definition PT_INTERP :: u32 where "PT_INTERP = 3"
definition PT_NOTE :: u32 where "PT_NOTE = 4"
definition PT_SHLIB :: u32 where "PT_SHLIB = 5"
definition PT_PHDR :: u32 where "PT_PHDR = 6"
definition PT_TLS :: u32 where "PT_TLS = 7"
definition PT_GNU_EH_FRAME :: u32 where "PT_GNU_EH_FRAME = 0x6474e550"
definition PT_GNU_STACK :: u32 where "PT_GNU_STACK = 0x6474e551"
definition PT_GNU_RELRO :: u32 where "PT_GNU_RELRO = 0x6474e552"
definition PT_ARM_EXIDX :: u32 where "PT_ARM_EXIDX = 0x70000001"

lemmas PT_defs =
    PT_NULL_def PT_LOAD_def PT_DYNAMIC_def PT_INTERP_def PT_NOTE_def PT_SHLIB_def PT_PHDR_def
  PT_TLS_def PT_GNU_EH_FRAME_def PT_GNU_STACK_def PT_GNU_RELRO_def PT_ARM_EXIDX_def

definition PF_NONE :: u32 where "PF_NONE = 0"
definition PF_X :: u32 where "PF_X = 1"
definition PF_W :: u32 where "PF_W = 2"
definition PF_R :: u32 where "PF_R = 4"

lemmas PF_defs =
  PF_NONE_def PF_X_def PF_W_def PF_R_def

definition ET_NONE :: u32 where "ET_NONE = 0"
definition ET_REL :: u32 where "ET_REL = 1"
definition ET_EXEC :: u32 where "ET_EXEC = 2"
definition ET_DYN :: u32 where "ET_DYN = 3"

lemmas ET_defs =
  ET_NONE_def ET_REL_def ET_EXEC_def ET_DYN_def

definition ELFDATA2LSB :: u32 where "ELFDATA2LSB = 1"
definition ELFDATA2MSB :: u32 where "ELFDATA2MSB = 2"

lemmas ELFDATA_defs =
  ELFDATA2LSB_def ELFDATA2MSB_def

definition ELFCLASS32 :: u32 where "ELFCLASS32 = 1"
definition ELFCLASS64 :: u32 where "ELFCLASS64 = 2"

lemmas ELFCLASS_defs =
  ELFCLASS32_def ELFCLASS64_def

definition EV_CURRENT :: u32 where "EV_CURRENT = 1"

definition EM_NONE :: u32 where "EM_NONE = 0"
definition EM_386 :: u32 where "EM_386 = 3"
definition EM_68K :: u32 where "EM_68K = 4"
definition EM_PPC :: u32 where "EM_PPC = 20"
definition EM_PPC64 :: u32 where "EM_PPC64 = 21"
definition EM_S390X :: u32 where "EM_S390X = 22"
definition EM_ARM :: u32 where "EM_ARM = 40"
definition EM_SH :: u32 where "EM_SH = 42"
definition EM_SPARC64 :: u32 where "EM_SPARC64 = 43"
definition EM_X86_64 :: u32 where "EM_X86_64 = 62"
definition EM_AARCH64 :: u32 where "EM_AARCH64 = 183"
definition EM_RISCV :: u32 where "EM_RISCV = 243"
definition EM_ALPHA :: u32 where "EM_ALPHA = 0x9026"

lemmas EM_defs =
    EM_NONE_def EM_386_def EM_68K_def EM_PPC_def EM_PPC64_def EM_S390X_def EM_ARM_def EM_SH_def
  EM_SPARC64_def EM_X86_64_def EM_AARCH64_def EM_RISCV_def EM_ALPHA_def

definition EI_CLASS :: u32 where "EI_CLASS = 4"
definition EI_DATA :: u32 where "EI_DATA = 5"
definition EI_VERSION :: u32 where "EI_VERSION = 6"
definition EI_OSABI :: u32 where "EI_OSABI = 7"
definition EI_ABIVERSION :: u32 where "EI_ABIVERSION = 8"

lemmas EI_defs =
  EI_CLASS_def EI_DATA_def EI_VERSION_def EI_OSABI_def EI_ABIVERSION_def

definition DT_NULL :: u32 where "DT_NULL = 0"
definition DT_NEEDED :: u32 where "DT_NEEDED = 1"
definition DT_PLTRELSZ :: u32 where "DT_PLTRELSZ = 2"
definition DT_PLTGOT :: u32 where "DT_PLTGOT = 3"
definition DT_HASH :: u32 where "DT_HASH = 4"
definition DT_STRTAB :: u32 where "DT_STRTAB = 5"
definition DT_SYMTAB :: u32 where "DT_SYMTAB = 6"
definition DT_RELA :: u32 where "DT_RELA = 7"
definition DT_RELASZ :: u32 where "DT_RELASZ = 8"
definition DT_RELAENT :: u32 where "DT_RELAENT = 9"
definition DT_STRSZ :: u32 where "DT_STRSZ = 10"
definition DT_SYMENT :: u32 where "DT_SYMENT = 11"
definition DT_INIT :: u32 where "DT_INIT = 12"
definition DT_FINI :: u32 where "DT_FINI = 13"
definition DT_SONAME :: u32 where "DT_SONAME = 14"
definition DT_RPATH :: u32 where "DT_RPATH = 15"
definition DT_SYMBOLIC :: u32 where "DT_SYMBOLIC = 16"
definition DT_REL :: u32 where "DT_REL = 17"
definition DT_RELSZ :: u32 where "DT_RELSZ = 18"
definition DT_RELENT :: u32 where "DT_RELENT = 19"
definition DT_PLTREL :: u32 where "DT_PLTREL = 20"
definition DT_DEBUG :: u32 where "DT_DEBUG = 21"
definition DT_TEXTREL :: u32 where "DT_TEXTREL = 22"
definition DT_JMPREL :: u32 where "DT_JMPREL = 23"
definition DT_BIND_NOW :: u32 where "DT_BIND_NOW = 24"
definition DT_INIT_ARRAY :: u32 where "DT_INIT_ARRAY = 25"
definition DT_FINI_ARRAY :: u32 where "DT_FINI_ARRAY = 26"
definition DT_INIT_ARRAYSZ :: u32 where "DT_INIT_ARRAYSZ = 27"
definition DT_FINI_ARRAYSZ :: u32 where "DT_FINI_ARRAYSZ = 28"
definition DT_RUNPATH :: u32 where "DT_RUNPATH = 29"
definition DT_FLAGS :: u32 where "DT_FLAGS = 30"
definition DT_PREINIT_ARRAY :: u32 where "DT_PREINIT_ARRAY = 32"
definition DT_PREINIT_ARRAYSZ :: u32 where "DT_PREINIT_ARRAYSZ = 33"
definition DT_RELRSZ :: u32 where "DT_RELRSZ = 35"
definition DT_RELR :: u32 where "DT_RELR = 36"
definition DT_RELRENT :: u32 where "DT_RELRENT = 37"
definition DT_GNU_HASH :: u32 where "DT_GNU_HASH = 0x6ffffef5"
definition DT_VERSYM :: u32 where "DT_VERSYM = 0x6ffffff0"
definition DT_RELACOUNT :: u32 where "DT_RELACOUNT = 0x6ffffff9"
definition DT_RELCOUNT :: u32 where "DT_RELCOUNT = 0x6ffffffa"
definition DT_FLAGS_1 :: u32 where "DT_FLAGS_1 = 0x6ffffffb"
definition DT_VERDEF :: u32 where "DT_VERDEF = 0x6ffffffc"
definition DT_VERDEFNUM :: u32 where "DT_VERDEFNUM = 0x6ffffffd"
definition DT_VERNEED :: u32 where "DT_VERNEED = 0x6ffffffe"
definition DT_VERNEEDNUM :: u32 where "DT_VERNEEDNUM = 0x6fffffff"
definition DT_PPC_GOT :: u32 where "DT_PPC_GOT = 0x70000000"
definition DT_PPC64_GLINK :: u32 where "DT_PPC64_GLINK = 0x70000000"
definition DT_AUXILIARY :: u32 where "DT_AUXILIARY = 0x7ffffffd"
definition DT_FILTER :: u32 where "DT_FILTER = 0x7fffffff"

lemmas DT_defs =
    DT_NULL_def DT_NEEDED_def DT_PLTRELSZ_def DT_PLTGOT_def DT_HASH_def DT_STRTAB_def
  DT_SYMTAB_def DT_RELA_def DT_RELASZ_def DT_RELAENT_def DT_STRSZ_def DT_SYMENT_def DT_INIT_def
  DT_FINI_def DT_SONAME_def DT_RPATH_def DT_SYMBOLIC_def DT_REL_def DT_RELSZ_def DT_RELENT_def
  DT_PLTREL_def DT_DEBUG_def DT_TEXTREL_def DT_JMPREL_def DT_BIND_NOW_def DT_INIT_ARRAY_def
  DT_FINI_ARRAY_def DT_INIT_ARRAYSZ_def DT_FINI_ARRAYSZ_def DT_RUNPATH_def DT_FLAGS_def
  DT_PREINIT_ARRAY_def DT_PREINIT_ARRAYSZ_def DT_RELRSZ_def DT_RELR_def DT_RELRENT_def
  DT_GNU_HASH_def DT_VERSYM_def DT_RELACOUNT_def DT_RELCOUNT_def DT_FLAGS_1_def DT_VERDEF_def
  DT_VERDEFNUM_def DT_VERNEED_def DT_VERNEEDNUM_def DT_PPC_GOT_def DT_PPC64_GLINK_def
  DT_AUXILIARY_def DT_FILTER_def

definition DF_ORIGIN :: u32 where "DF_ORIGIN = 1"
definition DF_SYMBOLIC :: u32 where "DF_SYMBOLIC = 2"
definition DF_TEXTREL :: u32 where "DF_TEXTREL = 4"
definition DF_BIND_NOW :: u32 where "DF_BIND_NOW = 8"
definition DF_STATIC_TLS :: u32 where "DF_STATIC_TLS = 16"

lemmas DF_defs =
  DF_ORIGIN_def DF_SYMBOLIC_def DF_TEXTREL_def DF_BIND_NOW_def DF_STATIC_TLS_def

definition DF_1_NOW :: u32 where "DF_1_NOW = 1"
definition DF_1_NODELETE :: u32 where "DF_1_NODELETE = 8"
definition DF_1_INITFIRST :: u32 where "DF_1_INITFIRST = 32"
definition DF_1_NOOPEN :: u32 where "DF_1_NOOPEN = 64"
definition DF_1_ORIGIN :: u32 where "DF_1_ORIGIN = 128"
definition DF_1_INTERPOSE :: u32 where "DF_1_INTERPOSE = 0x400"
definition DF_1_NODEFLIB :: u32 where "DF_1_NODEFLIB = 0x800"
definition DF_1_NODUMP :: u32 where "DF_1_NODUMP = 0x1000"
definition DF_1_PIE :: u32 where "DF_1_PIE = 0x8000000"

lemmas DF_1_defs =
    DF_1_NOW_def DF_1_NODELETE_def DF_1_INITFIRST_def DF_1_NOOPEN_def DF_1_ORIGIN_def
  DF_1_INTERPOSE_def DF_1_NODEFLIB_def DF_1_NODUMP_def DF_1_PIE_def

definition NT_GNU_ABI_TAG :: u32 where "NT_GNU_ABI_TAG = 1"
definition NT_GNU_HWCAP :: u32 where "NT_GNU_HWCAP = 2"
definition NT_GNU_BUILD_ID :: u32 where "NT_GNU_BUILD_ID = 3"
definition NT_GNU_GOLD_VERSION :: u32 where "NT_GNU_GOLD_VERSION = 4"
definition NT_GNU_PROPERTY_TYPE_0 :: u32 where "NT_GNU_PROPERTY_TYPE_0 = 5"
definition NT_FDO_PACKAGING_METADATA :: u32 where "NT_FDO_PACKAGING_METADATA = 0xcafe1a7e"

lemmas NT_defs =
    NT_GNU_ABI_TAG_def NT_GNU_HWCAP_def NT_GNU_BUILD_ID_def NT_GNU_GOLD_VERSION_def
  NT_GNU_PROPERTY_TYPE_0_def NT_FDO_PACKAGING_METADATA_def

definition GNU_PROPERTY_X86_UINT32_AND_LO :: u32 where "GNU_PROPERTY_X86_UINT32_AND_LO = 0xc0000002"
definition GNU_PROPERTY_X86_UINT32_AND_HI :: u32 where "GNU_PROPERTY_X86_UINT32_AND_HI = 0xc0007fff"
definition GNU_PROPERTY_X86_UINT32_OR_LO :: u32 where "GNU_PROPERTY_X86_UINT32_OR_LO = 0xc0008000"
definition GNU_PROPERTY_X86_UINT32_OR_HI :: u32 where "GNU_PROPERTY_X86_UINT32_OR_HI = 0xc000ffff"
definition GNU_PROPERTY_X86_UINT32_OR_AND_LO :: u32 where "GNU_PROPERTY_X86_UINT32_OR_AND_LO = 0xc0010000"
definition GNU_PROPERTY_X86_UINT32_OR_AND_HI :: u32 where "GNU_PROPERTY_X86_UINT32_OR_AND_HI = 0xc0017fff"
definition GNU_PROPERTY_X86_FEATURE_1_IBT :: u32 where "GNU_PROPERTY_X86_FEATURE_1_IBT = 1"
definition GNU_PROPERTY_X86_FEATURE_1_SHSTK :: u32 where "GNU_PROPERTY_X86_FEATURE_1_SHSTK = 2"
definition GNU_PROPERTY_X86_FEATURE_1_AND :: u32 where "GNU_PROPERTY_X86_FEATURE_1_AND = 0xc0000002"

lemmas GNU_PROPERTY_defs =
    GNU_PROPERTY_X86_UINT32_AND_LO_def GNU_PROPERTY_X86_UINT32_AND_HI_def
  GNU_PROPERTY_X86_UINT32_OR_LO_def GNU_PROPERTY_X86_UINT32_OR_HI_def
  GNU_PROPERTY_X86_UINT32_OR_AND_LO_def GNU_PROPERTY_X86_UINT32_OR_AND_HI_def
  GNU_PROPERTY_X86_FEATURE_1_IBT_def GNU_PROPERTY_X86_FEATURE_1_SHSTK_def
  GNU_PROPERTY_X86_FEATURE_1_AND_def

definition ELFCOMPRESS_ZLIB :: u32 where "ELFCOMPRESS_ZLIB = 1"
definition ELFCOMPRESS_ZSTD :: u32 where "ELFCOMPRESS_ZSTD = 2"

lemmas ELFCOMPRESS_defs =
  ELFCOMPRESS_ZLIB_def ELFCOMPRESS_ZSTD_def

definition EF_ARM_ABI_FLOAT_SOFT :: u32 where "EF_ARM_ABI_FLOAT_SOFT = 0x200"
definition EF_ARM_ABI_FLOAT_HARD :: u32 where "EF_ARM_ABI_FLOAT_HARD = 0x400"
definition EF_ARM_EABI_VER5 :: u32 where "EF_ARM_EABI_VER5 = 0x5000000"

lemmas EF_ARM_defs =
  EF_ARM_ABI_FLOAT_SOFT_def EF_ARM_ABI_FLOAT_HARD_def EF_ARM_EABI_VER5_def

definition EF_RISCV_RVC :: u32 where "EF_RISCV_RVC = 1"
definition EF_RISCV_FLOAT_ABI :: u32 where "EF_RISCV_FLOAT_ABI = 6"
definition EF_RISCV_FLOAT_ABI_SOFT :: u32 where "EF_RISCV_FLOAT_ABI_SOFT = 0"
definition EF_RISCV_FLOAT_ABI_SINGLE :: u32 where "EF_RISCV_FLOAT_ABI_SINGLE = 2"
definition EF_RISCV_FLOAT_ABI_DOUBLE :: u32 where "EF_RISCV_FLOAT_ABI_DOUBLE = 4"
definition EF_RISCV_FLOAT_ABI_QUAD :: u32 where "EF_RISCV_FLOAT_ABI_QUAD = 6"
definition EF_RISCV_RVE :: u32 where "EF_RISCV_RVE = 8"
definition EF_RISCV_TSO :: u32 where "EF_RISCV_TSO = 16"

lemmas EF_RISCV_defs =
    EF_RISCV_RVC_def EF_RISCV_FLOAT_ABI_def EF_RISCV_FLOAT_ABI_SOFT_def
  EF_RISCV_FLOAT_ABI_SINGLE_def EF_RISCV_FLOAT_ABI_DOUBLE_def EF_RISCV_FLOAT_ABI_QUAD_def
  EF_RISCV_RVE_def EF_RISCV_TSO_def

definition EF_SPARC64_MM :: u32 where "EF_SPARC64_MM = 3"
definition EF_SPARC64_TSO :: u32 where "EF_SPARC64_TSO = 0"
definition EF_SPARC64_PSO :: u32 where "EF_SPARC64_PSO = 1"
definition EF_SPARC64_RMO :: u32 where "EF_SPARC64_RMO = 2"
definition EF_SPARC_EXT_MASK :: u32 where "EF_SPARC_EXT_MASK = 0xffff00"
definition EF_SPARC_SUN_US1 :: u32 where "EF_SPARC_SUN_US1 = 0x200"
definition EF_SPARC_HAL_R1 :: u32 where "EF_SPARC_HAL_R1 = 0x400"
definition EF_SPARC_SUN_US3 :: u32 where "EF_SPARC_SUN_US3 = 0x800"

lemmas EF_SPARC_defs =
    EF_SPARC64_MM_def EF_SPARC64_TSO_def EF_SPARC64_PSO_def EF_SPARC64_RMO_def
  EF_SPARC_EXT_MASK_def EF_SPARC_SUN_US1_def EF_SPARC_HAL_R1_def EF_SPARC_SUN_US3_def

definition STO_RISCV_VARIANT_CC :: u32 where "STO_RISCV_VARIANT_CC = 128"
definition STO_ALPHA_NOPV :: u32 where "STO_ALPHA_NOPV = 32"
definition STO_ALPHA_STD_GPLOAD :: u32 where "STO_ALPHA_STD_GPLOAD = 34"

lemmas STO_defs =
  STO_RISCV_VARIANT_CC_def STO_ALPHA_NOPV_def STO_ALPHA_STD_GPLOAD_def

definition DW_EH_PE_absptr :: u32 where "DW_EH_PE_absptr = 0"
definition DW_EH_PE_omit :: u32 where "DW_EH_PE_omit = 255"
definition DW_EH_PE_uleb128 :: u32 where "DW_EH_PE_uleb128 = 1"
definition DW_EH_PE_udata2 :: u32 where "DW_EH_PE_udata2 = 2"
definition DW_EH_PE_udata4 :: u32 where "DW_EH_PE_udata4 = 3"
definition DW_EH_PE_udata8 :: u32 where "DW_EH_PE_udata8 = 4"
definition DW_EH_PE_signed :: u32 where "DW_EH_PE_signed = 8"
definition DW_EH_PE_sleb128 :: u32 where "DW_EH_PE_sleb128 = 9"
definition DW_EH_PE_sdata2 :: u32 where "DW_EH_PE_sdata2 = 10"
definition DW_EH_PE_sdata4 :: u32 where "DW_EH_PE_sdata4 = 11"
definition DW_EH_PE_sdata8 :: u32 where "DW_EH_PE_sdata8 = 12"
definition DW_EH_PE_pcrel :: u32 where "DW_EH_PE_pcrel = 16"
definition DW_EH_PE_textrel :: u32 where "DW_EH_PE_textrel = 32"
definition DW_EH_PE_datarel :: u32 where "DW_EH_PE_datarel = 48"
definition DW_EH_PE_funcrel :: u32 where "DW_EH_PE_funcrel = 64"
definition DW_EH_PE_aligned :: u32 where "DW_EH_PE_aligned = 80"

lemmas DW_EH_PE_defs =
    DW_EH_PE_absptr_def DW_EH_PE_omit_def DW_EH_PE_uleb128_def DW_EH_PE_udata2_def
  DW_EH_PE_udata4_def DW_EH_PE_udata8_def DW_EH_PE_signed_def DW_EH_PE_sleb128_def
  DW_EH_PE_sdata2_def DW_EH_PE_sdata4_def DW_EH_PE_sdata8_def DW_EH_PE_pcrel_def
  DW_EH_PE_textrel_def DW_EH_PE_datarel_def DW_EH_PE_funcrel_def DW_EH_PE_aligned_def

definition DW_AT_low_pc :: u32 where "DW_AT_low_pc = 17"
definition DW_AT_high_pc :: u32 where "DW_AT_high_pc = 18"
definition DW_AT_producer :: u32 where "DW_AT_producer = 37"
definition DW_AT_ranges :: u32 where "DW_AT_ranges = 85"
definition DW_AT_addr_base :: u32 where "DW_AT_addr_base = 115"
definition DW_AT_rnglists_base :: u32 where "DW_AT_rnglists_base = 116"

lemmas DW_AT_defs =
    DW_AT_low_pc_def DW_AT_high_pc_def DW_AT_producer_def DW_AT_ranges_def DW_AT_addr_base_def
  DW_AT_rnglists_base_def

definition DW_TAG_compile_unit :: u32 where "DW_TAG_compile_unit = 17"
definition DW_TAG_skeleton_unit :: u32 where "DW_TAG_skeleton_unit = 74"

lemmas DW_TAG_defs =
  DW_TAG_compile_unit_def DW_TAG_skeleton_unit_def

definition DW_UT_compile :: u32 where "DW_UT_compile = 1"
definition DW_UT_partial :: u32 where "DW_UT_partial = 3"
definition DW_UT_skeleton :: u32 where "DW_UT_skeleton = 4"
definition DW_UT_split_compile :: u32 where "DW_UT_split_compile = 5"

lemmas DW_UT_defs =
  DW_UT_compile_def DW_UT_partial_def DW_UT_skeleton_def DW_UT_split_compile_def

definition DW_FORM_addr :: u32 where "DW_FORM_addr = 1"
definition DW_FORM_block2 :: u32 where "DW_FORM_block2 = 3"
definition DW_FORM_block4 :: u32 where "DW_FORM_block4 = 4"
definition DW_FORM_data2 :: u32 where "DW_FORM_data2 = 5"
definition DW_FORM_data4 :: u32 where "DW_FORM_data4 = 6"
definition DW_FORM_data8 :: u32 where "DW_FORM_data8 = 7"
definition DW_FORM_string :: u32 where "DW_FORM_string = 8"
definition DW_FORM_block :: u32 where "DW_FORM_block = 9"
definition DW_FORM_block1 :: u32 where "DW_FORM_block1 = 10"
definition DW_FORM_data1 :: u32 where "DW_FORM_data1 = 11"
definition DW_FORM_flag :: u32 where "DW_FORM_flag = 12"
definition DW_FORM_sdata :: u32 where "DW_FORM_sdata = 13"
definition DW_FORM_strp :: u32 where "DW_FORM_strp = 14"
definition DW_FORM_udata :: u32 where "DW_FORM_udata = 15"
definition DW_FORM_ref_addr :: u32 where "DW_FORM_ref_addr = 16"
definition DW_FORM_ref1 :: u32 where "DW_FORM_ref1 = 17"
definition DW_FORM_ref2 :: u32 where "DW_FORM_ref2 = 18"
definition DW_FORM_ref4 :: u32 where "DW_FORM_ref4 = 19"
definition DW_FORM_ref8 :: u32 where "DW_FORM_ref8 = 20"
definition DW_FORM_ref_udata :: u32 where "DW_FORM_ref_udata = 21"
definition DW_FORM_indirect :: u32 where "DW_FORM_indirect = 22"
definition DW_FORM_sec_offset :: u32 where "DW_FORM_sec_offset = 23"
definition DW_FORM_exprloc :: u32 where "DW_FORM_exprloc = 24"
definition DW_FORM_flag_present :: u32 where "DW_FORM_flag_present = 25"
definition DW_FORM_strx :: u32 where "DW_FORM_strx = 26"
definition DW_FORM_addrx :: u32 where "DW_FORM_addrx = 27"
definition DW_FORM_ref_sup4 :: u32 where "DW_FORM_ref_sup4 = 28"
definition DW_FORM_strp_sup :: u32 where "DW_FORM_strp_sup = 29"
definition DW_FORM_data16 :: u32 where "DW_FORM_data16 = 30"
definition DW_FORM_line_strp :: u32 where "DW_FORM_line_strp = 31"
definition DW_FORM_ref_sig8 :: u32 where "DW_FORM_ref_sig8 = 32"
definition DW_FORM_implicit_const :: u32 where "DW_FORM_implicit_const = 33"
definition DW_FORM_loclistx :: u32 where "DW_FORM_loclistx = 34"
definition DW_FORM_rnglistx :: u32 where "DW_FORM_rnglistx = 35"
definition DW_FORM_ref_sup8 :: u32 where "DW_FORM_ref_sup8 = 36"
definition DW_FORM_strx1 :: u32 where "DW_FORM_strx1 = 37"
definition DW_FORM_strx2 :: u32 where "DW_FORM_strx2 = 38"
definition DW_FORM_strx3 :: u32 where "DW_FORM_strx3 = 39"
definition DW_FORM_strx4 :: u32 where "DW_FORM_strx4 = 40"
definition DW_FORM_addrx1 :: u32 where "DW_FORM_addrx1 = 41"
definition DW_FORM_addrx2 :: u32 where "DW_FORM_addrx2 = 42"
definition DW_FORM_addrx3 :: u32 where "DW_FORM_addrx3 = 43"
definition DW_FORM_addrx4 :: u32 where "DW_FORM_addrx4 = 44"

lemmas DW_FORM_defs =
    DW_FORM_addr_def DW_FORM_block2_def DW_FORM_block4_def DW_FORM_data2_def DW_FORM_data4_def
  DW_FORM_data8_def DW_FORM_string_def DW_FORM_block_def DW_FORM_block1_def DW_FORM_data1_def
  DW_FORM_flag_def DW_FORM_sdata_def DW_FORM_strp_def DW_FORM_udata_def DW_FORM_ref_addr_def
  DW_FORM_ref1_def DW_FORM_ref2_def DW_FORM_ref4_def DW_FORM_ref8_def DW_FORM_ref_udata_def
  DW_FORM_indirect_def DW_FORM_sec_offset_def DW_FORM_exprloc_def DW_FORM_flag_present_def
  DW_FORM_strx_def DW_FORM_addrx_def DW_FORM_ref_sup4_def DW_FORM_strp_sup_def
  DW_FORM_data16_def DW_FORM_line_strp_def DW_FORM_ref_sig8_def DW_FORM_implicit_const_def
  DW_FORM_loclistx_def DW_FORM_rnglistx_def DW_FORM_ref_sup8_def DW_FORM_strx1_def
  DW_FORM_strx2_def DW_FORM_strx3_def DW_FORM_strx4_def DW_FORM_addrx1_def DW_FORM_addrx2_def
  DW_FORM_addrx3_def DW_FORM_addrx4_def

definition DW_RLE_end_of_list :: u32 where "DW_RLE_end_of_list = 0"
definition DW_RLE_base_addressx :: u32 where "DW_RLE_base_addressx = 1"
definition DW_RLE_startx_endx :: u32 where "DW_RLE_startx_endx = 2"
definition DW_RLE_startx_length :: u32 where "DW_RLE_startx_length = 3"
definition DW_RLE_offset_pair :: u32 where "DW_RLE_offset_pair = 4"
definition DW_RLE_base_address :: u32 where "DW_RLE_base_address = 5"
definition DW_RLE_start_end :: u32 where "DW_RLE_start_end = 6"
definition DW_RLE_start_length :: u32 where "DW_RLE_start_length = 7"

lemmas DW_RLE_defs =
    DW_RLE_end_of_list_def DW_RLE_base_addressx_def DW_RLE_startx_endx_def
  DW_RLE_startx_length_def DW_RLE_offset_pair_def DW_RLE_base_address_def DW_RLE_start_end_def
  DW_RLE_start_length_def

text \<open>
  The symbol table keeps the type and the binding in four bits and the visibility in two
  (\<^verbatim>\<open>st_type : 4\<close>, \<^verbatim>\<open>st_bind : 4\<close>, \<^verbatim>\<open>st_visibility : 2\<close>).
\<close>

lemma sym_fields_fit:
  "\<forall>t \<in> set [STT_NOTYPE, STT_OBJECT, STT_FUNC, STT_SECTION, STT_FILE, STT_COMMON, STT_TLS,
     STT_GNU_IFUNC, STT_SPARC_REGISTER, STB_LOCAL, STB_GLOBAL, STB_WEAK, STB_GNU_UNIQUE]. t < 16"
  "\<forall>v \<in> set [STV_DEFAULT, STV_INTERNAL, STV_HIDDEN, STV_PROTECTED]. v < 4"
  by (simp_all add: STT_defs STB_defs STV_defs)

end
