(* ===== verification/Elf_Relocs.thy ===== *)
theory Elf_Relocs
  imports Strings Elf_Consts
begin

text \<open>
  The relocation types of \<^verbatim>\<open>src/elf/elf.h\<close>, one definition per enumerator and one list per
  enumeration in the order of the source, and \<^verbatim>\<open>rel_to_string\<close> of \<^verbatim>\<open>src/elf/elf.cc\<close>: a list of
  the cases of each \<^verbatim>\<open>switch\<close>. The property compares the two files.
\<close>

subsection \<open>Relocation types\<close>

definition R_X86_64_NONE :: u32 where "R_X86_64_NONE = 0"
definition R_X86_64_64 :: u32 where "R_X86_64_64 = 1"
definition R_X86_64_PC32 :: u32 where "R_X86_64_PC32 = 2"
definition R_X86_64_GOT32 :: u32 where "R_X86_64_GOT32 = 3"
definition R_X86_64_PLT32 :: u32 where "R_X86_64_PLT32 = 4"
definition R_X86_64_COPY :: u32 where "R_X86_64_COPY = 5"
definition R_X86_64_GLOB_DAT :: u32 where "R_X86_64_GLOB_DAT = 6"
definition R_X86_64_JUMP_SLOT :: u32 where "R_X86_64_JUMP_SLOT = 7"
definition R_X86_64_RELATIVE :: u32 where "R_X86_64_RELATIVE = 8"
definition R_X86_64_GOTPCREL :: u32 where "R_X86_64_GOTPCREL = 9"
definition R_X86_64_32 :: u32 where "R_X86_64_32 = 10"
definition R_X86_64_32S :: u32 where "R_X86_64_32S = 11"
definition R_X86_64_16 :: u32 where "R_X86_64_16 = 12"
definition R_X86_64_PC16 :: u32 where "R_X86_64_PC16 = 13"
definition R_X86_64_8 :: u32 where "R_X86_64_8 = 14"
definition R_X86_64_PC8 :: u32 where "R_X86_64_PC8 = 15"
definition R_X86_64_DTPMOD64 :: u32 where "R_X86_64_DTPMOD64 = 16"
definition R_X86_64_DTPOFF64 :: u32 where "R_X86_64_DTPOFF64 = 17"
definition R_X86_64_TPOFF64 :: u32 where "R_X86_64_TPOFF64 = 18"
definition R_X86_64_TLSGD :: u32 where "R_X86_64_TLSGD = 19"
definition R_X86_64_TLSLD :: u32 where "R_X86_64_TLSLD = 20"
definition R_X86_64_DTPOFF32 :: u32 where "R_X86_64_DTPOFF32 = 21"
definition R_X86_64_GOTTPOFF :: u32 where "R_X86_64_GOTTPOFF = 22"
definition R_X86_64_TPOFF32 :: u32 where "R_X86_64_TPOFF32 = 23"
definition R_X86_64_PC64 :: u32 where "R_X86_64_PC64 = 24"
definition R_X86_64_GOTOFF64 :: u32 where "R_X86_64_GOTOFF64 = 25"
definition R_X86_64_GOTPC32 :: u32 where "R_X86_64_GOTPC32 = 26"
definition R_X86_64_GOT64 :: u32 where "R_X86_64_GOT64 = 27"
definition R_X86_64_GOTPCREL64 :: u32 where "R_X86_64_GOTPCREL64 = 28"
definition R_X86_64_GOTPC64 :: u32 where "R_X86_64_GOTPC64 = 29"
definition R_X86_64_GOTPLT64 :: u32 where "R_X86_64_GOTPLT64 = 30"
definition R_X86_64_PLTOFF64 :: u32 where "R_X86_64_PLTOFF64 = 31"
definition R_X86_64_SIZE32 :: u32 where "R_X86_64_SIZE32 = 32"
definition R_X86_64_SIZE64 :: u32 where "R_X86_64_SIZE64 = 33"
definition R_X86_64_GOTPC32_TLSDESC :: u32 where "R_X86_64_GOTPC32_TLSDESC = 34"
definition R_X86_64_TLSDESC_CALL :: u32 where "R_X86_64_TLSDESC_CALL = 35"
definition R_X86_64_TLSDESC :: u32 where "R_X86_64_TLSDESC = 36"
definition R_X86_64_IRELATIVE :: u32 where "R_X86_64_IRELATIVE = 37"
definition R_X86_64_GOTPCRELX :: u32 where "R_X86_64_GOTPCRELX = 41"
definition R_X86_64_REX_GOTPCRELX :: u32 where "R_X86_64_REX_GOTPCRELX = 42"

definition R_X86_64_enum :: "(string \<times> u32) list" where
  "R_X86_64_enum =
    [(''R_X86_64_NONE'', R_X86_64_NONE),
     (''R_X86_64_64'', R_X86_64_64),
     (''R_X86_64_PC32'', R_X86_64_PC32),
     (''R_X86_64_GOT32'', R_X86_64_GOT32),
     (''R_X86_64_PLT32'', R_X86_64_PLT32),
     (''R_X86_64_COPY'', R_X86_64_COPY),
     (''R_X86_64_GLOB_DAT'', R_X86_64_GLOB_DAT),
     (''R_X86_64_JUMP_SLOT'', R_X86_64_JUMP_SLOT),
     (''R_X86_64_RELATIVE'', R_X86_64_RELATIVE),
     (''R_X86_64_GOTPCREL'', R_X86_64_GOTPCREL),
     (''R_X86_64_32'', R_X86_64_32),
     (''R_X86_64_32S'', R_X86_64_32S),
     (''R_X86_64_16'', R_X86_64_16),
     (''R_X86_64_PC16'', R_X86_64_PC16),
     (''R_X86_64_8'', R_X86_64_8),
     (''R_X86_64_PC8'', R_X86_64_PC8),
     (''R_X86_64_DTPMOD64'', R_X86_64_DTPMOD64),
     (''R_X86_64_DTPOFF64'', R_X86_64_DTPOFF64),
     (''R_X86_64_TPOFF64'', R_X86_64_TPOFF64),
     (''R_X86_64_TLSGD'', R_X86_64_TLSGD),
     (''R_X86_64_TLSLD'', R_X86_64_TLSLD),
     (''R_X86_64_DTPOFF32'', R_X86_64_DTPOFF32),
     (''R_X86_64_GOTTPOFF'', R_X86_64_GOTTPOFF),
     (''R_X86_64_TPOFF32'', R_X86_64_TPOFF32),
     (''R_X86_64_PC64'', R_X86_64_PC64),
     (''R_X86_64_GOTOFF64'', R_X86_64_GOTOFF64),
     (''R_X86_64_GOTPC32'', R_X86_64_GOTPC32),
     (''R_X86_64_GOT64'', R_X86_64_GOT64),
     (''R_X86_64_GOTPCREL64'', R_X86_64_GOTPCREL64),
     (''R_X86_64_GOTPC64'', R_X86_64_GOTPC64),
     (''R_X86_64_GOTPLT64'', R_X86_64_GOTPLT64),
     (''R_X86_64_PLTOFF64'', R_X86_64_PLTOFF64),
     (''R_X86_64_SIZE32'', R_X86_64_SIZE32),
     (''R_X86_64_SIZE64'', R_X86_64_SIZE64),
     (''R_X86_64_GOTPC32_TLSDESC'', R_X86_64_GOTPC32_TLSDESC),
     (''R_X86_64_TLSDESC_CALL'', R_X86_64_TLSDESC_CALL),
     (''R_X86_64_TLSDESC'', R_X86_64_TLSDESC),
     (''R_X86_64_IRELATIVE'', R_X86_64_IRELATIVE),
     (''R_X86_64_GOTPCRELX'', R_X86_64_GOTPCRELX),
     (''R_X86_64_REX_GOTPCRELX'', R_X86_64_REX_GOTPCRELX)]"

lemmas R_X86_64_defs =
  R_X86_64_NONE_def R_X86_64_64_def R_X86_64_PC32_def R_X86_64_GOT32_def R_X86_64_PLT32_def
  R_X86_64_COPY_def R_X86_64_GLOB_DAT_def R_X86_64_JUMP_SLOT_def R_X86_64_RELATIVE_def
  R_X86_64_GOTPCREL_def R_X86_64_32_def R_X86_64_32S_def R_X86_64_16_def R_X86_64_PC16_def
  R_X86_64_8_def R_X86_64_PC8_def R_X86_64_DTPMOD64_def R_X86_64_DTPOFF64_def
  R_X86_64_TPOFF64_def R_X86_64_TLSGD_def R_X86_64_TLSLD_def R_X86_64_DTPOFF32_def
  R_X86_64_GOTTPOFF_def R_X86_64_TPOFF32_def R_X86_64_PC64_def R_X86_64_GOTOFF64_def
  R_X86_64_GOTPC32_def R_X86_64_GOT64_def R_X86_64_GOTPCREL64_def R_X86_64_GOTPC64_def
  R_X86_64_GOTPLT64_def R_X86_64_PLTOFF64_def R_X86_64_SIZE32_def R_X86_64_SIZE64_def
  R_X86_64_GOTPC32_TLSDESC_def R_X86_64_TLSDESC_CALL_def R_X86_64_TLSDESC_def
  R_X86_64_IRELATIVE_def R_X86_64_GOTPCRELX_def R_X86_64_REX_GOTPCRELX_def

definition R_386_NONE :: u32 where "R_386_NONE = 0"
definition R_386_32 :: u32 where "R_386_32 = 1"
definition R_386_PC32 :: u32 where "R_386_PC32 = 2"
definition R_386_GOT32 :: u32 where "R_386_GOT32 = 3"
definition R_386_PLT32 :: u32 where "R_386_PLT32 = 4"
definition R_386_COPY :: u32 where "R_386_COPY = 5"
definition R_386_GLOB_DAT :: u32 where "R_386_GLOB_DAT = 6"
definition R_386_JUMP_SLOT :: u32 where "R_386_JUMP_SLOT = 7"
definition R_386_RELATIVE :: u32 where "R_386_RELATIVE = 8"
definition R_386_GOTOFF :: u32 where "R_386_GOTOFF = 9"
definition R_386_GOTPC :: u32 where "R_386_GOTPC = 10"
definition R_386_32PLT :: u32 where "R_386_32PLT = 11"
definition R_386_TLS_TPOFF :: u32 where "R_386_TLS_TPOFF = 14"
definition R_386_TLS_IE :: u32 where "R_386_TLS_IE = 15"
definition R_386_TLS_GOTIE :: u32 where "R_386_TLS_GOTIE = 16"
definition R_386_TLS_LE :: u32 where "R_386_TLS_LE = 17"
definition R_386_TLS_GD :: u32 where "R_386_TLS_GD = 18"
definition R_386_TLS_LDM :: u32 where "R_386_TLS_LDM = 19"
definition R_386_16 :: u32 where "R_386_16 = 20"
definition R_386_PC16 :: u32 where "R_386_PC16 = 21"
definition R_386_8 :: u32 where "R_386_8 = 22"
definition R_386_PC8 :: u32 where "R_386_PC8 = 23"
definition R_386_TLS_GD_32 :: u32 where "R_386_TLS_GD_32 = 24"
definition R_386_TLS_GD_PUSH :: u32 where "R_386_TLS_GD_PUSH = 25"
definition R_386_TLS_GD_CALL :: u32 where "R_386_TLS_GD_CALL = 26"
definition R_386_TLS_GD_POP :: u32 where "R_386_TLS_GD_POP = 27"
definition R_386_TLS_LDM_32 :: u32 where "R_386_TLS_LDM_32 = 28"
definition R_386_TLS_LDM_PUSH :: u32 where "R_386_TLS_LDM_PUSH = 29"
definition R_386_TLS_LDM_CALL :: u32 where "R_386_TLS_LDM_CALL = 30"
definition R_386_TLS_LDM_POP :: u32 where "R_386_TLS_LDM_POP = 31"
definition R_386_TLS_LDO_32 :: u32 where "R_386_TLS_LDO_32 = 32"
definition R_386_TLS_IE_32 :: u32 where "R_386_TLS_IE_32 = 33"
definition R_386_TLS_LE_32 :: u32 where "R_386_TLS_LE_32 = 34"
definition R_386_TLS_DTPMOD32 :: u32 where "R_386_TLS_DTPMOD32 = 35"
definition R_386_TLS_DTPOFF32 :: u32 where "R_386_TLS_DTPOFF32 = 36"
definition R_386_TLS_TPOFF32 :: u32 where "R_386_TLS_TPOFF32 = 37"
definition R_386_SIZE32 :: u32 where "R_386_SIZE32 = 38"
definition R_386_TLS_GOTDESC :: u32 where "R_386_TLS_GOTDESC = 39"
definition R_386_TLS_DESC_CALL :: u32 where "R_386_TLS_DESC_CALL = 40"
definition R_386_TLS_DESC :: u32 where "R_386_TLS_DESC = 41"
definition R_386_IRELATIVE :: u32 where "R_386_IRELATIVE = 42"
definition R_386_GOT32X :: u32 where "R_386_GOT32X = 43"

definition R_386_enum :: "(string \<times> u32) list" where
  "R_386_enum =
    [(''R_386_NONE'', R_386_NONE),
     (''R_386_32'', R_386_32),
     (''R_386_PC32'', R_386_PC32),
     (''R_386_GOT32'', R_386_GOT32),
     (''R_386_PLT32'', R_386_PLT32),
     (''R_386_COPY'', R_386_COPY),
     (''R_386_GLOB_DAT'', R_386_GLOB_DAT),
     (''R_386_JUMP_SLOT'', R_386_JUMP_SLOT),
     (''R_386_RELATIVE'', R_386_RELATIVE),
     (''R_386_GOTOFF'', R_386_GOTOFF),
     (''R_386_GOTPC'', R_386_GOTPC),
     (''R_386_32PLT'', R_386_32PLT),
     (''R_386_TLS_TPOFF'', R_386_TLS_TPOFF),
     (''R_386_TLS_IE'', R_386_TLS_IE),
     (''R_386_TLS_GOTIE'', R_386_TLS_GOTIE),
     (''R_386_TLS_LE'', R_386_TLS_LE),
     (''R_386_TLS_GD'', R_386_TLS_GD),
     (''R_386_TLS_LDM'', R_386_TLS_LDM),
     (''R_386_16'', R_386_16),
     (''R_386_PC16'', R_386_PC16),
     (''R_386_8'', R_386_8),
     (''R_386_PC8'', R_386_PC8),
     (''R_386_TLS_GD_32'', R_386_TLS_GD_32),
     (''R_386_TLS_GD_PUSH'', R_386_TLS_GD_PUSH),
     (''R_386_TLS_GD_CALL'', R_386_TLS_GD_CALL),
     (''R_386_TLS_GD_POP'', R_386_TLS_GD_POP),
     (''R_386_TLS_LDM_32'', R_386_TLS_LDM_32),
     (''R_386_TLS_LDM_PUSH'', R_386_TLS_LDM_PUSH),
     (''R_386_TLS_LDM_CALL'', R_386_TLS_LDM_CALL),
     (''R_386_TLS_LDM_POP'', R_386_TLS_LDM_POP),
     (''R_386_TLS_LDO_32'', R_386_TLS_LDO_32),
     (''R_386_TLS_IE_32'', R_386_TLS_IE_32),
     (''R_386_TLS_LE_32'', R_386_TLS_LE_32),
     (''R_386_TLS_DTPMOD32'', R_386_TLS_DTPMOD32),
     (''R_386_TLS_DTPOFF32'', R_386_TLS_DTPOFF32),
     (''R_386_TLS_TPOFF32'', R_386_TLS_TPOFF32),
     (''R_386_SIZE32'', R_386_SIZE32),
     (''R_386_TLS_GOTDESC'', R_386_TLS_GOTDESC),
     (''R_386_TLS_DESC_CALL'', R_386_TLS_DESC_CALL),
     (''R_386_TLS_DESC'', R_386_TLS_DESC),
     (''R_386_IRELATIVE'', R_386_IRELATIVE),
     (''R_386_GOT32X'', R_386_GOT32X)]"

lemmas R_386_defs =
  R_386_NONE_def R_386_32_def R_386_PC32_def R_386_GOT32_def R_386_PLT32_def R_386_COPY_def
  R_386_GLOB_DAT_def R_386_JUMP_SLOT_def R_386_RELATIVE_def R_386_GOTOFF_def R_386_GOTPC_def
  R_386_32PLT_def R_386_TLS_TPOFF_def R_386_TLS_IE_def R_386_TLS_GOTIE_def R_386_TLS_LE_def
  R_386_TLS_GD_def R_386_TLS_LDM_def R_386_16_def R_386_PC16_def R_386_8_def R_386_PC8_def
  R_386_TLS_GD_32_def R_386_TLS_GD_PUSH_def R_386_TLS_GD_CALL_def R_386_TLS_GD_POP_def
  R_386_TLS_LDM_32_def R_386_TLS_LDM_PUSH_def R_386_TLS_LDM_CALL_def R_386_TLS_LDM_POP_def
  R_386_TLS_LDO_32_def R_386_TLS_IE_32_def R_386_TLS_LE_32_def R_386_TLS_DTPMOD32_def
  R_386_TLS_DTPOFF32_def R_386_TLS_TPOFF32_def R_386_SIZE32_def R_386_TLS_GOTDESC_def
  R_386_TLS_DESC_CALL_def R_386_TLS_DESC_def R_386_IRELATIVE_def R_386_GOT32X_def

definition R_AARCH64_NONE :: u32 where "R_AARCH64_NONE = 0"
definition R_AARCH64_ABS64 :: u32 where "R_AARCH64_ABS64 = 0x101"
definition R_AARCH64_ABS32 :: u32 where "R_AARCH64_ABS32 = 0x102"
definition R_AARCH64_ABS16 :: u32 where "R_AARCH64_ABS16 = 0x103"
definition R_AARCH64_PREL64 :: u32 where "R_AARCH64_PREL64 = 0x104"
definition R_AARCH64_PREL32 :: u32 where "R_AARCH64_PREL32 = 0x105"
definition R_AARCH64_PREL16 :: u32 where "R_AARCH64_PREL16 = 0x106"
definition R_AARCH64_MOVW_UABS_G0 :: u32 where "R_AARCH64_MOVW_UABS_G0 = 0x107"
definition R_AARCH64_MOVW_UABS_G0_NC :: u32 where "R_AARCH64_MOVW_UABS_G0_NC = 0x108"
definition R_AARCH64_MOVW_UABS_G1 :: u32 where "R_AARCH64_MOVW_UABS_G1 = 0x109"
definition R_AARCH64_MOVW_UABS_G1_NC :: u32 where "R_AARCH64_MOVW_UABS_G1_NC = 0x10a"
definition R_AARCH64_MOVW_UABS_G2 :: u32 where "R_AARCH64_MOVW_UABS_G2 = 0x10b"
definition R_AARCH64_MOVW_UABS_G2_NC :: u32 where "R_AARCH64_MOVW_UABS_G2_NC = 0x10c"
definition R_AARCH64_MOVW_UABS_G3 :: u32 where "R_AARCH64_MOVW_UABS_G3 = 0x10d"
definition R_AARCH64_MOVW_SABS_G0 :: u32 where "R_AARCH64_MOVW_SABS_G0 = 0x10e"
definition R_AARCH64_MOVW_SABS_G1 :: u32 where "R_AARCH64_MOVW_SABS_G1 = 0x10f"
definition R_AARCH64_MOVW_SABS_G2 :: u32 where "R_AARCH64_MOVW_SABS_G2 = 0x110"
definition R_AARCH64_LD_PREL_LO19 :: u32 where "R_AARCH64_LD_PREL_LO19 = 0x111"
definition R_AARCH64_ADR_PREL_LO21 :: u32 where "R_AARCH64_ADR_PREL_LO21 = 0x112"
definition R_AARCH64_ADR_PREL_PG_HI21 :: u32 where "R_AARCH64_ADR_PREL_PG_HI21 = 0x113"
definition R_AARCH64_ADR_PREL_PG_HI21_NC :: u32 where "R_AARCH64_ADR_PREL_PG_HI21_NC = 0x114"
definition R_AARCH64_ADD_ABS_LO12_NC :: u32 where "R_AARCH64_ADD_ABS_LO12_NC = 0x115"
definition R_AARCH64_LDST8_ABS_LO12_NC :: u32 where "R_AARCH64_LDST8_ABS_LO12_NC = 0x116"
definition R_AARCH64_TSTBR14 :: u32 where "R_AARCH64_TSTBR14 = 0x117"
definition R_AARCH64_CONDBR19 :: u32 where "R_AARCH64_CONDBR19 = 0x118"
definition R_AARCH64_JUMP26 :: u32 where "R_AARCH64_JUMP26 = 0x11a"
definition R_AARCH64_CALL26 :: u32 where "R_AARCH64_CALL26 = 0x11b"
definition R_AARCH64_LDST16_ABS_LO12_NC :: u32 where "R_AARCH64_LDST16_ABS_LO12_NC = 0x11c"
definition R_AARCH64_LDST32_ABS_LO12_NC :: u32 where "R_AARCH64_LDST32_ABS_LO12_NC = 0x11d"
definition R_AARCH64_LDST64_ABS_LO12_NC :: u32 where "R_AARCH64_LDST64_ABS_LO12_NC = 0x11e"
definition R_AARCH64_MOVW_PREL_G0 :: u32 where "R_AARCH64_MOVW_PREL_G0 = 0x11f"
definition R_AARCH64_MOVW_PREL_G0_NC :: u32 where "R_AARCH64_MOVW_PREL_G0_NC = 0x120"
definition R_AARCH64_MOVW_PREL_G1 :: u32 where "R_AARCH64_MOVW_PREL_G1 = 0x121"
definition R_AARCH64_MOVW_PREL_G1_NC :: u32 where "R_AARCH64_MOVW_PREL_G1_NC = 0x122"
definition R_AARCH64_MOVW_PREL_G2 :: u32 where "R_AARCH64_MOVW_PREL_G2 = 0x123"
definition R_AARCH64_MOVW_PREL_G2_NC :: u32 where "R_AARCH64_MOVW_PREL_G2_NC = 0x124"
definition R_AARCH64_MOVW_PREL_G3 :: u32 where "R_AARCH64_MOVW_PREL_G3 = 0x125"
definition R_AARCH64_LDST128_ABS_LO12_NC :: u32 where "R_AARCH64_LDST128_ABS_LO12_NC = 0x12b"
definition R_AARCH64_ADR_GOT_PAGE :: u32 where "R_AARCH64_ADR_GOT_PAGE = 0x137"
definition R_AARCH64_LD64_GOT_LO12_NC :: u32 where "R_AARCH64_LD64_GOT_LO12_NC = 0x138"
definition R_AARCH64_LD64_GOTPAGE_LO15 :: u32 where "R_AARCH64_LD64_GOTPAGE_LO15 = 0x139"
definition R_AARCH64_PLT32 :: u32 where "R_AARCH64_PLT32 = 0x13a"
definition R_AARCH64_TLSGD_ADR_PREL21 :: u32 where "R_AARCH64_TLSGD_ADR_PREL21 = 0x200"
definition R_AARCH64_TLSGD_ADR_PAGE21 :: u32 where "R_AARCH64_TLSGD_ADR_PAGE21 = 0x201"
definition R_AARCH64_TLSGD_ADD_LO12_NC :: u32 where "R_AARCH64_TLSGD_ADD_LO12_NC = 0x202"
definition R_AARCH64_TLSGD_MOVW_G1 :: u32 where "R_AARCH64_TLSGD_MOVW_G1 = 0x203"
definition R_AARCH64_TLSGD_MOVW_G0_NC :: u32 where "R_AARCH64_TLSGD_MOVW_G0_NC = 0x204"
definition R_AARCH64_TLSLD_ADR_PREL21 :: u32 where "R_AARCH64_TLSLD_ADR_PREL21 = 0x205"
definition R_AARCH64_TLSLD_ADR_PAGE21 :: u32 where "R_AARCH64_TLSLD_ADR_PAGE21 = 0x206"
definition R_AARCH64_TLSLD_ADD_LO12_NC :: u32 where "R_AARCH64_TLSLD_ADD_LO12_NC = 0x207"
definition R_AARCH64_TLSLD_MOVW_G1 :: u32 where "R_AARCH64_TLSLD_MOVW_G1 = 0x208"
definition R_AARCH64_TLSLD_MOVW_G0_NC :: u32 where "R_AARCH64_TLSLD_MOVW_G0_NC = 0x209"
definition R_AARCH64_TLSLD_LD_PREL19 :: u32 where "R_AARCH64_TLSLD_LD_PREL19 = 0x20a"
definition R_AARCH64_TLSLD_MOVW_DTPREL_G2 :: u32 where "R_AARCH64_TLSLD_MOVW_DTPREL_G2 = 0x20b"
definition R_AARCH64_TLSLD_MOVW_DTPREL_G1 :: u32 where "R_AARCH64_TLSLD_MOVW_DTPREL_G1 = 0x20c"
definition R_AARCH64_TLSLD_MOVW_DTPREL_G1_NC :: u32 where "R_AARCH64_TLSLD_MOVW_DTPREL_G1_NC = 0x20d"
definition R_AARCH64_TLSLD_MOVW_DTPREL_G0 :: u32 where "R_AARCH64_TLSLD_MOVW_DTPREL_G0 = 0x20e"
definition R_AARCH64_TLSLD_MOVW_DTPREL_G0_NC :: u32 where "R_AARCH64_TLSLD_MOVW_DTPREL_G0_NC = 0x20f"
definition R_AARCH64_TLSLD_ADD_DTPREL_HI12 :: u32 where "R_AARCH64_TLSLD_ADD_DTPREL_HI12 = 0x210"
definition R_AARCH64_TLSLD_ADD_DTPREL_LO12 :: u32 where "R_AARCH64_TLSLD_ADD_DTPREL_LO12 = 0x211"
definition R_AARCH64_TLSLD_ADD_DTPREL_LO12_NC :: u32 where "R_AARCH64_TLSLD_ADD_DTPREL_LO12_NC = 0x212"
definition R_AARCH64_TLSLD_LDST8_DTPREL_LO12 :: u32 where "R_AARCH64_TLSLD_LDST8_DTPREL_LO12 = 0x213"
definition R_AARCH64_TLSLD_LDST8_DTPREL_LO12_NC :: u32 where "R_AARCH64_TLSLD_LDST8_DTPREL_LO12_NC = 0x214"
definition R_AARCH64_TLSLD_LDST16_DTPREL_LO12 :: u32 where "R_AARCH64_TLSLD_LDST16_DTPREL_LO12 = 0x215"
definition R_AARCH64_TLSLD_LDST16_DTPREL_LO12_NC :: u32 where "R_AARCH64_TLSLD_LDST16_DTPREL_LO12_NC = 0x216"
definition R_AARCH64_TLSLD_LDST32_DTPREL_LO12 :: u32 where "R_AARCH64_TLSLD_LDST32_DTPREL_LO12 = 0x217"
definition R_AARCH64_TLSLD_LDST32_DTPREL_LO12_NC :: u32 where "R_AARCH64_TLSLD_LDST32_DTPREL_LO12_NC = 0x218"
definition R_AARCH64_TLSLD_LDST64_DTPREL_LO12 :: u32 where "R_AARCH64_TLSLD_LDST64_DTPREL_LO12 = 0x219"
definition R_AARCH64_TLSLD_LDST64_DTPREL_LO12_NC :: u32 where "R_AARCH64_TLSLD_LDST64_DTPREL_LO12_NC = 0x21a"
definition R_AARCH64_TLSIE_MOVW_GOTTPREL_G1 :: u32 where "R_AARCH64_TLSIE_MOVW_GOTTPREL_G1 = 0x21b"
definition R_AARCH64_TLSIE_MOVW_GOTTPREL_G0_NC :: u32 where "R_AARCH64_TLSIE_MOVW_GOTTPREL_G0_NC = 0x21c"
definition R_AARCH64_TLSIE_ADR_GOTTPREL_PAGE21 :: u32 where "R_AARCH64_TLSIE_ADR_GOTTPREL_PAGE21 = 0x21d"
definition R_AARCH64_TLSIE_LD64_GOTTPREL_LO12_NC :: u32 where "R_AARCH64_TLSIE_LD64_GOTTPREL_LO12_NC = 0x21e"
definition R_AARCH64_TLSIE_LD_GOTTPREL_PREL19 :: u32 where "R_AARCH64_TLSIE_LD_GOTTPREL_PREL19 = 0x21f"
definition R_AARCH64_TLSLE_MOVW_TPREL_G2 :: u32 where "R_AARCH64_TLSLE_MOVW_TPREL_G2 = 0x220"
definition R_AARCH64_TLSLE_MOVW_TPREL_G1 :: u32 where "R_AARCH64_TLSLE_MOVW_TPREL_G1 = 0x221"
definition R_AARCH64_TLSLE_MOVW_TPREL_G1_NC :: u32 where "R_AARCH64_TLSLE_MOVW_TPREL_G1_NC = 0x222"
definition R_AARCH64_TLSLE_MOVW_TPREL_G0 :: u32 where "R_AARCH64_TLSLE_MOVW_TPREL_G0 = 0x223"
definition R_AARCH64_TLSLE_MOVW_TPREL_G0_NC :: u32 where "R_AARCH64_TLSLE_MOVW_TPREL_G0_NC = 0x224"
definition R_AARCH64_TLSLE_ADD_TPREL_HI12 :: u32 where "R_AARCH64_TLSLE_ADD_TPREL_HI12 = 0x225"
definition R_AARCH64_TLSLE_ADD_TPREL_LO12 :: u32 where "R_AARCH64_TLSLE_ADD_TPREL_LO12 = 0x226"
definition R_AARCH64_TLSLE_ADD_TPREL_LO12_NC :: u32 where "R_AARCH64_TLSLE_ADD_TPREL_LO12_NC = 0x227"
definition R_AARCH64_TLSLE_LDST8_TPREL_LO12 :: u32 where "R_AARCH64_TLSLE_LDST8_TPREL_LO12 = 0x228"
definition R_AARCH64_TLSLE_LDST8_TPREL_LO12_NC :: u32 where "R_AARCH64_TLSLE_LDST8_TPREL_LO12_NC = 0x229"
definition R_AARCH64_TLSLE_LDST16_TPREL_LO12 :: u32 where "R_AARCH64_TLSLE_LDST16_TPREL_LO12 = 0x22a"
definition R_AARCH64_TLSLE_LDST16_TPREL_LO12_NC :: u32 where "R_AARCH64_TLSLE_LDST16_TPREL_LO12_NC = 0x22b"
definition R_AARCH64_TLSLE_LDST32_TPREL_LO12 :: u32 where "R_AARCH64_TLSLE_LDST32_TPREL_LO12 = 0x22c"
definition R_AARCH64_TLSLE_LDST32_TPREL_LO12_NC :: u32 where "R_AARCH64_TLSLE_LDST32_TPREL_LO12_NC = 0x22d"
definition R_AARCH64_TLSLE_LDST64_TPREL_LO12 :: u32 where "R_AARCH64_TLSLE_LDST64_TPREL_LO12 = 0x22e"
definition R_AARCH64_TLSLE_LDST64_TPREL_LO12_NC :: u32 where "R_AARCH64_TLSLE_LDST64_TPREL_LO12_NC = 0x22f"
definition R_AARCH64_TLSDESC_ADR_PAGE21 :: u32 where "R_AARCH64_TLSDESC_ADR_PAGE21 = 0x232"
definition R_AARCH64_TLSDESC_LD64_LO12 :: u32 where "R_AARCH64_TLSDESC_LD64_LO12 = 0x233"
definition R_AARCH64_TLSDESC_ADD_LO12 :: u32 where "R_AARCH64_TLSDESC_ADD_LO12 = 0x234"
definition R_AARCH64_TLSDESC_CALL :: u32 where "R_AARCH64_TLSDESC_CALL = 0x239"
definition R_AARCH64_TLSLE_LDST128_TPREL_LO12_NC :: u32 where "R_AARCH64_TLSLE_LDST128_TPREL_LO12_NC = 0x23b"
definition R_AARCH64_COPY :: u32 where "R_AARCH64_COPY = 0x400"
definition R_AARCH64_GLOB_DAT :: u32 where "R_AARCH64_GLOB_DAT = 0x401"
definition R_AARCH64_JUMP_SLOT :: u32 where "R_AARCH64_JUMP_SLOT = 0x402"
definition R_AARCH64_RELATIVE :: u32 where "R_AARCH64_RELATIVE = 0x403"
definition R_AARCH64_TLS_DTPMOD64 :: u32 where "R_AARCH64_TLS_DTPMOD64 = 0x404"
definition R_AARCH64_TLS_DTPREL64 :: u32 where "R_AARCH64_TLS_DTPREL64 = 0x405"
definition R_AARCH64_TLS_TPREL64 :: u32 where "R_AARCH64_TLS_TPREL64 = 0x406"
definition R_AARCH64_TLSDESC :: u32 where "R_AARCH64_TLSDESC = 0x407"
definition R_AARCH64_IRELATIVE :: u32 where "R_AARCH64_IRELATIVE = 0x408"

definition R_AARCH64_enum :: "(string \<times> u32) list" where
  "R_AARCH64_enum =
    [(''R_AARCH64_NONE'', R_AARCH64_NONE),
     (''R_AARCH64_ABS64'', R_AARCH64_ABS64),
     (''R_AARCH64_ABS32'', R_AARCH64_ABS32),
     (''R_AARCH64_ABS16'', R_AARCH64_ABS16),
     (''R_AARCH64_PREL64'', R_AARCH64_PREL64),
     (''R_AARCH64_PREL32'', R_AARCH64_PREL32),
     (''R_AARCH64_PREL16'', R_AARCH64_PREL16),
     (''R_AARCH64_MOVW_UABS_G0'', R_AARCH64_MOVW_UABS_G0),
     (''R_AARCH64_MOVW_UABS_G0_NC'', R_AARCH64_MOVW_UABS_G0_NC),
     (''R_AARCH64_MOVW_UABS_G1'', R_AARCH64_MOVW_UABS_G1),
     (''R_AARCH64_MOVW_UABS_G1_NC'', R_AARCH64_MOVW_UABS_G1_NC),
     (''R_AARCH64_MOVW_UABS_G2'', R_AARCH64_MOVW_UABS_G2),
     (''R_AARCH64_MOVW_UABS_G2_NC'', R_AARCH64_MOVW_UABS_G2_NC),
     (''R_AARCH64_MOVW_UABS_G3'', R_AARCH64_MOVW_UABS_G3),
     (''R_AARCH64_MOVW_SABS_G0'', R_AARCH64_MOVW_SABS_G0),
     (''R_AARCH64_MOVW_SABS_G1'', R_AARCH64_MOVW_SABS_G1),
     (''R_AARCH64_MOVW_SABS_G2'', R_AARCH64_MOVW_SABS_G2),
     (''R_AARCH64_LD_PREL_LO19'', R_AARCH64_LD_PREL_LO19),
     (''R_AARCH64_ADR_PREL_LO21'', R_AARCH64_ADR_PREL_LO21),
     (''R_AARCH64_ADR_PREL_PG_HI21'', R_AARCH64_ADR_PREL_PG_HI21),
     (''R_AARCH64_ADR_PREL_PG_HI21_NC'', R_AARCH64_ADR_PREL_PG_HI21_NC),
     (''R_AARCH64_ADD_ABS_LO12_NC'', R_AARCH64_ADD_ABS_LO12_NC),
     (''R_AARCH64_LDST8_ABS_LO12_NC'', R_AARCH64_LDST8_ABS_LO12_NC),
     (''R_AARCH64_TSTBR14'', R_AARCH64_TSTBR14),
     (''R_AARCH64_CONDBR19'', R_AARCH64_CONDBR19),
     (''R_AARCH64_JUMP26'', R_AARCH64_JUMP26),
     (''R_AARCH64_CALL26'', R_AARCH64_CALL26),
     (''R_AARCH64_LDST16_ABS_LO12_NC'', R_AARCH64_LDST16_ABS_LO12_NC),
     (''R_AARCH64_LDST32_ABS_LO12_NC'', R_AARCH64_LDST32_ABS_LO12_NC),
     (''R_AARCH64_LDST64_ABS_LO12_NC'', R_AARCH64_LDST64_ABS_LO12_NC),
     (''R_AARCH64_MOVW_PREL_G0'', R_AARCH64_MOVW_PREL_G0),
     (''R_AARCH64_MOVW_PREL_G0_NC'', R_AARCH64_MOVW_PREL_G0_NC),
     (''R_AARCH64_MOVW_PREL_G1'', R_AARCH64_MOVW_PREL_G1),
     (''R_AARCH64_MOVW_PREL_G1_NC'', R_AARCH64_MOVW_PREL_G1_NC),
     (''R_AARCH64_MOVW_PREL_G2'', R_AARCH64_MOVW_PREL_G2),
     (''R_AARCH64_MOVW_PREL_G2_NC'', R_AARCH64_MOVW_PREL_G2_NC),
     (''R_AARCH64_MOVW_PREL_G3'', R_AARCH64_MOVW_PREL_G3),
     (''R_AARCH64_LDST128_ABS_LO12_NC'', R_AARCH64_LDST128_ABS_LO12_NC),
     (''R_AARCH64_ADR_GOT_PAGE'', R_AARCH64_ADR_GOT_PAGE),
     (''R_AARCH64_LD64_GOT_LO12_NC'', R_AARCH64_LD64_GOT_LO12_NC),
     (''R_AARCH64_LD64_GOTPAGE_LO15'', R_AARCH64_LD64_GOTPAGE_LO15),
     (''R_AARCH64_PLT32'', R_AARCH64_PLT32),
     (''R_AARCH64_TLSGD_ADR_PREL21'', R_AARCH64_TLSGD_ADR_PREL21),
     (''R_AARCH64_TLSGD_ADR_PAGE21'', R_AARCH64_TLSGD_ADR_PAGE21),
     (''R_AARCH64_TLSGD_ADD_LO12_NC'', R_AARCH64_TLSGD_ADD_LO12_NC),
     (''R_AARCH64_TLSGD_MOVW_G1'', R_AARCH64_TLSGD_MOVW_G1),
     (''R_AARCH64_TLSGD_MOVW_G0_NC'', R_AARCH64_TLSGD_MOVW_G0_NC),
     (''R_AARCH64_TLSLD_ADR_PREL21'', R_AARCH64_TLSLD_ADR_PREL21),
     (''R_AARCH64_TLSLD_ADR_PAGE21'', R_AARCH64_TLSLD_ADR_PAGE21),
     (''R_AARCH64_TLSLD_ADD_LO12_NC'', R_AARCH64_TLSLD_ADD_LO12_NC),
     (''R_AARCH64_TLSLD_MOVW_G1'', R_AARCH64_TLSLD_MOVW_G1),
     (''R_AARCH64_TLSLD_MOVW_G0_NC'', R_AARCH64_TLSLD_MOVW_G0_NC),
     (''R_AARCH64_TLSLD_LD_PREL19'', R_AARCH64_TLSLD_LD_PREL19),
     (''R_AARCH64_TLSLD_MOVW_DTPREL_G2'', R_AARCH64_TLSLD_MOVW_DTPREL_G2),
     (''R_AARCH64_TLSLD_MOVW_DTPREL_G1'', R_AARCH64_TLSLD_MOVW_DTPREL_G1),
     (''R_AARCH64_TLSLD_MOVW_DTPREL_G1_NC'', R_AARCH64_TLSLD_MOVW_DTPREL_G1_NC),
     (''R_AARCH64_TLSLD_MOVW_DTPREL_G0'', R_AARCH64_TLSLD_MOVW_DTPREL_G0),
     (''R_AARCH64_TLSLD_MOVW_DTPREL_G0_NC'', R_AARCH64_TLSLD_MOVW_DTPREL_G0_NC),
     (''R_AARCH64_TLSLD_ADD_DTPREL_HI12'', R_AARCH64_TLSLD_ADD_DTPREL_HI12),
     (''R_AARCH64_TLSLD_ADD_DTPREL_LO12'', R_AARCH64_TLSLD_ADD_DTPREL_LO12),
     (''R_AARCH64_TLSLD_ADD_DTPREL_LO12_NC'', R_AARCH64_TLSLD_ADD_DTPREL_LO12_NC),
     (''R_AARCH64_TLSLD_LDST8_DTPREL_LO12'', R_AARCH64_TLSLD_LDST8_DTPREL_LO12),
     (''R_AARCH64_TLSLD_LDST8_DTPREL_LO12_NC'', R_AARCH64_TLSLD_LDST8_DTPREL_LO12_NC),
     (''R_AARCH64_TLSLD_LDST16_DTPREL_LO12'', R_AARCH64_TLSLD_LDST16_DTPREL_LO12),
     (''R_AARCH64_TLSLD_LDST16_DTPREL_LO12_NC'', R_AARCH64_TLSLD_LDST16_DTPREL_LO12_NC),
     (''R_AARCH64_TLSLD_LDST32_DTPREL_LO12'', R_AARCH64_TLSLD_LDST32_DTPREL_LO12),
     (''R_AARCH64_TLSLD_LDST32_DTPREL_LO12_NC'', R_AARCH64_TLSLD_LDST32_DTPREL_LO12_NC),
     (''R_AARCH64_TLSLD_LDST64_DTPREL_LO12'', R_AARCH64_TLSLD_LDST64_DTPREL_LO12),
     (''R_AARCH64_TLSLD_LDST64_DTPREL_LO12_NC'', R_AARCH64_TLSLD_LDST64_DTPREL_LO12_NC),
     (''R_AARCH64_TLSIE_MOVW_GOTTPREL_G1'', R_AARCH64_TLSIE_MOVW_GOTTPREL_G1),
     (''R_AARCH64_TLSIE_MOVW_GOTTPREL_G0_NC'', R_AARCH64_TLSIE_MOVW_GOTTPREL_G0_NC),
     (''R_AARCH64_TLSIE_ADR_GOTTPREL_PAGE21'', R_AARCH64_TLSIE_ADR_GOTTPREL_PAGE21),
     (''R_AARCH64_TLSIE_LD64_GOTTPREL_LO12_NC'', R_AARCH64_TLSIE_LD64_GOTTPREL_LO12_NC),
     (''R_AARCH64_TLSIE_LD_GOTTPREL_PREL19'', R_AARCH64_TLSIE_LD_GOTTPREL_PREL19),
     (''R_AARCH64_TLSLE_MOVW_TPREL_G2'', R_AARCH64_TLSLE_MOVW_TPREL_G2),
     (''R_AARCH64_TLSLE_MOVW_TPREL_G1'', R_AARCH64_TLSLE_MOVW_TPREL_G1),
     (''R_AARCH64_TLSLE_MOVW_TPREL_G1_NC'', R_AARCH64_TLSLE_MOVW_TPREL_G1_NC),
     (''R_AARCH64_TLSLE_MOVW_TPREL_G0'', R_AARCH64_TLSLE_MOVW_TPREL_G0),
     (''R_AARCH64_TLSLE_MOVW_TPREL_G0_NC'', R_AARCH64_TLSLE_MOVW_TPREL_G0_NC),
     (''R_AARCH64_TLSLE_ADD_TPREL_HI12'', R_AARCH64_TLSLE_ADD_TPREL_HI12),
     (''R_AARCH64_TLSLE_ADD_TPREL_LO12'', R_AARCH64_TLSLE_ADD_TPREL_LO12),
     (''R_AARCH64_TLSLE_ADD_TPREL_LO12_NC'', R_AARCH64_TLSLE_ADD_TPREL_LO12_NC),
     (''R_AARCH64_TLSLE_LDST8_TPREL_LO12'', R_AARCH64_TLSLE_LDST8_TPREL_LO12),
     (''R_AARCH64_TLSLE_LDST8_TPREL_LO12_NC'', R_AARCH64_TLSLE_LDST8_TPREL_LO12_NC),
     (''R_AARCH64_TLSLE_LDST16_TPREL_LO12'', R_AARCH64_TLSLE_LDST16_TPREL_LO12),
     (''R_AARCH64_TLSLE_LDST16_TPREL_LO12_NC'', R_AARCH64_TLSLE_LDST16_TPREL_LO12_NC),
     (''R_AARCH64_TLSLE_LDST32_TPREL_LO12'', R_AARCH64_TLSLE_LDST32_TPREL_LO12),
     (''R_AARCH64_TLSLE_LDST32_TPREL_LO12_NC'', R_AARCH64_TLSLE_LDST32_TPREL_LO12_NC),
     (''R_AARCH64_TLSLE_LDST64_TPREL_LO12'', R_AARCH64_TLSLE_LDST64_TPREL_LO12),
     (''R_AARCH64_TLSLE_LDST64_TPREL_LO12_NC'', R_AARCH64_TLSLE_LDST64_TPREL_LO12_NC),
     (''R_AARCH64_TLSDESC_ADR_PAGE21'', R_AARCH64_TLSDESC_ADR_PAGE21),
     (''R_AARCH64_TLSDESC_LD64_LO12'', R_AARCH64_TLSDESC_LD64_LO12),
     (''R_AARCH64_TLSDESC_ADD_LO12'', R_AARCH64_TLSDESC_ADD_LO12),
     (''R_AARCH64_TLSDESC_CALL'', R_AARCH64_TLSDESC_CALL),
     (''R_AARCH64_TLSLE_LDST128_TPREL_LO12_NC'', R_AARCH64_TLSLE_LDST128_TPREL_LO12_NC),
     (''R_AARCH64_COPY'', R_AARCH64_COPY),
     (''R_AARCH64_GLOB_DAT'', R_AARCH64_GLOB_DAT),
     (''R_AARCH64_JUMP_SLOT'', R_AARCH64_JUMP_SLOT),
     (''R_AARCH64_RELATIVE'', R_AARCH64_RELATIVE),
     (''R_AARCH64_TLS_DTPMOD64'', R_AARCH64_TLS_DTPMOD64),
     (''R_AARCH64_TLS_DTPREL64'', R_AARCH64_TLS_DTPREL64),
     (''R_AARCH64_TLS_TPREL64'', R_AARCH64_TLS_TPREL64),
     (''R_AARCH64_TLSDESC'', R_AARCH64_TLSDESC),
     (''R_AARCH64_IRELATIVE'', R_AARCH64_IRELATIVE)]"

lemmas R_AARCH64_defs =
  R_AARCH64_NONE_def R_AARCH64_ABS64_def R_AARCH64_ABS32_def R_AARCH64_ABS16_def
  R_AARCH64_PREL64_def R_AARCH64_PREL32_def R_AARCH64_PREL16_def R_AARCH64_MOVW_UABS_G0_def
  R_AARCH64_MOVW_UABS_G0_NC_def R_AARCH64_MOVW_UABS_G1_def R_AARCH64_MOVW_UABS_G1_NC_def
  R_AARCH64_MOVW_UABS_G2_def R_AARCH64_MOVW_UABS_G2_NC_def R_AARCH64_MOVW_UABS_G3_def
  R_AARCH64_MOVW_SABS_G0_def R_AARCH64_MOVW_SABS_G1_def R_AARCH64_MOVW_SABS_G2_def
  R_AARCH64_LD_PREL_LO19_def R_AARCH64_ADR_PREL_LO21_def R_AARCH64_ADR_PREL_PG_HI21_def
  R_AARCH64_ADR_PREL_PG_HI21_NC_def R_AARCH64_ADD_ABS_LO12_NC_def
  R_AARCH64_LDST8_ABS_LO12_NC_def R_AARCH64_TSTBR14_def R_AARCH64_CONDBR19_def
  R_AARCH64_JUMP26_def R_AARCH64_CALL26_def R_AARCH64_LDST16_ABS_LO12_NC_def
  R_AARCH64_LDST32_ABS_LO12_NC_def R_AARCH64_LDST64_ABS_LO12_NC_def R_AARCH64_MOVW_PREL_G0_def
  R_AARCH64_MOVW_PREL_G0_NC_def R_AARCH64_MOVW_PREL_G1_def R_AARCH64_MOVW_PREL_G1_NC_def
  R_AARCH64_MOVW_PREL_G2_def R_AARCH64_MOVW_PREL_G2_NC_def R_AARCH64_MOVW_PREL_G3_def
  R_AARCH64_LDST128_ABS_LO12_NC_def R_AARCH64_ADR_GOT_PAGE_def R_AARCH64_LD64_GOT_LO12_NC_def
  R_AARCH64_LD64_GOTPAGE_LO15_def R_AARCH64_PLT32_def R_AARCH64_TLSGD_ADR_PREL21_def
  R_AARCH64_TLSGD_ADR_PAGE21_def R_AARCH64_TLSGD_ADD_LO12_NC_def R_AARCH64_TLSGD_MOVW_G1_def
  R_AARCH64_TLSGD_MOVW_G0_NC_def R_AARCH64_TLSLD_ADR_PREL21_def R_AARCH64_TLSLD_ADR_PAGE21_def
  R_AARCH64_TLSLD_ADD_LO12_NC_def R_AARCH64_TLSLD_MOVW_G1_def R_AARCH64_TLSLD_MOVW_G0_NC_def
  R_AARCH64_TLSLD_LD_PREL19_def R_AARCH64_TLSLD_MOVW_DTPREL_G2_def
  R_AARCH64_TLSLD_MOVW_DTPREL_G1_def R_AARCH64_TLSLD_MOVW_DTPREL_G1_NC_def
  R_AARCH64_TLSLD_MOVW_DTPREL_G0_def R_AARCH64_TLSLD_MOVW_DTPREL_G0_NC_def
  R_AARCH64_TLSLD_ADD_DTPREL_HI12_def R_AARCH64_TLSLD_ADD_DTPREL_LO12_def
  R_AARCH64_TLSLD_ADD_DTPREL_LO12_NC_def R_AARCH64_TLSLD_LDST8_DTPREL_LO12_def
  R_AARCH64_TLSLD_LDST8_DTPREL_LO12_NC_def R_AARCH64_TLSLD_LDST16_DTPREL_LO12_def
  R_AARCH64_TLSLD_LDST16_DTPREL_LO12_NC_def R_AARCH64_TLSLD_LDST32_DTPREL_LO12_def
  R_AARCH64_TLSLD_LDST32_DTPREL_LO12_NC_def R_AARCH64_TLSLD_LDST64_DTPREL_LO12_def
  R_AARCH64_TLSLD_LDST64_DTPREL_LO12_NC_def R_AARCH64_TLSIE_MOVW_GOTTPREL_G1_def
  R_AARCH64_TLSIE_MOVW_GOTTPREL_G0_NC_def R_AARCH64_TLSIE_ADR_GOTTPREL_PAGE21_def
  R_AARCH64_TLSIE_LD64_GOTTPREL_LO12_NC_def R_AARCH64_TLSIE_LD_GOTTPREL_PREL19_def
  R_AARCH64_TLSLE_MOVW_TPREL_G2_def R_AARCH64_TLSLE_MOVW_TPREL_G1_def
  R_AARCH64_TLSLE_MOVW_TPREL_G1_NC_def R_AARCH64_TLSLE_MOVW_TPREL_G0_def
  R_AARCH64_TLSLE_MOVW_TPREL_G0_NC_def R_AARCH64_TLSLE_ADD_TPREL_HI12_def
  R_AARCH64_TLSLE_ADD_TPREL_LO12_def R_AARCH64_TLSLE_ADD_TPREL_LO12_NC_def
  R_AARCH64_TLSLE_LDST8_TPREL_LO12_def R_AARCH64_TLSLE_LDST8_TPREL_LO12_NC_def
  R_AARCH64_TLSLE_LDST16_TPREL_LO12_def R_AARCH64_TLSLE_LDST16_TPREL_LO12_NC_def
  R_AARCH64_TLSLE_LDST32_TPREL_LO12_def R_AARCH64_TLSLE_LDST32_TPREL_LO12_NC_def
  R_AARCH64_TLSLE_LDST64_TPREL_LO12_def R_AARCH64_TLSLE_LDST64_TPREL_LO12_NC_def
  R_AARCH64_TLSDESC_ADR_PAGE21_def R_AARCH64_TLSDESC_LD64_LO12_def
  R_AARCH64_TLSDESC_ADD_LO12_def R_AARCH64_TLSDESC_CALL_def
  R_AARCH64_TLSLE_LDST128_TPREL_LO12_NC_def R_AARCH64_COPY_def R_AARCH64_GLOB_DAT_def
  R_AARCH64_JUMP_SLOT_def R_AARCH64_RELATIVE_def R_AARCH64_TLS_DTPMOD64_def
  R_AARCH64_TLS_DTPREL64_def R_AARCH64_TLS_TPREL64_def R_AARCH64_TLSDESC_def
  R_AARCH64_IRELATIVE_def

definition R_ARM_NONE :: u32 where "R_ARM_NONE = 0"
definition R_ARM_PC24 :: u32 where "R_ARM_PC24 = 1"
definition R_ARM_ABS32 :: u32 where "R_ARM_ABS32 = 2"
definition R_ARM_REL32 :: u32 where "R_ARM_REL32 = 3"
definition R_ARM_LDR_PC_G0 :: u32 where "R_ARM_LDR_PC_G0 = 4"
definition R_ARM_ABS16 :: u32 where "R_ARM_ABS16 = 5"
definition R_ARM_ABS12 :: u32 where "R_ARM_ABS12 = 6"
definition R_ARM_THM_ABS5 :: u32 where "R_ARM_THM_ABS5 = 7"
definition R_ARM_ABS8 :: u32 where "R_ARM_ABS8 = 8"
definition R_ARM_SBREL32 :: u32 where "R_ARM_SBREL32 = 9"
definition R_ARM_THM_CALL :: u32 where "R_ARM_THM_CALL = 10"
definition R_ARM_THM_PC8 :: u32 where "R_ARM_THM_PC8 = 11"
definition R_ARM_BREL_ADJ :: u32 where "R_ARM_BREL_ADJ = 12"
definition R_ARM_TLS_DESC :: u32 where "R_ARM_TLS_DESC = 13"
definition R_ARM_THM_SWI8 :: u32 where "R_ARM_THM_SWI8 = 14"
definition R_ARM_XPC25 :: u32 where "R_ARM_XPC25 = 15"
definition R_ARM_THM_XPC22 :: u32 where "R_ARM_THM_XPC22 = 16"
definition R_ARM_TLS_DTPMOD32 :: u32 where "R_ARM_TLS_DTPMOD32 = 17"
definition R_ARM_TLS_DTPOFF32 :: u32 where "R_ARM_TLS_DTPOFF32 = 18"
definition R_ARM_TLS_TPOFF32 :: u32 where "R_ARM_TLS_TPOFF32 = 19"
definition R_ARM_COPY :: u32 where "R_ARM_COPY = 20"
definition R_ARM_GLOB_DAT :: u32 where "R_ARM_GLOB_DAT = 21"
definition R_ARM_JUMP_SLOT :: u32 where "R_ARM_JUMP_SLOT = 22"
definition R_ARM_RELATIVE :: u32 where "R_ARM_RELATIVE = 23"
definition R_ARM_GOTOFF32 :: u32 where "R_ARM_GOTOFF32 = 24"
definition R_ARM_BASE_PREL :: u32 where "R_ARM_BASE_PREL = 25"
definition R_ARM_GOT_BREL :: u32 where "R_ARM_GOT_BREL = 26"
definition R_ARM_PLT32 :: u32 where "R_ARM_PLT32 = 27"
definition R_ARM_CALL :: u32 where "R_ARM_CALL = 28"
definition R_ARM_JUMP24 :: u32 where "R_ARM_JUMP24 = 29"
definition R_ARM_THM_JUMP24 :: u32 where "R_ARM_THM_JUMP24 = 30"
definition R_ARM_BASE_ABS :: u32 where "R_ARM_BASE_ABS = 31"
definition R_ARM_ALU_PCREL_7_0 :: u32 where "R_ARM_ALU_PCREL_7_0 = 32"
definition R_ARM_ALU_PCREL_15_8 :: u32 where "R_ARM_ALU_PCREL_15_8 = 33"
definition R_ARM_ALU_PCREL_23_15 :: u32 where "R_ARM_ALU_PCREL_23_15 = 34"
definition R_ARM_LDR_SBREL_11_0_NC :: u32 where "R_ARM_LDR_SBREL_11_0_NC = 35"
definition R_ARM_ALU_SBREL_19_12_NC :: u32 where "R_ARM_ALU_SBREL_19_12_NC = 36"
definition R_ARM_ALU_SBREL_27_20_CK :: u32 where "R_ARM_ALU_SBREL_27_20_CK = 37"
definition R_ARM_TARGET1 :: u32 where "R_ARM_TARGET1 = 38"
definition R_ARM_SBREL31 :: u32 where "R_ARM_SBREL31 = 39"
definition R_ARM_V4BX :: u32 where "R_ARM_V4BX = 40"
definition R_ARM_TARGET2 :: u32 where "R_ARM_TARGET2 = 41"
definition R_ARM_PREL31 :: u32 where "R_ARM_PREL31 = 42"
definition R_ARM_MOVW_ABS_NC :: u32 where "R_ARM_MOVW_ABS_NC = 43"
definition R_ARM_MOVT_ABS :: u32 where "R_ARM_MOVT_ABS = 44"
definition R_ARM_MOVW_PREL_NC :: u32 where "R_ARM_MOVW_PREL_NC = 45"
definition R_ARM_MOVT_PREL :: u32 where "R_ARM_MOVT_PREL = 46"
definition R_ARM_THM_MOVW_ABS_NC :: u32 where "R_ARM_THM_MOVW_ABS_NC = 47"
definition R_ARM_THM_MOVT_ABS :: u32 where "R_ARM_THM_MOVT_ABS = 48"
definition R_ARM_THM_MOVW_PREL_NC :: u32 where "R_ARM_THM_MOVW_PREL_NC = 49"
definition R_ARM_THM_MOVT_PREL :: u32 where "R_ARM_THM_MOVT_PREL = 50"
definition R_ARM_THM_JUMP19 :: u32 where "R_ARM_THM_JUMP19 = 51"
definition R_ARM_THM_JUMP6 :: u32 where "R_ARM_THM_JUMP6 = 52"
definition R_ARM_THM_ALU_PREL_11_0 :: u32 where "R_ARM_THM_ALU_PREL_11_0 = 53"
definition R_ARM_THM_PC12 :: u32 where "R_ARM_THM_PC12 = 54"
definition R_ARM_ABS32_NOI :: u32 where "R_ARM_ABS32_NOI = 55"
definition R_ARM_REL32_NOI :: u32 where "R_ARM_REL32_NOI = 56"
definition R_ARM_ALU_PC_G0_NC :: u32 where "R_ARM_ALU_PC_G0_NC = 57"
definition R_ARM_ALU_PC_G0 :: u32 where "R_ARM_ALU_PC_G0 = 58"
definition R_ARM_ALU_PC_G1_NC :: u32 where "R_ARM_ALU_PC_G1_NC = 59"
definition R_ARM_ALU_PC_G1 :: u32 where "R_ARM_ALU_PC_G1 = 60"
definition R_ARM_ALU_PC_G2 :: u32 where "R_ARM_ALU_PC_G2 = 61"
definition R_ARM_LDR_PC_G1 :: u32 where "R_ARM_LDR_PC_G1 = 62"
definition R_ARM_LDR_PC_G2 :: u32 where "R_ARM_LDR_PC_G2 = 63"
definition R_ARM_LDRS_PC_G0 :: u32 where "R_ARM_LDRS_PC_G0 = 64"
definition R_ARM_LDRS_PC_G1 :: u32 where "R_ARM_LDRS_PC_G1 = 65"
definition R_ARM_LDRS_PC_G2 :: u32 where "R_ARM_LDRS_PC_G2 = 66"
definition R_ARM_LDC_PC_G0 :: u32 where "R_ARM_LDC_PC_G0 = 67"
definition R_ARM_LDC_PC_G1 :: u32 where "R_ARM_LDC_PC_G1 = 68"
definition R_ARM_LDC_PC_G2 :: u32 where "R_ARM_LDC_PC_G2 = 69"
definition R_ARM_ALU_SB_G0_NC :: u32 where "R_ARM_ALU_SB_G0_NC = 70"
definition R_ARM_ALU_SB_G0 :: u32 where "R_ARM_ALU_SB_G0 = 71"
definition R_ARM_ALU_SB_G1_NC :: u32 where "R_ARM_ALU_SB_G1_NC = 72"
definition R_ARM_ALU_SB_G1 :: u32 where "R_ARM_ALU_SB_G1 = 73"
definition R_ARM_ALU_SB_G2 :: u32 where "R_ARM_ALU_SB_G2 = 74"
definition R_ARM_LDR_SB_G0 :: u32 where "R_ARM_LDR_SB_G0 = 75"
definition R_ARM_LDR_SB_G1 :: u32 where "R_ARM_LDR_SB_G1 = 76"
definition R_ARM_LDR_SB_G2 :: u32 where "R_ARM_LDR_SB_G2 = 77"
definition R_ARM_LDRS_SB_G0 :: u32 where "R_ARM_LDRS_SB_G0 = 78"
definition R_ARM_LDRS_SB_G1 :: u32 where "R_ARM_LDRS_SB_G1 = 79"
definition R_ARM_LDRS_SB_G2 :: u32 where "R_ARM_LDRS_SB_G2 = 80"
definition R_ARM_LDC_SB_G0 :: u32 where "R_ARM_LDC_SB_G0 = 81"
definition R_ARM_LDC_SB_G1 :: u32 where "R_ARM_LDC_SB_G1 = 82"
definition R_ARM_LDC_SB_G2 :: u32 where "R_ARM_LDC_SB_G2 = 83"
definition R_ARM_MOVW_BREL_NC :: u32 where "R_ARM_MOVW_BREL_NC = 84"
definition R_ARM_MOVT_BREL :: u32 where "R_ARM_MOVT_BREL = 85"
definition R_ARM_MOVW_BREL :: u32 where "R_ARM_MOVW_BREL = 86"
definition R_ARM_THM_MOVW_BREL_NC :: u32 where "R_ARM_THM_MOVW_BREL_NC = 87"
definition R_ARM_THM_MOVT_BREL :: u32 where "R_ARM_THM_MOVT_BREL = 88"
definition R_ARM_THM_MOVW_BREL :: u32 where "R_ARM_THM_MOVW_BREL = 89"
definition R_ARM_TLS_GOTDESC :: u32 where "R_ARM_TLS_GOTDESC = 90"
definition R_ARM_TLS_CALL :: u32 where "R_ARM_TLS_CALL = 91"
definition R_ARM_TLS_DESCSEQ :: u32 where "R_ARM_TLS_DESCSEQ = 92"
definition R_ARM_THM_TLS_CALL :: u32 where "R_ARM_THM_TLS_CALL = 93"
definition R_ARM_PLT32_ABS :: u32 where "R_ARM_PLT32_ABS = 94"
definition R_ARM_GOT_ABS :: u32 where "R_ARM_GOT_ABS = 95"
definition R_ARM_GOT_PREL :: u32 where "R_ARM_GOT_PREL = 96"
definition R_ARM_GOT_BREL12 :: u32 where "R_ARM_GOT_BREL12 = 97"
definition R_ARM_GOTOFF12 :: u32 where "R_ARM_GOTOFF12 = 98"
definition R_ARM_GOTRELAX :: u32 where "R_ARM_GOTRELAX = 99"
definition R_ARM_GNU_VTENTRY :: u32 where "R_ARM_GNU_VTENTRY = 100"
definition R_ARM_GNU_VTINHERIT :: u32 where "R_ARM_GNU_VTINHERIT = 101"
definition R_ARM_THM_JUMP11 :: u32 where "R_ARM_THM_JUMP11 = 102"
definition R_ARM_THM_JUMP8 :: u32 where "R_ARM_THM_JUMP8 = 103"
definition R_ARM_TLS_GD32 :: u32 where "R_ARM_TLS_GD32 = 104"
definition R_ARM_TLS_LDM32 :: u32 where "R_ARM_TLS_LDM32 = 105"
definition R_ARM_TLS_LDO32 :: u32 where "R_ARM_TLS_LDO32 = 106"
definition R_ARM_TLS_IE32 :: u32 where "R_ARM_TLS_IE32 = 107"
definition R_ARM_TLS_LE32 :: u32 where "R_ARM_TLS_LE32 = 108"
definition R_ARM_TLS_LDO12 :: u32 where "R_ARM_TLS_LDO12 = 109"
definition R_ARM_TLS_LE12 :: u32 where "R_ARM_TLS_LE12 = 110"
definition R_ARM_TLS_IE12GP :: u32 where "R_ARM_TLS_IE12GP = 111"
definition R_ARM_PRIVATE_0 :: u32 where "R_ARM_PRIVATE_0 = 112"
definition R_ARM_PRIVATE_1 :: u32 where "R_ARM_PRIVATE_1 = 113"
definition R_ARM_PRIVATE_2 :: u32 where "R_ARM_PRIVATE_2 = 114"
definition R_ARM_PRIVATE_3 :: u32 where "R_ARM_PRIVATE_3 = 115"
definition R_ARM_PRIVATE_4 :: u32 where "R_ARM_PRIVATE_4 = 116"
definition R_ARM_PRIVATE_5 :: u32 where "R_ARM_PRIVATE_5 = 117"
definition R_ARM_PRIVATE_6 :: u32 where "R_ARM_PRIVATE_6 = 118"
definition R_ARM_PRIVATE_7 :: u32 where "R_ARM_PRIVATE_7 = 119"
definition R_ARM_PRIVATE_8 :: u32 where "R_ARM_PRIVATE_8 = 120"
definition R_ARM_PRIVATE_9 :: u32 where "R_ARM_PRIVATE_9 = 121"
definition R_ARM_PRIVATE_10 :: u32 where "R_ARM_PRIVATE_10 = 122"
definition R_ARM_PRIVATE_11 :: u32 where "R_ARM_PRIVATE_11 = 123"
definition R_ARM_PRIVATE_12 :: u32 where "R_ARM_PRIVATE_12 = 124"
definition R_ARM_PRIVATE_13 :: u32 where "R_ARM_PRIVATE_13 = 125"
definition R_ARM_PRIVATE_14 :: u32 where "R_ARM_PRIVATE_14 = 126"
definition R_ARM_PRIVATE_15 :: u32 where "R_ARM_PRIVATE_15 = 127"
definition R_ARM_ME_TOO :: u32 where "R_ARM_ME_TOO = 128"
definition R_ARM_THM_TLS_DESCSEQ16 :: u32 where "R_ARM_THM_TLS_DESCSEQ16 = 129"
definition R_ARM_THM_TLS_DESCSEQ32 :: u32 where "R_ARM_THM_TLS_DESCSEQ32 = 130"
definition R_ARM_THM_BF16 :: u32 where "R_ARM_THM_BF16 = 136"
definition R_ARM_THM_BF12 :: u32 where "R_ARM_THM_BF12 = 137"
definition R_ARM_THM_BF18 :: u32 where "R_ARM_THM_BF18 = 138"
definition R_ARM_IRELATIVE :: u32 where "R_ARM_IRELATIVE = 160"

definition R_ARM_enum :: "(string \<times> u32) list" where
  "R_ARM_enum =
    [(''R_ARM_NONE'', R_ARM_NONE),
     (''R_ARM_PC24'', R_ARM_PC24),
     (''R_ARM_ABS32'', R_ARM_ABS32),
     (''R_ARM_REL32'', R_ARM_REL32),
     (''R_ARM_LDR_PC_G0'', R_ARM_LDR_PC_G0),
     (''R_ARM_ABS16'', R_ARM_ABS16),
     (''R_ARM_ABS12'', R_ARM_ABS12),
     (''R_ARM_THM_ABS5'', R_ARM_THM_ABS5),
     (''R_ARM_ABS8'', R_ARM_ABS8),
     (''R_ARM_SBREL32'', R_ARM_SBREL32),
     (''R_ARM_THM_CALL'', R_ARM_THM_CALL),
     (''R_ARM_THM_PC8'', R_ARM_THM_PC8),
     (''R_ARM_BREL_ADJ'', R_ARM_BREL_ADJ),
     (''R_ARM_TLS_DESC'', R_ARM_TLS_DESC),
     (''R_ARM_THM_SWI8'', R_ARM_THM_SWI8),
     (''R_ARM_XPC25'', R_ARM_XPC25),
     (''R_ARM_THM_XPC22'', R_ARM_THM_XPC22),
     (''R_ARM_TLS_DTPMOD32'', R_ARM_TLS_DTPMOD32),
     (''R_ARM_TLS_DTPOFF32'', R_ARM_TLS_DTPOFF32),
     (''R_ARM_TLS_TPOFF32'', R_ARM_TLS_TPOFF32),
     (''R_ARM_COPY'', R_ARM_COPY),
     (''R_ARM_GLOB_DAT'', R_ARM_GLOB_DAT),
     (''R_ARM_JUMP_SLOT'', R_ARM_JUMP_SLOT),
     (''R_ARM_RELATIVE'', R_ARM_RELATIVE),
     (''R_ARM_GOTOFF32'', R_ARM_GOTOFF32),
     (''R_ARM_BASE_PREL'', R_ARM_BASE_PREL),
     (''R_ARM_GOT_BREL'', R_ARM_GOT_BREL),
     (''R_ARM_PLT32'', R_ARM_PLT32),
     (''R_ARM_CALL'', R_ARM_CALL),
     (''R_ARM_JUMP24'', R_ARM_JUMP24),
     (''R_ARM_THM_JUMP24'', R_ARM_THM_JUMP24),
     (''R_ARM_BASE_ABS'', R_ARM_BASE_ABS),
     (''R_ARM_ALU_PCREL_7_0'', R_ARM_ALU_PCREL_7_0),
     (''R_ARM_ALU_PCREL_15_8'', R_ARM_ALU_PCREL_15_8),
     (''R_ARM_ALU_PCREL_23_15'', R_ARM_ALU_PCREL_23_15),
     (''R_ARM_LDR_SBREL_11_0_NC'', R_ARM_LDR_SBREL_11_0_NC),
     (''R_ARM_ALU_SBREL_19_12_NC'', R_ARM_ALU_SBREL_19_12_NC),
     (''R_ARM_ALU_SBREL_27_20_CK'', R_ARM_ALU_SBREL_27_20_CK),
     (''R_ARM_TARGET1'', R_ARM_TARGET1),
     (''R_ARM_SBREL31'', R_ARM_SBREL31),
     (''R_ARM_V4BX'', R_ARM_V4BX),
     (''R_ARM_TARGET2'', R_ARM_TARGET2),
     (''R_ARM_PREL31'', R_ARM_PREL31),
     (''R_ARM_MOVW_ABS_NC'', R_ARM_MOVW_ABS_NC),
     (''R_ARM_MOVT_ABS'', R_ARM_MOVT_ABS),
     (''R_ARM_MOVW_PREL_NC'', R_ARM_MOVW_PREL_NC),
     (''R_ARM_MOVT_PREL'', R_ARM_MOVT_PREL),
     (''R_ARM_THM_MOVW_ABS_NC'', R_ARM_THM_MOVW_ABS_NC),
     (''R_ARM_THM_MOVT_ABS'', R_ARM_THM_MOVT_ABS),
     (''R_ARM_THM_MOVW_PREL_NC'', R_ARM_THM_MOVW_PREL_NC),
     (''R_ARM_THM_MOVT_PREL'', R_ARM_THM_MOVT_PREL),
     (''R_ARM_THM_JUMP19'', R_ARM_THM_JUMP19),
     (''R_ARM_THM_JUMP6'', R_ARM_THM_JUMP6),
     (''R_ARM_THM_ALU_PREL_11_0'', R_ARM_THM_ALU_PREL_11_0),
     (''R_ARM_THM_PC12'', R_ARM_THM_PC12),
     (''R_ARM_ABS32_NOI'', R_ARM_ABS32_NOI),
     (''R_ARM_REL32_NOI'', R_ARM_REL32_NOI),
     (''R_ARM_ALU_PC_G0_NC'', R_ARM_ALU_PC_G0_NC),
     (''R_ARM_ALU_PC_G0'', R_ARM_ALU_PC_G0),
     (''R_ARM_ALU_PC_G1_NC'', R_ARM_ALU_PC_G1_NC),
     (''R_ARM_ALU_PC_G1'', R_ARM_ALU_PC_G1),
     (''R_ARM_ALU_PC_G2'', R_ARM_ALU_PC_G2),
     (''R_ARM_LDR_PC_G1'', R_ARM_LDR_PC_G1),
     (''R_ARM_LDR_PC_G2'', R_ARM_LDR_PC_G2),
     (''R_ARM_LDRS_PC_G0'', R_ARM_LDRS_PC_G0),
     (''R_ARM_LDRS_PC_G1'', R_ARM_LDRS_PC_G1),
     (''R_ARM_LDRS_PC_G2'', R_ARM_LDRS_PC_G2),
     (''R_ARM_LDC_PC_G0'', R_ARM_LDC_PC_G0),
     (''R_ARM_LDC_PC_G1'', R_ARM_LDC_PC_G1),
     (''R_ARM_LDC_PC_G2'', R_ARM_LDC_PC_G2),
     (''R_ARM_ALU_SB_G0_NC'', R_ARM_ALU_SB_G0_NC),
     (''R_ARM_ALU_SB_G0'', R_ARM_ALU_SB_G0),
     (''R_ARM_ALU_SB_G1_NC'', R_ARM_ALU_SB_G1_NC),
     (''R_ARM_ALU_SB_G1'', R_ARM_ALU_SB_G1),
     (''R_ARM_ALU_SB_G2'', R_ARM_ALU_SB_G2),
     (''R_ARM_LDR_SB_G0'', R_ARM_LDR_SB_G0),
     (''R_ARM_LDR_SB_G1'', R_ARM_LDR_SB_G1),
     (''R_ARM_LDR_SB_G2'', R_ARM_LDR_SB_G2),
     (''R_ARM_LDRS_SB_G0'', R_ARM_LDRS_SB_G0),
     (''R_ARM_LDRS_SB_G1'', R_ARM_LDRS_SB_G1),
     (''R_ARM_LDRS_SB_G2'', R_ARM_LDRS_SB_G2),
     (''R_ARM_LDC_SB_G0'', R_ARM_LDC_SB_G0),
     (''R_ARM_LDC_SB_G1'', R_ARM_LDC_SB_G1),
     (''R_ARM_LDC_SB_G2'', R_ARM_LDC_SB_G2),
     (''R_ARM_MOVW_BREL_NC'', R_ARM_MOVW_BREL_NC),
     (''R_ARM_MOVT_BREL'', R_ARM_MOVT_BREL),
     (''R_ARM_MOVW_BREL'', R_ARM_MOVW_BREL),
     (''R_ARM_THM_MOVW_BREL_NC'', R_ARM_THM_MOVW_BREL_NC),
     (''R_ARM_THM_MOVT_BREL'', R_ARM_THM_MOVT_BREL),
     (''R_ARM_THM_MOVW_BREL'', R_ARM_THM_MOVW_BREL),
     (''R_ARM_TLS_GOTDESC'', R_ARM_TLS_GOTDESC),
     (''R_ARM_TLS_CALL'', R_ARM_TLS_CALL),
     (''R_ARM_TLS_DESCSEQ'', R_ARM_TLS_DESCSEQ),
     (''R_ARM_THM_TLS_CALL'', R_ARM_THM_TLS_CALL),
     (''R_ARM_PLT32_ABS'', R_ARM_PLT32_ABS),
     (''R_ARM_GOT_ABS'', R_ARM_GOT_ABS),
     (''R_ARM_GOT_PREL'', R_ARM_GOT_PREL),
     (''R_ARM_GOT_BREL12'', R_ARM_GOT_BREL12),
     (''R_ARM_GOTOFF12'', R_ARM_GOTOFF12),
     (''R_ARM_GOTRELAX'', R_ARM_GOTRELAX),
     (''R_ARM_GNU_VTENTRY'', R_ARM_GNU_VTENTRY),
     (''R_ARM_GNU_VTINHERIT'', R_ARM_GNU_VTINHERIT),
     (''R_ARM_THM_JUMP11'', R_ARM_THM_JUMP11),
     (''R_ARM_THM_JUMP8'', R_ARM_THM_JUMP8),
     (''R_ARM_TLS_GD32'', R_ARM_TLS_GD32),
     (''R_ARM_TLS_LDM32'', R_ARM_TLS_LDM32),
     (''R_ARM_TLS_LDO32'', R_ARM_TLS_LDO32),
     (''R_ARM_TLS_IE32'', R_ARM_TLS_IE32),
     (''R_ARM_TLS_LE32'', R_ARM_TLS_LE32),
     (''R_ARM_TLS_LDO12'', R_ARM_TLS_LDO12),
     (''R_ARM_TLS_LE12'', R_ARM_TLS_LE12),
     (''R_ARM_TLS_IE12GP'', R_ARM_TLS_IE12GP),
     (''R_ARM_PRIVATE_0'', R_ARM_PRIVATE_0),
     (''R_ARM_PRIVATE_1'', R_ARM_PRIVATE_1),
     (''R_ARM_PRIVATE_2'', R_ARM_PRIVATE_2),
     (''R_ARM_PRIVATE_3'', R_ARM_PRIVATE_3),
     (''R_ARM_PRIVATE_4'', R_ARM_PRIVATE_4),
     (''R_ARM_PRIVATE_5'', R_ARM_PRIVATE_5),
     (''R_ARM_PRIVATE_6'', R_ARM_PRIVATE_6),
     (''R_ARM_PRIVATE_7'', R_ARM_PRIVATE_7),
     (''R_ARM_PRIVATE_8'', R_ARM_PRIVATE_8),
     (''R_ARM_PRIVATE_9'', R_ARM_PRIVATE_9),
     (''R_ARM_PRIVATE_10'', R_ARM_PRIVATE_10),
     (''R_ARM_PRIVATE_11'', R_ARM_PRIVATE_11),
     (''R_ARM_PRIVATE_12'', R_ARM_PRIVATE_12),
     (''R_ARM_PRIVATE_13'', R_ARM_PRIVATE_13),
     (''R_ARM_PRIVATE_14'', R_ARM_PRIVATE_14),
     (''R_ARM_PRIVATE_15'', R_ARM_PRIVATE_15),
     (''R_ARM_ME_TOO'', R_ARM_ME_TOO),
     (''R_ARM_THM_TLS_DESCSEQ16'', R_ARM_THM_TLS_DESCSEQ16),
     (''R_ARM_THM_TLS_DESCSEQ32'', R_ARM_THM_TLS_DESCSEQ32),
     (''R_ARM_THM_BF16'', R_ARM_THM_BF16),
     (''R_ARM_THM_BF12'', R_ARM_THM_BF12),
     (''R_ARM_THM_BF18'', R_ARM_THM_BF18),
     (''R_ARM_IRELATIVE'', R_ARM_IRELATIVE)]"

lemmas R_ARM_defs =
  R_ARM_NONE_def R_ARM_PC24_def R_ARM_ABS32_def R_ARM_REL32_def R_ARM_LDR_PC_G0_def
  R_ARM_ABS16_def R_ARM_ABS12_def R_ARM_THM_ABS5_def R_ARM_ABS8_def R_ARM_SBREL32_def
  R_ARM_THM_CALL_def R_ARM_THM_PC8_def R_ARM_BREL_ADJ_def R_ARM_TLS_DESC_def R_ARM_THM_SWI8_def
  R_ARM_XPC25_def R_ARM_THM_XPC22_def R_ARM_TLS_DTPMOD32_def R_ARM_TLS_DTPOFF32_def
  R_ARM_TLS_TPOFF32_def R_ARM_COPY_def R_ARM_GLOB_DAT_def R_ARM_JUMP_SLOT_def R_ARM_RELATIVE_def
  R_ARM_GOTOFF32_def R_ARM_BASE_PREL_def R_ARM_GOT_BREL_def R_ARM_PLT32_def R_ARM_CALL_def
  R_ARM_JUMP24_def R_ARM_THM_JUMP24_def R_ARM_BASE_ABS_def R_ARM_ALU_PCREL_7_0_def
  R_ARM_ALU_PCREL_15_8_def R_ARM_ALU_PCREL_23_15_def R_ARM_LDR_SBREL_11_0_NC_def
  R_ARM_ALU_SBREL_19_12_NC_def R_ARM_ALU_SBREL_27_20_CK_def R_ARM_TARGET1_def R_ARM_SBREL31_def
  R_ARM_V4BX_def R_ARM_TARGET2_def R_ARM_PREL31_def R_ARM_MOVW_ABS_NC_def R_ARM_MOVT_ABS_def
  R_ARM_MOVW_PREL_NC_def R_ARM_MOVT_PREL_def R_ARM_THM_MOVW_ABS_NC_def R_ARM_THM_MOVT_ABS_def
  R_ARM_THM_MOVW_PREL_NC_def R_ARM_THM_MOVT_PREL_def R_ARM_THM_JUMP19_def R_ARM_THM_JUMP6_def
  R_ARM_THM_ALU_PREL_11_0_def R_ARM_THM_PC12_def R_ARM_ABS32_NOI_def R_ARM_REL32_NOI_def
  R_ARM_ALU_PC_G0_NC_def R_ARM_ALU_PC_G0_def R_ARM_ALU_PC_G1_NC_def R_ARM_ALU_PC_G1_def
  R_ARM_ALU_PC_G2_def R_ARM_LDR_PC_G1_def R_ARM_LDR_PC_G2_def R_ARM_LDRS_PC_G0_def
  R_ARM_LDRS_PC_G1_def R_ARM_LDRS_PC_G2_def R_ARM_LDC_PC_G0_def R_ARM_LDC_PC_G1_def
  R_ARM_LDC_PC_G2_def R_ARM_ALU_SB_G0_NC_def R_ARM_ALU_SB_G0_def R_ARM_ALU_SB_G1_NC_def
  R_ARM_ALU_SB_G1_def R_ARM_ALU_SB_G2_def R_ARM_LDR_SB_G0_def R_ARM_LDR_SB_G1_def
  R_ARM_LDR_SB_G2_def R_ARM_LDRS_SB_G0_def R_ARM_LDRS_SB_G1_def R_ARM_LDRS_SB_G2_def
  R_ARM_LDC_SB_G0_def R_ARM_LDC_SB_G1_def R_ARM_LDC_SB_G2_def R_ARM_MOVW_BREL_NC_def
  R_ARM_MOVT_BREL_def R_ARM_MOVW_BREL_def R_ARM_THM_MOVW_BREL_NC_def R_ARM_THM_MOVT_BREL_def
  R_ARM_THM_MOVW_BREL_def R_ARM_TLS_GOTDESC_def R_ARM_TLS_CALL_def R_ARM_TLS_DESCSEQ_def
  R_ARM_THM_TLS_CALL_def R_ARM_PLT32_ABS_def R_ARM_GOT_ABS_def R_ARM_GOT_PREL_def
  R_ARM_GOT_BREL12_def R_ARM_GOTOFF12_def R_ARM_GOTRELAX_def R_ARM_GNU_VTENTRY_def
  R_ARM_GNU_VTINHERIT_def R_ARM_THM_JUMP11_def R_ARM_THM_JUMP8_def R_ARM_TLS_GD32_def
  R_ARM_TLS_LDM32_def R_ARM_TLS_LDO32_def R_ARM_TLS_IE32_def R_ARM_TLS_LE32_def
  R_ARM_TLS_LDO12_def R_ARM_TLS_LE12_def R_ARM_TLS_IE12GP_def R_ARM_PRIVATE_0_def
  R_ARM_PRIVATE_1_def R_ARM_PRIVATE_2_def R_ARM_PRIVATE_3_def R_ARM_PRIVATE_4_def
  R_ARM_PRIVATE_5_def R_ARM_PRIVATE_6_def R_ARM_PRIVATE_7_def R_ARM_PRIVATE_8_def
  R_ARM_PRIVATE_9_def R_ARM_PRIVATE_10_def R_ARM_PRIVATE_11_def R_ARM_PRIVATE_12_def
  R_ARM_PRIVATE_13_def R_ARM_PRIVATE_14_def R_ARM_PRIVATE_15_def R_ARM_ME_TOO_def
  R_ARM_THM_TLS_DESCSEQ16_def R_ARM_THM_TLS_DESCSEQ32_def R_ARM_THM_BF16_def R_ARM_THM_BF12_def
  R_ARM_THM_BF18_def R_ARM_IRELATIVE_def

definition R_RISCV_NONE :: u32 where "R_RISCV_NONE = 0"
definition R_RISCV_32 :: u32 where "R_RISCV_32 = 1"
definition R_RISCV_64 :: u32 where "R_RISCV_64 = 2"
definition R_RISCV_RELATIVE :: u32 where "R_RISCV_RELATIVE = 3"
definition R_RISCV_COPY :: u32 where "R_RISCV_COPY = 4"
definition R_RISCV_JUMP_SLOT :: u32 where "R_RISCV_JUMP_SLOT = 5"
definition R_RISCV_TLS_DTPMOD32 :: u32 where "R_RISCV_TLS_DTPMOD32 = 6"
definition R_RISCV_TLS_DTPMOD64 :: u32 where "R_RISCV_TLS_DTPMOD64 = 7"
definition R_RISCV_TLS_DTPREL32 :: u32 where "R_RISCV_TLS_DTPREL32 = 8"
definition R_RISCV_TLS_DTPREL64 :: u32 where "R_RISCV_TLS_DTPREL64 = 9"
definition R_RISCV_TLS_TPREL32 :: u32 where "R_RISCV_TLS_TPREL32 = 10"
definition R_RISCV_TLS_TPREL64 :: u32 where "R_RISCV_TLS_TPREL64 = 11"
definition R_RISCV_BRANCH :: u32 where "R_RISCV_BRANCH = 16"
definition R_RISCV_JAL :: u32 where "R_RISCV_JAL = 17"
definition R_RISCV_CALL :: u32 where "R_RISCV_CALL = 18"
definition R_RISCV_CALL_PLT :: u32 where "R_RISCV_CALL_PLT = 19"
definition R_RISCV_GOT_HI20 :: u32 where "R_RISCV_GOT_HI20 = 20"
definition R_RISCV_TLS_GOT_HI20 :: u32 where "R_RISCV_TLS_GOT_HI20 = 21"
definition R_RISCV_TLS_GD_HI20 :: u32 where "R_RISCV_TLS_GD_HI20 = 22"
definition R_RISCV_PCREL_HI20 :: u32 where "R_RISCV_PCREL_HI20 = 23"
definition R_RISCV_PCREL_LO12_I :: u32 where "R_RISCV_PCREL_LO12_I = 24"
definition R_RISCV_PCREL_LO12_S :: u32 where "R_RISCV_PCREL_LO12_S = 25"
definition R_RISCV_HI20 :: u32 where "R_RISCV_HI20 = 26"
definition R_RISCV_LO12_I :: u32 where "R_RISCV_LO12_I = 27"
definition R_RISCV_LO12_S :: u32 where "R_RISCV_LO12_S = 28"
definition R_RISCV_TPREL_HI20 :: u32 where "R_RISCV_TPREL_HI20 = 29"
definition R_RISCV_TPREL_LO12_I :: u32 where "R_RISCV_TPREL_LO12_I = 30"
definition R_RISCV_TPREL_LO12_S :: u32 where "R_RISCV_TPREL_LO12_S = 31"
definition R_RISCV_TPREL_ADD :: u32 where "R_RISCV_TPREL_ADD = 32"
definition R_RISCV_ADD8 :: u32 where "R_RISCV_ADD8 = 33"
definition R_RISCV_ADD16 :: u32 where "R_RISCV_ADD16 = 34"
definition R_RISCV_ADD32 :: u32 where "R_RISCV_ADD32 = 35"
definition R_RISCV_ADD64 :: u32 where "R_RISCV_ADD64 = 36"
definition R_RISCV_SUB8 :: u32 where "R_RISCV_SUB8 = 37"
definition R_RISCV_SUB16 :: u32 where "R_RISCV_SUB16 = 38"
definition R_RISCV_SUB32 :: u32 where "R_RISCV_SUB32 = 39"
definition R_RISCV_SUB64 :: u32 where "R_RISCV_SUB64 = 40"
definition R_RISCV_ALIGN :: u32 where "R_RISCV_ALIGN = 43"
definition R_RISCV_RVC_BRANCH :: u32 where "R_RISCV_RVC_BRANCH = 44"
definition R_RISCV_RVC_JUMP :: u32 where "R_RISCV_RVC_JUMP = 45"
definition R_RISCV_RVC_LUI :: u32 where "R_RISCV_RVC_LUI = 46"
definition R_RISCV_RELAX :: u32 where "R_RISCV_RELAX = 51"
definition R_RISCV_SUB6 :: u32 where "R_RISCV_SUB6 = 52"
definition R_RISCV_SET6 :: u32 where "R_RISCV_SET6 = 53"
definition R_RISCV_SET8 :: u32 where "R_RISCV_SET8 = 54"
definition R_RISCV_SET16 :: u32 where "R_RISCV_SET16 = 55"
definition R_RISCV_SET32 :: u32 where "R_RISCV_SET32 = 56"
definition R_RISCV_32_PCREL :: u32 where "R_RISCV_32_PCREL = 57"
definition R_RISCV_IRELATIVE :: u32 where "R_RISCV_IRELATIVE = 58"
definition R_RISCV_PLT32 :: u32 where "R_RISCV_PLT32 = 59"

definition R_RISCV_enum :: "(string \<times> u32) list" where
  "R_RISCV_enum =
    [(''R_RISCV_NONE'', R_RISCV_NONE),
     (''R_RISCV_32'', R_RISCV_32),
     (''R_RISCV_64'', R_RISCV_64),
     (''R_RISCV_RELATIVE'', R_RISCV_RELATIVE),
     (''R_RISCV_COPY'', R_RISCV_COPY),
     (''R_RISCV_JUMP_SLOT'', R_RISCV_JUMP_SLOT),
     (''R_RISCV_TLS_DTPMOD32'', R_RISCV_TLS_DTPMOD32),
     (''R_RISCV_TLS_DTPMOD64'', R_RISCV_TLS_DTPMOD64),
     (''R_RISCV_TLS_DTPREL32'', R_RISCV_TLS_DTPREL32),
     (''R_RISCV_TLS_DTPREL64'', R_RISCV_TLS_DTPREL64),
     (''R_RISCV_TLS_TPREL32'', R_RISCV_TLS_TPREL32),
     (''R_RISCV_TLS_TPREL64'', R_RISCV_TLS_TPREL64),
     (''R_RISCV_BRANCH'', R_RISCV_BRANCH),
     (''R_RISCV_JAL'', R_RISCV_JAL),
     (''R_RISCV_CALL'', R_RISCV_CALL),
     (''R_RISCV_CALL_PLT'', R_RISCV_CALL_PLT),
     (''R_RISCV_GOT_HI20'', R_RISCV_GOT_HI20),
     (''R_RISCV_TLS_GOT_HI20'', R_RISCV_TLS_GOT_HI20),
     (''R_RISCV_TLS_GD_HI20'', R_RISCV_TLS_GD_HI20),
     (''R_RISCV_PCREL_HI20'', R_RISCV_PCREL_HI20),
     (''R_RISCV_PCREL_LO12_I'', R_RISCV_PCREL_LO12_I),
     (''R_RISCV_PCREL_LO12_S'', R_RISCV_PCREL_LO12_S),
     (''R_RISCV_HI20'', R_RISCV_HI20),
     (''R_RISCV_LO12_I'', R_RISCV_LO12_I),
     (''R_RISCV_LO12_S'', R_RISCV_LO12_S),
     (''R_RISCV_TPREL_HI20'', R_RISCV_TPREL_HI20),
     (''R_RISCV_TPREL_LO12_I'', R_RISCV_TPREL_LO12_I),
     (''R_RISCV_TPREL_LO12_S'', R_RISCV_TPREL_LO12_S),
     (''R_RISCV_TPREL_ADD'', R_RISCV_TPREL_ADD),
     (''R_RISCV_ADD8'', R_RISCV_ADD8),
     (''R_RISCV_ADD16'', R_RISCV_ADD16),
     (''R_RISCV_ADD32'', R_RISCV_ADD32),
     (''R_RISCV_ADD64'', R_RISCV_ADD64),
     (''R_RISCV_SUB8'', R_RISCV_SUB8),
     (''R_RISCV_SUB16'', R_RISCV_SUB16),
     (''R_RISCV_SUB32'', R_RISCV_SUB32),
     (''R_RISCV_SUB64'', R_RISCV_SUB64),
     (''R_RISCV_ALIGN'', R_RISCV_ALIGN),
     (''R_RISCV_RVC_BRANCH'', R_RISCV_RVC_BRANCH),
     (''R_RISCV_RVC_JUMP'', R_RISCV_RVC_JUMP),
     (''R_RISCV_RVC_LUI'', R_RISCV_RVC_LUI),
     (''R_RISCV_RELAX'', R_RISCV_RELAX),
     (''R_RISCV_SUB6'', R_RISCV_SUB6),
     (''R_RISCV_SET6'', R_RISCV_SET6),
     (''R_RISCV_SET8'', R_RISCV_SET8),
     (''R_RISCV_SET16'', R_RISCV_SET16),
     (''R_RISCV_SET32'', R_RISCV_SET32),
     (''R_RISCV_32_PCREL'', R_RISCV_32_PCREL),
     (''R_RISCV_IRELATIVE'', R_RISCV_IRELATIVE),
     (''R_RISCV_PLT32'', R_RISCV_PLT32)]"

lemmas R_RISCV_defs =
  R_RISCV_NONE_def R_RISCV_32_def R_RISCV_64_def R_RISCV_RELATIVE_def R_RISCV_COPY_def
  R_RISCV_JUMP_SLOT_def R_RISCV_TLS_DTPMOD32_def R_RISCV_TLS_DTPMOD64_def
  R_RISCV_TLS_DTPREL32_def R_RISCV_TLS_DTPREL64_def R_RISCV_TLS_TPREL32_def
  R_RISCV_TLS_TPREL64_def R_RISCV_BRANCH_def R_RISCV_JAL_def R_RISCV_CALL_def
  R_RISCV_CALL_PLT_def R_RISCV_GOT_HI20_def R_RISCV_TLS_GOT_HI20_def R_RISCV_TLS_GD_HI20_def
  R_RISCV_PCREL_HI20_def R_RISCV_PCREL_LO12_I_def R_RISCV_PCREL_LO12_S_def R_RISCV_HI20_def
  R_RISCV_LO12_I_def R_RISCV_LO12_S_def R_RISCV_TPREL_HI20_def R_RISCV_TPREL_LO12_I_def
  R_RISCV_TPREL_LO12_S_def R_RISCV_TPREL_ADD_def R_RISCV_ADD8_def R_RISCV_ADD16_def
  R_RISCV_ADD32_def R_RISCV_ADD64_def R_RISCV_SUB8_def R_RISCV_SUB16_def R_RISCV_SUB32_def
  R_RISCV_SUB64_def R_RISCV_ALIGN_def R_RISCV_RVC_BRANCH_def R_RISCV_RVC_JUMP_def
  R_RISCV_RVC_LUI_def R_RISCV_RELAX_def R_RISCV_SUB6_def R_RISCV_SET6_def R_RISCV_SET8_def
  R_RISCV_SET16_def R_RISCV_SET32_def R_RISCV_32_PCREL_def R_RISCV_IRELATIVE_def
  R_RISCV_PLT32_def

definition R_PPC_NONE :: u32 where "R_PPC_NONE = 0"
definition R_PPC_ADDR32 :: u32 where "R_PPC_ADDR32 = 1"
definition R_PPC_ADDR24 :: u32 where "R_PPC_ADDR24 = 2"
definition R_PPC_ADDR16 :: u32 where "R_PPC_ADDR16 = 3"
definition R_PPC_ADDR16_LO :: u32 where "R_PPC_ADDR16_LO = 4"
definition R_PPC_ADDR16_HI :: u32 where "R_PPC_ADDR16_HI = 5"
definition R_PPC_ADDR16_HA :: u32 where "R_PPC_ADDR16_HA = 6"
definition R_PPC_ADDR14 :: u32 where "R_PPC_ADDR14 = 7"
definition R_PPC_ADDR14_BRTAKEN :: u32 where "R_PPC_ADDR14_BRTAKEN = 8"
definition R_PPC_ADDR14_BRNTAKEN :: u32 where "R_PPC_ADDR14_BRNTAKEN = 9"
definition R_PPC_REL24 :: u32 where "R_PPC_REL24 = 10"
definition R_PPC_REL14 :: u32 where "R_PPC_REL14 = 11"
definition R_PPC_REL14_BRTAKEN :: u32 where "R_PPC_REL14_BRTAKEN = 12"
definition R_PPC_REL14_BRNTAKEN :: u32 where "R_PPC_REL14_BRNTAKEN = 13"
definition R_PPC_GOT16 :: u32 where "R_PPC_GOT16 = 14"
definition R_PPC_GOT16_LO :: u32 where "R_PPC_GOT16_LO = 15"
definition R_PPC_GOT16_HI :: u32 where "R_PPC_GOT16_HI = 16"
definition R_PPC_GOT16_HA :: u32 where "R_PPC_GOT16_HA = 17"
definition R_PPC_PLTREL24 :: u32 where "R_PPC_PLTREL24 = 18"
definition R_PPC_COPY :: u32 where "R_PPC_COPY = 19"
definition R_PPC_GLOB_DAT :: u32 where "R_PPC_GLOB_DAT = 20"
definition R_PPC_JMP_SLOT :: u32 where "R_PPC_JMP_SLOT = 21"
definition R_PPC_RELATIVE :: u32 where "R_PPC_RELATIVE = 22"
definition R_PPC_LOCAL24PC :: u32 where "R_PPC_LOCAL24PC = 23"
definition R_PPC_UADDR32 :: u32 where "R_PPC_UADDR32 = 24"
definition R_PPC_UADDR16 :: u32 where "R_PPC_UADDR16 = 25"
definition R_PPC_REL32 :: u32 where "R_PPC_REL32 = 26"
definition R_PPC_PLT32 :: u32 where "R_PPC_PLT32 = 27"
definition R_PPC_PLTREL32 :: u32 where "R_PPC_PLTREL32 = 28"
definition R_PPC_PLT16_LO :: u32 where "R_PPC_PLT16_LO = 29"
definition R_PPC_PLT16_HI :: u32 where "R_PPC_PLT16_HI = 30"
definition R_PPC_PLT16_HA :: u32 where "R_PPC_PLT16_HA = 31"
definition R_PPC_SDAREL16 :: u32 where "R_PPC_SDAREL16 = 32"
definition R_PPC_SECTOFF :: u32 where "R_PPC_SECTOFF = 33"
definition R_PPC_SECTOFF_LO :: u32 where "R_PPC_SECTOFF_LO = 34"
definition R_PPC_SECTOFF_HI :: u32 where "R_PPC_SECTOFF_HI = 35"
definition R_PPC_SECTOFF_HA :: u32 where "R_PPC_SECTOFF_HA = 36"
definition R_PPC_ADDR30 :: u32 where "R_PPC_ADDR30 = 37"
definition R_PPC_TLS :: u32 where "R_PPC_TLS = 67"
definition R_PPC_DTPMOD32 :: u32 where "R_PPC_DTPMOD32 = 68"
definition R_PPC_TPREL16 :: u32 where "R_PPC_TPREL16 = 69"
definition R_PPC_TPREL16_LO :: u32 where "R_PPC_TPREL16_LO = 70"
definition R_PPC_TPREL16_HI :: u32 where "R_PPC_TPREL16_HI = 71"
definition R_PPC_TPREL16_HA :: u32 where "R_PPC_TPREL16_HA = 72"
definition R_PPC_TPREL32 :: u32 where "R_PPC_TPREL32 = 73"
definition R_PPC_DTPREL16 :: u32 where "R_PPC_DTPREL16 = 74"
definition R_PPC_DTPREL16_LO :: u32 where "R_PPC_DTPREL16_LO = 75"
definition R_PPC_DTPREL16_HI :: u32 where "R_PPC_DTPREL16_HI = 76"
definition R_PPC_DTPREL16_HA :: u32 where "R_PPC_DTPREL16_HA = 77"
definition R_PPC_DTPREL32 :: u32 where "R_PPC_DTPREL32 = 78"
definition R_PPC_GOT_TLSGD16 :: u32 where "R_PPC_GOT_TLSGD16 = 79"
definition R_PPC_GOT_TLSGD16_LO :: u32 where "R_PPC_GOT_TLSGD16_LO = 80"
definition R_PPC_GOT_TLSGD16_HI :: u32 where "R_PPC_GOT_TLSGD16_HI = 81"
definition R_PPC_GOT_TLSGD16_HA :: u32 where "R_PPC_GOT_TLSGD16_HA = 82"
definition R_PPC_GOT_TLSLD16 :: u32 where "R_PPC_GOT_TLSLD16 = 83"
definition R_PPC_GOT_TLSLD16_LO :: u32 where "R_PPC_GOT_TLSLD16_LO = 84"
definition R_PPC_GOT_TLSLD16_HI :: u32 where "R_PPC_GOT_TLSLD16_HI = 85"
definition R_PPC_GOT_TLSLD16_HA :: u32 where "R_PPC_GOT_TLSLD16_HA = 86"
definition R_PPC_GOT_TPREL16 :: u32 where "R_PPC_GOT_TPREL16 = 87"
definition R_PPC_GOT_TPREL16_LO :: u32 where "R_PPC_GOT_TPREL16_LO = 88"
definition R_PPC_GOT_TPREL16_HI :: u32 where "R_PPC_GOT_TPREL16_HI = 89"
definition R_PPC_GOT_TPREL16_HA :: u32 where "R_PPC_GOT_TPREL16_HA = 90"
definition R_PPC_GOT_DTPREL16 :: u32 where "R_PPC_GOT_DTPREL16 = 91"
definition R_PPC_GOT_DTPREL16_LO :: u32 where "R_PPC_GOT_DTPREL16_LO = 92"
definition R_PPC_GOT_DTPREL16_HI :: u32 where "R_PPC_GOT_DTPREL16_HI = 93"
definition R_PPC_GOT_DTPREL16_HA :: u32 where "R_PPC_GOT_DTPREL16_HA = 94"
definition R_PPC_TLSGD :: u32 where "R_PPC_TLSGD = 95"
definition R_PPC_TLSLD :: u32 where "R_PPC_TLSLD = 96"
definition R_PPC_PLTSEQ :: u32 where "R_PPC_PLTSEQ = 119"
definition R_PPC_PLTCALL :: u32 where "R_PPC_PLTCALL = 120"
definition R_PPC_IRELATIVE :: u32 where "R_PPC_IRELATIVE = 248"
definition R_PPC_REL16 :: u32 where "R_PPC_REL16 = 249"
definition R_PPC_REL16_LO :: u32 where "R_PPC_REL16_LO = 250"
definition R_PPC_REL16_HI :: u32 where "R_PPC_REL16_HI = 251"
definition R_PPC_REL16_HA :: u32 where "R_PPC_REL16_HA = 252"

definition R_PPC_enum :: "(string \<times> u32) list" where
  "R_PPC_enum =
    [(''R_PPC_NONE'', R_PPC_NONE),
     (''R_PPC_ADDR32'', R_PPC_ADDR32),
     (''R_PPC_ADDR24'', R_PPC_ADDR24),
     (''R_PPC_ADDR16'', R_PPC_ADDR16),
     (''R_PPC_ADDR16_LO'', R_PPC_ADDR16_LO),
     (''R_PPC_ADDR16_HI'', R_PPC_ADDR16_HI),
     (''R_PPC_ADDR16_HA'', R_PPC_ADDR16_HA),
     (''R_PPC_ADDR14'', R_PPC_ADDR14),
     (''R_PPC_ADDR14_BRTAKEN'', R_PPC_ADDR14_BRTAKEN),
     (''R_PPC_ADDR14_BRNTAKEN'', R_PPC_ADDR14_BRNTAKEN),
     (''R_PPC_REL24'', R_PPC_REL24),
     (''R_PPC_REL14'', R_PPC_REL14),
     (''R_PPC_REL14_BRTAKEN'', R_PPC_REL14_BRTAKEN),
     (''R_PPC_REL14_BRNTAKEN'', R_PPC_REL14_BRNTAKEN),
     (''R_PPC_GOT16'', R_PPC_GOT16),
     (''R_PPC_GOT16_LO'', R_PPC_GOT16_LO),
     (''R_PPC_GOT16_HI'', R_PPC_GOT16_HI),
     (''R_PPC_GOT16_HA'', R_PPC_GOT16_HA),
     (''R_PPC_PLTREL24'', R_PPC_PLTREL24),
     (''R_PPC_COPY'', R_PPC_COPY),
     (''R_PPC_GLOB_DAT'', R_PPC_GLOB_DAT),
     (''R_PPC_JMP_SLOT'', R_PPC_JMP_SLOT),
     (''R_PPC_RELATIVE'', R_PPC_RELATIVE),
     (''R_PPC_LOCAL24PC'', R_PPC_LOCAL24PC),
     (''R_PPC_UADDR32'', R_PPC_UADDR32),
     (''R_PPC_UADDR16'', R_PPC_UADDR16),
     (''R_PPC_REL32'', R_PPC_REL32),
     (''R_PPC_PLT32'', R_PPC_PLT32),
     (''R_PPC_PLTREL32'', R_PPC_PLTREL32),
     (''R_PPC_PLT16_LO'', R_PPC_PLT16_LO),
     (''R_PPC_PLT16_HI'', R_PPC_PLT16_HI),
     (''R_PPC_PLT16_HA'', R_PPC_PLT16_HA),
     (''R_PPC_SDAREL16'', R_PPC_SDAREL16),
     (''R_PPC_SECTOFF'', R_PPC_SECTOFF),
     (''R_PPC_SECTOFF_LO'', R_PPC_SECTOFF_LO),
     (''R_PPC_SECTOFF_HI'', R_PPC_SECTOFF_HI),
     (''R_PPC_SECTOFF_HA'', R_PPC_SECTOFF_HA),
     (''R_PPC_ADDR30'', R_PPC_ADDR30),
     (''R_PPC_TLS'', R_PPC_TLS),
     (''R_PPC_DTPMOD32'', R_PPC_DTPMOD32),
     (''R_PPC_TPREL16'', R_PPC_TPREL16),
     (''R_PPC_TPREL16_LO'', R_PPC_TPREL16_LO),
     (''R_PPC_TPREL16_HI'', R_PPC_TPREL16_HI),
     (''R_PPC_TPREL16_HA'', R_PPC_TPREL16_HA),
     (''R_PPC_TPREL32'', R_PPC_TPREL32),
     (''R_PPC_DTPREL16'', R_PPC_DTPREL16),
     (''R_PPC_DTPREL16_LO'', R_PPC_DTPREL16_LO),
     (''R_PPC_DTPREL16_HI'', R_PPC_DTPREL16_HI),
     (''R_PPC_DTPREL16_HA'', R_PPC_DTPREL16_HA),
     (''R_PPC_DTPREL32'', R_PPC_DTPREL32),
     (''R_PPC_GOT_TLSGD16'', R_PPC_GOT_TLSGD16),
     (''R_PPC_GOT_TLSGD16_LO'', R_PPC_GOT_TLSGD16_LO),
     (''R_PPC_GOT_TLSGD16_HI'', R_PPC_GOT_TLSGD16_HI),
     (''R_PPC_GOT_TLSGD16_HA'', R_PPC_GOT_TLSGD16_HA),
     (''R_PPC_GOT_TLSLD16'', R_PPC_GOT_TLSLD16),
     (''R_PPC_GOT_TLSLD16_LO'', R_PPC_GOT_TLSLD16_LO),
     (''R_PPC_GOT_TLSLD16_HI'', R_PPC_GOT_TLSLD16_HI),
     (''R_PPC_GOT_TLSLD16_HA'', R_PPC_GOT_TLSLD16_HA),
     (''R_PPC_GOT_TPREL16'', R_PPC_GOT_TPREL16),
     (''R_PPC_GOT_TPREL16_LO'', R_PPC_GOT_TPREL16_LO),
     (''R_PPC_GOT_TPREL16_HI'', R_PPC_GOT_TPREL16_HI),
     (''R_PPC_GOT_TPREL16_HA'', R_PPC_GOT_TPREL16_HA),
     (''R_PPC_GOT_DTPREL16'', R_PPC_GOT_DTPREL16),
     (''R_PPC_GOT_DTPREL16_LO'', R_PPC_GOT_DTPREL16_LO),
     (''R_PPC_GOT_DTPREL16_HI'', R_PPC_GOT_DTPREL16_HI),
     (''R_PPC_GOT_DTPREL16_HA'', R_PPC_GOT_DTPREL16_HA),
     (''R_PPC_TLSGD'', R_PPC_TLSGD),
     (''R_PPC_TLSLD'', R_PPC_TLSLD),
     (''R_PPC_PLTSEQ'', R_PPC_PLTSEQ),
     (''R_PPC_PLTCALL'', R_PPC_PLTCALL),
     (''R_PPC_IRELATIVE'', R_PPC_IRELATIVE),
     (''R_PPC_REL16'', R_PPC_REL16),
     (''R_PPC_REL16_LO'', R_PPC_REL16_LO),
     (''R_PPC_REL16_HI'', R_PPC_REL16_HI),
     (''R_PPC_REL16_HA'', R_PPC_REL16_HA)]"

lemmas R_PPC_defs =
  R_PPC_NONE_def R_PPC_ADDR32_def R_PPC_ADDR24_def R_PPC_ADDR16_def R_PPC_ADDR16_LO_def
  R_PPC_ADDR16_HI_def R_PPC_ADDR16_HA_def R_PPC_ADDR14_def R_PPC_ADDR14_BRTAKEN_def
  R_PPC_ADDR14_BRNTAKEN_def R_PPC_REL24_def R_PPC_REL14_def R_PPC_REL14_BRTAKEN_def
  R_PPC_REL14_BRNTAKEN_def R_PPC_GOT16_def R_PPC_GOT16_LO_def R_PPC_GOT16_HI_def
  R_PPC_GOT16_HA_def R_PPC_PLTREL24_def R_PPC_COPY_def R_PPC_GLOB_DAT_def R_PPC_JMP_SLOT_def
  R_PPC_RELATIVE_def R_PPC_LOCAL24PC_def R_PPC_UADDR32_def R_PPC_UADDR16_def R_PPC_REL32_def
  R_PPC_PLT32_def R_PPC_PLTREL32_def R_PPC_PLT16_LO_def R_PPC_PLT16_HI_def R_PPC_PLT16_HA_def
  R_PPC_SDAREL16_def R_PPC_SECTOFF_def R_PPC_SECTOFF_LO_def R_PPC_SECTOFF_HI_def
  R_PPC_SECTOFF_HA_def R_PPC_ADDR30_def R_PPC_TLS_def R_PPC_DTPMOD32_def R_PPC_TPREL16_def
  R_PPC_TPREL16_LO_def R_PPC_TPREL16_HI_def R_PPC_TPREL16_HA_def R_PPC_TPREL32_def
  R_PPC_DTPREL16_def R_PPC_DTPREL16_LO_def R_PPC_DTPREL16_HI_def R_PPC_DTPREL16_HA_def
  R_PPC_DTPREL32_def R_PPC_GOT_TLSGD16_def R_PPC_GOT_TLSGD16_LO_def R_PPC_GOT_TLSGD16_HI_def
  R_PPC_GOT_TLSGD16_HA_def R_PPC_GOT_TLSLD16_def R_PPC_GOT_TLSLD16_LO_def
  R_PPC_GOT_TLSLD16_HI_def R_PPC_GOT_TLSLD16_HA_def R_PPC_GOT_TPREL16_def
  R_PPC_GOT_TPREL16_LO_def R_PPC_GOT_TPREL16_HI_def R_PPC_GOT_TPREL16_HA_def
  R_PPC_GOT_DTPREL16_def R_PPC_GOT_DTPREL16_LO_def R_PPC_GOT_DTPREL16_HI_def
  R_PPC_GOT_DTPREL16_HA_def R_PPC_TLSGD_def R_PPC_TLSLD_def R_PPC_PLTSEQ_def R_PPC_PLTCALL_def
  R_PPC_IRELATIVE_def R_PPC_REL16_def R_PPC_REL16_LO_def R_PPC_REL16_HI_def R_PPC_REL16_HA_def

definition R_PPC64_NONE :: u32 where "R_PPC64_NONE = 0"
definition R_PPC64_ADDR32 :: u32 where "R_PPC64_ADDR32 = 1"
definition R_PPC64_ADDR24 :: u32 where "R_PPC64_ADDR24 = 2"
definition R_PPC64_ADDR16 :: u32 where "R_PPC64_ADDR16 = 3"
definition R_PPC64_ADDR16_LO :: u32 where "R_PPC64_ADDR16_LO = 4"
definition R_PPC64_ADDR16_HI :: u32 where "R_PPC64_ADDR16_HI = 5"
definition R_PPC64_ADDR16_HA :: u32 where "R_PPC64_ADDR16_HA = 6"
definition R_PPC64_ADDR14 :: u32 where "R_PPC64_ADDR14 = 7"
definition R_PPC64_ADDR14_BRTAKEN :: u32 where "R_PPC64_ADDR14_BRTAKEN = 8"
definition R_PPC64_ADDR14_BRNTAKEN :: u32 where "R_PPC64_ADDR14_BRNTAKEN = 9"
definition R_PPC64_REL24 :: u32 where "R_PPC64_REL24 = 10"
definition R_PPC64_REL14 :: u32 where "R_PPC64_REL14 = 11"
definition R_PPC64_REL14_BRTAKEN :: u32 where "R_PPC64_REL14_BRTAKEN = 12"
definition R_PPC64_REL14_BRNTAKEN :: u32 where "R_PPC64_REL14_BRNTAKEN = 13"
definition R_PPC64_GOT16 :: u32 where "R_PPC64_GOT16 = 14"
definition R_PPC64_GOT16_LO :: u32 where "R_PPC64_GOT16_LO = 15"
definition R_PPC64_GOT16_HI :: u32 where "R_PPC64_GOT16_HI = 16"
definition R_PPC64_GOT16_HA :: u32 where "R_PPC64_GOT16_HA = 17"
definition R_PPC64_COPY :: u32 where "R_PPC64_COPY = 19"
definition R_PPC64_GLOB_DAT :: u32 where "R_PPC64_GLOB_DAT = 20"
definition R_PPC64_JMP_SLOT :: u32 where "R_PPC64_JMP_SLOT = 21"
definition R_PPC64_RELATIVE :: u32 where "R_PPC64_RELATIVE = 22"
definition R_PPC64_REL32 :: u32 where "R_PPC64_REL32 = 26"
definition R_PPC64_PLT16_LO :: u32 where "R_PPC64_PLT16_LO = 29"
definition R_PPC64_PLT16_HI :: u32 where "R_PPC64_PLT16_HI = 30"
definition R_PPC64_PLT16_HA :: u32 where "R_PPC64_PLT16_HA = 31"
definition R_PPC64_ADDR64 :: u32 where "R_PPC64_ADDR64 = 38"
definition R_PPC64_ADDR16_HIGHER :: u32 where "R_PPC64_ADDR16_HIGHER = 39"
definition R_PPC64_ADDR16_HIGHERA :: u32 where "R_PPC64_ADDR16_HIGHERA = 40"
definition R_PPC64_ADDR16_HIGHEST :: u32 where "R_PPC64_ADDR16_HIGHEST = 41"
definition R_PPC64_ADDR16_HIGHESTA :: u32 where "R_PPC64_ADDR16_HIGHESTA = 42"
definition R_PPC64_REL64 :: u32 where "R_PPC64_REL64 = 44"
definition R_PPC64_TOC16 :: u32 where "R_PPC64_TOC16 = 47"
definition R_PPC64_TOC16_LO :: u32 where "R_PPC64_TOC16_LO = 48"
definition R_PPC64_TOC16_HI :: u32 where "R_PPC64_TOC16_HI = 49"
definition R_PPC64_TOC16_HA :: u32 where "R_PPC64_TOC16_HA = 50"
definition R_PPC64_TOC :: u32 where "R_PPC64_TOC = 51"
definition R_PPC64_ADDR16_DS :: u32 where "R_PPC64_ADDR16_DS = 56"
definition R_PPC64_ADDR16_LO_DS :: u32 where "R_PPC64_ADDR16_LO_DS = 57"
definition R_PPC64_GOT16_DS :: u32 where "R_PPC64_GOT16_DS = 58"
definition R_PPC64_GOT16_LO_DS :: u32 where "R_PPC64_GOT16_LO_DS = 59"
definition R_PPC64_PLT16_LO_DS :: u32 where "R_PPC64_PLT16_LO_DS = 60"
definition R_PPC64_TOC16_DS :: u32 where "R_PPC64_TOC16_DS = 63"
definition R_PPC64_TOC16_LO_DS :: u32 where "R_PPC64_TOC16_LO_DS = 64"
definition R_PPC64_TLS :: u32 where "R_PPC64_TLS = 67"
definition R_PPC64_DTPMOD64 :: u32 where "R_PPC64_DTPMOD64 = 68"
definition R_PPC64_TPREL16 :: u32 where "R_PPC64_TPREL16 = 69"
definition R_PPC64_TPREL16_LO :: u32 where "R_PPC64_TPREL16_LO = 70"
definition R_PPC64_TPREL16_HI :: u32 where "R_PPC64_TPREL16_HI = 71"
definition R_PPC64_TPREL16_HA :: u32 where "R_PPC64_TPREL16_HA = 72"
definition R_PPC64_TPREL64 :: u32 where "R_PPC64_TPREL64 = 73"
definition R_PPC64_DTPREL16 :: u32 where "R_PPC64_DTPREL16 = 74"
definition R_PPC64_DTPREL16_LO :: u32 where "R_PPC64_DTPREL16_LO = 75"
definition R_PPC64_DTPREL16_HI :: u32 where "R_PPC64_DTPREL16_HI = 76"
definition R_PPC64_DTPREL16_HA :: u32 where "R_PPC64_DTPREL16_HA = 77"
definition R_PPC64_DTPREL64 :: u32 where "R_PPC64_DTPREL64 = 78"
definition R_PPC64_GOT_TLSGD16 :: u32 where "R_PPC64_GOT_TLSGD16 = 79"
definition R_PPC64_GOT_TLSGD16_LO :: u32 where "R_PPC64_GOT_TLSGD16_LO = 80"
definition R_PPC64_GOT_TLSGD16_HI :: u32 where "R_PPC64_GOT_TLSGD16_HI = 81"
definition R_PPC64_GOT_TLSGD16_HA :: u32 where "R_PPC64_GOT_TLSGD16_HA = 82"
definition R_PPC64_GOT_TLSLD16 :: u32 where "R_PPC64_GOT_TLSLD16 = 83"
definition R_PPC64_GOT_TLSLD16_LO :: u32 where "R_PPC64_GOT_TLSLD16_LO = 84"
definition R_PPC64_GOT_TLSLD16_HI :: u32 where "R_PPC64_GOT_TLSLD16_HI = 85"
definition R_PPC64_GOT_TLSLD16_HA :: u32 where "R_PPC64_GOT_TLSLD16_HA = 86"
definition R_PPC64_GOT_TPREL16_DS :: u32 where "R_PPC64_GOT_TPREL16_DS = 87"
definition R_PPC64_GOT_TPREL16_LO_DS :: u32 where "R_PPC64_GOT_TPREL16_LO_DS = 88"
definition R_PPC64_GOT_TPREL16_HI :: u32 where "R_PPC64_GOT_TPREL16_HI = 89"
definition R_PPC64_GOT_TPREL16_HA :: u32 where "R_PPC64_GOT_TPREL16_HA = 90"
definition R_PPC64_GOT_DTPREL16_DS :: u32 where "R_PPC64_GOT_DTPREL16_DS = 91"
definition R_PPC64_GOT_DTPREL16_LO_DS :: u32 where "R_PPC64_GOT_DTPREL16_LO_DS = 92"
definition R_PPC64_GOT_DTPREL16_HI :: u32 where "R_PPC64_GOT_DTPREL16_HI = 93"
definition R_PPC64_GOT_DTPREL16_HA :: u32 where "R_PPC64_GOT_DTPREL16_HA = 94"
definition R_PPC64_TPREL16_DS :: u32 where "R_PPC64_TPREL16_DS = 95"
definition R_PPC64_TPREL16_LO_DS :: u32 where "R_PPC64_TPREL16_LO_DS = 96"
definition R_PPC64_TPREL16_HIGHER :: u32 where "R_PPC64_TPREL16_HIGHER = 97"
definition R_PPC64_TPREL16_HIGHERA :: u32 where "R_PPC64_TPREL16_HIGHERA = 98"
definition R_PPC64_TPREL16_HIGHEST :: u32 where "R_PPC64_TPREL16_HIGHEST = 99"
definition R_PPC64_TPREL16_HIGHESTA :: u32 where "R_PPC64_TPREL16_HIGHESTA = 100"
definition R_PPC64_DTPREL16_DS :: u32 where "R_PPC64_DTPREL16_DS = 101"
definition R_PPC64_DTPREL16_LO_DS :: u32 where "R_PPC64_DTPREL16_LO_DS = 102"
definition R_PPC64_DTPREL16_HIGHER :: u32 where "R_PPC64_DTPREL16_HIGHER = 103"
definition R_PPC64_DTPREL16_HIGHERA :: u32 where "R_PPC64_DTPREL16_HIGHERA = 104"
definition R_PPC64_DTPREL16_HIGHEST :: u32 where "R_PPC64_DTPREL16_HIGHEST = 105"
definition R_PPC64_DTPREL16_HIGHESTA :: u32 where "R_PPC64_DTPREL16_HIGHESTA = 106"
definition R_PPC64_TLSGD :: u32 where "R_PPC64_TLSGD = 107"
definition R_PPC64_TLSLD :: u32 where "R_PPC64_TLSLD = 108"
definition R_PPC64_ADDR16_HIGH :: u32 where "R_PPC64_ADDR16_HIGH = 110"
definition R_PPC64_ADDR16_HIGHA :: u32 where "R_PPC64_ADDR16_HIGHA = 111"
definition R_PPC64_TPREL16_HIGH :: u32 where "R_PPC64_TPREL16_HIGH = 112"
definition R_PPC64_TPREL16_HIGHA :: u32 where "R_PPC64_TPREL16_HIGHA = 113"
definition R_PPC64_DTPREL16_HIGH :: u32 where "R_PPC64_DTPREL16_HIGH = 114"
definition R_PPC64_DTPREL16_HIGHA :: u32 where "R_PPC64_DTPREL16_HIGHA = 115"
definition R_PPC64_REL24_NOTOC :: u32 where "R_PPC64_REL24_NOTOC = 116"
definition R_PPC64_PLTSEQ :: u32 where "R_PPC64_PLTSEQ = 119"
definition R_PPC64_PLTCALL :: u32 where "R_PPC64_PLTCALL = 120"
definition R_PPC64_PLTSEQ_NOTOC :: u32 where "R_PPC64_PLTSEQ_NOTOC = 121"
definition R_PPC64_PLTCALL_NOTOC :: u32 where "R_PPC64_PLTCALL_NOTOC = 122"
definition R_PPC64_PCREL_OPT :: u32 where "R_PPC64_PCREL_OPT = 123"
definition R_PPC64_PCREL34 :: u32 where "R_PPC64_PCREL34 = 132"
definition R_PPC64_GOT_PCREL34 :: u32 where "R_PPC64_GOT_PCREL34 = 133"
definition R_PPC64_PLT_PCREL34 :: u32 where "R_PPC64_PLT_PCREL34 = 134"
definition R_PPC64_PLT_PCREL34_NOTOC :: u32 where "R_PPC64_PLT_PCREL34_NOTOC = 135"
definition R_PPC64_TPREL34 :: u32 where "R_PPC64_TPREL34 = 146"
definition R_PPC64_DTPREL34 :: u32 where "R_PPC64_DTPREL34 = 147"
definition R_PPC64_GOT_TLSGD_PCREL34 :: u32 where "R_PPC64_GOT_TLSGD_PCREL34 = 148"
definition R_PPC64_GOT_TLSLD_PCREL34 :: u32 where "R_PPC64_GOT_TLSLD_PCREL34 = 149"
definition R_PPC64_GOT_TPREL_PCREL34 :: u32 where "R_PPC64_GOT_TPREL_PCREL34 = 150"
definition R_PPC64_IRELATIVE :: u32 where "R_PPC64_IRELATIVE = 248"
definition R_PPC64_REL16 :: u32 where "R_PPC64_REL16 = 249"
definition R_PPC64_REL16_LO :: u32 where "R_PPC64_REL16_LO = 250"
definition R_PPC64_REL16_HI :: u32 where "R_PPC64_REL16_HI = 251"
definition R_PPC64_REL16_HA :: u32 where "R_PPC64_REL16_HA = 252"

definition R_PPC64_enum :: "(string \<times> u32) list" where
  "R_PPC64_enum =
    [(''R_PPC64_NONE'', R_PPC64_NONE),
     (''R_PPC64_ADDR32'', R_PPC64_ADDR32),
     (''R_PPC64_ADDR24'', R_PPC64_ADDR24),
     (''R_PPC64_ADDR16'', R_PPC64_ADDR16),
     (''R_PPC64_ADDR16_LO'', R_PPC64_ADDR16_LO),
     (''R_PPC64_ADDR16_HI'', R_PPC64_ADDR16_HI),
     (''R_PPC64_ADDR16_HA'', R_PPC64_ADDR16_HA),
     (''R_PPC64_ADDR14'', R_PPC64_ADDR14),
     (''R_PPC64_ADDR14_BRTAKEN'', R_PPC64_ADDR14_BRTAKEN),
     (''R_PPC64_ADDR14_BRNTAKEN'', R_PPC64_ADDR14_BRNTAKEN),
     (''R_PPC64_REL24'', R_PPC64_REL24),
     (''R_PPC64_REL14'', R_PPC64_REL14),
     (''R_PPC64_REL14_BRTAKEN'', R_PPC64_REL14_BRTAKEN),
     (''R_PPC64_REL14_BRNTAKEN'', R_PPC64_REL14_BRNTAKEN),
     (''R_PPC64_GOT16'', R_PPC64_GOT16),
     (''R_PPC64_GOT16_LO'', R_PPC64_GOT16_LO),
     (''R_PPC64_GOT16_HI'', R_PPC64_GOT16_HI),
     (''R_PPC64_GOT16_HA'', R_PPC64_GOT16_HA),
     (''R_PPC64_COPY'', R_PPC64_COPY),
     (''R_PPC64_GLOB_DAT'', R_PPC64_GLOB_DAT),
     (''R_PPC64_JMP_SLOT'', R_PPC64_JMP_SLOT),
     (''R_PPC64_RELATIVE'', R_PPC64_RELATIVE),
     (''R_PPC64_REL32'', R_PPC64_REL32),
     (''R_PPC64_PLT16_LO'', R_PPC64_PLT16_LO),
     (''R_PPC64_PLT16_HI'', R_PPC64_PLT16_HI),
     (''R_PPC64_PLT16_HA'', R_PPC64_PLT16_HA),
     (''R_PPC64_ADDR64'', R_PPC64_ADDR64),
     (''R_PPC64_ADDR16_HIGHER'', R_PPC64_ADDR16_HIGHER),
     (''R_PPC64_ADDR16_HIGHERA'', R_PPC64_ADDR16_HIGHERA),
     (''R_PPC64_ADDR16_HIGHEST'', R_PPC64_ADDR16_HIGHEST),
     (''R_PPC64_ADDR16_HIGHESTA'', R_PPC64_ADDR16_HIGHESTA),
     (''R_PPC64_REL64'', R_PPC64_REL64),
     (''R_PPC64_TOC16'', R_PPC64_TOC16),
     (''R_PPC64_TOC16_LO'', R_PPC64_TOC16_LO),
     (''R_PPC64_TOC16_HI'', R_PPC64_TOC16_HI),
     (''R_PPC64_TOC16_HA'', R_PPC64_TOC16_HA),
     (''R_PPC64_TOC'', R_PPC64_TOC),
     (''R_PPC64_ADDR16_DS'', R_PPC64_ADDR16_DS),
     (''R_PPC64_ADDR16_LO_DS'', R_PPC64_ADDR16_LO_DS),
     (''R_PPC64_GOT16_DS'', R_PPC64_GOT16_DS),
     (''R_PPC64_GOT16_LO_DS'', R_PPC64_GOT16_LO_DS),
     (''R_PPC64_PLT16_LO_DS'', R_PPC64_PLT16_LO_DS),
     (''R_PPC64_TOC16_DS'', R_PPC64_TOC16_DS),
     (''R_PPC64_TOC16_LO_DS'', R_PPC64_TOC16_LO_DS),
     (''R_PPC64_TLS'', R_PPC64_TLS),
     (''R_PPC64_DTPMOD64'', R_PPC64_DTPMOD64),
     (''R_PPC64_TPREL16'', R_PPC64_TPREL16),
     (''R_PPC64_TPREL16_LO'', R_PPC64_TPREL16_LO),
     (''R_PPC64_TPREL16_HI'', R_PPC64_TPREL16_HI),
     (''R_PPC64_TPREL16_HA'', R_PPC64_TPREL16_HA),
     (''R_PPC64_TPREL64'', R_PPC64_TPREL64),
     (''R_PPC64_DTPREL16'', R_PPC64_DTPREL16),
     (''R_PPC64_DTPREL16_LO'', R_PPC64_DTPREL16_LO),
     (''R_PPC64_DTPREL16_HI'', R_PPC64_DTPREL16_HI),
     (''R_PPC64_DTPREL16_HA'', R_PPC64_DTPREL16_HA),
     (''R_PPC64_DTPREL64'', R_PPC64_DTPREL64),
     (''R_PPC64_GOT_TLSGD16'', R_PPC64_GOT_TLSGD16),
     (''R_PPC64_GOT_TLSGD16_LO'', R_PPC64_GOT_TLSGD16_LO),
     (''R_PPC64_GOT_TLSGD16_HI'', R_PPC64_GOT_TLSGD16_HI),
     (''R_PPC64_GOT_TLSGD16_HA'', R_PPC64_GOT_TLSGD16_HA),
     (''R_PPC64_GOT_TLSLD16'', R_PPC64_GOT_TLSLD16),
     (''R_PPC64_GOT_TLSLD16_LO'', R_PPC64_GOT_TLSLD16_LO),
     (''R_PPC64_GOT_TLSLD16_HI'', R_PPC64_GOT_TLSLD16_HI),
     (''R_PPC64_GOT_TLSLD16_HA'', R_PPC64_GOT_TLSLD16_HA),
     (''R_PPC64_GOT_TPREL16_DS'', R_PPC64_GOT_TPREL16_DS),
     (''R_PPC64_GOT_TPREL16_LO_DS'', R_PPC64_GOT_TPREL16_LO_DS),
     (''R_PPC64_GOT_TPREL16_HI'', R_PPC64_GOT_TPREL16_HI),
     (''R_PPC64_GOT_TPREL16_HA'', R_PPC64_GOT_TPREL16_HA),
     (''R_PPC64_GOT_DTPREL16_DS'', R_PPC64_GOT_DTPREL16_DS),
     (''R_PPC64_GOT_DTPREL16_LO_DS'', R_PPC64_GOT_DTPREL16_LO_DS),
     (''R_PPC64_GOT_DTPREL16_HI'', R_PPC64_GOT_DTPREL16_HI),
     (''R_PPC64_GOT_DTPREL16_HA'', R_PPC64_GOT_DTPREL16_HA),
     (''R_PPC64_TPREL16_DS'', R_PPC64_TPREL16_DS),
     (''R_PPC64_TPREL16_LO_DS'', R_PPC64_TPREL16_LO_DS),
     (''R_PPC64_TPREL16_HIGHER'', R_PPC64_TPREL16_HIGHER),
     (''R_PPC64_TPREL16_HIGHERA'', R_PPC64_TPREL16_HIGHERA),
     (''R_PPC64_TPREL16_HIGHEST'', R_PPC64_TPREL16_HIGHEST),
     (''R_PPC64_TPREL16_HIGHESTA'', R_PPC64_TPREL16_HIGHESTA),
     (''R_PPC64_DTPREL16_DS'', R_PPC64_DTPREL16_DS),
     (''R_PPC64_DTPREL16_LO_DS'', R_PPC64_DTPREL16_LO_DS),
     (''R_PPC64_DTPREL16_HIGHER'', R_PPC64_DTPREL16_HIGHER),
     (''R_PPC64_DTPREL16_HIGHERA'', R_PPC64_DTPREL16_HIGHERA),
     (''R_PPC64_DTPREL16_HIGHEST'', R_PPC64_DTPREL16_HIGHEST),
     (''R_PPC64_DTPREL16_HIGHESTA'', R_PPC64_DTPREL16_HIGHESTA),
     (''R_PPC64_TLSGD'', R_PPC64_TLSGD),
     (''R_PPC64_TLSLD'', R_PPC64_TLSLD),
     (''R_PPC64_ADDR16_HIGH'', R_PPC64_ADDR16_HIGH),
     (''R_PPC64_ADDR16_HIGHA'', R_PPC64_ADDR16_HIGHA),
     (''R_PPC64_TPREL16_HIGH'', R_PPC64_TPREL16_HIGH),
     (''R_PPC64_TPREL16_HIGHA'', R_PPC64_TPREL16_HIGHA),
     (''R_PPC64_DTPREL16_HIGH'', R_PPC64_DTPREL16_HIGH),
     (''R_PPC64_DTPREL16_HIGHA'', R_PPC64_DTPREL16_HIGHA),
     (''R_PPC64_REL24_NOTOC'', R_PPC64_REL24_NOTOC),
     (''R_PPC64_PLTSEQ'', R_PPC64_PLTSEQ),
     (''R_PPC64_PLTCALL'', R_PPC64_PLTCALL),
     (''R_PPC64_PLTSEQ_NOTOC'', R_PPC64_PLTSEQ_NOTOC),
     (''R_PPC64_PLTCALL_NOTOC'', R_PPC64_PLTCALL_NOTOC),
     (''R_PPC64_PCREL_OPT'', R_PPC64_PCREL_OPT),
     (''R_PPC64_PCREL34'', R_PPC64_PCREL34),
     (''R_PPC64_GOT_PCREL34'', R_PPC64_GOT_PCREL34),
     (''R_PPC64_PLT_PCREL34'', R_PPC64_PLT_PCREL34),
     (''R_PPC64_PLT_PCREL34_NOTOC'', R_PPC64_PLT_PCREL34_NOTOC),
     (''R_PPC64_TPREL34'', R_PPC64_TPREL34),
     (''R_PPC64_DTPREL34'', R_PPC64_DTPREL34),
     (''R_PPC64_GOT_TLSGD_PCREL34'', R_PPC64_GOT_TLSGD_PCREL34),
     (''R_PPC64_GOT_TLSLD_PCREL34'', R_PPC64_GOT_TLSLD_PCREL34),
     (''R_PPC64_GOT_TPREL_PCREL34'', R_PPC64_GOT_TPREL_PCREL34),
     (''R_PPC64_IRELATIVE'', R_PPC64_IRELATIVE),
     (''R_PPC64_REL16'', R_PPC64_REL16),
     (''R_PPC64_REL16_LO'', R_PPC64_REL16_LO),
     (''R_PPC64_REL16_HI'', R_PPC64_REL16_HI),
     (''R_PPC64_REL16_HA'', R_PPC64_REL16_HA)]"

lemmas R_PPC64_defs =
  R_PPC64_NONE_def R_PPC64_ADDR32_def R_PPC64_ADDR24_def R_PPC64_ADDR16_def
  R_PPC64_ADDR16_LO_def R_PPC64_ADDR16_HI_def R_PPC64_ADDR16_HA_def R_PPC64_ADDR14_def
  R_PPC64_ADDR14_BRTAKEN_def R_PPC64_ADDR14_BRNTAKEN_def R_PPC64_REL24_def R_PPC64_REL14_def
  R_PPC64_REL14_BRTAKEN_def R_PPC64_REL14_BRNTAKEN_def R_PPC64_GOT16_def R_PPC64_GOT16_LO_def
  R_PPC64_GOT16_HI_def R_PPC64_GOT16_HA_def R_PPC64_COPY_def R_PPC64_GLOB_DAT_def
  R_PPC64_JMP_SLOT_def R_PPC64_RELATIVE_def R_PPC64_REL32_def R_PPC64_PLT16_LO_def
  R_PPC64_PLT16_HI_def R_PPC64_PLT16_HA_def R_PPC64_ADDR64_def R_PPC64_ADDR16_HIGHER_def
  R_PPC64_ADDR16_HIGHERA_def R_PPC64_ADDR16_HIGHEST_def R_PPC64_ADDR16_HIGHESTA_def
  R_PPC64_REL64_def R_PPC64_TOC16_def R_PPC64_TOC16_LO_def R_PPC64_TOC16_HI_def
  R_PPC64_TOC16_HA_def R_PPC64_TOC_def R_PPC64_ADDR16_DS_def R_PPC64_ADDR16_LO_DS_def
  R_PPC64_GOT16_DS_def R_PPC64_GOT16_LO_DS_def R_PPC64_PLT16_LO_DS_def R_PPC64_TOC16_DS_def
  R_PPC64_TOC16_LO_DS_def R_PPC64_TLS_def R_PPC64_DTPMOD64_def R_PPC64_TPREL16_def
  R_PPC64_TPREL16_LO_def R_PPC64_TPREL16_HI_def R_PPC64_TPREL16_HA_def R_PPC64_TPREL64_def
  R_PPC64_DTPREL16_def R_PPC64_DTPREL16_LO_def R_PPC64_DTPREL16_HI_def R_PPC64_DTPREL16_HA_def
  R_PPC64_DTPREL64_def R_PPC64_GOT_TLSGD16_def R_PPC64_GOT_TLSGD16_LO_def
  R_PPC64_GOT_TLSGD16_HI_def R_PPC64_GOT_TLSGD16_HA_def R_PPC64_GOT_TLSLD16_def
  R_PPC64_GOT_TLSLD16_LO_def R_PPC64_GOT_TLSLD16_HI_def R_PPC64_GOT_TLSLD16_HA_def
  R_PPC64_GOT_TPREL16_DS_def R_PPC64_GOT_TPREL16_LO_DS_def R_PPC64_GOT_TPREL16_HI_def
  R_PPC64_GOT_TPREL16_HA_def R_PPC64_GOT_DTPREL16_DS_def R_PPC64_GOT_DTPREL16_LO_DS_def
  R_PPC64_GOT_DTPREL16_HI_def R_PPC64_GOT_DTPREL16_HA_def R_PPC64_TPREL16_DS_def
  R_PPC64_TPREL16_LO_DS_def R_PPC64_TPREL16_HIGHER_def R_PPC64_TPREL16_HIGHERA_def
  R_PPC64_TPREL16_HIGHEST_def R_PPC64_TPREL16_HIGHESTA_def R_PPC64_DTPREL16_DS_def
  R_PPC64_DTPREL16_LO_DS_def R_PPC64_DTPREL16_HIGHER_def R_PPC64_DTPREL16_HIGHERA_def
  R_PPC64_DTPREL16_HIGHEST_def R_PPC64_DTPREL16_HIGHESTA_def R_PPC64_TLSGD_def R_PPC64_TLSLD_def
  R_PPC64_ADDR16_HIGH_def R_PPC64_ADDR16_HIGHA_def R_PPC64_TPREL16_HIGH_def
  R_PPC64_TPREL16_HIGHA_def R_PPC64_DTPREL16_HIGH_def R_PPC64_DTPREL16_HIGHA_def
  R_PPC64_REL24_NOTOC_def R_PPC64_PLTSEQ_def R_PPC64_PLTCALL_def R_PPC64_PLTSEQ_NOTOC_def
  R_PPC64_PLTCALL_NOTOC_def R_PPC64_PCREL_OPT_def R_PPC64_PCREL34_def R_PPC64_GOT_PCREL34_def
  R_PPC64_PLT_PCREL34_def R_PPC64_PLT_PCREL34_NOTOC_def R_PPC64_TPREL34_def R_PPC64_DTPREL34_def
  R_PPC64_GOT_TLSGD_PCREL34_def R_PPC64_GOT_TLSLD_PCREL34_def R_PPC64_GOT_TPREL_PCREL34_def
  R_PPC64_IRELATIVE_def R_PPC64_REL16_def R_PPC64_REL16_LO_def R_PPC64_REL16_HI_def
  R_PPC64_REL16_HA_def

definition R_SPARC_NONE :: u32 where "R_SPARC_NONE = 0"
definition R_SPARC_8 :: u32 where "R_SPARC_8 = 1"
definition R_SPARC_16 :: u32 where "R_SPARC_16 = 2"
definition R_SPARC_32 :: u32 where "R_SPARC_32 = 3"
definition R_SPARC_DISP8 :: u32 where "R_SPARC_DISP8 = 4"
definition R_SPARC_DISP16 :: u32 where "R_SPARC_DISP16 = 5"
definition R_SPARC_DISP32 :: u32 where "R_SPARC_DISP32 = 6"
definition R_SPARC_WDISP30 :: u32 where "R_SPARC_WDISP30 = 7"
definition R_SPARC_WDISP22 :: u32 where "R_SPARC_WDISP22 = 8"
definition R_SPARC_HI22 :: u32 where "R_SPARC_HI22 = 9"
definition R_SPARC_22 :: u32 where "R_SPARC_22 = 10"
definition R_SPARC_13 :: u32 where "R_SPARC_13 = 11"
definition R_SPARC_LO10 :: u32 where "R_SPARC_LO10 = 12"
definition R_SPARC_GOT10 :: u32 where "R_SPARC_GOT10 = 13"
definition R_SPARC_GOT13 :: u32 where "R_SPARC_GOT13 = 14"
definition R_SPARC_GOT22 :: u32 where "R_SPARC_GOT22 = 15"
definition R_SPARC_PC10 :: u32 where "R_SPARC_PC10 = 16"
definition R_SPARC_PC22 :: u32 where "R_SPARC_PC22 = 17"
definition R_SPARC_WPLT30 :: u32 where "R_SPARC_WPLT30 = 18"
definition R_SPARC_COPY :: u32 where "R_SPARC_COPY = 19"
definition R_SPARC_GLOB_DAT :: u32 where "R_SPARC_GLOB_DAT = 20"
definition R_SPARC_JMP_SLOT :: u32 where "R_SPARC_JMP_SLOT = 21"
definition R_SPARC_RELATIVE :: u32 where "R_SPARC_RELATIVE = 22"
definition R_SPARC_UA32 :: u32 where "R_SPARC_UA32 = 23"
definition R_SPARC_PLT32 :: u32 where "R_SPARC_PLT32 = 24"
definition R_SPARC_HIPLT22 :: u32 where "R_SPARC_HIPLT22 = 25"
definition R_SPARC_LOPLT10 :: u32 where "R_SPARC_LOPLT10 = 26"
definition R_SPARC_PCPLT32 :: u32 where "R_SPARC_PCPLT32 = 27"
definition R_SPARC_PCPLT22 :: u32 where "R_SPARC_PCPLT22 = 28"
definition R_SPARC_PCPLT10 :: u32 where "R_SPARC_PCPLT10 = 29"
definition R_SPARC_10 :: u32 where "R_SPARC_10 = 30"
definition R_SPARC_11 :: u32 where "R_SPARC_11 = 31"
definition R_SPARC_64 :: u32 where "R_SPARC_64 = 32"
definition R_SPARC_OLO10 :: u32 where "R_SPARC_OLO10 = 33"
definition R_SPARC_HH22 :: u32 where "R_SPARC_HH22 = 34"
definition R_SPARC_HM10 :: u32 where "R_SPARC_HM10 = 35"
definition R_SPARC_LM22 :: u32 where "R_SPARC_LM22 = 36"
definition R_SPARC_PC_HH22 :: u32 where "R_SPARC_PC_HH22 = 37"
definition R_SPARC_PC_HM10 :: u32 where "R_SPARC_PC_HM10 = 38"
definition R_SPARC_PC_LM22 :: u32 where "R_SPARC_PC_LM22 = 39"
definition R_SPARC_WDISP16 :: u32 where "R_SPARC_WDISP16 = 40"
definition R_SPARC_WDISP19 :: u32 where "R_SPARC_WDISP19 = 41"
definition R_SPARC_7 :: u32 where "R_SPARC_7 = 43"
definition R_SPARC_5 :: u32 where "R_SPARC_5 = 44"
definition R_SPARC_6 :: u32 where "R_SPARC_6 = 45"
definition R_SPARC_DISP64 :: u32 where "R_SPARC_DISP64 = 46"
definition R_SPARC_PLT64 :: u32 where "R_SPARC_PLT64 = 47"
definition R_SPARC_HIX22 :: u32 where "R_SPARC_HIX22 = 48"
definition R_SPARC_LOX10 :: u32 where "R_SPARC_LOX10 = 49"
definition R_SPARC_H44 :: u32 where "R_SPARC_H44 = 50"
definition R_SPARC_M44 :: u32 where "R_SPARC_M44 = 51"
definition R_SPARC_L44 :: u32 where "R_SPARC_L44 = 52"
definition R_SPARC_REGISTER :: u32 where "R_SPARC_REGISTER = 53"
definition R_SPARC_UA64 :: u32 where "R_SPARC_UA64 = 54"
definition R_SPARC_UA16 :: u32 where "R_SPARC_UA16 = 55"
definition R_SPARC_TLS_GD_HI22 :: u32 where "R_SPARC_TLS_GD_HI22 = 56"
definition R_SPARC_TLS_GD_LO10 :: u32 where "R_SPARC_TLS_GD_LO10 = 57"
definition R_SPARC_TLS_GD_ADD :: u32 where "R_SPARC_TLS_GD_ADD = 58"
definition R_SPARC_TLS_GD_CALL :: u32 where "R_SPARC_TLS_GD_CALL = 59"
definition R_SPARC_TLS_LDM_HI22 :: u32 where "R_SPARC_TLS_LDM_HI22 = 60"
definition R_SPARC_TLS_LDM_LO10 :: u32 where "R_SPARC_TLS_LDM_LO10 = 61"
definition R_SPARC_TLS_LDM_ADD :: u32 where "R_SPARC_TLS_LDM_ADD = 62"
definition R_SPARC_TLS_LDM_CALL :: u32 where "R_SPARC_TLS_LDM_CALL = 63"
definition R_SPARC_TLS_LDO_HIX22 :: u32 where "R_SPARC_TLS_LDO_HIX22 = 64"
definition R_SPARC_TLS_LDO_LOX10 :: u32 where "R_SPARC_TLS_LDO_LOX10 = 65"
definition R_SPARC_TLS_LDO_ADD :: u32 where "R_SPARC_TLS_LDO_ADD = 66"
definition R_SPARC_TLS_IE_HI22 :: u32 where "R_SPARC_TLS_IE_HI22 = 67"
definition R_SPARC_TLS_IE_LO10 :: u32 where "R_SPARC_TLS_IE_LO10 = 68"
definition R_SPARC_TLS_IE_LD :: u32 where "R_SPARC_TLS_IE_LD = 69"
definition R_SPARC_TLS_IE_LDX :: u32 where "R_SPARC_TLS_IE_LDX = 70"
definition R_SPARC_TLS_IE_ADD :: u32 where "R_SPARC_TLS_IE_ADD = 71"
definition R_SPARC_TLS_LE_HIX22 :: u32 where "R_SPARC_TLS_LE_HIX22 = 72"
definition R_SPARC_TLS_LE_LOX10 :: u32 where "R_SPARC_TLS_LE_LOX10 = 73"
definition R_SPARC_TLS_DTPMOD32 :: u32 where "R_SPARC_TLS_DTPMOD32 = 74"
definition R_SPARC_TLS_DTPMOD64 :: u32 where "R_SPARC_TLS_DTPMOD64 = 75"
definition R_SPARC_TLS_DTPOFF32 :: u32 where "R_SPARC_TLS_DTPOFF32 = 76"
definition R_SPARC_TLS_DTPOFF64 :: u32 where "R_SPARC_TLS_DTPOFF64 = 77"
definition R_SPARC_TLS_TPOFF32 :: u32 where "R_SPARC_TLS_TPOFF32 = 78"
definition R_SPARC_TLS_TPOFF64 :: u32 where "R_SPARC_TLS_TPOFF64 = 79"
definition R_SPARC_GOTDATA_HIX22 :: u32 where "R_SPARC_GOTDATA_HIX22 = 80"
definition R_SPARC_GOTDATA_LOX10 :: u32 where "R_SPARC_GOTDATA_LOX10 = 81"
definition R_SPARC_GOTDATA_OP_HIX22 :: u32 where "R_SPARC_GOTDATA_OP_HIX22 = 82"
definition R_SPARC_GOTDATA_OP_LOX10 :: u32 where "R_SPARC_GOTDATA_OP_LOX10 = 83"
definition R_SPARC_GOTDATA_OP :: u32 where "R_SPARC_GOTDATA_OP = 84"
definition R_SPARC_SIZE32 :: u32 where "R_SPARC_SIZE32 = 86"
definition R_SPARC_JMP_IREL :: u32 where "R_SPARC_JMP_IREL = 248"
definition R_SPARC_IRELATIVE :: u32 where "R_SPARC_IRELATIVE = 249"

definition R_SPARC_enum :: "(string \<times> u32) list" where
  "R_SPARC_enum =
    [(''R_SPARC_NONE'', R_SPARC_NONE),
     (''R_SPARC_8'', R_SPARC_8),
     (''R_SPARC_16'', R_SPARC_16),
     (''R_SPARC_32'', R_SPARC_32),
     (''R_SPARC_DISP8'', R_SPARC_DISP8),
     (''R_SPARC_DISP16'', R_SPARC_DISP16),
     (''R_SPARC_DISP32'', R_SPARC_DISP32),
     (''R_SPARC_WDISP30'', R_SPARC_WDISP30),
     (''R_SPARC_WDISP22'', R_SPARC_WDISP22),
     (''R_SPARC_HI22'', R_SPARC_HI22),
     (''R_SPARC_22'', R_SPARC_22),
     (''R_SPARC_13'', R_SPARC_13),
     (''R_SPARC_LO10'', R_SPARC_LO10),
     (''R_SPARC_GOT10'', R_SPARC_GOT10),
     (''R_SPARC_GOT13'', R_SPARC_GOT13),
     (''R_SPARC_GOT22'', R_SPARC_GOT22),
     (''R_SPARC_PC10'', R_SPARC_PC10),
     (''R_SPARC_PC22'', R_SPARC_PC22),
     (''R_SPARC_WPLT30'', R_SPARC_WPLT30),
     (''R_SPARC_COPY'', R_SPARC_COPY),
     (''R_SPARC_GLOB_DAT'', R_SPARC_GLOB_DAT),
     (''R_SPARC_JMP_SLOT'', R_SPARC_JMP_SLOT),
     (''R_SPARC_RELATIVE'', R_SPARC_RELATIVE),
     (''R_SPARC_UA32'', R_SPARC_UA32),
     (''R_SPARC_PLT32'', R_SPARC_PLT32),
     (''R_SPARC_HIPLT22'', R_SPARC_HIPLT22),
     (''R_SPARC_LOPLT10'', R_SPARC_LOPLT10),
     (''R_SPARC_PCPLT32'', R_SPARC_PCPLT32),
     (''R_SPARC_PCPLT22'', R_SPARC_PCPLT22),
     (''R_SPARC_PCPLT10'', R_SPARC_PCPLT10),
     (''R_SPARC_10'', R_SPARC_10),
     (''R_SPARC_11'', R_SPARC_11),
     (''R_SPARC_64'', R_SPARC_64),
     (''R_SPARC_OLO10'', R_SPARC_OLO10),
     (''R_SPARC_HH22'', R_SPARC_HH22),
     (''R_SPARC_HM10'', R_SPARC_HM10),
     (''R_SPARC_LM22'', R_SPARC_LM22),
     (''R_SPARC_PC_HH22'', R_SPARC_PC_HH22),
     (''R_SPARC_PC_HM10'', R_SPARC_PC_HM10),
     (''R_SPARC_PC_LM22'', R_SPARC_PC_LM22),
     (''R_SPARC_WDISP16'', R_SPARC_WDISP16),
     (''R_SPARC_WDISP19'', R_SPARC_WDISP19),
     (''R_SPARC_7'', R_SPARC_7),
     (''R_SPARC_5'', R_SPARC_5),
     (''R_SPARC_6'', R_SPARC_6),
     (''R_SPARC_DISP64'', R_SPARC_DISP64),
     (''R_SPARC_PLT64'', R_SPARC_PLT64),
     (''R_SPARC_HIX22'', R_SPARC_HIX22),
     (''R_SPARC_LOX10'', R_SPARC_LOX10),
     (''R_SPARC_H44'', R_SPARC_H44),
     (''R_SPARC_M44'', R_SPARC_M44),
     (''R_SPARC_L44'', R_SPARC_L44),
     (''R_SPARC_REGISTER'', R_SPARC_REGISTER),
     (''R_SPARC_UA64'', R_SPARC_UA64),
     (''R_SPARC_UA16'', R_SPARC_UA16),
     (''R_SPARC_TLS_GD_HI22'', R_SPARC_TLS_GD_HI22),
     (''R_SPARC_TLS_GD_LO10'', R_SPARC_TLS_GD_LO10),
     (''R_SPARC_TLS_GD_ADD'', R_SPARC_TLS_GD_ADD),
     (''R_SPARC_TLS_GD_CALL'', R_SPARC_TLS_GD_CALL),
     (''R_SPARC_TLS_LDM_HI22'', R_SPARC_TLS_LDM_HI22),
     (''R_SPARC_TLS_LDM_LO10'', R_SPARC_TLS_LDM_LO10),
     (''R_SPARC_TLS_LDM_ADD'', R_SPARC_TLS_LDM_ADD),
     (''R_SPARC_TLS_LDM_CALL'', R_SPARC_TLS_LDM_CALL),
     (''R_SPARC_TLS_LDO_HIX22'', R_SPARC_TLS_LDO_HIX22),
     (''R_SPARC_TLS_LDO_LOX10'', R_SPARC_TLS_LDO_LOX10),
     (''R_SPARC_TLS_LDO_ADD'', R_SPARC_TLS_LDO_ADD),
     (''R_SPARC_TLS_IE_HI22'', R_SPARC_TLS_IE_HI22),
     (''R_SPARC_TLS_IE_LO10'', R_SPARC_TLS_IE_LO10),
     (''R_SPARC_TLS_IE_LD'', R_SPARC_TLS_IE_LD),
     (''R_SPARC_TLS_IE_LDX'', R_SPARC_TLS_IE_LDX),
     (''R_SPARC_TLS_IE_ADD'', R_SPARC_TLS_IE_ADD),
     (''R_SPARC_TLS_LE_HIX22'', R_SPARC_TLS_LE_HIX22),
     (''R_SPARC_TLS_LE_LOX10'', R_SPARC_TLS_LE_LOX10),
     (''R_SPARC_TLS_DTPMOD32'', R_SPARC_TLS_DTPMOD32),
     (''R_SPARC_TLS_DTPMOD64'', R_SPARC_TLS_DTPMOD64),
     (''R_SPARC_TLS_DTPOFF32'', R_SPARC_TLS_DTPOFF32),
     (''R_SPARC_TLS_DTPOFF64'', R_SPARC_TLS_DTPOFF64),
     (''R_SPARC_TLS_TPOFF32'', R_SPARC_TLS_TPOFF32),
     (''R_SPARC_TLS_TPOFF64'', R_SPARC_TLS_TPOFF64),
     (''R_SPARC_GOTDATA_HIX22'', R_SPARC_GOTDATA_HIX22),
     (''R_SPARC_GOTDATA_LOX10'', R_SPARC_GOTDATA_LOX10),
     (''R_SPARC_GOTDATA_OP_HIX22'', R_SPARC_GOTDATA_OP_HIX22),
     (''R_SPARC_GOTDATA_OP_LOX10'', R_SPARC_GOTDATA_OP_LOX10),
     (''R_SPARC_GOTDATA_OP'', R_SPARC_GOTDATA_OP),
     (''R_SPARC_SIZE32'', R_SPARC_SIZE32),
     (''R_SPARC_JMP_IREL'', R_SPARC_JMP_IREL),
     (''R_SPARC_IRELATIVE'', R_SPARC_IRELATIVE)]"

lemmas R_SPARC_defs =
  R_SPARC_NONE_def R_SPARC_8_def R_SPARC_16_def R_SPARC_32_def R_SPARC_DISP8_def
  R_SPARC_DISP16_def R_SPARC_DISP32_def R_SPARC_WDISP30_def R_SPARC_WDISP22_def R_SPARC_HI22_def
  R_SPARC_22_def R_SPARC_13_def R_SPARC_LO10_def R_SPARC_GOT10_def R_SPARC_GOT13_def
  R_SPARC_GOT22_def R_SPARC_PC10_def R_SPARC_PC22_def R_SPARC_WPLT30_def R_SPARC_COPY_def
  R_SPARC_GLOB_DAT_def R_SPARC_JMP_SLOT_def R_SPARC_RELATIVE_def R_SPARC_UA32_def
  R_SPARC_PLT32_def R_SPARC_HIPLT22_def R_SPARC_LOPLT10_def R_SPARC_PCPLT32_def
  R_SPARC_PCPLT22_def R_SPARC_PCPLT10_def R_SPARC_10_def R_SPARC_11_def R_SPARC_64_def
  R_SPARC_OLO10_def R_SPARC_HH22_def R_SPARC_HM10_def R_SPARC_LM22_def R_SPARC_PC_HH22_def
  R_SPARC_PC_HM10_def R_SPARC_PC_LM22_def R_SPARC_WDISP16_def R_SPARC_WDISP19_def R_SPARC_7_def
  R_SPARC_5_def R_SPARC_6_def R_SPARC_DISP64_def R_SPARC_PLT64_def R_SPARC_HIX22_def
  R_SPARC_LOX10_def R_SPARC_H44_def R_SPARC_M44_def R_SPARC_L44_def R_SPARC_REGISTER_def
  R_SPARC_UA64_def R_SPARC_UA16_def R_SPARC_TLS_GD_HI22_def R_SPARC_TLS_GD_LO10_def
  R_SPARC_TLS_GD_ADD_def R_SPARC_TLS_GD_CALL_def R_SPARC_TLS_LDM_HI22_def
  R_SPARC_TLS_LDM_LO10_def R_SPARC_TLS_LDM_ADD_def R_SPARC_TLS_LDM_CALL_def
  R_SPARC_TLS_LDO_HIX22_def R_SPARC_TLS_LDO_LOX10_def R_SPARC_TLS_LDO_ADD_def
  R_SPARC_TLS_IE_HI22_def R_SPARC_TLS_IE_LO10_def R_SPARC_TLS_IE_LD_def R_SPARC_TLS_IE_LDX_def
  R_SPARC_TLS_IE_ADD_def R_SPARC_TLS_LE_HIX22_def R_SPARC_TLS_LE_LOX10_def
  R_SPARC_TLS_DTPMOD32_def R_SPARC_TLS_DTPMOD64_def R_SPARC_TLS_DTPOFF32_def
  R_SPARC_TLS_DTPOFF64_def R_SPARC_TLS_TPOFF32_def R_SPARC_TLS_TPOFF64_def
  R_SPARC_GOTDATA_HIX22_def R_SPARC_GOTDATA_LOX10_def R_SPARC_GOTDATA_OP_HIX22_def
  R_SPARC_GOTDATA_OP_LOX10_def R_SPARC_GOTDATA_OP_def R_SPARC_SIZE32_def R_SPARC_JMP_IREL_def
  R_SPARC_IRELATIVE_def

definition R_390_NONE :: u32 where "R_390_NONE = 0"
definition R_390_8 :: u32 where "R_390_8 = 1"
definition R_390_12 :: u32 where "R_390_12 = 2"
definition R_390_16 :: u32 where "R_390_16 = 3"
definition R_390_32 :: u32 where "R_390_32 = 4"
definition R_390_PC32 :: u32 where "R_390_PC32 = 5"
definition R_390_GOT12 :: u32 where "R_390_GOT12 = 6"
definition R_390_GOT32 :: u32 where "R_390_GOT32 = 7"
definition R_390_PLT32 :: u32 where "R_390_PLT32 = 8"
definition R_390_COPY :: u32 where "R_390_COPY = 9"
definition R_390_GLOB_DAT :: u32 where "R_390_GLOB_DAT = 10"
definition R_390_JMP_SLOT :: u32 where "R_390_JMP_SLOT = 11"
definition R_390_RELATIVE :: u32 where "R_390_RELATIVE = 12"
definition R_390_GOTOFF32 :: u32 where "R_390_GOTOFF32 = 13"
definition R_390_GOTPC :: u32 where "R_390_GOTPC = 14"
definition R_390_GOT16 :: u32 where "R_390_GOT16 = 15"
definition R_390_PC16 :: u32 where "R_390_PC16 = 16"
definition R_390_PC16DBL :: u32 where "R_390_PC16DBL = 17"
definition R_390_PLT16DBL :: u32 where "R_390_PLT16DBL = 18"
definition R_390_PC32DBL :: u32 where "R_390_PC32DBL = 19"
definition R_390_PLT32DBL :: u32 where "R_390_PLT32DBL = 20"
definition R_390_GOTPCDBL :: u32 where "R_390_GOTPCDBL = 21"
definition R_390_64 :: u32 where "R_390_64 = 22"
definition R_390_PC64 :: u32 where "R_390_PC64 = 23"
definition R_390_GOT64 :: u32 where "R_390_GOT64 = 24"
definition R_390_PLT64 :: u32 where "R_390_PLT64 = 25"
definition R_390_GOTENT :: u32 where "R_390_GOTENT = 26"
definition R_390_GOTOFF16 :: u32 where "R_390_GOTOFF16 = 27"
definition R_390_GOTOFF64 :: u32 where "R_390_GOTOFF64 = 28"
definition R_390_GOTPLT12 :: u32 where "R_390_GOTPLT12 = 29"
definition R_390_GOTPLT16 :: u32 where "R_390_GOTPLT16 = 30"
definition R_390_GOTPLT32 :: u32 where "R_390_GOTPLT32 = 31"
definition R_390_GOTPLT64 :: u32 where "R_390_GOTPLT64 = 32"
definition R_390_GOTPLTENT :: u32 where "R_390_GOTPLTENT = 33"
definition R_390_PLTOFF16 :: u32 where "R_390_PLTOFF16 = 34"
definition R_390_PLTOFF32 :: u32 where "R_390_PLTOFF32 = 35"
definition R_390_PLTOFF64 :: u32 where "R_390_PLTOFF64 = 36"
definition R_390_TLS_LOAD :: u32 where "R_390_TLS_LOAD = 37"
definition R_390_TLS_GDCALL :: u32 where "R_390_TLS_GDCALL = 38"
definition R_390_TLS_LDCALL :: u32 where "R_390_TLS_LDCALL = 39"
definition R_390_TLS_GD32 :: u32 where "R_390_TLS_GD32 = 40"
definition R_390_TLS_GD64 :: u32 where "R_390_TLS_GD64 = 41"
definition R_390_TLS_GOTIE12 :: u32 where "R_390_TLS_GOTIE12 = 42"
definition R_390_TLS_GOTIE32 :: u32 where "R_390_TLS_GOTIE32 = 43"
definition R_390_TLS_GOTIE64 :: u32 where "R_390_TLS_GOTIE64 = 44"
definition R_390_TLS_LDM32 :: u32 where "R_390_TLS_LDM32 = 45"
definition R_390_TLS_LDM64 :: u32 where "R_390_TLS_LDM64 = 46"
definition R_390_TLS_IE32 :: u32 where "R_390_TLS_IE32 = 47"
definition R_390_TLS_IE64 :: u32 where "R_390_TLS_IE64 = 48"
definition R_390_TLS_IEENT :: u32 where "R_390_TLS_IEENT = 49"
definition R_390_TLS_LE32 :: u32 where "R_390_TLS_LE32 = 50"
definition R_390_TLS_LE64 :: u32 where "R_390_TLS_LE64 = 51"
definition R_390_TLS_LDO32 :: u32 where "R_390_TLS_LDO32 = 52"
definition R_390_TLS_LDO64 :: u32 where "R_390_TLS_LDO64 = 53"
definition R_390_TLS_DTPMOD :: u32 where "R_390_TLS_DTPMOD = 54"
definition R_390_TLS_DTPOFF :: u32 where "R_390_TLS_DTPOFF = 55"
definition R_390_TLS_TPOFF :: u32 where "R_390_TLS_TPOFF = 56"
definition R_390_20 :: u32 where "R_390_20 = 57"
definition R_390_GOT20 :: u32 where "R_390_GOT20 = 58"
definition R_390_GOTPLT20 :: u32 where "R_390_GOTPLT20 = 59"
definition R_390_TLS_GOTIE20 :: u32 where "R_390_TLS_GOTIE20 = 60"
definition R_390_IRELATIVE :: u32 where "R_390_IRELATIVE = 61"
definition R_390_PC12DBL :: u32 where "R_390_PC12DBL = 62"
definition R_390_PLT12DBL :: u32 where "R_390_PLT12DBL = 63"
definition R_390_PC24DBL :: u32 where "R_390_PC24DBL = 64"
definition R_390_PLT24DBL :: u32 where "R_390_PLT24DBL = 65"

definition R_390_enum :: "(string \<times> u32) list" where
  "R_390_enum =
    [(''R_390_NONE'', R_390_NONE),
     (''R_390_8'', R_390_8),
     (''R_390_12'', R_390_12),
     (''R_390_16'', R_390_16),
     (''R_390_32'', R_390_32),
     (''R_390_PC32'', R_390_PC32),
     (''R_390_GOT12'', R_390_GOT12),
     (''R_390_GOT32'', R_390_GOT32),
     (''R_390_PLT32'', R_390_PLT32),
     (''R_390_COPY'', R_390_COPY),
     (''R_390_GLOB_DAT'', R_390_GLOB_DAT),
     (''R_390_JMP_SLOT'', R_390_JMP_SLOT),
     (''R_390_RELATIVE'', R_390_RELATIVE),
     (''R_390_GOTOFF32'', R_390_GOTOFF32),
     (''R_390_GOTPC'', R_390_GOTPC),
     (''R_390_GOT16'', R_390_GOT16),
     (''R_390_PC16'', R_390_PC16),
     (''R_390_PC16DBL'', R_390_PC16DBL),
     (''R_390_PLT16DBL'', R_390_PLT16DBL),
     (''R_390_PC32DBL'', R_390_PC32DBL),
     (''R_390_PLT32DBL'', R_390_PLT32DBL),
     (''R_390_GOTPCDBL'', R_390_GOTPCDBL),
     (''R_390_64'', R_390_64),
     (''R_390_PC64'', R_390_PC64),
     (''R_390_GOT64'', R_390_GOT64),
     (''R_390_PLT64'', R_390_PLT64),
     (''R_390_GOTENT'', R_390_GOTENT),
     (''R_390_GOTOFF16'', R_390_GOTOFF16),
     (''R_390_GOTOFF64'', R_390_GOTOFF64),
     (''R_390_GOTPLT12'', R_390_GOTPLT12),
     (''R_390_GOTPLT16'', R_390_GOTPLT16),
     (''R_390_GOTPLT32'', R_390_GOTPLT32),
     (''R_390_GOTPLT64'', R_390_GOTPLT64),
     (''R_390_GOTPLTENT'', R_390_GOTPLTENT),
     (''R_390_PLTOFF16'', R_390_PLTOFF16),
     (''R_390_PLTOFF32'', R_390_PLTOFF32),
     (''R_390_PLTOFF64'', R_390_PLTOFF64),
     (''R_390_TLS_LOAD'', R_390_TLS_LOAD),
     (''R_390_TLS_GDCALL'', R_390_TLS_GDCALL),
     (''R_390_TLS_LDCALL'', R_390_TLS_LDCALL),
     (''R_390_TLS_GD32'', R_390_TLS_GD32),
     (''R_390_TLS_GD64'', R_390_TLS_GD64),
     (''R_390_TLS_GOTIE12'', R_390_TLS_GOTIE12),
     (''R_390_TLS_GOTIE32'', R_390_TLS_GOTIE32),
     (''R_390_TLS_GOTIE64'', R_390_TLS_GOTIE64),
     (''R_390_TLS_LDM32'', R_390_TLS_LDM32),
     (''R_390_TLS_LDM64'', R_390_TLS_LDM64),
     (''R_390_TLS_IE32'', R_390_TLS_IE32),
     (''R_390_TLS_IE64'', R_390_TLS_IE64),
     (''R_390_TLS_IEENT'', R_390_TLS_IEENT),
     (''R_390_TLS_LE32'', R_390_TLS_LE32),
     (''R_390_TLS_LE64'', R_390_TLS_LE64),
     (''R_390_TLS_LDO32'', R_390_TLS_LDO32),
     (''R_390_TLS_LDO64'', R_390_TLS_LDO64),
     (''R_390_TLS_DTPMOD'', R_390_TLS_DTPMOD),
     (''R_390_TLS_DTPOFF'', R_390_TLS_DTPOFF),
     (''R_390_TLS_TPOFF'', R_390_TLS_TPOFF),
     (''R_390_20'', R_390_20),
     (''R_390_GOT20'', R_390_GOT20),
     (''R_390_GOTPLT20'', R_390_GOTPLT20),
     (''R_390_TLS_GOTIE20'', R_390_TLS_GOTIE20),
     (''R_390_IRELATIVE'', R_390_IRELATIVE),
     (''R_390_PC12DBL'', R_390_PC12DBL),
     (''R_390_PLT12DBL'', R_390_PLT12DBL),
     (''R_390_PC24DBL'', R_390_PC24DBL),
     (''R_390_PLT24DBL'', R_390_PLT24DBL)]"

lemmas R_390_defs =
  R_390_NONE_def R_390_8_def R_390_12_def R_390_16_def R_390_32_def R_390_PC32_def
  R_390_GOT12_def R_390_GOT32_def R_390_PLT32_def R_390_COPY_def R_390_GLOB_DAT_def
  R_390_JMP_SLOT_def R_390_RELATIVE_def R_390_GOTOFF32_def R_390_GOTPC_def R_390_GOT16_def
  R_390_PC16_def R_390_PC16DBL_def R_390_PLT16DBL_def R_390_PC32DBL_def R_390_PLT32DBL_def
  R_390_GOTPCDBL_def R_390_64_def R_390_PC64_def R_390_GOT64_def R_390_PLT64_def
  R_390_GOTENT_def R_390_GOTOFF16_def R_390_GOTOFF64_def R_390_GOTPLT12_def R_390_GOTPLT16_def
  R_390_GOTPLT32_def R_390_GOTPLT64_def R_390_GOTPLTENT_def R_390_PLTOFF16_def
  R_390_PLTOFF32_def R_390_PLTOFF64_def R_390_TLS_LOAD_def R_390_TLS_GDCALL_def
  R_390_TLS_LDCALL_def R_390_TLS_GD32_def R_390_TLS_GD64_def R_390_TLS_GOTIE12_def
  R_390_TLS_GOTIE32_def R_390_TLS_GOTIE64_def R_390_TLS_LDM32_def R_390_TLS_LDM64_def
  R_390_TLS_IE32_def R_390_TLS_IE64_def R_390_TLS_IEENT_def R_390_TLS_LE32_def
  R_390_TLS_LE64_def R_390_TLS_LDO32_def R_390_TLS_LDO64_def R_390_TLS_DTPMOD_def
  R_390_TLS_DTPOFF_def R_390_TLS_TPOFF_def R_390_20_def R_390_GOT20_def R_390_GOTPLT20_def
  R_390_TLS_GOTIE20_def R_390_IRELATIVE_def R_390_PC12DBL_def R_390_PLT12DBL_def
  R_390_PC24DBL_def R_390_PLT24DBL_def

definition R_68K_NONE :: u32 where "R_68K_NONE = 0"
definition R_68K_32 :: u32 where "R_68K_32 = 1"
definition R_68K_16 :: u32 where "R_68K_16 = 2"
definition R_68K_8 :: u32 where "R_68K_8 = 3"
definition R_68K_PC32 :: u32 where "R_68K_PC32 = 4"
definition R_68K_PC16 :: u32 where "R_68K_PC16 = 5"
definition R_68K_PC8 :: u32 where "R_68K_PC8 = 6"
definition R_68K_GOTPCREL32 :: u32 where "R_68K_GOTPCREL32 = 7"
definition R_68K_GOTPCREL16 :: u32 where "R_68K_GOTPCREL16 = 8"
definition R_68K_GOTPCREL8 :: u32 where "R_68K_GOTPCREL8 = 9"
definition R_68K_GOTOFF32 :: u32 where "R_68K_GOTOFF32 = 10"
definition R_68K_GOTOFF16 :: u32 where "R_68K_GOTOFF16 = 11"
definition R_68K_GOTOFF8 :: u32 where "R_68K_GOTOFF8 = 12"
definition R_68K_PLT32 :: u32 where "R_68K_PLT32 = 13"
definition R_68K_PLT16 :: u32 where "R_68K_PLT16 = 14"
definition R_68K_PLT8 :: u32 where "R_68K_PLT8 = 15"
definition R_68K_PLTOFF32 :: u32 where "R_68K_PLTOFF32 = 16"
definition R_68K_PLTOFF16 :: u32 where "R_68K_PLTOFF16 = 17"
definition R_68K_PLTOFF8 :: u32 where "R_68K_PLTOFF8 = 18"
definition R_68K_COPY :: u32 where "R_68K_COPY = 19"
definition R_68K_GLOB_DAT :: u32 where "R_68K_GLOB_DAT = 20"
definition R_68K_JMP_SLOT :: u32 where "R_68K_JMP_SLOT = 21"
definition R_68K_RELATIVE :: u32 where "R_68K_RELATIVE = 22"
definition R_68K_TLS_GD32 :: u32 where "R_68K_TLS_GD32 = 25"
definition R_68K_TLS_GD16 :: u32 where "R_68K_TLS_GD16 = 26"
definition R_68K_TLS_GD8 :: u32 where "R_68K_TLS_GD8 = 27"
definition R_68K_TLS_LDM32 :: u32 where "R_68K_TLS_LDM32 = 28"
definition R_68K_TLS_LDM16 :: u32 where "R_68K_TLS_LDM16 = 29"
definition R_68K_TLS_LDM8 :: u32 where "R_68K_TLS_LDM8 = 30"
definition R_68K_TLS_LDO32 :: u32 where "R_68K_TLS_LDO32 = 31"
definition R_68K_TLS_LDO16 :: u32 where "R_68K_TLS_LDO16 = 32"
definition R_68K_TLS_LDO8 :: u32 where "R_68K_TLS_LDO8 = 33"
definition R_68K_TLS_IE32 :: u32 where "R_68K_TLS_IE32 = 34"
definition R_68K_TLS_IE16 :: u32 where "R_68K_TLS_IE16 = 35"
definition R_68K_TLS_IE8 :: u32 where "R_68K_TLS_IE8 = 36"
definition R_68K_TLS_LE32 :: u32 where "R_68K_TLS_LE32 = 37"
definition R_68K_TLS_LE16 :: u32 where "R_68K_TLS_LE16 = 38"
definition R_68K_TLS_LE8 :: u32 where "R_68K_TLS_LE8 = 39"
definition R_68K_TLS_DTPMOD32 :: u32 where "R_68K_TLS_DTPMOD32 = 40"
definition R_68K_TLS_DTPREL32 :: u32 where "R_68K_TLS_DTPREL32 = 41"
definition R_68K_TLS_TPREL32 :: u32 where "R_68K_TLS_TPREL32 = 42"

definition R_68K_enum :: "(string \<times> u32) list" where
  "R_68K_enum =
    [(''R_68K_NONE'', R_68K_NONE),
     (''R_68K_32'', R_68K_32),
     (''R_68K_16'', R_68K_16),
     (''R_68K_8'', R_68K_8),
     (''R_68K_PC32'', R_68K_PC32),
     (''R_68K_PC16'', R_68K_PC16),
     (''R_68K_PC8'', R_68K_PC8),
     (''R_68K_GOTPCREL32'', R_68K_GOTPCREL32),
     (''R_68K_GOTPCREL16'', R_68K_GOTPCREL16),
     (''R_68K_GOTPCREL8'', R_68K_GOTPCREL8),
     (''R_68K_GOTOFF32'', R_68K_GOTOFF32),
     (''R_68K_GOTOFF16'', R_68K_GOTOFF16),
     (''R_68K_GOTOFF8'', R_68K_GOTOFF8),
     (''R_68K_PLT32'', R_68K_PLT32),
     (''R_68K_PLT16'', R_68K_PLT16),
     (''R_68K_PLT8'', R_68K_PLT8),
     (''R_68K_PLTOFF32'', R_68K_PLTOFF32),
     (''R_68K_PLTOFF16'', R_68K_PLTOFF16),
     (''R_68K_PLTOFF8'', R_68K_PLTOFF8),
     (''R_68K_COPY'', R_68K_COPY),
     (''R_68K_GLOB_DAT'', R_68K_GLOB_DAT),
     (''R_68K_JMP_SLOT'', R_68K_JMP_SLOT),
     (''R_68K_RELATIVE'', R_68K_RELATIVE),
     (''R_68K_TLS_GD32'', R_68K_TLS_GD32),
     (''R_68K_TLS_GD16'', R_68K_TLS_GD16),
     (''R_68K_TLS_GD8'', R_68K_TLS_GD8),
     (''R_68K_TLS_LDM32'', R_68K_TLS_LDM32),
     (''R_68K_TLS_LDM16'', R_68K_TLS_LDM16),
     (''R_68K_TLS_LDM8'', R_68K_TLS_LDM8),
     (''R_68K_TLS_LDO32'', R_68K_TLS_LDO32),
     (''R_68K_TLS_LDO16'', R_68K_TLS_LDO16),
     (''R_68K_TLS_LDO8'', R_68K_TLS_LDO8),
     (''R_68K_TLS_IE32'', R_68K_TLS_IE32),
     (''R_68K_TLS_IE16'', R_68K_TLS_IE16),
     (''R_68K_TLS_IE8'', R_68K_TLS_IE8),
     (''R_68K_TLS_LE32'', R_68K_TLS_LE32),
     (''R_68K_TLS_LE16'', R_68K_TLS_LE16),
     (''R_68K_TLS_LE8'', R_68K_TLS_LE8),
     (''R_68K_TLS_DTPMOD32'', R_68K_TLS_DTPMOD32),
     (''R_68K_TLS_DTPREL32'', R_68K_TLS_DTPREL32),
     (''R_68K_TLS_TPREL32'', R_68K_TLS_TPREL32)]"

lemmas R_68K_defs =
  R_68K_NONE_def R_68K_32_def R_68K_16_def R_68K_8_def R_68K_PC32_def R_68K_PC16_def
  R_68K_PC8_def R_68K_GOTPCREL32_def R_68K_GOTPCREL16_def R_68K_GOTPCREL8_def R_68K_GOTOFF32_def
  R_68K_GOTOFF16_def R_68K_GOTOFF8_def R_68K_PLT32_def R_68K_PLT16_def R_68K_PLT8_def
  R_68K_PLTOFF32_def R_68K_PLTOFF16_def R_68K_PLTOFF8_def R_68K_COPY_def R_68K_GLOB_DAT_def
  R_68K_JMP_SLOT_def R_68K_RELATIVE_def R_68K_TLS_GD32_def R_68K_TLS_GD16_def R_68K_TLS_GD8_def
  R_68K_TLS_LDM32_def R_68K_TLS_LDM16_def R_68K_TLS_LDM8_def R_68K_TLS_LDO32_def
  R_68K_TLS_LDO16_def R_68K_TLS_LDO8_def R_68K_TLS_IE32_def R_68K_TLS_IE16_def R_68K_TLS_IE8_def
  R_68K_TLS_LE32_def R_68K_TLS_LE16_def R_68K_TLS_LE8_def R_68K_TLS_DTPMOD32_def
  R_68K_TLS_DTPREL32_def R_68K_TLS_TPREL32_def

definition R_SH_NONE :: u32 where "R_SH_NONE = 0"
definition R_SH_DIR32 :: u32 where "R_SH_DIR32 = 1"
definition R_SH_REL32 :: u32 where "R_SH_REL32 = 2"
definition R_SH_DIR8WPN :: u32 where "R_SH_DIR8WPN = 3"
definition R_SH_IND12W :: u32 where "R_SH_IND12W = 4"
definition R_SH_DIR8WPL :: u32 where "R_SH_DIR8WPL = 5"
definition R_SH_DIR8WPZ :: u32 where "R_SH_DIR8WPZ = 6"
definition R_SH_DIR8BP :: u32 where "R_SH_DIR8BP = 7"
definition R_SH_DIR8W :: u32 where "R_SH_DIR8W = 8"
definition R_SH_DIR8L :: u32 where "R_SH_DIR8L = 9"
definition R_SH_TLS_GD_32 :: u32 where "R_SH_TLS_GD_32 = 144"
definition R_SH_TLS_LD_32 :: u32 where "R_SH_TLS_LD_32 = 145"
definition R_SH_TLS_LDO_32 :: u32 where "R_SH_TLS_LDO_32 = 146"
definition R_SH_TLS_IE_32 :: u32 where "R_SH_TLS_IE_32 = 147"
definition R_SH_TLS_LE_32 :: u32 where "R_SH_TLS_LE_32 = 148"
definition R_SH_TLS_DTPMOD32 :: u32 where "R_SH_TLS_DTPMOD32 = 149"
definition R_SH_TLS_DTPOFF32 :: u32 where "R_SH_TLS_DTPOFF32 = 150"
definition R_SH_TLS_TPOFF32 :: u32 where "R_SH_TLS_TPOFF32 = 151"
definition R_SH_GOT32 :: u32 where "R_SH_GOT32 = 160"
definition R_SH_PLT32 :: u32 where "R_SH_PLT32 = 161"
definition R_SH_COPY :: u32 where "R_SH_COPY = 162"
definition R_SH_GLOB_DAT :: u32 where "R_SH_GLOB_DAT = 163"
definition R_SH_JMP_SLOT :: u32 where "R_SH_JMP_SLOT = 164"
definition R_SH_RELATIVE :: u32 where "R_SH_RELATIVE = 165"
definition R_SH_GOTOFF :: u32 where "R_SH_GOTOFF = 166"
definition R_SH_GOTPC :: u32 where "R_SH_GOTPC = 167"
definition R_SH_GOTPLT32 :: u32 where "R_SH_GOTPLT32 = 168"

definition R_SH_enum :: "(string \<times> u32) list" where
  "R_SH_enum =
    [(''R_SH_NONE'', R_SH_NONE),
     (''R_SH_DIR32'', R_SH_DIR32),
     (''R_SH_REL32'', R_SH_REL32),
     (''R_SH_DIR8WPN'', R_SH_DIR8WPN),
     (''R_SH_IND12W'', R_SH_IND12W),
     (''R_SH_DIR8WPL'', R_SH_DIR8WPL),
     (''R_SH_DIR8WPZ'', R_SH_DIR8WPZ),
     (''R_SH_DIR8BP'', R_SH_DIR8BP),
     (''R_SH_DIR8W'', R_SH_DIR8W),
     (''R_SH_DIR8L'', R_SH_DIR8L),
     (''R_SH_TLS_GD_32'', R_SH_TLS_GD_32),
     (''R_SH_TLS_LD_32'', R_SH_TLS_LD_32),
     (''R_SH_TLS_LDO_32'', R_SH_TLS_LDO_32),
     (''R_SH_TLS_IE_32'', R_SH_TLS_IE_32),
     (''R_SH_TLS_LE_32'', R_SH_TLS_LE_32),
     (''R_SH_TLS_DTPMOD32'', R_SH_TLS_DTPMOD32),
     (''R_SH_TLS_DTPOFF32'', R_SH_TLS_DTPOFF32),
     (''R_SH_TLS_TPOFF32'', R_SH_TLS_TPOFF32),
     (''R_SH_GOT32'', R_SH_GOT32),
     (''R_SH_PLT32'', R_SH_PLT32),
     (''R_SH_COPY'', R_SH_COPY),
     (''R_SH_GLOB_DAT'', R_SH_GLOB_DAT),
     (''R_SH_JMP_SLOT'', R_SH_JMP_SLOT),
     (''R_SH_RELATIVE'', R_SH_RELATIVE),
     (''R_SH_GOTOFF'', R_SH_GOTOFF),
     (''R_SH_GOTPC'', R_SH_GOTPC),
     (''R_SH_GOTPLT32'', R_SH_GOTPLT32)]"

lemmas R_SH_defs =
  R_SH_NONE_def R_SH_DIR32_def R_SH_REL32_def R_SH_DIR8WPN_def R_SH_IND12W_def R_SH_DIR8WPL_def
  R_SH_DIR8WPZ_def R_SH_DIR8BP_def R_SH_DIR8W_def R_SH_DIR8L_def R_SH_TLS_GD_32_def
  R_SH_TLS_LD_32_def R_SH_TLS_LDO_32_def R_SH_TLS_IE_32_def R_SH_TLS_LE_32_def
  R_SH_TLS_DTPMOD32_def R_SH_TLS_DTPOFF32_def R_SH_TLS_TPOFF32_def R_SH_GOT32_def R_SH_PLT32_def
  R_SH_COPY_def R_SH_GLOB_DAT_def R_SH_JMP_SLOT_def R_SH_RELATIVE_def R_SH_GOTOFF_def
  R_SH_GOTPC_def R_SH_GOTPLT32_def

definition R_ALPHA_NONE :: u32 where "R_ALPHA_NONE = 0"
definition R_ALPHA_REFLONG :: u32 where "R_ALPHA_REFLONG = 1"
definition R_ALPHA_REFQUAD :: u32 where "R_ALPHA_REFQUAD = 2"
definition R_ALPHA_GPREL32 :: u32 where "R_ALPHA_GPREL32 = 3"
definition R_ALPHA_LITERAL :: u32 where "R_ALPHA_LITERAL = 4"
definition R_ALPHA_LITUSE :: u32 where "R_ALPHA_LITUSE = 5"
definition R_ALPHA_GPDISP :: u32 where "R_ALPHA_GPDISP = 6"
definition R_ALPHA_BRADDR :: u32 where "R_ALPHA_BRADDR = 7"
definition R_ALPHA_HINT :: u32 where "R_ALPHA_HINT = 8"
definition R_ALPHA_SREL16 :: u32 where "R_ALPHA_SREL16 = 9"
definition R_ALPHA_SREL32 :: u32 where "R_ALPHA_SREL32 = 10"
definition R_ALPHA_SREL64 :: u32 where "R_ALPHA_SREL64 = 11"
definition R_ALPHA_GPRELHIGH :: u32 where "R_ALPHA_GPRELHIGH = 17"
definition R_ALPHA_GPRELLOW :: u32 where "R_ALPHA_GPRELLOW = 18"
definition R_ALPHA_GPREL16 :: u32 where "R_ALPHA_GPREL16 = 19"
definition R_ALPHA_COPY :: u32 where "R_ALPHA_COPY = 24"
definition R_ALPHA_GLOB_DAT :: u32 where "R_ALPHA_GLOB_DAT = 25"
definition R_ALPHA_JMP_SLOT :: u32 where "R_ALPHA_JMP_SLOT = 26"
definition R_ALPHA_RELATIVE :: u32 where "R_ALPHA_RELATIVE = 27"
definition R_ALPHA_BRSGP :: u32 where "R_ALPHA_BRSGP = 28"
definition R_ALPHA_TLSGD :: u32 where "R_ALPHA_TLSGD = 29"
definition R_ALPHA_TLSLDM :: u32 where "R_ALPHA_TLSLDM = 30"
definition R_ALPHA_DTPMOD64 :: u32 where "R_ALPHA_DTPMOD64 = 31"
definition R_ALPHA_GOTDTPREL :: u32 where "R_ALPHA_GOTDTPREL = 32"
definition R_ALPHA_DTPREL64 :: u32 where "R_ALPHA_DTPREL64 = 33"
definition R_ALPHA_DTPRELHI :: u32 where "R_ALPHA_DTPRELHI = 34"
definition R_ALPHA_DTPRELLO :: u32 where "R_ALPHA_DTPRELLO = 35"
definition R_ALPHA_DTPREL16 :: u32 where "R_ALPHA_DTPREL16 = 36"
definition R_ALPHA_GOTTPREL :: u32 where "R_ALPHA_GOTTPREL = 37"
definition R_ALPHA_TPREL64 :: u32 where "R_ALPHA_TPREL64 = 38"
definition R_ALPHA_TPRELHI :: u32 where "R_ALPHA_TPRELHI = 39"
definition R_ALPHA_TPRELLO :: u32 where "R_ALPHA_TPRELLO = 40"
definition R_ALPHA_TPREL16 :: u32 where "R_ALPHA_TPREL16 = 41"

definition R_ALPHA_enum :: "(string \<times> u32) list" where
  "R_ALPHA_enum =
    [(''R_ALPHA_NONE'', R_ALPHA_NONE),
     (''R_ALPHA_REFLONG'', R_ALPHA_REFLONG),
     (''R_ALPHA_REFQUAD'', R_ALPHA_REFQUAD),
     (''R_ALPHA_GPREL32'', R_ALPHA_GPREL32),
     (''R_ALPHA_LITERAL'', R_ALPHA_LITERAL),
     (''R_ALPHA_LITUSE'', R_ALPHA_LITUSE),
     (''R_ALPHA_GPDISP'', R_ALPHA_GPDISP),
     (''R_ALPHA_BRADDR'', R_ALPHA_BRADDR),
     (''R_ALPHA_HINT'', R_ALPHA_HINT),
     (''R_ALPHA_SREL16'', R_ALPHA_SREL16),
     (''R_ALPHA_SREL32'', R_ALPHA_SREL32),
     (''R_ALPHA_SREL64'', R_ALPHA_SREL64),
     (''R_ALPHA_GPRELHIGH'', R_ALPHA_GPRELHIGH),
     (''R_ALPHA_GPRELLOW'', R_ALPHA_GPRELLOW),
     (''R_ALPHA_GPREL16'', R_ALPHA_GPREL16),
     (''R_ALPHA_COPY'', R_ALPHA_COPY),
     (''R_ALPHA_GLOB_DAT'', R_ALPHA_GLOB_DAT),
     (''R_ALPHA_JMP_SLOT'', R_ALPHA_JMP_SLOT),
     (''R_ALPHA_RELATIVE'', R_ALPHA_RELATIVE),
     (''R_ALPHA_BRSGP'', R_ALPHA_BRSGP),
     (''R_ALPHA_TLSGD'', R_ALPHA_TLSGD),
     (''R_ALPHA_TLSLDM'', R_ALPHA_TLSLDM),
     (''R_ALPHA_DTPMOD64'', R_ALPHA_DTPMOD64),
     (''R_ALPHA_GOTDTPREL'', R_ALPHA_GOTDTPREL),
     (''R_ALPHA_DTPREL64'', R_ALPHA_DTPREL64),
     (''R_ALPHA_DTPRELHI'', R_ALPHA_DTPRELHI),
     (''R_ALPHA_DTPRELLO'', R_ALPHA_DTPRELLO),
     (''R_ALPHA_DTPREL16'', R_ALPHA_DTPREL16),
     (''R_ALPHA_GOTTPREL'', R_ALPHA_GOTTPREL),
     (''R_ALPHA_TPREL64'', R_ALPHA_TPREL64),
     (''R_ALPHA_TPRELHI'', R_ALPHA_TPRELHI),
     (''R_ALPHA_TPRELLO'', R_ALPHA_TPRELLO),
     (''R_ALPHA_TPREL16'', R_ALPHA_TPREL16)]"

lemmas R_ALPHA_defs =
  R_ALPHA_NONE_def R_ALPHA_REFLONG_def R_ALPHA_REFQUAD_def R_ALPHA_GPREL32_def
  R_ALPHA_LITERAL_def R_ALPHA_LITUSE_def R_ALPHA_GPDISP_def R_ALPHA_BRADDR_def R_ALPHA_HINT_def
  R_ALPHA_SREL16_def R_ALPHA_SREL32_def R_ALPHA_SREL64_def R_ALPHA_GPRELHIGH_def
  R_ALPHA_GPRELLOW_def R_ALPHA_GPREL16_def R_ALPHA_COPY_def R_ALPHA_GLOB_DAT_def
  R_ALPHA_JMP_SLOT_def R_ALPHA_RELATIVE_def R_ALPHA_BRSGP_def R_ALPHA_TLSGD_def
  R_ALPHA_TLSLDM_def R_ALPHA_DTPMOD64_def R_ALPHA_GOTDTPREL_def R_ALPHA_DTPREL64_def
  R_ALPHA_DTPRELHI_def R_ALPHA_DTPRELLO_def R_ALPHA_DTPREL16_def R_ALPHA_GOTTPREL_def
  R_ALPHA_TPREL64_def R_ALPHA_TPRELHI_def R_ALPHA_TPRELLO_def R_ALPHA_TPREL16_def

subsection \<open>rel_to_string\<close>

datatype machine = X86_64 | I386 | ARM64 | ARM32 | RV64LE | RV64BE | RV32LE | RV32BE
  | PPC32 | PPC64V1 | PPC64V2 | S390X | SPARC64 | M68K | SH4 | ALPHA

definition rel_cases_X86_64 :: "(u32 \<times> string) list" where
  "rel_cases_X86_64 =
    [(R_X86_64_NONE, ''R_X86_64_NONE''),
     (R_X86_64_64, ''R_X86_64_64''),
     (R_X86_64_PC32, ''R_X86_64_PC32''),
     (R_X86_64_GOT32, ''R_X86_64_GOT32''),
     (R_X86_64_PLT32, ''R_X86_64_PLT32''),
     (R_X86_64_COPY, ''R_X86_64_COPY''),
     (R_X86_64_GLOB_DAT, ''R_X86_64_GLOB_DAT''),
     (R_X86_64_JUMP_SLOT, ''R_X86_64_JUMP_SLOT''),
     (R_X86_64_RELATIVE, ''R_X86_64_RELATIVE''),
     (R_X86_64_GOTPCREL, ''R_X86_64_GOTPCREL''),
     (R_X86_64_32, ''R_X86_64_32''),
     (R_X86_64_32S, ''R_X86_64_32S''),
     (R_X86_64_16, ''R_X86_64_16''),
     (R_X86_64_PC16, ''R_X86_64_PC16''),
     (R_X86_64_8, ''R_X86_64_8''),
     (R_X86_64_PC8, ''R_X86_64_PC8''),
     (R_X86_64_DTPMOD64, ''R_X86_64_DTPMOD64''),
     (R_X86_64_DTPOFF64, ''R_X86_64_DTPOFF64''),
     (R_X86_64_TPOFF64, ''R_X86_64_TPOFF64''),
     (R_X86_64_TLSGD, ''R_X86_64_TLSGD''),
     (R_X86_64_TLSLD, ''R_X86_64_TLSLD''),
     (R_X86_64_DTPOFF32, ''R_X86_64_DTPOFF32''),
     (R_X86_64_GOTTPOFF, ''R_X86_64_GOTTPOFF''),
     (R_X86_64_TPOFF32, ''R_X86_64_TPOFF32''),
     (R_X86_64_PC64, ''R_X86_64_PC64''),
     (R_X86_64_GOTOFF64, ''R_X86_64_GOTOFF64''),
     (R_X86_64_GOTPC32, ''R_X86_64_GOTPC32''),
     (R_X86_64_GOT64, ''R_X86_64_GOT64''),
     (R_X86_64_GOTPCREL64, ''R_X86_64_GOTPCREL64''),
     (R_X86_64_GOTPC64, ''R_X86_64_GOTPC64''),
     (R_X86_64_GOTPLT64, ''R_X86_64_GOTPLT64''),
     (R_X86_64_PLTOFF64, ''R_X86_64_PLTOFF64''),
     (R_X86_64_SIZE32, ''R_X86_64_SIZE32''),
     (R_X86_64_SIZE64, ''R_X86_64_SIZE64''),
     (R_X86_64_GOTPC32_TLSDESC, ''R_X86_64_GOTPC32_TLSDESC''),
     (R_X86_64_TLSDESC_CALL, ''R_X86_64_TLSDESC_CALL''),
     (R_X86_64_TLSDESC, ''R_X86_64_TLSDESC''),
     (R_X86_64_IRELATIVE, ''R_X86_64_IRELATIVE''),
     (R_X86_64_GOTPCRELX, ''R_X86_64_GOTPCRELX''),
     (R_X86_64_REX_GOTPCRELX, ''R_X86_64_REX_GOTPCRELX'')]"

definition rel_cases_I386 :: "(u32 \<times> string) list" where
  "rel_cases_I386 =
    [(R_386_NONE, ''R_386_NONE''),
     (R_386_32, ''R_386_32''),
     (R_386_PC32, ''R_386_PC32''),
     (R_386_GOT32, ''R_386_GOT32''),
     (R_386_PLT32, ''R_386_PLT32''),
     (R_386_COPY, ''R_386_COPY''),
     (R_386_GLOB_DAT, ''R_386_GLOB_DAT''),
     (R_386_JUMP_SLOT, ''R_386_JUMP_SLOT''),
     (R_386_RELATIVE, ''R_386_RELATIVE''),
     (R_386_GOTOFF, ''R_386_GOTOFF''),
     (R_386_GOTPC, ''R_386_GOTPC''),
     (R_386_32PLT, ''R_386_32PLT''),
     (R_386_TLS_TPOFF, ''R_386_TLS_TPOFF''),
     (R_386_TLS_IE, ''R_386_TLS_IE''),
     (R_386_TLS_GOTIE, ''R_386_TLS_GOTIE''),
     (R_386_TLS_LE, ''R_386_TLS_LE''),
     (R_386_TLS_GD, ''R_386_TLS_GD''),
     (R_386_TLS_LDM, ''R_386_TLS_LDM''),
     (R_386_16, ''R_386_16''),
     (R_386_PC16, ''R_386_PC16''),
     (R_386_8, ''R_386_8''),
     (R_386_PC8, ''R_386_PC8''),
     (R_386_TLS_GD_32, ''R_386_TLS_GD_32''),
     (R_386_TLS_GD_PUSH, ''R_386_TLS_GD_PUSH''),
     (R_386_TLS_GD_CALL, ''R_386_TLS_GD_CALL''),
     (R_386_TLS_GD_POP, ''R_386_TLS_GD_POP''),
     (R_386_TLS_LDM_32, ''R_386_TLS_LDM_32''),
     (R_386_TLS_LDM_PUSH, ''R_386_TLS_LDM_PUSH''),
     (R_386_TLS_LDM_CALL, ''R_386_TLS_LDM_CALL''),
     (R_386_TLS_LDM_POP, ''R_386_TLS_LDM_POP''),
     (R_386_TLS_LDO_32, ''R_386_TLS_LDO_32''),
     (R_386_TLS_IE_32, ''R_386_TLS_IE_32''),
     (R_386_TLS_LE_32, ''R_386_TLS_LE_32''),
     (R_386_TLS_DTPMOD32, ''R_386_TLS_DTPMOD32''),
     (R_386_TLS_DTPOFF32, ''R_386_TLS_DTPOFF32''),
     (R_386_TLS_TPOFF32, ''R_386_TLS_TPOFF32''),
     (R_386_SIZE32, ''R_386_SIZE32''),
     (R_386_TLS_GOTDESC, ''R_386_TLS_GOTDESC''),
     (R_386_TLS_DESC_CALL, ''R_386_TLS_DESC_CALL''),
     (R_386_TLS_DESC, ''R_386_TLS_DESC''),
     (R_386_IRELATIVE, ''R_386_IRELATIVE''),
     (R_386_GOT32X, ''R_386_GOT32X'')]"

definition rel_cases_ARM64 :: "(u32 \<times> string) list" where
  "rel_cases_ARM64 =
    [(R_AARCH64_NONE, ''R_AARCH64_NONE''),
     (R_AARCH64_ABS64, ''R_AARCH64_ABS64''),
     (R_AARCH64_ABS32, ''R_AARCH64_ABS32''),
     (R_AARCH64_ABS16, ''R_AARCH64_ABS16''),
     (R_AARCH64_PREL64, ''R_AARCH64_PREL64''),
     (R_AARCH64_PREL32, ''R_AARCH64_PREL32''),
     (R_AARCH64_PREL16, ''R_AARCH64_PREL16''),
     (R_AARCH64_MOVW_UABS_G0, ''R_AARCH64_MOVW_UABS_G0''),
     (R_AARCH64_MOVW_UABS_G0_NC, ''R_AARCH64_MOVW_UABS_G0_NC''),
     (R_AARCH64_MOVW_UABS_G1, ''R_AARCH64_MOVW_UABS_G1''),
     (R_AARCH64_MOVW_UABS_G1_NC, ''R_AARCH64_MOVW_UABS_G1_NC''),
     (R_AARCH64_MOVW_UABS_G2, ''R_AARCH64_MOVW_UABS_G2''),
     (R_AARCH64_MOVW_UABS_G2_NC, ''R_AARCH64_MOVW_UABS_G2_NC''),
     (R_AARCH64_MOVW_UABS_G3, ''R_AARCH64_MOVW_UABS_G3''),
     (R_AARCH64_MOVW_SABS_G0, ''R_AARCH64_MOVW_SABS_G0''),
     (R_AARCH64_MOVW_SABS_G1, ''R_AARCH64_MOVW_SABS_G1''),
     (R_AARCH64_MOVW_SABS_G2, ''R_AARCH64_MOVW_SABS_G2''),
     (R_AARCH64_LD_PREL_LO19, ''R_AARCH64_LD_PREL_LO19''),
     (R_AARCH64_ADR_PREL_LO21, ''R_AARCH64_ADR_PREL_LO21''),
     (R_AARCH64_ADR_PREL_PG_HI21, ''R_AARCH64_ADR_PREL_PG_HI21''),
     (R_AARCH64_ADR_PREL_PG_HI21_NC, ''R_AARCH64_ADR_PREL_PG_HI21_NC''),
     (R_AARCH64_ADD_ABS_LO12_NC, ''R_AARCH64_ADD_ABS_LO12_NC''),
     (R_AARCH64_LDST8_ABS_LO12_NC, ''R_AARCH64_LDST8_ABS_LO12_NC''),
     (R_AARCH64_TSTBR14, ''R_AARCH64_TSTBR14''),
     (R_AARCH64_CONDBR19, ''R_AARCH64_CONDBR19''),
     (R_AARCH64_JUMP26, ''R_AARCH64_JUMP26''),
     (R_AARCH64_CALL26, ''R_AARCH64_CALL26''),
     (R_AARCH64_LDST16_ABS_LO12_NC, ''R_AARCH64_LDST16_ABS_LO12_NC''),
     (R_AARCH64_LDST32_ABS_LO12_NC, ''R_AARCH64_LDST32_ABS_LO12_NC''),
     (R_AARCH64_LDST64_ABS_LO12_NC, ''R_AARCH64_LDST64_ABS_LO12_NC''),
     (R_AARCH64_MOVW_PREL_G0, ''R_AARCH64_MOVW_PREL_G0''),
     (R_AARCH64_MOVW_PREL_G0_NC, ''R_AARCH64_MOVW_PREL_G0_NC''),
     (R_AARCH64_MOVW_PREL_G1, ''R_AARCH64_MOVW_PREL_G1''),
     (R_AARCH64_MOVW_PREL_G1_NC, ''R_AARCH64_MOVW_PREL_G1_NC''),
     (R_AARCH64_MOVW_PREL_G2, ''R_AARCH64_MOVW_PREL_G2''),
     (R_AARCH64_MOVW_PREL_G2_NC, ''R_AARCH64_MOVW_PREL_G2_NC''),
     (R_AARCH64_MOVW_PREL_G3, ''R_AARCH64_MOVW_PREL_G3''),
     (R_AARCH64_LDST128_ABS_LO12_NC, ''R_AARCH64_LDST128_ABS_LO12_NC''),
     (R_AARCH64_ADR_GOT_PAGE, ''R_AARCH64_ADR_GOT_PAGE''),
     (R_AARCH64_LD64_GOT_LO12_NC, ''R_AARCH64_LD64_GOT_LO12_NC''),
     (R_AARCH64_LD64_GOTPAGE_LO15, ''R_AARCH64_LD64_GOTPAGE_LO15''),
     (R_AARCH64_PLT32, ''R_AARCH64_PLT32''),
     (R_AARCH64_TLSGD_ADR_PREL21, ''R_AARCH64_TLSGD_ADR_PREL21''),
     (R_AARCH64_TLSGD_ADR_PAGE21, ''R_AARCH64_TLSGD_ADR_PAGE21''),
     (R_AARCH64_TLSGD_ADD_LO12_NC, ''R_AARCH64_TLSGD_ADD_LO12_NC''),
     (R_AARCH64_TLSGD_MOVW_G1, ''R_AARCH64_TLSGD_MOVW_G1''),
     (R_AARCH64_TLSGD_MOVW_G0_NC, ''R_AARCH64_TLSGD_MOVW_G0_NC''),
     (R_AARCH64_TLSLD_ADR_PREL21, ''R_AARCH64_TLSLD_ADR_PREL21''),
     (R_AARCH64_TLSLD_ADR_PAGE21, ''R_AARCH64_TLSLD_ADR_PAGE21''),
     (R_AARCH64_TLSLD_ADD_LO12_NC, ''R_AARCH64_TLSLD_ADD_LO12_NC''),
     (R_AARCH64_TLSLD_MOVW_G1, ''R_AARCH64_TLSLD_MOVW_G1''),
     (R_AARCH64_TLSLD_MOVW_G0_NC, ''R_AARCH64_TLSLD_MOVW_G0_NC''),
     (R_AARCH64_TLSLD_LD_PREL19, ''R_AARCH64_TLSLD_LD_PREL19''),
     (R_AARCH64_TLSLD_MOVW_DTPREL_G2, ''R_AARCH64_TLSLD_MOVW_DTPREL_G2''),
     (R_AARCH64_TLSLD_MOVW_DTPREL_G1, ''R_AARCH64_TLSLD_MOVW_DTPREL_G1''),
     (R_AARCH64_TLSLD_MOVW_DTPREL_G1_NC, ''R_AARCH64_TLSLD_MOVW_DTPREL_G1_NC''),
     (R_AARCH64_TLSLD_MOVW_DTPREL_G0, ''R_AARCH64_TLSLD_MOVW_DTPREL_G0''),
     (R_AARCH64_TLSLD_MOVW_DTPREL_G0_NC, ''R_AARCH64_TLSLD_MOVW_DTPREL_G0_NC''),
     (R_AARCH64_TLSLD_ADD_DTPREL_HI12, ''R_AARCH64_TLSLD_ADD_DTPREL_HI12''),
     (R_AARCH64_TLSLD_ADD_DTPREL_LO12, ''R_AARCH64_TLSLD_ADD_DTPREL_LO12''),
     (R_AARCH64_TLSLD_ADD_DTPREL_LO12_NC, ''R_AARCH64_TLSLD_ADD_DTPREL_LO12_NC''),
     (R_AARCH64_TLSLD_LDST8_DTPREL_LO12, ''R_AARCH64_TLSLD_LDST8_DTPREL_LO12''),
     (R_AARCH64_TLSLD_LDST8_DTPREL_LO12_NC, ''R_AARCH64_TLSLD_LDST8_DTPREL_LO12_NC''),
     (R_AARCH64_TLSLD_LDST16_DTPREL_LO12, ''R_AARCH64_TLSLD_LDST16_DTPREL_LO12''),
     (R_AARCH64_TLSLD_LDST16_DTPREL_LO12_NC, ''R_AARCH64_TLSLD_LDST16_DTPREL_LO12_NC''),
     (R_AARCH64_TLSLD_LDST32_DTPREL_LO12, ''R_AARCH64_TLSLD_LDST32_DTPREL_LO12''),
     (R_AARCH64_TLSLD_LDST32_DTPREL_LO12_NC, ''R_AARCH64_TLSLD_LDST32_DTPREL_LO12_NC''),
     (R_AARCH64_TLSLD_LDST64_DTPREL_LO12, ''R_AARCH64_TLSLD_LDST64_DTPREL_LO12''),
     (R_AARCH64_TLSLD_LDST64_DTPREL_LO12_NC, ''R_AARCH64_TLSLD_LDST64_DTPREL_LO12_NC''),
     (R_AARCH64_TLSIE_MOVW_GOTTPREL_G1, ''R_AARCH64_TLSIE_MOVW_GOTTPREL_G1''),
     (R_AARCH64_TLSIE_MOVW_GOTTPREL_G0_NC, ''R_AARCH64_TLSIE_MOVW_GOTTPREL_G0_NC''),
     (R_AARCH64_TLSIE_ADR_GOTTPREL_PAGE21, ''R_AARCH64_TLSIE_ADR_GOTTPREL_PAGE21''),
     (R_AARCH64_TLSIE_LD64_GOTTPREL_LO12_NC, ''R_AARCH64_TLSIE_LD64_GOTTPREL_LO12_NC''),
     (R_AARCH64_TLSIE_LD_GOTTPREL_PREL19, ''R_AARCH64_TLSIE_LD_GOTTPREL_PREL19''),
     (R_AARCH64_TLSLE_MOVW_TPREL_G2, ''R_AARCH64_TLSLE_MOVW_TPREL_G2''),
     (R_AARCH64_TLSLE_MOVW_TPREL_G1, ''R_AARCH64_TLSLE_MOVW_TPREL_G1''),
     (R_AARCH64_TLSLE_MOVW_TPREL_G1_NC, ''R_AARCH64_TLSLE_MOVW_TPREL_G1_NC''),
     (R_AARCH64_TLSLE_MOVW_TPREL_G0, ''R_AARCH64_TLSLE_MOVW_TPREL_G0''),
     (R_AARCH64_TLSLE_MOVW_TPREL_G0_NC, ''R_AARCH64_TLSLE_MOVW_TPREL_G0_NC''),
     (R_AARCH64_TLSLE_ADD_TPREL_HI12, ''R_AARCH64_TLSLE_ADD_TPREL_HI12''),
     (R_AARCH64_TLSLE_ADD_TPREL_LO12, ''R_AARCH64_TLSLE_ADD_TPREL_LO12''),
     (R_AARCH64_TLSLE_ADD_TPREL_LO12_NC, ''R_AARCH64_TLSLE_ADD_TPREL_LO12_NC''),
     (R_AARCH64_TLSLE_LDST8_TPREL_LO12, ''R_AARCH64_TLSLE_LDST8_TPREL_LO12''),
     (R_AARCH64_TLSLE_LDST8_TPREL_LO12_NC, ''R_AARCH64_TLSLE_LDST8_TPREL_LO12_NC''),
     (R_AARCH64_TLSLE_LDST16_TPREL_LO12, ''R_AARCH64_TLSLE_LDST16_TPREL_LO12''),
     (R_AARCH64_TLSLE_LDST16_TPREL_LO12_NC, ''R_AARCH64_TLSLE_LDST16_TPREL_LO12_NC''),
     (R_AARCH64_TLSLE_LDST32_TPREL_LO12, ''R_AARCH64_TLSLE_LDST32_TPREL_LO12''),
     (R_AARCH64_TLSLE_LDST32_TPREL_LO12_NC, ''R_AARCH64_TLSLE_LDST32_TPREL_LO12_NC''),
     (R_AARCH64_TLSLE_LDST64_TPREL_LO12, ''R_AARCH64_TLSLE_LDST64_TPREL_LO12''),
     (R_AARCH64_TLSLE_LDST64_TPREL_LO12_NC, ''R_AARCH64_TLSLE_LDST64_TPREL_LO12_NC''),
     (R_AARCH64_TLSDESC_ADR_PAGE21, ''R_AARCH64_TLSDESC_ADR_PAGE21''),
     (R_AARCH64_TLSDESC_LD64_LO12, ''R_AARCH64_TLSDESC_LD64_LO12''),
     (R_AARCH64_TLSDESC_ADD_LO12, ''R_AARCH64_TLSDESC_ADD_LO12''),
     (R_AARCH64_TLSDESC_CALL, ''R_AARCH64_TLSDESC_CALL''),
     (R_AARCH64_TLSLE_LDST128_TPREL_LO12_NC, ''R_AARCH64_TLSLE_LDST128_TPREL_LO12_NC''),
     (R_AARCH64_COPY, ''R_AARCH64_COPY''),
     (R_AARCH64_GLOB_DAT, ''R_AARCH64_GLOB_DAT''),
     (R_AARCH64_JUMP_SLOT, ''R_AARCH64_JUMP_SLOT''),
     (R_AARCH64_RELATIVE, ''R_AARCH64_RELATIVE''),
     (R_AARCH64_TLS_DTPMOD64, ''R_AARCH64_TLS_DTPMOD64''),
     (R_AARCH64_TLS_DTPREL64, ''R_AARCH64_TLS_DTPREL64''),
     (R_AARCH64_TLS_TPREL64, ''R_AARCH64_TLS_TPREL64''),
     (R_AARCH64_TLSDESC, ''R_AARCH64_TLSDESC''),
     (R_AARCH64_IRELATIVE, ''R_AARCH64_IRELATIVE'')]"

definition rel_cases_ARM32 :: "(u32 \<times> string) list" where
  "rel_cases_ARM32 =
    [(R_ARM_NONE, ''R_ARM_NONE''),
     (R_ARM_PC24, ''R_ARM_PC24''),
     (R_ARM_ABS32, ''R_ARM_ABS32''),
     (R_ARM_REL32, ''R_ARM_REL32''),
     (R_ARM_LDR_PC_G0, ''R_ARM_LDR_PC_G0''),
     (R_ARM_ABS16, ''R_ARM_ABS16''),
     (R_ARM_ABS12, ''R_ARM_ABS12''),
     (R_ARM_THM_ABS5, ''R_ARM_THM_ABS5''),
     (R_ARM_ABS8, ''R_ARM_ABS8''),
     (R_ARM_SBREL32, ''R_ARM_SBREL32''),
     (R_ARM_THM_CALL, ''R_ARM_THM_CALL''),
     (R_ARM_THM_PC8, ''R_ARM_THM_PC8''),
     (R_ARM_BREL_ADJ, ''R_ARM_BREL_ADJ''),
     (R_ARM_TLS_DESC, ''R_ARM_TLS_DESC''),
     (R_ARM_THM_SWI8, ''R_ARM_THM_SWI8''),
     (R_ARM_XPC25, ''R_ARM_XPC25''),
     (R_ARM_THM_XPC22, ''R_ARM_THM_XPC22''),
     (R_ARM_TLS_DTPMOD32, ''R_ARM_TLS_DTPMOD32''),
     (R_ARM_TLS_DTPOFF32, ''R_ARM_TLS_DTPOFF32''),
     (R_ARM_TLS_TPOFF32, ''R_ARM_TLS_TPOFF32''),
     (R_ARM_COPY, ''R_ARM_COPY''),
     (R_ARM_GLOB_DAT, ''R_ARM_GLOB_DAT''),
     (R_ARM_JUMP_SLOT, ''R_ARM_JUMP_SLOT''),
     (R_ARM_RELATIVE, ''R_ARM_RELATIVE''),
     (R_ARM_GOTOFF32, ''R_ARM_GOTOFF32''),
     (R_ARM_BASE_PREL, ''R_ARM_BASE_PREL''),
     (R_ARM_GOT_BREL, ''R_ARM_GOT_BREL''),
     (R_ARM_PLT32, ''R_ARM_PLT32''),
     (R_ARM_CALL, ''R_ARM_CALL''),
     (R_ARM_JUMP24, ''R_ARM_JUMP24''),
     (R_ARM_THM_JUMP24, ''R_ARM_THM_JUMP24''),
     (R_ARM_BASE_ABS, ''R_ARM_BASE_ABS''),
     (R_ARM_ALU_PCREL_7_0, ''R_ARM_ALU_PCREL_7_0''),
     (R_ARM_ALU_PCREL_15_8, ''R_ARM_ALU_PCREL_15_8''),
     (R_ARM_ALU_PCREL_23_15, ''R_ARM_ALU_PCREL_23_15''),
     (R_ARM_LDR_SBREL_11_0_NC, ''R_ARM_LDR_SBREL_11_0_NC''),
     (R_ARM_ALU_SBREL_19_12_NC, ''R_ARM_ALU_SBREL_19_12_NC''),
     (R_ARM_ALU_SBREL_27_20_CK, ''R_ARM_ALU_SBREL_27_20_CK''),
     (R_ARM_TARGET1, ''R_ARM_TARGET1''),
     (R_ARM_SBREL31, ''R_ARM_SBREL31''),
     (R_ARM_V4BX, ''R_ARM_V4BX''),
     (R_ARM_TARGET2, ''R_ARM_TARGET2''),
     (R_ARM_PREL31, ''R_ARM_PREL31''),
     (R_ARM_MOVW_ABS_NC, ''R_ARM_MOVW_ABS_NC''),
     (R_ARM_MOVT_ABS, ''R_ARM_MOVT_ABS''),
     (R_ARM_MOVW_PREL_NC, ''R_ARM_MOVW_PREL_NC''),
     (R_ARM_MOVT_PREL, ''R_ARM_MOVT_PREL''),
     (R_ARM_THM_MOVW_ABS_NC, ''R_ARM_THM_MOVW_ABS_NC''),
     (R_ARM_THM_MOVT_ABS, ''R_ARM_THM_MOVT_ABS''),
     (R_ARM_THM_MOVW_PREL_NC, ''R_ARM_THM_MOVW_PREL_NC''),
     (R_ARM_THM_MOVT_PREL, ''R_ARM_THM_MOVT_PREL''),
     (R_ARM_THM_JUMP19, ''R_ARM_THM_JUMP19''),
     (R_ARM_THM_JUMP6, ''R_ARM_THM_JUMP6''),
     (R_ARM_THM_ALU_PREL_11_0, ''R_ARM_THM_ALU_PREL_11_0''),
     (R_ARM_THM_PC12, ''R_ARM_THM_PC12''),
     (R_ARM_ABS32_NOI, ''R_ARM_ABS32_NOI''),
     (R_ARM_REL32_NOI, ''R_ARM_REL32_NOI''),
     (R_ARM_ALU_PC_G0_NC, ''R_ARM_ALU_PC_G0_NC''),
     (R_ARM_ALU_PC_G0, ''R_ARM_ALU_PC_G0''),
     (R_ARM_ALU_PC_G1_NC, ''R_ARM_ALU_PC_G1_NC''),
     (R_ARM_ALU_PC_G1, ''R_ARM_ALU_PC_G1''),
     (R_ARM_ALU_PC_G2, ''R_ARM_ALU_PC_G2''),
     (R_ARM_LDR_PC_G1, ''R_ARM_LDR_PC_G1''),
     (R_ARM_LDR_PC_G2, ''R_ARM_LDR_PC_G2''),
     (R_ARM_LDRS_PC_G0, ''R_ARM_LDRS_PC_G0''),
     (R_ARM_LDRS_PC_G1, ''R_ARM_LDRS_PC_G1''),
     (R_ARM_LDRS_PC_G2, ''R_ARM_LDRS_PC_G2''),
     (R_ARM_LDC_PC_G0, ''R_ARM_LDC_PC_G0''),
     (R_ARM_LDC_PC_G1, ''R_ARM_LDC_PC_G1''),
     (R_ARM_LDC_PC_G2, ''R_ARM_LDC_PC_G2''),
     (R_ARM_ALU_SB_G0_NC, ''R_ARM_ALU_SB_G0_NC''),
     (R_ARM_ALU_SB_G0, ''R_ARM_ALU_SB_G0''),
     (R_ARM_ALU_SB_G1_NC, ''R_ARM_ALU_SB_G1_NC''),
     (R_ARM_ALU_SB_G1, ''R_ARM_ALU_SB_G1''),
     (R_ARM_ALU_SB_G2, ''R_ARM_ALU_SB_G2''),
     (R_ARM_LDR_SB_G0, ''R_ARM_LDR_SB_G0''),
     (R_ARM_LDR_SB_G1, ''R_ARM_LDR_SB_G1''),
     (R_ARM_LDR_SB_G2, ''R_ARM_LDR_SB_G2''),
     (R_ARM_LDRS_SB_G0, ''R_ARM_LDRS_SB_G0''),
     (R_ARM_LDRS_SB_G1, ''R_ARM_LDRS_SB_G1''),
     (R_ARM_LDRS_SB_G2, ''R_ARM_LDRS_SB_G2''),
     (R_ARM_LDC_SB_G0, ''R_ARM_LDC_SB_G0''),
     (R_ARM_LDC_SB_G1, ''R_ARM_LDC_SB_G1''),
     (R_ARM_LDC_SB_G2, ''R_ARM_LDC_SB_G2''),
     (R_ARM_MOVW_BREL_NC, ''R_ARM_MOVW_BREL_NC''),
     (R_ARM_MOVT_BREL, ''R_ARM_MOVT_BREL''),
     (R_ARM_MOVW_BREL, ''R_ARM_MOVW_BREL''),
     (R_ARM_THM_MOVW_BREL_NC, ''R_ARM_THM_MOVW_BREL_NC''),
     (R_ARM_THM_MOVT_BREL, ''R_ARM_THM_MOVT_BREL''),
     (R_ARM_THM_MOVW_BREL, ''R_ARM_THM_MOVW_BREL''),
     (R_ARM_TLS_GOTDESC, ''R_ARM_TLS_GOTDESC''),
     (R_ARM_TLS_CALL, ''R_ARM_TLS_CALL''),
     (R_ARM_TLS_DESCSEQ, ''R_ARM_TLS_DESCSEQ''),
     (R_ARM_THM_TLS_CALL, ''R_ARM_THM_TLS_CALL''),
     (R_ARM_PLT32_ABS, ''R_ARM_PLT32_ABS''),
     (R_ARM_GOT_ABS, ''R_ARM_GOT_ABS''),
     (R_ARM_GOT_PREL, ''R_ARM_GOT_PREL''),
     (R_ARM_GOT_BREL12, ''R_ARM_GOT_BREL12''),
     (R_ARM_GOTOFF12, ''R_ARM_GOTOFF12''),
     (R_ARM_GOTRELAX, ''R_ARM_GOTRELAX''),
     (R_ARM_GNU_VTENTRY, ''R_ARM_GNU_VTENTRY''),
     (R_ARM_GNU_VTINHERIT, ''R_ARM_GNU_VTINHERIT''),
     (R_ARM_THM_JUMP11, ''R_ARM_THM_JUMP11''),
     (R_ARM_THM_JUMP8, ''R_ARM_THM_JUMP8''),
     (R_ARM_TLS_GD32, ''R_ARM_TLS_GD32''),
     (R_ARM_TLS_LDM32, ''R_ARM_TLS_LDM32''),
     (R_ARM_TLS_LDO32, ''R_ARM_TLS_LDO32''),
     (R_ARM_TLS_IE32, ''R_ARM_TLS_IE32''),
     (R_ARM_TLS_LE32, ''R_ARM_TLS_LE32''),
     (R_ARM_TLS_LDO12, ''R_ARM_TLS_LDO12''),
     (R_ARM_TLS_LE12, ''R_ARM_TLS_LE12''),
     (R_ARM_TLS_IE12GP, ''R_ARM_TLS_IE12GP''),
     (R_ARM_PRIVATE_0, ''R_ARM_PRIVATE_0''),
     (R_ARM_PRIVATE_1, ''R_ARM_PRIVATE_1''),
     (R_ARM_PRIVATE_2, ''R_ARM_PRIVATE_2''),
     (R_ARM_PRIVATE_3, ''R_ARM_PRIVATE_3''),
     (R_ARM_PRIVATE_4, ''R_ARM_PRIVATE_4''),
     (R_ARM_PRIVATE_5, ''R_ARM_PRIVATE_5''),
     (R_ARM_PRIVATE_6, ''R_ARM_PRIVATE_6''),
     (R_ARM_PRIVATE_7, ''R_ARM_PRIVATE_7''),
     (R_ARM_PRIVATE_8, ''R_ARM_PRIVATE_8''),
     (R_ARM_PRIVATE_9, ''R_ARM_PRIVATE_9''),
     (R_ARM_PRIVATE_10, ''R_ARM_PRIVATE_10''),
     (R_ARM_PRIVATE_11, ''R_ARM_PRIVATE_11''),
     (R_ARM_PRIVATE_12, ''R_ARM_PRIVATE_12''),
     (R_ARM_PRIVATE_13, ''R_ARM_PRIVATE_13''),
     (R_ARM_PRIVATE_14, ''R_ARM_PRIVATE_14''),
     (R_ARM_PRIVATE_15, ''R_ARM_PRIVATE_15''),
     (R_ARM_ME_TOO, ''R_ARM_ME_TOO''),
     (R_ARM_THM_TLS_DESCSEQ16, ''R_ARM_THM_TLS_DESCSEQ16''),
     (R_ARM_THM_TLS_DESCSEQ32, ''R_ARM_THM_TLS_DESCSEQ32''),
     (R_ARM_THM_BF16, ''R_ARM_THM_BF16''),
     (R_ARM_THM_BF12, ''R_ARM_THM_BF12''),
     (R_ARM_THM_BF18, ''R_ARM_THM_BF18''),
     (R_ARM_IRELATIVE, ''R_ARM_IRELATIVE'')]"

definition rel_cases_RV64LE :: "(u32 \<times> string) list" where
  "rel_cases_RV64LE =
    [(R_RISCV_NONE, ''R_RISCV_NONE''),
     (R_RISCV_32, ''R_RISCV_32''),
     (R_RISCV_64, ''R_RISCV_64''),
     (R_RISCV_RELATIVE, ''R_RISCV_RELATIVE''),
     (R_RISCV_COPY, ''R_RISCV_COPY''),
     (R_RISCV_JUMP_SLOT, ''R_RISCV_JUMP_SLOT''),
     (R_RISCV_TLS_DTPMOD32, ''R_RISCV_TLS_DTPMOD32''),
     (R_RISCV_TLS_DTPMOD64, ''R_RISCV_TLS_DTPMOD64''),
     (R_RISCV_TLS_DTPREL32, ''R_RISCV_TLS_DTPREL32''),
     (R_RISCV_TLS_DTPREL64, ''R_RISCV_TLS_DTPREL64''),
     (R_RISCV_TLS_TPREL32, ''R_RISCV_TLS_TPREL32''),
     (R_RISCV_TLS_TPREL64, ''R_RISCV_TLS_TPREL64''),
     (R_RISCV_BRANCH, ''R_RISCV_BRANCH''),
     (R_RISCV_JAL, ''R_RISCV_JAL''),
     (R_RISCV_CALL, ''R_RISCV_CALL''),
     (R_RISCV_CALL_PLT, ''R_RISCV_CALL_PLT''),
     (R_RISCV_GOT_HI20, ''R_RISCV_GOT_HI20''),
     (R_RISCV_TLS_GOT_HI20, ''R_RISCV_TLS_GOT_HI20''),
     (R_RISCV_TLS_GD_HI20, ''R_RISCV_TLS_GD_HI20''),
     (R_RISCV_PCREL_HI20, ''R_RISCV_PCREL_HI20''),
     (R_RISCV_PCREL_LO12_I, ''R_RISCV_PCREL_LO12_I''),
     (R_RISCV_PCREL_LO12_S, ''R_RISCV_PCREL_LO12_S''),
     (R_RISCV_HI20, ''R_RISCV_HI20''),
     (R_RISCV_LO12_I, ''R_RISCV_LO12_I''),
     (R_RISCV_LO12_S, ''R_RISCV_LO12_S''),
     (R_RISCV_TPREL_HI20, ''R_RISCV_TPREL_HI20''),
     (R_RISCV_TPREL_LO12_I, ''R_RISCV_TPREL_LO12_I''),
     (R_RISCV_TPREL_LO12_S, ''R_RISCV_TPREL_LO12_S''),
     (R_RISCV_TPREL_ADD, ''R_RISCV_TPREL_ADD''),
     (R_RISCV_ADD8, ''R_RISCV_ADD8''),
     (R_RISCV_ADD16, ''R_RISCV_ADD16''),
     (R_RISCV_ADD32, ''R_RISCV_ADD32''),
     (R_RISCV_ADD64, ''R_RISCV_ADD64''),
     (R_RISCV_SUB8, ''R_RISCV_SUB8''),
     (R_RISCV_SUB16, ''R_RISCV_SUB16''),
     (R_RISCV_SUB32, ''R_RISCV_SUB32''),
     (R_RISCV_SUB64, ''R_RISCV_SUB64''),
     (R_RISCV_ALIGN, ''R_RISCV_ALIGN''),
     (R_RISCV_RVC_BRANCH, ''R_RISCV_RVC_BRANCH''),
     (R_RISCV_RVC_JUMP, ''R_RISCV_RVC_JUMP''),
     (R_RISCV_RVC_LUI, ''R_RISCV_RVC_LUI''),
     (R_RISCV_RELAX, ''R_RISCV_RELAX''),
     (R_RISCV_SUB6, ''R_RISCV_SUB6''),
     (R_RISCV_SET6, ''R_RISCV_SET6''),
     (R_RISCV_SET8, ''R_RISCV_SET8''),
     (R_RISCV_SET16, ''R_RISCV_SET16''),
     (R_RISCV_SET32, ''R_RISCV_SET32''),
     (R_RISCV_32_PCREL, ''R_RISCV_32_PCREL''),
     (R_RISCV_IRELATIVE, ''R_RISCV_IRELATIVE''),
     (R_RISCV_PLT32, ''R_RISCV_PLT32'')]"

definition rel_cases_PPC32 :: "(u32 \<times> string) list" where
  "rel_cases_PPC32 =
    [(R_PPC_NONE, ''R_PPC_NONE''),
     (R_PPC_ADDR32, ''R_PPC_ADDR32''),
     (R_PPC_ADDR24, ''R_PPC_ADDR24''),
     (R_PPC_ADDR16, ''R_PPC_ADDR16''),
     (R_PPC_ADDR16_LO, ''R_PPC_ADDR16_LO''),
     (R_PPC_ADDR16_HI, ''R_PPC_ADDR16_HI''),
     (R_PPC_ADDR16_HA, ''R_PPC_ADDR16_HA''),
     (R_PPC_ADDR14, ''R_PPC_ADDR14''),
     (R_PPC_ADDR14_BRTAKEN, ''R_PPC_ADDR14_BRTAKEN''),
     (R_PPC_ADDR14_BRNTAKEN, ''R_PPC_ADDR14_BRNTAKEN''),
     (R_PPC_REL24, ''R_PPC_REL24''),
     (R_PPC_REL14, ''R_PPC_REL14''),
     (R_PPC_REL14_BRTAKEN, ''R_PPC_REL14_BRTAKEN''),
     (R_PPC_REL14_BRNTAKEN, ''R_PPC_REL14_BRNTAKEN''),
     (R_PPC_GOT16, ''R_PPC_GOT16''),
     (R_PPC_GOT16_LO, ''R_PPC_GOT16_LO''),
     (R_PPC_GOT16_HI, ''R_PPC_GOT16_HI''),
     (R_PPC_GOT16_HA, ''R_PPC_GOT16_HA''),
     (R_PPC_PLTREL24, ''R_PPC_PLTREL24''),
     (R_PPC_COPY, ''R_PPC_COPY''),
     (R_PPC_GLOB_DAT, ''R_PPC_GLOB_DAT''),
     (R_PPC_JMP_SLOT, ''R_PPC_JMP_SLOT''),
     (R_PPC_RELATIVE, ''R_PPC_RELATIVE''),
     (R_PPC_LOCAL24PC, ''R_PPC_LOCAL24PC''),
     (R_PPC_UADDR32, ''R_PPC_UADDR32''),
     (R_PPC_UADDR16, ''R_PPC_UADDR16''),
     (R_PPC_REL32, ''R_PPC_REL32''),
     (R_PPC_PLT32, ''R_PPC_PLT32''),
     (R_PPC_PLTREL32, ''R_PPC_PLTREL32''),
     (R_PPC_PLT16_LO, ''R_PPC_PLT16_LO''),
     (R_PPC_PLT16_HI, ''R_PPC_PLT16_HI''),
     (R_PPC_PLT16_HA, ''R_PPC_PLT16_HA''),
     (R_PPC_SDAREL16, ''R_PPC_SDAREL16''),
     (R_PPC_SECTOFF, ''R_PPC_SECTOFF''),
     (R_PPC_SECTOFF_LO, ''R_PPC_SECTOFF_LO''),
     (R_PPC_SECTOFF_HI, ''R_PPC_SECTOFF_HI''),
     (R_PPC_SECTOFF_HA, ''R_PPC_SECTOFF_HA''),
     (R_PPC_ADDR30, ''R_PPC_ADDR30''),
     (R_PPC_TLS, ''R_PPC_TLS''),
     (R_PPC_DTPMOD32, ''R_PPC_DTPMOD32''),
     (R_PPC_TPREL16, ''R_PPC_TPREL16''),
     (R_PPC_TPREL16_LO, ''R_PPC_TPREL16_LO''),
     (R_PPC_TPREL16_HI, ''R_PPC_TPREL16_HI''),
     (R_PPC_TPREL16_HA, ''R_PPC_TPREL16_HA''),
     (R_PPC_TPREL32, ''R_PPC_TPREL32''),
     (R_PPC_DTPREL16, ''R_PPC_DTPREL16''),
     (R_PPC_DTPREL16_LO, ''R_PPC_DTPREL16_LO''),
     (R_PPC_DTPREL16_HI, ''R_PPC_DTPREL16_HI''),
     (R_PPC_DTPREL16_HA, ''R_PPC_DTPREL16_HA''),
     (R_PPC_DTPREL32, ''R_PPC_DTPREL32''),
     (R_PPC_GOT_TLSGD16, ''R_PPC_GOT_TLSGD16''),
     (R_PPC_GOT_TLSGD16_LO, ''R_PPC_GOT_TLSGD16_LO''),
     (R_PPC_GOT_TLSGD16_HI, ''R_PPC_GOT_TLSGD16_HI''),
     (R_PPC_GOT_TLSGD16_HA, ''R_PPC_GOT_TLSGD16_HA''),
     (R_PPC_GOT_TLSLD16, ''R_PPC_GOT_TLSLD16''),
     (R_PPC_GOT_TLSLD16_LO, ''R_PPC_GOT_TLSLD16_LO''),
     (R_PPC_GOT_TLSLD16_HI, ''R_PPC_GOT_TLSLD16_HI''),
     (R_PPC_GOT_TLSLD16_HA, ''R_PPC_GOT_TLSLD16_HA''),
     (R_PPC_GOT_TPREL16, ''R_PPC_GOT_TPREL16''),
     (R_PPC_GOT_TPREL16_LO, ''R_PPC_GOT_TPREL16_LO''),
     (R_PPC_GOT_TPREL16_HI, ''R_PPC_GOT_TPREL16_HI''),
     (R_PPC_GOT_TPREL16_HA, ''R_PPC_GOT_TPREL16_HA''),
     (R_PPC_GOT_DTPREL16, ''R_PPC_GOT_DTPREL16''),
     (R_PPC_GOT_DTPREL16_LO, ''R_PPC_GOT_DTPREL16_LO''),
     (R_PPC_GOT_DTPREL16_HI, ''R_PPC_GOT_DTPREL16_HI''),
     (R_PPC_GOT_DTPREL16_HA, ''R_PPC_GOT_DTPREL16_HA''),
     (R_PPC_TLSGD, ''R_PPC_TLSGD''),
     (R_PPC_TLSLD, ''R_PPC_TLSLD''),
     (R_PPC_PLTSEQ, ''R_PPC_PLTSEQ''),
     (R_PPC_PLTCALL, ''R_PPC_PLTCALL''),
     (R_PPC_IRELATIVE, ''R_PPC_IRELATIVE''),
     (R_PPC_REL16, ''R_PPC_REL16''),
     (R_PPC_REL16_LO, ''R_PPC_REL16_LO''),
     (R_PPC_REL16_HI, ''R_PPC_REL16_HI''),
     (R_PPC_REL16_HA, ''R_PPC_REL16_HA'')]"

definition rel_cases_PPC64V1 :: "(u32 \<times> string) list" where
  "rel_cases_PPC64V1 =
    [(R_PPC64_NONE, ''R_PPC64_NONE''),
     (R_PPC64_ADDR32, ''R_PPC64_ADDR32''),
     (R_PPC64_ADDR24, ''R_PPC64_ADDR24''),
     (R_PPC64_ADDR16, ''R_PPC64_ADDR16''),
     (R_PPC64_ADDR16_LO, ''R_PPC64_ADDR16_LO''),
     (R_PPC64_ADDR16_HI, ''R_PPC64_ADDR16_HI''),
     (R_PPC64_ADDR16_HA, ''R_PPC64_ADDR16_HA''),
     (R_PPC64_ADDR14, ''R_PPC64_ADDR14''),
     (R_PPC64_ADDR14_BRTAKEN, ''R_PPC64_ADDR14_BRTAKEN''),
     (R_PPC64_ADDR14_BRNTAKEN, ''R_PPC64_ADDR14_BRNTAKEN''),
     (R_PPC64_REL24, ''R_PPC64_REL24''),
     (R_PPC64_REL14, ''R_PPC64_REL14''),
     (R_PPC64_REL14_BRTAKEN, ''R_PPC64_REL14_BRTAKEN''),
     (R_PPC64_REL14_BRNTAKEN, ''R_PPC64_REL14_BRNTAKEN''),
     (R_PPC64_GOT16, ''R_PPC64_GOT16''),
     (R_PPC64_GOT16_LO, ''R_PPC64_GOT16_LO''),
     (R_PPC64_GOT16_HI, ''R_PPC64_GOT16_HI''),
     (R_PPC64_GOT16_HA, ''R_PPC64_GOT16_HA''),
     (R_PPC64_COPY, ''R_PPC64_COPY''),
     (R_PPC64_GLOB_DAT, ''R_PPC64_GLOB_DAT''),
     (R_PPC64_JMP_SLOT, ''R_PPC64_JMP_SLOT''),
     (R_PPC64_RELATIVE, ''R_PPC64_RELATIVE''),
     (R_PPC64_REL32, ''R_PPC64_REL32''),
     (R_PPC64_PLT16_LO, ''R_PPC64_PLT16_LO''),
     (R_PPC64_PLT16_HI, ''R_PPC64_PLT16_HI''),
     (R_PPC64_PLT16_HA, ''R_PPC64_PLT16_HA''),
     (R_PPC64_ADDR64, ''R_PPC64_ADDR64''),
     (R_PPC64_ADDR16_HIGHER, ''R_PPC64_ADDR16_HIGHER''),
     (R_PPC64_ADDR16_HIGHERA, ''R_PPC64_ADDR16_HIGHERA''),
     (R_PPC64_ADDR16_HIGHEST, ''R_PPC64_ADDR16_HIGHEST''),
     (R_PPC64_ADDR16_HIGHESTA, ''R_PPC64_ADDR16_HIGHESTA''),
     (R_PPC64_REL64, ''R_PPC64_REL64''),
     (R_PPC64_TOC16, ''R_PPC64_TOC16''),
     (R_PPC64_TOC16_LO, ''R_PPC64_TOC16_LO''),
     (R_PPC64_TOC16_HI, ''R_PPC64_TOC16_HI''),
     (R_PPC64_TOC16_HA, ''R_PPC64_TOC16_HA''),
     (R_PPC64_TOC, ''R_PPC64_TOC''),
     (R_PPC64_ADDR16_DS, ''R_PPC64_ADDR16_DS''),
     (R_PPC64_ADDR16_LO_DS, ''R_PPC64_ADDR16_LO_DS''),
     (R_PPC64_GOT16_DS, ''R_PPC64_GOT16_DS''),
     (R_PPC64_GOT16_LO_DS, ''R_PPC64_GOT16_LO_DS''),
     (R_PPC64_PLT16_LO_DS, ''R_PPC64_PLT16_LO_DS''),
     (R_PPC64_TOC16_DS, ''R_PPC64_TOC16_DS''),
     (R_PPC64_TOC16_LO_DS, ''R_PPC64_TOC16_LO_DS''),
     (R_PPC64_TLS, ''R_PPC64_TLS''),
     (R_PPC64_DTPMOD64, ''R_PPC64_DTPMOD64''),
     (R_PPC64_TPREL16, ''R_PPC64_TPREL16''),
     (R_PPC64_TPREL16_LO, ''R_PPC64_TPREL16_LO''),
     (R_PPC64_TPREL16_HI, ''R_PPC64_TPREL16_HI''),
     (R_PPC64_TPREL16_HA, ''R_PPC64_TPREL16_HA''),
     (R_PPC64_TPREL64, ''R_PPC64_TPREL64''),
     (R_PPC64_DTPREL16, ''R_PPC64_DTPREL16''),
     (R_PPC64_DTPREL16_LO, ''R_PPC64_DTPREL16_LO''),
     (R_PPC64_DTPREL16_HI, ''R_PPC64_DTPREL16_HI''),
     (R_PPC64_DTPREL16_HA, ''R_PPC64_DTPREL16_HA''),
     (R_PPC64_DTPREL64, ''R_PPC64_DTPREL64''),
     (R_PPC64_GOT_TLSGD16, ''R_PPC64_GOT_TLSGD16''),
     (R_PPC64_GOT_TLSGD16_LO, ''R_PPC64_GOT_TLSGD16_LO''),
     (R_PPC64_GOT_TLSGD16_HI, ''R_PPC64_GOT_TLSGD16_HI''),
     (R_PPC64_GOT_TLSGD16_HA, ''R_PPC64_GOT_TLSGD16_HA''),
     (R_PPC64_GOT_TLSLD16, ''R_PPC64_GOT_TLSLD16''),
     (R_PPC64_GOT_TLSLD16_LO, ''R_PPC64_GOT_TLSLD16_LO''),
     (R_PPC64_GOT_TLSLD16_HI, ''R_PPC64_GOT_TLSLD16_HI''),
     (R_PPC64_GOT_TLSLD16_HA, ''R_PPC64_GOT_TLSLD16_HA''),
     (R_PPC64_GOT_TPREL16_DS, ''R_PPC64_GOT_TPREL16_DS''),
     (R_PPC64_GOT_TPREL16_LO_DS, ''R_PPC64_GOT_TPREL16_LO_DS''),
     (R_PPC64_GOT_TPREL16_HI, ''R_PPC64_GOT_TPREL16_HI''),
     (R_PPC64_GOT_TPREL16_HA, ''R_PPC64_GOT_TPREL16_HA''),
     (R_PPC64_GOT_DTPREL16_DS, ''R_PPC64_GOT_DTPREL16_DS''),
     (R_PPC64_GOT_DTPREL16_LO_DS, ''R_PPC64_GOT_DTPREL16_LO_DS''),
     (R_PPC64_GOT_DTPREL16_HI, ''R_PPC64_GOT_DTPREL16_HI''),
     (R_PPC64_GOT_DTPREL16_HA, ''R_PPC64_GOT_DTPREL16_HA''),
     (R_PPC64_TPREL16_DS, ''R_PPC64_TPREL16_DS''),
     (R_PPC64_TPREL16_LO_DS, ''R_PPC64_TPREL16_LO_DS''),
     (R_PPC64_TPREL16_HIGHER, ''R_PPC64_TPREL16_HIGHER''),
     (R_PPC64_TPREL16_HIGHERA, ''R_PPC64_TPREL16_HIGHERA''),
     (R_PPC64_TPREL16_HIGHEST, ''R_PPC64_TPREL16_HIGHEST''),
     (R_PPC64_TPREL16_HIGHESTA, ''R_PPC64_TPREL16_HIGHESTA''),
     (R_PPC64_DTPREL16_DS, ''R_PPC64_DTPREL16_DS''),
     (R_PPC64_DTPREL16_LO_DS, ''R_PPC64_DTPREL16_LO_DS''),
     (R_PPC64_DTPREL16_HIGHER, ''R_PPC64_DTPREL16_HIGHER''),
     (R_PPC64_DTPREL16_HIGHERA, ''R_PPC64_DTPREL16_HIGHERA''),
     (R_PPC64_DTPREL16_HIGHEST, ''R_PPC64_DTPREL16_HIGHEST''),
     (R_PPC64_DTPREL16_HIGHESTA, ''R_PPC64_DTPREL16_HIGHESTA''),
     (R_PPC64_TLSGD, ''R_PPC64_TLSGD''),
     (R_PPC64_TLSLD, ''R_PPC64_TLSLD''),
     (R_PPC64_ADDR16_HIGH, ''R_PPC64_ADDR16_HIGH''),
     (R_PPC64_ADDR16_HIGHA, ''R_PPC64_ADDR16_HIGHA''),
     (R_PPC64_TPREL16_HIGH, ''R_PPC64_TPREL16_HIGH''),
     (R_PPC64_TPREL16_HIGHA, ''R_PPC64_TPREL16_HIGHA''),
     (R_PPC64_DTPREL16_HIGH, ''R_PPC64_DTPREL16_HIGH''),
     (R_PPC64_DTPREL16_HIGHA, ''R_PPC64_DTPREL16_HIGHA''),
     (R_PPC64_REL24_NOTOC, ''R_PPC64_REL24_NOTOC''),
     (R_PPC64_PLTSEQ, ''R_PPC64_PLTSEQ''),
     (R_PPC64_PLTCALL, ''R_PPC64_PLTCALL''),
     (R_PPC64_PLTSEQ_NOTOC, ''R_PPC64_PLTSEQ_NOTOC''),
     (R_PPC64_PLTCALL_NOTOC, ''R_PPC64_PLTCALL_NOTOC''),
     (R_PPC64_PCREL_OPT, ''R_PPC64_PCREL_OPT''),
     (R_PPC64_PCREL34, ''R_PPC64_PCREL34''),
     (R_PPC64_GOT_PCREL34, ''R_PPC64_GOT_PCREL34''),
     (R_PPC64_PLT_PCREL34, ''R_PPC64_PLT_PCREL34''),
     (R_PPC64_PLT_PCREL34_NOTOC, ''R_PPC64_PLT_PCREL34_NOTOC''),
     (R_PPC64_TPREL34, ''R_PPC64_TPREL34''),
     (R_PPC64_DTPREL34, ''R_PPC64_DTPREL34''),
     (R_PPC64_GOT_TLSGD_PCREL34, ''R_PPC64_GOT_TLSGD_PCREL34''),
     (R_PPC64_GOT_TLSLD_PCREL34, ''R_PPC64_GOT_TLSLD_PCREL34''),
     (R_PPC64_GOT_TPREL_PCREL34, ''R_PPC64_GOT_TPREL_PCREL34''),
     (R_PPC64_IRELATIVE, ''R_PPC64_IRELATIVE''),
     (R_PPC64_REL16, ''R_PPC64_REL16''),
     (R_PPC64_REL16_LO, ''R_PPC64_REL16_LO''),
     (R_PPC64_REL16_HI, ''R_PPC64_REL16_HI''),
     (R_PPC64_REL16_HA, ''R_PPC64_REL16_HA'')]"

definition rel_cases_SPARC64 :: "(u32 \<times> string) list" where
  "rel_cases_SPARC64 =
    [(R_SPARC_NONE, ''R_SPARC_NONE''),
     (R_SPARC_8, ''R_SPARC_8''),
     (R_SPARC_16, ''R_SPARC_16''),
     (R_SPARC_32, ''R_SPARC_32''),
     (R_SPARC_DISP8, ''R_SPARC_DISP8''),
     (R_SPARC_DISP16, ''R_SPARC_DISP16''),
     (R_SPARC_DISP32, ''R_SPARC_DISP32''),
     (R_SPARC_WDISP30, ''R_SPARC_WDISP30''),
     (R_SPARC_WDISP22, ''R_SPARC_WDISP22''),
     (R_SPARC_HI22, ''R_SPARC_HI22''),
     (R_SPARC_22, ''R_SPARC_22''),
     (R_SPARC_13, ''R_SPARC_13''),
     (R_SPARC_LO10, ''R_SPARC_LO10''),
     (R_SPARC_GOT10, ''R_SPARC_GOT10''),
     (R_SPARC_GOT13, ''R_SPARC_GOT13''),
     (R_SPARC_GOT22, ''R_SPARC_GOT22''),
     (R_SPARC_PC10, ''R_SPARC_PC10''),
     (R_SPARC_PC22, ''R_SPARC_PC22''),
     (R_SPARC_WPLT30, ''R_SPARC_WPLT30''),
     (R_SPARC_COPY, ''R_SPARC_COPY''),
     (R_SPARC_GLOB_DAT, ''R_SPARC_GLOB_DAT''),
     (R_SPARC_JMP_SLOT, ''R_SPARC_JMP_SLOT''),
     (R_SPARC_RELATIVE, ''R_SPARC_RELATIVE''),
     (R_SPARC_UA32, ''R_SPARC_UA32''),
     (R_SPARC_PLT32, ''R_SPARC_PLT32''),
     (R_SPARC_HIPLT22, ''R_SPARC_HIPLT22''),
     (R_SPARC_LOPLT10, ''R_SPARC_LOPLT10''),
     (R_SPARC_PCPLT32, ''R_SPARC_PCPLT32''),
     (R_SPARC_PCPLT22, ''R_SPARC_PCPLT22''),
     (R_SPARC_PCPLT10, ''R_SPARC_PCPLT10''),
     (R_SPARC_10, ''R_SPARC_10''),
     (R_SPARC_11, ''R_SPARC_11''),
     (R_SPARC_64, ''R_SPARC_64''),
     (R_SPARC_OLO10, ''R_SPARC_OLO10''),
     (R_SPARC_HH22, ''R_SPARC_HH22''),
     (R_SPARC_HM10, ''R_SPARC_HM10''),
     (R_SPARC_LM22, ''R_SPARC_LM22''),
     (R_SPARC_PC_HH22, ''R_SPARC_PC_HH22''),
     (R_SPARC_PC_HM10, ''R_SPARC_PC_HM10''),
     (R_SPARC_PC_LM22, ''R_SPARC_PC_LM22''),
     (R_SPARC_WDISP16, ''R_SPARC_WDISP16''),
     (R_SPARC_WDISP19, ''R_SPARC_WDISP19''),
     (R_SPARC_7, ''R_SPARC_7''),
     (R_SPARC_5, ''R_SPARC_5''),
     (R_SPARC_6, ''R_SPARC_6''),
     (R_SPARC_DISP64, ''R_SPARC_DISP64''),
     (R_SPARC_PLT64, ''R_SPARC_PLT64''),
     (R_SPARC_HIX22, ''R_SPARC_HIX22''),
     (R_SPARC_LOX10, ''R_SPARC_LOX10''),
     (R_SPARC_H44, ''R_SPARC_H44''),
     (R_SPARC_M44, ''R_SPARC_M44''),
     (R_SPARC_L44, ''R_SPARC_L44''),
     (R_SPARC_REGISTER, ''R_SPARC_REGISTER''),
     (R_SPARC_UA64, ''R_SPARC_UA64''),
     (R_SPARC_UA16, ''R_SPARC_UA16''),
     (R_SPARC_TLS_GD_HI22, ''R_SPARC_TLS_GD_HI22''),
     (R_SPARC_TLS_GD_LO10, ''R_SPARC_TLS_GD_LO10''),
     (R_SPARC_TLS_GD_ADD, ''R_SPARC_TLS_GD_ADD''),
     (R_SPARC_TLS_GD_CALL, ''R_SPARC_TLS_GD_CALL''),
     (R_SPARC_TLS_LDM_HI22, ''R_SPARC_TLS_LDM_HI22''),
     (R_SPARC_TLS_LDM_LO10, ''R_SPARC_TLS_LDM_LO10''),
     (R_SPARC_TLS_LDM_ADD, ''R_SPARC_TLS_LDM_ADD''),
     (R_SPARC_TLS_LDM_CALL, ''R_SPARC_TLS_LDM_CALL''),
     (R_SPARC_TLS_LDO_HIX22, ''R_SPARC_TLS_LDO_HIX22''),
     (R_SPARC_TLS_LDO_LOX10, ''R_SPARC_TLS_LDO_LOX10''),
     (R_SPARC_TLS_LDO_ADD, ''R_SPARC_TLS_LDO_ADD''),
     (R_SPARC_TLS_IE_HI22, ''R_SPARC_TLS_IE_HI22''),
     (R_SPARC_TLS_IE_LO10, ''R_SPARC_TLS_IE_LO10''),
     (R_SPARC_TLS_IE_LD, ''R_SPARC_TLS_IE_LD''),
     (R_SPARC_TLS_IE_LDX, ''R_SPARC_TLS_IE_LDX''),
     (R_SPARC_TLS_IE_ADD, ''R_SPARC_TLS_IE_ADD''),
     (R_SPARC_TLS_LE_HIX22, ''R_SPARC_TLS_LE_HIX22''),
     (R_SPARC_TLS_LE_LOX10, ''R_SPARC_TLS_LE_LOX10''),
     (R_SPARC_TLS_DTPMOD32, ''R_SPARC_TLS_DTPMOD32''),
     (R_SPARC_TLS_DTPMOD64, ''R_SPARC_TLS_DTPMOD64''),
     (R_SPARC_TLS_DTPOFF32, ''R_SPARC_TLS_DTPOFF32''),
     (R_SPARC_TLS_DTPOFF64, ''R_SPARC_TLS_DTPOFF64''),
     (R_SPARC_TLS_TPOFF32, ''R_SPARC_TLS_TPOFF32''),
     (R_SPARC_TLS_TPOFF64, ''R_SPARC_TLS_TPOFF64''),
     (R_SPARC_GOTDATA_HIX22, ''R_SPARC_GOTDATA_HIX22''),
     (R_SPARC_GOTDATA_LOX10, ''R_SPARC_GOTDATA_LOX10''),
     (R_SPARC_GOTDATA_OP_HIX22, ''R_SPARC_GOTDATA_OP_HIX22''),
     (R_SPARC_GOTDATA_OP_LOX10, ''R_SPARC_GOTDATA_OP_LOX10''),
     (R_SPARC_GOTDATA_OP, ''R_SPARC_GOTDATA_OP''),
     (R_SPARC_IRELATIVE, ''R_SPARC_IRELATIVE'')]"

definition rel_cases_S390X :: "(u32 \<times> string) list" where
  "rel_cases_S390X =
    [(R_390_NONE, ''R_390_NONE''),
     (R_390_8, ''R_390_8''),
     (R_390_12, ''R_390_12''),
     (R_390_16, ''R_390_16''),
     (R_390_32, ''R_390_32''),
     (R_390_PC32, ''R_390_PC32''),
     (R_390_GOT12, ''R_390_GOT12''),
     (R_390_GOT32, ''R_390_GOT32''),
     (R_390_PLT32, ''R_390_PLT32''),
     (R_390_COPY, ''R_390_COPY''),
     (R_390_GLOB_DAT, ''R_390_GLOB_DAT''),
     (R_390_JMP_SLOT, ''R_390_JMP_SLOT''),
     (R_390_RELATIVE, ''R_390_RELATIVE''),
     (R_390_GOTOFF32, ''R_390_GOTOFF32''),
     (R_390_GOTPC, ''R_390_GOTPC''),
     (R_390_GOT16, ''R_390_GOT16''),
     (R_390_PC16, ''R_390_PC16''),
     (R_390_PC16DBL, ''R_390_PC16DBL''),
     (R_390_PLT16DBL, ''R_390_PLT16DBL''),
     (R_390_PC32DBL, ''R_390_PC32DBL''),
     (R_390_PLT32DBL, ''R_390_PLT32DBL''),
     (R_390_GOTPCDBL, ''R_390_GOTPCDBL''),
     (R_390_64, ''R_390_64''),
     (R_390_PC64, ''R_390_PC64''),
     (R_390_GOT64, ''R_390_GOT64''),
     (R_390_PLT64, ''R_390_PLT64''),
     (R_390_GOTENT, ''R_390_GOTENT''),
     (R_390_GOTOFF16, ''R_390_GOTOFF16''),
     (R_390_GOTOFF64, ''R_390_GOTOFF64''),
     (R_390_GOTPLT12, ''R_390_GOTPLT12''),
     (R_390_GOTPLT16, ''R_390_GOTPLT16''),
     (R_390_GOTPLT32, ''R_390_GOTPLT32''),
     (R_390_GOTPLT64, ''R_390_GOTPLT64''),
     (R_390_GOTPLTENT, ''R_390_GOTPLTENT''),
     (R_390_PLTOFF16, ''R_390_PLTOFF16''),
     (R_390_PLTOFF32, ''R_390_PLTOFF32''),
     (R_390_PLTOFF64, ''R_390_PLTOFF64''),
     (R_390_TLS_LOAD, ''R_390_TLS_LOAD''),
     (R_390_TLS_GDCALL, ''R_390_TLS_GDCALL''),
     (R_390_TLS_LDCALL, ''R_390_TLS_LDCALL''),
     (R_390_TLS_GD32, ''R_390_TLS_GD32''),
     (R_390_TLS_GD64, ''R_390_TLS_GD64''),
     (R_390_TLS_GOTIE12, ''R_390_TLS_GOTIE12''),
     (R_390_TLS_GOTIE32, ''R_390_TLS_GOTIE32''),
     (R_390_TLS_GOTIE64, ''R_390_TLS_GOTIE64''),
     (R_390_TLS_LDM32, ''R_390_TLS_LDM32''),
     (R_390_TLS_LDM64, ''R_390_TLS_LDM64''),
     (R_390_TLS_IE32, ''R_390_TLS_IE32''),
     (R_390_TLS_IE64, ''R_390_TLS_IE64''),
     (R_390_TLS_IEENT, ''R_390_TLS_IEENT''),
     (R_390_TLS_LE32, ''R_390_TLS_LE32''),
     (R_390_TLS_LE64, ''R_390_TLS_LE64''),
     (R_390_TLS_LDO32, ''R_390_TLS_LDO32''),
     (R_390_TLS_LDO64, ''R_390_TLS_LDO64''),
     (R_390_TLS_DTPMOD, ''R_390_TLS_DTPMOD''),
     (R_390_TLS_DTPOFF, ''R_390_TLS_DTPOFF''),
     (R_390_TLS_TPOFF, ''R_390_TLS_TPOFF''),
     (R_390_20, ''R_390_20''),
     (R_390_GOT20, ''R_390_GOT20''),
     (R_390_GOTPLT20, ''R_390_GOTPLT20''),
     (R_390_TLS_GOTIE20, ''R_390_TLS_GOTIE20''),
     (R_390_IRELATIVE, ''R_390_IRELATIVE''),
     (R_390_PC12DBL, ''R_390_PC12DBL''),
     (R_390_PLT12DBL, ''R_390_PLT12DBL''),
     (R_390_PC24DBL, ''R_390_PC24DBL''),
     (R_390_PLT24DBL, ''R_390_PLT24DBL'')]"

definition rel_cases_M68K :: "(u32 \<times> string) list" where
  "rel_cases_M68K =
    [(R_68K_NONE, ''R_68K_NONE''),
     (R_68K_32, ''R_68K_32''),
     (R_68K_16, ''R_68K_16''),
     (R_68K_8, ''R_68K_8''),
     (R_68K_PC32, ''R_68K_PC32''),
     (R_68K_PC16, ''R_68K_PC16''),
     (R_68K_PC8, ''R_68K_PC8''),
     (R_68K_GOTPCREL32, ''R_68K_GOTPCREL32''),
     (R_68K_GOTPCREL16, ''R_68K_GOTPCREL16''),
     (R_68K_GOTPCREL8, ''R_68K_GOTPCREL8''),
     (R_68K_GOTOFF32, ''R_68K_GOTOFF32''),
     (R_68K_GOTOFF16, ''R_68K_GOTOFF16''),
     (R_68K_GOTOFF8, ''R_68K_GOTOFF8''),
     (R_68K_PLT32, ''R_68K_PLT32''),
     (R_68K_PLT16, ''R_68K_PLT16''),
     (R_68K_PLT8, ''R_68K_PLT8''),
     (R_68K_PLTOFF32, ''R_68K_PLTOFF32''),
     (R_68K_PLTOFF16, ''R_68K_PLTOFF16''),
     (R_68K_PLTOFF8, ''R_68K_PLTOFF8''),
     (R_68K_COPY, ''R_68K_COPY''),
     (R_68K_GLOB_DAT, ''R_68K_GLOB_DAT''),
     (R_68K_JMP_SLOT, ''R_68K_JMP_SLOT''),
     (R_68K_RELATIVE, ''R_68K_RELATIVE''),
     (R_68K_TLS_GD32, ''R_68K_TLS_GD32''),
     (R_68K_TLS_GD16, ''R_68K_TLS_GD16''),
     (R_68K_TLS_GD8, ''R_68K_TLS_GD8''),
     (R_68K_TLS_LDM32, ''R_68K_TLS_LDM32''),
     (R_68K_TLS_LDM16, ''R_68K_TLS_LDM16''),
     (R_68K_TLS_LDM8, ''R_68K_TLS_LDM8''),
     (R_68K_TLS_LDO32, ''R_68K_TLS_LDO32''),
     (R_68K_TLS_LDO16, ''R_68K_TLS_LDO16''),
     (R_68K_TLS_LDO8, ''R_68K_TLS_LDO8''),
     (R_68K_TLS_IE32, ''R_68K_TLS_IE32''),
     (R_68K_TLS_IE16, ''R_68K_TLS_IE16''),
     (R_68K_TLS_IE8, ''R_68K_TLS_IE8''),
     (R_68K_TLS_LE32, ''R_68K_TLS_LE32''),
     (R_68K_TLS_LE16, ''R_68K_TLS_LE16''),
     (R_68K_TLS_LE8, ''R_68K_TLS_LE8''),
     (R_68K_TLS_DTPMOD32, ''R_68K_TLS_DTPMOD32''),
     (R_68K_TLS_DTPREL32, ''R_68K_TLS_DTPREL32''),
     (R_68K_TLS_TPREL32, ''R_68K_TLS_TPREL32'')]"

definition rel_cases_SH4 :: "(u32 \<times> string) list" where
  "rel_cases_SH4 =
    [(R_SH_NONE, ''R_SH_NONE''),
     (R_SH_DIR32, ''R_SH_DIR32''),
     (R_SH_REL32, ''R_SH_REL32''),
     (R_SH_DIR8WPN, ''R_SH_DIR8WPN''),
     (R_SH_IND12W, ''R_SH_IND12W''),
     (R_SH_DIR8WPL, ''R_SH_DIR8WPL''),
     (R_SH_DIR8WPZ, ''R_SH_DIR8WPZ''),
     (R_SH_DIR8BP, ''R_SH_DIR8BP''),
     (R_SH_DIR8W, ''R_SH_DIR8W''),
     (R_SH_DIR8L, ''R_SH_DIR8L''),
     (R_SH_TLS_GD_32, ''R_SH_TLS_GD_32''),
     (R_SH_TLS_LD_32, ''R_SH_TLS_LD_32''),
     (R_SH_TLS_LDO_32, ''R_SH_TLS_LDO_32''),
     (R_SH_TLS_IE_32, ''R_SH_TLS_IE_32''),
     (R_SH_TLS_LE_32, ''R_SH_TLS_LE_32''),
     (R_SH_TLS_DTPMOD32, ''R_SH_TLS_DTPMOD32''),
     (R_SH_TLS_DTPOFF32, ''R_SH_TLS_DTPOFF32''),
     (R_SH_TLS_TPOFF32, ''R_SH_TLS_TPOFF32''),
     (R_SH_GOT32, ''R_SH_GOT32''),
     (R_SH_PLT32, ''R_SH_PLT32''),
     (R_SH_COPY, ''R_SH_COPY''),
     (R_SH_GLOB_DAT, ''R_SH_GLOB_DAT''),
     (R_SH_JMP_SLOT, ''R_SH_JMP_SLOT''),
     (R_SH_RELATIVE, ''R_SH_RELATIVE''),
     (R_SH_GOTOFF, ''R_SH_GOTOFF''),
     (R_SH_GOTPC, ''R_SH_GOTPC''),
     (R_SH_GOTPLT32, ''R_SH_GOTPLT32'')]"

definition rel_cases_ALPHA :: "(u32 \<times> string) list" where
  "rel_cases_ALPHA =
    [(R_ALPHA_NONE, ''R_ALPHA_NONE''),
     (R_ALPHA_REFLONG, ''R_ALPHA_REFLONG''),
     (R_ALPHA_REFQUAD, ''R_ALPHA_REFQUAD''),
     (R_ALPHA_GPREL32, ''R_ALPHA_GPREL32''),
     (R_ALPHA_LITERAL, ''R_ALPHA_LITERAL''),
     (R_ALPHA_LITUSE, ''R_ALPHA_LITUSE''),
     (R_ALPHA_GPDISP, ''R_ALPHA_GPDISP''),
     (R_ALPHA_BRADDR, ''R_ALPHA_BRADDR''),
     (R_ALPHA_HINT, ''R_ALPHA_HINT''),
     (R_ALPHA_SREL16, ''R_ALPHA_SREL16''),
     (R_ALPHA_SREL32, ''R_ALPHA_SREL32''),
     (R_ALPHA_SREL64, ''R_ALPHA_SREL64''),
     (R_ALPHA_GPRELHIGH, ''R_ALPHA_GPRELHIGH''),
     (R_ALPHA_GPRELLOW, ''R_ALPHA_GPRELLOW''),
     (R_ALPHA_GPREL16, ''R_ALPHA_GPREL16''),
     (R_ALPHA_COPY, ''R_ALPHA_COPY''),
     (R_ALPHA_GLOB_DAT, ''R_ALPHA_GLOB_DAT''),
     (R_ALPHA_JMP_SLOT, ''R_ALPHA_JMP_SLOT''),
     (R_ALPHA_RELATIVE, ''R_ALPHA_RELATIVE''),
     (R_ALPHA_BRSGP, ''R_ALPHA_BRSGP''),
     (R_ALPHA_TLSGD, ''R_ALPHA_TLSGD''),
     (R_ALPHA_TLSLDM, ''R_ALPHA_TLSLDM''),
     (R_ALPHA_DTPMOD64, ''R_ALPHA_DTPMOD64''),
     (R_ALPHA_GOTDTPREL, ''R_ALPHA_GOTDTPREL''),
     (R_ALPHA_DTPREL64, ''R_ALPHA_DTPREL64''),
     (R_ALPHA_DTPRELHI, ''R_ALPHA_DTPRELHI''),
     (R_ALPHA_DTPRELLO, ''R_ALPHA_DTPRELLO''),
     (R_ALPHA_DTPREL16, ''R_ALPHA_DTPREL16''),
     (R_ALPHA_GOTTPREL, ''R_ALPHA_GOTTPREL''),
     (R_ALPHA_TPREL64, ''R_ALPHA_TPREL64''),
     (R_ALPHA_TPRELHI, ''R_ALPHA_TPRELHI''),
     (R_ALPHA_TPRELLO, ''R_ALPHA_TPRELLO''),
     (R_ALPHA_TPREL16, ''R_ALPHA_TPREL16'')]"

fun rel_cases :: "machine \<Rightarrow> (u32 \<times> string) list" where
  "rel_cases X86_64 = rel_cases_X86_64"
| "rel_cases I386 = rel_cases_I386"
| "rel_cases ARM64 = rel_cases_ARM64"
| "rel_cases ARM32 = rel_cases_ARM32"
| "rel_cases RV64LE = rel_cases_RV64LE"
| "rel_cases RV64BE = rel_cases_RV64LE"
| "rel_cases RV32LE = rel_cases_RV64LE"
| "rel_cases RV32BE = rel_cases_RV64LE"
| "rel_cases PPC32 = rel_cases_PPC32"
| "rel_cases PPC64V1 = rel_cases_PPC64V1"
| "rel_cases PPC64V2 = rel_cases_PPC64V1"
| "rel_cases S390X = rel_cases_S390X"
| "rel_cases SPARC64 = rel_cases_SPARC64"
| "rel_cases M68K = rel_cases_M68K"
| "rel_cases SH4 = rel_cases_SH4"
| "rel_cases ALPHA = rel_cases_ALPHA"

definition rel_to_string :: "machine \<Rightarrow> u32 \<Rightarrow> bytes" where
  "rel_to_string m r_type =
     (case map_of (rel_cases m) r_type of
        Some name \<Rightarrow> str name
      | None \<Rightarrow> str ''unknown ('' @ to_string (unat r_type) @ str '')'')"

text \<open>The enumeration of a machine's relocation types.\<close>

fun reloc_enum :: "machine \<Rightarrow> (string \<times> u32) list" where
  "reloc_enum X86_64 = R_X86_64_enum"
| "reloc_enum I386 = R_386_enum"
| "reloc_enum ARM64 = R_AARCH64_enum"
| "reloc_enum ARM32 = R_ARM_enum"
| "reloc_enum RV64LE = R_RISCV_enum"
| "reloc_enum RV64BE = R_RISCV_enum"
| "reloc_enum RV32LE = R_RISCV_enum"
| "reloc_enum RV32BE = R_RISCV_enum"
| "reloc_enum PPC32 = R_PPC_enum"
| "reloc_enum PPC64V1 = R_PPC64_enum"
| "reloc_enum PPC64V2 = R_PPC64_enum"
| "reloc_enum S390X = R_390_enum"
| "reloc_enum SPARC64 = R_SPARC_enum"
| "reloc_enum M68K = R_68K_enum"
| "reloc_enum SH4 = R_SH_enum"
| "reloc_enum ALPHA = R_ALPHA_enum"

text \<open>
  The enumerations are in ascending order, so their values are distinct; \<open>increasing\<close> checks
  it in one pass.
\<close>

fun increasing :: "('a \<times> u32) list \<Rightarrow> bool" where
  "increasing (p # q # ps) \<longleftrightarrow> snd p < snd q \<and> increasing (q # ps)"
| "increasing _ = True"

lemma increasing_head: "increasing (p # ps) \<Longrightarrow> q \<in> set ps \<Longrightarrow> snd p < snd q"
  by (induction ps arbitrary: p) force+

lemma increasing_tail: "increasing (p # ps) \<Longrightarrow> increasing ps"
  by (cases ps) simp_all

lemma map_of_increasing:
  "increasing en \<Longrightarrow> (n, v) \<in> set en \<Longrightarrow>
     map_of (map (\<lambda>(a, b). (b, a)) (filter keep en)) v = (if keep (n, v) then Some n else None)"
proof (induction en)
  case (Cons p ps)
  note inc = increasing_tail [OF Cons.prems(1)]
  show ?case
  proof (cases "(n, v) \<in> set ps")
    case True
    with increasing_head [OF Cons.prems(1) True] Cons.IH [OF inc True] show ?thesis
      by (auto split: prod.splits)
  next
    case False
    with Cons.prems(2) have p: "p = (n, v)" by simp
    have "v \<notin> snd ` set ps" using increasing_head [OF Cons.prems(1)] p by force
    then have "map_of (map (\<lambda>(a, b). (b, a)) (filter keep ps)) v = None"
      by (force simp: map_of_eq_None_iff)
    with p show ?thesis by simp
  qed
qed simp

lemma increasing_X86_64: "increasing R_X86_64_enum"
  by (simp add: R_X86_64_enum_def R_X86_64_defs)

lemma rel_cases_X86_64_eq: "rel_cases_X86_64 = map (\<lambda>(a, b). (b, a)) (filter (\<lambda>_. True) R_X86_64_enum)"
  by (simp add: R_X86_64_enum_def rel_cases_X86_64_def)

lemma increasing_I386: "increasing R_386_enum"
  by (simp add: R_386_enum_def R_386_defs)

lemma rel_cases_I386_eq: "rel_cases_I386 = map (\<lambda>(a, b). (b, a)) (filter (\<lambda>_. True) R_386_enum)"
  by (simp add: R_386_enum_def rel_cases_I386_def)

lemma increasing_ARM64: "increasing R_AARCH64_enum"
  by (simp add: R_AARCH64_enum_def R_AARCH64_defs)

lemma rel_cases_ARM64_eq: "rel_cases_ARM64 = map (\<lambda>(a, b). (b, a)) (filter (\<lambda>_. True) R_AARCH64_enum)"
  by (simp add: R_AARCH64_enum_def rel_cases_ARM64_def)

lemma increasing_ARM32: "increasing R_ARM_enum"
  by (simp add: R_ARM_enum_def R_ARM_defs)

lemma rel_cases_ARM32_eq: "rel_cases_ARM32 = map (\<lambda>(a, b). (b, a)) (filter (\<lambda>_. True) R_ARM_enum)"
  by (simp add: R_ARM_enum_def rel_cases_ARM32_def)

lemma increasing_RV64LE: "increasing R_RISCV_enum"
  by (simp add: R_RISCV_enum_def R_RISCV_defs)

lemma rel_cases_RV64LE_eq: "rel_cases_RV64LE = map (\<lambda>(a, b). (b, a)) (filter (\<lambda>_. True) R_RISCV_enum)"
  by (simp add: R_RISCV_enum_def rel_cases_RV64LE_def)

lemma increasing_PPC32: "increasing R_PPC_enum"
  by (simp add: R_PPC_enum_def R_PPC_defs)

lemma rel_cases_PPC32_eq: "rel_cases_PPC32 = map (\<lambda>(a, b). (b, a)) (filter (\<lambda>_. True) R_PPC_enum)"
  by (simp add: R_PPC_enum_def rel_cases_PPC32_def)

lemma increasing_PPC64V1: "increasing R_PPC64_enum"
  by (simp add: R_PPC64_enum_def R_PPC64_defs)

lemma rel_cases_PPC64V1_eq: "rel_cases_PPC64V1 = map (\<lambda>(a, b). (b, a)) (filter (\<lambda>_. True) R_PPC64_enum)"
  by (simp add: R_PPC64_enum_def rel_cases_PPC64V1_def)

lemma increasing_SPARC64: "increasing R_SPARC_enum"
  by (simp add: R_SPARC_enum_def R_SPARC_defs)

lemma rel_cases_SPARC64_eq:
  "rel_cases_SPARC64 = map (\<lambda>(a, b). (b, a))
     (filter (\<lambda>(n, _). n \<notin> {''R_SPARC_SIZE32'', ''R_SPARC_JMP_IREL''}) R_SPARC_enum)"
  by (simp add: R_SPARC_enum_def rel_cases_SPARC64_def)

lemma increasing_S390X: "increasing R_390_enum"
  by (simp add: R_390_enum_def R_390_defs)

lemma rel_cases_S390X_eq: "rel_cases_S390X = map (\<lambda>(a, b). (b, a)) (filter (\<lambda>_. True) R_390_enum)"
  by (simp add: R_390_enum_def rel_cases_S390X_def)

lemma increasing_M68K: "increasing R_68K_enum"
  by (simp add: R_68K_enum_def R_68K_defs)

lemma rel_cases_M68K_eq: "rel_cases_M68K = map (\<lambda>(a, b). (b, a)) (filter (\<lambda>_. True) R_68K_enum)"
  by (simp add: R_68K_enum_def rel_cases_M68K_def)

lemma increasing_SH4: "increasing R_SH_enum"
  by (simp add: R_SH_enum_def R_SH_defs)

lemma rel_cases_SH4_eq: "rel_cases_SH4 = map (\<lambda>(a, b). (b, a)) (filter (\<lambda>_. True) R_SH_enum)"
  by (simp add: R_SH_enum_def rel_cases_SH4_def)

lemma increasing_ALPHA: "increasing R_ALPHA_enum"
  by (simp add: R_ALPHA_enum_def R_ALPHA_defs)

lemma rel_cases_ALPHA_eq: "rel_cases_ALPHA = map (\<lambda>(a, b). (b, a)) (filter (\<lambda>_. True) R_ALPHA_enum)"
  by (simp add: R_ALPHA_enum_def rel_cases_ALPHA_def)

lemmas increasing_relocs =
  increasing_X86_64 increasing_I386 increasing_ARM64 increasing_ARM32 increasing_RV64LE
  increasing_PPC32 increasing_PPC64V1 increasing_SPARC64 increasing_S390X increasing_M68K
  increasing_SH4 increasing_ALPHA

lemmas rel_cases_eqs =
  rel_cases_X86_64_eq rel_cases_I386_eq rel_cases_ARM64_eq rel_cases_ARM32_eq
  rel_cases_RV64LE_eq rel_cases_PPC32_eq rel_cases_PPC64V1_eq rel_cases_SPARC64_eq
  rel_cases_S390X_eq rel_cases_M68K_eq rel_cases_SH4_eq rel_cases_ALPHA_eq

definition unprinted :: "machine \<Rightarrow> string set" where
  "unprinted m = (if m = SPARC64 then {''R_SPARC_SIZE32'', ''R_SPARC_JMP_IREL''} else {})"

lemma rel_cases_enum:
  "increasing (reloc_enum m) \<and>
   rel_cases m = map (\<lambda>(a, b). (b, a)) (filter (\<lambda>(n, _). n \<notin> unprinted m) (reloc_enum m))"
  by (cases m) (simp_all add: increasing_relocs rel_cases_eqs unprinted_def)

text \<open>
  \<open>rel_to_string\<close> prints every relocation type that the header declares for a machine under
  its own name, on all sixteen machines, except for the two SPARC types \<open>R_SPARC_SIZE32\<close> and
  \<open>R_SPARC_JMP_IREL\<close>, which it prints as unknown.
\<close>

theorem rel_to_string_enum:
  assumes "(n, v) \<in> set (reloc_enum m)"
  shows "rel_to_string m v =
    (if m = SPARC64 \<and> n \<in> {''R_SPARC_SIZE32'', ''R_SPARC_JMP_IREL''}
     then str ''unknown ('' @ to_string (unat v) @ str '')'' else str n)"
  using map_of_increasing [of "reloc_enum m" n v "\<lambda>(n, _). n \<notin> unprinted m"] rel_cases_enum [of m] assms
  by (auto simp: rel_to_string_def unprinted_def)

theorem rel_to_string_enum_witness:
  "rel_to_string SPARC64 R_SPARC_SIZE32 = str ''unknown ('' @ to_string 86 @ str '')''"
proof -
  have "(''R_SPARC_SIZE32'', R_SPARC_SIZE32) \<in> set (reloc_enum SPARC64)" by (simp add: R_SPARC_enum_def)
  from rel_to_string_enum [OF this] show ?thesis by (simp add: R_SPARC_SIZE32_def)
qed

subsection \<open>stt_to_string\<close>

definition stt_to_string :: "machine \<Rightarrow> u32 \<Rightarrow> bytes" where
  "stt_to_string m st_type =
     (if st_type = STT_NOTYPE then str ''STT_NOTYPE''
      else if st_type = STT_OBJECT then str ''STT_OBJECT''
      else if st_type = STT_FUNC then str ''STT_FUNC''
      else if st_type = STT_SECTION then str ''STT_SECTION''
      else if st_type = STT_FILE then str ''STT_FILE''
      else if st_type = STT_COMMON then str ''STT_COMMON''
      else if st_type = STT_TLS then str ''STT_TLS''
      else if st_type = STT_GNU_IFUNC then str ''STT_GNU_IFUNC''
      else if m = SPARC64 \<and> st_type = STT_SPARC_REGISTER then str ''STT_SPARC_REGISTER''
      else str ''unknown st_type ('' @ to_string (unat st_type) @ str '')'')"

end
