(* ===== verification/Elf_Types.thy ===== *)
theory Elf_Types
  imports Codec Bits BitFields Elf_Relocs
begin

text \<open>
  The machine descriptions and the on-disk structures of \<^verbatim>\<open>src/elf/elf.h\<close>. A structure is a record
  whose integer members have the widest type they have on any machine; its codec for a machine
  \<open>m\<close> lays the members out in the order, widths and byte order of the source, and is an
  instance of the locale \<open>codec\<close>. The predicates \<open>_ok\<close> say that the values fit the members.
\<close>

subsection \<open>Machine descriptions\<close>

text \<open>A member that some machines do not declare is optional.\<close>

record machine_desc =
  target_name :: bytes
  is_64 :: bool
  is_le :: bool
  is_rela :: bool
  page_size :: u32
  e_machine :: u32
  plt_hdr_size :: u32
  plt_size :: "u32 option"
  pltgot_size :: u32
  thunk_hdr_size :: "u32 option"
  thunk_size :: "u32 option"
  R_COPY :: u32
  R_GLOB_DAT :: u32
  R_JUMP_SLOT :: u32
  R_ABS :: u32
  R_RELATIVE :: u32
  R_IRELATIVE :: "u32 option"
  R_DTPOFF :: u32
  R_TPOFF :: u32
  R_DTPMOD :: u32
  R_TLSDESC :: "u32 option"

definition desc_X86_64 :: machine_desc where
  "desc_X86_64 = \<lparr>
     target_name = str ''x86_64'', is_64 = True, is_le = True, is_rela = True, page_size = 4096,
     e_machine = EM_X86_64, plt_hdr_size = 32, plt_size = Some 16, pltgot_size = 16,
     thunk_hdr_size = None, thunk_size = None, R_COPY = R_X86_64_COPY,
     R_GLOB_DAT = R_X86_64_GLOB_DAT, R_JUMP_SLOT = R_X86_64_JUMP_SLOT, R_ABS = R_X86_64_64,
     R_RELATIVE = R_X86_64_RELATIVE, R_IRELATIVE = Some R_X86_64_IRELATIVE,
     R_DTPOFF = R_X86_64_DTPOFF64, R_TPOFF = R_X86_64_TPOFF64, R_DTPMOD = R_X86_64_DTPMOD64,
     R_TLSDESC = Some R_X86_64_TLSDESC \<rparr>"

definition desc_I386 :: machine_desc where
  "desc_I386 = \<lparr>
     target_name = str ''i386'', is_64 = False, is_le = True, is_rela = False, page_size = 4096,
     e_machine = EM_386, plt_hdr_size = 16, plt_size = Some 16, pltgot_size = 16,
     thunk_hdr_size = None, thunk_size = None, R_COPY = R_386_COPY, R_GLOB_DAT = R_386_GLOB_DAT,
     R_JUMP_SLOT = R_386_JUMP_SLOT, R_ABS = R_386_32, R_RELATIVE = R_386_RELATIVE,
     R_IRELATIVE = Some R_386_IRELATIVE, R_DTPOFF = R_386_TLS_DTPOFF32, R_TPOFF = R_386_TLS_TPOFF,
     R_DTPMOD = R_386_TLS_DTPMOD32, R_TLSDESC = Some R_386_TLS_DESC \<rparr>"

definition desc_ARM64 :: machine_desc where
  "desc_ARM64 = \<lparr>
     target_name = str ''arm64'', is_64 = True, is_le = True, is_rela = True, page_size = 65536,
     e_machine = EM_AARCH64, plt_hdr_size = 32, plt_size = Some 16, pltgot_size = 16,
     thunk_hdr_size = Some 0, thunk_size = Some 12, R_COPY = R_AARCH64_COPY,
     R_GLOB_DAT = R_AARCH64_GLOB_DAT, R_JUMP_SLOT = R_AARCH64_JUMP_SLOT, R_ABS = R_AARCH64_ABS64,
     R_RELATIVE = R_AARCH64_RELATIVE, R_IRELATIVE = Some R_AARCH64_IRELATIVE,
     R_DTPOFF = R_AARCH64_TLS_DTPREL64, R_TPOFF = R_AARCH64_TLS_TPREL64,
     R_DTPMOD = R_AARCH64_TLS_DTPMOD64, R_TLSDESC = Some R_AARCH64_TLSDESC \<rparr>"

definition desc_ARM32 :: machine_desc where
  "desc_ARM32 = \<lparr>
     target_name = str ''arm32'', is_64 = False, is_le = True, is_rela = False, page_size = 4096,
     e_machine = EM_ARM, plt_hdr_size = 32, plt_size = Some 16, pltgot_size = 16,
     thunk_hdr_size = Some 12, thunk_size = Some 20, R_COPY = R_ARM_COPY,
     R_GLOB_DAT = R_ARM_GLOB_DAT, R_JUMP_SLOT = R_ARM_JUMP_SLOT, R_ABS = R_ARM_ABS32,
     R_RELATIVE = R_ARM_RELATIVE, R_IRELATIVE = Some R_ARM_IRELATIVE,
     R_DTPOFF = R_ARM_TLS_DTPOFF32, R_TPOFF = R_ARM_TLS_TPOFF32, R_DTPMOD = R_ARM_TLS_DTPMOD32,
     R_TLSDESC = Some R_ARM_TLS_DESC \<rparr>"

definition desc_RV64LE :: machine_desc where
  "desc_RV64LE = \<lparr>
     target_name = str ''riscv64'', is_64 = True, is_le = True, is_rela = True, page_size = 4096,
     e_machine = EM_RISCV, plt_hdr_size = 32, plt_size = Some 16, pltgot_size = 16,
     thunk_hdr_size = None, thunk_size = None, R_COPY = R_RISCV_COPY, R_GLOB_DAT = R_RISCV_64,
     R_JUMP_SLOT = R_RISCV_JUMP_SLOT, R_ABS = R_RISCV_64, R_RELATIVE = R_RISCV_RELATIVE,
     R_IRELATIVE = Some R_RISCV_IRELATIVE, R_DTPOFF = R_RISCV_TLS_DTPREL64,
     R_TPOFF = R_RISCV_TLS_TPREL64, R_DTPMOD = R_RISCV_TLS_DTPMOD64, R_TLSDESC = None \<rparr>"

definition desc_RV64BE :: machine_desc where
  "desc_RV64BE = \<lparr>
     target_name = str ''riscv64be'', is_64 = True, is_le = False, is_rela = True,
     page_size = 4096, e_machine = EM_RISCV, plt_hdr_size = 32, plt_size = Some 16,
     pltgot_size = 16, thunk_hdr_size = None, thunk_size = None, R_COPY = R_RISCV_COPY,
     R_GLOB_DAT = R_RISCV_64, R_JUMP_SLOT = R_RISCV_JUMP_SLOT, R_ABS = R_RISCV_64,
     R_RELATIVE = R_RISCV_RELATIVE, R_IRELATIVE = Some R_RISCV_IRELATIVE,
     R_DTPOFF = R_RISCV_TLS_DTPREL64, R_TPOFF = R_RISCV_TLS_TPREL64,
     R_DTPMOD = R_RISCV_TLS_DTPMOD64, R_TLSDESC = None \<rparr>"

definition desc_RV32LE :: machine_desc where
  "desc_RV32LE = \<lparr>
     target_name = str ''riscv32'', is_64 = False, is_le = True, is_rela = True, page_size = 4096,
     e_machine = EM_RISCV, plt_hdr_size = 32, plt_size = Some 16, pltgot_size = 16,
     thunk_hdr_size = None, thunk_size = None, R_COPY = R_RISCV_COPY, R_GLOB_DAT = R_RISCV_32,
     R_JUMP_SLOT = R_RISCV_JUMP_SLOT, R_ABS = R_RISCV_32, R_RELATIVE = R_RISCV_RELATIVE,
     R_IRELATIVE = Some R_RISCV_IRELATIVE, R_DTPOFF = R_RISCV_TLS_DTPREL32,
     R_TPOFF = R_RISCV_TLS_TPREL32, R_DTPMOD = R_RISCV_TLS_DTPMOD32, R_TLSDESC = None \<rparr>"

definition desc_RV32BE :: machine_desc where
  "desc_RV32BE = \<lparr>
     target_name = str ''riscv32be'', is_64 = False, is_le = False, is_rela = True,
     page_size = 4096, e_machine = EM_RISCV, plt_hdr_size = 32, plt_size = Some 16,
     pltgot_size = 16, thunk_hdr_size = None, thunk_size = None, R_COPY = R_RISCV_COPY,
     R_GLOB_DAT = R_RISCV_32, R_JUMP_SLOT = R_RISCV_JUMP_SLOT, R_ABS = R_RISCV_32,
     R_RELATIVE = R_RISCV_RELATIVE, R_IRELATIVE = Some R_RISCV_IRELATIVE,
     R_DTPOFF = R_RISCV_TLS_DTPREL32, R_TPOFF = R_RISCV_TLS_TPREL32,
     R_DTPMOD = R_RISCV_TLS_DTPMOD32, R_TLSDESC = None \<rparr>"

definition desc_PPC32 :: machine_desc where
  "desc_PPC32 = \<lparr>
     target_name = str ''ppc32'', is_64 = False, is_le = False, is_rela = True, page_size = 65536,
     e_machine = EM_PPC, plt_hdr_size = 64, plt_size = Some 36, pltgot_size = 36,
     thunk_hdr_size = Some 0, thunk_size = Some 36, R_COPY = R_PPC_COPY,
     R_GLOB_DAT = R_PPC_GLOB_DAT, R_JUMP_SLOT = R_PPC_JMP_SLOT, R_ABS = R_PPC_ADDR32,
     R_RELATIVE = R_PPC_RELATIVE, R_IRELATIVE = Some R_PPC_IRELATIVE, R_DTPOFF = R_PPC_DTPREL32,
     R_TPOFF = R_PPC_TPREL32, R_DTPMOD = R_PPC_DTPMOD32, R_TLSDESC = None \<rparr>"

definition desc_PPC64V1 :: machine_desc where
  "desc_PPC64V1 = \<lparr>
     target_name = str ''ppc64v1'', is_64 = True, is_le = False, is_rela = True,
     page_size = 65536, e_machine = EM_PPC64, plt_hdr_size = 52, plt_size = None, pltgot_size = 0,
     thunk_hdr_size = Some 0, thunk_size = Some 28, R_COPY = R_PPC64_COPY,
     R_GLOB_DAT = R_PPC64_GLOB_DAT, R_JUMP_SLOT = R_PPC64_JMP_SLOT, R_ABS = R_PPC64_ADDR64,
     R_RELATIVE = R_PPC64_RELATIVE, R_IRELATIVE = Some R_PPC64_IRELATIVE,
     R_DTPOFF = R_PPC64_DTPREL64, R_TPOFF = R_PPC64_TPREL64, R_DTPMOD = R_PPC64_DTPMOD64,
     R_TLSDESC = None \<rparr>"

definition desc_PPC64V2 :: machine_desc where
  "desc_PPC64V2 = \<lparr>
     target_name = str ''ppc64v2'', is_64 = True, is_le = True, is_rela = True, page_size = 65536,
     e_machine = EM_PPC64, plt_hdr_size = 60, plt_size = Some 4, pltgot_size = 0,
     thunk_hdr_size = Some 0, thunk_size = Some 20, R_COPY = R_PPC64_COPY,
     R_GLOB_DAT = R_PPC64_GLOB_DAT, R_JUMP_SLOT = R_PPC64_JMP_SLOT, R_ABS = R_PPC64_ADDR64,
     R_RELATIVE = R_PPC64_RELATIVE, R_IRELATIVE = Some R_PPC64_IRELATIVE,
     R_DTPOFF = R_PPC64_DTPREL64, R_TPOFF = R_PPC64_TPREL64, R_DTPMOD = R_PPC64_DTPMOD64,
     R_TLSDESC = None \<rparr>"

definition desc_S390X :: machine_desc where
  "desc_S390X = \<lparr>
     target_name = str ''s390x'', is_64 = True, is_le = False, is_rela = True, page_size = 4096,
     e_machine = EM_S390X, plt_hdr_size = 32, plt_size = Some 32, pltgot_size = 16,
     thunk_hdr_size = None, thunk_size = None, R_COPY = R_390_COPY, R_GLOB_DAT = R_390_GLOB_DAT,
     R_JUMP_SLOT = R_390_JMP_SLOT, R_ABS = R_390_64, R_RELATIVE = R_390_RELATIVE,
     R_IRELATIVE = Some R_390_IRELATIVE, R_DTPOFF = R_390_TLS_DTPOFF, R_TPOFF = R_390_TLS_TPOFF,
     R_DTPMOD = R_390_TLS_DTPMOD, R_TLSDESC = None \<rparr>"

definition desc_SPARC64 :: machine_desc where
  "desc_SPARC64 = \<lparr>
     target_name = str ''sparc64'', is_64 = True, is_le = False, is_rela = True, page_size = 8192,
     e_machine = EM_SPARC64, plt_hdr_size = 128, plt_size = Some 32, pltgot_size = 32,
     thunk_hdr_size = None, thunk_size = None, R_COPY = R_SPARC_COPY,
     R_GLOB_DAT = R_SPARC_GLOB_DAT, R_JUMP_SLOT = R_SPARC_JMP_SLOT, R_ABS = R_SPARC_64,
     R_RELATIVE = R_SPARC_RELATIVE, R_IRELATIVE = Some R_SPARC_IRELATIVE,
     R_DTPOFF = R_SPARC_TLS_DTPOFF64, R_TPOFF = R_SPARC_TLS_TPOFF64,
     R_DTPMOD = R_SPARC_TLS_DTPMOD64, R_TLSDESC = None \<rparr>"

definition desc_M68K :: machine_desc where
  "desc_M68K = \<lparr>
     target_name = str ''m68k'', is_64 = False, is_le = False, is_rela = True, page_size = 8192,
     e_machine = EM_68K, plt_hdr_size = 18, plt_size = Some 14, pltgot_size = 8,
     thunk_hdr_size = None, thunk_size = None, R_COPY = R_68K_COPY, R_GLOB_DAT = R_68K_GLOB_DAT,
     R_JUMP_SLOT = R_68K_JMP_SLOT, R_ABS = R_68K_32, R_RELATIVE = R_68K_RELATIVE,
     R_IRELATIVE = None, R_DTPOFF = R_68K_TLS_DTPREL32, R_TPOFF = R_68K_TLS_TPREL32,
     R_DTPMOD = R_68K_TLS_DTPMOD32, R_TLSDESC = None \<rparr>"

definition desc_SH4 :: machine_desc where
  "desc_SH4 = \<lparr>
     target_name = str ''sh4'', is_64 = False, is_le = True, is_rela = True, page_size = 4096,
     e_machine = EM_SH, plt_hdr_size = 16, plt_size = Some 16, pltgot_size = 12,
     thunk_hdr_size = None, thunk_size = None, R_COPY = R_SH_COPY, R_GLOB_DAT = R_SH_GLOB_DAT,
     R_JUMP_SLOT = R_SH_JMP_SLOT, R_ABS = R_SH_DIR32, R_RELATIVE = R_SH_RELATIVE,
     R_IRELATIVE = None, R_DTPOFF = R_SH_TLS_DTPOFF32, R_TPOFF = R_SH_TLS_TPOFF32,
     R_DTPMOD = R_SH_TLS_DTPMOD32, R_TLSDESC = None \<rparr>"

definition desc_ALPHA :: machine_desc where
  "desc_ALPHA = \<lparr>
     target_name = str ''alpha'', is_64 = True, is_le = True, is_rela = True, page_size = 65536,
     e_machine = EM_ALPHA, plt_hdr_size = 0, plt_size = Some 0, pltgot_size = 0,
     thunk_hdr_size = None, thunk_size = None, R_COPY = R_ALPHA_COPY,
     R_GLOB_DAT = R_ALPHA_GLOB_DAT, R_JUMP_SLOT = R_ALPHA_JMP_SLOT, R_ABS = R_ALPHA_REFQUAD,
     R_RELATIVE = R_ALPHA_RELATIVE, R_IRELATIVE = None, R_DTPOFF = R_ALPHA_DTPREL64,
     R_TPOFF = R_ALPHA_TPREL64, R_DTPMOD = R_ALPHA_DTPMOD64, R_TLSDESC = None \<rparr>"

fun desc :: "machine \<Rightarrow> machine_desc" where
  "desc X86_64 = desc_X86_64"
| "desc I386 = desc_I386"
| "desc ARM64 = desc_ARM64"
| "desc ARM32 = desc_ARM32"
| "desc RV64LE = desc_RV64LE"
| "desc RV64BE = desc_RV64BE"
| "desc RV32LE = desc_RV32LE"
| "desc RV32BE = desc_RV32BE"
| "desc PPC32 = desc_PPC32"
| "desc PPC64V1 = desc_PPC64V1"
| "desc PPC64V2 = desc_PPC64V2"
| "desc S390X = desc_S390X"
| "desc SPARC64 = desc_SPARC64"
| "desc M68K = desc_M68K"
| "desc SH4 = desc_SH4"
| "desc ALPHA = desc_ALPHA"

definition supports_ifunc :: "machine \<Rightarrow> bool" where
  "supports_ifunc m \<longleftrightarrow> R_IRELATIVE (desc m) \<noteq> None"

definition supports_tlsdesc :: "machine \<Rightarrow> bool" where
  "supports_tlsdesc m \<longleftrightarrow> R_TLSDESC (desc m) \<noteq> None"

definition needs_thunk :: "machine \<Rightarrow> bool" where
  "needs_thunk m \<longleftrightarrow> thunk_size (desc m) \<noteq> None"

lemmas desc_defs =
  desc_X86_64_def desc_I386_def desc_ARM64_def desc_ARM32_def desc_RV64LE_def
  desc_RV64BE_def desc_RV32LE_def desc_RV32BE_def desc_PPC32_def desc_PPC64V1_def
  desc_PPC64V2_def desc_S390X_def desc_SPARC64_def desc_M68K_def desc_SH4_def desc_ALPHA_def

abbreviation m64 :: "machine \<Rightarrow> bool" where "m64 m \<equiv> is_64 (desc m)"
abbreviation mle :: "machine \<Rightarrow> bool" where "mle m \<equiv> is_le (desc m)"

subsection \<open>Integers of a machine\<close>

definition U16_enc :: "machine \<Rightarrow> u16 \<Rightarrow> bytes" where
  "U16_enc m = (if mle m then ul16_enc else ub16_enc)"
definition U16_dec :: "machine \<Rightarrow> bytes \<Rightarrow> (u16 \<times> bytes) option" where
  "U16_dec m = (if mle m then ul16_dec else ub16_dec)"
definition U24_enc :: "machine \<Rightarrow> u32 \<Rightarrow> bytes" where
  "U24_enc m = (if mle m then ul24_enc else ub24_enc)"
definition U24_dec :: "machine \<Rightarrow> bytes \<Rightarrow> (u32 \<times> bytes) option" where
  "U24_dec m = (if mle m then ul24_dec else ub24_dec)"
definition U32_enc :: "machine \<Rightarrow> u32 \<Rightarrow> bytes" where
  "U32_enc m = (if mle m then ul32_enc else ub32_enc)"
definition U32_dec :: "machine \<Rightarrow> bytes \<Rightarrow> (u32 \<times> bytes) option" where
  "U32_dec m = (if mle m then ul32_dec else ub32_dec)"
definition U64_enc :: "machine \<Rightarrow> u64 \<Rightarrow> bytes" where
  "U64_enc m = (if mle m then ul64_enc else ub64_enc)"
definition U64_dec :: "machine \<Rightarrow> bytes \<Rightarrow> (u64 \<times> bytes) option" where
  "U64_dec m = (if mle m then ul64_dec else ub64_dec)"

text \<open>
  \<^verbatim>\<open>Word<E>\<close> and \<^verbatim>\<open>IWord<E>\<close>: 32 bits of a 64-bit value on a 32-bit machine, extended with
  zeros or with the sign when it is read.
\<close>

definition Word_enc :: "machine \<Rightarrow> u64 \<Rightarrow> bytes" where
  "Word_enc m = (if m64 m then U64_enc m else iso_enc ucast (U32_enc m))"
definition Word_dec :: "machine \<Rightarrow> bytes \<Rightarrow> (u64 \<times> bytes) option" where
  "Word_dec m = (if m64 m then U64_dec m else iso_dec ucast (U32_dec m))"
definition IWord_enc :: "machine \<Rightarrow> u64 \<Rightarrow> bytes" where
  "IWord_enc m = (if m64 m then U64_enc m else iso_enc ucast (U32_enc m))"
definition IWord_dec :: "machine \<Rightarrow> bytes \<Rightarrow> (u64 \<times> bytes) option" where
  "IWord_dec m = (if m64 m then U64_dec m else iso_dec scast (U32_dec m))"

definition word_bytes :: "machine \<Rightarrow> nat" where
  "word_bytes m = (if m64 m then 8 else 4)"

definition Word_ok :: "machine \<Rightarrow> u64 \<Rightarrow> bool" where
  "Word_ok m w \<longleftrightarrow> (m64 m \<or> unat w < 2 ^ 32)"

definition IWord_ok :: "machine \<Rightarrow> u64 \<Rightarrow> bool" where
  "IWord_ok m w \<longleftrightarrow> (m64 m \<or> (- (2 ^ 31) \<le> sint w \<and> sint w < 2 ^ 31))"

lemma int_codecs_m [codec_intros]:
  "codec (\<lambda>_. True) (U16_enc m) (U16_dec m) 2"
  "codec (fits 3) (U24_enc m) (U24_dec m) 3"
  "codec (\<lambda>_. True) (U32_enc m) (U32_dec m) 4"
  "codec (\<lambda>_. True) (U64_enc m) (U64_dec m) 8"
  by (simp_all add: U16_enc_def U16_dec_def U24_enc_def U24_dec_def U32_enc_def U32_dec_def
      U64_enc_def U64_dec_def int_codecs)

lemma ucast_scast_u32 [simp]: "(ucast (scast (v :: u32) :: u64) :: u32) = v"
  by (rule bit_word_eqI) (simp add: bit_simps)

lemma Word_ok_iff: "Word_ok m w \<longleftrightarrow> (m64 m \<or> (ucast (ucast w :: u32) :: u64) = w)"
  unfolding Word_ok_def u32_in_u64 ..

lemma IWord_ok_iff: "IWord_ok m w \<longleftrightarrow> (m64 m \<or> (scast (ucast w :: u32) :: u64) = w)"
proof -
  have "sint w = signed_take_bit 63 (uint w)" using sint_uint [of w] by simp
  then have "signed_take_bit 31 (uint w) = signed_take_bit 31 (sint w)"
    by (simp add: signed_take_bit_signed_take_bit)
  moreover have "sint (ucast w :: u32) = signed_take_bit 31 (uint w)"
    by (simp add: signed_ucast_eq)
  moreover have "sint (scast v :: u64) = sint v" for v :: u32
    by (rule sint_up_scast) (simp add: is_up)
  ultimately have "sint (scast (ucast w :: u32) :: u64) = signed_take_bit 31 (sint w)" by metis
  then have "(scast (ucast w :: u32) :: u64) = w \<longleftrightarrow> signed_take_bit 31 (sint w) = sint w"
    by (metis word_eq_iff_signed)
  then show ?thesis by (simp add: IWord_ok_def signed_take_bit_int_eq_self_iff)
qed

lemma codec_Word [codec_intros]: "codec (Word_ok m) (Word_enc m) (Word_dec m) (word_bytes m)"
proof (cases "m64 m")
  case True
  then have "Word_ok m = (\<lambda>_. True)" by (auto simp: Word_ok_def)
  with True show ?thesis by (simp add: Word_enc_def Word_dec_def word_bytes_def int_codecs_m)
next
  case False
  have "codec (Word_ok m) (iso_enc ucast (U32_enc m)) (iso_dec ucast (U32_dec m)) 4"
    by (rule codec_iso [OF int_codecs_m(3)])
      (use False in \<open>auto simp: Word_ok_iff\<close>)
  with False show ?thesis by (simp add: Word_enc_def Word_dec_def word_bytes_def)
qed

lemma codec_IWord [codec_intros]: "codec (IWord_ok m) (IWord_enc m) (IWord_dec m) (word_bytes m)"
proof (cases "m64 m")
  case True
  then have "IWord_ok m = (\<lambda>_. True)" by (auto simp: IWord_ok_def)
  with True show ?thesis by (simp add: IWord_enc_def IWord_dec_def word_bytes_def int_codecs_m)
next
  case False
  have "codec (IWord_ok m) (iso_enc ucast (U32_enc m)) (iso_dec scast (U32_dec m)) 4"
    by (rule codec_iso [OF int_codecs_m(3)])
      (use False in \<open>auto simp: IWord_ok_iff\<close>)
  with False show ?thesis by (simp add: IWord_enc_def IWord_dec_def word_bytes_def)
qed

subsection \<open>Headers\<close>

record ElfShdr =
  sh_name :: u32
  sh_type :: u32
  sh_flags :: u64
  sh_addr :: u64
  sh_offset :: u64
  sh_size :: u64
  sh_link :: u32
  sh_info :: u32
  sh_addralign :: u64
  sh_entsize :: u64

definition ElfShdr_enc :: "machine \<Rightarrow> ElfShdr \<Rightarrow> bytes" where
  "ElfShdr_enc m = iso_enc
     (\<lambda>s. (sh_name s, sh_type s, sh_flags s, sh_addr s, sh_offset s, sh_size s, sh_link s,
            sh_info s, sh_addralign s, sh_entsize s))
     (pair_enc (U32_enc m) (pair_enc (U32_enc m) (pair_enc (Word_enc m)
      (pair_enc (Word_enc m) (pair_enc (Word_enc m) (pair_enc (Word_enc m)
      (pair_enc (U32_enc m) (pair_enc (U32_enc m) (pair_enc (Word_enc m)
      (Word_enc m))))))))))"

definition ElfShdr_dec :: "machine \<Rightarrow> bytes \<Rightarrow> (ElfShdr \<times> bytes) option" where
  "ElfShdr_dec m = iso_dec
     (\<lambda>(x0, x1, x2, x3, x4, x5, x6, x7, x8, x9).
       \<lparr> sh_name = x0, sh_type = x1, sh_flags = x2, sh_addr = x3, sh_offset = x4, sh_size = x5,
         sh_link = x6, sh_info = x7, sh_addralign = x8, sh_entsize = x9 \<rparr>)
     (pair_dec (U32_dec m) (pair_dec (U32_dec m) (pair_dec (Word_dec m)
      (pair_dec (Word_dec m) (pair_dec (Word_dec m) (pair_dec (Word_dec m)
      (pair_dec (U32_dec m) (pair_dec (U32_dec m) (pair_dec (Word_dec m)
      (Word_dec m))))))))))"

definition ElfShdr_ok :: "machine \<Rightarrow> ElfShdr \<Rightarrow> bool" where
  "ElfShdr_ok m s \<longleftrightarrow>
     Word_ok m (sh_flags s) \<and> Word_ok m (sh_addr s) \<and> Word_ok m (sh_offset s) \<and>
     Word_ok m (sh_size s) \<and> Word_ok m (sh_addralign s) \<and> Word_ok m (sh_entsize s)"

interpretation elf_shdr: codec "ElfShdr_ok m" "ElfShdr_enc m" "ElfShdr_dec m" "16 + 6 * word_bytes m" for m
  unfolding ElfShdr_enc_def ElfShdr_dec_def
  by (rule codec_struct, (rule codec_intros)+) (auto simp: pair_ok_def ElfShdr_ok_def)

record ElfEhdr =
  e_ident :: bytes
  e_type :: u16
  e_machine :: u16
  e_version :: u32
  e_entry :: u64
  e_phoff :: u64
  e_shoff :: u64
  e_flags :: u32
  e_ehsize :: u16
  e_phentsize :: u16
  e_phnum :: u16
  e_shentsize :: u16
  e_shnum :: u16
  e_shstrndx :: u16

definition ElfEhdr_enc :: "machine \<Rightarrow> ElfEhdr \<Rightarrow> bytes" where
  "ElfEhdr_enc m = iso_enc
     (\<lambda>s. (e_ident s, e_type s, e_machine s, e_version s, e_entry s, e_phoff s, e_shoff s,
            e_flags s, e_ehsize s, e_phentsize s, e_phnum s, e_shentsize s, e_shnum s,
            e_shstrndx s))
     (pair_enc (enc_list u8_enc) (pair_enc (U16_enc m) (pair_enc (U16_enc m)
      (pair_enc (U32_enc m) (pair_enc (Word_enc m) (pair_enc (Word_enc m)
      (pair_enc (Word_enc m) (pair_enc (U32_enc m) (pair_enc (U16_enc m)
      (pair_enc (U16_enc m) (pair_enc (U16_enc m) (pair_enc (U16_enc m)
      (pair_enc (U16_enc m) (U16_enc m))))))))))))))"

definition ElfEhdr_dec :: "machine \<Rightarrow> bytes \<Rightarrow> (ElfEhdr \<times> bytes) option" where
  "ElfEhdr_dec m = iso_dec
     (\<lambda>(x0, x1, x2, x3, x4, x5, x6, x7, x8, x9, x10, x11, x12, x13).
       \<lparr> e_ident = x0, e_type = x1, e_machine = x2, e_version = x3, e_entry = x4, e_phoff = x5,
         e_shoff = x6, e_flags = x7, e_ehsize = x8, e_phentsize = x9, e_phnum = x10,
         e_shentsize = x11, e_shnum = x12, e_shstrndx = x13 \<rparr>)
     (pair_dec (dec_list u8_dec 16) (pair_dec (U16_dec m) (pair_dec (U16_dec m)
      (pair_dec (U32_dec m) (pair_dec (Word_dec m) (pair_dec (Word_dec m)
      (pair_dec (Word_dec m) (pair_dec (U32_dec m) (pair_dec (U16_dec m)
      (pair_dec (U16_dec m) (pair_dec (U16_dec m) (pair_dec (U16_dec m)
      (pair_dec (U16_dec m) (U16_dec m))))))))))))))"

definition ElfEhdr_ok :: "machine \<Rightarrow> ElfEhdr \<Rightarrow> bool" where
  "ElfEhdr_ok m s \<longleftrightarrow>
     length (e_ident s) = 16 \<and> Word_ok m (e_entry s) \<and> Word_ok m (e_phoff s) \<and>
     Word_ok m (e_shoff s)"

interpretation elf_ehdr: codec "ElfEhdr_ok m" "ElfEhdr_enc m" "ElfEhdr_dec m" "40 + 3 * word_bytes m" for m
  unfolding ElfEhdr_enc_def ElfEhdr_dec_def
  by (rule codec_struct, (rule codec_intros)+) (auto simp: pair_ok_def ElfEhdr_ok_def)

record ElfDyn =
  d_tag :: u64
  d_val :: u64

definition ElfDyn_enc :: "machine \<Rightarrow> ElfDyn \<Rightarrow> bytes" where
  "ElfDyn_enc m = iso_enc
     (\<lambda>s. (d_tag s, d_val s))
     (pair_enc (Word_enc m) (Word_enc m))"

definition ElfDyn_dec :: "machine \<Rightarrow> bytes \<Rightarrow> (ElfDyn \<times> bytes) option" where
  "ElfDyn_dec m = iso_dec
     (\<lambda>(x0, x1).
       \<lparr> d_tag = x0, d_val = x1 \<rparr>)
     (pair_dec (Word_dec m) (Word_dec m))"

definition ElfDyn_ok :: "machine \<Rightarrow> ElfDyn \<Rightarrow> bool" where
  "ElfDyn_ok m s \<longleftrightarrow>
     Word_ok m (d_tag s) \<and> Word_ok m (d_val s)"

interpretation elf_dyn: codec "ElfDyn_ok m" "ElfDyn_enc m" "ElfDyn_dec m" "0 + 2 * word_bytes m" for m
  unfolding ElfDyn_enc_def ElfDyn_dec_def
  by (rule codec_struct, (rule codec_intros)+) (auto simp: pair_ok_def ElfDyn_ok_def)

record ElfVerneed =
  vn_version :: u16
  vn_cnt :: u16
  vn_file :: u32
  vn_aux :: u32
  vn_next :: u32

definition ElfVerneed_enc :: "machine \<Rightarrow> ElfVerneed \<Rightarrow> bytes" where
  "ElfVerneed_enc m = iso_enc
     (\<lambda>s. (vn_version s, vn_cnt s, vn_file s, vn_aux s, vn_next s))
     (pair_enc (U16_enc m) (pair_enc (U16_enc m) (pair_enc (U32_enc m)
      (pair_enc (U32_enc m) (U32_enc m)))))"

definition ElfVerneed_dec :: "machine \<Rightarrow> bytes \<Rightarrow> (ElfVerneed \<times> bytes) option" where
  "ElfVerneed_dec m = iso_dec
     (\<lambda>(x0, x1, x2, x3, x4).
       \<lparr> vn_version = x0, vn_cnt = x1, vn_file = x2, vn_aux = x3, vn_next = x4 \<rparr>)
     (pair_dec (U16_dec m) (pair_dec (U16_dec m) (pair_dec (U32_dec m)
      (pair_dec (U32_dec m) (U32_dec m)))))"

interpretation elf_verneed: codec "\<lambda>_. True" "ElfVerneed_enc m" "ElfVerneed_dec m" "16" for m
  unfolding ElfVerneed_enc_def ElfVerneed_dec_def
  by (rule codec_struct, (rule codec_intros)+) (auto simp: pair_ok_def)

record ElfVernaux =
  vna_hash :: u32
  vna_flags :: u16
  vna_other :: u16
  vna_name :: u32
  vna_next :: u32

definition ElfVernaux_enc :: "machine \<Rightarrow> ElfVernaux \<Rightarrow> bytes" where
  "ElfVernaux_enc m = iso_enc
     (\<lambda>s. (vna_hash s, vna_flags s, vna_other s, vna_name s, vna_next s))
     (pair_enc (U32_enc m) (pair_enc (U16_enc m) (pair_enc (U16_enc m)
      (pair_enc (U32_enc m) (U32_enc m)))))"

definition ElfVernaux_dec :: "machine \<Rightarrow> bytes \<Rightarrow> (ElfVernaux \<times> bytes) option" where
  "ElfVernaux_dec m = iso_dec
     (\<lambda>(x0, x1, x2, x3, x4).
       \<lparr> vna_hash = x0, vna_flags = x1, vna_other = x2, vna_name = x3, vna_next = x4 \<rparr>)
     (pair_dec (U32_dec m) (pair_dec (U16_dec m) (pair_dec (U16_dec m)
      (pair_dec (U32_dec m) (U32_dec m)))))"

interpretation elf_vernaux: codec "\<lambda>_. True" "ElfVernaux_enc m" "ElfVernaux_dec m" "16" for m
  unfolding ElfVernaux_enc_def ElfVernaux_dec_def
  by (rule codec_struct, (rule codec_intros)+) (auto simp: pair_ok_def)

record ElfVerdef =
  vd_version :: u16
  vd_flags :: u16
  vd_ndx :: u16
  vd_cnt :: u16
  vd_hash :: u32
  vd_aux :: u32
  vd_next :: u32

definition ElfVerdef_enc :: "machine \<Rightarrow> ElfVerdef \<Rightarrow> bytes" where
  "ElfVerdef_enc m = iso_enc
     (\<lambda>s. (vd_version s, vd_flags s, vd_ndx s, vd_cnt s, vd_hash s, vd_aux s, vd_next s))
     (pair_enc (U16_enc m) (pair_enc (U16_enc m) (pair_enc (U16_enc m)
      (pair_enc (U16_enc m) (pair_enc (U32_enc m) (pair_enc (U32_enc m) (U32_enc m)))))))"

definition ElfVerdef_dec :: "machine \<Rightarrow> bytes \<Rightarrow> (ElfVerdef \<times> bytes) option" where
  "ElfVerdef_dec m = iso_dec
     (\<lambda>(x0, x1, x2, x3, x4, x5, x6).
       \<lparr> vd_version = x0, vd_flags = x1, vd_ndx = x2, vd_cnt = x3, vd_hash = x4, vd_aux = x5,
         vd_next = x6 \<rparr>)
     (pair_dec (U16_dec m) (pair_dec (U16_dec m) (pair_dec (U16_dec m)
      (pair_dec (U16_dec m) (pair_dec (U32_dec m) (pair_dec (U32_dec m) (U32_dec m)))))))"

interpretation elf_verdef: codec "\<lambda>_. True" "ElfVerdef_enc m" "ElfVerdef_dec m" "20" for m
  unfolding ElfVerdef_enc_def ElfVerdef_dec_def
  by (rule codec_struct, (rule codec_intros)+) (auto simp: pair_ok_def)

record ElfVerdaux =
  vda_name :: u32
  vda_next :: u32

definition ElfVerdaux_enc :: "machine \<Rightarrow> ElfVerdaux \<Rightarrow> bytes" where
  "ElfVerdaux_enc m = iso_enc
     (\<lambda>s. (vda_name s, vda_next s))
     (pair_enc (U32_enc m) (U32_enc m))"

definition ElfVerdaux_dec :: "machine \<Rightarrow> bytes \<Rightarrow> (ElfVerdaux \<times> bytes) option" where
  "ElfVerdaux_dec m = iso_dec
     (\<lambda>(x0, x1).
       \<lparr> vda_name = x0, vda_next = x1 \<rparr>)
     (pair_dec (U32_dec m) (U32_dec m))"

interpretation elf_verdaux: codec "\<lambda>_. True" "ElfVerdaux_enc m" "ElfVerdaux_dec m" "8" for m
  unfolding ElfVerdaux_enc_def ElfVerdaux_dec_def
  by (rule codec_struct, (rule codec_intros)+) (auto simp: pair_ok_def)

record ElfNhdr =
  n_namesz :: u32
  n_descsz :: u32
  n_type :: u32

definition ElfNhdr_enc :: "machine \<Rightarrow> ElfNhdr \<Rightarrow> bytes" where
  "ElfNhdr_enc m = iso_enc
     (\<lambda>s. (n_namesz s, n_descsz s, n_type s))
     (pair_enc (U32_enc m) (pair_enc (U32_enc m) (U32_enc m)))"

definition ElfNhdr_dec :: "machine \<Rightarrow> bytes \<Rightarrow> (ElfNhdr \<times> bytes) option" where
  "ElfNhdr_dec m = iso_dec
     (\<lambda>(x0, x1, x2).
       \<lparr> n_namesz = x0, n_descsz = x1, n_type = x2 \<rparr>)
     (pair_dec (U32_dec m) (pair_dec (U32_dec m) (U32_dec m)))"

interpretation elf_nhdr: codec "\<lambda>_. True" "ElfNhdr_enc m" "ElfNhdr_dec m" "12" for m
  unfolding ElfNhdr_enc_def ElfNhdr_dec_def
  by (rule codec_struct, (rule codec_intros)+) (auto simp: pair_ok_def)

text \<open>The two layouts of a program header and of a compression header.\<close>

record ElfPhdr =
  p_type :: u32
  p_flags :: u32
  p_offset :: u64
  p_vaddr :: u64
  p_paddr :: u64
  p_filesz :: u64
  p_memsz :: u64
  p_align :: u64

definition ElfPhdr_enc :: "machine \<Rightarrow> ElfPhdr \<Rightarrow> bytes" where
  "ElfPhdr_enc m =
     (if m64 m
      then iso_enc
        (\<lambda>s. (p_type s, p_flags s, p_offset s, p_vaddr s, p_paddr s, p_filesz s, p_memsz s, p_align s))
        (pair_enc (U32_enc m) (pair_enc (U32_enc m) (pair_enc (Word_enc m) (pair_enc (Word_enc m)
         (pair_enc (Word_enc m) (pair_enc (Word_enc m) (pair_enc (Word_enc m) (Word_enc m))))))))
      else iso_enc
        (\<lambda>s. (p_type s, p_offset s, p_vaddr s, p_paddr s, p_filesz s, p_memsz s, p_flags s, p_align s))
        (pair_enc (U32_enc m) (pair_enc (Word_enc m) (pair_enc (Word_enc m) (pair_enc (Word_enc m)
         (pair_enc (Word_enc m) (pair_enc (Word_enc m) (pair_enc (U32_enc m) (Word_enc m)))))))))"

definition ElfPhdr_dec :: "machine \<Rightarrow> bytes \<Rightarrow> (ElfPhdr \<times> bytes) option" where
  "ElfPhdr_dec m =
     (if m64 m
      then iso_dec
        (\<lambda>(ty, fl, off, va, pa, fsz, msz, al).
          \<lparr> p_type = ty, p_flags = fl, p_offset = off, p_vaddr = va, p_paddr = pa, p_filesz = fsz,
            p_memsz = msz, p_align = al \<rparr>)
        (pair_dec (U32_dec m) (pair_dec (U32_dec m) (pair_dec (Word_dec m) (pair_dec (Word_dec m)
         (pair_dec (Word_dec m) (pair_dec (Word_dec m) (pair_dec (Word_dec m) (Word_dec m))))))))
      else iso_dec
        (\<lambda>(ty, off, va, pa, fsz, msz, fl, al).
          \<lparr> p_type = ty, p_flags = fl, p_offset = off, p_vaddr = va, p_paddr = pa, p_filesz = fsz,
            p_memsz = msz, p_align = al \<rparr>)
        (pair_dec (U32_dec m) (pair_dec (Word_dec m) (pair_dec (Word_dec m) (pair_dec (Word_dec m)
         (pair_dec (Word_dec m) (pair_dec (Word_dec m) (pair_dec (U32_dec m) (Word_dec m)))))))))"

definition ElfPhdr_ok :: "machine \<Rightarrow> ElfPhdr \<Rightarrow> bool" where
  "ElfPhdr_ok m s \<longleftrightarrow> Word_ok m (p_offset s) \<and> Word_ok m (p_vaddr s) \<and> Word_ok m (p_paddr s) \<and>
     Word_ok m (p_filesz s) \<and> Word_ok m (p_memsz s) \<and> Word_ok m (p_align s)"

interpretation elf_phdr: codec "ElfPhdr_ok m" "ElfPhdr_enc m" "ElfPhdr_dec m" "8 + 6 * word_bytes m" for m
proof (cases "m64 m")
  case True
  show "codec (ElfPhdr_ok m) (ElfPhdr_enc m) (ElfPhdr_dec m) (8 + 6 * word_bytes m)"
    unfolding ElfPhdr_enc_def ElfPhdr_dec_def if_P [OF True]
    by (rule codec_struct, (rule codec_intros)+) (auto simp: pair_ok_def ElfPhdr_ok_def)
next
  case False
  show "codec (ElfPhdr_ok m) (ElfPhdr_enc m) (ElfPhdr_dec m) (8 + 6 * word_bytes m)"
    unfolding ElfPhdr_enc_def ElfPhdr_dec_def if_not_P [OF False]
    by (rule codec_struct, (rule codec_intros)+) (auto simp: pair_ok_def ElfPhdr_ok_def)
qed

record ElfChdr =
  ch_type :: u32
  ch_reserved :: u32
  ch_size :: u64
  ch_addralign :: u64

definition ElfChdr_enc :: "machine \<Rightarrow> ElfChdr \<Rightarrow> bytes" where
  "ElfChdr_enc m =
     (if m64 m
      then iso_enc (\<lambda>s. (ch_type s, ch_reserved s, ch_size s, ch_addralign s))
        (pair_enc (U32_enc m) (pair_enc (U32_enc m) (pair_enc (Word_enc m) (Word_enc m))))
      else iso_enc (\<lambda>s. (ch_type s, ch_size s, ch_addralign s))
        (pair_enc (U32_enc m) (pair_enc (Word_enc m) (Word_enc m))))"

definition ElfChdr_dec :: "machine \<Rightarrow> bytes \<Rightarrow> (ElfChdr \<times> bytes) option" where
  "ElfChdr_dec m =
     (if m64 m
      then iso_dec
        (\<lambda>(ty, rs, sz, al). \<lparr> ch_type = ty, ch_reserved = rs, ch_size = sz, ch_addralign = al \<rparr>)
        (pair_dec (U32_dec m) (pair_dec (U32_dec m) (pair_dec (Word_dec m) (Word_dec m))))
      else iso_dec
        (\<lambda>(ty, sz, al). \<lparr> ch_type = ty, ch_reserved = 0, ch_size = sz, ch_addralign = al \<rparr>)
        (pair_dec (U32_dec m) (pair_dec (Word_dec m) (Word_dec m))))"

definition ElfChdr_ok :: "machine \<Rightarrow> ElfChdr \<Rightarrow> bool" where
  "ElfChdr_ok m s \<longleftrightarrow> Word_ok m (ch_size s) \<and> Word_ok m (ch_addralign s) \<and> (m64 m \<or> ch_reserved s = 0)"

interpretation elf_chdr:
  codec "ElfChdr_ok m" "ElfChdr_enc m" "ElfChdr_dec m" "if m64 m then 24 else 12" for m
proof (cases "m64 m")
  case True
  show "codec (ElfChdr_ok m) (ElfChdr_enc m) (ElfChdr_dec m) (if m64 m then 24 else 12)"
    unfolding ElfChdr_enc_def ElfChdr_dec_def if_P [OF True]
    by (rule codec_struct, (rule codec_intros)+)
      (auto simp: pair_ok_def ElfChdr_ok_def word_bytes_def True)
next
  case False
  show "codec (ElfChdr_ok m) (ElfChdr_enc m) (ElfChdr_dec m) (if m64 m then 24 else 12)"
    unfolding ElfChdr_enc_def ElfChdr_dec_def if_not_P [OF False]
    by (rule codec_struct, (rule codec_intros)+)
      (auto simp: pair_ok_def ElfChdr_ok_def word_bytes_def False)
qed

subsection \<open>Symbols\<close>

record ElfSym =
  st_name :: u32
  st_type :: u8
  st_bind :: u8
  st_visibility :: u8
  st_rsv :: u8
  ppc_local_entry :: u8
  st_shndx :: u16
  st_value :: u64
  st_size :: u64

text \<open>
  The last field of the second byte is six unnamed bits, \<^verbatim>\<open>alpha_st_other\<close> on Alpha, and three
  unnamed bits and \<^verbatim>\<open>ppc_local_entry\<close> on PPC64V2.
\<close>

definition rsv_bits :: "machine \<Rightarrow> nat" where
  "rsv_bits m = (if m = PPC64V2 then 3 else 6)"

definition ppc_bits :: "machine \<Rightarrow> nat" where
  "ppc_bits m = (if m = PPC64V2 then 3 else 0)"

definition sym_info :: "endian \<Rightarrow> ElfSym \<Rightarrow> u8" where
  "sym_info host s =
     (case host of
        LittleHost \<Rightarrow> write_fields host [(4, st_type s), (4, st_bind s)]
      | BigHost \<Rightarrow> write_fields host [(4, st_bind s), (4, st_type s)])"

definition sym_other :: "endian \<Rightarrow> machine \<Rightarrow> ElfSym \<Rightarrow> u8" where
  "sym_other host m s =
     (case host of
        LittleHost \<Rightarrow> write_fields host
          [(2, st_visibility s), (rsv_bits m, st_rsv s), (ppc_bits m, ppc_local_entry s)]
      | BigHost \<Rightarrow> write_fields host
          [(ppc_bits m, ppc_local_entry s), (rsv_bits m, st_rsv s), (2, st_visibility s)])"

definition sym_of_bytes :: "endian \<Rightarrow> machine \<Rightarrow> u32 \<Rightarrow> u8 \<Rightarrow> u8 \<Rightarrow> u16 \<Rightarrow> u64 \<Rightarrow> u64 \<Rightarrow> ElfSym" where
  "sym_of_bytes host m nm info other shndx value sz =
     (let i = (case host of
            LittleHost \<Rightarrow> read_fields host [4, 4] info
          | BigHost \<Rightarrow> rev (read_fields host [4, 4] info));
          v = (case host of
            LittleHost \<Rightarrow> read_fields host [2, rsv_bits m, ppc_bits m] other
          | BigHost \<Rightarrow> rev (read_fields host [ppc_bits m, rsv_bits m, 2] other))
      in \<lparr> st_name = nm, st_type = i ! 0, st_bind = i ! 1, st_visibility = v ! 0, st_rsv = v ! 1,
           ppc_local_entry = v ! 2, st_shndx = shndx, st_value = value, st_size = sz \<rparr>)"

definition ElfSym_enc :: "endian \<Rightarrow> machine \<Rightarrow> ElfSym \<Rightarrow> bytes" where
  "ElfSym_enc host m =
     (if m64 m
      then iso_enc
        (\<lambda>s. (st_name s, sym_info host s, sym_other host m s, st_shndx s, st_value s, st_size s))
        (pair_enc (U32_enc m) (pair_enc u8_enc (pair_enc u8_enc (pair_enc (U16_enc m)
         (pair_enc (Word_enc m) (Word_enc m))))))
      else iso_enc
        (\<lambda>s. (st_name s, st_value s, st_size s, sym_info host s, sym_other host m s, st_shndx s))
        (pair_enc (U32_enc m) (pair_enc (Word_enc m) (pair_enc (Word_enc m) (pair_enc u8_enc
         (pair_enc u8_enc (U16_enc m)))))))"

definition ElfSym_dec :: "endian \<Rightarrow> machine \<Rightarrow> bytes \<Rightarrow> (ElfSym \<times> bytes) option" where
  "ElfSym_dec host m =
     (if m64 m
      then iso_dec
        (\<lambda>(nm, info, other, shndx, value, sz). sym_of_bytes host m nm info other shndx value sz)
        (pair_dec (U32_dec m) (pair_dec u8_dec (pair_dec u8_dec (pair_dec (U16_dec m)
         (pair_dec (Word_dec m) (Word_dec m))))))
      else iso_dec
        (\<lambda>(nm, value, sz, info, other, shndx). sym_of_bytes host m nm info other shndx value sz)
        (pair_dec (U32_dec m) (pair_dec (Word_dec m) (pair_dec (Word_dec m) (pair_dec u8_dec
         (pair_dec u8_dec (U16_dec m)))))))"

definition ElfSym_ok :: "machine \<Rightarrow> ElfSym \<Rightarrow> bool" where
  "ElfSym_ok m s \<longleftrightarrow> take_bit 4 (st_type s) = st_type s \<and> take_bit 4 (st_bind s) = st_bind s \<and>
     take_bit 2 (st_visibility s) = st_visibility s \<and> take_bit (rsv_bits m) (st_rsv s) = st_rsv s \<and>
     take_bit (ppc_bits m) (ppc_local_entry s) = ppc_local_entry s \<and>
     Word_ok m (st_value s) \<and> Word_ok m (st_size s)"

lemma sym_info_host: "sym_info BigHost s = sym_info LittleHost s"
  and sym_other_host: "sym_other BigHost m s = sym_other LittleHost m s"
  by (simp_all add: sym_info_def sym_other_def write_fields_def)

lemma sym_of_bytes_host: "sym_of_bytes BigHost m = sym_of_bytes LittleHost m"
  by (intro ext) (simp add: sym_of_bytes_def read_fields_def)

lemma sym_bits: "2 + rsv_bits m + ppc_bits m = 8"
  by (simp add: rsv_bits_def ppc_bits_def)

lemma sym_of_sym:
  assumes "ElfSym_ok m s"
  shows "sym_of_bytes host m (st_name s) (sym_info host s) (sym_other host m s) (st_shndx s)
    (st_value s) (st_size s) = s"
proof -
  have i: "unpack_fields [4, 4] (sym_info LittleHost s) = [st_type s, st_bind s]"
    using unpack_pack [of "[(4, st_type s), (4, st_bind s)]"] assms
    by (simp add: sym_info_def write_fields_def ElfSym_ok_def del: unpack_fields.simps pack_fields.simps)
  have v: "unpack_fields [2, rsv_bits m, ppc_bits m] (sym_other LittleHost m s)
      = [st_visibility s, st_rsv s, ppc_local_entry s]"
    using unpack_pack [of "[(2, st_visibility s), (rsv_bits m, st_rsv s), (ppc_bits m, ppc_local_entry s)]"]
      assms sym_bits [of m]
    by (simp add: sym_other_def write_fields_def ElfSym_ok_def del: unpack_fields.simps pack_fields.simps)
  have "sym_of_bytes LittleHost m (st_name s) (sym_info LittleHost s) (sym_other LittleHost m s)
      (st_shndx s) (st_value s) (st_size s) = s"
    by (simp add: sym_of_bytes_def read_fields_def i v del: unpack_fields.simps)
  then show ?thesis by (cases host) (simp_all add: sym_info_host sym_other_host sym_of_bytes_host)
qed

lemma sym_of_bytes_sym:
  "sym_info host (sym_of_bytes host m nm info other shndx value sz) = info \<and>
   sym_other host m (sym_of_bytes host m nm info other shndx value sz) = other"
proof -
  have "take_bit (2 + rsv_bits m + ppc_bits m) other = other"
    by (simp only: sym_bits) (simp add: take_bit_word_eq_self)
  then have "sym_info LittleHost (sym_of_bytes LittleHost m nm info other shndx value sz) = info \<and>
      sym_other LittleHost m (sym_of_bytes LittleHost m nm info other shndx value sz) = other"
    using pack_unpack [of "[4, 4]" info] pack_unpack [of "[2, rsv_bits m, ppc_bits m]" other]
    by (simp add: sym_info_def sym_other_def write_fields_def sym_of_bytes_def read_fields_def
        add.assoc take_bit_word_eq_self)
  then show ?thesis by (cases host) (simp_all add: sym_info_host sym_other_host sym_of_bytes_host)
qed

lemma sym_of_bytes_ok:
  "Word_ok m value \<Longrightarrow> Word_ok m sz \<Longrightarrow> ElfSym_ok m (sym_of_bytes host m nm info other shndx value sz)"
  by (cases host) (simp_all add: ElfSym_ok_def sym_of_bytes_def read_fields_def)

lemma sym_of_bytes_sel [simp]:
  "st_name (sym_of_bytes host m nm info other shndx value sz) = nm"
  "st_shndx (sym_of_bytes host m nm info other shndx value sz) = shndx"
  "st_value (sym_of_bytes host m nm info other shndx value sz) = value"
  "st_size (sym_of_bytes host m nm info other shndx value sz) = sz"
  by (simp_all add: sym_of_bytes_def Let_def)

interpretation elf_sym:
  codec "ElfSym_ok m" "ElfSym_enc host m" "ElfSym_dec host m" "8 + 2 * word_bytes m" for host m
proof (cases "m64 m")
  case True
  show "codec (ElfSym_ok m) (ElfSym_enc host m) (ElfSym_dec host m) (8 + 2 * word_bytes m)"
    unfolding ElfSym_enc_def ElfSym_dec_def if_P [OF True]
    by (rule codec_struct, (rule codec_intros)+)
      (auto simp: pair_ok_def sym_of_sym sym_of_bytes_sym sym_of_bytes_ok, simp_all add: ElfSym_ok_def)
next
  case False
  show "codec (ElfSym_ok m) (ElfSym_enc host m) (ElfSym_dec host m) (8 + 2 * word_bytes m)"
    unfolding ElfSym_enc_def ElfSym_dec_def if_not_P [OF False]
    by (rule codec_struct, (rule codec_intros)+)
      (auto simp: pair_ok_def sym_of_sym sym_of_bytes_sym sym_of_bytes_ok, simp_all add: ElfSym_ok_def)
qed

definition sym_is_undef :: "ElfSym \<Rightarrow> bool" where
  "sym_is_undef s \<longleftrightarrow> ucast (st_shndx s) = SHN_UNDEF"
definition sym_is_abs :: "ElfSym \<Rightarrow> bool" where
  "sym_is_abs s \<longleftrightarrow> ucast (st_shndx s) = SHN_ABS"
definition sym_is_common :: "ElfSym \<Rightarrow> bool" where
  "sym_is_common s \<longleftrightarrow> ucast (st_shndx s) = SHN_COMMON"
definition sym_is_weak :: "ElfSym \<Rightarrow> bool" where
  "sym_is_weak s \<longleftrightarrow> ucast (st_bind s) = STB_WEAK"
definition sym_is_undef_weak :: "ElfSym \<Rightarrow> bool" where
  "sym_is_undef_weak s \<longleftrightarrow> sym_is_undef s \<and> sym_is_weak s"
definition preserves_r2 :: "ElfSym \<Rightarrow> bool" where
  "preserves_r2 s \<longleftrightarrow> ppc_local_entry s \<noteq> 1"
definition uses_toc :: "ElfSym \<Rightarrow> bool" where
  "uses_toc s \<longleftrightarrow> ppc_local_entry s > 1"

subsection \<open>Relocation records\<close>

record ElfRel =
  r_offset :: u64
  r_type :: u32
  r_sym :: u32
  r_addend :: u64
  r_type_data :: u32

text \<open>The constructor; a machine without addends drops its argument.\<close>

definition ElfRel_new :: "machine \<Rightarrow> u64 \<Rightarrow> u32 \<Rightarrow> u32 \<Rightarrow> u64 \<Rightarrow> ElfRel" where
  "ElfRel_new m offset type sy addend =
     \<lparr> r_offset = offset, r_type = type, r_sym = sy,
       r_addend = (if is_rela (desc m) then addend else 0), r_type_data = 0 \<rparr>"

definition rtype_enc :: "machine \<Rightarrow> u32 \<Rightarrow> bytes" where
  "rtype_enc m = (if m64 m then U32_enc m else iso_enc ucast u8_enc)"
definition rtype_dec :: "machine \<Rightarrow> bytes \<Rightarrow> (u32 \<times> bytes) option" where
  "rtype_dec m = (if m64 m then U32_dec m else iso_dec ucast u8_dec)"
definition rsym_enc :: "machine \<Rightarrow> u32 \<Rightarrow> bytes" where
  "rsym_enc m = (if m64 m then U32_enc m else U24_enc m)"
definition rsym_dec :: "machine \<Rightarrow> bytes \<Rightarrow> (u32 \<times> bytes) option" where
  "rsym_dec m = (if m64 m then U32_dec m else U24_dec m)"
definition addend_enc :: "machine \<Rightarrow> u64 \<Rightarrow> bytes" where
  "addend_enc m = (if is_rela (desc m) then IWord_enc m else (\<lambda>_. []))"
definition addend_dec :: "machine \<Rightarrow> bytes \<Rightarrow> (u64 \<times> bytes) option" where
  "addend_dec m = (if is_rela (desc m) then IWord_dec m else (\<lambda>bs. Some (0, bs)))"

definition ElfRel_enc :: "machine \<Rightarrow> ElfRel \<Rightarrow> bytes" where
  "ElfRel_enc m =
     (if m = SPARC64
      then iso_enc (\<lambda>r. (r_offset r, r_sym r, r_type_data r, ucast (r_type r), r_addend r))
        (pair_enc ub64_enc (pair_enc ub32_enc (pair_enc ub24_enc (pair_enc u8_enc ub64_enc))))
      else if mle m
      then iso_enc (\<lambda>r. (r_offset r, r_type r, r_sym r, r_addend r))
        (pair_enc (Word_enc m) (pair_enc (rtype_enc m) (pair_enc (rsym_enc m) (addend_enc m))))
      else iso_enc (\<lambda>r. (r_offset r, r_sym r, r_type r, r_addend r))
        (pair_enc (Word_enc m) (pair_enc (rsym_enc m) (pair_enc (rtype_enc m) (addend_enc m)))))"

definition ElfRel_dec :: "machine \<Rightarrow> bytes \<Rightarrow> (ElfRel \<times> bytes) option" where
  "ElfRel_dec m =
     (if m = SPARC64
      then iso_dec
        (\<lambda>(off, sy, td, ty, ad). \<lparr> r_offset = off, r_type = ucast ty, r_sym = sy, r_addend = ad,
           r_type_data = td \<rparr>)
        (pair_dec ub64_dec (pair_dec ub32_dec (pair_dec ub24_dec (pair_dec u8_dec ub64_dec))))
      else if mle m
      then iso_dec
        (\<lambda>(off, ty, sy, ad). \<lparr> r_offset = off, r_type = ty, r_sym = sy, r_addend = ad,
           r_type_data = 0 \<rparr>)
        (pair_dec (Word_dec m) (pair_dec (rtype_dec m) (pair_dec (rsym_dec m) (addend_dec m))))
      else iso_dec
        (\<lambda>(off, sy, ty, ad). \<lparr> r_offset = off, r_type = ty, r_sym = sy, r_addend = ad,
           r_type_data = 0 \<rparr>)
        (pair_dec (Word_dec m) (pair_dec (rsym_dec m) (pair_dec (rtype_dec m) (addend_dec m)))))"

definition rtype_ok :: "machine \<Rightarrow> u32 \<Rightarrow> bool" where
  "rtype_ok m t \<longleftrightarrow> ((m64 m \<and> m \<noteq> SPARC64) \<or> t < 256)"

definition rsym_ok :: "machine \<Rightarrow> u32 \<Rightarrow> bool" where
  "rsym_ok m s \<longleftrightarrow> (m64 m \<or> s < 2 ^ 24)"

definition addend_ok :: "machine \<Rightarrow> u64 \<Rightarrow> bool" where
  "addend_ok m a \<longleftrightarrow> (if is_rela (desc m) then IWord_ok m a else a = 0)"

definition ElfRel_ok :: "machine \<Rightarrow> ElfRel \<Rightarrow> bool" where
  "ElfRel_ok m r \<longleftrightarrow> Word_ok m (r_offset r) \<and> rtype_ok m (r_type r) \<and> rsym_ok m (r_sym r) \<and>
     addend_ok m (r_addend r) \<and> (if m = SPARC64 then r_type_data r < 2 ^ 24 else r_type_data r = 0)"

definition rel_size :: "machine \<Rightarrow> nat" where
  "rel_size m = (if m64 m then 16 else 8) + (if is_rela (desc m) then word_bytes m else 0)"

lemma lt_256: "(ucast (ucast t :: u8) :: u32) = t \<longleftrightarrow> t < 256"
proof -
  have "(ucast (ucast t :: u8) :: u32) = take_bit 8 t" by (rule bit_word_eqI) (auto simp: bit_simps)
  then show ?thesis using take_bit_self_unat [of 8 t] by (simp add: word_less_nat_alt)
qed

lemma lt_2_24: "fits 3 (s :: u32) \<longleftrightarrow> s < 2 ^ 24"
  using take_bit_self_unat [of 24 s] by (simp add: fits_def word_less_nat_alt)

lemma ucast_ucast_u8 [simp]: "(ucast (ucast (v :: u8) :: u32) :: u8) = v"
  by (rule bit_word_eqI) (simp add: bit_simps)

lemma ucast_u8_lt [simp]: "(ucast (v :: u8) :: u32) < 256"
  by (subst lt_256 [symmetric]) simp

lemma codec_rtype: "m \<noteq> SPARC64 \<Longrightarrow> codec (rtype_ok m) (rtype_enc m) (rtype_dec m) (if m64 m then 4 else 1)"
proof (cases "m64 m")
  case True
  moreover assume "m \<noteq> SPARC64"
  ultimately have "rtype_ok m = (\<lambda>_. True)" by (auto simp: rtype_ok_def)
  with True show ?thesis by (simp add: rtype_enc_def rtype_dec_def int_codecs_m)
next
  case False
  have "codec (rtype_ok m) (iso_enc ucast u8_enc) (iso_dec ucast u8_dec) 1"
    by (rule codec_iso [OF int_codecs(1)]) (auto simp: rtype_ok_def False lt_256)
  with False show ?thesis by (simp add: rtype_enc_def rtype_dec_def)
qed

lemma codec_rsym: "codec (rsym_ok m) (rsym_enc m) (rsym_dec m) (if m64 m then 4 else 3)"
proof -
  have "rsym_ok m = (if m64 m then \<lambda>_. True else fits 3)"
    by (rule ext) (simp only: rsym_ok_def lt_2_24 split: if_splits, simp)
  then show ?thesis by (simp add: rsym_enc_def rsym_dec_def int_codecs_m)
qed

lemma codec_addend:
  "codec (addend_ok m) (addend_enc m) (addend_dec m) (if is_rela (desc m) then word_bytes m else 0)"
proof (cases "is_rela (desc m)")
  case True
  then have "addend_ok m = IWord_ok m" by (auto simp: addend_ok_def)
  with True show ?thesis by (simp add: addend_enc_def addend_dec_def codec_IWord)
next
  case False
  then show ?thesis
    by (simp add: addend_enc_def addend_dec_def) (unfold_locales, auto simp: addend_ok_def)
qed

interpretation elf_rel: codec "ElfRel_ok m" "ElfRel_enc m" "ElfRel_dec m" "rel_size m" for m
proof (cases "m = SPARC64")
  case True
  have "codec (ElfRel_ok SPARC64) (ElfRel_enc SPARC64) (ElfRel_dec SPARC64) (rel_size SPARC64)"
    unfolding ElfRel_enc_def ElfRel_dec_def if_P [OF refl]
    by (rule codec_struct, (rule codec_intros)+)
      (auto simp: pair_ok_def ElfRel_ok_def rtype_ok_def rsym_ok_def addend_ok_def Word_ok_def IWord_ok_def
        rel_size_def word_bytes_def desc_SPARC64_def lt_2_24 lt_256)
  with True show "codec (ElfRel_ok m) (ElfRel_enc m) (ElfRel_dec m) (rel_size m)" by simp
next
  case False
  note intros = codec_pair codec_Word codec_rtype [OF False] codec_rsym codec_addend
  show "codec (ElfRel_ok m) (ElfRel_enc m) (ElfRel_dec m) (rel_size m)"
  proof (cases "mle m")
    case True
    show ?thesis
      unfolding ElfRel_enc_def ElfRel_dec_def if_P [OF True] if_not_P [OF False]
      by (rule codec_struct, (rule intros)+)
        (auto simp: pair_ok_def ElfRel_ok_def False rel_size_def word_bytes_def)
  next
    case BE: False
    show ?thesis
      unfolding ElfRel_enc_def ElfRel_dec_def if_not_P [OF BE] if_not_P [OF False]
      by (rule codec_struct, (rule intros)+)
        (auto simp: pair_ok_def ElfRel_ok_def False rel_size_def word_bytes_def)
  qed
qed

subsection \<open>Properties\<close>


definition sample_ehdr :: ElfEhdr where
  "sample_ehdr = \<lparr> e_ident = replicate 16 0, e_type = 1, e_machine = 62, e_version = 1, e_entry = 0,
     e_phoff = 0, e_shoff = 64, e_flags = 0, e_ehsize = 64, e_phentsize = 0, e_phnum = 0,
     e_shentsize = 64, e_shnum = 3, e_shstrndx = 2 \<rparr>"
definition sample_shdr :: ElfShdr where
  "sample_shdr = \<lparr> sh_name = 1, sh_type = 1, sh_flags = 6, sh_addr = 0, sh_offset = 64, sh_size = 16,
     sh_link = 0, sh_info = 0, sh_addralign = 4, sh_entsize = 0 \<rparr>"
definition sample_phdr :: ElfPhdr where
  "sample_phdr = \<lparr> p_type = 1, p_flags = 5, p_offset = 0, p_vaddr = 0x400000, p_paddr = 0x400000,
     p_filesz = 16, p_memsz = 16, p_align = 4096 \<rparr>"
definition sample_sym :: ElfSym where
  "sample_sym = \<lparr> st_name = 1, st_type = 2, st_bind = 1, st_visibility = 2, st_rsv = 0,
     ppc_local_entry = 3, st_shndx = 1, st_value = 0x400000, st_size = 16 \<rparr>"


text \<open>
  a symbol table entry has the same bytes on a host of either byte order, although C++ fills
  the bit fields from opposite ends there: the two orders in which the source declares them
  cancel that.
\<close>

theorem elf_sym_host_independent:
  "ElfSym_enc BigHost m sy = ElfSym_enc LittleHost m sy \<and>
   ElfSym_dec BigHost m bs = ElfSym_dec LittleHost m bs"
  by (simp add: ElfSym_enc_def ElfSym_dec_def sym_info_host sym_other_host sym_of_bytes_host)

text \<open>
  The relocation types of the machines whose relocation records keep the type in one byte.
\<close>

lemma narrow_relocs:
  "list_all (\<lambda>(n, v). v < 256) R_386_enum" "list_all (\<lambda>(n, v). v < 256) R_ARM_enum"
  "list_all (\<lambda>(n, v). v < 256) R_RISCV_enum" "list_all (\<lambda>(n, v). v < 256) R_PPC_enum"
  "list_all (\<lambda>(n, v). v < 256) R_SPARC_enum" "list_all (\<lambda>(n, v). v < 256) R_68K_enum"
  "list_all (\<lambda>(n, v). v < 256) R_SH_enum"
  by (simp_all add: R_386_enum_def R_386_defs R_ARM_enum_def R_ARM_defs R_RISCV_enum_def R_RISCV_defs
      R_PPC_enum_def R_PPC_defs R_SPARC_enum_def R_SPARC_defs R_68K_enum_def R_68K_defs R_SH_enum_def
      R_SH_defs)

lemma reloc_enum_rtype_ok: "(n, v) \<in> set (reloc_enum m) \<Longrightarrow> rtype_ok m v"
  using narrow_relocs by (cases m) (auto simp: rtype_ok_def desc_defs list_all_iff)

text \<open>
  C36: every relocation type that the header declares for a machine survives that machine's
  relocation record, also where the record keeps the type in a single byte: a record built by
  the constructor and written is read back with the same offset, type and symbol, and with the
  addend exactly on the machines that have one.
\<close>

theorem elf_rel_roundtrip:
  assumes "(n, v) \<in> set (reloc_enum m)" and "Word_ok m off" and "rsym_ok m sy" and "IWord_ok m ad"
  shows "ElfRel_dec m (ElfRel_enc m (ElfRel_new m off v sy ad) @ r) = Some (ElfRel_new m off v sy ad, r) \<and>
    length (ElfRel_enc m (ElfRel_new m off v sy ad)) = rel_size m"
proof -
  have "ElfRel_ok m (ElfRel_new m off v sy ad)"
    using assms reloc_enum_rtype_ok [OF assms(1)] by (auto simp: ElfRel_ok_def ElfRel_new_def addend_ok_def)
  then show ?thesis using elf_rel.dec_enc elf_rel.length_enc by blast
qed

theorem elf_rel_roundtrip_witness:
  "ElfRel_dec ARM32 (ElfRel_enc ARM32 (ElfRel_new ARM32 0x8000 R_ARM_CALL 5 0) @ [])
     = Some (ElfRel_new ARM32 0x8000 R_ARM_CALL 5 0, []) \<and>
   length (ElfRel_enc ARM32 (ElfRel_new ARM32 0x8000 R_ARM_CALL 5 0)) = rel_size ARM32"
  by (rule elf_rel_roundtrip [of "''R_ARM_CALL''"])
    (simp_all add: R_ARM_enum_def Word_ok_def rsym_ok_def IWord_ok_def)


text \<open>The relocation types a machine description names.\<close>

definition desc_relocs :: "machine_desc \<Rightarrow> u32 list" where
  "desc_relocs d = [R_COPY d, R_GLOB_DAT d, R_JUMP_SLOT d, R_ABS d, R_RELATIVE d, R_DTPOFF d, R_TPOFF d,
     R_DTPMOD d] @ (case R_IRELATIVE d of None \<Rightarrow> [] | Some r \<Rightarrow> [r])
     @ (case R_TLSDESC d of None \<Rightarrow> [] | Some r \<Rightarrow> [r])"

lemma single_bits: "has_single_bit 4096" "has_single_bit 8192" "has_single_bit 65536"
  by (simp_all add: has_single_bit_iff, rule exI [of _ 12], simp, rule exI [of _ 13], simp,
      rule exI [of _ 16], simp)

lemmas reloc_enum_defs = R_X86_64_enum_def R_386_enum_def R_AARCH64_enum_def R_ARM_enum_def
  R_RISCV_enum_def R_PPC_enum_def R_PPC64_enum_def R_SPARC_enum_def R_390_enum_def R_68K_enum_def
  R_SH_enum_def R_ALPHA_enum_def

lemma desc_relocs_declared: "list_all (\<lambda>r. \<exists>n. (n, r) \<in> set (reloc_enum m)) (desc_relocs (desc m))"
proof -
  have "list_all (\<lambda>r. r \<in> set (map snd (reloc_enum m))) (desc_relocs (desc m))"
    by (cases m; simp only: reloc_enum.simps desc.simps desc_relocs_def desc_defs machine_desc.simps
        reloc_enum_defs list.map snd_conv option.case append.simps list.pred_inject list.set insert_iff
        simp_thms)
  then show ?thesis by (force simp: list_all_iff)
qed


end
