(* ===== verification/Reach.thy ===== *)
theory Reach
  imports Main
begin

text \<open>
  Reachability, as both garbage collectors of the linker (\<^verbatim>\<open>src/elf/gc-sections.cc\<close>,
  \<^verbatim>\<open>src/macho/dead-strip.cc\<close>) and the extraction of archive members (\<^verbatim>\<open>src/elf/passes.cc\<close>) need it: the nodes that can be reached from a set of roots without entering
  a set of blocked nodes, the interface of a mark phase, and marking by any
  number of threads that claim a node with an atomic test-and-set.
\<close>

subsection \<open>Reachable nodes\<close>

inductive_set reach :: "('a \<Rightarrow> 'a set) \<Rightarrow> 'a set \<Rightarrow> 'a set \<Rightarrow> 'a set"
  for succs :: "'a \<Rightarrow> 'a set" and blocked :: "'a set" and roots :: "'a set" where
  reach_root: "x \<in> roots \<Longrightarrow> x \<notin> blocked \<Longrightarrow> x \<in> reach succs blocked roots"
| reach_step: "x \<in> reach succs blocked roots \<Longrightarrow> y \<in> succs x \<Longrightarrow> y \<notin> blocked \<Longrightarrow> y \<in> reach succs blocked roots"

inductive_simps reach_iff: "x \<in> reach succs blocked roots"

lemma reach_not_blocked: "x \<in> reach succs blocked roots \<Longrightarrow> x \<notin> blocked"
  by (cases rule: reach.cases) auto

lemma reach_least:
  assumes "roots - blocked \<subseteq> S" and "\<And>x. x \<in> S \<Longrightarrow> x \<notin> blocked \<Longrightarrow> succs x - blocked \<subseteq> S"
  shows "reach succs blocked roots \<subseteq> S"
proof
  fix x assume "x \<in> reach succs blocked roots"
  then show "x \<in> S"
  proof induction
    case (reach_step x y)
    then show ?case using assms(2) reach_not_blocked by fastforce
  qed (use assms(1) in blast)
qed

lemma reach_mono: "roots \<subseteq> roots' \<Longrightarrow> reach succs blocked roots \<subseteq> reach succs blocked roots'"
  by (rule reach_least) (auto intro: reach.intros)

subsection \<open>The interface of a mark phase\<close>

text \<open>
  What a mark phase promises, of an input that is \<open>ok\<close>: it starts from the nodes marked before (\<open>blocked\<close>), ends
  with \<open>marked\<close>, marks every root, marks only what is reachable, and leaves no edge from a newly marked node to
  an unmarked one.
\<close>

locale mark_phase =
  fixes ok :: "'g \<Rightarrow> bool"
    and succs :: "'g \<Rightarrow> 'a \<Rightarrow> 'a set"
    and blocked roots marked :: "'g \<Rightarrow> 'a set"
  assumes keeps: "ok g \<Longrightarrow> blocked g \<subseteq> marked g"
    and marks_roots: "ok g \<Longrightarrow> roots g \<subseteq> marked g"
    and sound: "ok g \<Longrightarrow> marked g \<subseteq> blocked g \<union> reach (succs g) (blocked g) (roots g)"
    and closed: "ok g \<Longrightarrow> x \<in> marked g \<Longrightarrow> x \<notin> blocked g \<Longrightarrow> succs g x \<subseteq> marked g"
begin

lemma marked_iff:
  assumes "ok g"
  shows "x \<in> marked g \<longleftrightarrow> x \<in> blocked g \<or> x \<in> reach (succs g) (blocked g) (roots g)"
proof -
  have "reach (succs g) (blocked g) (roots g) \<subseteq> marked g"
    by (rule reach_least) (use marks_roots closed assms in blast)+
  then show ?thesis using keeps [OF assms] sound [OF assms] by blast
qed

lemma marked_least:
  assumes "ok g" and "blocked g \<union> roots g \<subseteq> S" and "\<And>x. x \<in> S \<Longrightarrow> succs g x \<subseteq> S"
  shows "marked g \<subseteq> S"
proof -
  have "reach (succs g) (blocked g) (roots g) \<subseteq> S" by (rule reach_least) (use assms in blast)+
  with assms(2) show ?thesis using sound [OF assms(1)] by blast
qed

end

subsection \<open>Marking in parallel\<close>

text \<open>
  A state is the set of marked nodes and the references that some thread still has to look at. A
  thread takes a reference, claims the node if it is unmarked, and then has the references of the node to
  look at. Steps of different threads interleave arbitrarily.
\<close>

inductive par_step :: "('a \<Rightarrow> 'a list) \<Rightarrow> 'a set \<times> 'a list \<Rightarrow> 'a set \<times> 'a list \<Rightarrow> bool"
  for succs :: "'a \<Rightarrow> 'a list" where
  par_seen: "x \<in> V \<Longrightarrow> par_step succs (V, ps @ x # qs) (V, ps @ qs)"
| par_claim: "x \<notin> V \<Longrightarrow> par_step succs (V, ps @ x # qs) (insert x V, ps @ succs x @ qs)"

definition par_inv :: "('a \<Rightarrow> 'a list) \<Rightarrow> 'a set \<Rightarrow> 'a set \<Rightarrow> 'a set \<times> 'a list \<Rightarrow> bool" where
  "par_inv succs blocked roots st \<longleftrightarrow> (case st of (V, ps) \<Rightarrow>
     blocked \<subseteq> V \<and> roots \<subseteq> V \<union> set ps \<and>
     V \<union> set ps \<subseteq> blocked \<union> roots \<union> reach (set \<circ> succs) blocked roots \<union> \<Union> ((set \<circ> succs) ` reach (set \<circ> succs) blocked roots) \<and>
     V \<subseteq> blocked \<union> reach (set \<circ> succs) blocked roots \<and>
     (\<forall>x\<in>V - blocked. set (succs x) \<subseteq> V \<union> set ps))"

lemma par_inv_step:
  assumes "par_inv succs blocked roots (V, ps)" and "par_step succs (V, ps) st"
  shows "par_inv succs blocked roots st"
  using assms(2)
proof (cases rule: par_step.cases)
  case (par_seen x ps' qs)
  then show ?thesis using assms(1) by (auto simp: par_inv_def)
next
  case (par_claim x ps' qs)
  let ?R = "reach (set \<circ> succs) blocked roots"
  have "x \<notin> blocked" using assms(1) par_claim by (auto simp: par_inv_def)
  moreover have "x \<in> blocked \<union> roots \<union> ?R \<union> \<Union> ((set \<circ> succs) ` ?R)"
    using assms(1) par_claim by (auto simp: par_inv_def)
  ultimately have "x \<in> ?R" by (auto intro: reach.intros)
  then show ?thesis using assms(1) par_claim by (auto simp: par_inv_def)
qed

lemma par_inv_steps:
  "(par_step succs)\<^sup>*\<^sup>* st st' \<Longrightarrow> par_inv succs blocked roots st \<Longrightarrow> par_inv succs blocked roots st'"
proof (induction rule: rtranclp_induct)
  case (step y z)
  then show ?case using par_inv_step [of succs blocked roots "fst y" "snd y" z] by simp
qed

text \<open>However the threads interleave, when no reference is left the marked nodes are the reachable ones.\<close>

lemma par_marks:
  assumes "(par_step succs)\<^sup>*\<^sup>* (blocked, roots) (V, [])"
  shows "V = blocked \<union> reach (set \<circ> succs) blocked (set roots)"
proof -
  have "par_inv succs blocked (set roots) (blocked, roots)" by (auto simp: par_inv_def)
  from par_inv_steps [OF assms this] have inv: "par_inv succs blocked (set roots) (V, [])" .
  then have "reach (set \<circ> succs) blocked (set roots) \<subseteq> V"
    by (intro reach_least) (auto simp: par_inv_def)
  with inv show ?thesis by (auto simp: par_inv_def)
qed

text \<open>Every step either drops a reference or claims a node, so with finitely many nodes marking ends.\<close>

lemma par_step_measure:
  assumes "par_step succs (V, ps) st" and "finite N" and "set ps \<subseteq> N" and "\<And>x. x \<in> N \<Longrightarrow> set (succs x) \<subseteq> N"
  shows "set (snd st) \<subseteq> N \<and> (st, (V, ps)) \<in> measures [\<lambda>(V, ps). card (N - V), \<lambda>(V, ps). length ps]"
  using assms(1)
proof (cases rule: par_step.cases)
  case (par_seen x qs rs)
  then show ?thesis using assms(3) by auto
next
  case (par_claim x qs rs)
  have "N - insert x V \<subset> N - V" using par_claim assms(3) by auto
  then have "card (N - insert x V) < card (N - V)" using assms(2) by (intro psubset_card_mono) auto
  then show ?thesis using par_claim assms(3, 4) by auto
qed

text \<open>So a schedule that takes a step whenever a reference is left comes to an end.\<close>

lemma par_schedule_ends:
  fixes f :: "nat \<Rightarrow> 'a set \<times> 'a list"
  assumes "finite N" and "set (snd (f 0)) \<subseteq> N" and "\<And>x. x \<in> N \<Longrightarrow> set (succs x) \<subseteq> N"
    and "\<And>k. snd (f k) \<noteq> [] \<Longrightarrow> par_step succs (f k) (f (Suc k))"
  shows "\<exists>k. snd (f k) = [] \<and> (par_step succs)\<^sup>*\<^sup>* (f 0) (f k)"
proof -
  define r where "r = measures [\<lambda>(V :: 'a set, ps :: 'a list). card (N - V), \<lambda>(V, ps). length ps]"
  have "wf r" by (simp add: r_def)
  then have "\<And>k. f k = st \<Longrightarrow> set (snd st) \<subseteq> N \<Longrightarrow> (par_step succs)\<^sup>*\<^sup>* (f 0) (f k) \<Longrightarrow> ?thesis" for st
  proof (induction st rule: wf_induct_rule)
    case (less st)
    show ?case
    proof (cases "snd st = []")
      case True
      with less.prems show ?thesis by auto
    next
      case False
      then have step: "par_step succs st (f (Suc k))" using assms(4) [of k] less.prems(1) by auto
      then have "set (snd (f (Suc k))) \<subseteq> N \<and> (f (Suc k), st) \<in> r"
        using par_step_measure [of succs "fst st" "snd st" "f (Suc k)" N] assms(1, 3) less.prems(2) by (simp add: r_def)
      moreover have "(par_step succs)\<^sup>*\<^sup>* (f 0) (f (Suc k))" using less.prems(1, 3) step by auto
      ultimately show ?thesis using less.IH [of "f (Suc k)" "Suc k"] by blast
    qed
  qed
  from this [of 0 "f 0"] assms(2) show ?thesis by simp
qed

end
