(* ===== verification/Elf_Resolve.thy ===== *)
theory Elf_Resolve
  imports Elf_Types Reach "HOL-Library.Multiset"
begin

text \<open>
  ELF symbol resolution: \<^verbatim>\<open>get_rank\<close>, \<^verbatim>\<open>resolve_symbols\<close>, \<^verbatim>\<open>mark_live_objects\<close>, \<^verbatim>\<open>merge_visibility\<close> and
  \<^verbatim>\<open>clear_symbols\<close> of \<^verbatim>\<open>src/elf/input-files.cc\<close>, and \<^verbatim>\<open>mark_live_objects\<close> and \<^verbatim>\<open>do_resolve_symbols\<close> of
  \<^verbatim>\<open>src/elf/passes.cc\<close>: preliminary resolution, extraction of archive members, COMDAT elimination
  and the final resolution. Object files and shared files are the elements of one list, and a pointer to a file
  is its index; a symbol is a number.
\<close>

subsection \<open>Files and symbols\<close>

text \<open>
  An entry is the \<open>i\<close>-th element of \<^verbatim>\<open>elf_syms\<close>, of \<^verbatim>\<open>symbols\<close>, of \<^verbatim>\<open>symtab_shndx_sec\<close> (an object file) and
  of \<^verbatim>\<open>versyms\<close> (a shared file).
\<close>

record RSymEnt =
  re_esym :: ElfSym
  re_sym :: nat
  re_xindex :: u32
  re_versym :: u16

text \<open>A section is null or has its \<^verbatim>\<open>is_alive\<close>; a COMDAT reference is the group and its member sections.\<close>

record RFile =
  rf_is_dso :: bool
  rf_alive :: bool
  rf_priority :: u32
  rf_first_global :: nat
  rf_ents :: "RSymEnt list"
  rf_sections :: "bool option list"
  rf_comdats :: "(nat \<times> nat list) list"
  rf_exclude_libs :: bool

text \<open>\<open>y_isec\<close> is what \<^verbatim>\<open>get_input_section\<close> returns, a section of the file \<open>y_file\<close>.\<close>

record RSymbol =
  y_file :: "nat option"
  y_isec :: "nat option"
  y_value :: u64
  y_sym_idx :: int
  y_ver_idx :: u16
  y_is_weak :: bool
  y_is_imported :: bool
  y_is_exported :: bool
  y_visibility :: u8

record RCtx =
  rc_files :: "RFile list"
  rc_objs :: "nat list"
  rc_dsos :: "nat list"
  rc_syms :: "nat \<Rightarrow> RSymbol"
  rc_owner :: "nat \<Rightarrow> u32"
  rc_default_version :: u16
  rc_undefined :: "nat list"
  rc_require_defined :: "nat list"

definition ent_at :: "RFile list \<Rightarrow> nat \<times> nat \<Rightarrow> RSymEnt" where
  "ent_at fs = (\<lambda>(k, i). rf_ents (fs ! k) ! i)"

abbreviation esym_at :: "RFile list \<Rightarrow> nat \<times> nat \<Rightarrow> ElfSym" where
  "esym_at fs p \<equiv> re_esym (ent_at fs p)"

definition get_shndx :: "RSymEnt \<Rightarrow> nat" where
  "get_shndx e = (if ucast (st_shndx (re_esym e)) = SHN_XINDEX then unat (re_xindex e) else unat (st_shndx (re_esym e)))"

text \<open>The section of a symbol and whether it is there and alive.\<close>

definition section_alive :: "RFile \<Rightarrow> nat \<Rightarrow> bool" where
  "section_alive f j \<longleftrightarrow> j < length (rf_sections f) \<and> rf_sections f ! j = Some True"

subsection \<open>Ranks\<close>

definition sym_rank :: "RFile \<Rightarrow> ElfSym \<Rightarrow> bool \<Rightarrow> u32" where
  "sym_rank f esym is_in_archive =
     (if sym_is_common esym then (if is_in_archive then 6 else 5)
      else if rf_is_dso f \<or> is_in_archive then (if sym_is_weak esym then 4 else 3)
      else if sym_is_weak esym then 2
      else 1)"

definition get_rank :: "RFile \<Rightarrow> ElfSym \<Rightarrow> bool \<Rightarrow> u64" where
  "get_rank f esym is_in_archive = ucast (push_bit 24 (sym_rank f esym is_in_archive) + rf_priority f)"

definition symbol_rank :: "RFile list \<Rightarrow> RSymbol \<Rightarrow> u64" where
  "symbol_rank fs y =
     (case y_file y of
        None \<Rightarrow> push_bit 24 7
      | Some k \<Rightarrow> get_rank (fs ! k) (esym_at fs (k, nat (y_sym_idx y))) (\<not> rf_alive (fs ! k)))"

subsection \<open>resolve\_symbols\<close>

definition obj_claim :: "RFile list \<Rightarrow> u16 \<Rightarrow> nat \<times> nat \<Rightarrow> RSymbol \<Rightarrow> RSymbol" where
  "obj_claim fs default_version = (\<lambda>(k, i) y.
     let f = fs ! k; e = ent_at fs (k, i); esym = re_esym e;
         no_sec = (sym_is_abs esym \<or> sym_is_common esym)
     in if sym_is_undef esym then y
        else if \<not> no_sec \<and> \<not> section_alive f (get_shndx e) then y
        else if get_rank f esym (\<not> rf_alive f) < symbol_rank fs y
        then y \<lparr> y_file := Some k, y_isec := (if no_sec then None else Some (get_shndx e)),
                 y_value := st_value esym, y_sym_idx := int i, y_ver_idx := default_version,
                 y_is_weak := sym_is_weak esym \<rparr>
        else y)"

definition shared_claim :: "RFile list \<Rightarrow> nat \<times> nat \<Rightarrow> RSymbol \<Rightarrow> RSymbol" where
  "shared_claim fs = (\<lambda>(k, i) y.
     let f = fs ! k; e = ent_at fs (k, i); esym = re_esym e
     in if sym_is_undef esym then y
        else if get_rank f esym False < symbol_rank fs y
        then y \<lparr> y_file := Some k, y_isec := None, y_value := st_value esym, y_sym_idx := int i,
                 y_ver_idx := re_versym e, y_is_weak := False \<rparr>
        else y)"

text \<open>One iteration of either loop, which holds the lock of the symbol.\<close>

definition resolve_entry :: "nat \<times> nat \<Rightarrow> RCtx \<Rightarrow> RCtx" where
  "resolve_entry p c =
     (let fs = rc_files c; s = re_sym (ent_at fs p);
          claim = (if rf_is_dso (fs ! fst p) then shared_claim fs p else obj_claim fs (rc_default_version c) p)
      in c \<lparr> rc_syms := (rc_syms c) (s := claim (rc_syms c s)) \<rparr>)"

definition file_entries :: "RFile list \<Rightarrow> nat \<Rightarrow> (nat \<times> nat) list" where
  "file_entries fs k = map (Pair k) [(if rf_is_dso (fs ! k) then 0 else rf_first_global (fs ! k))..<length (rf_ents (fs ! k))]"

definition resolve_symbols_file :: "nat \<Rightarrow> RCtx \<Rightarrow> RCtx" where
  "resolve_symbols_file k c = fold resolve_entry (file_entries (rc_files c) k) c"

definition for_each_file :: "(nat \<Rightarrow> RCtx \<Rightarrow> RCtx) \<Rightarrow> RCtx \<Rightarrow> RCtx" where
  "for_each_file fn c = fold fn (rc_dsos c) (fold fn (rc_objs c) c)"

definition clear_symbol :: "nat \<Rightarrow> nat \<Rightarrow> RCtx \<Rightarrow> RCtx" where
  "clear_symbol k s c =
     (let y = rc_syms c s
      in if y_file y = Some k
         then c \<lparr> rc_syms := (rc_syms c) (s := y \<lparr> y_isec := None, y_value := - 1, y_sym_idx := - 1, y_ver_idx := 0,
                y_is_weak := False, y_is_imported := False, y_is_exported := False, y_file := None \<rparr>) \<rparr>
         else c)"

definition clear_symbols :: "nat \<Rightarrow> RCtx \<Rightarrow> RCtx" where
  "clear_symbols k c =
     (let f = rc_files c ! k in fold (clear_symbol k) (map re_sym (drop (rf_first_global f) (rf_ents f))) c)"

subsection \<open>Visibility\<close>

definition visibility_priority :: "u8 \<Rightarrow> nat result" where
  "visibility_priority v =
     (if ucast v = STV_HIDDEN then Inr 1
      else if ucast v = STV_PROTECTED then Inr 2
      else if ucast v = STV_DEFAULT then Inr 3
      else Inl (Fatal ''unknown symbol visibility''))"

definition merge_visibility :: "u8 \<Rightarrow> RSymbol \<Rightarrow> RSymbol result" where
  "merge_visibility v y =
     (let v' = (if ucast v = STV_INTERNAL then ucast STV_HIDDEN else v)
      in bind_result (visibility_priority v') (\<lambda>a.
         bind_result (visibility_priority (y_visibility y)) (\<lambda>b.
           Inr (if a < b then y \<lparr> y_visibility := v' \<rparr> else y))))"

subsection \<open>mark\_live\_objects\<close>

text \<open>The state of the marking is the context and the files fed back to the loop.\<close>

type_synonym mstate = "RCtx \<times> nat list"

definition set_alive :: "nat \<Rightarrow> RCtx \<Rightarrow> RCtx" where
  "set_alive k c = c \<lparr> rc_files := (rc_files c) [k := (rc_files c ! k) \<lparr> rf_alive := True \<rparr>] \<rparr>"

definition feed_file :: "nat option \<Rightarrow> mstate \<Rightarrow> mstate" where
  "feed_file ko st =
     (case ko of
        None \<Rightarrow> st
      | Some k \<Rightarrow>
          if k < length (rc_files (fst st)) \<and> \<not> rf_alive (rc_files (fst st) ! k)
          then (set_alive k (fst st), snd st @ [k]) else st)"

definition obj_mark_entry :: "nat \<Rightarrow> mstate \<Rightarrow> nat \<Rightarrow> mstate result" where
  "obj_mark_entry k st i =
     (let c = fst st; fs = rc_files c; e = ent_at fs (k, i); esym = re_esym e; s = re_sym e;
          v = (if \<not> sym_is_undef esym \<and> rf_exclude_libs (fs ! k) then ucast STV_HIDDEN else st_visibility esym)
      in bind_result (merge_visibility v (rc_syms c s)) (\<lambda>y.
           let st' = (c \<lparr> rc_syms := (rc_syms c) (s := y) \<rparr>, snd st)
           in Inr (if sym_is_weak esym then st'
                   else case y_file y of
                     None \<Rightarrow> st'
                   | Some k' \<Rightarrow>
                       let keep = (sym_is_undef esym \<or>
                             sym_is_common esym \<and> \<not> sym_is_common (esym_at fs (k', nat (y_sym_idx y))))
                       in if keep then feed_file (Some k') st' else st')))"

definition shared_mark_entry :: "nat \<Rightarrow> mstate \<Rightarrow> nat \<Rightarrow> mstate result" where
  "shared_mark_entry k st i =
     (let fs = rc_files (fst st); e = ent_at fs (k, i)
      in Inr (if sym_is_undef (re_esym e) then feed_file (y_file (rc_syms (fst st) (re_sym e))) st else st))"

definition mark_file :: "nat \<Rightarrow> mstate \<Rightarrow> mstate result" where
  "mark_file k st =
     (let f = rc_files (fst st) ! k
      in if rf_is_dso f then foldM (shared_mark_entry k) st [0..<length (rf_ents f)]
         else foldM (obj_mark_entry k) st [rf_first_global f..<length (rf_ents f)])"

text \<open>
  The loop over the roots and the files fed back, here in the order of a queue. A file that is fed back was
  dead before, so the loop ends.
\<close>

definition dead_files :: "RCtx \<Rightarrow> nat" where
  "dead_files c = length (filter (\<lambda>f. \<not> rf_alive f) (rc_files c))"

definition mbudget :: "mstate \<Rightarrow> nat" where
  "mbudget st = dead_files (fst st) + length (snd st)"

lemma dead_files_update:
  "k < length fs \<Longrightarrow> \<not> rf_alive (fs ! k) \<Longrightarrow>
   Suc (length (filter (\<lambda>f. \<not> rf_alive f) (fs [k := (fs ! k) \<lparr> rf_alive := True \<rparr>]))) = length (filter (\<lambda>f. \<not> rf_alive f) fs)"
  by (subst (2) id_take_nth_drop [of k fs]) (simp_all add: upd_conv_take_nth_drop)

lemma mbudget_feed [simp]: "mbudget (feed_file ko st) = mbudget st"
  by (auto simp: feed_file_def mbudget_def dead_files_def set_alive_def dead_files_update split: option.split)

lemma mbudget_syms [simp]: "mbudget (c \<lparr> rc_syms := ys \<rparr>, q) = mbudget (c, q)"
  by (simp add: mbudget_def dead_files_def)

lemma mbudget_shared: "shared_mark_entry k st i = Inr st' \<Longrightarrow> mbudget st' = mbudget st"
  by (auto simp: shared_mark_entry_def Let_def split: if_splits)

lemma mbudget_obj: "obj_mark_entry k st i = Inr st' \<Longrightarrow> mbudget st' = mbudget st"
  by (cases st) (auto simp: obj_mark_entry_def Let_def bind_result_eq_Inr split: if_splits option.splits)

lemma foldM_keeps:
  "foldM f s xs = Inr s' \<Longrightarrow> (\<And>s x s'. f s x = Inr s' \<Longrightarrow> m s' = m s) \<Longrightarrow> m s' = m s"
  by (induction xs arbitrary: s) (auto simp: bind_result_eq_Inr)

lemma mbudget_mark_file: "mark_file k st = Inr st' \<Longrightarrow> mbudget st' = mbudget st"
  unfolding mark_file_def Let_def
  by (auto split: if_splits elim!: foldM_keeps [where m = mbudget] dest: mbudget_shared mbudget_obj)

function mark_queue :: "nat list \<Rightarrow> RCtx \<Rightarrow> RCtx result" where
  "mark_queue [] c = Inr c"
| "mark_queue (k # q) c =
     (case (if rf_alive (rc_files c ! k) then mark_file k (c, []) else Inr (c, [])) of
        Inl e \<Rightarrow> Inl e
      | Inr st \<Rightarrow> mark_queue (q @ snd st) (fst st))"
  by pat_completeness auto
termination
proof (relation "measure (\<lambda>(q, c). mbudget (c, q))", goal_cases)
  case (2 k q c st)
  then have "mbudget st = mbudget (c, [])"
    using mbudget_mark_file [of k "(c, [])" st] by (auto split: if_splits)
  then show ?case by (cases st) (simp add: mbudget_def)
qed simp

definition mark_symbol :: "nat \<Rightarrow> RCtx \<Rightarrow> RCtx" where
  "mark_symbol s c = (case y_file (rc_syms c s) of None \<Rightarrow> c | Some k \<Rightarrow> set_alive k c)"

definition mark_live_objects :: "RCtx \<Rightarrow> RCtx result" where
  "mark_live_objects c0 =
     (let c = fold mark_symbol (rc_require_defined c0) (fold mark_symbol (rc_undefined c0) c0);
          roots = filter (\<lambda>k. rf_alive (rc_files c ! k)) (rc_objs c) @ filter (\<lambda>k. rf_alive (rc_files c ! k)) (rc_dsos c)
      in mark_queue roots c)"

subsection \<open>COMDAT elimination\<close>

definition claim_group :: "u32 \<Rightarrow> nat \<Rightarrow> (nat \<Rightarrow> u32) \<Rightarrow> nat \<Rightarrow> u32" where
  "claim_group pr g owner = owner (g := (if pr < owner g then pr else owner g))"

definition claim_groups :: "nat \<Rightarrow> RCtx \<Rightarrow> RCtx" where
  "claim_groups k c =
     (let f = rc_files c ! k
      in c \<lparr> rc_owner := fold (claim_group (rf_priority f)) (map fst (rf_comdats f)) (rc_owner c) \<rparr>)"

definition kill_section :: "nat \<Rightarrow> bool option list \<Rightarrow> bool option list" where
  "kill_section i secs = secs [i := map_option (\<lambda>_. False) (secs ! i)]"

definition kill_groups :: "nat \<Rightarrow> RCtx \<Rightarrow> RCtx" where
  "kill_groups k c =
     (let f = rc_files c ! k;
          dups = concat (map snd (filter (\<lambda>(g, members). rc_owner c g \<noteq> rf_priority f) (rf_comdats f)))
      in c \<lparr> rc_files := (rc_files c) [k := f \<lparr> rf_sections := fold kill_section dups (rf_sections f) \<rparr>] \<rparr>)"

definition eliminate_comdats :: "RCtx \<Rightarrow> RCtx" where
  "eliminate_comdats c = (let c' = fold claim_groups (rc_objs c) c in fold kill_groups (rc_objs c') c')"

subsection \<open>do\_resolve\_symbols\<close>

definition erase_dead :: "RCtx \<Rightarrow> RCtx" where
  "erase_dead c = c \<lparr> rc_objs := filter (\<lambda>k. rf_alive (rc_files c ! k)) (rc_objs c),
                      rc_dsos := filter (\<lambda>k. rf_alive (rc_files c ! k)) (rc_dsos c) \<rparr>"

definition extract_archive_members :: "RCtx \<Rightarrow> RCtx result" where
  "extract_archive_members c =
     bind_result (mark_live_objects (for_each_file resolve_symbols_file c)) (\<lambda>c'.
       Inr (erase_dead (for_each_file clear_symbols c')))"

definition do_resolve_symbols :: "RCtx \<Rightarrow> RCtx result" where
  "do_resolve_symbols c =
     bind_result (extract_archive_members c) (\<lambda>c'.
       Inr (for_each_file resolve_symbols_file (eliminate_comdats c')))"

subsection \<open>A pass of resolve\_symbols as a sequence of claims\<close>

text \<open>Whether an entry defines its symbol, with what rank, and what the symbol becomes when it wins.\<close>

definition eligible :: "RFile list \<Rightarrow> nat \<times> nat \<Rightarrow> bool" where
  "eligible fs p \<longleftrightarrow> (let f = fs ! fst p; e = ent_at fs p; esym = re_esym e
     in \<not> sym_is_undef esym \<and>
        (rf_is_dso f \<or> sym_is_abs esym \<or> sym_is_common esym \<or> section_alive f (get_shndx e)))"

definition rank_of :: "RFile list \<Rightarrow> nat \<times> nat \<Rightarrow> u64" where
  "rank_of fs p = (let f = fs ! fst p in get_rank f (esym_at fs p) (\<not> rf_is_dso f \<and> \<not> rf_alive f))"

definition bind_sym :: "RFile list \<Rightarrow> u16 \<Rightarrow> nat \<times> nat \<Rightarrow> RSymbol \<Rightarrow> RSymbol" where
  "bind_sym fs dv p y =
     (let f = fs ! fst p; e = ent_at fs p; esym = re_esym e
      in y \<lparr> y_file := Some (fst p),
             y_isec := (if rf_is_dso f \<or> sym_is_abs esym \<or> sym_is_common esym then None else Some (get_shndx e)),
             y_value := st_value esym, y_sym_idx := int (snd p),
             y_ver_idx := (if rf_is_dso f then re_versym e else dv),
             y_is_weak := (\<not> rf_is_dso f \<and> sym_is_weak esym) \<rparr>)"

definition claim :: "RFile list \<Rightarrow> u16 \<Rightarrow> nat \<times> nat \<Rightarrow> RSymbol \<Rightarrow> RSymbol" where
  "claim fs dv p y = (if eligible fs p \<and> rank_of fs p < symbol_rank fs y then bind_sym fs dv p y else y)"

lemma claim_eq:
  "(if rf_is_dso (fs ! fst p) then shared_claim fs p else obj_claim fs dv p) y = claim fs dv p y"
  by (cases p) (auto simp: claim_def shared_claim_def obj_claim_def eligible_def rank_of_def bind_sym_def Let_def)

definition all_entries :: "RCtx \<Rightarrow> (nat \<times> nat) list" where
  "all_entries c = concat (map (file_entries (rc_files c)) (rc_objs c @ rc_dsos c))"

abbreviation sym_at :: "RFile list \<Rightarrow> nat \<times> nat \<Rightarrow> nat" where
  "sym_at fs p \<equiv> re_sym (ent_at fs p)"

definition claim_syms :: "RFile list \<Rightarrow> u16 \<Rightarrow> nat \<times> nat \<Rightarrow> (nat \<Rightarrow> RSymbol) \<Rightarrow> nat \<Rightarrow> RSymbol" where
  "claim_syms fs dv p ys = ys (sym_at fs p := claim fs dv p (ys (sym_at fs p)))"

lemma resolve_entry_eq:
  "resolve_entry p c = c \<lparr> rc_syms := claim_syms (rc_files c) (rc_default_version c) p (rc_syms c) \<rparr>"
  by (simp add: resolve_entry_def claim_syms_def Let_def claim_eq [symmetric])

lemma fold_resolve_entry:
  "fold resolve_entry ps c = c \<lparr> rc_syms := fold (claim_syms (rc_files c) (rc_default_version c)) ps (rc_syms c) \<rparr>"
  by (induction ps arbitrary: c) (simp_all add: resolve_entry_eq)

lemma fold_resolve_file:
  "fold resolve_symbols_file ks c = fold resolve_entry (concat (map (file_entries (rc_files c)) ks)) c"
  by (induction ks arbitrary: c) (simp_all add: resolve_symbols_file_def fold_resolve_entry)

lemma resolve_pass:
  "for_each_file resolve_symbols_file c =
     c \<lparr> rc_syms := fold (claim_syms (rc_files c) (rc_default_version c)) (all_entries c) (rc_syms c) \<rparr>"
proof -
  have "for_each_file resolve_symbols_file c = fold resolve_symbols_file (rc_objs c @ rc_dsos c) c"
    by (simp add: for_each_file_def)
  then show ?thesis by (simp only: fold_resolve_file fold_resolve_entry all_entries_def)
qed

lemma fold_claim_syms:
  "fold (claim_syms fs dv) ps ys s = fold (claim fs dv) (filter (\<lambda>p. sym_at fs p = s) ps) (ys s)"
  by (induction ps arbitrary: ys) (auto simp: claim_syms_def)

subsection \<open>The strongest claim wins\<close>

lemma symbol_rank_bind:
  assumes "rf_is_dso (fs ! fst p) \<longrightarrow> \<not> sym_is_common (esym_at fs p)"
  shows "symbol_rank fs (bind_sym fs dv p y) = rank_of fs p"
  using assms by (cases p) (auto simp: symbol_rank_def bind_sym_def rank_of_def get_rank_def sym_rank_def Let_def)

lemma bind_bind [simp]: "bind_sym fs dv p (bind_sym fs dv q y) = bind_sym fs dv p y"
  by (simp add: bind_sym_def Let_def)

definition strongest :: "RFile list \<Rightarrow> (nat \<times> nat) set \<Rightarrow> nat \<times> nat \<Rightarrow> bool" where
  "strongest fs P p \<longleftrightarrow> p \<in> P \<and> eligible fs p \<and> (\<forall>q\<in>P. eligible fs q \<longrightarrow> rank_of fs p \<le> rank_of fs q)"

definition entry_ok :: "RFile list \<Rightarrow> nat \<times> nat \<Rightarrow> bool" where
  "entry_ok fs p \<longleftrightarrow> rf_priority (fs ! fst p) < 2 ^ 24 \<and>
     (rf_is_dso (fs ! fst p) \<longrightarrow> \<not> sym_is_common (esym_at fs p))"

lemma unat_rank:
  assumes "rf_priority f < 2 ^ 24"
  shows "unat (get_rank f esym arc) = unat (sym_rank f esym arc) * 2 ^ 24 + unat (rf_priority f)"
proof -
  have s: "unat (sym_rank f esym arc) \<le> 6" by (simp add: sym_rank_def)
  have p: "unat (rf_priority f) < 2 ^ 24" using assms by (simp add: word_less_nat_alt)
  have "unat (push_bit 24 (sym_rank f esym arc)) = unat (sym_rank f esym arc) * 2 ^ 24"
    using s by (subst unat_push_bit) simp_all
  moreover have "unat (push_bit 24 (sym_rank f esym arc)) + unat (rf_priority f) < 2 ^ 32"
    using s p calculation by simp
  ultimately show ?thesis
    by (simp add: get_rank_def unat_ucast_le unat_word_ariths)
qed

lemma rank_less_unclaimed:
  assumes "entry_ok fs p" and "y_file y = None"
  shows "rank_of fs p < symbol_rank fs y"
proof -
  have "unat (rf_priority (fs ! fst p)) < 2 ^ 24" using assms(1) by (simp add: entry_ok_def word_less_nat_alt)
  moreover have "unat (sym_rank (fs ! fst p) (esym_at fs p) (\<not> rf_is_dso (fs ! fst p) \<and> \<not> rf_alive (fs ! fst p))) \<le> 6"
    by (simp add: sym_rank_def)
  moreover have "unat (rank_of fs p) =
      unat (sym_rank (fs ! fst p) (esym_at fs p) (\<not> rf_is_dso (fs ! fst p) \<and> \<not> rf_alive (fs ! fst p))) * 2 ^ 24
      + unat (rf_priority (fs ! fst p))"
    using assms(1) by (simp add: rank_of_def Let_def unat_rank entry_ok_def)
  ultimately have "unat (rank_of fs p) < 7 * 2 ^ 24" by simp
  then show ?thesis using assms(2) by (simp add: symbol_rank_def word_less_nat_alt)
qed

lemma fold_claim:
  assumes "y_file y = None" and "\<forall>p\<in>set ps. entry_ok fs p"
  shows "(\<forall>p\<in>set ps. \<not> eligible fs p) \<and> fold (claim fs dv) ps y = y \<or>
    (\<exists>p. strongest fs (set ps) p \<and> fold (claim fs dv) ps y = bind_sym fs dv p y)"
  using assms(2)
proof (induction ps rule: rev_induct)
  case (snoc q ps)
  then have q: "entry_ok fs q" and IH: "(\<forall>p\<in>set ps. \<not> eligible fs p) \<and> fold (claim fs dv) ps y = y \<or>
    (\<exists>p. strongest fs (set ps) p \<and> fold (claim fs dv) ps y = bind_sym fs dv p y)" by auto
  from IH show ?case
  proof (elim disjE exE conjE)
    assume "\<forall>p\<in>set ps. \<not> eligible fs p" and "fold (claim fs dv) ps y = y"
    moreover have "claim fs dv q y = (if eligible fs q then bind_sym fs dv q y else y)"
      using rank_less_unclaimed [OF q assms(1)] by (simp add: claim_def)
    ultimately show ?thesis by (cases "eligible fs q") (fastforce simp: strongest_def)+
  next
    fix p assume p: "strongest fs (set ps) p" and f: "fold (claim fs dv) ps y = bind_sym fs dv p y"
    have "entry_ok fs p" using p snoc.prems by (auto simp: strongest_def)
    then have r: "symbol_rank fs (bind_sym fs dv p y) = rank_of fs p" by (simp add: symbol_rank_bind entry_ok_def)
    show ?thesis
    proof (cases "eligible fs q \<and> rank_of fs q < rank_of fs p")
      case True
      then have "strongest fs (set (ps @ [q])) q"
        using p by (auto simp: strongest_def intro: less_imp_le order.strict_trans2)
      then show ?thesis using True f r by (intro disjI2 exI [of _ q]) (simp add: claim_def [of fs dv q])
    next
      case False
      then have "strongest fs (set (ps @ [q])) p" using p by (auto simp: strongest_def)
      then show ?thesis using False f r by (intro disjI2 exI [of _ p]) (auto simp: claim_def [of fs dv q])
    qed
  qed
qed simp

text \<open>
  Well-formed input: what the parsers establish of a file, and that the files have different priorities,
  as the counter that hands them out gives them. The section of a symbol and the members of a group are in range,
  a shared file has neither common symbols (\<^verbatim>\<open>get_rank\<close> asserts it) nor local ones, and
  no symbol has two global entries in one file.
\<close>

definition file_ok :: "RFile \<Rightarrow> bool" where
  "file_ok f \<longleftrightarrow> rf_priority f < 2 ^ 24 \<and>
     distinct (map re_sym (drop (rf_first_global f) (rf_ents f))) \<and>
     (rf_is_dso f \<longrightarrow> rf_first_global f = 0 \<and> list_all (\<lambda>e. \<not> sym_is_common (re_esym e)) (rf_ents f)) \<and>
     list_all (\<lambda>e. st_visibility (re_esym e) < 4 \<and>
       (rf_is_dso f \<or> sym_is_abs (re_esym e) \<or> sym_is_common (re_esym e) \<or> get_shndx e < length (rf_sections f))) (rf_ents f) \<and>
     list_all (\<lambda>(g, members). list_all (\<lambda>i. i < length (rf_sections f)) members) (rf_comdats f)"

definition rctx_ok :: "RCtx \<Rightarrow> bool" where
  "rctx_ok c \<longleftrightarrow>
     list_all (\<lambda>k. k < length (rc_files c) \<and> file_ok (rc_files c ! k)) (rc_objs c @ rc_dsos c) \<and>
     list_all (\<lambda>k. \<not> rf_is_dso (rc_files c ! k)) (rc_objs c) \<and> list_all (\<lambda>k. rf_is_dso (rc_files c ! k)) (rc_dsos c) \<and>
     distinct (map (\<lambda>k. rf_priority (rc_files c ! k)) (rc_objs c @ rc_dsos c))"

abbreviation unclaimed :: "RCtx \<Rightarrow> bool" where
  "unclaimed c \<equiv> \<forall>s. y_file (rc_syms c s) = None"

lemma rctx_okD:
  assumes "rctx_ok c" and "k \<in> set (rc_objs c @ rc_dsos c)"
  shows "k < length (rc_files c)" and "file_ok (rc_files c ! k)"
  using assms by (auto simp: rctx_ok_def list_all_iff)

lemma file_entries_iff:
  assumes "file_ok (fs ! k)"
  shows "(k', i) \<in> set (file_entries fs k) \<longleftrightarrow> k' = k \<and> rf_first_global (fs ! k) \<le> i \<and> i < length (rf_ents (fs ! k))"
  using assms by (auto simp: file_entries_def file_ok_def)

lemma all_entriesD:
  assumes "rctx_ok c" and "p \<in> set (all_entries c)"
  shows "fst p \<in> set (rc_objs c @ rc_dsos c)" and "rf_first_global (rc_files c ! fst p) \<le> snd p"
    and "snd p < length (rf_ents (rc_files c ! fst p))"
proof -
  obtain k where k: "k \<in> set (rc_objs c @ rc_dsos c)" "(fst p, snd p) \<in> set (file_entries (rc_files c) k)"
    using assms(2) by (auto simp: all_entries_def)
  then have "fst p = k \<and> rf_first_global (rc_files c ! k) \<le> snd p \<and> snd p < length (rf_ents (rc_files c ! k))"
    using file_entries_iff [OF rctx_okD(2) [OF assms(1) k(1)]] by blast
  with k show "fst p \<in> set (rc_objs c @ rc_dsos c)" "rf_first_global (rc_files c ! fst p) \<le> snd p"
    "snd p < length (rf_ents (rc_files c ! fst p))" by auto
qed

lemma all_entriesI:
  assumes "rctx_ok c" and "k \<in> set (rc_objs c @ rc_dsos c)"
    and "rf_first_global (rc_files c ! k) \<le> i" and "i < length (rf_ents (rc_files c ! k))"
  shows "(k, i) \<in> set (all_entries c)"
  using assms file_entries_iff [OF rctx_okD(2), of c k k i] by (auto simp: all_entries_def)

lemma entry_ok_all:
  assumes "rctx_ok c" and "p \<in> set (all_entries c)"
  shows "entry_ok (rc_files c) p"
  using rctx_okD(2) [OF assms(1) all_entriesD(1) [OF assms]] all_entriesD(3) [OF assms]
  by (auto simp: entry_ok_def file_ok_def ent_at_def list_all_length split: prod.split)

lemma entry_unique:
  assumes c: "rctx_ok c" and p: "p \<in> set (all_entries c)" and q: "q \<in> set (all_entries c)"
    and s: "sym_at (rc_files c) p = sym_at (rc_files c) q" and r: "rank_of (rc_files c) p = rank_of (rc_files c) q"
  shows "p = q"
proof -
  let ?fs = "rc_files c" and ?pr = "\<lambda>k. rf_priority (rc_files c ! k)"
  obtain a b where r2: "unat (rank_of ?fs p) = a * 2 ^ 24 + unat (?pr (fst p))"
      "unat (rank_of ?fs q) = b * 2 ^ 24 + unat (?pr (fst q))"
    using entry_ok_all [OF c p] entry_ok_all [OF c q] by (auto simp: rank_of_def Let_def unat_rank entry_ok_def)
  moreover have "unat (?pr (fst p)) < 2 ^ 24" "unat (?pr (fst q)) < 2 ^ 24"
    using entry_ok_all [OF c p] entry_ok_all [OF c q] by (simp_all add: entry_ok_def word_less_nat_alt)
  ultimately have "unat (?pr (fst p)) = unat (?pr (fst q))"
    using r by (metis mod_less mod_mult_self3)
  moreover have "inj_on ?pr (set (rc_objs c @ rc_dsos c))"
    using c by (simp only: rctx_ok_def distinct_map)
  ultimately have k: "fst p = fst q"
    using all_entriesD(1) [OF c p] all_entriesD(1) [OF c q] by (simp only: inj_on_def word_unat_eq_iff)
  let ?f = "?fs ! fst p"
  have d: "distinct (map re_sym (drop (rf_first_global ?f) (rf_ents ?f)))"
    using rctx_okD(2) [OF c all_entriesD(1) [OF c p]] by (simp add: file_ok_def)
  have "snd p = snd q"
    using d s k all_entriesD(2, 3) [OF c p] all_entriesD(2, 3) [OF c q]
      nth_eq_iff_index_eq [OF d, of "snd p - rf_first_global ?f" "snd q - rf_first_global ?f"]
    by (auto simp: ent_at_def split: prod.splits)
  with k show ?thesis by (simp add: prod_eq_iff)
qed

lemma strongest_unique:
  assumes "rctx_ok c" and "P = {p \<in> set (all_entries c). sym_at (rc_files c) p = s}"
    and "strongest (rc_files c) P p" and "strongest (rc_files c) P q"
  shows "p = q"
proof -
  have "p \<in> P" "q \<in> P" "rank_of (rc_files c) p = rank_of (rc_files c) q"
    using assms(3, 4) by (auto simp: strongest_def intro: antisym)
  then show ?thesis using entry_unique [OF assms(1)] assms(2) by auto
qed

text \<open>
  C22: the result of a pass of symbol resolution does not depend on the schedule. The
  threads that run \<^verbatim>\<open>resolve_symbols\<close> of the files in parallel offer the entries of all files to their
  symbols, each offer under the lock of the symbol, in some order; in
  every order the symbols end up as after the files one by one.
\<close>

theorem resolve_symbols_any_order:
  assumes "rctx_ok c" and "unclaimed c" and "mset ps = mset (all_entries c)"
  shows "fold resolve_entry ps c = for_each_file resolve_symbols_file c"
proof -
  let ?fs = "rc_files c" and ?dv = "rc_default_version c"
  have "fold (claim_syms ?fs ?dv) ps (rc_syms c) s = fold (claim_syms ?fs ?dv) (all_entries c) (rc_syms c) s" for s
  proof -
    let ?P = "{p \<in> set (all_entries c). sym_at ?fs p = s}"
    have ok: "\<forall>p\<in>set (all_entries c). entry_ok ?fs p" using entry_ok_all [OF assms(1)] by blast
    have set: "set ps = set (all_entries c)" using assms(3) by (metis set_mset_mset)
    have one: "(\<forall>p\<in>?P. \<not> eligible ?fs p) \<and> fold (claim_syms ?fs ?dv) qs (rc_syms c) s = rc_syms c s \<or>
        (\<exists>p. strongest ?fs ?P p \<and> fold (claim_syms ?fs ?dv) qs (rc_syms c) s = bind_sym ?fs ?dv p (rc_syms c s))"
      if "set qs = set (all_entries c)" for qs
      using fold_claim [of "rc_syms c s" "filter (\<lambda>p. sym_at ?fs p = s) qs" ?fs ?dv] ok assms(2) that
      by (simp add: fold_claim_syms)
    show ?thesis
    proof (cases "\<forall>p\<in>?P. \<not> eligible ?fs p")
      case True
      then have "\<not> strongest ?fs ?P p" for p unfolding strongest_def by blast
      with one [OF set] one [OF refl] show ?thesis by metis
    next
      case False
      obtain p where p: "strongest ?fs ?P p" "fold (claim_syms ?fs ?dv) ps (rc_syms c) s = bind_sym ?fs ?dv p (rc_syms c s)"
        using one [OF set] False by blast
      obtain q where q: "strongest ?fs ?P q"
          "fold (claim_syms ?fs ?dv) (all_entries c) (rc_syms c) s = bind_sym ?fs ?dv q (rc_syms c s)"
        using one [OF refl] False by blast
      from strongest_unique [OF assms(1) refl p(1) q(1)] p(2) q(2) show ?thesis by simp
    qed
  qed
  then have "fold (claim_syms ?fs ?dv) ps (rc_syms c) = fold (claim_syms ?fs ?dv) (all_entries c) (rc_syms c)" ..
  then show ?thesis by (simp add: fold_resolve_entry resolve_pass)
qed

subsection \<open>Marking the files that are needed\<close>

definition alive_files :: "RCtx \<Rightarrow> nat set" where
  "alive_files c = {k. k < length (rc_files c) \<and> rf_alive (rc_files c ! k)}"

text \<open>The file an entry keeps, and the files a file keeps.\<close>

definition wants :: "RCtx \<Rightarrow> nat \<times> nat \<Rightarrow> nat option" where
  "wants c p =
     (let fs = rc_files c; esym = esym_at fs p; y = rc_syms c (sym_at fs p)
      in if rf_is_dso (fs ! fst p) then (if sym_is_undef esym then y_file y else None)
         else if sym_is_weak esym then None
         else case y_file y of
           None \<Rightarrow> None
         | Some k \<Rightarrow>
             if sym_is_undef esym \<or> sym_is_common esym \<and> \<not> sym_is_common (esym_at fs (k, nat (y_sym_idx y)))
             then Some k else None)"

abbreviation want_set :: "RCtx \<Rightarrow> nat \<times> nat \<Rightarrow> nat set" where
  "want_set c p \<equiv> set_option (wants c p) \<inter> {..<length (rc_files c)}"

definition file_succs :: "RCtx \<Rightarrow> nat \<Rightarrow> nat set" where
  "file_succs c k = \<Union> (want_set c ` set (file_entries (rc_files c) k))"

text \<open>Marking changes only \<^verbatim>\<open>is_alive\<close> of files and the visibility of symbols, so it does not change what a file keeps.\<close>

definition same_links :: "RCtx \<Rightarrow> RCtx \<Rightarrow> bool" where
  "same_links c c' \<longleftrightarrow> c' = c \<lparr> rc_files := rc_files c', rc_syms := rc_syms c' \<rparr> \<and>
     length (rc_files c') = length (rc_files c) \<and>
     (\<forall>k. (rc_files c' ! k) \<lparr> rf_alive := True \<rparr> = (rc_files c ! k) \<lparr> rf_alive := True \<rparr>) \<and>
     (\<forall>s. (rc_syms c' s) \<lparr> y_visibility := 0 \<rparr> = (rc_syms c s) \<lparr> y_visibility := 0 \<rparr>)"

lemma same_links_refl [simp]: "same_links c c"
  by (simp add: same_links_def)

lemma same_links_trans:
  assumes "same_links a b" and "same_links b c"
  shows "same_links a c"
proof -
  have "c = b \<lparr> rc_files := rc_files c, rc_syms := rc_syms c \<rparr>" "b = a \<lparr> rc_files := rc_files b, rc_syms := rc_syms b \<rparr>"
    using assms by (simp_all add: same_links_def)
  then have "c = a \<lparr> rc_files := rc_files c, rc_syms := rc_syms c \<rparr>" by (cases a; cases b; cases c) simp
  then show ?thesis using assms by (simp add: same_links_def)
qed

lemma same_links_sel:
  assumes "same_links c c'"
  shows "length (rc_files c') = length (rc_files c)" "rf_ents (rc_files c' ! k) = rf_ents (rc_files c ! k)"
    "rf_is_dso (rc_files c' ! k) = rf_is_dso (rc_files c ! k)"
    "rf_first_global (rc_files c' ! k) = rf_first_global (rc_files c ! k)"
    "rf_priority (rc_files c' ! k) = rf_priority (rc_files c ! k)"
    "rf_sections (rc_files c' ! k) = rf_sections (rc_files c ! k)"
    "rf_comdats (rc_files c' ! k) = rf_comdats (rc_files c ! k)"
    "y_file (rc_syms c' s) = y_file (rc_syms c s)" "y_sym_idx (rc_syms c' s) = y_sym_idx (rc_syms c s)"
proof -
  have f: "(rc_files c' ! k) \<lparr> rf_alive := True \<rparr> = (rc_files c ! k) \<lparr> rf_alive := True \<rparr>"
    and y: "(rc_syms c' s) \<lparr> y_visibility := 0 \<rparr> = (rc_syms c s) \<lparr> y_visibility := 0 \<rparr>"
    using assms by (simp_all add: same_links_def)
  show "length (rc_files c') = length (rc_files c)" using assms by (simp add: same_links_def)
  show "rf_ents (rc_files c' ! k) = rf_ents (rc_files c ! k)" using arg_cong [OF f, of rf_ents] by simp
  show "rf_is_dso (rc_files c' ! k) = rf_is_dso (rc_files c ! k)" using arg_cong [OF f, of rf_is_dso] by simp
  show "rf_first_global (rc_files c' ! k) = rf_first_global (rc_files c ! k)"
    using arg_cong [OF f, of rf_first_global] by simp
  show "rf_priority (rc_files c' ! k) = rf_priority (rc_files c ! k)" using arg_cong [OF f, of rf_priority] by simp
  show "rf_sections (rc_files c' ! k) = rf_sections (rc_files c ! k)" using arg_cong [OF f, of rf_sections] by simp
  show "rf_comdats (rc_files c' ! k) = rf_comdats (rc_files c ! k)" using arg_cong [OF f, of rf_comdats] by simp
  show "y_file (rc_syms c' s) = y_file (rc_syms c s)" using arg_cong [OF y, of y_file] by simp
  show "y_sym_idx (rc_syms c' s) = y_sym_idx (rc_syms c s)" using arg_cong [OF y, of y_sym_idx] by simp
qed

lemma same_links_ctx:
  assumes "same_links c c'"
  shows "rc_objs c' = rc_objs c" "rc_dsos c' = rc_dsos c" "rc_owner c' = rc_owner c"
    "rc_default_version c' = rc_default_version c" "rc_undefined c' = rc_undefined c"
    "rc_require_defined c' = rc_require_defined c"
proof -
  obtain fs ys where "c' = c \<lparr> rc_files := fs, rc_syms := ys \<rparr>" using assms by (auto simp: same_links_def)
  then show "rc_objs c' = rc_objs c" "rc_dsos c' = rc_dsos c" "rc_owner c' = rc_owner c"
    "rc_default_version c' = rc_default_version c" "rc_undefined c' = rc_undefined c"
    "rc_require_defined c' = rc_require_defined c" by simp_all
qed

lemma same_links_ent: "same_links c c' \<Longrightarrow> ent_at (rc_files c') = ent_at (rc_files c)"
  by (simp add: ent_at_def fun_eq_iff same_links_sel)

lemma same_links_wants:
  assumes "same_links c c'"
  shows "wants c' p = wants c p" and "file_succs c' k = file_succs c k"
    and "file_entries (rc_files c') k = file_entries (rc_files c) k"
proof -
  show w: "wants c' p = wants c p" for p
    unfolding wants_def Let_def same_links_ent [OF assms] same_links_sel [OF assms] ..
  show e: "file_entries (rc_files c') k = file_entries (rc_files c) k"
    unfolding file_entries_def same_links_sel [OF assms] ..
  show "file_succs c' k = file_succs c k"
    unfolding file_succs_def w e same_links_sel [OF assms] ..
qed

lemma same_links_file_ok:
  assumes "same_links c c'"
  shows "file_ok (rc_files c' ! k) = file_ok (rc_files c ! k)" and "rctx_ok c' = rctx_ok c"
proof -
  show f: "file_ok (rc_files c' ! k) = file_ok (rc_files c ! k)" for k
    unfolding file_ok_def same_links_sel [OF assms] ..
  show "rctx_ok c' = rctx_ok c"
    unfolding rctx_ok_def f same_links_sel [OF assms] same_links_ctx [OF assms] ..
qed

subsection \<open>One step of the marking\<close>

definition vis_ok :: "RCtx \<Rightarrow> bool" where
  "vis_ok c \<longleftrightarrow> (\<forall>s. y_visibility (rc_syms c s) \<in> {0, 2, 3})"

definition marks :: "nat set \<Rightarrow> mstate \<Rightarrow> mstate \<Rightarrow> bool" where
  "marks W st st' \<longleftrightarrow> same_links (fst st) (fst st') \<and> vis_ok (fst st') \<and>
     alive_files (fst st') = alive_files (fst st) \<union> W \<and> set (snd st') = set (snd st) \<union> (W - alive_files (fst st))"

lemma marks_empty: "vis_ok (fst st) \<Longrightarrow> marks {} st st"
  by (simp add: marks_def)

lemma marks_trans: "marks V a b \<Longrightarrow> marks W b c \<Longrightarrow> marks (V \<union> W) a c"
  by (auto simp: marks_def intro: same_links_trans)

lemma same_links_set_alive: "same_links c (set_alive k c)"
proof -
  have "((rc_files c) [k := (rc_files c ! k) \<lparr> rf_alive := True \<rparr>] ! j) \<lparr> rf_alive := True \<rparr> =
      (rc_files c ! j) \<lparr> rf_alive := True \<rparr>" for j
    by (cases "j = k"; cases "k < length (rc_files c)") (simp_all add: list_update_beyond)
  then show ?thesis by (simp add: same_links_def set_alive_def)
qed

lemma alive_set_alive: "k < length (rc_files c) \<Longrightarrow> alive_files (set_alive k c) = insert k (alive_files c)"
  by (auto simp: alive_files_def set_alive_def nth_list_update)

lemma vis_ok_set_alive [simp]: "vis_ok (set_alive k c) = vis_ok c"
  by (simp add: vis_ok_def set_alive_def)

lemma marks_feed:
  assumes "vis_ok (fst st)"
  shows "marks (set_option ko \<inter> {..<length (rc_files (fst st))}) st (feed_file ko st)"
proof (cases ko)
  case None
  with assms show ?thesis by (simp add: feed_file_def marks_empty)
next
  case (Some k)
  show ?thesis
  proof (cases "k < length (rc_files (fst st)) \<and> k \<notin> alive_files (fst st)")
    case True
    then have "feed_file ko st = (set_alive k (fst st), snd st @ [k])" by (simp add: Some feed_file_def alive_files_def)
    then show ?thesis using True assms same_links_set_alive by (auto simp: Some marks_def alive_set_alive)
  next
    case False
    then have "feed_file ko st = st" "set_option ko \<inter> {..<length (rc_files (fst st))} \<subseteq> alive_files (fst st)"
      by (auto simp: Some feed_file_def alive_files_def)
    with assms show ?thesis by (auto simp: marks_def)
  qed
qed

lemma visibility_priority_simps [simp]:
  "visibility_priority 2 = Inr 1" "visibility_priority 3 = Inr 2" "visibility_priority 0 = Inr 3"
  by (simp_all add: visibility_priority_def STV_HIDDEN_def STV_PROTECTED_def STV_DEFAULT_def)

lemma merge_visibility_ok:
  assumes "v < 4" and "y_visibility y \<in> {0, 2, 3}"
  shows "\<exists>w\<in>{0, 2, 3}. merge_visibility v y = Inr (y \<lparr> y_visibility := w \<rparr>)"
proof -
  have "v = 0 \<or> v = 1 \<or> v = 2 \<or> v = 3" using assms(1) by (simp add: word_less_nat_alt word_unat_eq_iff) linarith
  then obtain w where w: "w \<in> {0, 2, 3}" "(if ucast v = STV_INTERNAL then ucast STV_HIDDEN else v) = w"
    by (elim disjE) (simp_all add: STV_INTERNAL_def STV_HIDDEN_def)
  obtain a b where ab: "visibility_priority w = Inr a" "visibility_priority (y_visibility y) = Inr b"
    using w(1) assms(2) unfolding insert_iff empty_iff by (elim disjE) simp_all
  have "merge_visibility v y = Inr (y \<lparr> y_visibility := (if a < b then w else y_visibility y) \<rparr>)"
    unfolding merge_visibility_def Let_def w(2) by (simp add: ab)
  moreover have "(if a < b then w else y_visibility y) \<in> {0, 2, 3}" using w(1) assms(2) by simp
  ultimately show ?thesis by blast
qed

lemma marks_syms:
  assumes "vis_ok c" and "w \<in> {0, 2, 3}"
  shows "marks {} (c, q) (c \<lparr> rc_syms := (rc_syms c) (s := (rc_syms c s) \<lparr> y_visibility := w \<rparr>) \<rparr>, q)"
  using assms by (simp add: marks_def same_links_def vis_ok_def alive_files_def)

lemma obj_mark_entry_marks:
  assumes c: "vis_ok (fst st)" and "\<not> rf_is_dso (rc_files (fst st) ! k)"
    and v: "st_visibility (esym_at (rc_files (fst st)) (k, i)) < 4"
  shows "\<exists>st'. obj_mark_entry k st i = Inr st' \<and> marks (want_set (fst st) (k, i)) st st'"
proof -
  obtain c q where st: "st = (c, q)" by (cases st)
  let ?fs = "rc_files c" and ?esym = "esym_at (rc_files c) (k, i)" and ?s = "sym_at (rc_files c) (k, i)"
  let ?v = "if \<not> sym_is_undef ?esym \<and> rf_exclude_libs (?fs ! k) then ucast STV_HIDDEN else st_visibility ?esym"
  have "?v < 4" using v st by (simp add: STV_HIDDEN_def)
  then obtain w where w: "w \<in> {0, 2, 3}" "merge_visibility ?v (rc_syms c ?s) = Inr ((rc_syms c ?s) \<lparr> y_visibility := w \<rparr>)"
    using merge_visibility_ok [of ?v "rc_syms c ?s"] c st by (auto simp: vis_ok_def)
  define st1 where "st1 = (c \<lparr> rc_syms := (rc_syms c) (?s := (rc_syms c ?s) \<lparr> y_visibility := w \<rparr>) \<rparr>, q)"
  have m1: "marks {} st st1" using marks_syms [of c w] c w(1) by (simp add: st st1_def)
  have ok1: "vis_ok (fst st1)" using m1 by (simp add: marks_def)
  have len: "length (rc_files (fst st1)) = length ?fs" by (simp add: st1_def)
  have e: "obj_mark_entry k st i = Inr (feed_file (wants c (k, i)) st1)"
    using w(2) assms(2) unfolding obj_mark_entry_def st
    by (auto simp: Let_def st1_def [symmetric] wants_def feed_file_def split: option.split)
  have "marks ({} \<union> want_set c (k, i)) st (feed_file (wants c (k, i)) st1)"
    using marks_trans [OF m1 marks_feed [OF ok1]] len by simp
  with e show ?thesis by (simp add: st)
qed

lemma shared_mark_entry_marks:
  assumes "vis_ok (fst st)" and "rf_is_dso (rc_files (fst st) ! k)"
  shows "\<exists>st'. shared_mark_entry k st i = Inr st' \<and> marks (want_set (fst st) (k, i)) st st'"
proof -
  have "shared_mark_entry k st i = Inr (feed_file (wants (fst st) (k, i)) st)"
    using assms(2) by (auto simp: shared_mark_entry_def wants_def Let_def feed_file_def)
  with marks_feed [OF assms(1)] show ?thesis by blast
qed

lemma foldM_marks:
  assumes "vis_ok (fst st)"
    and "\<And>st' i. same_links (fst st) (fst st') \<Longrightarrow> vis_ok (fst st') \<Longrightarrow> i \<in> set xs \<Longrightarrow>
      \<exists>st''. f st' i = Inr st'' \<and> marks (want_set (fst st') (k, i)) st' st''"
  shows "\<exists>st'. foldM f st xs = Inr st' \<and> marks (\<Union>i\<in>set xs. want_set (fst st) (k, i)) st st'"
  using assms
proof (induction xs arbitrary: st)
  case Nil
  then show ?case by (simp add: marks_empty)
next
  case (Cons i xs)
  obtain st1 where 1: "f st i = Inr st1" "marks (want_set (fst st) (k, i)) st st1"
    using Cons.prems(2) [of st i] Cons.prems(1) by auto
  then have s: "same_links (fst st) (fst st1)" and v: "vis_ok (fst st1)" by (simp_all add: marks_def)
  obtain st2 where 2: "foldM f st1 xs = Inr st2" "marks (\<Union>i\<in>set xs. want_set (fst st1) (k, i)) st1 st2"
    using Cons.IH [OF v] Cons.prems(2) [OF same_links_trans [OF s]] by auto
  have "(\<Union>i\<in>set xs. want_set (fst st1) (k, i)) = (\<Union>i\<in>set xs. want_set (fst st) (k, i))"
    by (simp add: same_links_wants [OF s] same_links_sel [OF s])
  with marks_trans [OF 1(2) 2(2)] have "marks (\<Union>i\<in>set (i # xs). want_set (fst st) (k, i)) st st2" by simp
  with 1(1) 2(1) show ?case by simp
qed

lemma mark_file_marks:
  assumes "vis_ok c" and "file_ok (rc_files c ! k)"
  shows "\<exists>st'. mark_file k (c, q) = Inr st' \<and> marks (file_succs c k) (c, q) st'"
proof -
  let ?f = "rc_files c ! k"
  have v: "st_visibility (esym_at (rc_files c) (k, i)) < 4" if "i < length (rf_ents ?f)" for i
    using assms(2) that by (simp add: file_ok_def ent_at_def list_all_length)
  have "set (file_entries (rc_files c) k) = Pair k ` {rf_first_global ?f..<length (rf_ents ?f)}"
    using assms(2) by (auto simp: file_entries_def file_ok_def)
  then have s: "file_succs c k = (\<Union>i\<in>set [rf_first_global ?f..<length (rf_ents ?f)]. want_set (fst (c, q)) (k, i))"
    by (simp add: file_succs_def)
  show ?thesis
  proof (cases "rf_is_dso ?f")
    case True
    have "\<exists>st'. foldM (shared_mark_entry k) (c, q) [rf_first_global ?f..<length (rf_ents ?f)] = Inr st' \<and>
        marks (file_succs c k) (c, q) st'"
      unfolding s
    proof (rule foldM_marks, goal_cases)
      case (2 st' i)
      then show ?case using True by (intro shared_mark_entry_marks) (simp_all add: same_links_sel)
    qed (use assms(1) in simp)
    then show ?thesis using True assms(2) by (simp add: mark_file_def file_ok_def Let_def)
  next
    case False
    have "\<exists>st'. foldM (obj_mark_entry k) (c, q) [rf_first_global ?f..<length (rf_ents ?f)] = Inr st' \<and>
        marks (file_succs c k) (c, q) st'"
      unfolding s
    proof (rule foldM_marks, goal_cases)
      case (2 st' i)
      then show ?case using False v by (intro obj_mark_entry_marks) (simp_all add: same_links_sel same_links_ent)
    qed (use assms(1) in simp)
    then show ?thesis using False by (simp add: mark_file_def Let_def)
  qed
qed

subsection \<open>The marking as a mark phase\<close>

definition mark_ok :: "RCtx \<Rightarrow> bool" where
  "mark_ok c \<longleftrightarrow> rctx_ok c \<and> {..<length (rc_files c)} \<subseteq> set (rc_objs c @ rc_dsos c) \<and> vis_ok c \<and>
     (\<forall>s. set_option (y_file (rc_syms c s)) \<subseteq> {..<length (rc_files c)})"

lemma mark_ok_same:
  assumes "same_links c c'" and "vis_ok c'"
  shows "mark_ok c \<Longrightarrow> mark_ok c'"
  using assms same_links_file_ok [OF assms(1)] same_links_sel [OF assms(1)] same_links_ctx [OF assms(1)]
  by (simp add: mark_ok_def)

lemma mark_queue_marks:
  assumes "mark_ok c" and "set q \<subseteq> alive_files c" and "\<And>k. k \<in> alive_files c \<Longrightarrow> k \<in> set q \<or> file_succs c k \<subseteq> alive_files c"
  shows "\<exists>c'. mark_queue q c = Inr c' \<and> same_links c c' \<and> vis_ok c' \<and> alive_files c \<subseteq> alive_files c' \<and>
    (\<forall>k\<in>alive_files c'. file_succs c k \<subseteq> alive_files c') \<and>
    (\<forall>S. alive_files c \<subseteq> S \<longrightarrow> (\<forall>k\<in>S. file_succs c k \<subseteq> S) \<longrightarrow> alive_files c' \<subseteq> S)"
  using assms
proof (induction q c rule: mark_queue.induct)
  case (1 c)
  then show ?case by (auto simp: mark_ok_def)
next
  case (2 k q c)
  have k: "k \<in> alive_files c" using 2 by simp
  have kr: "k \<in> set (rc_objs c @ rc_dsos c)" using k 2(2) by (auto simp: mark_ok_def alive_files_def)
  have "vis_ok c" "file_ok (rc_files c ! k)" using 2(2) rctx_okD(2) [OF _ kr] by (auto simp: mark_ok_def)
  then obtain st where st: "mark_file k (c, []) = Inr st" "marks (file_succs c k) (c, []) st"
    using mark_file_marks by blast
  let ?c = "fst st"
  have al: "rf_alive (rc_files c ! k)" using k by (simp add: alive_files_def)
  have s: "same_links c ?c" "vis_ok ?c" and a: "alive_files ?c = alive_files c \<union> file_succs c k"
    and q: "set (snd st) = file_succs c k - alive_files c" using st(2) by (auto simp: marks_def)
  have su: "file_succs ?c = file_succs c" using same_links_wants(2) [OF s(1)] by blast
  have "\<exists>c'. mark_queue (q @ snd st) ?c = Inr c' \<and> same_links ?c c' \<and> vis_ok c' \<and> alive_files ?c \<subseteq> alive_files c' \<and>
    (\<forall>k\<in>alive_files c'. file_succs ?c k \<subseteq> alive_files c') \<and>
    (\<forall>S. alive_files ?c \<subseteq> S \<longrightarrow> (\<forall>k\<in>S. file_succs ?c k \<subseteq> S) \<longrightarrow> alive_files c' \<subseteq> S)"
  proof (rule 2(1), goal_cases)
    case 1 show ?case using al st(1) by simp
  next
    case 2 show ?case using mark_ok_same [OF s \<open>mark_ok c\<close>] .
  next
    case 3 show ?case using \<open>set (k # q) \<subseteq> alive_files c\<close> a q by auto
  next
    case (4 j)
    then show ?case
      using "2.prems"(3) [of j] a q unfolding su by auto
  qed
  then obtain c' where c': "mark_queue (q @ snd st) ?c = Inr c'" "same_links ?c c'" "vis_ok c'"
      "alive_files ?c \<subseteq> alive_files c'" "\<forall>k\<in>alive_files c'. file_succs c k \<subseteq> alive_files c'"
      "\<And>S. alive_files ?c \<subseteq> S \<Longrightarrow> \<forall>k\<in>S. file_succs c k \<subseteq> S \<Longrightarrow> alive_files c' \<subseteq> S"
    unfolding su by blast
  have "mark_queue (k # q) c = Inr c'" using al st(1) c'(1) by simp
  moreover have "alive_files c' \<subseteq> S" if "alive_files c \<subseteq> S" "\<forall>k\<in>S. file_succs c k \<subseteq> S" for S
    using c'(6) [of S] that k a by blast
  moreover have "same_links c c'" "alive_files c \<subseteq> alive_files c'"
    using same_links_trans [OF s(1) c'(2)] a c'(4) by simp_all
  ultimately show ?case using c'(3, 5) by (intro exI [of _ c'] conjI) simp_all
qed

lemma fold_mark_symbol:
  assumes "mark_ok c"
  shows "same_links c (fold mark_symbol ss c) \<and> vis_ok (fold mark_symbol ss c) \<and>
    alive_files (fold mark_symbol ss c) = alive_files c \<union> {k. \<exists>s\<in>set ss. y_file (rc_syms c s) = Some k}"
  using assms
proof (induction ss arbitrary: c)
  case Nil
  then show ?case by (simp add: mark_ok_def)
next
  case (Cons s ss)
  let ?c = "mark_symbol s c"
  have "same_links c ?c \<and> vis_ok ?c \<and> alive_files ?c = alive_files c \<union> {k. y_file (rc_syms c s) = Some k}"
  proof (cases "y_file (rc_syms c s)")
    case None
    with Cons.prems show ?thesis by (simp add: mark_symbol_def mark_ok_def)
  next
    case (Some k)
    moreover have "set_option (y_file (rc_syms c s)) \<subseteq> {..<length (rc_files c)}"
      using Cons.prems unfolding mark_ok_def by blast
    ultimately have "k < length (rc_files c)" by simp
    with Some Cons.prems same_links_set_alive show ?thesis
      by (auto simp: mark_symbol_def mark_ok_def alive_set_alive)
  qed
  then have c: "same_links c ?c" "vis_ok ?c" "alive_files ?c = alive_files c \<union> {k. y_file (rc_syms c s) = Some k}" by auto
  have "mark_ok ?c" using mark_ok_same [OF c(1, 2) Cons.prems] .
  from Cons.IH [OF this] show ?case
    using c(3) same_links_trans [OF c(1)] same_links_sel(8) [OF c(1)] by (simp add: Un_assoc Collect_disj_eq [symmetric])
qed

definition root_files :: "RCtx \<Rightarrow> nat set" where
  "root_files c = alive_files c \<union> {k. \<exists>s\<in>set (rc_undefined c @ rc_require_defined c). y_file (rc_syms c s) = Some k}"

definition marked_files :: "RCtx \<Rightarrow> nat set" where
  "marked_files c = (case mark_live_objects c of Inl e \<Rightarrow> {} | Inr c' \<Rightarrow> alive_files c')"

lemma mark_live_objects_marks:
  assumes "mark_ok c"
  shows "\<exists>c'. mark_live_objects c = Inr c' \<and> same_links c c' \<and> vis_ok c' \<and> root_files c \<subseteq> alive_files c' \<and>
    (\<forall>k\<in>alive_files c'. file_succs c k \<subseteq> alive_files c') \<and>
    (\<forall>S. root_files c \<subseteq> S \<longrightarrow> (\<forall>k\<in>S. file_succs c k \<subseteq> S) \<longrightarrow> alive_files c' \<subseteq> S)"
proof -
  define c1 where "c1 = fold mark_symbol (rc_undefined c @ rc_require_defined c) c"
  have c1: "same_links c c1" "vis_ok c1" "alive_files c1 = root_files c"
    using fold_mark_symbol [OF assms, of "rc_undefined c @ rc_require_defined c"]
    unfolding c1_def root_files_def by blast+
  have ok: "mark_ok c1" using mark_ok_same [OF c1(1, 2) assms] .
  let ?q = "filter (\<lambda>k. rf_alive (rc_files c1 ! k)) (rc_objs c1) @ filter (\<lambda>k. rf_alive (rc_files c1 ! k)) (rc_dsos c1)"
  have "set (rc_objs c1 @ rc_dsos c1) = {..<length (rc_files c1)}"
    using ok by (auto simp: mark_ok_def rctx_ok_def list_all_iff)
  then have "set ?q = alive_files c1" unfolding alive_files_def by auto
  moreover have "mark_live_objects c = mark_queue ?q c1" by (simp add: mark_live_objects_def c1_def Let_def)
  ultimately show ?thesis
    using mark_queue_marks [OF ok, of ?q] c1 same_links_trans [OF c1(1)] same_links_wants(2) [OF c1(1)] by auto
qed

interpretation archive_mark: mark_phase mark_ok file_succs "\<lambda>_. {}" root_files marked_files
proof (unfold_locales, goal_cases)
  case (3 c)
  then obtain c' where c': "mark_live_objects c = Inr c'"
    and least: "\<And>S. root_files c \<subseteq> S \<Longrightarrow> \<forall>k\<in>S. file_succs c k \<subseteq> S \<Longrightarrow> alive_files c' \<subseteq> S"
    using mark_live_objects_marks by blast
  have "alive_files c' \<subseteq> reach (file_succs c) {} (root_files c)"
    by (rule least) (auto intro: reach.intros)
  then show ?case by (simp add: marked_files_def c')
next
  case (2 c)
  then obtain c' where "mark_live_objects c = Inr c'" "root_files c \<subseteq> alive_files c'"
    using mark_live_objects_marks by blast
  then show ?case by (simp add: marked_files_def)
next
  case (4 c k)
  then obtain c' where "mark_live_objects c = Inr c'" "\<forall>k\<in>alive_files c'. file_succs c k \<subseteq> alive_files c'"
    using mark_live_objects_marks by blast
  with 4(2) show ?case by (simp add: marked_files_def)
qed simp

subsection \<open>Clearing\<close>

definition cleared :: "RSymbol \<Rightarrow> RSymbol" where
  "cleared y = y \<lparr> y_isec := None, y_value := - 1, y_sym_idx := - 1, y_ver_idx := 0,
     y_is_weak := False, y_is_imported := False, y_is_exported := False, y_file := None \<rparr>"

lemma cleared_sel [simp]: "y_file (cleared y) = None" "y_visibility (cleared y) = y_visibility y"
  by (simp_all add: cleared_def)

abbreviation global_syms :: "RFile \<Rightarrow> nat list" where
  "global_syms f \<equiv> map re_sym (drop (rf_first_global f) (rf_ents f))"

lemma syms_cong: "(\<And>s. ys s = zs s) \<Longrightarrow> c \<lparr> rc_syms := ys \<rparr> = c \<lparr> rc_syms := zs \<rparr>"
  by presburger

lemma fold_clear_symbol:
  "fold (clear_symbol k) ss c = c \<lparr> rc_syms := (\<lambda>s. if s \<in> set ss \<and> y_file (rc_syms c s) = Some k
     then cleared (rc_syms c s) else rc_syms c s) \<rparr>"
proof (induction ss arbitrary: c)
  case (Cons s ss)
  have "clear_symbol k s c = c \<lparr> rc_syms := (\<lambda>s'. if s' = s \<and> y_file (rc_syms c s') = Some k
      then cleared (rc_syms c s') else rc_syms c s') \<rparr>"
    by (auto simp: clear_symbol_def cleared_def Let_def fun_upd_def fun_eq_iff)
  then show ?case unfolding fold_simps comp_def Cons.IH by simp (rule syms_cong, auto)
qed simp

lemma fold_clear_symbols:
  "fold clear_symbols ks c = c \<lparr> rc_syms := (\<lambda>s. if \<exists>k\<in>set ks. s \<in> set (global_syms (rc_files c ! k)) \<and> y_file (rc_syms c s) = Some k
     then cleared (rc_syms c s) else rc_syms c s) \<rparr>"
proof (induction ks arbitrary: c)
  case (Cons k ks)
  show ?case
    unfolding fold_simps comp_def Cons.IH
    by (simp add: clear_symbols_def Let_def fold_clear_symbol)
      (rule syms_cong, auto simp: clear_symbols_def Let_def fold_clear_symbol)
qed simp

lemma clear_pass:
  assumes "\<And>s k. y_file (rc_syms c s) = Some k \<Longrightarrow> k \<in> set (rc_objs c @ rc_dsos c) \<and> s \<in> set (global_syms (rc_files c ! k))"
  shows "for_each_file clear_symbols c =
    c \<lparr> rc_syms := (\<lambda>s. if y_file (rc_syms c s) = None then rc_syms c s else cleared (rc_syms c s)) \<rparr>"
proof -
  have "for_each_file clear_symbols c = fold clear_symbols (rc_objs c @ rc_dsos c) c" by (simp add: for_each_file_def)
  also have "\<dots> = c \<lparr> rc_syms := (\<lambda>s. if y_file (rc_syms c s) = None then rc_syms c s else cleared (rc_syms c s)) \<rparr>"
    unfolding fold_clear_symbols by (rule syms_cong) (use assms in force)
  finally show ?thesis .
qed

subsection \<open>The symbols after a pass\<close>

lemma pass_syms:
  assumes "rctx_ok c" and "unclaimed c"
  defines "P s \<equiv> {p \<in> set (all_entries c). sym_at (rc_files c) p = s}"
  shows "(\<forall>p\<in>P s. \<not> eligible (rc_files c) p) \<and> rc_syms (for_each_file resolve_symbols_file c) s = rc_syms c s \<or>
    (\<exists>p. strongest (rc_files c) (P s) p \<and>
      rc_syms (for_each_file resolve_symbols_file c) s = bind_sym (rc_files c) (rc_default_version c) p (rc_syms c s))"
  using fold_claim [of "rc_syms c s" "filter (\<lambda>p. sym_at (rc_files c) p = s) (all_entries c)" "rc_files c" "rc_default_version c"]
    entry_ok_all [OF assms(1)] assms(2)
  by (simp add: resolve_pass fold_claim_syms P_def)

lemma bind_sym_file [simp]: "y_file (bind_sym fs dv p y) = Some (fst p)" "y_visibility (bind_sym fs dv p y) = y_visibility y"
  by (simp_all add: bind_sym_def Let_def)

lemma pass_file:
  assumes "rctx_ok c" and "unclaimed c" and "y_file (rc_syms (for_each_file resolve_symbols_file c) s) = Some k"
  shows "k \<in> set (rc_objs c @ rc_dsos c) \<and> s \<in> set (global_syms (rc_files c ! k))"
proof -
  obtain p where p: "p \<in> set (all_entries c)" "sym_at (rc_files c) p = s" "fst p = k"
    using pass_syms [OF assms(1, 2), of s] assms(2, 3) by (auto simp: strongest_def)
  note d = all_entriesD [OF assms(1) p(1)]
  have "global_syms (rc_files c ! k) ! (snd p - rf_first_global (rc_files c ! k)) = s"
    "snd p - rf_first_global (rc_files c ! k) < length (global_syms (rc_files c ! k))"
    using d p by (auto simp: ent_at_def split: prod.splits)
  then show ?thesis using d(1) p(3) nth_mem by metis
qed

subsection \<open>Archive extraction\<close>

definition input_ok :: "RCtx \<Rightarrow> bool" where
  "input_ok c \<longleftrightarrow> rctx_ok c \<and> {..<length (rc_files c)} \<subseteq> set (rc_objs c @ rc_dsos c) \<and> vis_ok c \<and> unclaimed c"

text \<open>The files that are needed: reachable, after the preliminary resolution, from the files of the command line.\<close>

abbreviation prelim :: "RCtx \<Rightarrow> RCtx" where
  "prelim c \<equiv> for_each_file resolve_symbols_file c"

definition needed_files :: "RCtx \<Rightarrow> nat set" where
  "needed_files c = reach (file_succs (prelim c)) {} (root_files (prelim c))"

lemma pass_sel [simp]:
  "rc_files (prelim c) = rc_files c" "rc_objs (prelim c) = rc_objs c" "rc_dsos (prelim c) = rc_dsos c"
  "rc_owner (prelim c) = rc_owner c" "rc_default_version (prelim c) = rc_default_version c"
  by (simp_all add: resolve_pass)

lemma rctx_ok_pass [simp]: "rctx_ok (prelim c) = rctx_ok c"
  by (simp add: rctx_ok_def)

lemma mark_ok_prelim:
  assumes "input_ok c"
  shows "mark_ok (prelim c)"
proof -
  have c: "rctx_ok c" "unclaimed c" "vis_ok c" "{..<length (rc_files c)} \<subseteq> set (rc_objs c @ rc_dsos c)"
    using assms by (auto simp: input_ok_def)
  have v: "y_visibility (rc_syms (prelim c) s) \<in> {0, 2, 3}" for s
    using pass_syms [OF c(1, 2), of s] c(3) unfolding vis_ok_def by (elim disjE exE conjE) (simp_all only: bind_sym_file)
  have "set_option (y_file (rc_syms (prelim c) s)) \<subseteq> {..<length (rc_files c)}" for s
    using pass_file [OF c(1, 2), of s] rctx_okD(1) [OF c(1)] by auto
  with c v show ?thesis by (auto simp: mark_ok_def vis_ok_def)
qed

lemma extract_eq:
  assumes "input_ok c"
  shows "\<exists>c'. extract_archive_members c = Inr c' \<and> unclaimed c' \<and> vis_ok c' \<and>
    length (rc_files c') = length (rc_files c) \<and>
    (\<forall>k < length (rc_files c). rc_files c' ! k = (rc_files c ! k) \<lparr> rf_alive := k \<in> needed_files c \<rparr>) \<and>
    rc_objs c' = filter (\<lambda>k. k \<in> needed_files c) (rc_objs c) \<and>
    rc_dsos c' = filter (\<lambda>k. k \<in> needed_files c) (rc_dsos c) \<and>
    rc_owner c' = rc_owner c \<and> rc_default_version c' = rc_default_version c"
proof -
  let ?c = "prelim c"
  have ok: "rctx_ok c" "unclaimed c" using assms by (auto simp: input_ok_def)
  have m: "mark_ok ?c" using mark_ok_prelim [OF assms] .
  obtain c1 where c1: "mark_live_objects ?c = Inr c1" "same_links ?c c1" "vis_ok c1"
    using mark_live_objects_marks [OF m] by blast
  have al: "alive_files c1 = needed_files c"
    using archive_mark.marked_iff [OF m] c1(1) by (auto simp: marked_files_def needed_files_def)
  note sel = same_links_sel [OF c1(2)] and ctx = same_links_ctx [OF c1(2)]
  have cl: "for_each_file clear_symbols c1 =
      c1 \<lparr> rc_syms := (\<lambda>s. if y_file (rc_syms c1 s) = None then rc_syms c1 s else cleared (rc_syms c1 s)) \<rparr>"
    by (rule clear_pass) (use pass_file [OF ok] in \<open>simp add: sel ctx\<close>)
  define c' where "c' = erase_dead (for_each_file clear_symbols c1)"
  have files: "rc_files c1 ! k = (rc_files c ! k) \<lparr> rf_alive := k \<in> needed_files c \<rparr>" if "k < length (rc_files c)" for k
  proof -
    have "(rc_files c1 ! k) \<lparr> rf_alive := True \<rparr> = (rc_files c ! k) \<lparr> rf_alive := True \<rparr>"
      using c1(2) by (simp add: same_links_def)
    moreover have "rf_alive (rc_files c1 ! k) = (k \<in> needed_files c)"
      using al that sel(1) by (auto simp: alive_files_def)
    ultimately show ?thesis by (cases "rc_files c1 ! k"; cases "rc_files c ! k") simp
  qed
  have lists: "filter (\<lambda>k. rf_alive (rc_files c1 ! k)) ks = filter (\<lambda>k. k \<in> needed_files c) ks"
    if "set ks \<subseteq> set (rc_objs c @ rc_dsos c)" for ks
    using that rctx_okD(1) [OF ok(1)] files by (intro filter_cong) auto
  have "extract_archive_members c = Inr c'" by (simp add: extract_archive_members_def c1(1) c'_def)
  moreover have "unclaimed c' \<and> vis_ok c'" using c1(3) by (auto simp: c'_def erase_dead_def cl vis_ok_def)
  moreover have "rc_files c' = rc_files c1" by (simp add: c'_def erase_dead_def cl)
  moreover have "rc_objs c' = filter (\<lambda>k. k \<in> needed_files c) (rc_objs c)"
    "rc_dsos c' = filter (\<lambda>k. k \<in> needed_files c) (rc_dsos c)"
    using ctx by (simp_all add: c'_def erase_dead_def cl lists)
  moreover have "rc_owner c' = rc_owner c" "rc_default_version c' = rc_default_version c"
    using ctx by (simp_all add: c'_def erase_dead_def cl)
  ultimately show ?thesis using files sel(1) by (intro exI [of _ c']) simp
qed

text \<open>
  C23: archive extraction takes in exactly the needed files. A file stays in the link, and is alive, exactly if it was given
  on the command line, defines (by the preliminary resolution, in which a member of an archive is weaker than
  everything else) a symbol that must be defined, or is kept by such a file: by a
  non-weak undefined symbol, by a common symbol that has a proper definition, or by an undefined symbol of a
  shared file. Afterwards no symbol is bound.
\<close>

theorem archive_extraction_exact:
  assumes "input_ok c"
  shows "\<exists>c'. extract_archive_members c = Inr c' \<and> unclaimed c' \<and>
    rc_objs c' = filter (\<lambda>k. k \<in> reach (file_succs (prelim c)) {} (root_files (prelim c))) (rc_objs c) \<and>
    rc_dsos c' = filter (\<lambda>k. k \<in> reach (file_succs (prelim c)) {} (root_files (prelim c))) (rc_dsos c) \<and>
    alive_files c' = reach (file_succs (prelim c)) {} (root_files (prelim c))"
proof -
  obtain c' where c': "extract_archive_members c = Inr c'" "unclaimed c'" "length (rc_files c') = length (rc_files c)"
    "\<forall>k < length (rc_files c). rc_files c' ! k = (rc_files c ! k) \<lparr> rf_alive := k \<in> needed_files c \<rparr>"
    "rc_objs c' = filter (\<lambda>k. k \<in> needed_files c) (rc_objs c)" "rc_dsos c' = filter (\<lambda>k. k \<in> needed_files c) (rc_dsos c)"
    using extract_eq [OF assms] by blast
  have "needed_files c \<subseteq> {..<length (rc_files c)}"
    unfolding needed_files_def
    by (rule reach_least) (use mark_ok_prelim [OF assms] in \<open>auto simp: root_files_def alive_files_def file_succs_def mark_ok_def\<close>)
  then have "alive_files c' = needed_files c" using c'(3, 4) by (auto simp: alive_files_def)
  with c' show ?thesis unfolding needed_files_def by (intro exI [of _ c']) simp
qed

subsection \<open>COMDAT groups\<close>

abbreviation groups_of :: "RCtx \<Rightarrow> nat \<Rightarrow> nat set" where
  "groups_of c k \<equiv> fst ` set (rf_comdats (rc_files c ! k))"

abbreviation prio :: "RCtx \<Rightarrow> nat \<Rightarrow> u32" where
  "prio c k \<equiv> rf_priority (rc_files c ! k)"

lemma fold_claim_group: "fold (claim_group pr) gs owner g = (if g \<in> set gs then min pr (owner g) else owner g)"
  by (induction gs arbitrary: owner) (auto simp: claim_group_def min_def)

lemma fold_claim_groups:
  "fold claim_groups ks c = c \<lparr> rc_owner := (\<lambda>g. fold (\<lambda>k. min (prio c k)) (filter (\<lambda>k. g \<in> groups_of c k) ks) (rc_owner c g)) \<rparr>"
proof (induction ks arbitrary: c)
  case (Cons k ks)
  have "claim_groups k c = c \<lparr> rc_owner := (\<lambda>g. if g \<in> groups_of c k then min (prio c k) (rc_owner c g) else rc_owner c g) \<rparr>"
    by (simp add: claim_groups_def Let_def fun_eq_iff fold_claim_group image_image)
  then show ?case
    unfolding fold_simps comp_def Cons.IH by simp (rule arg_cong [where f = "\<lambda>w. rc_owner_update w c"], auto simp: fun_eq_iff)
qed simp

lemma fold_min_owner:
  "fold (\<lambda>k. min (p k)) ks (a :: u32) \<le> a \<and> (\<forall>k\<in>set ks. fold (\<lambda>k. min (p k)) ks a \<le> p k) \<and>
   (fold (\<lambda>k. min (p k)) ks a = a \<or> (\<exists>k\<in>set ks. fold (\<lambda>k. min (p k)) ks a = p k))"
proof (induction ks arbitrary: a)
  case (Cons k ks)
  let ?m = "fold (\<lambda>k. min (p k)) ks (min (p k) a)"
  have "?m \<le> min (p k) a" "\<forall>k\<in>set ks. ?m \<le> p k" "?m = min (p k) a \<or> (\<exists>k\<in>set ks. ?m = p k)"
    using Cons.IH [of "min (p k) a"] by auto
  moreover have "min (p k) a = p k \<or> min (p k) a = a" by (simp add: min_def)
  ultimately show ?case by auto
qed simp

lemma fold_kill_section:
  "length (fold kill_section js secs) = length secs \<and>
   (\<forall>i < length secs. fold kill_section js secs ! i = (if i \<in> set js then map_option (\<lambda>_. False) (secs ! i) else secs ! i))"
proof (induction js arbitrary: secs)
  case (Cons j js)
  have l: "length (kill_section j secs) = length secs" by (simp add: kill_section_def)
  have n: "kill_section j secs ! i = (if i = j then map_option (\<lambda>_. False) (secs ! i) else secs ! i)"
    if "i < length secs" for i
    using that by (simp add: kill_section_def nth_list_update)
  show ?case using Cons.IH [of "kill_section j secs"] unfolding l by (auto simp: n l option.map_comp comp_def)
qed simp

definition dup_members :: "RCtx \<Rightarrow> nat \<Rightarrow> nat list" where
  "dup_members c k = concat (map snd (filter (\<lambda>(g, members). rc_owner c g \<noteq> prio c k) (rf_comdats (rc_files c ! k))))"

lemma fold_kill_groups:
  assumes "distinct ks" and "\<forall>k\<in>set ks. k < length (rc_files c)"
  shows "\<exists>fs. fold kill_groups ks c = c \<lparr> rc_files := fs \<rparr> \<and> length fs = length (rc_files c) \<and>
    (\<forall>k. fs ! k = (if k \<in> set ks
       then (rc_files c ! k) \<lparr> rf_sections := fold kill_section (dup_members c k) (rf_sections (rc_files c ! k)) \<rparr>
       else rc_files c ! k))"
  using assms
proof (induction ks arbitrary: c)
  case (Cons k ks)
  define f where "f = (rc_files c ! k) \<lparr> rf_sections := fold kill_section (dup_members c k) (rf_sections (rc_files c ! k)) \<rparr>"
  let ?c = "c \<lparr> rc_files := (rc_files c) [k := f] \<rparr>"
  have k: "kill_groups k c = ?c" by (simp add: kill_groups_def Let_def f_def dup_members_def)
  obtain fs where fs: "fold kill_groups ks ?c = ?c \<lparr> rc_files := fs \<rparr>" "length fs = length (rc_files ?c)"
    "\<forall>j. fs ! j = (if j \<in> set ks
       then (rc_files ?c ! j) \<lparr> rf_sections := fold kill_section (dup_members ?c j) (rf_sections (rc_files ?c ! j)) \<rparr>
       else rc_files ?c ! j)"
    using Cons.IH [of ?c] Cons.prems by auto
  have "dup_members ?c j = dup_members c j" if "j \<noteq> k" for j using that by (simp add: dup_members_def)
  then show ?case
    using fs Cons.prems k unfolding f_def by (intro exI [of _ fs]) (auto simp: nth_list_update split: if_splits)
qed (auto intro!: exI [of _ "rc_files c" for c])

lemma eliminate_comdats_eq:
  assumes "rctx_ok c"
  shows "\<exists>fs owner. eliminate_comdats c = c \<lparr> rc_files := fs, rc_owner := owner \<rparr> \<and> length fs = length (rc_files c) \<and>
    (\<forall>g. owner g = fold (\<lambda>k. min (prio c k)) (filter (\<lambda>k. g \<in> groups_of c k) (rc_objs c)) (rc_owner c g)) \<and>
    (\<forall>k. fs ! k = (if k \<in> set (rc_objs c)
       then (rc_files c ! k) \<lparr> rf_sections := fold kill_section (dup_members (c \<lparr> rc_owner := owner \<rparr>) k) (rf_sections (rc_files c ! k)) \<rparr>
       else rc_files c ! k))"
proof -
  define owner where "owner g = fold (\<lambda>k. min (prio c k)) (filter (\<lambda>k. g \<in> groups_of c k) (rc_objs c)) (rc_owner c g)" for g
  let ?c = "c \<lparr> rc_owner := owner \<rparr>"
  have c1: "fold claim_groups (rc_objs c) c = ?c" unfolding fold_claim_groups owner_def ..
  have "distinct (map (prio c) (rc_objs c @ rc_dsos c))" using assms by (simp only: rctx_ok_def)
  then have "distinct (rc_objs c)" by (simp add: distinct_map)
  moreover have "\<forall>k\<in>set (rc_objs c). k < length (rc_files ?c)" using rctx_okD(1) [OF assms] by simp
  ultimately obtain fs where "fold kill_groups (rc_objs c) ?c = ?c \<lparr> rc_files := fs \<rparr>" "length fs = length (rc_files c)"
    "\<forall>k. fs ! k = (if k \<in> set (rc_objs c)
       then (rc_files c ! k) \<lparr> rf_sections := fold kill_section (dup_members ?c k) (rf_sections (rc_files c ! k)) \<rparr>
       else rc_files c ! k)"
    using fold_kill_groups [of "rc_objs c" ?c] by auto
  then show ?thesis
    unfolding eliminate_comdats_def Let_def c1 by (intro exI [of _ fs] exI [of _ owner]) (auto simp: owner_def)
qed

lemma owner_iff:
  assumes "owner = fold (\<lambda>k. min (prio c k)) (filter (\<lambda>k. g \<in> groups_of c k) (rc_objs c)) (- 1)"
    and "k \<in> set (rc_objs c)" and "g \<in> groups_of c k"
  shows "owner = prio c k \<longleftrightarrow> (\<forall>j\<in>set (rc_objs c). g \<in> groups_of c j \<longrightarrow> prio c k \<le> prio c j)"
proof -
  note m = fold_min_owner [of "prio c" "filter (\<lambda>k. g \<in> groups_of c k) (rc_objs c)" "- 1", folded assms(1)]
  have le: "owner \<le> prio c k" using m assms(2, 3) by auto
  show ?thesis
  proof
    assume "owner = prio c k"
    then show "\<forall>j\<in>set (rc_objs c). g \<in> groups_of c j \<longrightarrow> prio c k \<le> prio c j" using m by auto
  next
    assume r: "\<forall>j\<in>set (rc_objs c). g \<in> groups_of c j \<longrightarrow> prio c k \<le> prio c j"
    from m consider "owner = - 1" | j where "j \<in> set (rc_objs c)" "g \<in> groups_of c j" "owner = prio c j" by auto
    then show "owner = prio c k"
    proof cases
      case 1
      then show ?thesis using le by (metis word_order.extremum_unique)
    qed (use le r in auto)
  qed
qed

text \<open>
  C25: COMDAT elimination keeps one copy of every group, whatever the threads do first. A section stays alive exactly
  if it was and if, for every group its file lists it under, no object file that has
  the group has a smaller priority.
\<close>

theorem comdat_one_owner:
  assumes "rctx_ok c" and "\<forall>g. rc_owner c g = - 1" and "k \<in> set (rc_objs c)"
  shows "section_alive (rc_files (eliminate_comdats c) ! k) i \<longleftrightarrow> section_alive (rc_files c ! k) i \<and>
    (\<forall>(g, members) \<in> set (rf_comdats (rc_files c ! k)). i \<in> set members \<longrightarrow>
       (\<forall>j\<in>set (rc_objs c). g \<in> fst ` set (rf_comdats (rc_files c ! j)) \<longrightarrow>
          rf_priority (rc_files c ! k) \<le> rf_priority (rc_files c ! j)))"
proof -
  obtain fs owner where e: "eliminate_comdats c = c \<lparr> rc_files := fs, rc_owner := owner \<rparr>"
    and o: "\<And>g. owner g = fold (\<lambda>k. min (prio c k)) (filter (\<lambda>k. g \<in> groups_of c k) (rc_objs c)) (- 1)"
    and f: "fs ! k = (rc_files c ! k) \<lparr> rf_sections := fold kill_section (dup_members (c \<lparr> rc_owner := owner \<rparr>) k)
        (rf_sections (rc_files c ! k)) \<rparr>"
    using eliminate_comdats_eq [OF assms(1)] assms(2, 3) by auto
  have "section_alive (fs ! k) i \<longleftrightarrow> section_alive (rc_files c ! k) i \<and> i \<notin> set (dup_members (c \<lparr> rc_owner := owner \<rparr>) k)"
    using fold_kill_section [of "dup_members (c \<lparr> rc_owner := owner \<rparr>) k" "rf_sections (rc_files c ! k)"]
    by (auto simp: f section_alive_def split: if_splits)
  also have "i \<notin> set (dup_members (c \<lparr> rc_owner := owner \<rparr>) k) \<longleftrightarrow>
      (\<forall>(g, members) \<in> set (rf_comdats (rc_files c ! k)). i \<in> set members \<longrightarrow> owner g = prio c k)"
    by (auto simp: dup_members_def)
  also have "\<dots> \<longleftrightarrow> (\<forall>(g, members) \<in> set (rf_comdats (rc_files c ! k)). i \<in> set members \<longrightarrow>
       (\<forall>j\<in>set (rc_objs c). g \<in> groups_of c j \<longrightarrow> prio c k \<le> prio c j))"
    using owner_iff [OF o assms(3)] by (intro ball_cong) (auto simp: image_iff Bex_def)
  finally show ?thesis by (simp add: e)
qed

subsection \<open>The whole resolution\<close>

lemma rctx_ok_filter:
  assumes "rctx_ok c" and "rc_objs c' = filter P (rc_objs c)" and "rc_dsos c' = filter P (rc_dsos c)"
    and "length (rc_files c') = length (rc_files c)"
    and same: "\<And>k. k < length (rc_files c) \<Longrightarrow> file_ok (rc_files c' ! k) = file_ok (rc_files c ! k) \<and>
      rf_is_dso (rc_files c' ! k) = rf_is_dso (rc_files c ! k) \<and> prio c' k = prio c k"
  shows "rctx_ok c'"
proof -
  let ?ks = "rc_objs c @ rc_dsos c"
  have r: "k < length (rc_files c)" if "k \<in> set ?ks" for k using rctx_okD(1) [OF assms(1) that] .
  have ks: "rc_objs c' @ rc_dsos c' = filter P ?ks" using assms(2, 3) by simp
  have "map (prio c') (filter P ?ks) = map (prio c) (filter P ?ks)" using same r by (intro map_cong) auto
  moreover have "distinct (map (prio c) (filter P ?ks))"
    using assms(1) unfolding rctx_ok_def by (metis distinct_map_filter)
  ultimately have "distinct (map (prio c') (rc_objs c' @ rc_dsos c'))" unfolding ks by (simp only:)
  moreover have "list_all (\<lambda>k. k < length (rc_files c') \<and> file_ok (rc_files c' ! k)) (rc_objs c' @ rc_dsos c')"
    unfolding ks using rctx_okD [OF assms(1)] same assms(4) by (auto simp: list_all_iff)
  moreover have "list_all (\<lambda>k. \<not> rf_is_dso (rc_files c' ! k)) (rc_objs c')" "list_all (\<lambda>k. rf_is_dso (rc_files c' ! k)) (rc_dsos c')"
    using assms(1) same r unfolding rctx_ok_def assms(2, 3) by (auto simp: list_all_iff)
  ultimately show ?thesis unfolding rctx_ok_def by blast
qed

lemma file_ok_upd [simp]:
  "file_ok (f \<lparr> rf_alive := b \<rparr>) = file_ok f"
  "length secs = length (rf_sections f) \<Longrightarrow> file_ok (f \<lparr> rf_sections := secs \<rparr>) = file_ok f"
  by (simp_all add: file_ok_def)

text \<open>
  C1: symbol resolution as a whole. From well-formed input it ends without an error. The link keeps exactly the needed
  files; a symbol is unbound exactly if no kept file defines it in a section that
  survives; otherwise it is bound to the definition of least rank among those, where strong
  definitions of object files come first, then weak ones, then those of shared files, then common
  symbols, and ties go to the smaller priority. All fields of the symbol come from that definition, its file is alive,
  and its section, if it has one, is alive: no symbol refers into a file or a section that was dropped.
\<close>

theorem do_resolve_symbols_exact:
  assumes "input_ok c" and "\<forall>g. rc_owner c g = - 1"
  shows "\<exists>c'. do_resolve_symbols c = Inr c' \<and>
    rc_objs c' = filter (\<lambda>k. k \<in> needed_files c) (rc_objs c) \<and> rc_dsos c' = filter (\<lambda>k. k \<in> needed_files c) (rc_dsos c) \<and>
    (\<forall>s. case y_file (rc_syms c' s) of
       None \<Rightarrow> \<not> (\<exists>p\<in>set (all_entries c'). sym_at (rc_files c') p = s \<and> eligible (rc_files c') p)
     | Some k \<Rightarrow> k \<in> set (rc_objs c' @ rc_dsos c') \<and> rf_alive (rc_files c' ! k) \<and>
         (case y_isec (rc_syms c' s) of None \<Rightarrow> True | Some j \<Rightarrow> section_alive (rc_files c' ! k) j) \<and>
         (\<exists>i. strongest (rc_files c') {p \<in> set (all_entries c'). sym_at (rc_files c') p = s} (k, i) \<and>
            rc_syms c' s = bind_sym (rc_files c') (rc_default_version c) (k, i) (rc_syms c' s)))"
proof -
  have ok: "rctx_ok c" using assms(1) by (simp add: input_ok_def)
  obtain c1 where c1: "extract_archive_members c = Inr c1" "unclaimed c1" "length (rc_files c1) = length (rc_files c)"
    "\<And>k. k < length (rc_files c) \<Longrightarrow> rc_files c1 ! k = (rc_files c ! k) \<lparr> rf_alive := k \<in> needed_files c \<rparr>"
    "rc_objs c1 = filter (\<lambda>k. k \<in> needed_files c) (rc_objs c)" "rc_dsos c1 = filter (\<lambda>k. k \<in> needed_files c) (rc_dsos c)"
    "rc_owner c1 = rc_owner c" "rc_default_version c1 = rc_default_version c"
    using extract_eq [OF assms(1)] by blast
  have ok1: "rctx_ok c1" by (rule rctx_ok_filter [OF ok c1(5, 6, 3)]) (simp add: c1(4))
  obtain fs owner where c2: "eliminate_comdats c1 = c1 \<lparr> rc_files := fs, rc_owner := owner \<rparr>"
    "length fs = length (rc_files c1)"
    "\<And>k. fs ! k = (if k \<in> set (rc_objs c1) then (rc_files c1 ! k) \<lparr> rf_sections :=
        fold kill_section (dup_members (c1 \<lparr> rc_owner := owner \<rparr>) k) (rf_sections (rc_files c1 ! k)) \<rparr> else rc_files c1 ! k)"
    using eliminate_comdats_eq [OF ok1] by blast
  define c2 where "c2 = eliminate_comdats c1"
  have ok2: "rctx_ok c2"
    by (rule rctx_ok_filter [OF ok1, where P = "\<lambda>_. True"])
      (simp_all add: c2_def c2(1) c2(2) c2(3) fold_kill_section)
  have un2: "unclaimed c2" using c1(2) by (simp add: c2_def c2(1))
  define c' where "c' = for_each_file resolve_symbols_file c2"
  have lists: "rc_objs c' = rc_objs c1" "rc_dsos c' = rc_dsos c1" "rc_files c' = rc_files c2" "rc_files c2 = fs"
    "all_entries c' = all_entries c2" "rc_default_version c2 = rc_default_version c"
    by (simp_all add: c'_def c2_def c2(1) all_entries_def c1(8))
  have alive: "rf_alive (fs ! k)" if "k \<in> set (rc_objs c1 @ rc_dsos c1)" for k
    using that rctx_okD(1) [OF ok, of k] by (auto simp: c2(3) c1(4) c1(5) c1(6))
  have "case y_file (rc_syms c' s) of
       None \<Rightarrow> \<not> (\<exists>p\<in>set (all_entries c'). sym_at (rc_files c') p = s \<and> eligible (rc_files c') p)
     | Some k \<Rightarrow> k \<in> set (rc_objs c' @ rc_dsos c') \<and> rf_alive (rc_files c' ! k) \<and>
         (case y_isec (rc_syms c' s) of None \<Rightarrow> True | Some j \<Rightarrow> section_alive (rc_files c' ! k) j) \<and>
         (\<exists>i. strongest (rc_files c') {p \<in> set (all_entries c'). sym_at (rc_files c') p = s} (k, i) \<and>
            rc_syms c' s = bind_sym (rc_files c') (rc_default_version c) (k, i) (rc_syms c' s))" for s
    using pass_syms [OF ok2 un2, of s]
  proof (elim disjE exE conjE)
    assume "\<forall>p\<in>{p \<in> set (all_entries c2). sym_at (rc_files c2) p = s}. \<not> eligible (rc_files c2) p"
      and "rc_syms (for_each_file resolve_symbols_file c2) s = rc_syms c2 s"
    with un2 show ?thesis unfolding lists c'_def [symmetric] by auto
  next
    fix p assume p: "strongest (rc_files c2) {p \<in> set (all_entries c2). sym_at (rc_files c2) p = s} p"
      and y: "rc_syms (for_each_file resolve_symbols_file c2) s = bind_sym (rc_files c2) (rc_default_version c2) p (rc_syms c2 s)"
    have y': "rc_syms c' s = bind_sym fs (rc_default_version c) p (rc_syms c2 s)" using y by (simp add: c'_def [symmetric] lists)
    have pe: "p \<in> set (all_entries c2)" "eligible fs p" using p by (auto simp: strongest_def lists)
    have k: "fst p \<in> set (rc_objs c1 @ rc_dsos c1)" using all_entriesD(1) [OF ok2 pe(1)] by (simp add: c2_def c2(1))
    have "case y_isec (rc_syms c' s) of None \<Rightarrow> True | Some j \<Rightarrow> section_alive (fs ! fst p) j"
      using pe(2) by (auto simp: y' bind_sym_def eligible_def Let_def)
    then show ?thesis using p k alive [OF k] y' unfolding lists by (auto intro!: exI [of _ "snd p"])
  qed
  moreover have "do_resolve_symbols c = Inr c'" by (simp add: do_resolve_symbols_def c1(1) c'_def c2_def)
  ultimately show ?thesis using c1(5, 6) lists(1, 2) by (intro exI [of _ c']) simp
qed

subsection \<open>An example\<close>

definition ex_esym :: "u16 \<Rightarrow> ElfSym" where
  "ex_esym shndx = \<lparr> st_name = 0, st_type = 0, st_bind = 1, st_visibility = 0, st_rsv = 0, ppc_local_entry = 0,
     st_shndx = shndx, st_value = 0x10, st_size = 0 \<rparr>"

definition ex_file :: "bool \<Rightarrow> u32 \<Rightarrow> u16 \<Rightarrow> nat \<Rightarrow> (nat \<times> nat list) list \<Rightarrow> RFile" where
  "ex_file alive pr shndx s groups = \<lparr> rf_is_dso = False, rf_alive = alive, rf_priority = pr, rf_first_global = 0,
     rf_ents = [\<lparr> re_esym = ex_esym shndx, re_sym = s, re_xindex = 0, re_versym = 0 \<rparr>],
     rf_sections = [None, Some True], rf_comdats = groups, rf_exclude_libs = False \<rparr>"

text \<open>A file that needs symbol 0, two archive members that define the symbols 0 and 1, and a file that defines symbol 2.\<close>

definition ex_ctx :: RCtx where
  "ex_ctx = \<lparr> rc_files = [ex_file True 10000 0 0 [], ex_file False 10001 1 0 [(0, [1])], ex_file False 10002 1 1 [],
       ex_file True 10003 1 2 [(0, [1])]],
     rc_objs = [0, 1, 2, 3], rc_dsos = [], rc_syms = (\<lambda>_. \<lparr> y_file = None, y_isec = None, y_value = 0, y_sym_idx = - 1,
       y_ver_idx = 0, y_is_weak = False, y_is_imported = False, y_is_exported = False, y_visibility = 0 \<rparr>),
     rc_owner = (\<lambda>_. - 1), rc_default_version = 1, rc_undefined = [], rc_require_defined = [] \<rparr>"

lemma ex_input_ok: "input_ok ex_ctx" and ex_rctx_ok: "rctx_ok ex_ctx"
proof -
  have c: "\<not> sym_is_common (ex_esym 0)" "\<not> sym_is_common (ex_esym 1)" "\<not> sym_is_abs (ex_esym 0)" "\<not> sym_is_abs (ex_esym 1)"
    by (simp_all add: sym_is_common_def sym_is_abs_def ex_esym_def SHN_COMMON_def SHN_ABS_def)
  have f: "file_ok (ex_file a pr n s gs)" if "pr < 2 ^ 24" "n \<in> {0, 1}" "gs \<in> {[], [(0, [1])]}" for a pr n s gs
    using that c by (auto simp: file_ok_def ex_file_def get_shndx_def SHN_XINDEX_def ex_esym_def)
  show "rctx_ok ex_ctx"
    unfolding rctx_ok_def ex_ctx_def by (simp add: f) (simp add: ex_file_def)
  then show "input_ok ex_ctx" unfolding input_ok_def by (auto simp: ex_ctx_def vis_ok_def)
qed

lemma ex_eligible: "eligible (rc_files ex_ctx) (1, 0)" "\<not> eligible (rc_files ex_ctx) (0, 0)"
  by (simp_all add: eligible_def ent_at_def ex_ctx_def ex_file_def ex_esym_def sym_is_undef_def sym_is_abs_def sym_is_common_def
      SHN_UNDEF_def SHN_ABS_def SHN_COMMON_def section_alive_def get_shndx_def SHN_XINDEX_def Let_def)

lemma ex_needed: "1 \<in> needed_files ex_ctx"
proof -
  have e: "all_entries ex_ctx = [(0, 0), (1, 0), (2, 0), (3, 0)]"
    by (simp add: all_entries_def file_entries_def ex_ctx_def ex_file_def)
  have s: "sym_at (rc_files ex_ctx) (0, 0) = 0" "sym_at (rc_files ex_ctx) (1, 0) = 0" "sym_at (rc_files ex_ctx) (2, 0) = 1"
    "sym_at (rc_files ex_ctx) (3, 0) = 2" by (simp_all add: ent_at_def ex_ctx_def ex_file_def)
  have "y_file (rc_syms (prelim ex_ctx) 0) = Some 1"
    using pass_syms [OF ex_rctx_ok, of 0] ex_input_ok ex_eligible e s by (auto simp: input_ok_def strongest_def)
  then have "1 \<in> want_set (prelim ex_ctx) (0, 0)"
    by (simp add: wants_def s Let_def) (simp add: ex_ctx_def ent_at_def ex_file_def ex_esym_def sym_is_weak_def STB_WEAK_def sym_is_undef_def SHN_UNDEF_def)
  then have "1 \<in> file_succs (prelim ex_ctx) 0"
    unfolding file_succs_def by (intro UN_I [of "(0, 0)"]) (simp_all add: file_entries_def ex_ctx_def ex_file_def)
  moreover have "0 \<in> root_files (prelim ex_ctx)" by (simp add: root_files_def alive_files_def ex_ctx_def ex_file_def)
  ultimately show ?thesis
    unfolding needed_files_def by (intro reach_step [of 0 _ _ _ 1] reach_root) simp_all
qed

theorem resolve_symbols_any_order_witness:
  "fold resolve_entry [(3, 0), (1, 0), (2, 0), (0, 0)] ex_ctx = for_each_file resolve_symbols_file ex_ctx"
proof -
  have "mset [(3, 0), (1, 0), (2, 0), (0, 0)] = mset (all_entries ex_ctx)"
    by (simp add: all_entries_def file_entries_def ex_ctx_def ex_file_def)
  moreover have "unclaimed ex_ctx" using ex_input_ok by (simp add: input_ok_def)
  ultimately show ?thesis by (intro resolve_symbols_any_order [OF ex_rctx_ok])
qed

theorem archive_extraction_exact_witness: "\<exists>c'. extract_archive_members ex_ctx = Inr c' \<and> 1 \<in> set (rc_objs c')"
proof -
  have "1 \<in> set (rc_objs ex_ctx)" by (simp add: ex_ctx_def)
  with archive_extraction_exact [OF ex_input_ok] ex_needed [unfolded needed_files_def] show ?thesis by auto
qed

theorem comdat_one_owner_witness:
  "\<not> section_alive (rc_files (eliminate_comdats ex_ctx) ! 3) 1 \<and> section_alive (rc_files (eliminate_comdats ex_ctx) ! 1) 1"
proof
  have o: "\<forall>g. rc_owner ex_ctx g = - 1" "1 \<in> set (rc_objs ex_ctx)" "3 \<in> set (rc_objs ex_ctx)" by (simp_all add: ex_ctx_def)
  show "\<not> section_alive (rc_files (eliminate_comdats ex_ctx) ! 3) 1"
    unfolding comdat_one_owner [OF ex_rctx_ok o(1) o(3)] by (simp add: ex_ctx_def ex_file_def)
  show "section_alive (rc_files (eliminate_comdats ex_ctx) ! 1) 1"
    unfolding comdat_one_owner [OF ex_rctx_ok o(1) o(2)] by (simp add: ex_ctx_def ex_file_def section_alive_def)
qed

theorem do_resolve_symbols_exact_witness:
  "\<exists>c'. do_resolve_symbols ex_ctx = Inr c' \<and> 1 \<in> set (rc_objs c')"
proof -
  have "\<forall>g. rc_owner ex_ctx g = - 1" "1 \<in> set (rc_objs ex_ctx)" by (simp_all add: ex_ctx_def)
  with do_resolve_symbols_exact [OF ex_input_ok] ex_needed show ?thesis by auto
qed

end
