(* ===== verification/Elf_Relr.thy ===== *)
theory Elf_Relr
  imports Elf_Types
begin

text \<open>
  Packed relative relocations (\<^verbatim>\<open>.relr.dyn\<close>) of \<^verbatim>\<open>src/elf/output-chunks.cc\<close>: \<^verbatim>\<open>encode_relr\<close>, the two
  \<^verbatim>\<open>construct_relr\<close> that collect positions for it and \<^verbatim>\<open>RelrDynSection::copy_buf\<close>, against the decoder of
  the ELF specification that the dynamic loader runs.
\<close>

subsection \<open>The encoder\<close>

definition relr_num_bits :: "nat \<Rightarrow> nat" where
  "relr_num_bits word_size = word_size * 8 - 1"

definition relr_max_delta :: "nat \<Rightarrow> nat" where
  "relr_max_delta word_size = relr_num_bits word_size * word_size"

text \<open>The innermost loop: the bits of one bitmap and the positions that are left.\<close>

fun relr_bits :: "nat \<Rightarrow> u64 \<Rightarrow> u64 list \<Rightarrow> u64 \<Rightarrow> u64 \<times> u64 list" where
  "relr_bits ws base [] bm = (bm, [])"
| "relr_bits ws base (p # ps) bm =
     (if unat (p - base) < relr_max_delta ws
      then relr_bits ws base ps (bm OR push_bit (unat (p - base) div ws) 1)
      else (bm, p # ps))"

lemma relr_bits_length: "length (snd (relr_bits ws base ps bm)) \<le> length ps"
  by (induction ws base ps bm rule: relr_bits.induct) auto

lemma relr_bits_progress:
  "fst (relr_bits ws base ps bm) \<noteq> bm \<Longrightarrow> length (snd (relr_bits ws base ps bm)) < length ps"
proof (cases ps)
  case (Cons p ps')
  assume "fst (relr_bits ws base ps bm) \<noteq> bm"
  then show ?thesis
    using Cons relr_bits_length [of ws base ps' "bm OR push_bit (unat (p - base) div ws) 1"]
    by (auto split: if_splits)
qed simp

text \<open>The loop over the bitmaps of one group: it stops at the first empty bitmap.\<close>

function relr_maps :: "nat \<Rightarrow> u64 \<Rightarrow> u64 list \<Rightarrow> u64 list \<Rightarrow> u64 list \<times> u64 list" where
  "relr_maps ws base ps vec =
     (case relr_bits ws base ps 0 of (bm, ps') \<Rightarrow>
        if bm = 0 then (vec, ps')
        else relr_maps ws (base + of_nat (relr_max_delta ws)) ps' (vec @ [push_bit 1 bm OR 1]))"
  by pat_completeness auto
termination
proof (relation "measure (\<lambda>(ws, base, ps, vec). length ps)", goal_cases)
  case (2 ws base ps vec bm ps')
  then show ?case using relr_bits_progress [of ws base ps 0] by (cases "relr_bits ws base ps 0") auto
qed simp

declare relr_maps.simps [simp del]

lemma relr_maps_length: "length (snd (relr_maps ws base ps vec)) \<le> length ps"
proof (induction ws base ps vec rule: relr_maps.induct)
  case (1 ws base ps vec)
  obtain bm ps' where b: "relr_bits ws base ps 0 = (bm, ps')" by fastforce
  then have "length ps' \<le> length ps" using relr_bits_length [of ws base ps 0] by simp
  then show ?case using 1 [OF b [symmetric]] b by (subst relr_maps.simps) (auto intro: le_trans)
qed

function relr_loop :: "nat \<Rightarrow> u64 list \<Rightarrow> u64 list \<Rightarrow> u64 list" where
  "relr_loop ws [] vec = vec"
| "relr_loop ws (p # ps) vec =
     (case relr_maps ws (p + of_nat ws) ps (vec @ [p]) of (vec', ps') \<Rightarrow> relr_loop ws ps' vec')"
  by pat_completeness auto
termination
proof (relation "measure (\<lambda>(ws, ps, vec). length ps)", goal_cases)
  case (2 ws p ps vec vec' ps')
  then show ?case using relr_maps_length [of ws "p + of_nat ws" ps "vec @ [p]"] by (cases "relr_maps ws (p + of_nat ws) ps (vec @ [p])") auto
qed simp

definition encode_relr :: "u64 list \<Rightarrow> nat \<Rightarrow> u64 list" where
  "encode_relr pos word_size = relr_loop word_size pos []"

subsection \<open>The positions and the section\<close>

text \<open>
  What \<^verbatim>\<open>OutputSection::construct_relr\<close> reads of a relocation, of a member and of the section;
  \<open>rr_absolute\<close> and \<open>rr_imported\<close> are \<^verbatim>\<open>is_absolute()\<close> and \<^verbatim>\<open>is_imported\<close> of its symbol.
\<close>

record RelrRel =
  rr_type :: u32
  rr_offset :: u64
  rr_absolute :: bool
  rr_imported :: bool

record RelrMember =
  rm_p2align :: nat
  rm_offset :: u64
  rm_rels :: "RelrRel list"

record RelrOsec =
  ro_flags :: u64
  ro_addralign :: u64
  ro_members :: "RelrMember list"

definition relr_shard :: "machine \<Rightarrow> RelrMember \<Rightarrow> u64 list" where
  "relr_shard m isec =
     (if 2 ^ rm_p2align isec < word_bytes m then []
      else [rm_offset isec + rr_offset r. r \<leftarrow> rm_rels isec,
             rr_type r = R_ABS (desc m) \<and> unat (rr_offset r) mod word_bytes m = 0 \<and>
             \<not> rr_absolute r \<and> \<not> rr_imported r])"

definition osec_construct_relr :: "machine \<Rightarrow> bool \<Rightarrow> RelrOsec \<Rightarrow> u64 list" where
  "osec_construct_relr m pic osec =
     (if \<not> pic then []
      else if ro_flags osec AND ucast SHF_ALLOC = 0 then []
      else if unat (ro_addralign osec) mod word_bytes m \<noteq> 0 then []
      else if ro_flags osec AND ucast SHF_EXECINSTR \<noteq> 0 then []
      else encode_relr (concat (map (relr_shard m) (ro_members osec))) (word_bytes m))"

text \<open>The entries of the GOT as their index and the answer of \<^verbatim>\<open>is_relr\<close>.\<close>

definition got_construct_relr :: "machine \<Rightarrow> (nat \<times> bool) list \<Rightarrow> u64 list" where
  "got_construct_relr m ents =
     encode_relr [of_nat (idx * word_bytes m). (idx, is_relr) \<leftarrow> ents, is_relr] (word_bytes m)"

definition relr_value :: "u64 \<Rightarrow> u64 \<Rightarrow> u64" where
  "relr_value addr val = (if val AND 1 \<noteq> 0 then val else addr + val)"

text \<open>The GOT and the output sections, in order, as their address and their \<^verbatim>\<open>relr\<close>.\<close>

definition relr_sh_size :: "machine \<Rightarrow> (u64 \<times> u64 list) list \<Rightarrow> nat" where
  "relr_sh_size m chunks = sum_list (map (length \<circ> snd) chunks) * word_bytes m"

definition relr_copy_buf :: "machine \<Rightarrow> (u64 \<times> u64 list) list \<Rightarrow> bytes" where
  "relr_copy_buf m chunks =
     enc_list (Word_enc m) (concat (map (\<lambda>(addr, relr). map (relr_value addr) relr) chunks))"

subsection \<open>The loader\<close>

fun relr_decode :: "nat \<Rightarrow> u64 \<Rightarrow> u64 list \<Rightarrow> u64 list" where
  "relr_decode ws pos [] = []"
| "relr_decode ws pos (e # es) =
     (if e AND 1 = 0 then e # relr_decode ws (e + of_nat ws) es
      else [pos + of_nat (i * ws). i \<leftarrow> [0..<relr_num_bits ws], bit e (Suc i)]
           @ relr_decode ws (pos + of_nat (relr_max_delta ws)) es)"

subsection \<open>One bitmap\<close>

lemma relr_bits_eq:
  "relr_bits ws base ps bm =
     (let P = (\<lambda>p. unat (p - base) < relr_max_delta ws)
      in (fold (\<lambda>p b. b OR push_bit (unat (p - base) div ws) 1) (takeWhile P ps) bm, dropWhile P ps))"
  by (induction ws base ps bm rule: relr_bits.induct) (auto simp: Let_def)

lemma bit_fold_or:
  "i < 64 \<Longrightarrow> bit (fold (\<lambda>p b. b OR push_bit (f p) 1) ps (bm :: u64)) i \<longleftrightarrow> bit bm i \<or> i \<in> f ` set ps"
proof (induction ps arbitrary: bm)
  case (Cons p ps)
  have "bit (push_bit (f p) 1 :: u64) i \<longleftrightarrow> f p = i" using Cons.prems by (auto simp: bit_simps)
  with Cons show ?case by (auto simp: bit_or_iff)
qed simp

text \<open>The positions a bitmap can hold, as indices.\<close>

definition relr_idx :: "nat \<Rightarrow> u64 \<Rightarrow> u64 \<Rightarrow> nat" where
  "relr_idx ws base p = unat (p - base) div ws"

definition relr_ok :: "nat \<Rightarrow> u64 \<Rightarrow> u64 list \<Rightarrow> bool" where
  "relr_ok ws base ps \<longleftrightarrow> sorted_wrt (<) ps \<and> ws dvd unat base \<and>
     (\<forall>p\<in>set ps. ws dvd unat p \<and> base \<le> p \<and> unat p < 2 ^ 63)"

lemma unat_sub_u64: "b \<le> (p :: u64) \<Longrightarrow> unat (p - b) = unat p - unat b"
  by (simp add: unat_sub_if' word_le_nat_alt)

lemma relr_idx_pos:
  assumes "relr_ok ws base ps" "p \<in> set ps"
  shows "base + of_nat (relr_idx ws base p * ws) = p"
proof -
  have "ws dvd unat (p - base)" using assms by (simp add: relr_ok_def unat_sub_u64 dvd_diff_nat)
  then have "relr_idx ws base p * ws = unat (p - base)" by (simp add: relr_idx_def)
  then show ?thesis by simp
qed

lemma relr_idx_sorted:
  assumes "relr_ok ws base ps" "0 < ws"
  shows "sorted_wrt (<) (map (relr_idx ws base) ps)"
  unfolding sorted_wrt_map
proof (rule sorted_wrt_mono_rel [where P = "(<)"])
  show "sorted_wrt (<) ps" using assms(1) by (simp add: relr_ok_def)
  fix p q assume pq: "p \<in> set ps" "q \<in> set ps" "p < q"
  have "relr_idx ws base p * ws = unat p - unat base" "relr_idx ws base q * ws = unat q - unat base"
    using assms(1) pq by (auto simp: relr_ok_def relr_idx_def unat_sub_u64 dvd_diff_nat)
  moreover have "unat base \<le> unat p" "unat p < unat q"
    using assms(1) pq by (auto simp: relr_ok_def word_le_nat_alt word_less_nat_alt)
  ultimately have "relr_idx ws base p * ws < relr_idx ws base q * ws" by simp
  then show "relr_idx ws base p < relr_idx ws base q" by simp
qed

lemma filter_upt_sorted:
  assumes "sorted_wrt (<) xs" "set xs \<subseteq> {..<n}"
  shows "filter (\<lambda>i. i \<in> set xs) [0..<n] = xs"
proof (rule sorted_distinct_set_unique)
  show "sorted xs" "distinct xs" using assms(1) by (auto simp: strict_sorted_iff)
  show "sorted (filter (\<lambda>i. i \<in> set xs) [0..<n])" by (rule sorted_wrt_filter) simp
qed (use assms(2) in auto)

lemma bit_bitmap: "i < 63 \<Longrightarrow> bit (push_bit 1 b OR 1 :: u64) (Suc i) \<longleftrightarrow> bit b i"
  unfolding bit_or_iff bit_push_bit_iff by (simp add: bit_1_iff)

lemma concat_if: "concat (map (\<lambda>x. if P x then [f x] else []) xs) = map f (filter P xs)"
  by (induction xs) simp_all

lemma decode_bitmap:
  assumes "relr_ok ws base ps" "0 < ws" "relr_num_bits ws < 64"
    and "\<forall>p\<in>set ps. unat (p - base) < relr_max_delta ws"
  defines "e \<equiv> push_bit 1 (fold (\<lambda>p b. b OR push_bit (unat (p - base) div ws) 1) ps 0) OR (1 :: u64)"
  shows "[addr + base + of_nat (i * ws). i \<leftarrow> [0..<relr_num_bits ws], bit e (Suc i)] = map ((+) addr) ps"
proof -
  let ?ds = "map (relr_idx ws base) ps"
  have sub: "set ?ds \<subseteq> {..<relr_num_bits ws}"
    using assms(4) by (auto simp: relr_idx_def relr_max_delta_def div_less_iff_less_mult assms(2))
  have b: "bit e (Suc i) \<longleftrightarrow> i \<in> set ?ds" if "i < relr_num_bits ws" for i
  proof -
    have "bit e (Suc i) \<longleftrightarrow> bit (fold (\<lambda>p b. b OR push_bit (unat (p - base) div ws) 1) ps (0 :: u64)) i"
      unfolding e_def using that assms(3) by (intro bit_bitmap) simp
    also have "\<dots> \<longleftrightarrow> i \<in> set ?ds"
      using that assms(3) bit_fold_or [of i "\<lambda>p. unat (p - base) div ws" ps 0] by (auto simp: relr_idx_def)
    finally show ?thesis .
  qed
  have "[addr + base + of_nat (i * ws). i \<leftarrow> [0..<relr_num_bits ws], bit e (Suc i)] =
      map (\<lambda>i. addr + base + of_nat (i * ws)) (filter (\<lambda>i. bit e (Suc i)) [0..<relr_num_bits ws])"
    by (rule concat_if)
  also have "filter (\<lambda>i. bit e (Suc i)) [0..<relr_num_bits ws] = filter (\<lambda>i. i \<in> set ?ds) [0..<relr_num_bits ws]"
    using b by (intro filter_cong) auto
  also have "\<dots> = ?ds" by (rule filter_upt_sorted [OF relr_idx_sorted [OF assms(1, 2)] sub])
  finally show ?thesis
    using relr_idx_pos [OF assms(1)] by (simp add: add.assoc)
qed

subsection \<open>The whole encoding\<close>

lemma relr_ok_filter: "relr_ok ws base ps \<Longrightarrow> relr_ok ws base (takeWhile P ps)"
  unfolding relr_ok_def using sorted_wrt_take by (metis set_takeWhileD takeWhile_eq_take)

lemma relr_ok_next:
  assumes ok: "relr_ok ws base ps" and d: "d = relr_max_delta ws" "d < 2 ^ 32"
    and "takeWhile (\<lambda>p. unat (p - base) < d) ps \<noteq> []"
  shows "relr_ok ws (base + of_nat d) (dropWhile (\<lambda>p. unat (p - base) < d) ps)"
proof -
  let ?P = "\<lambda>p. unat (p - base) < d"
  from assms(4) obtain p0 where p0: "p0 \<in> set ps" by (cases ps) auto
  then have "unat base < 2 ^ 63" using ok by (auto simp: relr_ok_def word_le_nat_alt intro: le_less_trans)
  then have b: "unat (base + of_nat d) = unat base + d"
    using d(2) by (simp add: unat_word_ariths unat_of_nat)
  have s: "sorted_wrt (<) (dropWhile ?P ps)"
    using ok by (subst dropWhile_eq_drop) (simp add: relr_ok_def sorted_wrt_drop)
  have "base + of_nat d \<le> p" if p: "p \<in> set (dropWhile ?P ps)" for p
  proof -
    obtain q qs where q: "dropWhile ?P ps = q # qs" using p by (cases "dropWhile ?P ps") auto
    then have "\<not> ?P q" by (metis hd_dropWhile list.distinct(1) list.sel(1))
    moreover have "q \<le> p" using s p q by (auto simp: word_less_nat_alt word_le_nat_alt)
    moreover have "base \<le> q" using ok q by (metis relr_ok_def list.set_intros(1) set_dropWhileD)
    ultimately show ?thesis using unat_sub_u64 [of base q] by (simp add: word_le_nat_alt b)
  qed
  moreover have "ws dvd unat (base + of_nat d)" using ok d(1) b by (simp add: relr_ok_def relr_max_delta_def)
  ultimately show ?thesis using ok s by (auto simp: relr_ok_def dest: set_dropWhileD)
qed

definition relr_ws :: "nat \<Rightarrow> bool" where
  "relr_ws ws \<longleftrightarrow> ws = 4 \<or> ws = 8"

lemma relr_value_bitmap: "relr_value addr (push_bit 1 b OR 1) = push_bit 1 b OR 1"
  and bitmap_odd: "(push_bit 1 b OR 1) AND 1 \<noteq> (0 :: u64)"
proof -
  have "bit ((push_bit 1 b OR 1) AND 1 :: u64) 0" unfolding bit_and_iff bit_or_iff by simp
  then show "(push_bit 1 b OR 1) AND 1 \<noteq> (0 :: u64)" by (metis bit_0_eq bot_apply bot_bool_def)
  then show "relr_value addr (push_bit 1 b OR 1) = push_bit 1 b OR 1" by (simp only: relr_value_def if_True not_False_eq_True)
qed

lemma bitmap_small:
  assumes "\<forall>p\<in>set ps. f p < 31"
  shows "unat (push_bit 1 (fold (\<lambda>p b. b OR push_bit (f p) 1) ps (0 :: u64)) OR 1) < 2 ^ 32"
proof -
  define e where "e = push_bit 1 (fold (\<lambda>p b. b OR push_bit (f p) 1) ps (0 :: u64)) OR 1"
  have "\<not> bit e k" if k: "32 \<le> k" "k < 64" for k
  proof -
    have "bit e (Suc (k - 1)) \<longleftrightarrow> k - 1 \<in> f ` set ps"
      unfolding e_def using k bit_bitmap [of "k - 1"] bit_fold_or [of "k - 1" f ps 0] by auto
    then show ?thesis using k assms by auto
  qed
  note hi = this
  have "take_bit 32 e = e"
  proof (rule bit_word_eqI)
    fix n assume "n < LENGTH(64)"
    then show "bit (take_bit 32 e) n = bit e n" using hi [of n] by (cases "n < 32") (simp_all add: bit_take_bit_iff)
  qed
  then show ?thesis unfolding e_def by (simp only: take_bit_self_unat)
qed

lemma relr_maps_decode:
  assumes "relr_maps ws base ps vec = (vec', ps')" and "relr_ok ws base ps" and "relr_ws ws"
  shows "\<exists>v qs w. vec' = vec @ v \<and> ps = qs @ ps' \<and>
    list_all (\<lambda>e. relr_value addr e = e \<and> (ws = 4 \<longrightarrow> unat e < 2 ^ 32)) v \<and>
    (\<forall>rest. relr_decode ws (addr + base) (map (relr_value addr) v @ rest) = map ((+) addr) qs @ relr_decode ws w rest)"
  using assms
proof (induction ws base ps vec rule: relr_maps.induct)
  case (1 ws base ps vec)
  define d where "d = relr_max_delta ws"
  let ?P = "\<lambda>p. unat (p - base) < d"
  define bm where "bm = fold (\<lambda>p b. b OR push_bit (unat (p - base) div ws) 1) (takeWhile ?P ps) (0 :: u64)"
  define e where "e = push_bit 1 bm OR 1"
  have rb: "relr_bits ws base ps 0 = (bm, dropWhile ?P ps)" by (simp add: relr_bits_eq Let_def bm_def d_def)
  have ws: "0 < ws" "relr_num_bits ws < 64" "d < 2 ^ 32"
    using "1.prems"(3) by (auto simp: relr_ws_def relr_num_bits_def relr_max_delta_def d_def)
  show ?case
  proof (cases "bm = 0")
    case True
    have "takeWhile ?P ps = []"
    proof (rule ccontr)
      assume "takeWhile ?P ps \<noteq> []"
      then obtain p where p: "p \<in> set (takeWhile ?P ps)" by (meson ex_in_conv set_empty)
      then have "relr_idx ws base p < relr_num_bits ws"
        using set_takeWhileD [OF p] ws(1) by (simp add: relr_idx_def relr_max_delta_def d_def div_less_iff_less_mult)
      then have "relr_idx ws base p < 64" using ws(2) by simp
      then have "bit bm (relr_idx ws base p)"
        using p bit_fold_or [of "relr_idx ws base p" "\<lambda>p. unat (p - base) div ws" "takeWhile ?P ps" 0]
        by (auto simp: bm_def relr_idx_def)
      with True show False by simp
    qed
    then have "dropWhile ?P ps = ps" by (metis append_Nil takeWhile_dropWhile_id)
    then have "vec' = vec" "ps' = ps"
      using "1.prems"(1) rb True by (simp_all add: relr_maps.simps [of ws base ps])
    then show ?thesis by (intro exI [of _ "[]"] exI [of _ "addr + base"]) simp
  next
    case False
    then have ne: "takeWhile ?P ps \<noteq> []" by (auto simp: bm_def)
    have "relr_maps ws (base + of_nat d) (dropWhile ?P ps) (vec @ [e]) = (vec', ps')"
      using "1.prems"(1) rb False by (simp add: relr_maps.simps [of ws base ps] d_def e_def)
    moreover have "relr_ok ws (base + of_nat d) (dropWhile ?P ps)"
      using relr_ok_next [OF "1.prems"(2) d_def ws(3) ne] .
    ultimately obtain v qs w where v: "vec' = (vec @ [e]) @ v" "dropWhile ?P ps = qs @ ps'"
      "list_all (\<lambda>e. relr_value addr e = e \<and> (ws = 4 \<longrightarrow> unat e < 2 ^ 32)) v"
      "\<And>rest. relr_decode ws (addr + (base + of_nat d)) (map (relr_value addr) v @ rest) = map ((+) addr) qs @ relr_decode ws w rest"
      using "1.IH" [OF rb [symmetric] False] "1.prems"(3) unfolding d_def e_def by blast
    have "relr_decode ws (addr + base) (map (relr_value addr) (e # v) @ rest) =
        map ((+) addr) (takeWhile ?P ps @ qs) @ relr_decode ws w rest" for rest
    proof -
      have "[addr + base + of_nat (i * ws). i \<leftarrow> [0..<relr_num_bits ws], bit e (Suc i)] = map ((+) addr) (takeWhile ?P ps)"
        unfolding e_def bm_def
        by (rule decode_bitmap [OF relr_ok_filter [OF "1.prems"(2)] ws(1, 2)]) (auto simp: d_def dest: set_takeWhileD)
      moreover have "relr_value addr e = e" "e AND 1 \<noteq> 0" unfolding e_def by (rule relr_value_bitmap, rule bitmap_odd)
      ultimately show ?thesis using v(4) [of rest] by (simp add: d_def add.assoc)
    qed
    moreover have "ps = (takeWhile ?P ps @ qs) @ ps'" using v(2) takeWhile_dropWhile_id [of ?P ps] by simp
    moreover have "vec' = vec @ (e # v)" using v(1) by simp
    moreover have "\<forall>p\<in>set (takeWhile ?P ps). unat (p - base) div ws < 31" if "ws = 4"
      using that by (auto dest!: set_takeWhileD simp: d_def relr_max_delta_def relr_num_bits_def div_less_iff_less_mult)
    then have "ws = 4 \<longrightarrow> unat e < 2 ^ 32"
      unfolding e_def bm_def by (intro impI bitmap_small)
    then have "list_all (\<lambda>e. relr_value addr e = e \<and> (ws = 4 \<longrightarrow> unat e < 2 ^ 32)) (e # v)"
      using v(3) relr_value_bitmap unfolding e_def by simp
    ultimately show ?thesis by blast
  qed
qed


lemma and_1_even: "(w :: u64) AND 1 = 0 \<longleftrightarrow> even (unat w)"
proof -
  have "even (unat w) \<longleftrightarrow> \<not> bit w 0" using bit_unsigned_iff [of w 0, where 'a = nat] by (simp add: bit_0)
  then show ?thesis by (simp add: bit_0 and_one_eq mod2_eq_if)
qed

text \<open>What the encoder relies on: its \<^verbatim>\<open>assert\<close>s, with the order strict, and positions in range.\<close>

definition relr_pos_ok :: "nat \<Rightarrow> u64 list \<Rightarrow> bool" where
  "relr_pos_ok ws pos \<longleftrightarrow> sorted_wrt (<) pos \<and> list_all (\<lambda>p. ws dvd unat p \<and> unat p < 2 ^ 63) pos"

lemma relr_loop_decode:
  assumes "relr_pos_ok ws pos" and "relr_ws ws" and "ws dvd unat addr"
    and "list_all (\<lambda>p. ws = 4 \<longrightarrow> unat (addr + p) < 2 ^ 32) pos"
  shows "\<exists>v. relr_loop ws pos vec = vec @ v \<and>
    list_all (\<lambda>e. ws = 4 \<longrightarrow> unat (relr_value addr e) < 2 ^ 32) v \<and>
    (\<forall>w0 rest. \<exists>w. relr_decode ws w0 (map (relr_value addr) v @ rest) = map ((+) addr) pos @ relr_decode ws w rest)"
  using assms
proof (induction ws pos vec rule: relr_loop.induct)
  case (1 ws vec)
  then show ?case by auto
next
  case (2 ws p ps vec)
  obtain vec' ps' where m: "relr_maps ws (p + of_nat ws) ps (vec @ [p]) = (vec', ps')" by fastforce
  have ws: "even ws" "0 < ws" "ws \<le> 8" using "2.prems"(2) by (auto simp: relr_ws_def)
  have p: "ws dvd unat p" "unat p < 2 ^ 63" using "2.prems"(1) by (auto simp: relr_pos_ok_def)
  have b: "unat (p + of_nat ws) = unat p + ws"
    using p(2) ws(3) by (simp add: unat_word_ariths unat_of_nat)
  have "p + of_nat ws \<le> q" if q: "q \<in> set ps" for q
  proof -
    have "ws dvd unat q" "unat p < unat q"
      using "2.prems"(1) q by (auto simp: relr_pos_ok_def list_all_iff word_less_nat_alt)
    moreover obtain a c where "unat p = ws * a" "unat q = ws * c" using p(1) \<open>ws dvd unat q\<close> by (metis dvdE)
    ultimately have "Suc a \<le> c" "unat p + ws = ws * Suc a" "unat q = ws * c" using ws(2) by auto
    then have "ws * Suc a \<le> ws * c" "unat p + ws = ws * Suc a" "unat q = ws * c" by (simp_all only: mult_le_mono2)
    then have "unat p + ws \<le> unat q" by linarith
    then show ?thesis by (simp add: word_le_nat_alt b)
  qed
  then have "relr_ok ws (p + of_nat ws) ps"
    using "2.prems"(1) p(1) b by (auto simp: relr_ok_def relr_pos_ok_def list_all_iff)
  from relr_maps_decode [OF m this "2.prems"(2), of addr] obtain v qs w where
    v: "vec' = (vec @ [p]) @ v" "ps = qs @ ps'" "list_all (\<lambda>e. relr_value addr e = e \<and> (ws = 4 \<longrightarrow> unat e < 2 ^ 32)) v"
      "\<And>rest. relr_decode ws (addr + (p + of_nat ws)) (map (relr_value addr) v @ rest) = map ((+) addr) qs @ relr_decode ws w rest"
    by blast
  have "relr_pos_ok ws ps'" using "2.prems"(1) v(2) by (simp add: relr_pos_ok_def sorted_wrt_append)
  moreover have "list_all (\<lambda>p. ws = 4 \<longrightarrow> unat (addr + p) < 2 ^ 32) ps'" using "2.prems"(4) v(2) by simp
  ultimately obtain v' where v': "relr_loop ws ps' vec' = vec' @ v'"
      "list_all (\<lambda>e. ws = 4 \<longrightarrow> unat (relr_value addr e) < 2 ^ 32) v'"
      "\<And>w0 rest. \<exists>w. relr_decode ws w0 (map (relr_value addr) v' @ rest) = map ((+) addr) ps' @ relr_decode ws w rest"
    using "2.IH" [OF m [symmetric]] "2.prems"(2, 3) by blast
  have ev: "p AND 1 = 0" "(addr + p) AND 1 = 0"
  proof -
    have e: "even (unat p)" "even (unat addr)" using p(1) "2.prems"(3) ws(1) by (meson dvd_trans)+
    then show "p AND 1 = 0" by (simp add: and_1_even)
    have "even (unat (addr + p))" using e by (simp add: unat_word_ariths dvd_mod)
    then show "(addr + p) AND 1 = 0" by (simp add: and_1_even)
  qed
  have "\<exists>w. relr_decode ws w0 (map (relr_value addr) (p # v @ v') @ rest) = map ((+) addr) (p # ps) @ relr_decode ws w rest" for w0 rest
  proof -
    obtain w' where "relr_decode ws w (map (relr_value addr) v' @ rest) = map ((+) addr) ps' @ relr_decode ws w' rest"
      using v'(3) by blast
    then show ?thesis
      using ev v(4) [of "map (relr_value addr) v' @ rest"] v(2)
      by (intro exI [of _ w']) (simp add: relr_value_def [of addr p] add.assoc)
  qed
  moreover have "relr_loop ws (p # ps) vec = vec @ p # v @ v'" using m v(1) v'(1) by simp
  moreover have "list_all (\<lambda>e. ws = 4 \<longrightarrow> unat (relr_value addr e) < 2 ^ 32) (p # v @ v')"
    using v(3) v'(2) ev(1) "2.prems"(4) by (auto simp: list_all_iff relr_value_def [of addr p])
  ultimately show ?case by blast
qed

lemma word_bytes_dvd: "word_bytes m \<le> 2 ^ k \<Longrightarrow> word_bytes m dvd 2 ^ k"
proof -
  assume le: "word_bytes m \<le> 2 ^ k"
  have w: "word_bytes m = 2 ^ (if m64 m then 3 else 2)" by (simp add: word_bytes_def)
  with le have "(if m64 m then 3 else 2) \<le> k" by (metis one_less_numeral_iff power_le_imp_le_exp semiring_norm(76))
  then show ?thesis unfolding w by (rule le_imp_power_dvd)
qed

subsection \<open>Properties\<close>

text \<open>What the layout gives for a section: an aligned address and addresses of the machine's width.\<close>

definition relr_chunk_ok :: "machine \<Rightarrow> u64 \<times> u64 list \<Rightarrow> bool" where
  "relr_chunk_ok m c = (case c of (addr, pos) \<Rightarrow>
     relr_pos_ok (word_bytes m) pos \<and> word_bytes m dvd unat addr \<and> list_all (\<lambda>p. Word_ok m (addr + p)) pos)"

lemma relr_ws_machine: "relr_ws (word_bytes m)"
  by (simp add: relr_ws_def word_bytes_def)

lemma relr_chunks_decode:
  "list_all (relr_chunk_ok m) chunks \<Longrightarrow>
   (let vs = concat (map (\<lambda>(addr, relr). map (relr_value addr) relr) (map (\<lambda>(addr, pos). (addr, encode_relr pos (word_bytes m))) chunks))
    in list_all (Word_ok m) vs \<and> relr_decode (word_bytes m) w0 vs = concat (map (\<lambda>(addr, pos). map ((+) addr) pos) chunks))"
proof (induction chunks arbitrary: w0)
  case (Cons c chunks)
  obtain addr pos where c: "c = (addr, pos)" by (cases c)
  have "relr_pos_ok (word_bytes m) pos" "word_bytes m dvd unat addr"
      "list_all (\<lambda>p. word_bytes m = 4 \<longrightarrow> unat (addr + p) < 2 ^ 32) pos"
    using Cons.prems c by (auto simp: relr_chunk_ok_def list_all_iff Word_ok_def word_bytes_def split: if_splits)
  from relr_loop_decode [OF this(1) relr_ws_machine this(2, 3), of "[]"] obtain v where
    v: "encode_relr pos (word_bytes m) = v" "list_all (\<lambda>e. word_bytes m = 4 \<longrightarrow> unat (relr_value addr e) < 2 ^ 32) v"
      "\<And>w0 rest. \<exists>w. relr_decode (word_bytes m) w0 (map (relr_value addr) v @ rest) = map ((+) addr) pos @ relr_decode (word_bytes m) w rest"
    by (auto simp: encode_relr_def)
  have "list_all (Word_ok m) (map (relr_value addr) v)"
    using v(2) by (auto simp: list_all_iff Word_ok_def word_bytes_def split: if_splits)
  moreover define vs where "vs = concat (map (\<lambda>(addr, relr). map (relr_value addr) relr)
      (map (\<lambda>(addr, pos). (addr, encode_relr pos (word_bytes m))) chunks))"
  have IH: "list_all (Word_ok m) vs" "\<And>w. relr_decode (word_bytes m) w vs = concat (map (\<lambda>(addr, pos). map ((+) addr) pos) chunks)"
    using Cons unfolding vs_def Let_def by simp_all
  obtain w where "relr_decode (word_bytes m) w0 (map (relr_value addr) v @ vs) = map ((+) addr) pos @ relr_decode (word_bytes m) w vs"
    using v(3) by blast
  ultimately show ?case using IH c v(1) by (simp add: Let_def vs_def)
qed simp

text \<open>
  C8: the dynamic loader relocates exactly the collected positions. If every section has
  its positions in strictly ascending order, aligned to the word and inside the address
  space, the loader that reads the words of \<^verbatim>\<open>.relr.dyn\<close>, whose number of bytes is the size
  computed for the section, decodes the address of every position of every section once, in order.
\<close>

theorem relr_dyn_decodes:
  assumes "list_all (relr_chunk_ok m) chunks"
  defines "relr \<equiv> map (\<lambda>(addr, pos). (addr, encode_relr pos (word_bytes m))) chunks"
  shows "length (relr_copy_buf m relr) = relr_sh_size m relr \<and>
    (\<exists>vs. dec_list (Word_dec m) (relr_sh_size m relr div word_bytes m) (relr_copy_buf m relr) = Some (vs, []) \<and>
       relr_decode (word_bytes m) 0 vs = concat (map (\<lambda>(addr, pos). map ((+) addr) pos) chunks))"
proof -
  have arr: "codec_array (Word_ok m) (Word_enc m) (Word_dec m) (word_bytes m)"
    unfolding codec_array_def by (rule codec_Word)
  define vs where "vs = concat (map (\<lambda>(addr, relr). map (relr_value addr) relr) relr)"
  have vs: "list_all (Word_ok m) vs" "relr_decode (word_bytes m) 0 vs = concat (map (\<lambda>(addr, pos). map ((+) addr) pos) chunks)"
    using relr_chunks_decode [OF assms(1), of 0] unfolding vs_def relr_def Let_def by auto
  have "length vs = sum_list (map (length \<circ> snd) relr)"
    unfolding vs_def by (induction relr) auto
  moreover have "relr_copy_buf m relr = enc_list (Word_enc m) vs" by (simp add: relr_copy_buf_def vs_def)
  ultimately show ?thesis
    using vs codec_array.length_enc_list [OF arr vs(1)] codec_array.dec_list_enc_list [OF arr vs(1), of "[]"]
    by (simp add: relr_sh_size_def word_bytes_def)
qed

theorem relr_dyn_decodes_witness:
  "\<exists>vs. dec_list (Word_dec X86_64) 5 (relr_copy_buf X86_64
      [(0x2000, encode_relr [8, 16] 8), (0x3000, encode_relr [0, 16, 0x208] 8)]) = Some (vs, []) \<and>
    relr_decode 8 0 vs = [0x2008, 0x2010, 0x3000, 0x3010, 0x3208]"
proof -
  have ok: "list_all (relr_chunk_ok X86_64) [(0x2000, [8, 16]), (0x3000, [0, 16, 0x208])]"
    by (simp add: relr_chunk_ok_def relr_pos_ok_def word_bytes_def desc_X86_64_def Word_ok_def)
  have "relr_sh_size X86_64 [(0x2000, encode_relr [8, 16] 8), (0x3000, encode_relr [0, 16, 0x208] 8)] = 40"
    by (simp add: relr_sh_size_def encode_relr_def relr_maps.simps relr_max_delta_def relr_num_bits_def
        word_bytes_def desc_X86_64_def)
  with relr_dyn_decodes [OF ok] show ?thesis by (simp add: word_bytes_def desc_X86_64_def)
qed

text \<open>
  C35: the output section hands \<open>encode_relr\<close> positions that satisfy its assertion. For members placed at
  multiples of their alignment with relocations in ascending order, the loader relocates, for
  a writable allocated section of a position-independent output, exactly the word-aligned absolute
  relocations against symbols that are neither absolute nor imported in members
  aligned to at least a word, and for any other section none.
\<close>

theorem output_section_relr:
  assumes "list_all (\<lambda>isec. 2 ^ rm_p2align isec dvd unat (rm_offset isec) \<and> rm_p2align isec < 64 \<and>
      list_all (\<lambda>r. unat (rm_offset isec) + unat (rr_offset r) < 2 ^ 63) (rm_rels isec)) (ro_members osec)"
    and "sorted_wrt (<) (concat (map (relr_shard m) (ro_members osec)))"
    and "word_bytes m dvd unat addr"
    and "list_all (\<lambda>p. Word_ok m (addr + p)) (concat (map (relr_shard m) (ro_members osec)))"
  shows "relr_decode (word_bytes m) w0 (map (relr_value addr) (osec_construct_relr m pic osec)) =
    (if pic \<and> ro_flags osec AND ucast SHF_ALLOC \<noteq> 0 \<and> ro_flags osec AND ucast SHF_EXECINSTR = 0 \<and>
        word_bytes m dvd unat (ro_addralign osec)
     then [addr + (rm_offset isec + rr_offset r). isec \<leftarrow> ro_members osec, r \<leftarrow> rm_rels isec,
            word_bytes m \<le> 2 ^ rm_p2align isec \<and> rr_type r = R_ABS (desc m) \<and> word_bytes m dvd unat (rr_offset r) \<and>
            \<not> rr_absolute r \<and> \<not> rr_imported r]
     else [])"
proof -
  let ?pos = "concat (map (relr_shard m) (ro_members osec))"
  have al: "word_bytes m dvd unat p \<and> unat p < 2 ^ 63" if "p \<in> set ?pos" for p
  proof -
    from that obtain isec r where isec: "isec \<in> set (ro_members osec)" "word_bytes m \<le> 2 ^ rm_p2align isec"
        and r: "r \<in> set (rm_rels isec)" "word_bytes m dvd unat (rr_offset r)" "p = rm_offset isec + rr_offset r"
      by (auto simp: relr_shard_def mod_eq_0_iff_dvd split: if_splits)
    have "unat (rm_offset isec) + unat (rr_offset r) < 2 ^ 63"
      using assms(1) isec(1) r(1) by (auto simp: list_all_iff)
    then have "unat p = unat (rm_offset isec) + unat (rr_offset r)" by (simp add: r(3) unat_word_ariths)
    moreover have "word_bytes m dvd 2 ^ rm_p2align isec"
      using isec(2) word_bytes_dvd by blast
    then have "word_bytes m dvd unat (rm_offset isec)"
      using assms(1) isec(1) by (auto simp: list_all_iff intro: dvd_trans)
    ultimately show ?thesis using r(2) assms(1) isec(1) r(1) by (auto simp: list_all_iff)
  qed
  then have "relr_chunk_ok m (addr, ?pos)"
    using assms(2, 3, 4) unfolding relr_chunk_ok_def relr_pos_ok_def by (simp only: list_all_iff prod.case) blast
  then have enc: "relr_decode (word_bytes m) w0 (map (relr_value addr) (encode_relr ?pos (word_bytes m))) = map ((+) addr) ?pos"
    using relr_chunks_decode [of m "[(addr, ?pos)]" w0] by (simp add: Let_def)
  have "map ((+) addr) ?pos =
      [addr + (rm_offset isec + rr_offset r). isec \<leftarrow> ro_members osec, r \<leftarrow> rm_rels isec,
            word_bytes m \<le> 2 ^ rm_p2align isec \<and> rr_type r = R_ABS (desc m) \<and> word_bytes m dvd unat (rr_offset r) \<and>
            \<not> rr_absolute r \<and> \<not> rr_imported r]"
    by (auto simp: map_concat comp_def relr_shard_def mod_eq_0_iff_dvd concat_if intro!: arg_cong [where f = concat] map_cong)
  with enc show ?thesis by (auto simp: osec_construct_relr_def mod_eq_0_iff_dvd)
qed

theorem output_section_relr_witness:
  "relr_decode 8 0 (map (relr_value 0x4000) (osec_construct_relr X86_64 True \<lparr> ro_flags = 3, ro_addralign = 16,
     ro_members = [\<lparr> rm_p2align = 3, rm_offset = 0x10, rm_rels =
       [\<lparr> rr_type = R_X86_64_64, rr_offset = 0, rr_absolute = False, rr_imported = False \<rparr>,
        \<lparr> rr_type = R_X86_64_64, rr_offset = 8, rr_absolute = False, rr_imported = True \<rparr>,
        \<lparr> rr_type = R_X86_64_64, rr_offset = 24, rr_absolute = False, rr_imported = False \<rparr>] \<rparr>] \<rparr>)) = [0x4010, 0x4028]"
proof -
  let ?osec = "\<lparr> ro_flags = 3, ro_addralign = 16,
     ro_members = [\<lparr> rm_p2align = 3, rm_offset = 0x10, rm_rels =
       [\<lparr> rr_type = R_X86_64_64, rr_offset = 0, rr_absolute = False, rr_imported = False \<rparr>,
        \<lparr> rr_type = R_X86_64_64, rr_offset = 8, rr_absolute = False, rr_imported = True \<rparr>,
        \<lparr> rr_type = R_X86_64_64, rr_offset = 24, rr_absolute = False, rr_imported = False \<rparr>] \<rparr>] \<rparr>"
  have w: "word_bytes X86_64 = 8" "R_ABS (desc X86_64) = R_X86_64_64"
    by (simp_all add: word_bytes_def desc_X86_64_def)
  show ?thesis
    using output_section_relr [where osec = ?osec and m = X86_64 and addr = "0x4000" and pic = True and ?w0.0 = 0]
    by (simp add: relr_shard_def w Word_ok_def desc_X86_64_def SHF_ALLOC_def SHF_EXECINSTR_def)
qed

end
