(* ===== verification/Elf_Hash.thy ===== *)
theory Elf_Hash
  imports Elf_Types "HOL-Library.Product_Lexorder"
begin

text \<open>
  The dynamic symbol table and its two hash tables in \<^verbatim>\<open>src/elf/output-chunks.cc\<close>: \<^verbatim>\<open>DynsymSection\<close>
  (the order of its symbols), \<^verbatim>\<open>HashSection\<close> (\<^verbatim>\<open>.hash\<close>) and \<^verbatim>\<open>GnuHashSection\<close> (\<^verbatim>\<open>.gnu.hash\<close>), against
  the lookups of a dynamic loader. Index 0 of the symbol table is the null symbol, so the
  symbol with index \<open>Suc i\<close> is element \<open>i\<close> of a list.
\<close>

subsection \<open>Hash functions\<close>

definition elf_hash_step :: "u8 \<Rightarrow> u32 \<Rightarrow> u32" where
  "elf_hash_step c h0 =
     (let h1 = push_bit 4 h0 + ucast c;
          g = h1 AND 0xf0000000;
          h2 = (if g \<noteq> 0 then h1 XOR drop_bit 24 g else h1)
      in h2 AND NOT g)"

definition elf_hash :: "bytes \<Rightarrow> u32" where
  "elf_hash name = fold elf_hash_step name 0"

definition djb_hash :: "bytes \<Rightarrow> u32" where
  "djb_hash name = fold (\<lambda>c h. push_bit 5 h + h + ucast c) name 5381"

subsection \<open>The order of the dynamic symbols\<close>

record DynSym =
  ds_name :: bytes
  ds_imported :: bool
  ds_exported :: bool

text \<open>\<^verbatim>\<open>is_local\<close> in an output that is not relocatable.\<close>

definition is_local :: "DynSym \<Rightarrow> bool" where
  "is_local s \<longleftrightarrow> \<not> ds_imported s \<and> \<not> ds_exported s"

definition LOAD_FACTOR :: nat where "LOAD_FACTOR = 8"
definition HEADER_SIZE :: nat where "HEADER_SIZE = 16"
definition BLOOM_SHIFT :: nat where "BLOOM_SHIFT = 26"

definition gnu_num_buckets :: "DynSym list \<Rightarrow> nat" where
  "gnu_num_buckets syms = length (filter ds_exported syms) div LOAD_FACTOR + 1"

definition dynsym_key :: "nat \<Rightarrow> nat \<times> DynSym \<Rightarrow> bool \<times> nat \<times> nat" where
  "dynsym_key num_buckets x = (case x of (idx, s) \<Rightarrow>
     (ds_exported s, unat (djb_hash (ds_name s)) mod num_buckets, idx))"

definition dynsym_finalize :: "bool \<Rightarrow> DynSym list \<Rightarrow> DynSym list" where
  "dynsym_finalize gnu_hash syms =
     (let locals = filter is_local syms;
          globals = filter (\<lambda>s. \<not> is_local s) syms
      in if gnu_hash
         then locals @ map snd (sort_key (dynsym_key (gnu_num_buckets syms)) (enumerate (Suc (length locals)) globals))
         else locals @ globals)"

subsection \<open>The .hash section\<close>

text \<open>The buckets and the chain, and the insertion of the symbol with index \<open>i\<close>.\<close>

definition hash_insert :: "DynSym list \<Rightarrow> nat \<Rightarrow> u32 list \<times> u32 list \<Rightarrow> u32 list \<times> u32 list" where
  "hash_insert syms i st = (case st of (buckets, chain) \<Rightarrow>
     let h = unat (elf_hash (ds_name (syms ! (i - 1)))) mod Suc (length syms)
     in (buckets[h := of_nat i], chain[i := buckets ! h]))"

definition hash_tables :: "DynSym list \<Rightarrow> u32 list \<times> u32 list" where
  "hash_tables syms =
     (let n = Suc (length syms)
      in fold (hash_insert syms) [1..<n] (replicate n 0, replicate n 0))"

definition hash_sh_size :: "DynSym list \<Rightarrow> nat" where
  "hash_sh_size syms = 8 + Suc (length syms) * 8"

definition hash_copy_buf :: "machine \<Rightarrow> DynSym list \<Rightarrow> bytes" where
  "hash_copy_buf m syms =
     (let n = of_nat (Suc (length syms)); (buckets, chain) = hash_tables syms
      in enc_list (U32_enc m) (n # n # buckets @ chain))"

subsection \<open>The .gnu.hash section\<close>

text \<open>\<open>get_exported_symbols\<close>: \<^verbatim>\<open>std::partition_point\<close> on symbols of which the exported ones come last.\<close>

definition get_exported_symbols :: "DynSym list \<Rightarrow> DynSym list" where
  "get_exported_symbols syms = dropWhile (\<lambda>s. \<not> ds_exported s) syms"

definition gnu_num_bloom :: "machine \<Rightarrow> DynSym list \<Rightarrow> u64 result" where
  "gnu_num_bloom m syms =
     (let num_exported = length (get_exported_symbols syms)
      in if num_exported \<noteq> 0 then bit_ceil (of_nat (num_exported * 12 div (word_bytes m * 8))) else Inr 1)"

definition gnu_sh_size :: "machine \<Rightarrow> nat \<Rightarrow> nat \<Rightarrow> DynSym list \<Rightarrow> nat" where
  "gnu_sh_size m num_buckets num_bloom syms =
     HEADER_SIZE + num_bloom * word_bytes m + num_buckets * 4 + length (get_exported_symbols syms) * 4"

definition bloom_add :: "nat \<Rightarrow> nat \<Rightarrow> u64 list \<Rightarrow> u64 list" where
  "bloom_add word_bits h bloom =
     (let idx = (h div word_bits) mod length bloom
      in bloom[idx := bloom ! idx OR push_bit (h mod word_bits) 1 OR push_bit ((h div 2 ^ BLOOM_SHIFT) mod word_bits) 1])"

definition gnu_bloom :: "nat \<Rightarrow> nat \<Rightarrow> nat list \<Rightarrow> u64 list" where
  "gnu_bloom word_bits num_bloom hs = fold (bloom_add word_bits) hs (replicate num_bloom 0)"

fun gnu_buckets :: "nat \<Rightarrow> nat list \<Rightarrow> u32 list \<Rightarrow> u32 list" where
  "gnu_buckets sym_idx [] buckets = buckets"
| "gnu_buckets sym_idx (b # bs) buckets =
     gnu_buckets (Suc sym_idx) bs (if buckets ! b = 0 then buckets[b := of_nat sym_idx] else buckets)"

fun gnu_table :: "u32 list \<Rightarrow> nat list \<Rightarrow> u32 list" where
  "gnu_table (h # hs) (b # bs) =
     (if bs = [] \<or> b \<noteq> hd bs then h OR 1 else h AND NOT 1) # gnu_table hs bs"
| "gnu_table _ _ = []"

definition gnu_copy_buf :: "machine \<Rightarrow> nat \<Rightarrow> nat \<Rightarrow> DynSym list \<Rightarrow> bytes" where
  "gnu_copy_buf m num_buckets num_bloom dynsyms =
     (let syms = get_exported_symbols dynsyms;
          exported_offset = Suc (length dynsyms) - length syms;
          hs = map (\<lambda>s. djb_hash (ds_name s)) syms;
          indices = map (\<lambda>h. unat h mod num_buckets) hs
      in enc_list (U32_enc m) [of_nat num_buckets, of_nat exported_offset, of_nat num_bloom, of_nat BLOOM_SHIFT]
         @ enc_list (Word_enc m) (gnu_bloom (word_bytes m * 8) num_bloom (map unat hs))
         @ enc_list (U32_enc m) (gnu_buckets exported_offset indices (replicate num_buckets 0))
         @ enc_list (U32_enc m) (gnu_table hs indices))"

subsection \<open>The loader\<close>

text \<open>
  A lookup in \<^verbatim>\<open>.hash\<close>, and in \<^verbatim>\<open>.gnu.hash\<close> with its Bloom filter; \<open>None\<close> when the fuel runs out
  or an index is out of range, \<open>Some None\<close> when the name is not there.
\<close>

fun sysv_walk :: "nat \<Rightarrow> DynSym list \<Rightarrow> u32 list \<Rightarrow> bytes \<Rightarrow> u32 \<Rightarrow> nat option option" where
  "sysv_walk 0 syms chain name y = None"
| "sysv_walk (Suc fuel) syms chain name y =
     (if y = 0 then Some None
      else if unat y < length chain \<and> unat y \<le> length syms
           then if ds_name (syms ! (unat y - 1)) = name then Some (Some (unat y))
                else sysv_walk fuel syms chain name (chain ! unat y)
           else None)"

definition sysv_lookup :: "machine \<Rightarrow> bytes \<Rightarrow> DynSym list \<Rightarrow> bytes \<Rightarrow> nat option option" where
  "sysv_lookup m sec syms name =
     (case dec_list (U32_dec m) 2 sec of
        Some ([nbucket, nchain], r) \<Rightarrow>
          (case dec_list (U32_dec m) (unat nbucket) r of
             Some (buckets, r') \<Rightarrow>
               (case dec_list (U32_dec m) (unat nchain) r' of
                  Some (chain, _) \<Rightarrow>
                    if nbucket = 0 then None
                    else sysv_walk (Suc (unat nchain)) syms chain name (buckets ! (unat (elf_hash name) mod unat nbucket))
                | None \<Rightarrow> None)
           | None \<Rightarrow> None)
      | _ \<Rightarrow> None)"

fun gnu_walk :: "nat \<Rightarrow> DynSym list \<Rightarrow> u32 list \<Rightarrow> nat \<Rightarrow> bytes \<Rightarrow> nat \<Rightarrow> nat option option" where
  "gnu_walk 0 syms table off name i = None"
| "gnu_walk (Suc fuel) syms table off name i =
     (if off \<le> i \<and> i - off < length table \<and> 0 < i \<and> i \<le> length syms
      then let h = table ! (i - off)
           in if h OR 1 = djb_hash name OR 1 \<and> ds_name (syms ! (i - 1)) = name then Some (Some i)
              else if h AND 1 \<noteq> 0 then Some None
              else gnu_walk fuel syms table off name (Suc i)
      else None)"

definition gnu_lookup :: "machine \<Rightarrow> bytes \<Rightarrow> DynSym list \<Rightarrow> bytes \<Rightarrow> nat option option" where
  "gnu_lookup m sec syms name =
     (case dec_list (U32_dec m) 4 sec of
        Some ([nbuckets, symoffset, bloom_size, bloom_shift], r) \<Rightarrow>
          (case dec_list (Word_dec m) (unat bloom_size) r of
             Some (bloom, r') \<Rightarrow>
               (case dec_list (U32_dec m) (unat nbuckets) r' of
                  Some (buckets, r'') \<Rightarrow>
                    let h = unat (djb_hash name); wb = word_bytes m * 8;
                        w = bloom ! ((h div wb) AND (unat bloom_size - 1));
                        i = buckets ! (h mod unat nbuckets)
                    in if nbuckets = 0 \<or> bloom_size = 0 then None
                       else if \<not> (bit w (h mod wb) \<and> bit w ((h div 2 ^ unat bloom_shift) mod wb)) then Some None
                       else if i = 0 then Some None
                       else (case dec_list (U32_dec m) (length r'' div 4) r'' of
                               Some (table, _) \<Rightarrow> gnu_walk (Suc (length table)) syms table (unat symoffset) name (unat i)
                             | None \<Rightarrow> None)
                | None \<Rightarrow> None)
           | None \<Rightarrow> None)
      | _ \<Rightarrow> None)"


subsection \<open>Chains of the .hash section\<close>

text \<open>\<open>is_chain c y js\<close>: from \<open>y\<close> on the chain array links the indices \<open>js\<close>.\<close>

fun is_chain :: "u32 list \<Rightarrow> u32 \<Rightarrow> nat list \<Rightarrow> bool" where
  "is_chain c y [] \<longleftrightarrow> y = 0"
| "is_chain c y (j # js) \<longleftrightarrow> unat y = j \<and> 0 < j \<and> j < length c \<and> is_chain c (c ! j) js"

lemma is_chain_update: "i \<notin> set js \<Longrightarrow> is_chain (c[i := v]) y js \<longleftrightarrow> is_chain c y js"
  by (induction c y js rule: is_chain.induct) auto

lemma sysv_walk_chain:
  "is_chain c y js \<Longrightarrow> length js < fuel \<Longrightarrow> \<forall>j\<in>set js. j \<le> length syms \<Longrightarrow>
     sysv_walk fuel syms c name y = Some (find (\<lambda>j. ds_name (syms ! (j - 1)) = name) js)"
proof (induction js arbitrary: fuel y)
  case Nil
  then show ?case by (cases fuel) auto
next
  case (Cons j js)
  then obtain f where "fuel = Suc f" by (cases fuel) auto
  with Cons show ?case by (auto simp flip: unat_gt_0)
qed

abbreviation sysv_bucket :: "DynSym list \<Rightarrow> nat \<Rightarrow> nat" where
  "sysv_bucket syms i \<equiv> unat (elf_hash (ds_name (syms ! (i - 1)))) mod Suc (length syms)"

lemma hash_fold:
  assumes "k \<le> length syms" and "Suc (length syms) < 2 ^ 32"
  defines "st \<equiv> fold (hash_insert syms) [1..<Suc k] (replicate (Suc (length syms)) 0, replicate (Suc (length syms)) 0)"
  shows "length (fst st) = Suc (length syms) \<and> length (snd st) = Suc (length syms) \<and>
    (\<forall>b \<le> length syms. is_chain (snd st) (fst st ! b) (rev (filter (\<lambda>i. sysv_bucket syms i = b) [1..<Suc k])))"
  using assms(1) unfolding st_def
proof (induction k)
  case (Suc k)
  let ?n = "Suc (length syms)"
  obtain bk ch where st: "fold (hash_insert syms) [1..<Suc k] (replicate ?n 0, replicate ?n 0) = (bk, ch)" by fastforce
  let ?h = "sysv_bucket syms (Suc k)"
  have ih: "length bk = ?n" "length ch = ?n"
      "\<And>b. b \<le> length syms \<Longrightarrow> is_chain ch (bk ! b) (rev (filter (\<lambda>i. sysv_bucket syms i = b) [1..<Suc k]))"
    using Suc st by simp_all
  have "fold (hash_insert syms) [1..<Suc (Suc k)] (replicate ?n 0, replicate ?n 0) =
      (bk[?h := of_nat (Suc k)], ch[Suc k := bk ! ?h])"
    using st by (simp add: hash_insert_def Let_def)
  moreover have "is_chain (ch[Suc k := bk ! ?h]) (bk[?h := of_nat (Suc k)] ! b)
      (rev (filter (\<lambda>i. sysv_bucket syms i = b) [1..<Suc (Suc k)]))" if b: "b \<le> length syms" for b
  proof -
    have upd: "is_chain (ch[Suc k := bk ! ?h]) y (rev (filter P [1..<Suc k])) \<longleftrightarrow> is_chain ch y (rev (filter P [1..<Suc k]))" for y P
      by (rule is_chain_update) simp
    have split: "rev (filter P [1..<Suc (Suc k)]) = (if P (Suc k) then [Suc k] else []) @ rev (filter P [1..<Suc k])" for P
      by simp
    show ?thesis
    proof (cases "b = ?h")
      case True
      have "unat (of_nat (Suc k) :: u32) = Suc k" using Suc.prems assms(2) by (simp add: unat_of_nat del: of_nat_Suc)
      then show ?thesis
        unfolding split using True ih b Suc.prems upd [of "bk ! ?h"] by (simp del: of_nat_Suc upt_Suc)
    next
      case False
      then show ?thesis unfolding split using ih b upd by (simp del: upt_Suc)
    qed
  qed
  ultimately show ?case using ih by simp
qed (auto simp: nth_Cons split: nat.split)

lemma enc_list_append: "enc_list e (xs @ ys) = enc_list e xs @ enc_list e ys"
  by (induction xs) simp_all

lemma codec_array_U32: "codec_array (\<lambda>_. True) (U32_enc m) (U32_dec m) 4"
  unfolding codec_array_def by (rule int_codecs_m)

lemma dec_U32_list: "length xs = n \<Longrightarrow> dec_list (U32_dec m) n (enc_list (U32_enc m) xs @ r) = Some (xs, r)"
  using codec_array.dec_list_enc_list [OF codec_array_U32, of xs m r] by (simp add: list_all_iff)

lemma length_U32_list: "length (enc_list (U32_enc m) xs) = length xs * 4"
  using codec_array.length_enc_list [OF codec_array_U32, of xs m] by (simp add: list_all_iff)

lemma find_rev_filter_Some:
  assumes "find P (rev (filter Q xs)) = Some x"
  shows "x \<in> set xs \<and> P x \<and> Q x"
proof -
  obtain i where "i < length (rev (filter Q xs))" "P x" "x = rev (filter Q xs) ! i"
    using assms unfolding find_Some_iff by blast
  then have "P x" "x \<in> set (rev (filter Q xs))" by (simp_all only: nth_mem)
  then show ?thesis by simp
qed

subsection \<open>Properties of .hash\<close>

text \<open>
  C34: every dynamic symbol can be looked up through \<^verbatim>\<open>.hash\<close>. The section has the size computed for it; a loader
  that reads it terminates for every name and finds a symbol of that name exactly
  if there is one.
\<close>

theorem hash_lookup:
  assumes "Suc (length syms) < 2 ^ 32"
  shows "length (hash_copy_buf m syms) = hash_sh_size syms \<and>
    (case sysv_lookup m (hash_copy_buf m syms) syms name of
       None \<Rightarrow> False
     | Some None \<Rightarrow> name \<notin> ds_name ` set syms
     | Some (Some i) \<Rightarrow> 0 < i \<and> i \<le> length syms \<and> ds_name (syms ! (i - 1)) = name)"
proof -
  let ?n = "Suc (length syms)"
  obtain bk ch where t: "hash_tables syms = (bk, ch)" by fastforce
  let ?b = "unat (elf_hash name) mod ?n"
  let ?js = "rev (filter (\<lambda>i. sysv_bucket syms i = ?b) [1..<?n])"
  have l: "length bk = ?n" "length ch = ?n" and chain: "is_chain ch (bk ! ?b) ?js"
    using hash_fold [of "length syms" syms] assms t by (simp_all add: hash_tables_def Let_def less_Suc_eq_le [symmetric])
  have n: "unat (of_nat ?n :: u32) = ?n" using assms by (simp add: unat_of_nat del: of_nat_Suc)
  then have nz: "(of_nat ?n :: u32) \<noteq> 0" by (metis nat.distinct(1) unsigned_0)
  have buf: "hash_copy_buf m syms = enc_list (U32_enc m) [of_nat ?n, of_nat ?n] @ enc_list (U32_enc m) bk @ enc_list (U32_enc m) ch"
    by (simp add: hash_copy_buf_def t Let_def enc_list_append)
  have "dec_list (U32_dec m) 2 (hash_copy_buf m syms) = Some ([of_nat ?n, of_nat ?n], enc_list (U32_enc m) bk @ enc_list (U32_enc m) ch)"
    unfolding buf by (rule dec_U32_list) simp
  moreover have "dec_list (U32_dec m) ?n (enc_list (U32_enc m) ch) = Some (ch, [])"
    using dec_U32_list [OF l(2), of m "[]"] by simp
  ultimately have "sysv_lookup m (hash_copy_buf m syms) syms name = sysv_walk (Suc ?n) syms ch name (bk ! ?b)"
    using n nz by (simp add: sysv_lookup_def dec_U32_list [OF l(1)] del: of_nat_Suc dec_list.simps sysv_walk.simps)
  also have "\<dots> = Some (find (\<lambda>j. ds_name (syms ! (j - 1)) = name) ?js)"
  proof (rule sysv_walk_chain [OF chain])
    have "length (filter Q [1..<?n]) \<le> length syms" for Q using length_filter_le [of Q "[1..<?n]"] by (simp only: length_upt diff_Suc_1)
    then show "length ?js < Suc ?n" unfolding length_rev by (meson le_less_trans lessI less_SucI)
  qed auto
  finally have look: "sysv_lookup m (hash_copy_buf m syms) syms name = Some (find (\<lambda>j. ds_name (syms ! (j - 1)) = name) ?js)" .
  have size: "length (hash_copy_buf m syms) = hash_sh_size syms"
    unfolding buf using l by (simp add: length_U32_list hash_sh_size_def del: enc_list.simps)
  show ?thesis
  proof (cases "find (\<lambda>j. ds_name (syms ! (j - 1)) = name) ?js")
    case None
    have "name \<notin> ds_name ` set syms"
    proof
      assume "name \<in> ds_name ` set syms"
      then obtain k where k: "k < length syms" "ds_name (syms ! k) = name" by (auto simp: in_set_conv_nth)
      then have "Suc k \<in> set ?js" by (simp del: upt_Suc)
      with None k show False unfolding find_None_iff by auto
    qed
    then show ?thesis unfolding look None using size by simp
  next
    case (Some i)
    then have "0 < i \<and> i \<le> length syms \<and> ds_name (syms ! (i - 1)) = name"
      using find_rev_filter_Some [OF Some] by auto
    then show ?thesis unfolding look Some using size by simp
  qed
qed

theorem hash_lookup_witness:
  "length (hash_copy_buf X86_64 [\<lparr> ds_name = str ''f'', ds_imported = True, ds_exported = False \<rparr>]) = 24 \<and>
   sysv_lookup X86_64 (hash_copy_buf X86_64 [\<lparr> ds_name = str ''f'', ds_imported = True, ds_exported = False \<rparr>])
     [\<lparr> ds_name = str ''f'', ds_imported = True, ds_exported = False \<rparr>] (str ''f'') = Some (Some 1)"
  using hash_lookup [of "[\<lparr> ds_name = str ''f'', ds_imported = True, ds_exported = False \<rparr>]" X86_64 "str ''f''"]
  by (auto simp: hash_sh_size_def split: option.splits)

subsection \<open>The Bloom filter\<close>

lemma length_bloom_add [simp]: "length (bloom_add wb h b) = length b"
  by (simp add: bloom_add_def Let_def)

lemma length_gnu_bloom [simp]: "length (gnu_bloom wb n hs) = n"
proof -
  have "length (fold (bloom_add wb) hs b) = length b" for b by (induction hs arbitrary: b) simp_all
  then show ?thesis by (simp add: gnu_bloom_def)
qed

lemma bloom_add_mono: "i < length b \<Longrightarrow> bit (b ! i) k \<Longrightarrow> bit (bloom_add wb h b ! i) k"
  by (cases "i = h div wb mod length b") (simp_all add: bloom_add_def Let_def bit_or_iff)

lemma bloom_fold_mono: "i < length b \<Longrightarrow> bit (b ! i) k \<Longrightarrow> bit (fold (bloom_add wb) hs b ! i) k"
  by (induction hs arbitrary: b) (simp_all add: bloom_add_mono)

lemma bloom_add_bits:
  assumes "0 < length b" "0 < wb" "wb \<le> 64"
  shows "bit (bloom_add wb h b ! (h div wb mod length b)) (h mod wb) \<and>
    bit (bloom_add wb h b ! (h div wb mod length b)) (h div 2 ^ BLOOM_SHIFT mod wb)"
proof -
  have "h mod wb < 64" "h div 2 ^ BLOOM_SHIFT mod wb < 64"
    using assms(2, 3) by (auto intro: less_le_trans [OF mod_less_divisor])
  then show ?thesis using assms(1) by (simp add: bloom_add_def Let_def bit_simps)
qed

lemma gnu_bloom_hit:
  assumes "h \<in> set hs" "0 < n" "0 < wb" "wb \<le> 64"
  shows "bit (gnu_bloom wb n hs ! (h div wb mod n)) (h mod wb) \<and>
    bit (gnu_bloom wb n hs ! (h div wb mod n)) (h div 2 ^ BLOOM_SHIFT mod wb)"
proof -
  obtain as bs where hs: "hs = as @ h # bs" using assms(1) by (meson split_list)
  let ?b = "fold (bloom_add wb) as (replicate n 0)"
  have "length ?b = n" using length_gnu_bloom [of wb n as] by (simp add: gnu_bloom_def)
  then show ?thesis
    using bloom_add_bits [of ?b wb h] assms(2-4) bloom_fold_mono
    by (auto simp: gnu_bloom_def hs)
qed

lemma or_small: "unat (a :: u64) < 2 ^ 32 \<Longrightarrow> k < 32 \<Longrightarrow> unat (a OR push_bit k 1) < 2 ^ 32"
proof -
  assume a: "unat a < 2 ^ 32" and k: "k < 32"
  have "take_bit 32 (push_bit k 1 :: u64) = push_bit k 1"
    using k by (intro bit_word_eqI) (auto simp: bit_simps)
  moreover have "take_bit 32 a = a" using a by (simp only: take_bit_self_unat)
  ultimately have "take_bit 32 (a OR push_bit k 1) = a OR push_bit k 1" unfolding take_bit_or by metis
  then show ?thesis by (simp only: take_bit_self_unat)
qed

lemma gnu_bloom_word_ok: "0 < n \<Longrightarrow> list_all (Word_ok m) (gnu_bloom (word_bytes m * 8) n hs)"
proof (cases "m64 m")
  case False
  assume n: "0 < n"
  have "list_all (\<lambda>w. unat w < 2 ^ 32) (bloom_add 32 h b)" if "list_all (\<lambda>w. unat w < 2 ^ 32) b" "b \<noteq> []" for h and b :: "u64 list"
  proof -
    let ?i = "h div 32 mod length b"
    have "?i < length b" using that(2) by simp
    then have "unat (b ! ?i) < 2 ^ 32" using that(1) by (simp only: list_all_length)
    then have "unat ((b ! ?i OR push_bit (h mod 32) 1) OR push_bit (h div 2 ^ BLOOM_SHIFT mod 32) 1) < 2 ^ 32"
      by (intro or_small) simp_all
    then have "\<forall>j<length b. unat (b[?i := b ! ?i OR push_bit (h mod 32) 1 OR push_bit (h div 2 ^ BLOOM_SHIFT mod 32) 1] ! j) < 2 ^ 32"
      using that(1) unfolding list_all_length or.assoc
      by (metis nth_list_update_eq nth_list_update_neq)
    then show ?thesis unfolding bloom_add_def Let_def list_all_length length_list_update .
  qed
  then have "list_all (\<lambda>w. unat w < 2 ^ 32) (fold (bloom_add 32) hs b)"
    if "list_all (\<lambda>w. unat w < 2 ^ 32) b" "b \<noteq> []" for b :: "u64 list"
    using that
  proof (induction hs arbitrary: b)
    case (Cons h hs)
    have "bloom_add 32 h b \<noteq> []" using Cons.prems(3) by (metis length_0_conv length_bloom_add)
    with Cons show ?case by simp
  qed simp
  from this [of "replicate n 0"] n False show ?thesis
    by (simp add: gnu_bloom_def word_bytes_def Word_ok_def list_all_iff)
qed (simp add: list_all_iff Word_ok_def)

subsection \<open>Buckets and table\<close>

lemma length_gnu_buckets [simp]: "length (gnu_buckets k bs bk) = length bk"
  by (induction k bs bk rule: gnu_buckets.induct) simp_all

lemma gnu_buckets_nth:
  "b < length bk \<Longrightarrow> \<forall>x\<in>set bs. x < length bk \<Longrightarrow> 0 < k \<Longrightarrow> k + length bs < 2 ^ 32 \<Longrightarrow>
     gnu_buckets k bs bk ! b =
       (if bk ! b \<noteq> 0 then bk ! b else case find_pos (\<lambda>x. x = b) bs of None \<Rightarrow> 0 | Some i \<Rightarrow> of_nat (k + i))"
proof (induction k bs bk rule: gnu_buckets.induct)
  case (2 k x bs bk)
  have "unat (of_nat k :: u32) = k" using "2.prems"(4) by (simp add: unat_of_nat)
  then have nz: "(of_nat k :: u32) \<noteq> 0" using "2.prems"(3) by (metis less_irrefl unsigned_0)
  let ?bk = "if bk ! x = 0 then bk[x := of_nat k] else bk"
  have IH: "gnu_buckets (Suc k) bs ?bk ! b =
       (if ?bk ! b \<noteq> 0 then ?bk ! b else case find_pos (\<lambda>x. x = b) bs of None \<Rightarrow> 0 | Some i \<Rightarrow> of_nat (Suc k + i))"
    using "2.prems" by (intro "2.IH") auto
  have "gnu_buckets k (x # bs) bk = gnu_buckets (Suc k) bs ?bk" by simp
  moreover have "?bk ! b = (if x = b \<and> bk ! b = 0 then of_nat k else bk ! b)"
    using "2.prems"(1) by (cases "x = b") auto
  ultimately show ?case using IH nz by (auto split: option.splits)
qed simp

lemma length_gnu_table [simp]: "length hs = length bs \<Longrightarrow> length (gnu_table hs bs) = length bs"
  by (induction hs bs rule: gnu_table.induct) auto

lemma gnu_table_nth:
  "length hs = length bs \<Longrightarrow> i < length bs \<Longrightarrow>
     gnu_table hs bs ! i = (if Suc i = length bs \<or> bs ! i \<noteq> bs ! Suc i then hs ! i OR 1 else hs ! i AND NOT 1)"
proof (induction hs bs arbitrary: i rule: gnu_table.induct)
  case (1 h hs b bs)
  then show ?case by (cases i; cases bs) auto
qed auto

lemma or_1_and_not_1: "(h AND NOT 1) OR 1 = h OR (1 :: u32)" "((h AND NOT 1) AND 1 :: u32) = 0" "(h OR 1) OR 1 = h OR (1 :: u32)"
    "(h OR 1) AND 1 \<noteq> (0 :: u32)"
proof -
  show "(h AND NOT 1) OR 1 = h OR (1 :: u32)" "((h AND NOT 1) AND 1 :: u32) = 0" "(h OR 1) OR 1 = h OR (1 :: u32)"
    by (rule bit_word_eqI; auto simp: bit_simps)+
  have "bit ((h OR 1) AND 1 :: u32) 0" by (simp add: bit_simps)
  then show "(h OR 1) AND 1 \<noteq> (0 :: u32)" by (metis bit_0_eq bot_apply bot_bool_def)
qed

lemma upt_filter_Nil: "\<forall>j. Suc i \<le> j \<and> j < n \<longrightarrow> \<not> P j \<Longrightarrow> filter P [Suc i..<n] = []"
  by (simp add: filter_empty_conv)

text \<open>Walking the table from an entry of bucket \<open>b\<close> visits exactly the later entries of that bucket.\<close>

lemma gnu_walk_find:
  fixes pre ex :: "DynSym list" and name :: bytes and nb :: nat
  defines "hs \<equiv> map (\<lambda>s. djb_hash (ds_name s)) ex"
  defines "bs \<equiv> map (\<lambda>h. unat h mod nb) hs"
  defines "b \<equiv> unat (djb_hash name) mod nb"
  assumes "sorted bs" "i < length ex" "bs ! i = b" "length ex \<le> fuel + i"
  shows "gnu_walk (Suc fuel) (pre @ ex) (gnu_table hs bs) (Suc (length pre)) name (Suc (length pre) + i) =
    Some (map_option ((+) (Suc (length pre))) (find (\<lambda>j. ds_name (ex ! j) = name) (filter (\<lambda>j. bs ! j = b) [i..<length ex])))"
  using assms(5-7)
proof (induction fuel arbitrary: i)
  case 0
  then show ?case by simp
next
  case (Suc fuel)
  let ?t = "gnu_table hs bs ! i" and ?n = "length ex" and ?off = "Suc (length pre)"
  have len: "length hs = ?n" "length bs = ?n" by (simp_all add: hs_def bs_def)
  have hi: "hs ! i = djb_hash (ds_name (ex ! i))" using Suc.prems(1) by (simp add: hs_def)
  have t: "?t = (if Suc i = ?n \<or> bs ! i \<noteq> bs ! Suc i then hs ! i OR 1 else hs ! i AND NOT 1)"
    using gnu_table_nth [of hs bs i] len Suc.prems(1) by simp
  have t1: "?t OR 1 = hs ! i OR 1" unfolding t by (auto simp only: or_1_and_not_1 split: if_split)
  have tlast: "?t AND 1 \<noteq> 0 \<longleftrightarrow> Suc i = ?n \<or> bs ! i \<noteq> bs ! Suc i"
    unfolding t by (simp only: or_1_and_not_1 split: if_split) simp
  have up: "[i..<?n] = i # [Suc i..<?n]" using Suc.prems(1) by (rule upt_conv_Cons)
  have sy: "(pre @ ex) ! (?off + i - 1) = ex ! i" by (simp add: nth_append)
  have step: "gnu_walk (Suc (Suc fuel)) (pre @ ex) (gnu_table hs bs) ?off name (?off + i) =
      (if ds_name (ex ! i) = name then Some (Some (?off + i))
       else if ?t AND 1 \<noteq> 0 then Some None
       else gnu_walk (Suc fuel) (pre @ ex) (gnu_table hs bs) ?off name (?off + Suc i))"
    unfolding gnu_walk.simps(2) [of "Suc fuel"] using Suc.prems(1) len t1 hi sy by (auto simp: Let_def)
  show ?case
  proof (cases "ds_name (ex ! i) = name")
    case True
    then show ?thesis unfolding step up using Suc.prems(2) by simp
  next
    case False
    note ne = this
    show ?thesis
    proof (cases "Suc i = ?n \<or> bs ! i \<noteq> bs ! Suc i")
      case True
      have "filter (\<lambda>j. bs ! j = b) [Suc i..<?n] = []"
      proof (rule upt_filter_Nil, intro allI impI)
        fix j assume j: "Suc i \<le> j \<and> j < ?n"
        then have "bs ! i \<le> bs ! Suc i" "bs ! Suc i \<le> bs ! j" "bs ! i \<noteq> bs ! Suc i"
          using sorted_nth_mono [OF assms(4)] len True by auto
        then show "bs ! j \<noteq> b" using Suc.prems(2) by simp
      qed
      then show ?thesis unfolding step up using ne True tlast by simp
    next
      case more: False
      then have "gnu_walk (Suc fuel) (pre @ ex) (gnu_table hs bs) ?off name (?off + Suc i) =
          Some (map_option ((+) ?off) (find (\<lambda>j. ds_name (ex ! j) = name) (filter (\<lambda>j. bs ! j = b) [Suc i..<?n])))"
        using Suc.prems by (intro Suc.IH) auto
      moreover have "find (\<lambda>j. ds_name (ex ! j) = name) (filter (\<lambda>j. bs ! j = b) [i..<?n]) =
          find (\<lambda>j. ds_name (ex ! j) = name) (filter (\<lambda>j. bs ! j = b) [Suc i..<?n])"
        unfolding up using ne by simp
      ultimately show ?thesis unfolding step using ne more tlast by (simp only: if_False)
    qed
  qed
qed

subsection \<open>Exported symbols come last, ordered by bucket\<close>

lemma finalize_split:
  fixes syms0 :: "DynSym list"
  defines "syms \<equiv> dynsym_finalize True syms0"
  defines "ex \<equiv> get_exported_symbols syms"
  obtains pre where "syms = pre @ ex" and "set syms = set syms0" and "length syms = length syms0"
    and "set ex = {s \<in> set syms0. ds_exported s}"
    and "sorted (map (\<lambda>s. unat (djb_hash (ds_name s)) mod gnu_num_buckets syms0) ex)"
proof -
  define key where "key = dynsym_key (gnu_num_buckets syms0)"
  define locs where "locs = filter is_local syms0"
  define gs where "gs = enumerate (Suc (length locs)) (filter (\<lambda>s. \<not> is_local s) syms0)"
  define srt where "srt = sort_key key gs"
  have syms: "syms = locs @ map snd srt"
    by (simp add: syms_def dynsym_finalize_def Let_def locs_def gs_def srt_def key_def)
  have P: "\<not> ds_exported s" if "s \<in> set locs" for s using that by (simp add: locs_def is_local_def)
  have srt: "sorted (map key srt)" by (simp add: srt_def)
  let ?Q = "\<lambda>x. \<not> ds_exported (snd x)"
  have ex: "ex = map snd (dropWhile ?Q srt)"
    unfolding ex_def get_exported_symbols_def syms using P
    by (simp add: dropWhile_append2 dropWhile_map comp_def)
  have all: "ds_exported (snd x)" if x: "x \<in> set (dropWhile ?Q srt)" for x
  proof -
    obtain y ys where y: "dropWhile ?Q srt = y # ys" using x by (cases "dropWhile ?Q srt") auto
    then have "ds_exported (snd y)" by (metis (mono_tags) hd_dropWhile list.distinct(1) list.sel(1))
    moreover have "sorted (map key (dropWhile ?Q srt))" by (subst dropWhile_eq_drop) (use srt in \<open>simp add: drop_map [symmetric] sorted_wrt_drop\<close>)
    then have "key y \<le> key x" using x y by auto
    ultimately show ?thesis by (auto simp: key_def dynsym_key_def split: prod.splits)
  qed
  have set_srt: "set (map snd srt) = {s \<in> set syms0. \<not> is_local s}"
    by (simp add: srt_def gs_def flip: list.set_map)
  have "syms = (locs @ map snd (takeWhile ?Q srt)) @ ex"
    unfolding ex syms by (simp flip: map_append)
  moreover have "set syms = set syms0" unfolding syms using set_srt by (auto simp: locs_def)
  moreover have "length syms = length syms0"
    by (simp add: syms srt_def gs_def locs_def sum_length_filter_compl)
  moreover have "set ex = {s \<in> set syms0. ds_exported s}"
  proof -
    have "set ex = {s \<in> set (map snd srt). ds_exported s}"
    proof -
      have "{s \<in> set (map snd srt). ds_exported s} = set (filter ds_exported (map snd srt))" by auto
      also have "filter ds_exported (map snd srt) = filter ds_exported (map snd (takeWhile ?Q srt) @ ex)"
        unfolding ex by (simp flip: map_append)
      also have "\<dots> = filter ds_exported ex" by (auto simp: filter_empty_conv dest: set_takeWhileD)
      also have "\<dots> = ex"
      proof (rule filter_True, rule ballI)
        fix s assume "s \<in> set ex"
        then obtain x where "x \<in> set (dropWhile ?Q srt)" "s = snd x" unfolding ex by auto
        then show "ds_exported s" using all by blast
      qed
      finally show ?thesis by simp
    qed
    then show ?thesis using set_srt by (auto simp: is_local_def)
  qed
  moreover have "sorted (map (\<lambda>s. unat (djb_hash (ds_name s)) mod gnu_num_buckets syms0) ex)"
  proof -
    have "sorted (map key (dropWhile ?Q srt))" by (subst dropWhile_eq_drop) (use srt in \<open>simp add: drop_map [symmetric] sorted_wrt_drop\<close>)
    then have "sorted_wrt (\<lambda>x y. key x \<le> key y) (dropWhile ?Q srt)" by (simp add: sorted_wrt_map)
    then have "sorted_wrt (\<lambda>x y. unat (djb_hash (ds_name (snd x))) mod gnu_num_buckets syms0
        \<le> unat (djb_hash (ds_name (snd y))) mod gnu_num_buckets syms0) (dropWhile ?Q srt)"
    proof (rule sorted_wrt_mono_rel [rotated])
      fix x y assume "x \<in> set (dropWhile ?Q srt)" "y \<in> set (dropWhile ?Q srt)" and le: "key x \<le> key y"
      then have "ds_exported (snd x)" "ds_exported (snd y)" by (blast intro: all)+
      with le show "unat (djb_hash (ds_name (snd x))) mod gnu_num_buckets syms0
          \<le> unat (djb_hash (ds_name (snd y))) mod gnu_num_buckets syms0"
        by (cases x; cases y) (auto simp: key_def dynsym_key_def less_eq_prod_simp)
    qed
    then show ?thesis by (simp add: ex sorted_wrt_map)
  qed
  ultimately show thesis by (rule that)
qed

lemma bit_ceil_exists: "unat v \<le> 2 ^ 31 \<Longrightarrow> \<exists>k \<le> 31. bit_ceil v = Inr (2 ^ k)"
proof -
  assume v: "unat v \<le> 2 ^ 31"
  have "countl_zero v \<noteq> 0"
  proof (cases "v = 0")
    case False
    then show ?thesis using countl_zero_bounds(2) [OF False] v by (intro notI) simp
  qed (simp add: countl_zero_def takeWhile_eq_all_conv [THEN iffD2])
  then have "\<exists>r. bit_ceil v = Inr r" by (simp add: bit_ceil_def)
  then obtain r where r: "bit_ceil v = Inr r" ..
  obtain k where "r = 2 ^ k" "\<And>n. unat v \<le> 2 ^ n \<Longrightarrow> k \<le> n" by (rule bit_ceil_least_power [OF r]) blast
  with v r show ?thesis by blast
qed

lemma gnu_num_bloom_ok: "length syms < 2 ^ 28 \<Longrightarrow> \<exists>k \<le> 31. gnu_num_bloom m syms = Inr (2 ^ k)"
proof -
  assume l: "length syms < 2 ^ 28"
  let ?n = "length (get_exported_symbols syms)"
  have "?n \<le> length syms" by (simp add: get_exported_symbols_def length_dropWhile_le)
  then have n: "?n * 12 div (word_bytes m * 8) \<le> 2 ^ 31"
    using l by (auto simp: word_bytes_def intro: order_trans [OF div_le_dividend])
  then have "unat (of_nat (?n * 12 div (word_bytes m * 8)) :: u64) \<le> 2 ^ 31" by (simp add: unat_of_nat)
  then show ?thesis
    using bit_ceil_exists by (cases "?n = 0") (auto simp: gnu_num_bloom_def Let_def intro: exI [of _ 0])
qed

lemma dec_Word_list:
  "length xs = n \<Longrightarrow> list_all (Word_ok m) xs \<Longrightarrow> dec_list (Word_dec m) n (enc_list (Word_enc m) xs @ r) = Some (xs, r)"
  using codec_array.dec_list_enc_list [of "Word_ok m" "Word_enc m" "Word_dec m" "word_bytes m" xs r] codec_Word
  by (simp add: codec_array_def)

lemma length_Word_list: "list_all (Word_ok m) xs \<Longrightarrow> length (enc_list (Word_enc m) xs) = length xs * word_bytes m"
  using codec_array.length_enc_list [of "Word_ok m" "Word_enc m" "Word_dec m" "word_bytes m" xs] codec_Word
  by (simp add: codec_array_def)

lemma and_pow2_minus_1: "(x :: nat) AND (2 ^ k - 1) = x mod 2 ^ k"
  by (simp add: take_bit_eq_mod [symmetric] take_bit_eq_mask mask_eq_exp_minus_1)

text \<open>What the loader does once it has read the section.\<close>

lemma gnu_lookup_eq:
  fixes pre ex :: "DynSym list" and name :: bytes and m :: machine
  assumes "length (pre @ ex) < 2 ^ 28" and ge: "get_exported_symbols (pre @ ex) = ex" and nb: "0 < nb" "nb < 2 ^ 32" and k: "k \<le> 31"
  defines "hs \<equiv> map (\<lambda>s. djb_hash (ds_name s)) ex"
  defines "bs \<equiv> map (\<lambda>h. unat h mod nb) hs"
  defines "h \<equiv> unat (djb_hash name)" and "off \<equiv> Suc (length pre)" and "wb \<equiv> word_bytes m * 8"
  defines "w \<equiv> gnu_bloom wb (2 ^ k) (map unat hs) ! (h div wb mod 2 ^ k)"
  defines "i \<equiv> gnu_buckets off bs (replicate nb 0) ! (h mod nb)"
  shows "gnu_lookup m (gnu_copy_buf m nb (2 ^ k) (pre @ ex)) (pre @ ex) name =
     (if \<not> (bit w (h mod wb) \<and> bit w (h div 2 ^ BLOOM_SHIFT mod wb)) then Some None
      else if i = 0 then Some None
      else gnu_walk (Suc (length ex)) (pre @ ex) (gnu_table hs bs) off name (unat i))"
    and "length (gnu_copy_buf m nb (2 ^ k) (pre @ ex)) = gnu_sh_size m nb (2 ^ k) (pre @ ex)"
proof -
  let ?bloom = "gnu_bloom wb (2 ^ k) (map unat hs)" and ?bk = "gnu_buckets off bs (replicate nb 0)"
  let ?tb = "gnu_table hs bs"
  have off: "Suc (length (pre @ ex)) - length ex = off" by (simp add: off_def)
  have buf: "gnu_copy_buf m nb (2 ^ k) (pre @ ex) =
      enc_list (U32_enc m) [of_nat nb, of_nat off, of_nat (2 ^ k), of_nat BLOOM_SHIFT] @ enc_list (Word_enc m) ?bloom
      @ enc_list (U32_enc m) ?bk @ enc_list (U32_enc m) ?tb"
    unfolding gnu_copy_buf_def ge Let_def off by (simp only: hs_def bs_def wb_def)
  have "(2 :: nat) ^ k \<le> 2 ^ 31" using k by (intro power_increasing) simp_all
  then have u: "unat (of_nat nb :: u32) = nb" "unat (of_nat off :: u32) = off" "unat (of_nat (2 ^ k) :: u32) = 2 ^ k"
      "unat (of_nat BLOOM_SHIFT :: u32) = BLOOM_SHIFT"
    using nb assms(1) by (simp_all add: unat_of_nat off_def BLOOM_SHIFT_def del: of_nat_Suc of_nat_power)
  have ok: "list_all (Word_ok m) ?bloom" unfolding wb_def by (rule gnu_bloom_word_ok) simp
  have lb: "length ?bk = nb" by simp
  have lt: "length ?tb = length ex" by (simp add: hs_def bs_def)
  note d1 = dec_U32_list [of "[of_nat nb, of_nat off, of_nat (2 ^ k), of_nat BLOOM_SHIFT]" 4 m]
  note d2 = dec_Word_list [OF length_gnu_bloom ok]
  note d3 = dec_U32_list [OF lb, of m]
  have d4: "dec_list (U32_dec m) (length (enc_list (U32_enc m) ?tb) div 4) (enc_list (U32_enc m) ?tb) = Some (?tb, [])"
    using dec_U32_list [OF refl, of m ?tb "[]"] by (simp add: length_U32_list)
  have nz: "(of_nat nb :: u32) \<noteq> 0" "(of_nat (2 ^ k) :: u32) \<noteq> 0"
    using u(1, 3) nb(1) by (metis less_irrefl unsigned_0, metis power_not_zero unsigned_0 zero_neq_numeral)
  show "gnu_lookup m (gnu_copy_buf m nb (2 ^ k) (pre @ ex)) (pre @ ex) name =
     (if \<not> (bit w (h mod wb) \<and> bit w (h div 2 ^ BLOOM_SHIFT mod wb)) then Some None
      else if i = 0 then Some None
      else gnu_walk (Suc (length ex)) (pre @ ex) (gnu_table hs bs) off name (unat i))"
    unfolding gnu_lookup_def buf
    by (simp add: d1 d2 d3 d4 u nz lt and_pow2_minus_1 [unfolded One_nat_def] Let_def w_def i_def h_def [symmetric] wb_def [symmetric]
        del: of_nat_power dec_list.simps gnu_walk.simps enc_list.simps)
  show "length (gnu_copy_buf m nb (2 ^ k) (pre @ ex)) = gnu_sh_size m nb (2 ^ k) (pre @ ex)"
    unfolding buf gnu_sh_size_def ge
    by (simp add: length_U32_list length_Word_list [OF ok] lb lt HEADER_SIZE_def del: enc_list.simps of_nat_power)
qed

subsection \<open>Properties of .gnu.hash\<close>

text \<open>
  C7: every exported symbol can be looked up through \<^verbatim>\<open>.gnu.hash\<close>. For the symbols in the order
  \<^verbatim>\<open>finalize\<close> gives them, the section has the size computed for it, and a loader that
  consults the Bloom filter, the buckets and the hash values terminates for every name, finds only exported
  symbols of that name and does not find a name only if no exported symbol has it.
\<close>

theorem gnu_hash_lookup:
  fixes syms0 :: "DynSym list"
  assumes "length syms0 < 2 ^ 28"
  defines "syms \<equiv> dynsym_finalize True syms0" and "nb \<equiv> gnu_num_buckets syms0"
  shows "\<exists>nbl. gnu_num_bloom m syms = Inr nbl \<and>
    length (gnu_copy_buf m nb (unat nbl) syms) = gnu_sh_size m nb (unat nbl) syms \<and>
    (case gnu_lookup m (gnu_copy_buf m nb (unat nbl) syms) syms name of
       None \<Rightarrow> False
     | Some None \<Rightarrow> name \<notin> ds_name ` {s \<in> set syms0. ds_exported s}
     | Some (Some i) \<Rightarrow> 0 < i \<and> i \<le> length syms \<and> ds_exported (syms ! (i - 1)) \<and> ds_name (syms ! (i - 1)) = name)"
proof -
  define ex where "ex = get_exported_symbols syms"
  obtain pre where pe: "syms = pre @ ex" and len: "length syms = length syms0"
      and set_ex: "set ex = {s \<in> set syms0. ds_exported s}"
      and srt: "sorted (map (\<lambda>s. unat (djb_hash (ds_name s)) mod nb) ex)"
    unfolding ex_def syms_def nb_def by (rule finalize_split)
  obtain k where k: "k \<le> 31" "gnu_num_bloom m syms = Inr (2 ^ k)"
    using gnu_num_bloom_ok [of syms m] assms(1) len by auto
  have uk: "unat (2 ^ k :: u64) = 2 ^ k" using k(1) by (intro unat_power2) simp
  have "length (filter ds_exported syms0) div 8 \<le> length syms0"
    using div_le_dividend length_filter_le by (rule order_trans)
  then have nb: "0 < nb" "nb < 2 ^ 32"
    using assms(1) by (simp_all add: nb_def gnu_num_buckets_def LOAD_FACTOR_def)
  define hs where "hs = map (\<lambda>s. djb_hash (ds_name s)) ex"
  define bs where "bs = map (\<lambda>h. unat h mod nb) hs"
  define h where "h = unat (djb_hash name)"
  define b where "b = h mod nb"
  let ?off = "Suc (length pre)" and ?n = "length ex" and ?buf = "gnu_copy_buf m nb (2 ^ k) (pre @ ex)"
  let ?r = "find (\<lambda>j. ds_name (ex ! j) = name) (filter (\<lambda>j. bs ! j = b) [0..<?n])"
  have lbs: "length bs = ?n" and bs_nth: "\<And>j. j < ?n \<Longrightarrow> bs ! j = unat (djb_hash (ds_name (ex ! j))) mod nb"
    by (simp_all add: bs_def hs_def)
  have sorted_bs: "sorted bs" using srt by (simp add: bs_def hs_def comp_def)
  note eq = gnu_lookup_eq [of pre ex nb k, folded pe, OF _ ex_def [symmetric] nb k(1), folded hs_def, folded bs_def]
  have size: "length (gnu_copy_buf m nb (2 ^ k) syms) = gnu_sh_size m nb (2 ^ k) syms"
    using eq(2) assms(1) len by simp
  define w where "w = gnu_bloom (word_bytes m * 8) (2 ^ k) (map unat hs) ! (h div (word_bytes m * 8) mod 2 ^ k)"
  define i where "i = gnu_buckets ?off bs (replicate nb 0) ! b"
  have look: "gnu_lookup m (gnu_copy_buf m nb (2 ^ k) syms) syms name =
     (if \<not> (bit w (h mod (word_bytes m * 8)) \<and> bit w (h div 2 ^ BLOOM_SHIFT mod (word_bytes m * 8))) then Some None
      else if i = 0 then Some None
      else gnu_walk (Suc ?n) syms (gnu_table hs bs) ?off name (unat i))"
    using eq(1) [of m name] assms(1) len by (simp only: w_def i_def b_def h_def)
  have wk: "gnu_lookup m (gnu_copy_buf m nb (2 ^ k) syms) syms name = Some (map_option ((+) ?off) ?r)"
  proof (cases "bit w (h mod (word_bytes m * 8)) \<and> bit w (h div 2 ^ BLOOM_SHIFT mod (word_bytes m * 8))")
    case False
    have wb: "0 < word_bytes m * 8" "word_bytes m * 8 \<le> 64" by (simp_all add: word_bytes_def)
    have "h \<notin> set (map unat hs)"
      using False gnu_bloom_hit [OF _ _ wb, of h "map unat hs" "2 ^ k"] unfolding w_def by auto
    then have "\<forall>j<?n. ds_name (ex ! j) \<noteq> name" by (auto simp: h_def hs_def)
    then have "?r = None" by (auto simp: find_None_iff)
    then show ?thesis using False look by simp
  next
    case hit: True
    have iv: "i = (case find_pos (\<lambda>x. x = b) bs of None \<Rightarrow> 0 | Some i \<Rightarrow> of_nat (?off + i))"
      using gnu_buckets_nth [of b "replicate nb 0" bs ?off] nb(1) assms(1) len pe lbs
      by (simp add: i_def b_def bs_def del: of_nat_add of_nat_Suc)
    show ?thesis
    proof (cases "find_pos (\<lambda>x. x = b) bs")
      case None
      then have "filter (\<lambda>j. bs ! j = b) [0..<?n] = []"
        using nth_mem [of _ bs] unfolding find_pos_None filter_empty_conv lbs by auto
      then show ?thesis using look iv None by simp
    next
      case (Some j)
      have j: "j < ?n" "bs ! j = b" "\<forall>l<j. bs ! l \<noteq> b" using find_pos_Some [OF Some] lbs by auto
      have uo: "unat (of_nat (?off + j) :: u32) = ?off + j"
        using j(1) assms(1) len pe by (simp add: unat_of_nat del: of_nat_add of_nat_Suc)
      then have nz: "(of_nat (?off + j) :: u32) \<noteq> 0" by (metis add_Suc nat.distinct(1) unsigned_0)
      have "gnu_walk (Suc ?n) (pre @ ex) (gnu_table hs bs) ?off name (?off + j) =
          Some (map_option ((+) ?off) (find (\<lambda>l. ds_name (ex ! l) = name) (filter (\<lambda>l. bs ! l = b) [j..<?n])))"
        using gnu_walk_find [of nb ex j name ?n pre] sorted_bs j
        by (simp only: hs_def [symmetric] bs_def [symmetric] h_def [symmetric] b_def [symmetric] le_add1)
      moreover have "filter (\<lambda>l. bs ! l = b) [0..<?n] = filter (\<lambda>l. bs ! l = b) [j..<?n]"
      proof -
        have "[0..<?n] = [0..<j] @ [j..<?n]" using upt_add_eq_append [of 0 j "?n - j"] j(1) by simp
        moreover have "filter (\<lambda>l. bs ! l = b) [0..<j] = []" using j(3) by (simp add: filter_empty_conv)
        ultimately show ?thesis by (metis append_Nil filter_append)
      qed
      moreover have "i = of_nat (?off + j)" using iv Some by simp
      ultimately show ?thesis using look hit uo nz pe by (simp only: if_False not_True_eq_False simp_thms)
    qed
  qed
  show ?thesis
  proof (intro exI conjI)
    show "gnu_num_bloom m syms = Inr (2 ^ k)" by (fact k(2))
    show "length (gnu_copy_buf m nb (unat (2 ^ k :: u64)) syms) = gnu_sh_size m nb (unat (2 ^ k :: u64)) syms"
      unfolding uk by (fact size)
    show "case gnu_lookup m (gnu_copy_buf m nb (unat (2 ^ k :: u64)) syms) syms name of
       None \<Rightarrow> False
     | Some None \<Rightarrow> name \<notin> ds_name ` {s \<in> set syms0. ds_exported s}
     | Some (Some i) \<Rightarrow> 0 < i \<and> i \<le> length syms \<and> ds_exported (syms ! (i - 1)) \<and> ds_name (syms ! (i - 1)) = name"
    proof (cases ?r)
      case None
      have "name \<notin> ds_name ` set ex"
      proof
        assume "name \<in> ds_name ` set ex"
        then obtain j where j: "j < ?n" "ds_name (ex ! j) = name" by (auto simp: in_set_conv_nth)
        then have "j \<in> set (filter (\<lambda>j. bs ! j = b) [0..<?n])" using bs_nth by (simp add: b_def h_def)
        with None j(2) show False unfolding find_None_iff by blast
      qed
      then show ?thesis unfolding uk wk None set_ex by simp
    next
      case (Some j)
      have "j \<in> set (filter (\<lambda>j. bs ! j = b) [0..<?n]) \<and> ds_name (ex ! j) = name"
        using Some unfolding find_Some_iff by (metis nth_mem)
      then have j: "j < ?n" "ds_name (ex ! j) = name" by auto
      then have "ds_exported (ex ! j)" using nth_mem [OF j(1)] set_ex by auto
      then show ?thesis unfolding uk wk Some using j pe by (simp add: nth_append)
    qed
  qed
qed

theorem gnu_hash_lookup_witness:
  "\<exists>nbl. gnu_num_bloom PPC32 (dynsym_finalize True [\<lparr> ds_name = str ''g'', ds_imported = False, ds_exported = True \<rparr>]) = Inr nbl \<and>
    gnu_lookup PPC32 (gnu_copy_buf PPC32 1 (unat nbl) (dynsym_finalize True
        [\<lparr> ds_name = str ''g'', ds_imported = False, ds_exported = True \<rparr>]))
      (dynsym_finalize True [\<lparr> ds_name = str ''g'', ds_imported = False, ds_exported = True \<rparr>]) (str ''g'') = Some (Some 1)"
proof -
  let ?g = "\<lparr> ds_name = str ''g'', ds_imported = False, ds_exported = True \<rparr>"
  have f: "dynsym_finalize True [?g] = [?g]"
    by (simp add: dynsym_finalize_def is_local_def enumerate_eq_zip)
  have nb: "gnu_num_buckets [?g] = 1" by (simp add: gnu_num_buckets_def LOAD_FACTOR_def)
  obtain nbl where nbl: "gnu_num_bloom PPC32 [?g] = Inr nbl"
    and look: "case gnu_lookup PPC32 (gnu_copy_buf PPC32 1 (unat nbl) [?g]) [?g] (str ''g'') of
       None \<Rightarrow> False | Some None \<Rightarrow> str ''g'' \<notin> ds_name ` {s \<in> set [?g]. ds_exported s}
     | Some (Some i) \<Rightarrow> 0 < i \<and> i \<le> length [?g] \<and> ds_exported ([?g] ! (i - 1)) \<and> ds_name ([?g] ! (i - 1)) = str ''g''"
    using gnu_hash_lookup [of "[?g]" PPC32 "str ''g''"] unfolding f nb by auto
  have "str ''g'' \<in> ds_name ` {s \<in> set [?g]. ds_exported s}" by (rule image_eqI [of _ _ ?g]) simp_all
  with look have "gnu_lookup PPC32 (gnu_copy_buf PPC32 1 (unat nbl) [?g]) [?g] (str ''g'') = Some (Some 1)"
    by (simp only: split: option.splits) auto
  with nbl show ?thesis unfolding f by blast
qed

end
