(* ===== verification/Elf_GC.thy ===== *)
theory Elf_GC
  imports Elf_Types Reach
begin

text \<open>
  The mark-sweep collector of unreferenced sections in \<^verbatim>\<open>src/elf/gc-sections.cc\<close>. The input sections of all
  object files are one list, a section or a section fragment is an index, and a null pointer is \<open>None\<close>.
  What the collector reads through a symbol is where the symbol is defined.
\<close>

subsection \<open>Sections and references\<close>

text \<open>\<^verbatim>\<open>get_frag()\<close>, \<^verbatim>\<open>get_input_section()\<close>, or neither; a null symbol is the last as well.\<close>

datatype gc_ref = RefFrag nat | RefSec nat | RefNone

record GcFde =
  fde_alive :: bool
  fde_rels :: "gc_ref list"

record GcSec =
  gs_type :: u32
  gs_flags :: u64
  gs_name :: bytes
  gs_alive :: bool
  gs_fdes :: "GcFde list"
  gs_rels :: "gc_ref list"

record GcSym =
  gy_own_file :: bool
  gy_exported :: bool
  gy_ref :: gc_ref

text \<open>
  The context: sections, the symbols of the object files (\<open>gy_own_file\<close> is \<^verbatim>\<open>sym->file == file\<close>), what the
  entry, undefined and required symbols refer to, the references of the CIEs, and the fragments that are alive.
\<close>

record GcCtx =
  gc_secs :: "GcSec option list"
  gc_syms :: "GcSym list"
  gc_entry :: gc_ref
  gc_undefined :: "gc_ref list"
  gc_require_defined :: "gc_ref list"
  gc_cies :: "gc_ref list"
  gc_frags :: "nat set"

definition isec_at :: "GcCtx \<Rightarrow> nat \<Rightarrow> GcSec option" where
  "isec_at g i = (if i < length (gc_secs g) then gc_secs g ! i else None)"

definition is_alpha :: "u8 \<Rightarrow> bool" where
  "is_alpha c \<longleftrightarrow> c = 0x5f \<or> 0x61 \<le> c \<and> c \<le> 0x7a \<or> 0x41 \<le> c \<and> c \<le> 0x5a"

definition is_alnum :: "u8 \<Rightarrow> bool" where
  "is_alnum c \<longleftrightarrow> is_alpha c \<or> 0x30 \<le> c \<and> c \<le> 0x39"

fun is_c_identifier :: "bytes \<Rightarrow> bool" where
  "is_c_identifier [] \<longleftrightarrow> False"
| "is_c_identifier (c # s) \<longleftrightarrow> is_alpha c \<and> list_all is_alnum s"

definition should_keep :: "machine \<Rightarrow> GcSec \<Rightarrow> bool" where
  "should_keep m isec \<longleftrightarrow>
     (let ty = gs_type isec; flags = ucast (gs_flags isec) :: u32; name = gs_name isec in
      flags AND SHF_GNU_RETAIN \<noteq> 0 \<or> ty = SHT_NOTE \<or> ty = SHT_INIT_ARRAY \<or> ty = SHT_FINI_ARRAY \<or>
      ty = SHT_PREINIT_ARRAY \<or> (m = ARM32 \<and> ty = SHT_ARM_EXIDX) \<or> starts_with name (str ''.ctors'') \<or>
      starts_with name (str ''.dtors'') \<or> starts_with name (str ''.init'') \<or> starts_with name (str ''.fini'') \<or>
      is_c_identifier name)"

subsection \<open>Marking\<close>

text \<open>The visited flags, the fragments' alive flags, and what was given to the feeder (or to the root set).\<close>

record GcState =
  st_visited :: "nat set"
  st_frags :: "nat set"
  st_feeder :: "nat list"

definition markable :: "GcCtx \<Rightarrow> GcState \<Rightarrow> nat \<Rightarrow> bool" where
  "markable g st i \<longleftrightarrow> (case isec_at g i of None \<Rightarrow> False | Some s \<Rightarrow> gs_alive s) \<and> i \<notin> st_visited st"

text \<open>\<^verbatim>\<open>mark_section\<close> followed by \<open>act\<close> on the section if it could be marked.\<close>

definition mark_section :: "GcCtx \<Rightarrow> (nat \<Rightarrow> GcState \<Rightarrow> GcState) \<Rightarrow> nat \<Rightarrow> GcState \<Rightarrow> GcState" where
  "mark_section g act i st =
     (if markable g st i then act i (st \<lparr> st_visited := insert i (st_visited st) \<rparr>) else st)"

definition feeder_add :: "nat \<Rightarrow> GcState \<Rightarrow> GcState" where
  "feeder_add i st = st \<lparr> st_feeder := st_feeder st @ [i] \<rparr>"

definition visit_fde_ref :: "GcCtx \<Rightarrow> gc_ref \<Rightarrow> GcState \<Rightarrow> GcState" where
  "visit_fde_ref g r st = (case r of RefSec i \<Rightarrow> mark_section g feeder_add i st | _ \<Rightarrow> st)"

definition visit_ref :: "GcCtx \<Rightarrow> (nat \<Rightarrow> GcState \<Rightarrow> GcState) \<Rightarrow> gc_ref \<Rightarrow> GcState \<Rightarrow> GcState" where
  "visit_ref g descend r st =
     (case r of
        RefFrag f \<Rightarrow> st \<lparr> st_frags := insert f (st_frags st) \<rparr>
      | RefSec i \<Rightarrow> mark_section g descend i st
      | RefNone \<Rightarrow> st)"

definition visit_body :: "GcCtx \<Rightarrow> (nat \<Rightarrow> GcState \<Rightarrow> GcState) \<Rightarrow> nat \<Rightarrow> GcState \<Rightarrow> GcState" where
  "visit_body g descend i st =
     (case isec_at g i of
        None \<Rightarrow> st
      | Some s \<Rightarrow>
          fold (visit_ref g descend) (gs_rels s)
            (fold (visit_fde_ref g) (concat (map (\<lambda>fde. drop 1 (fde_rels fde)) (gs_fdes s))) st))"

text \<open>\<open>visit\<close> with the number of levels it may still descend (\<^verbatim>\<open>3 - depth\<close>).\<close>

primrec visit :: "nat \<Rightarrow> GcCtx \<Rightarrow> nat \<Rightarrow> GcState \<Rightarrow> GcState" where
  "visit 0 g = visit_body g feeder_add"
| "visit (Suc d) g = visit_body g (visit d g)"

subsection \<open>Roots\<close>

definition enqueue_section :: "GcCtx \<Rightarrow> nat \<Rightarrow> GcState \<Rightarrow> GcState" where
  "enqueue_section g i st = mark_section g feeder_add i st"

definition enqueue_symbol :: "GcCtx \<Rightarrow> gc_ref \<Rightarrow> GcState \<Rightarrow> GcState" where
  "enqueue_symbol g r st =
     (case r of
        RefFrag f \<Rightarrow> st \<lparr> st_frags := insert f (st_frags st) \<rparr>
      | RefSec i \<Rightarrow> enqueue_section g i st
      | RefNone \<Rightarrow> st)"

definition is_alloc :: "GcSec \<Rightarrow> bool" where
  "is_alloc s \<longleftrightarrow> (ucast (gs_flags s) :: u32) AND SHF_ALLOC \<noteq> 0"

definition root_section :: "machine \<Rightarrow> GcCtx \<Rightarrow> nat \<Rightarrow> GcState \<Rightarrow> GcState" where
  "root_section m g i st =
     (case isec_at g i of
        None \<Rightarrow> st
      | Some s \<Rightarrow>
          if \<not> gs_alive s then st
          else let st' = (if is_alloc s then st else st \<lparr> st_visited := insert i (st_visited st) \<rparr>)
               in if should_keep m s then enqueue_section g i st' else st')"

definition root_refs :: "GcCtx \<Rightarrow> gc_ref list" where
  "root_refs g =
     map gy_ref (filter (\<lambda>s. gy_own_file s \<and> gy_exported s) (gc_syms g))
     @ [gc_entry g] @ gc_undefined g @ gc_require_defined g @ gc_cies g"

definition collect_root_set :: "machine \<Rightarrow> GcCtx \<Rightarrow> GcState \<Rightarrow> GcState" where
  "collect_root_set m g st =
     fold (enqueue_symbol g) (root_refs g) (fold (root_section m g) [0..<length (gc_secs g)] st)"

subsection \<open>The mark loop\<close>

text \<open>
  \<open>mark\<close> visits the root set and whatever the visits feed back, here in the order of a queue. A visit
  feeds back no more sections than it marks, so the loop ends.
\<close>

definition unvisited :: "GcCtx \<Rightarrow> GcState \<Rightarrow> nat" where
  "unvisited g st = card ({..<length (gc_secs g)} - st_visited st)"

definition budget :: "GcCtx \<Rightarrow> GcState \<Rightarrow> nat" where
  "budget g st = length (st_feeder st) + unvisited g st"

lemma unvisited_insert:
  assumes "markable g st i"
  shows "Suc (unvisited g (st \<lparr> st_visited := insert i (st_visited st) \<rparr>)) = unvisited g st"
proof -
  have "i \<in> {..<length (gc_secs g)} - st_visited st"
    using assms by (auto simp: markable_def isec_at_def split: if_splits)
  then have "card ({..<length (gc_secs g)} - st_visited st) = Suc (card ({..<length (gc_secs g)} - st_visited st - {i}))"
    by (intro card.remove) auto
  moreover have "{..<length (gc_secs g)} - insert i (st_visited st) = {..<length (gc_secs g)} - st_visited st - {i}" by auto
  ultimately show ?thesis by (simp add: unvisited_def)
qed

lemma budget_mark:
  assumes "\<And>st. budget g (act i st) \<le> Suc (budget g st)"
  shows "budget g (mark_section g act i st) \<le> budget g st"
proof (cases "markable g st i")
  case True
  let ?st = "st \<lparr> st_visited := insert i (st_visited st) \<rparr>"
  have "budget g (act i ?st) \<le> Suc (budget g ?st)" by (rule assms)
  also have "Suc (budget g ?st) = budget g st" using unvisited_insert [OF True] by (simp add: budget_def)
  finally show ?thesis by (simp add: mark_section_def True)
qed (simp add: mark_section_def)

lemma budget_feeder_add: "budget g (feeder_add i st) \<le> Suc (budget g st)"
  by (simp add: budget_def feeder_add_def unvisited_def)

lemma budget_fold: "(\<And>x st. budget g (f x st) \<le> budget g st) \<Longrightarrow> budget g (fold f xs st) \<le> budget g st"
proof (induction xs arbitrary: st)
  case (Cons x xs)
  have "budget g (fold f xs (f x st)) \<le> budget g (f x st)" by (rule Cons.IH) (rule Cons.prems)
  then show ?case using Cons.prems [of x st] by simp
qed simp

lemma budget_body:
  assumes "\<And>i st. budget g (descend i st) \<le> Suc (budget g st)"
  shows "budget g (visit_body g descend i st) \<le> budget g st"
proof -
  have "budget g (visit_ref g descend r st) \<le> budget g st" for r st
    using budget_mark [of g descend, OF assms]
    by (cases r) (simp_all add: visit_ref_def budget_def unvisited_def)
  moreover have "budget g (visit_fde_ref g r st) \<le> budget g st" for r st
    using budget_mark [of g feeder_add, OF budget_feeder_add] by (cases r) (simp_all add: visit_fde_ref_def)
  ultimately show ?thesis
    unfolding visit_body_def by (auto split: option.split intro: order_trans [OF budget_fold budget_fold])
qed

lemma budget_visit: "budget g (visit d g i st) \<le> budget g st"
proof (induction d arbitrary: i st)
  case 0
  show ?case by (simp add: budget_body [OF budget_feeder_add])
next
  case (Suc d)
  show ?case unfolding visit.simps by (rule budget_body) (use Suc le_SucI in blast)
qed

function gc_mark :: "GcCtx \<Rightarrow> nat list \<Rightarrow> GcState \<Rightarrow> GcState" where
  "gc_mark g [] st = st"
| "gc_mark g (i # work) st =
     (let st' = visit 3 g i (st \<lparr> st_feeder := [] \<rparr>)
      in gc_mark g (work @ st_feeder st') (st' \<lparr> st_feeder := [] \<rparr>))"
  by pat_completeness auto
termination
proof (relation "measure (\<lambda>(g, work, st). length work + unvisited g st)", goal_cases)
  case (2 g i work st st')
  have "length (st_feeder st') + unvisited g st' \<le> unvisited g st"
    using budget_visit [of g 3 i "st \<lparr> st_feeder := [] \<rparr>"] 2 by (simp add: budget_def unvisited_def)
  then show ?case by (simp add: unvisited_def)
qed simp

subsection \<open>Sweeping\<close>

definition kill :: "GcSec \<Rightarrow> GcSec" where
  "kill s = (if gs_alive s then s \<lparr> gs_alive := False, gs_fdes := map (\<lambda>f. f \<lparr> fde_alive := False \<rparr>) (gs_fdes s) \<rparr> else s)"

definition sweep :: "GcState \<Rightarrow> GcSec option list \<Rightarrow> GcSec option list" where
  "sweep st secs =
     map (\<lambda>(i, sec). case sec of None \<Rightarrow> None
        | Some s \<Rightarrow> Some (if gs_alive s \<and> i \<notin> st_visited st then kill s else s)) (enumerate 0 secs)"

definition gc_run :: "machine \<Rightarrow> GcCtx \<Rightarrow> GcState" where
  "gc_run m g =
     (let st = collect_root_set m g \<lparr> st_visited = {}, st_frags = gc_frags g, st_feeder = [] \<rparr>
      in gc_mark g (st_feeder st) (st \<lparr> st_feeder := [] \<rparr>))"

definition gc_sections :: "machine \<Rightarrow> GcCtx \<Rightarrow> GcCtx" where
  "gc_sections m g =
     (let st = gc_run m g in g \<lparr> gc_secs := sweep st (gc_secs g), gc_frags := st_frags st \<rparr>)"

subsection \<open>The graph\<close>

definition alive_at :: "GcCtx \<Rightarrow> nat \<Rightarrow> bool" where
  "alive_at g i \<longleftrightarrow> (case isec_at g i of None \<Rightarrow> False | Some s \<Rightarrow> gs_alive s)"

definition sec_refs :: "GcSec \<Rightarrow> gc_ref set" where
  "sec_refs s = set (gs_rels s) \<union> (\<Union>fde\<in>set (gs_fdes s). set (drop 1 (fde_rels fde)))"

definition sec_succs :: "GcCtx \<Rightarrow> nat \<Rightarrow> nat set" where
  "sec_succs g i = (case isec_at g i of None \<Rightarrow> {} | Some s \<Rightarrow> {j. RefSec j \<in> sec_refs s \<and> alive_at g j})"

definition sec_frags :: "GcCtx \<Rightarrow> nat \<Rightarrow> nat set" where
  "sec_frags g i = (case isec_at g i of None \<Rightarrow> {} | Some s \<Rightarrow> {f. RefFrag f \<in> set (gs_rels s)})"

text \<open>Sections that are not allocated in memory are kept without being looked into.\<close>

definition gc_blocked :: "GcCtx \<Rightarrow> nat set" where
  "gc_blocked g = {i. \<exists>s. isec_at g i = Some s \<and> gs_alive s \<and> \<not> is_alloc s}"

definition gc_roots :: "machine \<Rightarrow> GcCtx \<Rightarrow> nat set" where
  "gc_roots m g = {i. \<exists>s. isec_at g i = Some s \<and> gs_alive s \<and> should_keep m s} \<union>
     {i. RefSec i \<in> set (root_refs g) \<and> alive_at g i}"

subsection \<open>The invariant of marking\<close>

text \<open>
  \<open>R\<close> is a set of sections that may be visited, \<open>pend\<close> are the visited sections whose references are still
  to be looked at.
\<close>

definition gc_inv :: "GcCtx \<Rightarrow> nat set \<Rightarrow> nat set \<Rightarrow> nat set \<Rightarrow> GcState \<Rightarrow> bool" where
  "gc_inv g R F0 pend st \<longleftrightarrow>
     gc_blocked g \<subseteq> st_visited st \<and> st_visited st \<subseteq> gc_blocked g \<union> R \<and> set (st_feeder st) \<subseteq> R \<and>
     st_frags st \<subseteq> F0 \<union> \<Union> (sec_frags g ` R) \<and>
     (\<forall>x\<in>st_visited st - gc_blocked g - pend - set (st_feeder st).
        sec_succs g x \<subseteq> st_visited st \<and> sec_frags g x \<subseteq> st_frags st)"

definition st_le :: "GcState \<Rightarrow> GcState \<Rightarrow> bool" where
  "st_le st st' \<longleftrightarrow> st_visited st \<subseteq> st_visited st' \<and> st_frags st \<subseteq> st_frags st'"

text \<open>A reference has been looked at.\<close>

definition looked_at :: "GcCtx \<Rightarrow> gc_ref \<Rightarrow> GcState \<Rightarrow> bool" where
  "looked_at g r st = (case r of RefSec i \<Rightarrow> alive_at g i \<longrightarrow> i \<in> st_visited st | RefFrag f \<Rightarrow> f \<in> st_frags st | RefNone \<Rightarrow> True)"

definition follows :: "GcCtx \<Rightarrow> nat set \<Rightarrow> nat set \<Rightarrow> (nat \<Rightarrow> GcState \<Rightarrow> GcState) \<Rightarrow> bool" where
  "follows g R F0 act \<longleftrightarrow> (\<forall>i st pend. i \<in> R \<longrightarrow> gc_inv g R F0 (insert i pend) st \<longrightarrow>
     gc_inv g R F0 pend (act i st) \<and> st_le st (act i st))"

lemma st_le_refl [simp]: "st_le st st"
  by (simp add: st_le_def)

lemma st_le_trans: "st_le a b \<Longrightarrow> st_le b c \<Longrightarrow> st_le a c"
  by (auto simp: st_le_def)

lemma looked_at_mono: "looked_at g r st \<Longrightarrow> st_le st st' \<Longrightarrow> looked_at g r st'"
  by (auto simp: looked_at_def st_le_def split: gc_ref.splits)

lemma follows_feeder_add: "follows g R F0 feeder_add"
  by (auto simp: follows_def gc_inv_def feeder_add_def st_le_def)

lemma follows_mark:
  assumes "follows g R F0 act" and "gc_inv g R F0 pend st" and "alive_at g i \<Longrightarrow> i \<in> gc_blocked g \<union> R"
  shows "gc_inv g R F0 pend (mark_section g act i st) \<and> st_le st (mark_section g act i st) \<and>
    looked_at g (RefSec i) (mark_section g act i st)"
proof (cases "markable g st i")
  case True
  let ?st = "st \<lparr> st_visited := insert i (st_visited st) \<rparr>"
  have "i \<in> R" using assms(2, 3) True by (auto simp: gc_inv_def markable_def alive_at_def)
  moreover have "gc_inv g R F0 (insert i pend) ?st" using assms(2) \<open>i \<in> R\<close> by (auto simp: gc_inv_def)
  ultimately have "gc_inv g R F0 pend (act i ?st) \<and> st_le ?st (act i ?st)"
    using assms(1) unfolding follows_def by blast
  then show ?thesis by (auto simp: mark_section_def True st_le_def looked_at_def)
next
  case False
  then show ?thesis using assms(2) by (auto simp: mark_section_def looked_at_def markable_def alive_at_def)
qed

lemma fold_looks:
  assumes "\<And>r st. r \<in> set rs \<Longrightarrow> gc_inv g R F0 pend st \<Longrightarrow>
      gc_inv g R F0 pend (f r st) \<and> st_le st (f r st) \<and> (P r \<longrightarrow> looked_at g r (f r st))"
    and "gc_inv g R F0 pend st"
  shows "gc_inv g R F0 pend (fold f rs st) \<and> st_le st (fold f rs st) \<and>
    (\<forall>r\<in>set rs. P r \<longrightarrow> looked_at g r (fold f rs st))"
  using assms
proof (induction rs arbitrary: st)
  case (Cons r rs)
  have r: "gc_inv g R F0 pend (f r st)" "st_le st (f r st)" "P r \<longrightarrow> looked_at g r (f r st)"
    using Cons.prems by auto
  have IH: "gc_inv g R F0 pend (fold f rs (f r st)) \<and> st_le (f r st) (fold f rs (f r st)) \<and>
      (\<forall>r'\<in>set rs. P r' \<longrightarrow> looked_at g r' (fold f rs (f r st)))"
    by (rule Cons.IH) (use Cons.prems(1) r(1) in auto)
  then show ?case using r looked_at_mono st_le_trans by auto
qed simp

definition gc_closed :: "GcCtx \<Rightarrow> nat set \<Rightarrow> bool" where
  "gc_closed g R \<longleftrightarrow> (\<forall>x\<in>R. sec_succs g x \<subseteq> gc_blocked g \<union> R)"

lemma follows_body:
  assumes "follows g R F0 descend" and "gc_closed g R"
  shows "follows g R F0 (visit_body g descend)"
  unfolding follows_def
proof (intro allI impI)
  fix i st pend
  assume i: "i \<in> R" and inv: "gc_inv g R F0 (insert i pend) st"
  show "gc_inv g R F0 pend (visit_body g descend i st) \<and> st_le st (visit_body g descend i st)"
  proof (cases "isec_at g i")
    case None
    then have "sec_succs g i = {}" "sec_frags g i = {}" by (simp_all add: sec_succs_def sec_frags_def)
    then show ?thesis using inv None by (auto simp: visit_body_def gc_inv_def)
  next
    case (Some s)
    let ?fdes = "concat (map (\<lambda>fde. drop 1 (fde_rels fde)) (gs_fdes s))"
    let ?st1 = "fold (visit_fde_ref g) ?fdes st"
    let ?st2 = "fold (visit_ref g descend) (gs_rels s) ?st1"
    have refs: "sec_refs s = set (gs_rels s) \<union> set ?fdes" by (auto simp: sec_refs_def)
    have tgt: "j \<in> gc_blocked g \<union> R" if "RefSec j \<in> sec_refs s" "alive_at g j" for j
    proof -
      have "j \<in> sec_succs g i" using that Some by (simp add: sec_succs_def)
      then show ?thesis using assms(2) i unfolding gc_closed_def by blast
    qed
    have frs: "f \<in> \<Union> (sec_frags g ` R)" if "RefFrag f \<in> set (gs_rels s)" for f
    proof -
      have "f \<in> sec_frags g i" using that Some by (simp add: sec_frags_def)
      then show ?thesis using i by blast
    qed
    have "gc_inv g R F0 (insert i pend) ?st1 \<and> st_le st ?st1 \<and>
        (\<forall>r\<in>set ?fdes. (\<exists>j. r = RefSec j) \<longrightarrow> looked_at g r ?st1)"
    proof (rule fold_looks [OF _ inv])
      fix r st' assume r: "r \<in> set ?fdes" and inv': "gc_inv g R F0 (insert i pend) st'"
      show "gc_inv g R F0 (insert i pend) (visit_fde_ref g r st') \<and> st_le st' (visit_fde_ref g r st') \<and>
          ((\<exists>j. r = RefSec j) \<longrightarrow> looked_at g r (visit_fde_ref g r st'))"
      proof (cases r)
        case (RefSec j)
        have "RefSec j \<in> sec_refs s" unfolding refs using r RefSec by blast
        then show ?thesis
          using follows_mark [OF follows_feeder_add inv', of j] tgt RefSec by (simp add: visit_fde_ref_def)
      qed (use inv' in \<open>auto simp: visit_fde_ref_def\<close>)
    qed
    note st1 = this
    have "gc_inv g R F0 (insert i pend) ?st2 \<and> st_le ?st1 ?st2 \<and> (\<forall>r\<in>set (gs_rels s). True \<longrightarrow> looked_at g r ?st2)"
    proof (rule fold_looks [OF _ conjunct1 [OF st1]])
      fix r st' assume r: "r \<in> set (gs_rels s)" and inv': "gc_inv g R F0 (insert i pend) st'"
      show "gc_inv g R F0 (insert i pend) (visit_ref g descend r st') \<and> st_le st' (visit_ref g descend r st') \<and>
          (True \<longrightarrow> looked_at g r (visit_ref g descend r st'))"
      proof (cases r)
        case (RefFrag f)
        then have "f \<in> \<Union> (sec_frags g ` R)" using frs r by blast
        then show ?thesis using inv' RefFrag by (auto simp: visit_ref_def gc_inv_def st_le_def looked_at_def)
      next
        case (RefSec j)
        then show ?thesis using follows_mark [OF assms(1) inv', of j] tgt refs r by (auto simp: visit_ref_def)
      qed (use inv' in \<open>auto simp: visit_ref_def looked_at_def\<close>)
    qed
    note st2 = this
    have res: "visit_body g descend i st = ?st2" by (simp add: visit_body_def Some)
    have "sec_succs g i \<subseteq> st_visited ?st2"
    proof
      fix j assume "j \<in> sec_succs g i"
      then have j: "RefSec j \<in> set (gs_rels s) \<union> set ?fdes" "alive_at g j" using refs Some by (auto simp: sec_succs_def)
      then have "looked_at g (RefSec j) ?st2" using st1 st2 looked_at_mono by blast
      then show "j \<in> st_visited ?st2" using j(2) by (simp add: looked_at_def)
    qed
    moreover have "sec_frags g i \<subseteq> st_frags ?st2"
      using st2 Some by (force simp: sec_frags_def looked_at_def)
    ultimately have "gc_inv g R F0 pend ?st2" using st2 by (auto simp: gc_inv_def)
    then show ?thesis unfolding res using st1 st2 st_le_trans by blast
  qed
qed

lemma follows_visit: "gc_closed g R \<Longrightarrow> follows g R F0 (visit d g)"
  by (induction d) (simp_all add: follows_body follows_feeder_add)

lemma gc_mark_inv:
  "gc_closed g R \<Longrightarrow> set work \<subseteq> R \<Longrightarrow> st_feeder st = [] \<Longrightarrow> gc_inv g R F0 (set work) st \<Longrightarrow>
     gc_inv g R F0 {} (gc_mark g work st) \<and> st_le st (gc_mark g work st) \<and> st_feeder (gc_mark g work st) = []"
proof (induction g work st rule: gc_mark.induct)
  case (2 g i work st)
  define st' where "st' = visit 3 g i (st \<lparr> st_feeder := [] \<rparr>)"
  have "gc_inv g R F0 (insert i (set work)) (st \<lparr> st_feeder := [] \<rparr>)"
    using "2.prems" by (auto simp: gc_inv_def)
  then have "gc_inv g R F0 (set work) st' \<and> st_le (st \<lparr> st_feeder := [] \<rparr>) st'"
    using follows_visit [OF "2.prems"(1), of F0 3] "2.prems"(2) unfolding follows_def st'_def by auto
  then have st': "gc_inv g R F0 (set work) st'" "st_le st st'" by (simp_all add: st_le_def)
  let ?st = "st' \<lparr> st_feeder := [] \<rparr>"
  have "gc_inv g R F0 {} (gc_mark g (work @ st_feeder st') ?st) \<and> st_le ?st (gc_mark g (work @ st_feeder st') ?st) \<and>
      st_feeder (gc_mark g (work @ st_feeder st') ?st) = []"
  proof (rule "2.IH" [OF st'_def "2.prems"(1)])
    show "set (work @ st_feeder st') \<subseteq> R" using "2.prems"(2) st'(1) by (auto simp: gc_inv_def)
    show "gc_inv g R F0 (set (work @ st_feeder st')) ?st" using st'(1) by (auto simp: gc_inv_def)
  qed simp
  moreover have "gc_mark g (i # work) st = gc_mark g (work @ st_feeder st') ?st" by (simp add: st'_def Let_def)
  ultimately show ?case using st'(2) by (auto simp: st_le_def)
qed simp

subsection \<open>The root set\<close>

abbreviation gc_reach :: "machine \<Rightarrow> GcCtx \<Rightarrow> nat set" where
  "gc_reach m g \<equiv> reach (sec_succs g) (gc_blocked g) (gc_roots m g)"

definition root_frags :: "GcCtx \<Rightarrow> nat set" where
  "root_frags g = {f. RefFrag f \<in> set (root_refs g)}"

lemma gc_closed_reach: "gc_closed g (gc_reach m g)"
  by (auto simp: gc_closed_def intro: reach_step)

lemma fold_root_section:
  fixes m :: machine
  assumes "k \<le> length (gc_secs g)" and "st_visited st = {}" and "st_feeder st = []"
  defines "st' \<equiv> fold (root_section m g) [0..<k] st"
  shows "st_visited st' = {i. i < k \<and> (\<exists>s. isec_at g i = Some s \<and> gs_alive s \<and> (is_alloc s \<longrightarrow> should_keep m s))} \<and>
    set (st_feeder st') = {i. i < k \<and> (\<exists>s. isec_at g i = Some s \<and> gs_alive s \<and> is_alloc s \<and> should_keep m s)} \<and>
    st_frags st' = st_frags st"
  using assms(1) unfolding st'_def
proof (induction k)
  case 0
  then show ?case using assms(2, 3) by simp
next
  case (Suc k)
  define st0 where "st0 = fold (root_section m g) [0..<k] st"
  have step: "fold (root_section m g) [0..<Suc k] st = root_section m g k st0" by (simp add: st0_def)
  have IH: "st_visited st0 = {i. i < k \<and> (\<exists>s. isec_at g i = Some s \<and> gs_alive s \<and> (is_alloc s \<longrightarrow> should_keep m s))}"
    "set (st_feeder st0) = {i. i < k \<and> (\<exists>s. isec_at g i = Some s \<and> gs_alive s \<and> is_alloc s \<and> should_keep m s)}"
    "st_frags st0 = st_frags st" using Suc by (simp_all add: st0_def)
  show ?case
  proof (cases "isec_at g k")
    case None
    then show ?thesis unfolding step using IH by (auto simp: root_section_def less_Suc_eq)
  next
    case (Some s)
    then show ?thesis
      unfolding step using IH by (auto simp: root_section_def enqueue_section_def mark_section_def markable_def feeder_add_def
          Let_def less_Suc_eq)
  qed
qed

lemma collect_root_set_inv:
  fixes m g
  defines "F0 \<equiv> gc_frags g \<union> root_frags g"
  defines "st \<equiv> collect_root_set m g \<lparr> st_visited = {}, st_frags = gc_frags g, st_feeder = [] \<rparr>"
  shows "gc_inv g (gc_reach m g) F0 {} st \<and> gc_roots m g \<subseteq> st_visited st \<and> F0 \<subseteq> st_frags st"
proof -
  let ?R = "gc_reach m g"
  define st1 where "st1 = fold (root_section m g) [0..<length (gc_secs g)] \<lparr> st_visited = {}, st_frags = gc_frags g, st_feeder = [] \<rparr>"
  note ph1 = fold_root_section [of "length (gc_secs g)" g "\<lparr> st_visited = {}, st_frags = gc_frags g, st_feeder = [] \<rparr>" m,
      OF order_refl, folded st1_def, simplified]
  have dom: "isec_at g i = Some s \<Longrightarrow> i < length (gc_secs g)" for i s by (auto simp: isec_at_def split: if_splits)
  have v1: "st_visited st1 = gc_blocked g \<union> {i. \<exists>s. isec_at g i = Some s \<and> gs_alive s \<and> should_keep m s}"
    using ph1 dom by (auto simp: gc_blocked_def)
  have f1: "set (st_feeder st1) = {i. \<exists>s. isec_at g i = Some s \<and> gs_alive s \<and> should_keep m s} - gc_blocked g"
    using ph1 dom by (auto simp: gc_blocked_def)
  have "set (st_feeder st1) \<subseteq> ?R" unfolding f1 by (auto simp: gc_roots_def intro!: reach_root)
  then have inv1: "gc_inv g ?R F0 {} st1"
    using v1 f1 ph1 by (auto simp: gc_inv_def F0_def)
  have "gc_inv g ?R F0 {} (fold (enqueue_symbol g) (root_refs g) st1) \<and>
      st_le st1 (fold (enqueue_symbol g) (root_refs g) st1) \<and>
      (\<forall>r\<in>set (root_refs g). True \<longrightarrow> looked_at g r (fold (enqueue_symbol g) (root_refs g) st1))"
  proof (rule fold_looks [OF _ inv1])
    fix r st' assume r: "r \<in> set (root_refs g)" and inv: "gc_inv g ?R F0 {} st'"
    show "gc_inv g ?R F0 {} (enqueue_symbol g r st') \<and> st_le st' (enqueue_symbol g r st') \<and>
        (True \<longrightarrow> looked_at g r (enqueue_symbol g r st'))"
    proof (cases r)
      case (RefFrag f)
      then have "f \<in> F0" using r by (auto simp: F0_def root_frags_def)
      then show ?thesis using inv RefFrag by (auto simp: enqueue_symbol_def gc_inv_def st_le_def looked_at_def)
    next
      case (RefSec i)
      have "i \<in> gc_blocked g \<union> ?R" if "alive_at g i"
        using that r RefSec by (auto simp: gc_roots_def intro: reach_root)
      then show ?thesis
        using follows_mark [OF follows_feeder_add inv, of i] RefSec by (auto simp: enqueue_symbol_def enqueue_section_def)
    qed (use inv in \<open>auto simp: enqueue_symbol_def looked_at_def\<close>)
  qed
  then have inv2: "gc_inv g ?R F0 {} st" "st_le st1 st" "\<And>r. r \<in> set (root_refs g) \<Longrightarrow> looked_at g r st"
    by (simp_all add: st_def collect_root_set_def st1_def)
  have le: "st_visited st1 \<subseteq> st_visited st" "gc_frags g \<subseteq> st_frags st" using inv2(2) ph1 by (simp_all add: st_le_def)
  have "i \<in> st_visited st" if "RefSec i \<in> set (root_refs g)" "alive_at g i" for i
    using inv2(3) [OF that(1)] that(2) by (simp add: looked_at_def)
  then have "gc_roots m g \<subseteq> st_visited st" using le(1) v1 by (auto simp: gc_roots_def)
  moreover have "f \<in> st_frags st" if "RefFrag f \<in> set (root_refs g)" for f
    using inv2(3) [OF that] by (simp add: looked_at_def)
  then have "F0 \<subseteq> st_frags st" using le(2) by (auto simp: F0_def root_frags_def)
  ultimately show ?thesis using inv2(1) by blast
qed

text \<open>The state after marking.\<close>

lemma gc_run_inv:
  fixes m g
  defines "F0 \<equiv> gc_frags g \<union> root_frags g"
  shows "gc_inv g (gc_reach m g) F0 {} (gc_run m g) \<and> gc_roots m g \<subseteq> st_visited (gc_run m g) \<and>
    F0 \<subseteq> st_frags (gc_run m g) \<and> st_feeder (gc_run m g) = []"
proof -
  define st where "st = collect_root_set m g \<lparr> st_visited = {}, st_frags = gc_frags g, st_feeder = [] \<rparr>"
  have c: "gc_inv g (gc_reach m g) F0 {} st" "gc_roots m g \<subseteq> st_visited st" "F0 \<subseteq> st_frags st"
    using collect_root_set_inv [of g m] by (simp_all add: st_def F0_def)
  have "gc_inv g (gc_reach m g) F0 {} (gc_mark g (st_feeder st) (st \<lparr> st_feeder := [] \<rparr>)) \<and>
      st_le (st \<lparr> st_feeder := [] \<rparr>) (gc_mark g (st_feeder st) (st \<lparr> st_feeder := [] \<rparr>)) \<and>
      st_feeder (gc_mark g (st_feeder st) (st \<lparr> st_feeder := [] \<rparr>)) = []"
    using c(1) by (intro gc_mark_inv gc_closed_reach) (auto simp: gc_inv_def)
  then show ?thesis using c(2, 3) by (auto simp: gc_run_def Let_def st_def [symmetric] st_le_def)
qed

interpretation elf_gc: mark_phase "\<lambda>_. True" "\<lambda>(m, g). sec_succs g" "\<lambda>(m, g). gc_blocked g" "\<lambda>(m, g). gc_roots m g"
  "\<lambda>(m, g). st_visited (gc_run m g)"
proof (unfold_locales, goal_cases)
  case (1 x)
  then show ?case using gc_run_inv by (cases x) (auto simp: gc_inv_def)
next
  case (2 x)
  then show ?case using gc_run_inv by (cases x) auto
next
  case (3 x)
  then show ?case using gc_run_inv by (cases x) (auto simp: gc_inv_def)
next
  case (4 x i)
  then show ?case using gc_run_inv by (cases x) (auto simp: gc_inv_def)
qed

subsection \<open>Properties\<close>

lemma isec_at_sweep:
  "isec_at (g \<lparr> gc_secs := sweep st (gc_secs g), gc_frags := F \<rparr>) i =
     (case isec_at g i of None \<Rightarrow> None
      | Some s \<Rightarrow> Some (if gs_alive s \<and> i \<notin> st_visited st then kill s else s))"
  by (simp add: isec_at_def sweep_def nth_enumerate_eq)

text \<open>
  C3: \<^verbatim>\<open>--gc-sections\<close> collects exactly the garbage. A section that was alive stays
  alive if it is not allocated in memory or if it can be reached, through relocations and the relocations of its
  exception-handling records, from a section that must be kept or from a root symbol, without
  passing through a section that is dead or not allocated; every other one is killed
  together with its records. A section fragment ends up alive exactly if it was, if a root symbol
  refers to it or if a reachable section does.
\<close>

theorem gc_sections_exact:
  "isec_at (gc_sections m g) i =
     (case isec_at g i of None \<Rightarrow> None
      | Some s \<Rightarrow> Some (if gs_alive s \<and> is_alloc s \<and> i \<notin> gc_reach m g then kill s else s)) \<and>
   gc_frags (gc_sections m g) = gc_frags g \<union> root_frags g \<union> \<Union> (sec_frags g ` gc_reach m g)"
proof -
  have v: "i \<in> st_visited (gc_run m g) \<longleftrightarrow> i \<in> gc_blocked g \<or> i \<in> gc_reach m g" for i
    using elf_gc.marked_iff [OF TrueI, of i "(m, g)"] by simp
  note inv = gc_run_inv [of g m]
  have fr: "st_frags (gc_run m g) = gc_frags g \<union> root_frags g \<union> \<Union> (sec_frags g ` gc_reach m g)"
  proof
    show "st_frags (gc_run m g) \<subseteq> gc_frags g \<union> root_frags g \<union> \<Union> (sec_frags g ` gc_reach m g)"
      using inv by (auto simp: gc_inv_def)
    have "sec_frags g x \<subseteq> st_frags (gc_run m g)" if "x \<in> gc_reach m g" for x
    proof -
      have "x \<in> st_visited (gc_run m g) - gc_blocked g"
        using that v [of x] reach_not_blocked [OF that] by simp
      then show ?thesis using inv by (simp add: gc_inv_def)
    qed
    then show "gc_frags g \<union> root_frags g \<union> \<Union> (sec_frags g ` gc_reach m g) \<subseteq> st_frags (gc_run m g)"
      using inv by blast
  qed
  have "isec_at (gc_sections m g) i = (case isec_at g i of None \<Rightarrow> None
      | Some s \<Rightarrow> Some (if gs_alive s \<and> i \<notin> st_visited (gc_run m g) then kill s else s))"
    unfolding gc_sections_def Let_def by (rule isec_at_sweep)
  also have "\<dots> = (case isec_at g i of None \<Rightarrow> None
      | Some s \<Rightarrow> Some (if gs_alive s \<and> is_alloc s \<and> i \<notin> gc_reach m g then kill s else s))"
    by (cases "isec_at g i") (auto simp: v gc_blocked_def)
  finally show ?thesis using fr by (simp add: gc_sections_def Let_def)
qed

text \<open>The references of a section as a list, for threads that take them one at a time.\<close>

definition sec_succ_list :: "GcCtx \<Rightarrow> nat \<Rightarrow> nat list" where
  "sec_succ_list g i =
     (case isec_at g i of
        None \<Rightarrow> []
      | Some s \<Rightarrow> filter (alive_at g) [j. RefSec j \<leftarrow> concat (map (\<lambda>fde. drop 1 (fde_rels fde)) (gs_fdes s)) @ gs_rels s])"

lemma set_sec_succ_list: "set \<circ> sec_succ_list g = sec_succs g"
proof
  fix i
  have "j \<in> set [j. RefSec j \<leftarrow> rs] \<longleftrightarrow> RefSec j \<in> set rs" for j rs by (induction rs) (auto split: gc_ref.splits)
  then show "(set \<circ> sec_succ_list g) i = sec_succs g i"
    by (auto simp: sec_succ_list_def sec_succs_def sec_refs_def split: option.split)
qed


definition gc_example :: GcCtx where
  "gc_example = \<lparr> gc_secs =
      [Some \<lparr> gs_type = 1, gs_flags = 6, gs_name = str ''.init'', gs_alive = True, gs_fdes = [], gs_rels = [RefSec 1] \<rparr>,
       Some \<lparr> gs_type = 1, gs_flags = 6, gs_name = str ''.text'', gs_alive = True, gs_fdes = [], gs_rels = [RefSec 0] \<rparr>,
       Some \<lparr> gs_type = 1, gs_flags = 6, gs_name = str ''.text'', gs_alive = True, gs_fdes = [], gs_rels = [RefSec 1] \<rparr>],
     gc_syms = [], gc_entry = RefNone, gc_undefined = [], gc_require_defined = [], gc_cies = [], gc_frags = {} \<rparr>"

lemma gc_example_sec:
  "isec_at gc_example i = Some s \<longleftrightarrow>
     (i = 0 \<and> s = \<lparr> gs_type = 1, gs_flags = 6, gs_name = str ''.init'', gs_alive = True, gs_fdes = [], gs_rels = [RefSec 1] \<rparr>) \<or>
     (i = 1 \<and> s = \<lparr> gs_type = 1, gs_flags = 6, gs_name = str ''.text'', gs_alive = True, gs_fdes = [], gs_rels = [RefSec 0] \<rparr>) \<or>
     (i = 2 \<and> s = \<lparr> gs_type = 1, gs_flags = 6, gs_name = str ''.text'', gs_alive = True, gs_fdes = [], gs_rels = [RefSec 1] \<rparr>)"
  by (auto simp: isec_at_def gc_example_def nth_Cons split: nat.splits)

lemma gc_example_roots: "gc_roots X86_64 gc_example = {0}" "gc_blocked gc_example = {}"
proof -
  have k: "should_keep X86_64 \<lparr> gs_type = 1, gs_flags = 6, gs_name = str ''.init'', gs_alive = True, gs_fdes = [], gs_rels = [RefSec 1] \<rparr>"
    "\<not> should_keep X86_64 \<lparr> gs_type = 1, gs_flags = 6, gs_name = str ''.text'', gs_alive = True, gs_fdes = [], gs_rels = rs \<rparr>" for rs
    by (simp_all add: should_keep_def str_def Let_def is_alpha_def SHF_GNU_RETAIN_def SHT_NOTE_def SHT_INIT_ARRAY_def
        SHT_FINI_ARRAY_def SHT_PREINIT_ARRAY_def)
  moreover have "root_refs gc_example = [RefNone]" by (simp add: root_refs_def gc_example_def)
  moreover have "\<not> alive_at gc_example i \<or> RefSec i \<notin> set [RefNone]" for i by simp
  ultimately show "gc_roots X86_64 gc_example = {0}" unfolding gc_roots_def gc_example_sec by force
  show "gc_blocked gc_example = {}"
    by (auto simp: gc_blocked_def gc_example_sec is_alloc_def SHF_ALLOC_def)
qed

lemma gc_example_steps:
  "par_step (sec_succ_list gc_example) ({}, [0]) ({0}, [Suc 0])"
  "par_step (sec_succ_list gc_example) ({0}, [Suc 0]) ({0, Suc 0}, [0])"
  "par_step (sec_succ_list gc_example) ({0, Suc 0}, [0]) ({0, Suc 0}, [])"
proof -
  have succ: "sec_succ_list gc_example 0 = [Suc 0]" "sec_succ_list gc_example (Suc 0) = [0]"
    by (simp_all add: sec_succ_list_def isec_at_def gc_example_def alive_at_def)
  show "par_step (sec_succ_list gc_example) ({}, [0]) ({0}, [Suc 0])"
    using par_claim [of 0 "{}" "sec_succ_list gc_example" "[]" "[]"] by (simp add: succ)
  show "par_step (sec_succ_list gc_example) ({0}, [Suc 0]) ({0, Suc 0}, [0])"
    using par_claim [of 1 "{0}" "sec_succ_list gc_example" "[]" "[]"] by (simp add: succ insert_commute)
  show "par_step (sec_succ_list gc_example) ({0, Suc 0}, [0]) ({0, Suc 0}, [])"
    using par_seen [of 0 "{0, 1}" "sec_succ_list gc_example" "[]" "[]"] by simp
qed


text \<open>
  marking in parallel ends. Under every schedule that lets some thread go on as
  long as there is a reference to look at, marking comes to a state where none is left, and then the visited sections are
  those of the sequential run.
\<close>

theorem gc_mark_parallel_ends:
  assumes "set rs = gc_roots m g" and "f 0 = (gc_blocked g, rs)"
    and "\<And>k. snd (f k) \<noteq> [] \<Longrightarrow> par_step (sec_succ_list g) (f k) (f (Suc k))"
  shows "\<exists>k. f k = (st_visited (gc_run m g), [])"
proof -
  have dom: "alive_at g i \<Longrightarrow> i < length (gc_secs g)" for i
    by (auto simp: alive_at_def isec_at_def split: if_splits)
  let ?N = "set rs \<union> {..<length (gc_secs g)}"
  have "set (sec_succ_list g x) \<subseteq> ?N" for x
    using dom by (auto simp: sec_succ_list_def split: option.split)
  then obtain k where k: "snd (f k) = []" "(par_step (sec_succ_list g))\<^sup>*\<^sup>* (f 0) (f k)"
    using par_schedule_ends [of ?N f "sec_succ_list g"] assms(2, 3) by auto
  obtain V where V: "f k = (V, [])" using k(1) by (cases "f k") simp
  have vis: "st_visited (gc_run m g) = gc_blocked g \<union> gc_reach m g"
    using elf_gc.marked_iff [OF TrueI, of _ "(m, g)"] by auto
  have "V = gc_blocked g \<union> reach (sec_succs g) (gc_blocked g) (set rs)"
    using par_marks [of "sec_succ_list g" "gc_blocked g" rs V] k(2) V assms(2) by (simp add: set_sec_succ_list)
  then show ?thesis using V assms(1) vis by (intro exI [of _ k]) simp
qed

theorem gc_mark_parallel_ends_witness:
  "\<exists>k :: nat. (if k = 0 then ({}, [0]) else if k = 1 then ({0}, [1]) else if k = 2 then ({0, 1}, [0]) else ({0, 1}, [])) =
     (st_visited (gc_run X86_64 gc_example), [] :: nat list)"
proof -
  let ?f = "\<lambda>k :: nat. if k = 0 then ({}, [0]) else if k = 1 then ({0}, [1]) else if k = 2 then ({0, 1}, [0]) else ({0, 1}, []) :: nat set \<times> nat list"
  have "par_step (sec_succ_list gc_example) (?f k) (?f (Suc k))" if "snd (?f k) \<noteq> []" for k
    using that gc_example_steps by (auto split: if_splits simp: numeral_2_eq_2)
  moreover have "set [0] = gc_roots X86_64 gc_example" "?f 0 = (gc_blocked gc_example, [0])"
    by (simp_all add: gc_example_roots)
  ultimately show ?thesis using gc_mark_parallel_ends [of "[0]" X86_64 gc_example ?f] by blast
qed

end
