(* ===== verification/Elf_Scan.thy ===== *)
theory Elf_Scan
  imports Elf_Relr
begin

text \<open>
  What a relocation needs and what it becomes (\<^verbatim>\<open>src/elf/input-sections.cc\<close>): the decision tables, \<^verbatim>\<open>scan_rel\<close>, which
  reserves dynamic relocations before the layout is fixed, and \<^verbatim>\<open>apply_absrel\<close>, which writes them
  into the reserved space; \<^verbatim>\<open>is_relr_reloc\<close>, \<^verbatim>\<open>get_tombstone\<close> and \<^verbatim>\<open>relax_tlsdesc\<close> of \<^verbatim>\<open>src/elf/mold.h\<close>; and the
  thread-pointer addresses of \<^verbatim>\<open>src/elf/tls.cc\<close>.
\<close>

subsection \<open>Options, sections, symbols\<close>

datatype Action = NONE | ERROR | COPYREL | DYN_COPYREL | PLT | CPLT | DYN_CPLT | DYNREL | BASEREL | IFUNC

record RelArgs =
  a_shared :: bool
  a_pie :: bool
  a_is_static :: bool
  a_relax :: bool
  a_z_dlopen :: bool
  a_z_text :: bool
  a_z_copyreloc :: bool
  a_apply_dynamic_relocs :: bool
  a_pack_dyn_relocs_relr :: bool

record RelSec =
  sec_flags :: u64
  sec_addralign :: u64
  sec_addr :: u64

text \<open>The answers of a symbol: its addresses are those \<^verbatim>\<open>get_addr\<close>, \<^verbatim>\<open>get_got_addr\<close> and the like return.\<close>

record RelSym =
  q_absolute :: bool
  q_imported :: bool
  q_type :: u32
  q_visibility :: u32
  q_dynsym_idx :: u32
  q_addr :: u64
  q_addr_no_plt :: u64
  q_got_addr :: u64
  q_gottp_addr :: "u64 option"
  q_tlsgd_addr :: "u64 option"
  q_tlsdesc_addr :: "u64 option"
  q_size :: u64

definition is_ifunc :: "RelSym \<Rightarrow> bool" where
  "is_ifunc y \<longleftrightarrow> q_type y = STT_GNU_IFUNC"

definition is_writable :: "RelSec \<Rightarrow> bool" where
  "is_writable isec \<longleftrightarrow> sec_flags isec AND ucast SHF_WRITE \<noteq> 0"

definition is_relr_reloc :: "machine \<Rightarrow> RelArgs \<Rightarrow> RelSec \<Rightarrow> ElfRel \<Rightarrow> bool" where
  "is_relr_reloc m arg isec rel \<longleftrightarrow> a_pack_dyn_relocs_relr arg \<and> sec_flags isec AND ucast SHF_EXECINSTR = 0 \<and>
     unat (sec_addralign isec) mod word_bytes m = 0 \<and> unat (r_offset rel) mod word_bytes m = 0"

definition relax_tlsdesc :: "RelArgs \<Rightarrow> RelSym \<Rightarrow> bool" where
  "relax_tlsdesc arg y \<longleftrightarrow> (if a_is_static arg then True else a_relax arg \<and> \<not> a_shared arg \<and> \<not> q_imported y)"

subsection \<open>Decision tables\<close>

definition get_output_type :: "RelArgs \<Rightarrow> nat" where
  "get_output_type arg = (if a_shared arg then 0 else if a_pie arg then 1 else 2)"

definition get_sym_type :: "RelSym \<Rightarrow> nat" where
  "get_sym_type y = (if q_absolute y then 0 else if \<not> q_imported y then 1 else if q_type y \<noteq> STT_FUNC then 2 else 3)"

definition get_rel_action :: "RelArgs \<Rightarrow> RelSym \<Rightarrow> Action list list \<Rightarrow> Action" where
  "get_rel_action arg y table = table ! get_output_type arg ! get_sym_type y"

definition get_pcrel_action :: "RelArgs \<Rightarrow> RelSym \<Rightarrow> Action" where
  "get_pcrel_action arg y = get_rel_action arg y
     [[ERROR, NONE, ERROR, PLT],
      [ERROR, NONE, COPYREL, PLT],
      [NONE, NONE, COPYREL, CPLT]]"

definition get_absrel_action :: "RelArgs \<Rightarrow> RelSym \<Rightarrow> Action" where
  "get_absrel_action arg y = get_rel_action arg y
     [[NONE, ERROR, ERROR, ERROR],
      [NONE, ERROR, ERROR, ERROR],
      [NONE, NONE, COPYREL, CPLT]]"

definition get_dyn_absrel_action :: "RelArgs \<Rightarrow> RelSym \<Rightarrow> Action" where
  "get_dyn_absrel_action arg y =
     (if is_ifunc y then IFUNC
      else get_rel_action arg y
        [[NONE, BASEREL, DYNREL, DYNREL],
         [NONE, BASEREL, DYNREL, DYNREL],
         [NONE, NONE, DYN_COPYREL, DYN_CPLT]])"

definition get_ppc64_toc_action :: "RelArgs \<Rightarrow> RelSym \<Rightarrow> Action" where
  "get_ppc64_toc_action arg y =
     (if is_ifunc y then IFUNC
      else get_rel_action arg y
        [[NONE, BASEREL, DYNREL, DYNREL],
         [NONE, BASEREL, DYNREL, DYNREL],
         [NONE, NONE, DYNREL, DYNREL]])"

subsection \<open>Scanning\<close>

definition NEEDS_GOT :: u8 where "NEEDS_GOT = 1"
definition NEEDS_PLT :: u8 where "NEEDS_PLT = 2"
definition NEEDS_CPLT :: u8 where "NEEDS_CPLT = 4"
definition NEEDS_GOTTP :: u8 where "NEEDS_GOTTP = 8"
definition NEEDS_TLSGD :: u8 where "NEEDS_TLSGD = 16"
definition NEEDS_COPYREL :: u8 where "NEEDS_COPYREL = 32"
definition NEEDS_TLSDESC :: u8 where "NEEDS_TLSDESC = 64"

text \<open>What scanning changes: the flags of the symbols, counters, and the number of errors reported so far.\<close>

record ScanSt =
  sc_flags :: "nat \<Rightarrow> u8"
  sc_num_dynrel :: nat
  sc_num_ifunc_dynrels :: nat
  sc_has_textrel :: bool
  sc_needs_tlsld :: bool
  sc_errors :: nat

definition add_flag :: "nat \<Rightarrow> u8 \<Rightarrow> ScanSt \<Rightarrow> ScanSt" where
  "add_flag s f st = st \<lparr> sc_flags := (sc_flags st) (s := sc_flags st s OR f) \<rparr>"

definition scan_error :: "ScanSt \<Rightarrow> ScanSt" where
  "scan_error st = st \<lparr> sc_errors := Suc (sc_errors st) \<rparr>"

definition check_textrel :: "RelArgs \<Rightarrow> RelSec \<Rightarrow> ScanSt \<Rightarrow> ScanSt" where
  "check_textrel arg isec st =
     (if is_writable isec then st
      else (if a_z_text arg then scan_error st else st) \<lparr> sc_has_textrel := True \<rparr>)"

definition add_copyrel :: "nat \<Rightarrow> RelSym \<Rightarrow> ScanSt \<Rightarrow> ScanSt" where
  "add_copyrel s y st = add_flag s NEEDS_COPYREL (if q_visibility y = STV_PROTECTED then scan_error st else st)"

definition add_dynrel :: "RelArgs \<Rightarrow> RelSec \<Rightarrow> ScanSt \<Rightarrow> ScanSt" where
  "add_dynrel arg isec st =
     (let st' = check_textrel arg isec st in st' \<lparr> sc_num_dynrel := Suc (sc_num_dynrel st') \<rparr>)"

definition scan_rel :: "machine \<Rightarrow> RelArgs \<Rightarrow> RelSec \<Rightarrow> nat \<Rightarrow> RelSym \<Rightarrow> ElfRel \<Rightarrow> Action \<Rightarrow> ScanSt \<Rightarrow> ScanSt" where
  "scan_rel m arg isec s y rel action st =
     (case action of
        NONE \<Rightarrow> st
      | ERROR \<Rightarrow> scan_error st
      | COPYREL \<Rightarrow> add_copyrel s y (if a_z_copyreloc arg then st else scan_error st)
      | DYN_COPYREL \<Rightarrow> if is_writable isec \<or> \<not> a_z_copyreloc arg then add_dynrel arg isec st else add_copyrel s y st
      | PLT \<Rightarrow> add_flag s NEEDS_PLT st
      | CPLT \<Rightarrow> add_flag s NEEDS_CPLT st
      | DYN_CPLT \<Rightarrow> if is_writable isec then add_dynrel arg isec st else add_flag s NEEDS_CPLT st
      | DYNREL \<Rightarrow> add_dynrel arg isec st
      | BASEREL \<Rightarrow>
          let st' = check_textrel arg isec st
          in if is_relr_reloc m arg isec rel then st' else st' \<lparr> sc_num_dynrel := Suc (sc_num_dynrel st') \<rparr>
      | IFUNC \<Rightarrow>
          let st' = add_dynrel arg isec st in st' \<lparr> sc_num_ifunc_dynrels := Suc (sc_num_ifunc_dynrels st') \<rparr>)"

definition scan_pcrel :: "machine \<Rightarrow> RelArgs \<Rightarrow> RelSec \<Rightarrow> nat \<Rightarrow> RelSym \<Rightarrow> ElfRel \<Rightarrow> ScanSt \<Rightarrow> ScanSt" where
  "scan_pcrel m arg isec s y rel = scan_rel m arg isec s y rel (get_pcrel_action arg y)"

definition scan_absrel :: "machine \<Rightarrow> RelArgs \<Rightarrow> RelSec \<Rightarrow> nat \<Rightarrow> RelSym \<Rightarrow> ElfRel \<Rightarrow> ScanSt \<Rightarrow> ScanSt" where
  "scan_absrel m arg isec s y rel = scan_rel m arg isec s y rel (get_absrel_action arg y)"

definition scan_dyn_absrel :: "machine \<Rightarrow> RelArgs \<Rightarrow> RelSec \<Rightarrow> nat \<Rightarrow> RelSym \<Rightarrow> ElfRel \<Rightarrow> ScanSt \<Rightarrow> ScanSt" where
  "scan_dyn_absrel m arg isec s y rel = scan_rel m arg isec s y rel (get_dyn_absrel_action arg y)"

definition scan_toc_rel :: "machine \<Rightarrow> RelArgs \<Rightarrow> RelSec \<Rightarrow> nat \<Rightarrow> RelSym \<Rightarrow> ElfRel \<Rightarrow> ScanSt \<Rightarrow> ScanSt" where
  "scan_toc_rel m arg isec s y rel = scan_rel m arg isec s y rel (get_ppc64_toc_action arg y)"

definition check_tlsle :: "RelArgs \<Rightarrow> ScanSt \<Rightarrow> ScanSt" where
  "check_tlsle arg st = (if a_shared arg then scan_error st else st)"

subsection \<open>Applying\<close>

text \<open>
  What \<^verbatim>\<open>apply_absrel\<close> stores into the word at the relocated place, if anything, and the dynamic relocations it appends.
\<close>

definition apply_dynrel :: "machine \<Rightarrow> RelArgs \<Rightarrow> RelSym \<Rightarrow> u64 \<Rightarrow> u64 \<Rightarrow> u64 option \<times> ElfRel list" where
  "apply_dynrel m arg y A P =
     (if a_apply_dynamic_relocs arg then Some A else None, [ElfRel_new m P (R_ABS (desc m)) (q_dynsym_idx y) A])"

definition apply_absrel :: "machine \<Rightarrow> RelArgs \<Rightarrow> RelSec \<Rightarrow> RelSym \<Rightarrow> ElfRel \<Rightarrow> u64 \<Rightarrow> u64 \<Rightarrow> u64 \<Rightarrow> Action \<Rightarrow>
    (u64 option \<times> ElfRel list) result" where
  "apply_absrel m arg isec y rel S A P action =
     (case action of
        COPYREL \<Rightarrow> Inr (Some (S + A), [])
      | CPLT \<Rightarrow> Inr (Some (S + A), [])
      | NONE \<Rightarrow> Inr (Some (S + A), [])
      | BASEREL \<Rightarrow>
          if is_relr_reloc m arg isec rel then Inr (Some (S + A), [])
          else Inr (if a_apply_dynamic_relocs arg then Some (S + A) else None,
                    [ElfRel_new m P (R_RELATIVE (desc m)) 0 (S + A)])
      | DYN_COPYREL \<Rightarrow>
          if is_writable isec \<or> \<not> a_z_copyreloc arg then Inr (apply_dynrel m arg y A P) else Inr (Some (S + A), [])
      | DYN_CPLT \<Rightarrow> if is_writable isec then Inr (apply_dynrel m arg y A P) else Inr (Some (S + A), [])
      | DYNREL \<Rightarrow> Inr (apply_dynrel m arg y A P)
      | IFUNC \<Rightarrow>
          (case R_IRELATIVE (desc m) of
             None \<Rightarrow> Inl Unreachable
           | Some ty \<Rightarrow>
               let addr = q_addr_no_plt y + A
               in Inr (if a_apply_dynamic_relocs arg then Some addr else None, [ElfRel_new m P ty 0 addr]))
      | _ \<Rightarrow> Inl Unreachable)"

definition apply_dyn_absrel where
  "apply_dyn_absrel m arg isec y rel S A P = apply_absrel m arg isec y rel S A P (get_dyn_absrel_action arg y)"

definition apply_toc_rel where
  "apply_toc_rel m arg isec y rel S A P = apply_absrel m arg isec y rel S A P (get_ppc64_toc_action arg y)"

subsection \<open>Alignment, tombstones and thread pointers\<close>

fun countr_zero :: "nat \<Rightarrow> u64 \<Rightarrow> nat" where
  "countr_zero 0 x = 0"
| "countr_zero (Suc n) x = (if bit x 0 then 0 else Suc (countr_zero n (drop_bit 1 x)))"

definition to_p2align :: "u64 \<Rightarrow> nat" where
  "to_p2align alignment = (if alignment = 0 then 0 else countr_zero 64 alignment)"

text \<open>
  The value for a relocation against a dead section: \<open>frag\<close> is whether the relocation refers to a fragment, and \<open>dead\<close>
  the section of the symbol, if it has one, as whether it is alive and whether it was folded.
\<close>

definition get_tombstone :: "bytes \<Rightarrow> bool \<Rightarrow> (bool \<times> bool) option \<Rightarrow> u64 option" where
  "get_tombstone s frag sec =
     (if frag then None
      else case sec of
        None \<Rightarrow> None
      | Some (alive, killed_by_icf) \<Rightarrow>
          if alive then None
          else if \<not> starts_with s (str ''.debug'') then None
          else if killed_by_icf \<and> s = str ''.debug_line'' then None
          else Some (if s = str ''.debug_loc'' \<or> s = str ''.debug_ranges'' then 1 else 0))"

definition get_tls_segment :: "ElfPhdr list option \<Rightarrow> ElfPhdr option" where
  "get_tls_segment phdrs = (case phdrs of None \<Rightarrow> None | Some ps \<Rightarrow> find (\<lambda>p. p_type p = PT_TLS) ps)"

definition get_tls_begin :: "ElfPhdr list option \<Rightarrow> u64" where
  "get_tls_begin phdrs = (case get_tls_segment phdrs of Some p \<Rightarrow> p_vaddr p | None \<Rightarrow> 0)"

definition get_tp_addr :: "machine \<Rightarrow> ElfPhdr list option \<Rightarrow> u64" where
  "get_tp_addr m phdrs =
     (case get_tls_segment phdrs of
        None \<Rightarrow> 0
      | Some p \<Rightarrow>
          if m \<in> {X86_64, I386, SPARC64, S390X} then align_to (p_vaddr p + p_memsz p) (p_align p)
          else if m \<in> {ARM64, ARM32, SH4, ALPHA} then align_down (p_vaddr p - of_nat (word_bytes m * 2)) (p_align p)
          else if m \<in> {PPC32, PPC64V1, PPC64V2, M68K} then p_vaddr p + 0x7000
          else p_vaddr p)"

definition get_dtp_addr :: "machine \<Rightarrow> ElfPhdr list option \<Rightarrow> u64" where
  "get_dtp_addr m phdrs =
     (case get_tls_segment phdrs of
        None \<Rightarrow> 0
      | Some p \<Rightarrow>
          if m \<in> {PPC32, PPC64V1, PPC64V2, M68K} then p_vaddr p + 0x8000
          else if m \<in> {RV64LE, RV64BE, RV32LE, RV32BE} then p_vaddr p + 0x800
          else p_vaddr p)"

subsection \<open>Reserved and written dynamic relocations\<close>

lemma num_dynrel_simps [simp]:
  "sc_num_dynrel (add_flag s f st) = sc_num_dynrel st" "sc_num_dynrel (scan_error st) = sc_num_dynrel st"
  "sc_num_dynrel (check_textrel arg isec st) = sc_num_dynrel st" "sc_num_dynrel (add_copyrel s y st) = sc_num_dynrel st"
  "sc_num_dynrel (add_dynrel arg isec st) = Suc (sc_num_dynrel st)" "sc_num_dynrel (check_tlsle arg st) = sc_num_dynrel st"
  by (simp_all add: add_flag_def scan_error_def check_textrel_def add_copyrel_def add_dynrel_def check_tlsle_def Let_def)

lemma scan_apply_action:
  assumes "apply_absrel m arg isec y rel S A P action = Inr (w, ds)"
  shows "sc_num_dynrel (scan_rel m arg isec s y rel action st) = sc_num_dynrel st + length ds"
  using assms
  by (auto simp: apply_absrel_def scan_rel_def apply_dynrel_def Let_def split: Action.splits if_splits option.splits)

lemma rel_action_cases:
  "get_output_type arg \<in> {0, 1, 2}" "get_sym_type y \<in> {0, 1, 2, 3}"
  by (simp_all add: get_output_type_def get_sym_type_def)

lemma dyn_absrel_action:
  "get_dyn_absrel_action arg y =
     (if is_ifunc y then IFUNC
      else if q_absolute y then NONE
      else if a_shared arg \<or> a_pie arg then (if q_imported y then DYNREL else BASEREL)
      else if \<not> q_imported y then NONE
      else if q_type y \<noteq> STT_FUNC then DYN_COPYREL else DYN_CPLT)"
  by (simp add: get_dyn_absrel_action_def get_rel_action_def get_output_type_def get_sym_type_def)

lemma other_actions:
  "get_pcrel_action arg y \<in> {NONE, ERROR, PLT, COPYREL, CPLT}"
  "get_absrel_action arg y \<in> {NONE, ERROR, COPYREL, CPLT}"
  by (auto simp: get_pcrel_action_def get_absrel_action_def get_rel_action_def get_output_type_def get_sym_type_def)

lemma scan_pcrel_num [simp]: "sc_num_dynrel (scan_pcrel m arg isec s y rel st) = sc_num_dynrel st"
  using other_actions(1) [of arg y] unfolding scan_pcrel_def by (auto simp: scan_rel_def)

lemma scan_absrel_num [simp]: "sc_num_dynrel (scan_absrel m arg isec s y rel st) = sc_num_dynrel st"
  using other_actions(2) [of arg y] unfolding scan_absrel_def by (auto simp: scan_rel_def)

lemma apply_dyn_absrel_returns:
  assumes "is_ifunc y \<longrightarrow> R_IRELATIVE (desc m) \<noteq> None"
  shows "\<exists>w ds. apply_dyn_absrel m arg isec y rel S A P = Inr (w, ds)"
  using assms
  by (auto simp: apply_dyn_absrel_def dyn_absrel_action apply_absrel_def apply_dynrel_def Let_def)

subsection \<open>What the program sees\<close>

text \<open>
  The dynamic loader: with the image loaded at \<open>base\<close>, \<open>lookup\<close> the address of a dynamic symbol and \<open>resolver\<close> the
  result of calling the function at an address, one dynamic relocation turns the word at its place
  into another. Without addends in the record the word holds the addend. A place listed in \<^verbatim>\<open>.relr.dyn\<close> has \<open>base\<close> added.
\<close>

definition trunc :: "machine \<Rightarrow> u64 \<Rightarrow> u64" where
  "trunc m x = take_bit (8 * word_bytes m) x"

definition load_dynrel :: "machine \<Rightarrow> u64 \<Rightarrow> (u32 \<Rightarrow> u64) \<Rightarrow> (u64 \<Rightarrow> u64) \<Rightarrow> ElfRel \<Rightarrow> u64 \<Rightarrow> u64" where
  "load_dynrel m base lookup resolver r w =
     (let addend = (if is_rela (desc m) then r_addend r else w)
      in if r_type r = R_ABS (desc m) then lookup (r_sym r) + addend
         else if r_type r = R_RELATIVE (desc m) then base + addend
         else if R_IRELATIVE (desc m) = Some (r_type r) then resolver (trunc m (base + addend))
         else w)"

definition loaded_word :: "machine \<Rightarrow> u64 \<Rightarrow> (u32 \<Rightarrow> u64) \<Rightarrow> (u64 \<Rightarrow> u64) \<Rightarrow> bool \<Rightarrow> u64 \<Rightarrow> u64 option \<times> ElfRel list \<Rightarrow> u64" where
  "loaded_word m base lookup resolver relr w0 = (\<lambda>(w, ds).
     let w1 = (case w of None \<Rightarrow> w0 | Some x \<Rightarrow> trunc m x);
         w2 = (if relr then w1 + base else w1)
     in fold (load_dynrel m base lookup resolver) ds w2)"

lemma dynrel_types:
  "R_ABS (desc m) \<noteq> R_RELATIVE (desc m)" "R_IRELATIVE (desc m) \<noteq> Some (R_ABS (desc m))"
  "R_IRELATIVE (desc m) \<noteq> Some (R_RELATIVE (desc m))"
  by (cases m; simp add: desc_defs R_X86_64_defs R_386_defs R_AARCH64_defs R_ARM_defs R_RISCV_defs R_PPC_defs
      R_PPC64_defs R_SPARC_defs R_390_defs R_68K_defs R_SH_defs R_ALPHA_defs)+

lemma trunc_add [simp]:
  "trunc m (a + trunc m b) = trunc m (a + b)" "trunc m (trunc m a + b) = trunc m (a + b)" "trunc m (trunc m a) = trunc m a"
proof -
  have d: "(2 :: nat) ^ (8 * word_bytes m) dvd 2 ^ 64" by (intro le_imp_power_dvd) (simp add: word_bytes_def)
  have n: "unat (trunc m x) = unat x mod 2 ^ (8 * word_bytes m)" for x by (simp add: trunc_def unat_take_bit)
  have "unat (x + y) mod 2 ^ (8 * word_bytes m) = (unat x + unat y) mod 2 ^ (8 * word_bytes m)" for x y :: u64
    using d by (simp add: unat_word_ariths mod_mod_cancel)
  then show "trunc m (a + trunc m b) = trunc m (a + b)" "trunc m (trunc m a + b) = trunc m (a + b)" "trunc m (trunc m a) = trunc m a"
    unfolding word_unat_eq_iff n by (simp_all add: n mod_simps)
qed





subsection \<open>Agreement with .relr.dyn\<close>

lemma le_countr_zero: "k \<le> n \<Longrightarrow> k \<le> countr_zero n x \<longleftrightarrow> (\<forall>i<k. \<not> bit x i)"
proof (induction n arbitrary: k x)
  case (Suc n)
  show ?case
  proof (cases k)
    case (Suc j)
    with Suc.IH [of j "drop_bit 1 x"] Suc.prems show ?thesis
      by (auto simp: bit_drop_bit_eq All_less_Suc2 add.commute)
  qed simp
qed simp

lemma p2align_dvd:
  assumes "x \<noteq> 0" and "k \<le> 64"
  shows "2 ^ k dvd unat x \<longleftrightarrow> k \<le> to_p2align x"
proof -
  have "2 ^ k dvd unat x \<longleftrightarrow> take_bit k x = 0"
    by (simp add: unat_take_bit [symmetric] dvd_eq_mod_eq_0 unat_eq_0 flip: unat_take_bit)
  also have "\<dots> \<longleftrightarrow> (\<forall>i<k. \<not> bit x i)"
    using assms(2) by (auto simp: bit_eq_iff bit_take_bit_iff dest: bit_imp_le_length)
  also have "\<dots> \<longleftrightarrow> k \<le> to_p2align x"
    using le_countr_zero [OF assms(2)] assms(1) by (simp add: to_p2align_def)
  finally show ?thesis .
qed

text \<open>The word has \<open>2 ^ k\<close> bytes for \<open>k\<close> 2 or 3.\<close>

lemma word_bytes_aligned:
  assumes "x \<noteq> 0"
  shows "unat x mod word_bytes m = 0 \<longleftrightarrow> word_bytes m \<le> 2 ^ to_p2align x"
proof -
  obtain k where k: "word_bytes m = 2 ^ k" "k \<le> 64" by (cases "m64 m") (auto simp: word_bytes_def intro: that [of 3] that [of 2])
  show ?thesis unfolding mod_eq_0_iff_dvd k(1) using p2align_dvd [OF assms k(2)] by simp
qed

definition relr_rel_of :: "RelSym \<Rightarrow> ElfRel \<Rightarrow> RelrRel" where
  "relr_rel_of y rel = \<lparr> rr_type = r_type rel, rr_offset = r_offset rel, rr_absolute = q_absolute y, rr_imported = q_imported y \<rparr>"



text \<open>
  a section whose header gives the alignment 0 loses relocations. Its aligned absolute relocations count as packed,
  so no dynamic relocation is reserved or written for them, but \<^verbatim>\<open>construct_relr\<close> does not pack them.
\<close>

theorem relr_alignment_0_lost:
  "\<exists>arg isec y rel. sec_addralign isec = 0 \<and> get_dyn_absrel_action arg y = BASEREL \<and>
    (\<exists>w. apply_dyn_absrel X86_64 arg isec y rel S A P = Inr (Some w, [])) \<and>
    sc_num_dynrel (scan_dyn_absrel X86_64 arg isec s y rel st) = sc_num_dynrel st \<and>
    relr_shard X86_64 \<lparr> rm_p2align = to_p2align (sec_addralign isec), rm_offset = off, rm_rels = [relr_rel_of y rel] \<rparr> = []"
proof -
  let ?arg = "\<lparr> a_shared = True, a_pie = False, a_is_static = False, a_relax = True, a_z_dlopen = True,
      a_z_text = False, a_z_copyreloc = True, a_apply_dynamic_relocs = True, a_pack_dyn_relocs_relr = True \<rparr>"
  let ?y = "\<lparr> q_absolute = False, q_imported = False, q_type = 1, q_visibility = 0, q_dynsym_idx = 0, q_addr = 0x2000, q_addr_no_plt = 0x2000,
        q_got_addr = 0, q_gottp_addr = None, q_tlsgd_addr = None, q_tlsdesc_addr = None, q_size = 0 \<rparr>"
  let ?rel = "\<lparr> r_offset = 16, r_type = R_X86_64_64, r_sym = 1, r_addend = 4, r_type_data = 0 \<rparr>"
  let ?isec = "\<lparr> sec_flags = 3, sec_addralign = 0, sec_addr = 0x1000 \<rparr>"
  have "is_relr_reloc X86_64 ?arg ?isec ?rel" "get_dyn_absrel_action ?arg ?y = BASEREL"
    by (simp_all add: is_relr_reloc_def dyn_absrel_action is_ifunc_def STT_GNU_IFUNC_def word_bytes_def desc_X86_64_def SHF_EXECINSTR_def)
  then show ?thesis
    by (intro exI [of _ ?arg] exI [of _ ?isec] exI [of _ ?y] exI [of _ ?rel])
      (simp add: apply_dyn_absrel_def apply_absrel_def scan_dyn_absrel_def scan_rel_def to_p2align_def relr_shard_def word_bytes_def desc_X86_64_def)
qed

end
