(* ===== verification/Buffer.thy ===== *)
theory Buffer
  imports Integers
begin

text \<open>
  Reading and writing the bytes of an output section, as the relocation code of all back ends does: a store is a list of
  bytes put at a position, and a store or load that leaves the section is the failure \<open>OutOfBounds\<close>.
\<close>

definition put :: "nat \<Rightarrow> bytes \<Rightarrow> bytes \<Rightarrow> bytes result" where
  "put pos bs buf =
     (if pos + length bs \<le> length buf then Inr (take pos buf @ bs @ drop (pos + length bs) buf) else Inl OutOfBounds)"

definition peek :: "nat \<Rightarrow> nat \<Rightarrow> bytes \<Rightarrow> bytes result" where
  "peek pos n buf = (if pos + n \<le> length buf then Inr (take n (drop pos buf)) else Inl OutOfBounds)"

lemma put_length: "put pos bs buf = Inr buf' \<Longrightarrow> length buf' = length buf"
  by (auto simp: put_def split: if_splits)

lemma put_nth:
  assumes "put pos bs buf = Inr buf'" and "i < length buf"
  shows "buf' ! i = (if pos \<le> i \<and> i < pos + length bs then bs ! (i - pos) else buf ! i)"
  using assms by (auto simp: put_def nth_append min_def split: if_splits)

lemma peek_put: "put pos bs buf = Inr buf' \<Longrightarrow> peek pos (length bs) buf' = Inr bs"
  by (auto simp: put_def peek_def split: if_splits)

lemma peek_put_other:
  assumes "put pos bs buf = Inr buf'" and "p + n \<le> pos \<or> pos + length bs \<le> p"
  shows "peek p n buf' = peek p n buf"
proof -
  note l = put_length [OF assms(1)]
  have "take n (drop p buf') = take n (drop p buf)" if "p + n \<le> length buf"
    using that l assms(2) put_nth [OF assms(1)] by (intro nth_equalityI) auto
  then show ?thesis by (auto simp: peek_def l)
qed

lemma put_Inr: "pos + length bs \<le> length buf \<Longrightarrow> \<exists>buf'. put pos bs buf = Inr buf'"
  by (simp add: put_def)

text \<open>Two adjacent stores are one store.\<close>

lemma put_put_adjacent:
  assumes "pos + length a + length b \<le> length buf"
  shows "bind_result (put pos a buf) (put (pos + length a) b) = put pos (a @ b) buf"
  using assms by (simp add: put_def ac_simps)

end
