(* ===== verification/Elf_X86_64.thy ===== *)
theory Elf_X86_64
  imports Elf_Scan Buffer
begin

text \<open>
  The x86-64 back end (\<^verbatim>\<open>src/elf/arch-x86-64.cc\<close>), whole: the PLT, relocations of \<^verbatim>\<open>.eh_frame\<close>, the tables that
  rewrite instructions, the thread-local relaxations, and the three loops over the relocations of a section
  (\<^verbatim>\<open>scan_relocations\<close>, \<^verbatim>\<open>apply_reloc_alloc\<close>, \<^verbatim>\<open>apply_reloc_nonalloc\<close>).
\<close>

subsection \<open>PLT\<close>

record X86Ctx =
  x_arg :: RelArgs
  x_gotplt_addr :: u64
  x_plt_addr :: u64
  x_tp_addr :: u64
  x_dtp_addr :: u64
  x_tls_begin :: u64
  x_tlsld_addr :: "u64 option"

abbreviation put32 :: "nat \<Rightarrow> u64 \<Rightarrow> bytes \<Rightarrow> bytes result" where
  "put32 pos val \<equiv> put pos (le_bytes 4 val)"

definition x86_write_plt_header :: "X86Ctx \<Rightarrow> nat \<Rightarrow> bytes \<Rightarrow> bytes result" where
  "x86_write_plt_header ctx pos buf =
     bind_result (put pos
       [0xf3, 0x0f, 0x1e, 0xfa, 0x41, 0x53, 0xff, 0x35, 0, 0, 0, 0, 0xff, 0x25, 0, 0, 0, 0,
        0xcc, 0xcc, 0xcc, 0xcc, 0xcc, 0xcc, 0xcc, 0xcc, 0xcc, 0xcc, 0xcc, 0xcc, 0xcc, 0xcc] buf) (\<lambda>buf.
     bind_result (put32 (pos + 8) (x_gotplt_addr ctx - x_plt_addr ctx - 4) buf) (\<lambda>buf.
       put32 (pos + 14) (x_gotplt_addr ctx - x_plt_addr ctx - 2) buf))"

definition x86_write_plt_entry :: "u64 \<Rightarrow> u64 \<Rightarrow> u64 \<Rightarrow> nat \<Rightarrow> bytes \<Rightarrow> bytes result" where
  "x86_write_plt_entry plt_idx gotplt_addr plt_addr pos buf =
     bind_result (put pos [0xf3, 0x0f, 0x1e, 0xfa, 0x41, 0xbb, 0, 0, 0, 0, 0xff, 0x25, 0, 0, 0, 0] buf) (\<lambda>buf.
     bind_result (put32 (pos + 6) plt_idx buf) (\<lambda>buf.
       put32 (pos + 12) (gotplt_addr - plt_addr - 16) buf))"

definition x86_write_pltgot_entry :: "u64 \<Rightarrow> u64 \<Rightarrow> nat \<Rightarrow> bytes \<Rightarrow> bytes result" where
  "x86_write_pltgot_entry got_addr plt_addr pos buf =
     bind_result (put pos [0xf3, 0x0f, 0x1e, 0xfa, 0xff, 0x25, 0, 0, 0, 0, 0xcc, 0xcc, 0xcc, 0xcc, 0xcc, 0xcc] buf) (\<lambda>buf.
       put32 (pos + 6) (got_addr - plt_addr - 10) buf)"

subsection \<open>.eh\_frame\<close>

definition x86_eh_frame_reloc :: "u64 \<Rightarrow> ElfRel \<Rightarrow> u64 \<Rightarrow> u64 \<Rightarrow> bytes \<Rightarrow> bytes result" where
  "x86_eh_frame_reloc addr rel offset val buf =
     (let loc = unat offset
      in if r_type rel = R_X86_64_NONE then Inr buf
         else if r_type rel = R_X86_64_32 then put32 loc val buf
         else if r_type rel = R_X86_64_64 then put loc (le_bytes 8 val) buf
         else if r_type rel = R_X86_64_PC32 then put32 loc (val - addr - offset) buf
         else if r_type rel = R_X86_64_PC64 then put loc (le_bytes 8 (val - addr - offset)) buf
         else Inl (Fatal ''unsupported relocation in .eh_frame''))"

subsection \<open>Instruction tables\<close>

definition lookup_insn :: "(u32 \<times> u32) list \<Rightarrow> u32 \<Rightarrow> u32" where
  "lookup_insn table key = (case map_of table key of Some insn \<Rightarrow> insn | None \<Rightarrow> 0)"

definition insn2 :: "bytes \<Rightarrow> u32" where
  "insn2 loc = push_bit 8 (ucast (loc ! 0)) OR ucast (loc ! 1)"

definition insn3 :: "bytes \<Rightarrow> u32" where
  "insn3 loc = push_bit 16 (ucast (loc ! 0)) OR push_bit 8 (ucast (loc ! 1)) OR ucast (loc ! 2)"

definition relax_gotpcrelx_table :: "(u32 \<times> u32) list" where
  "relax_gotpcrelx_table =
    [(0xff15, 0x90e8), (0xff25, 0x90e9)]"

definition relax_gotpcrelx :: "bytes \<Rightarrow> u32" where
  "relax_gotpcrelx loc = lookup_insn relax_gotpcrelx_table (insn2 loc)"

definition relax_rex_gotpcrelx_table :: "(u32 \<times> u32) list" where
  "relax_rex_gotpcrelx_table =
    [(0x488b05, 0x488d05), (0x488b0d, 0x488d0d), (0x488b15, 0x488d15), (0x488b1d, 0x488d1d),
     (0x488b25, 0x488d25), (0x488b2d, 0x488d2d), (0x488b35, 0x488d35), (0x488b3d, 0x488d3d),
     (0x4c8b05, 0x4c8d05), (0x4c8b0d, 0x4c8d0d), (0x4c8b15, 0x4c8d15), (0x4c8b1d, 0x4c8d1d),
     (0x4c8b25, 0x4c8d25), (0x4c8b2d, 0x4c8d2d), (0x4c8b35, 0x4c8d35), (0x4c8b3d, 0x4c8d3d)]"

definition relax_rex_gotpcrelx :: "bytes \<Rightarrow> u32" where
  "relax_rex_gotpcrelx loc = lookup_insn relax_rex_gotpcrelx_table (insn3 loc)"

definition relax_gottpoff_table :: "(u32 \<times> u32) list" where
  "relax_gottpoff_table =
    [(0x488b05, 0x48c7c0), (0x488b0d, 0x48c7c1), (0x488b15, 0x48c7c2), (0x488b1d, 0x48c7c3),
     (0x488b25, 0x48c7c4), (0x488b2d, 0x48c7c5), (0x488b35, 0x48c7c6), (0x488b3d, 0x48c7c7),
     (0x4c8b05, 0x49c7c0), (0x4c8b0d, 0x49c7c1), (0x4c8b15, 0x49c7c2), (0x4c8b1d, 0x49c7c3),
     (0x4c8b25, 0x49c7c4), (0x4c8b2d, 0x49c7c5), (0x4c8b35, 0x49c7c6), (0x4c8b3d, 0x49c7c7)]"

definition relax_gottpoff :: "bytes \<Rightarrow> u32" where
  "relax_gottpoff loc = lookup_insn relax_gottpoff_table (insn3 loc)"

definition relax_gotpc32_tlsdesc_table :: "(u32 \<times> u32) list" where
  "relax_gotpc32_tlsdesc_table =
    [(0x488d05, 0x48c7c0), (0x488d0d, 0x48c7c1), (0x488d15, 0x48c7c2), (0x488d1d, 0x48c7c3),
     (0x488d25, 0x48c7c4), (0x488d2d, 0x48c7c5), (0x488d35, 0x48c7c6), (0x488d3d, 0x48c7c7),
     (0x4c8d05, 0x49c7c0), (0x4c8d0d, 0x49c7c1), (0x4c8d15, 0x49c7c2), (0x4c8d1d, 0x49c7c3),
     (0x4c8d25, 0x49c7c4), (0x4c8d2d, 0x49c7c5), (0x4c8d35, 0x49c7c6), (0x4c8d3d, 0x49c7c7)]"

definition relax_gotpc32_tlsdesc :: "bytes \<Rightarrow> u32" where
  "relax_gotpc32_tlsdesc loc = lookup_insn relax_gotpc32_tlsdesc_table (insn3 loc)"

subsection \<open>Thread-local relaxations\<close>

definition get_tls_relax_prefix :: "ElfRel \<Rightarrow> nat result" where
  "get_tls_relax_prefix rel =
     (if r_type rel \<in> {R_X86_64_PLT32, R_X86_64_PC32, R_X86_64_GOTPCREL, R_X86_64_GOTPCRELX} then Inr 4
      else if r_type rel = R_X86_64_PLTOFF64 then Inr 3
      else Inl Unreachable)"

definition check_relax_prefix :: "ElfRel \<Rightarrow> nat \<Rightarrow> unit result" where
  "check_relax_prefix rel prefix =
     (if unat (r_offset rel) < prefix then Inl (Fatal ''relocation is used against an invalid code sequence'') else Inr ())"

text \<open>Each puts an instruction sequence at \<^verbatim>\<open>loc - k\<close> and an operand at \<^verbatim>\<open>loc + j\<close>.\<close>

definition put_insn :: "nat \<Rightarrow> nat \<Rightarrow> bytes \<Rightarrow> nat \<Rightarrow> u64 \<Rightarrow> bytes \<Rightarrow> bytes result" where
  "put_insn loc k insn j val buf =
     (if loc < k then Inl OutOfBounds
      else bind_result (put (loc - k) insn buf) (put32 (loc + j) val))"

definition relax_gd_to_le :: "nat \<Rightarrow> ElfRel \<Rightarrow> u64 \<Rightarrow> bytes \<Rightarrow> bytes result" where
  "relax_gd_to_le loc rel val buf =
     (if r_type rel \<in> {R_X86_64_PLT32, R_X86_64_PC32, R_X86_64_GOTPCREL, R_X86_64_GOTPCRELX} then
        put_insn loc 4 [0x64, 0x48, 0x8b, 0x04, 0x25, 0, 0, 0, 0, 0x48, 0x81, 0xc0, 0, 0, 0, 0] 8 val buf
      else if r_type rel = R_X86_64_PLTOFF64 then
        put_insn loc 3 [0x64, 0x48, 0x8b, 0x04, 0x25, 0, 0, 0, 0, 0x48, 0x81, 0xc0, 0, 0, 0, 0,
          0x66, 0x0f, 0x1f, 0x44, 0x00, 0x00] 9 val buf
      else Inl Unreachable)"

definition relax_gd_to_ie :: "nat \<Rightarrow> ElfRel \<Rightarrow> u64 \<Rightarrow> bytes \<Rightarrow> bytes result" where
  "relax_gd_to_ie loc rel val buf =
     (if r_type rel \<in> {R_X86_64_PLT32, R_X86_64_PC32, R_X86_64_GOTPCREL, R_X86_64_GOTPCRELX} then
        put_insn loc 4 [0x64, 0x48, 0x8b, 0x04, 0x25, 0, 0, 0, 0, 0x48, 0x03, 0x05, 0, 0, 0, 0] 8 (val - 12) buf
      else if r_type rel = R_X86_64_PLTOFF64 then
        put_insn loc 3 [0x64, 0x48, 0x8b, 0x04, 0x25, 0, 0, 0, 0, 0x48, 0x03, 0x05, 0, 0, 0, 0,
          0x66, 0x0f, 0x1f, 0x44, 0x00, 0x00] 9 (val - 13) buf
      else Inl Unreachable)"

definition relax_ld_to_le :: "nat \<Rightarrow> ElfRel \<Rightarrow> u64 \<Rightarrow> bytes \<Rightarrow> bytes result" where
  "relax_ld_to_le loc rel val buf =
     (if r_type rel \<in> {R_X86_64_PLT32, R_X86_64_PC32} then
        put_insn loc 3 [0x31, 0xc0, 0x64, 0x48, 0x8b, 0x00, 0x48, 0x2d, 0, 0, 0, 0] 5 val buf
      else if r_type rel \<in> {R_X86_64_GOTPCREL, R_X86_64_GOTPCRELX} then
        put_insn loc 3 [0x31, 0xc0, 0x64, 0x48, 0x8b, 0x00, 0x48, 0x2d, 0, 0, 0, 0, 0x90] 5 val buf
      else if r_type rel = R_X86_64_PLTOFF64 then
        put_insn loc 3 [0x31, 0xc0, 0x64, 0x48, 0x8b, 0x00, 0x48, 0x2d, 0, 0, 0, 0,
          0x0f, 0x1f, 0x44, 0x00, 0x00, 0x0f, 0x1f, 0x44, 0x00, 0x00] 5 val buf
      else Inl Unreachable)"

subsection \<open>apply\_reloc\_alloc\<close>

text \<open>The section's bytes, the dynamic relocations written so far, and the number of errors reported.\<close>

record XSt =
  x_buf :: bytes
  x_dynrels :: "ElfRel list"
  x_errors :: nat

definition check_range :: "u64 \<Rightarrow> int \<Rightarrow> int \<Rightarrow> XSt \<Rightarrow> XSt" where
  "check_range val lo hi st = (if sint val < lo \<or> hi \<le> sint val then st \<lparr> x_errors := Suc (x_errors st) \<rparr> else st)"

definition store :: "nat \<Rightarrow> bytes \<Rightarrow> XSt \<Rightarrow> XSt result" where
  "store loc bs st = bind_result (put loc bs (x_buf st)) (\<lambda>buf. Inr (st \<lparr> x_buf := buf \<rparr>))"

definition write32 :: "nat \<Rightarrow> u64 \<Rightarrow> XSt \<Rightarrow> XSt result" where
  "write32 loc val st = store loc (le_bytes 4 val) (check_range val 0 (2 ^ 32) st)"

definition write32s :: "nat \<Rightarrow> u64 \<Rightarrow> XSt \<Rightarrow> XSt result" where
  "write32s loc val st = store loc (le_bytes 4 val) (check_range val (- (2 ^ 31)) (2 ^ 31) st)"

definition write64 :: "nat \<Rightarrow> u64 \<Rightarrow> XSt \<Rightarrow> XSt result" where
  "write64 loc val st = store loc (le_bytes 8 val) st"

text \<open>\<open>(i32)val == val\<close>.\<close>

definition fits_i32 :: "u64 \<Rightarrow> bool" where
  "fits_i32 val \<longleftrightarrow> (scast (ucast val :: u32) :: u64) = val"

definition insn_bytes3 :: "u32 \<Rightarrow> bytes" where
  "insn_bytes3 insn = [ucast (drop_bit 16 insn), ucast (drop_bit 8 insn), ucast insn]"

definition insn_bytes2 :: "u32 \<Rightarrow> bytes" where
  "insn_bytes2 insn = [ucast (drop_bit 8 insn), ucast insn]"

text \<open>\<open>GOTPCRELX\<close> and \<open>REX_GOTPCRELX\<close>: \<open>k\<close> is the number of bytes of the instruction before the operand.\<close>

definition apply_gotpcrelx :: "nat \<Rightarrow> (bytes \<Rightarrow> u32) \<Rightarrow> (u32 \<Rightarrow> bytes) \<Rightarrow> RelSym \<Rightarrow> nat \<Rightarrow> u64 \<Rightarrow> u64 \<Rightarrow> XSt \<Rightarrow> XSt result" where
  "apply_gotpcrelx k relax to_bytes y loc val gotval st =
     (if k \<le> loc \<and> \<not> q_imported y \<and> \<not> is_ifunc y \<and> \<not> q_absolute y then
        bind_result (peek (loc - k) k (x_buf st)) (\<lambda>old.
          let insn = relax old
          in if insn \<noteq> 0 \<and> fits_i32 val
             then bind_result (store (loc - k) (to_bytes insn) st) (store loc (le_bytes 4 val))
             else write32s loc gotval st)
      else write32s loc gotval st)"

text \<open>\<open>GOTTPOFF\<close> and \<open>GOTPC32_TLSDESC\<close> without a slot.\<close>

definition apply_tls_insn :: "(bytes \<Rightarrow> u32) \<Rightarrow> ElfRel \<Rightarrow> nat \<Rightarrow> u64 \<Rightarrow> XSt \<Rightarrow> XSt result" where
  "apply_tls_insn relax rel loc val st =
     bind_result (check_relax_prefix rel 3) (\<lambda>_.
     bind_result (peek (loc - 3) 3 (x_buf st)) (\<lambda>old.
       let insn = relax old
       in if insn = 0 then Inl (Fatal ''relocation is used against an invalid code sequence'')
          else bind_result (store (loc - 3) (insn_bytes3 insn) st) (\<lambda>st.
               bind_result (write32s loc val st) (\<lambda>st.
                 if r_addend rel = - 4 then Inr st else Inl Unreachable))))"

definition put_word :: "nat \<Rightarrow> u64 option \<times> ElfRel list \<Rightarrow> XSt \<Rightarrow> XSt result" where
  "put_word loc r st =
     (let st' = st \<lparr> x_dynrels := x_dynrels st @ snd r \<rparr>
      in case fst r of None \<Rightarrow> Inr st' | Some w \<Rightarrow> write64 loc w st')"

definition relax_tls :: "(nat \<Rightarrow> ElfRel \<Rightarrow> u64 \<Rightarrow> bytes \<Rightarrow> bytes result) \<Rightarrow> ElfRel \<Rightarrow> ElfRel list \<Rightarrow> nat \<Rightarrow> u64 \<Rightarrow> XSt \<Rightarrow> XSt result" where
  "relax_tls relax rel rest loc val st =
     (case rest of
        [] \<Rightarrow> Inl OutOfBounds
      | next # _ \<Rightarrow>
          bind_result (get_tls_relax_prefix next) (\<lambda>prefix.
          bind_result (check_relax_prefix rel prefix) (\<lambda>_.
          bind_result (relax loc next val (x_buf st)) (\<lambda>buf. Inr (st \<lparr> x_buf := buf \<rparr>)))))"


text \<open>
  One iteration of the loop, with the relocations that follow; the second result tells whether the next one was
  consumed too.
\<close>

definition x86_apply_alloc1 :: "X86Ctx \<Rightarrow> RelSec \<Rightarrow> RelSym \<Rightarrow> ElfRel \<Rightarrow> ElfRel list \<Rightarrow> XSt \<Rightarrow> (XSt \<times> bool) result" where
  "x86_apply_alloc1 ctx isec y rel rest st =
     (let loc = unat (r_offset rel); S = q_addr y; A = r_addend rel; P = sec_addr isec + r_offset rel;
          GOTPLT = x_gotplt_addr ctx; G = q_got_addr y - GOTPLT; ty = r_type rel;
          only = (\<lambda>r. bind_result r (\<lambda>st. Inr (st, False)));
          both = (\<lambda>r. bind_result r (\<lambda>st. Inr (st, True)))
      in if ty = R_X86_64_8 then only (store loc (le_bytes 1 (S + A)) (check_range (S + A) 0 (2 ^ 8) st))
         else if ty = R_X86_64_16 then only (store loc (le_bytes 2 (S + A)) (check_range (S + A) 0 (2 ^ 16) st))
         else if ty = R_X86_64_32 then only (write32 loc (S + A) st)
         else if ty = R_X86_64_32S then only (write32s loc (S + A) st)
         else if ty = R_X86_64_64 then
           only (bind_result (apply_dyn_absrel X86_64 (x_arg ctx) isec y rel S A P) (\<lambda>r. put_word loc r st))
         else if ty = R_X86_64_PC8 then
           only (store loc (le_bytes 1 (S + A - P)) (check_range (S + A - P) (- (2 ^ 7)) (2 ^ 7) st))
         else if ty = R_X86_64_PC16 then
           only (store loc (le_bytes 2 (S + A - P)) (check_range (S + A - P) (- (2 ^ 15)) (2 ^ 15) st))
         else if ty = R_X86_64_PC32 \<or> ty = R_X86_64_PLT32 then only (write32s loc (S + A - P) st)
         else if ty = R_X86_64_PC64 then only (write64 loc (S + A - P) st)
         else if ty = R_X86_64_GOT32 then only (write32s loc (G + A) st)
         else if ty = R_X86_64_GOT64 then only (write64 loc (G + A) st)
         else if ty = R_X86_64_GOTOFF64 \<or> ty = R_X86_64_PLTOFF64 then only (write64 loc (S + A - GOTPLT) st)
         else if ty = R_X86_64_GOTPC32 then only (write32s loc (GOTPLT + A - P) st)
         else if ty = R_X86_64_GOTPC64 then only (write64 loc (GOTPLT + A - P) st)
         else if ty = R_X86_64_GOTPCREL then only (write32s loc (G + GOTPLT + A - P) st)
         else if ty = R_X86_64_GOTPCREL64 then only (write64 loc (G + GOTPLT + A - P) st)
         else if ty = R_X86_64_GOTPCRELX then
           only (apply_gotpcrelx 2 relax_gotpcrelx insn_bytes2 y loc (S + A - P) (G + GOTPLT + A - P) st)
         else if ty = R_X86_64_REX_GOTPCRELX then
           only (apply_gotpcrelx 3 relax_rex_gotpcrelx insn_bytes3 y loc (S + A - P) (G + GOTPLT + A - P) st)
         else if ty = R_X86_64_TLSGD then
           (case q_tlsgd_addr y of
              Some a \<Rightarrow> only (write32s loc (a + A - P) st)
            | None \<Rightarrow>
                (case q_gottp_addr y of
                   Some a \<Rightarrow> both (relax_tls relax_gd_to_ie rel rest loc (a - P) st)
                 | None \<Rightarrow> both (relax_tls relax_gd_to_le rel rest loc (S - x_tp_addr ctx) st)))
         else if ty = R_X86_64_TLSLD then
           (case x_tlsld_addr ctx of
              Some a \<Rightarrow> only (write32s loc (a + A - P) st)
            | None \<Rightarrow> both (relax_tls relax_ld_to_le rel rest loc (x_tp_addr ctx - x_tls_begin ctx) st))
         else if ty = R_X86_64_DTPOFF32 then only (write32s loc (S + A - x_dtp_addr ctx) st)
         else if ty = R_X86_64_DTPOFF64 then only (write64 loc (S + A - x_dtp_addr ctx) st)
         else if ty = R_X86_64_TPOFF32 then only (write32s loc (S + A - x_tp_addr ctx) st)
         else if ty = R_X86_64_TPOFF64 then only (write64 loc (S + A - x_tp_addr ctx) st)
         else if ty = R_X86_64_GOTTPOFF then
           (case q_gottp_addr y of
              Some a \<Rightarrow> only (write32s loc (a + A - P) st)
            | None \<Rightarrow> only (apply_tls_insn relax_gottpoff rel loc (S - x_tp_addr ctx) st))
         else if ty = R_X86_64_GOTPC32_TLSDESC then
           (case q_tlsdesc_addr y of
              Some a \<Rightarrow> only (write32s loc (a + A - P) st)
            | None \<Rightarrow> only (apply_tls_insn relax_gotpc32_tlsdesc rel loc (S - x_tp_addr ctx) st))
         else if ty = R_X86_64_SIZE32 then only (write32 loc (q_size y + A) st)
         else if ty = R_X86_64_SIZE64 then only (write64 loc (q_size y + A) st)
         else if ty = R_X86_64_TLSDESC_CALL then
           only (if q_tlsdesc_addr y = None then store loc [0x66, 0x90] st else Inr st)
         else Inl Unreachable)"

fun x86_apply_reloc_alloc :: "X86Ctx \<Rightarrow> RelSec \<Rightarrow> (u32 \<Rightarrow> RelSym) \<Rightarrow> ElfRel list \<Rightarrow> XSt \<Rightarrow> XSt result" where
  "x86_apply_reloc_alloc ctx isec symbols [] st = Inr st"
| "x86_apply_reloc_alloc ctx isec symbols (rel # rest) st =
     (if r_type rel = R_X86_64_NONE then x86_apply_reloc_alloc ctx isec symbols rest st
      else bind_result (x86_apply_alloc1 ctx isec (symbols (r_sym rel)) rel rest st) (\<lambda>(st', skip).
        x86_apply_reloc_alloc ctx isec symbols (if skip then tl rest else rest) st'))"

subsection \<open>apply\_reloc\_nonalloc\<close>

text \<open>
  \<open>frag\<close> is what \<^verbatim>\<open>get_fragment\<close> returns, the address of the fragment and the addend into it; \<open>tombstone\<close> the value of
  \<open>get_tombstone\<close>.
\<close>

definition x86_apply_nonalloc1 :: "X86Ctx \<Rightarrow> RelSym \<Rightarrow> (u64 \<times> u64) option \<Rightarrow> u64 option \<Rightarrow> ElfRel \<Rightarrow> XSt \<Rightarrow> XSt result" where
  "x86_apply_nonalloc1 ctx y frag tombstone rel st =
     (let loc = unat (r_offset rel); ty = r_type rel;
          S = (case frag of Some (addr, _) \<Rightarrow> addr | None \<Rightarrow> q_addr y);
          A = (case frag of Some (_, addend) \<Rightarrow> addend | None \<Rightarrow> r_addend rel)
      in if ty = R_X86_64_8 then store loc (le_bytes 1 (S + A)) (check_range (S + A) 0 (2 ^ 8) st)
         else if ty = R_X86_64_16 then store loc (le_bytes 2 (S + A)) (check_range (S + A) 0 (2 ^ 16) st)
         else if ty = R_X86_64_32 then write32 loc (S + A) st
         else if ty = R_X86_64_32S then write32s loc (S + A) st
         else if ty = R_X86_64_64 then write64 loc (case tombstone of Some val \<Rightarrow> val | None \<Rightarrow> S + A) st
         else if ty = R_X86_64_DTPOFF32 then
           (case tombstone of Some val \<Rightarrow> store loc (le_bytes 4 val) st | None \<Rightarrow> write32s loc (S + A - x_dtp_addr ctx) st)
         else if ty = R_X86_64_DTPOFF64 then
           write64 loc (case tombstone of Some val \<Rightarrow> val | None \<Rightarrow> S + A - x_dtp_addr ctx) st
         else if ty = R_X86_64_GOTOFF64 then write64 loc (S + A - x_gotplt_addr ctx) st
         else if ty = R_X86_64_GOTPC64 then write64 loc (x_gotplt_addr ctx + A) st
         else if ty = R_X86_64_SIZE32 then write32 loc (q_size y + A) st
         else if ty = R_X86_64_SIZE64 then write64 loc (q_size y + A) st
         else Inl (Fatal ''invalid relocation for non-allocated sections''))"

text \<open>\<open>undef\<close> is the answer of \<^verbatim>\<open>record_undef_error\<close>.\<close>

fun x86_apply_reloc_nonalloc :: "X86Ctx \<Rightarrow> (u32 \<Rightarrow> RelSym) \<Rightarrow> (ElfRel \<Rightarrow> bool) \<Rightarrow> (ElfRel \<Rightarrow> (u64 \<times> u64) option) \<Rightarrow>
    (ElfRel \<Rightarrow> u64 option) \<Rightarrow> ElfRel list \<Rightarrow> XSt \<Rightarrow> XSt result" where
  "x86_apply_reloc_nonalloc ctx symbols undef frag tombstone [] st = Inr st"
| "x86_apply_reloc_nonalloc ctx symbols undef frag tombstone (rel # rest) st =
     (if r_type rel = R_X86_64_NONE \<or> undef rel then x86_apply_reloc_nonalloc ctx symbols undef frag tombstone rest st
      else bind_result (x86_apply_nonalloc1 ctx (symbols (r_sym rel)) (frag rel) (tombstone rel) rel st)
        (x86_apply_reloc_nonalloc ctx symbols undef frag tombstone rest))"

subsection \<open>scan\_relocations\<close>

definition tls_call_types :: "u32 list" where
  "tls_call_types = [R_X86_64_PLT32, R_X86_64_PC32, R_X86_64_PLTOFF64, R_X86_64_GOTPCREL, R_X86_64_GOTPCRELX]"

definition check_tls_call :: "ElfRel \<Rightarrow> ElfRel list \<Rightarrow> ElfRel result" where
  "check_tls_call rel rest =
     (if r_addend rel \<noteq> - 4 then Inl (Fatal ''bad r_addend'')
      else case rest of
        [] \<Rightarrow> Inl (Fatal ''reloc must be followed by PLT or GOTPCREL'')
      | next # _ \<Rightarrow>
          if r_type next \<in> set tls_call_types then Inr next else Inl (Fatal ''reloc must be followed by PLT or GOTPCREL''))"

definition check_tls_prefix :: "ElfRel \<Rightarrow> ElfRel \<Rightarrow> unit result" where
  "check_tls_prefix rel next = bind_result (get_tls_relax_prefix next) (check_relax_prefix rel)"

definition x86_scan1 :: "RelArgs \<Rightarrow> RelSec \<Rightarrow> bytes \<Rightarrow> nat \<Rightarrow> RelSym \<Rightarrow> ElfRel \<Rightarrow> ElfRel list \<Rightarrow> ScanSt \<Rightarrow> (ScanSt \<times> bool) result" where
  "x86_scan1 arg isec contents s y rel rest st0 =
     (let loc = unat (r_offset rel); ty = r_type rel;
          st = (if is_ifunc y then add_flag s (NEEDS_GOT OR NEEDS_PLT) st0 else st0)
      in if ty \<in> {R_X86_64_8, R_X86_64_16, R_X86_64_32, R_X86_64_32S} then Inr (scan_absrel X86_64 arg isec s y rel st, False)
         else if ty = R_X86_64_64 then Inr (scan_dyn_absrel X86_64 arg isec s y rel st, False)
         else if ty \<in> {R_X86_64_PC8, R_X86_64_PC16, R_X86_64_PC32, R_X86_64_PC64} then
           Inr (scan_pcrel X86_64 arg isec s y rel st, False)
         else if ty \<in> {R_X86_64_GOT32, R_X86_64_GOT64, R_X86_64_GOTPC32, R_X86_64_GOTPC64, R_X86_64_GOTPCREL,
             R_X86_64_GOTPCREL64, R_X86_64_GOTPCRELX, R_X86_64_REX_GOTPCRELX} then Inr (add_flag s NEEDS_GOT st, False)
         else if ty \<in> {R_X86_64_PLT32, R_X86_64_PLTOFF64} then
           Inr (if q_imported y then add_flag s NEEDS_PLT st else st, False)
         else if ty = R_X86_64_TLSGD then
           bind_result (check_tls_call rel rest) (\<lambda>next.
             if a_is_static arg \<or> a_relax arg \<and> \<not> q_imported y \<and> \<not> a_shared arg then
               bind_result (check_tls_prefix rel next) (\<lambda>_. Inr (st, True))
             else if a_relax arg \<and> \<not> q_imported y \<and> a_shared arg \<and> \<not> a_z_dlopen arg then
               bind_result (check_tls_prefix rel next) (\<lambda>_. Inr (add_flag s NEEDS_GOTTP st, True))
             else Inr (add_flag s NEEDS_TLSGD st, False))
         else if ty = R_X86_64_TLSLD then
           bind_result (check_tls_call rel rest) (\<lambda>next.
             if a_is_static arg \<or> a_relax arg \<and> \<not> a_shared arg then
               bind_result (check_tls_prefix rel next) (\<lambda>_. Inr (st, True))
             else Inr (st \<lparr> sc_needs_tlsld := True \<rparr>, False))
         else if ty = R_X86_64_GOTTPOFF then
           (if r_addend rel \<noteq> - 4 then Inl (Fatal ''bad r_addend'')
            else if 3 \<le> loc \<and> a_relax arg \<and> \<not> a_shared arg \<and> \<not> q_imported y then
              bind_result (peek (loc - 3) 3 contents) (\<lambda>old.
                Inr (if relax_gottpoff old \<noteq> 0 then st else add_flag s NEEDS_GOTTP st, False))
            else Inr (add_flag s NEEDS_GOTTP st, False))
         else if ty = R_X86_64_GOTPC32_TLSDESC then
           (if r_addend rel \<noteq> - 4 then Inl (Fatal ''bad r_addend'')
            else if loc < 3 then Inl (Fatal ''relocation is used against an invalid code sequence'')
            else bind_result (peek (loc - 3) 3 contents) (\<lambda>old.
              if relax_gotpc32_tlsdesc old = 0 then Inl (Fatal ''relocation is used against an invalid code sequence'')
              else Inr (if relax_tlsdesc arg y then st else add_flag s NEEDS_TLSDESC st, False)))
         else if ty \<in> {R_X86_64_TPOFF32, R_X86_64_TPOFF64} then Inr (check_tlsle arg st, False)
         else if ty \<in> {R_X86_64_GOTOFF64, R_X86_64_DTPOFF32, R_X86_64_DTPOFF64, R_X86_64_SIZE32, R_X86_64_SIZE64,
             R_X86_64_TLSDESC_CALL} then Inr (st, False)
         else Inr (scan_error st, False))"

fun x86_scan_relocations :: "RelArgs \<Rightarrow> RelSec \<Rightarrow> bytes \<Rightarrow> (u32 \<Rightarrow> RelSym) \<Rightarrow> (ElfRel \<Rightarrow> bool) \<Rightarrow> ElfRel list \<Rightarrow> ScanSt \<Rightarrow>
    ScanSt result" where
  "x86_scan_relocations arg isec contents symbols undef [] st = Inr st"
| "x86_scan_relocations arg isec contents symbols undef (rel # rest) st =
     (if r_type rel = R_X86_64_NONE \<or> undef rel then x86_scan_relocations arg isec contents symbols undef rest st
      else bind_result (x86_scan1 arg isec contents (unat (r_sym rel)) (symbols (r_sym rel)) rel rest st) (\<lambda>(st', skip).
        x86_scan_relocations arg isec contents symbols undef (if skip then tl rest else rest) st'))"

subsection \<open>What a step keeps\<close>

lemma check_range_sel [simp]: "x_dynrels (check_range v lo hi st) = x_dynrels st" "x_buf (check_range v lo hi st) = x_buf st"
  by (simp_all add: check_range_def)

lemma store_dynrels: "store loc bs st = Inr st' \<Longrightarrow> x_dynrels st' = x_dynrels st \<and> length (x_buf st') = length (x_buf st)"
  by (auto simp: store_def bind_result_eq_Inr dest: put_length)

lemma write_dynrels:
  "write32 loc v st = Inr st' \<Longrightarrow> x_dynrels st' = x_dynrels st \<and> length (x_buf st') = length (x_buf st)"
  "write32s loc v st = Inr st' \<Longrightarrow> x_dynrels st' = x_dynrels st \<and> length (x_buf st') = length (x_buf st)"
  "write64 loc v st = Inr st' \<Longrightarrow> x_dynrels st' = x_dynrels st \<and> length (x_buf st') = length (x_buf st)"
  by (auto simp: write32_def write32s_def write64_def dest!: store_dynrels)

lemma put_insn_length: "put_insn loc k insn j val buf = Inr buf' \<Longrightarrow> length buf' = length buf"
  by (auto simp: put_insn_def bind_result_eq_Inr dest!: put_length split: if_splits)

lemma relax_length:
  "relax_gd_to_le loc rel val buf = Inr buf' \<Longrightarrow> length buf' = length buf"
  "relax_gd_to_ie loc rel val buf = Inr buf' \<Longrightarrow> length buf' = length buf"
  "relax_ld_to_le loc rel val buf = Inr buf' \<Longrightarrow> length buf' = length buf"
  unfolding relax_gd_to_le_def relax_gd_to_ie_def relax_ld_to_le_def
  by (auto split: if_splits dest!: put_insn_length)

lemma gotpcrelx_dynrels:
  "apply_gotpcrelx k relax tb y loc v g st = Inr st' \<Longrightarrow> x_dynrels st' = x_dynrels st \<and> length (x_buf st') = length (x_buf st)"
  by (auto simp: apply_gotpcrelx_def bind_result_eq_Inr Let_def split: if_splits dest!: store_dynrels write_dynrels)

lemma tls_insn_dynrels:
  "apply_tls_insn relax rel loc v st = Inr st' \<Longrightarrow> x_dynrels st' = x_dynrels st \<and> length (x_buf st') = length (x_buf st)"
  by (auto simp: apply_tls_insn_def bind_result_eq_Inr Let_def split: if_splits dest!: store_dynrels write_dynrels)

lemma relax_tls_dynrels:
  assumes "relax_tls relax rel rest loc v st = Inr st'"
    and "\<And>loc r v b b'. relax loc r v b = Inr b' \<Longrightarrow> length b' = length b"
  shows "x_dynrels st' = x_dynrels st \<and> length (x_buf st') = length (x_buf st) \<and>
    (\<exists>nx rest'. rest = nx # rest' \<and> r_type nx \<in> set tls_call_types)"
proof -
  obtain nx rest' prefix where r: "rest = nx # rest'" "get_tls_relax_prefix nx = Inr prefix"
    using assms(1) by (auto simp: relax_tls_def bind_result_eq_Inr split: list.splits)
  then have "r_type nx \<in> set tls_call_types"
    by (auto simp: get_tls_relax_prefix_def tls_call_types_def split: if_splits)
  with assms r(1) show ?thesis by (auto simp: relax_tls_def bind_result_eq_Inr)
qed

lemma relax_tls_steps:
  assumes "relax \<in> {relax_gd_to_le, relax_gd_to_ie, relax_ld_to_le}" and "relax_tls relax rel rest loc v st = Inr st'"
  shows "x_dynrels st' = x_dynrels st \<and> length (x_buf st') = length (x_buf st) \<and>
    (\<exists>nx rest'. rest = nx # rest' \<and> r_type nx \<in> set tls_call_types)"
  by (rule relax_tls_dynrels [OF assms(2)]) (use assms(1) relax_length in auto)

lemma put_word_dynrels:
  "put_word loc r st = Inr st' \<Longrightarrow> x_dynrels st' = x_dynrels st @ snd r \<and> length (x_buf st') = length (x_buf st)"
  by (auto simp: put_word_def Let_def split: option.splits dest!: write_dynrels)

lemmas step_dynrels = store_dynrels write_dynrels gotpcrelx_dynrels tls_insn_dynrels put_word_dynrels

text \<open>The dynamic relocations of one relocation.\<close>

definition dyn_count :: "RelArgs \<Rightarrow> RelSec \<Rightarrow> RelSym \<Rightarrow> ElfRel \<Rightarrow> nat" where
  "dyn_count arg isec y rel =
     (if r_type rel = R_X86_64_64
      then (case apply_dyn_absrel X86_64 arg isec y rel 0 0 0 of Inr r \<Rightarrow> length (snd r) | Inl _ \<Rightarrow> 0) else 0)"

lemma dyn_count_apply:
  assumes "apply_dyn_absrel X86_64 arg isec y rel S A P = Inr r"
  shows "length (snd r) = (case apply_dyn_absrel X86_64 arg isec y rel 0 0 0 of Inr r \<Rightarrow> length (snd r) | Inl _ \<Rightarrow> 0)"
  using assms
  by (auto simp: apply_dyn_absrel_def apply_absrel_def apply_dynrel_def Let_def split: Action.splits if_splits option.splits)

lemma dyn_count_scan:
  "sc_num_dynrel (scan_dyn_absrel X86_64 arg isec s y rel st) = sc_num_dynrel st +
     (case apply_dyn_absrel X86_64 arg isec y rel 0 0 0 of Inr r \<Rightarrow> length (snd r) | Inl _ \<Rightarrow> 0)"
proof -
  obtain w ds where r: "apply_dyn_absrel X86_64 arg isec y rel 0 0 0 = Inr (w, ds)"
    using apply_dyn_absrel_returns [of y X86_64 arg isec rel 0 0 0] by (auto simp: desc_X86_64_def)
  from scan_apply_action [OF this [unfolded apply_dyn_absrel_def]] show ?thesis
    by (simp add: r scan_dyn_absrel_def)
qed

lemma x86_apply1_dynrels:
  assumes "x86_apply_alloc1 ctx isec y rel rest st = Inr (st', skip)"
  shows "length (x_dynrels st') = length (x_dynrels st) + dyn_count (x_arg ctx) isec y rel \<and>
    length (x_buf st') = length (x_buf st) \<and>
    (skip \<longrightarrow> (\<exists>nx rest'. rest = nx # rest' \<and> r_type nx \<in> set tls_call_types))"
proof (cases "r_type rel = R_X86_64_64")
  case True
  obtain r where r: "apply_dyn_absrel X86_64 (x_arg ctx) isec y rel (q_addr y) (r_addend rel) (sec_addr isec + r_offset rel) = Inr r"
      "put_word (unat (r_offset rel)) r st = Inr st'" "\<not> skip"
    using assms by (auto simp: x86_apply_alloc1_def True R_X86_64_defs Let_def bind_result_eq_Inr)
  then show ?thesis
    using put_word_dynrels [OF r(2)] dyn_count_apply [OF r(1)] by (simp add: dyn_count_def True)
next
  case False
  then have "dyn_count (x_arg ctx) isec y rel = 0" by (simp add: dyn_count_def)
  with assms False show ?thesis
    unfolding x86_apply_alloc1_def Let_def
    by (auto simp: bind_result_eq_Inr split: if_splits option.splits dest!: step_dynrels relax_tls_steps [rotated])
qed

end
