(* ===== verification/Elf_X86_64_Meaning.thy ===== *)
theory Elf_X86_64_Meaning
  imports Elf_X86_64
begin

text \<open>
  What the x86-64 back end writes means: a field written without an error is the value of the psABI formula, and a
  rewritten instruction computes what the original computed. The formulas (\<open>psabi_field\<close>) and the few instructions
  (\<open>exec_reg\<close>, \<open>exec_branch\<close>) are stated on their own, not from the code.
\<close>

subsection \<open>Fields\<close>

text \<open>
  The relocations of the psABI that are a value in a field: the width of the field in bytes, whether it is signed, and the
  value, in 64-bit arithmetic (\<open>S + A\<close>, \<open>S + A - P\<close>, \<open>GOT + A - P\<close>, ...).
\<close>

definition psabi_field :: "X86Ctx \<Rightarrow> RelSec \<Rightarrow> RelSym \<Rightarrow> ElfRel \<Rightarrow> (nat \<times> bool \<times> u64) option" where
  "psabi_field ctx isec y rel =
     (let S = q_addr y; A = r_addend rel; P = sec_addr isec + r_offset rel; GOTPLT = x_gotplt_addr ctx; GOT = q_got_addr y
      in map_of
       [(R_X86_64_8, (1, False, S + A)), (R_X86_64_16, (2, False, S + A)), (R_X86_64_32, (4, False, S + A)),
        (R_X86_64_32S, (4, True, S + A)), (R_X86_64_PC8, (1, True, S + A - P)), (R_X86_64_PC16, (2, True, S + A - P)),
        (R_X86_64_PC32, (4, True, S + A - P)), (R_X86_64_PLT32, (4, True, S + A - P)), (R_X86_64_PC64, (8, True, S + A - P)),
        (R_X86_64_GOT32, (4, True, GOT - GOTPLT + A)), (R_X86_64_GOT64, (8, True, GOT - GOTPLT + A)),
        (R_X86_64_GOTOFF64, (8, True, S + A - GOTPLT)), (R_X86_64_PLTOFF64, (8, True, S + A - GOTPLT)),
        (R_X86_64_GOTPC32, (4, True, GOTPLT + A - P)), (R_X86_64_GOTPC64, (8, True, GOTPLT + A - P)),
        (R_X86_64_GOTPCREL, (4, True, GOT + A - P)), (R_X86_64_GOTPCREL64, (8, True, GOT + A - P)),
        (R_X86_64_DTPOFF32, (4, True, S + A - x_dtp_addr ctx)), (R_X86_64_DTPOFF64, (8, True, S + A - x_dtp_addr ctx)),
        (R_X86_64_TPOFF32, (4, True, S + A - x_tp_addr ctx)), (R_X86_64_TPOFF64, (8, True, S + A - x_tp_addr ctx)),
        (R_X86_64_SIZE32, (4, False, q_size y + A)), (R_X86_64_SIZE64, (8, False, q_size y + A))]
       (r_type rel))"

text \<open>The value the processor loads from a field.\<close>

definition load_field :: "nat \<Rightarrow> bool \<Rightarrow> nat \<Rightarrow> bytes \<Rightarrow> u64 result" where
  "load_field w sg loc buf =
     bind_result (peek loc w buf) (\<lambda>bs. Inr (if sg then signed_take_bit (8 * w - 1) (le_word bs) else le_word bs))"

definition frame :: "nat \<Rightarrow> nat \<Rightarrow> bytes \<Rightarrow> bytes \<Rightarrow> bool" where
  "frame lo hi buf buf' \<longleftrightarrow> length buf' = length buf \<and> (\<forall>i<length buf. i < lo \<or> hi \<le> i \<longrightarrow> buf' ! i = buf ! i)"

lemma bit_sint: "k < 64 \<Longrightarrow> bit (sint (v :: u64)) k \<longleftrightarrow> bit v k"
  by (simp add: bit_sint_iff)

lemma take_bit_id:
  fixes v :: u64
  assumes "0 \<le> sint v" and "sint v < 2 ^ n"
  shows "take_bit n v = v"
proof (rule bit_word_eqI)
  fix k assume k: "k < LENGTH(64)"
  have "take_bit n (sint v) = sint v" using assms by (simp add: take_bit_int_eq_self_iff)
  then have "bit (sint v) k \<longleftrightarrow> k < n \<and> bit (sint v) k" by (metis bit_take_bit_iff)
  then show "bit (take_bit n v) k \<longleftrightarrow> bit v k" using k by (simp add: bit_sint bit_take_bit_iff)
qed

lemma signed_take_bit_id:
  fixes v :: u64
  assumes "- (2 ^ n) \<le> sint v" and "sint v < 2 ^ n"
  shows "signed_take_bit n v = v"
proof (rule bit_word_eqI)
  fix k assume k: "k < LENGTH(64)"
  have "signed_take_bit n (sint v) = sint v" using assms by (simp add: signed_take_bit_int_eq_self_iff)
  then have "bit (sint v) k \<longleftrightarrow> bit (sint v) (min k n)"
    using bit_signed_take_bit_iff [of n "sint v" k] by (simp add: possible_bit_def min.commute)
  then show "bit (signed_take_bit n v) k \<longleftrightarrow> bit v k" using k by (simp add: bit_sint bit_signed_take_bit_iff min.commute)
qed

lemma store_field:
  assumes "store loc (le_bytes w v) st = Inr st'"
  shows "peek loc w (x_buf st') = Inr (le_bytes w v)" and "frame loc (loc + w) (x_buf st) (x_buf st')"
    and "x_errors st' = x_errors st"
  using assms peek_put [of loc "le_bytes w v"] put_length [of loc "le_bytes w v"] put_nth [of loc "le_bytes w v"]
  by (auto simp: store_def bind_result_eq_Inr frame_def)

lemma check_range_errors:
  "x_errors (check_range v lo hi st) = x_errors st \<longleftrightarrow> lo \<le> sint v \<and> sint v < hi"
  by (auto simp: check_range_def)

lemma store_in_range:
  assumes "store loc (le_bytes w v) (check_range v lo hi st) = Inr st'" and "x_errors st' = x_errors st"
    and "lo = (if sg then - (2 ^ (8 * w - 1)) else 0)" and "hi = (if sg then 2 ^ (8 * w - 1) else 2 ^ (8 * w))" and "0 < w"
  shows "load_field w sg loc (x_buf st') = Inr v" and "frame loc (loc + w) (x_buf st) (x_buf st')"
proof -
  note s = store_field [OF assms(1)]
  have r: "lo \<le> sint v" "sint v < hi" using check_range_errors [of v lo hi st] s(3) assms(2) by auto
  show "frame loc (loc + w) (x_buf st) (x_buf st')" using s(2) by simp
  have "signed_take_bit (8 * w - 1) (take_bit (8 * w) v) = signed_take_bit (8 * w - 1) v"
    using assms(5) by (intro bit_word_eqI) (auto simp: bit_signed_take_bit_iff bit_take_bit_iff min_def)
  with s(1) r show "load_field w sg loc (x_buf st') = Inr v"
    using take_bit_id [of v "8 * w"] signed_take_bit_id [of "8 * w - 1" v] assms(3,4)
    by (simp add: load_field_def le_word_le_bytes split: if_splits)
qed

lemma write64_field:
  assumes "write64 loc v st = Inr st'"
  shows "load_field 8 sg loc (x_buf st') = Inr v" and "frame loc (loc + 8) (x_buf st) (x_buf st')"
proof -
  have "signed_take_bit 63 v = v" using signed_take_bit_id [of 63 v] sint_ge [of v] sint_lt [of v] by simp
  with store_field [OF assms [unfolded write64_def]]
  show "load_field 8 sg loc (x_buf st') = Inr v" "frame loc (loc + 8) (x_buf st) (x_buf st')"
    by (simp_all add: load_field_def)
qed

text \<open>What a store of one of the four widths leaves: the field holds \<open>v\<close>, the rest of the section is as it was.\<close>

definition field_ok :: "nat \<times> bool \<times> u64 \<Rightarrow> nat \<Rightarrow> XSt \<Rightarrow> XSt \<Rightarrow> bool" where
  "field_ok f loc st st' = (case f of (w, sg, v) \<Rightarrow>
     load_field w sg loc (x_buf st') = Inr v \<and> frame loc (loc + w) (x_buf st) (x_buf st') \<and> x_dynrels st' = x_dynrels st)"

lemma field_ok_stores:
  "store loc (le_bytes 1 v) (check_range v 0 (2 ^ 8) st) = Inr st' \<Longrightarrow> x_errors st' = x_errors st \<Longrightarrow>
     field_ok (1, False, v) loc st st'"
  "store loc (le_bytes 2 v) (check_range v 0 (2 ^ 16) st) = Inr st' \<Longrightarrow> x_errors st' = x_errors st \<Longrightarrow>
     field_ok (2, False, v) loc st st'"
  "store loc (le_bytes 1 v) (check_range v (- (2 ^ 7)) (2 ^ 7) st) = Inr st' \<Longrightarrow> x_errors st' = x_errors st \<Longrightarrow>
     field_ok (1, True, v) loc st st'"
  "store loc (le_bytes 2 v) (check_range v (- (2 ^ 15)) (2 ^ 15) st) = Inr st' \<Longrightarrow> x_errors st' = x_errors st \<Longrightarrow>
     field_ok (2, True, v) loc st st'"
  "write32 loc v st = Inr st' \<Longrightarrow> x_errors st' = x_errors st \<Longrightarrow> field_ok (4, False, v) loc st st'"
  "write32s loc v st = Inr st' \<Longrightarrow> x_errors st' = x_errors st \<Longrightarrow> field_ok (4, True, v) loc st st'"
  "write64 loc v st = Inr st' \<Longrightarrow> x_errors st' = x_errors st \<Longrightarrow> field_ok (8, sg, v) loc st st'"
  using store_in_range [of loc 1 v 0 "2 ^ 8" st st' False] store_in_range [of loc 2 v 0 "2 ^ 16" st st' False]
    store_in_range [of loc 1 v "- (2 ^ 7)" "2 ^ 7" st st' True] store_in_range [of loc 2 v "- (2 ^ 15)" "2 ^ 15" st st' True]
    store_in_range [of loc 4 v 0 "2 ^ 32" st st' False] store_in_range [of loc 4 v "- (2 ^ 31)" "2 ^ 31" st st' True]
    write64_field [of loc v st st'] store_dynrels write_dynrels [of loc v st st']
  by (auto simp: field_ok_def write32_def write32s_def dest: store_dynrels)

subsection \<open>An example section\<close>

text \<open>
  A load and a call through the global offset table, an initial-exec load, and a pointer, in a position-independent
  executable: \<^verbatim>\<open>mov foo@GOTPCREL(%rip), %rax; call *bar@GOTPCREL(%rip); mov x@GOTTPOFF(%rip), %rcx; .quad foo\<close>.
\<close>

definition ex_rel :: "u64 \<Rightarrow> u32 \<Rightarrow> u32 \<Rightarrow> u64 \<Rightarrow> ElfRel" where
  "ex_rel off ty s a = \<lparr> r_offset = off, r_type = ty, r_sym = s, r_addend = a, r_type_data = 0 \<rparr>"

definition ex_rels :: "ElfRel list" where
  "ex_rels = [ex_rel 3 R_X86_64_REX_GOTPCRELX 1 (- 4), ex_rel 9 R_X86_64_GOTPCRELX 1 (- 4), ex_rel 16 R_X86_64_GOTTPOFF 2 (- 4),
     ex_rel 20 R_X86_64_64 1 0]"

definition ex_sym :: "u64 \<Rightarrow> u32 \<Rightarrow> RelSym" where
  "ex_sym a ty = \<lparr> q_absolute = False, q_imported = False, q_type = ty, q_visibility = 0, q_dynsym_idx = 0, q_addr = a,
     q_addr_no_plt = a, q_got_addr = 0x4000, q_gottp_addr = None, q_tlsgd_addr = None, q_tlsdesc_addr = None, q_size = 8 \<rparr>"

definition ex_syms :: "u32 \<Rightarrow> RelSym" where
  "ex_syms s = (if s = 2 then ex_sym 0x3000 6 else ex_sym 0x2000 2)"

definition ex_isec :: RelSec where
  "ex_isec = \<lparr> sec_flags = 7, sec_addralign = 16, sec_addr = 0x1000 \<rparr>"

definition ex_arg :: RelArgs where
  "ex_arg = \<lparr> a_shared = False, a_pie = True, a_is_static = False, a_relax = True, a_z_dlopen = True,
      a_z_text = False, a_z_copyreloc = True, a_apply_dynamic_relocs = True, a_pack_dyn_relocs_relr = False \<rparr>"

definition ex_ctx :: X86Ctx where
  "ex_ctx = \<lparr> x_arg = ex_arg, x_gotplt_addr = 0x4100, x_plt_addr = 0x1100, x_tp_addr = 0x3010, x_dtp_addr = 0x3000,
     x_tls_begin = 0x3000, x_tlsld_addr = None \<rparr>"

definition ex_bytes :: bytes where
  "ex_bytes = [0x48, 0x8b, 0x05, 0, 0, 0, 0, 0xff, 0x15, 0, 0, 0, 0, 0x48, 0x8b, 0x0d, 0, 0, 0, 0, 0, 0, 0, 0, 0, 0, 0, 0]"

definition ex_st :: XSt where
  "ex_st = \<lparr> x_buf = ex_bytes, x_dynrels = [], x_errors = 0 \<rparr>"

definition ex_applied :: "ElfRel \<Rightarrow> XSt" where
  "ex_applied rel = (case x86_apply_alloc1 ex_ctx ex_isec (ex_syms (r_sym rel)) rel [] ex_st of Inr (st, _) \<Rightarrow> st | Inl _ \<Rightarrow> ex_st)"

subsection \<open>Fields are exact\<close>

text \<open>
  C10: No relocation is truncated in silence. When \<^verbatim>\<open>apply_reloc_alloc\<close> processes a relocation that is a field of the
  psABI and reports no error, then the field, loaded with its width and sign, is the 64-bit value of the psABI formula,
  every byte outside the field is as it was, and no dynamic relocation was appended.
\<close>

theorem x86_field_exact:
  assumes "psabi_field ctx isec y rel = Some f" and "x86_apply_alloc1 ctx isec y rel rest st = Inr (st', skip)"
    and "x_errors st' = x_errors st"
  shows "field_ok f (unat (r_offset rel)) st st' \<and> \<not> skip"
  using assms unfolding psabi_field_def x86_apply_alloc1_def Let_def
  by (auto simp: bind_result_eq_Inr R_X86_64_defs split: if_splits intro: field_ok_stores field_ok_stores [simplified])

theorem x86_field_exact_witness:
  "let rel = ex_rel 3 R_X86_64_PC32 1 (- 4); st' = ex_applied rel
   in field_ok (4, True, 0x2000 - 4 - 0x1003) 3 ex_st st' \<and> x_buf st' ! 3 = 0xf9 \<and> x_buf st' ! 4 = 0x0f"
proof -
  let ?rel = "ex_rel 3 R_X86_64_PC32 1 (- 4)"
  have "psabi_field ex_ctx ex_isec (ex_syms 1) ?rel = Some (4, True, 0x2000 - 4 - 0x1003)" by code_simp
  moreover have "x86_apply_alloc1 ex_ctx ex_isec (ex_syms 1) ?rel [] ex_st = Inr (ex_applied ?rel, False)" by code_simp
  moreover have "x_errors (ex_applied ?rel) = x_errors ex_st" by code_simp
  ultimately have "field_ok (4, True, 0x2000 - 4 - 0x1003) (unat (r_offset ?rel)) ex_st (ex_applied ?rel) \<and> \<not> False"
    by (rule x86_field_exact)
  moreover have "x_buf (ex_applied ?rel) ! 3 = 0xf9 \<and> x_buf (ex_applied ?rel) ! 4 = 0x0f" by code_simp
  ultimately show ?thesis by (simp add: ex_rel_def)
qed

subsection \<open>Instructions\<close>

text \<open>
  The instructions the relaxations read and write, with a 32-bit operand: loads and address computations relative to the
  next instruction and moves of a constant into one of sixteen registers (three bytes, \<open>REX.W\<close> first), and near calls and
  jumps (two bytes, a \<open>nop\<close> before the direct ones).
\<close>

datatype reg_op = Load_rip | Lea_rip | Mov_imm

definition decode3 :: "bytes \<Rightarrow> (reg_op \<times> u8) option" where
  "decode3 bs =
     (case bs of
        [rex, op, m] \<Rightarrow>
          let reg = (if bit rex 2 then 8 else 0) + (drop_bit 3 m AND 7); rm = (if bit rex 0 then 8 else 0) + (m AND 7)
          in if rex AND 0xfa \<noteq> 0x48 then None
             else if op = 0x8b \<and> m AND 0xc7 = 0x05 then Some (Load_rip, reg)
             else if op = 0x8d \<and> m AND 0xc7 = 0x05 then Some (Lea_rip, reg)
             else if op = 0xc7 \<and> m AND 0xf8 = 0xc0 then Some (Mov_imm, rm)
             else None
      | _ \<Rightarrow> None)"

definition decode2 :: "bytes \<Rightarrow> (bool \<times> bool) option" where
  "decode2 bs = map_of [([0xff, 0x15], (True, True)), ([0xff, 0x25], (False, True)), ([0x90, 0xe8], (True, False)),
     ([0x90, 0xe9], (False, False))] bs"

definition operand :: "bytes \<Rightarrow> u64" where
  "operand bs = signed_take_bit 31 (le_word bs)"

text \<open>The register an instruction assigns and the value it gets, \<open>ip\<close> being the address of the next instruction.\<close>

definition exec_reg :: "(u64 \<Rightarrow> u64) \<Rightarrow> u64 \<Rightarrow> bytes \<Rightarrow> (u8 \<times> u64) option" where
  "exec_reg mem ip bs =
     (case decode3 (take 3 bs) of
        None \<Rightarrow> None
      | Some (op, r) \<Rightarrow> Some (r, case op of Load_rip \<Rightarrow> mem (ip + operand (drop 3 bs)) | Lea_rip \<Rightarrow> ip + operand (drop 3 bs)
                                        | Mov_imm \<Rightarrow> operand (drop 3 bs)))"

text \<open>Whether a return address is pushed, and where control goes.\<close>

definition exec_branch :: "(u64 \<Rightarrow> u64) \<Rightarrow> u64 \<Rightarrow> bytes \<Rightarrow> (bool \<times> u64) option" where
  "exec_branch mem ip bs =
     (case decode2 (take 2 bs) of
        None \<Rightarrow> None
      | Some (call, indirect) \<Rightarrow>
          Some (call, if indirect then mem (ip + operand (drop 2 bs)) else ip + operand (drop 2 bs)))"

lemma bit_u8_out: "8 \<le> n \<Longrightarrow> \<not> bit (x :: u8) n"
  using bit_imp_le_length [of x n] by auto

lemma insn_bytes3_insn3: "length bs = 3 \<Longrightarrow> insn_bytes3 (insn3 bs) = bs"
proof -
  assume "length bs = 3"
  then obtain x y z where "bs = [x, y, z]" by (auto simp: length_Suc_conv numeral_3_eq_3)
  then show ?thesis
    by (auto simp add: insn_bytes3_def insn3_def bit_simps bit_u8_out intro!: bit_word_eqI)
qed

lemma insn_bytes2_insn2: "length bs = 2 \<Longrightarrow> insn_bytes2 (insn2 bs) = bs"
proof -
  assume "length bs = 2"
  then obtain x y where "bs = [x, y]" by (auto simp: length_Suc_conv numeral_2_eq_2)
  then show ?thesis by (auto simp: insn_bytes2_def insn2_def bit_simps bit_u8_out intro!: bit_word_eqI)
qed

lemma lookup_insn_mem: "lookup_insn table k \<noteq> 0 \<Longrightarrow> (k, lookup_insn table k) \<in> set table"
  by (auto simp: lookup_insn_def dest: map_of_SomeD split: option.splits)

definition same_reg :: "reg_op \<Rightarrow> reg_op \<Rightarrow> u32 \<times> u32 \<Rightarrow> bool" where
  "same_reg a b p \<longleftrightarrow> (case (decode3 (insn_bytes3 (fst p)), decode3 (insn_bytes3 (snd p))) of
     (Some (x, r), Some (y, r')) \<Rightarrow> x = a \<and> y = b \<and> r = r' | _ \<Rightarrow> False)"

lemma tables_keep_register:
  "list_all (same_reg Load_rip Lea_rip) relax_rex_gotpcrelx_table"
  "list_all (same_reg Load_rip Mov_imm) relax_gottpoff_table"
  "list_all (same_reg Lea_rip Mov_imm) relax_gotpc32_tlsdesc_table"
  by code_simp+

lemma table_decode:
  assumes "list_all (same_reg a b) table" and "lookup_insn table (insn3 old) \<noteq> 0" and "decode3 old = Some (op, r)"
  shows "decode3 (insn_bytes3 (lookup_insn table (insn3 old))) = Some (b, r)"
proof -
  have "length old = 3" using assms(3) by (auto simp: decode3_def split: list.splits)
  moreover have "same_reg a b (insn3 old, lookup_insn table (insn3 old))"
    using assms(1) lookup_insn_mem [OF assms(2)] by (auto simp: list_all_iff)
  ultimately show ?thesis
    using assms(3) by (auto simp: same_reg_def insn_bytes3_insn3 split: option.splits)
qed

lemma branch_table_decode:
  assumes "relax_gotpcrelx old \<noteq> 0" and "decode2 old = Some (c, True)"
  shows "decode2 (insn_bytes2 (relax_gotpcrelx old)) = Some (c, False)"
proof -
  have "length old = 2" using assms(2) by (auto simp: decode2_def split: if_splits)
  moreover have "list_all (\<lambda>p. \<forall>c \<in> {True, False}. decode2 (insn_bytes2 (fst p)) = Some (c, True) \<longrightarrow>
      decode2 (insn_bytes2 (snd p)) = Some (c, False)) relax_gotpcrelx_table" by code_simp
  ultimately show ?thesis
    using assms lookup_insn_mem [of relax_gotpcrelx_table "insn2 old"]
    by (cases c) (force simp: relax_gotpcrelx_def list_all_iff insn_bytes2_insn2)+
qed

lemma peek_append:
  assumes "peek p a buf = Inr xs" and "peek (p + a) b buf = Inr ys"
  shows "peek p (a + b) buf = Inr (xs @ ys)" "length xs = a" "length ys = b"
  using assms by (auto simp: peek_def take_add ac_simps split: if_splits)

lemma fits_i32_id: "fits_i32 v \<Longrightarrow> signed_take_bit 31 v = v"
proof -
  have "(scast (ucast v :: u32) :: u64) = signed_take_bit 31 v"
    by (rule bit_word_eqI) (auto simp: bit_simps min_def)
  then show "fits_i32 v \<Longrightarrow> signed_take_bit 31 v = v" by (simp add: fits_i32_def)
qed

lemma frame_peek:
  assumes "frame lo hi buf buf'" and "p + n \<le> lo \<or> hi \<le> p"
  shows "peek p n buf' = peek p n buf"
  using assms by (auto simp: peek_def frame_def intro!: nth_equalityI)

lemma frame_trans: "frame lo hi b0 b1 \<Longrightarrow> frame lo' hi' b1 b2 \<Longrightarrow> lo'' \<le> lo \<Longrightarrow> hi \<le> hi'' \<Longrightarrow> lo'' \<le> lo' \<Longrightarrow> hi' \<le> hi'' \<Longrightarrow>
    frame lo'' hi'' b0 b2"
  by (auto simp: frame_def)

lemma store_bytes:
  assumes "store loc bs st = Inr st'"
  shows "peek loc (length bs) (x_buf st') = Inr bs" and "frame loc (loc + length bs) (x_buf st) (x_buf st')"
    and "x_errors st' = x_errors st"
  using assms peek_put [of loc bs] put_length [of loc bs] put_nth [of loc bs]
  by (auto simp: store_def bind_result_eq_Inr frame_def)

lemma operand_le_bytes: "operand (le_bytes 4 v) = signed_take_bit 31 v"
  unfolding operand_def le_word_le_bytes
  by (rule bit_word_eqI) (auto simp: bit_signed_take_bit_iff bit_take_bit_iff min_def)

lemma load_field_peek:
  "load_field 4 True loc buf = Inr v \<Longrightarrow> \<exists>bs. peek loc 4 buf = Inr bs \<and> operand bs = v"
  by (auto simp: load_field_def operand_def bind_result_eq_Inr)

lemma write32s_bytes:
  assumes "write32s loc v st = Inr st'" and "x_errors st' = x_errors st"
  shows "\<exists>bs. peek loc 4 (x_buf st') = Inr bs \<and> operand bs = v" and "frame loc (loc + 4) (x_buf st) (x_buf st')"
  using field_ok_stores(6) [OF assms] by (auto simp: field_ok_def intro: load_field_peek)

lemma write32s_errors: "write32s loc v st = Inr st' \<Longrightarrow> x_errors st \<le> x_errors st'"
  by (auto simp: write32s_def check_range_def split: if_splits dest!: store_bytes(3))

lemma insn_bytes_length: "length (insn_bytes3 i) = 3" "length (insn_bytes2 i) = 2"
  by (simp_all add: insn_bytes3_def insn_bytes2_def)

text \<open>An opcode and an operand next to each other.\<close>

lemma insn_at:
  assumes "peek (loc - k) k buf = Inr op" and "\<exists>bs. peek loc 4 buf = Inr bs \<and> operand bs = v" and "k \<le> loc"
  shows "\<exists>bs. peek (loc - k) (k + 4) buf = Inr bs \<and> take k bs = op \<and> operand (drop k bs) = v"
  using assms peek_append [OF assms(1), of 4] by auto

text \<open>The two outcomes of \<open>GOTPCRELX\<close>: the instruction is rewritten and its operand is \<open>v\<close>, or it is kept and its operand is \<open>g\<close>.\<close>

lemma apply_gotpcrelx_insn:
  assumes "apply_gotpcrelx k relax tb y loc v g st = Inr st'" and "x_errors st' = x_errors st" and "k \<le> loc"
    and "peek (loc - k) k (x_buf st) = Inr old" and "\<And>i. length (tb i) = k"
  obtains (rewritten) bs where "relax old \<noteq> 0" and "\<not> q_imported y" and "\<not> is_ifunc y" and "\<not> q_absolute y"
      and "peek (loc - k) (k + 4) (x_buf st') = Inr bs" and "take k bs = tb (relax old)" and "operand (drop k bs) = v"
  | (kept) bs where "peek (loc - k) (k + 4) (x_buf st') = Inr bs" and "take k bs = old" and "operand (drop k bs) = g"
proof (cases "\<not> q_imported y \<and> \<not> is_ifunc y \<and> \<not> q_absolute y \<and> relax old \<noteq> 0 \<and> fits_i32 v")
  case True
  then obtain st1 where s: "store (loc - k) (tb (relax old)) st = Inr st1" "store loc (le_bytes 4 v) st1 = Inr st'"
    using assms(1,3,4) by (auto simp: apply_gotpcrelx_def bind_result_eq_Inr Let_def)
  have "peek (loc - k) k (x_buf st') = Inr (tb (relax old))"
    using store_bytes(1) [OF s(1)] frame_peek [OF store_bytes(2) [OF s(2)], of "loc - k" k] assms(3,5) by simp
  moreover have "peek loc 4 (x_buf st') = Inr (le_bytes 4 v)" using store_bytes(1) [OF s(2)] by simp
  moreover have "operand (le_bytes 4 v) = v"
    using True fits_i32_id [of v] by (simp add: operand_le_bytes)
  ultimately show ?thesis
    using rewritten insn_at [of loc k "x_buf st'" "tb (relax old)" v] True assms(3) by blast
next
  case False
  then have w: "write32s loc g st = Inr st'"
    using assms(1,4) by (auto simp: apply_gotpcrelx_def bind_result_eq_Inr Let_def split: if_splits)
  have "peek (loc - k) k (x_buf st') = Inr old"
    using frame_peek [OF write32s_bytes(2) [OF w assms(2)], of "loc - k" k] assms(3,4) by simp
  from insn_at [OF this write32s_bytes(1) [OF w assms(2)] assms(3)] show ?thesis using kept by blast
qed

text \<open>
  C16: Rewriting an access to the global offset table keeps its meaning. Take a \<^verbatim>\<open>REX_GOTPCRELX\<close> relocation on an
  instruction that loads register \<open>r\<close> from the slot of a symbol, where the slot of a symbol that is neither imported nor
  an ifunc nor absolute holds its address. Whichever branch \<^verbatim>\<open>apply_reloc_alloc\<close> takes, when it reports no error, the
  seven bytes it leaves are an instruction that assigns to the same register what the slot holds.
\<close>

theorem rex_gotpcrelx_meaning:
  assumes "r_type rel = R_X86_64_REX_GOTPCRELX" and "r_addend rel = - 4" and "3 \<le> unat (r_offset rel)"
    and "peek (unat (r_offset rel) - 3) 3 (x_buf st) = Inr old" and "decode3 old = Some (Load_rip, r)"
    and "\<not> q_imported y \<and> \<not> is_ifunc y \<and> \<not> q_absolute y \<longrightarrow> mem (q_got_addr y) = q_addr y"
    and "x86_apply_alloc1 ctx isec y rel rest st = Inr (st', skip)" and "x_errors st' = x_errors st"
  shows "\<exists>bs. peek (unat (r_offset rel) - 3) 7 (x_buf st') = Inr bs \<and>
    exec_reg mem (sec_addr isec + r_offset rel + 4) bs = Some (r, mem (q_got_addr y))"
proof -
  let ?P = "sec_addr isec + r_offset rel"
  have "apply_gotpcrelx 3 relax_rex_gotpcrelx insn_bytes3 y (unat (r_offset rel)) (q_addr y - 4 - ?P) (q_got_addr y - 4 - ?P) st
      = Inr st'"
    using assms(1,2,7) by (auto simp: x86_apply_alloc1_def Let_def R_X86_64_defs bind_result_eq_Inr)
  from this assms(8,3,4) insn_bytes_length(1) show ?thesis
  proof (cases rule: apply_gotpcrelx_insn)
    case (rewritten bs)
    with table_decode [OF tables_keep_register(1), of old] assms(5,6) show ?thesis
      by (auto simp: relax_rex_gotpcrelx_def exec_reg_def)
  next
    case (kept bs)
    with assms(5) show ?thesis by (auto simp: exec_reg_def)
  qed
qed

theorem rex_gotpcrelx_meaning_witness:
  "\<exists>bs. peek 0 7 (x_buf (ex_applied (ex_rels ! 0))) = Inr bs \<and> exec_reg (\<lambda>_. 0x2000) 0x1007 bs = Some (0, 0x2000)"
proof -
  have "x86_apply_alloc1 ex_ctx ex_isec (ex_syms 1) (ex_rels ! 0) [] ex_st = Inr (ex_applied (ex_rels ! 0), False)" by code_simp
  moreover have "x_errors (ex_applied (ex_rels ! 0)) = x_errors ex_st" by code_simp
  moreover have "peek (unat (r_offset (ex_rels ! 0)) - 3) 3 (x_buf ex_st) = Inr [0x48, 0x8b, 0x05]" by code_simp
  moreover have "decode3 [0x48, 0x8b, 0x05] = Some (Load_rip, 0)" by code_simp
  ultimately show ?thesis
    using rex_gotpcrelx_meaning [of "ex_rels ! 0" ex_st "[0x48, 0x8b, 0x05]" 0 "ex_syms 1" "\<lambda>_. 0x2000"
        ex_ctx ex_isec "[]" "ex_applied (ex_rels ! 0)" False]
    by (simp add: ex_rels_def ex_rel_def ex_syms_def ex_sym_def ex_isec_def)
qed

text \<open>
  The same for calls and jumps. A \<^verbatim>\<open>GOTPCRELX\<close> relocation on an indirect call or jump through a slot leaves an
  instruction that transfers control to what the slot holds, and pushes a return address when the original did.
\<close>

theorem gotpcrelx_branch_meaning:
  assumes "r_type rel = R_X86_64_GOTPCRELX" and "r_addend rel = - 4" and "2 \<le> unat (r_offset rel)"
    and "peek (unat (r_offset rel) - 2) 2 (x_buf st) = Inr old" and "decode2 old = Some (call, True)"
    and "\<not> q_imported y \<and> \<not> is_ifunc y \<and> \<not> q_absolute y \<longrightarrow> mem (q_got_addr y) = q_addr y"
    and "x86_apply_alloc1 ctx isec y rel rest st = Inr (st', skip)" and "x_errors st' = x_errors st"
  shows "\<exists>bs. peek (unat (r_offset rel) - 2) 6 (x_buf st') = Inr bs \<and>
    exec_branch mem (sec_addr isec + r_offset rel + 4) bs = Some (call, mem (q_got_addr y))"
proof -
  let ?P = "sec_addr isec + r_offset rel"
  have "apply_gotpcrelx 2 relax_gotpcrelx insn_bytes2 y (unat (r_offset rel)) (q_addr y - 4 - ?P) (q_got_addr y - 4 - ?P) st
      = Inr st'"
    using assms(1,2,7) by (auto simp: x86_apply_alloc1_def Let_def R_X86_64_defs bind_result_eq_Inr)
  from this assms(8,3,4) insn_bytes_length(2) show ?thesis
  proof (cases rule: apply_gotpcrelx_insn)
    case (rewritten bs)
    with branch_table_decode [of old] assms(5,6) show ?thesis by (auto simp: exec_branch_def)
  next
    case (kept bs)
    with assms(5) show ?thesis by (auto simp: exec_branch_def)
  qed
qed

theorem gotpcrelx_branch_meaning_witness:
  "\<exists>bs. peek 7 6 (x_buf (ex_applied (ex_rels ! 1))) = Inr bs \<and> exec_branch (\<lambda>_. 0x2000) 0x100d bs = Some (True, 0x2000)"
proof -
  have "x86_apply_alloc1 ex_ctx ex_isec (ex_syms 1) (ex_rels ! 1) [] ex_st = Inr (ex_applied (ex_rels ! 1), False)" by code_simp
  moreover have "x_errors (ex_applied (ex_rels ! 1)) = x_errors ex_st" by code_simp
  moreover have "peek (unat (r_offset (ex_rels ! 1)) - 2) 2 (x_buf ex_st) = Inr [0xff, 0x15]" by code_simp
  moreover have "decode2 [0xff, 0x15] = Some (True, True)" by code_simp
  ultimately show ?thesis
    using gotpcrelx_branch_meaning [of "ex_rels ! 1" ex_st "[0xff, 0x15]" True "ex_syms 1" "\<lambda>_. 0x2000"
        ex_ctx ex_isec "[]" "ex_applied (ex_rels ! 1)" False]
    by (simp add: ex_rels_def ex_rel_def ex_syms_def ex_sym_def ex_isec_def)
qed

text \<open>
  Initial-exec accesses keep their meaning when they become local-exec. A \<^verbatim>\<open>GOTTPOFF\<close> relocation on a load of
  register \<open>r\<close> leaves an instruction that assigns to \<open>r\<close> the offset of the symbol from the thread pointer, from the slot
  when the symbol has one (and the slot holds that offset), as a constant when it has none.
\<close>

theorem gottpoff_meaning:
  assumes "r_type rel = R_X86_64_GOTTPOFF" and "r_addend rel = - 4" and "3 \<le> unat (r_offset rel)"
    and "peek (unat (r_offset rel) - 3) 3 (x_buf st) = Inr old" and "decode3 old = Some (Load_rip, r)"
    and "\<And>slot. q_gottp_addr y = Some slot \<Longrightarrow> mem slot = q_addr y - x_tp_addr ctx"
    and "x86_apply_alloc1 ctx isec y rel rest st = Inr (st', skip)" and "x_errors st' = x_errors st"
  shows "\<exists>bs. peek (unat (r_offset rel) - 3) 7 (x_buf st') = Inr bs \<and>
    exec_reg mem (sec_addr isec + r_offset rel + 4) bs = Some (r, q_addr y - x_tp_addr ctx)"
proof (cases "q_gottp_addr y")
  case (Some slot)
  let ?loc = "unat (r_offset rel)"
  have w: "write32s ?loc (slot - 4 - (sec_addr isec + r_offset rel)) st = Inr st'"
    using assms(1,2,7) Some by (auto simp: x86_apply_alloc1_def Let_def R_X86_64_defs bind_result_eq_Inr)
  have "peek (?loc - 3) 3 (x_buf st') = Inr old"
    using frame_peek [OF write32s_bytes(2) [OF w assms(8)], of "?loc - 3" 3] assms(3,4) by simp
  from insn_at [OF this write32s_bytes(1) [OF w assms(8)] assms(3)] show ?thesis
    using assms(5) assms(6) [OF Some] by (auto simp: exec_reg_def)
next
  case None
  let ?loc = "unat (r_offset rel)" and ?insn = "relax_gottpoff old"
  obtain st1 where s: "?insn \<noteq> 0" "store (?loc - 3) (insn_bytes3 ?insn) st = Inr st1"
      "write32s ?loc (q_addr y - x_tp_addr ctx) st1 = Inr st'"
    using assms(1,4,7) None
    by (auto simp: x86_apply_alloc1_def Let_def R_X86_64_defs bind_result_eq_Inr apply_tls_insn_def split: if_splits)
  have e: "x_errors st' = x_errors st1" using store_bytes(3) [OF s(2)] assms(8) by simp
  have "peek (?loc - 3) 3 (x_buf st1) = Inr (insn_bytes3 ?insn)"
    using store_bytes(1) [OF s(2)] by (simp add: insn_bytes_length)
  then have "peek (?loc - 3) 3 (x_buf st') = Inr (insn_bytes3 ?insn)"
    using frame_peek [OF write32s_bytes(2) [OF s(3) e], of "?loc - 3" 3] assms(3) by simp
  from insn_at [OF this write32s_bytes(1) [OF s(3) e] assms(3)] show ?thesis
    using table_decode [OF tables_keep_register(2), of old] assms(5) s(1) by (auto simp: relax_gottpoff_def exec_reg_def)
qed

theorem gottpoff_meaning_witness:
  "\<exists>bs. peek 13 7 (x_buf (ex_applied (ex_rels ! 2))) = Inr bs \<and> exec_reg (\<lambda>_. 0) 0x1014 bs = Some (1, - 0x10)"
proof -
  have "x86_apply_alloc1 ex_ctx ex_isec (ex_syms 2) (ex_rels ! 2) [] ex_st = Inr (ex_applied (ex_rels ! 2), False)" by code_simp
  moreover have "x_errors (ex_applied (ex_rels ! 2)) = x_errors ex_st" by code_simp
  moreover have "peek (unat (r_offset (ex_rels ! 2)) - 3) 3 (x_buf ex_st) = Inr [0x48, 0x8b, 0x0d]" by code_simp
  moreover have "decode3 [0x48, 0x8b, 0x0d] = Some (Load_rip, 1)" by code_simp
  ultimately show ?thesis
    using gottpoff_meaning [of "ex_rels ! 2" ex_st "[0x48, 0x8b, 0x0d]" 1 "ex_syms 2" "\<lambda>_. 0" ex_ctx ex_isec "[]"
        "ex_applied (ex_rels ! 2)" False]
    by (simp add: ex_rels_def ex_rel_def ex_syms_def ex_sym_def ex_isec_def ex_ctx_def)
qed

end
