(* ===== verification/Elf_X86_64_Accept.thy ===== *)
theory Elf_X86_64_Accept
  imports Elf_X86_64_Meaning
begin

text \<open>
  The two passes of the x86-64 back end over one section: what the scanner reserves is what the second pass writes, and
  what the scanner accepts the second pass can apply.
\<close>

text \<open>Induction along loops that may consume the next element too.\<close>

lemma skip_induct [case_names Nil Cons]:
  assumes "P []" and "\<And>x xs. (\<And>skip. P (if skip then tl xs else xs)) \<Longrightarrow> P (x # xs)"
  shows "P xs"
proof -
  have "P xs \<and> P (tl xs)" by (induction xs) (use assms in auto)
  then show ?thesis ..
qed

subsection \<open>Scanning and applying a whole section\<close>

definition dyn_total :: "RelArgs \<Rightarrow> RelSec \<Rightarrow> (u32 \<Rightarrow> RelSym) \<Rightarrow> ElfRel list \<Rightarrow> nat" where
  "dyn_total arg isec symbols rels = (\<Sum>rel\<leftarrow>rels. dyn_count arg isec (symbols (r_sym rel)) rel)"

lemma dyn_total_simps [simp]:
  "dyn_total arg isec symbols [] = 0"
  "dyn_total arg isec symbols (rel # rels) =
     dyn_count arg isec (symbols (r_sym rel)) rel + dyn_total arg isec symbols rels"
  by (simp_all add: dyn_total_def)

lemma dyn_count_0:
  "r_type rel = R_X86_64_NONE \<Longrightarrow> dyn_count arg isec y rel = 0"
  "r_type rel \<in> set tls_call_types \<Longrightarrow> dyn_count arg isec y rel = 0"
  by (auto simp: dyn_count_def tls_call_types_def R_X86_64_defs)

lemma dyn_total_skip:
  "(skip \<longrightarrow> (\<exists>nx rest'. rest = nx # rest' \<and> r_type nx \<in> set tls_call_types)) \<Longrightarrow>
   dyn_total arg isec symbols (if skip then tl rest else rest) = dyn_total arg isec symbols rest"
  by (auto simp: dyn_count_0(2))

lemma check_tls_call_next:
  "check_tls_call rel rest = Inr nx \<Longrightarrow> \<exists>rest'. rest = nx # rest' \<and> r_type nx \<in> set tls_call_types"
  by (auto simp: check_tls_call_def split: if_splits list.splits)

lemma x86_scan1_dynrels:
  assumes "x86_scan1 arg isec contents s y rel rest st = Inr (st', skip)"
  shows "sc_num_dynrel st' = sc_num_dynrel st + dyn_count arg isec y rel \<and>
    (skip \<longrightarrow> (\<exists>nx rest'. rest = nx # rest' \<and> r_type nx \<in> set tls_call_types))"
proof (cases "r_type rel = R_X86_64_64")
  case True
  with assms show ?thesis
    by (auto simp: x86_scan1_def R_X86_64_defs Let_def dyn_count_scan dyn_count_def)
next
  case False
  then have "dyn_count arg isec y rel = 0" by (simp add: dyn_count_def)
  with assms False show ?thesis
    unfolding x86_scan1_def Let_def
    by (auto simp: bind_result_eq_Inr check_tlsle_def split: if_splits dest!: check_tls_call_next)
qed

lemma x86_apply_dynrels:
  "x86_apply_reloc_alloc ctx isec symbols rels st = Inr st' \<Longrightarrow>
   length (x_dynrels st') = length (x_dynrels st) + dyn_total (x_arg ctx) isec symbols rels \<and>
   length (x_buf st') = length (x_buf st)"
proof (induction rels arbitrary: st rule: skip_induct)
  case Nil
  then show ?case by simp
next
  case (Cons rel rest)
  show ?case
  proof (cases "r_type rel = R_X86_64_NONE")
    case True
    with Cons.IH [of False st] Cons.prems show ?thesis by (simp add: dyn_count_0)
  next
    case False
    then obtain st1 skip where s: "x86_apply_alloc1 ctx isec (symbols (r_sym rel)) rel rest st = Inr (st1, skip)"
        "x86_apply_reloc_alloc ctx isec symbols (if skip then tl rest else rest) st1 = Inr st'"
      using Cons.prems by (auto simp: bind_result_eq_Inr)
    from Cons.IH [OF s(2)] x86_apply1_dynrels [OF s(1)] show ?thesis
      by (simp add: dyn_total_skip)
  qed
qed

lemma x86_scan_dynrels:
  "x86_scan_relocations arg isec contents symbols (\<lambda>_. False) rels st = Inr st' \<Longrightarrow>
   sc_num_dynrel st' = sc_num_dynrel st + dyn_total arg isec symbols rels"
proof (induction rels arbitrary: st rule: skip_induct)
  case Nil
  then show ?case by simp
next
  case (Cons rel rest)
  show ?case
  proof (cases "r_type rel = R_X86_64_NONE")
    case True
    with Cons.IH [of False st] Cons.prems show ?thesis by (simp add: dyn_count_0)
  next
    case False
    then obtain st1 skip where s: "x86_scan1 arg isec contents (unat (r_sym rel)) (symbols (r_sym rel)) rel rest st = Inr (st1, skip)"
        "x86_scan_relocations arg isec contents symbols (\<lambda>_. False) (if skip then tl rest else rest) st1 = Inr st'"
      using Cons.prems by (auto simp: bind_result_eq_Inr)
    from Cons.IH [OF s(2)] x86_scan1_dynrels [OF s(1)] show ?thesis
      by (simp add: dyn_total_skip)
  qed
qed

definition ex_sc :: ScanSt where
  "ex_sc = \<lparr> sc_flags = \<lambda>_. 0, sc_num_dynrel = 0, sc_num_ifunc_dynrels = 0, sc_has_textrel = False,
     sc_needs_tlsld = False, sc_errors = 0 \<rparr>"

definition ex_scanned :: ScanSt where
  "ex_scanned = (case x86_scan_relocations ex_arg ex_isec ex_bytes ex_syms (\<lambda>_. False) ex_rels ex_sc of Inr sc \<Rightarrow> sc | Inl _ \<Rightarrow> ex_sc)"

definition ex_all_applied :: XSt where
  "ex_all_applied = (case x86_apply_reloc_alloc ex_ctx ex_isec ex_syms ex_rels ex_st of Inr st \<Rightarrow> st | Inl _ \<Rightarrow> ex_st)"

lemma ex_scan: "x86_scan_relocations ex_arg ex_isec ex_bytes ex_syms (\<lambda>_. False) ex_rels ex_sc = Inr ex_scanned"
proof -
  have "isl (x86_scan_relocations ex_arg ex_isec ex_bytes ex_syms (\<lambda>_. False) ex_rels ex_sc) = False" by code_simp
  then show ?thesis
    by (cases "x86_scan_relocations ex_arg ex_isec ex_bytes ex_syms (\<lambda>_. False) ex_rels ex_sc") (auto simp: ex_scanned_def)
qed

lemma ex_scanned_flags: "sc_flags ex_scanned s = (if s = 1 then 1 else 0)"
proof -
  have "uint (sc_flags ex_scanned s) = (if s = 1 then 1 else 0)" by (code_simp) simp
  then show ?thesis by (cases "s = 1") (simp_all add: word_uint_eq_iff)
qed

text \<open>
  C18: The x86-64 back end writes exactly the dynamic relocations it reserved. Over a whole section, with relaxations and
  their two-relocation sequences, the number of records \<^verbatim>\<open>apply_reloc_alloc\<close> appends is the number by which
  \<^verbatim>\<open>scan_relocations\<close> raised \<^verbatim>\<open>num_dynrel\<close>, whenever no undefined symbol stopped the link between the two
  passes; and no byte is written outside the section.
\<close>

theorem x86_reserved_is_written:
  assumes "x86_scan_relocations arg isec contents symbols (\<lambda>_. False) rels sc = Inr sc'"
    and "x_arg ctx = arg" and "x86_apply_reloc_alloc ctx isec symbols rels st = Inr st'"
  shows "length (x_dynrels st') - length (x_dynrels st) = sc_num_dynrel sc' - sc_num_dynrel sc \<and>
    length (x_buf st') = length (x_buf st)"
  using x86_scan_dynrels [OF assms(1)] x86_apply_dynrels [OF assms(3)] assms(2) by auto

theorem x86_reserved_is_written_witness:
  "length (x_dynrels ex_all_applied) = sc_num_dynrel ex_scanned \<and> sc_num_dynrel ex_scanned = 1"
proof -
  have "x86_apply_reloc_alloc ex_ctx ex_isec ex_syms ex_rels ex_st = Inr ex_all_applied" by code_simp
  moreover have "x_arg ex_ctx = ex_arg" by (simp add: ex_ctx_def)
  ultimately have "length (x_dynrels ex_all_applied) - length (x_dynrels ex_st) = sc_num_dynrel ex_scanned - sc_num_dynrel ex_sc"
    using x86_reserved_is_written [OF ex_scan] by blast
  moreover have "sc_num_dynrel ex_scanned = 1" by code_simp
  ultimately show ?thesis by (simp add: ex_st_def ex_sc_def)
qed

subsection \<open>What the scanner accepts is applied\<close>

text \<open>The bytes around a relocated place that the code may write: how many before it, how many from it on.\<close>

definition x86_before :: "ElfRel \<Rightarrow> nat" where
  "x86_before rel =
     (if r_type rel \<in> {R_X86_64_TLSGD, R_X86_64_TLSLD} then 4
      else if r_type rel \<in> {R_X86_64_REX_GOTPCRELX, R_X86_64_GOTTPOFF, R_X86_64_GOTPC32_TLSDESC} then 3
      else if r_type rel = R_X86_64_GOTPCRELX then 2 else 0)"

definition x86_after :: "ElfRel \<Rightarrow> ElfRel list \<Rightarrow> nat" where
  "x86_after rel rest =
     (if r_type rel \<in> {R_X86_64_8, R_X86_64_PC8} then 1
      else if r_type rel \<in> {R_X86_64_16, R_X86_64_PC16, R_X86_64_TLSDESC_CALL} then 2
      else if r_type rel \<in> {R_X86_64_64, R_X86_64_PC64, R_X86_64_GOT64, R_X86_64_GOTOFF64, R_X86_64_PLTOFF64, R_X86_64_GOTPC64,
          R_X86_64_GOTPCREL64, R_X86_64_DTPOFF64, R_X86_64_TPOFF64, R_X86_64_SIZE64} then 8
      else if r_type rel \<in> {R_X86_64_TLSGD, R_X86_64_TLSLD} then
        (case rest of
           [] \<Rightarrow> 4
         | nx # _ \<Rightarrow> if r_type nx = R_X86_64_PLTOFF64 then 19 else if r_type rel = R_X86_64_TLSGD then 12
                    else if r_type nx \<in> {R_X86_64_GOTPCREL, R_X86_64_GOTPCRELX} then 10 else 9)
      else 4)"

definition x86_lo :: "ElfRel \<Rightarrow> nat" where
  "x86_lo rel = unat (r_offset rel) - x86_before rel"

definition x86_hi :: "ElfRel \<Rightarrow> ElfRel list \<Rightarrow> nat" where
  "x86_hi rel rest = unat (r_offset rel) + x86_after rel rest"

text \<open>
  A section whose relocations stay inside its \<open>n\<close> bytes, and in which no relocation writes into an instruction that a
  later one inspects.
\<close>

definition inspects_insn :: "ElfRel \<Rightarrow> bool" where
  "inspects_insn rel \<longleftrightarrow> r_type rel \<in> {R_X86_64_GOTTPOFF, R_X86_64_GOTPC32_TLSDESC}"

fun x86_relocs_ok :: "nat \<Rightarrow> ElfRel list \<Rightarrow> bool" where
  "x86_relocs_ok n [] = True"
| "x86_relocs_ok n (rel # rest) =
     ((r_type rel \<noteq> R_X86_64_NONE \<longrightarrow> x86_hi rel rest \<le> n \<and>
       (\<forall>r \<in> set rest. inspects_insn r \<longrightarrow> unat (r_offset r) \<le> x86_lo rel \<or> x86_hi rel rest \<le> unat (r_offset r) - 3)) \<and>
      x86_relocs_ok n rest)"

definition succeeds :: "nat \<Rightarrow> nat \<Rightarrow> XSt \<Rightarrow> XSt result \<Rightarrow> bool" where
  "succeeds lo hi st r \<longleftrightarrow> (\<exists>st'. r = Inr st' \<and> frame lo hi (x_buf st) (x_buf st'))"

lemma succeeds_store:
  assumes "lo \<le> loc" and "loc + length bs \<le> hi" and "hi \<le> length (x_buf st)"
  shows "succeeds lo hi st (store loc bs (check_range v a b st))" and "succeeds lo hi st (store loc bs st)"
proof -
  obtain buf where "put loc bs (x_buf st) = Inr buf" using put_Inr [of loc bs "x_buf st"] assms by auto
  with put_length [OF this] put_nth [OF this] assms
  show "succeeds lo hi st (store loc bs (check_range v a b st))" "succeeds lo hi st (store loc bs st)"
    by (auto simp: succeeds_def store_def frame_def)
qed

lemma succeeds_write:
  assumes "lo \<le> loc" and "loc + n \<le> hi" and "hi \<le> length (x_buf st)"
  shows "n = 4 \<Longrightarrow> succeeds lo hi st (write32 loc v st)" and "n = 4 \<Longrightarrow> succeeds lo hi st (write32s loc v st)"
    and "n = 8 \<Longrightarrow> succeeds lo hi st (write64 loc v st)"
  using assms by (auto simp: write32_def write32s_def write64_def intro!: succeeds_store)

lemma succeeds_bind:
  assumes "succeeds lo hi st r" and "\<And>st'. frame lo hi (x_buf st) (x_buf st') \<Longrightarrow> succeeds lo hi st' (f st')"
  shows "succeeds lo hi st (bind_result r f)"
  using assms by (fastforce simp: succeeds_def bind_result_eq_Inr intro: frame_trans)

lemma frame_length: "frame lo hi b b' \<Longrightarrow> length b' = length b"
  by (simp add: frame_def)

lemma succeeds_gotpcrelx:
  assumes "lo \<le> loc - k" and "loc + 4 \<le> hi" and "hi \<le> length (x_buf st)" and "\<And>i. length (tb i) = k"
  shows "succeeds lo hi st (apply_gotpcrelx k relax tb y loc v g st)"
proof (cases "k \<le> loc \<and> \<not> q_imported y \<and> \<not> is_ifunc y \<and> \<not> q_absolute y")
  case True
  obtain old where "peek (loc - k) k (x_buf st) = Inr old" using True assms(2,3) by (auto simp: peek_def)
  with True assms show ?thesis
    by (auto simp: apply_gotpcrelx_def Let_def frame_length intro!: succeeds_bind succeeds_store succeeds_write(2) [where n = 4])
next
  case False
  with assms show ?thesis by (auto simp: apply_gotpcrelx_def intro!: succeeds_write(2) [where n = 4])
qed

lemma succeeds_tls_insn:
  assumes "lo \<le> loc - 3" and "loc + 4 \<le> hi" and "hi \<le> length (x_buf st)" and "loc = unat (r_offset rel)" and "3 \<le> loc"
    and "r_addend rel = - 4" and "peek (loc - 3) 3 (x_buf st) = Inr old" and "relax old \<noteq> 0"
  shows "succeeds lo hi st (apply_tls_insn relax rel loc v st)"
proof -
  have "succeeds lo hi st (bind_result (store (loc - 3) (insn_bytes3 (relax old)) st) (write32s loc v))"
    using assms by (intro succeeds_bind succeeds_store(2) succeeds_write(2) [where n = 4])
      (auto simp: insn_bytes_length frame_length)
  then show ?thesis
    using assms(4-8) by (auto simp: apply_tls_insn_def check_relax_prefix_def succeeds_def bind_result_eq_Inr)
qed

lemma put_insn_succeeds:
  assumes "k \<le> loc" and "lo \<le> loc - k" and "loc - k + length insn \<le> hi" and "loc + j + 4 \<le> hi" and "hi \<le> length buf"
    and "lo \<le> loc + j"
  shows "\<exists>buf'. put_insn loc k insn j v buf = Inr buf' \<and> frame lo hi buf buf'"
proof -
  obtain b1 where b1: "put (loc - k) insn buf = Inr b1" using put_Inr [of "loc - k" insn buf] assms by auto
  obtain b2 where b2: "put32 (loc + j) v b1 = Inr b2"
    using put_Inr [of "loc + j" "le_bytes 4 v" b1] put_length [OF b1] assms by auto
  have "frame lo hi buf b2"
    using put_nth [OF b1] put_nth [OF b2] put_length [OF b1] put_length [OF b2] assms by (auto simp: frame_def)
  with b1 b2 assms(1) show ?thesis by (auto simp: put_insn_def bind_result_eq_Inr)
qed

text \<open>What a rewriting of a call to \<^verbatim>\<open>__tls_get_addr\<close> needs: its prefix, and the bytes of the call.\<close>

lemma succeeds_relax_tls:
  assumes "check_tls_prefix rel nx = Inr u" and "rest = nx # rest'" and "r_type nx \<in> set tls_call_types"
    and "x86_hi rel rest \<le> length (x_buf st)"
  shows "r_type rel = R_X86_64_TLSGD \<Longrightarrow> relax \<in> {relax_gd_to_le, relax_gd_to_ie} \<Longrightarrow>
      succeeds (x86_lo rel) (x86_hi rel rest) st (relax_tls relax rel rest (unat (r_offset rel)) v st)"
    and "r_type rel = R_X86_64_TLSLD \<Longrightarrow>
      succeeds (x86_lo rel) (x86_hi rel rest) st (relax_tls relax_ld_to_le rel rest (unat (r_offset rel)) v st)"
proof -
  have p: "get_tls_relax_prefix nx = Inr n \<Longrightarrow> n \<le> unat (r_offset rel)" for n
    using assms(1) by (auto simp: check_tls_prefix_def bind_result_eq_Inr check_relax_prefix_def split: if_splits)
  have ty: "r_type nx \<in> {R_X86_64_PLT32, R_X86_64_PC32, R_X86_64_GOTPCREL, R_X86_64_GOTPCRELX, R_X86_64_PLTOFF64}"
    using assms(3) by (auto simp: tls_call_types_def)
  note defs = relax_gd_to_le_def relax_gd_to_ie_def relax_ld_to_le_def get_tls_relax_prefix_def R_X86_64_defs x86_lo_def x86_hi_def
    x86_before_def x86_after_def
  have gd: "r_type rel = R_X86_64_TLSGD \<Longrightarrow> relax \<in> {relax_gd_to_le, relax_gd_to_ie} \<Longrightarrow>
      \<exists>b. relax (unat (r_offset rel)) nx v (x_buf st) = Inr b \<and> frame (x86_lo rel) (x86_hi rel rest) (x_buf st) b"
    using ty p assms(2,4) by (auto simp: defs intro!: put_insn_succeeds)
  have ld: "r_type rel = R_X86_64_TLSLD \<Longrightarrow>
      \<exists>b. relax_ld_to_le (unat (r_offset rel)) nx v (x_buf st) = Inr b \<and> frame (x86_lo rel) (x86_hi rel rest) (x_buf st) b"
    using ty p assms(2,4) by (auto simp: defs intro!: put_insn_succeeds)
  have step: "succeeds lo hi st (relax_tls f rel rest loc v st)"
    if "\<exists>b. f loc nx v (x_buf st) = Inr b \<and> frame lo hi (x_buf st) b" for f loc lo hi
    using that assms(1,2) by (auto simp: relax_tls_def succeeds_def check_tls_prefix_def bind_result_eq_Inr)
  show "r_type rel = R_X86_64_TLSGD \<Longrightarrow> relax \<in> {relax_gd_to_le, relax_gd_to_ie} \<Longrightarrow>
      succeeds (x86_lo rel) (x86_hi rel rest) st (relax_tls relax rel rest (unat (r_offset rel)) v st)"
    by (rule step, rule gd)
  show "r_type rel = R_X86_64_TLSLD \<Longrightarrow>
      succeeds (x86_lo rel) (x86_hi rel rest) st (relax_tls relax_ld_to_le rel rest (unat (r_offset rel)) v st)"
    by (rule step, rule ld)
qed


definition x86_types :: "u32 list" where
  "x86_types = [R_X86_64_8, R_X86_64_16, R_X86_64_32, R_X86_64_32S, R_X86_64_64, R_X86_64_PC8, R_X86_64_PC16, R_X86_64_PC32,
     R_X86_64_PLT32, R_X86_64_PC64, R_X86_64_GOT32, R_X86_64_GOT64, R_X86_64_GOTOFF64, R_X86_64_PLTOFF64, R_X86_64_GOTPC32,
     R_X86_64_GOTPC64, R_X86_64_GOTPCREL, R_X86_64_GOTPCREL64, R_X86_64_GOTPCRELX, R_X86_64_REX_GOTPCRELX, R_X86_64_TLSGD,
     R_X86_64_TLSLD, R_X86_64_DTPOFF32, R_X86_64_DTPOFF64, R_X86_64_TPOFF32, R_X86_64_TPOFF64, R_X86_64_GOTTPOFF,
     R_X86_64_GOTPC32_TLSDESC, R_X86_64_SIZE32, R_X86_64_SIZE64, R_X86_64_TLSDESC_CALL]"

definition call_ready :: "ElfRel \<Rightarrow> ElfRel list \<Rightarrow> bool" where
  "call_ready rel rest \<longleftrightarrow>
     (\<exists>nx rest'. rest = nx # rest' \<and> r_type nx \<in> set tls_call_types \<and> check_tls_prefix rel nx = Inr ())"

definition insn_ready :: "(bytes \<Rightarrow> u32) \<Rightarrow> bytes \<Rightarrow> ElfRel \<Rightarrow> bool" where
  "insn_ready relax contents rel \<longleftrightarrow> r_addend rel = - 4 \<and> 3 \<le> unat (r_offset rel) \<and>
     (\<exists>old. peek (unat (r_offset rel) - 3) 3 contents = Inr old \<and> relax old \<noteq> 0)"

definition x86_ready :: "X86Ctx \<Rightarrow> bytes \<Rightarrow> RelSym \<Rightarrow> ElfRel \<Rightarrow> ElfRel list \<Rightarrow> bool" where
  "x86_ready ctx contents y rel rest \<longleftrightarrow> r_type rel \<in> set x86_types \<and>
     (r_type rel = R_X86_64_TLSGD \<and> q_tlsgd_addr y = None \<longrightarrow> call_ready rel rest) \<and>
     (r_type rel = R_X86_64_TLSLD \<and> x_tlsld_addr ctx = None \<longrightarrow> call_ready rel rest) \<and>
     (r_type rel = R_X86_64_GOTTPOFF \<and> q_gottp_addr y = None \<longrightarrow> insn_ready relax_gottpoff contents rel) \<and>
     (r_type rel = R_X86_64_GOTPC32_TLSDESC \<and> q_tlsdesc_addr y = None \<longrightarrow> insn_ready relax_gotpc32_tlsdesc contents rel)"

subsubsection \<open>Applying a relocation that is ready\<close>

definition step_ok :: "nat \<Rightarrow> nat \<Rightarrow> ElfRel list \<Rightarrow> XSt \<Rightarrow> (XSt \<times> bool) result \<Rightarrow> bool" where
  "step_ok lo hi rest st r \<longleftrightarrow> (\<exists>st' skip. r = Inr (st', skip) \<and> frame lo hi (x_buf st) (x_buf st') \<and> (skip \<longrightarrow> rest \<noteq> []))"

lemma step_okI:
  "succeeds lo hi st r \<Longrightarrow> step_ok lo hi rest st (bind_result r (\<lambda>st. Inr (st, False)))"
  "succeeds lo hi st r \<Longrightarrow> rest \<noteq> [] \<Longrightarrow> step_ok lo hi rest st (bind_result r (\<lambda>st. Inr (st, True)))"
  by (auto simp: succeeds_def step_ok_def bind_result_eq_Inr)

lemma step_ok_if:
  "(c \<Longrightarrow> step_ok lo hi rest st a) \<Longrightarrow> (\<not> c \<Longrightarrow> step_ok lo hi rest st b) \<Longrightarrow> step_ok lo hi rest st (if c then a else b)"
  by simp

lemma succeeds_if: "(c \<Longrightarrow> succeeds lo hi st a) \<Longrightarrow> (\<not> c \<Longrightarrow> succeeds lo hi st b) \<Longrightarrow> succeeds lo hi st (if c then a else b)"
  by simp

lemma succeeds_Inr: "succeeds lo hi st (Inr st)"
  by (simp add: succeeds_def frame_def)

lemma succeeds_put_word:
  assumes "apply_dyn_absrel X86_64 arg isec y rel S A P = r0" and "lo \<le> loc" and "loc + 8 \<le> hi" and "hi \<le> length (x_buf st)"
  shows "succeeds lo hi st (bind_result r0 (\<lambda>r. put_word loc r st))"
proof -
  obtain w ds where r: "r0 = Inr (w, ds)"
    using apply_dyn_absrel_returns [of y X86_64 arg isec rel S A P] assms(1) by (auto simp: desc_X86_64_def)
  have "succeeds lo hi (st \<lparr> x_dynrels := x_dynrels st @ ds \<rparr>) (write64 loc v (st \<lparr> x_dynrels := x_dynrels st @ ds \<rparr>))" for v
    by (rule succeeds_write(3) [where n = 8]) (use assms in auto)
  moreover have "frame lo hi (x_buf st) (x_buf st)" by (simp add: frame_def)
  ultimately show ?thesis by (cases w) (auto simp: r put_word_def succeeds_def Let_def)
qed

lemma x86_apply1_fixed:
  assumes "r_type rel \<in> set x86_types"
    and "r_type rel \<notin> {R_X86_64_TLSGD, R_X86_64_TLSLD, R_X86_64_GOTTPOFF, R_X86_64_GOTPC32_TLSDESC}"
    and "x86_hi rel rest \<le> length (x_buf st)"
  shows "step_ok (x86_lo rel) (x86_hi rel rest) rest st (x86_apply_alloc1 ctx isec y rel rest st)"
proof -
  have n: "x86_lo rel \<le> unat (r_offset rel)" by (simp add: x86_lo_def)
  note w = succeeds_store [OF n _ assms(3)] succeeds_write [OF n _ assms(3)] succeeds_put_word [OF refl n _ assms(3)]
  note g = succeeds_gotpcrelx [OF _ _ assms(3)]
  have "x86_hi rel rest = unat (r_offset rel) + x86_after rel rest" "x86_lo rel = unat (r_offset rel) - x86_before rel"
    by (simp_all add: x86_hi_def x86_lo_def)
  note * = this x86_after_def x86_before_def R_X86_64_defs
  show ?thesis
    unfolding x86_apply_alloc1_def Let_def
    by (intro step_ok_if step_okI(1) succeeds_if succeeds_Inr w g)
      (use assms(1,2) in \<open>auto simp add: * insn_bytes_length x86_types_def\<close>)
qed

lemma x86_apply1_ready:
  assumes "x86_ready ctx contents y rel rest" and "x86_hi rel rest \<le> length (x_buf st)"
    and "inspects_insn rel \<and> 3 \<le> unat (r_offset rel) \<longrightarrow> peek (unat (r_offset rel) - 3) 3 (x_buf st) = peek (unat (r_offset rel) - 3) 3 contents"
  shows "step_ok (x86_lo rel) (x86_hi rel rest) rest st (x86_apply_alloc1 ctx isec y rel rest st)"
proof (cases "r_type rel \<in> {R_X86_64_TLSGD, R_X86_64_TLSLD, R_X86_64_GOTTPOFF, R_X86_64_GOTPC32_TLSDESC}")
  case True
  have lo: "x86_lo rel \<le> unat (r_offset rel)" by (simp add: x86_lo_def)
  have hi: "unat (r_offset rel) + 4 \<le> x86_hi rel rest" using True
    by (auto simp: x86_hi_def x86_after_def R_X86_64_defs split: list.split)
  have w: "step_ok (x86_lo rel) (x86_hi rel rest) rest st
      (bind_result (write32s (unat (r_offset rel)) v st) (\<lambda>st. Inr (st, False)))" for v
    using succeeds_write(2) [OF lo hi assms(2)] by (intro step_okI) simp
  have call: "step_ok (x86_lo rel) (x86_hi rel rest) rest st
      (bind_result (relax_tls f rel rest (unat (r_offset rel)) v st) (\<lambda>st. Inr (st, True)))"
    if "call_ready rel rest" "r_type rel = R_X86_64_TLSGD \<and> f \<in> {relax_gd_to_le, relax_gd_to_ie} \<or>
      r_type rel = R_X86_64_TLSLD \<and> f = relax_ld_to_le" for f v
    using that assms(2) succeeds_relax_tls [of rel _ "()" rest _ st]
    by (intro step_okI) (auto simp: call_ready_def)
  have insn: "step_ok (x86_lo rel) (x86_hi rel rest) rest st
      (bind_result (apply_tls_insn f rel (unat (r_offset rel)) v st) (\<lambda>st. Inr (st, False)))"
    if "insn_ready f contents rel" "inspects_insn rel" for f v
  proof -
    have "x86_lo rel \<le> unat (r_offset rel) - 3"
      using that(2) by (auto simp: x86_lo_def x86_before_def inspects_insn_def)
    with that assms(3) show ?thesis
      by (intro step_okI) (auto simp: insn_ready_def intro!: succeeds_tls_insn [OF _ hi assms(2) refl])
  qed
  note ready = assms(1) [unfolded x86_ready_def]
  from True consider "r_type rel = R_X86_64_TLSGD" | "r_type rel = R_X86_64_TLSLD" | "r_type rel = R_X86_64_GOTTPOFF"
    | "r_type rel = R_X86_64_GOTPC32_TLSDESC" by blast
  then show ?thesis
  proof cases
    case 1
    then show ?thesis using w call ready
      by (simp add: x86_apply_alloc1_def Let_def R_X86_64_defs split: option.split)
  next
    case 2
    then show ?thesis using w call ready
      by (simp add: x86_apply_alloc1_def Let_def R_X86_64_defs split: option.split)
  next
    case 3
    then show ?thesis using w insn ready
      by (simp add: x86_apply_alloc1_def Let_def R_X86_64_defs inspects_insn_def split: option.split)
  next
    case 4
    then show ?thesis using w insn ready
      by (simp add: x86_apply_alloc1_def Let_def R_X86_64_defs inspects_insn_def split: option.split)
  qed
next
  case False
  with x86_apply1_fixed [of rel rest st] assms(1,2) show ?thesis by (simp add: x86_ready_def)
qed


subsubsection \<open>What a scan that reported no error leaves\<close>

definition scan_le :: "ScanSt \<Rightarrow> ScanSt \<Rightarrow> bool" where
  "scan_le a b \<longleftrightarrow> (\<forall>s n. bit (sc_flags a s) n \<longrightarrow> bit (sc_flags b s) n) \<and> (sc_needs_tlsld a \<longrightarrow> sc_needs_tlsld b) \<and>
     sc_errors a \<le> sc_errors b"

lemma scan_le_refl [simp]: "scan_le a a"
  by (simp add: scan_le_def)

lemma scan_le_trans: "scan_le a b \<Longrightarrow> scan_le b c \<Longrightarrow> scan_le a c"
  by (fastforce simp: scan_le_def)

lemma scan_le_steps [simp]:
  "scan_le st (add_flag s f st)" "scan_le st (scan_error st)" "scan_le st (check_textrel arg isec st)"
  "scan_le st (st \<lparr> sc_num_dynrel := n \<rparr>)" "scan_le st (st \<lparr> sc_num_ifunc_dynrels := n \<rparr>)"
  "scan_le st (st \<lparr> sc_needs_tlsld := True \<rparr>)" "scan_le st (check_tlsle arg st)"
  by (auto simp: scan_le_def add_flag_def scan_error_def check_textrel_def check_tlsle_def bit_or_iff)

lemma scan_le_add: "scan_le a b \<Longrightarrow> scan_le a (add_flag s f b)" "scan_le a b \<Longrightarrow> scan_le a (scan_error b)"
  "scan_le a b \<Longrightarrow> scan_le a (b \<lparr> sc_num_dynrel := n \<rparr>)" "scan_le a b \<Longrightarrow> scan_le a (b \<lparr> sc_num_ifunc_dynrels := n \<rparr>)"
  "scan_le a b \<Longrightarrow> scan_le a (check_textrel arg isec b)" "scan_le a b \<Longrightarrow> scan_le a (b \<lparr> sc_needs_tlsld := True \<rparr>)"
  "scan_le a b \<Longrightarrow> scan_le a (check_tlsle arg b)"
  by (rule scan_le_trans, assumption, simp)+

lemma scan_le_scan_rel: "scan_le a st \<Longrightarrow> scan_le a (scan_rel m arg isec s y rel action st)"
  by (auto simp: scan_rel_def add_copyrel_def add_dynrel_def Let_def intro!: scan_le_add split: Action.split)

lemma x86_scan1_le: "x86_scan1 arg isec contents s y rel rest st = Inr (st', skip) \<Longrightarrow> scan_le st st'"
  unfolding x86_scan1_def Let_def
  by (auto simp: bind_result_eq_Inr scan_pcrel_def scan_absrel_def scan_dyn_absrel_def split: if_splits
      intro!: scan_le_add scan_le_scan_rel)

text \<open>The slots that the flags of the symbols ask for exist.\<close>

definition slots_exist :: "X86Ctx \<Rightarrow> (u32 \<Rightarrow> RelSym) \<Rightarrow> ScanSt \<Rightarrow> bool" where
  "slots_exist ctx symbols sc \<longleftrightarrow>
     (\<forall>s. (sc_flags sc (unat s) AND NEEDS_GOTTP \<noteq> 0 \<longrightarrow> q_gottp_addr (symbols s) \<noteq> None) \<and>
          (sc_flags sc (unat s) AND NEEDS_TLSGD \<noteq> 0 \<longrightarrow> q_tlsgd_addr (symbols s) \<noteq> None) \<and>
          (sc_flags sc (unat s) AND NEEDS_TLSDESC \<noteq> 0 \<longrightarrow> q_tlsdesc_addr (symbols s) \<noteq> None)) \<and>
     (sc_needs_tlsld sc \<longrightarrow> x_tlsld_addr ctx \<noteq> None)"

lemma flag_bits:
  "x AND NEEDS_GOTTP \<noteq> 0 \<longleftrightarrow> bit x 3" "x AND NEEDS_TLSGD \<noteq> 0 \<longleftrightarrow> bit x 4" "x AND NEEDS_TLSDESC \<noteq> 0 \<longleftrightarrow> bit x 6"
proof -
  have m: "x AND 2 ^ n \<noteq> 0 \<longleftrightarrow> bit x n" if "n < 8" for n and x :: u8
    using that by (simp add: bit_iff_and_push_bit_not_eq_0 push_bit_eq_mult)
  show "x AND NEEDS_GOTTP \<noteq> 0 \<longleftrightarrow> bit x 3" "x AND NEEDS_TLSGD \<noteq> 0 \<longleftrightarrow> bit x 4" "x AND NEEDS_TLSDESC \<noteq> 0 \<longleftrightarrow> bit x 6"
    using m [of 3 x] m [of 4 x] m [of 6 x] by (simp_all add: NEEDS_GOTTP_def NEEDS_TLSGD_def NEEDS_TLSDESC_def)
qed

lemma add_flag_bits:
  "bit (sc_flags (add_flag s NEEDS_GOTTP st) s) 3" "bit (sc_flags (add_flag s NEEDS_TLSGD st) s) 4"
  "bit (sc_flags (add_flag s NEEDS_TLSDESC st) s) 6"
  by (simp_all add: add_flag_def NEEDS_GOTTP_def NEEDS_TLSGD_def NEEDS_TLSDESC_def bit_or_iff)

lemma add_flag_fixed: "add_flag s NEEDS_GOTTP st = st \<Longrightarrow> bit (sc_flags st s) 3"
  by (metis add_flag_bits(1))

lemma special_types:
  "R_X86_64_TLSGD \<in> set x86_types" "R_X86_64_TLSLD \<in> set x86_types" "R_X86_64_GOTTPOFF \<in> set x86_types"
  "R_X86_64_GOTPC32_TLSDESC \<in> set x86_types"
  "distinct [R_X86_64_TLSGD, R_X86_64_TLSLD, R_X86_64_GOTTPOFF, R_X86_64_GOTPC32_TLSDESC]"
  by (simp_all add: x86_types_def) (simp add: R_X86_64_defs)

lemma x86_scan1_ready:
  assumes "x86_scan1 arg isec contents (unat s) (symbols s) rel rest st = Inr (st', skip)" and "sc_errors st' = sc_errors st"
    and "scan_le st' sc'" and "slots_exist ctx symbols sc'"
  shows "x86_ready ctx contents (symbols s) rel rest"
proof -
  have slots: "bit (sc_flags st' (unat s)) 3 \<longrightarrow> q_gottp_addr (symbols s) \<noteq> None"
    "bit (sc_flags st' (unat s)) 4 \<longrightarrow> q_tlsgd_addr (symbols s) \<noteq> None"
    "bit (sc_flags st' (unat s)) 6 \<longrightarrow> q_tlsdesc_addr (symbols s) \<noteq> None" "sc_needs_tlsld st' \<longrightarrow> x_tlsld_addr ctx \<noteq> None"
    using assms(3,4) by (auto simp: slots_exist_def scan_le_def flag_bits)
  consider "r_type rel = R_X86_64_TLSGD" | "r_type rel = R_X86_64_TLSLD" | "r_type rel = R_X86_64_GOTTPOFF"
    | "r_type rel = R_X86_64_GOTPC32_TLSDESC"
    | "r_type rel \<notin> {R_X86_64_TLSGD, R_X86_64_TLSLD, R_X86_64_GOTTPOFF, R_X86_64_GOTPC32_TLSDESC}" by blast
  then show ?thesis
  proof cases
    case 1
    obtain nx where nx: "check_tls_call rel rest = Inr nx"
        "check_tls_prefix rel nx = Inr () \<or> bit (sc_flags st' (unat s)) 4"
      using assms(1) 1 by (auto simp: x86_scan1_def Let_def R_X86_64_defs bind_result_eq_Inr add_flag_bits split: if_splits)
    from check_tls_call_next [OF nx(1)] nx(2) slots(2) have "call_ready rel rest \<or> q_tlsgd_addr (symbols s) \<noteq> None"
      unfolding call_ready_def by blast
    with 1 special_types show ?thesis by (auto simp: x86_ready_def)
  next
    case 2
    obtain nx where nx: "check_tls_call rel rest = Inr nx" "check_tls_prefix rel nx = Inr () \<or> sc_needs_tlsld st'"
      using assms(1) 2 by (auto simp: x86_scan1_def Let_def R_X86_64_defs bind_result_eq_Inr split: if_splits)
    from check_tls_call_next [OF nx(1)] nx(2) slots(4) have "call_ready rel rest \<or> x_tlsld_addr ctx \<noteq> None"
      unfolding call_ready_def by blast
    with 2 special_types show ?thesis by (auto simp: x86_ready_def)
  next
    case 3
    have "insn_ready relax_gottpoff contents rel \<or> bit (sc_flags st' (unat s)) 3"
      using assms(1) 3 by (auto simp: x86_scan1_def Let_def R_X86_64_defs bind_result_eq_Inr insn_ready_def add_flag_bits
          split: if_splits dest: add_flag_fixed)
    with slots(1) 3 special_types show ?thesis by (auto simp: x86_ready_def)
  next
    case 4
    have "insn_ready relax_gotpc32_tlsdesc contents rel"
      using assms(1) 4 by (auto simp: x86_scan1_def Let_def R_X86_64_defs bind_result_eq_Inr insn_ready_def split: if_splits)
    with 4 special_types show ?thesis by (auto simp: x86_ready_def)
  next
    case 5
    then have "r_type rel \<in> set x86_types"
      using assms(1,2) by (auto simp: x86_scan1_def Let_def x86_types_def scan_error_def add_flag_def split: if_splits)
    with 5 show ?thesis by (simp add: x86_ready_def)
  qed
qed

lemma x86_scan_le:
  "x86_scan_relocations arg isec contents symbols undef rels st = Inr st' \<Longrightarrow> scan_le st st'"
proof (induction rels arbitrary: st rule: skip_induct)
  case Nil
  then show ?case by simp
next
  case (Cons rel rest)
  show ?case
  proof (cases "r_type rel = R_X86_64_NONE \<or> undef rel")
    case True
    with Cons.IH [of False st] Cons.prems show ?thesis by simp
  next
    case False
    then obtain st1 skip where s: "x86_scan1 arg isec contents (unat (r_sym rel)) (symbols (r_sym rel)) rel rest st = Inr (st1, skip)"
        "x86_scan_relocations arg isec contents symbols undef (if skip then tl rest else rest) st1 = Inr st'"
      using Cons.prems by (auto simp: bind_result_eq_Inr)
    from Cons.IH [OF s(2)] x86_scan1_le [OF s(1)] show ?thesis by (rule scan_le_trans [rotated])
  qed
qed

text \<open>Every relocation the scanner passed is ready, one it skipped included.\<close>

fun all_ready :: "X86Ctx \<Rightarrow> bytes \<Rightarrow> (u32 \<Rightarrow> RelSym) \<Rightarrow> ElfRel list \<Rightarrow> bool" where
  "all_ready ctx contents symbols [] \<longleftrightarrow> True"
| "all_ready ctx contents symbols (rel # rest) \<longleftrightarrow>
     (r_type rel = R_X86_64_NONE \<or> x86_ready ctx contents (symbols (r_sym rel)) rel rest) \<and> all_ready ctx contents symbols rest"

lemma call_is_ready: "r_type rel \<in> set tls_call_types \<Longrightarrow> x86_ready ctx contents y rel rest"
proof -
  assume "r_type rel \<in> set tls_call_types"
  moreover have "set tls_call_types \<subseteq> set x86_types" by (simp add: tls_call_types_def x86_types_def)
  moreover have "set tls_call_types \<inter> {R_X86_64_TLSGD, R_X86_64_TLSLD, R_X86_64_GOTTPOFF, R_X86_64_GOTPC32_TLSDESC} = {}"
    by (simp add: tls_call_types_def R_X86_64_defs)
  ultimately show ?thesis by (auto simp: x86_ready_def)
qed

lemma x86_scan1_skip:
  "x86_scan1 arg isec contents s y rel rest st = Inr (st', True) \<Longrightarrow>
   \<exists>nx rest'. rest = nx # rest' \<and> r_type nx \<in> set tls_call_types"
  unfolding x86_scan1_def Let_def
  by (auto simp: bind_result_eq_Inr split: if_splits dest!: check_tls_call_next)

lemma x86_scan_ready:
  assumes "slots_exist ctx symbols sc'"
  shows "x86_scan_relocations arg isec contents symbols (\<lambda>_. False) rels st = Inr sc' \<Longrightarrow> sc_errors sc' = sc_errors st \<Longrightarrow>
    all_ready ctx contents symbols rels"
proof (induction rels arbitrary: st rule: skip_induct)
  case Nil
  then show ?case by simp
next
  case (Cons rel rest)
  show ?case
  proof (cases "r_type rel = R_X86_64_NONE")
    case True
    with Cons.IH [of False st] Cons.prems show ?thesis by simp
  next
    case False
    then obtain st1 skip where s: "x86_scan1 arg isec contents (unat (r_sym rel)) (symbols (r_sym rel)) rel rest st = Inr (st1, skip)"
        "x86_scan_relocations arg isec contents symbols (\<lambda>_. False) (if skip then tl rest else rest) st1 = Inr sc'"
      using Cons.prems by (auto simp: bind_result_eq_Inr)
    note le = x86_scan1_le [OF s(1)] x86_scan_le [OF s(2)]
    have e: "sc_errors st1 = sc_errors st" "sc_errors sc' = sc_errors st1"
      using le Cons.prems(2) by (auto simp: scan_le_def)
    note ih = Cons.IH [OF s(2) e(2)]
    have "all_ready ctx contents symbols rest"
      using ih s(1) by (cases skip) (auto simp: call_is_ready dest!: x86_scan1_skip)
    with x86_scan1_ready [OF s(1) e(1) le(2) assms] show ?thesis by simp
  qed
qed

lemma x86_apply_ready:
  assumes "all_ready ctx contents symbols rels" and "x86_relocs_ok (length (x_buf st)) rels"
    and "\<forall>r \<in> set rels. inspects_insn r \<and> 3 \<le> unat (r_offset r) \<longrightarrow> peek (unat (r_offset r) - 3) 3 (x_buf st) = peek (unat (r_offset r) - 3) 3 contents"
  shows "\<exists>st'. x86_apply_reloc_alloc ctx isec symbols rels st = Inr st'"
  using assms
proof (induction rels arbitrary: st rule: skip_induct)
  case Nil
  then show ?case by simp
next
  case (Cons rel rest)
  show ?case
  proof (cases "r_type rel = R_X86_64_NONE")
    case True
    with Cons.IH [of False st] Cons.prems show ?thesis by simp
  next
    case False
    have "step_ok (x86_lo rel) (x86_hi rel rest) rest st (x86_apply_alloc1 ctx isec (symbols (r_sym rel)) rel rest st)"
      using Cons.prems False by (intro x86_apply1_ready) auto
    then obtain st1 skip where s: "x86_apply_alloc1 ctx isec (symbols (r_sym rel)) rel rest st = Inr (st1, skip)"
        "frame (x86_lo rel) (x86_hi rel rest) (x_buf st) (x_buf st1)" "skip \<longrightarrow> rest \<noteq> []" by (auto simp: step_ok_def)
    let ?rest = "if skip then tl rest else rest"
    have sub: "set ?rest \<subseteq> set rest" by (cases rest) auto
    have "peek (unat (r_offset r) - 3) 3 (x_buf st1) = peek (unat (r_offset r) - 3) 3 contents"
      if "r \<in> set rest" "inspects_insn r" "3 \<le> unat (r_offset r)" for r
      using that Cons.prems(2,3) False by (subst frame_peek [OF s(2)]) auto
    moreover have "all_ready ctx contents symbols ?rest" "x86_relocs_ok (length (x_buf st1)) ?rest"
      using Cons.prems frame_length [OF s(2)] by (cases rest; simp)+
    ultimately have "\<exists>st'. x86_apply_reloc_alloc ctx isec symbols ?rest st1 = Inr st'"
      using sub by (intro Cons.IH) auto
    with s(1) False show ?thesis by auto
  qed
qed




subsection \<open>The prefix of TLSLD\<close>

text \<open>
  \<^verbatim>\<open>lea x@tlsld(%rip), %rdi; call __tls_get_addr@PLT\<close> starts three bytes before its first relocation, and the rewriting
  \<^verbatim>\<open>relax_ld_to_le\<close> writes from there. The prefix check uses the length for \<^verbatim>\<open>TLSGD\<close>, four, so this sequence at the
  start of a section is rejected.
\<close>

lemma tlsld_at_start_rejected:
  "x86_scan1 ex_arg ex_isec [0x48, 0x8d, 0x3d, 0, 0, 0, 0, 0xe8, 0, 0, 0, 0] 2 (ex_syms 2) (ex_rel 3 R_X86_64_TLSLD 2 (- 4))
     [ex_rel 8 R_X86_64_PLT32 3 (- 4)] ex_sc = Inl (Fatal ''relocation is used against an invalid code sequence'')"
  "\<exists>buf. relax_ld_to_le 3 (ex_rel 8 R_X86_64_PLT32 3 (- 4)) 0x10 [0x48, 0x8d, 0x3d, 0, 0, 0, 0, 0xe8, 0, 0, 0, 0] = Inr buf"
  by (simp add: x86_scan1_def ex_rel_def R_X86_64_defs check_tls_call_def tls_call_types_def ex_arg_def check_tls_prefix_def
      get_tls_relax_prefix_def check_relax_prefix_def)
    (simp add: relax_ld_to_le_def ex_rel_def R_X86_64_defs put_insn_def put_def)

end
