(* ===== verification/File_Type.thy ===== *)
theory File_Type
  imports Elf_Types
begin

text \<open>
  Recognition of input files (\<^verbatim>\<open>src/common/filetype.h\<close>): bounds-checked views of ELF data, the test for GCC LTO objects,
  and the type of a file by its first bytes. A read outside the file is the failure \<open>OutOfBounds\<close>.
\<close>

datatype FileType = UNKNOWN | EMPTY | ELF_OBJ | ELF_DSO | MACH_OBJ | MACH_EXE | MACH_DYLIB | MACH_BUNDLE | MACH_UNIVERSAL
  | AR | THIN_AR | TAPI | TEXT | GCC_LTO_OBJ | LLVM_BITCODE

definition isprint :: "u8 \<Rightarrow> bool" where
  "isprint c \<longleftrightarrow> 0x20 \<le> c \<and> c \<le> 0x7e"

definition is_text_file :: "bytes \<Rightarrow> bool" where
  "is_text_file data \<longleftrightarrow> 4 \<le> length data \<and> isprint (data ! 0) \<and> isprint (data ! 1) \<and> isprint (data ! 2) \<and> isprint (data ! 3)"

subsection \<open>Views of ELF data\<close>

definition get_elf_data :: "bytes \<Rightarrow> u64 \<Rightarrow> u64 \<Rightarrow> bytes option" where
  "get_elf_data data offset sz =
     (if length data < unat offset \<or> length data - unat offset < unat sz then None
      else Some (substr data (unat offset) (unat sz)))"

text \<open>An array of structures at the start of \<open>data\<close>; the bytes are there when the caller checked the length.\<close>

definition read_array :: "(bytes \<Rightarrow> ('a \<times> bytes) option) \<Rightarrow> nat \<Rightarrow> bytes \<Rightarrow> 'a list result" where
  "read_array dec n data = (case dec_list dec n data of Some (xs, _) \<Rightarrow> Inr xs | None \<Rightarrow> Inl OutOfBounds)"

definition read_one :: "(bytes \<Rightarrow> ('a \<times> bytes) option) \<Rightarrow> bytes \<Rightarrow> 'a result" where
  "read_one dec data = (case dec data of Some (x, _) \<Rightarrow> Inr x | None \<Rightarrow> Inl OutOfBounds)"

definition get_elf_span :: "(bytes \<Rightarrow> ('a \<times> bytes) option) \<Rightarrow> nat \<Rightarrow> bytes \<Rightarrow> u64 \<Rightarrow> u64 \<Rightarrow> 'a list option result" where
  "get_elf_span dec n data offset sz =
     (if unat sz mod n \<noteq> 0 then Inr None
      else case get_elf_data data offset sz of
        None \<Rightarrow> Inr None
      | Some view \<Rightarrow> bind_result (read_array dec (length view div n) view) (\<lambda>xs. Inr (Some xs)))"

definition get_elf_string :: "bytes \<Rightarrow> u64 \<Rightarrow> bytes option" where
  "get_elf_string strtab offset =
     (if length strtab < unat offset then None
      else let s = drop (unat offset) strtab
           in case find_pos (\<lambda>c. c = 0) s of None \<Rightarrow> None | Some len \<Rightarrow> Some (take len s))"

definition shdr_size :: "machine \<Rightarrow> nat" where
  "shdr_size m = 16 + 6 * word_bytes m"

definition ehdr_size :: "machine \<Rightarrow> nat" where
  "ehdr_size m = 40 + 3 * word_bytes m"

definition sym_size :: "machine \<Rightarrow> nat" where
  "sym_size m = 8 + 2 * word_bytes m"

definition get_elf_shdrs :: "machine \<Rightarrow> bytes \<Rightarrow> ElfShdr list option result" where
  "get_elf_shdrs m data =
     (if length data < ehdr_size m then Inr None
      else bind_result (read_one (ElfEhdr_dec m) data) (\<lambda>ehdr.
        let shoff = e_shoff ehdr in
        if length data < unat shoff then Inr None
        else
          let remain = length data - unat shoff in
          if (e_shnum ehdr = 0 \<or> ucast (e_shstrndx ehdr) = SHN_XINDEX) \<and> remain < shdr_size m then Inr None
          else
            bind_result (if e_shnum ehdr \<noteq> 0 then Inr (unat (e_shnum ehdr))
                         else bind_result (read_one (ElfShdr_dec m) (drop (unat shoff) data)) (\<lambda>sh. Inr (unat (sh_size sh))))
              (\<lambda>num_sections.
                if remain div shdr_size m < num_sections then Inr None
                else bind_result (read_array (ElfShdr_dec m) num_sections (drop (unat shoff) data)) (\<lambda>xs. Inr (Some xs)))))"

subsection \<open>GCC LTO objects\<close>

definition lto_skip :: "u8 \<Rightarrow> bool" where
  "lto_skip ty \<longleftrightarrow> ucast ty \<in> {STT_NOTYPE, STT_FILE, STT_SECTION}"

text \<open>The symbol table found first decides.\<close>

definition lto_symtab :: "bytes \<Rightarrow> ElfShdr list \<Rightarrow> ElfShdr \<Rightarrow> ElfSym list \<Rightarrow> bool" where
  "lto_symtab data shdrs sec elf_syms =
     (case dropWhile (\<lambda>s. lto_skip (st_type s)) (drop 1 elf_syms) of
        [] \<Rightarrow> False
      | esym # _ \<Rightarrow>
          ucast (st_shndx esym) = SHN_COMMON \<and> unat (sh_link sec) < length shdrs \<and>
          (case get_elf_data data (sh_offset (shdrs ! unat (sh_link sec))) (sh_size (shdrs ! unat (sh_link sec))) of
             None \<Rightarrow> False
           | Some strtab \<Rightarrow>
               (case get_elf_string strtab (ucast (st_name esym)) of
                  None \<Rightarrow> False
                | Some name \<Rightarrow> starts_with name (str ''__gnu_lto_''))))"

fun lto_sections :: "endian \<Rightarrow> machine \<Rightarrow> bool \<Rightarrow> bytes \<Rightarrow> ElfShdr list \<Rightarrow> bytes \<Rightarrow> ElfShdr list \<Rightarrow> bool result" where
  "lto_sections host m plugin data shdrs shstrtab [] = Inr False"
| "lto_sections host m plugin data shdrs shstrtab (sec # rest) =
     (let name = get_elf_string shstrtab (ucast (sh_name sec)) in
      if plugin \<and> name = None then Inr False
      else if plugin \<and> starts_with (the name) (str ''.gnu.lto_.symtab.'') then Inr True
      else if sh_type sec \<noteq> SHT_SYMTAB then lto_sections host m plugin data shdrs shstrtab rest
      else bind_result (get_elf_span (ElfSym_dec host m) (sym_size m) data (sh_offset sec) (sh_size sec)) (\<lambda>syms.
        case syms of None \<Rightarrow> Inr False | Some elf_syms \<Rightarrow> Inr (lto_symtab data shdrs sec elf_syms)))"

definition is_gcc_lto_obj :: "endian \<Rightarrow> machine \<Rightarrow> bool \<Rightarrow> bytes \<Rightarrow> bool result" where
  "is_gcc_lto_obj host m plugin data =
     (if length data < ehdr_size m then Inr False
      else bind_result (read_one (ElfEhdr_dec m) data) (\<lambda>ehdr.
        bind_result (get_elf_shdrs m data) (\<lambda>o_shdrs.
          case o_shdrs of
            None \<Rightarrow> Inr False
          | Some shdrs \<Rightarrow>
              bind_result (if ucast (e_shstrndx ehdr) = SHN_XINDEX
                           then bind_result (read_one (ElfShdr_dec m) (drop (unat (e_shoff ehdr)) data)) (\<lambda>sh. Inr (unat (sh_link sh)))
                           else Inr (unat (e_shstrndx ehdr)))
                (\<lambda>shstrtab_idx.
                  if length shdrs \<le> shstrtab_idx then Inr False
                  else case get_elf_data data (sh_offset (shdrs ! shstrtab_idx)) (sh_size (shdrs ! shstrtab_idx)) of
                    None \<Rightarrow> Inr False
                  | Some shstrtab \<Rightarrow> lto_sections host m plugin data shdrs shstrtab shdrs))))"

subsection \<open>The type of a file\<close>

definition elf_file_type :: "endian \<Rightarrow> bool \<Rightarrow> machine \<Rightarrow> machine \<Rightarrow> bytes \<Rightarrow> FileType result" where
  "elf_file_type host plugin mn mw data =
     bind_result (read_one (ElfEhdr_dec mn) data) (\<lambda>ehdr.
       if ucast (e_type ehdr) = ET_REL then
         bind_result (is_gcc_lto_obj host (if ucast (e_ident ehdr ! unat EI_CLASS) = ELFCLASS32 then mn else mw) plugin data) (\<lambda>lto.
           Inr (if lto then GCC_LTO_OBJ else ELF_OBJ))
       else if ucast (e_type ehdr) = ET_DYN then Inr ELF_DSO
       else Inr UNKNOWN)"

definition macho_file_type :: "u32 \<Rightarrow> FileType" where
  "macho_file_type ty =
     (if ty = 1 then MACH_OBJ else if ty = 2 then MACH_EXE else if ty = 6 then MACH_DYLIB else if ty = 8 then MACH_BUNDLE
      else UNKNOWN)"

definition get_file_type :: "endian \<Rightarrow> bool \<Rightarrow> bytes \<Rightarrow> FileType result" where
  "get_file_type host plugin data =
     (if data = [] then Inr EMPTY
      else if starts_with data ([0x7f] @ str ''ELF'') then
        (if length data < ehdr_size I386 then Inl (Fatal ''file too small'')
         else bind_result (read_one (ElfEhdr_dec I386) data) (\<lambda>ehdr.
           if ucast (e_ident ehdr ! unat EI_DATA) = ELFDATA2LSB then elf_file_type host plugin I386 X86_64 data
           else elf_file_type host plugin M68K SPARC64 data))
      else if starts_with data [0xcf, 0xfa, 0xed, 0xfe] then
        bind_result (read_one ul32_dec (drop 12 data)) (\<lambda>ty. Inr (macho_file_type ty))
      else if starts_with data (str ''!<arch>'' @ [10]) then Inr AR
      else if starts_with data (str ''!<thin>'' @ [10]) then Inr THIN_AR
      else if starts_with data (str ''--- !tapi-tbd'') then Inr TAPI
      else if starts_with data [0xca, 0xfe, 0xba, 0xbe] then Inr MACH_UNIVERSAL
      else if is_text_file data then Inr TEXT
      else if starts_with data [0xde, 0xc0, 0x17, 0x0b] then Inr LLVM_BITCODE
      else if starts_with data [0x42, 0x43, 0xc0, 0xde] then Inr LLVM_BITCODE
      else Inr UNKNOWN)"

definition filetype_to_string :: "FileType \<Rightarrow> string" where
  "filetype_to_string ty =
     (case ty of
        UNKNOWN \<Rightarrow> ''UNKNOWN'' | EMPTY \<Rightarrow> ''EMPTY'' | ELF_OBJ \<Rightarrow> ''ELF_OBJ'' | ELF_DSO \<Rightarrow> ''ELF_DSO'' | MACH_EXE \<Rightarrow> ''MACH_EXE''
      | MACH_OBJ \<Rightarrow> ''MACH_OBJ'' | MACH_DYLIB \<Rightarrow> ''MACH_DYLIB'' | MACH_BUNDLE \<Rightarrow> ''MACH_BUNDLE''
      | MACH_UNIVERSAL \<Rightarrow> ''MACH_UNIVERSAL'' | AR \<Rightarrow> ''AR'' | THIN_AR \<Rightarrow> ''THIN_AR'' | TAPI \<Rightarrow> ''TAPI'' | TEXT \<Rightarrow> ''TEXT''
      | GCC_LTO_OBJ \<Rightarrow> ''GCC_LTO_OBJ'' | LLVM_BITCODE \<Rightarrow> ''LLVM_BITCODE'')"

subsection \<open>Reads stay inside the file\<close>

lemma read_one_Inr: "codec ok enc dec n \<Longrightarrow> n \<le> length data \<Longrightarrow> \<exists>x. read_one dec data = Inr x"
  using codec.dec_total [of ok enc dec n data] by (auto simp: read_one_def)

lemma read_array_Inr:
  assumes "codec ok enc dec n" and "k * n \<le> length data"
  shows "\<exists>xs. read_array dec k data = Inr xs"
  using codec_array.dec_list_total [OF codec_array.intro [OF assms(1)] assms(2)] by (auto simp: read_array_def)

lemmas elf_reads =
  read_one_Inr [OF elf_ehdr.codec_axioms] read_one_Inr [OF elf_shdr.codec_axioms]
  read_array_Inr [OF elf_shdr.codec_axioms] read_array_Inr [OF elf_sym.codec_axioms]

lemma get_elf_data_length: "get_elf_data data offset sz = Some view \<Longrightarrow> length view = unat sz \<and> unat offset + unat sz \<le> length data"
  by (auto simp: get_elf_data_def split: if_splits)

lemma get_elf_span_Inr: "\<exists>r. get_elf_span (ElfSym_dec host m) (sym_size m) data offset sz = Inr r"
proof (cases "get_elf_data data offset sz")
  case (Some view)
  obtain xs where "read_array (ElfSym_dec host m) (length view div sym_size m) view = Inr xs"
    using elf_reads(4) [of "length view div sym_size m" m view host] by (auto simp: sym_size_def)
  with Some show ?thesis by (auto simp: get_elf_span_def)
qed (auto simp: get_elf_span_def)

lemma get_elf_shdrs_Inr: "\<exists>r. get_elf_shdrs m data = Inr r"
proof (cases "length data < ehdr_size m")
  case True
  then show ?thesis by (simp add: get_elf_shdrs_def)
next
  case False
  then obtain ehdr where e: "read_one (ElfEhdr_dec m) data = Inr ehdr"
    using elf_reads(1) [of m data] by (auto simp: ehdr_size_def)
  let ?rest = "drop (unat (e_shoff ehdr)) data"
  have a: "\<exists>xs. read_array (ElfShdr_dec m) n ?rest = Inr xs" if "n \<le> length ?rest div shdr_size m" for n
  proof -
    have "n * shdr_size m \<le> length ?rest" using that by (simp add: less_eq_div_iff_mult_less_eq shdr_size_def)
    then show ?thesis using elf_reads(3) [of n m ?rest] by (auto simp: shdr_size_def)
  qed
  have o: "\<exists>sh. read_one (ElfShdr_dec m) ?rest = Inr sh" if "shdr_size m \<le> length ?rest"
    using that elf_reads(2) [of m ?rest] by (auto simp: shdr_size_def)
  let ?ok = "unat (e_shoff ehdr) \<le> length data \<and>
    \<not> ((e_shnum ehdr = 0 \<or> ucast (e_shstrndx ehdr) = SHN_XINDEX) \<and> length data - unat (e_shoff ehdr) < shdr_size m)"
  show ?thesis
  proof (cases ?ok)
    case True
    let ?num = "if e_shnum ehdr \<noteq> 0 then Inr (unat (e_shnum ehdr))
      else bind_result (read_one (ElfShdr_dec m) ?rest) (\<lambda>sh. Inr (unat (sh_size sh)))"
    obtain n where n: "?num = Inr n"
      using o True by (cases "e_shnum ehdr = 0") auto
    show ?thesis
    proof (cases "n \<le> length ?rest div shdr_size m")
      case le: True
      then obtain xs where "read_array (ElfShdr_dec m) n ?rest = Inr xs" using a by blast
      with e n le True False show ?thesis by (auto simp: get_elf_shdrs_def Let_def)
    next
      case nle: False
      with e n True False show ?thesis by (auto simp: get_elf_shdrs_def Let_def)
    qed
  next
    case nok: False
    then show ?thesis using e False by (auto simp: get_elf_shdrs_def Let_def)
  qed
qed

text \<open>When the index of the section names is in the first header, that header is inside the file.\<close>

lemma get_elf_shdrs_first:
  assumes "get_elf_shdrs m data = Inr (Some shdrs)" and "read_one (ElfEhdr_dec m) data = Inr ehdr"
    and "ucast (e_shstrndx ehdr) = SHN_XINDEX"
  shows "\<exists>sh. read_one (ElfShdr_dec m) (drop (unat (e_shoff ehdr)) data) = Inr sh"
  using assms elf_reads(2) [of m "drop (unat (e_shoff ehdr)) data"]
  by (auto simp: get_elf_shdrs_def Let_def shdr_size_def split: if_splits)

lemma lto_sections_Inr: "\<exists>r. lto_sections host m plugin data shdrs shstrtab secs = Inr r"
proof (induction secs)
  case (Cons sec secs)
  obtain r where "get_elf_span (ElfSym_dec host m) (sym_size m) data (sh_offset sec) (sh_size sec) = Inr r"
    using get_elf_span_Inr by blast
  with Cons show ?case by (auto simp: Let_def split: option.split)
qed auto

lemma is_gcc_lto_obj_Inr: "\<exists>r. is_gcc_lto_obj host m plugin data = Inr r"
proof (cases "length data < ehdr_size m")
  case True
  then show ?thesis by (auto simp: is_gcc_lto_obj_def)
next
  case False
  then obtain ehdr where e: "read_one (ElfEhdr_dec m) data = Inr ehdr"
    using elf_reads(1) [of m data] by (auto simp: ehdr_size_def)
  obtain os where os: "get_elf_shdrs m data = Inr os" using get_elf_shdrs_Inr by blast
  show ?thesis
  proof (cases os)
    case None
    with e os False show ?thesis by (auto simp: is_gcc_lto_obj_def)
  next
    case (Some shdrs)
    let ?idx = "if ucast (e_shstrndx ehdr) = SHN_XINDEX
      then bind_result (read_one (ElfShdr_dec m) (drop (unat (e_shoff ehdr)) data)) (\<lambda>sh. Inr (unat (sh_link sh)))
      else Inr (unat (e_shstrndx ehdr))"
    obtain i where i: "?idx = Inr i"
      using get_elf_shdrs_first [OF os [unfolded Some] e] by (cases "(ucast (e_shstrndx ehdr) :: u32) = SHN_XINDEX") auto
    with e os Some i False lto_sections_Inr [of host m plugin data shdrs] show ?thesis
      by (auto simp: is_gcc_lto_obj_def Let_def split: option.split)
  qed
qed

lemma elf_file_type_Inr:
  assumes "ehdr_size mn \<le> length data"
  shows "\<exists>ty. elf_file_type host plugin mn mw data = Inr ty"
proof -
  obtain ehdr where "read_one (ElfEhdr_dec mn) data = Inr ehdr"
    using elf_reads(1) [of mn data] assms by (auto simp: ehdr_size_def)
  moreover have "\<exists>r. is_gcc_lto_obj host m plugin data = Inr r" for m by (rule is_gcc_lto_obj_Inr)
  then obtain r where "is_gcc_lto_obj host (if ucast (e_ident ehdr ! unat EI_CLASS) = ELFCLASS32 then mn else mw) plugin data = Inr r"
    by blast
  ultimately show ?thesis by (simp add: elf_file_type_def)
qed


definition forged_elf :: bytes where
  "forged_elf = [0x7f, 0x45, 0x4c, 0x46, 2, 1, 1, 0, 0, 0, 0, 0, 0, 0, 0, 0, 1, 0, 62, 0, 1, 0, 0, 0] @ replicate 16 0 @
     [0xff, 0xff, 0xff, 0xff, 0xff, 0xff, 0xff, 0xff] @ replicate 12 0 @ [0xff, 0xff, 0xff, 0xff]"


lemma short_macho_out_of_bounds: "get_file_type host plugin [0xcf, 0xfa, 0xed, 0xfe] = Inl OutOfBounds"
  by (simp add: get_file_type_def read_one_def le_dec_def str_def)

end
