(* ===== verification/Archive.thy ===== *)
theory Archive
  imports File_Type Strings
begin

text \<open>
  Archives (\<^verbatim>\<open>src/common/archive-file.h\<close>): the headers of members, the readers of regular and thin archives, and the
  reader of archives with a Darwin symbol table. Pointers into the file are offsets; the file begins with eight bytes of
  magic.
\<close>

subsection \<open>Headers\<close>

fun ar_digits :: "u64 \<Rightarrow> bytes \<Rightarrow> u64 option" where
  "ar_digits val [] = Some val"
| "ar_digits val (c # cs) =
     (if c < 48 \<or> 57 < c then None
      else if (- 1 - ucast (c - 48)) div 10 < val then None
      else ar_digits (val * 10 + ucast (c - 48)) cs)"

definition strip_spaces :: "bytes \<Rightarrow> bytes" where
  "strip_spaces s = rev (dropWhile (\<lambda>c. c = 32) (rev s))"

definition parse_ar_num :: "bytes \<Rightarrow> u64 option" where
  "parse_ar_num s = (let s = strip_spaces s in if s = [] then None else ar_digits 0 s)"

record ArHdr =
  ar_name :: bytes
  ar_date :: bytes
  ar_uid :: bytes
  ar_gid :: bytes
  ar_mode :: bytes
  ar_size :: bytes
  ar_fmag :: bytes

definition ArHdr_at :: "bytes \<Rightarrow> nat \<Rightarrow> ArHdr" where
  "ArHdr_at data pos = \<lparr> ar_name = substr data pos 16, ar_date = substr data (pos + 16) 12, ar_uid = substr data (pos + 28) 6,
     ar_gid = substr data (pos + 34) 6, ar_mode = substr data (pos + 40) 8, ar_size = substr data (pos + 48) 10,
     ar_fmag = substr data (pos + 58) 2 \<rparr>"

definition hdr_starts_with :: "ArHdr \<Rightarrow> bytes \<Rightarrow> bool" where
  "hdr_starts_with hdr s \<longleftrightarrow> take (length s) (ar_name hdr) = s"

definition is_strtab :: "ArHdr \<Rightarrow> bool" where
  "is_strtab hdr \<longleftrightarrow> hdr_starts_with hdr (str ''// '')"

definition is_symtab :: "ArHdr \<Rightarrow> bool" where
  "is_symtab hdr \<longleftrightarrow> hdr_starts_with hdr (str ''/ '') \<or> hdr_starts_with hdr (str ''/SYM64/ '')"

definition has_valid_fmag :: "ArHdr \<Rightarrow> bool" where
  "has_valid_fmag hdr \<longleftrightarrow> ar_fmag hdr = [0x60, 10]"

definition get_size :: "ArHdr \<Rightarrow> u64 option" where
  "get_size hdr = parse_ar_num (ar_size hdr)"

definition get_bsd_name_len :: "ArHdr \<Rightarrow> u64 option" where
  "get_bsd_name_len hdr = (if \<not> hdr_starts_with hdr (str ''#1/'') then None else parse_ar_num (drop 3 (ar_name hdr)))"

definition get_sysv_name_offset :: "ArHdr \<Rightarrow> u64 option" where
  "get_sysv_name_offset hdr = (if \<not> hdr_starts_with hdr (str ''/'') then None else parse_ar_num (drop 1 (ar_name hdr)))"

text \<open>The name of a member and the number of bytes of the body that hold it.\<close>

definition read_name :: "ArHdr \<Rightarrow> bytes \<Rightarrow> bytes \<Rightarrow> (bytes \<times> nat) option" where
  "read_name hdr strtab body =
     (if hdr_starts_with hdr (str ''#1/'') then
        (case get_bsd_name_len hdr of
           None \<Rightarrow> None
         | Some namelen \<Rightarrow>
             if length body < unat namelen then None
             else let name = take (unat namelen) body
                  in Some (case find_pos (\<lambda>c. c = 0) name of None \<Rightarrow> name | Some pos \<Rightarrow> take pos name, unat namelen))
      else if hdr_starts_with hdr (str ''/'') then
        (case get_sysv_name_offset hdr of
           None \<Rightarrow> None
         | Some offset \<Rightarrow>
             if length strtab \<le> unat offset then None
             else let name = drop (unat offset) strtab
                  in case find_sub name [47, 10] of None \<Rightarrow> None | Some pos \<Rightarrow> Some (take pos name, 0))
      else case find_pos (\<lambda>c. c = 47) (ar_name hdr) of
        Some pos \<Rightarrow> Some (take pos (ar_name hdr), 0)
      | None \<Rightarrow> Some (ar_name hdr, 0))"

definition darwin_symtab_names :: "bytes list" where
  "darwin_symtab_names = [str ''__.SYMDEF'', str ''__.SYMDEF SORTED'', str ''__.SYMDEF_64'', str ''__.SYMDEF_64 SORTED'']"

definition is_darwin_symtab_name :: "bytes \<Rightarrow> bool" where
  "is_darwin_symtab_name name \<longleftrightarrow> name \<in> set darwin_symtab_names"

definition is_darwin_symtab_64 :: "bytes \<Rightarrow> bool" where
  "is_darwin_symtab_64 name \<longleftrightarrow> name = str ''__.SYMDEF_64'' \<or> name = str ''__.SYMDEF_64 SORTED''"

abbreviation corrupted :: failure where
  "corrupted \<equiv> Fatal ''corrupted archive''"

text \<open>
  The start of an iteration of the three readers: skip a padding byte, leave at the end, check the header. The result is
  the offset of the header, the header, the offset of the body and its size.
\<close>

definition ar_align :: "nat \<Rightarrow> nat" where
  "ar_align pos = (if pos mod 2 = 1 then pos + 1 else pos)"

definition ar_header_at :: "bytes \<Rightarrow> nat \<Rightarrow> (nat \<times> ArHdr \<times> nat \<times> nat) option result" where
  "ar_header_at data pos =
     (if pos = length data then Inr None
      else if length data - pos < 60 then Inl corrupted
      else let hdr = ArHdr_at data pos; body = pos + 60 in
        if \<not> has_valid_fmag hdr then Inl corrupted
        else case get_size hdr of
          None \<Rightarrow> Inl corrupted
        | Some n \<Rightarrow> if length data - body < unat n then Inl corrupted else Inr (Some (pos, hdr, body, unat n)))"

definition ar_header :: "bytes \<Rightarrow> nat \<Rightarrow> (nat \<times> ArHdr \<times> nat \<times> nat) option result" where
  "ar_header data pos = ar_header_at data (ar_align pos)"

subsection \<open>Regular archives\<close>

text \<open>A member: its name, and where its contents are (\<^verbatim>\<open>MappedFile::slice\<close>).\<close>

record ArSlice =
  sl_name :: bytes
  sl_start :: nat
  sl_size :: nat

lemma ar_header_bounds:
  "ar_header data pos = Inr (Some (off, hdr, body, n)) \<Longrightarrow> pos \<le> off \<and> body = off + 60 \<and> body + n \<le> length data"
  by (auto simp: ar_header_def ar_header_at_def ar_align_def Let_def split: if_splits option.splits)

function read_fat_loop :: "bytes \<Rightarrow> nat \<Rightarrow> bytes \<Rightarrow> ArSlice list \<Rightarrow> ArSlice list result" where
  "read_fat_loop data pos strtab vec =
     (if length data \<le> pos then Inr vec
      else case ar_header data pos of
        Inl e \<Rightarrow> Inl e
      | Inr None \<Rightarrow> Inr vec
      | Inr (Some (off, hdr, body, n)) \<Rightarrow>
          let contents = substr data body n in
          if is_strtab hdr then read_fat_loop data (body + n) contents vec
          else if is_symtab hdr then read_fat_loop data (body + n) strtab vec
          else case read_name hdr strtab contents of
            None \<Rightarrow> Inl corrupted
          | Some (name, name_size) \<Rightarrow>
              if n < name_size then Inl corrupted
              else if is_darwin_symtab_name name then read_fat_loop data (body + n) strtab vec
              else read_fat_loop data (body + n) strtab
                (vec @ [\<lparr> sl_name = name, sl_start = body + name_size, sl_size = n - name_size \<rparr>]))"
  by pat_completeness auto
termination
  by (relation "measure (\<lambda>(data, pos, strtab, vec). length data - pos)") (auto dest!: ar_header_bounds)

declare read_fat_loop.simps [simp del]

definition read_fat_archive_members :: "bytes \<Rightarrow> ArSlice list result" where
  "read_fat_archive_members data = read_fat_loop data 8 [] []"

subsection \<open>Thin archives\<close>

text \<open>
  The members are files of their own: \<open>must_open\<close> opens the file of a name that is absolute or relative to the directory of
  the archive. The loop may run forever, then the result is \<open>None\<close>.
\<close>

partial_function (option) read_thin_loop :: "(bytes \<Rightarrow> 'f result) \<Rightarrow> bytes \<Rightarrow> nat \<Rightarrow> bytes \<Rightarrow> 'f list \<Rightarrow> 'f list result option" where
  "read_thin_loop must_open data pos strtab vec =
     (if length data \<le> pos then Some (Inr vec)
      else case ar_header data pos of
        Inl e \<Rightarrow> Some (Inl e)
      | Inr None \<Rightarrow> Some (Inr vec)
      | Inr (Some (off, hdr, body, n)) \<Rightarrow>
          let contents = substr data body n in
          if is_strtab hdr then read_thin_loop must_open data (body + n) contents vec
          else if is_symtab hdr then read_thin_loop must_open data (body + n) strtab vec
          else if \<not> hdr_starts_with hdr (str ''#1/'') \<and> \<not> hdr_starts_with hdr (str ''/'') then
            Some (Inl (Fatal ''filename is not stored as a long filename''))
          else case read_name hdr strtab contents of
            None \<Rightarrow> Some (Inl corrupted)
          | Some (name, name_size) \<Rightarrow>
              if is_darwin_symtab_name name then read_thin_loop must_open data (body + n) strtab vec
              else case must_open name of
                Inl e \<Rightarrow> Some (Inl e)
              | Inr f \<Rightarrow> read_thin_loop must_open data off strtab (vec @ [f]))"

definition read_thin_archive_members :: "(bytes \<Rightarrow> 'f result) \<Rightarrow> bytes \<Rightarrow> 'f list result option" where
  "read_thin_archive_members must_open data = read_thin_loop must_open data 8 [] []"

definition read_archive_members :: "endian \<Rightarrow> bool \<Rightarrow> (bytes \<Rightarrow> (bytes \<times> bytes) result) \<Rightarrow> bytes \<Rightarrow>
    (bytes \<times> bytes) list result option" where
  "read_archive_members host plugin must_open data =
     (case get_file_type host plugin data of
        Inl e \<Rightarrow> Some (Inl e)
      | Inr ty \<Rightarrow>
          if ty = AR then
            Some (bind_result (read_fat_archive_members data)
              (\<lambda>vec. Inr (map (\<lambda>sl. (sl_name sl, substr data (sl_start sl) (sl_size sl))) vec)))
          else if ty = THIN_AR then read_thin_archive_members must_open data
          else Some (Inl Unreachable))"

subsection \<open>Archives with an index\<close>

datatype ArchiveIndexStatus = OK | NO_DARWIN_SYMTAB | EMPTY_DARWIN_SYMTAB

definition archive_index_status_name :: "ArchiveIndexStatus \<Rightarrow> string" where
  "archive_index_status_name status =
     (case status of OK \<Rightarrow> ''ok'' | NO_DARWIN_SYMTAB \<Rightarrow> ''no_darwin_symtab'' | EMPTY_DARWIN_SYMTAB \<Rightarrow> ''empty_darwin_symtab'')"

record ArchiveSymbolInfo =
  as_name :: bytes
  as_member_idx :: nat

record ArchiveMemberInfo =
  am_name :: bytes
  am_path :: bytes
  am_header_offset :: nat
  am_data_offset :: nat
  am_data_size :: nat
  am_is_thin :: bool

record ArchiveFileInfo =
  ai_members :: "ArchiveMemberInfo list"
  ai_symbols :: "ArchiveSymbolInfo list"

text \<open>A number of the symbol table is in the byte order of the host.\<close>

definition read_num :: "endian \<Rightarrow> bool \<Rightarrow> bytes \<Rightarrow> nat result" where
  "read_num host wide buf =
     (if wide then if length buf < 8 then Inl corrupted else Inr (unat (mem_load host (take 8 buf) :: u64))
      else if length buf < 4 then Inl corrupted else Inr (unat (mem_load host (take 4 buf) :: u32)))"

definition num_size :: "bool \<Rightarrow> nat" where
  "num_size wide = (if wide then 8 else 4)"

fun darwin_entries :: "endian \<Rightarrow> bool \<Rightarrow> (nat \<Rightarrow> nat option) \<Rightarrow> bytes \<Rightarrow> nat \<Rightarrow> bytes \<Rightarrow> ArchiveSymbolInfo list result" where
  "darwin_entries host wide member_map strtab 0 ranlib = Inr []"
| "darwin_entries host wide member_map strtab (Suc n) ranlib =
     bind_result (read_num host wide ranlib) (\<lambda>strx.
     bind_result (read_num host wide (drop (num_size wide) ranlib)) (\<lambda>off.
       if length strtab \<le> strx then Inl corrupted
       else case find_pos (\<lambda>c. c = 0) (drop strx strtab) of
         None \<Rightarrow> Inl corrupted
       | Some len \<Rightarrow>
           (case member_map off of
              None \<Rightarrow> Inl corrupted
            | Some idx \<Rightarrow>
                bind_result (darwin_entries host wide member_map strtab n (drop (2 * num_size wide) ranlib)) (\<lambda>symbols.
                  Inr (\<lparr> as_name = take len (drop strx strtab), as_member_idx = idx \<rparr> # symbols)))))"

definition parse_darwin_archive_symtab :: "endian \<Rightarrow> ArchiveMemberInfo list \<Rightarrow> bytes \<Rightarrow> bytes \<Rightarrow> ArchiveSymbolInfo list result" where
  "parse_darwin_archive_symtab host members name data =
     (let wide = is_darwin_symtab_64 name; ent_size = 2 * num_size wide;
          member_map = map_of (zip (map am_header_offset members) [0..<length members])
      in bind_result (read_num host wide data) (\<lambda>ranlib_bytes.
         let data = drop (num_size wide) data in
         if ranlib_bytes mod ent_size \<noteq> 0 \<or> length data < ranlib_bytes then Inl corrupted
         else
           let ranlib_data = take ranlib_bytes data; data = drop ranlib_bytes data in
           bind_result (read_num host wide data) (\<lambda>strtab_bytes.
             let data = drop (num_size wide) data in
             if length data < strtab_bytes then Inl corrupted
             else darwin_entries host wide member_map (take strtab_bytes data) (ranlib_bytes div ent_size) ranlib_data)))"

function read_archive_loop :: "(bytes \<Rightarrow> bytes) \<Rightarrow> bool \<Rightarrow> bytes \<Rightarrow> nat \<Rightarrow> bytes \<Rightarrow> bytes \<times> bytes \<Rightarrow> ArchiveMemberInfo list \<Rightarrow>
    (ArchiveMemberInfo list \<times> bytes \<times> bytes) result" where
  "read_archive_loop path_of is_thin data pos strtab symtab members =
     (if length data \<le> pos then Inr (members, symtab)
      else case ar_header data pos of
        Inl e \<Rightarrow> Inl e
      | Inr None \<Rightarrow> Inr (members, symtab)
      | Inr (Some (off, hdr, body, n)) \<Rightarrow>
          let contents = substr data body n in
          if is_strtab hdr then read_archive_loop path_of is_thin data (body + n) contents symtab members
          else if is_symtab hdr then read_archive_loop path_of is_thin data (body + n) strtab symtab members
          else case read_name hdr strtab contents of
            None \<Rightarrow> Inl corrupted
          | Some (name, name_size) \<Rightarrow>
              if n < name_size then Inl corrupted
              else if is_darwin_symtab_name name then
                read_archive_loop path_of is_thin data (body + n) strtab (name, substr data (body + name_size) (n - name_size)) members
              else read_archive_loop path_of is_thin data (body + n) strtab symtab
                (members @ [\<lparr> am_name = name, am_path = (if is_thin then path_of name else []), am_header_offset = off,
                   am_data_offset = (if is_thin then 0 else body + name_size),
                   am_data_size = (if is_thin then 0 else n - name_size), am_is_thin = is_thin \<rparr>]))"
  by pat_completeness auto
termination
  by (relation "measure (\<lambda>(path_of, is_thin, data, pos, strtab, symtab, members). length data - pos)")
    (auto dest!: ar_header_bounds)

declare read_archive_loop.simps [simp del]

definition read_archive_file :: "endian \<Rightarrow> bool \<Rightarrow> (bytes \<Rightarrow> bytes) \<Rightarrow> bytes \<Rightarrow>
    (ArchiveIndexStatus \<times> ArchiveFileInfo option) result" where
  "read_archive_file host plugin path_of data =
     bind_result (get_file_type host plugin data) (\<lambda>ty.
     bind_result (read_archive_loop path_of (ty = THIN_AR) data 8 [] ([], []) []) (\<lambda>(members, symtab_name, symtab_data).
       if symtab_name = [] then Inr (NO_DARWIN_SYMTAB, None)
       else bind_result (parse_darwin_archive_symtab host members symtab_name symtab_data) (\<lambda>symbols.
         Inr (if symbols = [] then EMPTY_DARWIN_SYMTAB else OK, Some \<lparr> ai_members = members, ai_symbols = symbols \<rparr>))))"

definition get_member :: "(bytes \<Rightarrow> (bytes \<times> bytes) result) \<Rightarrow> bytes \<Rightarrow> ArchiveFileInfo \<Rightarrow> nat \<Rightarrow> (bytes \<times> bytes) result" where
  "get_member must_open data info idx =
     (if length (ai_members info) \<le> idx then Inl OutOfBounds
      else let member = ai_members info ! idx
           in if am_is_thin member then must_open (am_path member)
              else Inr (am_name member, substr data (am_data_offset member) (am_data_size member)))"

end
