(* ===== verification/Archive_Correct.thy ===== *)
theory Archive_Correct
  imports Archive
begin

text \<open>
  What the archive readers promise: numbers are read exactly, reading ends on every input and stays inside the file, the
  two readers of regular archives agree, and reading gives back what an archiver wrote. The reader of thin archives does
  not return on archives with a member.
\<close>

subsection \<open>Numbers\<close>

definition is_digit :: "u8 \<Rightarrow> bool" where
  "is_digit c \<longleftrightarrow> 48 \<le> c \<and> c \<le> 57"

lemma digit_value: "is_digit c \<Longrightarrow> unat (ucast (c - 48) :: u64) = unat (c - 48) \<and> unat (c - 48) < 10"
  by (auto simp: is_digit_def unat_ucast_le unat_sub word_le_nat_alt)

lemma ar_digits_step:
  assumes "is_digit c"
  shows "(- 1 - ucast (c - 48) :: u64) div 10 < val \<longleftrightarrow> 2 ^ 64 \<le> unat val * 10 + unat (c - 48)"
    and "unat val * 10 + unat (c - 48) < 2 ^ 64 \<Longrightarrow>
      unat (val * 10 + ucast (c - 48) :: u64) = unat val * 10 + unat (c - 48)"
proof -
  let ?d = "unat (c - 48)"
  have d: "?d < 10" "unat (ucast (c - 48) :: u64) = ?d" using digit_value [OF assms] by auto
  have "unat (- 1 :: u64) = 2 ^ 64 - 1" by (simp add: unsigned_minus_1_eq_mask mask_eq_exp_minus_1)
  then have "unat (- 1 - ucast (c - 48) :: u64) = 2 ^ 64 - 1 - ?d"
    using d unat_sub [of "ucast (c - 48) :: u64" "- 1"] by simp
  then have "(- 1 - ucast (c - 48) :: u64) div 10 < val \<longleftrightarrow> (2 ^ 64 - 1 - ?d) div 10 < unat val"
    by (simp add: word_less_nat_alt unat_div)
  also have "\<dots> \<longleftrightarrow> 2 ^ 64 \<le> unat val * 10 + ?d" using d by (auto simp: div_less_iff_less_mult)
  finally show "(- 1 - ucast (c - 48) :: u64) div 10 < val \<longleftrightarrow> 2 ^ 64 \<le> unat val * 10 + ?d" .
  show "unat (val * 10 + ucast (c - 48) :: u64) = unat val * 10 + ?d" if "unat val * 10 + ?d < 2 ^ 64"
  proof -
    have m: "unat (val * 10) = unat val * 10" using that unat_mult_lem [of val 10] by simp
    with that d show ?thesis by (simp add: unat_plus_if_size word_size)
  qed
qed

lemma ar_digits_exact:
  "ar_digits val s = Some v \<longleftrightarrow> list_all is_digit s \<and> foldl (\<lambda>a c. a * 10 + unat (c - 48)) (unat val) s = unat v"
proof (induction s arbitrary: val)
  case Nil
  then show ?case by (auto simp: word_unat_eq_iff)
next
  case (Cons c s)
  have mono: "a \<le> foldl (\<lambda>a c. a * 10 + unat (c - 48)) a s" for a :: nat
  proof (induction s arbitrary: a)
    case (Cons c s)
    have "a \<le> a * 10 + unat (c - 48)" by simp
    with Cons [of "a * 10 + unat (c - 48)"] show ?case by (simp only: foldl_Cons order_trans)
  qed simp
  show ?case
  proof (cases "is_digit c")
    case True
    then have "\<not> (c < 48 \<or> 57 < c)" by (auto simp: is_digit_def)
    show ?thesis
    proof (cases "unat val * 10 + unat (c - 48) < 2 ^ 64")
      case small: True
      with True Cons.IH ar_digits_step [OF True, of val] show ?thesis by (auto simp: is_digit_def)
    next
      case False
      then have "unat v < foldl (\<lambda>a c. a * 10 + unat (c - 48)) (unat val * 10 + unat (c - 48)) s"
        using mono [of "unat val * 10 + unat (c - 48)"] unsigned_less [of v, where ?'a = nat] by simp
      with False True ar_digits_step(1) [OF True, of val] show ?thesis by (auto simp: is_digit_def)
    qed
  qed (auto simp: is_digit_def)
qed

lemma strip_spaces_decomp: "\<exists>k. s = strip_spaces s @ replicate k 32"
proof -
  have "rev s = takeWhile (\<lambda>c. c = 32) (rev s) @ dropWhile (\<lambda>c. c = 32) (rev s)" by simp
  moreover have "takeWhile (\<lambda>c. c = 32) (rev s) = replicate (length (takeWhile (\<lambda>c. c = 32) (rev s))) 32"
    by (rule replicate_eqI) (auto dest: set_takeWhileD)
  ultimately have "rev s = replicate (length (takeWhile (\<lambda>c. c = 32) (rev s))) 32 @ rev (strip_spaces s)"
    by (simp add: strip_spaces_def)
  then show ?thesis by (metis rev_append rev_replicate rev_rev_ident)
qed

lemma strip_spaces_pad [simp]: "s = [] \<or> List.last s \<noteq> 32 \<Longrightarrow> strip_spaces (s @ replicate k 32) = s"
  by (induction s rule: rev_induct) (auto simp: strip_spaces_def dropWhile_append)

text \<open>
  A number field of an archive header is read exactly: \<^verbatim>\<open>parse_ar_num\<close> gives a value if and only if the field is
  a decimal number that fits 64 bits, followed by spaces, and then gives that number.
\<close>

theorem parse_ar_num_exact:
  "parse_ar_num s = Some v \<longleftrightarrow>
     (\<exists>ds k. s = ds @ replicate k 32 \<and> ds \<noteq> [] \<and> list_all is_digit ds \<and> digits_val 10 ds = unat v)"
proof
  assume "parse_ar_num s = Some v"
  then have "strip_spaces s \<noteq> []" "ar_digits 0 (strip_spaces s) = Some v"
    by (auto simp: parse_ar_num_def Let_def split: if_splits)
  with strip_spaces_decomp [of s] show "\<exists>ds k. s = ds @ replicate k 32 \<and> ds \<noteq> [] \<and> list_all is_digit ds \<and> digits_val 10 ds = unat v"
    by (auto simp: ar_digits_exact digits_val_def)
next
  assume "\<exists>ds k. s = ds @ replicate k 32 \<and> ds \<noteq> [] \<and> list_all is_digit ds \<and> digits_val 10 ds = unat v"
  then obtain ds k where s: "s = ds @ replicate k 32" "ds \<noteq> []" "list_all is_digit ds" "digits_val 10 ds = unat v" by blast
  have "List.last ds \<noteq> 32" using s(2,3) by (auto simp: list_all_iff is_digit_def dest!: last_in_set)
  with s show "parse_ar_num s = Some v" by (auto simp: parse_ar_num_def ar_digits_exact digits_val_def)
qed

subsection \<open>One iteration\<close>

text \<open>What the readers see at a position: the end, a table to skip, a Darwin symbol table, or a member.\<close>

datatype ar_item = Stop | Strtab nat bytes | Symtab nat | Darwin nat bytes bytes | Member nat nat bytes nat nat

definition ar_item :: "bytes \<Rightarrow> nat \<Rightarrow> bytes \<Rightarrow> ar_item result" where
  "ar_item data pos strtab =
     (if length data \<le> pos then Inr Stop
      else case ar_header data pos of
        Inl e \<Rightarrow> Inl e
      | Inr None \<Rightarrow> Inr Stop
      | Inr (Some (off, hdr, body, n)) \<Rightarrow>
          if is_strtab hdr then Inr (Strtab (body + n) (substr data body n))
          else if is_symtab hdr then Inr (Symtab (body + n))
          else case read_name hdr strtab (substr data body n) of
            None \<Rightarrow> Inl corrupted
          | Some (name, name_size) \<Rightarrow>
              if n < name_size then Inl corrupted
              else if is_darwin_symtab_name name then
                Inr (Darwin (body + n) name (substr data (body + name_size) (n - name_size)))
              else Inr (Member (body + n) off name (body + name_size) (n - name_size)))"

lemma read_fat_item:
  "read_fat_loop data pos strtab vec =
     (case ar_item data pos strtab of
        Inl e \<Rightarrow> Inl e
      | Inr Stop \<Rightarrow> Inr vec
      | Inr (Strtab p s) \<Rightarrow> read_fat_loop data p s vec
      | Inr (Symtab p) \<Rightarrow> read_fat_loop data p strtab vec
      | Inr (Darwin p _ _) \<Rightarrow> read_fat_loop data p strtab vec
      | Inr (Member p off name start n) \<Rightarrow>
          read_fat_loop data p strtab (vec @ [\<lparr> sl_name = name, sl_start = start, sl_size = n \<rparr>]))"
  by (subst read_fat_loop.simps) (auto simp: ar_item_def Let_def split: sum.split option.split prod.split)

lemma read_archive_item:
  "read_archive_loop path_of is_thin data pos strtab symtab members =
     (case ar_item data pos strtab of
        Inl e \<Rightarrow> Inl e
      | Inr Stop \<Rightarrow> Inr (members, symtab)
      | Inr (Strtab p s) \<Rightarrow> read_archive_loop path_of is_thin data p s symtab members
      | Inr (Symtab p) \<Rightarrow> read_archive_loop path_of is_thin data p strtab symtab members
      | Inr (Darwin p name s) \<Rightarrow> read_archive_loop path_of is_thin data p strtab (name, s) members
      | Inr (Member p off name start n) \<Rightarrow>
          read_archive_loop path_of is_thin data p strtab symtab
            (members @ [\<lparr> am_name = name, am_path = (if is_thin then path_of name else []), am_header_offset = off,
               am_data_offset = (if is_thin then 0 else start), am_data_size = (if is_thin then 0 else n),
               am_is_thin = is_thin \<rparr>]))"
  by (subst read_archive_loop.simps) (auto simp: ar_item_def Let_def split: sum.split option.split prod.split)

lemma ar_header_Inl: "ar_header data pos = Inl e \<Longrightarrow> e = corrupted"
  by (auto simp: ar_header_def ar_header_at_def Let_def split: if_splits option.splits)

lemma ar_item_Inl: "ar_item data pos strtab = Inl e \<Longrightarrow> e = corrupted"
  by (auto simp: ar_item_def split: if_splits option.splits sum.splits prod.splits dest: ar_header_Inl)

lemma ar_item_next:
  "ar_item data pos strtab = Inr (Strtab p s) \<Longrightarrow> pos < p \<and> p \<le> length data"
  "ar_item data pos strtab = Inr (Symtab p) \<Longrightarrow> pos < p \<and> p \<le> length data"
  "ar_item data pos strtab = Inr (Darwin p name s) \<Longrightarrow> pos < p \<and> p \<le> length data"
  "ar_item data pos strtab = Inr (Member p off name start n) \<Longrightarrow>
     pos \<le> off \<and> off + 60 \<le> start \<and> start + n = p \<and> p \<le> length data \<and> pos < p"
  by (auto simp: ar_item_def split: if_splits option.splits sum.splits prod.splits dest!: ar_header_bounds)

text \<open>Induction along the positions of an archive.\<close>

lemma ar_induct [case_names step]:
  assumes "\<And>pos. (\<And>p. pos < p \<Longrightarrow> p \<le> length data \<Longrightarrow> P p) \<Longrightarrow> P pos"
  shows "P pos"
proof (induction "length data - pos" arbitrary: pos rule: less_induct)
  case less
  show ?case by (rule assms) (use less in auto)
qed

subsection \<open>Every input is read or rejected\<close>

definition slices_ok :: "bytes \<Rightarrow> nat \<Rightarrow> ArSlice list \<Rightarrow> bool" where
  "slices_ok data pos vec \<longleftrightarrow> sorted_wrt (\<lambda>a b. sl_start a + sl_size a \<le> sl_start b) vec \<and>
     (\<forall>sl \<in> set vec. 8 \<le> sl_start sl \<and> sl_start sl + sl_size sl \<le> min pos (length data))"

lemma slices_ok_append:
  assumes "slices_ok data pos vec" and "8 \<le> pos" and "pos \<le> start" and "start + n = p" and "p \<le> length data"
  shows "slices_ok data p (vec @ [\<lparr> sl_name = name, sl_start = start, sl_size = n \<rparr>])"
  using assms by (force simp: slices_ok_def sorted_wrt_append)

lemma slices_ok_mono: "slices_ok data pos vec \<Longrightarrow> pos \<le> p \<Longrightarrow> slices_ok data p vec"
  by (fastforce simp: slices_ok_def)

lemma read_fat_loop_safe:
  assumes "slices_ok data pos vec" and "8 \<le> pos"
  shows "read_fat_loop data pos strtab vec = Inl corrupted \<or>
    (\<exists>vec'. read_fat_loop data pos strtab vec = Inr vec' \<and> slices_ok data (length data) vec')"
  using assms
proof (induction pos arbitrary: strtab vec rule: ar_induct [of data])
  case (step pos)
  show ?case
  proof (cases "ar_item data pos strtab")
    case (Inl e)
    with ar_item_Inl [OF Inl] show ?thesis by (simp add: read_fat_item)
  next
    case (Inr item)
    show ?thesis
    proof (cases item)
      case Stop
      have "slices_ok data (length data) vec" using step.prems(1) by (auto simp: slices_ok_def)
      with Inr Stop show ?thesis by (simp add: read_fat_item [of data pos])
    next
      case (Strtab p s)
      with Inr ar_item_next(1) [of data pos strtab p s] step.IH [of p vec s] step.prems
          slices_ok_mono [OF step.prems(1), of p] show ?thesis
        by (auto simp: read_fat_item [of data pos])
    next
      case (Symtab p)
      with Inr ar_item_next(2) [of data pos strtab p] step.IH [of p vec strtab] step.prems
          slices_ok_mono [OF step.prems(1), of p] show ?thesis
        by (auto simp: read_fat_item [of data pos])
    next
      case (Darwin p name s)
      with Inr ar_item_next(3) [of data pos strtab p name s] step.IH [of p vec strtab] step.prems
          slices_ok_mono [OF step.prems(1), of p] show ?thesis
        by (auto simp: read_fat_item [of data pos])
    next
      case (Member p off name start n)
      with Inr ar_item_next(4) [of data pos strtab p off name start n] slices_ok_append [OF step.prems, of start n p name]
        step.IH [of p "vec @ [\<lparr> sl_name = name, sl_start = start, sl_size = n \<rparr>]" strtab] step.prems show ?thesis
        by (auto simp: read_fat_item [of data pos])
    qed
  qed
qed

text \<open>
  C30: Reading a regular archive ends on every input and reads only inside the file. It either reports a corrupted archive
  or returns members whose contents lie inside the file, after the magic, in order and without overlap.
\<close>

theorem read_fat_archive_safe:
  "read_fat_archive_members data = Inl corrupted \<or>
   (\<exists>vec. read_fat_archive_members data = Inr vec \<and> sorted_wrt (\<lambda>a b. sl_start a + sl_size a \<le> sl_start b) vec \<and>
      list_all (\<lambda>sl. 8 \<le> sl_start sl \<and> sl_start sl + sl_size sl \<le> length data) vec)"
  using read_fat_loop_safe [of data 8 "[]" "[]"]
  by (auto simp: read_fat_archive_members_def slices_ok_def list_all_iff)

subsection \<open>Thin archives are not read to their end\<close>

text \<open>The position is at a member whose file can be opened.\<close>

definition at_thin_member :: "(bytes \<Rightarrow> 'f result) \<Rightarrow> bytes \<Rightarrow> nat \<Rightarrow> bytes \<Rightarrow> bool" where
  "at_thin_member must_open data pos strtab \<longleftrightarrow> pos < length data \<and>
     (case ar_header data pos of
        Inr (Some (off, hdr, body, n)) \<Rightarrow>
          \<not> is_strtab hdr \<and> \<not> is_symtab hdr \<and> (hdr_starts_with hdr (str ''#1/'') \<or> hdr_starts_with hdr (str ''/'')) \<and>
          (case read_name hdr strtab (substr data body n) of
             Some (name, _) \<Rightarrow> \<not> is_darwin_symtab_name name \<and> (case must_open name of Inr _ \<Rightarrow> True | Inl _ \<Rightarrow> False)
           | None \<Rightarrow> False)
      | _ \<Rightarrow> False)"

lemma ar_header_again:
  assumes "ar_header data pos = Inr (Some (off, hdr, body, n))"
  shows "ar_header data off = Inr (Some (off, hdr, body, n))" and "off < length data"
proof -
  have "off = ar_align pos"
    using assms by (auto simp: ar_header_def ar_header_at_def Let_def split: if_splits option.splits)
  moreover have "ar_align (ar_align pos) = ar_align pos" unfolding ar_align_def by presburger
  ultimately have "ar_header data off = ar_header data pos" by (simp add: ar_header_def)
  with assms show "ar_header data off = Inr (Some (off, hdr, body, n))" by simp
  show "off < length data" using ar_header_bounds [OF assms] by simp
qed

lemma thin_loop_None:
  assumes "at_thin_member must_open data pos strtab"
  shows "read_thin_loop must_open data pos strtab vec = None"
proof -
  have "\<not> at_thin_member must_open data pos strtab" if "read_thin_loop must_open data pos strtab vec = Some r" for r
  proof (rule read_thin_loop.raw_induct [where P = "\<lambda>must_open data pos strtab vec r. \<not> at_thin_member must_open data pos strtab",
        OF _ that], goal_cases)
    case (1 loop must_open data pos strtab vec r)
    show ?case
    proof
      assume m: "at_thin_member must_open data pos strtab"
      then obtain off hdr body n where h: "ar_header data pos = Inr (Some (off, hdr, body, n))" and l: "pos < length data"
        by (cases "ar_header data pos") (auto simp: at_thin_member_def split: option.splits)
      from m h obtain name k where r: "read_name hdr strtab (substr data body n) = Some (name, k)"
        by (cases "read_name hdr strtab (substr data body n)") (auto simp: at_thin_member_def)
      with m h obtain f where f: "must_open name = Inr f"
        by (cases "must_open name") (auto simp: at_thin_member_def)
      have "loop must_open data off strtab (vec @ [f]) = Some r"
        using 1(2) m h l r f by (auto simp: at_thin_member_def Let_def)
      then have "\<not> at_thin_member must_open data off strtab" by (rule 1(1))
      moreover have "at_thin_member must_open data off strtab"
        using m h ar_header_again [OF h] by (simp add: at_thin_member_def)
      ultimately show False by simp
    qed
  qed
  with assms show ?thesis by (cases "read_thin_loop must_open data pos strtab vec") auto
qed


subsection \<open>The index names members\<close>

definition member_slice :: "ArchiveMemberInfo \<Rightarrow> ArSlice" where
  "member_slice am = \<lparr> sl_name = am_name am, sl_start = am_data_offset am, sl_size = am_data_size am \<rparr>"

definition fat_view :: "(ArchiveMemberInfo list \<times> bytes \<times> bytes) result \<Rightarrow> ArSlice list result" where
  "fat_view r = (case r of Inl e \<Rightarrow> Inl e | Inr (members, _) \<Rightarrow> Inr (map member_slice members))"

lemma fat_view_simps [simp]: "fat_view (Inl e) = Inl e" "fat_view (Inr (members, s)) = Inr (map member_slice members)"
  by (simp_all add: fat_view_def)

lemma member_slice_simp [simp]:
  "member_slice \<lparr> am_name = a, am_path = b, am_header_offset = c, am_data_offset = d, am_data_size = e, am_is_thin = f \<rparr> =
     \<lparr> sl_name = a, sl_start = d, sl_size = e \<rparr>"
  by (simp add: member_slice_def)

lemma read_archive_loop_fat:
  "fat_view (read_archive_loop path_of False data pos strtab symtab members) =
   read_fat_loop data pos strtab (map member_slice members)"
proof (induction pos arbitrary: strtab symtab members rule: ar_induct [of data])
  case (step pos)
  show ?case
  proof (cases "ar_item data pos strtab")
    case (Inl e)
    then show ?thesis by (simp add: read_fat_item [of data pos] read_archive_item [of _ _ data pos])
  next
    case (Inr item)
    then show ?thesis using ar_item_next [of data pos strtab]
      by (cases item) (auto simp: read_fat_item [of data pos] read_archive_item [of _ _ data pos] step.IH)
  qed
qed

lemma darwin_entries_sound:
  "darwin_entries host wide member_map strtab n ranlib = Inr symbols \<Longrightarrow>
   length symbols = n \<and> (\<forall>s \<in> set symbols. as_member_idx s \<in> ran member_map)"
  by (induction n arbitrary: ranlib symbols)
    (auto simp: bind_result_eq_Inr ranI split: if_splits option.splits)

text \<open>
  C33: The two readers of regular archives agree. When \<^verbatim>\<open>read_archive_file\<close> returns an archive with its index, the members
  it lists are those \<^verbatim>\<open>read_fat_archive_members\<close> returns, with the same contents, and every symbol of the index refers to
  one of them.
\<close>

theorem archive_readers_agree:
  assumes "get_file_type host plugin data = Inr AR" and "read_archive_file host plugin path_of data = Inr (status, Some info)"
  shows "read_fat_archive_members data = Inr (map member_slice (ai_members info)) \<and>
    (\<forall>s \<in> set (ai_symbols info). as_member_idx s < length (ai_members info)) \<and>
    (status = OK \<longleftrightarrow> ai_symbols info \<noteq> [])"
proof -
  obtain members name symdata symbols where l: "read_archive_loop path_of False data 8 [] ([], []) [] = Inr (members, name, symdata)"
      and p: "parse_darwin_archive_symtab host members name symdata = Inr symbols"
      and i: "info = \<lparr> ai_members = members, ai_symbols = symbols \<rparr>"
      and st: "status = (if symbols = [] then EMPTY_DARWIN_SYMTAB else OK)"
    using assms by (auto simp: read_archive_file_def split: if_splits sum.splits prod.splits simp: bind_result_eq_Inr)
  have "read_fat_archive_members data = Inr (map member_slice members)"
    using read_archive_loop_fat [of path_of data 8 "[]" "([], [])" "[]"] l by (simp add: read_fat_archive_members_def)
  moreover have "as_member_idx s < length members" if "s \<in> set symbols" for s
  proof -
    have "as_member_idx s \<in> ran (map_of (zip (map am_header_offset members) [0..<length members]))"
      using p that by (auto simp: parse_darwin_archive_symtab_def Let_def bind_result_eq_Inr split: if_splits
          dest!: darwin_entries_sound)
    then show ?thesis by (auto simp: ran_def dest!: map_of_SomeD set_zip_rightD)
  qed
  ultimately show ?thesis using i st by simp
qed

subsection \<open>What an archiver writes is what is read\<close>

text \<open>
  The entries of a regular archive: string table, symbol table, and members whose name is in the header field, in front of
  the contents (BSD), or in the string table (System V).
\<close>

datatype ar_entry = E_strtab bytes | E_symtab bytes | E_short bytes bytes | E_bsd bytes bytes | E_sysv nat bytes

definition pad :: "nat \<Rightarrow> bytes \<Rightarrow> bytes" where
  "pad w s = s @ replicate (w - length s) 32"

definition ar_hdr :: "bytes \<Rightarrow> nat \<Rightarrow> bytes" where
  "ar_hdr name n = pad 16 name @ pad 12 (str ''0'') @ pad 6 (str ''0'') @ pad 6 (str ''0'') @ pad 8 (str ''644'') @
     pad 10 (to_string n) @ [0x60, 10]"

fun entry_name :: "ar_entry \<Rightarrow> bytes" where
  "entry_name (E_strtab t) = str ''//''"
| "entry_name (E_symtab t) = str ''/''"
| "entry_name (E_short name b) = name @ str ''/''"
| "entry_name (E_bsd name b) = str ''#1/'' @ to_string (length name)"
| "entry_name (E_sysv off b) = str ''/'' @ to_string off"

fun entry_body :: "ar_entry \<Rightarrow> bytes" where
  "entry_body (E_strtab t) = t"
| "entry_body (E_symtab t) = t"
| "entry_body (E_short name b) = b"
| "entry_body (E_bsd name b) = name @ b"
| "entry_body (E_sysv off b) = b"

definition entry_enc :: "ar_entry \<Rightarrow> bytes" where
  "entry_enc e = ar_hdr (entry_name e) (length (entry_body e)) @ entry_body e @ (if odd (length (entry_body e)) then [10] else [])"

text \<open>The names and contents of the members; the index of a Darwin archive is not a member.\<close>

definition sysv_name :: "bytes \<Rightarrow> nat \<Rightarrow> bytes" where
  "sysv_name strtab off = (case find_sub (drop off strtab) [47, 10] of Some k \<Rightarrow> take k (drop off strtab) | None \<Rightarrow> [])"

definition member_of :: "bytes \<Rightarrow> bytes \<Rightarrow> (bytes \<times> bytes) list" where
  "member_of name b = (if is_darwin_symtab_name name then [] else [(name, b)])"

fun archive_members :: "bytes \<Rightarrow> ar_entry list \<Rightarrow> (bytes \<times> bytes) list" where
  "archive_members strtab [] = []"
| "archive_members strtab (E_strtab t # es) = archive_members t es"
| "archive_members strtab (E_symtab t # es) = archive_members strtab es"
| "archive_members strtab (E_short name b # es) = member_of name b @ archive_members strtab es"
| "archive_members strtab (E_bsd name b # es) = member_of name b @ archive_members strtab es"
| "archive_members strtab (E_sysv off b # es) = member_of (sysv_name strtab off) b @ archive_members strtab es"

text \<open>What an archiver guarantees of an entry: fields have room, and names can be written in their style.\<close>

definition entry_ok :: "bytes \<Rightarrow> ar_entry \<Rightarrow> bool" where
  "entry_ok strtab e \<longleftrightarrow> length (entry_body e) < 10 ^ 10 \<and>
     (case e of
        E_short name b \<Rightarrow> name \<noteq> [] \<and> name \<noteq> str ''#1'' \<and> length name \<le> 15 \<and> 47 \<notin> set name
      | E_bsd name b \<Rightarrow> 0 \<notin> set name
      | E_sysv off b \<Rightarrow> off < 10 ^ 10 \<and> off < length strtab \<and> find_sub (drop off strtab) [47, 10] \<noteq> None
      | _ \<Rightarrow> True)"

fun entries_ok :: "bytes \<Rightarrow> ar_entry list \<Rightarrow> bool" where
  "entries_ok strtab [] \<longleftrightarrow> True"
| "entries_ok strtab (e # es) \<longleftrightarrow> entry_ok strtab e \<and> entries_ok (case e of E_strtab t \<Rightarrow> t | _ \<Rightarrow> strtab) es"

lemma digits_are_digits: "b \<le> 10 \<Longrightarrow> 2 \<le> b \<Longrightarrow> list_all is_digit (digits b n)"
proof (induction n rule: less_induct)
  case (less n)
  have d: "is_digit (48 + of_nat k)" if "k < 10" for k
    using that by (simp add: is_digit_def word_le_nat_alt unat_word_ariths unat_small)
  have m: "n mod b < 10" using less.prems mod_less_divisor [of b n] by linarith
  show ?case
  proof (cases "n < b")
    case True
    with less.prems d [of n] show ?thesis by (simp add: digits.simps [of b n])
  next
    case False
    then have "n div b < n" using less.prems by simp
    with less d [OF m] False show ?thesis by (simp add: digits.simps [of b n])
  qed
qed

lemma length_to_string: "n < 10 ^ 10 \<Longrightarrow> length (to_string n) \<le> 10"
  using length_digits_le [of 10 n 10] by (simp add: to_string_def)

lemma parse_ar_num_pad:
  assumes "n < 10 ^ 10"
  shows "parse_ar_num (to_string n @ replicate k 32) = Some (of_nat n)"
proof -
  have "unat (of_nat n :: u64) = n" using assms by (simp add: unsigned_of_nat take_bit_nat_eq_self)
  then show ?thesis
    unfolding parse_ar_num_exact
    by (intro exI [of _ "to_string n"] exI [of _ k]) (simp add: to_string_def digits_are_digits digits_val_digits)
qed

lemma pad_length [simp]: "length s \<le> w \<Longrightarrow> length (pad w s) = w"
  by (simp add: pad_def)

lemma substr_append [simp]: "substr (xs @ ys) (length xs + k) n = substr ys k n"
  by (simp add: substr_def)

lemma hdr_at:
  assumes "length name \<le> 16" and "n < 10 ^ 10"
  shows "ar_name (ArHdr_at (pre @ ar_hdr name n @ r) (length pre)) = pad 16 name"
    and "ar_size (ArHdr_at (pre @ ar_hdr name n @ r) (length pre)) = pad 10 (to_string n)"
    and "ar_fmag (ArHdr_at (pre @ ar_hdr name n @ r) (length pre)) = [0x60, 10]"
    and "length (ar_hdr name n) = 60"
  using assms length_to_string [of n]
  by (simp_all add: ArHdr_at_def ar_hdr_def substr_def)

lemma entry_name_length: "entry_ok strtab e \<Longrightarrow> length (entry_name e) \<le> 16"
proof (cases e)
  case (E_bsd name b)
  assume "entry_ok strtab e"
  then have "length (to_string (length name)) \<le> 10" using E_bsd by (intro length_to_string) (simp add: entry_ok_def)
  with E_bsd show ?thesis by simp
next
  case (E_sysv off b)
  assume "entry_ok strtab e"
  then have "length (to_string off) \<le> 10" using E_sysv by (intro length_to_string) (simp add: entry_ok_def)
  with E_sysv show ?thesis by simp
qed (auto simp: entry_ok_def)

text \<open>The reader at an entry.\<close>

lemma ar_header_entry:
  assumes "entry_ok strtab e" and "ar_align pos = length pre" and "data = pre @ entry_enc e @ rest"
  obtains hdr where "ar_header data pos = Inr (Some (length pre, hdr, length pre + 60, length (entry_body e)))"
    and "ar_name hdr = pad 16 (entry_name e)" and "substr data (length pre + 60) (length (entry_body e)) = entry_body e"
proof -
  let ?n = "length (entry_body e)" and ?pad = "if odd (length (entry_body e)) then [10 :: u8] else []"
  have n: "?n < 10 ^ 10" using assms(1) by (simp add: entry_ok_def)
  note name = entry_name_length [OF assms(1)]
  note h = hdr_at(1-3) [OF name n, of pre "entry_body e @ ?pad @ rest"] hdr_at(4) [OF name n]
  have d: "data = pre @ ar_hdr (entry_name e) ?n @ entry_body e @ ?pad @ rest" using assms(3) by (simp add: entry_enc_def)
  have sz: "get_size (ArHdr_at data (length pre)) = Some (of_nat ?n)" "unat (of_nat ?n :: u64) = ?n"
    using n h(2) d parse_ar_num_pad [OF n] by (simp_all add: get_size_def pad_def unsigned_of_nat take_bit_nat_eq_self)
  have f: "has_valid_fmag (ArHdr_at data (length pre))" using h(3) by (simp add: has_valid_fmag_def d)
  have len: "length data = length pre + 60 + ?n + length ?pad + length rest" using d h(4) by simp
  have "ar_header data pos = Inr (Some (length pre, ArHdr_at data (length pre), length pre + 60, ?n))"
    using sz f by (simp add: ar_header_def assms(2) ar_header_at_def Let_def len)
  moreover have "substr data (length pre + 60) ?n = entry_body e"
    using d h(4) by (simp add: substr_def)
  ultimately show ?thesis using that h(1) d by metis
qed

lemma starts_with_pad:
  "length s \<le> length f \<Longrightarrow> ar_name hdr = pad 16 f \<Longrightarrow> hdr_starts_with hdr s \<longleftrightarrow> take (length s) f = s"
  by (simp add: hdr_starts_with_def pad_def)

lemma to_string_hd: "is_digit (hd (to_string n))" "to_string n \<noteq> []"
  using digits_are_digits [of 10 n] by (auto simp: to_string_def list_all_iff)

lemma number_name:
  assumes "ar_name hdr = pad 16 (p @ to_string n)" and "n < 10 ^ 10"
  shows "parse_ar_num (drop (length p) (ar_name hdr)) = Some (of_nat n)"
  using parse_ar_num_pad [OF assms(2)] assms(1) by (simp add: pad_def)

lemma ar_item_member:
  assumes "pos < length data" and "ar_header data pos = Inr (Some (off, hdr, body, n))" and "\<not> is_strtab hdr" and "\<not> is_symtab hdr"
    and "read_name hdr strtab (substr data body n) = Some (name, k)" and "k \<le> n"
  shows "ar_item data pos strtab =
    Inr (if is_darwin_symtab_name name then Darwin (body + n) name (substr data (body + k) (n - k))
         else Member (body + n) off name (body + k) (n - k))"
  using assms by (simp add: ar_item_def)

lemma find_pos_append: "\<forall>x \<in> set xs. \<not> P x \<Longrightarrow> P y \<Longrightarrow> find_pos P (xs @ y # ys) = Some (length xs)"
  by (induction xs) auto

lemma str_prefixes:
  "str ''// '' = [47, 47, 32]" "str ''/ '' = [47, 32]" "str ''/SYM64/ '' = [47, 83, 89, 77, 54, 52, 47, 32]" "str ''/'' = [47]"
  "str ''#1/'' = [35, 49, 47]" "str ''#1'' = [35, 49]" "str ''//'' = [47, 47]"
  by (simp_all add: str_def)

lemmas hdr_kinds = is_strtab_def is_symtab_def hdr_starts_with_def str_prefixes

lemma strtab_kind: "ar_name hdr = pad 16 (str ''//'') \<Longrightarrow> is_strtab hdr"
  by (simp add: hdr_kinds pad_def eval_nat_numeral)

lemma symtab_kind: "ar_name hdr = pad 16 (str ''/'') \<Longrightarrow> is_symtab hdr \<and> \<not> is_strtab hdr"
proof -
  have "replicate 15 (32 :: u8) = 32 # replicate 14 32" by (simp add: replicate_Suc [symmetric] del: replicate_Suc)
  then show "ar_name hdr = pad 16 (str ''/'') \<Longrightarrow> ?thesis" by (simp add: hdr_kinds pad_def)
qed

lemma short_kind:
  assumes "ar_name hdr = pad 16 (name @ str ''/'')" and "name \<noteq> []" and "name \<noteq> str ''#1''" and "47 \<notin> set name"
  shows "\<not> is_strtab hdr" "\<not> is_symtab hdr" "read_name hdr strtab body = Some (name, 0)"
proof -
  obtain c cs where c: "name = c # cs" "c \<noteq> 47" using assms(2,4) by (cases name) auto
  show "\<not> is_strtab hdr" "\<not> is_symtab hdr" using assms(1) c by (simp_all add: hdr_kinds pad_def)
  have "\<not> hdr_starts_with hdr (str ''#1/'')"
    using assms c by (cases cs; cases "tl cs") (auto simp: hdr_kinds pad_def)
  moreover have "\<not> hdr_starts_with hdr (str ''/'')" using assms(1) c by (simp add: hdr_kinds pad_def)
  moreover have "find_pos (\<lambda>c. c = 47) (ar_name hdr) = Some (length name)"
    using find_pos_append [of name "\<lambda>c. c = 47" 47 "replicate (16 - length (name @ str ''/'')) 32"] assms(1,4)
    by (auto simp: pad_def str_prefixes)
  ultimately show "read_name hdr strtab body = Some (name, 0)" using assms(1) by (simp add: read_name_def pad_def)
qed

lemma bsd_kind:
  assumes "ar_name hdr = pad 16 (str ''#1/'' @ to_string (length name))" and "length name < 10 ^ 10" and "0 \<notin> set name"
  shows "\<not> is_strtab hdr" "\<not> is_symtab hdr" "read_name hdr strtab (name @ b) = Some (name, length name)"
proof -
  show "\<not> is_strtab hdr" "\<not> is_symtab hdr" using assms(1) by (simp_all add: hdr_kinds pad_def)
  have s: "hdr_starts_with hdr (str ''#1/'')" using assms(1) by (simp add: hdr_kinds pad_def)
  have "unat (of_nat (length name) :: u64) = length name" using assms(2) by (simp add: unsigned_of_nat take_bit_nat_eq_self)
  moreover have "get_bsd_name_len hdr = Some (of_nat (length name))"
    using s number_name [OF assms(1,2)] by (simp add: get_bsd_name_len_def numeral_3_eq_3)
  moreover have "find_pos (\<lambda>c. c = 0) name = None" using assms(3) by (auto simp: find_pos_None)
  ultimately show "read_name hdr strtab (name @ b) = Some (name, length name)" using s by (simp add: read_name_def)
qed

lemma sysv_kind:
  assumes "ar_name hdr = pad 16 (str ''/'' @ to_string off)" and "off < 10 ^ 10" and "off < length strtab"
    and "find_sub (drop off strtab) [47, 10] \<noteq> None"
  shows "\<not> is_strtab hdr" "\<not> is_symtab hdr" "read_name hdr strtab body = Some (sysv_name strtab off, 0)"
proof -
  obtain c cs where c: "to_string off = c # cs" "is_digit c" using to_string_hd [of off] by (cases "to_string off") auto
  then have d: "c \<noteq> 47" "c \<noteq> 32" "c \<noteq> 83" by (auto simp: is_digit_def)
  show "\<not> is_strtab hdr" "\<not> is_symtab hdr" using assms(1) c d by (simp_all add: hdr_kinds pad_def)
  have "\<not> hdr_starts_with hdr (str ''#1/'')" and s: "hdr_starts_with hdr (str ''/'')"
    using assms(1) by (simp_all add: hdr_kinds pad_def)
  moreover have "unat (of_nat off :: u64) = off" using assms(2) by (simp add: unsigned_of_nat take_bit_nat_eq_self)
  moreover have "get_sysv_name_offset hdr = Some (of_nat off)"
    using s number_name [OF assms(1,2)] by (simp add: get_sysv_name_offset_def str_prefixes)
  ultimately show "read_name hdr strtab body = Some (sysv_name strtab off, 0)"
    using assms(3,4) by (auto simp: read_name_def sysv_name_def)
qed

definition slice_view :: "bytes \<Rightarrow> ArSlice \<Rightarrow> bytes \<times> bytes" where
  "slice_view data sl = (sl_name sl, substr data (sl_start sl) (sl_size sl))"

lemma substr_drop: "substr d (p + k) (n - k) = drop k (substr d p n)"
  by (simp add: substr_def drop_take ac_simps)

lemma ar_item_entry:
  assumes "entry_ok strtab e" and "ar_align pos = length pre" and "data = pre @ entry_enc e @ rest" and "pos < length data"
  defines "q \<equiv> length pre + 60 + length (entry_body e)"
  shows "(\<exists>t. e = E_strtab t \<and> ar_item data pos strtab = Inr (Strtab q t)) \<or>
    (\<exists>t. e = E_symtab t \<and> ar_item data pos strtab = Inr (Symtab q)) \<or>
    (\<exists>name b start n. archive_members strtab (e # es) = member_of name b @ archive_members strtab es \<and> (\<forall>t. e \<noteq> E_strtab t) \<and>
       substr data start n = b \<and>
       ar_item data pos strtab = Inr (if is_darwin_symtab_name name then Darwin q name b else Member q (length pre) name start n))"
proof -
  obtain hdr where h: "ar_header data pos = Inr (Some (length pre, hdr, length pre + 60, length (entry_body e)))"
    and n: "ar_name hdr = pad 16 (entry_name e)" and b: "substr data (length pre + 60) (length (entry_body e)) = entry_body e"
    using assms(1-3) by (rule ar_header_entry)
  note ok = assms(1) [unfolded entry_ok_def]
  note it = ar_item_member [OF assms(4) h]
  show ?thesis
  proof (cases e)
    case (E_strtab t)
    with h n b assms(4) strtab_kind [of hdr] show ?thesis by (auto simp: ar_item_def q_def)
  next
    case (E_symtab t)
    with h n b assms(4) symtab_kind [of hdr] show ?thesis by (auto simp: ar_item_def q_def)
  next
    case (E_short name c)
    have k: "\<not> is_strtab hdr" "\<not> is_symtab hdr" "read_name hdr strtab (substr data (length pre + 60) (length (entry_body e))) = Some (name, 0)"
      using short_kind [of hdr name] n ok E_short by auto
    have "ar_item data pos strtab = Inr (if is_darwin_symtab_name name then Darwin q name c
        else Member q (length pre) name (length pre + 60) (length c))"
      using it [OF k] E_short b by (simp add: q_def)
    with b E_short show ?thesis by fastforce
  next
    case (E_bsd name c)
    have k: "\<not> is_strtab hdr" "\<not> is_symtab hdr" "read_name hdr strtab (substr data (length pre + 60) (length (entry_body e))) = Some (name, length name)"
      using bsd_kind [of hdr name] n ok E_bsd b by auto
    have s: "substr data (length pre + 60 + length name) (length c) = c"
      using substr_drop [of data "length pre + 60" "length name" "length (name @ c)"] b E_bsd by simp
    have "ar_item data pos strtab = Inr (if is_darwin_symtab_name name then Darwin q name c
        else Member q (length pre) name (length pre + 60 + length name) (length c))"
      using it [OF k] E_bsd s by (simp add: q_def)
    with s E_bsd show ?thesis by fastforce
  next
    case (E_sysv off c)
    have k: "\<not> is_strtab hdr" "\<not> is_symtab hdr"
      "read_name hdr strtab (substr data (length pre + 60) (length (entry_body e))) = Some (sysv_name strtab off, 0)"
      using sysv_kind [of hdr off strtab] n ok E_sysv by auto
    have "ar_item data pos strtab = Inr (if is_darwin_symtab_name (sysv_name strtab off) then Darwin q (sysv_name strtab off) c
        else Member q (length pre) (sysv_name strtab off) (length pre + 60) (length c))"
      using it [OF k] E_sysv b by (simp add: q_def)
    with b E_sysv show ?thesis by fastforce
  qed
qed

lemma ar_align_next:
  assumes "ar_align pos = length pre" and "length (entry_name e) \<le> 16" and "length (entry_body e) < 10 ^ 10"
  shows "ar_align (length pre + 60 + length (entry_body e)) = length (pre @ entry_enc e)"
proof -
  have "even (length pre)" using assms(1) unfolding ar_align_def by presburger
  moreover have "length (entry_enc e) = 60 + length (entry_body e) + (if odd (length (entry_body e)) then 1 else 0)"
    using hdr_at(4) [OF assms(2,3)] by (simp add: entry_enc_def)
  ultimately show ?thesis by (cases "odd (length (entry_body e))") (simp_all add: ar_align_def, presburger+)
qed

lemma read_fat_entries:
  assumes "entries_ok strtab es" and "data = pre @ concat (map entry_enc es)" and "ar_align pos = length pre" and "pos \<le> length data"
  shows "\<exists>vec'. read_fat_loop data pos strtab vec = Inr (vec @ vec') \<and> map (slice_view data) vec' = archive_members strtab es"
  using assms
proof (induction es arbitrary: pre pos strtab vec)
  case Nil
  then have "ar_item data pos strtab = Inr Stop" by (simp add: ar_item_def ar_header_def ar_header_at_def)
  then show ?case by (simp add: read_fat_item [of data pos])
next
  case (Cons e es)
  let ?q = "length pre + 60 + length (entry_body e)" and ?rest = "concat (map entry_enc es)"
  have ok: "entry_ok strtab e" using Cons.prems(1) by simp
  have d: "data = pre @ entry_enc e @ ?rest" using Cons.prems(2) by simp
  have len: "length (entry_body e) < 10 ^ 10" using ok by (simp add: entry_ok_def)
  note al = ar_align_next [OF Cons.prems(3) entry_name_length [OF ok] len]
  have "length (pre @ entry_enc e) \<le> length data" using d by simp
  then have q: "?q \<le> length data" using al by (simp add: ar_align_def split: if_splits)
  have "60 \<le> length (entry_enc e)" using hdr_at(4) [OF entry_name_length [OF ok] len] by (simp add: entry_enc_def)
  moreover have "length data = length pre + length (entry_enc e) + length ?rest" using d by simp
  moreover have "pos \<le> length pre" using Cons.prems(3) by (simp add: ar_align_def split: if_splits)
  ultimately have "pos < length data" by linarith
  note item = ar_item_entry [OF ok Cons.prems(3) d this, of es]
  have IH: "\<exists>vec'. read_fat_loop data ?q s v = Inr (v @ vec') \<and> map (slice_view data) vec' = archive_members s es"
    if "entries_ok s es" for s v
    using Cons.IH [of s "pre @ entry_enc e" ?q v] that al q d by simp
  from item show ?case
  proof (elim disjE exE conjE)
    fix t assume "e = E_strtab t" "ar_item data pos strtab = Inr (Strtab ?q t)"
    with IH [of t vec] Cons.prems(1) show ?thesis by (simp add: read_fat_item [of data pos])
  next
    fix t assume "e = E_symtab t" "ar_item data pos strtab = Inr (Symtab ?q)"
    with IH [of strtab vec] Cons.prems(1) show ?thesis by (simp add: read_fat_item [of data pos])
  next
    fix name b start n
    assume a: "archive_members strtab (e # es) = member_of name b @ archive_members strtab es" "\<forall>t. e \<noteq> E_strtab t"
      "substr data start n = b"
      "ar_item data pos strtab = Inr (if is_darwin_symtab_name name then Darwin ?q name b else Member ?q (length pre) name start n)"
    have ok': "entries_ok strtab es" using Cons.prems(1) a(2) by (cases e) auto
    show ?thesis
    proof (cases "is_darwin_symtab_name name")
      case True
      with a IH [OF ok', of vec] show ?thesis by (simp add: read_fat_item [of data pos] member_of_def)
    next
      case False
      let ?sl = "\<lparr> sl_name = name, sl_start = start, sl_size = n \<rparr>"
      obtain vec' where "read_fat_loop data ?q strtab (vec @ [?sl]) = Inr ((vec @ [?sl]) @ vec')"
          "map (slice_view data) vec' = archive_members strtab es" using IH [OF ok'] by blast
      with a False show ?thesis
        by (intro exI [of _ "?sl # vec'"]) (simp add: read_fat_item [of data pos] member_of_def slice_view_def [of data ?sl])
    qed
  qed
qed

text \<open>
  C29: Reading a regular archive gives back what an archiver wrote. For every sequence of entries, with names in the header
  field, in front of the contents or in a string table, \<^verbatim>\<open>read_fat_archive_members\<close> returns the members, each with its
  name and contents, in order, and leaves out string tables, symbol tables and the index of a Darwin archive.
\<close>

theorem fat_archive_roundtrip:
  assumes "length magic = 8" and "entries_ok [] es"
  shows "\<exists>vec. read_fat_archive_members (magic @ concat (map entry_enc es)) = Inr vec \<and>
    map (slice_view (magic @ concat (map entry_enc es))) vec = archive_members [] es"
  using read_fat_entries [OF assms(2) refl, where pre = magic and pos = 8 and vec = "[]"] assms(1)
  by (simp add: read_fat_archive_members_def ar_align_def)

definition ex_archive :: "ar_entry list" where
  "ex_archive = [E_symtab [0, 0, 0, 0], E_strtab (str ''a_rather_long_name.o/'' @ [10]), E_short (str ''a.o'') [1, 2, 3],
     E_sysv 0 [4, 5], E_bsd (str ''b.o'') [6]]"

theorem fat_archive_roundtrip_witness:
  "\<exists>vec. read_fat_archive_members (str ''!<arch>'' @ [10] @ concat (map entry_enc ex_archive)) = Inr vec \<and>
    map (slice_view (str ''!<arch>'' @ [10] @ concat (map entry_enc ex_archive))) vec =
      [(str ''a.o'', [1, 2, 3]), (str ''a_rather_long_name.o'', [4, 5]), (str ''b.o'', [6])]"
proof -
  have "entries_ok [] ex_archive" by (simp add: ex_archive_def entry_ok_def str_def find_sub.simps)
  moreover have "archive_members [] ex_archive =
      [(str ''a.o'', [1, 2, 3]), (str ''a_rather_long_name.o'', [4, 5]), (str ''b.o'', [6])]" by code_simp
  ultimately show ?thesis using fat_archive_roundtrip [of "str ''!<arch>'' @ [10]" ex_archive] by simp
qed

definition ex_thin :: bytes where
  "ex_thin = str ''!<thin>'' @ [10] @ entry_enc (E_strtab (str ''a.o/'' @ [10])) @ entry_enc (E_sysv 0 [])"


definition ex_darwin :: bytes where
  "ex_darwin = str ''!<arch>'' @ [10] @ entry_enc (E_bsd (str ''__.SYMDEF'') ([8, 0, 0, 0, 0, 0, 0, 0, 98, 0, 0, 0, 4, 0, 0, 0] @ str ''foo'' @ [0])) @
     entry_enc (E_short (str ''a.o'') [1, 2])"

definition ex_info :: "ArchiveIndexStatus \<times> ArchiveFileInfo option" where
  "ex_info = (case read_archive_file LittleHost False (\<lambda>n. n) ex_darwin of Inr r \<Rightarrow> r | Inl _ \<Rightarrow> (NO_DARWIN_SYMTAB, None))"

theorem archive_readers_agree_witness:
  "fst ex_info = OK \<and> read_fat_archive_members ex_darwin = Inr (map member_slice (ai_members (the (snd ex_info))))"
proof -
  have "read_archive_file LittleHost False (\<lambda>n. n) ex_darwin = Inr (OK, Some (the (snd ex_info)))" by code_simp
  moreover have "get_file_type LittleHost False ex_darwin = Inr AR" by code_simp
  ultimately have "read_fat_archive_members ex_darwin = Inr (map member_slice (ai_members (the (snd ex_info))))"
    using archive_readers_agree by blast
  moreover have "fst ex_info = OK" by code_simp
  ultimately show ?thesis by blast
qed

end
