(* ===== verification/Elf_ICF.thy ===== *)
theory Elf_ICF
  imports Elf_GC Integers "HOL-Library.List_Lexorder"
begin

text \<open>
  Identical code folding (\<^verbatim>\<open>src/elf/icf.cc\<close>). The input sections of all object files are one list, and a pointer to a
  section or to a symbol is an index. SHA-256 is a parameter: \<open>sha0\<close> is the digest of a string of bytes, \<open>sha1\<close> that of
  a sequence of digests.
\<close>

subsection \<open>Sections\<close>

text \<open>Where a symbol is defined: \<^verbatim>\<open>get_input_section()\<close>, \<^verbatim>\<open>get_frag()\<close> or neither. \<open>iy_file\<close> tells whether it has a file, and \<open>iy_dso\<close>, which
  the code does not look at, whether that is a shared library.\<close>

datatype icf_origin = In_section nat | In_fragment u64 | Elsewhere

record IcfSym =
  iy_file :: bool
  iy_dso :: bool
  iy_origin :: icf_origin
  iy_value :: u64

record IcfRel =
  ir_offset :: u64
  ir_type :: u32
  ir_sym :: nat
  ir_addend :: u64

record IcfCie =
  ii_contents :: bytes
  ii_input_offset :: u32
  ii_rels :: "IcfRel list"

record IcfFde =
  ie_cie :: nat
  ie_contents :: bytes
  ie_input_offset :: u32
  ie_rels :: "IcfRel list"

record IcfSec =
  ix_name :: bytes
  ix_type :: u32
  ix_flags :: u64
  ix_size :: u64
  ix_contents :: bytes
  ix_address_significant :: bool
  ix_alive :: bool
  ix_priority :: int
  ix_rels :: "IcfRel list"
  ix_fdes :: "IcfFde list"

record IcfCtx =
  ic_secs :: "IcfSec option list"
  ic_syms :: "IcfSym list"
  ic_cies :: "IcfCie list"
  ic_icf_all :: bool
  ic_ignore_data_address_equality :: bool

abbreviation sec_at :: "IcfCtx \<Rightarrow> nat \<Rightarrow> IcfSec" where
  "sec_at ctx i \<equiv> the (ic_secs ctx ! i)"

subsection \<open>Eligible sections\<close>

definition rel_key :: "u32 \<Rightarrow> IcfRel \<Rightarrow> u64 \<times> u32 \<times> nat \<times> u64" where
  "rel_key input_offset r = (ir_offset r - ucast input_offset, ir_type r, ir_sym r, ir_addend r)"

definition cie_equals :: "IcfCie \<Rightarrow> IcfCie \<Rightarrow> bool" where
  "cie_equals a b \<longleftrightarrow> ii_contents a = ii_contents b \<and>
     map (rel_key (ii_input_offset a)) (ii_rels a) = map (rel_key (ii_input_offset b)) (ii_rels b)"

text \<open>The numbers given to the CIEs; equal ones get the same.\<close>

fun uniquify_cies :: "IcfCie list \<Rightarrow> IcfCie list \<Rightarrow> nat list" where
  "uniquify_cies cies [] = []"
| "uniquify_cies cies (c # cs) =
     (case find_pos (cie_equals c) cies of
        Some i \<Rightarrow> i # uniquify_cies cies cs
      | None \<Rightarrow> length cies # uniquify_cies (cies @ [c]) cs)"

definition is_eligible :: "IcfCtx \<Rightarrow> IcfSec \<Rightarrow> bool" where
  "is_eligible ctx isec \<longleftrightarrow>
     (let flags = ix_flags isec; name = ix_name isec;
          is_alloc = (flags AND ucast SHF_ALLOC \<noteq> 0);
          is_exec = (flags AND ucast SHF_EXECINSTR \<noteq> 0 \<or> ic_ignore_data_address_equality ctx);
          is_relro = (name = str ''.data.rel.ro'' \<or> starts_with name (str ''.data.rel.ro.''));
          is_readonly = (flags AND ucast SHF_WRITE = 0 \<or> is_relro);
          is_bss = (ix_type isec = SHT_NOBITS);
          is_empty = (ix_size isec = 0);
          is_init = (ix_type isec = SHT_INIT_ARRAY \<or> name = str ''.init'');
          is_fini = (ix_type isec = SHT_FINI_ARRAY \<or> name = str ''.fini'');
          is_enumerable = is_c_identifier name;
          is_addr_taken = (\<not> ic_icf_all ctx \<and> ix_address_significant isec)
      in is_alloc \<and> is_exec \<and> is_readonly \<and> \<not> is_bss \<and> \<not> is_empty \<and> \<not> is_init \<and> \<not> is_fini \<and> \<not> is_enumerable \<and> \<not> is_addr_taken)"

definition is_leaf :: "IcfSec \<Rightarrow> bool" where
  "is_leaf isec \<longleftrightarrow> ix_rels isec = [] \<and> (\<forall>fde \<in> set (ix_fdes isec). length (ie_rels fde) \<le> 1)"

definition candidate :: "IcfCtx \<Rightarrow> nat \<Rightarrow> bool" where
  "candidate ctx i \<longleftrightarrow> i < length (ic_secs ctx) \<and>
     (case ic_secs ctx ! i of None \<Rightarrow> False | Some isec \<Rightarrow> ix_alive isec \<and> is_eligible ctx isec)"

definition icf_leaf :: "IcfCtx \<Rightarrow> nat \<Rightarrow> bool" where
  "icf_leaf ctx i \<longleftrightarrow> candidate ctx i \<and> is_leaf (sec_at ctx i)"

definition icf_eligible :: "IcfCtx \<Rightarrow> nat \<Rightarrow> bool" where
  "icf_eligible ctx i \<longleftrightarrow> candidate ctx i \<and> \<not> is_leaf (sec_at ctx i)"

subsection \<open>Leaders\<close>

definition update_leader :: "IcfCtx \<Rightarrow> nat \<Rightarrow> nat \<Rightarrow> nat" where
  "update_leader ctx leader i = (if ix_priority (sec_at ctx i) < ix_priority (sec_at ctx leader) then i else leader)"

text \<open>\<^verbatim>\<open>emplace\<close> into a concurrent map, then \<open>update_leader\<close>; the sections come in any order.\<close>

definition emplace_leader :: "IcfCtx \<Rightarrow> (nat \<Rightarrow> 'k) \<Rightarrow> nat \<Rightarrow> ('k \<rightharpoonup> nat) \<Rightarrow> ('k \<rightharpoonup> nat)" where
  "emplace_leader ctx key i m =
     m (key i \<mapsto> (case m (key i) of None \<Rightarrow> i | Some leader \<Rightarrow> update_leader ctx leader i))"

text \<open>The key of a leaf section: \<open>LeafEq\<close>.\<close>

definition leaf_key :: "IcfCtx \<Rightarrow> nat \<Rightarrow> bytes \<times> bytes list" where
  "leaf_key ctx i = (ix_contents (sec_at ctx i), map (\<lambda>fde. drop 8 (ie_contents fde)) (ix_fdes (sec_at ctx i)))"

text \<open>\<open>order\<close> is the order in which the threads come to the sections.\<close>

definition merge_leaf_nodes :: "IcfCtx \<Rightarrow> nat list \<Rightarrow> nat option list" where
  "merge_leaf_nodes ctx order =
     (let m = fold (emplace_leader ctx (leaf_key ctx)) (filter (icf_leaf ctx) order) Map.empty
      in map (\<lambda>i. if icf_leaf ctx i then m (leaf_key ctx i) else None) [0..<length (ic_secs ctx)])"

subsection \<open>Digests of sections\<close>

definition hash_string :: "bytes \<Rightarrow> bytes" where
  "hash_string s = le_bytes 8 (of_nat (length s) :: u64) @ s"

definition hash_ptr :: "nat \<Rightarrow> bytes" where
  "hash_ptr i = le_bytes 8 (of_nat i :: u64)"

text \<open>What is hashed of a symbol apart from its value.\<close>

datatype sym_key = Undefined_symbol nat | Fragment u64 | No_section | Leader nat | Eligible | Section nat

definition symbol_key :: "IcfCtx \<Rightarrow> nat option list \<Rightarrow> nat \<Rightarrow> sym_key" where
  "symbol_key ctx leaders s =
     (let sym = ic_syms ctx ! s
      in if \<not> iy_file sym then Undefined_symbol s
         else case iy_origin sym of
           In_fragment frag \<Rightarrow> Fragment frag
         | Elsewhere \<Rightarrow> No_section
         | In_section i \<Rightarrow>
             (case leaders ! i of
                Some leader \<Rightarrow> Leader leader
              | None \<Rightarrow> if icf_eligible ctx i then Eligible else Section i))"

fun key_bytes :: "sym_key \<Rightarrow> bytes" where
  "key_bytes (Undefined_symbol s) = 0x31 # hash_ptr s"
| "key_bytes (Fragment frag) = 0x32 # le_bytes 8 frag"
| "key_bytes No_section = [0x33]"
| "key_bytes (Leader i) = 0x34 # hash_ptr i"
| "key_bytes Eligible = [0x35]"
| "key_bytes (Section i) = 0x36 # hash_ptr i"

definition hash_symbol :: "IcfCtx \<Rightarrow> nat option list \<Rightarrow> nat \<Rightarrow> bytes" where
  "hash_symbol ctx leaders s = key_bytes (symbol_key ctx leaders s) @ le_bytes 8 (iy_value (ic_syms ctx ! s))"

definition hash_fde_rel :: "IcfCtx \<Rightarrow> nat option list \<Rightarrow> u32 \<Rightarrow> IcfRel \<Rightarrow> bytes" where
  "hash_fde_rel ctx leaders input_offset r =
     hash_symbol ctx leaders (ir_sym r) @ le_bytes 4 (ir_type r) @ le_bytes 8 (ir_offset r - ucast input_offset) @
     le_bytes 8 (ir_addend r)"

definition hash_fde :: "IcfCtx \<Rightarrow> nat list \<Rightarrow> nat option list \<Rightarrow> IcfFde \<Rightarrow> bytes" where
  "hash_fde ctx cie_idx leaders fde =
     le_bytes 4 (of_nat (cie_idx ! ie_cie fde) :: u32) @ hash_string (drop 8 (ie_contents fde)) @
     le_bytes 8 (of_nat (length (ie_rels fde)) :: u64) @
     concat (map (hash_fde_rel ctx leaders (ie_input_offset fde)) (tl (ie_rels fde)))"

definition hash_rel :: "IcfCtx \<Rightarrow> nat option list \<Rightarrow> IcfRel \<Rightarrow> bytes" where
  "hash_rel ctx leaders r =
     le_bytes 8 (ir_offset r) @ le_bytes 4 (ir_type r) @ le_bytes 8 (ir_addend r) @ hash_symbol ctx leaders (ir_sym r)"

definition section_bytes :: "IcfCtx \<Rightarrow> nat list \<Rightarrow> nat option list \<Rightarrow> nat \<Rightarrow> bytes" where
  "section_bytes ctx cie_idx leaders i =
     (let isec = sec_at ctx i
      in hash_string (ix_contents isec) @ le_bytes 8 (ix_flags isec) @
         le_bytes 8 (of_nat (length (ix_fdes isec)) :: u64) @ le_bytes 8 (of_nat (length (ix_rels isec)) :: u64) @
         concat (map (hash_fde ctx cie_idx leaders) (ix_fdes isec)) @ concat (map (hash_rel ctx leaders) (ix_rels isec)))"

definition compute_digest :: "(bytes \<Rightarrow> bytes) \<Rightarrow> IcfCtx \<Rightarrow> nat list \<Rightarrow> nat option list \<Rightarrow> nat \<Rightarrow> bytes" where
  "compute_digest sha0 ctx cie_idx leaders i = sha0 (section_bytes ctx cie_idx leaders i)"

subsection \<open>The graph\<close>

definition gather_sections :: "IcfCtx \<Rightarrow> nat list" where
  "gather_sections ctx = filter (icf_eligible ctx) [0..<length (ic_secs ctx)]"

text \<open>The eligible sections that a section refers to, in the order of its relocations.\<close>

definition icf_targets :: "IcfCtx \<Rightarrow> nat \<Rightarrow> nat list" where
  "icf_targets ctx i =
     List.map_filter (\<lambda>r. case iy_origin (ic_syms ctx ! ir_sym r) of
         In_section j \<Rightarrow> if icf_eligible ctx j then Some j else None
       | _ \<Rightarrow> None) (ix_rels (sec_at ctx i))"

text \<open>\<^verbatim>\<open>icf_idx\<close>, the position among the gathered sections.\<close>

definition icf_idx :: "nat list \<Rightarrow> nat \<Rightarrow> nat" where
  "icf_idx sections i = the (find_pos (\<lambda>j. j = i) sections)"

fun prefix_sums :: "nat \<Rightarrow> nat list \<Rightarrow> nat list" where
  "prefix_sums n [] = []"
| "prefix_sums n (k # ks) = n # prefix_sums (n + k) ks"

definition gather_edges :: "IcfCtx \<Rightarrow> nat list \<Rightarrow> nat list \<times> nat list" where
  "gather_edges ctx sections =
     (concat (map (\<lambda>i. map (icf_idx sections) (icf_targets ctx i)) sections),
      prefix_sums 0 (map (\<lambda>i. length (icf_targets ctx i)) sections))"

definition edges_of :: "nat list \<Rightarrow> nat list \<Rightarrow> nat \<Rightarrow> nat list" where
  "edges_of edges edge_indices i =
     (let begin = edge_indices ! i; end' = (if i + 1 = length edge_indices then length edges else edge_indices ! (i + 1))
      in take (end' - begin) (drop begin edges))"

subsection \<open>Propagation\<close>

text \<open>The two arrays of digests that take turns, and the nodes that do not change any more.\<close>

record IcfRound =
  rd_cur :: "bytes list"
  rd_other :: "bytes list"
  rd_converged :: "bool list"

definition next_digest :: "(bytes list \<Rightarrow> bytes) \<Rightarrow> bytes list \<Rightarrow> (nat \<Rightarrow> nat list) \<Rightarrow> IcfRound \<Rightarrow> nat \<Rightarrow> bytes" where
  "next_digest sha1 initial succs rd i = sha1 (initial ! i # map (\<lambda>j. rd_cur rd ! j) (succs i))"

definition propagate :: "(bytes list \<Rightarrow> bytes) \<Rightarrow> bytes list \<Rightarrow> (nat \<Rightarrow> nat list) \<Rightarrow> IcfRound \<Rightarrow> IcfRound \<times> nat" where
  "propagate sha1 initial succs rd =
     (let n = length (rd_cur rd);
          new = map (\<lambda>i. if rd_converged rd ! i then rd_other rd ! i else next_digest sha1 initial succs rd i) [0..<n];
          changed = filter (\<lambda>i. \<not> rd_converged rd ! i \<and> rd_cur rd ! i \<noteq> new ! i) [0..<n]
      in (\<lparr> rd_cur = new, rd_other = rd_cur rd,
            rd_converged = map (\<lambda>i. rd_converged rd ! i \<or> rd_cur rd ! i = new ! i) [0..<n] \<rparr>, length changed))"

text \<open>The first loop: until the number of nodes that change is the same twice in a row.\<close>

partial_function (option) propagate_changed ::
    "(bytes list \<Rightarrow> bytes) \<Rightarrow> bytes list \<Rightarrow> (nat \<Rightarrow> nat list) \<Rightarrow> nat option \<Rightarrow> IcfRound \<Rightarrow> IcfRound option" where
  "propagate_changed sha1 initial succs num rd =
     (let (rd', n) = propagate sha1 initial succs rd
      in if Some n = num then Some rd' else propagate_changed sha1 initial succs (Some n) rd')"

definition count_num_classes :: "bytes list \<Rightarrow> nat" where
  "count_num_classes digests =
     (let v = sort digests in length (filter (\<lambda>i. v ! i \<noteq> v ! (i + 1)) [0..<length v - 1]))"

definition propagate10 :: "(bytes list \<Rightarrow> bytes) \<Rightarrow> bytes list \<Rightarrow> (nat \<Rightarrow> nat list) \<Rightarrow> IcfRound \<Rightarrow> IcfRound" where
  "propagate10 sha1 initial succs rd = ((\<lambda>rd. fst (propagate sha1 initial succs rd)) ^^ 10) rd"

text \<open>The second loop: until the number of classes is the same after ten more rounds.\<close>

partial_function (option) propagate_classes ::
    "(bytes list \<Rightarrow> bytes) \<Rightarrow> bytes list \<Rightarrow> (nat \<Rightarrow> nat list) \<Rightarrow> nat option \<Rightarrow> IcfRound \<Rightarrow> IcfRound option" where
  "propagate_classes sha1 initial succs num rd =
     (let rd' = propagate10 sha1 initial succs rd; n = count_num_classes (rd_cur rd')
      in if Some n = num then Some rd' else propagate_classes sha1 initial succs (Some n) rd')"

subsection \<open>Folding\<close>

record IcfResult =
  ic_leaders :: "nat option list"
  ic_alive :: "bool list"

definition is_killed_by_icf :: "nat option list \<Rightarrow> nat \<Rightarrow> bool" where
  "is_killed_by_icf leaders i \<longleftrightarrow> (case leaders ! i of None \<Rightarrow> False | Some leader \<Rightarrow> leader \<noteq> i)"

definition group_sections :: "IcfCtx \<Rightarrow> nat list \<Rightarrow> nat list \<Rightarrow> bytes list \<Rightarrow> nat option list \<Rightarrow> nat option list" where
  "group_sections ctx order sections digests leaders =
     (let key = (\<lambda>i. digests ! icf_idx sections i);
          m = fold (emplace_leader ctx key) (filter (icf_eligible ctx) order) Map.empty
      in map (\<lambda>i. if icf_eligible ctx i then m (key i) else leaders ! i) [0..<length (ic_secs ctx)])"

definition icf_sweep :: "IcfCtx \<Rightarrow> nat option list \<Rightarrow> IcfResult" where
  "icf_sweep ctx leaders = \<lparr> ic_leaders = leaders,
     ic_alive = map (\<lambda>i. case ic_secs ctx ! i of None \<Rightarrow> False | Some isec \<Rightarrow> ix_alive isec \<and> \<not> is_killed_by_icf leaders i)
                    [0..<length (ic_secs ctx)] \<rparr>"

text \<open>\<open>order1\<close> and \<open>order2\<close> are the orders in which threads reach the sections in the two parallel loops that find leaders.\<close>

definition icf_sections :: "(bytes \<Rightarrow> bytes) \<Rightarrow> (bytes list \<Rightarrow> bytes) \<Rightarrow> nat list \<Rightarrow> nat list \<Rightarrow> IcfCtx \<Rightarrow> IcfResult option" where
  "icf_sections sha0 sha1 order1 order2 ctx =
     (let cie_idx = uniquify_cies [] (ic_cies ctx);
          leaders = merge_leaf_nodes ctx order1;
          sections = gather_sections ctx;
          initial = map (compute_digest sha0 ctx cie_idx leaders) sections;
          (edges, edge_indices) = gather_edges ctx sections;
          succs = edges_of edges edge_indices;
          rd = \<lparr> rd_cur = initial, rd_other = replicate (length initial) [], rd_converged = replicate (length initial) False \<rparr>
      in case propagate_changed sha1 initial succs None rd of
           None \<Rightarrow> None
         | Some rd \<Rightarrow>
             (case propagate_classes sha1 initial succs None rd of
                None \<Rightarrow> None
              | Some rd \<Rightarrow> Some (icf_sweep ctx (group_sections ctx order2 sections (rd_cur rd) leaders))))"

end
