(* ===== verification/Elf_ICF_Tree.thy ===== *)
theory Elf_ICF_Tree
  imports Elf_ICF
begin

text \<open>
  The rounds of the propagation compute the digests of trees of growing depth. Once the number of classes stops growing the
  classes stay the same for all further depths, and nodes have equal digests exactly when their unfoldings are equal.
\<close>

subsection \<open>Trees\<close>

fun tree_digest :: "(bytes list \<Rightarrow> bytes) \<Rightarrow> bytes list \<Rightarrow> (nat \<Rightarrow> nat list) \<Rightarrow> nat \<Rightarrow> nat \<Rightarrow> bytes" where
  "tree_digest sha1 initial succs 0 i = initial ! i"
| "tree_digest sha1 initial succs (Suc r) i = sha1 (initial ! i # map (tree_digest sha1 initial succs r) (succs i))"

text \<open>No two inputs have the same digest, and edges stay in the graph.\<close>

definition graph_ok :: "(bytes list \<Rightarrow> bytes) \<Rightarrow> bytes list \<Rightarrow> (nat \<Rightarrow> nat list) \<Rightarrow> bool" where
  "graph_ok sha1 initial succs \<longleftrightarrow> inj sha1 \<and> (\<forall>x \<in> set initial. \<forall>ys. x \<noteq> sha1 ys) \<and>
     (\<forall>i < length initial. \<forall>j \<in> set (succs i). j < length initial)"

text \<open>A digest that stays the same in one round stays the same for ever.\<close>

lemma tree_digest_stable:
  assumes "graph_ok sha1 initial succs" and "i < length initial"
    and "tree_digest sha1 initial succs (Suc r) i = tree_digest sha1 initial succs r i"
  shows "tree_digest sha1 initial succs (Suc (Suc r)) i = tree_digest sha1 initial succs (Suc r) i"
  using assms(2,3)
proof (induction r arbitrary: i)
  case 0
  then show ?case using assms(1) by (auto simp: graph_ok_def) (metis nth_mem)
next
  case (Suc r)
  have "tree_digest sha1 initial succs (Suc r) j = tree_digest sha1 initial succs r j" if "j \<in> set (succs i)" for j
    using Suc.prems(2) assms(1) that by (auto simp: graph_ok_def inj_eq)
  then have "tree_digest sha1 initial succs (Suc (Suc r)) j = tree_digest sha1 initial succs (Suc r) j" if "j \<in> set (succs i)" for j
    using Suc.IH assms(1) Suc.prems(1) that by (auto simp: graph_ok_def)
  then have m: "map (tree_digest sha1 initial succs (Suc (Suc r))) (succs i) = map (tree_digest sha1 initial succs (Suc r)) (succs i)"
    by (intro map_cong) auto
  show ?case by (simp only: tree_digest.simps(2) [of _ _ _ _ i] m)
qed

text \<open>Deeper trees tell more nodes apart.\<close>

lemma tree_digest_refines:
  assumes "graph_ok sha1 initial succs" and "i < length initial" and "j < length initial"
    and "tree_digest sha1 initial succs (Suc r) i = tree_digest sha1 initial succs (Suc r) j"
  shows "tree_digest sha1 initial succs r i = tree_digest sha1 initial succs r j"
  using assms(2-4)
proof (induction r arbitrary: i j)
  case 0
  then show ?case using assms(1) by (auto simp: graph_ok_def inj_eq)
next
  case (Suc r)
  have inj: "inj sha1" using assms(1) by (simp add: graph_ok_def)
  have e: "initial ! i = initial ! j"
    "map (tree_digest sha1 initial succs (Suc r)) (succs i) = map (tree_digest sha1 initial succs (Suc r)) (succs j)"
    using Suc.prems(3) injD [OF inj] by fastforce+
  have "list_all2 (\<lambda>a b. tree_digest sha1 initial succs (Suc r) a = tree_digest sha1 initial succs (Suc r) b) (succs i) (succs j)"
    using e(2) by (simp add: list_all2_map1 list_all2_map2 list.rel_eq [symmetric] del: tree_digest.simps)
  then have "list_all2 (\<lambda>a b. tree_digest sha1 initial succs r a = tree_digest sha1 initial succs r b) (succs i) (succs j)"
    by (rule list.rel_mono_strong) (use Suc.IH assms(1) Suc.prems(1,2) in \<open>auto simp: graph_ok_def simp del: tree_digest.simps\<close>)
  then have "map (tree_digest sha1 initial succs r) (succs i) = map (tree_digest sha1 initial succs r) (succs j)"
    by (simp add: list_all2_map1 list_all2_map2 list.rel_eq [symmetric])
  then show ?case using e(1) by simp
qed

lemma tree_digest_refines_le:
  assumes "graph_ok sha1 initial succs" and "i < length initial" and "j < length initial" and "r \<le> s"
    and "tree_digest sha1 initial succs s i = tree_digest sha1 initial succs s j"
  shows "tree_digest sha1 initial succs r i = tree_digest sha1 initial succs r j"
  using assms(4,5) by (induction s rule: dec_induct) (use tree_digest_refines [OF assms(1-3)] in auto)

subsection \<open>Classes\<close>

lemma card_image_refine:
  assumes "finite A" and "\<And>x y. x \<in> A \<Longrightarrow> y \<in> A \<Longrightarrow> f x = f y \<Longrightarrow> g x = g y"
  shows "card (g ` A) \<le> card (f ` A)"
    and "card (g ` A) = card (f ` A) \<Longrightarrow> x \<in> A \<Longrightarrow> y \<in> A \<Longrightarrow> g x = g y \<Longrightarrow> f x = f y"
proof -
  define h where "h u = g (inv_into A f u)" for u
  have h: "h (f x) = g x" if "x \<in> A" for x
    unfolding h_def by (rule assms(2)) (use that f_inv_into_f [of "f x" f A] inv_into_into [of "f x" f A] in auto)
  then have img: "g ` A = h ` f ` A" by (auto simp: image_image)
  show "card (g ` A) \<le> card (f ` A)" unfolding img by (rule card_image_le) (simp add: assms(1))
  assume c: "card (g ` A) = card (f ` A)" and xy: "x \<in> A" "y \<in> A" "g x = g y"
  have "inj_on h (f ` A)" using c unfolding img by (intro eq_card_imp_inj_on) (simp_all add: assms(1))
  then show "f x = f y" using xy h by (metis imageI inj_onD)
qed

definition num_classes :: "(bytes list \<Rightarrow> bytes) \<Rightarrow> bytes list \<Rightarrow> (nat \<Rightarrow> nat list) \<Rightarrow> nat \<Rightarrow> nat" where
  "num_classes sha1 initial succs r = card (tree_digest sha1 initial succs r ` {..<length initial})"

text \<open>When the number of classes is the same for two depths, it is the same for all greater depths.\<close>

lemma same_classes_stable:
  assumes "graph_ok sha1 initial succs" and "r < s" and "num_classes sha1 initial succs r = num_classes sha1 initial succs s"
    and "i < length initial" and "j < length initial" and "tree_digest sha1 initial succs r i = tree_digest sha1 initial succs r j"
  shows "tree_digest sha1 initial succs u i = tree_digest sha1 initial succs u j"
proof -
  let ?T = "tree_digest sha1 initial succs"
  have step: "?T (Suc r) a = ?T (Suc r) b" if "a < length initial" "b < length initial" "?T r a = ?T r b" for a b
  proof -
    have "?T r x = ?T r y" if "x \<in> {..<length initial}" "y \<in> {..<length initial}" "?T s x = ?T s y" for x y
      using tree_digest_refines_le [OF assms(1), of x y r s] that assms(2) by simp
    from card_image_refine(2) [of "{..<length initial}" "?T s" "?T r", OF _ this assms(3) [unfolded num_classes_def], of a b]
    have "?T s a = ?T s b" using that by blast
    then show ?thesis using tree_digest_refines_le [OF assms(1) that(1,2), of "Suc r" s] assms(2) by simp
  qed
  have inj: "inj sha1" and ok: "\<And>a b. a < length initial \<Longrightarrow> b \<in> set (succs a) \<Longrightarrow> b < length initial"
    using assms(1) by (auto simp: graph_ok_def)
  have "?T (r + d) a = ?T (r + d) b" if "a < length initial" "b < length initial" "?T r a = ?T r b" for a b d
    using that
  proof (induction d arbitrary: a b)
    case (Suc d)
    have e: "initial ! a = initial ! b" "map (?T r) (succs a) = map (?T r) (succs b)"
      using step [OF Suc.prems] injD [OF inj] by fastforce+
    have "list_all2 (\<lambda>x y. ?T r x = ?T r y) (succs a) (succs b)"
      using e(2) by (simp add: list_all2_map1 list_all2_map2 list.rel_eq [symmetric])
    then have "list_all2 (\<lambda>x y. ?T (r + d) x = ?T (r + d) y) (succs a) (succs b)"
      by (rule list.rel_mono_strong) (use Suc.IH ok Suc.prems(1,2) in auto)
    then have "map (?T (r + d)) (succs a) = map (?T (r + d)) (succs b)"
      by (simp add: list_all2_map1 list_all2_map2 list.rel_eq [symmetric])
    then show ?case using e(1) by simp
  qed simp
  then have "?T (r + u) i = ?T (r + u) j" using assms(4-6) by blast
  then show ?thesis using tree_digest_refines_le [OF assms(1,4,5), of u "r + u"] by simp
qed

lemma filter_upt_Suc: "length (filter P [0..<Suc n]) = (if P 0 then 1 else 0) + length (filter (\<lambda>i. P (Suc i)) [0..<n])"
proof -
  have "[0..<Suc n] = 0 # map Suc [0..<n]" by (simp add: map_Suc_upt upt_conv_Cons del: upt_Suc)
  then show ?thesis by (simp add: filter_map comp_def del: upt_Suc)
qed

lemma count_adjacent_sorted:
  "sorted v \<Longrightarrow> length (filter (\<lambda>i. v ! i \<noteq> v ! (i + 1)) [0..<length v - 1]) = card (set v) - 1"
  for v :: "'a :: linorder list"
proof (induction v rule: induct_list012)
  case (3 x y zs)
  have c: "card (set (x # y # zs)) = (if x \<noteq> y then 1 else 0) + card (set (y # zs))"
  proof (cases "x = y")
    case False
    then have "x \<notin> set (y # zs)" using 3(3) by fastforce
    then show ?thesis using False by simp
  qed (simp add: insert_absorb)
  have "0 < card (set (y # zs))" by (simp add: card_gt_0_iff)
  moreover have "length (filter (\<lambda>i. (x # y # zs) ! i \<noteq> (x # y # zs) ! (i + 1)) [0..<length (x # y # zs) - 1]) =
      (if x \<noteq> y then 1 else 0) + length (filter (\<lambda>i. (y # zs) ! i \<noteq> (y # zs) ! (i + 1)) [0..<length (y # zs) - 1])"
    using filter_upt_Suc [of "\<lambda>i. (x # y # zs) ! i \<noteq> (x # y # zs) ! (i + 1)" "length zs"] by (simp del: upt_Suc)
  ultimately show ?case using 3(2,3) unfolding c by (simp del: upt_Suc)
qed auto

lemma count_num_classes_card: "count_num_classes xs = card (set xs) - 1"
  unfolding count_num_classes_def Let_def count_adjacent_sorted [OF sorted_sort] by simp

subsection \<open>Rounds\<close>

definition round_ok :: "(bytes list \<Rightarrow> bytes) \<Rightarrow> bytes list \<Rightarrow> (nat \<Rightarrow> nat list) \<Rightarrow> nat \<Rightarrow> IcfRound \<Rightarrow> bool" where
  "round_ok sha1 initial succs r rd \<longleftrightarrow>
     rd_cur rd = map (tree_digest sha1 initial succs r) [0..<length initial] \<and>
     (\<forall>i < length initial. rd_converged rd ! i \<longrightarrow>
        tree_digest sha1 initial succs (Suc r) i = tree_digest sha1 initial succs r i \<and> rd_other rd ! i = tree_digest sha1 initial succs r i)"

definition num_changed :: "(bytes list \<Rightarrow> bytes) \<Rightarrow> bytes list \<Rightarrow> (nat \<Rightarrow> nat list) \<Rightarrow> nat \<Rightarrow> nat" where
  "num_changed sha1 initial succs r =
     card {i. i < length initial \<and> tree_digest sha1 initial succs (Suc r) i \<noteq> tree_digest sha1 initial succs r i}"

lemma propagate_round:
  assumes "graph_ok sha1 initial succs" and "round_ok sha1 initial succs r rd"
  shows "round_ok sha1 initial succs (Suc r) (fst (propagate sha1 initial succs rd))"
    and "snd (propagate sha1 initial succs rd) = num_changed sha1 initial succs r"
proof -
  let ?T = "tree_digest sha1 initial succs"
  have cur: "rd_cur rd = map (?T r) [0..<length initial]" and
    conv: "\<And>i. i < length initial \<Longrightarrow> rd_converged rd ! i \<Longrightarrow> ?T (Suc r) i = ?T r i \<and> rd_other rd ! i = ?T r i"
    using assms(2) by (auto simp: round_ok_def simp del: tree_digest.simps)
  have nxt: "next_digest sha1 initial succs rd i = ?T (Suc r) i" if "i < length initial" for i
  proof -
    have "map (\<lambda>j. rd_cur rd ! j) (succs i) = map (?T r) (succs i)"
      using assms(1) that by (intro map_cong) (simp_all add: cur graph_ok_def del: tree_digest.simps)
    then show ?thesis by (simp only: next_digest_def tree_digest.simps(2))
  qed
  have new: "map (\<lambda>i. if rd_converged rd ! i then rd_other rd ! i else next_digest sha1 initial succs rd i) [0..<length initial] =
      map (?T (Suc r)) [0..<length initial]"
    using conv nxt by (auto simp del: tree_digest.simps)
  show "round_ok sha1 initial succs (Suc r) (fst (propagate sha1 initial succs rd))"
  proof -
    have "rd_converged rd ! i \<or> rd_cur rd ! i = ?T (Suc r) i \<longrightarrow> ?T (Suc (Suc r)) i = ?T (Suc r) i \<and> rd_cur rd ! i = ?T (Suc r) i"
      if "i < length initial" for i
      using tree_digest_stable [OF assms(1) that, of r] conv [OF that] that by (auto simp: cur simp del: tree_digest.simps)
    then show ?thesis unfolding round_ok_def propagate_def Let_def using new
      by (simp add: cur nxt del: tree_digest.simps)
  qed
  have n: "length (rd_cur rd) = length initial" by (simp add: cur)
  have "snd (propagate sha1 initial succs rd) =
      length (filter (\<lambda>i. \<not> rd_converged rd ! i \<and> rd_cur rd ! i \<noteq> map (?T (Suc r)) [0..<length initial] ! i) [0..<length initial])"
    by (simp only: propagate_def Let_def snd_conv n new)
  also have "\<dots> = length (filter (\<lambda>i. ?T (Suc r) i \<noteq> ?T r i) [0..<length initial])"
    by (rule arg_cong [of _ _ length], rule filter_cong [OF refl]) (use conv in \<open>auto simp: cur simp del: tree_digest.simps\<close>)
  also have "\<dots> = num_changed sha1 initial succs r"
    unfolding num_changed_def by (subst distinct_card [symmetric]) (auto simp del: tree_digest.simps intro: arg_cong [of _ _ card])
  finally show "snd (propagate sha1 initial succs rd) = num_changed sha1 initial succs r" .
qed

subsection \<open>The loops end\<close>

lemma num_changed_decreases:
  assumes "graph_ok sha1 initial succs"
  shows "num_changed sha1 initial succs (Suc r) \<le> num_changed sha1 initial succs r"
  unfolding num_changed_def
  by (rule card_mono) (use tree_digest_stable [OF assms] in \<open>auto simp del: tree_digest.simps\<close>)

lemma propagate_changed_ends:
  assumes "graph_ok sha1 initial succs"
  shows "round_ok sha1 initial succs r rd \<Longrightarrow> num_changed sha1 initial succs r \<le> m \<Longrightarrow>
    \<exists>rd' r'. propagate_changed sha1 initial succs (Some m) rd = Some rd' \<and> round_ok sha1 initial succs r' rd'"
proof (induction m arbitrary: r rd rule: less_induct)
  case (less m)
  obtain rd' where rd': "propagate sha1 initial succs rd = (rd', num_changed sha1 initial succs r)" "round_ok sha1 initial succs (Suc r) rd'"
    using propagate_round [OF assms less.prems(1)] by (cases "propagate sha1 initial succs rd") auto
  show ?case
  proof (cases "num_changed sha1 initial succs r = m")
    case True
    then show ?thesis using rd' by (subst propagate_changed.simps) auto
  next
    case False
    then have "num_changed sha1 initial succs r < m" using less.prems(2) by simp
    from less.IH [OF this rd'(2) num_changed_decreases [OF assms]] show ?thesis
      using rd'(1) False by (subst propagate_changed.simps) simp
  qed
qed

lemma propagate_changed_total:
  assumes "graph_ok sha1 initial succs" and "round_ok sha1 initial succs r rd"
  shows "\<exists>rd' r'. propagate_changed sha1 initial succs None rd = Some rd' \<and> round_ok sha1 initial succs r' rd'"
proof -
  obtain rd' where rd': "propagate sha1 initial succs rd = (rd', num_changed sha1 initial succs r)" "round_ok sha1 initial succs (Suc r) rd'"
    using propagate_round [OF assms] by (cases "propagate sha1 initial succs rd") auto
  from propagate_changed_ends [OF assms(1) rd'(2) num_changed_decreases [OF assms(1)]] show ?thesis
    using rd'(1) by (subst propagate_changed.simps) simp
qed

lemma propagate10_round:
  assumes "graph_ok sha1 initial succs" and "round_ok sha1 initial succs r rd"
  shows "round_ok sha1 initial succs (r + 10) (propagate10 sha1 initial succs rd)"
proof -
  have "round_ok sha1 initial succs (n + r) (((\<lambda>rd. fst (propagate sha1 initial succs rd)) ^^ n) rd)" for n
    by (induction n) (simp_all add: assms(2) propagate_round(1) [OF assms(1)])
  from this [of 10] show ?thesis by (simp add: propagate10_def add.commute)
qed

lemma num_classes_bounds:
  assumes "graph_ok sha1 initial succs" and "r \<le> s"
  shows "num_classes sha1 initial succs r \<le> num_classes sha1 initial succs s" and "num_classes sha1 initial succs r \<le> length initial"
proof -
  show "num_classes sha1 initial succs r \<le> num_classes sha1 initial succs s"
    unfolding num_classes_def
    by (rule card_image_refine(1)) (simp, rule tree_digest_refines_le [OF assms(1) _ _ assms(2)], simp_all del: tree_digest.simps)
  show "num_classes sha1 initial succs r \<le> length initial"
    unfolding num_classes_def using card_image_le [of "{..<length initial}" "tree_digest sha1 initial succs r"] by simp
qed

text \<open>The classes of a depth are the classes of all depths.\<close>

definition final_classes :: "(bytes list \<Rightarrow> bytes) \<Rightarrow> bytes list \<Rightarrow> (nat \<Rightarrow> nat list) \<Rightarrow> bytes list \<Rightarrow> bool" where
  "final_classes sha1 initial succs ds \<longleftrightarrow> length ds = length initial \<and>
     (\<forall>i < length initial. \<forall>j < length initial.
        ds ! i = ds ! j \<longleftrightarrow> (\<forall>u. tree_digest sha1 initial succs u i = tree_digest sha1 initial succs u j))"

lemma round_classes:
  assumes "round_ok sha1 initial succs r rd"
  shows "count_num_classes (rd_cur rd) = num_classes sha1 initial succs r - 1"
  using assms by (simp add: round_ok_def count_num_classes_card num_classes_def atLeast0LessThan)

lemma propagate_classes_ends:
  assumes "graph_ok sha1 initial succs"
  shows "round_ok sha1 initial succs r rd \<Longrightarrow>
    \<exists>rd'. propagate_classes sha1 initial succs (Some (num_classes sha1 initial succs r - 1)) rd = Some rd' \<and>
      final_classes sha1 initial succs (rd_cur rd')"
proof (induction "length initial - num_classes sha1 initial succs r" arbitrary: r rd rule: less_induct)
  case less
  let ?rd = "propagate10 sha1 initial succs rd"
  note ok = propagate10_round [OF assms less.prems]
  note c = round_classes [OF ok]
  have mono: "num_classes sha1 initial succs r \<le> num_classes sha1 initial succs (r + 10)" "num_classes sha1 initial succs (r + 10) \<le> length initial"
    using num_classes_bounds [OF assms] by auto
  show ?case
  proof (cases "num_classes sha1 initial succs (r + 10) - 1 = num_classes sha1 initial succs r - 1")
    case True
    have "num_classes sha1 initial succs r = num_classes sha1 initial succs (r + 10)"
    proof (cases "initial = []")
      case False
      then have "0 \<in> {..<length initial}" by simp
      then have "0 < num_classes sha1 initial succs r" unfolding num_classes_def by (subst card_gt_0_iff) blast
      then show ?thesis using True mono(1) by simp
    qed (simp add: num_classes_def)
    note st = same_classes_stable [OF assms _ this]
    have "final_classes sha1 initial succs (rd_cur ?rd)"
      unfolding final_classes_def
    proof (intro conjI allI impI)
      have cur: "rd_cur ?rd = map (tree_digest sha1 initial succs (r + 10)) [0..<length initial]" using ok by (simp add: round_ok_def)
      then show "length (rd_cur ?rd) = length initial" by simp
      fix i j assume ij: "i < length initial" "j < length initial"
      have "tree_digest sha1 initial succs u i = tree_digest sha1 initial succs u j"
        if "tree_digest sha1 initial succs (r + 10) i = tree_digest sha1 initial succs (r + 10) j" for u
        by (rule st [OF _ ij tree_digest_refines_le [OF assms ij _ that]]) simp_all
      then show "rd_cur ?rd ! i = rd_cur ?rd ! j \<longleftrightarrow> (\<forall>u. tree_digest sha1 initial succs u i = tree_digest sha1 initial succs u j)"
        using ij unfolding cur by (auto simp del: tree_digest.simps)
    qed
    then show ?thesis using True c by (subst propagate_classes.simps) simp
  next
    case False
    then have "length initial - num_classes sha1 initial succs (r + 10) < length initial - num_classes sha1 initial succs r"
      using mono by (metis diff_less_mono2 le_neq_implies_less less_le_trans)
    from less.hyps [OF this ok] show ?thesis
      using False c by (subst propagate_classes.simps) simp
  qed
qed

lemma propagate_classes_total:
  assumes "graph_ok sha1 initial succs" and "round_ok sha1 initial succs r rd"
  shows "\<exists>rd'. propagate_classes sha1 initial succs None rd = Some rd' \<and> final_classes sha1 initial succs (rd_cur rd')"
proof -
  note ok = propagate10_round [OF assms]
  from propagate_classes_ends [OF assms(1) ok] show ?thesis
    using round_classes [OF ok] by (subst propagate_classes.simps) simp
qed

subsection \<open>Unfoldings\<close>

text \<open>Two nodes have the same unfolding if they have the same label and, one by one, successors with the same unfolding.\<close>

coinductive same_unfolding :: "bytes list \<Rightarrow> (nat \<Rightarrow> nat list) \<Rightarrow> nat \<Rightarrow> nat \<Rightarrow> bool" for initial succs where
  "initial ! i = initial ! j \<Longrightarrow> list_all2 (same_unfolding initial succs) (succs i) (succs j) \<Longrightarrow> same_unfolding initial succs i j"

lemma same_unfolding_digest:
  "same_unfolding initial succs i j \<Longrightarrow> tree_digest sha1 initial succs r i = tree_digest sha1 initial succs r j"
proof (induction r arbitrary: i j)
  case (Suc r)
  then have e: "initial ! i = initial ! j" "list_all2 (same_unfolding initial succs) (succs i) (succs j)"
    by (auto elim: same_unfolding.cases)
  have "list_all2 (\<lambda>a b. tree_digest sha1 initial succs r a = tree_digest sha1 initial succs r b) (succs i) (succs j)"
    by (rule list.rel_mono_strong [OF e(2)]) (rule Suc.IH)
  then have "map (tree_digest sha1 initial succs r) (succs i) = map (tree_digest sha1 initial succs r) (succs j)"
    by (simp add: list_all2_map1 list_all2_map2 list.rel_eq [symmetric])
  then show ?case using e(1) by simp
qed (auto elim: same_unfolding.cases)

lemma digest_same_unfolding:
  assumes "inj sha1" and "\<forall>r. tree_digest sha1 initial succs r i = tree_digest sha1 initial succs r j"
  shows "same_unfolding initial succs i j"
  using assms(2)
proof (coinduction arbitrary: i j)
  case (same_unfolding i j)
  have e: "initial ! i = initial ! j" "map (tree_digest sha1 initial succs r) (succs i) = map (tree_digest sha1 initial succs r) (succs j)" for r
    using injD [OF assms(1), of "initial ! i # map (tree_digest sha1 initial succs r) (succs i)"
      "initial ! j # map (tree_digest sha1 initial succs r) (succs j)"] spec [OF same_unfolding, of "Suc r"] by simp_all
  then have "length (succs i) = length (succs j)" using map_eq_imp_length_eq by blast
  then have "list_all2 (\<lambda>a b. \<forall>r. tree_digest sha1 initial succs r a = tree_digest sha1 initial succs r b) (succs i) (succs j)"
    using e(2) by (auto simp: list_all2_conv_all_nth) (metis nth_map)
  then show ?case using e(1) by (auto elim: list_all2_mono)
qed

lemma final_classes_unfolding:
  assumes "graph_ok sha1 initial succs" and "final_classes sha1 initial succs ds" and "i < length initial" and "j < length initial"
  shows "ds ! i = ds ! j \<longleftrightarrow> same_unfolding initial succs i j"
proof -
  have "ds ! i = ds ! j \<longleftrightarrow> (\<forall>u. tree_digest sha1 initial succs u i = tree_digest sha1 initial succs u j)"
    using assms(2-4) unfolding final_classes_def by blast
  moreover have "inj sha1" using assms(1) by (simp add: graph_ok_def)
  ultimately show ?thesis using same_unfolding_digest digest_same_unfolding by blast
qed

end
