(* ===== verification/Elf_ICF_Label.thy ===== *)
theory Elf_ICF_Label
  imports Elf_ICF
begin

text \<open>
  The bytes that \<^verbatim>\<open>compute_digest\<close> feeds to the hash function determine everything that is meant to be compared.
\<close>

subsection \<open>Encodings that determine what they encode\<close>

text \<open>\<open>f\<close> encodes what \<open>g\<close> sees of an element of \<open>A\<close>, and no encoding is a proper prefix of another.\<close>

definition encodes :: "'a set \<Rightarrow> ('a \<Rightarrow> bytes) \<Rightarrow> ('a \<Rightarrow> 'b) \<Rightarrow> bool" where
  "encodes A f g \<longleftrightarrow> (\<forall>x \<in> A. \<forall>y \<in> A. \<forall>r s. f x @ r = f y @ s \<longleftrightarrow> g x = g y \<and> r = s)"

lemma encodesI: "(\<And>x y r s. x \<in> A \<Longrightarrow> y \<in> A \<Longrightarrow> f x @ r = f y @ s \<longleftrightarrow> g x = g y \<and> r = s) \<Longrightarrow> encodes A f g"
  by (simp add: encodes_def)

lemma encodesD: "encodes A f g \<Longrightarrow> x \<in> A \<Longrightarrow> y \<in> A \<Longrightarrow> f x @ r = f y @ s \<longleftrightarrow> g x = g y \<and> r = s"
  by (simp add: encodes_def)

lemma encodes_eq: "encodes A f g \<Longrightarrow> x \<in> A \<Longrightarrow> y \<in> A \<Longrightarrow> f x = f y \<longleftrightarrow> g x = g y"
  using encodesD [of A f g x y "[]" "[]"] by simp

lemma encodes_le_bytes:
  fixes h :: "'a \<Rightarrow> 'w::len word"
  shows "LENGTH('w) \<le> 8 * n \<Longrightarrow> encodes A (\<lambda>x. le_bytes n (h x)) h"
  by (rule encodesI) (auto dest: le_bytes_inj)

lemma encodes_seq:
  assumes "encodes A f g" and "encodes A f' g'"
  shows "encodes A (\<lambda>x. f x @ f' x) (\<lambda>x. (g x, g' x))"
  by (rule encodesI) (simp add: encodesD [OF assms(1)] encodesD [OF assms(2)])

lemma encodes_map: "encodes B f g \<Longrightarrow> (\<And>x. x \<in> A \<Longrightarrow> h x \<in> B) \<Longrightarrow> encodes A (\<lambda>x. f (h x)) (\<lambda>x. g (h x))"
  by (simp add: encodes_def)

lemma encodes_cong: "encodes A f g \<Longrightarrow> (\<And>x y. x \<in> A \<Longrightarrow> y \<in> A \<Longrightarrow> g x = g y \<longleftrightarrow> g' x = g' y) \<Longrightarrow> encodes A f g'"
  by (simp add: encodes_def)

text \<open>A length, and then the elements.\<close>

lemma encodes_concat:
  assumes "encodes B f g"
  shows "xs \<in> lists B \<Longrightarrow> ys \<in> lists B \<Longrightarrow> length xs = length ys \<Longrightarrow>
    concat (map f xs) @ r = concat (map f ys) @ s \<longleftrightarrow> map g xs = map g ys \<and> r = s"
proof (induction xs arbitrary: ys)
  case (Cons x xs)
  then obtain y ys' where "ys = y # ys'" by (cases ys) auto
  then show ?case using Cons by (simp add: encodesD [OF assms] conj_assoc)
qed auto

lemma of_nat_u64_inj: "m < 2 ^ 64 \<Longrightarrow> n < 2 ^ 64 \<Longrightarrow> (of_nat m :: u64) = of_nat n \<longleftrightarrow> m = n"
  by (simp add: word_of_nat_eq_iff take_bit_nat_eq_self)

lemma of_nat_u32_inj: "m < 2 ^ 32 \<Longrightarrow> n < 2 ^ 32 \<Longrightarrow> (of_nat m :: u32) = of_nat n \<longleftrightarrow> m = n"
  by (simp add: word_of_nat_eq_iff take_bit_nat_eq_self)

lemma encodes_len64: "(\<And>x. x \<in> A \<Longrightarrow> h x < 2 ^ 64) \<Longrightarrow> encodes A (\<lambda>x. le_bytes 8 (of_nat (h x) :: u64)) h"
  by (rule encodes_cong [OF encodes_le_bytes]) (auto simp: of_nat_u64_inj)

lemma encodes_len32: "(\<And>x. x \<in> A \<Longrightarrow> h x < 2 ^ 32) \<Longrightarrow> encodes A (\<lambda>x. le_bytes 4 (of_nat (h x) :: u32)) h"
  by (rule encodes_cong [OF encodes_le_bytes]) (auto simp: of_nat_u32_inj)

lemma encodes_string: "(\<And>x. x \<in> A \<Longrightarrow> length (h x) < 2 ^ 64) \<Longrightarrow> encodes A (\<lambda>x. hash_string (h x)) h"
proof (rule encodesI)
  fix x y r s assume "\<And>x. x \<in> A \<Longrightarrow> length (h x) < 2 ^ 64" "x \<in> A" "y \<in> A"
  then show "hash_string (h x) @ r = hash_string (h y) @ s \<longleftrightarrow> h x = h y \<and> r = s"
    using encodesD [OF encodes_len64 [of A "\<lambda>x. length (h x)"], of x y "h x @ r" "h y @ s"] by (auto simp: hash_string_def)
qed

subsection \<open>What is compared\<close>

type_synonym sym_label = "sym_key \<times> u64"

definition sym_label :: "IcfCtx \<Rightarrow> nat option list \<Rightarrow> nat \<Rightarrow> sym_label" where
  "sym_label ctx leaders s = (symbol_key ctx leaders s, iy_value (ic_syms ctx ! s))"

definition rel_label :: "IcfCtx \<Rightarrow> nat option list \<Rightarrow> IcfRel \<Rightarrow> u64 \<times> u32 \<times> u64 \<times> sym_label" where
  "rel_label ctx leaders r = (ir_offset r, ir_type r, ir_addend r, sym_label ctx leaders (ir_sym r))"

definition cie_key :: "IcfCie \<Rightarrow> bytes \<times> (u64 \<times> u32 \<times> nat \<times> u64) list" where
  "cie_key c = (ii_contents c, map (rel_key (ii_input_offset c)) (ii_rels c))"

definition fde_rel_label :: "IcfCtx \<Rightarrow> nat option list \<Rightarrow> u32 \<Rightarrow> IcfRel \<Rightarrow> u64 \<times> u32 \<times> u64 \<times> sym_label" where
  "fde_rel_label ctx leaders input_offset r =
     (ir_offset r - ucast input_offset, ir_type r, ir_addend r, sym_label ctx leaders (ir_sym r))"

definition fde_label :: "IcfCtx \<Rightarrow> nat option list \<Rightarrow> IcfFde \<Rightarrow>
    (bytes \<times> (u64 \<times> u32 \<times> nat \<times> u64) list) \<times> bytes \<times> nat \<times> (u64 \<times> u32 \<times> u64 \<times> sym_label) list" where
  "fde_label ctx leaders fde =
     (cie_key (ic_cies ctx ! ie_cie fde), drop 8 (ie_contents fde), length (ie_rels fde),
      map (fde_rel_label ctx leaders (ie_input_offset fde)) (tl (ie_rels fde)))"

text \<open>The contents, flags, unwinding information and relocations of a section.\<close>

definition section_label where
  "section_label ctx leaders i =
     (let isec = sec_at ctx i
      in (ix_contents isec, ix_flags isec, map (fde_label ctx leaders) (ix_fdes isec), map (rel_label ctx leaders) (ix_rels isec)))"

subsection \<open>The sizes that occur\<close>

definition rel_ok :: "IcfCtx \<Rightarrow> IcfRel \<Rightarrow> bool" where
  "rel_ok ctx r \<longleftrightarrow> ir_sym r < length (ic_syms ctx)"

definition fde_ok :: "IcfCtx \<Rightarrow> IcfFde \<Rightarrow> bool" where
  "fde_ok ctx fde \<longleftrightarrow> ie_cie fde < length (ic_cies ctx) \<and> length (ie_contents fde) < 2 ^ 64 \<and> length (ie_rels fde) < 2 ^ 64 \<and>
     list_all (rel_ok ctx) (ie_rels fde)"

definition sec_ok :: "IcfCtx \<Rightarrow> IcfSec \<Rightarrow> bool" where
  "sec_ok ctx isec \<longleftrightarrow> length (ix_contents isec) < 2 ^ 64 \<and> length (ix_rels isec) < 2 ^ 64 \<and> length (ix_fdes isec) < 2 ^ 64 \<and>
     list_all (rel_ok ctx) (ix_rels isec) \<and> list_all (fde_ok ctx) (ix_fdes isec)"

definition sym_ok :: "IcfCtx \<Rightarrow> IcfSym \<Rightarrow> bool" where
  "sym_ok ctx y \<longleftrightarrow> (case iy_origin y of In_section i \<Rightarrow> i < length (ic_secs ctx) | _ \<Rightarrow> True)"

text \<open>Indices are in range, pointers have 64 bits, and no two sections have the same priority.\<close>

definition ctx_ok :: "IcfCtx \<Rightarrow> bool" where
  "ctx_ok ctx \<longleftrightarrow> length (ic_secs ctx) < 2 ^ 64 \<and> length (ic_syms ctx) < 2 ^ 64 \<and> length (ic_cies ctx) < 2 ^ 32 \<and>
     list_all (sym_ok ctx) (ic_syms ctx) \<and> list_all (\<lambda>s. case s of None \<Rightarrow> True | Some isec \<Rightarrow> sec_ok ctx isec) (ic_secs ctx) \<and>
     (\<forall>i \<in> set [0..<length (ic_secs ctx)]. \<forall>j \<in> set [0..<length (ic_secs ctx)]. ic_secs ctx ! i \<noteq> None \<and> ic_secs ctx ! j \<noteq> None \<and>
        ix_priority (sec_at ctx i) = ix_priority (sec_at ctx j) \<longrightarrow> i = j)"

subsection \<open>The number of a CIE\<close>

lemma cie_equals_key: "cie_equals a b \<longleftrightarrow> cie_key a = cie_key b"
  by (simp add: cie_equals_def cie_key_def)

lemma uniquify_cies_keys:
  "distinct (map cie_key cies) \<Longrightarrow> \<exists>ks. distinct (map cie_key cies @ ks) \<and> length ks \<le> length cs \<and>
     length (uniquify_cies cies cs) = length cs \<and>
     (\<forall>k < length cs. uniquify_cies cies cs ! k < length (map cie_key cies @ ks) \<and>
        (map cie_key cies @ ks) ! (uniquify_cies cies cs ! k) = cie_key (cs ! k))"
proof (induction cs arbitrary: cies)
  case (Cons c cs)
  show ?case
  proof (cases "find_pos (cie_equals c) cies")
    case (Some i)
    obtain ks where ks: "distinct (map cie_key cies @ ks)" "length ks \<le> length cs" "length (uniquify_cies cies cs) = length cs"
      "\<forall>k < length cs. uniquify_cies cies cs ! k < length (map cie_key cies @ ks) \<and>
        (map cie_key cies @ ks) ! (uniquify_cies cies cs ! k) = cie_key (cs ! k)"
      using Cons.IH [OF Cons.prems] by blast
    have i: "i < length cies" "cie_key (cies ! i) = cie_key c" using find_pos_Some [OF Some] by (auto simp: cie_equals_key)
    show ?thesis using ks i Some by (intro exI [of _ ks]) (auto simp: nth_append nth_Cons split: nat.split)
  next
    case None
    have "\<forall>d \<in> set cies. cie_key d \<noteq> cie_key c" using None by (auto simp: find_pos_None cie_equals_key)
    then have d: "distinct (map cie_key (cies @ [c]))" using Cons.prems by auto
    obtain ks where ks: "distinct (map cie_key (cies @ [c]) @ ks)" "length ks \<le> length cs" "length (uniquify_cies (cies @ [c]) cs) = length cs"
      "\<forall>k < length cs. uniquify_cies (cies @ [c]) cs ! k < length (map cie_key (cies @ [c]) @ ks) \<and>
        (map cie_key (cies @ [c]) @ ks) ! (uniquify_cies (cies @ [c]) cs ! k) = cie_key (cs ! k)"
      using Cons.IH [OF d] by blast
    show ?thesis using ks None by (intro exI [of _ "cie_key c # ks"]) (auto simp: nth_append nth_Cons split: nat.split)
  qed
qed simp

lemma uniquify_cies_exact:
  assumes "a < length cs" and "b < length cs"
  shows "uniquify_cies [] cs ! a = uniquify_cies [] cs ! b \<longleftrightarrow> cie_key (cs ! a) = cie_key (cs ! b)" and "uniquify_cies [] cs ! a < length cs"
proof -
  obtain ks where ks: "distinct ks" "length ks \<le> length cs"
    "\<forall>k < length cs. uniquify_cies [] cs ! k < length ks \<and> ks ! (uniquify_cies [] cs ! k) = cie_key (cs ! k)"
    using uniquify_cies_keys [of "[]" cs] by auto
  show "uniquify_cies [] cs ! a = uniquify_cies [] cs ! b \<longleftrightarrow> cie_key (cs ! a) = cie_key (cs ! b)" "uniquify_cies [] cs ! a < length cs"
    using ks assms nth_eq_iff_index_eq [OF ks(1)] by (metis, auto intro: less_le_trans)
qed

subsection \<open>The bytes of a section\<close>

definition leaders_ok :: "IcfCtx \<Rightarrow> nat option list \<Rightarrow> bool" where
  "leaders_ok ctx leaders \<longleftrightarrow> length leaders = length (ic_secs ctx) \<and> (\<forall>i l. i < length leaders \<and> leaders ! i = Some l \<longrightarrow> l < length (ic_secs ctx))"

fun key_ok :: "sym_key \<Rightarrow> bool" where
  "key_ok (Undefined_symbol s) \<longleftrightarrow> s < 2 ^ 64"
| "key_ok (Leader i) \<longleftrightarrow> i < 2 ^ 64"
| "key_ok (Section i) \<longleftrightarrow> i < 2 ^ 64"
| "key_ok _ \<longleftrightarrow> True"

lemma encodes_key: "encodes {k. key_ok k} key_bytes id"
proof (rule encodesI)
  have p: "hash_ptr m @ r = hash_ptr n @ s \<longleftrightarrow> m = n \<and> r = s" if "m < 2 ^ 64" "n < 2 ^ 64" for m n r s
    using encodesD [OF encodes_len64 [of "{m, n}" "\<lambda>x. x"], of m n r s] that by (auto simp: hash_ptr_def)
  have w: "le_bytes 8 x @ r = le_bytes 8 y @ s \<longleftrightarrow> x = y \<and> r = s" for x y :: u64 and r s
    using encodesD [OF encodes_le_bytes [of 8 UNIV "\<lambda>x. x :: u64"]] by simp
  fix x y r s assume "x \<in> {k. key_ok k}" "y \<in> {k. key_ok k}"
  then show "key_bytes x @ r = key_bytes y @ s \<longleftrightarrow> id x = id y \<and> r = s"
    by (cases x; cases y) (simp_all add: p w)
qed

lemma symbol_key_ok:
  assumes "ctx_ok ctx" and "leaders_ok ctx leaders" and "s < length (ic_syms ctx)"
  shows "key_ok (symbol_key ctx leaders s)"
proof -
  have "sym_ok ctx (ic_syms ctx ! s)" using assms(1,3) by (auto simp: ctx_ok_def list_all_length)
  moreover have "leaders ! i = Some l \<Longrightarrow> i < length (ic_secs ctx) \<Longrightarrow> l < 2 ^ 64" for i l
    using assms(1,2) unfolding ctx_ok_def leaders_ok_def by (metis less_trans)
  moreover have "length (ic_secs ctx) < 2 ^ 64" "s < 2 ^ 64" using assms(1,3) by (auto simp: ctx_ok_def)
  ultimately show ?thesis
    by (auto simp: symbol_key_def sym_ok_def Let_def split: icf_origin.splits option.splits)
qed

lemma encodes_symbol:
  assumes "ctx_ok ctx" and "leaders_ok ctx leaders"
  shows "encodes {s. s < length (ic_syms ctx)} (hash_symbol ctx leaders) (sym_label ctx leaders)"
proof -
  have "encodes {s. s < length (ic_syms ctx)} (\<lambda>s. key_bytes (symbol_key ctx leaders s)) (\<lambda>s. id (symbol_key ctx leaders s))"
    by (rule encodes_map [OF encodes_key]) (use symbol_key_ok [OF assms] in simp)
  from encodes_seq [OF this encodes_le_bytes [of 8 _ "\<lambda>s. iy_value (ic_syms ctx ! s)"]]
  show ?thesis by (simp add: hash_symbol_def [abs_def] sym_label_def [abs_def])
qed

lemma encodes_rel:
  assumes "ctx_ok ctx" and "leaders_ok ctx leaders"
  shows "encodes {r. rel_ok ctx r} (hash_rel ctx leaders) (rel_label ctx leaders)"
proof -
  have "encodes {r. rel_ok ctx r} (\<lambda>r. hash_symbol ctx leaders (ir_sym r)) (\<lambda>r. sym_label ctx leaders (ir_sym r))"
    by (rule encodes_map [OF encodes_symbol [OF assms]]) (simp add: rel_ok_def)
  from encodes_seq [OF encodes_le_bytes [of 8 _ ir_offset] encodes_seq [OF encodes_le_bytes [of 4 _ ir_type]
      encodes_seq [OF encodes_le_bytes [of 8 _ ir_addend] this]]]
  show ?thesis by (simp add: hash_rel_def [abs_def] rel_label_def [abs_def])
qed

lemma encodes_fde_rel:
  assumes "ctx_ok ctx" and "leaders_ok ctx leaders"
  shows "encodes {(off, r). rel_ok ctx r} (\<lambda>(off, r). hash_fde_rel ctx leaders off r) (\<lambda>(off, r). fde_rel_label ctx leaders off r)"
proof -
  let ?A = "{(off :: u32, r). rel_ok ctx r}"
  have "encodes ?A (\<lambda>x. hash_symbol ctx leaders (ir_sym (snd x))) (\<lambda>x. sym_label ctx leaders (ir_sym (snd x)))"
    by (rule encodes_map [OF encodes_symbol [OF assms]]) (auto simp: rel_ok_def)
  from encodes_seq [OF this encodes_seq [OF encodes_le_bytes [of 4 _ "\<lambda>x. ir_type (snd x)"]
      encodes_seq [OF encodes_le_bytes [of 8 _ "\<lambda>x. ir_offset (snd x) - ucast (fst x)"] encodes_le_bytes [of 8 _ "\<lambda>x. ir_addend (snd x)"]]]]
  have "encodes ?A (\<lambda>(off, r). hash_fde_rel ctx leaders off r)
      (\<lambda>x. (sym_label ctx leaders (ir_sym (snd x)), ir_type (snd x), ir_offset (snd x) - ucast (fst x), ir_addend (snd x)))"
    by (simp add: hash_fde_rel_def [abs_def] case_prod_beta')
  then show ?thesis by (rule encodes_cong) (auto simp: fde_rel_label_def)
qed

lemma encodes_fde:
  assumes "ctx_ok ctx" and "leaders_ok ctx leaders"
  shows "encodes {fde. fde_ok ctx fde} (hash_fde ctx (uniquify_cies [] (ic_cies ctx)) leaders) (fde_label ctx leaders)"
proof -
  let ?A = "{fde. fde_ok ctx fde}"
  let ?idx = "uniquify_cies [] (ic_cies ctx)"
  let ?pairs = "\<lambda>fde. map (\<lambda>r. (ie_input_offset fde, r)) (tl (ie_rels fde))"
  have c: "encodes ?A (\<lambda>fde. le_bytes 4 (of_nat (?idx ! ie_cie fde) :: u32)) (\<lambda>fde. cie_key (ic_cies ctx ! ie_cie fde))"
  proof (rule encodes_cong [OF encodes_len32])
    show "?idx ! ie_cie x < 2 ^ 32" if "x \<in> ?A" for x
      using uniquify_cies_exact(2) [of "ie_cie x" "ic_cies ctx" "ie_cie x"] assms(1) that by (auto simp: fde_ok_def ctx_ok_def)
  qed (use uniquify_cies_exact(1) in \<open>auto simp: fde_ok_def\<close>)
  have h: "encodes ?A (\<lambda>fde. hash_string (drop 8 (ie_contents fde))) (\<lambda>fde. drop 8 (ie_contents fde))"
    by (rule encodes_string) (auto simp: fde_ok_def)
  have n: "encodes ?A (\<lambda>fde. le_bytes 8 (of_nat (length (ie_rels fde)) :: u64)) (\<lambda>fde. length (ie_rels fde))"
    by (rule encodes_len64) (simp add: fde_ok_def)
  note head = encodes_seq [OF c encodes_seq [OF h n]]
  have pairs: "?pairs x \<in> lists {(off, r). rel_ok ctx r}" if "x \<in> ?A" for x
    using that list.set_sel(2) [of "ie_rels x"] by (cases "ie_rels x") (auto simp: fde_ok_def list_all_iff)
  have cc: "concat (map (hash_fde_rel ctx leaders (ie_input_offset x)) (tl (ie_rels x))) =
      concat (map (\<lambda>(off, r). hash_fde_rel ctx leaders off r) (?pairs x))" for x by (simp add: comp_def)
  have mm: "map (fde_rel_label ctx leaders (ie_input_offset x)) (tl (ie_rels x)) = map (\<lambda>(off, r). fde_rel_label ctx leaders off r) (?pairs x)" for x
    by (simp add: comp_def)
  show ?thesis
  proof (rule encodesI)
    fix x y r s assume xy: "x \<in> ?A" "y \<in> ?A"
    have l: "concat (map (\<lambda>(off, r). hash_fde_rel ctx leaders off r) (?pairs x)) @ r = concat (map (\<lambda>(off, r). hash_fde_rel ctx leaders off r) (?pairs y)) @ s \<longleftrightarrow>
        map (\<lambda>(off, r). fde_rel_label ctx leaders off r) (?pairs x) = map (\<lambda>(off, r). fde_rel_label ctx leaders off r) (?pairs y) \<and> r = s"
      if "length (ie_rels x) = length (ie_rels y)"
      by (rule encodes_concat [OF encodes_fde_rel [OF assms]]) (use pairs xy that in auto)
    show "hash_fde ctx ?idx leaders x @ r = hash_fde ctx ?idx leaders y @ s \<longleftrightarrow> fde_label ctx leaders x = fde_label ctx leaders y \<and> r = s"
      unfolding hash_fde_def fde_label_def cc mm
      using encodesD [OF head xy, of "concat (map (\<lambda>(off, r). hash_fde_rel ctx leaders off r) (?pairs x)) @ r"
          "concat (map (\<lambda>(off, r). hash_fde_rel ctx leaders off r) (?pairs y)) @ s"] l
      by (simp only: append_assoc prod.inject) blast
  qed
qed

text \<open>Two sections give the same bytes to the hash function exactly when what is compared is the same.\<close>

lemma section_bytes_label:
  assumes ctx: "ctx_ok ctx" "leaders_ok ctx leaders" and "sec_ok ctx (sec_at ctx i)" and "sec_ok ctx (sec_at ctx j)"
  shows "section_bytes ctx (uniquify_cies [] (ic_cies ctx)) leaders i = section_bytes ctx (uniquify_cies [] (ic_cies ctx)) leaders j \<longleftrightarrow>
    section_label ctx leaders i = section_label ctx leaders j"
proof -
  let ?A = "{isec. sec_ok ctx isec}"
  let ?fdes = "\<lambda>isec. concat (map (hash_fde ctx (uniquify_cies [] (ic_cies ctx)) leaders) (ix_fdes isec))"
  let ?rels = "\<lambda>isec. concat (map (hash_rel ctx leaders) (ix_rels isec))"
  let ?x = "sec_at ctx i" and ?y = "sec_at ctx j"
  have xy: "?x \<in> ?A" "?y \<in> ?A" using assms(3,4) by auto
  have h: "encodes ?A (\<lambda>isec. hash_string (ix_contents isec)) ix_contents" by (rule encodes_string) (simp add: sec_ok_def)
  have nf: "encodes ?A (\<lambda>isec. le_bytes 8 (of_nat (length (ix_fdes isec)) :: u64)) (\<lambda>isec. length (ix_fdes isec))"
    by (rule encodes_len64) (simp add: sec_ok_def)
  have nr: "encodes ?A (\<lambda>isec. le_bytes 8 (of_nat (length (ix_rels isec)) :: u64)) (\<lambda>isec. length (ix_rels isec))"
    by (rule encodes_len64) (simp add: sec_ok_def)
  have head: "encodes ?A (\<lambda>isec. hash_string (ix_contents isec) @ le_bytes 8 (ix_flags isec) @ le_bytes 8 (of_nat (length (ix_fdes isec)) :: u64) @
      le_bytes 8 (of_nat (length (ix_rels isec)) :: u64)) (\<lambda>isec. (ix_contents isec, ix_flags isec, length (ix_fdes isec), length (ix_rels isec)))"
    by (rule encodes_seq [OF h encodes_seq [OF _ encodes_seq [OF nf nr]]]) (rule encodes_le_bytes, simp)
  have f: "?fdes ?x @ r = ?fdes ?y @ s \<longleftrightarrow> map (fde_label ctx leaders) (ix_fdes ?x) = map (fde_label ctx leaders) (ix_fdes ?y) \<and> r = s"
    if "length (ix_fdes ?x) = length (ix_fdes ?y)" for r s
    by (rule encodes_concat [OF encodes_fde [OF ctx] _ _ that]) (use assms(3,4) in \<open>auto simp: sec_ok_def list_all_iff\<close>)
  have r: "?rels ?x = ?rels ?y \<longleftrightarrow> map (rel_label ctx leaders) (ix_rels ?x) = map (rel_label ctx leaders) (ix_rels ?y)"
    if "length (ix_rels ?x) = length (ix_rels ?y)"
    using encodes_concat [OF encodes_rel [OF ctx] _ _ that, of "[]" "[]"] assms(3,4) by (auto simp: sec_ok_def list_all_iff)
  have fl: "map (fde_label ctx leaders) (ix_fdes ?x) = map (fde_label ctx leaders) (ix_fdes ?y) \<Longrightarrow> length (ix_fdes ?x) = length (ix_fdes ?y)"
    "map (rel_label ctx leaders) (ix_rels ?x) = map (rel_label ctx leaders) (ix_rels ?y) \<Longrightarrow> length (ix_rels ?x) = length (ix_rels ?y)"
    by (blast dest: map_eq_imp_length_eq)+
  show ?thesis
    unfolding section_bytes_def section_label_def Let_def
    using encodesD [OF head xy, of "?fdes ?x @ ?rels ?x" "?fdes ?y @ ?rels ?y"] f [of "?rels ?x" "?rels ?y"] r fl
    by (simp only: append_assoc prod.inject) blast
qed

end
