(* ===== verification/Elf_ICF_Correct.thy ===== *)
theory Elf_ICF_Correct
  imports Elf_ICF_Tree Elf_ICF_Label
begin

text \<open>
  Sections are folded exactly when their unfoldings are equal, and folding does not change what a relocation refers to.
\<close>

subsection \<open>Leaders\<close>

text \<open>The leader of each key among the sections that were reached is the one of least priority.\<close>

definition leads :: "IcfCtx \<Rightarrow> (nat \<Rightarrow> 'k) \<Rightarrow> nat set \<Rightarrow> 'k \<Rightarrow> nat option \<Rightarrow> bool" where
  "leads ctx key A k r \<longleftrightarrow>
     (case r of None \<Rightarrow> \<forall>i \<in> A. key i \<noteq> k
      | Some l \<Rightarrow> l \<in> A \<and> key l = k \<and> (\<forall>i \<in> A. key i = k \<longrightarrow> ix_priority (sec_at ctx l) \<le> ix_priority (sec_at ctx i)))"

lemma leads_step:
  assumes "\<And>k. leads ctx key A k (m k)"
  shows "leads ctx key (insert i A) k (emplace_leader ctx key i m k)"
  using assms [of "key i"] assms [of k]
  by (fastforce simp: leads_def emplace_leader_def update_leader_def split: option.splits)

lemma leads_fold: "leads ctx key (set is) k (fold (emplace_leader ctx key) is Map.empty k)"
proof -
  have "leads ctx key (A \<union> set is) k (fold (emplace_leader ctx key) is m k)" if "\<And>k. leads ctx key A k (m k)" for A m k
    using that
  proof (induction "is" arbitrary: A m)
    case (Cons i "is")
    from Cons.IH [of "insert i A" "emplace_leader ctx key i m", OF leads_step [OF Cons.prems]] show ?case by simp
  qed simp
  from this [of "{}" Map.empty k] show ?thesis by (simp add: leads_def)
qed

subsection \<open>The graph\<close>

lemma sections_distinct: "distinct (gather_sections ctx)" and sections_set: "set (gather_sections ctx) = {i. icf_eligible ctx i}"
  by (auto simp: gather_sections_def icf_eligible_def candidate_def)

lemma icf_idx_nth:
  assumes "distinct xs" and "k < length xs"
  shows "icf_idx xs (xs ! k) = k"
proof (cases "find_pos (\<lambda>j. j = xs ! k) xs")
  case None
  then show ?thesis using assms(2) by (auto simp: find_pos_None)
next
  case (Some i)
  then show ?thesis using find_pos_Some [OF Some] assms nth_eq_iff_index_eq [OF assms(1), of i k] by (simp add: icf_idx_def)
qed

lemma icf_idx_in:
  assumes "distinct xs" and "j \<in> set xs"
  shows "icf_idx xs j < length xs" and "xs ! icf_idx xs j = j"
  using assms icf_idx_nth [OF assms(1)] by (auto simp: in_set_conv_nth)

text \<open>Cutting a piece out of the array of edges gives the list that was put there.\<close>

lemma prefix_sums_nth: "i < length ks \<Longrightarrow> prefix_sums n ks ! i = n + sum_list (take i ks)"
  by (induction ks arbitrary: n i) (auto simp: nth_Cons split: nat.split)

lemma length_prefix_sums [simp]: "length (prefix_sums n ks) = length ks"
  by (induction ks arbitrary: n) auto

lemma drop_concat: "drop (sum_list (map length (take i xss))) (concat xss) = concat (drop i xss)"
  by (induction xss arbitrary: i) (auto simp: take_Cons' drop_Cons' split: if_splits)

lemma edges_of_concat:
  assumes "i < length xss"
  shows "edges_of (concat xss) (prefix_sums 0 (map length xss)) i = xss ! i"
proof -
  have b: "prefix_sums 0 (map length xss) ! i = sum_list (map length (take i xss))"
    using assms by (simp add: prefix_sums_nth take_map)
  have e: "(if i + 1 = length (prefix_sums 0 (map length xss)) then length (concat xss) else prefix_sums 0 (map length xss) ! (i + 1)) =
      sum_list (map length (take (i + 1) xss))"
    using assms by (auto simp: prefix_sums_nth take_map length_concat)
  have "sum_list (map length (take (i + 1) xss)) = sum_list (map length (take i xss)) + length (xss ! i)"
    using assms by (simp add: take_Suc_conv_app_nth)
  then show ?thesis
    unfolding edges_of_def b e Let_def drop_concat using assms by (simp add: Cons_nth_drop_Suc [symmetric])
qed

lemma gather_edges_targets:
  assumes "gather_edges ctx (gather_sections ctx) = (edges, idx)" and "k < length (gather_sections ctx)"
  shows "edges_of edges idx k = map (icf_idx (gather_sections ctx)) (icf_targets ctx (gather_sections ctx ! k))"
proof -
  let ?f = "\<lambda>i. map (icf_idx (gather_sections ctx)) (icf_targets ctx i)"
  have "edges = concat (map ?f (gather_sections ctx))" "idx = prefix_sums 0 (map length (map ?f (gather_sections ctx)))"
    using assms(1) by (auto simp: gather_edges_def comp_def)
  then show ?thesis using edges_of_concat [of k "map ?f (gather_sections ctx)"] assms(2) by simp
qed

lemma targets_eligible: "j \<in> set (icf_targets ctx i) \<Longrightarrow> icf_eligible ctx j"
  by (auto simp: icf_targets_def map_filter_def split: icf_origin.splits if_splits)

subsection \<open>Unfoldings of sections\<close>

text \<open>
  Two sections have the same code if contents, flags, unwinding information and relocations are the same and the sections that
  they refer to have, one by one, the same code. \<open>leaders\<close> are the leaders of the leaf sections.
\<close>

coinductive same_code :: "IcfCtx \<Rightarrow> nat option list \<Rightarrow> nat \<Rightarrow> nat \<Rightarrow> bool" for ctx leaders where
  "section_label ctx leaders i = section_label ctx leaders j \<Longrightarrow> list_all2 (same_code ctx leaders) (icf_targets ctx i) (icf_targets ctx j) \<Longrightarrow>
   same_code ctx leaders i j"

inductive_cases same_codeE: "same_code ctx leaders i j"

text \<open>No two inputs have the same digest.\<close>

definition collision_free :: "(bytes \<Rightarrow> bytes) \<Rightarrow> (bytes list \<Rightarrow> bytes) \<Rightarrow> bool" where
  "collision_free sha0 sha1 \<longleftrightarrow> inj sha0 \<and> inj sha1 \<and> (\<forall>x ys. sha0 x \<noteq> sha1 ys)"

text \<open>The graph of the gathered sections.\<close>

definition initial_digests :: "(bytes \<Rightarrow> bytes) \<Rightarrow> IcfCtx \<Rightarrow> nat option list \<Rightarrow> bytes list" where
  "initial_digests sha0 ctx leaders = map (compute_digest sha0 ctx (uniquify_cies [] (ic_cies ctx)) leaders) (gather_sections ctx)"

definition graph_edges :: "IcfCtx \<Rightarrow> nat \<Rightarrow> nat list" where
  "graph_edges ctx = (case gather_edges ctx (gather_sections ctx) of (edges, idx) \<Rightarrow> edges_of edges idx)"

lemma graph_edges_targets:
  "k < length (gather_sections ctx) \<Longrightarrow> graph_edges ctx k = map (icf_idx (gather_sections ctx)) (icf_targets ctx (gather_sections ctx ! k))"
  using gather_edges_targets by (auto simp: graph_edges_def split: prod.split)

lemma graph_edges_in:
  "k < length (gather_sections ctx) \<Longrightarrow> j \<in> set (graph_edges ctx k) \<Longrightarrow> j < length (gather_sections ctx)"
  using icf_idx_in(1) [OF sections_distinct, of _ ctx] targets_eligible by (auto simp: graph_edges_targets sections_set)

lemma icf_graph_ok:
  assumes "collision_free sha0 sha1"
  shows "graph_ok sha1 (initial_digests sha0 ctx leaders) (graph_edges ctx)"
  using assms graph_edges_in by (auto simp: graph_ok_def collision_free_def initial_digests_def compute_digest_def)

lemma eligible_sec_ok:
  assumes "ctx_ok ctx" and "candidate ctx i"
  shows "sec_ok ctx (sec_at ctx i)"
  using assms by (auto simp: ctx_ok_def candidate_def list_all_length split: option.splits)

lemma initial_digests_label:
  assumes "collision_free sha0 sha1" and "ctx_ok ctx" and "leaders_ok ctx leaders"
    and "a < length (gather_sections ctx)" and "b < length (gather_sections ctx)"
  shows "initial_digests sha0 ctx leaders ! a = initial_digests sha0 ctx leaders ! b \<longleftrightarrow>
    section_label ctx leaders (gather_sections ctx ! a) = section_label ctx leaders (gather_sections ctx ! b)"
proof -
  have "icf_eligible ctx (gather_sections ctx ! k)" if "k < length (gather_sections ctx)" for k
    using sections_set [of ctx] nth_mem [OF that] by blast
  then have "sec_ok ctx (sec_at ctx (gather_sections ctx ! k))" if "k < length (gather_sections ctx)" for k
    using eligible_sec_ok [OF assms(2)] that by (auto simp: icf_eligible_def)
  then show ?thesis
    using section_bytes_label [OF assms(2,3)] assms(1,4,5) by (simp add: initial_digests_def compute_digest_def collision_free_def inj_eq)
qed

lemma same_unfolding_code:
  assumes "collision_free sha0 sha1" and "ctx_ok ctx" and "leaders_ok ctx leaders"
    and "a < length (gather_sections ctx)" and "b < length (gather_sections ctx)"
  shows "same_unfolding (initial_digests sha0 ctx leaders) (graph_edges ctx) a b \<longleftrightarrow>
    same_code ctx leaders (gather_sections ctx ! a) (gather_sections ctx ! b)"
proof
  let ?S = "gather_sections ctx"
  note lab = initial_digests_label [OF assms(1-3)]
  have idx: "icf_idx ?S j < length ?S" "?S ! icf_idx ?S j = j" if "j \<in> set (icf_targets ctx i)" for i j
    using icf_idx_in [OF sections_distinct, of j ctx] targets_eligible [OF that] by (auto simp: sections_set)
  show "same_code ctx leaders (?S ! a) (?S ! b)" if "same_unfolding (initial_digests sha0 ctx leaders) (graph_edges ctx) a b"
    using that assms(4,5)
  proof (coinduction arbitrary: a b)
    case (same_code a b)
    from same_code(1) have e: "initial_digests sha0 ctx leaders ! a = initial_digests sha0 ctx leaders ! b"
      "list_all2 (same_unfolding (initial_digests sha0 ctx leaders) (graph_edges ctx)) (graph_edges ctx a) (graph_edges ctx b)"
      by (auto elim: same_unfolding.cases)
    have "list_all2 (\<lambda>i j. same_unfolding (initial_digests sha0 ctx leaders) (graph_edges ctx) (icf_idx ?S i) (icf_idx ?S j))
        (icf_targets ctx (?S ! a)) (icf_targets ctx (?S ! b))"
      using e(2) same_code(2,3) by (simp add: graph_edges_targets list_all2_map1 list_all2_map2)
    then have "list_all2 (\<lambda>i j. (\<exists>a b. i = ?S ! a \<and> j = ?S ! b \<and> same_unfolding (initial_digests sha0 ctx leaders) (graph_edges ctx) a b \<and>
        a < length ?S \<and> b < length ?S) \<or> same_code ctx leaders i j) (icf_targets ctx (?S ! a)) (icf_targets ctx (?S ! b))"
      by (rule list.rel_mono_strong) (metis idx)
    then show ?case using e(1) lab [OF same_code(2,3)] by auto
  qed
  show "same_unfolding (initial_digests sha0 ctx leaders) (graph_edges ctx) a b" if "same_code ctx leaders (?S ! a) (?S ! b)"
    using that assms(4,5)
  proof (coinduction arbitrary: a b)
    case (same_unfolding a b)
    from same_unfolding(1) have e: "section_label ctx leaders (?S ! a) = section_label ctx leaders (?S ! b)"
      "list_all2 (same_code ctx leaders) (icf_targets ctx (?S ! a)) (icf_targets ctx (?S ! b))" by (auto elim: same_codeE)
    have "list_all2 (\<lambda>i j. \<exists>a b. icf_idx ?S i = a \<and> icf_idx ?S j = b \<and> same_code ctx leaders (?S ! a) (?S ! b) \<and> a < length ?S \<and> b < length ?S)
        (icf_targets ctx (?S ! a)) (icf_targets ctx (?S ! b))"
      by (rule list.rel_mono_strong [OF e(2)]) (metis idx)
    then have "list_all2 (\<lambda>a b. same_code ctx leaders (?S ! a) (?S ! b) \<and> a < length ?S \<and> b < length ?S) (graph_edges ctx a) (graph_edges ctx b)"
      using same_unfolding(2,3) by (simp add: graph_edges_targets list_all2_map1 list_all2_map2)
    then have "list_all2 (\<lambda>a b. same_code ctx leaders (?S ! a) (?S ! b) \<and> a < length ?S \<and> b < length ?S \<or>
        same_unfolding (initial_digests sha0 ctx leaders) (graph_edges ctx) a b) (graph_edges ctx a) (graph_edges ctx b)"
      by (rule list.rel_mono_strong) blast
    then show ?case using e(1) lab [OF same_unfolding(2,3)] by auto
  qed
qed

subsection \<open>The result\<close>

lemma prio_unique:
  assumes "ctx_ok ctx" and "candidate ctx i" and "candidate ctx j" and "ix_priority (sec_at ctx i) = ix_priority (sec_at ctx j)"
  shows "i = j"
  using assms unfolding ctx_ok_def candidate_def by (auto split: option.splits)

lemma merge_leaf_nodes_leads:
  assumes "set order = {..<length (ic_secs ctx)}" and "i < length (ic_secs ctx)"
  shows "if icf_leaf ctx i then leads ctx (leaf_key ctx) {j. icf_leaf ctx j} (leaf_key ctx i) (merge_leaf_nodes ctx order ! i)
    else merge_leaf_nodes ctx order ! i = None"
proof -
  have "set (filter (icf_leaf ctx) order) = {j. icf_leaf ctx j}" using assms(1) by (auto simp: icf_leaf_def candidate_def)
  then show ?thesis
    using leads_fold [of ctx "leaf_key ctx" "filter (icf_leaf ctx) order"] assms(2) by (simp add: merge_leaf_nodes_def Let_def)
qed

lemma merge_leaf_nodes_ok:
  assumes "set order = {..<length (ic_secs ctx)}"
  shows "leaders_ok ctx (merge_leaf_nodes ctx order)"
  unfolding leaders_ok_def
proof (intro conjI allI impI)
  show "length (merge_leaf_nodes ctx order) = length (ic_secs ctx)" by (simp add: merge_leaf_nodes_def Let_def)
  fix i l assume "i < length (merge_leaf_nodes ctx order) \<and> merge_leaf_nodes ctx order ! i = Some l"
  then show "l < length (ic_secs ctx)"
    using merge_leaf_nodes_leads [OF assms, of i]
    by (auto simp: merge_leaf_nodes_def Let_def leads_def icf_leaf_def candidate_def split: if_splits)
qed

text \<open>Two sections of a set have the same leader exactly if they have the same key, and the leader is the first of them.\<close>

lemma leads_same:
  assumes "leads ctx key A (key i) (f i)" and "leads ctx key A (key j) (f j)" and "i \<in> A" and "j \<in> A"
    and "\<And>a b. a \<in> A \<Longrightarrow> b \<in> A \<Longrightarrow> ix_priority (sec_at ctx a) = ix_priority (sec_at ctx b) \<Longrightarrow> a = b"
  shows "f i = f j \<longleftrightarrow> key i = key j"
proof -
  obtain a b where ab: "f i = Some a" "f j = Some b" using assms(1-4) by (auto simp: leads_def split: option.splits)
  have a: "a \<in> A" "key a = key i" "\<forall>k \<in> A. key k = key i \<longrightarrow> ix_priority (sec_at ctx a) \<le> ix_priority (sec_at ctx k)"
    using assms(1) ab by (auto simp: leads_def)
  have b: "b \<in> A" "key b = key j" "\<forall>k \<in> A. key k = key j \<longrightarrow> ix_priority (sec_at ctx b) \<le> ix_priority (sec_at ctx k)"
    using assms(2) ab by (auto simp: leads_def)
  have "a = b" if "key i = key j"
    using assms(5) [OF a(1) b(1)] a b that by (metis order_antisym)
  then show ?thesis using ab a(2) b(2) by auto
qed

lemma group_sections_leads:
  assumes "set order = {..<length (ic_secs ctx)}" and "i < length (ic_secs ctx)"
  shows "if icf_eligible ctx i
    then leads ctx (\<lambda>i. ds ! icf_idx (gather_sections ctx) i) {j. icf_eligible ctx j} (ds ! icf_idx (gather_sections ctx) i)
           (group_sections ctx order (gather_sections ctx) ds leaders ! i)
    else group_sections ctx order (gather_sections ctx) ds leaders ! i = leaders ! i"
proof -
  have "set (filter (icf_eligible ctx) order) = {j. icf_eligible ctx j}" using assms(1) by (auto simp: icf_eligible_def candidate_def)
  then show ?thesis
    using leads_fold [of ctx "\<lambda>i. ds ! icf_idx (gather_sections ctx) i" "filter (icf_eligible ctx) order"] assms(2)
    by (simp add: group_sections_def Let_def)
qed

lemma icf_sections_result:
  assumes "collision_free sha0 sha1" and "ctx_ok ctx"
  shows "\<exists>ds. icf_sections sha0 sha1 order1 order2 ctx =
      Some (icf_sweep ctx (group_sections ctx order2 (gather_sections ctx) ds (merge_leaf_nodes ctx order1))) \<and>
    final_classes sha1 (initial_digests sha0 ctx (merge_leaf_nodes ctx order1)) (graph_edges ctx) ds"
proof -
  let ?d = "initial_digests sha0 ctx (merge_leaf_nodes ctx order1)"
  let ?rd = "\<lparr> rd_cur = ?d, rd_other = replicate (length ?d) [], rd_converged = replicate (length ?d) False \<rparr>"
  note g = icf_graph_ok [OF assms(1), of ctx "merge_leaf_nodes ctx order1"]
  have "round_ok sha1 ?d (graph_edges ctx) 0 ?rd"
    by (auto simp: round_ok_def intro: nth_equalityI)
  from propagate_changed_total [OF g this] obtain rd' r' where 1:
    "propagate_changed sha1 ?d (graph_edges ctx) None ?rd = Some rd'" "round_ok sha1 ?d (graph_edges ctx) r' rd'" by blast
  from propagate_classes_total [OF g 1(2)] obtain rd'' where 2:
    "propagate_classes sha1 ?d (graph_edges ctx) None rd' = Some rd''" "final_classes sha1 ?d (graph_edges ctx) (rd_cur rd'')" by blast
  obtain edges idx where e: "gather_edges ctx (gather_sections ctx) = (edges, idx)" by (cases "gather_edges ctx (gather_sections ctx)")
  then have ge: "graph_edges ctx = edges_of edges idx" by (simp add: graph_edges_def [abs_def])
  have "icf_sections sha0 sha1 order1 order2 ctx =
      Some (icf_sweep ctx (group_sections ctx order2 (gather_sections ctx) (rd_cur rd'') (merge_leaf_nodes ctx order1)))"
    using 1(1) 2(1) unfolding ge icf_sections_def Let_def initial_digests_def [symmetric] e by simp
  then show ?thesis using 2(2) by blast
qed

text \<open>The leaders that are assigned, for digests that tell the unfoldings apart.\<close>

lemma candidate_cases:
  shows "candidate ctx i \<longleftrightarrow> icf_leaf ctx i \<or> icf_eligible ctx i" and "icf_leaf ctx i \<Longrightarrow> \<not> icf_eligible ctx i"
  by (auto simp: icf_leaf_def icf_eligible_def)

lemma candidate_less: "candidate ctx i \<Longrightarrow> i < length (ic_secs ctx)"
  by (simp add: candidate_def)

text \<open>What holds of a leader, whichever way it was found.\<close>

lemma leads_leader:
  assumes "\<And>i. i \<in> A \<Longrightarrow> leads ctx key A (key i) (f i)" and "i \<in> A"
    and "\<And>a b. a \<in> A \<Longrightarrow> b \<in> A \<Longrightarrow> ix_priority (sec_at ctx a) = ix_priority (sec_at ctx b) \<Longrightarrow> a = b"
  shows "\<exists>l \<in> A. f i = Some l \<and> f l = Some l \<and> (\<forall>j \<in> A. f j = Some l \<longrightarrow> ix_priority (sec_at ctx l) \<le> ix_priority (sec_at ctx j))"
proof -
  obtain l where l: "f i = Some l" "l \<in> A" "key l = key i"
    using assms(1) [OF assms(2)] assms(2) by (auto simp: leads_def split: option.splits)
  have "f l = f i" using leads_same [of ctx key A l f i, OF assms(1) [OF l(2)] assms(1) [OF assms(2)] l(2) assms(2) assms(3)] l(3) by blast
  moreover have "ix_priority (sec_at ctx l) \<le> ix_priority (sec_at ctx j)" if "j \<in> A" "f j = Some l" for j
    using assms(1) [OF that(1)] that by (simp add: leads_def)
  ultimately show ?thesis using l by auto
qed

lemma icf_sections_leaders:
  assumes "collision_free sha0 sha1" and "ctx_ok ctx"
    and "set order1 = {..<length (ic_secs ctx)}" and "set order2 = {..<length (ic_secs ctx)}"
  obtains leaders where "icf_sections sha0 sha1 order1 order2 ctx = Some (icf_sweep ctx leaders)"
    and "\<And>i j. icf_leaf ctx i \<Longrightarrow> icf_leaf ctx j \<Longrightarrow> leaders ! i = leaders ! j \<longleftrightarrow> leaf_key ctx i = leaf_key ctx j"
    and "\<And>i j. icf_eligible ctx i \<Longrightarrow> icf_eligible ctx j \<Longrightarrow> leaders ! i = leaders ! j \<longleftrightarrow> same_code ctx (merge_leaf_nodes ctx order1) i j"
    and "\<And>i. candidate ctx i \<Longrightarrow> \<exists>l. leaders ! i = Some l \<and> leaders ! l = Some l \<and> candidate ctx l \<and> icf_leaf ctx l = icf_leaf ctx i \<and>
       (\<forall>j < length (ic_secs ctx). leaders ! j = Some l \<longrightarrow> ix_priority (sec_at ctx l) \<le> ix_priority (sec_at ctx j))"
    and "\<And>i. i < length (ic_secs ctx) \<Longrightarrow> \<not> candidate ctx i \<Longrightarrow> leaders ! i = None"
    and "\<And>i. i < length (ic_secs ctx) \<Longrightarrow> \<not> icf_eligible ctx i \<Longrightarrow> leaders ! i = merge_leaf_nodes ctx order1 ! i"
proof -
  let ?leaf = "merge_leaf_nodes ctx order1" and ?S = "gather_sections ctx"
  obtain ds where ds: "icf_sections sha0 sha1 order1 order2 ctx = Some (icf_sweep ctx (group_sections ctx order2 ?S ds ?leaf))"
    "final_classes sha1 (initial_digests sha0 ctx ?leaf) (graph_edges ctx) ds"
    using icf_sections_result [OF assms(1,2)] by blast
  let ?L = "group_sections ctx order2 ?S ds ?leaf"
  let ?key = "\<lambda>i. ds ! icf_idx ?S i"
  have uniq: "a = b" if "candidate ctx a" "candidate ctx b" "ix_priority (sec_at ctx a) = ix_priority (sec_at ctx b)" for a b
    using prio_unique [OF assms(2) that] .
  have el: "leads ctx ?key {j. icf_eligible ctx j} (?key i) (?L ! i)" if "i \<in> {j. icf_eligible ctx j}" for i
    using group_sections_leads [OF assms(4), of i ds ?leaf] that candidate_less [of ctx i] candidate_cases(1) [of ctx i] by simp
  have lf: "leads ctx (leaf_key ctx) {j. icf_leaf ctx j} (leaf_key ctx i) (?L ! i)" if "i \<in> {j. icf_leaf ctx j}" for i
    using group_sections_leads [OF assms(4), of i ds ?leaf] merge_leaf_nodes_leads [OF assms(3), of i] that
      candidate_less [of ctx i] candidate_cases(1) [of ctx i] candidate_cases(2) [of ctx i] by (simp split: if_splits)
  have none: "?L ! i = None" if "i < length (ic_secs ctx)" "\<not> candidate ctx i" for i
    using group_sections_leads [OF assms(4) that(1), of ds ?leaf] merge_leaf_nodes_leads [OF assms(3) that(1)] that(2)
      candidate_cases(1) [of ctx i] by simp
  have leafs: "?L ! i = ?L ! j \<longleftrightarrow> leaf_key ctx i = leaf_key ctx j" if "icf_leaf ctx i" "icf_leaf ctx j" for i j
    by (rule leads_same [OF lf lf]) (use that uniq candidate_cases(1) in auto)
  have code: "?L ! i = ?L ! j \<longleftrightarrow> same_code ctx ?leaf i j" if "icf_eligible ctx i" "icf_eligible ctx j" for i j
  proof -
    have idx: "icf_idx ?S k < length ?S" "?S ! icf_idx ?S k = k" if "icf_eligible ctx k" for k
      using icf_idx_in [OF sections_distinct, of k ctx] that by (simp_all add: sections_set)
    have "?L ! i = ?L ! j \<longleftrightarrow> ?key i = ?key j"
      by (rule leads_same [OF el el]) (use that uniq candidate_cases(1) in auto)
    also have "\<dots> \<longleftrightarrow> same_unfolding (initial_digests sha0 ctx ?leaf) (graph_edges ctx) (icf_idx ?S i) (icf_idx ?S j)"
      by (rule final_classes_unfolding [OF icf_graph_ok [OF assms(1)] ds(2)])
        (use idx that in \<open>simp_all add: initial_digests_def\<close>)
    also have "\<dots> \<longleftrightarrow> same_code ctx ?leaf i j"
      using same_unfolding_code [OF assms(1,2) merge_leaf_nodes_ok [OF assms(3)] idx(1) idx(1), OF that] idx(2) that by simp
    finally show ?thesis .
  qed
  have lead: "\<exists>l. ?L ! i = Some l \<and> ?L ! l = Some l \<and> candidate ctx l \<and> icf_leaf ctx l = icf_leaf ctx i \<and>
      (\<forall>j < length (ic_secs ctx). ?L ! j = Some l \<longrightarrow> ix_priority (sec_at ctx l) \<le> ix_priority (sec_at ctx j))"
    if i: "candidate ctx i" for i
  proof -
    let ?A = "if icf_leaf ctx i then {j. icf_leaf ctx j} else {j. icf_eligible ctx j}"
    let ?k = "\<lambda>j. if icf_leaf ctx i then Inl (leaf_key ctx j) else Inr (?key j)"
    have A: "i \<in> ?A" "candidate ctx j" if "j \<in> ?A" for j
      using i that candidate_cases(1) by (auto split: if_splits)
    have ld: "leads ctx ?k ?A (?k j) (?L ! j)" if "j \<in> ?A" for j
      using lf [of j] el [of j] that by (auto simp: leads_def split: if_splits option.splits)
    have "\<exists>l \<in> ?A. ?L ! i = Some l \<and> ?L ! l = Some l \<and> (\<forall>j \<in> ?A. ?L ! j = Some l \<longrightarrow> ix_priority (sec_at ctx l) \<le> ix_priority (sec_at ctx j))"
      by (rule leads_leader [OF ld]) (use A(1) i candidate_cases(1) [of ctx i] uniq A(2) in auto)
    then obtain l where l: "l \<in> ?A" "?L ! i = Some l" "?L ! l = Some l"
      "\<forall>j \<in> ?A. ?L ! j = Some l \<longrightarrow> ix_priority (sec_at ctx l) \<le> ix_priority (sec_at ctx j)" by blast
    have kind: "j \<in> ?A" if "j < length (ic_secs ctx)" "?L ! j = Some l" for j
    proof -
      have j: "candidate ctx j" using none [OF that(1)] that(2) by auto
      show ?thesis
        using lf [of j] el [of j] that(2) l(1) j candidate_cases(1) [of ctx j] candidate_cases(2) [of ctx j] candidate_cases(2) [of ctx l]
        by (auto simp: leads_def split: if_splits)
    qed
    show ?thesis using l kind A(2) [OF l(1)] candidate_cases(2) [of ctx l] by (auto split: if_splits)
  qed
  have other: "?L ! i = ?leaf ! i" if "i < length (ic_secs ctx)" "\<not> icf_eligible ctx i" for i
    using group_sections_leads [OF assms(4) that(1), of ds ?leaf] that(2) by simp
  show thesis by (rule that [OF ds(1) leafs code lead none other])
qed

lemma icf_sweep_alive:
  "i < length (ic_secs ctx) \<Longrightarrow> ic_alive (icf_sweep ctx leaders) ! i \<longleftrightarrow>
     (\<exists>isec. ic_secs ctx ! i = Some isec \<and> ix_alive isec) \<and> (leaders ! i = None \<or> leaders ! i = Some i)"
  "ic_leaders (icf_sweep ctx leaders) = leaders"
  by (auto simp: icf_sweep_def is_killed_by_icf_def split: option.splits)


subsection \<open>References after folding\<close>

text \<open>
  What a symbol refers to once sections are folded, with the leader in place of a section that was folded. A symbol of a shared
  library refers to itself.
\<close>

definition resolved :: "IcfCtx \<Rightarrow> nat option list \<Rightarrow> nat \<Rightarrow> sym_key \<times> u64" where
  "resolved ctx leaders s =
     (let sym = ic_syms ctx ! s
      in (if \<not> iy_file sym then Undefined_symbol s
          else case iy_origin sym of
            In_fragment frag \<Rightarrow> Fragment frag
          | Elsewhere \<Rightarrow> if iy_dso sym then Undefined_symbol s else No_section
          | In_section i \<Rightarrow> Section (case leaders ! i of Some l \<Rightarrow> l | None \<Rightarrow> i), iy_value sym))"

text \<open>Symbols of shared libraries can be told from other symbols outside of sections by their values.\<close>

definition dso_values_differ :: "IcfCtx \<Rightarrow> bool" where
  "dso_values_differ ctx \<longleftrightarrow>
     (\<forall>s \<in> set [0..<length (ic_syms ctx)]. \<forall>t \<in> set [0..<length (ic_syms ctx)].
        iy_origin (ic_syms ctx ! s) = Elsewhere \<and> iy_origin (ic_syms ctx ! t) = Elsewhere \<and> iy_dso (ic_syms ctx ! s) \<and>
        iy_value (ic_syms ctx ! s) = iy_value (ic_syms ctx ! t) \<longrightarrow> s = t)"

lemma list_all2_map_filter:
  "list_all2 Q xs ys \<Longrightarrow> (\<And>x y. Q x y \<Longrightarrow> f x = None \<longleftrightarrow> f y = None) \<Longrightarrow> list_all2 R (List.map_filter f xs) (List.map_filter f ys) \<Longrightarrow>
   list_all2 (\<lambda>x y. Q x y \<and> (\<forall>a b. f x = Some a \<and> f y = Some b \<longrightarrow> R a b)) xs ys"
proof (induction xs ys rule: list_all2_induct)
  case (Cons x xs y ys)
  from Cons.prems(1) [OF Cons.hyps(1)] show ?case using Cons by (cases "f x"; cases "f y") (auto simp: map_filter_simps)
qed simp

text \<open>The eligible section that a relocation refers to.\<close>

definition target_of :: "IcfCtx \<Rightarrow> IcfRel \<Rightarrow> nat option" where
  "target_of ctx r = (case iy_origin (ic_syms ctx ! ir_sym r) of In_section j \<Rightarrow> if icf_eligible ctx j then Some j else None | _ \<Rightarrow> None)"

lemma resolved_same:
  assumes "dso_values_differ ctx" and "rel_ok ctx r" and "rel_ok ctx r'" and "list_all (sym_ok ctx) (ic_syms ctx)"
    and "rel_label ctx leaf r = rel_label ctx leaf r'"
    and "\<And>i. i < length (ic_secs ctx) \<Longrightarrow> \<not> icf_eligible ctx i \<Longrightarrow> leaders ! i = leaf ! i"
    and "\<And>i. i < length (ic_secs ctx) \<Longrightarrow> icf_eligible ctx i \<Longrightarrow> leaf ! i = None"
    and "\<And>a b. target_of ctx r = Some a \<Longrightarrow> target_of ctx r' = Some b \<Longrightarrow> leaders ! a = leaders ! b \<and> leaders ! a \<noteq> None"
  shows "resolved ctx leaders (ir_sym r) = resolved ctx leaders (ir_sym r')"
proof -
  let ?s = "ic_syms ctx ! ir_sym r" and ?t = "ic_syms ctx ! ir_sym r'"
  have k: "symbol_key ctx leaf (ir_sym r) = symbol_key ctx leaf (ir_sym r')" "iy_value ?s = iy_value ?t"
    using assms(5) by (simp_all add: rel_label_def sym_label_def)
  have ok: "sym_ok ctx ?s" "sym_ok ctx ?t" using assms(2-4) by (auto simp: rel_ok_def list_all_length)
  have dso: "ir_sym r = ir_sym r'" if "iy_origin ?s = Elsewhere" "iy_origin ?t = Elsewhere" "iy_dso ?s \<or> iy_dso ?t"
    using assms(1-3) that k(2) unfolding dso_values_differ_def rel_ok_def by (metis atLeastLessThan_iff le0 set_upt)
  have sec: "(case leaders ! a of Some l \<Rightarrow> l | None \<Rightarrow> a) = (case leaders ! b of Some l \<Rightarrow> l | None \<Rightarrow> b)"
    if o: "iy_origin ?s = In_section a" "iy_origin ?t = In_section b" and f: "iy_file ?s" "iy_file ?t" for a b
  proof -
    have ab: "a < length (ic_secs ctx)" "b < length (ic_secs ctx)" using ok o by (simp_all add: sym_ok_def)
    have key: "(case leaf ! a of Some l \<Rightarrow> Leader l | None \<Rightarrow> if icf_eligible ctx a then Eligible else Section a) =
        (case leaf ! b of Some l \<Rightarrow> Leader l | None \<Rightarrow> if icf_eligible ctx b then Eligible else Section b)"
      using k(1) o f by (simp add: symbol_key_def)
    show ?thesis
    proof (cases "icf_eligible ctx a \<and> icf_eligible ctx b")
      case True
      then have "leaders ! a = leaders ! b \<and> leaders ! a \<noteq> None" using o by (intro assms(8)) (simp_all add: target_of_def)
      then show ?thesis by (cases "leaders ! b") auto
    next
      case False
      then have "\<not> icf_eligible ctx a" "\<not> icf_eligible ctx b"
        using key assms(7) ab by (auto split: option.splits if_splits)
      then show ?thesis using key assms(6) ab by (auto split: option.splits)
    qed
  qed
  show ?thesis
  proof (cases "iy_file ?s \<and> iy_file ?t")
    case False
    then have "ir_sym r = ir_sym r'" using k(1) by (auto simp: symbol_key_def Let_def split: icf_origin.splits option.splits if_splits)
    then show ?thesis by simp
  next
    case True
    show ?thesis
    proof (cases "iy_origin ?s")
      case (In_section a)
      then obtain b where b: "iy_origin ?t = In_section b"
        using k(1) True by (cases "iy_origin ?t") (auto simp: symbol_key_def split: option.splits if_splits)
      from sec [OF In_section b] show ?thesis using True In_section b k(2) by (simp add: resolved_def)
    next
      case (In_fragment f)
      then have "iy_origin ?t = In_fragment f"
        using k(1) True by (cases "iy_origin ?t") (auto simp: symbol_key_def split: option.splits if_splits)
      then show ?thesis using True In_fragment k(2) by (simp add: resolved_def)
    next
      case Elsewhere
      then have e: "iy_origin ?t = Elsewhere"
        using k(1) True by (cases "iy_origin ?t") (auto simp: symbol_key_def split: option.splits if_splits)
      show ?thesis using True Elsewhere e k(2) dso [OF Elsewhere e]
        by (cases "iy_dso ?s \<or> iy_dso ?t") (auto simp: resolved_def Let_def)
    qed
  qed
qed

lemma target_same:
  assumes "ctx_ok ctx" and "\<And>i. i < length (ic_secs ctx) \<Longrightarrow> icf_eligible ctx i \<Longrightarrow> leaf ! i = None"
    and "rel_label ctx leaf r = rel_label ctx leaf r'" and "rel_ok ctx r" and "rel_ok ctx r'"
  shows "target_of ctx r = None \<longleftrightarrow> target_of ctx r' = None"
proof -
  have k: "symbol_key ctx leaf (ir_sym r) = symbol_key ctx leaf (ir_sym r')" using assms(3) by (simp add: rel_label_def sym_label_def)
  have e: "target_of ctx q = None \<longleftrightarrow> symbol_key ctx leaf (ir_sym q) \<noteq> Eligible" if "rel_ok ctx q" "iy_file (ic_syms ctx ! ir_sym q)" for q
  proof -
    have "sym_ok ctx (ic_syms ctx ! ir_sym q)" using assms(1) that(1) by (auto simp: ctx_ok_def rel_ok_def list_all_length)
    then show ?thesis using that(2) assms(2)
      by (auto simp: target_of_def symbol_key_def Let_def sym_ok_def split: icf_origin.splits option.splits if_splits)
  qed
  show ?thesis
  proof (cases "iy_file (ic_syms ctx ! ir_sym r) \<and> iy_file (ic_syms ctx ! ir_sym r')")
    case True
    then show ?thesis using e k assms(4,5) by simp
  next
    case False
    then have "ir_sym r = ir_sym r'" using k by (auto simp: symbol_key_def Let_def split: icf_origin.splits option.splits if_splits)
    then show ?thesis by (simp add: target_of_def)
  qed
qed


end
