(* ===== verification/Elf_ICF_Example.thy ===== *)
theory Elf_ICF_Example
  imports Elf_ICF_Correct
begin

text \<open>Small graphs of sections: the one in the comment of \<^verbatim>\<open>icf.cc\<close>, and some on which folding goes wrong.\<close>

subsection \<open>A hash function without collisions\<close>

fun escape :: "bytes \<Rightarrow> bytes" where
  "escape [] = [0]"
| "escape (b # bs) = 1 # b # escape bs"

definition digest0 :: "bytes \<Rightarrow> bytes" where
  "digest0 x = 0 # x"

definition digest1 :: "bytes list \<Rightarrow> bytes" where
  "digest1 xs = 1 # concat (map escape xs)"

lemma escape_prefix: "escape x @ r = escape y @ s \<longleftrightarrow> x = y \<and> r = s"
proof (induction x arbitrary: y)
  case Nil
  then show ?case by (cases y) auto
next
  case (Cons b x)
  then show ?case by (cases y) auto
qed

lemma escape_concat: "concat (map escape xs) = concat (map escape ys) \<Longrightarrow> xs = ys"
proof (induction xs arbitrary: ys)
  case Nil
  have "escape z \<noteq> []" for z by (cases z) auto
  then show ?case using Nil by (cases ys) auto
next
  case (Cons x xs)
  have "escape z \<noteq> []" for z by (cases z) auto
  then obtain y ys' where "ys = y # ys'" using Cons.prems by (cases ys) auto
  then show ?case using Cons by (auto simp: escape_prefix)
qed

lemma digests_collision_free: "collision_free digest0 digest1"
  using escape_concat by (auto simp: collision_free_def digest0_def digest1_def inj_def)

subsection \<open>Two pairs of functions that call each other\<close>

definition example_sec :: "string \<Rightarrow> u64 \<Rightarrow> bytes \<Rightarrow> int \<Rightarrow> IcfRel list \<Rightarrow> IcfFde list \<Rightarrow> IcfSec option" where
  "example_sec n fl c p rels fdes = Some \<lparr> ix_name = str n, ix_type = SHT_PROGBITS, ix_flags = fl, ix_size = of_nat (length c), ix_contents = c,
     ix_address_significant = False, ix_alive = True, ix_priority = p, ix_rels = rels, ix_fdes = fdes \<rparr>"

definition example_rel :: "nat \<Rightarrow> IcfRel" where
  "example_rel s = \<lparr> ir_offset = 1, ir_type = 4, ir_sym = s, ir_addend = - 4 \<rparr>"

definition defined_at :: "nat \<Rightarrow> IcfSym" where
  "defined_at i = \<lparr> iy_file = True, iy_dso = False, iy_origin = In_section i, iy_value = 0 \<rparr>"

text \<open>\<open>A\<close> calls \<open>C\<close>, \<open>B\<close> calls \<open>D\<close>, \<open>C\<close> calls \<open>A\<close> and \<open>D\<close> calls \<open>B\<close>.\<close>

definition abcd :: IcfCtx where
  "abcd = \<lparr> ic_secs = [example_sec ''.text.A'' 6 [0xe8, 0, 0, 0, 0, 0xc3] 0 [example_rel 2] [], example_sec ''.text.B'' 6 [0xe8, 0, 0, 0, 0, 0xc3] 1 [example_rel 3] [],
       example_sec ''.text.C'' 6 [0xe9, 0, 0, 0, 0] 2 [example_rel 0] [], example_sec ''.text.D'' 6 [0xe9, 0, 0, 0, 0] 3 [example_rel 1] []],
     ic_syms = map defined_at [0, 1, 2, 3], ic_cies = [], ic_icf_all = True, ic_ignore_data_address_equality = False \<rparr>"

lemma abcd_ok: "ctx_ok abcd" "dso_values_differ abcd"
  by (simp_all add: abcd_def ctx_ok_def dso_values_differ_def example_sec_def example_rel_def defined_at_def sec_ok_def rel_ok_def sym_ok_def)

lemma abcd_eval:
  "map (icf_eligible abcd) [0, 1, 2, 3] = [True, True, True, True]" "merge_leaf_nodes abcd [0, 1, 2, 3] = [None, None, None, None]"
  "map (icf_targets abcd) [0, 1, 2, 3] = [[2], [3], [0], [1]]"
  "section_label abcd [None, None, None, None] 0 = section_label abcd [None, None, None, None] 1"
  "section_label abcd [None, None, None, None] 2 = section_label abcd [None, None, None, None] 3"
  by code_simp+

lemma abcd_same: "same_code abcd (merge_leaf_nodes abcd [0, 1, 2, 3]) 0 1" "same_code abcd (merge_leaf_nodes abcd [0, 1, 2, 3]) 2 3"
proof -
  have "same_code abcd (merge_leaf_nodes abcd [0, 1, 2, 3]) i j" if "i = 0 \<and> j = 1 \<or> i = 2 \<and> j = 3" for i j
    using that by (coinduction arbitrary: i j) (use abcd_eval in auto)
  then show "same_code abcd (merge_leaf_nodes abcd [0, 1, 2, 3]) 0 1" "same_code abcd (merge_leaf_nodes abcd [0, 1, 2, 3]) 2 3" by blast+
qed

subsection \<open>Folding that goes wrong\<close>

definition dso_symbol :: "u64 \<Rightarrow> IcfSym" where
  "dso_symbol v = \<lparr> iy_file = True, iy_dso = True, iy_origin = Elsewhere, iy_value = v \<rparr>"

text \<open>Two functions that call different functions of shared libraries, whose values happen to be the same.\<close>

definition dso_calls :: IcfCtx where
  "dso_calls = \<lparr> ic_secs = [example_sec ''.text.f'' 6 [0xe8, 0, 0, 0, 0, 0xc3] 0 [example_rel 0] [], example_sec ''.text.g'' 6 [0xe8, 0, 0, 0, 0, 0xc3] 1 [example_rel 1] []],
     ic_syms = [dso_symbol 0x1139, dso_symbol 0x1139], ic_cies = [], ic_icf_all = True, ic_ignore_data_address_equality = False \<rparr>"

lemma dso_calls_ok: "ctx_ok dso_calls"
  by (simp add: dso_calls_def ctx_ok_def example_sec_def example_rel_def dso_symbol_def sec_ok_def rel_ok_def sym_ok_def)

lemma dso_calls_eval:
  "icf_eligible dso_calls 0" "icf_eligible dso_calls 1" "merge_leaf_nodes dso_calls [0, 1] = [None, None]"
  "icf_targets dso_calls 0 = []" "icf_targets dso_calls 1 = []"
  "section_label dso_calls [None, None] 0 = section_label dso_calls [None, None] 1" "length (ic_secs dso_calls) = 2"
  by code_simp+

text \<open>They are folded, although they call different functions.\<close>

lemma icf_folds_dso_calls:
  "\<exists>res. icf_sections digest0 digest1 [0, 1] [0, 1] dso_calls = Some res \<and> ic_leaders res ! 0 = ic_leaders res ! 1 \<and>
     resolved dso_calls (ic_leaders res) 0 \<noteq> resolved dso_calls (ic_leaders res) 1"
proof -
  have "same_code dso_calls (merge_leaf_nodes dso_calls [0, 1]) 0 1"
    by (rule same_code.intros) (simp_all only: dso_calls_eval list_all2_Nil)
  moreover have "set [0, 1] = {..<length (ic_secs dso_calls)}" unfolding dso_calls_eval(7) by auto
  ultimately obtain leaders where "icf_sections digest0 digest1 [0, 1] [0, 1] dso_calls = Some (icf_sweep dso_calls leaders)"
    "leaders ! 0 = leaders ! 1"
    using icf_sections_leaders [OF digests_collision_free dso_calls_ok, of "[0, 1]" "[0, 1]"] dso_calls_eval(1,2) by metis
  then show ?thesis by (simp add: icf_sweep_alive resolved_def dso_calls_def dso_symbol_def)
qed

text \<open>
  With \<^verbatim>\<open>--ignore-data-address-equality\<close>: two functions with the same code, whose unwinding information refers to different
  tables of exceptions, sections 2 and 3. The tables have relocations and are not folded.
\<close>

definition example_fde :: "nat \<Rightarrow> IcfFde" where
  "example_fde s = \<lparr> ie_cie = 0, ie_contents = replicate 24 0, ie_input_offset = 0,
     ie_rels = [\<lparr> ir_offset = 8, ir_type = 2, ir_sym = 4, ir_addend = 0 \<rparr>, \<lparr> ir_offset = 17, ir_type = 2, ir_sym = s, ir_addend = 0 \<rparr>] \<rparr>"

definition handlers :: IcfCtx where
  "handlers = \<lparr> ic_secs = [example_sec ''.text.f'' 6 [0xe8, 0, 0, 0, 0, 0xc3] 0 [example_rel 4] [example_fde 2],
       example_sec ''.text.g'' 6 [0xe8, 0, 0, 0, 0, 0xc3] 1 [example_rel 4] [example_fde 3],
       example_sec ''.gcc_except_table.f'' 2 [1, 0, 0, 0, 0] 2 [example_rel 4] [], example_sec ''.gcc_except_table.g'' 2 [2, 0, 0, 0, 0] 3 [example_rel 4] []],
     ic_syms = map defined_at [0, 1, 2, 3] @ [\<lparr> iy_file = False, iy_dso = False, iy_origin = Elsewhere, iy_value = 0 \<rparr>],
     ic_cies = [\<lparr> ii_contents = [], ii_input_offset = 0, ii_rels = [] \<rparr>], ic_icf_all = True, ic_ignore_data_address_equality = True \<rparr>"

lemma handlers_ok: "ctx_ok handlers"
  by (simp add: handlers_def ctx_ok_def example_sec_def example_rel_def defined_at_def example_fde_def sec_ok_def fde_ok_def rel_ok_def sym_ok_def)

lemma handlers_eval:
  "map (icf_eligible handlers) [0, 1, 2, 3] = [True, True, True, True]" "merge_leaf_nodes handlers [0, 1, 2, 3] = [None, None, None, None]"
  "map (icf_targets handlers) [0, 1, 2, 3] = [[], [], [], []]"
  "section_label handlers [None, None, None, None] 0 = section_label handlers [None, None, None, None] 1"
  "section_label handlers [None, None, None, None] 2 \<noteq> section_label handlers [None, None, None, None] 3"
  "length (ic_secs handlers) = 4"
  by code_simp+

lemma icf_folds_other_handlers:
  "\<exists>res. icf_sections digest0 digest1 [0, 1, 2, 3] [0, 1, 2, 3] handlers = Some res \<and> ic_leaders res ! 0 = ic_leaders res ! 1 \<and>
     ic_leaders res ! 2 \<noteq> ic_leaders res ! 3"
proof -
  have "same_code handlers (merge_leaf_nodes handlers [0, 1, 2, 3]) 0 1"
    by (rule same_code.intros) (use handlers_eval in simp_all)
  moreover have "\<not> same_code handlers (merge_leaf_nodes handlers [0, 1, 2, 3]) 2 3"
    using handlers_eval by (auto elim: same_codeE)
  moreover have "set [0, 1, 2, 3] = {..<length (ic_secs handlers)}" unfolding handlers_eval(6) by auto
  ultimately obtain leaders where "icf_sections digest0 digest1 [0, 1, 2, 3] [0, 1, 2, 3] handlers = Some (icf_sweep handlers leaders)"
    "leaders ! 0 = leaders ! 1" "leaders ! 2 \<noteq> leaders ! 3"
    using icf_sections_leaders [OF digests_collision_free handlers_ok, of "[0, 1, 2, 3]" "[0, 1, 2, 3]"] handlers_eval(1) by (simp; metis)
  then show ?thesis by (simp add: icf_sweep_alive)
qed

text \<open>A function and a constant with the same bytes and without relocations are folded into one another: \<open>LeafEq\<close> leaves out the flags.\<close>

definition code_and_data :: IcfCtx where
  "code_and_data = \<lparr> ic_secs = [example_sec ''.rodata.x'' 2 [0xc3] 0 [] [], example_sec ''.text.f'' 6 [0xc3] 1 [] []],
     ic_syms = [], ic_cies = [], ic_icf_all = True, ic_ignore_data_address_equality = True \<rparr>"

lemma icf_folds_code_into_data: "merge_leaf_nodes code_and_data [0, 1] = [Some 0, Some 0]"
  by code_simp

subsection \<open>Witnesses\<close>

lemma abcd_orders: "set [0, 1, 2, 3] = {..<length (ic_secs abcd)}" "set [3, 2, 1, 0] = {..<length (ic_secs abcd)}"
  by (auto simp: abcd_def)



end
