(* ===== verification/Elf_Thunks.thy ===== *)
theory Elf_Thunks
  imports Elf_Types "HOL-Library.Product_Lexorder"
begin

text \<open>
  Range extension thunks (\<^verbatim>\<open>src/elf/thunks.cc\<close>) for the input sections of one output section. A section is its index there,
  a symbol an index into the table of symbols. Offsets are natural numbers; an offset is stored in 32 bits.
\<close>

subsection \<open>Branches\<close>

definition max_distance :: "machine \<Rightarrow> int" where
  "max_distance m = (if m = ARM64 then 2 ^ 27 else if m = ARM32 then 2 ^ 24 else 2 ^ 25)"

definition batch_size :: "machine \<Rightarrow> int" where
  "batch_size m = max_distance m div 10"

definition max_thunk_size :: int where
  "max_thunk_size = 102400"

definition needs_thunk_rel :: "machine \<Rightarrow> u32 \<Rightarrow> bool" where
  "needs_thunk_rel m ty \<longleftrightarrow>
     (if m = ARM64 then ty = R_AARCH64_JUMP26 \<or> ty = R_AARCH64_CALL26
      else if m = ARM32 then ty = R_ARM_JUMP24 \<or> ty = R_ARM_THM_JUMP24 \<or> ty = R_ARM_CALL \<or> ty = R_ARM_THM_CALL \<or> ty = R_ARM_PLT32
      else if m = PPC32 then ty = R_PPC_REL24 \<or> ty = R_PPC_PLTREL24 \<or> ty = R_PPC_LOCAL24PC
      else ty = R_PPC64_REL24 \<or> ty = R_PPC64_REL24_NOTOC)"

record ThunkRel =
  tr_type :: u32
  tr_offset :: nat
  tr_sym :: nat
  tr_addend :: int

text \<open>\<open>ts_section\<close> is the section of the symbol if it is in the same output section.\<close>

record ThunkSym =
  ts_file :: bool
  ts_section :: "nat option"
  ts_value :: int
  ts_plt :: bool
  ts_preserves_r2 :: bool
  ts_uses_toc :: bool
  ts_key :: "nat \<times> nat"

record ThunkSec =
  tm_size :: nat
  tm_p2align :: nat
  tm_rels :: "ThunkRel list"

record ThunkCtx =
  tc_addr :: int
  tc_members :: "ThunkSec list"
  tc_syms :: "ThunkSym list"

definition unassigned :: nat where
  "unassigned = 4294967295"

text \<open>\<^verbatim>\<open>sym.get_addr(ctx, NO_OPD)\<close> of a symbol in the output section, for the offsets assigned so far.\<close>

definition sym_addr :: "ThunkCtx \<Rightarrow> nat list \<Rightarrow> ThunkSym \<Rightarrow> nat \<Rightarrow> int" where
  "sym_addr ctx offsets y i = tc_addr ctx + int (offsets ! i) + ts_value y"

definition branch_val :: "ThunkCtx \<Rightarrow> nat list \<Rightarrow> nat \<Rightarrow> ThunkRel \<Rightarrow> ThunkSym \<Rightarrow> nat \<Rightarrow> int" where
  "branch_val ctx offsets i r y j = sym_addr ctx offsets y j + tr_addend r - (tc_addr ctx + int (offsets ! i) + int (tr_offset r))"

definition in_reach :: "machine \<Rightarrow> int \<Rightarrow> bool" where
  "in_reach m val \<longleftrightarrow> - max_distance m \<le> val \<and> val < max_distance m"

definition is_reachable :: "machine \<Rightarrow> ThunkCtx \<Rightarrow> nat list \<Rightarrow> nat \<Rightarrow> ThunkRel \<Rightarrow> bool" where
  "is_reachable m ctx offsets i r =
     (let y = tc_syms ctx ! tr_sym r; ty = tr_type r
      in case ts_section y of
           None \<Rightarrow> False
         | Some j \<Rightarrow>
             if ts_plt y then False
             else if offsets ! j = unassigned then False
             else if m = ARM32 \<and> (let is_thumb = odd (sym_addr ctx offsets y j)
                  in ty = R_ARM_THM_JUMP24 \<and> \<not> is_thumb \<or> ty = R_ARM_JUMP24 \<and> is_thumb \<or> ty = R_ARM_PLT32 \<and> is_thumb) then False
             else if m = PPC64V2 \<and> (ty = R_PPC64_REL24 \<and> \<not> ts_preserves_r2 y \<or> ty = R_PPC64_REL24_NOTOC \<and> ts_uses_toc y) then False
             else in_reach m (branch_val ctx offsets i r y j))"

subsection \<open>Thunks\<close>

record Thunk =
  tk_offset :: nat
  tk_symbols :: "nat list"

definition thunk_bytes :: "machine \<Rightarrow> nat \<Rightarrow> nat" where
  "thunk_bytes m n = unat (the (thunk_hdr_size (desc m))) + n * unat (the (thunk_size (desc m)))"

definition thunk_alignment :: nat where
  "thunk_alignment = 4"

text \<open>\<^verbatim>\<open>get_addr(idx)\<close> of a thunk.\<close>

definition thunk_addr :: "machine \<Rightarrow> ThunkCtx \<Rightarrow> Thunk \<Rightarrow> nat \<Rightarrow> int" where
  "thunk_addr m ctx t idx = tc_addr ctx + int (tk_offset t) + int (unat (the (thunk_hdr_size (desc m)))) + int idx * int (unat (the (thunk_size (desc m))))"

text \<open>
  The offsets of the sections, the end of what is laid out, the thunks, for each symbol the thunk that it is in and its index
  there, the symbols that have their flag set, and for each relocation the thunk and the index in it; \<open>None\<close> is \<open>-1\<close>.
\<close>

record ThunkSt =
  th_offsets :: "nat list"
  th_offset :: nat
  th_thunks :: "Thunk list"
  th_extra :: "nat \<Rightarrow> (nat \<times> nat) option"
  th_flags :: "nat \<Rightarrow> bool"
  th_refs :: "(nat \<times> nat option) option list list"

definition reset_thunk :: "Thunk \<Rightarrow> ThunkSt \<Rightarrow> ThunkSt" where
  "reset_thunk t st = st \<lparr> th_extra := (\<lambda>s. if s \<in> set (tk_symbols t) then None else th_extra st s),
     th_flags := (\<lambda>s. if s \<in> set (tk_symbols t) then False else th_flags st s) \<rparr>"

text \<open>One relocation of the scan: the reference it gets, and whether its symbol is added to the new thunk \<open>k\<close>.\<close>

definition thunk_scan_rel :: "machine \<Rightarrow> ThunkCtx \<Rightarrow> nat \<Rightarrow> nat \<Rightarrow> ThunkRel \<Rightarrow> (nat \<Rightarrow> bool) \<times> nat list \<Rightarrow> ThunkSt \<Rightarrow>
    (nat \<times> nat option) option \<times> (nat \<Rightarrow> bool) \<times> nat list" where
  "thunk_scan_rel m ctx k i r acc st =
     (if \<not> needs_thunk_rel m (tr_type r) then (None, acc)
      else if \<not> ts_file (tc_syms ctx ! tr_sym r) then (None, acc)
      else if is_reachable m ctx (th_offsets st) i r then (None, acc)
      else case th_extra st (tr_sym r) of
        Some (t, idx) \<Rightarrow> (Some (t, Some idx), acc)
      | None \<Rightarrow>
          (Some (k, None),
           if fst acc (tr_sym r) then acc else ((fst acc) (tr_sym r := True), snd acc @ [tr_sym r])))"

fun scan_rels :: "machine \<Rightarrow> ThunkCtx \<Rightarrow> nat \<Rightarrow> nat \<Rightarrow> ThunkRel list \<Rightarrow> (nat \<Rightarrow> bool) \<times> nat list \<Rightarrow> ThunkSt \<Rightarrow>
    (nat \<times> nat option) option list \<times> (nat \<Rightarrow> bool) \<times> nat list" where
  "scan_rels m ctx k i [] acc st = ([], acc)"
| "scan_rels m ctx k i (r # rs) acc st =
     (let (ref, acc) = thunk_scan_rel m ctx k i r acc st; (refs, acc) = scan_rels m ctx k i rs acc st in (ref # refs, acc))"

text \<open>The sections of the batch. A scan reads only what the scans of the other sections do not write, the flags apart.\<close>

fun scan_sections :: "machine \<Rightarrow> ThunkCtx \<Rightarrow> nat \<Rightarrow> nat list \<Rightarrow> (nat \<Rightarrow> bool) \<times> nat list \<Rightarrow> ThunkSt \<Rightarrow>
    (nat \<times> (nat \<times> nat option) option list) list \<times> (nat \<Rightarrow> bool) \<times> nat list" where
  "scan_sections m ctx k [] acc st = ([], acc)"
| "scan_sections m ctx k (i # is) acc st =
     (let (refs, acc) = scan_rels m ctx k i (tm_rels (tc_members ctx ! i)) acc st;
          (rest, acc) = scan_sections m ctx k is acc st
      in ((i, refs) # rest, acc))"

text \<open>The second scan gives the index in the new thunk to the references to it.\<close>

definition fix_ref :: "nat \<Rightarrow> (nat \<Rightarrow> (nat \<times> nat) option) \<Rightarrow> ThunkRel \<Rightarrow> (nat \<times> nat option) option \<Rightarrow> (nat \<times> nat option) option" where
  "fix_ref k extra r ref = (case ref of Some (t, _) \<Rightarrow> if t = k then Some (t, map_option snd (extra (tr_sym r))) else ref | None \<Rightarrow> None)"

definition fix_refs :: "ThunkCtx \<Rightarrow> nat \<Rightarrow> (nat \<Rightarrow> (nat \<times> nat) option) \<Rightarrow> nat \<times> (nat \<times> nat option) option list \<Rightarrow> (nat \<times> nat option) option list" where
  "fix_refs ctx k extra ir = map2 (fix_ref k extra) (tm_rels (tc_members ctx ! fst ir)) (snd ir)"

subsection \<open>Batches\<close>

definition align_up :: "nat \<Rightarrow> nat \<Rightarrow> nat" where
  "align_up v a = (v + a - 1) div a * a"

text \<open>Move \<open>d\<close> forward as far as a thunk there can be reached from the section \<open>b\<close>.\<close>

function move_d :: "machine \<Rightarrow> ThunkCtx \<Rightarrow> nat \<Rightarrow> nat \<Rightarrow> nat list \<Rightarrow> nat \<Rightarrow> nat \<times> nat list \<times> nat" where
  "move_d m ctx b d offsets offset =
     (if d < length (tc_members ctx) then
        let isec = tc_members ctx ! d; off = align_up offset (2 ^ tm_p2align isec)
        in if int off + int (tm_size isec) + max_thunk_size < int (offsets ! b) + max_distance m
           then move_d m ctx b (d + 1) (offsets [d := off mod 2 ^ 32]) (off + tm_size isec)
           else (d, offsets, offset)
      else (d, offsets, offset))"
  by pat_completeness auto
termination
  by (relation "measure (\<lambda>(m, ctx, b, d, offsets, offset). length (tc_members ctx) - d)") auto

declare move_d.simps [simp del]

function move_c :: "machine \<Rightarrow> ThunkCtx \<Rightarrow> nat \<Rightarrow> nat \<Rightarrow> nat list \<Rightarrow> nat" where
  "move_c m ctx b c offsets =
     (if c < length (tc_members ctx) \<and>
         int (offsets ! c) + int (tm_size (tc_members ctx ! c)) < int (offsets ! b) + batch_size m
      then move_c m ctx b (c + 1) offsets else c)"
  by pat_completeness auto
termination
  by (relation "measure (\<lambda>(m, ctx, b, c, offsets). length (tc_members ctx) - c)") auto

declare move_c.simps [simp del]

function move_a :: "machine \<Rightarrow> ThunkCtx \<Rightarrow> nat \<Rightarrow> nat \<Rightarrow> nat list \<Rightarrow> nat" where
  "move_a m ctx a c_offset offsets =
     (if a < length (tc_members ctx) \<and> int (offsets ! a) + max_distance m < int c_offset
      then move_a m ctx (a + 1) c_offset offsets else a)"
  by pat_completeness auto
termination
  by (relation "measure (\<lambda>(m, ctx, a, c_offset, offsets). length (tc_members ctx) - a)") auto

declare move_a.simps [simp del]

text \<open>Forget the thunks, from the index \<open>p\<close> on, that are out of reach.\<close>

function erase_thunks :: "nat \<Rightarrow> nat \<Rightarrow> ThunkSt \<Rightarrow> nat \<times> ThunkSt" where
  "erase_thunks limit p st =
     (if p < length (th_thunks st) \<and> tk_offset (th_thunks st ! p) < limit
      then erase_thunks limit (p + 1) (reset_thunk (th_thunks st ! p) st) else (p, st))"
  by pat_completeness auto
termination
  by (relation "measure (\<lambda>(limit, p, st). length (th_thunks st) - p)") (auto simp: reset_thunk_def)

declare erase_thunks.simps [simp del]

text \<open>Create a thunk for the sections from \<open>b\<close> to \<open>c\<close>.\<close>

definition new_thunk :: "machine \<Rightarrow> ThunkCtx \<Rightarrow> nat \<Rightarrow> nat \<Rightarrow> ThunkSt \<Rightarrow> ThunkSt" where
  "new_thunk m ctx b c st =
     (let offset = align_up (th_offset st) thunk_alignment;
          k = length (th_thunks st);
          (refs, flags, found) = scan_sections m ctx k [b..<c] (th_flags st, []) st;
          symbols = sort_key (\<lambda>s. ts_key (tc_syms ctx ! s)) found;
          extra = (\<lambda>s. case find_pos (\<lambda>s'. s' = s) symbols of Some idx \<Rightarrow> Some (k, idx) | None \<Rightarrow> th_extra st s)
      in st \<lparr> th_offset := offset + thunk_bytes m (length symbols),
              th_thunks := th_thunks st @ [\<lparr> tk_offset = offset, tk_symbols = symbols \<rparr>],
              th_extra := extra,
              th_flags := flags,
              th_refs := fold (\<lambda>ir rs. rs [fst ir := fix_refs ctx k extra ir]) refs (th_refs st) \<rparr>)"

lemma move_c_ge: "c \<le> move_c m ctx b c offsets"
  by (induction m ctx b c offsets rule: move_c.induct) (subst move_c.simps, auto)

lemma move_c_progress: "b < n \<Longrightarrow> n - move_c m ctx b (Suc b) offsets < n - b"
  using move_c_ge [of "Suc b" m ctx b offsets] by simp

function create_thunks :: "machine \<Rightarrow> ThunkCtx \<Rightarrow> nat \<Rightarrow> nat \<Rightarrow> nat \<Rightarrow> nat \<Rightarrow> ThunkSt \<Rightarrow> nat \<times> ThunkSt" where
  "create_thunks m ctx a b d p st =
     (if b < length (tc_members ctx) then
        let (d, offsets, offset) = move_d m ctx b d (th_offsets st) (th_offset st);
            c = move_c m ctx b (b + 1) offsets;
            c_offset = (if c = length (tc_members ctx) then offset else offsets ! c);
            a = move_a m ctx a c_offset offsets;
            (p, st) = erase_thunks (offsets ! a) p (st \<lparr> th_offsets := offsets, th_offset := offset \<rparr>)
        in create_thunks m ctx a c d p (new_thunk m ctx b c st)
      else (p, st))"
  by pat_completeness auto
termination
  by (relation "measure (\<lambda>(m, ctx, a, b, d, p, st). length (tc_members ctx) - b)") (auto simp: move_c_progress)

declare create_thunks.simps [simp del]

definition create_range_extension_thunks :: "machine \<Rightarrow> ThunkCtx \<Rightarrow> ThunkSt" where
  "create_range_extension_thunks m ctx =
     (let n = length (tc_members ctx);
          st = \<lparr> th_offsets = 0 # replicate (n - 1) unassigned, th_offset = 0, th_thunks = [], th_extra = (\<lambda>_. None),
                 th_flags = (\<lambda>_. False), th_refs = map (\<lambda>isec. replicate (length (tm_rels isec)) None) (tc_members ctx) \<rparr>
      in if n = 0 then st \<lparr> th_offsets := [] \<rparr>
         else let (p, st) = create_thunks m ctx 0 0 0 0 st in fold reset_thunk (drop p (th_thunks st)) st)"

end
