(* ===== verification/Elf_Thunks_Correct.thy ===== *)
theory Elf_Thunks_Correct
  imports Elf_Thunks
begin

text \<open>
  The layout that the thunks give to an output section: its sections and thunks follow each other without overlap, and each
  branch reaches its target or an entry of a thunk for its target.
\<close>

subsection \<open>Sizes\<close>

lemma machine_bounds:
  assumes "needs_thunk m"
  shows batch_max: "10 * batch_size m \<le> max_distance m" and batch_min: "1677721 \<le> batch_size m"
  using assms by (cases m; simp add: needs_thunk_def desc_defs max_distance_def batch_size_def)+

lemma thunk_bytes_less:
  assumes "needs_thunk m" and "i < k"
  shows "thunk_bytes m i + 12 \<le> thunk_bytes m k"
proof -
  obtain z where z: "thunk_size (desc m) = Some z" and "12 \<le> unat z"
    using assms(1) by (cases m) (auto simp: needs_thunk_def desc_defs)
  moreover have "Suc i * unat z \<le> k * unat z" using assms(2) by (intro mult_right_mono) auto
  ultimately show ?thesis by (simp add: thunk_bytes_def)
qed

lemma align_up_pow:
  shows align_up_ge: "v \<le> align_up v (2 ^ p)" and align_up_less: "align_up v (2 ^ p) < v + 2 ^ p"
    and align_up_dvd: "2 ^ p dvd align_up v (2 ^ p)"
proof -
  let ?a = "2 ^ p :: nat"
  have "(v + ?a - 1) div ?a * ?a + (v + ?a - 1) mod ?a = v + ?a - 1" by (rule div_mult_mod_eq)
  moreover have "(v + ?a - 1) mod ?a < ?a" by simp
  ultimately show "v \<le> align_up v ?a" and "align_up v ?a < v + ?a"
    unfolding align_up_def using zero_less_power [of "2::nat" p] by linarith+
qed (simp add: align_up_def)

lemma align_up_0 [simp]: "align_up 0 (2 ^ p) = 0"
  by (simp add: align_up_def)

subsection \<open>Layout\<close>

definition sec_end :: "ThunkCtx \<Rightarrow> nat list \<Rightarrow> nat \<Rightarrow> nat" where
  "sec_end ctx offsets i = offsets ! i + tm_size (tc_members ctx ! i)"

definition thunk_end :: "machine \<Rightarrow> Thunk \<Rightarrow> nat" where
  "thunk_end m t = tk_offset t + thunk_bytes m (length (tk_symbols t))"

text \<open>The sections below \<open>d\<close> and the thunks are laid out below \<open>offset\<close>.\<close>

definition thunks_placed :: "machine \<Rightarrow> ThunkCtx \<Rightarrow> nat \<Rightarrow> nat list \<Rightarrow> nat \<Rightarrow> Thunk list \<Rightarrow> bool" where
  "thunks_placed m ctx d offsets offset thunks \<longleftrightarrow>
     length offsets = length (tc_members ctx) \<and> d \<le> length (tc_members ctx) \<and>
     (\<forall>i<d. sec_end ctx offsets i \<le> offset \<and> 2 ^ tm_p2align (tc_members ctx ! i) dvd offsets ! i) \<and>
     (\<forall>j<d. \<forall>i<j. sec_end ctx offsets i \<le> offsets ! j) \<and>
     (\<forall>t\<in>set thunks. thunk_end m t \<le> offset) \<and>
     (\<forall>i<d. \<forall>t\<in>set thunks. sec_end ctx offsets i \<le> tk_offset t \<or> thunk_end m t \<le> offsets ! i) \<and>
     sorted (map tk_offset thunks) \<and>
     (\<forall>i<length (tc_members ctx). d \<le> i \<and> 0 < i \<longrightarrow> offsets ! i = unassigned)"

lemma placedD:
  assumes "thunks_placed m ctx d offsets offset thunks"
  shows "length offsets = length (tc_members ctx)" and "d \<le> length (tc_members ctx)"
    and "i < d \<Longrightarrow> sec_end ctx offsets i \<le> offset" and "i < d \<Longrightarrow> 2 ^ tm_p2align (tc_members ctx ! i) dvd offsets ! i"
    and "i < j \<Longrightarrow> j < d \<Longrightarrow> sec_end ctx offsets i \<le> offsets ! j"
    and "t \<in> set thunks \<Longrightarrow> thunk_end m t \<le> offset"
    and "i < d \<Longrightarrow> t \<in> set thunks \<Longrightarrow> sec_end ctx offsets i \<le> tk_offset t \<or> thunk_end m t \<le> offsets ! i"
    and "sorted (map tk_offset thunks)"
    and "i < length (tc_members ctx) \<Longrightarrow> d \<le> i \<Longrightarrow> 0 < i \<Longrightarrow> offsets ! i = unassigned"
  using assms unfolding thunks_placed_def by blast+

lemma placed_section:
  assumes p: "thunks_placed m ctx d offsets offset thunks" and d: "d < length (tc_members ctx)" and x: "offset \<le> x"
    and dvd: "2 ^ tm_p2align (tc_members ctx ! d) dvd x"
  shows "thunks_placed m ctx (d + 1) (offsets [d := x]) (x + tm_size (tc_members ctx ! d)) thunks"
proof -
  note D = placedD [OF p]
  have old: "offsets [d := x] ! i = offsets ! i" "sec_end ctx (offsets [d := x]) i = sec_end ctx offsets i" if "i \<noteq> d" for i
    using that by (auto simp: sec_end_def)
  have new: "offsets [d := x] ! d = x" "sec_end ctx (offsets [d := x]) d = x + tm_size (tc_members ctx ! d)"
    using D(1) d by (auto simp: sec_end_def)
  have ends: "sec_end ctx offsets i \<le> x" if "i < d" for i using D(3) [OF that] x by simp
  have thunks: "thunk_end m t \<le> x" if "t \<in> set thunks" for t using D(6) [OF that] x by simp
  show ?thesis
    unfolding thunks_placed_def
  proof (intro conjI allI impI ballI)
    fix i j assume "j < d + 1" and "i < j"
    then show "sec_end ctx (offsets [d := x]) i \<le> offsets [d := x] ! j"
      using old new ends D(5) by (cases "j = d") auto
  next
    fix i assume i: "i < d + 1"
    show "sec_end ctx (offsets [d := x]) i \<le> x + tm_size (tc_members ctx ! d)"
      using i old new ends by (cases "i = d") (auto simp: trans_le_add1)
    show "2 ^ tm_p2align (tc_members ctx ! i) dvd offsets [d := x] ! i"
      using i old new dvd D(4) by (cases "i = d") auto
    fix t assume "t \<in> set thunks"
    then show "sec_end ctx (offsets [d := x]) i \<le> tk_offset t \<or> thunk_end m t \<le> offsets [d := x] ! i"
      using i old new thunks D(7) by (cases "i = d") auto
  next
    fix t assume "t \<in> set thunks"
    then show "thunk_end m t \<le> x + tm_size (tc_members ctx ! d)" using thunks by (simp add: trans_le_add1)
  qed (use D d old in auto)
qed

lemma placed_thunk:
  assumes p: "thunks_placed m ctx d offsets offset thunks" and t: "offset \<le> tk_offset t"
  shows "thunks_placed m ctx d offsets (thunk_end m t) (thunks @ [t])"
proof -
  note D = placedD [OF p]
  have t': "offset \<le> thunk_end m t" using t by (simp add: thunk_end_def)
  have before: "tk_offset u \<le> tk_offset t" if "u \<in> set thunks" for u
    using D(6) [OF that] t by (simp add: thunk_end_def)
  show ?thesis
    unfolding thunks_placed_def
  proof (intro conjI allI impI ballI)
    fix i assume i: "i < d"
    show "sec_end ctx offsets i \<le> thunk_end m t" using D(3) [OF i] t' by simp
    fix u assume "u \<in> set (thunks @ [t])"
    then show "sec_end ctx offsets i \<le> tk_offset u \<or> thunk_end m u \<le> offsets ! i"
      using D(7) [OF i] D(3) [OF i] t by auto
  next
    fix u assume "u \<in> set (thunks @ [t])"
    then show "thunk_end m u \<le> thunk_end m t" using D(6) t' by (auto intro: order_trans)
  qed (use D before in \<open>auto simp: sorted_append\<close>)
qed

subsection \<open>Moving \<open>d\<close>\<close>

lemma move_d_offset: "move_d m ctx b d offsets offset = (d', offsets', offset') \<Longrightarrow> d \<le> d' \<and> offset \<le> offset'"
proof (induction m ctx b d offsets offset rule: move_d.induct)
  case (1 m ctx b d offsets offset)
  let ?off = "align_up offset (2 ^ tm_p2align (tc_members ctx ! d))"
  have "offset \<le> ?off" by (rule align_up_ge)
  then show ?case
    using 1(1) [OF _ refl refl] 1(2) [unfolded move_d.simps [of m ctx b d offsets offset]] by (auto simp: Let_def split: if_splits)
qed

text \<open>The sections that \<open>d\<close> passes are put at the end; \<open>lim\<close> is how far section \<open>b\<close> can reach.\<close>

lemma move_d_placed:
  assumes "move_d m ctx b d offsets offset = (d', offsets', offset')" and "thunks_placed m ctx d offsets offset thunks"
    and "offset' < 2 ^ 32" and "b < d \<or> b = 0 \<and> d = 0 \<and> offset = 0 \<and> offsets ! 0 = 0"
  shows "thunks_placed m ctx d' offsets' offset' thunks \<and> (\<forall>i<d. offsets' ! i = offsets ! i) \<and> offsets' ! b = offsets ! b \<and>
    (d' = d \<and> offset' = offset \<or>
     d < d' \<and> offset' = sec_end ctx offsets' (d' - 1) \<and> int offset' + max_thunk_size < int (offsets ! b) + max_distance m) \<and>
    (d' < length (tc_members ctx) \<longrightarrow>
     int (offsets ! b) + max_distance m \<le> int offset' + int (tm_size (tc_members ctx ! d')) + 2 ^ tm_p2align (tc_members ctx ! d') + max_thunk_size)"
  using assms
proof (induction m ctx b d offsets offset rule: move_d.induct)
  case (1 m ctx b d offsets offset)
  let ?n = "length (tc_members ctx)" and ?isec = "tc_members ctx ! d"
  let ?off = "align_up offset (2 ^ tm_p2align ?isec)" and ?lim = "int (offsets ! b) + max_distance m"
  let ?step = "int ?off + int (tm_size ?isec) + max_thunk_size < ?lim"
  note D = placedD [OF 1(3)]
  have al: "offset \<le> ?off" "?off < offset + 2 ^ tm_p2align ?isec" "2 ^ tm_p2align ?isec dvd ?off"
    by (rule align_up_ge align_up_less align_up_dvd)+
  have al': "int ?off < int offset + 2 ^ tm_p2align ?isec" using al(2) by (simp add: zless_nat_eq_int_zless of_nat_less_iff [symmetric, where 'a = int] del: of_nat_less_iff)
  show ?case
  proof (cases "d < ?n \<and> ?step")
    case False
    then have e: "d' = d" "offsets' = offsets" "offset' = offset"
      using 1(2) [unfolded move_d.simps [of m ctx b d offsets offset]] by (auto simp: Let_def split: if_splits)
    show ?thesis using 1(3) False al' unfolding e by auto
  next
    case True
    let ?offsets = "offsets [d := ?off]"
    have r0: "move_d m ctx b (d + 1) (offsets [d := ?off mod 2 ^ 32]) (?off + tm_size ?isec) = (d', offsets', offset')"
      using 1(2) [unfolded move_d.simps [of m ctx b d offsets offset]] True by (simp add: Let_def)
    have le: "?off + tm_size ?isec \<le> offset'" and d': "d + 1 \<le> d'" using move_d_offset [OF r0] by auto
    have m32: "?off mod 2 ^ 32 = ?off" using le 1(4) by simp
    note r = r0 [unfolded m32]
    have b: "?offsets ! b = offsets ! b" and b': "b < d + 1"
      using 1(5) D(1) True by auto
    have IH: "thunks_placed m ctx d' offsets' offset' thunks \<and> (\<forall>i<d + 1. offsets' ! i = ?offsets ! i) \<and> offsets' ! b = ?offsets ! b \<and>
      (d' = d + 1 \<and> offset' = ?off + tm_size ?isec \<or>
       d + 1 < d' \<and> offset' = sec_end ctx offsets' (d' - 1) \<and> int offset' + max_thunk_size < int (?offsets ! b) + max_distance m) \<and>
      (d' < ?n \<longrightarrow> int (?offsets ! b) + max_distance m \<le>
         int offset' + int (tm_size (tc_members ctx ! d')) + 2 ^ tm_p2align (tc_members ctx ! d') + max_thunk_size)"
      using 1(1) [OF conjunct1 [OF True] refl refl conjunct2 [OF True], unfolded m32, OF r placed_section [OF 1(3) _ al(1,3)] 1(4)] True b' by blast
    have "offsets' ! d = ?off" using IH D(1) True by simp
    then have "offset' = sec_end ctx offsets' (d' - 1) \<and> int offset' + max_thunk_size < ?lim"
      using IH True b by (auto simp: sec_end_def)
    moreover have "offsets' ! i = offsets ! i" if "i < d" for i using IH that by simp
    ultimately show ?thesis using IH b d' by auto
  qed
qed

subsection \<open>Moving \<open>c\<close> and \<open>a\<close>\<close>

lemma move_c_spec:
  assumes "c \<le> d" and "d < length (tc_members ctx) \<Longrightarrow> int (offsets ! b) + batch_size m \<le> int (sec_end ctx offsets d)"
    and "d \<le> length (tc_members ctx)"
  shows "move_c m ctx b c offsets \<le> d" and "c \<le> i \<Longrightarrow> i < move_c m ctx b c offsets \<Longrightarrow> int (sec_end ctx offsets i) < int (offsets ! b) + batch_size m"
    and "move_c m ctx b c offsets < length (tc_members ctx) \<Longrightarrow>
      int (offsets ! b) + batch_size m \<le> int (sec_end ctx offsets (move_c m ctx b c offsets))"
proof -
  have "move_c m ctx b c offsets \<le> d \<and>
    (\<forall>i. c \<le> i \<and> i < move_c m ctx b c offsets \<longrightarrow> int (sec_end ctx offsets i) < int (offsets ! b) + batch_size m) \<and>
    (move_c m ctx b c offsets < length (tc_members ctx) \<longrightarrow>
      int (offsets ! b) + batch_size m \<le> int (sec_end ctx offsets (move_c m ctx b c offsets)))"
    using assms
  proof (induction m ctx b c offsets rule: move_c.induct)
    case (1 m ctx b c offsets)
    show ?case
    proof (cases "c < length (tc_members ctx) \<and> int (offsets ! c) + int (tm_size (tc_members ctx ! c)) < int (offsets ! b) + batch_size m")
      case True
      then have e: "move_c m ctx b c offsets = move_c m ctx b (c + 1) offsets" by (subst move_c.simps) simp
      have "c \<noteq> d" using True 1(3) by (auto simp: sec_end_def)
      then have "c + 1 \<le> d" using 1(2) by simp
      note IH = 1(1) [OF True this 1(3,4)]
      have "int (sec_end ctx offsets i) < int (offsets ! b) + batch_size m" if "c \<le> i" and "i < move_c m ctx b (c + 1) offsets" for i
        using IH True that by (cases "i = c") (auto simp: sec_end_def)
      then show ?thesis using IH unfolding e by blast
    next
      case False
      then have "move_c m ctx b c offsets = c" by (subst move_c.simps) auto
      then show ?thesis using False 1(2) by (auto simp: sec_end_def)
    qed
  qed
  then show "move_c m ctx b c offsets \<le> d" and "c \<le> i \<Longrightarrow> i < move_c m ctx b c offsets \<Longrightarrow> int (sec_end ctx offsets i) < int (offsets ! b) + batch_size m"
    and "move_c m ctx b c offsets < length (tc_members ctx) \<Longrightarrow>
      int (offsets ! b) + batch_size m \<le> int (sec_end ctx offsets (move_c m ctx b c offsets))" by blast+
qed

lemma move_a_spec:
  assumes "a \<le> e" and "e < length (tc_members ctx)" and "int c_offset \<le> int (offsets ! e) + max_distance m"
  shows "move_a m ctx a c_offset offsets \<le> e" and "int c_offset \<le> int (offsets ! move_a m ctx a c_offset offsets) + max_distance m"
proof -
  have "move_a m ctx a c_offset offsets \<le> e \<and> int c_offset \<le> int (offsets ! move_a m ctx a c_offset offsets) + max_distance m"
    using assms
  proof (induction m ctx a c_offset offsets rule: move_a.induct)
    case (1 m ctx a c_offset offsets)
    show ?case
    proof (cases "int (offsets ! a) + max_distance m < int c_offset")
      case True
      then have "a \<noteq> e" using 1(4) by auto
      then show ?thesis using 1 True by (subst (1 2) move_a.simps) auto
    next
      case False
      then show ?thesis using 1(2) by (subst (1 2) move_a.simps) auto
    qed
  qed
  then show "move_a m ctx a c_offset offsets \<le> e" and "int c_offset \<le> int (offsets ! move_a m ctx a c_offset offsets) + max_distance m"
    by blast+
qed

subsection \<open>Erasing thunks\<close>

text \<open>The references of the symbols to the thunks from \<open>p\<close> on.\<close>

definition extras_ok :: "nat \<Rightarrow> ThunkSt \<Rightarrow> bool" where
  "extras_ok p st \<longleftrightarrow>
     (\<forall>s t idx. th_extra st s = Some (t, idx) \<longrightarrow>
        p \<le> t \<and> t < length (th_thunks st) \<and> idx < length (tk_symbols (th_thunks st ! t)) \<and> tk_symbols (th_thunks st ! t) ! idx = s) \<and>
     (\<forall>s. th_flags st s \<longrightarrow> th_extra st s \<noteq> None)"

lemma reset_thunk_simps [simp]:
  "th_offsets (reset_thunk t st) = th_offsets st" "th_offset (reset_thunk t st) = th_offset st"
  "th_thunks (reset_thunk t st) = th_thunks st" "th_refs (reset_thunk t st) = th_refs st"
  by (simp_all add: reset_thunk_def)

lemma fold_reset_thunk:
  "th_offsets (fold reset_thunk ts st) = th_offsets st \<and> th_offset (fold reset_thunk ts st) = th_offset st \<and>
   th_thunks (fold reset_thunk ts st) = th_thunks st \<and> th_refs (fold reset_thunk ts st) = th_refs st"
  by (induction ts arbitrary: st) auto

lemma reset_thunk_extras:
  assumes ok: "extras_ok p st"
  shows "extras_ok (p + 1) (reset_thunk (th_thunks st ! p) st)"
proof -
  let ?st = "reset_thunk (th_thunks st ! p) st"
  have "p + 1 \<le> t \<and> t < length (th_thunks st) \<and> idx < length (tk_symbols (th_thunks st ! t)) \<and> tk_symbols (th_thunks st ! t) ! idx = s"
    if e: "th_extra ?st s = Some (t, idx)" for s t idx
  proof -
    have s: "s \<notin> set (tk_symbols (th_thunks st ! p))" and "th_extra st s = Some (t, idx)"
      using e by (auto simp: reset_thunk_def split: if_splits)
    then have f: "p \<le> t" "t < length (th_thunks st)" "idx < length (tk_symbols (th_thunks st ! t))" "tk_symbols (th_thunks st ! t) ! idx = s"
      using ok by (auto simp: extras_ok_def)
    moreover have "t \<noteq> p" using f s by (auto simp: in_set_conv_nth)
    ultimately show ?thesis by simp
  qed
  moreover have "th_extra ?st s \<noteq> None" if "th_flags ?st s" for s
    using that ok by (auto simp: reset_thunk_def extras_ok_def split: if_splits)
  ultimately show ?thesis by (auto simp: extras_ok_def)
qed

lemma erase_thunks_spec:
  assumes "erase_thunks limit p st = (p', st')" and "extras_ok p st"
  shows "extras_ok p' st' \<and> th_offsets st' = th_offsets st \<and> th_offset st' = th_offset st \<and> th_thunks st' = th_thunks st \<and>
    th_refs st' = th_refs st \<and> (p' < length (th_thunks st) \<longrightarrow> limit \<le> tk_offset (th_thunks st ! p')) \<and>
    (p \<le> length (th_thunks st) \<longrightarrow> p' \<le> length (th_thunks st))"
  using assms
proof (induction limit p st rule: erase_thunks.induct)
  case (1 limit p st)
  show ?case
  proof (cases "p < length (th_thunks st) \<and> tk_offset (th_thunks st ! p) < limit")
    case True
    then show ?thesis
      using 1(1) [OF True _ reset_thunk_extras [OF 1(3)]] 1(2) [unfolded erase_thunks.simps [of limit p st]] by auto
  next
    case False
    then have "p' = p \<and> st' = st" using 1(2) [unfolded erase_thunks.simps [of limit p st]] by (auto split: if_splits)
    then show ?thesis using False 1(3) by auto
  qed
qed

subsection \<open>Scanning\<close>

text \<open>Whether the scan has to give a relocation a reference, and what it gives.\<close>

definition branch :: "machine \<Rightarrow> ThunkCtx \<Rightarrow> ThunkRel \<Rightarrow> bool" where
  "branch m ctx r \<longleftrightarrow> needs_thunk_rel m (tr_type r) \<and> ts_file (tc_syms ctx ! tr_sym r)"

definition scanned :: "machine \<Rightarrow> ThunkCtx \<Rightarrow> nat \<Rightarrow> ThunkSt \<Rightarrow> nat set \<Rightarrow> nat \<Rightarrow> ThunkRel \<Rightarrow> (nat \<times> nat option) option \<Rightarrow> bool" where
  "scanned m ctx k st found i r ref \<longleftrightarrow>
     (case ref of None \<Rightarrow> branch m ctx r \<longrightarrow> is_reachable m ctx (th_offsets st) i r
      | Some (t, None) \<Rightarrow> t = k \<and> tr_sym r \<in> found
      | Some (t, Some idx) \<Rightarrow> th_extra st (tr_sym r) = Some (t, idx))"

lemma scanned_mono: "found \<subseteq> found' \<Longrightarrow> scanned m ctx k st found i r ref \<Longrightarrow> scanned m ctx k st found' i r ref"
  by (auto simp: scanned_def split: option.splits)

text \<open>A flag is set for a symbol that is in a thunk, or else has been found.\<close>

definition flags_ok :: "ThunkSt \<Rightarrow> (nat \<Rightarrow> bool) \<times> nat list \<Rightarrow> bool" where
  "flags_ok st acc \<longleftrightarrow> (\<forall>s. fst acc s \<longrightarrow> th_extra st s \<noteq> None \<or> s \<in> set (snd acc))"

lemma thunk_scan_rel_spec:
  assumes "thunk_scan_rel m ctx k i r acc st = (ref, acc')" and "flags_ok st acc"
  shows "flags_ok st acc' \<and> set (snd acc) \<subseteq> set (snd acc') \<and> scanned m ctx k st (set (snd acc')) i r ref"
  using assms by (auto simp: thunk_scan_rel_def flags_ok_def scanned_def branch_def split: if_splits option.splits)

lemma scan_rels_spec:
  assumes "scan_rels m ctx k i rs acc st = (refs, acc')" and "flags_ok st acc"
  shows "flags_ok st acc' \<and> set (snd acc) \<subseteq> set (snd acc') \<and> list_all2 (scanned m ctx k st (set (snd acc')) i) rs refs"
  using assms
proof (induction rs arbitrary: acc refs)
  case (Cons r rs)
  obtain ref acc1 where r: "thunk_scan_rel m ctx k i r acc st = (ref, acc1)" by (cases "thunk_scan_rel m ctx k i r acc st") auto
  obtain refs1 acc2 where rs: "scan_rels m ctx k i rs acc1 st = (refs1, acc2)" by (cases "scan_rels m ctx k i rs acc1 st") auto
  have e: "refs = ref # refs1" "acc' = acc2" using Cons.prems(1) r rs by auto
  note one = thunk_scan_rel_spec [OF r Cons.prems(2)]
  note rest = Cons.IH [OF rs [folded e(2)] conjunct1 [OF one]]
  show ?case using one rest scanned_mono [of "set (snd acc1)" "set (snd acc')"] unfolding e(1) by auto
qed auto

lemma scan_sections_spec:
  assumes "scan_sections m ctx k is acc st = (out, acc')" and "flags_ok st acc"
  shows "flags_ok st acc' \<and> set (snd acc) \<subseteq> set (snd acc') \<and> map fst out = is \<and>
    (\<forall>(i, refs)\<in>set out. list_all2 (scanned m ctx k st (set (snd acc')) i) (tm_rels (tc_members ctx ! i)) refs)"
  using assms
proof (induction "is" arbitrary: acc out)
  case (Cons i "is")
  obtain refs acc1 where r: "scan_rels m ctx k i (tm_rels (tc_members ctx ! i)) acc st = (refs, acc1)"
    by (cases "scan_rels m ctx k i (tm_rels (tc_members ctx ! i)) acc st") auto
  obtain rest acc2 where rs: "scan_sections m ctx k is acc1 st = (rest, acc2)" by (cases "scan_sections m ctx k is acc1 st") auto
  have e: "out = (i, refs) # rest" "acc' = acc2" using Cons.prems(1) r rs by auto
  note one = scan_rels_spec [OF r Cons.prems(2)]
  note more = Cons.IH [OF rs [folded e(2)] conjunct1 [OF one]]
  have "list_all2 (scanned m ctx k st (set (snd acc')) i) (tm_rels (tc_members ctx ! i)) refs"
    using one more by (auto intro: list_all2_mono scanned_mono)
  then show ?case using one more unfolding e(1) by auto
qed auto

lemma fold_update:
  assumes "distinct (map fst xs)"
  shows "(i, v) \<in> set xs \<Longrightarrow> i < length rs \<Longrightarrow> fold (\<lambda>x rs. rs [fst x := f x]) xs rs ! i = f (i, v)"
    and "i \<notin> fst ` set xs \<Longrightarrow> fold (\<lambda>x rs. rs [fst x := f x]) xs rs ! i = rs ! i"
    and "length (fold (\<lambda>x rs. rs [fst x := f x]) xs rs) = length rs"
  using assms
proof (induction xs arbitrary: rs)
  case (Cons x xs)
  { case 1 then show ?case using Cons(1,2) [of "rs [fst x := f x]"] by (cases "i = fst x") (auto simp: rev_image_eqI) }
  { case 2 then show ?case using Cons(2) by auto }
  { case 3 then show ?case using Cons(3) by auto }
qed auto

end
