(* ===== verification/Elf_Thunks_Reach.thy ===== *)
theory Elf_Thunks_Reach
  imports Elf_Thunks_Correct
begin

text \<open>The invariant of the loop over the batches, and what it shows of the whole pass.\<close>

subsection \<open>Branches of the batches done\<close>

definition branch_addr :: "ThunkCtx \<Rightarrow> nat list \<Rightarrow> nat \<Rightarrow> ThunkRel \<Rightarrow> int" where
  "branch_addr ctx offsets i r = tc_addr ctx + int (offsets ! i) + int (tr_offset r)"

text \<open>
  A branch without a reference reaches its target; a reference is to an entry for its target that is within reach, with 4 bytes
  to either side: some entries have a second one 4 bytes in, and the implicit addend of a Thumb branch is -4, of an ARM one,
  which goes to the second entry, -8.
\<close>

definition entry_reached :: "machine \<Rightarrow> ThunkCtx \<Rightarrow> nat list \<Rightarrow> nat \<Rightarrow> ThunkRel \<Rightarrow> Thunk \<Rightarrow> nat \<Rightarrow> bool" where
  "entry_reached m ctx offsets i r t idx \<longleftrightarrow>
     in_reach m (thunk_addr m ctx t idx - 4 - branch_addr ctx offsets i r) \<and>
     in_reach m (thunk_addr m ctx t idx + 4 - branch_addr ctx offsets i r)"

definition branch_ok :: "machine \<Rightarrow> ThunkCtx \<Rightarrow> nat list \<Rightarrow> Thunk list \<Rightarrow> nat \<Rightarrow> ThunkRel \<Rightarrow> (nat \<times> nat option) option \<Rightarrow> bool" where
  "branch_ok m ctx offsets thunks i r ref \<longleftrightarrow>
     (branch m ctx r \<longrightarrow>
      (case ref of None \<Rightarrow> is_reachable m ctx offsets i r
       | Some (t, None) \<Rightarrow> False
       | Some (t, Some idx) \<Rightarrow>
           t < length thunks \<and> idx < length (tk_symbols (thunks ! t)) \<and> tk_symbols (thunks ! t) ! idx = tr_sym r \<and>
           entry_reached m ctx offsets i r (thunks ! t) idx))"

lemma entry_in_reach:
  assumes "needs_thunk m" and "idx < length (tk_symbols t)"
    and "int (offsets ! i + tr_offset r) + 4 \<le> int (tk_offset t) + max_distance m"
    and "int (thunk_end m t) \<le> int (offsets ! i + tr_offset r) + max_distance m + 7"
  shows "entry_reached m ctx offsets i r t idx"
proof -
  have "thunk_addr m ctx t idx = tc_addr ctx + int (tk_offset t + thunk_bytes m idx)"
    by (simp add: thunk_addr_def thunk_bytes_def)
  moreover have "tk_offset t + thunk_bytes m idx + 12 \<le> thunk_end m t"
    using thunk_bytes_less [OF assms(1,2)] by (simp add: thunk_end_def)
  ultimately show ?thesis using assms(3,4) by (simp add: entry_reached_def in_reach_def branch_addr_def)
qed

text \<open>The input: the sections are small against a batch, and the relocations are in range.\<close>

definition thunk_input_ok :: "machine \<Rightarrow> ThunkCtx \<Rightarrow> bool" where
  "thunk_input_ok m ctx \<longleftrightarrow>
     list_all (\<lambda>isec.
       2 * (int (tm_size isec) + 2 ^ tm_p2align isec) + max_thunk_size + 3 \<le> batch_size m \<and>
       list_all (\<lambda>r. tr_offset r + 4 \<le> tm_size isec \<and> tr_sym r < length (tc_syms ctx)) (tm_rels isec)) (tc_members ctx) \<and>
     list_all (\<lambda>y. case ts_section y of None \<Rightarrow> True | Some j \<Rightarrow> j < length (tc_members ctx)) (tc_syms ctx)"

lemma thunk_input_okD:
  assumes "thunk_input_ok m ctx" and "i < length (tc_members ctx)"
  shows "2 * (int (tm_size (tc_members ctx ! i)) + 2 ^ tm_p2align (tc_members ctx ! i)) + max_thunk_size + 3 \<le> batch_size m"
    and "r \<in> set (tm_rels (tc_members ctx ! i)) \<Longrightarrow> tr_offset r + 4 \<le> tm_size (tc_members ctx ! i)"
    and "r \<in> set (tm_rels (tc_members ctx ! i)) \<Longrightarrow> ts_section (tc_syms ctx ! tr_sym r) = Some j \<Longrightarrow> j < length (tc_members ctx)"
proof -
  have "tc_members ctx ! i \<in> set (tc_members ctx)" using assms(2) by simp
  then show "2 * (int (tm_size (tc_members ctx ! i)) + 2 ^ tm_p2align (tc_members ctx ! i)) + max_thunk_size + 3 \<le> batch_size m"
    and "r \<in> set (tm_rels (tc_members ctx ! i)) \<Longrightarrow> tr_offset r + 4 \<le> tm_size (tc_members ctx ! i)"
    and "r \<in> set (tm_rels (tc_members ctx ! i)) \<Longrightarrow> ts_section (tc_syms ctx ! tr_sym r) = Some j \<Longrightarrow> j < length (tc_members ctx)"
    using assms(1) by (auto simp: thunk_input_ok_def list_all_iff split: option.splits)
qed

text \<open>What holds of a branch stays so when more sections get their offsets and more thunks are added.\<close>

lemma branch_ok_stable:
  assumes "branch_ok m ctx offsets thunks i r ref" and "i < d"
    and "thunks_placed m ctx d offsets offset thunks" and "\<And>j. j < d \<Longrightarrow> offsets' ! j = offsets ! j"
    and "\<And>j. ts_section (tc_syms ctx ! tr_sym r) = Some j \<Longrightarrow> j < length (tc_members ctx)"
  shows "branch_ok m ctx offsets' (thunks @ ts) i r ref"
proof -
  have i: "offsets' ! i = offsets ! i" using assms(2,4) by simp
  have j: "offsets' ! j = offsets ! j" if "ts_section (tc_syms ctx ! tr_sym r) = Some j" and "offsets ! j \<noteq> unassigned" for j
    using placedD(9) [OF assms(3) assms(5) [OF that(1)]] that(2) assms(2,4) by (cases "j < d") auto
  have "is_reachable m ctx offsets i r \<Longrightarrow> is_reachable m ctx offsets' i r"
    using i j by (auto simp: is_reachable_def Let_def branch_val_def sym_addr_def split: option.splits if_splits)
  moreover have "entry_reached m ctx offsets' i r t idx = entry_reached m ctx offsets i r t idx" for t idx
    by (simp add: entry_reached_def branch_addr_def i)
  ultimately show ?thesis using assms(1) by (auto simp: branch_ok_def nth_append split: option.splits)
qed

subsection \<open>A batch\<close>

definition thunk_inv :: "machine \<Rightarrow> ThunkCtx \<Rightarrow> nat \<Rightarrow> nat \<Rightarrow> nat \<Rightarrow> nat \<Rightarrow> ThunkSt \<Rightarrow> bool" where
  "thunk_inv m ctx a b d p st \<longleftrightarrow>
     thunks_placed m ctx d (th_offsets st) (th_offset st) (th_thunks st) \<and> a \<le> b \<and> b \<le> d \<and>
     (b < length (tc_members ctx) \<longrightarrow>
        (b < d \<or> b = 0 \<and> d = 0 \<and> th_offset st = 0 \<and> th_offsets st ! 0 = 0) \<and>
        2 * int (th_offset st) + batch_size m + max_thunk_size - 3 < 2 * int (th_offsets st ! b) + 2 * max_distance m) \<and>
     extras_ok p st \<and> p \<le> length (th_thunks st) \<and> length (th_refs st) = length (tc_members ctx) \<and>
     (\<forall>i<b. list_all2 (branch_ok m ctx (th_offsets st) (th_thunks st) i) (tm_rels (tc_members ctx ! i)) (th_refs st ! i))"

text \<open>What moving \<open>d\<close>, \<open>c\<close> and \<open>a\<close> gives.\<close>

lemma batch_bounds:
  assumes inv: "thunk_inv m ctx a b d p st" and b: "b < length (tc_members ctx)" and m: "needs_thunk m" and ok: "thunk_input_ok m ctx"
    and d': "move_d m ctx b d (th_offsets st) (th_offset st) = (d', offsets, offset)"
    and c: "c = move_c m ctx b (b + 1) offsets"
    and co: "c_offset = (if c = length (tc_members ctx) then offset else offsets ! c)"
    and a': "a' = move_a m ctx a c_offset offsets" and lim: "offset < 2 ^ 32 - 1"
  shows "thunks_placed m ctx d' offsets offset (th_thunks st)" and "\<And>i. i < d \<Longrightarrow> offsets ! i = th_offsets st ! i"
    and "b < c" and "c \<le> d'" and "c < length (tc_members ctx) \<Longrightarrow> c < d'" and "a' < c"
    and "int c_offset \<le> int (offsets ! a') + max_distance m"
    and "\<And>i. i < c \<Longrightarrow> sec_end ctx offsets i \<le> c_offset"
    and "int offset + max_thunk_size < int (offsets ! b) + max_distance m"
    and "c < length (tc_members ctx) \<Longrightarrow> int (offsets ! b) + batch_size m \<le> int (sec_end ctx offsets c)"
proof -
  let ?n = "length (tc_members ctx)" and ?R = "max_distance m" and ?B = "batch_size m" and ?T = max_thunk_size
  have T: "?T = 102400" by (simp add: max_thunk_size_def)
  note RB = batch_max [OF m] batch_min [OF m]
  have I: "thunks_placed m ctx d (th_offsets st) (th_offset st) (th_thunks st)" "a \<le> b" "b \<le> d"
      "b < d \<or> b = 0 \<and> d = 0 \<and> th_offset st = 0 \<and> th_offsets st ! 0 = 0"
      "2 * int (th_offset st) + ?B + ?T - 3 < 2 * int (th_offsets st ! b) + 2 * ?R"
    using inv b by (auto simp: thunk_inv_def)
  have lim32: "offset < 2 ^ 32" using lim by simp
  note M = move_d_placed [OF d' I(1) lim32 I(4)]
  have P: "thunks_placed m ctx d' offsets offset (th_thunks st)" and ob: "offsets ! b = th_offsets st ! b"
    using M by blast+
  note D = placedD [OF P]
  have stuck: "int (offsets ! b) + ?R \<le> int offset + int (tm_size (tc_members ctx ! d')) + 2 ^ tm_p2align (tc_members ctx ! d') + ?T" if "d' < ?n"
    using M that unfolding ob by blast
  have small: "2 * (int (tm_size (tc_members ctx ! i)) + 2 ^ tm_p2align (tc_members ctx ! i)) + ?T + 3 \<le> ?B" if "i < ?n" for i
    using thunk_input_okD(1) [OF ok that] .
  have moved: "d < d' \<and> offset = sec_end ctx offsets (d' - 1) \<and> int offset + ?T < int (offsets ! b) + ?R" if "d' \<noteq> d \<or> d' < ?n"
  proof -
    have "\<not> (d' = d \<and> offset = th_offset st)" if "d' < ?n"
      using stuck [OF that] small [OF that] I(5) ob by auto
    then show ?thesis using M that unfolding ob by blast
  qed
  have bd: "b < d'" using moved I(3,4) b by (cases "d' = d") auto
  show off: "int offset + ?T < int (offsets ! b) + ?R"
  proof (cases "d' = d")
    case True
    then have "offset = th_offset st" using M by auto
    then show ?thesis using I(5) T RB ob by simp
  qed (use moved in blast)
  have far: "int (offsets ! b) + ?B \<le> int (sec_end ctx offsets d')" if "d' < ?n"
  proof -
    have "offsets ! d' = unassigned" using D(9) [OF that] bd by simp
    then show ?thesis using stuck [OF that] small [OF that] lim RB T by (simp add: sec_end_def unassigned_def)
  qed
  have bd1: "b + 1 \<le> d'" using bd by simp
  note C = move_c_spec [where c = "b + 1" and b = b, OF bd1 far D(2), folded c]
  show "c \<le> d'" by (rule C(1))
  show bc: "b < c" using move_c_ge [of "b + 1" m ctx b offsets] unfolding c by simp
  show stop: "c < ?n \<Longrightarrow> int (offsets ! b) + ?B \<le> int (sec_end ctx offsets c)" by (rule C(3))
  show cd: "c < d'" if cn: "c < ?n"
  proof (rule ccontr)
    assume "\<not> c < d'"
    then have e: "d' = c" using C(1) by simp
    note st = stuck [unfolded e, OF cn]
    have "int (sec_end ctx offsets (d' - 1)) < int (offsets ! b) + ?B"
    proof (cases "d' - 1 = b")
      case True
      have "0 \<le> (2::int) ^ tm_p2align (tc_members ctx ! b)" and "0 \<le> int (tm_size (tc_members ctx ! b))" by simp_all
      then have "int (tm_size (tc_members ctx ! b)) < ?B" using small [OF b] T unfolding distrib_left by linarith
      then show ?thesis using True by (simp add: sec_end_def)
    next
      case False
      then show ?thesis using C(2) [of "d' - 1"] bd e by simp
    qed
    then show False using moved st small [OF cn] cn RB T unfolding e by auto
  qed
  have c1: "c - 1 < ?n" "b \<le> c - 1" "c - 1 < d'" using bc C(1) D(2) by auto
  have "offsets ! b \<le> offsets ! (c - 1)"
    using D(5) [of b "c - 1"] c1 by (cases "b = c - 1") (auto simp: sec_end_def)
  moreover have "c_offset \<le> offset"
    using D(3) [OF cd] D(2) C(1) unfolding co by (auto simp: sec_end_def)
  ultimately have "int c_offset \<le> int (offsets ! (c - 1)) + ?R" using off T by simp
  note A = move_a_spec [OF le_trans [OF I(2) c1(2)] c1(1) this, folded a']
  show "a' < c" using A(1) bc by simp
  show "int c_offset \<le> int (offsets ! a') + ?R" by (rule A(2))
  show "sec_end ctx offsets i \<le> c_offset" if "i < c" for i
    using D(3) [of i] D(5) [OF that cd] that C(1) D(2) unfolding co by auto
  show "thunks_placed m ctx d' offsets offset (th_thunks st)" by (rule P)
  show "offsets ! i = th_offsets st ! i" if "i < d" for i using M that by blast
qed

subsection \<open>The new thunk\<close>

lemma fix_ref_ok:
  assumes "scanned m ctx (length thunks) st found i r ref" and "th_thunks st = thunks" and "extras_ok p st"
    and found: "set (tk_symbols t) = found"
    and extra: "\<And>s. extra s = (case find_pos (\<lambda>s'. s' = s) (tk_symbols t) of Some idx \<Rightarrow> Some (length thunks, idx) | None \<Rightarrow> th_extra st s)"
    and reach: "\<And>k idx. p \<le> k \<Longrightarrow> k < Suc (length thunks) \<Longrightarrow> idx < length (tk_symbols ((thunks @ [t]) ! k)) \<Longrightarrow>
      entry_reached m ctx (th_offsets st) i r ((thunks @ [t]) ! k) idx"
    and "p \<le> length thunks"
  shows "branch_ok m ctx (th_offsets st) (thunks @ [t]) i r (fix_ref (length thunks) extra r ref)"
proof (cases ref)
  case None
  then show ?thesis using assms(1) by (auto simp: scanned_def branch_ok_def fix_ref_def)
next
  case (Some tr)
  show ?thesis
  proof (cases "snd tr")
    case None
    then have k: "fst tr = length thunks" and f: "tr_sym r \<in> set (tk_symbols t)"
      using assms(1) Some found by (auto simp: scanned_def split: prod.splits)
    obtain idx where idx: "find_pos (\<lambda>s'. s' = tr_sym r) (tk_symbols t) = Some idx"
      using f find_pos_None [of "\<lambda>s'. s' = tr_sym r" "tk_symbols t"] by (cases "find_pos (\<lambda>s'. s' = tr_sym r) (tk_symbols t)") auto
    then show ?thesis
      using find_pos_Some [OF idx] reach [of "length thunks" idx] assms(7) k Some extra [of "tr_sym r"]
      by (auto simp: branch_ok_def fix_ref_def split: prod.splits)
  next
    case (Some idx)
    then have "th_extra st (tr_sym r) = Some (fst tr, idx)"
      using assms(1) \<open>ref = Some tr\<close> by (auto simp: scanned_def split: prod.splits)
    then have x: "p \<le> fst tr \<and> fst tr < length thunks \<and> idx < length (tk_symbols (thunks ! fst tr)) \<and> tk_symbols (thunks ! fst tr) ! idx = tr_sym r"
      using assms(2,3) unfolding extras_ok_def by blast
    then show ?thesis
      using reach [of "fst tr" idx] Some \<open>ref = Some tr\<close>
      by (cases tr) (auto simp: branch_ok_def fix_ref_def nth_append)
  qed
qed

lemma new_thunk_layout:
  "th_offsets (new_thunk m ctx b c st) = th_offsets st"
  "\<exists>t. th_thunks (new_thunk m ctx b c st) = th_thunks st @ [t] \<and> tk_offset t = align_up (th_offset st) thunk_alignment \<and>
       th_offset (new_thunk m ctx b c st) = thunk_end m t"
  by (auto simp: new_thunk_def Let_def thunk_end_def split: prod.split)

lemma new_thunk_spec:
  assumes ok: "extras_ok p st" and p: "p \<le> length (th_thunks st)" and n: "length (th_refs st) = length (tc_members ctx)"
    and c: "c \<le> length (tc_members ctx)" and new: "th_thunks (new_thunk m ctx b c st) = th_thunks st @ [t]"
    and reach: "\<And>i r k idx. b \<le> i \<Longrightarrow> i < c \<Longrightarrow> r \<in> set (tm_rels (tc_members ctx ! i)) \<Longrightarrow> p \<le> k \<Longrightarrow> k < Suc (length (th_thunks st)) \<Longrightarrow>
      idx < length (tk_symbols ((th_thunks st @ [t]) ! k)) \<Longrightarrow> entry_reached m ctx (th_offsets st) i r ((th_thunks st @ [t]) ! k) idx"
  shows "extras_ok p (new_thunk m ctx b c st)" and "length (th_refs (new_thunk m ctx b c st)) = length (tc_members ctx)"
    and "i < b \<Longrightarrow> th_refs (new_thunk m ctx b c st) ! i = th_refs st ! i"
    and "b \<le> i \<Longrightarrow> i < c \<Longrightarrow>
      list_all2 (branch_ok m ctx (th_offsets st) (th_thunks st @ [t]) i) (tm_rels (tc_members ctx ! i)) (th_refs (new_thunk m ctx b c st) ! i)"
proof -
  let ?k = "length (th_thunks st)"
  obtain refs flags found where s: "scan_sections m ctx ?k [b..<c] (th_flags st, []) st = (refs, flags, found)"
    by (cases "scan_sections m ctx ?k [b..<c] (th_flags st, []) st") auto
  define symbols where "symbols = sort_key (\<lambda>s. ts_key (tc_syms ctx ! s)) found"
  define extra where "extra = (\<lambda>s. case find_pos (\<lambda>s'. s' = s) symbols of Some idx \<Rightarrow> Some (?k, idx) | None \<Rightarrow> th_extra st s)"
  let ?st = "new_thunk m ctx b c st"
  have st: "th_extra ?st = extra" "th_flags ?st = flags" "th_thunks ?st = th_thunks st @ [t]" "tk_symbols t = symbols"
    "th_refs ?st = fold (\<lambda>ir rs. rs [fst ir := fix_refs ctx ?k extra ir]) refs (th_refs st)"
    using new s by (auto simp: new_thunk_def Let_def symbols_def extra_def)
  have "flags_ok st (th_flags st, [])" using ok by (auto simp: flags_ok_def extras_ok_def)
  from scan_sections_spec [OF s this]
  have S: "flags_ok st (flags, found)" "map fst refs = [b..<c]"
    "\<And>i rs. (i, rs) \<in> set refs \<Longrightarrow> list_all2 (scanned m ctx ?k st (set found) i) (tm_rels (tc_members ctx ! i)) rs"
    by auto
  have found: "set symbols = set found" by (simp add: symbols_def)
  have new: "extra s = Some (?k, idx) \<and> idx < length symbols \<and> symbols ! idx = s" if "find_pos (\<lambda>s'. s' = s) symbols = Some idx" for s idx
    using find_pos_Some [OF that] that by (auto simp: extra_def)
  have old: "extra s = th_extra st s \<and> s \<notin> set found" if "find_pos (\<lambda>s'. s' = s) symbols = None" for s
    using that that [unfolded find_pos_None] found by (simp add: extra_def) blast
  have "p \<le> k \<and> k < Suc ?k \<and> idx < length (tk_symbols ((th_thunks st @ [t]) ! k)) \<and> tk_symbols ((th_thunks st @ [t]) ! k) ! idx = s"
    if "extra s = Some (k, idx)" for s k idx
  proof (cases "find_pos (\<lambda>s'. s' = s) symbols")
    case None
    then have "th_extra st s = Some (k, idx)" using old that by simp
    then have "p \<le> k \<and> k < ?k \<and> idx < length (tk_symbols (th_thunks st ! k)) \<and> tk_symbols (th_thunks st ! k) ! idx = s"
      using ok unfolding extras_ok_def by blast
    then show ?thesis by (simp add: nth_append)
  next
    case (Some j)
    then show ?thesis using new that p st(4) by auto
  qed
  moreover have "extra s \<noteq> None" if "flags s" for s
    using that S(1) old [of s] new [of s] by (cases "find_pos (\<lambda>s'. s' = s) symbols") (auto simp: flags_ok_def)
  ultimately show "extras_ok p ?st" by (auto simp: extras_ok_def st)
  have d: "distinct (map fst refs)" and f: "fst ` set refs = {b..<c}" using S(2) by (simp_all flip: set_map)
  note U = fold_update [OF d, where f = "fix_refs ctx ?k extra" and rs = "th_refs st", folded st(5)]
  show "length (th_refs ?st) = length (tc_members ctx)" using U(3) n by simp
  show "i < b \<Longrightarrow> th_refs ?st ! i = th_refs st ! i" using U(2) f by auto
  assume i: "b \<le> i" "i < c"
  then have "i \<in> fst ` set refs" using f by simp
  then obtain rs where rs: "(i, rs) \<in> set refs" by auto
  have sc: "scanned m ctx ?k st (set found) i (tm_rels (tc_members ctx ! i) ! j) (rs ! j)" if "j < length (tm_rels (tc_members ctx ! i))" for j
    using S(3) [OF rs] that by (simp add: list_all2_conv_all_nth)
  have len: "length rs = length (tm_rels (tc_members ctx ! i))" using S(3) [OF rs] by (simp add: list_all2_lengthD)
  have "branch_ok m ctx (th_offsets st) (th_thunks st @ [t]) i (tm_rels (tc_members ctx ! i) ! j)
      (fix_ref ?k extra (tm_rels (tc_members ctx ! i) ! j) (rs ! j))" if j: "j < length (tm_rels (tc_members ctx ! i))" for j
    by (rule fix_ref_ok [OF sc [OF j] refl ok])
      (use found st(4) p reach i j in \<open>auto simp: extra_def\<close>)
  then show "list_all2 (branch_ok m ctx (th_offsets st) (th_thunks st @ [t]) i) (tm_rels (tc_members ctx ! i)) (th_refs ?st ! i)"
    using U(1) [OF rs] i c n len by (simp add: list_all2_conv_all_nth fix_refs_def)
qed

subsection \<open>All batches\<close>

lemma new_thunk_inv:
  assumes inv: "thunk_inv m ctx a b d p st" and b: "b < length (tc_members ctx)" and m: "needs_thunk m" and ok: "thunk_input_ok m ctx"
    and d': "move_d m ctx b d (th_offsets st) (th_offset st) = (d', offsets, offset)"
    and c: "c = move_c m ctx b (b + 1) offsets"
    and co: "c_offset = (if c = length (tc_members ctx) then offset else offsets ! c)"
    and a': "a' = move_a m ctx a c_offset offsets"
    and er: "erase_thunks (offsets ! a') p (st \<lparr> th_offsets := offsets, th_offset := offset \<rparr>) = (p', st1)"
    and lim: "th_offset (new_thunk m ctx b c st1) < 2 ^ 32 - 1"
    and size: "int (thunk_bytes m (length (tk_symbols (last (th_thunks (new_thunk m ctx b c st1)))))) < max_thunk_size"
  shows "thunk_inv m ctx a' c d' p' (new_thunk m ctx b c st1)"
proof -
  let ?n = "length (tc_members ctx)" and ?R = "max_distance m" and ?B = "batch_size m" and ?T = max_thunk_size
  let ?st = "new_thunk m ctx b c st1"
  have T: "?T = 102400" by (simp add: max_thunk_size_def)
  have I: "extras_ok p st" "p \<le> length (th_thunks st)" "length (th_refs st) = ?n"
      "\<And>i. i < b \<Longrightarrow> list_all2 (branch_ok m ctx (th_offsets st) (th_thunks st) i) (tm_rels (tc_members ctx ! i)) (th_refs st ! i)"
      "thunks_placed m ctx d (th_offsets st) (th_offset st) (th_thunks st)" "b \<le> d"
    using inv by (auto simp: thunk_inv_def)
  have "extras_ok p (st \<lparr> th_offsets := offsets, th_offset := offset \<rparr>)" using I(1) by (simp add: extras_ok_def)
  from erase_thunks_spec [OF er this]
  have E: "extras_ok p' st1" "th_offsets st1 = offsets" "th_offset st1 = offset" "th_thunks st1 = th_thunks st" "th_refs st1 = th_refs st"
      "p' < length (th_thunks st) \<Longrightarrow> offsets ! a' \<le> tk_offset (th_thunks st ! p')" "p' \<le> length (th_thunks st)"
    using I(2) by simp_all
  obtain t where t: "th_thunks ?st = th_thunks st @ [t]" "tk_offset t = align_up offset 4" "th_offset ?st = thunk_end m t"
    using new_thunk_layout(2) [of m ctx b c st1] E by (auto simp: thunk_alignment_def)
  have toff: "offset \<le> tk_offset t" "tk_offset t < offset + 4"
    using align_up_ge [of offset 2] align_up_less [of offset 2] by (simp_all add: t(2))
  have bytes: "int (thunk_end m t) < int (tk_offset t) + ?T" using size by (simp add: t(1) thunk_end_def)
  have lim': "offset < 2 ^ 32 - 1" using lim toff by (simp add: t(3) thunk_end_def)
  note B = batch_bounds [OF inv b m ok d' c co a' lim']
  note D = placedD [OF B(1)]
  have bd': "b < d'" and cn: "c \<le> ?n" using B(3,4) D(2) by auto
  have reach: "entry_reached m ctx offsets i r ((th_thunks st @ [t]) ! k) idx"
    if i: "b \<le> i" "i < c" and r: "r \<in> set (tm_rels (tc_members ctx ! i))" and k: "p' \<le> k" "k < Suc (length (th_thunks st))"
      and idx: "idx < length (tk_symbols ((th_thunks st @ [t]) ! k))" for i r k idx
  proof (rule entry_in_reach [OF m idx])
    let ?t = "(th_thunks st @ [t]) ! k" and ?P = "offsets ! i + tr_offset r"
    have "?P + 4 \<le> sec_end ctx offsets i"
      using thunk_input_okD(2) [OF ok _ r] i cn by (simp add: sec_end_def)
    then have P: "?P + 4 \<le> c_offset" using B(8) [OF i(2)] by simp
    have "offsets ! b \<le> offsets ! i"
      using D(5) [of b i] i B(4) by (cases "b = i") (auto simp: sec_end_def)
    then have bP: "offsets ! b \<le> ?P" by simp
    have "offsets ! a' \<le> tk_offset ?t"
    proof (cases "k < length (th_thunks st)")
      case True
      then have "tk_offset (th_thunks st ! p') \<le> tk_offset (th_thunks st ! k)"
        using sorted_nth_mono [OF D(8), of p' k] k by simp
      then show ?thesis using E(6) k True by (simp add: nth_append)
    next
      case False
      then have "?t = t" using k by (simp add: nth_append)
      moreover have "sec_end ctx offsets a' \<le> offset" using D(3) [of a'] B(4,6) by simp
      ultimately show ?thesis using toff by (simp add: sec_end_def)
    qed
    then show "int ?P + 4 \<le> int (tk_offset ?t) + ?R" using P B(7) by simp
    have "thunk_end m ?t \<le> thunk_end m t"
      using D(6) [of ?t] k toff by (cases "k < length (th_thunks st)") (auto simp: nth_append thunk_end_def)
    then show "int (thunk_end m ?t) \<le> int ?P + ?R + 7" using bytes toff B(9) bP by simp
  qed
  have new: "th_thunks ?st = th_thunks st1 @ [t]" using t(1) E(4) by simp
  note N = new_thunk_spec [OF E(1) E(7) [folded E(4)] I(3) [folded E(5)] cn new]
  have N': "extras_ok p' ?st" "length (th_refs ?st) = ?n" "\<And>i. i < b \<Longrightarrow> th_refs ?st ! i = th_refs st ! i"
    "\<And>i. b \<le> i \<Longrightarrow> i < c \<Longrightarrow> list_all2 (branch_ok m ctx offsets (th_thunks st @ [t]) i) (tm_rels (tc_members ctx ! i)) (th_refs ?st ! i)"
    using N reach unfolding E by blast+
  have old_new: "list_all2 (branch_ok m ctx offsets (th_thunks st @ [t]) i) (tm_rels (tc_members ctx ! i)) (th_refs ?st ! i)" if "i < c" for i
  proof (cases "i < b")
    case True
    have n: "i < ?n" using that cn by simp
    show ?thesis unfolding N'(3) [OF True]
      by (rule list.rel_mono_strong [OF I(4) [OF True]])
        (use True I(6) B(2) thunk_input_okD(3) [OF ok n] in \<open>auto intro!: branch_ok_stable [OF _ _ I(5)]\<close>)
  next
    case False
    then show ?thesis using N'(4) that by simp
  qed
  have "2 * int (thunk_end m t) + ?B + ?T - 3 < 2 * int (offsets ! c) + 2 * ?R" if c': "c < ?n"
  proof -
    have "0 \<le> (2::int) ^ tm_p2align (tc_members ctx ! c)" by simp
    then show ?thesis
      using B(9) B(10) [OF c'] thunk_input_okD(1) [OF ok c'] bytes toff T unfolding sec_end_def distrib_left by linarith
  qed
  then show ?thesis
    using placed_thunk [OF B(1) toff(1)] B(4,5,6) N' old_new E(7)
    unfolding thunk_inv_def new_thunk_layout(1) t(1,3) E(2) by auto
qed

end
