(* ===== verification/Elf_Thunks_Pass.thy ===== *)
theory Elf_Thunks_Pass
  imports Elf_Thunks_Reach
begin

text \<open>The whole pass: the layout it gives and the reach of every branch, with an example.\<close>

subsection \<open>The loop\<close>

lemma create_thunks_step:
  assumes "b < length (tc_members ctx)" and "move_d m ctx b d (th_offsets st) (th_offset st) = (d', offsets, offset)"
    and "c = move_c m ctx b (b + 1) offsets" and "a' = move_a m ctx a (if c = length (tc_members ctx) then offset else offsets ! c) offsets"
    and "erase_thunks (offsets ! a') p (st \<lparr> th_offsets := offsets, th_offset := offset \<rparr>) = (p', st1)"
  shows "create_thunks m ctx a b d p st = create_thunks m ctx a' c d' p' (new_thunk m ctx b c st1)"
  by (subst create_thunks.simps) (simp only: assms(1,2,5) Let_def prod.case if_True assms(3) [symmetric] assms(4) [symmetric])

lemma create_thunks_pieces:
  assumes "b < length (tc_members ctx)"
  obtains d' offsets offset c a' p' st1
  where "move_d m ctx b d (th_offsets st) (th_offset st) = (d', offsets, offset)"
    and "c = move_c m ctx b (b + 1) offsets" and "a' = move_a m ctx a (if c = length (tc_members ctx) then offset else offsets ! c) offsets"
    and "erase_thunks (offsets ! a') p (st \<lparr> th_offsets := offsets, th_offset := offset \<rparr>) = (p', st1)"
    and "create_thunks m ctx a b d p st = create_thunks m ctx a' c d' p' (new_thunk m ctx b c st1)" and "b < c"
proof -
  obtain d' offsets offset where d: "move_d m ctx b d (th_offsets st) (th_offset st) = (d', offsets, offset)"
    by (cases "move_d m ctx b d (th_offsets st) (th_offset st)") auto
  define c where "c = move_c m ctx b (b + 1) offsets"
  define a' where "a' = move_a m ctx a (if c = length (tc_members ctx) then offset else offsets ! c) offsets"
  obtain p' st1 where e: "erase_thunks (offsets ! a') p (st \<lparr> th_offsets := offsets, th_offset := offset \<rparr>) = (p', st1)"
    by (cases "erase_thunks (offsets ! a') p (st \<lparr> th_offsets := offsets, th_offset := offset \<rparr>)") auto
  have "b < c" using move_c_ge [of "b + 1" m ctx b offsets] by (simp add: c_def)
  then show ?thesis using that [OF d c_def a'_def e create_thunks_step [OF assms d c_def a'_def e]] by blast
qed

lemma erase_thunks_keeps: "erase_thunks limit p st = (p', st') \<Longrightarrow> th_offset st' = th_offset st \<and> th_thunks st' = th_thunks st"
proof (induction limit p st rule: erase_thunks.induct)
  case (1 limit p st)
  then show ?case using 1(2) [unfolded erase_thunks.simps [of limit p st]] by (auto split: if_splits)
qed

lemma new_thunk_grows:
  assumes "move_d m ctx b d (th_offsets st) (th_offset st) = (d', offsets, offset)"
    and "erase_thunks (offsets ! a') p (st \<lparr> th_offsets := offsets, th_offset := offset \<rparr>) = (p', st1)"
  shows "th_offset st \<le> th_offset (new_thunk m ctx b c st1) \<and> (\<exists>t. th_thunks (new_thunk m ctx b c st1) = th_thunks st @ [t])"
  using move_d_offset [OF assms(1)] erase_thunks_keeps [OF assms(2)] new_thunk_layout(2) [of m ctx b c st1] align_up_ge [of offset 2]
  by (auto simp: thunk_alignment_def thunk_end_def)

lemma create_thunks_grows:
  "create_thunks m ctx a b d p st = (p', st') \<Longrightarrow> th_offset st \<le> th_offset st' \<and> set (th_thunks st) \<subseteq> set (th_thunks st')"
proof (induction "length (tc_members ctx) - b" arbitrary: a b d p st rule: less_induct)
  case less
  show ?case
  proof (cases "b < length (tc_members ctx)")
    case True
    obtain d' offsets offset c a' p1 st1 where s: "move_d m ctx b d (th_offsets st) (th_offset st) = (d', offsets, offset)"
      "erase_thunks (offsets ! a') p (st \<lparr> th_offsets := offsets, th_offset := offset \<rparr>) = (p1, st1)"
      "create_thunks m ctx a b d p st = create_thunks m ctx a' c d' p1 (new_thunk m ctx b c st1)" "b < c"
      by (rule create_thunks_pieces [OF True]) blast
    show ?thesis
      using less(1) [of c a' d' p1 "new_thunk m ctx b c st1"] less(2) True s(4) new_thunk_grows [OF s(1,2), of c] unfolding s(3) by fastforce
  next
    case False
    then show ?thesis using less(2) [unfolded create_thunks.simps [of m ctx a b d p st]] by auto
  qed
qed

lemma create_thunks_inv:
  assumes "needs_thunk m" and "thunk_input_ok m ctx"
  shows "thunk_inv m ctx a b d p st \<Longrightarrow> create_thunks m ctx a b d p st = (p', st') \<Longrightarrow> th_offset st' < 2 ^ 32 - 1 \<Longrightarrow>
    \<forall>t\<in>set (th_thunks st'). int (thunk_bytes m (length (tk_symbols t))) < max_thunk_size \<Longrightarrow>
    \<exists>a' d'. thunk_inv m ctx a' (length (tc_members ctx)) d' p' st'"
proof (induction "length (tc_members ctx) - b" arbitrary: a b d p st rule: less_induct)
  case less
  show ?case
  proof (cases "b < length (tc_members ctx)")
    case True
    obtain d' offsets offset c a' p1 st1 where s: "move_d m ctx b d (th_offsets st) (th_offset st) = (d', offsets, offset)"
      "c = move_c m ctx b (b + 1) offsets" "a' = move_a m ctx a (if c = length (tc_members ctx) then offset else offsets ! c) offsets"
      "erase_thunks (offsets ! a') p (st \<lparr> th_offsets := offsets, th_offset := offset \<rparr>) = (p1, st1)"
      "create_thunks m ctx a b d p st = create_thunks m ctx a' c d' p1 (new_thunk m ctx b c st1)" "b < c"
      by (rule create_thunks_pieces [OF True])
    let ?st = "new_thunk m ctx b c st1"
    have r: "create_thunks m ctx a' c d' p1 ?st = (p', st')" using less(3) s(5) by simp
    note g = create_thunks_grows [OF r]
    obtain t where "th_thunks ?st = th_thunks st @ [t]" using new_thunk_grows [OF s(1,4), of c] by blast
    then have "last (th_thunks ?st) \<in> set (th_thunks st')" using g by auto
    then have "thunk_inv m ctx a' c d' p1 ?st"
      using new_thunk_inv [OF less(2) True assms s(1,2) refl s(3,4)] g less(4,5) by simp
    then show ?thesis using less(1) [OF _ _ r less(4,5)] True s(6) by simp
  next
    case False
    then have "p' = p \<and> st' = st" using less(3) [unfolded create_thunks.simps [of m ctx a b d p st]] by auto
    moreover have "b = length (tc_members ctx)" using less(2) False placedD(2) [of m ctx d] by (fastforce simp: thunk_inv_def)
    ultimately show ?thesis using less(2) by blast
  qed
qed

lemma initial_inv:
  assumes "needs_thunk m" and "tc_members ctx \<noteq> []"
  shows "thunk_inv m ctx 0 0 0 0 \<lparr> th_offsets = 0 # replicate (length (tc_members ctx) - 1) unassigned, th_offset = 0, th_thunks = [],
      th_extra = (\<lambda>_. None), th_flags = (\<lambda>_. False), th_refs = map (\<lambda>isec. replicate (length (tm_rels isec)) None) (tc_members ctx) \<rparr>"
proof -
  have "length (tc_members ctx) = Suc (length (tc_members ctx) - 1)" using assms(2) by (cases "tc_members ctx") auto
  then show ?thesis
    using batch_max [OF assms(1)] batch_min [OF assms(1)]
    by (auto simp: thunk_inv_def thunks_placed_def extras_ok_def max_thunk_size_def nth_Cons' nth_replicate)
qed

lemma thunks_done:
  assumes "needs_thunk m" and "thunk_input_ok m ctx" and "th_offset (create_range_extension_thunks m ctx) < 2 ^ 32 - 1"
    and "\<forall>t\<in>set (th_thunks (create_range_extension_thunks m ctx)). int (thunk_bytes m (length (tk_symbols t))) < max_thunk_size"
  shows "\<exists>a d p st. thunk_inv m ctx a (length (tc_members ctx)) d p st \<and>
    th_offsets (create_range_extension_thunks m ctx) = th_offsets st \<and> th_offset (create_range_extension_thunks m ctx) = th_offset st \<and>
    th_thunks (create_range_extension_thunks m ctx) = th_thunks st \<and> th_refs (create_range_extension_thunks m ctx) = th_refs st"
proof (cases "tc_members ctx = []")
  case True
  then show ?thesis
    by (intro exI [of _ 0] exI [of _ "create_range_extension_thunks m ctx"])
      (simp add: create_range_extension_thunks_def thunk_inv_def thunks_placed_def extras_ok_def)
next
  case False
  let ?st0 = "\<lparr> th_offsets = 0 # replicate (length (tc_members ctx) - 1) unassigned, th_offset = 0, th_thunks = [],
      th_extra = (\<lambda>_. None), th_flags = (\<lambda>_. False), th_refs = map (\<lambda>isec. replicate (length (tm_rels isec)) None) (tc_members ctx) \<rparr>"
  obtain p st where r: "create_thunks m ctx 0 0 0 0 ?st0 = (p, st)" by (cases "create_thunks m ctx 0 0 0 0 ?st0") auto
  have e: "create_range_extension_thunks m ctx = fold reset_thunk (drop p (th_thunks st)) st"
    using False r by (simp add: create_range_extension_thunks_def Let_def)
  note f = fold_reset_thunk [of "drop p (th_thunks st)" st, folded e]
  show ?thesis
    using create_thunks_inv [OF assms(1,2) initial_inv [OF assms(1) False] r] assms(3,4) f by auto
qed

subsection \<open>The pass\<close>



subsection \<open>An example\<close>

text \<open>Two sections that call an imported function; the first also calls the second.\<close>

definition ex_thunks :: ThunkCtx where
  "ex_thunks = \<lparr> tc_addr = 4096,
     tc_members =
       [\<lparr> tm_size = 8, tm_p2align = 2,
          tm_rels = [\<lparr> tr_type = R_AARCH64_CALL26, tr_offset = 0, tr_sym = 0, tr_addend = 0 \<rparr>,
                     \<lparr> tr_type = R_AARCH64_CALL26, tr_offset = 4, tr_sym = 1, tr_addend = 0 \<rparr>] \<rparr>,
        \<lparr> tm_size = 8, tm_p2align = 4,
          tm_rels = [\<lparr> tr_type = R_AARCH64_JUMP26, tr_offset = 4, tr_sym = 0, tr_addend = 0 \<rparr>] \<rparr>],
     tc_syms =
       [\<lparr> ts_file = True, ts_section = None, ts_value = 0, ts_plt = True, ts_preserves_r2 = False, ts_uses_toc = False, ts_key = (1, 2) \<rparr>,
        \<lparr> ts_file = True, ts_section = Some 1, ts_value = 0, ts_plt = False, ts_preserves_r2 = False, ts_uses_toc = False, ts_key = (1, 3) \<rparr>] \<rparr>"

lemma ex_thunks_run:
  shows ex_thunks_offset: "th_offset (create_range_extension_thunks ARM64 ex_thunks) = 36"
    and ex_thunks_offsets: "th_offsets (create_range_extension_thunks ARM64 ex_thunks) = [0, 16]"
    and ex_thunks_thunks: "th_thunks (create_range_extension_thunks ARM64 ex_thunks) = [\<lparr> tk_offset = 24, tk_symbols = [0] \<rparr>]"
    and ex_thunks_refs: "th_refs (create_range_extension_thunks ARM64 ex_thunks) = [[Some (0, Some 0), None], [Some (0, Some 0)]]"
  by (simp_all add: create_range_extension_thunks_def ex_thunks_def create_thunks.simps move_d.simps move_c.simps move_a.simps
    erase_thunks.simps new_thunk_def Let_def align_up_def unassigned_def max_distance_def batch_size_def max_thunk_size_def
    thunk_alignment_def upt_rec thunk_scan_rel_def needs_thunk_rel_def is_reachable_def thunk_bytes_def desc_defs fix_refs_def fix_ref_def
    reset_thunk_def branch_val_def sym_addr_def in_reach_def R_AARCH64_CALL26_def R_AARCH64_JUMP26_def)

lemmas ex_thunks_simps = ex_thunks_offset ex_thunks_offsets ex_thunks_thunks ex_thunks_refs

lemma ex_thunks_ready:
  shows ex_thunks_input: "thunk_input_ok ARM64 ex_thunks" and ex_thunks_machine: "needs_thunk ARM64"
  by (simp_all add: thunk_input_ok_def ex_thunks_def needs_thunk_def desc_defs max_thunk_size_def batch_size_def max_distance_def)

lemma ex_thunks_small: "th_offset (create_range_extension_thunks ARM64 ex_thunks) < 2 ^ 32 - 1"
  by (simp add: ex_thunks_simps)

lemma ex_thunks_sizes:
  "\<forall>t\<in>set (th_thunks (create_range_extension_thunks ARM64 ex_thunks)). int (thunk_bytes ARM64 (length (tk_symbols t))) < max_thunk_size"
  by (simp add: ex_thunks_simps thunk_bytes_def desc_defs max_thunk_size_def)



end
