(* ===== verification/Elf_Layout.thy ===== *)
theory Elf_Layout
  imports Elf_Types Bits
begin

text \<open>
  The layout of the output file (\<^verbatim>\<open>src/elf/passes.cc\<close>, \<^verbatim>\<open>src/elf/output-chunks.cc\<close>): the order of the chunks, their
  virtual addresses and file offsets, and the program headers.
\<close>

subsection \<open>Chunks\<close>

text \<open>The chunks that the code knows by a pointer in the context have a role; all others are \<open>Regular\<close>.\<close>

datatype role = Ehdr | Phdr | Shdr | Interp | Hash | Gnu_hash | Dynsym | Dynstr | Versym | Verneed | Reldyn | Relplt
  | Got | Gotplt | Dynamic | Eh_frame_hdr | Relro_padding | Regular

record Chunk =
  ck_role :: role
  ck_name :: bytes
  ck_type :: u32
  ck_flags :: u64
  ck_addralign :: u64
  ck_size :: u64
  ck_addr :: u64
  ck_offset :: u64
  ck_order :: int

datatype SeparateCode = SEPARATE_LOADABLE_SEGMENTS | SEPARATE_CODE | NOSEPARATE_CODE

datatype SectionOrder = SO_SECTION bytes | SO_GROUP bytes | SO_ADDR u64 | SO_ALIGN u64 | SO_SYMBOL bytes

record LayoutArgs =
  la_page_size :: u64
  la_image_base :: u64
  la_section_start :: "bytes \<Rightarrow> u64 option"
  la_separate_code :: SeparateCode
  la_omagic :: bool
  la_execute_only :: bool
  la_rosegment :: bool
  la_z_now :: bool
  la_z_relro :: bool
  la_z_execstack :: bool
  la_section_order :: "SectionOrder list"
  la_physical_image_base :: "u64 option"

definition has_flag :: "Chunk \<Rightarrow> u32 \<Rightarrow> bool" where
  "has_flag c f \<longleftrightarrow> ck_flags c AND ucast f \<noteq> 0"

abbreviation is_alloc :: "Chunk \<Rightarrow> bool" where "is_alloc c \<equiv> has_flag c SHF_ALLOC"
abbreviation is_nobits :: "Chunk \<Rightarrow> bool" where "is_nobits c \<equiv> ck_type c = SHT_NOBITS"
abbreviation is_tls :: "Chunk \<Rightarrow> bool" where "is_tls c \<equiv> has_flag c SHF_TLS"

definition is_tbss :: "Chunk \<Rightarrow> bool" where
  "is_tbss c \<longleftrightarrow> is_nobits c \<and> is_tls c"

definition is_bss :: "Chunk \<Rightarrow> bool" where
  "is_bss c \<longleftrightarrow> is_nobits c \<and> \<not> is_tls c"

definition is_note :: "Chunk \<Rightarrow> bool" where
  "is_note c \<longleftrightarrow> ck_type c = SHT_NOTE \<and> is_alloc c"

text \<open>The error for writable sections with \<^verbatim>\<open>--execute-only\<close> is left out.\<close>

definition to_phdr_flags :: "LayoutArgs \<Rightarrow> Chunk \<Rightarrow> u32" where
  "to_phdr_flags arg c =
     (if la_omagic arg then PF_R OR PF_W OR PF_X
      else
        let write = has_flag c SHF_WRITE; exec = has_flag c SHF_EXECINSTR
        in if exec \<and> la_execute_only arg then PF_X
           else
             let exec = (if \<not> write \<and> \<not> la_rosegment arg then True else exec)
             in PF_R OR (if write then PF_W else PF_NONE) OR (if exec then PF_X else PF_NONE))"

definition ends_with :: "bytes \<Rightarrow> bytes \<Rightarrow> bool" where
  "ends_with s p \<longleftrightarrow> length p \<le> length s \<and> drop (length s - length p) s = p"

definition is_relro :: "LayoutArgs \<Rightarrow> Chunk \<Rightarrow> bool" where
  "is_relro arg c \<longleftrightarrow> has_flag c SHF_WRITE \<and>
     (is_tls c \<or> ck_type c \<in> {SHT_INIT_ARRAY, SHT_FINI_ARRAY, SHT_PREINIT_ARRAY} \<or> ck_role c \<in> {Got, Dynamic, Relro_padding} \<or>
      la_z_now arg \<and> ck_role c = Gotplt \<or> ck_name c = str ''.alpha_got'' \<or> ck_name c = str ''.toc'' \<or>
      ends_with (ck_name c) (str ''.rel.ro''))"

subsection \<open>Order\<close>

definition of_flag :: "bool \<Rightarrow> nat \<Rightarrow> int" where
  "of_flag b k = (if b then 2 ^ k else 0)"

definition get_rank1 :: "LayoutArgs \<Rightarrow> Chunk \<Rightarrow> int" where
  "get_rank1 arg c =
     (if ck_role c = Ehdr then 0 else if ck_role c = Phdr then 1 else if ck_role c = Interp then 2
      else if ck_type c = SHT_NOTE \<and> is_alloc c then 3
      else if ck_role c = Hash then 4 else if ck_role c = Gnu_hash then 5 else if ck_role c = Dynsym then 6
      else if ck_role c = Dynstr then 7 else if ck_role c = Versym then 8 else if ck_role c = Verneed then 9
      else if ck_role c = Reldyn then 10 else if ck_role c = Relplt then 11 else if ck_role c = Shdr then 2 ^ 31 - 1
      else 2 ^ 10 + of_flag (\<not> is_alloc c) 9 + of_flag (has_flag c SHF_WRITE) 8 + of_flag (has_flag c SHF_EXECINSTR) 7 +
           of_flag (\<not> is_tls c) 6 + of_flag (\<not> is_relro arg c) 5 + of_flag (is_nobits c) 4)"

text \<open>\<open>narrow\<close> tells whether the words of the target have 32 bits: then the negation of an alignment is an unsigned 32-bit number.\<close>

definition get_rank2 :: "bool \<Rightarrow> Chunk \<Rightarrow> int" where
  "get_rank2 narrow c =
     (if ck_type c = SHT_NOTE then
        (if narrow then uint (- (ucast (ck_addralign c)) :: u32) else sint (- ck_addralign c))
      else if ck_role c = Got then 1
      else if ck_name c = str ''.toc'' then 2
      else if ck_name c = str ''.alpha_got'' then 3
      else if ck_role c = Relro_padding then 2 ^ 31 - 1
      else 0)"

definition rank_less :: "LayoutArgs \<Rightarrow> bool \<Rightarrow> Chunk \<Rightarrow> Chunk \<Rightarrow> bool" where
  "rank_less arg narrow a b \<longleftrightarrow>
     (if get_rank1 arg a \<noteq> get_rank1 arg b then get_rank1 arg a < get_rank1 arg b else get_rank2 narrow a < get_rank2 narrow b)"

text \<open>\<^verbatim>\<open>std::stable_sort\<close>: an element is inserted in front of the first one that it is not greater than.\<close>

fun insert_stable :: "('a \<Rightarrow> 'a \<Rightarrow> bool) \<Rightarrow> 'a \<Rightarrow> 'a list \<Rightarrow> 'a list" where
  "insert_stable lt x [] = [x]"
| "insert_stable lt x (y # ys) = (if lt y x then y # insert_stable lt x ys else x # y # ys)"

definition stable_sort :: "('a \<Rightarrow> 'a \<Rightarrow> bool) \<Rightarrow> 'a list \<Rightarrow> 'a list" where
  "stable_sort lt xs = foldr (insert_stable lt) xs []"

definition sort_output_sections_regular :: "LayoutArgs \<Rightarrow> bool \<Rightarrow> Chunk list \<Rightarrow> Chunk list" where
  "sort_output_sections_regular arg narrow chunks = stable_sort (rank_less arg narrow) chunks"

definition get_section_order_group :: "Chunk \<Rightarrow> bytes" where
  "get_section_order_group c =
     (if is_nobits c then str ''BSS'' else if has_flag c SHF_EXECINSTR then str ''TEXT''
      else if has_flag c SHF_WRITE then str ''DATA'' else str ''RODATA'')"

text \<open>\<open>None\<close> is the error of a chunk that the list does not mention; its rank is 0.\<close>

definition order_rank :: "LayoutArgs \<Rightarrow> Chunk \<Rightarrow> int option" where
  "order_rank arg c =
     (if ck_role c = Ehdr \<and> \<not> is_alloc c then Some (- 2)
      else if ck_role c = Phdr \<and> \<not> is_alloc c then Some (- 1)
      else if ck_role c = Shdr then Some (2 ^ 31 - 1)
      else if \<not> is_alloc c then Some (2 ^ 31 - 2)
      else case find_pos (\<lambda>ord. ord = SO_SECTION (ck_name c)) (la_section_order arg) of
        Some i \<Rightarrow> Some (int i)
      | None \<Rightarrow> map_option int (find_pos (\<lambda>ord. ord = SO_GROUP (get_section_order_group c)) (la_section_order arg)))"

definition sort_output_sections_by_order :: "LayoutArgs \<Rightarrow> Chunk list \<Rightarrow> Chunk list" where
  "sort_output_sections_by_order arg chunks =
     stable_sort (\<lambda>a b. ck_order a < ck_order b)
       (map (\<lambda>c. c \<lparr> ck_order := (case order_rank arg c of Some i \<Rightarrow> i | None \<Rightarrow> 0) \<rparr>) chunks)"

definition sort_output_sections :: "LayoutArgs \<Rightarrow> bool \<Rightarrow> Chunk list \<Rightarrow> Chunk list" where
  "sort_output_sections arg narrow chunks =
     (if la_section_order arg = [] then sort_output_sections_regular arg narrow chunks
      else sort_output_sections_by_order arg chunks)"

subsection \<open>Addresses\<close>

text \<open>The flags of a segment, with a bit of its own for \<open>RELRO\<close>.\<close>

definition get_flags :: "LayoutArgs \<Rightarrow> Chunk \<Rightarrow> u64" where
  "get_flags arg c = (if is_relro arg c then ucast (to_phdr_flags arg c) OR 2 ^ 32 else ucast (to_phdr_flags arg c))"

definition tls_alignment :: "Chunk list \<Rightarrow> u64" where
  "tls_alignment chunks = fold (\<lambda>c a. if is_tls c then max a (ck_addralign c) else a) chunks 1"

text \<open>The padding in front of a chunk with other memory attributes than the chunk before it.\<close>

definition separate :: "LayoutArgs \<Rightarrow> Chunk \<Rightarrow> Chunk \<Rightarrow> u64 \<Rightarrow> u64" where
  "separate arg prev c addr =
     (let flags1 = get_flags arg prev; flags2 = get_flags arg c;
          skip = (if addr mod la_page_size arg \<noteq> 0 then addr + la_page_size arg else addr)
      in if flags1 = flags2 then addr
         else case la_separate_code arg of
           SEPARATE_LOADABLE_SEGMENTS \<Rightarrow> align_to addr (la_page_size arg)
         | SEPARATE_CODE \<Rightarrow>
             if flags1 AND ucast PF_X \<noteq> flags2 AND ucast PF_X then align_to addr (la_page_size arg) else skip
         | NOSEPARATE_CODE \<Rightarrow> skip)"

text \<open>
  The loop of \<^verbatim>\<open>set_virtual_addresses_regular\<close> over the chunks that are left. \<open>prev\<close> is the chunk before them, \<open>seen\<close>
  tells whether the first thread-local chunk is among those already passed, and \<open>tbss\<close> is \<open>addr2\<close> while the inner loop
  over thread-local zero-initialized chunks runs.
\<close>

fun assign_addrs :: "LayoutArgs \<Rightarrow> u64 \<Rightarrow> Chunk option \<Rightarrow> bool \<Rightarrow> u64 \<Rightarrow> u64 option \<Rightarrow> Chunk list \<Rightarrow> Chunk list result" where
  "assign_addrs arg tls_align prev seen addr tbss [] = Inr []"
| "assign_addrs arg tls_align prev seen addr tbss (c # cs) =
     (let seen' = (seen \<or> is_tls c);
          alignment = (if is_tls c \<and> \<not> seen then tls_align else ck_addralign c);
          place_tbss = (\<lambda>addr addr2.
            let addr2 = align_to addr2 alignment; c' = c \<lparr> ck_addr := addr2 \<rparr>
            in if length cs \<noteq> 1 \<and> cs = [] then Inl OutOfBounds
               else bind_result (assign_addrs arg tls_align (Some c') seen' addr
                        (if length cs = 1 \<or> \<not> is_tbss (hd cs) then None else Some (addr2 + ck_size c)) cs)
                      (\<lambda>cs'. Inr (c' # cs')))
      in case tbss of
        Some addr2 \<Rightarrow> place_tbss addr addr2
      | None \<Rightarrow>
          if \<not> is_alloc c then
            bind_result (assign_addrs arg tls_align (Some c) seen' addr None cs) (\<lambda>cs'. Inr (c # cs'))
          else if ck_role c = Relro_padding then
            let c' = c \<lparr> ck_addr := addr, ck_size := align_to addr (la_page_size arg) - addr \<rparr>
            in bind_result (assign_addrs arg tls_align (Some c') seen' (addr + la_page_size arg) None cs) (\<lambda>cs'. Inr (c' # cs'))
          else case la_section_start arg (ck_name c) of
            Some start \<Rightarrow>
              let c' = c \<lparr> ck_addr := start \<rparr>
              in bind_result (assign_addrs arg tls_align (Some c') seen' (start + ck_size c) None cs) (\<lambda>cs'. Inr (c' # cs'))
          | None \<Rightarrow>
              let addr = (case prev of Some p \<Rightarrow> if ck_role p = Relro_padding then addr else separate arg p c addr | None \<Rightarrow> addr)
              in if is_tbss c then place_tbss addr addr
                 else
                   let addr = align_to addr alignment; c' = c \<lparr> ck_addr := addr \<rparr>
                   in bind_result (assign_addrs arg tls_align (Some c') seen' (addr + ck_size c) None cs) (\<lambda>cs'. Inr (c' # cs')))"

definition set_virtual_addresses_regular :: "LayoutArgs \<Rightarrow> Chunk list \<Rightarrow> Chunk list result" where
  "set_virtual_addresses_regular arg chunks =
     assign_addrs arg (tls_alignment chunks) None False (la_image_base arg) None chunks"

text \<open>
  With \<^verbatim>\<open>--section-order\<close>: the current address, the chunks already passed, those from the current one on, and the symbols
  that got the current address.
\<close>

record OrderSt =
  os_addr :: u64
  os_done :: "Chunk list"
  os_rest :: "Chunk list"
  os_symbols :: "(bytes \<times> u64) list"

definition skip_nonalloc :: "OrderSt \<Rightarrow> OrderSt" where
  "skip_nonalloc st = st \<lparr> os_done := os_done st @ takeWhile (\<lambda>c. \<not> is_alloc c) (os_rest st),
     os_rest := dropWhile (\<lambda>c. \<not> is_alloc c) (os_rest st) \<rparr>"

definition separate_by_order :: "LayoutArgs \<Rightarrow> Chunk \<Rightarrow> Chunk \<Rightarrow> u64 \<Rightarrow> u64" where
  "separate_by_order arg prev c addr =
     (let flags1 = to_phdr_flags arg prev; flags2 = to_phdr_flags arg c
      in if flags1 = flags2 then addr
         else case la_separate_code arg of
           SEPARATE_LOADABLE_SEGMENTS \<Rightarrow> align_to addr (la_page_size arg)
         | SEPARATE_CODE \<Rightarrow> if flags1 AND PF_X \<noteq> flags2 AND PF_X then align_to addr (la_page_size arg) else addr
         | NOSEPARATE_CODE \<Rightarrow> addr)"

definition assign_addr :: "LayoutArgs \<Rightarrow> OrderSt \<Rightarrow> OrderSt" where
  "assign_addr arg st =
     (case os_rest st of
        [] \<Rightarrow> st
      | c # cs \<Rightarrow>
          let addr = (if os_done st = [] then os_addr st else separate_by_order arg (List.last (os_done st)) c (os_addr st));
              addr = align_to addr (ck_addralign c)
          in skip_nonalloc (st \<lparr> os_addr := addr + ck_size c, os_done := os_done st @ [c \<lparr> ck_addr := addr \<rparr>], os_rest := cs \<rparr>))"

lemma assign_addr_rest: "os_rest st \<noteq> [] \<Longrightarrow> length (os_rest (assign_addr arg st)) < length (os_rest st)"
  by (cases "os_rest st") (auto simp: assign_addr_def skip_nonalloc_def Let_def le_imp_less_Suc length_dropWhile_le)

function assign_group :: "LayoutArgs \<Rightarrow> int \<Rightarrow> OrderSt \<Rightarrow> OrderSt" where
  "assign_group arg j st =
     (if os_rest st \<noteq> [] \<and> j = ck_order (hd (os_rest st)) then assign_group arg j (assign_addr arg st) else st)"
  by pat_completeness auto
termination
  by (relation "measure (\<lambda>(arg, j, st). length (os_rest st))") (auto simp: assign_addr_rest)

declare assign_group.simps [simp del]

definition order_step :: "LayoutArgs \<Rightarrow> int \<times> SectionOrder \<Rightarrow> OrderSt \<Rightarrow> OrderSt" where
  "order_step arg jord st =
     (case snd jord of
        SO_SECTION _ \<Rightarrow> if os_rest st \<noteq> [] \<and> fst jord = ck_order (hd (os_rest st)) then assign_addr arg st else st
      | SO_GROUP _ \<Rightarrow> assign_group arg (fst jord) st
      | SO_ADDR v \<Rightarrow> st \<lparr> os_addr := v \<rparr>
      | SO_ALIGN v \<Rightarrow> st \<lparr> os_addr := align_to (os_addr st) v \<rparr>
      | SO_SYMBOL name \<Rightarrow> st \<lparr> os_symbols := os_symbols st @ [(name, os_addr st)] \<rparr>)"

definition set_virtual_addresses_by_order :: "LayoutArgs \<Rightarrow> Chunk list \<Rightarrow> Chunk list \<times> (bytes \<times> u64) list" where
  "set_virtual_addresses_by_order arg chunks =
     (let st = fold (order_step arg) (zip (map int [0..<length (la_section_order arg)]) (la_section_order arg))
                 (skip_nonalloc \<lparr> os_addr = la_image_base arg, os_done = [], os_rest = chunks, os_symbols = [] \<rparr>)
      in (os_done st @ os_rest st, os_symbols st))"

subsection \<open>File offsets\<close>

definition align_with_skew :: "u64 \<Rightarrow> u64 \<Rightarrow> u64 \<Rightarrow> u64" where
  "align_with_skew val align skew =
     (let x = align_down val align + skew mod align in if val \<le> x then x else x + align)"

text \<open>
  \<open>run\<close> is the first chunk and the last chunk of the run of chunks that are contiguous in memory, while the inner loop adds
  chunks to it. Zero-initialized chunks after a run are skipped like those between runs.
\<close>

fun assign_offsets :: "LayoutArgs \<Rightarrow> u64 \<Rightarrow> (Chunk \<times> Chunk) option \<Rightarrow> Chunk list \<Rightarrow> Chunk list \<times> u64" where
  "assign_offsets arg fileoff run [] =
     (case run of None \<Rightarrow> ([], fileoff) | Some (first, prev) \<Rightarrow> ([], ck_offset prev + ck_size prev))"
| "assign_offsets arg fileoff run (c # cs) =
     (let start = (\<lambda>fileoff.
            if \<not> is_alloc c then
              let c' = c \<lparr> ck_offset := align_to fileoff (ck_addralign c) \<rparr>; (cs', e) = assign_offsets arg (ck_offset c' + ck_size c) None cs
              in (c' # cs', e)
            else if is_nobits c then
              let (cs', e) = assign_offsets arg fileoff None cs in (c # cs', e)
            else
              let c' = c \<lparr> ck_offset := (if la_page_size arg < ck_addralign c then align_to fileoff (ck_addralign c)
                                        else align_with_skew fileoff (la_page_size arg) (ck_addr c)) \<rparr>;
                  (cs', e) = assign_offsets arg fileoff (Some (c', c')) cs
              in (c' # cs', e))
      in case run of
        None \<Rightarrow> start fileoff
      | Some (first, prev) \<Rightarrow>
          if \<not> is_alloc c \<or> is_nobits c \<or> ck_addr c < ck_addr first \<or>
             sint (la_page_size arg) \<le> sint (ck_addr c - ck_addr prev - ck_size prev)
          then start (ck_offset prev + ck_size prev)
          else
            let c' = c \<lparr> ck_offset := ck_offset first + ck_addr c - ck_addr first \<rparr>;
                (cs', e) = assign_offsets arg fileoff (Some (first, c')) cs
            in (c' # cs', e))"

definition set_file_offsets :: "LayoutArgs \<Rightarrow> Chunk list \<Rightarrow> Chunk list \<times> u64" where
  "set_file_offsets arg chunks = assign_offsets arg 0 None chunks"

subsection \<open>Program headers\<close>

definition phdr_define :: "u32 \<Rightarrow> u32 \<Rightarrow> u64 \<Rightarrow> Chunk \<Rightarrow> ElfPhdr" where
  "phdr_define ty flags min_align c = \<lparr> p_type = ty, p_flags = flags, p_offset = ck_offset c, p_vaddr = ck_addr c,
     p_paddr = ck_addr c, p_filesz = (if is_nobits c then 0 else ck_size c), p_memsz = ck_size c,
     p_align = max min_align (ck_addralign c) \<rparr>"

definition phdr_append :: "Chunk \<Rightarrow> ElfPhdr \<Rightarrow> ElfPhdr" where
  "phdr_append c p = p \<lparr> p_align := max (p_align p) (ck_addralign c),
     p_filesz := (if is_nobits c then p_filesz p else ck_addr c + ck_size c - p_vaddr p),
     p_memsz := ck_addr c + ck_size c - p_vaddr p \<rparr>"

function note_segments :: "LayoutArgs \<Rightarrow> Chunk list \<Rightarrow> ElfPhdr list" where
  "note_segments arg [] = []"
| "note_segments arg (first # cs) =
     (if \<not> is_note first then note_segments arg cs
      else
        let flags = to_phdr_flags arg first; same = (\<lambda>c. is_note c \<and> to_phdr_flags arg c = flags)
        in fold phdr_append (takeWhile same cs) (phdr_define PT_NOTE flags (ck_addralign first) first) #
           note_segments arg (dropWhile same cs))"
  by pat_completeness auto
termination
  by (relation "measure (\<lambda>(arg, cs). length cs)") (auto simp: le_imp_less_Suc length_dropWhile_le)

definition load_run :: "LayoutArgs \<Rightarrow> Chunk \<Rightarrow> Chunk \<Rightarrow> bool" where
  "load_run arg first c \<longleftrightarrow> \<not> is_bss c \<and> to_phdr_flags arg c = to_phdr_flags arg first \<and>
     ck_offset c - ck_offset first = ck_addr c - ck_addr first"

definition bss_run :: "LayoutArgs \<Rightarrow> Chunk \<Rightarrow> Chunk \<Rightarrow> bool" where
  "bss_run arg first c \<longleftrightarrow> is_bss c \<and> to_phdr_flags arg c = to_phdr_flags arg first"

function load_segments :: "LayoutArgs \<Rightarrow> Chunk list \<Rightarrow> ElfPhdr list" where
  "load_segments arg [] = []"
| "load_segments arg (first # cs) =
     (if \<not> is_alloc first then load_segments arg cs
      else
        let p = phdr_define PT_LOAD (to_phdr_flags arg first) (la_page_size arg) first;
            run = (if is_bss first then [] else takeWhile (load_run arg first) cs);
            cs = drop (length run) cs;
            bss = takeWhile (bss_run arg first) cs
        in fold phdr_append (run @ bss) p # load_segments arg (drop (length bss) cs))"
  by pat_completeness auto
termination
  by (relation "measure (\<lambda>(arg, cs). length cs)") auto

text \<open>After a run the loop variable is advanced once more.\<close>

function run_segments :: "(Chunk \<Rightarrow> bool) \<Rightarrow> u32 \<Rightarrow> Chunk list \<Rightarrow> ElfPhdr list" where
  "run_segments P ty [] = []"
| "run_segments P ty (c # cs) =
     (if P c then fold phdr_append (takeWhile P cs) (phdr_define ty PF_R 1 c) # run_segments P ty (drop 1 (dropWhile P cs))
      else run_segments P ty cs)"
  by pat_completeness auto
termination
proof (relation "measure (\<lambda>(P, ty, cs). length cs)")
  fix P :: "Chunk \<Rightarrow> bool" and ty :: u32 and c and cs :: "Chunk list"
  show "((P, ty, drop 1 (dropWhile P cs)), P, ty, c # cs) \<in> measure (\<lambda>(P, ty, cs). length cs)"
    using length_dropWhile_le [of P cs] by auto
qed auto

definition with_role :: "role \<Rightarrow> Chunk list \<Rightarrow> Chunk list" where
  "with_role r chunks = filter (\<lambda>c. ck_role c = r) chunks"

fun physical_run :: "u64 \<Rightarrow> u64 \<Rightarrow> bool \<Rightarrow> ElfPhdr list \<Rightarrow> ElfPhdr list" where
  "physical_run pgsz addr in_sync [] = []"
| "physical_run pgsz addr in_sync (p # ps) =
     (if p_type p \<noteq> PT_LOAD then p # ps
      else if in_sync \<and> addr \<le> p_vaddr p \<and> p_vaddr p < addr + pgsz * 2 then
        p \<lparr> p_paddr := p_vaddr p \<rparr> # physical_run pgsz (p_vaddr p + p_memsz p) in_sync ps
      else p \<lparr> p_paddr := addr \<rparr> # physical_run pgsz (addr + p_memsz p) False ps)"

fun set_paddrs :: "u64 \<Rightarrow> u64 \<Rightarrow> ElfPhdr list \<Rightarrow> ElfPhdr list" where
  "set_paddrs pgsz base [] = []"
| "set_paddrs pgsz base (p # ps) =
     (if p_type p \<noteq> PT_LOAD then p # set_paddrs pgsz base ps
      else p \<lparr> p_paddr := base \<rparr> # physical_run pgsz (base + p_memsz p) (p_vaddr p = base) ps)"

definition create_phdr :: "machine \<Rightarrow> LayoutArgs \<Rightarrow> Chunk list \<Rightarrow> ElfPhdr list" where
  "create_phdr m arg chunks =
     (let vec =
        map (phdr_define PT_PHDR PF_R (of_nat (word_bytes m))) (filter is_alloc (with_role Phdr chunks)) @
        map (phdr_define PT_INTERP PF_R 1) (with_role Interp chunks) @
        note_segments arg chunks @
        stable_sort (\<lambda>a b. p_vaddr a < p_vaddr b) (load_segments arg (filter (\<lambda>c. \<not> is_tbss c) chunks)) @
        run_segments is_tls PT_TLS chunks @
        map (phdr_define PT_DYNAMIC (PF_R OR PF_W) 1) (filter (\<lambda>c. ck_size c \<noteq> 0) (with_role Dynamic chunks)) @
        map (phdr_define PT_GNU_EH_FRAME PF_R 1) (with_role Eh_frame_hdr chunks) @
        [\<lparr> p_type = PT_GNU_STACK, p_flags = (if la_z_execstack arg then PF_R OR PF_W OR PF_X else PF_R OR PF_W), p_offset = 0,
           p_vaddr = 0, p_paddr = 0, p_filesz = 0, p_memsz = 0, p_align = 1 \<rparr>] @
        (if la_z_relro arg then map (\<lambda>p. p \<lparr> p_align := 1 \<rparr>) (run_segments (is_relro arg) PT_GNU_RELRO chunks) else []) @
        (if m = ARM32 then map (phdr_define PT_ARM_EXIDX PF_R 4) (take 1 (filter (\<lambda>c. ck_role c = Regular \<and> ck_type c = SHT_ARM_EXIDX) chunks)) else [])
      in case la_physical_image_base arg of
        None \<Rightarrow> vec
      | Some base \<Rightarrow> set_paddrs (la_page_size arg) base vec)"

definition to_paddr :: "ElfPhdr list \<Rightarrow> u64 \<Rightarrow> u64" where
  "to_paddr phdrs vaddr =
     (case find (\<lambda>p. p_type p = PT_LOAD \<and> p_vaddr p \<le> vaddr \<and> vaddr < p_vaddr p + p_memsz p) phdrs of
        Some p \<Rightarrow> p_paddr p + (vaddr - p_vaddr p)
      | None \<Rightarrow> 0)"

subsection \<open>The whole layout\<close>

definition phdr_bytes :: "machine \<Rightarrow> nat" where
  "phdr_bytes m = 8 + 6 * word_bytes m"

definition set_phdr_size :: "u64 \<Rightarrow> Chunk list \<Rightarrow> Chunk list" where
  "set_phdr_size n chunks = map (\<lambda>c. if ck_role c = Phdr then c \<lparr> ck_size := n \<rparr> else c) chunks"

definition layout_once :: "LayoutArgs \<Rightarrow> Chunk list \<Rightarrow> (Chunk list \<times> u64) result" where
  "layout_once arg chunks =
     bind_result (if la_section_order arg = [] then set_virtual_addresses_regular arg chunks
                  else Inr (fst (set_virtual_addresses_by_order arg chunks)))
       (\<lambda>chunks. Inr (set_file_offsets arg chunks))"

text \<open>The loop ends when the size of the program header does not change any more.\<close>

partial_function (option) set_osec_offsets :: "machine \<Rightarrow> LayoutArgs \<Rightarrow> Chunk list \<Rightarrow> (Chunk list \<times> u64) result option" where
  "set_osec_offsets m arg chunks =
     (case layout_once arg chunks of
        Inl e \<Rightarrow> Some (Inl e)
      | Inr (chunks', fileoff) \<Rightarrow>
          (case with_role Phdr chunks' of
             [] \<Rightarrow> Some (Inr (chunks', fileoff))
           | phdr # _ \<Rightarrow>
               let n = of_nat (length (create_phdr m arg chunks') * phdr_bytes m)
               in if ck_size phdr = n then Some (Inr (chunks', fileoff))
                  else set_osec_offsets m arg (set_phdr_size n chunks')))"

end
