(* ===== verification/Elf_Layout_Addr.thy ===== *)
theory Elf_Layout_Addr
  imports Elf_Layout
begin

text \<open>
  What the assignment of addresses promises: alignment, order without overlap, and that no page holds chunks with different
  memory attributes.
\<close>

subsection \<open>Arithmetic\<close>

definition align_ok :: "u64 \<Rightarrow> bool" where
  "align_ok a \<longleftrightarrow> a = 0 \<or> has_single_bit a"

lemma align_to_bounds:
  assumes "align_ok a" and "unat v + unat a < 2 ^ 64"
  shows "unat v \<le> unat (align_to v a)" and "unat (align_to v a) \<le> unat v + unat a"
    and "a \<noteq> 0 \<Longrightarrow> unat a dvd unat (align_to v a)"
proof (atomize (full), cases "a = 0")
  case True
  then show "unat v \<le> unat (align_to v a) \<and> unat (align_to v a) \<le> unat v + unat a \<and> (a \<noteq> 0 \<longrightarrow> unat a dvd unat (align_to v a))"
    by (simp add: align_to_def)
next
  case False
  then have a: "has_single_bit a" "0 < unat a" using assms(1) by (auto simp: align_ok_def unat_gt_0)
  have "unat (align_to v a) = (unat v + unat a - 1) div unat a * unat a"
    using assms(2) a by (intro align_to_unat) auto
  moreover note round_up_least(1,2) [OF a(2), of "unat v"]
  ultimately show "unat v \<le> unat (align_to v a) \<and> unat (align_to v a) \<le> unat v + unat a \<and> (a \<noteq> 0 \<longrightarrow> unat a dvd unat (align_to v a))"
    using a(2) by auto
qed

lemma single_bit_dvd:
  assumes "has_single_bit (a :: u64)" and "has_single_bit b" and "a \<le> b"
  shows "unat a dvd unat b"
proof -
  obtain i j where ij: "unat a = 2 ^ i" "unat b = 2 ^ j" using assms(1,2) by (auto elim!: has_single_bitE)
  then have "(2::nat) ^ i \<le> 2 ^ j" using assms(3) by (simp add: word_le_nat_alt)
  then show ?thesis using ij by (simp add: le_imp_power_dvd)
qed

text \<open>No page holds both a byte below \<open>a\<close> and a byte from \<open>b\<close> on.\<close>

definition page_apart :: "nat \<Rightarrow> nat \<Rightarrow> nat \<Rightarrow> bool" where
  "page_apart P a b \<longleftrightarrow> a = 0 \<or> (a - 1) div P < b div P"

lemma page_apart_mono: "page_apart P a b \<Longrightarrow> a' \<le> a \<Longrightarrow> b \<le> b' \<Longrightarrow> page_apart P a' b'"
  using div_le_mono [of "a' - 1" "a - 1" P, OF diff_le_mono] div_le_mono [of b b' P] by (auto simp: page_apart_def)

lemma page_apart_mult: "0 < P \<Longrightarrow> a \<le> b \<Longrightarrow> P dvd b \<Longrightarrow> page_apart P a b"
proof -
  assume "0 < P" "a \<le> b" "P dvd b"
  then obtain k where "b = P * k" by (elim dvdE)
  moreover have "(a - 1) div P < k" if "0 < a" using that \<open>a \<le> b\<close> \<open>b = P * k\<close> by (intro less_mult_imp_div_less) (simp add: mult.commute)
  ultimately show ?thesis using \<open>0 < P\<close> by (auto simp: page_apart_def)
qed

lemma page_apart_skip:
  assumes "a mod P \<noteq> 0" and "0 < P"
  shows "page_apart P a (a + P)"
proof -
  have "(a - 1) div P \<le> a div P" by (rule div_le_mono) simp
  moreover have "(a + P) div P = a div P + 1" using assms(2) by (simp add: div_add_self2)
  ultimately show ?thesis by (simp add: page_apart_def)
qed

definition skip_page :: "u64 \<Rightarrow> u64 \<Rightarrow> u64" where
  "skip_page P addr = (if addr mod P \<noteq> 0 then addr + P else addr)"

lemma separate_cases:
  "separate arg p c addr = (if get_flags arg p = get_flags arg c then addr else separate arg p c addr)"
  "get_flags arg p \<noteq> get_flags arg c \<Longrightarrow>
     separate arg p c addr = align_to addr (la_page_size arg) \<or> separate arg p c addr = skip_page (la_page_size arg) addr"
  by (cases "la_separate_code arg"; simp add: separate_def skip_page_def Let_def)+

lemma separate_bounds:
  assumes "has_single_bit (la_page_size arg)" and "unat addr + 2 * unat (la_page_size arg) < 2 ^ 64"
  shows "unat addr \<le> unat (separate arg p c addr)" and "unat (separate arg p c addr) \<le> unat addr + unat (la_page_size arg)"
    and "get_flags arg p \<noteq> get_flags arg c \<Longrightarrow> page_apart (unat (la_page_size arg)) (unat addr) (unat (separate arg p c addr))"
proof -
  let ?P = "la_page_size arg"
  have P: "0 < unat ?P" "?P \<noteq> 0" using assms(1) by (auto elim!: has_single_bitE simp: unat_gt_0)
  have al: "unat addr \<le> unat (align_to addr ?P)" "unat (align_to addr ?P) \<le> unat addr + unat ?P" "unat ?P dvd unat (align_to addr ?P)"
    using align_to_bounds [of ?P addr] assms P by (auto simp: align_ok_def)
  have ap: "page_apart (unat ?P) (unat addr) (unat (align_to addr ?P))" using page_apart_mult P(1) al by blast
  let ?skip = "skip_page ?P addr"
  have s: "unat (addr + ?P) = unat addr + unat ?P" using assms(2) by (simp add: unat_plus_if_size word_size)
  have m: "addr mod ?P \<noteq> 0 \<longleftrightarrow> unat addr mod unat ?P \<noteq> 0" by (simp add: word_unat_eq_iff unat_mod)
  have sk: "unat addr \<le> unat ?skip" "unat ?skip \<le> unat addr + unat ?P" using s by (auto simp: skip_page_def)
  have sp: "page_apart (unat ?P) (unat addr) (unat ?skip)"
    using page_apart_skip [of "unat addr" "unat ?P"] page_apart_mult [of "unat ?P" "unat addr" "unat addr"] s m P(1)
    by (auto simp: skip_page_def dvd_eq_mod_eq_0)
  show "unat addr \<le> unat (separate arg p c addr)" "unat (separate arg p c addr) \<le> unat addr + unat ?P"
    using al sk separate_cases [of arg p c addr] by (metis add_leD1 le_add1 order_refl)+
  show "get_flags arg p \<noteq> get_flags arg c \<Longrightarrow> page_apart (unat ?P) (unat addr) (unat (separate arg p c addr))"
    using ap sp separate_cases(2) [of arg p c addr] by auto
qed

lemma page_apart_add: "0 < P \<Longrightarrow> page_apart P a (a + P)"
  using page_apart_skip [of a P] page_apart_mult [of P a "a"] page_apart_mono [of P a a a "a + P"]
  by (cases "a mod P = 0") (auto simp: dvd_eq_mod_eq_0)

subsection \<open>What a layout satisfies\<close>

definition placed :: "Chunk \<Rightarrow> bool" where
  "placed c \<longleftrightarrow> is_alloc c \<and> \<not> is_tbss c"

definition chunk_end :: "Chunk \<Rightarrow> nat" where
  "chunk_end c = unat (ck_addr c) + unat (ck_size c)"

lemma chunk_attrs [simp]:
  "has_flag (c \<lparr> ck_addr := a \<rparr>) f = has_flag c f" "has_flag (c \<lparr> ck_size := n \<rparr>) f = has_flag c f"
  "is_tbss (c \<lparr> ck_addr := a \<rparr>) = is_tbss c" "is_tbss (c \<lparr> ck_size := n \<rparr>) = is_tbss c"
  "placed (c \<lparr> ck_addr := a \<rparr>) = placed c" "placed (c \<lparr> ck_size := n \<rparr>) = placed c"
  "get_flags arg (c \<lparr> ck_addr := a \<rparr>) = get_flags arg c" "get_flags arg (c \<lparr> ck_size := n \<rparr>) = get_flags arg c"
  by (simp_all add: has_flag_def is_tbss_def placed_def get_flags_def is_relro_def to_phdr_flags_def)

text \<open>The chunks in order without overlap, and chunks with different attributes in different pages.\<close>

definition disjoint_chunks :: "Chunk list \<Rightarrow> bool" where
  "disjoint_chunks cs \<longleftrightarrow> sorted_wrt (\<lambda>a b. placed a \<and> placed b \<longrightarrow> chunk_end a \<le> unat (ck_addr b)) cs"

definition pages_apart :: "LayoutArgs \<Rightarrow> Chunk list \<Rightarrow> bool" where
  "pages_apart arg cs \<longleftrightarrow> sorted_wrt (\<lambda>a b. placed a \<and> placed b \<and> ck_role b \<noteq> Relro_padding \<and> get_flags arg a \<noteq> get_flags arg b \<longrightarrow>
     page_apart (unat (la_page_size arg)) (chunk_end a) (unat (ck_addr b))) cs"

definition aligned_chunk :: "Chunk \<Rightarrow> bool" where
  "aligned_chunk c \<longleftrightarrow> (is_alloc c \<and> ck_role c \<noteq> Relro_padding \<and> ck_addralign c \<noteq> 0 \<longrightarrow> unat (ck_addralign c) dvd unat (ck_addr c))"

text \<open>Only the address, and the size of the padding, changed.\<close>

definition same_chunk :: "Chunk \<Rightarrow> Chunk \<Rightarrow> bool" where
  "same_chunk c c' \<longleftrightarrow> c' = c \<lparr> ck_addr := ck_addr c', ck_size := ck_size c' \<rparr> \<and> (ck_role c \<noteq> Relro_padding \<longrightarrow> ck_size c' = ck_size c)"

lemma same_chunkI: "same_chunk c c" "same_chunk c (c \<lparr> ck_addr := a \<rparr>)"
  "ck_role c = Relro_padding \<Longrightarrow> same_chunk c (c \<lparr> ck_addr := a, ck_size := n \<rparr>)"
  by (simp_all add: same_chunk_def)

lemma same_chunk_attrs:
  assumes "same_chunk c c'"
  shows "has_flag c' f = has_flag c f" "placed c' = placed c" "get_flags arg c' = get_flags arg c" "ck_role c' = ck_role c"
proof -
  have "c' = c \<lparr> ck_addr := ck_addr c', ck_size := ck_size c' \<rparr>" using assms by (simp add: same_chunk_def)
  then obtain a n where "c' = c \<lparr> ck_addr := a, ck_size := n \<rparr>" by blast
  then show "has_flag c' f = has_flag c f" "placed c' = placed c" "get_flags arg c' = get_flags arg c" "ck_role c' = ck_role c"
    by simp_all
qed

text \<open>The result of the loop from the chunk \<open>prev\<close> and the address \<open>addr\<close> on.\<close>

definition good :: "LayoutArgs \<Rightarrow> u64 \<Rightarrow> bool \<Rightarrow> Chunk option \<Rightarrow> nat \<Rightarrow> Chunk list \<Rightarrow> Chunk list \<Rightarrow> bool" where
  "good arg t seen prev addr cs cs' \<longleftrightarrow>
     list_all2 same_chunk cs cs' \<and> disjoint_chunks cs' \<and> pages_apart arg cs' \<and> list_all aligned_chunk cs' \<and>
     (\<forall>d \<in> set cs'. placed d \<longrightarrow> addr \<le> unat (ck_addr d) \<and> chunk_end d < 2 ^ 64) \<and>
     (\<forall>p. prev = Some p \<and> ck_role p \<noteq> Relro_padding \<longrightarrow>
        (\<forall>d \<in> set cs'. placed d \<and> ck_role d \<noteq> Relro_padding \<and> get_flags arg p \<noteq> get_flags arg d \<longrightarrow>
           page_apart (unat (la_page_size arg)) addr (unat (ck_addr d)))) \<and>
     (\<not> seen \<longrightarrow> (\<forall>d. find is_tls cs' = Some d \<and> is_alloc d \<and> ck_role d \<noteq> Relro_padding \<longrightarrow> unat t dvd unat (ck_addr d)))"

lemma good_cons:
  assumes "good arg t (seen \<or> is_tls c) (Some c') addr' cs cs'" and "same_chunk c c'" and "aligned_chunk c'" and "addr \<le> addr'"
    and "placed c' \<Longrightarrow> addr \<le> unat (ck_addr c') \<and> chunk_end c' \<le> addr' \<and> addr' < 2 ^ 64"
    and "ck_role c' = Relro_padding \<Longrightarrow> page_apart (unat (la_page_size arg)) addr addr' \<and>
      page_apart (unat (la_page_size arg)) (chunk_end c') addr'"
    and "\<And>p. prev = Some p \<Longrightarrow> ck_role p \<noteq> Relro_padding \<Longrightarrow> ck_role c' \<noteq> Relro_padding \<Longrightarrow> get_flags arg p \<noteq> get_flags arg c' \<Longrightarrow>
      page_apart (unat (la_page_size arg)) addr addr' \<and> (placed c' \<longrightarrow> page_apart (unat (la_page_size arg)) addr (unat (ck_addr c')))"
    and "\<not> seen \<Longrightarrow> is_tls c' \<Longrightarrow> is_alloc c' \<Longrightarrow> ck_role c' \<noteq> Relro_padding \<Longrightarrow> unat t dvd unat (ck_addr c')"
  shows "good arg t seen prev addr (c # cs) (c' # cs')"
proof -
  let ?P = "unat (la_page_size arg)"
  note g = assms(1) [unfolded good_def]
  have ge: "addr' \<le> unat (ck_addr d)" "chunk_end d < 2 ^ 64" if "d \<in> set cs'" "placed d" for d using g that by auto
  have after: "page_apart ?P (chunk_end c') (unat (ck_addr d))"
    if "d \<in> set cs'" "placed d" "ck_role d \<noteq> Relro_padding" "get_flags arg c' \<noteq> get_flags arg d" "placed c'" for d
  proof (cases "ck_role c' = Relro_padding")
    case True
    with assms(6) ge(1) [OF that(1,2)] show ?thesis by (blast intro: page_apart_mono)
  next
    case False
    with g that have "page_apart ?P addr' (unat (ck_addr d))" by blast
    with assms(5) that(5) show ?thesis by (blast intro: page_apart_mono)
  qed
  have prev: "page_apart ?P addr (unat (ck_addr d))"
    if "prev = Some p" "ck_role p \<noteq> Relro_padding" "d \<in> set cs'" "placed d" "ck_role d \<noteq> Relro_padding"
      "get_flags arg p \<noteq> get_flags arg d" for p d
  proof (cases "ck_role c' = Relro_padding \<or> get_flags arg p \<noteq> get_flags arg c'")
    case True
    then have "page_apart ?P addr addr'" using assms(6,7) that(1,2) by blast
    with ge(1) [OF that(3,4)] show ?thesis by (blast intro: page_apart_mono)
  next
    case False
    with g that have "page_apart ?P addr' (unat (ck_addr d))" by auto
    with assms(4) show ?thesis by (blast intro: page_apart_mono)
  qed
  have "disjoint_chunks (c' # cs')"
    using g assms(5) ge(1) by (fastforce simp: disjoint_chunks_def)
  moreover have "pages_apart arg (c' # cs')" using g after by (auto simp: pages_apart_def)
  moreover have "\<forall>d \<in> set (c' # cs'). placed d \<longrightarrow> addr \<le> unat (ck_addr d) \<and> chunk_end d < 2 ^ 64"
    using ge assms(4,5) by (fastforce intro: le_less_trans)
  moreover have "is_tls c' = is_tls c" using same_chunk_attrs(1) [OF assms(2)] .
  ultimately show ?thesis
    unfolding good_def using g assms(2,3,7,8) prev by auto
qed

subsection \<open>The loop\<close>

text \<open>Enough room below \<open>2\<^sup>6\<^sup>4\<close> for the chunks and every padding that may be put in front of them.\<close>

definition room :: "LayoutArgs \<Rightarrow> u64 \<Rightarrow> Chunk list \<Rightarrow> nat" where
  "room arg t cs = (\<Sum>c\<leftarrow>cs. unat (ck_size c) + unat (ck_addralign c) + unat t + 2 * unat (la_page_size arg))"

definition chunk_ok :: "u64 \<Rightarrow> Chunk \<Rightarrow> bool" where
  "chunk_ok t c \<longleftrightarrow> align_ok (ck_addralign c) \<and> (is_tls c \<longrightarrow> ck_role c \<noteq> Relro_padding) \<and>
     (is_tls c \<and> ck_addralign c \<noteq> 0 \<longrightarrow> unat (ck_addralign c) dvd unat t)"

text \<open>
  The chunks that are mapped come first, thread-local zero-initialized chunks in a row have the same attributes, and the last
  chunk is not one of them.
\<close>

definition order_ok :: "LayoutArgs \<Rightarrow> Chunk list \<Rightarrow> bool" where
  "order_ok arg cs \<longleftrightarrow> sorted_wrt (\<lambda>a b. is_alloc b \<longrightarrow> is_alloc a) cs \<and> (cs \<noteq> [] \<longrightarrow> \<not> is_tbss (List.last cs)) \<and>
     successively (\<lambda>a b. is_tbss a \<and> is_tbss b \<longrightarrow> get_flags arg a = get_flags arg b) cs"

lemma room_simps [simp]:
  "room arg t [] = 0"
  "room arg t (c # cs) = unat (ck_size c) + unat (ck_addralign c) + unat t + 2 * unat (la_page_size arg) + room arg t cs"
  by (simp_all add: room_def)

lemma order_ok_Cons: "order_ok arg (c # cs) \<Longrightarrow> order_ok arg cs"
  by (cases cs) (auto simp: order_ok_def)

lemma chunk_align:
  assumes "chunk_ok t c" and "has_single_bit t" and "unat v + unat (ck_addralign c) + unat t < 2 ^ 64"
  shows "unat v \<le> unat (align_to v (if is_tls c \<and> \<not> seen then t else ck_addralign c))"
    and "unat (align_to v (if is_tls c \<and> \<not> seen then t else ck_addralign c)) \<le> unat v + unat (ck_addralign c) + unat t"
    and "ck_addralign c \<noteq> 0 \<Longrightarrow> unat (ck_addralign c) dvd unat (align_to v (if is_tls c \<and> \<not> seen then t else ck_addralign c))"
    and "\<not> seen \<Longrightarrow> is_tls c \<Longrightarrow> unat t dvd unat (align_to v (if is_tls c \<and> \<not> seen then t else ck_addralign c))"
proof -
  have t: "align_ok t" "t \<noteq> 0" using assms(2) by (auto simp: align_ok_def elim: has_single_bitE)
  note al = align_to_bounds [of t v] align_to_bounds [of "ck_addralign c" v]
  show "unat v \<le> unat (align_to v (if is_tls c \<and> \<not> seen then t else ck_addralign c))"
    "unat (align_to v (if is_tls c \<and> \<not> seen then t else ck_addralign c)) \<le> unat v + unat (ck_addralign c) + unat t"
    "\<not> seen \<Longrightarrow> is_tls c \<Longrightarrow> unat t dvd unat (align_to v (if is_tls c \<and> \<not> seen then t else ck_addralign c))"
    "ck_addralign c \<noteq> 0 \<Longrightarrow> unat (ck_addralign c) dvd unat (align_to v (if is_tls c \<and> \<not> seen then t else ck_addralign c))"
    using al assms(1,3) t by (auto simp: chunk_ok_def intro: dvd_trans)
qed

lemma assign_addrs_nonalloc: "\<forall>c \<in> set cs. \<not> is_alloc c \<Longrightarrow> assign_addrs arg t prev seen addr None cs = Inr cs"
  by (induction cs arbitrary: prev seen) (simp_all add: Let_def)

lemma good_nonalloc:
  assumes "\<forall>c \<in> set cs. \<not> is_alloc c"
  shows "good arg t seen prev addr cs cs"
proof -
  have "sorted_wrt (\<lambda>a b. placed a \<and> Q a b \<longrightarrow> R a b) cs" for Q R
    using assms by (induction cs) (auto simp: placed_def)
  moreover have "d \<in> set cs" if "find is_tls cs = Some d" for d using that by (auto simp: find_Some_iff)
  ultimately show ?thesis
    using assms by (auto simp: good_def disjoint_chunks_def pages_apart_def aligned_chunk_def placed_def list_all_iff
        list_all2_same same_chunkI)
qed

text \<open>The three ways a mapped chunk is placed, each with the rest of the loop.\<close>

lemma good_relro_padding:
  assumes P: "has_single_bit (la_page_size arg)" and "ck_role c = Relro_padding"
    and "unat addr + 2 * unat (la_page_size arg) < 2 ^ 64"
    and "c' = c \<lparr> ck_addr := addr, ck_size := align_to addr (la_page_size arg) - addr \<rparr>"
    and "good arg t (seen \<or> is_tls c) (Some c') (unat (addr + la_page_size arg)) cs cs'"
  shows "good arg t seen prev (unat addr) (c # cs) (c' # cs')"
proof -
  let ?P = "la_page_size arg"
  have P0: "0 < unat ?P" "?P \<noteq> 0" using P by (auto elim!: has_single_bitE simp: unat_gt_0)
  have add: "unat (addr + ?P) = unat addr + unat ?P" using assms(3) by (simp add: unat_plus_if_size word_size)
  have al: "unat addr \<le> unat (align_to addr ?P)" "unat (align_to addr ?P) \<le> unat addr + unat ?P"
    using align_to_bounds [of ?P addr] P assms(3) by (auto simp: align_ok_def)
  have "unat (ck_size c') = unat (align_to addr ?P) - unat addr" using al(1) assms(4) by (simp add: unat_sub_if_size)
  then have e: "chunk_end c' = unat (align_to addr ?P)" using al(1) assms(4) by (simp add: chunk_end_def)
  have ap: "page_apart (unat ?P) (unat addr) (unat (addr + ?P))" using page_apart_add [OF P0(1)] add by simp
  have "unat ?P dvd unat (align_to addr ?P)" using align_to_bounds(3) [of ?P addr] P P0 assms(3) by (auto simp: align_ok_def)
  then have pe: "page_apart (unat ?P) (chunk_end c') (unat (addr + ?P))"
    using page_apart_mono [OF page_apart_mult [OF P0(1), of "unat (align_to addr ?P)" "unat (align_to addr ?P)"]] e al add by auto
  show ?thesis
    by (rule good_cons [OF assms(5)])
      (use assms(2-4) al add e ap pe in \<open>auto simp: same_chunkI aligned_chunk_def\<close>)
qed

text \<open>The address after the padding in front of a chunk.\<close>

definition separated :: "LayoutArgs \<Rightarrow> Chunk option \<Rightarrow> Chunk \<Rightarrow> u64 \<Rightarrow> u64" where
  "separated arg prev c addr =
     (case prev of Some p \<Rightarrow> if ck_role p = Relro_padding then addr else separate arg p c addr | None \<Rightarrow> addr)"

lemma separated_bounds:
  assumes "has_single_bit (la_page_size arg)" and "unat addr + 2 * unat (la_page_size arg) < 2 ^ 64"
  shows "unat addr \<le> unat (separated arg prev c addr)"
    and "unat (separated arg prev c addr) \<le> unat addr + unat (la_page_size arg)"
    and "prev = Some p \<Longrightarrow> ck_role p \<noteq> Relro_padding \<Longrightarrow> get_flags arg p \<noteq> get_flags arg c \<Longrightarrow>
      page_apart (unat (la_page_size arg)) (unat addr) (unat (separated arg prev c addr))"
  using separate_bounds [OF assms] by (auto simp: separated_def split: option.split)

lemma good_regular:
  assumes "has_single_bit (la_page_size arg)" and "chunk_ok t c" and "has_single_bit t" and "ck_role c \<noteq> Relro_padding"
    and "unat addr + unat (ck_size c) + unat (ck_addralign c) + unat t + 2 * unat (la_page_size arg) < 2 ^ 64"
    and a: "a = align_to (separated arg prev c addr) (if is_tls c \<and> \<not> seen then t else ck_addralign c)"
  shows "unat (a + ck_size c) \<le> unat addr + unat (ck_size c) + unat (ck_addralign c) + unat t + 2 * unat (la_page_size arg)"
    and "good arg t (seen \<or> is_tls c) (Some (c \<lparr> ck_addr := a \<rparr>)) (unat (a + ck_size c)) cs cs' \<Longrightarrow>
      good arg t seen prev (unat addr) (c # cs) (c \<lparr> ck_addr := a \<rparr> # cs')"
proof -
  let ?P = "unat (la_page_size arg)"
  have b: "unat addr + 2 * ?P < 2 ^ 64" using assms(5) by simp
  note sb = separated_bounds [OF assms(1) b, where prev = prev and c = c]
  have "unat (separated arg prev c addr) + unat (ck_addralign c) + unat t < 2 ^ 64" using sb(2) assms(5) by simp
  note ca = chunk_align [OF assms(2,3) this, of seen, folded a]
  have add: "unat (a + ck_size c) = unat a + unat (ck_size c)"
    using ca(2) sb(2) assms(5) by (simp add: unat_plus_if_size word_size)
  have add_lt: "unat a + unat (ck_size c) < 2 ^ 64" using ca(2) sb(2) assms(5) by simp
  show "unat (a + ck_size c) \<le> unat addr + unat (ck_size c) + unat (ck_addralign c) + unat t + 2 * ?P"
    using add ca(2) sb(2) by simp
  have apart: "page_apart ?P (unat addr) (unat a)" "page_apart ?P (unat addr) (unat (a + ck_size c))"
    if "prev = Some p" "ck_role p \<noteq> Relro_padding" "get_flags arg p \<noteq> get_flags arg c" for p
    using page_apart_mono [OF sb(3) [OF that]] ca(1) add by auto
  have c: "chunk_end (c \<lparr> ck_addr := a \<rparr>) = unat (a + ck_size c)" using add by (simp add: chunk_end_def)
  show "good arg t seen prev (unat addr) (c # cs) (c \<lparr> ck_addr := a \<rparr> # cs')"
    if "good arg t (seen \<or> is_tls c) (Some (c \<lparr> ck_addr := a \<rparr>)) (unat (a + ck_size c)) cs cs'"
    by (rule good_cons [OF that])
      (use assms(4) apart add c ca sb(1) add_lt in \<open>auto simp: same_chunkI aligned_chunk_def\<close>)
qed

lemma good_tbss:
  assumes "chunk_ok t c" and "has_single_bit t" and "is_tbss c"
    and "unat addr2 + unat (ck_size c) + unat (ck_addralign c) + unat t < 2 ^ 64"
    and a: "a = align_to addr2 (if is_tls c \<and> \<not> seen then t else ck_addralign c)"
    and "unat addr \<le> unat addr1"
    and "\<And>p. prev = Some p \<Longrightarrow> ck_role p \<noteq> Relro_padding \<Longrightarrow> get_flags arg p \<noteq> get_flags arg c \<Longrightarrow>
      page_apart (unat (la_page_size arg)) (unat addr) (unat addr1)"
  shows "unat (a + ck_size c) \<le> unat addr2 + unat (ck_size c) + unat (ck_addralign c) + unat t"
    and "good arg t (seen \<or> is_tls c) (Some (c \<lparr> ck_addr := a \<rparr>)) (unat addr1) cs cs' \<Longrightarrow>
      good arg t seen prev (unat addr) (c # cs) (c \<lparr> ck_addr := a \<rparr> # cs')"
proof -
  have "unat addr2 + unat (ck_addralign c) + unat t < 2 ^ 64" using assms(4) by simp
  note ca = chunk_align [OF assms(1,2) this, of seen, folded a]
  show "unat (a + ck_size c) \<le> unat addr2 + unat (ck_size c) + unat (ck_addralign c) + unat t"
    using ca(2) assms(4) by (simp add: unat_plus_if_size word_size)
  show "good arg t seen prev (unat addr) (c # cs) (c \<lparr> ck_addr := a \<rparr> # cs')"
    if "good arg t (seen \<or> is_tls c) (Some (c \<lparr> ck_addr := a \<rparr>)) (unat addr1) cs cs'"
    by (rule good_cons [OF that])
      (use assms(1,3,6,7) ca in \<open>auto simp: same_chunkI aligned_chunk_def placed_def chunk_ok_def is_tbss_def\<close>)
qed

text \<open>What the loop is called with while it runs over a row of thread-local zero-initialized chunks.\<close>

definition tbss_state :: "LayoutArgs \<Rightarrow> Chunk option \<Rightarrow> u64 option \<Rightarrow> Chunk list \<Rightarrow> nat \<Rightarrow> bool" where
  "tbss_state arg prev tbss cs n \<longleftrightarrow>
     (case tbss of None \<Rightarrow> True
      | Some addr2 \<Rightarrow> cs \<noteq> [] \<and> is_tbss (hd cs) \<and> unat addr2 + n < 2 ^ 64 \<and> (\<exists>p. prev = Some p \<and> get_flags arg p = get_flags arg (hd cs)))"

lemma tbss_state_Cons:
  assumes "order_ok arg (c # cs)" and "is_tbss c" and "unat e + n < 2 ^ 64"
  shows "cs \<noteq> []"
    and "tbss_state arg (Some (c \<lparr> ck_addr := a \<rparr>)) (if length cs = 1 \<or> \<not> is_tbss (hd cs) then None else Some e) cs n"
proof -
  show cs: "cs \<noteq> []" using assms(1,2) by (auto simp: order_ok_def)
  show "tbss_state arg (Some (c \<lparr> ck_addr := a \<rparr>)) (if length cs = 1 \<or> \<not> is_tbss (hd cs) then None else Some e) cs n"
    using assms cs by (auto simp: order_ok_def tbss_state_def successively_Cons)
qed

lemma assign_addrs_tbss:
  fixes c :: Chunk and seen t
  assumes "cs \<noteq> []"
  defines "al \<equiv> if is_tls c \<and> \<not> seen then t else ck_addralign c"
  shows "assign_addrs arg t prev seen addr (Some addr2) (c # cs) =
      bind_result (assign_addrs arg t (Some (c \<lparr> ck_addr := align_to addr2 al \<rparr>)) (seen \<or> is_tls c) addr
        (if length cs = 1 \<or> \<not> is_tbss (hd cs) then None else Some (align_to addr2 al + ck_size c)) cs)
          (\<lambda>cs'. Inr (c \<lparr> ck_addr := align_to addr2 al \<rparr> # cs'))"
    and "is_alloc c \<Longrightarrow> ck_role c \<noteq> Relro_padding \<Longrightarrow> la_section_start arg (ck_name c) = None \<Longrightarrow> is_tbss c \<Longrightarrow>
      assign_addrs arg t prev seen addr None (c # cs) =
        assign_addrs arg t prev seen (separated arg prev c addr) (Some (separated arg prev c addr)) (c # cs)"
  using assms by (simp_all add: Let_def flip: separated_def)

lemma assign_addrs_good:
  assumes "has_single_bit (la_page_size arg)" and "has_single_bit t" and "\<And>n. la_section_start arg n = None"
    and "list_all (chunk_ok t) cs" and "order_ok arg cs"
    and "unat addr + room arg t cs < 2 ^ 64" and "tbss_state arg prev tbss cs (room arg t cs)"
  shows "\<exists>cs'. assign_addrs arg t prev seen addr tbss cs = Inr cs' \<and> good arg t seen prev (unat addr) cs cs'"
  using assms(4-7)
proof (induction cs arbitrary: prev seen addr tbss)
  case Nil
  then show ?case by (simp add: good_nonalloc)
next
  case (Cons c cs)
  let ?al = "if is_tls c \<and> \<not> seen then t else ck_addralign c"
  have ok: "chunk_ok t c" "list_all (chunk_ok t) cs" "order_ok arg cs" using Cons.prems order_ok_Cons by auto
  note IH = Cons.IH [OF ok(2,3)]
  note b = Cons.prems(3) [simplified]
  have none: "tbss_state arg p None cs n" for p n by (simp add: tbss_state_def)
  have tbss_step: "\<exists>cs'. bind_result (assign_addrs arg t (Some (c \<lparr> ck_addr := align_to addr2 ?al \<rparr>)) (seen \<or> is_tls c) addr1
        (if length cs = 1 \<or> \<not> is_tbss (hd cs) then None else Some (align_to addr2 ?al + ck_size c)) cs)
          (\<lambda>cs'. Inr (c \<lparr> ck_addr := align_to addr2 ?al \<rparr> # cs')) = Inr cs' \<and> good arg t seen prev (unat addr) (c # cs) cs'"
    if "is_tbss c" "unat addr \<le> unat addr1" "unat addr1 + room arg t cs < 2 ^ 64"
      "unat addr2 + unat (ck_size c) + unat (ck_addralign c) + unat t + room arg t cs < 2 ^ 64"
      "\<And>p. prev = Some p \<Longrightarrow> ck_role p \<noteq> Relro_padding \<Longrightarrow> get_flags arg p \<noteq> get_flags arg c \<Longrightarrow>
        page_apart (unat (la_page_size arg)) (unat addr) (unat addr1)" for addr1 addr2
  proof -
    let ?c' = "c \<lparr> ck_addr := align_to addr2 ?al \<rparr>"
    let ?tb = "\<lambda>e. if length cs = 1 \<or> \<not> is_tbss (hd cs) then None else Some e"
    have "unat addr2 + unat (ck_size c) + unat (ck_addralign c) + unat t < 2 ^ 64" using that(4) by simp
    note g = good_tbss [OF ok(1) assms(2) that(1) this refl that(2), where seen = seen and prev = prev and arg = arg]
    have "unat (align_to addr2 ?al + ck_size c) \<le> unat addr2 + unat (ck_size c) + unat (ck_addralign c) + unat t"
      by (rule g(1)) (fact that(5))
    then have "unat (align_to addr2 ?al + ck_size c) + room arg t cs < 2 ^ 64" using that(4) by simp
    note st = IH [OF that(3) tbss_state_Cons(2) [OF Cons.prems(2) that(1) this]]
    obtain cs' where cs': "assign_addrs arg t (Some ?c') (seen \<or> is_tls c) addr1 (?tb (align_to addr2 ?al + ck_size c)) cs = Inr cs'"
      "good arg t (seen \<or> is_tls c) (Some ?c') (unat addr1) cs cs'"
      using st by blast
    have "good arg t seen prev (unat addr) (c # cs) (?c' # cs')" by (rule g(2)) (fact that(5) cs'(2))+
    then show ?thesis using cs'(1) by (simp del: if_split)
  qed
  show ?case
  proof (cases tbss)
    case (Some addr2)
    then have tb: "is_tbss c" "\<exists>p. prev = Some p \<and> get_flags arg p = get_flags arg c" "unat addr2 + room arg t (c # cs) < 2 ^ 64"
      using Cons.prems(4) by (auto simp: tbss_state_def)
    have "cs \<noteq> []" using tbss_state_Cons(1) [OF Cons.prems(2) tb(1), of 0 0] by simp
    then show ?thesis
      unfolding Some assign_addrs_tbss(1) [OF \<open>cs \<noteq> []\<close>] using b tb by (intro tbss_step) auto
  next
    case None
    consider "\<not> is_alloc c" | "is_alloc c" "ck_role c = Relro_padding" | "is_alloc c" "ck_role c \<noteq> Relro_padding" "is_tbss c"
      | "is_alloc c" "ck_role c \<noteq> Relro_padding" "\<not> is_tbss c" by blast
    then show ?thesis
    proof cases
      case 1
      then have n: "\<forall>d \<in> set (c # cs). \<not> is_alloc d" using Cons.prems(2) by (auto simp: order_ok_def)
      show ?thesis unfolding None using assign_addrs_nonalloc [OF n] good_nonalloc [OF n] by blast
    next
      case 2
      have "unat (addr + la_page_size arg) = unat addr + unat (la_page_size arg)"
        using b by (simp add: unat_plus_if_size word_size)
      then have "unat (addr + la_page_size arg) + room arg t cs < 2 ^ 64" using b by simp
      note rest = IH [OF this none]
      obtain cs' where cs': "assign_addrs arg t (Some (c \<lparr> ck_addr := addr, ck_size := align_to addr (la_page_size arg) - addr \<rparr>))
          (seen \<or> is_tls c) (addr + la_page_size arg) None cs = Inr cs'"
        "good arg t (seen \<or> is_tls c) (Some (c \<lparr> ck_addr := addr, ck_size := align_to addr (la_page_size arg) - addr \<rparr>))
          (unat (addr + la_page_size arg)) cs cs'"
        using rest by blast
      then show ?thesis
        using good_relro_padding [OF assms(1) 2(2) _ refl cs'(2)] b 2 None by (simp add: Let_def)
    next
      case 3
      have "unat addr + 2 * unat (la_page_size arg) < 2 ^ 64" using b by simp
      note sb = separated_bounds [OF assms(1) this, where prev = prev and c = c]
      have "cs \<noteq> []" using tbss_state_Cons(1) [OF Cons.prems(2) 3(3), of 0 0] by simp
      show ?thesis
        unfolding None assign_addrs_tbss(2) [OF \<open>cs \<noteq> []\<close> 3(1,2) assms(3) 3(3)] assign_addrs_tbss(1) [OF \<open>cs \<noteq> []\<close>]
        using b sb 3(3) by (intro tbss_step) auto
    next
      case 4
      have "unat addr + unat (ck_size c) + unat (ck_addralign c) + unat t + 2 * unat (la_page_size arg) < 2 ^ 64" using b by simp
      note g = good_regular [OF assms(1) ok(1) assms(2) 4(2) this refl, where seen = seen and prev = prev]
      have "unat (align_to (separated arg prev c addr) ?al + ck_size c) + room arg t cs < 2 ^ 64" using g(1) b by simp
      from IH [OF this none] show ?thesis
        using g(2) None 4 assms(3) by (fastforce simp: Let_def simp flip: separated_def)
    qed
  qed
qed

end
