(* ===== verification/Elf_Layout_File.thy ===== *)
theory Elf_Layout_File
  imports Elf_Layout_Addr
begin

text \<open>
  What the assignment of file offsets promises: the chunks in the file do not overlap, and offsets and addresses agree modulo
  the page size. The program headers that follow map each chunk to its address.
\<close>

subsection \<open>The padding\<close>

lemma align_down_bounds:
  assumes "has_single_bit (a :: u64)"
  shows "unat (align_down v a) \<le> unat v" and "unat v < unat (align_down v a) + unat a" and "unat a dvd unat (align_down v a)"
proof -
  have a: "0 < unat a" using assms by (auto elim!: has_single_bitE)
  have d: "unat (align_down v a) = unat v div unat a * unat a" using align_down_unat [OF assms] by simp
  then show "unat (align_down v a) \<le> unat v" "unat v < unat (align_down v a) + unat a"
    using div_mult_mod_eq [of "unat v" "unat a"] mod_less_divisor [OF a, of "unat v"] by linarith+
  show "unat a dvd unat (align_down v a)" unfolding d by simp
qed

lemma align_with_skew_bounds:
  assumes "has_single_bit (a :: u64)" and "unat v + 2 * unat a < 2 ^ 64"
  shows "unat v \<le> unat (align_with_skew v a s)" and "unat (align_with_skew v a s) < unat v + unat a"
    and "unat (align_with_skew v a s) mod unat a = unat s mod unat a"
proof -
  let ?x = "align_down v a + s mod a"
  note d = align_down_bounds [OF assms(1), of v]
  have a: "0 < unat a" using assms by (auto elim!: has_single_bitE)
  obtain r where s: "unat (s mod a) = r" "r < unat a" "r mod unat a = unat s mod unat a" using a by (simp add: unat_mod)
  have x: "unat ?x = unat (align_down v a) + r"
    using d(1) s assms(2) by (simp add: unat_plus_if_size word_size)
  have xa: "unat (?x + a) = unat (align_down v a) + r + unat a"
    using x d(1) s assms(2) by (simp add: unat_plus_if_size word_size)
  show "unat v \<le> unat (align_with_skew v a s)" "unat (align_with_skew v a s) < unat v + unat a"
    using d s(2) x xa by (auto simp: align_with_skew_def Let_def word_le_nat_alt)
  obtain k where k: "unat (align_down v a) = unat a * k" using d(3) by (elim dvdE)
  show "unat (align_with_skew v a s) mod unat a = unat s mod unat a"
    using x xa k s(3) by (auto simp: align_with_skew_def Let_def)
qed

text \<open>\<^verbatim>\<open>align_with_skew\<close> returns the smallest number that is not below \<open>val\<close> and agrees with \<open>skew\<close> modulo \<open>align\<close>.\<close>

theorem align_with_skew_least:
  assumes "has_single_bit (a :: u64)" and "unat v + 2 * unat a < 2 ^ 64"
  shows "unat (align_with_skew v a s) = (LEAST n. unat v \<le> n \<and> n mod unat a = unat s mod unat a)"
proof -
  note b = align_with_skew_bounds [OF assms, of s]
  have "unat (align_with_skew v a s) \<le> n" if "unat v \<le> n" "n mod unat a = unat s mod unat a" for n
  proof (rule ccontr)
    assume "\<not> unat (align_with_skew v a s) \<le> n"
    then have lt: "n < unat (align_with_skew v a s)" "unat (align_with_skew v a s) - n < unat a" using b(1,2) that(1) by auto
    moreover have "unat a dvd unat (align_with_skew v a s) - n" using b(3) that(2) lt(1) by (metis mod_eq_dvd_iff_nat less_imp_le)
    ultimately show False using dvd_imp_le by fastforce
  qed
  then show ?thesis using b(1,3) by (intro Least_equality [symmetric]) auto
qed

theorem align_with_skew_least_witness:
  "unat (align_with_skew 5000 4096 (0x20010 :: u64)) = (LEAST n. 5000 \<le> n \<and> n mod 4096 = 16)"
proof -
  have "has_single_bit (4096 :: u64)" by code_simp
  from align_with_skew_least [OF this, of 5000 "0x20010"] show ?thesis by simp
qed

subsection \<open>Offsets\<close>

definition mapped_file :: "Chunk \<Rightarrow> bool" where
  "mapped_file c \<longleftrightarrow> is_alloc c \<and> \<not> is_nobits c"

definition in_file :: "Chunk \<Rightarrow> bool" where
  "in_file c \<longleftrightarrow> \<not> is_alloc c \<or> \<not> is_nobits c"

definition file_end :: "Chunk \<Rightarrow> nat" where
  "file_end c = unat (ck_offset c) + unat (ck_size c)"

text \<open>Chunks with offsets between two bounds, one behind the other, that agree with the addresses modulo the page size.\<close>

definition good_offsets :: "LayoutArgs \<Rightarrow> nat \<Rightarrow> nat \<Rightarrow> Chunk list \<Rightarrow> Chunk list \<Rightarrow> bool" where
  "good_offsets arg lo hi cs cs' \<longleftrightarrow>
     list_all2 (\<lambda>c c'. c' = c \<lparr> ck_offset := ck_offset c' \<rparr>) cs cs' \<and>
     sorted_wrt (\<lambda>a b. in_file a \<and> in_file b \<longrightarrow> file_end a \<le> unat (ck_offset b)) cs' \<and>
     (\<forall>d \<in> set cs'. in_file d \<longrightarrow> lo \<le> unat (ck_offset d) \<and> file_end d \<le> hi) \<and>
     (\<forall>d \<in> set cs'. mapped_file d \<longrightarrow> unat (ck_offset d) mod unat (la_page_size arg) = unat (ck_addr d) mod unat (la_page_size arg))"

text \<open>What the chunks have to satisfy: powers of two as alignments, aligned addresses, and addresses below \<open>2\<^sup>6\<^sup>3\<close>.\<close>

definition offset_pre :: "Chunk \<Rightarrow> bool" where
  "offset_pre c \<longleftrightarrow> align_ok (ck_addralign c) \<and>
     (mapped_file c \<longrightarrow> chunk_end c < 2 ^ 63 \<and> (ck_addralign c \<noteq> 0 \<longrightarrow> unat (ck_addralign c) dvd unat (ck_addr c)))"

definition file_room :: "LayoutArgs \<Rightarrow> Chunk list \<Rightarrow> nat" where
  "file_room arg cs = (\<Sum>c\<leftarrow>cs. unat (ck_size c) + unat (ck_addralign c) + 2 * unat (la_page_size arg))"

lemma file_room_simps [simp]:
  "file_room arg [] = 0"
  "file_room arg (c # cs) = unat (ck_size c) + unat (ck_addralign c) + 2 * unat (la_page_size arg) + file_room arg cs"
  by (simp_all add: file_room_def)

lemma offset_attrs [simp]:
  "has_flag (c \<lparr> ck_offset := a \<rparr>) f = has_flag c f" "mapped_file (c \<lparr> ck_offset := a \<rparr>) = mapped_file c"
  "in_file (c \<lparr> ck_offset := a \<rparr>) = in_file c" "chunk_end (c \<lparr> ck_offset := a \<rparr>) = chunk_end c"
  by (simp_all add: has_flag_def mapped_file_def in_file_def chunk_end_def)

lemma good_offsets_Nil: "good_offsets arg lo hi [] []"
  by (simp add: good_offsets_def)

lemma good_offsets_skip:
  "good_offsets arg lo hi cs cs' \<Longrightarrow> \<not> in_file c \<Longrightarrow> good_offsets arg lo hi (c # cs) (c # cs')"
  by (auto simp: good_offsets_def in_file_def mapped_file_def)

lemma good_offsets_Cons:
  assumes "good_offsets arg (unat v + unat (ck_size c)) hi cs cs'" and "unat v + unat (ck_size c) \<le> hi" and "lo \<le> unat v"
    and "mapped_file c \<Longrightarrow> unat v mod unat (la_page_size arg) = unat (ck_addr c) mod unat (la_page_size arg)"
  shows "good_offsets arg lo hi (c # cs) (c \<lparr> ck_offset := v \<rparr> # cs')"
  using assms by (fastforce simp: good_offsets_def file_end_def)

text \<open>The offset of the first chunk of a run.\<close>

definition first_offset :: "LayoutArgs \<Rightarrow> u64 \<Rightarrow> Chunk \<Rightarrow> u64" where
  "first_offset arg fileoff c = (if la_page_size arg < ck_addralign c then align_to fileoff (ck_addralign c)
     else align_with_skew fileoff (la_page_size arg) (ck_addr c))"

lemma first_offset_bounds:
  assumes "has_single_bit (la_page_size arg)" and "offset_pre c" and "mapped_file c"
    and "unat fileoff + unat (ck_addralign c) + 2 * unat (la_page_size arg) < 2 ^ 64"
  shows "unat fileoff \<le> unat (first_offset arg fileoff c)"
    and "unat (first_offset arg fileoff c) \<le> unat fileoff + unat (ck_addralign c) + unat (la_page_size arg)"
    and "unat (first_offset arg fileoff c) mod unat (la_page_size arg) = unat (ck_addr c) mod unat (la_page_size arg)"
proof -
  let ?P = "la_page_size arg"
  have "unat fileoff + 2 * unat ?P < 2 ^ 64" using assms(4) by simp
  note sk = align_with_skew_bounds [OF assms(1) this, of "ck_addr c"]
  have al: "align_ok (ck_addralign c)" using assms(2) by (simp add: offset_pre_def)
  have "unat fileoff + unat (ck_addralign c) < 2 ^ 64" using assms(4) by simp
  note ab = align_to_bounds [OF al this]
  show "unat fileoff \<le> unat (first_offset arg fileoff c)"
    "unat (first_offset arg fileoff c) \<le> unat fileoff + unat (ck_addralign c) + unat ?P"
    using sk ab by (auto simp: first_offset_def)
  show "unat (first_offset arg fileoff c) mod unat ?P = unat (ck_addr c) mod unat ?P"
  proof (cases "?P < ck_addralign c")
    case True
    then have a: "ck_addralign c \<noteq> 0" "has_single_bit (ck_addralign c)" using al by (auto simp: align_ok_def)
    have "unat ?P dvd unat (ck_addralign c)" using single_bit_dvd [OF assms(1) a(2)] True by simp
    moreover have "unat (ck_addralign c) dvd unat (ck_addr c)" using assms(2,3) a(1) by (simp add: offset_pre_def)
    ultimately have "unat ?P dvd unat (ck_addr c)" "unat ?P dvd unat (align_to fileoff (ck_addralign c))"
      using ab(3) [OF a(1)] dvd_trans by blast+
    then show ?thesis using True by (simp add: first_offset_def)
  qed (use sk(3) in \<open>simp add: first_offset_def\<close>)
qed

text \<open>A run from its first chunk to the chunk before the next one.\<close>

definition run_ok :: "LayoutArgs \<Rightarrow> Chunk \<Rightarrow> Chunk \<Rightarrow> bool" where
  "run_ok arg f p \<longleftrightarrow> unat (ck_addr f) \<le> unat (ck_addr p) \<and>
     unat (ck_offset p) = unat (ck_offset f) + (unat (ck_addr p) - unat (ck_addr f)) \<and>
     unat (ck_offset f) mod unat (la_page_size arg) = unat (ck_addr f) mod unat (la_page_size arg)"

lemma run_ok_first:
  "unat v mod unat (la_page_size arg) = unat (ck_addr c) mod unat (la_page_size arg) \<Longrightarrow>
   run_ok arg (c \<lparr> ck_offset := v \<rparr>) (c \<lparr> ck_offset := v \<rparr>)"
  by (simp add: run_ok_def)

lemma run_continue:
  assumes "run_ok arg f p" and "chunk_end p \<le> unat (ck_addr c)" and "chunk_end c < 2 ^ 63"
    and "file_end p + unat (la_page_size arg) < 2 ^ 63"
    and "\<not> sint (la_page_size arg) \<le> sint (ck_addr c - ck_addr p - ck_size p)"
    and v: "v = ck_offset f + ck_addr c - ck_addr f"
  shows "unat v = file_end p + (unat (ck_addr c) - chunk_end p)" and "unat (ck_addr c) - chunk_end p < unat (la_page_size arg)"
    and "unat v mod unat (la_page_size arg) = unat (ck_addr c) mod unat (la_page_size arg)"
    and "run_ok arg f (c \<lparr> ck_offset := v \<rparr>)"
proof -
  let ?P = "unat (la_page_size arg)"
  note r = assms(1) [unfolded run_ok_def]
  have ca: "unat (ck_addr c) < 2 ^ 63" using assms(3) by (simp add: chunk_end_def)
  have "unat (ck_addr c - ck_addr p) = unat (ck_addr c) - unat (ck_addr p)"
    using assms(2) by (simp add: unat_sub word_le_nat_alt chunk_end_def)
  then have gap: "unat (ck_addr c - ck_addr p - ck_size p) = unat (ck_addr c) - chunk_end p"
    using assms(2) by (simp add: unat_sub word_le_nat_alt chunk_end_def)
  have "sint (la_page_size arg) = int ?P" "sint (ck_addr c - ck_addr p - ck_size p) = int (unat (ck_addr c) - chunk_end p)"
    using assms(4) gap ca by (simp_all add: sint_small)
  then show g: "unat (ck_addr c) - chunk_end p < ?P" using assms(5) by (simp only: of_nat_le_iff not_le)
  have "unat (ck_offset f) < 2 ^ 63" using r assms(4) unfolding file_end_def by linarith
  then have "unat (ck_offset f + ck_addr c) = unat (ck_offset f) + unat (ck_addr c)"
    using ca by (simp add: unat_plus_if_size word_size)
  then have "unat v = unat (ck_offset f) + unat (ck_addr c) - unat (ck_addr f)"
    using r assms(2) v by (simp add: unat_sub word_le_nat_alt chunk_end_def)
  then have uv: "unat v = unat (ck_offset f) + (unat (ck_addr c) - unat (ck_addr f))" using r assms(2) by (simp add: chunk_end_def)
  show "unat v = file_end p + (unat (ck_addr c) - chunk_end p)"
    using uv r assms(2) by (simp add: file_end_def chunk_end_def)
  have le: "unat (ck_addr f) \<le> unat (ck_addr c)" using r assms(2) by (simp add: chunk_end_def)
  show "unat v mod ?P = unat (ck_addr c) mod ?P"
    using mod_add_cong [of "unat (ck_offset f)" ?P "unat (ck_addr f)" "unat (ck_addr c) - unat (ck_addr f)"] r le by (simp add: uv)
  show "run_ok arg f (c \<lparr> ck_offset := v \<rparr>)" using r uv le by (simp add: run_ok_def)
qed

text \<open>What holds before a chunk, for the offset from which on the file is free.\<close>

definition offsets_state :: "LayoutArgs \<Rightarrow> u64 \<Rightarrow> (Chunk \<times> Chunk) option \<Rightarrow> Chunk list \<Rightarrow> nat \<Rightarrow> bool" where
  "offsets_state arg fileoff run cs lo \<longleftrightarrow>
     (case run of None \<Rightarrow> lo = unat fileoff
      | Some (f, p) \<Rightarrow> lo = file_end p \<and> run_ok arg f p \<and> (\<forall>d \<in> set cs. placed d \<longrightarrow> chunk_end p \<le> unat (ck_addr d)))"

lemma assign_offsets_start:
  "assign_offsets arg fileoff None (c # cs) =
     (if \<not> is_alloc c then
        let v = align_to fileoff (ck_addralign c); (cs', e) = assign_offsets arg (v + ck_size c) None cs in (c \<lparr> ck_offset := v \<rparr> # cs', e)
      else if is_nobits c then let (cs', e) = assign_offsets arg fileoff None cs in (c # cs', e)
      else let c' = c \<lparr> ck_offset := first_offset arg fileoff c \<rparr>; (cs', e) = assign_offsets arg fileoff (Some (c', c')) cs in (c' # cs', e))"
  by (simp add: Let_def first_offset_def)

lemma assign_offsets_run:
  "assign_offsets arg fileoff (Some (f, p)) (c # cs) =
     (if \<not> is_alloc c \<or> is_nobits c \<or> ck_addr c < ck_addr f \<or> sint (la_page_size arg) \<le> sint (ck_addr c - ck_addr p - ck_size p)
      then assign_offsets arg (ck_offset p + ck_size p) None (c # cs)
      else let c' = c \<lparr> ck_offset := ck_offset f + ck_addr c - ck_addr f \<rparr>; (cs', e) = assign_offsets arg fileoff (Some (f, c')) cs
           in (c' # cs', e))"
  by (simp add: Let_def)

lemma assign_offsets_good:
  assumes "has_single_bit (la_page_size arg)"
    and "list_all offset_pre cs" and "disjoint_chunks cs" and "offsets_state arg fileoff run cs lo" and "lo + file_room arg cs < 2 ^ 63"
  shows "\<exists>cs' e. assign_offsets arg fileoff run cs = (cs', e) \<and> lo \<le> unat e \<and> good_offsets arg lo (unat e) cs cs'"
  using assms(2-5)
proof (induction cs arbitrary: fileoff run lo)
  case Nil
  then have "unat (ck_offset p + ck_size p) = file_end p" if "run = Some (f, p)" for f p
    using that by (auto simp: offsets_state_def file_end_def unat_plus_if_size word_size)
  with Nil show ?case by (auto simp: offsets_state_def good_offsets_Nil split: option.splits)
next
  case (Cons c cs)
  have pre: "offset_pre c" "list_all offset_pre cs" "disjoint_chunks cs" using Cons.prems(1,2) by (auto simp: disjoint_chunks_def)
  have al: "align_ok (ck_addralign c)" using pre(1) by (simp add: offset_pre_def)
  note IH = Cons.IH [OF pre(2,3)]
  note b = Cons.prems(4) [simplified]
  have after: "\<forall>d \<in> set cs. placed d \<longrightarrow> chunk_end c \<le> unat (ck_addr d)" if "mapped_file c"
    using Cons.prems(2) that by (auto simp: disjoint_chunks_def placed_def mapped_file_def is_tbss_def)
  have start: "\<exists>cs' e. assign_offsets arg fo None (c # cs) = (cs', e) \<and> lo \<le> unat e \<and> good_offsets arg lo (unat e) (c # cs) cs'"
    if lo: "lo = unat fo" for fo
  proof -
    consider "\<not> is_alloc c" | "is_alloc c" "is_nobits c" | "mapped_file c" by (auto simp: mapped_file_def)
    then show ?thesis
    proof cases
      case 1
      let ?v = "align_to fo (ck_addralign c)"
      have v: "lo \<le> unat ?v" "unat ?v \<le> lo + unat (ck_addralign c)" using align_to_bounds [OF al, of fo] lo b by auto
      have "unat (?v + ck_size c) = unat ?v + unat (ck_size c)" using v b by (simp add: unat_plus_if_size word_size)
      then obtain cs' e where "assign_offsets arg (?v + ck_size c) None cs = (cs', e)" "unat ?v + unat (ck_size c) \<le> unat e"
        "good_offsets arg (unat ?v + unat (ck_size c)) (unat e) cs cs'"
        using IH [of "?v + ck_size c" None "unat ?v + unat (ck_size c)"] v b by (auto simp: offsets_state_def)
      then show ?thesis
        using 1 v(1) good_offsets_Cons [of arg ?v c "unat e" cs cs' lo] by (simp add: assign_offsets_start Let_def mapped_file_def del: assign_offsets.simps)
    next
      case 2
      have "\<not> in_file c" using 2 by (simp add: in_file_def)
      moreover obtain cs' e where "assign_offsets arg fo None cs = (cs', e)" "lo \<le> unat e" "good_offsets arg lo (unat e) cs cs'"
        using IH [of fo None lo] lo b by (auto simp: offsets_state_def)
      ultimately show ?thesis using 2 by (simp add: assign_offsets_start good_offsets_skip del: assign_offsets.simps)
    next
      case 3
      let ?v = "first_offset arg fo c"
      have "unat fo + unat (ck_addralign c) + 2 * unat (la_page_size arg) < 2 ^ 64" using lo b by simp
      note v = first_offset_bounds [OF assms(1) pre(1) 3 this]
      have st: "offsets_state arg fo (Some (c \<lparr> ck_offset := ?v \<rparr>, c \<lparr> ck_offset := ?v \<rparr>)) cs (unat ?v + unat (ck_size c))"
        using run_ok_first [OF v(3)] after [OF 3] by (simp add: offsets_state_def file_end_def)
      obtain cs' e where "assign_offsets arg fo (Some (c \<lparr> ck_offset := ?v \<rparr>, c \<lparr> ck_offset := ?v \<rparr>)) cs = (cs', e)"
        "unat ?v + unat (ck_size c) \<le> unat e" "good_offsets arg (unat ?v + unat (ck_size c)) (unat e) cs cs'"
        using IH [OF st] v(2) lo b by auto
      then show ?thesis
        using 3 v(1,3) lo good_offsets_Cons [of arg ?v c "unat e" cs cs' lo]
        by (simp add: assign_offsets_start Let_def mapped_file_def del: assign_offsets.simps)
    qed
  qed
  show ?case
  proof (cases run)
    case None
    then show ?thesis using start Cons.prems(3) by (simp add: offsets_state_def)
  next
    case (Some fp)
    then obtain f p where run: "run = Some (f, p)" by (cases fp) auto
    then have st: "lo = file_end p" "run_ok arg f p" "\<forall>d \<in> set (c # cs). placed d \<longrightarrow> chunk_end p \<le> unat (ck_addr d)"
      using Cons.prems(3) by (auto simp: offsets_state_def)
    show ?thesis
    proof (cases "\<not> is_alloc c \<or> is_nobits c \<or> ck_addr c < ck_addr f \<or> sint (la_page_size arg) \<le> sint (ck_addr c - ck_addr p - ck_size p)")
      case True
      have "lo = unat (ck_offset p + ck_size p)" using st(1) b by (simp add: file_end_def unat_plus_if_size word_size)
      then show ?thesis using start True run by (simp only: assign_offsets_run if_True)
    next
      case False
      let ?v = "ck_offset f + ck_addr c - ck_addr f"
      have c: "mapped_file c" "chunk_end c < 2 ^ 63" "chunk_end p \<le> unat (ck_addr c)"
        using False pre(1) st(3) by (auto simp: mapped_file_def offset_pre_def placed_def is_tbss_def)
      have "file_end p + unat (la_page_size arg) < 2 ^ 63" using st(1) b by simp
      note v = run_continue [OF st(2) c(3,2) this _ refl]
      have gap: "\<not> sint (la_page_size arg) \<le> sint (ck_addr c - ck_addr p - ck_size p)" using False by blast
      have st': "offsets_state arg fileoff (Some (f, c \<lparr> ck_offset := ?v \<rparr>)) cs (unat ?v + unat (ck_size c))"
        using v(4) [OF gap] after [OF c(1)] by (simp add: offsets_state_def file_end_def)
      obtain cs' e where "assign_offsets arg fileoff (Some (f, c \<lparr> ck_offset := ?v \<rparr>)) cs = (cs', e)"
        "unat ?v + unat (ck_size c) \<le> unat e" "good_offsets arg (unat ?v + unat (ck_size c)) (unat e) cs cs'"
        using IH [OF st'] v(1,2) [OF gap] st(1) b by auto
      then show ?thesis
        using False run v(1,3) [OF gap] st(1) good_offsets_Cons [of arg ?v c "unat e" cs cs' lo]
        by (simp add: assign_offsets_run Let_def del: assign_offsets.simps)
    qed
  qed
qed

text \<open>
  C20: \<^verbatim>\<open>set_file_offsets\<close> changes nothing but offsets, lays the chunks that are in the file one behind the other without overlap,
  returns a file size that covers them all, and gives each mapped chunk an offset that agrees with its address modulo the page
  size, so that the file can be mapped. The addresses are aligned and ascend without overlap, and the file is smaller than
  \<open>2\<^sup>6\<^sup>3\<close> bytes.
\<close>

theorem file_offsets_disjoint:
  assumes "has_single_bit (la_page_size arg)" and "list_all offset_pre cs" and "disjoint_chunks cs" and "file_room arg cs < 2 ^ 63"
    and "set_file_offsets arg cs = (cs', e)"
  shows "list_all2 (\<lambda>c c'. c' = c \<lparr> ck_offset := ck_offset c' \<rparr>) cs cs' \<and>
    sorted_wrt (\<lambda>a b. in_file a \<and> in_file b \<longrightarrow> file_end a \<le> unat (ck_offset b)) cs' \<and>
    (\<forall>d \<in> set cs'. in_file d \<longrightarrow> file_end d \<le> unat e) \<and>
    (\<forall>d \<in> set cs'. mapped_file d \<longrightarrow> unat (ck_offset d) mod unat (la_page_size arg) = unat (ck_addr d) mod unat (la_page_size arg))"
proof -
  have "good_offsets arg 0 (unat e) cs cs'"
    using assign_offsets_good [OF assms(1-3), of 0 None 0] assms(4,5) by (auto simp: offsets_state_def set_file_offsets_def)
  then show ?thesis by (auto simp: good_offsets_def)
qed

end
