(* ===== verification/Elf_Layout_Example.thy ===== *)
theory Elf_Layout_Example
  imports Elf_Layout_File
begin

text \<open>Small outputs on which the theorems about the layout are tried.\<close>

definition example_args :: LayoutArgs where
  "example_args = \<lparr> la_page_size = 4096, la_image_base = 2097152, la_section_start = (\<lambda>_. None), la_separate_code = NOSEPARATE_CODE,
     la_omagic = False, la_execute_only = False, la_rosegment = True, la_z_now = False, la_z_relro = True, la_z_execstack = False,
     la_section_order = [], la_physical_image_base = None \<rparr>"

definition example_chunk :: "role \<Rightarrow> string \<Rightarrow> u32 \<Rightarrow> u64 \<Rightarrow> u64 \<Rightarrow> u64 \<Rightarrow> Chunk" where
  "example_chunk r n ty fl al sz = \<lparr> ck_role = r, ck_name = str n, ck_type = ty, ck_flags = fl, ck_addralign = al, ck_size = sz,
     ck_addr = 0, ck_offset = 0, ck_order = 0 \<rparr>"

lemma example_args_simps [simp]:
  "la_page_size example_args = 4096" "la_image_base example_args = 2097152" "la_section_start example_args n = None"
  by (simp_all add: example_args_def)

definition laid_out :: "Chunk list" where
  "laid_out = [(example_chunk Ehdr '''' SHT_NULL 2 8 64) \<lparr> ck_addr := 0x200000 \<rparr>,
     (example_chunk Regular ''.text'' SHT_PROGBITS 6 16 500) \<lparr> ck_addr := 0x201040 \<rparr>,
     (example_chunk Regular ''.data'' SHT_PROGBITS 3 8 24) \<lparr> ck_addr := 0x202238 \<rparr>,
     (example_chunk Regular ''.bss'' SHT_NOBITS 3 32 100) \<lparr> ck_addr := 0x202260 \<rparr>,
     example_chunk Regular ''.comment'' SHT_PROGBITS 0 1 30]"

definition laid_out_file :: "Chunk list" where
  "laid_out_file = fst (set_file_offsets example_args laid_out)"

lemma laid_out_offsets:
  "map ck_offset laid_out_file = [0, 0x40, 0x238, 0, 0x250]" "snd (set_file_offsets example_args laid_out) = 0x26e"
  by code_simp+

lemma laid_out_ok:
  "list_all offset_pre laid_out" "disjoint_chunks laid_out" "\<forall>c \<in> set laid_out. placed c \<longrightarrow> chunk_end c < 2 ^ 64"
  "file_room example_args laid_out < 2 ^ 63"
proof -
  have al: "\<forall>c \<in> set laid_out. align_ok (ck_addralign c)" by code_simp
  show "list_all offset_pre laid_out" using al
    by (simp add: laid_out_def offset_pre_def chunk_end_def example_chunk_def)
  show "disjoint_chunks laid_out" by (simp add: laid_out_def disjoint_chunks_def chunk_end_def example_chunk_def placed_def has_flag_def SHF_ALLOC_def)
  show "\<forall>c \<in> set laid_out. placed c \<longrightarrow> chunk_end c < 2 ^ 64" by (simp add: laid_out_def chunk_end_def example_chunk_def)
  show "file_room example_args laid_out < 2 ^ 63" by (simp add: laid_out_def example_chunk_def)
qed

lemma laid_out_unmapped:
  "\<forall>b \<in> set laid_out_file. \<not> is_alloc b \<longrightarrow> \<not> is_nobits b \<and>
      (\<forall>a \<in> set laid_out_file. is_alloc a \<longrightarrow> ck_offset b - ck_offset a \<noteq> ck_addr b - ck_addr a)"
  by code_simp

theorem file_offsets_disjoint_witness:
  "file_end (laid_out_file ! 1) \<le> unat (ck_offset (laid_out_file ! 2)) \<and>
   unat (ck_offset (laid_out_file ! 2)) mod 4096 = unat (ck_addr (laid_out_file ! 2)) mod 4096"
proof -
  have P: "has_single_bit (la_page_size example_args)" by code_simp
  have f: "set_file_offsets example_args laid_out = (laid_out_file, snd (set_file_offsets example_args laid_out))"
    by (simp add: laid_out_file_def)
  have c: "laid_out_file ! 2 \<in> set laid_out_file" "in_file (laid_out_file ! 1)" "mapped_file (laid_out_file ! 2)" "in_file (laid_out_file ! 2)"
    "1 < (2 :: nat)" "2 < length laid_out_file" by code_simp+
  from file_offsets_disjoint [OF P laid_out_ok(1,2,4) f] show ?thesis
    using c sorted_wrt_nth_less [OF _ c(5,6)] by fastforce
qed

end
