(* ===== verification/Elf_Layout_Sorted.thy ===== *)
theory Elf_Layout_Sorted
  imports Elf_Layout_Example "HOL-Library.Product_Lexorder" "HOL-Library.Multiset"
begin

text \<open>
  The order of the chunks is sorted by rank, stable, and one that \<^verbatim>\<open>set_virtual_addresses_regular\<close> can work with.
\<close>

subsection \<open>The alignment of the thread-local segment\<close>

lemma tls_alignment_fold:
  assumes "\<forall>c \<in> set cs. align_ok (ck_addralign c)" and "has_single_bit t"
  shows "has_single_bit (fold (\<lambda>c a. if is_tls c then max a (ck_addralign c) else a) cs t) \<and>
    t \<le> fold (\<lambda>c a. if is_tls c then max a (ck_addralign c) else a) cs t \<and>
    (\<forall>c \<in> set cs. is_tls c \<longrightarrow> ck_addralign c \<le> fold (\<lambda>c a. if is_tls c then max a (ck_addralign c) else a) cs t)"
  using assms
proof (induction cs arbitrary: t)
  case (Cons d cs)
  let ?t = "if is_tls d then max t (ck_addralign d) else t"
  have t: "has_single_bit ?t" "t \<le> ?t" using Cons.prems by (auto simp: align_ok_def max_def)
  show ?case using Cons.IH [OF _ t(1)] Cons.prems(1) t(2) by (auto split: if_splits intro: order_trans)
qed simp

lemma tls_alignment_ok:
  assumes "\<forall>c \<in> set cs. align_ok (ck_addralign c) \<and> (is_tls c \<longrightarrow> ck_role c \<noteq> Relro_padding)"
  shows "has_single_bit (tls_alignment cs)" and "list_all (chunk_ok (tls_alignment cs)) cs"
proof -
  have one: "has_single_bit (1 :: u64)" by (auto simp: has_single_bit_iff intro: exI [of _ 0])
  have al: "\<forall>c \<in> set cs. align_ok (ck_addralign c)" using assms by blast
  note f = tls_alignment_fold [OF al one, folded tls_alignment_def]
  show "has_single_bit (tls_alignment cs)" using f by blast
  show "list_all (chunk_ok (tls_alignment cs)) cs"
    using assms f single_bit_dvd by (auto simp: list_all_iff chunk_ok_def align_ok_def)
qed

subsection \<open>The order of the chunks\<close>

lemma insert_stable_insort: "(\<And>a b. lt a b \<longleftrightarrow> k a < (k b :: 'k :: linorder)) \<Longrightarrow> insert_stable lt x ys = insort_key k x ys"
  by (induction ys) (auto simp: not_less)

text \<open>The stable sort is the one of the library for an order given by a key.\<close>

lemma stable_sort_key: "(\<And>a b. lt a b \<longleftrightarrow> k a < (k b :: 'k :: linorder)) \<Longrightarrow> stable_sort lt xs = sort_key k xs"
proof -
  assume lt: "\<And>a b. lt a b \<longleftrightarrow> k a < (k b :: 'k :: linorder)"
  have "insert_stable lt = insort_key k" using insert_stable_insort [of lt k, OF lt] by blast
  then show ?thesis by (simp add: stable_sort_def sort_key_def)
qed

definition chunk_rank :: "LayoutArgs \<Rightarrow> bool \<Rightarrow> Chunk \<Rightarrow> int \<times> int" where
  "chunk_rank arg narrow c = (get_rank1 arg c, get_rank2 narrow c)"

lemma sort_regular_key: "sort_output_sections_regular arg narrow cs = sort_key (chunk_rank arg narrow) cs"
  unfolding sort_output_sections_regular_def
  by (rule stable_sort_key) (auto simp: rank_less_def chunk_rank_def less_prod_def')

text \<open>The headers and tables in front are mapped, the section header is not.\<close>

definition role_ok :: "Chunk \<Rightarrow> bool" where
  "role_ok c \<longleftrightarrow> (ck_role c \<in> {Ehdr, Phdr, Interp, Hash, Gnu_hash, Dynsym, Dynstr, Versym, Verneed, Reldyn, Relplt} \<longrightarrow> is_alloc c) \<and>
     (ck_role c = Shdr \<longrightarrow> \<not> is_alloc c \<and> \<not> is_tbss c)"

lemma of_flag_range: "0 \<le> of_flag b k" "of_flag b k \<le> 2 ^ k"
  by (simp_all add: of_flag_def)

lemma get_rank1_alloc:
  assumes "role_ok c"
  shows "is_alloc c \<longleftrightarrow> get_rank1 arg c < 1536" and "get_rank1 arg c = 2147483647 \<longleftrightarrow> ck_role c = Shdr" and "get_rank1 arg c \<le> 2147483647"
proof -
  note r = of_flag_range [of "has_flag c SHF_WRITE" 8] of_flag_range [of "has_flag c SHF_EXECINSTR" 7] of_flag_range [of "\<not> is_tls c" 6]
    of_flag_range [of "\<not> is_relro arg c" 5] of_flag_range [of "is_nobits c" 4]
  have a: "of_flag (\<not> is_alloc c) 9 = (if is_alloc c then 0 else 512)" by (simp add: of_flag_def)
  show "is_alloc c \<longleftrightarrow> get_rank1 arg c < 1536" "get_rank1 arg c = 2147483647 \<longleftrightarrow> ck_role c = Shdr" "get_rank1 arg c \<le> 2147483647"
    using assms r a by (auto simp: get_rank1_def role_ok_def)
qed

lemma successively_all: "\<forall>a \<in> set xs. \<forall>b \<in> set xs. R a b \<Longrightarrow> successively R xs"
  by (induction xs rule: induct_list012) auto

lemma list_all2_set2: "list_all2 R xs ys \<Longrightarrow> y \<in> set ys \<Longrightarrow> \<exists>x \<in> set xs. R x y"
  by (induction xs ys rule: list_all2_induct) auto

lemma sorted_wrt_last: "sorted_wrt R xs \<Longrightarrow> (\<And>x. R x x) \<Longrightarrow> x \<in> set xs \<Longrightarrow> R x (List.last xs)"
  by (induction xs) auto

lemma sort_regular_order_ok:
  assumes "\<forall>c \<in> set cs. role_ok c" and "\<exists>c \<in> set cs. ck_role c = Shdr"
    and "\<forall>a \<in> set cs. \<forall>b \<in> set cs. is_tbss a \<and> is_tbss b \<longrightarrow> get_flags arg a = get_flags arg b"
  shows "order_ok arg (sort_output_sections_regular arg narrow cs)"
proof -
  let ?cs = "sort_output_sections_regular arg narrow cs"
  have set: "set ?cs = set cs" by (simp add: sort_regular_key)
  have srt: "sorted_wrt (\<lambda>a b. get_rank1 arg a \<le> get_rank1 arg b) ?cs"
    using sorted_sort_key [of "chunk_rank arg narrow" cs]
    by (auto simp: sort_regular_key sorted_map chunk_rank_def less_eq_prod_def elim!: sorted_wrt_mono_rel [rotated])
  have "sorted_wrt (\<lambda>a b. is_alloc b \<longrightarrow> is_alloc a) ?cs"
    by (rule sorted_wrt_mono_rel [OF _ srt])
      (use assms(1) set get_rank1_alloc(1) [where arg = arg] in \<open>metis order_le_less_trans\<close>)
  moreover have "\<not> is_tbss (List.last ?cs)" if "?cs \<noteq> []"
  proof -
    obtain c where c: "c \<in> set ?cs" "ck_role c = Shdr" using assms(2) set by blast
    have "get_rank1 arg c \<le> get_rank1 arg (List.last ?cs)"
      using sorted_wrt_last [OF srt _ c(1)] by simp
    moreover have "role_ok c" "role_ok (List.last ?cs)" using assms(1) c(1) that set by auto
    ultimately have "ck_role (List.last ?cs) = Shdr"
      using get_rank1_alloc(2,3) [of c arg] get_rank1_alloc(2,3) [of "List.last ?cs" arg] c(2) by auto
    then show ?thesis using \<open>role_ok (List.last ?cs)\<close> by (simp add: role_ok_def)
  qed
  moreover have "successively (\<lambda>a b. is_tbss a \<and> is_tbss b \<longrightarrow> get_flags arg a = get_flags arg b) ?cs"
    by (rule successively_all) (unfold set, fact assms(3))
  ultimately show ?thesis by (simp add: order_ok_def)
qed

subsection \<open>Sorted chunks with addresses\<close>

text \<open>
  C11: Chunks that \<^verbatim>\<open>sort_output_sections_regular\<close> puts in order get addresses from \<^verbatim>\<open>set_virtual_addresses_regular\<close> such that each
  mapped chunk is aligned, mapped chunks do not overlap and follow each other in the order of the list, chunks with different
  memory attributes have no page in common, the first thread-local chunk is aligned for the whole thread-local segment, and
  nothing but the addresses and the size of \<^verbatim>\<open>.relro_padding\<close> changes. This is so for every set of chunks with a section header
  that fits below \<open>2\<^sup>6\<^sup>4\<close>, without \<^verbatim>\<open>--section-start\<close>, whose thread-local zero-initialized chunks agree in their attributes.
\<close>

theorem sorted_chunks_addresses:
  assumes "has_single_bit (la_page_size arg)" and "\<forall>n. la_section_start arg n = None"
    and "\<forall>c \<in> set chunks. role_ok c \<and> align_ok (ck_addralign c) \<and> (is_tls c \<longrightarrow> ck_role c \<noteq> Relro_padding)"
    and "\<exists>c \<in> set chunks. ck_role c = Shdr"
    and "\<forall>a \<in> set chunks. \<forall>b \<in> set chunks. is_tbss a \<and> is_tbss b \<longrightarrow> get_flags arg a = get_flags arg b"
    and "cs = sort_output_sections_regular arg narrow chunks"
    and "unat (la_image_base arg) + room arg (tls_alignment cs) cs < 2 ^ 64"
  shows "mset cs = mset chunks \<and>
    (\<exists>cs'. set_virtual_addresses_regular arg cs = Inr cs' \<and> list_all2 same_chunk cs cs' \<and>
       list_all aligned_chunk cs' \<and> disjoint_chunks cs' \<and> pages_apart arg cs' \<and>
       (\<forall>d \<in> set cs'. placed d \<longrightarrow> unat (la_image_base arg) \<le> unat (ck_addr d) \<and> chunk_end d < 2 ^ 64) \<and>
       (\<forall>d. find is_tls cs' = Some d \<and> is_alloc d \<longrightarrow> unat (tls_alignment cs) dvd unat (ck_addr d)))"
proof -
  have ms: "mset cs = mset chunks" using assms(6) by (simp add: sort_regular_key)
  have set: "set cs = set chunks" using assms(6) by (simp add: sort_regular_key)
  have o: "order_ok arg cs" unfolding assms(6) by (rule sort_regular_order_ok) (use assms(3-5) in blast)+
  have t: "has_single_bit (tls_alignment cs)" "list_all (chunk_ok (tls_alignment cs)) cs"
    by (rule tls_alignment_ok; use assms(3) in \<open>simp add: set\<close>)+
  have st: "tbss_state arg None None cs (room arg (tls_alignment cs) cs)" by (simp add: tbss_state_def)
  obtain cs' where cs': "set_virtual_addresses_regular arg cs = Inr cs'"
    "good arg (tls_alignment cs) False None (unat (la_image_base arg)) cs cs'"
    using assign_addrs_good [OF assms(1) t(1) spec [OF assms(2)] t(2) o assms(7) st, of False]
    by (auto simp: set_virtual_addresses_regular_def)
  have "ck_role d \<noteq> Relro_padding" if "find is_tls cs' = Some d" for d
  proof -
    have "d \<in> set cs'" "is_tls d" using that by (auto simp: find_Some_iff)
    moreover from this(1) obtain c where "c \<in> set cs" "same_chunk c d"
      using cs'(2) list_all2_set2 [of same_chunk cs cs' d] by (auto simp: good_def)
    ultimately show ?thesis using assms(3) set same_chunk_attrs(1,4) by metis
  qed
  then show ?thesis using ms cs' by (auto simp: good_def)
qed

definition example_chunks :: "Chunk list" where
  "example_chunks = [example_chunk Shdr '''' SHT_NULL 0 8 640, example_chunk Regular ''.bss'' SHT_NOBITS 3 32 100,
     example_chunk Regular ''.data'' SHT_PROGBITS 3 8 24, example_chunk Regular ''.tbss'' SHT_NOBITS 1027 16 40,
     example_chunk Regular ''.tdata'' SHT_PROGBITS 1027 8 12, example_chunk Relro_padding ''.relro_padding'' SHT_NOBITS 3 1 1,
     example_chunk Regular ''.text'' SHT_PROGBITS 6 16 500, example_chunk Ehdr '''' SHT_NULL 2 8 64]"

definition example_sorted :: "Chunk list" where
  "example_sorted = sort_output_sections_regular example_args False example_chunks"


lemma example_sorted_eval [code]: "example_sorted = [example_chunks ! 7, example_chunks ! 6, example_chunks ! 4, example_chunks ! 3,
    example_chunks ! 5, example_chunks ! 2, example_chunks ! 1, example_chunks ! 0]"
  by code_simp

lemma example_tls_alignment: "tls_alignment example_sorted = 16" by code_simp

lemma example_room: "unat (la_image_base example_args) + room example_args (tls_alignment example_sorted) example_sorted < 2 ^ 64"
  unfolding example_tls_alignment by (simp add: example_sorted_eval example_chunks_def example_chunk_def)

lemma example_ok:
  "\<forall>c \<in> set example_chunks. role_ok c \<and> align_ok (ck_addralign c) \<and> (is_tls c \<longrightarrow> ck_role c \<noteq> Relro_padding)"
  "\<exists>c \<in> set example_chunks. ck_role c = Shdr"
  "\<forall>a \<in> set example_chunks. \<forall>b \<in> set example_chunks. is_tbss a \<and> is_tbss b \<longrightarrow> get_flags example_args a = get_flags example_args b"
  by code_simp+

theorem sorted_chunks_addresses_witness:
  "\<exists>cs'. set_virtual_addresses_regular example_args (sort_output_sections_regular example_args False example_chunks) = Inr cs' \<and>
     list_all aligned_chunk cs' \<and> disjoint_chunks cs' \<and> pages_apart example_args cs'"
proof -
  have "has_single_bit (la_page_size example_args)" by code_simp
  from sorted_chunks_addresses [OF this _ example_ok example_sorted_def example_room]
  show ?thesis by (auto simp: example_sorted_def)
qed

end
