(* ===== verification/Elf_Layout_Load.thy ===== *)
theory Elf_Layout_Load
  imports Elf_Layout_Example
begin

text \<open>
  What the program headers promise: each mapped chunk is in a \<^verbatim>\<open>PT_LOAD\<close> segment that has its attributes and that maps its
  bytes of the file to its address.
\<close>

subsection \<open>One segment\<close>

definition covers :: "ElfPhdr \<Rightarrow> Chunk \<Rightarrow> bool" where
  "covers p c \<longleftrightarrow> unat (p_vaddr p) \<le> unat (ck_addr c) \<and> chunk_end c \<le> unat (p_vaddr p) + unat (p_memsz p) \<and>
     (\<not> is_nobits c \<longrightarrow> chunk_end c \<le> unat (p_vaddr p) + unat (p_filesz p)) \<and> ck_addralign c \<le> p_align p"

text \<open>A segment that has grown.\<close>

definition grown :: "ElfPhdr \<Rightarrow> ElfPhdr \<Rightarrow> bool" where
  "grown p q \<longleftrightarrow> p_type q = p_type p \<and> p_flags q = p_flags p \<and> p_offset q = p_offset p \<and> p_vaddr q = p_vaddr p \<and>
     p_memsz p \<le> p_memsz q \<and> p_filesz p \<le> p_filesz q \<and> p_align p \<le> p_align q"

lemma grown_refl: "grown p p"
  by (simp add: grown_def)

lemma grown_trans: "grown p q \<Longrightarrow> grown q r \<Longrightarrow> grown p r"
  by (auto simp: grown_def)

lemma grown_covers: "grown p q \<Longrightarrow> covers p c \<Longrightarrow> covers q c"
  by (auto simp: grown_def covers_def word_le_nat_alt)

lemma phdr_append_grown:
  assumes "unat (p_vaddr p) + unat (p_memsz p) \<le> unat (ck_addr d)" and "unat (p_vaddr p) + unat (p_filesz p) \<le> unat (ck_addr d)"
    and "chunk_end d < 2 ^ 64"
  shows "grown p (phdr_append d p)" and "covers (phdr_append d p) d"
    and "unat (p_vaddr (phdr_append d p)) + unat (p_memsz (phdr_append d p)) = chunk_end d"
    and "unat (p_vaddr (phdr_append d p)) + unat (p_filesz (phdr_append d p)) \<le> chunk_end d"
proof -
  have "unat (ck_addr d + ck_size d) = chunk_end d" using assms(3) by (simp add: chunk_end_def unat_plus_if_size word_size)
  then have s: "unat (ck_addr d + ck_size d - p_vaddr p) = chunk_end d - unat (p_vaddr p)"
    using assms(1) by (subst unat_sub) (auto simp: word_le_nat_alt chunk_end_def)
  have e: "unat (ck_addr d) \<le> chunk_end d" by (simp add: chunk_end_def)
  let ?q = "phdr_append d p"
  have q: "p_type ?q = p_type p" "p_flags ?q = p_flags p" "p_offset ?q = p_offset p" "p_vaddr ?q = p_vaddr p"
    "p_align ?q = max (p_align p) (ck_addralign d)" "unat (p_memsz ?q) = chunk_end d - unat (p_vaddr p)"
    "unat (p_filesz ?q) = (if is_nobits d then unat (p_filesz p) else chunk_end d - unat (p_vaddr p))"
    by (simp_all add: phdr_append_def s)
  show m: "unat (p_vaddr ?q) + unat (p_memsz ?q) = chunk_end d" unfolding q using assms(1) e by linarith
  show f: "unat (p_vaddr ?q) + unat (p_filesz ?q) \<le> chunk_end d" unfolding q using assms(1,2) e by simp
  have "unat (p_memsz p) \<le> chunk_end d - unat (p_vaddr p)" "unat (p_filesz p) \<le> chunk_end d - unat (p_vaddr p)"
    using assms(1,2) e by linarith+
  then have "unat (p_memsz p) \<le> unat (p_memsz ?q)" "unat (p_filesz p) \<le> unat (p_filesz ?q)" unfolding q by simp_all
  then show "grown p ?q" unfolding grown_def word_le_nat_alt [of "p_memsz p"] word_le_nat_alt [of "p_filesz p"] by (simp add: q(1-5))
  have "\<not> is_nobits d \<longrightarrow> unat (p_vaddr ?q) + unat (p_filesz ?q) = chunk_end d" unfolding q using assms(1) e by simp
  then show "covers ?q d" using m assms(1) unfolding covers_def q(4,5) by simp
qed

lemma fold_phdr_append:
  assumes "sorted_wrt (\<lambda>a b. chunk_end a \<le> unat (ck_addr b)) ds" and "\<forall>d \<in> set ds. n \<le> unat (ck_addr d) \<and> chunk_end d < 2 ^ 64"
    and "unat (p_vaddr p) + unat (p_memsz p) \<le> n" and "unat (p_vaddr p) + unat (p_filesz p) \<le> n"
  shows "grown p (fold phdr_append ds p)" and "\<forall>d \<in> set ds. covers (fold phdr_append ds p) d"
proof -
  have "grown p (fold phdr_append ds p) \<and> (\<forall>d \<in> set ds. covers (fold phdr_append ds p) d)"
    using assms
  proof (induction ds arbitrary: p n)
    case (Cons d ds)
    have d: "n \<le> unat (ck_addr d)" "chunk_end d < 2 ^ 64" using Cons.prems(2) by simp_all
    note a = phdr_append_grown [OF order_trans [OF Cons.prems(3) d(1)] order_trans [OF Cons.prems(4) d(1)] d(2)]
    have "sorted_wrt (\<lambda>a b. chunk_end a \<le> unat (ck_addr b)) ds" "\<forall>d' \<in> set ds. chunk_end d \<le> unat (ck_addr d') \<and> chunk_end d' < 2 ^ 64"
      using Cons.prems(1,2) by simp_all
    from Cons.IH [OF this eq_refl [OF a(3)] a(4)]
    have IH: "grown (phdr_append d p) (fold phdr_append ds (phdr_append d p))"
      "\<forall>d' \<in> set ds. covers (fold phdr_append ds (phdr_append d p)) d'" by blast+
    then show ?case using grown_trans [OF a(1) IH(1)] grown_covers [OF IH(1) a(2)] by simp
  qed (simp add: grown_refl)
  then show "grown p (fold phdr_append ds p)" "\<forall>d \<in> set ds. covers (fold phdr_append ds p) d" by blast+
qed

lemma phdr_define_covers:
  assumes "chunk_end c < 2 ^ 64"
  shows "covers (phdr_define ty flags al c) c" and "unat (p_vaddr (phdr_define ty flags al c)) + unat (p_memsz (phdr_define ty flags al c)) = chunk_end c"
    and "unat (p_vaddr (phdr_define ty flags al c)) + unat (p_filesz (phdr_define ty flags al c)) \<le> chunk_end c"
  by (auto simp: covers_def phdr_define_def chunk_end_def)

subsection \<open>All segments\<close>

text \<open>
  The mapped chunks follow each other without overlap. A chunk that is not mapped is in the file, and its offset and address do
  not happen to continue a segment.
\<close>

definition loadable :: "Chunk list \<Rightarrow> bool" where
  "loadable cs \<longleftrightarrow> sorted_wrt (\<lambda>a b. is_alloc a \<and> is_alloc b \<longrightarrow> chunk_end a \<le> unat (ck_addr b)) cs \<and>
     (\<forall>a \<in> set cs. is_alloc a \<longrightarrow> \<not> is_tbss a \<and> chunk_end a < 2 ^ 64) \<and>
     (\<forall>b \<in> set cs. \<not> is_alloc b \<longrightarrow> \<not> is_nobits b \<and>
        (\<forall>a \<in> set cs. is_alloc a \<longrightarrow> ck_offset b - ck_offset a \<noteq> ck_addr b - ck_addr a))"

lemma loadable_drop: "loadable cs \<Longrightarrow> loadable (drop n cs)"
  unfolding loadable_def by (blast intro: sorted_wrt_drop dest: in_set_dropD)

definition loads :: "LayoutArgs \<Rightarrow> ElfPhdr \<Rightarrow> Chunk \<Rightarrow> bool" where
  "loads arg p c \<longleftrightarrow> p_type p = PT_LOAD \<and> p_flags p = to_phdr_flags arg c \<and> la_page_size arg \<le> p_align p \<and> covers p c \<and>
     (\<not> is_nobits c \<longrightarrow> ck_offset c - p_offset p = ck_addr c - p_vaddr p)"

lemma takeWhile_drop: "takeWhile P xs @ drop (length (takeWhile P xs)) xs = xs"
  by (metis dropWhile_eq_drop takeWhile_dropWhile_id)

lemma first_segment:
  fixes arg :: LayoutArgs
  assumes "loadable (first # cs)" and "is_alloc first"
  defines "run \<equiv> if is_bss first then [] else takeWhile (load_run arg first) cs"
  defines "bss \<equiv> takeWhile (bss_run arg first) (drop (length run) cs)"
  defines "q \<equiv> fold phdr_append (run @ bss) (phdr_define PT_LOAD (to_phdr_flags arg first) (la_page_size arg) first)"
  shows "\<forall>c \<in> set (first # run @ bss). loads arg q c" and "cs = run @ bss @ drop (length bss) (drop (length run) cs)"
proof -
  let ?p = "phdr_define PT_LOAD (to_phdr_flags arg first) (la_page_size arg) first"
  have "cs = run @ drop (length run) cs" by (simp add: run_def takeWhile_drop)
  moreover have "drop (length run) cs = bss @ drop (length bss) (drop (length run) cs)" unfolding bss_def by (rule takeWhile_drop [symmetric])
  ultimately show "cs = run @ bss @ drop (length bss) (drop (length run) cs)" by simp
  then obtain xs where cs: "cs = run @ bss @ xs" by blast
  have r: "load_run arg first c" if "c \<in> set run" for c
    using that set_takeWhileD by (fastforce simp: run_def split: if_splits)
  have b: "bss_run arg first c" if "c \<in> set bss" for c using that set_takeWhileD by (fastforce simp: bss_def)
  have sub: "set (run @ bss) \<subseteq> set cs" using arg_cong [OF cs, of set] by auto
  have al: "is_alloc c" if "c \<in> set (run @ bss)" for c
  proof (rule ccontr)
    assume n: "\<not> is_alloc c"
    have "c \<in> set (first # cs)" using that sub by auto
    then have "\<not> is_nobits c" "ck_offset c - ck_offset first \<noteq> ck_addr c - ck_addr first"
      using assms(1,2) n unfolding loadable_def by auto
    then show False using that r [of c] b [of c] by (auto simp: load_run_def bss_run_def is_bss_def)
  qed
  have ok: "chunk_end c < 2 ^ 64" "\<not> is_tbss c" if "c \<in> set (first # run @ bss)" for c
    using assms(1,2) that sub al by (auto simp: loadable_def)
  have "sorted_wrt (\<lambda>a b. is_alloc a \<and> is_alloc b \<longrightarrow> chunk_end a \<le> unat (ck_addr b)) ((first # run @ bss) @ xs)"
    using assms(1) unfolding loadable_def cs by (simp only: append_Cons append_assoc)
  then have "sorted_wrt (\<lambda>a b. is_alloc a \<and> is_alloc b \<longrightarrow> chunk_end a \<le> unat (ck_addr b)) (first # run @ bss)"
    by (simp only: sorted_wrt_append)
  then have srt: "sorted_wrt (\<lambda>a b. chunk_end a \<le> unat (ck_addr b)) (first # run @ bss)"
    by (rule sorted_wrt_mono_rel [rotated]) (use al assms(2) in \<open>auto simp del: set_append\<close>)
  note d = phdr_define_covers [of first PT_LOAD "to_phdr_flags arg first" "la_page_size arg"]
  have g: "grown ?p q" "\<forall>c \<in> set (run @ bss). covers q c"
    unfolding q_def using fold_phdr_append [of "run @ bss" "chunk_end first" ?p] srt ok d by auto
  have q: "p_type q = PT_LOAD" "p_flags q = to_phdr_flags arg first" "p_offset q = ck_offset first" "p_vaddr q = ck_addr first"
    "la_page_size arg \<le> p_align q"
    using g(1) by (auto simp: grown_def phdr_define_def)
  have "loads arg q first" using q grown_covers [OF g(1) d(1)] ok [of first] by (simp add: loads_def)
  moreover have "loads arg q c" if "c \<in> set run" for c using q g(2) that r [OF that] by (simp add: loads_def load_run_def)
  moreover have "loads arg q c" if "c \<in> set bss" for c using q g(2) that b [OF that] by (simp add: loads_def bss_run_def is_bss_def)
  ultimately show "\<forall>c \<in> set (first # run @ bss). loads arg q c" by auto
qed

lemma load_segments_first:
  assumes "loadable (first # cs)" and "is_alloc first"
  obtains q n where "load_segments arg (first # cs) = q # load_segments arg (drop n cs)" and "\<forall>c \<in> set (first # take n cs). loads arg q c"
proof -
  define run where "run = (if is_bss first then [] else takeWhile (load_run arg first) cs)"
  define bss where "bss = takeWhile (bss_run arg first) (drop (length run) cs)"
  define q where "q = fold phdr_append (run @ bss) (phdr_define PT_LOAD (to_phdr_flags arg first) (la_page_size arg) first)"
  note f = first_segment [OF assms, of arg, folded run_def, folded bss_def, folded q_def]
  have "take (length (run @ bss)) cs = run @ bss" using arg_cong [OF f(2), of "take (length (run @ bss))"] by simp
  moreover have "load_segments arg (first # cs) = q # load_segments arg (drop (length (run @ bss)) cs)"
    using assms(2) by (simp add: Let_def run_def bss_def q_def add.commute)
  ultimately show thesis using that f(1) by metis
qed

lemma load_segments_loads:
  "loadable cs \<Longrightarrow> c \<in> set cs \<Longrightarrow> is_alloc c \<Longrightarrow> \<exists>p \<in> set (load_segments arg cs). loads arg p c"
proof (induction cs rule: length_induct)
  case (1 cs)
  then obtain first rest where cs: "cs = first # rest" by (cases cs) auto
  have tl: "loadable (drop n rest)" for n using loadable_drop [OF 1(2), of "Suc n"] cs by simp
  have IH: "\<exists>p \<in> set (load_segments arg (drop n rest)). loads arg p c" if "c \<in> set (drop n rest)" for n
    using 1(1) [rule_format, OF _ tl that 1(4)] cs by simp
  show ?case
  proof (cases "is_alloc first")
    case False
    then show ?thesis using 1(3,4) IH [of 0] cs by auto
  next
    case True
    obtain q n where q: "load_segments arg cs = q # load_segments arg (drop n rest)" "\<forall>c \<in> set (first # take n rest). loads arg q c"
      using load_segments_first [OF 1(2) [unfolded cs] True, of arg] unfolding cs by blast
    have "c \<in> set (first # take n rest) \<or> c \<in> set (drop n rest)"
      using 1(3) set_append [of "take n rest" "drop n rest"] unfolding cs append_take_drop_id by auto
    then show ?thesis using q IH by auto
  qed
qed

subsection \<open>The loaded image\<close>

text \<open>Setting the physical addresses changes nothing else.\<close>

definition same_but_paddr :: "ElfPhdr \<Rightarrow> ElfPhdr \<Rightarrow> bool" where
  "same_but_paddr p q \<longleftrightarrow> q = p \<lparr> p_paddr := p_paddr q \<rparr>"

lemma same_but_paddrI: "same_but_paddr p p" "same_but_paddr p (p \<lparr> p_paddr := a \<rparr>)"
  by (simp_all add: same_but_paddr_def)

lemma physical_run_same: "list_all2 same_but_paddr ps (physical_run pgsz addr in_sync ps)"
  by (induction pgsz addr in_sync ps rule: physical_run.induct) (simp_all add: same_but_paddrI list_all2_same)

lemma set_paddrs_same: "list_all2 same_but_paddr ps (set_paddrs pgsz base ps)"
  by (induction pgsz base ps rule: set_paddrs.induct) (simp_all add: same_but_paddrI physical_run_same)

lemma loads_same_but_paddr:
  assumes "loads arg p c" and "same_but_paddr p q"
  shows "loads arg q c \<and> p_offset q = p_offset p \<and> p_vaddr q = p_vaddr p"
proof -
  obtain a where q: "q = p \<lparr> p_paddr := a \<rparr>" using assms(2) unfolding same_but_paddr_def by metis
  show ?thesis using assms(1) unfolding q by (simp add: loads_def covers_def)
qed

lemma set_stable_sort: "set (stable_sort lt xs) = set xs"
proof -
  have "set (insert_stable lt x ys) = insert x (set ys)" for x ys by (induction ys) auto
  then show ?thesis by (induction xs) (auto simp: stable_sort_def)
qed

lemma list_all2_set1: "list_all2 R xs ys \<Longrightarrow> x \<in> set xs \<Longrightarrow> \<exists>y \<in> set ys. R x y"
  by (induction xs ys rule: list_all2_induct) auto

lemma create_phdr_loads:
  assumes "p \<in> set (load_segments arg (filter (\<lambda>c. \<not> is_tbss c) cs))"
  shows "\<exists>q \<in> set (create_phdr m arg cs). same_but_paddr p q"
proof -
  have "\<exists>vec. create_phdr m arg cs =
      (case la_physical_image_base arg of None \<Rightarrow> vec | Some base \<Rightarrow> set_paddrs (la_page_size arg) base vec) \<and> p \<in> set vec"
    unfolding create_phdr_def Let_def by (intro exI conjI, rule refl) (simp add: set_stable_sort assms)
  then obtain vec where v: "p \<in> set vec"
    "create_phdr m arg cs = (case la_physical_image_base arg of None \<Rightarrow> vec | Some base \<Rightarrow> set_paddrs (la_page_size arg) base vec)"
    by blast
  then show ?thesis using list_all2_set1 [OF set_paddrs_same v(1)] same_but_paddrI(1) by (auto split: option.split)
qed

lemma sub_mod_cong:
  assumes "has_single_bit (P :: u64)" and "a - b = c - (d :: u64)" and "unat a mod unat P = unat c mod unat P"
  shows "unat b mod unat P = unat d mod unat P"
proof -
  obtain k where k: "k < 64" "unat P = 2 ^ k" using assms(1) by (auto elim: has_single_bitE)
  have "(2 :: int) ^ k dvd 2 ^ 64" using k(1) by (intro le_imp_power_dvd) simp
  then have u: "uint (x - y) mod 2 ^ k = (uint x - uint y) mod 2 ^ k" for x y :: u64
    by (simp add: uint_word_ariths mod_mod_cancel)
  have i: "int (unat x mod unat P) = uint x mod 2 ^ k" for x :: u64 using k(2) by (simp add: zmod_int)
  have "uint a mod 2 ^ k = uint c mod 2 ^ k" using assms(3) i by metis
  then have "uint (a - (a - b)) mod 2 ^ k = uint (c - (a - b)) mod 2 ^ k" unfolding u by (intro mod_diff_cong) simp_all
  moreover have "a - (a - b) = b" "c - (a - b) = d" using assms(2) by (simp_all add: algebra_simps)
  ultimately show ?thesis using i by (metis of_nat_eq_iff)
qed

lemma offsets_same_shape:
  assumes "list_all2 (\<lambda>c c'. c' = c \<lparr> ck_offset := ck_offset c' \<rparr>) cs cs'"
  shows "map (\<lambda>c. c \<lparr> ck_offset := 0 \<rparr>) cs' = map (\<lambda>c. c \<lparr> ck_offset := 0 \<rparr>) cs"
  using assms by (induction cs cs' rule: list_all2_induct) (simp, metis (no_types, lifting) Chunk.surjective Chunk.update_convs(8) list.simps(9))

lemma same_shape_disjoint:
  assumes "map (\<lambda>c. c \<lparr> ck_offset := 0 \<rparr>) cs' = map (\<lambda>c. c \<lparr> ck_offset := 0 \<rparr>) cs"
  shows "disjoint_chunks cs' = disjoint_chunks cs" and "(\<forall>c \<in> set cs'. placed c \<longrightarrow> chunk_end c < n) = (\<forall>c \<in> set cs. placed c \<longrightarrow> chunk_end c < n)"
proof -
  have pl: "placed (c \<lparr> ck_offset := a \<rparr>) = placed c" for c :: Chunk and a by (simp add: placed_def is_tbss_def)
  have "disjoint_chunks (map (\<lambda>c. c \<lparr> ck_offset := 0 \<rparr>) xs) = disjoint_chunks xs" for xs
    by (simp add: disjoint_chunks_def sorted_wrt_map pl)
  then show "disjoint_chunks cs' = disjoint_chunks cs" using assms by metis
  have "(\<forall>c \<in> set (map (\<lambda>c. c \<lparr> ck_offset := 0 \<rparr>) xs). placed c \<longrightarrow> chunk_end c < n) = (\<forall>c \<in> set xs. placed c \<longrightarrow> chunk_end c < n)" for xs
    by (simp add: pl)
  then show "(\<forall>c \<in> set cs'. placed c \<longrightarrow> chunk_end c < n) = (\<forall>c \<in> set cs. placed c \<longrightarrow> chunk_end c < n)" using assms by metis
qed



subsection \<open>Two outputs that go wrong\<close>

text \<open>A thread-local zero-initialized chunk at the end of the list makes the loop look past the end of the list.\<close>

lemma tbss_last_out_of_bounds:
  "set_virtual_addresses_regular example_args [example_chunk Ehdr '''' SHT_NULL 2 8 64, example_chunk Regular ''.tbss'' SHT_NOBITS 1027 16 40] =
     Inl OutOfBounds"
  by code_simp

text \<open>A segment of zero-initialized chunks alone has the offset 0, which does not agree with its address.\<close>

lemma bss_segment_offset:
  "map (\<lambda>p. (p_offset p, p_vaddr p)) (load_segments example_args (fst (set_file_offsets example_args
       [(example_chunk Ehdr '''' SHT_NULL 2 8 64) \<lparr> ck_addr := 0x200000 \<rparr>,
        (example_chunk Regular ''.bss'' SHT_NOBITS 3 32 100) \<lparr> ck_addr := 0x201040 \<rparr>]))) =
     [(0, 0x200000), (0, 0x201040)]"
  by code_simp

end
