(* ===== verification/MachO_Consts.thy ===== *)
theory MachO_Consts
  imports Strings
begin

text \<open>
  The constants of \<^verbatim>\<open>src/macho/macho.h\<close>, one definition per enumerator (the DWARF constants, which
  repeat those of \<^verbatim>\<open>elf.h\<close> and are not used by the modelled code, left out), with a bundle of the
  defining equations per enumeration, and \<^verbatim>\<open>rel_to_string\<close>.
\<close>

definition FAT_MAGIC :: u32 where "FAT_MAGIC = 0xcafebabe"

definition MH_OBJECT :: u32 where "MH_OBJECT = 1"
definition MH_EXECUTE :: u32 where "MH_EXECUTE = 2"
definition MH_FVMLIB :: u32 where "MH_FVMLIB = 3"
definition MH_CORE :: u32 where "MH_CORE = 4"
definition MH_PRELOAD :: u32 where "MH_PRELOAD = 5"
definition MH_DYLIB :: u32 where "MH_DYLIB = 6"
definition MH_DYLINKER :: u32 where "MH_DYLINKER = 7"
definition MH_BUNDLE :: u32 where "MH_BUNDLE = 8"
definition MH_DYLIB_STUB :: u32 where "MH_DYLIB_STUB = 9"
definition MH_DSYM :: u32 where "MH_DSYM = 10"
definition MH_KEXT_BUNDLE :: u32 where "MH_KEXT_BUNDLE = 11"

lemmas MH_type_defs =
  MH_OBJECT_def MH_EXECUTE_def MH_FVMLIB_def MH_CORE_def MH_PRELOAD_def MH_DYLIB_def
  MH_DYLINKER_def MH_BUNDLE_def MH_DYLIB_STUB_def MH_DSYM_def MH_KEXT_BUNDLE_def

definition MH_NOUNDEFS :: u32 where "MH_NOUNDEFS = 1"
definition MH_INCRLINK :: u32 where "MH_INCRLINK = 2"
definition MH_DYLDLINK :: u32 where "MH_DYLDLINK = 4"
definition MH_BINDATLOAD :: u32 where "MH_BINDATLOAD = 8"
definition MH_PREBOUND :: u32 where "MH_PREBOUND = 16"
definition MH_SPLIT_SEGS :: u32 where "MH_SPLIT_SEGS = 32"
definition MH_LAZY_INIT :: u32 where "MH_LAZY_INIT = 64"
definition MH_TWOLEVEL :: u32 where "MH_TWOLEVEL = 128"
definition MH_FORCE_FLAT :: u32 where "MH_FORCE_FLAT = 0x100"
definition MH_NOMULTIDEFS :: u32 where "MH_NOMULTIDEFS = 0x200"
definition MH_NOFIXPREBINDING :: u32 where "MH_NOFIXPREBINDING = 0x400"
definition MH_PREBINDABLE :: u32 where "MH_PREBINDABLE = 0x800"
definition MH_ALLMODSBOUND :: u32 where "MH_ALLMODSBOUND = 0x1000"
definition MH_SUBSECTIONS_VIA_SYMBOLS :: u32 where "MH_SUBSECTIONS_VIA_SYMBOLS = 0x2000"
definition MH_CANONICAL :: u32 where "MH_CANONICAL = 0x4000"
definition MH_WEAK_DEFINES :: u32 where "MH_WEAK_DEFINES = 0x8000"
definition MH_BINDS_TO_WEAK :: u32 where "MH_BINDS_TO_WEAK = 0x10000"
definition MH_ALLOW_STACK_EXECUTION :: u32 where "MH_ALLOW_STACK_EXECUTION = 0x20000"
definition MH_ROOT_SAFE :: u32 where "MH_ROOT_SAFE = 0x40000"
definition MH_SETUID_SAFE :: u32 where "MH_SETUID_SAFE = 0x80000"
definition MH_NO_REEXPORTED_DYLIBS :: u32 where "MH_NO_REEXPORTED_DYLIBS = 0x100000"
definition MH_PIE :: u32 where "MH_PIE = 0x200000"
definition MH_DEAD_STRIPPABLE_DYLIB :: u32 where "MH_DEAD_STRIPPABLE_DYLIB = 0x400000"
definition MH_HAS_TLV_DESCRIPTORS :: u32 where "MH_HAS_TLV_DESCRIPTORS = 0x800000"
definition MH_NO_HEAP_EXECUTION :: u32 where "MH_NO_HEAP_EXECUTION = 0x1000000"
definition MH_APP_EXTENSION_SAFE :: u32 where "MH_APP_EXTENSION_SAFE = 0x2000000"
definition MH_NLIST_OUTOFSYNC_WITH_DYLDINFO :: u32 where "MH_NLIST_OUTOFSYNC_WITH_DYLDINFO = 0x4000000"
definition MH_SIM_SUPPORT :: u32 where "MH_SIM_SUPPORT = 0x8000000"

lemmas MH_defs =
  MH_NOUNDEFS_def MH_INCRLINK_def MH_DYLDLINK_def MH_BINDATLOAD_def MH_PREBOUND_def
  MH_SPLIT_SEGS_def MH_LAZY_INIT_def MH_TWOLEVEL_def MH_FORCE_FLAT_def MH_NOMULTIDEFS_def
  MH_NOFIXPREBINDING_def MH_PREBINDABLE_def MH_ALLMODSBOUND_def MH_SUBSECTIONS_VIA_SYMBOLS_def
  MH_CANONICAL_def MH_WEAK_DEFINES_def MH_BINDS_TO_WEAK_def MH_ALLOW_STACK_EXECUTION_def
  MH_ROOT_SAFE_def MH_SETUID_SAFE_def MH_NO_REEXPORTED_DYLIBS_def MH_PIE_def
  MH_DEAD_STRIPPABLE_DYLIB_def MH_HAS_TLV_DESCRIPTORS_def MH_NO_HEAP_EXECUTION_def
  MH_APP_EXTENSION_SAFE_def MH_NLIST_OUTOFSYNC_WITH_DYLDINFO_def MH_SIM_SUPPORT_def

definition VM_PROT_READ :: u32 where "VM_PROT_READ = 1"
definition VM_PROT_WRITE :: u32 where "VM_PROT_WRITE = 2"
definition VM_PROT_EXECUTE :: u32 where "VM_PROT_EXECUTE = 4"
definition VM_PROT_NO_CHANGE :: u32 where "VM_PROT_NO_CHANGE = 8"
definition VM_PROT_COPY :: u32 where "VM_PROT_COPY = 16"
definition VM_PROT_WANTS_COPY :: u32 where "VM_PROT_WANTS_COPY = 16"

lemmas VM_PROT_defs =
  VM_PROT_READ_def VM_PROT_WRITE_def VM_PROT_EXECUTE_def VM_PROT_NO_CHANGE_def VM_PROT_COPY_def
  VM_PROT_WANTS_COPY_def

definition LC_REQ_DYLD :: u32 where "LC_REQ_DYLD = 0x80000000"

definition LC_SEGMENT :: u32 where "LC_SEGMENT = 1"
definition LC_SYMTAB :: u32 where "LC_SYMTAB = 2"
definition LC_SYMSEG :: u32 where "LC_SYMSEG = 3"
definition LC_THREAD :: u32 where "LC_THREAD = 4"
definition LC_UNIXTHREAD :: u32 where "LC_UNIXTHREAD = 5"
definition LC_LOADFVMLIB :: u32 where "LC_LOADFVMLIB = 6"
definition LC_IDFVMLIB :: u32 where "LC_IDFVMLIB = 7"
definition LC_IDENT :: u32 where "LC_IDENT = 8"
definition LC_FVMFILE :: u32 where "LC_FVMFILE = 9"
definition LC_PREPAGE :: u32 where "LC_PREPAGE = 10"
definition LC_DYSYMTAB :: u32 where "LC_DYSYMTAB = 11"
definition LC_LOAD_DYLIB :: u32 where "LC_LOAD_DYLIB = 12"
definition LC_ID_DYLIB :: u32 where "LC_ID_DYLIB = 13"
definition LC_LOAD_DYLINKER :: u32 where "LC_LOAD_DYLINKER = 14"
definition LC_ID_DYLINKER :: u32 where "LC_ID_DYLINKER = 15"
definition LC_PREBOUND_DYLIB :: u32 where "LC_PREBOUND_DYLIB = 16"
definition LC_ROUTINES :: u32 where "LC_ROUTINES = 17"
definition LC_SUB_FRAMEWORK :: u32 where "LC_SUB_FRAMEWORK = 18"
definition LC_SUB_UMBRELLA :: u32 where "LC_SUB_UMBRELLA = 19"
definition LC_SUB_CLIENT :: u32 where "LC_SUB_CLIENT = 20"
definition LC_SUB_LIBRARY :: u32 where "LC_SUB_LIBRARY = 21"
definition LC_TWOLEVEL_HINTS :: u32 where "LC_TWOLEVEL_HINTS = 22"
definition LC_PREBIND_CKSUM :: u32 where "LC_PREBIND_CKSUM = 23"
definition LC_LOAD_WEAK_DYLIB :: u32 where "LC_LOAD_WEAK_DYLIB = 0x18 OR LC_REQ_DYLD"
definition LC_SEGMENT_64 :: u32 where "LC_SEGMENT_64 = 25"
definition LC_ROUTINES_64 :: u32 where "LC_ROUTINES_64 = 26"
definition LC_UUID :: u32 where "LC_UUID = 27"
definition LC_RPATH :: u32 where "LC_RPATH = 0x1c OR LC_REQ_DYLD"
definition LC_CODE_SIGNATURE :: u32 where "LC_CODE_SIGNATURE = 29"
definition LC_SEGMENT_SPLIT_INFO :: u32 where "LC_SEGMENT_SPLIT_INFO = 30"
definition LC_REEXPORT_DYLIB :: u32 where "LC_REEXPORT_DYLIB = 0x1f OR LC_REQ_DYLD"
definition LC_LAZY_LOAD_DYLIB :: u32 where "LC_LAZY_LOAD_DYLIB = 32"
definition LC_ENCRYPTION_INFO :: u32 where "LC_ENCRYPTION_INFO = 33"
definition LC_DYLD_INFO :: u32 where "LC_DYLD_INFO = 34"
definition LC_DYLD_INFO_ONLY :: u32 where "LC_DYLD_INFO_ONLY = 0x22 OR LC_REQ_DYLD"
definition LC_LOAD_UPWARD_DYLIB :: u32 where "LC_LOAD_UPWARD_DYLIB = 0x23 OR LC_REQ_DYLD"
definition LC_VERSION_MIN_MACOSX :: u32 where "LC_VERSION_MIN_MACOSX = 36"
definition LC_VERSION_MIN_IPHONEOS :: u32 where "LC_VERSION_MIN_IPHONEOS = 37"
definition LC_FUNCTION_STARTS :: u32 where "LC_FUNCTION_STARTS = 38"
definition LC_DYLD_ENVIRONMENT :: u32 where "LC_DYLD_ENVIRONMENT = 39"
definition LC_MAIN :: u32 where "LC_MAIN = 0x28 OR LC_REQ_DYLD"
definition LC_DATA_IN_CODE :: u32 where "LC_DATA_IN_CODE = 41"
definition LC_SOURCE_VERSION :: u32 where "LC_SOURCE_VERSION = 42"
definition LC_DYLIB_CODE_SIGN_DRS :: u32 where "LC_DYLIB_CODE_SIGN_DRS = 43"
definition LC_ENCRYPTION_INFO_64 :: u32 where "LC_ENCRYPTION_INFO_64 = 44"
definition LC_LINKER_OPTION :: u32 where "LC_LINKER_OPTION = 45"
definition LC_LINKER_OPTIMIZATION_HINT :: u32 where "LC_LINKER_OPTIMIZATION_HINT = 46"
definition LC_VERSION_MIN_TVOS :: u32 where "LC_VERSION_MIN_TVOS = 47"
definition LC_VERSION_MIN_WATCHOS :: u32 where "LC_VERSION_MIN_WATCHOS = 48"
definition LC_NOTE :: u32 where "LC_NOTE = 49"
definition LC_BUILD_VERSION :: u32 where "LC_BUILD_VERSION = 50"
definition LC_DYLD_EXPORTS_TRIE :: u32 where "LC_DYLD_EXPORTS_TRIE = 0x33 OR LC_REQ_DYLD"
definition LC_DYLD_CHAINED_FIXUPS :: u32 where "LC_DYLD_CHAINED_FIXUPS = 0x34 OR LC_REQ_DYLD"

lemmas LC_defs =
  LC_SEGMENT_def LC_SYMTAB_def LC_SYMSEG_def LC_THREAD_def LC_UNIXTHREAD_def LC_LOADFVMLIB_def
  LC_IDFVMLIB_def LC_IDENT_def LC_FVMFILE_def LC_PREPAGE_def LC_DYSYMTAB_def LC_LOAD_DYLIB_def
  LC_ID_DYLIB_def LC_LOAD_DYLINKER_def LC_ID_DYLINKER_def LC_PREBOUND_DYLIB_def LC_ROUTINES_def
  LC_SUB_FRAMEWORK_def LC_SUB_UMBRELLA_def LC_SUB_CLIENT_def LC_SUB_LIBRARY_def
  LC_TWOLEVEL_HINTS_def LC_PREBIND_CKSUM_def LC_LOAD_WEAK_DYLIB_def LC_SEGMENT_64_def
  LC_ROUTINES_64_def LC_UUID_def LC_RPATH_def LC_CODE_SIGNATURE_def LC_SEGMENT_SPLIT_INFO_def
  LC_REEXPORT_DYLIB_def LC_LAZY_LOAD_DYLIB_def LC_ENCRYPTION_INFO_def LC_DYLD_INFO_def
  LC_DYLD_INFO_ONLY_def LC_LOAD_UPWARD_DYLIB_def LC_VERSION_MIN_MACOSX_def
  LC_VERSION_MIN_IPHONEOS_def LC_FUNCTION_STARTS_def LC_DYLD_ENVIRONMENT_def LC_MAIN_def
  LC_DATA_IN_CODE_def LC_SOURCE_VERSION_def LC_DYLIB_CODE_SIGN_DRS_def LC_ENCRYPTION_INFO_64_def
  LC_LINKER_OPTION_def LC_LINKER_OPTIMIZATION_HINT_def LC_VERSION_MIN_TVOS_def
  LC_VERSION_MIN_WATCHOS_def LC_NOTE_def LC_BUILD_VERSION_def LC_DYLD_EXPORTS_TRIE_def
  LC_DYLD_CHAINED_FIXUPS_def

definition SG_HIGHVM :: u32 where "SG_HIGHVM = 1"
definition SG_FVMLIB :: u32 where "SG_FVMLIB = 2"
definition SG_NORELOC :: u32 where "SG_NORELOC = 4"
definition SG_PROTECTED_VERSION_1 :: u32 where "SG_PROTECTED_VERSION_1 = 8"
definition SG_READ_ONLY :: u32 where "SG_READ_ONLY = 16"

lemmas SG_defs =
  SG_HIGHVM_def SG_FVMLIB_def SG_NORELOC_def SG_PROTECTED_VERSION_1_def SG_READ_ONLY_def

definition S_REGULAR :: u32 where "S_REGULAR = 0"
definition S_ZEROFILL :: u32 where "S_ZEROFILL = 1"
definition S_CSTRING_LITERALS :: u32 where "S_CSTRING_LITERALS = 2"
definition S_4BYTE_LITERALS :: u32 where "S_4BYTE_LITERALS = 3"
definition S_8BYTE_LITERALS :: u32 where "S_8BYTE_LITERALS = 4"
definition S_LITERAL_POINTERS :: u32 where "S_LITERAL_POINTERS = 5"
definition S_NON_LAZY_SYMBOL_POINTERS :: u32 where "S_NON_LAZY_SYMBOL_POINTERS = 6"
definition S_LAZY_SYMBOL_POINTERS :: u32 where "S_LAZY_SYMBOL_POINTERS = 7"
definition S_SYMBOL_STUBS :: u32 where "S_SYMBOL_STUBS = 8"
definition S_MOD_INIT_FUNC_POINTERS :: u32 where "S_MOD_INIT_FUNC_POINTERS = 9"
definition S_MOD_TERM_FUNC_POINTERS :: u32 where "S_MOD_TERM_FUNC_POINTERS = 10"
definition S_COALESCED :: u32 where "S_COALESCED = 11"
definition S_GB_ZEROFILL :: u32 where "S_GB_ZEROFILL = 12"
definition S_INTERPOSING :: u32 where "S_INTERPOSING = 13"
definition S_16BYTE_LITERALS :: u32 where "S_16BYTE_LITERALS = 14"
definition S_DTRACE_DOF :: u32 where "S_DTRACE_DOF = 15"
definition S_LAZY_DYLIB_SYMBOL_POINTERS :: u32 where "S_LAZY_DYLIB_SYMBOL_POINTERS = 16"
definition S_THREAD_LOCAL_REGULAR :: u32 where "S_THREAD_LOCAL_REGULAR = 17"
definition S_THREAD_LOCAL_ZEROFILL :: u32 where "S_THREAD_LOCAL_ZEROFILL = 18"
definition S_THREAD_LOCAL_VARIABLES :: u32 where "S_THREAD_LOCAL_VARIABLES = 19"
definition S_THREAD_LOCAL_VARIABLE_POINTERS :: u32 where "S_THREAD_LOCAL_VARIABLE_POINTERS = 20"
definition S_THREAD_LOCAL_INIT_FUNCTION_POINTERS :: u32 where "S_THREAD_LOCAL_INIT_FUNCTION_POINTERS = 21"
definition S_INIT_FUNC_OFFSETS :: u32 where "S_INIT_FUNC_OFFSETS = 22"

lemmas S_type_defs =
  S_REGULAR_def S_ZEROFILL_def S_CSTRING_LITERALS_def S_4BYTE_LITERALS_def S_8BYTE_LITERALS_def
  S_LITERAL_POINTERS_def S_NON_LAZY_SYMBOL_POINTERS_def S_LAZY_SYMBOL_POINTERS_def
  S_SYMBOL_STUBS_def S_MOD_INIT_FUNC_POINTERS_def S_MOD_TERM_FUNC_POINTERS_def S_COALESCED_def
  S_GB_ZEROFILL_def S_INTERPOSING_def S_16BYTE_LITERALS_def S_DTRACE_DOF_def
  S_LAZY_DYLIB_SYMBOL_POINTERS_def S_THREAD_LOCAL_REGULAR_def S_THREAD_LOCAL_ZEROFILL_def
  S_THREAD_LOCAL_VARIABLES_def S_THREAD_LOCAL_VARIABLE_POINTERS_def
  S_THREAD_LOCAL_INIT_FUNCTION_POINTERS_def S_INIT_FUNC_OFFSETS_def

definition S_ATTR_LOC_RELOC :: u32 where "S_ATTR_LOC_RELOC = 1"
definition S_ATTR_EXT_RELOC :: u32 where "S_ATTR_EXT_RELOC = 2"
definition S_ATTR_SOME_INSTRUCTIONS :: u32 where "S_ATTR_SOME_INSTRUCTIONS = 4"
definition S_ATTR_DEBUG :: u32 where "S_ATTR_DEBUG = 0x20000"
definition S_ATTR_SELF_MODIFYING_CODE :: u32 where "S_ATTR_SELF_MODIFYING_CODE = 0x40000"
definition S_ATTR_LIVE_SUPPORT :: u32 where "S_ATTR_LIVE_SUPPORT = 0x80000"
definition S_ATTR_NO_DEAD_STRIP :: u32 where "S_ATTR_NO_DEAD_STRIP = 0x100000"
definition S_ATTR_STRIP_STATIC_SYMS :: u32 where "S_ATTR_STRIP_STATIC_SYMS = 0x200000"
definition S_ATTR_NO_TOC :: u32 where "S_ATTR_NO_TOC = 0x400000"
definition S_ATTR_PURE_INSTRUCTIONS :: u32 where "S_ATTR_PURE_INSTRUCTIONS = 0x800000"

lemmas S_ATTR_defs =
  S_ATTR_LOC_RELOC_def S_ATTR_EXT_RELOC_def S_ATTR_SOME_INSTRUCTIONS_def S_ATTR_DEBUG_def
  S_ATTR_SELF_MODIFYING_CODE_def S_ATTR_LIVE_SUPPORT_def S_ATTR_NO_DEAD_STRIP_def
  S_ATTR_STRIP_STATIC_SYMS_def S_ATTR_NO_TOC_def S_ATTR_PURE_INSTRUCTIONS_def

definition CPU_TYPE_X86_64 :: u32 where "CPU_TYPE_X86_64 = 0x1000007"
definition CPU_TYPE_ARM64 :: u32 where "CPU_TYPE_ARM64 = 0x100000c"
definition CPU_TYPE_ARM64_32 :: u32 where "CPU_TYPE_ARM64_32 = 0x200000c"

lemmas CPU_TYPE_defs =
  CPU_TYPE_X86_64_def CPU_TYPE_ARM64_def CPU_TYPE_ARM64_32_def

definition CPU_SUBTYPE_X86_64_ALL :: u32 where "CPU_SUBTYPE_X86_64_ALL = 3"
definition CPU_SUBTYPE_ARM64_ALL :: u32 where "CPU_SUBTYPE_ARM64_ALL = 0"

lemmas CPU_SUBTYPE_defs =
  CPU_SUBTYPE_X86_64_ALL_def CPU_SUBTYPE_ARM64_ALL_def

definition INDIRECT_SYMBOL_LOCAL :: u32 where "INDIRECT_SYMBOL_LOCAL = 0x80000000"
definition INDIRECT_SYMBOL_ABS :: u32 where "INDIRECT_SYMBOL_ABS = 0x40000000"

definition REBASE_TYPE_POINTER :: u32 where "REBASE_TYPE_POINTER = 1"
definition REBASE_TYPE_TEXT_ABSOLUTE32 :: u32 where "REBASE_TYPE_TEXT_ABSOLUTE32 = 2"
definition REBASE_TYPE_TEXT_PCREL32 :: u32 where "REBASE_TYPE_TEXT_PCREL32 = 3"
definition REBASE_OPCODE_MASK :: u32 where "REBASE_OPCODE_MASK = 240"
definition REBASE_IMMEDIATE_MASK :: u32 where "REBASE_IMMEDIATE_MASK = 15"
definition REBASE_OPCODE_DONE :: u32 where "REBASE_OPCODE_DONE = 0"
definition REBASE_OPCODE_SET_TYPE_IMM :: u32 where "REBASE_OPCODE_SET_TYPE_IMM = 16"
definition REBASE_OPCODE_SET_SEGMENT_AND_OFFSET_ULEB :: u32 where "REBASE_OPCODE_SET_SEGMENT_AND_OFFSET_ULEB = 32"
definition REBASE_OPCODE_ADD_ADDR_ULEB :: u32 where "REBASE_OPCODE_ADD_ADDR_ULEB = 48"
definition REBASE_OPCODE_ADD_ADDR_IMM_SCALED :: u32 where "REBASE_OPCODE_ADD_ADDR_IMM_SCALED = 64"
definition REBASE_OPCODE_DO_REBASE_IMM_TIMES :: u32 where "REBASE_OPCODE_DO_REBASE_IMM_TIMES = 80"
definition REBASE_OPCODE_DO_REBASE_ULEB_TIMES :: u32 where "REBASE_OPCODE_DO_REBASE_ULEB_TIMES = 96"
definition REBASE_OPCODE_DO_REBASE_ADD_ADDR_ULEB :: u32 where "REBASE_OPCODE_DO_REBASE_ADD_ADDR_ULEB = 112"
definition REBASE_OPCODE_DO_REBASE_ULEB_TIMES_SKIPPING_ULEB :: u32 where "REBASE_OPCODE_DO_REBASE_ULEB_TIMES_SKIPPING_ULEB = 128"

lemmas REBASE_defs =
  REBASE_TYPE_POINTER_def REBASE_TYPE_TEXT_ABSOLUTE32_def REBASE_TYPE_TEXT_PCREL32_def
  REBASE_OPCODE_MASK_def REBASE_IMMEDIATE_MASK_def REBASE_OPCODE_DONE_def
  REBASE_OPCODE_SET_TYPE_IMM_def REBASE_OPCODE_SET_SEGMENT_AND_OFFSET_ULEB_def
  REBASE_OPCODE_ADD_ADDR_ULEB_def REBASE_OPCODE_ADD_ADDR_IMM_SCALED_def
  REBASE_OPCODE_DO_REBASE_IMM_TIMES_def REBASE_OPCODE_DO_REBASE_ULEB_TIMES_def
  REBASE_OPCODE_DO_REBASE_ADD_ADDR_ULEB_def REBASE_OPCODE_DO_REBASE_ULEB_TIMES_SKIPPING_ULEB_def

definition BIND_SPECIAL_DYLIB_SELF :: u32 where "BIND_SPECIAL_DYLIB_SELF = 0"
definition BIND_TYPE_POINTER :: u32 where "BIND_TYPE_POINTER = 1"
definition BIND_TYPE_TEXT_ABSOLUTE32 :: u32 where "BIND_TYPE_TEXT_ABSOLUTE32 = 2"
definition BIND_TYPE_TEXT_PCREL32 :: u32 where "BIND_TYPE_TEXT_PCREL32 = 3"
definition BIND_SPECIAL_DYLIB_WEAK_LOOKUP :: u32 where "BIND_SPECIAL_DYLIB_WEAK_LOOKUP = - 3"
definition BIND_SPECIAL_DYLIB_FLAT_LOOKUP :: u32 where "BIND_SPECIAL_DYLIB_FLAT_LOOKUP = - 2"
definition BIND_SPECIAL_DYLIB_MAIN_EXECUTABLE :: u32 where "BIND_SPECIAL_DYLIB_MAIN_EXECUTABLE = - 1"
definition BIND_SYMBOL_FLAGS_WEAK_IMPORT :: u32 where "BIND_SYMBOL_FLAGS_WEAK_IMPORT = 1"
definition BIND_SYMBOL_FLAGS_NON_WEAK_DEFINITION :: u32 where "BIND_SYMBOL_FLAGS_NON_WEAK_DEFINITION = 8"
definition BIND_OPCODE_MASK :: u32 where "BIND_OPCODE_MASK = 240"
definition BIND_IMMEDIATE_MASK :: u32 where "BIND_IMMEDIATE_MASK = 15"
definition BIND_OPCODE_DONE :: u32 where "BIND_OPCODE_DONE = 0"
definition BIND_OPCODE_SET_DYLIB_ORDINAL_IMM :: u32 where "BIND_OPCODE_SET_DYLIB_ORDINAL_IMM = 16"
definition BIND_OPCODE_SET_DYLIB_ORDINAL_ULEB :: u32 where "BIND_OPCODE_SET_DYLIB_ORDINAL_ULEB = 32"
definition BIND_OPCODE_SET_DYLIB_SPECIAL_IMM :: u32 where "BIND_OPCODE_SET_DYLIB_SPECIAL_IMM = 48"
definition BIND_OPCODE_SET_SYMBOL_TRAILING_FLAGS_IMM :: u32 where "BIND_OPCODE_SET_SYMBOL_TRAILING_FLAGS_IMM = 64"
definition BIND_OPCODE_SET_TYPE_IMM :: u32 where "BIND_OPCODE_SET_TYPE_IMM = 80"
definition BIND_OPCODE_SET_ADDEND_SLEB :: u32 where "BIND_OPCODE_SET_ADDEND_SLEB = 96"
definition BIND_OPCODE_SET_SEGMENT_AND_OFFSET_ULEB :: u32 where "BIND_OPCODE_SET_SEGMENT_AND_OFFSET_ULEB = 112"
definition BIND_OPCODE_ADD_ADDR_ULEB :: u32 where "BIND_OPCODE_ADD_ADDR_ULEB = 128"
definition BIND_OPCODE_DO_BIND :: u32 where "BIND_OPCODE_DO_BIND = 144"
definition BIND_OPCODE_DO_BIND_ADD_ADDR_ULEB :: u32 where "BIND_OPCODE_DO_BIND_ADD_ADDR_ULEB = 160"
definition BIND_OPCODE_DO_BIND_ADD_ADDR_IMM_SCALED :: u32 where "BIND_OPCODE_DO_BIND_ADD_ADDR_IMM_SCALED = 176"
definition BIND_OPCODE_DO_BIND_ULEB_TIMES_SKIPPING_ULEB :: u32 where "BIND_OPCODE_DO_BIND_ULEB_TIMES_SKIPPING_ULEB = 192"
definition BIND_OPCODE_THREADED :: u32 where "BIND_OPCODE_THREADED = 208"
definition BIND_SUBOPCODE_THREADED_SET_BIND_ORDINAL_TABLE_SIZE_ULEB :: u32 where "BIND_SUBOPCODE_THREADED_SET_BIND_ORDINAL_TABLE_SIZE_ULEB = 0"
definition BIND_SUBOPCODE_THREADED_APPLY :: u32 where "BIND_SUBOPCODE_THREADED_APPLY = 1"

lemmas BIND_defs =
  BIND_SPECIAL_DYLIB_SELF_def BIND_TYPE_POINTER_def BIND_TYPE_TEXT_ABSOLUTE32_def
  BIND_TYPE_TEXT_PCREL32_def BIND_SPECIAL_DYLIB_WEAK_LOOKUP_def
  BIND_SPECIAL_DYLIB_FLAT_LOOKUP_def BIND_SPECIAL_DYLIB_MAIN_EXECUTABLE_def
  BIND_SYMBOL_FLAGS_WEAK_IMPORT_def BIND_SYMBOL_FLAGS_NON_WEAK_DEFINITION_def
  BIND_OPCODE_MASK_def BIND_IMMEDIATE_MASK_def BIND_OPCODE_DONE_def
  BIND_OPCODE_SET_DYLIB_ORDINAL_IMM_def BIND_OPCODE_SET_DYLIB_ORDINAL_ULEB_def
  BIND_OPCODE_SET_DYLIB_SPECIAL_IMM_def BIND_OPCODE_SET_SYMBOL_TRAILING_FLAGS_IMM_def
  BIND_OPCODE_SET_TYPE_IMM_def BIND_OPCODE_SET_ADDEND_SLEB_def
  BIND_OPCODE_SET_SEGMENT_AND_OFFSET_ULEB_def BIND_OPCODE_ADD_ADDR_ULEB_def
  BIND_OPCODE_DO_BIND_def BIND_OPCODE_DO_BIND_ADD_ADDR_ULEB_def
  BIND_OPCODE_DO_BIND_ADD_ADDR_IMM_SCALED_def BIND_OPCODE_DO_BIND_ULEB_TIMES_SKIPPING_ULEB_def
  BIND_OPCODE_THREADED_def BIND_SUBOPCODE_THREADED_SET_BIND_ORDINAL_TABLE_SIZE_ULEB_def
  BIND_SUBOPCODE_THREADED_APPLY_def

definition EXPORT_SYMBOL_FLAGS_KIND_MASK :: u32 where "EXPORT_SYMBOL_FLAGS_KIND_MASK = 3"
definition EXPORT_SYMBOL_FLAGS_KIND_REGULAR :: u32 where "EXPORT_SYMBOL_FLAGS_KIND_REGULAR = 0"
definition EXPORT_SYMBOL_FLAGS_KIND_THREAD_LOCAL :: u32 where "EXPORT_SYMBOL_FLAGS_KIND_THREAD_LOCAL = 1"
definition EXPORT_SYMBOL_FLAGS_KIND_ABSOLUTE :: u32 where "EXPORT_SYMBOL_FLAGS_KIND_ABSOLUTE = 2"
definition EXPORT_SYMBOL_FLAGS_WEAK_DEFINITION :: u32 where "EXPORT_SYMBOL_FLAGS_WEAK_DEFINITION = 4"
definition EXPORT_SYMBOL_FLAGS_REEXPORT :: u32 where "EXPORT_SYMBOL_FLAGS_REEXPORT = 8"
definition EXPORT_SYMBOL_FLAGS_STUB_AND_RESOLVER :: u32 where "EXPORT_SYMBOL_FLAGS_STUB_AND_RESOLVER = 16"

lemmas EXPORT_defs =
  EXPORT_SYMBOL_FLAGS_KIND_MASK_def EXPORT_SYMBOL_FLAGS_KIND_REGULAR_def
  EXPORT_SYMBOL_FLAGS_KIND_THREAD_LOCAL_def EXPORT_SYMBOL_FLAGS_KIND_ABSOLUTE_def
  EXPORT_SYMBOL_FLAGS_WEAK_DEFINITION_def EXPORT_SYMBOL_FLAGS_REEXPORT_def
  EXPORT_SYMBOL_FLAGS_STUB_AND_RESOLVER_def

definition DICE_KIND_DATA :: u32 where "DICE_KIND_DATA = 1"
definition DICE_KIND_JUMP_TABLE8 :: u32 where "DICE_KIND_JUMP_TABLE8 = 2"
definition DICE_KIND_JUMP_TABLE16 :: u32 where "DICE_KIND_JUMP_TABLE16 = 3"
definition DICE_KIND_JUMP_TABLE32 :: u32 where "DICE_KIND_JUMP_TABLE32 = 4"
definition DICE_KIND_ABS_JUMP_TABLE32 :: u32 where "DICE_KIND_ABS_JUMP_TABLE32 = 5"

definition N_UNDF :: u32 where "N_UNDF = 0"
definition N_ABS :: u32 where "N_ABS = 1"
definition N_INDR :: u32 where "N_INDR = 5"
definition N_PBUD :: u32 where "N_PBUD = 6"
definition N_SECT :: u32 where "N_SECT = 7"

lemmas N_type_defs =
  N_UNDF_def N_ABS_def N_INDR_def N_PBUD_def N_SECT_def

definition N_GSYM :: u32 where "N_GSYM = 32"
definition N_FNAME :: u32 where "N_FNAME = 34"
definition N_FUN :: u32 where "N_FUN = 36"
definition N_STSYM :: u32 where "N_STSYM = 38"
definition N_LCSYM :: u32 where "N_LCSYM = 40"
definition N_BNSYM :: u32 where "N_BNSYM = 46"
definition N_AST :: u32 where "N_AST = 50"
definition N_OPT :: u32 where "N_OPT = 60"
definition N_RSYM :: u32 where "N_RSYM = 64"
definition N_SLINE :: u32 where "N_SLINE = 68"
definition N_ENSYM :: u32 where "N_ENSYM = 78"
definition N_SSYM :: u32 where "N_SSYM = 96"
definition N_SO :: u32 where "N_SO = 100"
definition N_OSO :: u32 where "N_OSO = 102"
definition N_LSYM :: u32 where "N_LSYM = 128"
definition N_BINCL :: u32 where "N_BINCL = 130"
definition N_SOL :: u32 where "N_SOL = 132"
definition N_PARAMS :: u32 where "N_PARAMS = 134"
definition N_VERSION :: u32 where "N_VERSION = 136"
definition N_OLEVEL :: u32 where "N_OLEVEL = 138"
definition N_PSYM :: u32 where "N_PSYM = 160"
definition N_EINCL :: u32 where "N_EINCL = 162"
definition N_ENTRY :: u32 where "N_ENTRY = 164"
definition N_LBRAC :: u32 where "N_LBRAC = 192"
definition N_EXCL :: u32 where "N_EXCL = 194"
definition N_RBRAC :: u32 where "N_RBRAC = 224"
definition N_BCOMM :: u32 where "N_BCOMM = 226"
definition N_ECOMM :: u32 where "N_ECOMM = 228"
definition N_ECOML :: u32 where "N_ECOML = 232"
definition N_LENG :: u32 where "N_LENG = 254"
definition N_PC :: u32 where "N_PC = 48"

lemmas N_stab_defs =
  N_GSYM_def N_FNAME_def N_FUN_def N_STSYM_def N_LCSYM_def N_BNSYM_def N_AST_def N_OPT_def
  N_RSYM_def N_SLINE_def N_ENSYM_def N_SSYM_def N_SO_def N_OSO_def N_LSYM_def N_BINCL_def
  N_SOL_def N_PARAMS_def N_VERSION_def N_OLEVEL_def N_PSYM_def N_EINCL_def N_ENTRY_def
  N_LBRAC_def N_EXCL_def N_RBRAC_def N_BCOMM_def N_ECOMM_def N_ECOML_def N_LENG_def N_PC_def

definition REFERENCE_TYPE :: u32 where "REFERENCE_TYPE = 15"
definition REFERENCE_FLAG_UNDEFINED_NON_LAZY :: u32 where "REFERENCE_FLAG_UNDEFINED_NON_LAZY = 0"
definition REFERENCE_FLAG_UNDEFINED_LAZY :: u32 where "REFERENCE_FLAG_UNDEFINED_LAZY = 1"
definition REFERENCE_FLAG_DEFINED :: u32 where "REFERENCE_FLAG_DEFINED = 2"
definition REFERENCE_FLAG_PRIVATE_DEFINED :: u32 where "REFERENCE_FLAG_PRIVATE_DEFINED = 3"
definition REFERENCE_FLAG_PRIVATE_UNDEFINED_NON_LAZY :: u32 where "REFERENCE_FLAG_PRIVATE_UNDEFINED_NON_LAZY = 4"
definition REFERENCE_FLAG_PRIVATE_UNDEFINED_LAZY :: u32 where "REFERENCE_FLAG_PRIVATE_UNDEFINED_LAZY = 5"

definition REFERENCED_DYNAMICALLY :: u32 where "REFERENCED_DYNAMICALLY = 16"

definition SELF_LIBRARY_ORDINAL :: u32 where "SELF_LIBRARY_ORDINAL = 0"
definition MAX_LIBRARY_ORDINAL :: u32 where "MAX_LIBRARY_ORDINAL = 253"
definition DYNAMIC_LOOKUP_ORDINAL :: u32 where "DYNAMIC_LOOKUP_ORDINAL = 254"
definition EXECUTABLE_ORDINAL :: u32 where "EXECUTABLE_ORDINAL = 255"

definition N_NO_DEAD_STRIP :: u32 where "N_NO_DEAD_STRIP = 32"
definition N_DESC_DISCARDED :: u32 where "N_DESC_DISCARDED = 32"
definition N_WEAK_REF :: u32 where "N_WEAK_REF = 64"
definition N_WEAK_DEF :: u32 where "N_WEAK_DEF = 128"
definition N_REF_TO_WEAK :: u32 where "N_REF_TO_WEAK = 128"
definition N_ARM_THUMB_DEF :: u32 where "N_ARM_THUMB_DEF = 8"
definition N_SYMBOL_RESOLVER :: u32 where "N_SYMBOL_RESOLVER = 0x100"
definition N_ALT_ENTRY :: u32 where "N_ALT_ENTRY = 0x200"

definition PLATFORM_MACOS :: u32 where "PLATFORM_MACOS = 1"
definition PLATFORM_IOS :: u32 where "PLATFORM_IOS = 2"
definition PLATFORM_TVOS :: u32 where "PLATFORM_TVOS = 3"
definition PLATFORM_WATCHOS :: u32 where "PLATFORM_WATCHOS = 4"
definition PLATFORM_BRIDGEOS :: u32 where "PLATFORM_BRIDGEOS = 5"
definition PLATFORM_MACCATALYST :: u32 where "PLATFORM_MACCATALYST = 6"
definition PLATFORM_IOSSIMULATOR :: u32 where "PLATFORM_IOSSIMULATOR = 7"
definition PLATFORM_TVOSSIMULATOR :: u32 where "PLATFORM_TVOSSIMULATOR = 8"
definition PLATFORM_WATCHOSSIMULATOR :: u32 where "PLATFORM_WATCHOSSIMULATOR = 9"
definition PLATFORM_DRIVERKIT :: u32 where "PLATFORM_DRIVERKIT = 10"

definition TOOL_CLANG :: u32 where "TOOL_CLANG = 1"
definition TOOL_SWIFT :: u32 where "TOOL_SWIFT = 2"
definition TOOL_LD :: u32 where "TOOL_LD = 3"
definition TOOL_MOLD :: u32 where "TOOL_MOLD = 0xd431"

definition OBJC_IMAGE_SUPPORTS_GC :: u32 where "OBJC_IMAGE_SUPPORTS_GC = push_bit 1 1"
definition OBJC_IMAGE_REQUIRES_GC :: u32 where "OBJC_IMAGE_REQUIRES_GC = push_bit 2 1"
definition OBJC_IMAGE_OPTIMIZED_BY_DYLD :: u32 where "OBJC_IMAGE_OPTIMIZED_BY_DYLD = push_bit 3 1"
definition OBJC_IMAGE_SUPPORTS_COMPACTION :: u32 where "OBJC_IMAGE_SUPPORTS_COMPACTION = push_bit 4 1"
definition OBJC_IMAGE_IS_SIMULATED :: u32 where "OBJC_IMAGE_IS_SIMULATED = push_bit 5 1"
definition OBJC_IMAGE_HAS_CATEGORY_CLASS_PROPERTIES :: u32 where "OBJC_IMAGE_HAS_CATEGORY_CLASS_PROPERTIES = push_bit 6 1"

definition LOH_ARM64_ADRP_ADRP :: u32 where "LOH_ARM64_ADRP_ADRP = 1"
definition LOH_ARM64_ADRP_LDR :: u32 where "LOH_ARM64_ADRP_LDR = 2"
definition LOH_ARM64_ADRP_ADD_LDR :: u32 where "LOH_ARM64_ADRP_ADD_LDR = 3"
definition LOH_ARM64_ADRP_LDR_GOT_LDR :: u32 where "LOH_ARM64_ADRP_LDR_GOT_LDR = 4"
definition LOH_ARM64_ADRP_ADD_STR :: u32 where "LOH_ARM64_ADRP_ADD_STR = 5"
definition LOH_ARM64_ADRP_LDR_GOT_STR :: u32 where "LOH_ARM64_ADRP_LDR_GOT_STR = 6"
definition LOH_ARM64_ADRP_ADD :: u32 where "LOH_ARM64_ADRP_ADD = 7"
definition LOH_ARM64_ADRP_LDR_GOT :: u32 where "LOH_ARM64_ADRP_LDR_GOT = 8"

definition ARM64_RELOC_UNSIGNED :: u32 where "ARM64_RELOC_UNSIGNED = 0"
definition ARM64_RELOC_SUBTRACTOR :: u32 where "ARM64_RELOC_SUBTRACTOR = 1"
definition ARM64_RELOC_BRANCH26 :: u32 where "ARM64_RELOC_BRANCH26 = 2"
definition ARM64_RELOC_PAGE21 :: u32 where "ARM64_RELOC_PAGE21 = 3"
definition ARM64_RELOC_PAGEOFF12 :: u32 where "ARM64_RELOC_PAGEOFF12 = 4"
definition ARM64_RELOC_GOT_LOAD_PAGE21 :: u32 where "ARM64_RELOC_GOT_LOAD_PAGE21 = 5"
definition ARM64_RELOC_GOT_LOAD_PAGEOFF12 :: u32 where "ARM64_RELOC_GOT_LOAD_PAGEOFF12 = 6"
definition ARM64_RELOC_POINTER_TO_GOT :: u32 where "ARM64_RELOC_POINTER_TO_GOT = 7"
definition ARM64_RELOC_TLVP_LOAD_PAGE21 :: u32 where "ARM64_RELOC_TLVP_LOAD_PAGE21 = 8"
definition ARM64_RELOC_TLVP_LOAD_PAGEOFF12 :: u32 where "ARM64_RELOC_TLVP_LOAD_PAGEOFF12 = 9"
definition ARM64_RELOC_ADDEND :: u32 where "ARM64_RELOC_ADDEND = 10"

lemmas ARM64_RELOC_defs =
  ARM64_RELOC_UNSIGNED_def ARM64_RELOC_SUBTRACTOR_def ARM64_RELOC_BRANCH26_def
  ARM64_RELOC_PAGE21_def ARM64_RELOC_PAGEOFF12_def ARM64_RELOC_GOT_LOAD_PAGE21_def
  ARM64_RELOC_GOT_LOAD_PAGEOFF12_def ARM64_RELOC_POINTER_TO_GOT_def
  ARM64_RELOC_TLVP_LOAD_PAGE21_def ARM64_RELOC_TLVP_LOAD_PAGEOFF12_def ARM64_RELOC_ADDEND_def

definition X86_64_RELOC_UNSIGNED :: u32 where "X86_64_RELOC_UNSIGNED = 0"
definition X86_64_RELOC_SIGNED :: u32 where "X86_64_RELOC_SIGNED = 1"
definition X86_64_RELOC_BRANCH :: u32 where "X86_64_RELOC_BRANCH = 2"
definition X86_64_RELOC_GOT_LOAD :: u32 where "X86_64_RELOC_GOT_LOAD = 3"
definition X86_64_RELOC_GOT :: u32 where "X86_64_RELOC_GOT = 4"
definition X86_64_RELOC_SUBTRACTOR :: u32 where "X86_64_RELOC_SUBTRACTOR = 5"
definition X86_64_RELOC_SIGNED_1 :: u32 where "X86_64_RELOC_SIGNED_1 = 6"
definition X86_64_RELOC_SIGNED_2 :: u32 where "X86_64_RELOC_SIGNED_2 = 7"
definition X86_64_RELOC_SIGNED_4 :: u32 where "X86_64_RELOC_SIGNED_4 = 8"
definition X86_64_RELOC_TLV :: u32 where "X86_64_RELOC_TLV = 9"

lemmas X86_64_RELOC_defs =
  X86_64_RELOC_UNSIGNED_def X86_64_RELOC_SIGNED_def X86_64_RELOC_BRANCH_def
  X86_64_RELOC_GOT_LOAD_def X86_64_RELOC_GOT_def X86_64_RELOC_SUBTRACTOR_def
  X86_64_RELOC_SIGNED_1_def X86_64_RELOC_SIGNED_2_def X86_64_RELOC_SIGNED_4_def
  X86_64_RELOC_TLV_def

definition UNWIND_SECTION_VERSION :: u32 where "UNWIND_SECTION_VERSION = 1"
definition UNWIND_SECOND_LEVEL_REGULAR :: u32 where "UNWIND_SECOND_LEVEL_REGULAR = 2"
definition UNWIND_SECOND_LEVEL_COMPRESSED :: u32 where "UNWIND_SECOND_LEVEL_COMPRESSED = 3"
definition UNWIND_PERSONALITY_MASK :: u32 where "UNWIND_PERSONALITY_MASK = 0x30000000"

definition UNWIND_MODE_MASK :: u32 where "UNWIND_MODE_MASK = 0xf000000"
definition UNWIND_ARM64_MODE_DWARF :: u32 where "UNWIND_ARM64_MODE_DWARF = 0x3000000"
definition UNWIND_X86_64_MODE_STACK_IND :: u32 where "UNWIND_X86_64_MODE_STACK_IND = 0x3000000"
definition UNWIND_X86_64_MODE_DWARF :: u32 where "UNWIND_X86_64_MODE_DWARF = 0x4000000"

lemmas UNWIND_MODE_defs =
  UNWIND_MODE_MASK_def UNWIND_ARM64_MODE_DWARF_def UNWIND_X86_64_MODE_STACK_IND_def
  UNWIND_X86_64_MODE_DWARF_def

definition CSMAGIC_EMBEDDED_SIGNATURE :: u32 where "CSMAGIC_EMBEDDED_SIGNATURE = 0xfade0cc0"
definition CS_SUPPORTSEXECSEG :: u32 where "CS_SUPPORTSEXECSEG = 0x20400"
definition CSMAGIC_CODEDIRECTORY :: u32 where "CSMAGIC_CODEDIRECTORY = 0xfade0c02"
definition CSSLOT_CODEDIRECTORY :: u32 where "CSSLOT_CODEDIRECTORY = 0"
definition CS_ADHOC :: u32 where "CS_ADHOC = 2"
definition CS_LINKER_SIGNED :: u32 where "CS_LINKER_SIGNED = 0x20000"
definition CS_EXECSEG_MAIN_BINARY :: u32 where "CS_EXECSEG_MAIN_BINARY = 1"
definition CS_HASHTYPE_SHA256 :: u32 where "CS_HASHTYPE_SHA256 = 2"

definition DYLD_CHAINED_PTR_ARM64E :: u32 where "DYLD_CHAINED_PTR_ARM64E = 1"
definition DYLD_CHAINED_PTR_64 :: u32 where "DYLD_CHAINED_PTR_64 = 2"
definition DYLD_CHAINED_PTR_32 :: u32 where "DYLD_CHAINED_PTR_32 = 3"
definition DYLD_CHAINED_PTR_32_CACHE :: u32 where "DYLD_CHAINED_PTR_32_CACHE = 4"
definition DYLD_CHAINED_PTR_32_FIRMWARE :: u32 where "DYLD_CHAINED_PTR_32_FIRMWARE = 5"
definition DYLD_CHAINED_PTR_START_NONE :: u32 where "DYLD_CHAINED_PTR_START_NONE = 0xffff"
definition DYLD_CHAINED_PTR_START_MULTI :: u32 where "DYLD_CHAINED_PTR_START_MULTI = 0x8000"
definition DYLD_CHAINED_PTR_START_LAST :: u32 where "DYLD_CHAINED_PTR_START_LAST = 0x8000"

definition DYLD_CHAINED_IMPORT :: u32 where "DYLD_CHAINED_IMPORT = 1"
definition DYLD_CHAINED_IMPORT_ADDEND :: u32 where "DYLD_CHAINED_IMPORT_ADDEND = 2"
definition DYLD_CHAINED_IMPORT_ADDEND64 :: u32 where "DYLD_CHAINED_IMPORT_ADDEND64 = 3"

definition DYLD_CHAINED_PTR_64_OFFSET :: u32 where "DYLD_CHAINED_PTR_64_OFFSET = 6"
definition DYLD_CHAINED_PTR_ARM64E_OFFSET :: u32 where "DYLD_CHAINED_PTR_ARM64E_OFFSET = 7"

subsection \<open>rel_to_string\<close>

definition rel_to_string_ARM64 :: "u8 \<Rightarrow> bytes" where
  "rel_to_string_ARM64 type =
     (let t = ucast type :: u32 in
      if t = ARM64_RELOC_UNSIGNED then str ''ARM64_RELOC_UNSIGNED''
      else if t = ARM64_RELOC_SUBTRACTOR then str ''ARM64_RELOC_SUBTRACTOR''
      else if t = ARM64_RELOC_BRANCH26 then str ''ARM64_RELOC_BRANCH26''
      else if t = ARM64_RELOC_PAGE21 then str ''ARM64_RELOC_PAGE21''
      else if t = ARM64_RELOC_PAGEOFF12 then str ''ARM64_RELOC_PAGEOFF12''
      else if t = ARM64_RELOC_GOT_LOAD_PAGE21 then str ''ARM64_RELOC_GOT_LOAD_PAGE21''
      else if t = ARM64_RELOC_GOT_LOAD_PAGEOFF12 then str ''ARM64_RELOC_GOT_LOAD_PAGEOFF12''
      else if t = ARM64_RELOC_POINTER_TO_GOT then str ''ARM64_RELOC_POINTER_TO_GOT''
      else if t = ARM64_RELOC_TLVP_LOAD_PAGE21 then str ''ARM64_RELOC_TLVP_LOAD_PAGE21''
      else if t = ARM64_RELOC_TLVP_LOAD_PAGEOFF12 then str ''ARM64_RELOC_TLVP_LOAD_PAGEOFF12''
      else if t = ARM64_RELOC_ADDEND then str ''ARM64_RELOC_ADDEND''
      else str ''unknown ('' @ to_string (unat type) @ str '')'')"

definition rel_to_string_X86_64 :: "u8 \<Rightarrow> bytes" where
  "rel_to_string_X86_64 type =
     (let t = ucast type :: u32 in
      if t = X86_64_RELOC_UNSIGNED then str ''X86_64_RELOC_UNSIGNED''
      else if t = X86_64_RELOC_SIGNED then str ''X86_64_RELOC_SIGNED''
      else if t = X86_64_RELOC_BRANCH then str ''X86_64_RELOC_BRANCH''
      else if t = X86_64_RELOC_GOT_LOAD then str ''X86_64_RELOC_GOT_LOAD''
      else if t = X86_64_RELOC_GOT then str ''X86_64_RELOC_GOT''
      else if t = X86_64_RELOC_SUBTRACTOR then str ''X86_64_RELOC_SUBTRACTOR''
      else if t = X86_64_RELOC_SIGNED_1 then str ''X86_64_RELOC_SIGNED_1''
      else if t = X86_64_RELOC_SIGNED_2 then str ''X86_64_RELOC_SIGNED_2''
      else if t = X86_64_RELOC_SIGNED_4 then str ''X86_64_RELOC_SIGNED_4''
      else if t = X86_64_RELOC_TLV then str ''X86_64_RELOC_TLV''
      else str ''unknown ('' @ to_string (unat type) @ str '')'')"

end
