(* ===== verification/MachO_Types.thy ===== *)
theory MachO_Types
  imports Codec BitFields MachO_Consts
begin

text \<open>
  The on-disk structures and the target descriptions of \<^verbatim>\<open>src/macho/macho.h\<close>. Every structure is a
  record with the members of the source (under a prefix of its own, since most of them share
  names) and an instance of the locale \<open>codec\<close>.
\<close>

subsection \<open>Targets\<close>

datatype target = Mach_X86_64 | Mach_ARM64 | Mach_ARM64_32

record target_desc =
  cputype :: u32
  cpusubtype :: u32
  page_size :: u32
  abs_rel :: u32
  subtractor_rel :: u32
  gotpc_rel :: u32
  stub_size :: u32
  stub_helper_hdr_size :: u32
  stub_helper_size :: u32
  unwind_mode_dwarf :: u32

fun tdesc :: "target \<Rightarrow> target_desc" where
  "tdesc Mach_ARM64 = \<lparr> cputype = CPU_TYPE_ARM64, cpusubtype = CPU_SUBTYPE_ARM64_ALL, page_size = 16384,
     abs_rel = ARM64_RELOC_UNSIGNED, subtractor_rel = ARM64_RELOC_SUBTRACTOR,
     gotpc_rel = ARM64_RELOC_POINTER_TO_GOT, stub_size = 12, stub_helper_hdr_size = 24,
     stub_helper_size = 12, unwind_mode_dwarf = UNWIND_ARM64_MODE_DWARF \<rparr>"
| "tdesc Mach_ARM64_32 = \<lparr> cputype = CPU_TYPE_ARM64_32, cpusubtype = CPU_SUBTYPE_ARM64_ALL,
     page_size = 16384, abs_rel = ARM64_RELOC_UNSIGNED, subtractor_rel = ARM64_RELOC_SUBTRACTOR,
     gotpc_rel = ARM64_RELOC_POINTER_TO_GOT, stub_size = 12, stub_helper_hdr_size = 24,
     stub_helper_size = 12, unwind_mode_dwarf = UNWIND_ARM64_MODE_DWARF \<rparr>"
| "tdesc Mach_X86_64 = \<lparr> cputype = CPU_TYPE_X86_64, cpusubtype = CPU_SUBTYPE_X86_64_ALL, page_size = 4096,
     abs_rel = X86_64_RELOC_UNSIGNED, subtractor_rel = X86_64_RELOC_SUBTRACTOR,
     gotpc_rel = X86_64_RELOC_GOT, stub_size = 6, stub_helper_hdr_size = 16, stub_helper_size = 10,
     unwind_mode_dwarf = UNWIND_X86_64_MODE_DWARF \<rparr>"

definition is_arm64_32 :: "target \<Rightarrow> bool" where
  "is_arm64_32 m \<longleftrightarrow> m = Mach_ARM64_32"

text \<open>\<^verbatim>\<open>Word<E>\<close> has 32 bits on arm64_32 and 64 bits on the other targets.\<close>

definition MWord_enc :: "target \<Rightarrow> u64 \<Rightarrow> bytes" where
  "MWord_enc m = (if is_arm64_32 m then iso_enc ucast ul32_enc else ul64_enc)"
definition MWord_dec :: "target \<Rightarrow> bytes \<Rightarrow> (u64 \<times> bytes) option" where
  "MWord_dec m = (if is_arm64_32 m then iso_dec ucast ul32_dec else ul64_dec)"
definition MWord_ok :: "target \<Rightarrow> u64 \<Rightarrow> bool" where
  "MWord_ok m w \<longleftrightarrow> (\<not> is_arm64_32 m \<or> unat w < 2 ^ 32)"
definition mword_bytes :: "target \<Rightarrow> nat" where
  "mword_bytes m = (if is_arm64_32 m then 4 else 8)"

lemma codec_MWord [codec_intros]: "codec (MWord_ok m) (MWord_enc m) (MWord_dec m) (mword_bytes m)"
proof (cases "is_arm64_32 m")
  case True
  have "codec (MWord_ok m) (iso_enc ucast ul32_enc) (iso_dec ucast ul32_dec) 4"
    by (rule codec_iso [OF int_codecs(4)])
      (simp_all only: MWord_ok_def True u32_in_u64 ucast_u32_u64 simp_thms)
  with True show ?thesis by (simp add: MWord_enc_def MWord_dec_def mword_bytes_def)
next
  case False
  then have "MWord_ok m = (\<lambda>_. True)" by (auto simp: MWord_ok_def)
  with False show ?thesis by (simp add: MWord_enc_def MWord_dec_def mword_bytes_def int_codecs)
qed

subsection \<open>Structures\<close>

record FatHeader =
  fat_magic :: u32
  fat_nfat_arch :: u32

definition FatHeader_enc :: "FatHeader \<Rightarrow> bytes" where
  "FatHeader_enc = iso_enc
     (\<lambda>s. (fat_magic s, fat_nfat_arch s))
     (pair_enc ub32_enc (ub32_enc))"

definition FatHeader_dec :: "bytes \<Rightarrow> (FatHeader \<times> bytes) option" where
  "FatHeader_dec = iso_dec
     (\<lambda>(x0, x1).
       \<lparr> fat_magic = x0, fat_nfat_arch = x1 \<rparr>)
     (pair_dec ub32_dec (ub32_dec))"

interpretation mfat: codec "\<lambda>_. True" "FatHeader_enc" "FatHeader_dec" "8"
  unfolding FatHeader_enc_def FatHeader_dec_def
  by (rule codec_struct, (rule codec_intros)+) (auto simp: pair_ok_def)

record FatArch =
  fa_cputype :: u32
  fa_cpusubtype :: u32
  fa_offset :: u32
  fa_size :: u32
  fa_align :: u32

definition FatArch_enc :: "FatArch \<Rightarrow> bytes" where
  "FatArch_enc = iso_enc
     (\<lambda>s. (fa_cputype s, fa_cpusubtype s, fa_offset s, fa_size s, fa_align s))
     (pair_enc ub32_enc (pair_enc ub32_enc (pair_enc ub32_enc (pair_enc ub32_enc
      (ub32_enc)))))"

definition FatArch_dec :: "bytes \<Rightarrow> (FatArch \<times> bytes) option" where
  "FatArch_dec = iso_dec
     (\<lambda>(x0, x1, x2, x3, x4).
       \<lparr> fa_cputype = x0, fa_cpusubtype = x1, fa_offset = x2, fa_size = x3, fa_align = x4 \<rparr>)
     (pair_dec ub32_dec (pair_dec ub32_dec (pair_dec ub32_dec (pair_dec ub32_dec
      (ub32_dec)))))"

interpretation mfa: codec "\<lambda>_. True" "FatArch_enc" "FatArch_dec" "20"
  unfolding FatArch_enc_def FatArch_dec_def
  by (rule codec_struct, (rule codec_intros)+) (auto simp: pair_ok_def)

record MachHeader =
  mh_magic :: u32
  mh_cputype :: u32
  mh_cpusubtype :: u32
  mh_filetype :: u32
  mh_ncmds :: u32
  mh_sizeofcmds :: u32
  mh_flags :: u32
  mh_reserved :: u32

definition MachHeader_enc :: "MachHeader \<Rightarrow> bytes" where
  "MachHeader_enc = iso_enc
     (\<lambda>s. (mh_magic s, mh_cputype s, mh_cpusubtype s, mh_filetype s, mh_ncmds s, mh_sizeofcmds s,
            mh_flags s, mh_reserved s))
     (pair_enc ul32_enc (pair_enc ul32_enc (pair_enc ul32_enc (pair_enc ul32_enc
      (pair_enc ul32_enc (pair_enc ul32_enc (pair_enc ul32_enc (ul32_enc))))))))"

definition MachHeader_dec :: "bytes \<Rightarrow> (MachHeader \<times> bytes) option" where
  "MachHeader_dec = iso_dec
     (\<lambda>(x0, x1, x2, x3, x4, x5, x6, x7).
       \<lparr> mh_magic = x0, mh_cputype = x1, mh_cpusubtype = x2, mh_filetype = x3, mh_ncmds = x4,
         mh_sizeofcmds = x5, mh_flags = x6, mh_reserved = x7 \<rparr>)
     (pair_dec ul32_dec (pair_dec ul32_dec (pair_dec ul32_dec (pair_dec ul32_dec
      (pair_dec ul32_dec (pair_dec ul32_dec (pair_dec ul32_dec (ul32_dec))))))))"

interpretation mmh: codec "\<lambda>_. True" "MachHeader_enc" "MachHeader_dec" "32"
  unfolding MachHeader_enc_def MachHeader_dec_def
  by (rule codec_struct, (rule codec_intros)+) (auto simp: pair_ok_def)

record LoadCommand =
  lc_cmd :: u32
  lc_cmdsize :: u32

definition LoadCommand_enc :: "LoadCommand \<Rightarrow> bytes" where
  "LoadCommand_enc = iso_enc
     (\<lambda>s. (lc_cmd s, lc_cmdsize s))
     (pair_enc ul32_enc (ul32_enc))"

definition LoadCommand_dec :: "bytes \<Rightarrow> (LoadCommand \<times> bytes) option" where
  "LoadCommand_dec = iso_dec
     (\<lambda>(x0, x1).
       \<lparr> lc_cmd = x0, lc_cmdsize = x1 \<rparr>)
     (pair_dec ul32_dec (ul32_dec))"

interpretation mlc: codec "\<lambda>_. True" "LoadCommand_enc" "LoadCommand_dec" "8"
  unfolding LoadCommand_enc_def LoadCommand_dec_def
  by (rule codec_struct, (rule codec_intros)+) (auto simp: pair_ok_def)

record SegmentCommand =
  seg_cmd :: u32
  seg_cmdsize :: u32
  seg_segname :: bytes
  seg_vmaddr :: u64
  seg_vmsize :: u64
  seg_fileoff :: u64
  seg_filesize :: u64
  seg_maxprot :: u32
  seg_initprot :: u32
  seg_nsects :: u32
  seg_flags :: u32

definition SegmentCommand_enc :: "target \<Rightarrow> SegmentCommand \<Rightarrow> bytes" where
  "SegmentCommand_enc m = iso_enc
     (\<lambda>s. (seg_cmd s, seg_cmdsize s, seg_segname s, seg_vmaddr s, seg_vmsize s, seg_fileoff s,
            seg_filesize s, seg_maxprot s, seg_initprot s, seg_nsects s, seg_flags s))
     (pair_enc ul32_enc (pair_enc ul32_enc (pair_enc (enc_list u8_enc)
      (pair_enc (MWord_enc m) (pair_enc (MWord_enc m) (pair_enc (MWord_enc m)
      (pair_enc (MWord_enc m) (pair_enc ul32_enc (pair_enc ul32_enc (pair_enc ul32_enc
      (ul32_enc)))))))))))"

definition SegmentCommand_dec :: "target \<Rightarrow> bytes \<Rightarrow> (SegmentCommand \<times> bytes) option" where
  "SegmentCommand_dec m = iso_dec
     (\<lambda>(x0, x1, x2, x3, x4, x5, x6, x7, x8, x9, x10).
       \<lparr> seg_cmd = x0, seg_cmdsize = x1, seg_segname = x2, seg_vmaddr = x3, seg_vmsize = x4,
         seg_fileoff = x5, seg_filesize = x6, seg_maxprot = x7, seg_initprot = x8,
         seg_nsects = x9, seg_flags = x10 \<rparr>)
     (pair_dec ul32_dec (pair_dec ul32_dec (pair_dec (dec_list u8_dec 16)
      (pair_dec (MWord_dec m) (pair_dec (MWord_dec m) (pair_dec (MWord_dec m)
      (pair_dec (MWord_dec m) (pair_dec ul32_dec (pair_dec ul32_dec (pair_dec ul32_dec
      (ul32_dec)))))))))))"

definition SegmentCommand_ok :: "target \<Rightarrow> SegmentCommand \<Rightarrow> bool" where
  "SegmentCommand_ok m s \<longleftrightarrow>
     length (seg_segname s) = 16 \<and> MWord_ok m (seg_vmaddr s) \<and> MWord_ok m (seg_vmsize s)
     \<and> MWord_ok m (seg_fileoff s) \<and> MWord_ok m (seg_filesize s)"

interpretation mseg: codec "SegmentCommand_ok m" "SegmentCommand_enc m" "SegmentCommand_dec m" "40 + 4 * mword_bytes m" for m
  unfolding SegmentCommand_enc_def SegmentCommand_dec_def
  by (rule codec_struct, (rule codec_intros)+) (auto simp: pair_ok_def SegmentCommand_ok_def)

record MachSection =
  sect_sectname :: bytes
  sect_segname :: bytes
  sect_addr :: u64
  sect_size :: u64
  sect_offset :: u32
  sect_p2align :: u32
  sect_reloff :: u32
  sect_nreloc :: u32
  sect_type :: u8
  sect_attr :: u32
  sect_reserved1 :: u32
  sect_reserved2 :: u32
  sect_reserved3 :: u32

definition MachSection_enc :: "target \<Rightarrow> MachSection \<Rightarrow> bytes" where
  "MachSection_enc m = iso_enc
     (\<lambda>s. (sect_sectname s, sect_segname s, sect_addr s, sect_size s, sect_offset s,
            sect_p2align s, sect_reloff s, sect_nreloc s, sect_type s, sect_attr s,
            sect_reserved1 s, sect_reserved2 s, sect_reserved3 s))
     (pair_enc (enc_list u8_enc) (pair_enc (enc_list u8_enc) (pair_enc (MWord_enc m)
      (pair_enc (MWord_enc m) (pair_enc ul32_enc (pair_enc ul32_enc (pair_enc ul32_enc
      (pair_enc ul32_enc (pair_enc u8_enc (pair_enc ul24_enc (pair_enc ul32_enc
      (pair_enc ul32_enc (ul32_enc)))))))))))))"

definition MachSection_dec :: "target \<Rightarrow> bytes \<Rightarrow> (MachSection \<times> bytes) option" where
  "MachSection_dec m = iso_dec
     (\<lambda>(x0, x1, x2, x3, x4, x5, x6, x7, x8, x9, x10, x11, x12).
       \<lparr> sect_sectname = x0, sect_segname = x1, sect_addr = x2, sect_size = x3, sect_offset = x4,
         sect_p2align = x5, sect_reloff = x6, sect_nreloc = x7, sect_type = x8, sect_attr = x9,
         sect_reserved1 = x10, sect_reserved2 = x11, sect_reserved3 = x12 \<rparr>)
     (pair_dec (dec_list u8_dec 16) (pair_dec (dec_list u8_dec 16)
      (pair_dec (MWord_dec m) (pair_dec (MWord_dec m) (pair_dec ul32_dec
      (pair_dec ul32_dec (pair_dec ul32_dec (pair_dec ul32_dec (pair_dec u8_dec
      (pair_dec ul24_dec (pair_dec ul32_dec (pair_dec ul32_dec (ul32_dec)))))))))))))"

definition MachSection_ok :: "target \<Rightarrow> MachSection \<Rightarrow> bool" where
  "MachSection_ok m s \<longleftrightarrow>
     length (sect_sectname s) = 16 \<and> length (sect_segname s) = 16 \<and>
     MWord_ok m (sect_addr s) \<and> MWord_ok m (sect_size s) \<and> fits 3 (sect_attr s)"

interpretation msect: codec "MachSection_ok m" "MachSection_enc m" "MachSection_dec m" "64 + 2 * mword_bytes m" for m
  unfolding MachSection_enc_def MachSection_dec_def
  by (rule codec_struct, (rule codec_intros)+) (auto simp: pair_ok_def MachSection_ok_def)

record DylibCommand =
  dylib_cmd :: u32
  dylib_cmdsize :: u32
  dylib_nameoff :: u32
  dylib_timestamp :: u32
  dylib_current_version :: u32
  dylib_compatibility_version :: u32

definition DylibCommand_enc :: "DylibCommand \<Rightarrow> bytes" where
  "DylibCommand_enc = iso_enc
     (\<lambda>s. (dylib_cmd s, dylib_cmdsize s, dylib_nameoff s, dylib_timestamp s,
            dylib_current_version s, dylib_compatibility_version s))
     (pair_enc ul32_enc (pair_enc ul32_enc (pair_enc ul32_enc (pair_enc ul32_enc
      (pair_enc ul32_enc (ul32_enc))))))"

definition DylibCommand_dec :: "bytes \<Rightarrow> (DylibCommand \<times> bytes) option" where
  "DylibCommand_dec = iso_dec
     (\<lambda>(x0, x1, x2, x3, x4, x5).
       \<lparr> dylib_cmd = x0, dylib_cmdsize = x1, dylib_nameoff = x2, dylib_timestamp = x3,
         dylib_current_version = x4, dylib_compatibility_version = x5 \<rparr>)
     (pair_dec ul32_dec (pair_dec ul32_dec (pair_dec ul32_dec (pair_dec ul32_dec
      (pair_dec ul32_dec (ul32_dec))))))"

interpretation mdylib: codec "\<lambda>_. True" "DylibCommand_enc" "DylibCommand_dec" "24"
  unfolding DylibCommand_enc_def DylibCommand_dec_def
  by (rule codec_struct, (rule codec_intros)+) (auto simp: pair_ok_def)

record DylinkerCommand =
  dylinker_cmd :: u32
  dylinker_cmdsize :: u32
  dylinker_nameoff :: u32

definition DylinkerCommand_enc :: "DylinkerCommand \<Rightarrow> bytes" where
  "DylinkerCommand_enc = iso_enc
     (\<lambda>s. (dylinker_cmd s, dylinker_cmdsize s, dylinker_nameoff s))
     (pair_enc ul32_enc (pair_enc ul32_enc (ul32_enc)))"

definition DylinkerCommand_dec :: "bytes \<Rightarrow> (DylinkerCommand \<times> bytes) option" where
  "DylinkerCommand_dec = iso_dec
     (\<lambda>(x0, x1, x2).
       \<lparr> dylinker_cmd = x0, dylinker_cmdsize = x1, dylinker_nameoff = x2 \<rparr>)
     (pair_dec ul32_dec (pair_dec ul32_dec (ul32_dec)))"

interpretation mdylinker: codec "\<lambda>_. True" "DylinkerCommand_enc" "DylinkerCommand_dec" "12"
  unfolding DylinkerCommand_enc_def DylinkerCommand_dec_def
  by (rule codec_struct, (rule codec_intros)+) (auto simp: pair_ok_def)

record SymtabCommand =
  symtab_cmd :: u32
  symtab_cmdsize :: u32
  symtab_symoff :: u32
  symtab_nsyms :: u32
  symtab_stroff :: u32
  symtab_strsize :: u32

definition SymtabCommand_enc :: "SymtabCommand \<Rightarrow> bytes" where
  "SymtabCommand_enc = iso_enc
     (\<lambda>s. (symtab_cmd s, symtab_cmdsize s, symtab_symoff s, symtab_nsyms s, symtab_stroff s,
            symtab_strsize s))
     (pair_enc ul32_enc (pair_enc ul32_enc (pair_enc ul32_enc (pair_enc ul32_enc
      (pair_enc ul32_enc (ul32_enc))))))"

definition SymtabCommand_dec :: "bytes \<Rightarrow> (SymtabCommand \<times> bytes) option" where
  "SymtabCommand_dec = iso_dec
     (\<lambda>(x0, x1, x2, x3, x4, x5).
       \<lparr> symtab_cmd = x0, symtab_cmdsize = x1, symtab_symoff = x2, symtab_nsyms = x3,
         symtab_stroff = x4, symtab_strsize = x5 \<rparr>)
     (pair_dec ul32_dec (pair_dec ul32_dec (pair_dec ul32_dec (pair_dec ul32_dec
      (pair_dec ul32_dec (ul32_dec))))))"

interpretation msymtab: codec "\<lambda>_. True" "SymtabCommand_enc" "SymtabCommand_dec" "24"
  unfolding SymtabCommand_enc_def SymtabCommand_dec_def
  by (rule codec_struct, (rule codec_intros)+) (auto simp: pair_ok_def)

record DysymtabCommand =
  dysymtab_cmd :: u32
  dysymtab_cmdsize :: u32
  dysymtab_ilocalsym :: u32
  dysymtab_nlocalsym :: u32
  dysymtab_iextdefsym :: u32
  dysymtab_nextdefsym :: u32
  dysymtab_iundefsym :: u32
  dysymtab_nundefsym :: u32
  dysymtab_tocoff :: u32
  dysymtab_ntoc :: u32
  dysymtab_modtaboff :: u32
  dysymtab_nmodtab :: u32
  dysymtab_extrefsymoff :: u32
  dysymtab_nextrefsyms :: u32
  dysymtab_indirectsymoff :: u32
  dysymtab_nindirectsyms :: u32
  dysymtab_extreloff :: u32
  dysymtab_nextrel :: u32
  dysymtab_locreloff :: u32
  dysymtab_nlocrel :: u32

definition DysymtabCommand_enc :: "DysymtabCommand \<Rightarrow> bytes" where
  "DysymtabCommand_enc = iso_enc
     (\<lambda>s. (dysymtab_cmd s, dysymtab_cmdsize s, dysymtab_ilocalsym s, dysymtab_nlocalsym s,
            dysymtab_iextdefsym s, dysymtab_nextdefsym s, dysymtab_iundefsym s,
            dysymtab_nundefsym s, dysymtab_tocoff s, dysymtab_ntoc s, dysymtab_modtaboff s,
            dysymtab_nmodtab s, dysymtab_extrefsymoff s, dysymtab_nextrefsyms s,
            dysymtab_indirectsymoff s, dysymtab_nindirectsyms s, dysymtab_extreloff s,
            dysymtab_nextrel s, dysymtab_locreloff s, dysymtab_nlocrel s))
     (pair_enc ul32_enc (pair_enc ul32_enc (pair_enc ul32_enc (pair_enc ul32_enc
      (pair_enc ul32_enc (pair_enc ul32_enc (pair_enc ul32_enc (pair_enc ul32_enc
      (pair_enc ul32_enc (pair_enc ul32_enc (pair_enc ul32_enc (pair_enc ul32_enc
      (pair_enc ul32_enc (pair_enc ul32_enc (pair_enc ul32_enc (pair_enc ul32_enc
      (pair_enc ul32_enc (pair_enc ul32_enc (pair_enc ul32_enc
      (ul32_enc))))))))))))))))))))"

definition DysymtabCommand_dec :: "bytes \<Rightarrow> (DysymtabCommand \<times> bytes) option" where
  "DysymtabCommand_dec = iso_dec
     (\<lambda>(x0, x1, x2, x3, x4, x5, x6, x7, x8, x9, x10, x11, x12, x13, x14, x15, x16, x17, x18, x19).
       \<lparr> dysymtab_cmd = x0, dysymtab_cmdsize = x1, dysymtab_ilocalsym = x2,
         dysymtab_nlocalsym = x3, dysymtab_iextdefsym = x4, dysymtab_nextdefsym = x5,
         dysymtab_iundefsym = x6, dysymtab_nundefsym = x7, dysymtab_tocoff = x8,
         dysymtab_ntoc = x9, dysymtab_modtaboff = x10, dysymtab_nmodtab = x11,
         dysymtab_extrefsymoff = x12, dysymtab_nextrefsyms = x13, dysymtab_indirectsymoff = x14,
         dysymtab_nindirectsyms = x15, dysymtab_extreloff = x16, dysymtab_nextrel = x17,
         dysymtab_locreloff = x18, dysymtab_nlocrel = x19 \<rparr>)
     (pair_dec ul32_dec (pair_dec ul32_dec (pair_dec ul32_dec (pair_dec ul32_dec
      (pair_dec ul32_dec (pair_dec ul32_dec (pair_dec ul32_dec (pair_dec ul32_dec
      (pair_dec ul32_dec (pair_dec ul32_dec (pair_dec ul32_dec (pair_dec ul32_dec
      (pair_dec ul32_dec (pair_dec ul32_dec (pair_dec ul32_dec (pair_dec ul32_dec
      (pair_dec ul32_dec (pair_dec ul32_dec (pair_dec ul32_dec
      (ul32_dec))))))))))))))))))))"

interpretation mdysymtab: codec "\<lambda>_. True" "DysymtabCommand_enc" "DysymtabCommand_dec" "80"
  unfolding DysymtabCommand_enc_def DysymtabCommand_dec_def
  by (rule codec_struct, (rule codec_intros)+) (auto simp: pair_ok_def)

record VersionMinCommand =
  vermin_cmd :: u32
  vermin_cmdsize :: u32
  vermin_version :: u32
  vermin_sdk :: u32

definition VersionMinCommand_enc :: "VersionMinCommand \<Rightarrow> bytes" where
  "VersionMinCommand_enc = iso_enc
     (\<lambda>s. (vermin_cmd s, vermin_cmdsize s, vermin_version s, vermin_sdk s))
     (pair_enc ul32_enc (pair_enc ul32_enc (pair_enc ul32_enc (ul32_enc))))"

definition VersionMinCommand_dec :: "bytes \<Rightarrow> (VersionMinCommand \<times> bytes) option" where
  "VersionMinCommand_dec = iso_dec
     (\<lambda>(x0, x1, x2, x3).
       \<lparr> vermin_cmd = x0, vermin_cmdsize = x1, vermin_version = x2, vermin_sdk = x3 \<rparr>)
     (pair_dec ul32_dec (pair_dec ul32_dec (pair_dec ul32_dec (ul32_dec))))"

interpretation mvermin: codec "\<lambda>_. True" "VersionMinCommand_enc" "VersionMinCommand_dec" "16"
  unfolding VersionMinCommand_enc_def VersionMinCommand_dec_def
  by (rule codec_struct, (rule codec_intros)+) (auto simp: pair_ok_def)

record DyldInfoCommand =
  dyldinfo_cmd :: u32
  dyldinfo_cmdsize :: u32
  dyldinfo_rebase_off :: u32
  dyldinfo_rebase_size :: u32
  dyldinfo_bind_off :: u32
  dyldinfo_bind_size :: u32
  dyldinfo_weak_bind_off :: u32
  dyldinfo_weak_bind_size :: u32
  dyldinfo_lazy_bind_off :: u32
  dyldinfo_lazy_bind_size :: u32
  dyldinfo_export_off :: u32
  dyldinfo_export_size :: u32

definition DyldInfoCommand_enc :: "DyldInfoCommand \<Rightarrow> bytes" where
  "DyldInfoCommand_enc = iso_enc
     (\<lambda>s. (dyldinfo_cmd s, dyldinfo_cmdsize s, dyldinfo_rebase_off s, dyldinfo_rebase_size s,
            dyldinfo_bind_off s, dyldinfo_bind_size s, dyldinfo_weak_bind_off s,
            dyldinfo_weak_bind_size s, dyldinfo_lazy_bind_off s, dyldinfo_lazy_bind_size s,
            dyldinfo_export_off s, dyldinfo_export_size s))
     (pair_enc ul32_enc (pair_enc ul32_enc (pair_enc ul32_enc (pair_enc ul32_enc
      (pair_enc ul32_enc (pair_enc ul32_enc (pair_enc ul32_enc (pair_enc ul32_enc
      (pair_enc ul32_enc (pair_enc ul32_enc (pair_enc ul32_enc (ul32_enc))))))))))))"

definition DyldInfoCommand_dec :: "bytes \<Rightarrow> (DyldInfoCommand \<times> bytes) option" where
  "DyldInfoCommand_dec = iso_dec
     (\<lambda>(x0, x1, x2, x3, x4, x5, x6, x7, x8, x9, x10, x11).
       \<lparr> dyldinfo_cmd = x0, dyldinfo_cmdsize = x1, dyldinfo_rebase_off = x2,
         dyldinfo_rebase_size = x3, dyldinfo_bind_off = x4, dyldinfo_bind_size = x5,
         dyldinfo_weak_bind_off = x6, dyldinfo_weak_bind_size = x7, dyldinfo_lazy_bind_off = x8,
         dyldinfo_lazy_bind_size = x9, dyldinfo_export_off = x10, dyldinfo_export_size = x11 \<rparr>)
     (pair_dec ul32_dec (pair_dec ul32_dec (pair_dec ul32_dec (pair_dec ul32_dec
      (pair_dec ul32_dec (pair_dec ul32_dec (pair_dec ul32_dec (pair_dec ul32_dec
      (pair_dec ul32_dec (pair_dec ul32_dec (pair_dec ul32_dec (ul32_dec))))))))))))"

interpretation mdyldinfo: codec "\<lambda>_. True" "DyldInfoCommand_enc" "DyldInfoCommand_dec" "48"
  unfolding DyldInfoCommand_enc_def DyldInfoCommand_dec_def
  by (rule codec_struct, (rule codec_intros)+) (auto simp: pair_ok_def)

record UUIDCommand =
  uuid_cmd :: u32
  uuid_cmdsize :: u32
  uuid_uuid :: bytes

definition UUIDCommand_enc :: "UUIDCommand \<Rightarrow> bytes" where
  "UUIDCommand_enc = iso_enc
     (\<lambda>s. (uuid_cmd s, uuid_cmdsize s, uuid_uuid s))
     (pair_enc ul32_enc (pair_enc ul32_enc (enc_list u8_enc)))"

definition UUIDCommand_dec :: "bytes \<Rightarrow> (UUIDCommand \<times> bytes) option" where
  "UUIDCommand_dec = iso_dec
     (\<lambda>(x0, x1, x2).
       \<lparr> uuid_cmd = x0, uuid_cmdsize = x1, uuid_uuid = x2 \<rparr>)
     (pair_dec ul32_dec (pair_dec ul32_dec (dec_list u8_dec 16)))"

definition UUIDCommand_ok :: "UUIDCommand \<Rightarrow> bool" where
  "UUIDCommand_ok s \<longleftrightarrow>
     length (uuid_uuid s) = 16"

interpretation muuid: codec "UUIDCommand_ok" "UUIDCommand_enc" "UUIDCommand_dec" "24"
  unfolding UUIDCommand_enc_def UUIDCommand_dec_def
  by (rule codec_struct, (rule codec_intros)+) (auto simp: pair_ok_def UUIDCommand_ok_def)

record RpathCommand =
  rpath_cmd :: u32
  rpath_cmdsize :: u32
  rpath_path_off :: u32

definition RpathCommand_enc :: "RpathCommand \<Rightarrow> bytes" where
  "RpathCommand_enc = iso_enc
     (\<lambda>s. (rpath_cmd s, rpath_cmdsize s, rpath_path_off s))
     (pair_enc ul32_enc (pair_enc ul32_enc (ul32_enc)))"

definition RpathCommand_dec :: "bytes \<Rightarrow> (RpathCommand \<times> bytes) option" where
  "RpathCommand_dec = iso_dec
     (\<lambda>(x0, x1, x2).
       \<lparr> rpath_cmd = x0, rpath_cmdsize = x1, rpath_path_off = x2 \<rparr>)
     (pair_dec ul32_dec (pair_dec ul32_dec (ul32_dec)))"

interpretation mrpath: codec "\<lambda>_. True" "RpathCommand_enc" "RpathCommand_dec" "12"
  unfolding RpathCommand_enc_def RpathCommand_dec_def
  by (rule codec_struct, (rule codec_intros)+) (auto simp: pair_ok_def)

record LinkEditDataCommand =
  led_cmd :: u32
  led_cmdsize :: u32
  led_dataoff :: u32
  led_datasize :: u32

definition LinkEditDataCommand_enc :: "LinkEditDataCommand \<Rightarrow> bytes" where
  "LinkEditDataCommand_enc = iso_enc
     (\<lambda>s. (led_cmd s, led_cmdsize s, led_dataoff s, led_datasize s))
     (pair_enc ul32_enc (pair_enc ul32_enc (pair_enc ul32_enc (ul32_enc))))"

definition LinkEditDataCommand_dec :: "bytes \<Rightarrow> (LinkEditDataCommand \<times> bytes) option" where
  "LinkEditDataCommand_dec = iso_dec
     (\<lambda>(x0, x1, x2, x3).
       \<lparr> led_cmd = x0, led_cmdsize = x1, led_dataoff = x2, led_datasize = x3 \<rparr>)
     (pair_dec ul32_dec (pair_dec ul32_dec (pair_dec ul32_dec (ul32_dec))))"

interpretation mled: codec "\<lambda>_. True" "LinkEditDataCommand_enc" "LinkEditDataCommand_dec" "16"
  unfolding LinkEditDataCommand_enc_def LinkEditDataCommand_dec_def
  by (rule codec_struct, (rule codec_intros)+) (auto simp: pair_ok_def)

record BuildToolVersion =
  btv_tool :: u32
  btv_version :: u32

definition BuildToolVersion_enc :: "BuildToolVersion \<Rightarrow> bytes" where
  "BuildToolVersion_enc = iso_enc
     (\<lambda>s. (btv_tool s, btv_version s))
     (pair_enc ul32_enc (ul32_enc))"

definition BuildToolVersion_dec :: "bytes \<Rightarrow> (BuildToolVersion \<times> bytes) option" where
  "BuildToolVersion_dec = iso_dec
     (\<lambda>(x0, x1).
       \<lparr> btv_tool = x0, btv_version = x1 \<rparr>)
     (pair_dec ul32_dec (ul32_dec))"

interpretation mbtv: codec "\<lambda>_. True" "BuildToolVersion_enc" "BuildToolVersion_dec" "8"
  unfolding BuildToolVersion_enc_def BuildToolVersion_dec_def
  by (rule codec_struct, (rule codec_intros)+) (auto simp: pair_ok_def)

record BuildVersionCommand =
  bver_cmd :: u32
  bver_cmdsize :: u32
  bver_platform :: u32
  bver_minos :: u32
  bver_sdk :: u32
  bver_ntools :: u32

definition BuildVersionCommand_enc :: "BuildVersionCommand \<Rightarrow> bytes" where
  "BuildVersionCommand_enc = iso_enc
     (\<lambda>s. (bver_cmd s, bver_cmdsize s, bver_platform s, bver_minos s, bver_sdk s, bver_ntools s))
     (pair_enc ul32_enc (pair_enc ul32_enc (pair_enc ul32_enc (pair_enc ul32_enc
      (pair_enc ul32_enc (ul32_enc))))))"

definition BuildVersionCommand_dec :: "bytes \<Rightarrow> (BuildVersionCommand \<times> bytes) option" where
  "BuildVersionCommand_dec = iso_dec
     (\<lambda>(x0, x1, x2, x3, x4, x5).
       \<lparr> bver_cmd = x0, bver_cmdsize = x1, bver_platform = x2, bver_minos = x3, bver_sdk = x4,
         bver_ntools = x5 \<rparr>)
     (pair_dec ul32_dec (pair_dec ul32_dec (pair_dec ul32_dec (pair_dec ul32_dec
      (pair_dec ul32_dec (ul32_dec))))))"

interpretation mbver: codec "\<lambda>_. True" "BuildVersionCommand_enc" "BuildVersionCommand_dec" "24"
  unfolding BuildVersionCommand_enc_def BuildVersionCommand_dec_def
  by (rule codec_struct, (rule codec_intros)+) (auto simp: pair_ok_def)

record EntryPointCommand =
  ep_cmd :: u32
  ep_cmdsize :: u32
  ep_entryoff :: u64
  ep_stacksize :: u64

definition EntryPointCommand_enc :: "EntryPointCommand \<Rightarrow> bytes" where
  "EntryPointCommand_enc = iso_enc
     (\<lambda>s. (ep_cmd s, ep_cmdsize s, ep_entryoff s, ep_stacksize s))
     (pair_enc ul32_enc (pair_enc ul32_enc (pair_enc ul64_enc (ul64_enc))))"

definition EntryPointCommand_dec :: "bytes \<Rightarrow> (EntryPointCommand \<times> bytes) option" where
  "EntryPointCommand_dec = iso_dec
     (\<lambda>(x0, x1, x2, x3).
       \<lparr> ep_cmd = x0, ep_cmdsize = x1, ep_entryoff = x2, ep_stacksize = x3 \<rparr>)
     (pair_dec ul32_dec (pair_dec ul32_dec (pair_dec ul64_dec (ul64_dec))))"

interpretation mep: codec "\<lambda>_. True" "EntryPointCommand_enc" "EntryPointCommand_dec" "24"
  unfolding EntryPointCommand_enc_def EntryPointCommand_dec_def
  by (rule codec_struct, (rule codec_intros)+) (auto simp: pair_ok_def)

record SourceVersionCommand =
  srcver_cmd :: u32
  srcver_cmdsize :: u32
  srcver_version :: u64

definition SourceVersionCommand_enc :: "SourceVersionCommand \<Rightarrow> bytes" where
  "SourceVersionCommand_enc = iso_enc
     (\<lambda>s. (srcver_cmd s, srcver_cmdsize s, srcver_version s))
     (pair_enc ul32_enc (pair_enc ul32_enc (ul64_enc)))"

definition SourceVersionCommand_dec :: "bytes \<Rightarrow> (SourceVersionCommand \<times> bytes) option" where
  "SourceVersionCommand_dec = iso_dec
     (\<lambda>(x0, x1, x2).
       \<lparr> srcver_cmd = x0, srcver_cmdsize = x1, srcver_version = x2 \<rparr>)
     (pair_dec ul32_dec (pair_dec ul32_dec (ul64_dec)))"

interpretation msrcver: codec "\<lambda>_. True" "SourceVersionCommand_enc" "SourceVersionCommand_dec" "16"
  unfolding SourceVersionCommand_enc_def SourceVersionCommand_dec_def
  by (rule codec_struct, (rule codec_intros)+) (auto simp: pair_ok_def)

record DataInCodeEntry =
  dice_offset :: u32
  dice_length :: u16
  dice_kind :: u16

definition DataInCodeEntry_enc :: "DataInCodeEntry \<Rightarrow> bytes" where
  "DataInCodeEntry_enc = iso_enc
     (\<lambda>s. (dice_offset s, dice_length s, dice_kind s))
     (pair_enc ul32_enc (pair_enc ul16_enc (ul16_enc)))"

definition DataInCodeEntry_dec :: "bytes \<Rightarrow> (DataInCodeEntry \<times> bytes) option" where
  "DataInCodeEntry_dec = iso_dec
     (\<lambda>(x0, x1, x2).
       \<lparr> dice_offset = x0, dice_length = x1, dice_kind = x2 \<rparr>)
     (pair_dec ul32_dec (pair_dec ul16_dec (ul16_dec)))"

interpretation mdice: codec "\<lambda>_. True" "DataInCodeEntry_enc" "DataInCodeEntry_dec" "8"
  unfolding DataInCodeEntry_enc_def DataInCodeEntry_dec_def
  by (rule codec_struct, (rule codec_intros)+) (auto simp: pair_ok_def)

record UmbrellaCommand =
  umb_cmd :: u32
  umb_cmdsize :: u32
  umb_umbrella_off :: u32

definition UmbrellaCommand_enc :: "UmbrellaCommand \<Rightarrow> bytes" where
  "UmbrellaCommand_enc = iso_enc
     (\<lambda>s. (umb_cmd s, umb_cmdsize s, umb_umbrella_off s))
     (pair_enc ul32_enc (pair_enc ul32_enc (ul32_enc)))"

definition UmbrellaCommand_dec :: "bytes \<Rightarrow> (UmbrellaCommand \<times> bytes) option" where
  "UmbrellaCommand_dec = iso_dec
     (\<lambda>(x0, x1, x2).
       \<lparr> umb_cmd = x0, umb_cmdsize = x1, umb_umbrella_off = x2 \<rparr>)
     (pair_dec ul32_dec (pair_dec ul32_dec (ul32_dec)))"

interpretation mumb: codec "\<lambda>_. True" "UmbrellaCommand_enc" "UmbrellaCommand_dec" "12"
  unfolding UmbrellaCommand_enc_def UmbrellaCommand_dec_def
  by (rule codec_struct, (rule codec_intros)+) (auto simp: pair_ok_def)

record LinkerOptionCommand =
  lopt_cmd :: u32
  lopt_cmdsize :: u32
  lopt_count :: u32

definition LinkerOptionCommand_enc :: "LinkerOptionCommand \<Rightarrow> bytes" where
  "LinkerOptionCommand_enc = iso_enc
     (\<lambda>s. (lopt_cmd s, lopt_cmdsize s, lopt_count s))
     (pair_enc ul32_enc (pair_enc ul32_enc (ul32_enc)))"

definition LinkerOptionCommand_dec :: "bytes \<Rightarrow> (LinkerOptionCommand \<times> bytes) option" where
  "LinkerOptionCommand_dec = iso_dec
     (\<lambda>(x0, x1, x2).
       \<lparr> lopt_cmd = x0, lopt_cmdsize = x1, lopt_count = x2 \<rparr>)
     (pair_dec ul32_dec (pair_dec ul32_dec (ul32_dec)))"

interpretation mlopt: codec "\<lambda>_. True" "LinkerOptionCommand_enc" "LinkerOptionCommand_dec" "12"
  unfolding LinkerOptionCommand_enc_def LinkerOptionCommand_dec_def
  by (rule codec_struct, (rule codec_intros)+) (auto simp: pair_ok_def)

record UnwindSectionHeader =
  ush_version :: u32
  ush_encoding_offset :: u32
  ush_encoding_count :: u32
  ush_personality_offset :: u32
  ush_personality_count :: u32
  ush_page_offset :: u32
  ush_page_count :: u32

definition UnwindSectionHeader_enc :: "UnwindSectionHeader \<Rightarrow> bytes" where
  "UnwindSectionHeader_enc = iso_enc
     (\<lambda>s. (ush_version s, ush_encoding_offset s, ush_encoding_count s, ush_personality_offset s,
            ush_personality_count s, ush_page_offset s, ush_page_count s))
     (pair_enc ul32_enc (pair_enc ul32_enc (pair_enc ul32_enc (pair_enc ul32_enc
      (pair_enc ul32_enc (pair_enc ul32_enc (ul32_enc)))))))"

definition UnwindSectionHeader_dec :: "bytes \<Rightarrow> (UnwindSectionHeader \<times> bytes) option" where
  "UnwindSectionHeader_dec = iso_dec
     (\<lambda>(x0, x1, x2, x3, x4, x5, x6).
       \<lparr> ush_version = x0, ush_encoding_offset = x1, ush_encoding_count = x2,
         ush_personality_offset = x3, ush_personality_count = x4, ush_page_offset = x5,
         ush_page_count = x6 \<rparr>)
     (pair_dec ul32_dec (pair_dec ul32_dec (pair_dec ul32_dec (pair_dec ul32_dec
      (pair_dec ul32_dec (pair_dec ul32_dec (ul32_dec)))))))"

interpretation mush: codec "\<lambda>_. True" "UnwindSectionHeader_enc" "UnwindSectionHeader_dec" "28"
  unfolding UnwindSectionHeader_enc_def UnwindSectionHeader_dec_def
  by (rule codec_struct, (rule codec_intros)+) (auto simp: pair_ok_def)

record UnwindFirstLevelPage =
  uflp_func_addr :: u32
  uflp_page_offset :: u32
  uflp_lsda_offset :: u32

definition UnwindFirstLevelPage_enc :: "UnwindFirstLevelPage \<Rightarrow> bytes" where
  "UnwindFirstLevelPage_enc = iso_enc
     (\<lambda>s. (uflp_func_addr s, uflp_page_offset s, uflp_lsda_offset s))
     (pair_enc ul32_enc (pair_enc ul32_enc (ul32_enc)))"

definition UnwindFirstLevelPage_dec :: "bytes \<Rightarrow> (UnwindFirstLevelPage \<times> bytes) option" where
  "UnwindFirstLevelPage_dec = iso_dec
     (\<lambda>(x0, x1, x2).
       \<lparr> uflp_func_addr = x0, uflp_page_offset = x1, uflp_lsda_offset = x2 \<rparr>)
     (pair_dec ul32_dec (pair_dec ul32_dec (ul32_dec)))"

interpretation muflp: codec "\<lambda>_. True" "UnwindFirstLevelPage_enc" "UnwindFirstLevelPage_dec" "12"
  unfolding UnwindFirstLevelPage_enc_def UnwindFirstLevelPage_dec_def
  by (rule codec_struct, (rule codec_intros)+) (auto simp: pair_ok_def)

record UnwindSecondLevelPage =
  uslp_kind :: u32
  uslp_page_offset :: u16
  uslp_page_count :: u16
  uslp_encoding_offset :: u16
  uslp_encoding_count :: u16

definition UnwindSecondLevelPage_enc :: "UnwindSecondLevelPage \<Rightarrow> bytes" where
  "UnwindSecondLevelPage_enc = iso_enc
     (\<lambda>s. (uslp_kind s, uslp_page_offset s, uslp_page_count s, uslp_encoding_offset s,
            uslp_encoding_count s))
     (pair_enc ul32_enc (pair_enc ul16_enc (pair_enc ul16_enc (pair_enc ul16_enc
      (ul16_enc)))))"

definition UnwindSecondLevelPage_dec :: "bytes \<Rightarrow> (UnwindSecondLevelPage \<times> bytes) option" where
  "UnwindSecondLevelPage_dec = iso_dec
     (\<lambda>(x0, x1, x2, x3, x4).
       \<lparr> uslp_kind = x0, uslp_page_offset = x1, uslp_page_count = x2, uslp_encoding_offset = x3,
         uslp_encoding_count = x4 \<rparr>)
     (pair_dec ul32_dec (pair_dec ul16_dec (pair_dec ul16_dec (pair_dec ul16_dec
      (ul16_dec)))))"

interpretation muslp: codec "\<lambda>_. True" "UnwindSecondLevelPage_enc" "UnwindSecondLevelPage_dec" "12"
  unfolding UnwindSecondLevelPage_enc_def UnwindSecondLevelPage_dec_def
  by (rule codec_struct, (rule codec_intros)+) (auto simp: pair_ok_def)

record UnwindLsdaEntry =
  ule_func_addr :: u32
  ule_lsda_addr :: u32

definition UnwindLsdaEntry_enc :: "UnwindLsdaEntry \<Rightarrow> bytes" where
  "UnwindLsdaEntry_enc = iso_enc
     (\<lambda>s. (ule_func_addr s, ule_lsda_addr s))
     (pair_enc ul32_enc (ul32_enc))"

definition UnwindLsdaEntry_dec :: "bytes \<Rightarrow> (UnwindLsdaEntry \<times> bytes) option" where
  "UnwindLsdaEntry_dec = iso_dec
     (\<lambda>(x0, x1).
       \<lparr> ule_func_addr = x0, ule_lsda_addr = x1 \<rparr>)
     (pair_dec ul32_dec (ul32_dec))"

interpretation mule: codec "\<lambda>_. True" "UnwindLsdaEntry_enc" "UnwindLsdaEntry_dec" "8"
  unfolding UnwindLsdaEntry_enc_def UnwindLsdaEntry_dec_def
  by (rule codec_struct, (rule codec_intros)+) (auto simp: pair_ok_def)

record UnwindPageEntry =
  upe_func_addr :: u32
  upe_encoding :: u8

definition UnwindPageEntry_enc :: "UnwindPageEntry \<Rightarrow> bytes" where
  "UnwindPageEntry_enc = iso_enc
     (\<lambda>s. (upe_func_addr s, upe_encoding s))
     (pair_enc ul24_enc (u8_enc))"

definition UnwindPageEntry_dec :: "bytes \<Rightarrow> (UnwindPageEntry \<times> bytes) option" where
  "UnwindPageEntry_dec = iso_dec
     (\<lambda>(x0, x1).
       \<lparr> upe_func_addr = x0, upe_encoding = x1 \<rparr>)
     (pair_dec ul24_dec (u8_dec))"

definition UnwindPageEntry_ok :: "UnwindPageEntry \<Rightarrow> bool" where
  "UnwindPageEntry_ok s \<longleftrightarrow>
     fits 3 (upe_func_addr s)"

interpretation mupe: codec "UnwindPageEntry_ok" "UnwindPageEntry_enc" "UnwindPageEntry_dec" "4"
  unfolding UnwindPageEntry_enc_def UnwindPageEntry_dec_def
  by (rule codec_struct, (rule codec_intros)+) (auto simp: pair_ok_def UnwindPageEntry_ok_def)

record CompactUnwindEntry =
  cue_code_start :: u64
  cue_code_len :: u32
  cue_encoding :: u32
  cue_personality :: u64
  cue_lsda :: u64

definition CompactUnwindEntry_enc :: "target \<Rightarrow> CompactUnwindEntry \<Rightarrow> bytes" where
  "CompactUnwindEntry_enc m = iso_enc
     (\<lambda>s. (cue_code_start s, cue_code_len s, cue_encoding s, cue_personality s, cue_lsda s))
     (pair_enc (MWord_enc m) (pair_enc ul32_enc (pair_enc ul32_enc (pair_enc (MWord_enc m)
      (MWord_enc m)))))"

definition CompactUnwindEntry_dec :: "target \<Rightarrow> bytes \<Rightarrow> (CompactUnwindEntry \<times> bytes) option" where
  "CompactUnwindEntry_dec m = iso_dec
     (\<lambda>(x0, x1, x2, x3, x4).
       \<lparr> cue_code_start = x0, cue_code_len = x1, cue_encoding = x2, cue_personality = x3,
         cue_lsda = x4 \<rparr>)
     (pair_dec (MWord_dec m) (pair_dec ul32_dec (pair_dec ul32_dec (pair_dec (MWord_dec m)
      (MWord_dec m)))))"

definition CompactUnwindEntry_ok :: "target \<Rightarrow> CompactUnwindEntry \<Rightarrow> bool" where
  "CompactUnwindEntry_ok m s \<longleftrightarrow>
     MWord_ok m (cue_code_start s) \<and> MWord_ok m (cue_personality s) \<and>
     MWord_ok m (cue_lsda s)"

interpretation mcue: codec "CompactUnwindEntry_ok m" "CompactUnwindEntry_enc m" "CompactUnwindEntry_dec m" "8 + 3 * mword_bytes m" for m
  unfolding CompactUnwindEntry_enc_def CompactUnwindEntry_dec_def
  by (rule codec_struct, (rule codec_intros)+) (auto simp: pair_ok_def CompactUnwindEntry_ok_def)

record CodeSignatureHeader =
  csh_magic :: u32
  csh_length :: u32
  csh_count :: u32

definition CodeSignatureHeader_enc :: "CodeSignatureHeader \<Rightarrow> bytes" where
  "CodeSignatureHeader_enc = iso_enc
     (\<lambda>s. (csh_magic s, csh_length s, csh_count s))
     (pair_enc ub32_enc (pair_enc ub32_enc (ub32_enc)))"

definition CodeSignatureHeader_dec :: "bytes \<Rightarrow> (CodeSignatureHeader \<times> bytes) option" where
  "CodeSignatureHeader_dec = iso_dec
     (\<lambda>(x0, x1, x2).
       \<lparr> csh_magic = x0, csh_length = x1, csh_count = x2 \<rparr>)
     (pair_dec ub32_dec (pair_dec ub32_dec (ub32_dec)))"

interpretation mcsh: codec "\<lambda>_. True" "CodeSignatureHeader_enc" "CodeSignatureHeader_dec" "12"
  unfolding CodeSignatureHeader_enc_def CodeSignatureHeader_dec_def
  by (rule codec_struct, (rule codec_intros)+) (auto simp: pair_ok_def)

record CodeSignatureBlobIndex =
  csbi_type :: u32
  csbi_offset :: u32
  csbi_padding :: u32

definition CodeSignatureBlobIndex_enc :: "CodeSignatureBlobIndex \<Rightarrow> bytes" where
  "CodeSignatureBlobIndex_enc = iso_enc
     (\<lambda>s. (csbi_type s, csbi_offset s, csbi_padding s))
     (pair_enc ub32_enc (pair_enc ub32_enc (ub32_enc)))"

definition CodeSignatureBlobIndex_dec :: "bytes \<Rightarrow> (CodeSignatureBlobIndex \<times> bytes) option" where
  "CodeSignatureBlobIndex_dec = iso_dec
     (\<lambda>(x0, x1, x2).
       \<lparr> csbi_type = x0, csbi_offset = x1, csbi_padding = x2 \<rparr>)
     (pair_dec ub32_dec (pair_dec ub32_dec (ub32_dec)))"

interpretation mcsbi: codec "\<lambda>_. True" "CodeSignatureBlobIndex_enc" "CodeSignatureBlobIndex_dec" "12"
  unfolding CodeSignatureBlobIndex_enc_def CodeSignatureBlobIndex_dec_def
  by (rule codec_struct, (rule codec_intros)+) (auto simp: pair_ok_def)

record CodeSignatureDirectory =
  csd_magic :: u32
  csd_length :: u32
  csd_version :: u32
  csd_flags :: u32
  csd_hash_offset :: u32
  csd_ident_offset :: u32
  csd_n_special_slots :: u32
  csd_n_code_slots :: u32
  csd_code_limit :: u32
  csd_hash_size :: u8
  csd_hash_type :: u8
  csd_platform :: u8
  csd_page_size :: u8
  csd_spare2 :: u32
  csd_scatter_offset :: u32
  csd_team_offset :: u32
  csd_spare3 :: u32
  csd_code_limit64 :: u64
  csd_exec_seg_base :: u64
  csd_exec_seg_limit :: u64
  csd_exec_seg_flags :: u64

definition CodeSignatureDirectory_enc :: "CodeSignatureDirectory \<Rightarrow> bytes" where
  "CodeSignatureDirectory_enc = iso_enc
     (\<lambda>s. (csd_magic s, csd_length s, csd_version s, csd_flags s, csd_hash_offset s,
            csd_ident_offset s, csd_n_special_slots s, csd_n_code_slots s, csd_code_limit s,
            csd_hash_size s, csd_hash_type s, csd_platform s, csd_page_size s, csd_spare2 s,
            csd_scatter_offset s, csd_team_offset s, csd_spare3 s, csd_code_limit64 s,
            csd_exec_seg_base s, csd_exec_seg_limit s, csd_exec_seg_flags s))
     (pair_enc ub32_enc (pair_enc ub32_enc (pair_enc ub32_enc (pair_enc ub32_enc
      (pair_enc ub32_enc (pair_enc ub32_enc (pair_enc ub32_enc (pair_enc ub32_enc
      (pair_enc ub32_enc (pair_enc u8_enc (pair_enc u8_enc (pair_enc u8_enc
      (pair_enc u8_enc (pair_enc ub32_enc (pair_enc ub32_enc (pair_enc ub32_enc
      (pair_enc ub32_enc (pair_enc ub64_enc (pair_enc ub64_enc (pair_enc ub64_enc
      (ub64_enc)))))))))))))))))))))"

definition CodeSignatureDirectory_dec :: "bytes \<Rightarrow> (CodeSignatureDirectory \<times> bytes) option" where
  "CodeSignatureDirectory_dec = iso_dec
     (\<lambda>(x0, x1, x2, x3, x4, x5, x6, x7, x8, x9, x10, x11, x12, x13, x14, x15, x16, x17, x18, x19,
       x20).
       \<lparr> csd_magic = x0, csd_length = x1, csd_version = x2, csd_flags = x3, csd_hash_offset = x4,
         csd_ident_offset = x5, csd_n_special_slots = x6, csd_n_code_slots = x7,
         csd_code_limit = x8, csd_hash_size = x9, csd_hash_type = x10, csd_platform = x11,
         csd_page_size = x12, csd_spare2 = x13, csd_scatter_offset = x14, csd_team_offset = x15,
         csd_spare3 = x16, csd_code_limit64 = x17, csd_exec_seg_base = x18,
         csd_exec_seg_limit = x19, csd_exec_seg_flags = x20 \<rparr>)
     (pair_dec ub32_dec (pair_dec ub32_dec (pair_dec ub32_dec (pair_dec ub32_dec
      (pair_dec ub32_dec (pair_dec ub32_dec (pair_dec ub32_dec (pair_dec ub32_dec
      (pair_dec ub32_dec (pair_dec u8_dec (pair_dec u8_dec (pair_dec u8_dec
      (pair_dec u8_dec (pair_dec ub32_dec (pair_dec ub32_dec (pair_dec ub32_dec
      (pair_dec ub32_dec (pair_dec ub64_dec (pair_dec ub64_dec (pair_dec ub64_dec
      (ub64_dec)))))))))))))))))))))"

interpretation mcsd: codec "\<lambda>_. True" "CodeSignatureDirectory_enc" "CodeSignatureDirectory_dec" "88"
  unfolding CodeSignatureDirectory_enc_def CodeSignatureDirectory_dec_def
  by (rule codec_struct, (rule codec_intros)+) (auto simp: pair_ok_def)

record ObjcImageInfo =
  oii_version :: u32
  oii_flags :: u8
  oii_swift_version :: u8
  oii_swift_lang_version :: u16

definition ObjcImageInfo_enc :: "ObjcImageInfo \<Rightarrow> bytes" where
  "ObjcImageInfo_enc = iso_enc
     (\<lambda>s. (oii_version s, oii_flags s, oii_swift_version s, oii_swift_lang_version s))
     (pair_enc ul32_enc (pair_enc u8_enc (pair_enc u8_enc (ul16_enc))))"

definition ObjcImageInfo_dec :: "bytes \<Rightarrow> (ObjcImageInfo \<times> bytes) option" where
  "ObjcImageInfo_dec = iso_dec
     (\<lambda>(x0, x1, x2, x3).
       \<lparr> oii_version = x0, oii_flags = x1, oii_swift_version = x2, oii_swift_lang_version = x3 \<rparr>)
     (pair_dec ul32_dec (pair_dec u8_dec (pair_dec u8_dec (ul16_dec))))"

interpretation moii: codec "\<lambda>_. True" "ObjcImageInfo_enc" "ObjcImageInfo_dec" "8"
  unfolding ObjcImageInfo_enc_def ObjcImageInfo_dec_def
  by (rule codec_struct, (rule codec_intros)+) (auto simp: pair_ok_def)

record DyldChainedFixupsHeader =
  dcfh_fixups_version :: u32
  dcfh_starts_offset :: u32
  dcfh_imports_offset :: u32
  dcfh_symbols_offset :: u32
  dcfh_imports_count :: u32
  dcfh_imports_format :: u32
  dcfh_symbols_format :: u32

definition DyldChainedFixupsHeader_enc :: "DyldChainedFixupsHeader \<Rightarrow> bytes" where
  "DyldChainedFixupsHeader_enc = iso_enc
     (\<lambda>s. (dcfh_fixups_version s, dcfh_starts_offset s, dcfh_imports_offset s,
            dcfh_symbols_offset s, dcfh_imports_count s, dcfh_imports_format s,
            dcfh_symbols_format s))
     (pair_enc ul32_enc (pair_enc ul32_enc (pair_enc ul32_enc (pair_enc ul32_enc
      (pair_enc ul32_enc (pair_enc ul32_enc (ul32_enc)))))))"

definition DyldChainedFixupsHeader_dec :: "bytes \<Rightarrow> (DyldChainedFixupsHeader \<times> bytes) option" where
  "DyldChainedFixupsHeader_dec = iso_dec
     (\<lambda>(x0, x1, x2, x3, x4, x5, x6).
       \<lparr> dcfh_fixups_version = x0, dcfh_starts_offset = x1, dcfh_imports_offset = x2,
         dcfh_symbols_offset = x3, dcfh_imports_count = x4, dcfh_imports_format = x5,
         dcfh_symbols_format = x6 \<rparr>)
     (pair_dec ul32_dec (pair_dec ul32_dec (pair_dec ul32_dec (pair_dec ul32_dec
      (pair_dec ul32_dec (pair_dec ul32_dec (ul32_dec)))))))"

interpretation mdcfh: codec "\<lambda>_. True" "DyldChainedFixupsHeader_enc" "DyldChainedFixupsHeader_dec" "28"
  unfolding DyldChainedFixupsHeader_enc_def DyldChainedFixupsHeader_dec_def
  by (rule codec_struct, (rule codec_intros)+) (auto simp: pair_ok_def)

subsection \<open>Section and segment names\<close>

text \<open>
  \<^verbatim>\<open>set_segname\<close> copies the name over the front of the array; \<^verbatim>\<open>get_segname\<close> stops at the first
  null byte or at the end (\<^verbatim>\<open>strnlen\<close>). The same code serves \<open>segname\<close> and \<open>sectname\<close>.
\<close>

definition set_name :: "bytes \<Rightarrow> bytes \<Rightarrow> bytes" where
  "set_name field nm = nm @ drop (length nm) field"

definition get_name :: "bytes \<Rightarrow> bytes" where
  "get_name field = takeWhile (\<lambda>c. c \<noteq> 0) (take 16 field)"

definition MachSection_set_segname :: "MachSection \<Rightarrow> bytes \<Rightarrow> MachSection" where
  "MachSection_set_segname s nm = s \<lparr> sect_segname := set_name (sect_segname s) nm \<rparr>"
definition MachSection_set_sectname :: "MachSection \<Rightarrow> bytes \<Rightarrow> MachSection" where
  "MachSection_set_sectname s nm = s \<lparr> sect_sectname := set_name (sect_sectname s) nm \<rparr>"
definition MachSection_get_segname :: "MachSection \<Rightarrow> bytes" where
  "MachSection_get_segname s = get_name (sect_segname s)"
definition MachSection_get_sectname :: "MachSection \<Rightarrow> bytes" where
  "MachSection_get_sectname s = get_name (sect_sectname s)"
definition SegmentCommand_get_segname :: "SegmentCommand \<Rightarrow> bytes" where
  "SegmentCommand_get_segname s = get_name (seg_segname s)"

definition MachSection_match :: "MachSection \<Rightarrow> bytes \<Rightarrow> bytes \<Rightarrow> bool" where
  "MachSection_match s segname sectname \<longleftrightarrow>
     MachSection_get_segname s = segname \<and> MachSection_get_sectname s = sectname"

definition MachSection_is_text :: "MachSection \<Rightarrow> bool" where
  "MachSection_is_text s \<longleftrightarrow>
     sect_attr s AND S_ATTR_SOME_INSTRUCTIONS \<noteq> 0 \<or> sect_attr s AND S_ATTR_PURE_INSTRUCTIONS \<noteq> 0"

lemma get_set_name:
  assumes "length nm \<le> 16" and "0 \<notin> set nm"
  shows "get_name (set_name (replicate 16 0) nm) = nm"
proof -
  have "takeWhile (\<lambda>c. c \<noteq> 0) (nm @ replicate k 0) = nm" for k
    using assms(2) by (subst takeWhile_append2) (auto simp: takeWhile_replicate)
  then show ?thesis using assms(1) by (simp add: get_name_def set_name_def)
qed

subsection \<open>Symbols and relocations\<close>

record MachSym =
  sym_stroff :: u32
  sym_is_extern :: u8
  sym_type :: u8
  sym_is_private_extern :: u8
  sym_stab :: u8
  sym_sect :: u8
  sym_desc :: u16
  sym_value :: u64

text \<open>The byte \<^verbatim>\<open>n_type\<close> that the bit fields share by a union.\<close>

definition sym_n_type :: "endian \<Rightarrow> MachSym \<Rightarrow> u8" where
  "sym_n_type host s =
     write_fields host [(1, sym_is_extern s), (3, sym_type s), (1, sym_is_private_extern s), (3, sym_stab s)]"

definition sym_of_n_type :: "endian \<Rightarrow> u32 \<Rightarrow> u8 \<Rightarrow> u8 \<Rightarrow> u16 \<Rightarrow> u64 \<Rightarrow> MachSym" where
  "sym_of_n_type host stroff n_type sect desc value =
     (let f = read_fields host [1, 3, 1, 3] n_type
      in \<lparr> sym_stroff = stroff, sym_is_extern = f ! 0, sym_type = f ! 1, sym_is_private_extern = f ! 2,
           sym_stab = f ! 3, sym_sect = sect, sym_desc = desc, sym_value = value \<rparr>)"

definition MachSym_enc :: "endian \<Rightarrow> target \<Rightarrow> MachSym \<Rightarrow> bytes" where
  "MachSym_enc host m = iso_enc
     (\<lambda>s. (sym_stroff s, sym_n_type host s, sym_sect s, sym_desc s, sym_value s))
     (pair_enc ul32_enc (pair_enc u8_enc (pair_enc u8_enc (pair_enc ul16_enc (MWord_enc m)))))"

definition MachSym_dec :: "endian \<Rightarrow> target \<Rightarrow> bytes \<Rightarrow> (MachSym \<times> bytes) option" where
  "MachSym_dec host m = iso_dec
     (\<lambda>(stroff, n_type, sect, desc, value). sym_of_n_type host stroff n_type sect desc value)
     (pair_dec ul32_dec (pair_dec u8_dec (pair_dec u8_dec (pair_dec ul16_dec (MWord_dec m)))))"

definition MachSym_ok :: "target \<Rightarrow> MachSym \<Rightarrow> bool" where
  "MachSym_ok m s \<longleftrightarrow> take_bit 1 (sym_is_extern s) = sym_is_extern s \<and> take_bit 3 (sym_type s) = sym_type s \<and>
     take_bit 1 (sym_is_private_extern s) = sym_is_private_extern s \<and>
     take_bit 3 (sym_stab s) = sym_stab s \<and> MWord_ok m (sym_value s)"

definition MachSym_is_common :: "MachSym \<Rightarrow> bool" where
  "MachSym_is_common s \<longleftrightarrow> ucast (sym_type s) = N_UNDF \<and> sym_is_extern s \<noteq> 0 \<and> sym_value s \<noteq> 0"

definition MachSym_is_undef :: "MachSym \<Rightarrow> bool" where
  "MachSym_is_undef s \<longleftrightarrow> ucast (sym_type s) = N_UNDF \<and> \<not> MachSym_is_common s"

text \<open>\<^verbatim>\<open>common_p2align\<close> is the first bit field of the second byte of \<^verbatim>\<open>desc\<close>.\<close>

definition common_p2align :: "endian \<Rightarrow> MachSym \<Rightarrow> u8" where
  "common_p2align host s = read_fields host [4, 4] (ucast (drop_bit 8 (sym_desc s))) ! 0"

lemma read_fields_nth:
  "i < length ws \<Longrightarrow> take_bit (ws ! i) (read_fields host ws b ! i) = read_fields host ws b ! i"
  using read_fields_fit [of ws host b] by (simp add: list_all2_conv_all_nth)

lemma nth_read4:
  assumes "length xs = 4"
  shows "xs = [xs ! 0, xs ! 1, xs ! 2, xs ! 3]"
  using assms by (auto simp: length_Suc_conv numeral_eq_Suc)

lemma length_read_fields [simp]: "length (read_fields host ws b) = length ws"
  by (cases host) (simp_all add: read_fields_def)

lemma sym_of_n_type_sym:
  "MachSym_ok m s \<Longrightarrow>
     sym_of_n_type host (sym_stroff s) (sym_n_type host s) (sym_sect s) (sym_desc s) (sym_value s) = s"
  using read_write_fields
    [of "[(1, sym_is_extern s), (3, sym_type s), (1, sym_is_private_extern s), (3, sym_stab s)]" host]
  by (simp add: MachSym_ok_def sym_of_n_type_def sym_n_type_def Let_def)

lemma sym_n_type_sym_of:
  "sym_n_type host (sym_of_n_type host stroff b sect desc value) = b"
  using write_read_fields [of "[1, 3, 1, 3]" host b] nth_read4 [of "read_fields host [1, 3, 1, 3] b"]
  by (simp add: sym_n_type_def sym_of_n_type_def Let_def) (metis zip_Cons_Cons zip_Nil)

lemma sym_of_n_type_ok: "MWord_ok m value \<Longrightarrow> MachSym_ok m (sym_of_n_type host stroff b sect desc value)"
  using read_fields_nth [of 0 "[1, 3, 1, 3]" host b] read_fields_nth [of 1 "[1, 3, 1, 3]" host b]
    read_fields_nth [of 2 "[1, 3, 1, 3]" host b] read_fields_nth [of 3 "[1, 3, 1, 3]" host b]
  by (simp add: MachSym_ok_def sym_of_n_type_def Let_def)

lemma sym_of_n_type_sel [simp]:
  "sym_stroff (sym_of_n_type host stroff b sect desc value) = stroff"
  "sym_sect (sym_of_n_type host stroff b sect desc value) = sect"
  "sym_desc (sym_of_n_type host stroff b sect desc value) = desc"
  "sym_value (sym_of_n_type host stroff b sect desc value) = value"
  by (simp_all add: sym_of_n_type_def Let_def)

interpretation msym: codec "MachSym_ok m" "MachSym_enc host m" "MachSym_dec host m" "8 + mword_bytes m" for host m
  unfolding MachSym_enc_def MachSym_dec_def
  by (rule codec_struct, (rule codec_intros)+)
    (auto simp: pair_ok_def sym_of_n_type_sym sym_n_type_sym_of sym_of_n_type_ok, simp_all add: MachSym_ok_def)

record MachRel =
  rel_offset :: u32
  rel_idx :: u32
  rel_is_pcrel :: u8
  rel_p2size :: u8
  rel_is_extern :: u8
  rel_type :: u8

definition rel_bits :: "endian \<Rightarrow> MachRel \<Rightarrow> u8" where
  "rel_bits host r =
     write_fields host [(1, rel_is_pcrel r), (2, rel_p2size r), (1, rel_is_extern r), (4, rel_type r)]"

definition rel_of_bits :: "endian \<Rightarrow> u32 \<Rightarrow> u32 \<Rightarrow> u8 \<Rightarrow> MachRel" where
  "rel_of_bits host offset idx b =
     (let f = read_fields host [1, 2, 1, 4] b
      in \<lparr> rel_offset = offset, rel_idx = idx, rel_is_pcrel = f ! 0, rel_p2size = f ! 1,
           rel_is_extern = f ! 2, rel_type = f ! 3 \<rparr>)"

definition MachRel_enc :: "endian \<Rightarrow> MachRel \<Rightarrow> bytes" where
  "MachRel_enc host = iso_enc (\<lambda>r. (rel_offset r, rel_idx r, rel_bits host r))
     (pair_enc ul32_enc (pair_enc ul24_enc u8_enc))"

definition MachRel_dec :: "endian \<Rightarrow> bytes \<Rightarrow> (MachRel \<times> bytes) option" where
  "MachRel_dec host = iso_dec (\<lambda>(offset, idx, b). rel_of_bits host offset idx b)
     (pair_dec ul32_dec (pair_dec ul24_dec u8_dec))"

definition MachRel_ok :: "MachRel \<Rightarrow> bool" where
  "MachRel_ok r \<longleftrightarrow> fits 3 (rel_idx r) \<and> take_bit 1 (rel_is_pcrel r) = rel_is_pcrel r \<and>
     take_bit 2 (rel_p2size r) = rel_p2size r \<and> take_bit 1 (rel_is_extern r) = rel_is_extern r \<and>
     take_bit 4 (rel_type r) = rel_type r"

lemma rel_of_bits_rel:
  "MachRel_ok r \<Longrightarrow> rel_of_bits host (rel_offset r) (rel_idx r) (rel_bits host r) = r"
  using read_write_fields
    [of "[(1, rel_is_pcrel r), (2, rel_p2size r), (1, rel_is_extern r), (4, rel_type r)]" host]
  by (simp add: MachRel_ok_def rel_of_bits_def rel_bits_def Let_def)

lemma rel_bits_rel_of: "rel_bits host (rel_of_bits host offset idx b) = b"
  using write_read_fields [of "[1, 2, 1, 4]" host b] nth_read4 [of "read_fields host [1, 2, 1, 4] b"]
  by (simp add: rel_bits_def rel_of_bits_def Let_def) (metis zip_Cons_Cons zip_Nil)

lemma rel_of_bits_ok: "fits 3 idx \<Longrightarrow> MachRel_ok (rel_of_bits host offset idx b)"
  using read_fields_nth [of 0 "[1, 2, 1, 4]" host b] read_fields_nth [of 1 "[1, 2, 1, 4]" host b]
    read_fields_nth [of 2 "[1, 2, 1, 4]" host b] read_fields_nth [of 3 "[1, 2, 1, 4]" host b]
  by (simp add: MachRel_ok_def rel_of_bits_def Let_def)

lemma rel_of_bits_sel [simp]:
  "rel_offset (rel_of_bits host offset idx b) = offset" "rel_idx (rel_of_bits host offset idx b) = idx"
  by (simp_all add: rel_of_bits_def Let_def)

interpretation mrel: codec MachRel_ok "MachRel_enc host" "MachRel_dec host" 8 for host
  unfolding MachRel_enc_def MachRel_dec_def
  by (rule codec_struct, (rule codec_intros)+)
    (auto simp: pair_ok_def rel_of_bits_rel rel_bits_rel_of rel_of_bits_ok, simp_all add: MachRel_ok_def)

subsection \<open>Chained fixups\<close>

text \<open>
  A pointer of a fixup chain is one native 64-bit word of bit fields; the linker's own hosts are
  little-endian, where the fields follow each other from the low bit.
\<close>

record DyldChainedPtr64Rebase =
  rb_target :: u64
  rb_high8 :: u64
  rb_reserved :: u64
  rb_next :: u64
  rb_bind :: u64

record DyldChainedPtr64Bind =
  bd_ordinal :: u64
  bd_addend :: u64
  bd_reserved :: u64
  bd_next :: u64
  bd_bind :: u64

definition DyldChainedPtr64Rebase_enc :: "endian \<Rightarrow> DyldChainedPtr64Rebase \<Rightarrow> bytes" where
  "DyldChainedPtr64Rebase_enc host p = mem_store host (write_fields host
     [(36, rb_target p), (8, rb_high8 p), (7, rb_reserved p), (12, rb_next p), (1, rb_bind p)])"

definition DyldChainedPtr64Bind_enc :: "endian \<Rightarrow> DyldChainedPtr64Bind \<Rightarrow> bytes" where
  "DyldChainedPtr64Bind_enc host p = mem_store host (write_fields host
     [(24, bd_ordinal p), (8, bd_addend p), (19, bd_reserved p), (12, bd_next p), (1, bd_bind p)])"

text \<open>What the loader tests first: the last bit of a pointer tells a bind from a rebase.\<close>

lemma chained_bind_bit:
  assumes "DyldChainedPtr64Rebase_enc LittleHost p = ul64_enc w"
  shows "bit w 63 \<longleftrightarrow> bit (rb_bind p) 0"
    and "take_bit 36 w = take_bit 36 (rb_target p)"
proof -
  have "le_bytes 8 (write_fields LittleHost [(36, rb_target p), (8, rb_high8 p), (7, rb_reserved p),
      (12, rb_next p), (1, rb_bind p)]) = le_bytes 8 w"
    using assms
    by (simp add: DyldChainedPtr64Rebase_enc_def mem_store_def sizeof_def le_enc_def LE_set_def)
  then have w: "w = write_fields LittleHost [(36, rb_target p), (8, rb_high8 p), (7, rb_reserved p),
      (12, rb_next p), (1, rb_bind p)]"
    by (intro le_bytes_inj [of 8]) simp_all
  show "bit w 63 \<longleftrightarrow> bit (rb_bind p) 0"
    by (simp add: w write_fields_def bit_simps bit_0)
  show "take_bit 36 w = take_bit 36 (rb_target p)"
    by (rule bit_word_eqI) (auto simp: w write_fields_def bit_simps)
qed

subsection \<open>Properties\<close>


definition sample_segment :: SegmentCommand where
  "sample_segment = \<lparr> seg_cmd = LC_SEGMENT_64, seg_cmdsize = 152, seg_segname = str ''__TEXT'' @ replicate 10 0,
     seg_vmaddr = 0x100000000, seg_vmsize = 0x4000, seg_fileoff = 0, seg_filesize = 0x4000, seg_maxprot = 5,
     seg_initprot = 5, seg_nsects = 1, seg_flags = 0 \<rparr>"
definition sample_section :: MachSection where
  "sample_section = \<lparr> sect_sectname = str ''__text'' @ replicate 10 0, sect_segname = str ''__TEXT'' @ replicate 10 0,
     sect_addr = 0x100000f00, sect_size = 64, sect_offset = 0xf00, sect_p2align = 4, sect_reloff = 0,
     sect_nreloc = 0, sect_type = 0, sect_attr = 0x800000, sect_reserved1 = 0, sect_reserved2 = 0,
     sect_reserved3 = 0 \<rparr>"
definition msample_sym :: MachSym where
  "msample_sym = \<lparr> sym_stroff = 1, sym_is_extern = 1, sym_type = 7, sym_is_private_extern = 0, sym_stab = 0,
     sym_sect = 1, sym_desc = 0, sym_value = 0x100000f00 \<rparr>"
definition sample_rel :: MachRel where
  "sample_rel = \<lparr> rel_offset = 16, rel_idx = 3, rel_is_pcrel = 1, rel_p2size = 2, rel_is_extern = 1, rel_type = 2 \<rparr>"

lemma sample_ok:
  "SegmentCommand_ok Mach_ARM64 sample_segment" "MachSection_ok Mach_ARM64 sample_section"
  "MachSym_ok Mach_ARM64 msample_sym" "MachRel_ok sample_rel"
  by (simp_all add: SegmentCommand_ok_def MachSection_ok_def MachSym_ok_def MachRel_ok_def sample_segment_def
      sample_section_def msample_sym_def sample_rel_def MWord_ok_def is_arm64_32_def fits_def
      take_bit_eq_mask mask_eq_exp_minus_1)


text \<open>
  a section or segment name of up to 16 bytes without a null byte, stored into a zeroed
  header, is read back exactly, also when it fills all 16 bytes and there is no terminator.
\<close>

theorem section_name_roundtrip:
  assumes "length nm \<le> 16" and "0 \<notin> set nm" and "sect_segname s = replicate 16 0"
  shows "MachSection_get_segname (MachSection_set_segname s nm) = nm"
  using get_set_name [OF assms(1, 2)] assms(3)
  by (simp add: MachSection_get_segname_def MachSection_set_segname_def)

theorem section_name_roundtrip_witness:
  "MachSection_get_segname
     (MachSection_set_segname (sample_section \<lparr> sect_segname := replicate 16 0 \<rparr>) (str ''__DATA_CONST'')) = str ''__DATA_CONST''"
  by (rule section_name_roundtrip) (simp_all add: str_def)

text \<open>
  unlike the ELF symbol, the Mach-O symbol and relocation declare their bit fields in one
  order only, so their bytes depend on the host: the external section symbol and the branch
  relocation below have the bytes of the format on a little-endian host and others on a
  big-endian host.
\<close>

theorem macho_bitfields_host_dependent:
  "sym_n_type LittleHost msample_sym = 0x0f \<and> sym_n_type BigHost msample_sym = 0xf0 \<and>
   rel_bits LittleHost sample_rel = 0x2d \<and> rel_bits BigHost sample_rel = 0xd2"
  by (simp add: sym_n_type_def rel_bits_def write_fields_def msample_sym_def sample_rel_def
      take_bit_eq_mask mask_eq_exp_minus_1 push_bit_eq_mult)

end
