(* ===== verification/MachO_Rebase.thy ===== *)
theory MachO_Rebase
  imports Leb Bits MachO_Consts
begin

text \<open>
  The rebase opcodes of \<^verbatim>\<open>src/macho/output-chunks.cc\<close> (\<^verbatim>\<open>encode_rebase_entries\<close>). The specification is the
  machine that interprets them in the dynamic loader: it keeps a segment and an offset, and
  every rebase it performs is an element of its output. The encoder is right when the machine
  performs exactly the rebases of the entries.
\<close>

subsection \<open>Opcode bytes\<close>

definition op_byte :: "u32 \<Rightarrow> int \<Rightarrow> u8" where
  "op_byte opcode imm = ucast opcode OR of_int imm"

lemma op_byte_split:
  assumes "take_bit 4 (ucast opcode :: u8) = 0" and "0 \<le> imm" and "imm < 16"
  shows "op_byte opcode imm AND 0xf0 = ucast opcode" and "unat (op_byte opcode imm AND 0x0f) = nat imm"
proof -
  have m: "(0x0f :: u8) = mask 4" "(0xf0 :: u8) = NOT (mask 4)" by (simp_all add: mask_eq_exp_minus_1)
  have "uint (of_int imm :: u8) = imm" using assms(2, 3) by (simp add: uint_word_of_int)
  then have u: "unat (of_int imm :: u8) = nat imm" by (metis unat_eq_nat_uint)
  have "unat (take_bit 4 (of_int imm :: u8)) = unat (of_int imm :: u8)"
    using assms(2, 3) by (simp add: unat_take_bit u)
  then have i: "take_bit 4 (of_int imm :: u8) = of_int imm" by (simp add: word_unat_eq_iff)
  then have n: "bit (of_int imm :: u8) n \<Longrightarrow> n < 4" for n by (metis bit_take_bit_iff)
  have o: "bit (ucast opcode :: u8) n \<Longrightarrow> 4 \<le> n" for n
    using assms(1) by (metis bit_0_eq bit_take_bit_iff bot_apply bot_bool_def not_le)
  show "op_byte opcode imm AND 0xf0 = ucast opcode"
    unfolding op_byte_def m
  proof (rule bit_word_eqI)
    fix k assume "k < LENGTH(8)"
    then show "bit ((ucast opcode OR of_int imm) AND NOT (mask 4) :: u8) k = bit (ucast opcode :: u8) k"
      using n [of k] o [of k] by (auto simp: bit_and_iff bit_or_iff bit_not_iff bit_mask_iff)
  qed
  have "op_byte opcode imm AND 0x0f = of_int imm"
    unfolding op_byte_def m
  proof (rule bit_word_eqI)
    fix k assume "k < LENGTH(8)"
    show "bit ((ucast opcode OR of_int imm) AND mask 4 :: u8) k = bit (of_int imm :: u8) k"
      using n [of k] o [of k] by (auto simp: bit_and_iff bit_or_iff bit_mask_iff)
  qed
  with u show "unat (op_byte opcode imm AND 0x0f) = nat imm" by simp
qed

text \<open>\<^verbatim>\<open>buf.resize(align_to(buf.size(), 8))\<close>\<close>

definition pad8 :: "bytes \<Rightarrow> bytes" where
  "pad8 buf = buf @ replicate (unat (align_to (of_nat (length buf)) 8) - length buf) 0"

subsection \<open>Entries\<close>

datatype RebaseEntry = RebaseEntry (re_seg_idx: int) (re_offset: int)

text \<open>The defaulted \<^verbatim>\<open>operator<=>\<close> compares the members in order.\<close>

instantiation RebaseEntry :: linorder
begin

definition less_eq_RebaseEntry :: "RebaseEntry \<Rightarrow> RebaseEntry \<Rightarrow> bool" where
  "less_eq_RebaseEntry a b \<longleftrightarrow> re_seg_idx a < re_seg_idx b \<or> (re_seg_idx a = re_seg_idx b \<and> re_offset a \<le> re_offset b)"

definition less_RebaseEntry :: "RebaseEntry \<Rightarrow> RebaseEntry \<Rightarrow> bool" where
  "less_RebaseEntry a b \<longleftrightarrow> re_seg_idx a < re_seg_idx b \<or> (re_seg_idx a = re_seg_idx b \<and> re_offset a < re_offset b)"

instance
  by standard (auto simp: less_eq_RebaseEntry_def less_RebaseEntry_def RebaseEntry.expand)

end

subsection \<open>The encoder\<close>

definition rebase_pos :: "RebaseEntry option \<Rightarrow> RebaseEntry \<Rightarrow> bytes \<Rightarrow> bytes" where
  "rebase_pos prev cur buf =
     (case prev of
        Some l \<Rightarrow>
          if re_seg_idx l \<noteq> re_seg_idx cur \<or> re_offset cur - re_offset l - 8 < 0
          then encode_uleb (buf @ [op_byte REBASE_OPCODE_SET_SEGMENT_AND_OFFSET_ULEB (re_seg_idx cur)])
                 (of_int (re_offset cur))
          else let dist = re_offset cur - re_offset l - 8
               in if dist mod 8 = 0 \<and> dist < 128
                  then buf @ [op_byte REBASE_OPCODE_ADD_ADDR_IMM_SCALED (dist div 8)]
                  else encode_uleb (buf @ [op_byte REBASE_OPCODE_ADD_ADDR_ULEB 0]) (of_int dist)
      | None \<Rightarrow>
          encode_uleb (buf @ [op_byte REBASE_OPCODE_SET_SEGMENT_AND_OFFSET_ULEB (re_seg_idx cur)])
            (of_int (re_offset cur)))"

text \<open>How many entries follow the first without a gap (\<^verbatim>\<open>j - i - 1\<close>).\<close>

fun run_len :: "RebaseEntry \<Rightarrow> RebaseEntry list \<Rightarrow> nat" where
  "run_len p [] = 0"
| "run_len p (q # qs) =
     (if re_seg_idx p = re_seg_idx q \<and> re_offset p + 8 = re_offset q then Suc (run_len q qs) else 0)"

definition rebase_times :: "nat \<Rightarrow> bytes \<Rightarrow> bytes" where
  "rebase_times n buf =
     (if n < 16 then buf @ [op_byte REBASE_OPCODE_DO_REBASE_IMM_TIMES (int n)]
      else encode_uleb (buf @ [op_byte REBASE_OPCODE_DO_REBASE_ULEB_TIMES 0]) (of_nat n))"

function rebase_loop :: "RebaseEntry option \<Rightarrow> RebaseEntry list \<Rightarrow> bytes \<Rightarrow> bytes" where
  "rebase_loop prev [] buf = buf"
| "rebase_loop prev (cur # rest) buf =
     (let n = run_len cur rest
      in rebase_loop (Some ((cur # rest) ! n)) (drop n rest)
           (rebase_times (Suc n) (rebase_pos prev cur buf)))"
  by pat_completeness auto
termination by (relation "measure (\<lambda>(l, rs, b). length rs)") auto

definition encode_rebase_entries :: "RebaseEntry list \<Rightarrow> bytes" where
  "encode_rebase_entries rebases =
     pad8 (rebase_loop None (sort rebases) [op_byte REBASE_OPCODE_SET_TYPE_IMM (uint REBASE_TYPE_POINTER)]
       @ [ucast REBASE_OPCODE_DONE])"

subsection \<open>The machine\<close>

text \<open>The loader's opcodes; \<open>psize\<close> is the size of a pointer of the target.\<close>

definition emits :: "nat \<Rightarrow> nat \<Rightarrow> nat \<Rightarrow> nat \<Rightarrow> (nat \<times> nat) list" where
  "emits step seg off n = map (\<lambda>k. (seg, off + k * step)) [0..<n]"

definition uleb_arg :: "bytes \<Rightarrow> (nat \<times> bytes) option" where
  "uleb_arg bs = (case read_uleb_end bs of (ok, v, r) \<Rightarrow> if ok then Some (unat v, r) else None)"

lemma uleb_arg_length: "uleb_arg bs = Some (v, r) \<Longrightarrow> length r \<le> length bs"
  using read_uleb_end_sound [of bs]
  by (auto simp: uleb_arg_def split: prod.splits if_splits)

lemma uleb_arg_uleb: "uleb_arg (encode_uleb [] v @ r) = Some (unat v, r)"
  by (simp add: uleb_arg_def read_uleb_end_uleb)

function rebase_run :: "nat \<Rightarrow> nat \<Rightarrow> nat \<Rightarrow> bytes \<Rightarrow> (nat \<times> nat) list option" where
  "rebase_run psize seg off [] = None"
| "rebase_run psize seg off (b # bs) =
     (let opc = b AND 0xf0; imm = unat (b AND 0x0f) in
      if opc = 0x00 then Some []
      else if opc = 0x10 then rebase_run psize seg off bs
      else if opc = 0x20 then
        (case uleb_arg bs of None \<Rightarrow> None | Some (v, r) \<Rightarrow> rebase_run psize imm v r)
      else if opc = 0x30 then
        (case uleb_arg bs of None \<Rightarrow> None | Some (v, r) \<Rightarrow> rebase_run psize seg (off + v) r)
      else if opc = 0x40 then rebase_run psize seg (off + imm * psize) bs
      else if opc = 0x50 then
        map_option (append (emits psize seg off imm)) (rebase_run psize seg (off + imm * psize) bs)
      else if opc = 0x60 then
        (case uleb_arg bs of None \<Rightarrow> None
         | Some (n, r) \<Rightarrow>
             map_option (append (emits psize seg off n)) (rebase_run psize seg (off + n * psize) r))
      else if opc = 0x70 then
        (case uleb_arg bs of None \<Rightarrow> None
         | Some (v, r) \<Rightarrow> map_option (Cons (seg, off)) (rebase_run psize seg (off + v + psize) r))
      else if opc = 0x80 then
        (case uleb_arg bs of None \<Rightarrow> None
         | Some (n, r) \<Rightarrow> (case uleb_arg r of None \<Rightarrow> None
             | Some (skip, r') \<Rightarrow> map_option (append (emits (skip + psize) seg off n))
                                  (rebase_run psize seg (off + n * (skip + psize)) r')))
      else None)"
  by pat_completeness auto
termination
  by (relation "measure (\<lambda>(p, s, f, bs). length bs)") (auto dest!: uleb_arg_length)

declare rebase_run.simps(2) [simp del]

subsection \<open>Correctness\<close>

definition rebase_ok :: "RebaseEntry \<Rightarrow> bool" where
  "rebase_ok r \<longleftrightarrow> 0 \<le> re_seg_idx r \<and> re_seg_idx r < 16 \<and> 0 \<le> re_offset r \<and> re_offset r < 2 ^ 31 - 8"

definition rebase_loc :: "RebaseEntry \<Rightarrow> nat \<times> nat" where
  "rebase_loc r = (nat (re_seg_idx r), nat (re_offset r))"

lemma unat_of_int_u64: "0 \<le> x \<Longrightarrow> x < 2 ^ 64 \<Longrightarrow> unat (of_int x :: u64) = nat x"
  by (simp add: unat_eq_nat_uint uint_word_of_int)

lemma rebase_ops:
  "ucast REBASE_OPCODE_DONE = (0x00 :: u8)" "ucast REBASE_OPCODE_SET_TYPE_IMM = (0x10 :: u8)"
  "ucast REBASE_OPCODE_SET_SEGMENT_AND_OFFSET_ULEB = (0x20 :: u8)"
  "ucast REBASE_OPCODE_ADD_ADDR_ULEB = (0x30 :: u8)"
  "ucast REBASE_OPCODE_ADD_ADDR_IMM_SCALED = (0x40 :: u8)"
  "ucast REBASE_OPCODE_DO_REBASE_IMM_TIMES = (0x50 :: u8)"
  "ucast REBASE_OPCODE_DO_REBASE_ULEB_TIMES = (0x60 :: u8)"
  by (simp_all add: REBASE_defs)

lemmas op_byte_rebase = op_byte_split [where opcode = REBASE_OPCODE_SET_SEGMENT_AND_OFFSET_ULEB]
  op_byte_split [where opcode = REBASE_OPCODE_ADD_ADDR_ULEB]
  op_byte_split [where opcode = REBASE_OPCODE_ADD_ADDR_IMM_SCALED]
  op_byte_split [where opcode = REBASE_OPCODE_DO_REBASE_IMM_TIMES]
  op_byte_split [where opcode = REBASE_OPCODE_DO_REBASE_ULEB_TIMES]
  op_byte_split [where opcode = REBASE_OPCODE_SET_TYPE_IMM]

lemma rebase_steps [step_simps]:
  "0 \<le> i \<Longrightarrow> i < 16 \<Longrightarrow>
     rebase_run p seg off (op_byte REBASE_OPCODE_SET_SEGMENT_AND_OFFSET_ULEB i # encode_uleb [] v @ bs)
     = rebase_run p (nat i) (unat v) bs"
  "rebase_run p seg off (op_byte REBASE_OPCODE_ADD_ADDR_ULEB 0 # encode_uleb [] v @ bs)
     = rebase_run p seg (off + unat v) bs"
  "0 \<le> i \<Longrightarrow> i < 16 \<Longrightarrow>
     rebase_run p seg off (op_byte REBASE_OPCODE_ADD_ADDR_IMM_SCALED i # bs)
     = rebase_run p seg (off + nat i * p) bs"
  "0 \<le> i \<Longrightarrow> i < 16 \<Longrightarrow>
     rebase_run p seg off (op_byte REBASE_OPCODE_DO_REBASE_IMM_TIMES i # bs)
     = map_option (append (emits p seg off (nat i))) (rebase_run p seg (off + nat i * p) bs)"
  "rebase_run p seg off (op_byte REBASE_OPCODE_DO_REBASE_ULEB_TIMES 0 # encode_uleb [] v @ bs)
     = map_option (append (emits p seg off (unat v))) (rebase_run p seg (off + unat v * p) bs)"
  by (simp_all add: rebase_run.simps(2) op_byte_rebase rebase_ops uleb_arg_uleb Let_def)

lemma rebase_pos_append: "rebase_pos prev cur buf = buf @ rebase_pos prev cur []"
  unfolding rebase_pos_def
  by (auto simp: Let_def encode_uleb_append [of "buf @ _"] encode_uleb_append [of "[_]"] split: option.splits)

lemma rebase_times_append: "rebase_times n buf = buf @ rebase_times n []"
  by (simp add: rebase_times_def encode_uleb_append [of "buf @ _"] encode_uleb_append [of "[_]"])

lemma rebase_loop_append: "rebase_loop prev rs buf = buf @ rebase_loop prev rs []"
proof (induction "length rs" arbitrary: prev rs buf rule: less_induct)
  case less
  show ?case
  proof (cases rs)
    case (Cons cur rest)
    let ?l = "Some ((cur # rest) ! run_len cur rest)" and ?d = "drop (run_len cur rest) rest"
    have IH: "rebase_loop ?l ?d b = b @ rebase_loop ?l ?d []" for b
      by (rule less) (use Cons in simp)
    have eq: "rebase_loop prev rs b =
        rebase_times (Suc (run_len cur rest)) (rebase_pos prev cur b) @ rebase_loop ?l ?d []" for b
      unfolding Cons rebase_loop.simps Let_def by (rule IH)
    show ?thesis
      unfolding eq [of buf] eq [of "[]"] rebase_pos_append [of prev cur buf]
        rebase_times_append [of _ "buf @ _"] rebase_times_append [of _ "rebase_pos prev cur []"] append_assoc ..
  qed simp
qed

lemma rebase_loop_Cons:
  "rebase_loop prev (cur # rest) [] =
     rebase_pos prev cur [] @ rebase_times (Suc (run_len cur rest)) [] @
     rebase_loop (Some ((cur # rest) ! run_len cur rest)) (drop (run_len cur rest) rest) []"
  unfolding rebase_loop.simps Let_def
  by (subst rebase_loop_append, subst rebase_times_append) simp

text \<open>After a run the machine stands one pointer behind its last entry.\<close>

definition at_entry :: "RebaseEntry option \<Rightarrow> nat \<Rightarrow> nat \<Rightarrow> bool" where
  "at_entry prev seg off \<longleftrightarrow>
     (case prev of None \<Rightarrow> True
      | Some l \<Rightarrow> rebase_ok l \<and> seg = nat (re_seg_idx l) \<and> off = nat (re_offset l) + 8)"

lemma rebase_run_pos:
  assumes "at_entry prev seg off" and "rebase_ok cur"
  shows "rebase_run 8 seg off (rebase_pos prev cur [] @ bs)
       = rebase_run 8 (nat (re_seg_idx cur)) (nat (re_offset cur)) bs"
proof -
  let ?set = "rebase_run 8 seg off (encode_uleb
    [op_byte REBASE_OPCODE_SET_SEGMENT_AND_OFFSET_ULEB (re_seg_idx cur)] (of_int (re_offset cur)) @ bs)"
  have u: "unat (of_int x :: u64) = nat x" if "0 \<le> x" "x < 2 ^ 31" for x
    using that by (intro unat_of_int_u64) simp_all
  have set: "?set = rebase_run 8 (nat (re_seg_idx cur)) (nat (re_offset cur)) bs"
    using assms(2) by (simp add: encode_uleb_append [of "[_]"] step_simps rebase_ok_def u)
  show ?thesis
  proof (cases prev)
    case None
    then show ?thesis using set by (simp add: rebase_pos_def)
  next
    case (Some l)
    define d where "d = re_offset cur - re_offset l - 8"
    have pos: "rebase_pos prev cur [] =
      (if re_seg_idx l \<noteq> re_seg_idx cur \<or> d < 0
       then encode_uleb [op_byte REBASE_OPCODE_SET_SEGMENT_AND_OFFSET_ULEB (re_seg_idx cur)] (of_int (re_offset cur))
       else if d mod 8 = 0 \<and> d < 128 then [op_byte REBASE_OPCODE_ADD_ADDR_IMM_SCALED (d div 8)]
       else encode_uleb [op_byte REBASE_OPCODE_ADD_ADDR_ULEB 0] (of_int d))"
      unfolding rebase_pos_def d_def Some by (simp only: Let_def option.case append.simps)
    show ?thesis
    proof (cases "re_seg_idx l \<noteq> re_seg_idx cur \<or> d < 0")
      case True
      then show ?thesis using set pos by simp
    next
      case False
      then have d: "0 \<le> d" "d < 2 ^ 31" and s: "nat (re_seg_idx cur) = seg"
        and o: "nat (re_offset cur) = off + nat d"
        using assms Some by (auto simp: at_entry_def rebase_ok_def d_def)
      show ?thesis
      proof (cases "d mod 8 = 0 \<and> d < 128")
        case True
        then have "0 \<le> d div 8" "d div 8 < 16" "nat (d div 8) * 8 = nat d" using d by auto
        with True False s o show ?thesis unfolding pos by (simp add: step_simps)
      next
        case scaled: False
        with False s o u [OF d] show ?thesis
          unfolding pos by (auto simp: encode_uleb_append [of "[_]"] step_simps)
      qed
    qed
  qed
qed

lemma rebase_run_times:
  assumes "n < 2 ^ 64"
  shows "rebase_run p seg off (rebase_times n [] @ bs)
       = map_option (append (emits p seg off n)) (rebase_run p seg (off + n * p) bs)"
proof -
  have "unat (of_nat n :: u64) = n" using assms by (simp add: unat_of_nat)
  then show ?thesis
    by (simp add: rebase_times_def encode_uleb_append [of "[_]"] step_simps)
qed

lemma run_len_le: "run_len p qs \<le> length qs"
  by (induction p qs rule: run_len.induct) auto

lemma emits_Suc: "emits step seg off (Suc n) = (seg, off) # emits step seg (off + step) n"
  unfolding emits_def by (rule nth_equalityI) (auto simp: nth_Cons algebra_simps split: nat.splits simp del: upt_Suc)

text \<open>A run of the machine covers the entries of a run of the encoder.\<close>

lemma emits_run:
  "0 \<le> re_offset p \<Longrightarrow> emits 8 (nat (re_seg_idx p)) (nat (re_offset p)) (Suc (run_len p qs))
     = map rebase_loc (p # take (run_len p qs) qs)"
proof (induction p qs rule: run_len.induct)
  case (2 p q qs)
  show ?case
  proof (cases "re_seg_idx p = re_seg_idx q \<and> re_offset p + 8 = re_offset q")
    case True
    then have "nat (re_offset q) = nat (re_offset p) + 8" "0 \<le> re_offset q" using "2.prems" by auto
    with True "2.IH" show ?thesis
      by (subst emits_Suc) (simp add: rebase_loc_def)
  qed (simp add: emits_def rebase_loc_def)
qed (simp add: emits_def rebase_loc_def)

lemma run_last:
  assumes "0 \<le> re_offset p"
  shows "re_seg_idx ((p # qs) ! run_len p qs) = re_seg_idx p \<and>
    nat (re_offset ((p # qs) ! run_len p qs)) = nat (re_offset p) + run_len p qs * 8"
  using assms
proof (induction p qs rule: run_len.induct)
  case (2 p q qs)
  then show ?case by (cases "re_seg_idx p = re_seg_idx q \<and> re_offset p + 8 = re_offset q") auto
qed simp

lemma rebase_run_loop:
  assumes "at_entry prev seg off" and "list_all rebase_ok rs" and "length rs < 2 ^ 64"
  shows "rebase_run 8 seg off (rebase_loop prev rs [] @ ucast REBASE_OPCODE_DONE # bs)
       = Some (map rebase_loc rs)"
  using assms
proof (induction "length rs" arbitrary: prev rs seg off rule: less_induct)
  case less
  show ?case
  proof (cases rs)
    case Nil
    then show ?thesis by (simp add: rebase_run.simps(2) rebase_ops)
  next
    case (Cons cur rest)
    let ?n = "run_len cur rest"
    let ?l = "(cur # rest) ! ?n" and ?d = "drop ?n rest"
    have n: "?n \<le> length rest" by (rule run_len_le)
    have cur: "rebase_ok cur" "0 \<le> re_offset cur" using less.prems(2) Cons by (auto simp: rebase_ok_def)
    have "rebase_ok ?l" using less.prems(2) Cons n by (simp add: list_all_length nth_Cons split: nat.splits)
    then have at: "at_entry (Some ?l) (nat (re_seg_idx cur)) (nat (re_offset cur) + Suc ?n * 8)"
      using run_last [OF cur(2), of rest] by (simp add: at_entry_def)
    have "list_all rebase_ok ?d" using less.prems(2) Cons by (auto simp: list_all_iff dest: in_set_dropD)
    with less.hyps [of ?d, OF _ at] less.prems(3) Cons
    have IH: "rebase_run 8 (nat (re_seg_idx cur)) (nat (re_offset cur) + Suc ?n * 8)
        (rebase_loop (Some ?l) ?d [] @ ucast REBASE_OPCODE_DONE # bs) = Some (map rebase_loc ?d)" by simp
    have "Suc ?n < 2 ^ 64" using n less.prems(3) Cons by simp
    note times = rebase_run_times [OF this]
    have "rebase_run 8 seg off (rebase_loop prev rs [] @ ucast REBASE_OPCODE_DONE # bs)
        = Some (emits 8 (nat (re_seg_idx cur)) (nat (re_offset cur)) (Suc ?n) @ map rebase_loc ?d)"
      unfolding Cons rebase_loop_Cons append_assoc
        rebase_run_pos [OF less.prems(1) cur(1)] times IH by simp
    also have "\<dots> = Some (map rebase_loc (cur # take ?n rest @ ?d))"
      unfolding emits_run [OF cur(2)] by (simp flip: map_append)
    finally show ?thesis unfolding Cons append_take_drop_id .
  qed
qed

text \<open>
  C5: the rebase opcodes do what they are for: for entries of segments below 16 and offsets below
  \<open>2 ^ 31 - 8\<close>, in any number, order and density, the loader's machine (with 8-byte pointers)
  runs the encoded stream to its end and rebases exactly the locations of the entries, in
  ascending order; the stream is padded to a multiple of 8 bytes.
\<close>

theorem rebase_entries_run:
  assumes "list_all rebase_ok rebases" and "length rebases < 2 ^ 64"
  shows "rebase_run 8 0 0 (encode_rebase_entries rebases) = Some (map rebase_loc (sort rebases))"
proof -
  let ?b = "op_byte REBASE_OPCODE_SET_TYPE_IMM (uint REBASE_TYPE_POINTER)"
  have "rebase_run 8 0 0 (?b # bs) = rebase_run 8 0 0 bs" for bs
    by (simp add: rebase_run.simps(2) op_byte_rebase rebase_ops REBASE_TYPE_POINTER_def)
  moreover have "list_all rebase_ok (sort rebases)" using assms(1) by (simp add: list_all_iff)
  ultimately show ?thesis
    using rebase_run_loop [of None 0 0 "sort rebases"] assms(2)
    unfolding encode_rebase_entries_def pad8_def rebase_loop_append [of None _ "[?b]"]
    by (simp add: at_entry_def)
qed

theorem rebase_entries_run_witness:
  "rebase_run 8 0 0 (encode_rebase_entries [RebaseEntry 2 24, RebaseEntry 1 8, RebaseEntry 2 16])
     = Some [(1, 8), (2, 16), (2, 24)]"
proof -
  have s: "sort [RebaseEntry 2 24, RebaseEntry 1 8, RebaseEntry 2 16]
      = [RebaseEntry 1 8, RebaseEntry 2 16, RebaseEntry 2 24]"
    by (simp add: less_eq_RebaseEntry_def)
  show ?thesis
    using rebase_entries_run [of "[RebaseEntry 2 24, RebaseEntry 1 8, RebaseEntry 2 16]"]
    unfolding s by (simp add: rebase_ok_def rebase_loc_def)
qed

text \<open>
  the encoder takes a pointer to have 8 bytes on every target. On arm64_32, where a pointer
  (\<^verbatim>\<open>Word<E>\<close>) has 4 bytes, the loader advances by 4 after a rebase: the second of the
  two pointers at offsets 0 and 8 is never rebased, and the word at offset 4 is.
\<close>

theorem rebase_arm64_32:
  "rebase_run 4 0 0 (encode_rebase_entries [RebaseEntry 1 0, RebaseEntry 1 8]) = Some [(1, 0), (1, 4)]"
proof -
  have s: "sort [RebaseEntry 1 0, RebaseEntry 1 8] = [RebaseEntry 1 0, RebaseEntry 1 8]"
    by (simp add: less_eq_RebaseEntry_def)
  have b: "rebase_run 4 0 0 (op_byte REBASE_OPCODE_SET_TYPE_IMM (uint REBASE_TYPE_POINTER) # bs) = rebase_run 4 0 0 bs" for bs
    by (simp add: rebase_run.simps(2) op_byte_rebase rebase_ops REBASE_TYPE_POINTER_def)
  show ?thesis
    unfolding encode_rebase_entries_def pad8_def s
    by (simp add: rebase_pos_def rebase_times_def encode_uleb_append [of "[_, _]"] b step_simps emits_def)
      (simp add: rebase_run.simps(2) rebase_ops upt_rec)
qed

end
