(* ===== verification/MachO_Bind.thy ===== *)
theory MachO_Bind
  imports MachO_Rebase "HOL-Library.Product_Lexorder" "HOL-Library.List_Lexorder"
begin

text \<open>
  The binding opcodes of \<^verbatim>\<open>src/macho/output-chunks.cc\<close>: \<^verbatim>\<open>get_dylib_idx\<close>, \<^verbatim>\<open>encode_bind_entries\<close> and
  \<^verbatim>\<open>LazyBindSection\<close>. The specification is again the machine of the dynamic loader, whose
  registers (library ordinal, symbol, segment, offset, addend) the encoder only sets when they
  change.
\<close>

subsection \<open>Symbols and entries\<close>

text \<open>What the encoder reads of a symbol and of the file that defines it.\<close>

record BindFile =
  file_id :: nat
  is_dylib :: bool
  dylib_idx :: int

record BindSym =
  bs_name :: bytes
  bs_file :: BindFile
  bs_is_weak :: bool

record BindEntry =
  be_sym :: BindSym
  be_seg_idx :: int
  be_offset :: int
  be_addend :: u64

definition get_dylib_idx :: "bool \<Rightarrow> BindSym \<Rightarrow> int" where
  "get_dylib_idx flat_namespace s =
     (if flat_namespace then sint BIND_SPECIAL_DYLIB_FLAT_LOOKUP
      else if is_dylib (bs_file s) then dylib_idx (bs_file s)
      else sint BIND_SPECIAL_DYLIB_FLAT_LOOKUP)"

subsection \<open>The encoder\<close>

definition bind_dylib :: "int \<Rightarrow> bytes \<Rightarrow> bytes" where
  "bind_dylib idx buf =
     (if idx < 0 then buf @ [op_byte BIND_OPCODE_SET_DYLIB_SPECIAL_IMM (idx AND uint BIND_IMMEDIATE_MASK)]
      else if idx < 16 then buf @ [op_byte BIND_OPCODE_SET_DYLIB_ORDINAL_IMM idx]
      else encode_uleb (buf @ [op_byte BIND_OPCODE_SET_DYLIB_ORDINAL_ULEB 0]) (of_int idx))"

definition bind_symbol :: "BindSym \<Rightarrow> bytes \<Rightarrow> bytes" where
  "bind_symbol s buf =
     (let flags = (if bs_is_weak s then uint BIND_SYMBOL_FLAGS_WEAK_IMPORT else 0)
      in buf @ [op_byte BIND_OPCODE_SET_SYMBOL_TRAILING_FLAGS_IMM flags] @ bs_name s @ [0])"

definition bind_segment :: "int \<Rightarrow> int \<Rightarrow> bytes \<Rightarrow> bytes" where
  "bind_segment seg off buf =
     encode_uleb (buf @ [op_byte BIND_OPCODE_SET_SEGMENT_AND_OFFSET_ULEB seg]) (of_int off)"

definition bind_addend :: "u64 \<Rightarrow> bytes \<Rightarrow> bytes" where
  "bind_addend addend buf = encode_sleb (buf @ [op_byte BIND_OPCODE_SET_ADDEND_SLEB 0]) addend"

definition bind_entry :: "bool \<Rightarrow> BindEntry option \<Rightarrow> BindEntry \<Rightarrow> bytes \<Rightarrow> bytes" where
  "bind_entry flat prev b buf0 =
     (let changed = (\<lambda>P. case prev of None \<Rightarrow> True | Some l \<Rightarrow> P l);
          buf1 = (if changed (\<lambda>l. bs_file (be_sym b) \<noteq> bs_file (be_sym l))
                  then bind_dylib (get_dylib_idx flat (be_sym b)) buf0 else buf0);
          buf2 = (if changed (\<lambda>l. bs_name (be_sym l) \<noteq> bs_name (be_sym b)
                                  \<or> bs_is_weak (be_sym l) \<noteq> bs_is_weak (be_sym b))
                  then bind_symbol (be_sym b) buf1 else buf1);
          buf3 = (if changed (\<lambda>l. be_seg_idx l \<noteq> be_seg_idx b \<or> be_offset l \<noteq> be_offset b)
                  then bind_segment (be_seg_idx b) (be_offset b) buf2 else buf2);
          buf4 = (if changed (\<lambda>l. be_addend l \<noteq> be_addend b)
                  then bind_addend (be_addend b) buf3 else buf3)
      in buf4 @ [ucast BIND_OPCODE_DO_BIND])"

fun bind_loop :: "bool \<Rightarrow> BindEntry option \<Rightarrow> BindEntry list \<Rightarrow> bytes \<Rightarrow> bytes" where
  "bind_loop flat prev [] buf = buf"
| "bind_loop flat prev (b # bs) buf = bind_loop flat (Some b) bs (bind_entry flat prev b buf)"

text \<open>The order of the entries: \<^verbatim>\<open>std::tuple(name, seg_idx, offset, addend)\<close>, names as byte strings.\<close>

definition bind_key :: "BindEntry \<Rightarrow> bytes \<times> int \<times> int \<times> int" where
  "bind_key b = (bs_name (be_sym b), be_seg_idx b, be_offset b, sint (be_addend b))"

definition encode_bind_entries :: "bool \<Rightarrow> BindEntry list \<Rightarrow> bytes" where
  "encode_bind_entries flat bindings =
     pad8 (bind_loop flat None (sort_key bind_key bindings)
             [op_byte BIND_OPCODE_SET_TYPE_IMM (uint BIND_TYPE_POINTER)]
           @ [ucast BIND_OPCODE_DONE])"

text \<open>Lazy binding: one short program per stub, addressed by its offset.\<close>

definition lazy_add :: "bool \<Rightarrow> int \<Rightarrow> int \<Rightarrow> BindSym \<Rightarrow> bytes \<Rightarrow> bytes" where
  "lazy_add flat sgi off s contents =
     bind_segment sgi off (bind_symbol s (bind_dylib (get_dylib_idx flat s) contents))
       @ [ucast BIND_OPCODE_DO_BIND, ucast BIND_OPCODE_DONE]"

text \<open>
  \<open>ptr_off\<close> is the offset of the lazy pointer table in the data segment
  (\<^verbatim>\<open>ctx.lazy_symbol_ptr->hdr.addr - ctx.data_seg->cmd.vmaddr\<close>) and \<open>wsize\<close> is \<^verbatim>\<open>sizeof(Word<E>)\<close>.
\<close>

fun lazy_loop :: "bool \<Rightarrow> int \<Rightarrow> int \<Rightarrow> int \<Rightarrow> nat \<Rightarrow> BindSym list \<Rightarrow> nat list \<times> bytes \<Rightarrow> nat list \<times> bytes" where
  "lazy_loop flat sgi ptr_off wsize i [] st = st"
| "lazy_loop flat sgi ptr_off wsize i (s # ss) (offs, contents) =
     lazy_loop flat sgi ptr_off wsize (Suc i) ss
       (offs @ [length contents], lazy_add flat sgi (ptr_off + int i * wsize) s contents)"

subsection \<open>The machine\<close>

record bind_regs =
  br_ordinal :: int
  br_name :: bytes
  br_flags :: nat
  br_seg :: nat
  br_off :: nat
  br_addend :: int

type_synonym bound = "int \<times> bytes \<times> nat \<times> nat \<times> nat \<times> int"

definition bind_here :: "bind_regs \<Rightarrow> bound" where
  "bind_here st = (br_ordinal st, br_name st, br_flags st, br_seg st, br_off st, br_addend st)"

definition bind_times :: "nat \<Rightarrow> nat \<Rightarrow> bind_regs \<Rightarrow> bound list" where
  "bind_times step n st = map (\<lambda>k. bind_here (st \<lparr> br_off := br_off st + k * step \<rparr>)) [0..<n]"

definition cstring :: "bytes \<Rightarrow> (bytes \<times> bytes) option" where
  "cstring bs = (case find_pos (\<lambda>c. c = 0) bs of None \<Rightarrow> None | Some n \<Rightarrow> Some (take n bs, drop (Suc n) bs))"

lemma cstring_length: "cstring bs = Some (s, r) \<Longrightarrow> length r \<le> length bs"
  by (auto simp: cstring_def split: option.splits)

lemma cstring_append: "0 \<notin> set s \<Longrightarrow> cstring (s @ 0 # r) = Some (s, r)"
proof -
  assume "0 \<notin> set s"
  then have "find_pos (\<lambda>c. c = 0) (s @ 0 # r) = Some (length s)" by (induction s) auto
  then show ?thesis by (simp add: cstring_def)
qed

lemma read_sleb_length: "read_sleb bs = Some (v, r) \<Longrightarrow> length r \<le> length bs"
  by (induction bs arbitrary: v r) (fastforce split: if_splits)+

function bind_run :: "nat \<Rightarrow> bind_regs \<Rightarrow> bytes \<Rightarrow> bound list option" where
  "bind_run psize st [] = None"
| "bind_run psize st (b # bs) =
     (let opc = b AND 0xf0; imm = unat (b AND 0x0f) in
      if opc = 0x00 then Some []
      else if opc = 0x10 then bind_run psize (st \<lparr> br_ordinal := int imm \<rparr>) bs
      else if opc = 0x20 then
        (case uleb_arg bs of None \<Rightarrow> None | Some (v, r) \<Rightarrow> bind_run psize (st \<lparr> br_ordinal := int v \<rparr>) r)
      else if opc = 0x30 then
        bind_run psize (st \<lparr> br_ordinal := if imm = 0 then 0 else int imm - 16 \<rparr>) bs
      else if opc = 0x40 then
        (case cstring bs of None \<Rightarrow> None
         | Some (s, r) \<Rightarrow> bind_run psize (st \<lparr> br_name := s, br_flags := imm \<rparr>) r)
      else if opc = 0x50 then bind_run psize st bs
      else if opc = 0x60 then
        (case read_sleb bs of None \<Rightarrow> None | Some (v, r) \<Rightarrow> bind_run psize (st \<lparr> br_addend := v \<rparr>) r)
      else if opc = 0x70 then
        (case uleb_arg bs of None \<Rightarrow> None
         | Some (v, r) \<Rightarrow> bind_run psize (st \<lparr> br_seg := imm, br_off := v \<rparr>) r)
      else if opc = 0x80 then
        (case uleb_arg bs of None \<Rightarrow> None
         | Some (v, r) \<Rightarrow> bind_run psize (st \<lparr> br_off := br_off st + v \<rparr>) r)
      else if opc = 0x90 then
        map_option (Cons (bind_here st)) (bind_run psize (st \<lparr> br_off := br_off st + psize \<rparr>) bs)
      else if opc = 0xa0 then
        (case uleb_arg bs of None \<Rightarrow> None
         | Some (v, r) \<Rightarrow> map_option (Cons (bind_here st))
                            (bind_run psize (st \<lparr> br_off := br_off st + v + psize \<rparr>) r))
      else if opc = 0xb0 then
        map_option (Cons (bind_here st))
          (bind_run psize (st \<lparr> br_off := br_off st + imm * psize + psize \<rparr>) bs)
      else if opc = 0xc0 then
        (case uleb_arg bs of None \<Rightarrow> None
         | Some (n, r) \<Rightarrow> (case uleb_arg r of None \<Rightarrow> None
             | Some (skip, r') \<Rightarrow> map_option (append (bind_times (skip + psize) n st))
                 (bind_run psize (st \<lparr> br_off := br_off st + n * (skip + psize) \<rparr>) r')))
      else None)"
  by pat_completeness auto
termination
  by (relation "measure (\<lambda>(p, st, bs). length bs)")
    (auto dest!: uleb_arg_length cstring_length read_sleb_length)

declare bind_run.simps(2) [simp del]

subsection \<open>Correctness\<close>

lemma bind_ops:
  "ucast BIND_OPCODE_DONE = (0x00 :: u8)" "ucast BIND_OPCODE_SET_DYLIB_ORDINAL_IMM = (0x10 :: u8)"
  "ucast BIND_OPCODE_SET_DYLIB_ORDINAL_ULEB = (0x20 :: u8)"
  "ucast BIND_OPCODE_SET_DYLIB_SPECIAL_IMM = (0x30 :: u8)"
  "ucast BIND_OPCODE_SET_SYMBOL_TRAILING_FLAGS_IMM = (0x40 :: u8)"
  "ucast BIND_OPCODE_SET_TYPE_IMM = (0x50 :: u8)" "ucast BIND_OPCODE_SET_ADDEND_SLEB = (0x60 :: u8)"
  "ucast BIND_OPCODE_SET_SEGMENT_AND_OFFSET_ULEB = (0x70 :: u8)" "ucast BIND_OPCODE_DO_BIND = (0x90 :: u8)"
  by (simp_all add: BIND_defs)

lemmas op_byte_bind = op_byte_split [where opcode = BIND_OPCODE_SET_DYLIB_ORDINAL_IMM]
  op_byte_split [where opcode = BIND_OPCODE_SET_DYLIB_ORDINAL_ULEB]
  op_byte_split [where opcode = BIND_OPCODE_SET_DYLIB_SPECIAL_IMM]
  op_byte_split [where opcode = BIND_OPCODE_SET_SYMBOL_TRAILING_FLAGS_IMM]
  op_byte_split [where opcode = BIND_OPCODE_SET_TYPE_IMM]
  op_byte_split [where opcode = BIND_OPCODE_SET_ADDEND_SLEB]
  op_byte_split [where opcode = BIND_OPCODE_SET_SEGMENT_AND_OFFSET_ULEB]

lemmas encode_snoc = encode_uleb_append [of "_ @ [_]"] encode_uleb_append [of "[_]"]

definition idx_ok :: "int \<Rightarrow> bool" where
  "idx_ok idx \<longleftrightarrow> - 16 < idx \<and> idx < 2 ^ 31"

definition weak_flag :: "BindSym \<Rightarrow> nat" where
  "weak_flag s = (if bs_is_weak s then 1 else 0)"

lemma and_15: "(idx :: int) AND 15 = idx mod 16"
  using take_bit_eq_mask [of 4 idx] take_bit_eq_mod [of 4 idx] by (simp add: mask_eq_exp_minus_1)

lemma run_bind_dylib [step_simps]:
  assumes "idx_ok idx"
  shows "bind_run p st (bind_dylib idx [] @ bs) = bind_run p (st \<lparr> br_ordinal := idx \<rparr>) bs"
proof (cases "idx < 0")
  case True
  have "idx mod 16 = (idx + 16) mod 16" by simp
  also have "\<dots> = idx + 16" using True assms by (intro mod_pos_pos_trivial) (auto simp: idx_ok_def)
  finally have "idx mod 16 = idx + 16" .
  with True show ?thesis
    using assms
    by (simp add: bind_dylib_def bind_run.simps(2) op_byte_bind bind_ops BIND_IMMEDIATE_MASK_def and_15 Let_def
        idx_ok_def)
next
  case False
  then have "unat (of_int idx :: u64) = nat idx"
    using assms by (intro unat_of_int_u64) (auto simp: idx_ok_def)
  with False show ?thesis
    by (simp add: bind_dylib_def bind_run.simps(2) op_byte_bind bind_ops encode_snoc uleb_arg_uleb Let_def)
qed

lemma run_bind_symbol [step_simps]:
  assumes "0 \<notin> set (bs_name s)"
  shows "bind_run p st (bind_symbol s [] @ bs)
       = bind_run p (st \<lparr> br_name := bs_name s, br_flags := weak_flag s \<rparr>) bs"
  using assms
  by (simp add: bind_symbol_def bind_run.simps(2) op_byte_bind bind_ops Let_def cstring_append weak_flag_def
      BIND_SYMBOL_FLAGS_WEAK_IMPORT_def)

lemma run_bind_segment [step_simps]:
  assumes "0 \<le> seg" "seg < 16" "0 \<le> off" "off < 2 ^ 64"
  shows "bind_run p st (bind_segment seg off [] @ bs)
       = bind_run p (st \<lparr> br_seg := nat seg, br_off := nat off \<rparr>) bs"
  using assms unat_of_int_u64 [of off]
  by (simp add: bind_segment_def bind_run.simps(2) op_byte_bind bind_ops encode_snoc uleb_arg_uleb Let_def)

lemma run_bind_addend [step_simps]:
  "bind_run p st (bind_addend a [] @ bs) = bind_run p (st \<lparr> br_addend := sint a \<rparr>) bs"
  by (simp add: bind_addend_def bind_run.simps(2) op_byte_bind bind_ops Let_def
      encode_sleb_append [of "[_]"] read_sleb_encode_sleb)

lemma run_do_bind [step_simps]:
  "bind_run p st (ucast BIND_OPCODE_DO_BIND # bs)
     = map_option (Cons (bind_here st)) (bind_run p (st \<lparr> br_off := br_off st + p \<rparr>) bs)"
  "bind_run p st (ucast BIND_OPCODE_DONE # bs) = Some []"
  by (simp_all add: bind_run.simps(2) bind_ops Let_def)

lemma bind_dylib_append: "bind_dylib idx buf = buf @ bind_dylib idx []"
  unfolding bind_dylib_def by (simp add: encode_snoc)

lemma bind_symbol_append: "bind_symbol s buf = buf @ bind_symbol s []"
  unfolding bind_symbol_def by (simp add: Let_def)

lemma bind_segment_append: "bind_segment seg off buf = buf @ bind_segment seg off []"
  unfolding bind_segment_def by (simp add: encode_snoc)

lemma bind_addend_append: "bind_addend a buf = buf @ bind_addend a []"
  unfolding bind_addend_def encode_sleb_append [of "buf @ [_]"] encode_sleb_append [of "[] @ [_]"]
  by (simp only: append_assoc append_Nil)

lemmas bind_parts_append = bind_dylib_append bind_symbol_append bind_segment_append bind_addend_append

text \<open>Four optional appends in a row.\<close>

lemma optional_appends:
  assumes "\<And>x. f1 x = x @ g1" "\<And>x. f2 x = x @ g2" "\<And>x. f3 x = x @ g3" "\<And>x. f4 x = x @ g4"
  shows "(let b1 = (if c1 then f1 b0 else b0); b2 = (if c2 then f2 b1 else b1);
              b3 = (if c3 then f3 b2 else b2); b4 = (if c4 then f4 b3 else b3) in b4 @ e)
    = b0 @ (if c1 then g1 else []) @ (if c2 then g2 else []) @ (if c3 then g3 else [])
         @ (if c4 then g4 else []) @ e"
  by (simp add: assms Let_def)

text \<open>The registers at an entry, and the predicate that says they are there after it.\<close>

definition regs_at :: "bool \<Rightarrow> BindEntry \<Rightarrow> bind_regs" where
  "regs_at flat b = \<lparr> br_ordinal = get_dylib_idx flat (be_sym b), br_name = bs_name (be_sym b),
     br_flags = weak_flag (be_sym b), br_seg = nat (be_seg_idx b), br_off = nat (be_offset b),
     br_addend = sint (be_addend b) \<rparr>"

definition regs_after :: "bool \<Rightarrow> BindEntry \<Rightarrow> bind_regs" where
  "regs_after flat b = (regs_at flat b) \<lparr> br_off := nat (be_offset b) + 8 \<rparr>"

definition bound_of :: "bool \<Rightarrow> BindEntry \<Rightarrow> bound" where
  "bound_of flat b = bind_here (regs_at flat b)"

definition bind_ok :: "bool \<Rightarrow> BindEntry \<Rightarrow> bool" where
  "bind_ok flat b \<longleftrightarrow> idx_ok (get_dylib_idx flat (be_sym b)) \<and> 0 \<notin> set (bs_name (be_sym b)) \<and>
     0 \<le> be_seg_idx b \<and> be_seg_idx b < 16 \<and> 0 \<le> be_offset b \<and> be_offset b < 2 ^ 31"

definition bind_loc :: "BindEntry \<Rightarrow> int \<times> int" where
  "bind_loc b = (be_seg_idx b, be_offset b)"

definition differs :: "BindEntry option \<Rightarrow> (BindEntry \<Rightarrow> bool) \<Rightarrow> bool" where
  "differs prev P \<longleftrightarrow> (case prev of None \<Rightarrow> True | Some l \<Rightarrow> P l)"

lemma bind_entry_eq:
  "bind_entry flat prev b buf = buf @
     (if differs prev (\<lambda>l. bs_file (be_sym b) \<noteq> bs_file (be_sym l))
      then bind_dylib (get_dylib_idx flat (be_sym b)) [] else []) @
     (if differs prev (\<lambda>l. bs_name (be_sym l) \<noteq> bs_name (be_sym b)
                           \<or> bs_is_weak (be_sym l) \<noteq> bs_is_weak (be_sym b))
      then bind_symbol (be_sym b) [] else []) @
     (if differs prev (\<lambda>l. be_seg_idx l \<noteq> be_seg_idx b \<or> be_offset l \<noteq> be_offset b)
      then bind_segment (be_seg_idx b) (be_offset b) [] else []) @
     (if differs prev (\<lambda>l. be_addend l \<noteq> be_addend b) then bind_addend (be_addend b) [] else [])
     @ [ucast BIND_OPCODE_DO_BIND]"
  unfolding bind_entry_def differs_def
  by (simp only: Let_def [of "\<lambda>P. case prev of None \<Rightarrow> True | Some l \<Rightarrow> P l"])
    (rule optional_appends [OF bind_parts_append])

lemma run_bind_entry:
  assumes ok: "bind_ok flat b"
    and st: "case prev of None \<Rightarrow> True | Some l \<Rightarrow> st = regs_after flat l \<and> bind_loc l \<noteq> bind_loc b"
  shows "bind_run 8 st (bind_entry flat prev b [] @ bs)
       = map_option (Cons (bound_of flat b)) (bind_run 8 (regs_after flat b) bs)"
proof -
  have o: "bind_run 8 st (bind_segment (be_seg_idx b) (be_offset b) [] @ bs) =
      bind_run 8 (st \<lparr> br_seg := nat (be_seg_idx b), br_off := nat (be_offset b) \<rparr>) bs" for st bs
    using ok by (intro run_bind_segment) (auto simp: bind_ok_def)
  have d: "bind_run 8 st (bind_dylib (get_dylib_idx flat (be_sym b)) [] @ bs) =
      bind_run 8 (st \<lparr> br_ordinal := get_dylib_idx flat (be_sym b) \<rparr>) bs" for st bs
    using ok by (intro run_bind_dylib) (simp add: bind_ok_def)
  have s: "bind_run 8 st (bind_symbol (be_sym b) [] @ bs) =
      bind_run 8 (st \<lparr> br_name := bs_name (be_sym b), br_flags := weak_flag (be_sym b) \<rparr>) bs" for st bs
    using ok by (intro run_bind_symbol) (simp add: bind_ok_def)
  show ?thesis
  proof (cases prev)
    case None
    then show ?thesis
      by (cases st) (simp add: bind_entry_eq differs_def o d s run_bind_addend run_do_bind bound_of_def regs_at_def
          regs_after_def)
  next
    case (Some l)
    with st have l: "st = regs_after flat l" "be_seg_idx l \<noteq> be_seg_idx b \<or> be_offset l \<noteq> be_offset b"
      by (auto simp: bind_loc_def)
    have f: "bs_file (be_sym b) = bs_file (be_sym l) \<Longrightarrow>
        get_dylib_idx flat (be_sym b) = get_dylib_idx flat (be_sym l)"
      by (simp add: get_dylib_idx_def)
    show ?thesis
      unfolding bind_entry_eq Some differs_def option.case append_assoc append_Nil if_P [OF l(2)]
      by (cases "bs_file (be_sym b) = bs_file (be_sym l)";
          cases "bs_name (be_sym l) \<noteq> bs_name (be_sym b) \<or> bs_is_weak (be_sym l) \<noteq> bs_is_weak (be_sym b)";
          cases "be_addend l = be_addend b")
        (simp_all add: o d s f run_bind_addend run_do_bind bound_of_def regs_at_def regs_after_def l(1)
          weak_flag_def)
  qed
qed

lemma bind_loop_append: "bind_loop flat prev bs buf = buf @ bind_loop flat prev bs []"
proof (induction bs arbitrary: prev buf)
  case (Cons b bs)
  have "bind_entry flat prev b buf = buf @ bind_entry flat prev b []" by (simp add: bind_entry_eq)
  then show ?case
    using Cons [of "Some b" "bind_entry flat prev b buf"] Cons [of "Some b" "bind_entry flat prev b []"]
    by simp
qed simp

fun adjacent_locs :: "BindEntry option \<Rightarrow> BindEntry list \<Rightarrow> bool" where
  "adjacent_locs prev [] = True"
| "adjacent_locs prev (b # bs) =
     ((case prev of None \<Rightarrow> True | Some l \<Rightarrow> bind_loc l \<noteq> bind_loc b) \<and> adjacent_locs (Some b) bs)"

lemma distinct_adjacent: "distinct (map bind_loc bs) \<Longrightarrow>
    (case prev of None \<Rightarrow> True | Some l \<Rightarrow> bind_loc l \<notin> set (map bind_loc bs)) \<Longrightarrow> adjacent_locs prev bs"
  by (induction bs arbitrary: prev) (auto split: option.splits)

lemma run_bind_loop:
  assumes "list_all (bind_ok flat) bs" and "adjacent_locs prev bs"
    and "case prev of None \<Rightarrow> True | Some l \<Rightarrow> st = regs_after flat l"
  shows "bind_run 8 st (bind_loop flat prev bs [] @ ucast BIND_OPCODE_DONE # r) = Some (map (bound_of flat) bs)"
  using assms
proof (induction bs arbitrary: prev st)
  case Nil
  then show ?case by (simp add: run_do_bind)
next
  case (Cons b bs)
  have "bind_loop flat prev (b # bs) [] = bind_entry flat prev b [] @ bind_loop flat (Some b) bs []"
    using bind_loop_append [of flat "Some b" bs "bind_entry flat prev b []"] by simp
  moreover have "bind_run 8 (regs_after flat b) (bind_loop flat (Some b) bs [] @ ucast BIND_OPCODE_DONE # r)
      = Some (map (bound_of flat) bs)"
    using Cons.prems by (intro Cons.IH) auto
  moreover have "case prev of None \<Rightarrow> True | Some l \<Rightarrow> st = regs_after flat l \<and> bind_loc l \<noteq> bind_loc b"
    using Cons.prems(2, 3) by (cases prev) auto
  ultimately show ?case
    using run_bind_entry [where flat = flat and b = b and prev = prev and st = st] Cons.prems(1) by simp
qed

text \<open>
  C6: the loader runs the encoded binding opcodes to their end and performs exactly the bindings
  of the entries, in the order the encoder sorted them into: each location gets its library
  ordinal, symbol name, weak flag and addend, although the stream only names what changed since the
  entry before. This needs that no two entries bind the same location (after a binding the
  loader has moved on, and the encoder does not set the offset again for an equal one).
\<close>

theorem bind_entries_run:
  assumes "list_all (bind_ok flat) bindings" and "distinct (map bind_loc bindings)"
  shows "bind_run 8 st (encode_bind_entries flat bindings)
       = Some (map (bound_of flat) (sort_key bind_key bindings))"
proof -
  let ?b = "op_byte BIND_OPCODE_SET_TYPE_IMM (uint BIND_TYPE_POINTER)" and ?s = "sort_key bind_key bindings"
  have t: "bind_run 8 st (?b # bs) = bind_run 8 st bs" for bs
    by (simp add: bind_run.simps(2) op_byte_bind bind_ops BIND_TYPE_POINTER_def Let_def)
  have "distinct (map bind_loc ?s)" using assms(2) by (simp add: distinct_map)
  then have "adjacent_locs None ?s" by (intro distinct_adjacent) auto
  moreover have "list_all (bind_ok flat) ?s" using assms(1) by (simp add: list_all_iff)
  ultimately show ?thesis
    using run_bind_loop [of flat ?s None st] t
    unfolding encode_bind_entries_def pad8_def bind_loop_append [of flat None _ "[?b]"] by simp
qed

definition sample_bindings :: "BindEntry list" where
  "sample_bindings =
    (let lib = \<lparr> file_id = 1, is_dylib = True, dylib_idx = 20 \<rparr>;
         f = \<lparr> bs_name = str ''_f'', bs_file = lib, bs_is_weak = False \<rparr>
     in [\<lparr> be_sym = f, be_seg_idx = 2, be_offset = 16, be_addend = 0 \<rparr>,
         \<lparr> be_sym = f, be_seg_idx = 2, be_offset = 8, be_addend = - 4 \<rparr>])"

theorem bind_entries_run_witness:
  "bind_run 8 (regs_at False (hd sample_bindings)) (encode_bind_entries False sample_bindings)
     = Some (map (bound_of False) (sort_key bind_key sample_bindings))"
  by (rule bind_entries_run)
    (simp_all add: sample_bindings_def bind_ok_def bind_loc_def idx_ok_def get_dylib_idx_def Let_def str_def)

subsection \<open>Lazy binding\<close>

definition lazy_bound :: "bool \<Rightarrow> int \<Rightarrow> int \<Rightarrow> BindSym \<Rightarrow> bind_regs \<Rightarrow> bound" where
  "lazy_bound flat sgi off s st =
     (get_dylib_idx flat s, bs_name s, weak_flag s, nat sgi, nat off, br_addend st)"

lemma lazy_add_eq:
  "lazy_add flat sgi off s contents = contents @ bind_dylib (get_dylib_idx flat s) [] @ bind_symbol s [] @
     bind_segment sgi off [] @ [ucast BIND_OPCODE_DO_BIND, ucast BIND_OPCODE_DONE]"
  unfolding lazy_add_def bind_parts_append(3) [of _ _ "contents @ _"] bind_parts_append(1) [of _ contents]
    bind_parts_append(2) [of _ "contents @ _"] append_assoc ..

lemma run_lazy:
  assumes "idx_ok (get_dylib_idx flat s)" "0 \<notin> set (bs_name s)" "0 \<le> sgi" "sgi < 16" "0 \<le> off" "off < 2 ^ 64"
  shows "bind_run p st (drop (length contents) (lazy_add flat sgi off s contents) @ r)
       = Some [lazy_bound flat sgi off s st]"
  using assms by (simp add: lazy_add_eq step_simps lazy_bound_def bind_here_def)

lemma lazy_loop_prefix:
  "lazy_loop flat sgi po ws i ss (offs, contents) = (offs', contents') \<Longrightarrow>
     (\<exists>r. contents' = contents @ r) \<and> (\<exists>os. offs' = offs @ os \<and> length os = length ss)"
proof (induction ss arbitrary: i offs contents)
  case (Cons s ss)
  from Cons.IH [of "Suc i" "offs @ [length contents]"] Cons.prems show ?case
    by (fastforce simp: lazy_add_eq)
qed simp

text \<open>
  every stub finds its own binding: after \<open>compute_size\<close> has laid out the lazy binding programs
  of the stubs, the loader started at the recorded offset of stub \<open>i\<close> performs one binding, that
  of the \<open>i\<close>-th symbol at the \<open>i\<close>-th lazy pointer, and stops.
\<close>

theorem lazy_bind_run:
  assumes "list_all (\<lambda>s. idx_ok (get_dylib_idx flat s) \<and> 0 \<notin> set (bs_name s)) ss"
    and "0 \<le> sgi" and "sgi < 16" and "0 \<le> po" and "0 \<le> ws" and "po + int (length ss) * ws < 2 ^ 64"
    and "lazy_loop flat sgi po ws 0 ss ([], contents0) = (offs, contents)" and "i < length ss"
  shows "bind_run 8 st (drop (offs ! i) contents @ r) = Some [lazy_bound flat sgi (po + int i * ws) (ss ! i) st]"
proof -
  have gen: "bind_run 8 st (drop (offs ! (length offs0 + i)) contents @ r)
      = Some [lazy_bound flat sgi (po + int (k + i) * ws) (ss ! i) st]"
    if "list_all (\<lambda>s. idx_ok (get_dylib_idx flat s) \<and> 0 \<notin> set (bs_name s)) ss"
      "po + int (k + length ss) * ws < 2 ^ 64" "i < length ss"
      "lazy_loop flat sgi po ws k ss (offs0, c0) = (offs, contents)" for k ss offs0 c0 i
    using that
  proof (induction ss arbitrary: k offs0 c0 i)
    case (Cons s ss)
    let ?off = "po + int k * ws"
    have le: "?off \<le> po + int (k + length (s # ss)) * ws"
      using assms(5) by (intro add_left_mono mult_right_mono) auto
    have off: "0 \<le> ?off" "?off < 2 ^ 64" using assms(4, 5) le Cons.prems(2) by auto
    from Cons.prems(4) have loop: "lazy_loop flat sgi po ws (Suc k) ss
        (offs0 @ [length c0], lazy_add flat sgi ?off s c0) = (offs, contents)" by simp
    show ?case
    proof (cases i)
      case 0
      from lazy_loop_prefix [OF loop] obtain q os where c: "contents = lazy_add flat sgi ?off s c0 @ q"
        and o: "offs = (offs0 @ [length c0]) @ os" by blast
      have "length c0 \<le> length (lazy_add flat sgi ?off s c0)" by (simp add: lazy_add_eq)
      then have "drop (offs ! (length offs0 + i)) contents @ r
          = drop (length c0) (lazy_add flat sgi ?off s c0) @ q @ r"
        using 0 by (simp add: c o nth_append)
      then show ?thesis
        using run_lazy [of flat s sgi ?off 8 st c0 "q @ r"] Cons.prems(1) assms(2, 3) off 0 by simp
    next
      case (Suc j)
      have "bind_run 8 st (drop (offs ! (length (offs0 @ [length c0]) + j)) contents @ r)
          = Some [lazy_bound flat sgi (po + int (Suc k + j) * ws) (ss ! j) st]"
        by (rule Cons.IH) (use Cons.prems loop Suc in \<open>auto simp: algebra_simps\<close>)
      with Suc show ?thesis by simp
    qed
  qed simp
  from gen [of ss 0 i "[]" contents0] assms show ?thesis by simp
qed

theorem lazy_bind_run_witness:
  "bind_run 8 (regs_at False (hd sample_bindings))
     (drop (fst (lazy_loop False 2 64 8 0 (map be_sym sample_bindings) ([], [])) ! 1)
        (snd (lazy_loop False 2 64 8 0 (map be_sym sample_bindings) ([], []))) @ [])
   = Some [lazy_bound False 2 (64 + int 1 * 8) (map be_sym sample_bindings ! 1) (regs_at False (hd sample_bindings))]"
  by (rule lazy_bind_run)
    (simp_all add: sample_bindings_def idx_ok_def get_dylib_idx_def Let_def str_def)

end
