(* ===== verification/MachO_Export.thy ===== *)
theory MachO_Export
  imports Leb MachO_Consts MachO_Bind
begin

text \<open>
  The export trie: \<^verbatim>\<open>ExportEncoder\<close> of \<^verbatim>\<open>src/macho/mold.h\<close> and \<^verbatim>\<open>src/macho/output-chunks.cc\<close>, which builds a
  trie of the exported symbols, assigns offsets to its nodes in two passes and serializes it, and
  \<^verbatim>\<open>DylibFile::read_trie\<close> of \<^verbatim>\<open>src/macho/input-files.cc\<close>, which reads such a trie back.
\<close>

subsection \<open>Construction\<close>

record Entry =
  ent_name :: bytes
  ent_flags :: u32
  ent_addr :: u64

datatype TrieNode = TrieNode
  (tn_prefix: bytes) (tn_leaf: bool) (tn_flags: u32) (tn_addr: u64) (tn_offset: u32) (tn_children: "TrieNode list")

fun common_prefix_len :: "bytes \<Rightarrow> bytes \<Rightarrow> nat" where
  "common_prefix_len (x # xs) (y # ys) = (if x = y then Suc (common_prefix_len xs ys) else 0)"
| "common_prefix_len _ _ = 0"

text \<open>
  The loop that cuts the entries into runs with the same character at position \<open>k\<close>;
  \<^verbatim>\<open>std::partition_point\<close> finds the end of a run, which in a sorted span is the first
  entry with another character.
\<close>

function spans :: "nat \<Rightarrow> Entry list \<Rightarrow> Entry list list" where
  "spans k [] = []"
| "spans k (e # es) =
     (let same = (\<lambda>d. ent_name e ! k = ent_name d ! k)
      in (e # takeWhile same es) # spans k (dropWhile same es))"
  by pat_completeness auto
termination
  by (relation "measure (\<lambda>(k, es). length es)") (auto simp: less_Suc_eq_le length_dropWhile_le)

fun map_result :: "('a \<Rightarrow> 'b result option) \<Rightarrow> 'a list \<Rightarrow> 'b list result option" where
  "map_result f [] = Some (Inr [])"
| "map_result f (x # xs) =
     (case f x of
        None \<Rightarrow> None
      | Some (Inl e) \<Rightarrow> Some (Inl e)
      | Some (Inr y) \<Rightarrow>
          (case map_result f xs of
             None \<Rightarrow> None
           | Some (Inl e) \<Rightarrow> Some (Inl e)
           | Some (Inr ys) \<Rightarrow> Some (Inr (y # ys))))"

text \<open>
  \<open>construct_trie\<close> returns \<open>None\<close> when its fuel runs out: on entries that are not sorted the recursion
  need not end. A node is made with the offset \<^verbatim>\<open>-1\<close>. Comparing characters at \<open>new_len\<close> reads
  past the end of a name that is not longer than that.
\<close>

fun construct_trie :: "nat \<Rightarrow> Entry list \<Rightarrow> nat \<Rightarrow> TrieNode result option" where
  "construct_trie 0 es len = None"
| "construct_trie (Suc fuel) es len =
     (let name0 = ent_name (hd es);
          new_len = common_prefix_len name0 (ent_name (last es));
          pre = (if new_len > len then take (new_len - len) (drop len name0) else []);
          leaf = (new_len > len \<and> length name0 = new_len);
          rest = (if leaf then tl es else es)
      in if list_ex (\<lambda>e. length (ent_name e) \<le> new_len) rest then Some (Inl OutOfBounds)
         else case map_result (\<lambda>span. construct_trie fuel span new_len) (spans new_len rest) of
                None \<Rightarrow> None
              | Some (Inl e) \<Rightarrow> Some (Inl e)
              | Some (Inr cs) \<Rightarrow>
                  Some (Inr (TrieNode pre leaf (if leaf then ent_flags (hd es) else 0)
                     (if leaf then ent_addr (hd es) else 0) (- 1) cs)))"

subsection \<open>Offsets\<close>

definition leaf_size :: "TrieNode \<Rightarrow> nat" where
  "leaf_size n = uleb_size (ucast (tn_flags n)) + uleb_size (tn_addr n)"

definition node_size :: "TrieNode \<Rightarrow> nat" where
  "node_size n =
     (if tn_leaf n then leaf_size n + uleb_size (of_nat (leaf_size n)) else 1) + 1
     + sum_list (map (\<lambda>c. length (tn_prefix c) + 1 + uleb_size (ucast (tn_offset c))) (tn_children n))"

fun set_offset :: "TrieNode \<Rightarrow> nat \<Rightarrow> TrieNode \<times> nat"
  and set_offsets :: "TrieNode list \<Rightarrow> nat \<Rightarrow> TrieNode list \<times> nat" where
  "set_offset (TrieNode p l f a off cs) base =
     (let sz = node_size (TrieNode p l f a off cs);
          (cs', sz') = set_offsets cs (base + sz)
      in (TrieNode p l f a (of_nat base) cs', sz + sz'))"
| "set_offsets [] base = ([], 0)"
| "set_offsets (c # cs) base =
     (let (c', s) = set_offset c base; (cs', s') = set_offsets cs (base + s)
      in (c' # cs', s + s'))"

definition add_root :: "TrieNode \<Rightarrow> TrieNode" where
  "add_root node = (if tn_prefix node = [] then node else TrieNode [] False 0 0 (- 1) [node])"

definition export_finish :: "nat \<Rightarrow> Entry list \<Rightarrow> (TrieNode \<times> nat) result option" where
  "export_finish fuel entries =
     (case construct_trie fuel (sort_key ent_name entries) 0 of
        None \<Rightarrow> None
      | Some (Inl e) \<Rightarrow> Some (Inl e)
      | Some (Inr node) \<Rightarrow> Some (Inr (set_offset (fst (set_offset (add_root node) 0)) 0)))"

subsection \<open>Serialization\<close>

definition write_at :: "bytes \<Rightarrow> nat \<Rightarrow> bytes \<Rightarrow> bytes result" where
  "write_at buf pos bs =
     (if pos + length bs \<le> length buf then Inr (take pos buf @ bs @ drop (pos + length bs) buf)
      else Inl OutOfBounds)"

definition put_uleb :: "u64 \<Rightarrow> bytes \<times> nat \<Rightarrow> (bytes \<times> nat) result" where
  "put_uleb v st = (case st of (buf, pos) \<Rightarrow>
     bind_result (write_uleb (drop pos buf) v) (\<lambda>(n, b). Inr (take pos buf @ b, pos + n)))"

definition put_bytes :: "bytes \<Rightarrow> bytes \<times> nat \<Rightarrow> (bytes \<times> nat) result" where
  "put_bytes bs st = (case st of (buf, pos) \<Rightarrow>
     bind_result (write_at buf pos bs) (\<lambda>b. Inr (b, pos + length bs)))"

definition write_node :: "bytes \<Rightarrow> TrieNode \<Rightarrow> bytes result" where
  "write_node start n =
     bind_result
       (if tn_leaf n
        then bind_result (put_uleb (of_nat (leaf_size n)) (start, unat (tn_offset n))) (\<lambda>st.
             bind_result (put_uleb (ucast (tn_flags n)) st) (\<lambda>st. put_uleb (tn_addr n) st))
        else put_bytes [0] (start, unat (tn_offset n))) (\<lambda>st.
     bind_result (put_bytes [of_nat (length (tn_children n))] st) (\<lambda>st.
     bind_result
       (foldM (\<lambda>st c. bind_result (put_bytes (tn_prefix c @ [0]) st) (put_uleb (ucast (tn_offset c)))) st (tn_children n))
       (\<lambda>st. Inr (fst st))))"

fun write_trie :: "bytes \<Rightarrow> TrieNode \<Rightarrow> bytes result"
  and write_tries :: "bytes \<Rightarrow> TrieNode list \<Rightarrow> bytes result" where
  "write_trie start (TrieNode p l f a off cs) =
     bind_result (write_node start (TrieNode p l f a off cs)) (\<lambda>buf. write_tries buf cs)"
| "write_tries start [] = Inr start"
| "write_tries start (c # cs) = bind_result (write_trie start c) (\<lambda>buf. write_tries buf cs)"

subsection \<open>Reading\<close>

definition next_byte :: "bytes \<Rightarrow> (u8 \<times> bytes) result" where
  "next_byte bs = (case bs of [] \<Rightarrow> Inl OutOfBounds | b # r \<Rightarrow> Inr (b, r))"

definition next_cstring :: "bytes \<Rightarrow> (bytes \<times> bytes) result" where
  "next_cstring bs = (case cstring bs of None \<Rightarrow> Inl OutOfBounds | Some p \<Rightarrow> Inr p)"

text \<open>The terminal part of a node: the exported name with its flags, if there is one.\<close>

definition read_terminal :: "bytes \<Rightarrow> bytes \<Rightarrow> ((bytes \<times> u32) list \<times> bytes) result" where
  "read_terminal pre bs =
     bind_result (next_byte bs) (\<lambda>(b, r).
       if b = 0 then Inr ([], r)
       else bind_result (read_uleb bs) (\<lambda>(_, r1).
            bind_result (read_uleb r1) (\<lambda>(fl64, r2).
              let fl = ucast fl64 :: u32 in
              if fl AND EXPORT_SYMBOL_FLAGS_REEXPORT \<noteq> 0 then
                bind_result (read_uleb r2) (\<lambda>(_, r3).
                bind_result (next_cstring r3) (\<lambda>(s, r4). Inr ([(if s \<noteq> [] then s else pre, fl)], r4)))
              else if fl AND EXPORT_SYMBOL_FLAGS_STUB_AND_RESOLVER \<noteq> 0 then
                bind_result (read_uleb r2) (\<lambda>(_, r3).
                bind_result (read_uleb r3) (\<lambda>(_, r4). Inr ([(pre, fl)], r4)))
              else bind_result (read_uleb r2) (\<lambda>(_, r3). Inr ([(pre, fl)], r3)))))"

text \<open>
  \<open>read_trie\<close> returns the arguments of its \<^verbatim>\<open>add_export\<close> calls in order; \<open>None\<close> when the fuel runs
  out (the offsets of a malformed trie may form a cycle). A child at the offset of its parent fails
  the \<^verbatim>\<open>assert\<close>.
\<close>

function read_trie :: "nat \<Rightarrow> bytes \<Rightarrow> nat \<Rightarrow> bytes \<Rightarrow> (bytes \<times> u32) list result option"
  and read_children :: "nat \<Rightarrow> bytes \<Rightarrow> nat \<Rightarrow> nat \<Rightarrow> bytes \<Rightarrow> bytes \<Rightarrow> (bytes \<times> u32) list result option" where
  "read_trie 0 start offset pre = None"
| "read_trie (Suc fuel) start offset pre =
     (case bind_result (read_terminal pre (drop offset start)) (\<lambda>(ex, r).
             bind_result (next_byte r) (\<lambda>(n, r'). Inr (ex, n, r'))) of
        Inl e \<Rightarrow> Some (Inl e)
      | Inr (ex, n, r) \<Rightarrow>
          (case read_children fuel start offset (unat n) r pre of
             None \<Rightarrow> None
           | Some (Inl e) \<Rightarrow> Some (Inl e)
           | Some (Inr exs) \<Rightarrow> Some (Inr (ex @ exs))))"
| "read_children fuel start offset 0 bs pre = Some (Inr [])"
| "read_children fuel start offset (Suc n) bs pre =
     (case bind_result (next_cstring bs) (\<lambda>(s, r). bind_result (read_uleb r) (\<lambda>(off, r'). Inr (s, off, r'))) of
        Inl e \<Rightarrow> Some (Inl e)
      | Inr (s, off, r) \<Rightarrow>
          if unat off = offset then Some (Inl Unreachable)
          else (case read_trie fuel start (unat off) (pre @ s) of
             None \<Rightarrow> None
           | Some (Inl e) \<Rightarrow> Some (Inl e)
           | Some (Inr ex) \<Rightarrow>
               (case read_children fuel start offset n r pre of
                  None \<Rightarrow> None
                | Some (Inl e) \<Rightarrow> Some (Inl e)
                | Some (Inr exs) \<Rightarrow> Some (Inr (ex @ exs)))))"
  by pat_completeness auto
termination
  by (relation "measures [\<lambda>x. case x of Inl (f, _) \<Rightarrow> f | Inr (f, _) \<Rightarrow> f,
      \<lambda>x. case x of Inl _ \<Rightarrow> 0 | Inr (f, s, off, n, _) \<Rightarrow> n]") auto

subsection \<open>The section and the exports of a dylib\<close>

datatype scope = SCOPE_LOCAL | SCOPE_MODULE | SCOPE_GLOBAL

text \<open>What the section reads of a symbol; \<open>xs_file\<close> is the index of the file that defines it.\<close>

record ExportSym =
  xs_name :: bytes
  xs_file :: nat
  xs_visibility :: scope
  xs_weak :: bool
  xs_tlv :: bool
  xs_addr :: u64

definition get_flags :: "ExportSym \<Rightarrow> u32" where
  "get_flags s =
     (if xs_weak s then EXPORT_SYMBOL_FLAGS_WEAK_DEFINITION else 0)
     OR (if xs_tlv s then EXPORT_SYMBOL_FLAGS_KIND_THREAD_LOCAL else 0)"

text \<open>The objects with their symbols, null pointers included.\<close>

definition export_entries :: "u64 \<Rightarrow> (nat \<times> ExportSym option list) list \<Rightarrow> Entry list" where
  "export_entries hdr_addr objs =
     [\<lparr> ent_name = xs_name s, ent_flags = get_flags s, ent_addr = xs_addr s - hdr_addr \<rparr>.
       (file, syms) \<leftarrow> objs, Some s \<leftarrow> syms, xs_file s = file \<and> xs_visibility s = SCOPE_GLOBAL]"

definition export_compute_size :: "nat \<Rightarrow> u64 \<Rightarrow> (nat \<times> ExportSym option list) list \<Rightarrow> (TrieNode \<times> nat) result option" where
  "export_compute_size fuel hdr_addr objs =
     (let es = export_entries hdr_addr objs
      in if es = [] then Some (Inr (TrieNode [] False 0 0 (- 1) [], 0))
         else case export_finish fuel es of
                None \<Rightarrow> None
              | Some (Inl e) \<Rightarrow> Some (Inl e)
              | Some (Inr (root, sz)) \<Rightarrow> Some (Inr (root, unat (align_to (of_nat sz) 8))))"

text \<open>The section in the output file, from its offset on for \<open>hdr_size\<close> bytes.\<close>

definition export_copy_buf :: "TrieNode \<Rightarrow> nat \<Rightarrow> bytes result" where
  "export_copy_buf root hdr_size = (if hdr_size = 0 then Inr [] else write_trie (replicate hdr_size 0) root)"

text \<open>\<open>add_export\<close> on the map of exports and the list of names reported as inconsistent.\<close>

definition add_export :: "(bytes \<rightharpoonup> u32) \<times> bytes list \<Rightarrow> bytes \<times> u32 \<Rightarrow> (bytes \<rightharpoonup> u32) \<times> bytes list" where
  "add_export st nf = (case (st, nf) of ((ex, errs), (name, flags)) \<Rightarrow>
     let existing = (case ex name of None \<Rightarrow> 0 | Some f \<Rightarrow> f);
         is_tls = (\<lambda>f. f AND EXPORT_SYMBOL_FLAGS_KIND_MASK = EXPORT_SYMBOL_FLAGS_KIND_THREAD_LOCAL)
     in if existing = 0 then (ex(name \<mapsto> flags), errs)
        else let errs' = (if is_tls existing \<noteq> is_tls flags then errs @ [name] else errs)
             in if existing AND EXPORT_SYMBOL_FLAGS_WEAK_DEFINITION \<noteq> 0 \<and> flags AND EXPORT_SYMBOL_FLAGS_WEAK_DEFINITION = 0
                then (ex(name \<mapsto> flags), errs') else (ex(name \<mapsto> existing), errs'))"

definition parse_exports :: "nat \<Rightarrow> bytes \<Rightarrow> ((bytes \<rightharpoonup> u32) \<times> bytes list) result option" where
  "parse_exports fuel start =
     map_option (map_sum id (foldl add_export (Map.empty, []))) (read_trie fuel start 0 [])"

subsection \<open>Sorted entries make a trie of exactly these entries\<close>

fun exports :: "bytes \<Rightarrow> TrieNode \<Rightarrow> (bytes \<times> u32 \<times> u64) list" where
  "exports p (TrieNode pre l f a off cs) =
     (if l then [(p, f, a)] else []) @ concat (map (\<lambda>c. exports (p @ tn_prefix c) c) cs)"

lemma common_prefix_take:
  "take (common_prefix_len x y) x = take (common_prefix_len x y) y \<and>
   common_prefix_len x y \<le> length x \<and> common_prefix_len x y \<le> length y"
  by (induction x y rule: common_prefix_len.induct) auto

lemma common_prefix_max:
  "k \<le> length x \<Longrightarrow> k \<le> length y \<Longrightarrow> take k x = take k y \<Longrightarrow> k \<le> common_prefix_len x y"
proof (induction x y arbitrary: k rule: common_prefix_len.induct)
  case (1 x xs y ys)
  then show ?case by (cases k) auto
qed auto

lemma between_prefix:
  fixes x y z :: bytes
  assumes "x \<le> y" "y \<le> z" "k \<le> length x" "k \<le> length z" "take k x = take k z"
  shows "k \<le> length y \<and> take k y = take k x"
  using assms
proof (induction k arbitrary: x y z)
  case (Suc k)
  then obtain a xs b ys c zs where "x = a # xs" "y = b # ys" "z = c # zs"
    by (cases x; cases y; cases z) auto
  with Suc show ?case by (auto simp: Cons_le_Cons)
qed simp

lemma take_le: "take k (x :: bytes) \<le> x"
proof (induction k arbitrary: x)
  case (Suc k)
  then show ?case by (cases x) auto
qed simp

lemma char_mono:
  fixes x y :: bytes
  assumes "x < y" "take k x = take k y" "k < length x" "k < length y"
  shows "x ! k \<le> y ! k"
  using assms
proof (induction k arbitrary: x y)
  case 0
  then show ?case by (cases x; cases y) auto
next
  case (Suc k)
  then obtain a xs b ys where "x = a # xs" "y = b # ys" by (cases x; cases y) auto
  with Suc show ?case by auto
qed

abbreviation by_name :: "Entry list \<Rightarrow> bool" where
  "by_name es \<equiv> sorted_wrt (\<lambda>a b. ent_name a < ent_name b) es"

lemma concat_spans [simp]: "concat (spans k es) = es"
  by (induction k es rule: spans.induct) (simp_all add: Let_def)

lemma spans_not_Nil: "s \<in> set (spans k es) \<Longrightarrow> s \<noteq> []"
  by (induction k es rule: spans.induct) (auto simp: Let_def)

lemma spans_same: "s \<in> set (spans k es) \<Longrightarrow> e \<in> set s \<Longrightarrow> ent_name e ! k = ent_name (hd s) ! k"
proof (induction k es rule: spans.induct)
  case (2 k d es)
  then show ?case by (auto simp: Let_def dest!: set_takeWhileD)
qed simp

lemma spans_by_name: "by_name es \<Longrightarrow> s \<in> set (spans k es) \<Longrightarrow> by_name s"
proof (induction k es rule: spans.induct)
  case (2 k e es)
  let ?P = "\<lambda>d. ent_name e ! k = ent_name d ! k"
  have es: "by_name es" using "2.prems"(1) by simp
  have "by_name (takeWhile ?P es)" by (subst takeWhile_eq_take) (rule sorted_wrt_take [OF es])
  moreover have "by_name (dropWhile ?P es)" by (subst dropWhile_eq_drop) (rule sorted_wrt_drop [OF es])
  ultimately show ?case using 2 by (auto simp: Let_def dest!: set_takeWhileD)
qed simp

lemma spans_subset: "s \<in> set (spans k es) \<Longrightarrow> e \<in> set s \<Longrightarrow> e \<in> set es"
  using concat_spans [of k es] by (metis UN_I set_concat)

text \<open>The characters that lead to the children of a node ascend, so a node has at most 255 of them.\<close>

lemma spans_ascending:
  assumes "sorted (map (\<lambda>e. ent_name e ! k) es)"
  shows "sorted_wrt (<) (map (\<lambda>s. ent_name (hd s) ! k) (spans k es))
       \<and> (\<forall>s\<in>set (spans k es). \<exists>e\<in>set es. ent_name (hd s) ! k = ent_name e ! k)"
  using assms
proof (induction k es rule: spans.induct)
  case (2 k e es)
  let ?c = "\<lambda>d. ent_name d ! k" and ?P = "\<lambda>d. ent_name e ! k = ent_name d ! k"
  let ?r = "dropWhile ?P es"
  have sr: "sorted (map ?c ?r)"
    by (subst dropWhile_eq_drop, subst drop_map [symmetric], rule sorted_wrt_drop) (use "2.prems" in simp)
  have gt: "?c e < ?c d" if "d \<in> set ?r" for d
  proof -
    obtain r rs where r: "?r = r # rs" using \<open>d \<in> set ?r\<close> by (cases ?r) auto
    then have "?c e \<noteq> ?c r" using hd_dropWhile [of ?P es] by auto
    moreover have "?c e \<le> ?c r" using "2.prems" r by (metis (mono_tags, lifting) list.set_intros(1) list.simps(9) set_dropWhileD sorted_simps(2) image_eqI set_map)
    moreover have "?c r \<le> ?c d" using sr r that by auto
    ultimately show ?thesis by auto
  qed
  show ?case
    using "2.IH" [OF refl sr] gt by (auto simp: Let_def dest: set_dropWhileD)
qed simp

lemma length_spans:
  assumes "sorted (map (\<lambda>e. ent_name e ! k) es)" and "\<forall>e\<in>set es. ent_name e ! k \<noteq> 0"
  shows "length (spans k es) < 256"
proof -
  let ?cs = "map (\<lambda>s. ent_name (hd s) ! k) (spans k es)"
  have "distinct ?cs" using spans_ascending [OF assms(1)] by (simp add: strict_sorted_iff)
  then have "length (spans k es) = card (set ?cs)" by (metis distinct_card length_map)
  moreover have "set ?cs \<subseteq> UNIV - {0}" using spans_ascending [OF assms(1)] assms(2) by force
  then have "card (set ?cs) \<le> card (UNIV - {0} :: u8 set)" by (intro card_mono) auto
  moreover have "card (UNIV - {0} :: u8 set) = 255" by (simp add: card_Diff_singleton card_word)
  ultimately show ?thesis by simp
qed

lemma map_result_eq:
  "(\<And>x. x \<in> set xs \<Longrightarrow> f x = Some (Inr (g x))) \<Longrightarrow> map_result f xs = Some (Inr (map g xs))"
  by (induction xs) simp_all

text \<open>
  What a call of \<open>construct_trie\<close> may rely on: the names are sorted and distinct and agree on their
  first \<open>m\<close> characters, and \<open>m\<close> exceeds the length already consumed, except at the root.
\<close>

definition trie_input :: "nat \<Rightarrow> nat \<Rightarrow> Entry list \<Rightarrow> bool" where
  "trie_input m len es \<longleftrightarrow> es \<noteq> [] \<and> by_name es \<and> (len < m \<or> m = 0 \<and> len = 0) \<and>
     (\<forall>e\<in>set es. ent_name e \<noteq> [] \<and> m \<le> length (ent_name e) \<and>
        take m (ent_name e) = take m (ent_name (hd es)))"

lemma trie_input_prefix:
  assumes "trie_input m len es"
  defines "k \<equiv> common_prefix_len (ent_name (hd es)) (ent_name (last es))"
  shows "m \<le> k" and "\<And>e. e \<in> set es \<Longrightarrow> k \<le> length (ent_name e) \<and> take k (ent_name e) = take k (ent_name (hd es))"
proof -
  from assms(1) obtain e0 es' where es: "es = e0 # es'" by (cases es) (auto simp: trie_input_def)
  have mem: "hd es \<in> set es" "last es \<in> set es" using es by auto
  have agree: "m \<le> length (ent_name e)" "take m (ent_name e) = take m (ent_name (hd es))"
    if "e \<in> set es" for e
    using assms(1) that unfolding trie_input_def by blast+
  show "m \<le> k"
    unfolding k_def
    by (rule common_prefix_max [OF agree(1) [OF mem(1)] agree(1) [OF mem(2)] agree(2) [OF mem(2), symmetric]])
  fix e assume e: "e \<in> set es"
  have first: "ent_name (hd es) \<le> ent_name e" using assms(1) e es by (auto simp: trie_input_def)
  have last: "ent_name e \<le> ent_name (last es)"
  proof -
    obtain i where i: "i < length es" "e = es ! i" using e by (metis in_set_conv_nth)
    have l: "last es = es ! (length es - 1)" using es by (intro last_conv_nth) simp
    show ?thesis
    proof (cases "i = length es - 1")
      case True
      then show ?thesis using i(2) l by simp
    next
      case False
      then have "i < length es - 1" using i by simp
      then have "ent_name (es ! i) < ent_name (es ! (length es - 1))"
        using assms(1) i by (auto simp: trie_input_def intro: sorted_wrt_nth_less)
      then show ?thesis unfolding i(2) l by (rule less_imp_le)
    qed
  qed
  show "k \<le> length (ent_name e) \<and> take k (ent_name e) = take k (ent_name (hd es))"
    using between_prefix [OF first last] common_prefix_take unfolding k_def by metis
qed

text \<open>Only the first entry can end at the common prefix, and then it is the leaf of the node.\<close>

lemma trie_input_rest:
  assumes inp: "trie_input m len es"
  defines "k \<equiv> common_prefix_len (ent_name (hd es)) (ent_name (last es))"
  defines "leaf \<equiv> k > len \<and> length (ent_name (hd es)) = k"
  assumes e: "e \<in> set (if leaf then tl es else es)"
  shows "k < length (ent_name e)"
proof (rule ccontr)
  assume short: "\<not> k < length (ent_name e)"
  obtain e0 es' where es: "es = e0 # es'" using inp by (cases es) (auto simp: trie_input_def)
  have mem: "e \<in> set es" using e es by (auto split: if_splits)
  note pre = trie_input_prefix [OF inp, folded k_def]
  from pre(2) [OF mem] short have "ent_name e = take k (ent_name (hd es))" by (metis not_less take_all)
  then have "ent_name e \<le> ent_name (hd es)" using take_le by metis
  moreover have "e \<in> set es' \<Longrightarrow> ent_name (hd es) < ent_name e"
    using inp es by (auto simp: trie_input_def)
  ultimately have "e \<notin> set es'" by auto
  with e mem es have "\<not> leaf" and "e = hd es" by (auto split: if_splits)
  with short pre(2) [OF mem] have "k \<le> len" by (auto simp: leaf_def)
  with pre(1) inp have "k = 0" by (auto simp: trie_input_def)
  with short inp mem show False by (auto simp: trie_input_def)
qed

lemma trie_input_sorted:
  assumes "trie_input m len es" and "by_name rest" and "set rest \<subseteq> set es"
    and "\<And>e. e \<in> set rest \<Longrightarrow> k < length (ent_name e)"
    and "\<And>e. e \<in> set es \<Longrightarrow> take k (ent_name e) = take k (ent_name (hd es))"
  shows "sorted (map (\<lambda>e. ent_name e ! k) rest)"
proof -
  have "sorted_wrt (\<lambda>a b. ent_name a ! k \<le> ent_name b ! k) rest"
    using assms(2)
  proof (rule sorted_wrt_mono_rel [rotated])
    fix a b assume "a \<in> set rest" "b \<in> set rest" "ent_name a < ent_name b"
    then show "ent_name a ! k \<le> ent_name b ! k"
      using assms(3-5) by (intro char_mono) (auto simp: subset_iff)
  qed
  then show ?thesis by (simp add: sorted_wrt_map)
qed

lemma trie_input_span:
  assumes "trie_input m len es" and "by_name rest" and "set rest \<subseteq> set es"
    and "\<And>e. e \<in> set rest \<Longrightarrow> k < length (ent_name e)"
    and "\<And>e. e \<in> set es \<Longrightarrow> take k (ent_name e) = take k (ent_name (hd es))"
    and "s \<in> set (spans k rest)"
  shows "trie_input (Suc k) k s"
proof -
  have s: "s \<noteq> []" "by_name s" "\<And>e. e \<in> set s \<Longrightarrow> e \<in> set rest"
    using spans_not_Nil [OF assms(6)] spans_by_name [OF assms(2, 6)] spans_subset [OF assms(6)] by auto
  have "Suc k \<le> length (ent_name e) \<and> take (Suc k) (ent_name e) = take (Suc k) (ent_name (hd s))" if "e \<in> set s" for e
  proof -
    have h: "hd s \<in> set s" using s(1) by simp
    have "k < length (ent_name e)" "k < length (ent_name (hd s))" using assms(4) s(3) that h by auto
    moreover have "take k (ent_name e) = take k (ent_name (hd s))"
      using assms(3, 5) s(3) that h by (metis subset_eq)
    ultimately show ?thesis
      using spans_same [OF assms(6) that] by (simp add: take_Suc_conv_app_nth)
  qed
  moreover have "ent_name e \<noteq> []" if "e \<in> set s" for e
    using assms(1, 3) s(3) that by (auto simp: trie_input_def subset_iff)
  ultimately show ?thesis using s(1, 2) unfolding trie_input_def by blast
qed

definition entry_ok :: "Entry \<Rightarrow> bool" where
  "entry_ok e \<longleftrightarrow> ent_name e \<noteq> [] \<and> 0 \<notin> set (ent_name e) \<and> ent_flags e AND 0x18 = 0 \<and>
     unat (ent_flags e) < 2 ^ 31 \<and> unat (ent_addr e) < 2 ^ 31"

fun trie_ok :: "TrieNode \<Rightarrow> bool" where
  "trie_ok (TrieNode p l f a off cs) \<longleftrightarrow>
     0 \<notin> set p \<and> length cs < 256 \<and> (l \<longrightarrow> f AND 0x18 = 0 \<and> unat f < 2 ^ 31 \<and> unat a < 2 ^ 31) \<and>
     list_all (\<lambda>c. tn_prefix c \<noteq> []) cs \<and> list_all trie_ok cs"

fun weight :: "TrieNode \<Rightarrow> nat" where
  "weight (TrieNode p l f a off cs) = length p + sum_list (map weight cs)"

definition entry_val :: "Entry \<Rightarrow> bytes \<times> u32 \<times> u64" where
  "entry_val e = (ent_name e, ent_flags e, ent_addr e)"

lemma sum_list_spans: "(\<Sum>s\<leftarrow>spans k es. \<Sum>e\<leftarrow>s. f e) = (\<Sum>e\<leftarrow>es. f e :: nat)"
proof -
  have "(\<Sum>s\<leftarrow>ss. \<Sum>e\<leftarrow>s. f e) = (\<Sum>e\<leftarrow>concat ss. f e)" for ss by (induction ss) simp_all
  then show ?thesis by (metis concat_spans)
qed

lemma sum_rest_le:
  assumes "es = e0 # es'" and "rest = es' \<and> length (ent_name e0) = k \<or> rest = es \<and> k \<le> length (ent_name e0)"
    and "len \<le> k"
  shows "k - len + (\<Sum>e\<leftarrow>rest. length (ent_name e) - k) \<le> (\<Sum>e\<leftarrow>es. length (ent_name e) - len)"
proof -
  have "(\<Sum>e\<leftarrow>es'. length (ent_name e) - k) \<le> (\<Sum>e\<leftarrow>es'. length (ent_name e) - len)"
    using assms(3) by (intro sum_list_mono) simp
  with assms show ?thesis by auto
qed

lemma construct_trie_ok:
  assumes "trie_input m len es" and "\<forall>e\<in>set es. entry_ok e \<and> length (ent_name e) < m + fuel"
  shows "\<exists>n. construct_trie fuel es len = Some (Inr n) \<and> trie_ok n \<and> (0 < m \<longrightarrow> tn_prefix n \<noteq> []) \<and>
    exports (take len (ent_name (hd es)) @ tn_prefix n) n = map entry_val es \<and>
    weight n \<le> (\<Sum>e\<leftarrow>es. length (ent_name e) - len)"
  using assms
proof (induction fuel arbitrary: m len es)
  case 0
  then show ?case by (cases es) (auto simp: trie_input_def)
next
  case (Suc fuel)
  let ?n0 = "ent_name (hd es)"
  define k where "k = common_prefix_len ?n0 (ent_name (last es))"
  define leaf where "leaf \<longleftrightarrow> k > len \<and> length ?n0 = k"
  define rest where "rest = (if leaf then tl es else es)"
  note pre = trie_input_prefix [OF Suc.prems(1), folded k_def]
  note long = trie_input_rest [OF Suc.prems(1), folded k_def, folded leaf_def, folded rest_def]
  obtain e0 es' where es: "es = e0 # es'" using Suc.prems(1) by (cases es) (auto simp: trie_input_def)
  have rest: "by_name rest" "set rest \<subseteq> set es" using Suc.prems(1) es by (auto simp: rest_def trie_input_def)
  have k: "m \<le> k" "k \<le> length ?n0" using pre es by auto
  have "\<exists>n. construct_trie fuel s k = Some (Inr n) \<and> trie_ok n \<and> tn_prefix n \<noteq> [] \<and>
      exports (take k (ent_name (hd s)) @ tn_prefix n) n = map entry_val s \<and>
      weight n \<le> (\<Sum>e\<leftarrow>s. length (ent_name e) - k)" if s: "s \<in> set (spans k rest)" for s
  proof -
    have "trie_input (Suc k) k s"
      using pre(2) by (intro trie_input_span [OF Suc.prems(1) rest long _ s]) auto
    moreover have "\<forall>e\<in>set s. entry_ok e \<and> length (ent_name e) < Suc k + fuel"
      using Suc.prems(2) spans_subset [OF s] rest(2) k(1) by fastforce
    ultimately show ?thesis using Suc.IH [of "Suc k" k s] by auto
  qed
  then obtain g where g: "\<And>s. s \<in> set (spans k rest) \<Longrightarrow> construct_trie fuel s k = Some (Inr (g s)) \<and>
      trie_ok (g s) \<and> tn_prefix (g s) \<noteq> [] \<and>
      exports (take k (ent_name (hd s)) @ tn_prefix (g s)) (g s) = map entry_val s \<and>
      weight (g s) \<le> (\<Sum>e\<leftarrow>s. length (ent_name e) - k)" by metis
  define n where "n = TrieNode (if k > len then take (k - len) (drop len ?n0) else []) leaf
    (if leaf then ent_flags (hd es) else 0) (if leaf then ent_addr (hd es) else 0) (- 1) (map g (spans k rest))"
  have "\<not> list_ex (\<lambda>e. length (ent_name e) \<le> k) rest" using long by (auto simp: list_ex_iff not_le)
  then have con: "construct_trie (Suc fuel) es len = Some (Inr n)"
    using map_result_eq [of "spans k rest" "\<lambda>s. construct_trie fuel s k" g] g
    by (simp add: Let_def k_def [symmetric] leaf_def [symmetric] rest_def [symmetric] n_def)
  have path: "take len ?n0 @ tn_prefix n = take k ?n0"
  proof (cases "k > len")
    case True
    then show ?thesis using k(2) take_add [of len "k - len" ?n0] by (simp add: n_def)
  next
    case False
    then have "k = 0" "len = 0" using Suc.prems(1) k(1) by (auto simp: trie_input_def)
    then show ?thesis by (simp add: n_def)
  qed
  have "exports (take k ?n0) n = (if leaf then [entry_val (hd es)] else []) @ concat (map (map entry_val) (spans k rest))"
  proof -
    have "exports (take k ?n0 @ tn_prefix (g s)) (g s) = map entry_val s" if s: "s \<in> set (spans k rest)" for s
    proof -
      have "hd s \<in> set es" using spans_not_Nil [OF s] spans_subset [OF s] rest(2) by auto
      with g [OF s] pre(2) show ?thesis by metis
    qed
    then show ?thesis by (simp add: n_def leaf_def entry_val_def cong: map_cong)
  qed
  also have "\<dots> = map entry_val es" using es by (simp add: rest_def map_concat [symmetric])
  finally have ex: "exports (take k ?n0) n = map entry_val es" .
  have nz: "\<forall>e\<in>set rest. ent_name e ! k \<noteq> 0"
    using Suc.prems(2) rest(2) long by (fastforce simp: entry_ok_def dest: nth_mem)
  have "length (spans k rest) < 256"
    using pre(2) by (intro length_spans trie_input_sorted [OF Suc.prems(1) rest long] nz) auto
  moreover have "entry_ok (hd es)" using Suc.prems(2) es by simp
  then have "0 \<notin> set (tn_prefix n)"
    by (auto simp: n_def entry_ok_def dest!: in_set_takeD in_set_dropD split: if_splits)
  ultimately have "trie_ok n"
    using g \<open>entry_ok (hd es)\<close> by (simp add: n_def list_all_iff entry_ok_def split: if_splits)
  moreover have "0 < m \<longrightarrow> tn_prefix n \<noteq> []" using Suc.prems(1) k by (auto simp: n_def trie_input_def)
  moreover have "weight n \<le> (\<Sum>e\<leftarrow>es. length (ent_name e) - len)"
  proof -
    have "weight n = k - len + (\<Sum>s\<leftarrow>spans k rest. weight (g s))" using k(2) by (simp add: n_def comp_def)
    also have "\<dots> \<le> k - len + (\<Sum>s\<leftarrow>spans k rest. \<Sum>e\<leftarrow>s. length (ent_name e) - k)"
      using g by (intro add_mono sum_list_mono) auto
    also have "(\<Sum>s\<leftarrow>spans k rest. \<Sum>e\<leftarrow>s. length (ent_name e) - k) = (\<Sum>e\<leftarrow>rest. length (ent_name e) - k)"
      by (simp add: sum_list_spans)
    also have "k - len + \<dots> \<le> (\<Sum>e\<leftarrow>es. length (ent_name e) - len)"
    proof (rule sum_rest_le)
      show "es = e0 # es'" by (fact es)
      show "rest = es' \<and> length (ent_name e0) = k \<or> rest = es \<and> k \<le> length (ent_name e0)"
        using es k(2) by (auto simp: rest_def leaf_def)
      show "len \<le> k" using Suc.prems(1) k(1) by (auto simp: trie_input_def)
    qed
    finally show ?thesis .
  qed
  ultimately show ?case using con ex path by metis
qed


subsection \<open>Offsets only shrink from one pass to the next\<close>

fun tle :: "TrieNode \<Rightarrow> TrieNode \<Rightarrow> bool"
  and tles :: "TrieNode list \<Rightarrow> TrieNode list \<Rightarrow> bool" where
  "tle (TrieNode p l f a off cs) (TrieNode p' l' f' a' off' cs') \<longleftrightarrow>
     p = p' \<and> l = l' \<and> f = f' \<and> a = a' \<and> off \<le> off' \<and> tles cs cs'"
| "tles [] [] \<longleftrightarrow> True"
| "tles (c # cs) (d # ds) \<longleftrightarrow> tle c d \<and> tles cs ds"
| "tles _ _ \<longleftrightarrow> False"

fun fresh :: "TrieNode \<Rightarrow> bool" where
  "fresh (TrieNode p l f a off cs) \<longleftrightarrow> off = - 1 \<and> list_all fresh cs"

fun depth :: "TrieNode \<Rightarrow> nat" where
  "depth (TrieNode p l f a off cs) = Suc (fold max (map depth cs) 0)"

lemma tle_exports:
  "tle n m \<Longrightarrow> exports p n = exports p m \<and> trie_ok n = trie_ok m \<and> depth n = depth m \<and> tn_prefix n = tn_prefix m"
  "tles ns ms \<Longrightarrow> map (\<lambda>c. exports (p @ tn_prefix c) c) ns = map (\<lambda>c. exports (p @ tn_prefix c) c) ms \<and>
     list_all trie_ok ns = list_all trie_ok ms \<and>
     list_all (\<lambda>c. tn_prefix c \<noteq> []) ns = list_all (\<lambda>c. tn_prefix c \<noteq> []) ms \<and> map depth ns = map depth ms \<and> length ns = length ms"
  by (induction n m and ns ms arbitrary: p and p rule: tle_tles.induct) auto

lemma uleb_size_mono: "unat v \<le> unat w \<Longrightarrow> unat w < 2 ^ 63 \<Longrightarrow> uleb_size v \<le> uleb_size w"
proof -
  assume vw: "unat v \<le> unat w" "unat w < 2 ^ 63"
  have "0 < length (uleb w)" by simp
  then have "unat w < 2 ^ (7 * length (uleb w))" using length_uleb by blast
  with vw(1) have "unat v < 2 ^ (7 * length (uleb w))" by simp
  then have "length (uleb v) \<le> length (uleb w)" by (simp add: length_uleb)
  moreover have "length (uleb v) = uleb_size v" "length (uleb w) = uleb_size w"
    using vw by (simp_all add: uleb_size_eq)
  ultimately show ?thesis by simp
qed

lemma offset_size_mono: "o1 \<le> (o2 :: u32) \<Longrightarrow> uleb_size (ucast o1) \<le> uleb_size (ucast o2)"
proof (rule uleb_size_mono)
  assume "o1 \<le> o2"
  then show "unat (ucast o1 :: u64) \<le> unat (ucast o2 :: u64)"
    by (simp add: unat_ucast_le word_le_nat_alt)
  show "unat (ucast o2 :: u64) < 2 ^ 63"
    using unsigned_less [of o2, where 'a = nat] by (simp add: unat_ucast_le)
qed

lemma tles_size:
  "tles ns ms \<Longrightarrow>
     sum_list (map (\<lambda>c. length (tn_prefix c) + 1 + uleb_size (ucast (tn_offset c))) ns)
   \<le> sum_list (map (\<lambda>c. length (tn_prefix c) + 1 + uleb_size (ucast (tn_offset c))) ms)"
proof (induction ns arbitrary: ms)
  case Nil
  then show ?case by (cases ms) auto
next
  case (Cons n ns)
  then obtain m ms' where ms: "ms = m # ms'" "tle n m" "tles ns ms'" by (cases ms) auto
  then have "tn_prefix n = tn_prefix m" "tn_offset n \<le> tn_offset m" by (cases n; cases m; auto)+
  with ms Cons.IH [OF ms(3)] offset_size_mono [of "tn_offset n" "tn_offset m"] show ?case by simp
qed

lemma node_size_mono: "tle n m \<Longrightarrow> node_size n \<le> node_size m"
proof -
  assume "tle n m"
  then obtain p l f a o1 cs o2 ds where "n = TrieNode p l f a o1 cs" "m = TrieNode p l f a o2 ds" "tles cs ds"
    by (cases n; cases m) auto
  then show ?thesis using tles_size [of cs ds] by (simp add: node_size_def leaf_size_def)
qed

lemma unat_of_nat_small: "n < 2 ^ 32 \<Longrightarrow> unat (of_nat n :: u32) = n"
  by (simp add: unat_of_nat)

lemma of_nat_le_u32: "a \<le> b \<Longrightarrow> b < 2 ^ 32 \<Longrightarrow> (of_nat a :: u32) \<le> of_nat b"
  by (simp add: word_le_nat_alt unat_of_nat_small)

lemma set_offset_mono:
  "tle n m \<Longrightarrow> b \<le> c \<Longrightarrow> c + snd (set_offset m c) < 2 ^ 32 \<Longrightarrow>
     tle (fst (set_offset n b)) (fst (set_offset m c)) \<and> snd (set_offset n b) \<le> snd (set_offset m c)"
  "tles ns ms \<Longrightarrow> b \<le> c \<Longrightarrow> c + snd (set_offsets ms c) < 2 ^ 32 \<Longrightarrow>
     tles (fst (set_offsets ns b)) (fst (set_offsets ms c)) \<and> snd (set_offsets ns b) \<le> snd (set_offsets ms c)"
proof (induction n m and ns ms arbitrary: b c and b c rule: tle_tles.induct)
  case (1 p l f a off cs p' l' f' a' off' cs')
  let ?n = "TrieNode p l f a off cs" and ?m = "TrieNode p' l' f' a' off' cs'"
  have sz: "node_size ?n \<le> node_size ?m" by (rule node_size_mono) (fact "1.prems"(1))
  have "tles (fst (set_offsets cs (b + node_size ?n))) (fst (set_offsets cs' (c + node_size ?m))) \<and>
      snd (set_offsets cs (b + node_size ?n)) \<le> snd (set_offsets cs' (c + node_size ?m))"
    using "1.prems" sz by (intro "1.IH") (auto simp: Let_def split: prod.splits)
  with "1.prems" sz show ?case
    by (auto simp: Let_def split: prod.splits intro: of_nat_le_u32)
next
  case (3 x cs d ds)
  have 1: "tle (fst (set_offset x b)) (fst (set_offset d c)) \<and> snd (set_offset x b) \<le> snd (set_offset d c)"
    using "3.prems" by (intro "3.IH"(1)) (auto simp: Let_def split: prod.splits)
  have "tles (fst (set_offsets cs (b + snd (set_offset x b)))) (fst (set_offsets ds (c + snd (set_offset d c)))) \<and>
      snd (set_offsets cs (b + snd (set_offset x b))) \<le> snd (set_offsets ds (c + snd (set_offset d c)))"
    using "3.prems" 1 by (intro "3.IH"(2)) (auto simp: Let_def split: prod.splits)
  with 1 show ?case by (auto simp: Let_def split: prod.splits)
qed auto

lemma set_offset_fresh:
  "fresh n \<Longrightarrow> tle (fst (set_offset n b)) n"
  "list_all fresh ns \<Longrightarrow> tles (fst (set_offsets ns b)) ns"
  by (induction n b and ns b rule: set_offset_set_offsets.induct) (auto simp: Let_def split: prod.splits)

lemma construct_trie_fresh:
  "construct_trie fuel es len = Some (Inr n) \<Longrightarrow> fresh n \<and> depth n \<le> fuel"
proof (induction fuel arbitrary: es len n)
  case (Suc fuel)
  have mr: "list_all fresh cs \<and> fold max (map depth cs) d \<le> fuel"
    if "map_result (\<lambda>s. construct_trie fuel s k) ss = Some (Inr cs)" "d \<le> fuel" for k ss cs d
    using that
  proof (induction ss arbitrary: cs d)
    case (Cons s ss)
    from Cons.prems(1) obtain c cs' where c: "construct_trie fuel s k = Some (Inr c)"
        "map_result (\<lambda>s. construct_trie fuel s k) ss = Some (Inr cs')" "cs = c # cs'"
      by (auto split: option.splits sum.splits)
    with Suc.IH [OF c(1)] Cons.IH [OF c(2), of "max (depth c) d"] Cons.prems(2) show ?case by simp
  qed auto
  from Suc.prems show ?case
    by (auto simp: Let_def split: if_splits option.splits sum.splits dest!: mr [where d = 0])
qed simp

subsection \<open>What a node writes\<close>

definition node_bytes :: "TrieNode \<Rightarrow> bytes" where
  "node_bytes n =
     (if tn_leaf n then uleb (of_nat (leaf_size n)) @ uleb (ucast (tn_flags n)) @ uleb (tn_addr n) else [0])
     @ [of_nat (length (tn_children n))]
     @ concat (map (\<lambda>c. tn_prefix c @ [0] @ uleb (ucast (tn_offset c))) (tn_children n))"

definition patch :: "bytes \<Rightarrow> nat \<Rightarrow> bytes \<Rightarrow> bytes" where
  "patch buf pos bs = take pos buf @ bs @ drop (pos + length bs) buf"

definition puts :: "(bytes \<times> nat \<Rightarrow> (bytes \<times> nat) result) \<Rightarrow> bytes \<Rightarrow> bool" where
  "puts f bs \<longleftrightarrow> (\<forall>buf pos. pos + length bs \<le> length buf \<longrightarrow> f (buf, pos) = Inr (patch buf pos bs, pos + length bs))"

lemma length_patch [simp]: "pos + length bs \<le> length buf \<Longrightarrow> length (patch buf pos bs) = length buf"
  by (simp add: patch_def)

lemma nth_patch:
  "pos + length bs \<le> length buf \<Longrightarrow> i < length buf \<Longrightarrow>
     patch buf pos bs ! i = (if pos \<le> i \<and> i < pos + length bs then bs ! (i - pos) else buf ! i)"
  by (auto simp: patch_def nth_append)

lemma patch_patch:
  assumes "pos + length a + length b \<le> length buf"
  shows "patch (patch buf pos a) (pos + length a) b = patch buf pos (a @ b)"
  using assms by (intro nth_equalityI) (auto simp: nth_patch nth_append)

lemma puts_bytes: "puts (put_bytes bs) bs"
  by (simp add: puts_def put_bytes_def write_at_def patch_def)

lemma puts_uleb: "puts (put_uleb v) (uleb v)"
proof -
  have "write_uleb buf v = Inr (length (uleb v), uleb v @ drop (length (uleb v)) buf)"
    if "length (uleb v) \<le> length buf" for buf
    using that by (simp add: write_uleb_def write_uleb_loop_eq)
  then show ?thesis by (simp add: puts_def put_uleb_def patch_def add.commute)
qed

lemma puts_bind:
  assumes "puts f a" and "puts g b"
  shows "puts (\<lambda>st. bind_result (f st) g) (a @ b)"
  using assms by (simp add: puts_def patch_patch add.assoc)

lemma puts_foldM: "(\<And>x. puts (\<lambda>st. f st x) (g x)) \<Longrightarrow> puts (\<lambda>st. foldM f st xs) (concat (map g xs))"
proof (induction xs)
  case (Cons x xs)
  from puts_bind [OF Cons.prems [of x] Cons.IH [OF Cons.prems]] show ?case by simp
qed (simp add: puts_def patch_def)

lemma write_node_eq:
  assumes "unat (tn_offset n) + length (node_bytes n) \<le> length buf"
  shows "write_node buf n = Inr (patch buf (unat (tn_offset n)) (node_bytes n))"
proof -
  let ?head = "\<lambda>st. if tn_leaf n
      then bind_result (put_uleb (of_nat (leaf_size n)) st) (\<lambda>st.
           bind_result (put_uleb (ucast (tn_flags n)) st) (\<lambda>st. put_uleb (tn_addr n) st))
      else put_bytes [0] st"
  let ?kids = "\<lambda>st. foldM (\<lambda>st c. bind_result (put_bytes (tn_prefix c @ [0]) st)
      (put_uleb (ucast (tn_offset c)))) st (tn_children n)"
  have h: "puts ?head (if tn_leaf n then uleb (of_nat (leaf_size n)) @ uleb (ucast (tn_flags n)) @ uleb (tn_addr n) else [0])"
    by (simp add: puts_bind puts_uleb puts_bytes)
  have k: "puts ?kids (concat (map (\<lambda>c. (tn_prefix c @ [0]) @ uleb (ucast (tn_offset c))) (tn_children n)))"
    by (intro puts_foldM puts_bind puts_uleb puts_bytes)
  have "puts (\<lambda>st. bind_result (?head st) (\<lambda>st. bind_result (put_bytes [of_nat (length (tn_children n))] st) ?kids))
      (node_bytes n)"
    using puts_bind [OF h puts_bind [OF puts_bytes k]] unfolding node_bytes_def by (simp only: append_assoc)
  then have "bind_result (?head (buf, unat (tn_offset n))) (\<lambda>st.
      bind_result (put_bytes [of_nat (length (tn_children n))] st) ?kids) =
      Inr (patch buf (unat (tn_offset n)) (node_bytes n), unat (tn_offset n) + length (node_bytes n))"
    using assms by (simp add: puts_def)
  then show ?thesis
    unfolding write_node_def by (auto simp: bind_result_def split: sum.splits if_splits)
qed

lemma leaf_size_bounds: "unat (tn_addr n) < 2 ^ 63 \<Longrightarrow> 2 \<le> leaf_size n \<and> leaf_size n \<le> 18"
proof -
  have "1 \<le> uleb_size v \<and> uleb_size v \<le> 9" for v
    by (auto simp: uleb_size_def find_Some_iff split: option.splits)
  from this [of "ucast (tn_flags n)"] this [of "tn_addr n"] show ?thesis by (simp add: leaf_size_def)
qed

lemma length_uleb_offset: "length (uleb (ucast (x :: u32))) = uleb_size (ucast x)"
  using unsigned_less [of x, where 'a = nat] by (simp add: uleb_size_eq unat_ucast_le)

lemma length_node_bytes:
  assumes "tn_leaf n \<longrightarrow> unat (tn_addr n) < 2 ^ 63"
  shows "length (node_bytes n) = node_size n"
proof -
  have "length (concat (map (\<lambda>c. tn_prefix c @ [0] @ uleb (ucast (tn_offset c))) cs)) =
      sum_list (map (\<lambda>c. length (tn_prefix c) + 1 + uleb_size (ucast (tn_offset c))) cs)" for cs
    by (induction cs) (simp_all add: length_uleb_offset)
  moreover have "length (uleb (of_nat (leaf_size n))) = uleb_size (of_nat (leaf_size n))" if "tn_leaf n"
    using leaf_size_bounds [of n] assms that by (simp add: uleb_size_eq unat_of_nat)
  moreover have "length (uleb (ucast (tn_flags n))) + length (uleb (tn_addr n)) = leaf_size n" if "tn_leaf n"
    using assms that by (simp add: leaf_size_def length_uleb_offset uleb_size_eq [of "tn_addr n"])
  ultimately show ?thesis by (simp add: node_bytes_def node_size_def)
qed

subsection \<open>The written buffer holds every node at its offset\<close>

definition same_at :: "nat \<Rightarrow> nat \<Rightarrow> bytes \<Rightarrow> bytes \<Rightarrow> bool" where
  "same_at lo hi a b \<longleftrightarrow> length a = length b \<and> (\<forall>i<length a. lo \<le> i \<and> i < hi \<longrightarrow> a ! i = b ! i)"

definition same_off :: "nat \<Rightarrow> nat \<Rightarrow> bytes \<Rightarrow> bytes \<Rightarrow> bool" where
  "same_off lo hi a b \<longleftrightarrow> length a = length b \<and> (\<forall>i<length a. i < lo \<or> hi \<le> i \<longrightarrow> a ! i = b ! i)"

fun stored :: "bytes \<Rightarrow> TrieNode \<Rightarrow> bool" where
  "stored buf (TrieNode p l f a off cs) \<longleftrightarrow>
     unat off < 2 ^ 31 \<and> starts_with (drop (unat off) buf) (node_bytes (TrieNode p l f a off cs)) \<and>
     list_all (\<lambda>c. tn_offset c \<noteq> off) cs \<and> list_all (stored buf) cs"

lemma starts_with_nth:
  "starts_with s p \<longleftrightarrow> length p \<le> length s \<and> (\<forall>i<length p. s ! i = p ! i)"
proof -
  have "starts_with s p \<longleftrightarrow> length p \<le> length s \<and> take (length p) s = p"
    using starts_with_take starts_with_length by blast
  also have "\<dots> \<longleftrightarrow> length p \<le> length s \<and> (\<forall>i<length p. s ! i = p ! i)"
    by (auto simp: list_eq_iff_nth_eq)
  finally show ?thesis .
qed

lemma starts_with_patch:
  assumes "pos + length bs \<le> length buf" and "same_at pos (pos + length bs) (patch buf pos bs) b"
  shows "starts_with (drop pos b) bs"
proof -
  have b: "length b = length buf" using assms by (simp add: same_at_def)
  have "b ! (pos + i) = bs ! i" if "i < length bs" for i
  proof -
    have "patch buf pos bs ! (pos + i) = b ! (pos + i)" using assms that by (auto simp: same_at_def)
    then show ?thesis using assms(1) that by (simp add: nth_patch)
  qed
  with b assms(1) show ?thesis by (auto simp: starts_with_nth)
qed

lemma same_off_patch:
  "pos + length bs \<le> length buf \<Longrightarrow> pos + length bs \<le> hi \<Longrightarrow> same_off pos hi buf (patch buf pos bs)"
  by (auto simp: same_off_def nth_patch)

lemma same_off_trans:
  "same_off lo hi a b \<Longrightarrow> same_off lo' hi' b c \<Longrightarrow> lo \<le> lo' \<Longrightarrow> hi' \<le> hi \<Longrightarrow> hi \<ge> lo' \<Longrightarrow> same_off lo hi a c"
  by (auto simp: same_off_def)

lemma same_off_at:
  "same_off lo hi a b \<Longrightarrow> same_at lo' hi' b c \<Longrightarrow> lo' \<le> k \<Longrightarrow> k + n \<le> lo \<Longrightarrow> k + n \<le> hi' \<Longrightarrow> same_at k (k + n) a c"
  by (auto simp: same_at_def same_off_def)

lemma set_offsets_ge:
  "b + snd (set_offsets ns b) \<le> 2 ^ 31 \<Longrightarrow> list_all (\<lambda>c. b \<le> unat (tn_offset c)) (fst (set_offsets ns b))"
proof (induction ns arbitrary: b)
  case (Cons n ns)
  obtain n' s where n': "set_offset n b = (n', s)" by fastforce
  obtain ns' s' where ns': "set_offsets ns (b + s) = (ns', s')" by fastforce
  have "tn_offset n' = of_nat b" using n' by (cases n) (auto simp: Let_def split: prod.splits)
  moreover have "b + (s + s') \<le> 2 ^ 31" using Cons.prems n' ns' by simp
  moreover from this have "list_all (\<lambda>c. b + s \<le> unat (tn_offset c)) ns'"
    using Cons.IH [of "b + s"] ns' by (simp add: add.assoc)
  ultimately show ?case
    using n' ns' by (auto simp: unat_of_nat_small list_all_iff)
qed simp

lemma set_offset_write:
  "tle (fst (set_offset n b)) n \<Longrightarrow> trie_ok n \<Longrightarrow> b + snd (set_offset n b) \<le> 2 ^ 31 \<Longrightarrow>
     b + snd (set_offset n b) \<le> length buf \<Longrightarrow>
     \<exists>buf'. write_trie buf (fst (set_offset n b)) = Inr buf' \<and> same_off b (b + snd (set_offset n b)) buf buf' \<and>
       (\<forall>c. same_at b (b + snd (set_offset n b)) buf' c \<longrightarrow> stored c (fst (set_offset n b)))"
  "tles (fst (set_offsets ns b)) ns \<Longrightarrow> list_all trie_ok ns \<Longrightarrow> b + snd (set_offsets ns b) \<le> 2 ^ 31 \<Longrightarrow>
     b + snd (set_offsets ns b) \<le> length buf \<Longrightarrow>
     \<exists>buf'. write_tries buf (fst (set_offsets ns b)) = Inr buf' \<and> same_off b (b + snd (set_offsets ns b)) buf buf' \<and>
       (\<forall>c. same_at b (b + snd (set_offsets ns b)) buf' c \<longrightarrow> list_all (stored c) (fst (set_offsets ns b)))"
proof (induction n b and ns b arbitrary: buf and buf rule: set_offset_set_offsets.induct)
  case (1 p l f a off cs b)
  let ?n = "TrieNode p l f a off cs" and ?n' = "fst (set_offset (TrieNode p l f a off cs) b)"
  let ?sz = "node_size ?n"
  obtain cs' sz' where cs': "set_offsets cs (b + ?sz) = (cs', sz')" by fastforce
  have n': "?n' = TrieNode p l f a (of_nat b) cs'" and sz: "snd (set_offset ?n b) = ?sz + sz'"
    using cs' by (simp_all add: Let_def)
  have pos: "0 < ?sz" by (simp add: node_size_def)
  then have b: "b < 2 ^ 31" using "1.prems"(3) sz by simp
  then have ub: "unat (of_nat b :: u32) = b" by (intro unat_of_nat_small) simp
  have "length (node_bytes ?n') = node_size ?n'"
    using "1.prems"(2) n' by (intro length_node_bytes) auto
  also have "\<dots> \<le> ?sz" by (rule node_size_mono) (fact "1.prems"(1))
  finally have len: "length (node_bytes ?n') \<le> ?sz" .
  let ?buf = "patch buf b (node_bytes ?n')"
  have fit: "b + length (node_bytes ?n') \<le> length buf" using len "1.prems"(4) sz by simp
  have w: "write_node buf ?n' = Inr ?buf"
    using write_node_eq [of ?n' buf] fit ub n' by simp
  have "\<exists>buf'. write_tries ?buf cs' = Inr buf' \<and> same_off (b + ?sz) (b + ?sz + sz') ?buf buf' \<and>
      (\<forall>c. same_at (b + ?sz) (b + ?sz + sz') buf' c \<longrightarrow> list_all (stored c) cs')"
    using "1.IH" [OF refl, of ?buf] "1.prems" sz cs' n' fit by (auto simp: add.assoc)
  then obtain buf' where buf': "write_tries ?buf cs' = Inr buf'" "same_off (b + ?sz) (b + ?sz + sz') ?buf buf'"
      "\<And>c. same_at (b + ?sz) (b + ?sz + sz') buf' c \<Longrightarrow> list_all (stored c) cs'" by blast
  have "write_trie buf ?n' = Inr buf'" using w buf'(1) unfolding n' by simp
  moreover have "same_off b (b + (?sz + sz')) buf buf'"
    using len by (intro same_off_trans [OF same_off_patch [OF fit] buf'(2)]) simp_all
  moreover have "stored c ?n'" if c: "same_at b (b + (?sz + sz')) buf' c" for c
  proof -
    have "same_at b (b + length (node_bytes ?n')) ?buf c"
      using len by (intro same_off_at [OF buf'(2) c]) simp_all
    then have "starts_with (drop b c) (node_bytes ?n')" by (rule starts_with_patch [OF fit])
    moreover have "list_all (stored c) cs'" using c by (intro buf'(3)) (auto simp: same_at_def)
    moreover have "list_all (\<lambda>x. tn_offset x \<noteq> of_nat b) cs'"
      using set_offsets_ge [of "b + ?sz" cs] cs' "1.prems"(3) sz pos ub by (auto simp: list_all_iff)
    ultimately show ?thesis unfolding n' using b ub by simp
  qed
  ultimately show ?case unfolding sz by blast
next
  case (2 b)
  then show ?case by (simp add: same_off_def)
next
  case (3 n ns b)
  obtain n' s where n': "set_offset n b = (n', s)" by fastforce
  obtain ns' s' where ns': "set_offsets ns (b + s) = (ns', s')" by fastforce
  have r: "set_offsets (n # ns) b = (n' # ns', s + s')" using n' ns' by (simp add: Let_def)
  obtain b1 where b1: "write_trie buf n' = Inr b1" "same_off b (b + s) buf b1"
      "\<And>c. same_at b (b + s) b1 c \<Longrightarrow> stored c n'"
    using "3.IH"(1) [of buf] "3.prems" n' r by auto
  have l1: "length b1 = length buf" using b1(2) by (simp add: same_off_def)
  obtain b2 where b2: "write_tries b1 ns' = Inr b2" "same_off (b + s) (b + s + s') b1 b2"
      "\<And>c. same_at (b + s) (b + s + s') b2 c \<Longrightarrow> list_all (stored c) ns'"
    using "3.IH"(2) [OF n' [symmetric] refl, of b1] "3.prems" ns' r l1 by (auto simp: add.assoc)
  have "same_off b (b + (s + s')) buf b2" using b1(2) b2(2) by (auto simp: same_off_def)
  moreover have "stored c n' \<and> list_all (stored c) ns'" if c: "same_at b (b + (s + s')) b2 c" for c
  proof
    show "stored c n'" using c b2(2) by (intro b1(3)) (auto simp: same_at_def same_off_def)
    show "list_all (stored c) ns'" using c by (intro b2(3)) (auto simp: same_at_def)
  qed
  ultimately show ?case using b1(1) b2(1) unfolding r by simp
qed

subsection \<open>Reading the trie back\<close>

lemma read_uleb_offset: "unat (x :: u32) < 2 ^ 31 \<Longrightarrow> read_uleb (uleb (ucast x) @ r) = Inr (ucast x, r)"
  by (rule read_uleb_uleb) (simp add: unat_ucast_le)

lemma no_special_flags:
  assumes "(f :: u32) AND 0x18 = 0"
  shows "f AND EXPORT_SYMBOL_FLAGS_REEXPORT = 0" "f AND EXPORT_SYMBOL_FLAGS_STUB_AND_RESOLVER = 0"
proof -
  have "f AND 8 = (f AND 0x18) AND 8" "f AND 16 = (f AND 0x18) AND 16" by (simp_all add: and.assoc)
  with assms show "f AND EXPORT_SYMBOL_FLAGS_REEXPORT = 0" "f AND EXPORT_SYMBOL_FLAGS_STUB_AND_RESOLVER = 0"
    by (simp_all add: EXPORT_SYMBOL_FLAGS_REEXPORT_def EXPORT_SYMBOL_FLAGS_STUB_AND_RESOLVER_def)
qed

lemma read_terminal_leaf:
  assumes "(f :: u32) AND 0x18 = 0" "unat f < 2 ^ 31" "unat a < 2 ^ 31" "0 < k" "k < 128"
  shows "read_terminal pre (uleb (of_nat k) @ uleb (ucast f) @ uleb a @ r) = Inr ([(pre, f)], r)"
proof -
  have k: "unat (of_nat k :: u64) = k" using assms(5) by (simp add: unat_of_nat)
  have u: "uleb (of_nat k) = [ucast (of_nat k AND 0x7f :: u64)]" by (rule uleb_small) (simp add: k assms(5))
  have "unat (ucast (of_nat k AND 0x7f :: u64) :: u8) = k" using low7 [of "of_nat k"] k assms(5) by simp
  then have nz: "(ucast (of_nat k AND 0x7f :: u64) :: u8) \<noteq> 0" using assms(4) by (metis less_irrefl unsigned_0)
  have "read_uleb (uleb (of_nat k) @ uleb (ucast f) @ uleb a @ r) = Inr (of_nat k, uleb (ucast f) @ uleb a @ r)"
    by (rule read_uleb_uleb) (simp add: k less_trans [OF assms(5)])
  moreover have "ucast (ucast f :: u64) = f" by (rule bit_word_eqI) (auto simp: bit_simps)
  ultimately show ?thesis
    using nz assms no_special_flags [OF assms(1)]
    by (simp add: read_terminal_def next_byte_def u read_uleb_offset read_uleb_uleb Let_def)
qed

lemma drop_starts_with: "starts_with (drop k buf) p \<Longrightarrow> \<exists>r. drop k buf = p @ r"
  by (simp add: starts_with_iff)

lemma fold_max_ge: "x \<in> set xs \<Longrightarrow> x \<le> fold max xs (d :: nat)"
  using Max_ge [of "set (d # xs)" x] by (simp only: Max.set_eq_fold) simp

lemma depth_children: "c \<in> set cs \<Longrightarrow> depth (TrieNode p l f a off cs) \<le> Suc fuel \<Longrightarrow> depth c \<le> fuel"
  using fold_max_ge [of "depth c" "map depth cs" 0] by auto

lemma read_children_eq:
  assumes "\<And>c. c \<in> set cs \<Longrightarrow> unat (tn_offset c) < 2 ^ 31 \<and> unat (tn_offset c) \<noteq> off \<and> 0 \<notin> set (tn_prefix c) \<and>
      read_trie fuel buf (unat (tn_offset c)) (pre @ tn_prefix c) = Some (Inr (g c))"
  shows "read_children fuel buf off (length cs)
      (concat (map (\<lambda>c. tn_prefix c @ [0] @ uleb (ucast (tn_offset c))) cs) @ r) pre = Some (Inr (concat (map g cs)))"
  using assms
  by (induction cs) (simp_all add: next_cstring_def cstring_append read_uleb_offset unat_ucast_le)

fun name_flags :: "bytes \<times> u32 \<times> u64 \<Rightarrow> bytes \<times> u32" where
  "name_flags (s, f, _) = (s, f)"

lemma stored_offset: "stored buf n \<Longrightarrow> unat (tn_offset n) < 2 ^ 31"
  by (cases n) simp

lemma trie_ok_prefix: "trie_ok n \<Longrightarrow> 0 \<notin> set (tn_prefix n)"
  by (cases n) simp

lemma read_trie_stored:
  "stored buf n \<Longrightarrow> trie_ok n \<Longrightarrow> depth n \<le> fuel \<Longrightarrow>
     read_trie fuel buf (unat (tn_offset n)) pre = Some (Inr (map name_flags (exports pre n)))"
proof (induction fuel arbitrary: n pre)
  case 0
  then show ?case by (cases n) simp
next
  case (Suc fuel)
  obtain p l f a off cs where n: "n = TrieNode p l f a off cs" by (cases n)
  let ?kids = "concat (map (\<lambda>c. tn_prefix c @ [0] @ uleb (ucast (tn_offset c))) cs)"
  from Suc.prems(1) obtain r where r: "drop (unat off) buf = node_bytes n @ r"
    unfolding n by (auto dest: drop_starts_with)
  have cnt: "unat (of_nat (length cs) :: u8) = length cs" using Suc.prems(2) n by (simp add: unat_of_nat)
  have "read_terminal pre (drop (unat off) buf) =
      Inr (if l then [(pre, f)] else [], of_nat (length cs) # ?kids @ r)"
  proof (cases l)
    case True
    then have "0 < leaf_size n" "leaf_size n < 128"
      using leaf_size_bounds [of n] Suc.prems(2) n by auto
    then show ?thesis
      using Suc.prems(2) True r n read_terminal_leaf [of f a "leaf_size n" pre]
      by (simp add: node_bytes_def)
  next
    case False
    then show ?thesis using r n by (simp add: node_bytes_def read_terminal_def next_byte_def)
  qed
  moreover have "read_children fuel buf (unat off) (length cs) (?kids @ r) pre =
      Some (Inr (concat (map (\<lambda>c. map name_flags (exports (pre @ tn_prefix c) c)) cs)))"
  proof (rule read_children_eq)
    fix c assume c: "c \<in> set cs"
    then have "stored buf c" "trie_ok c" "depth c \<le> fuel" "unat (tn_offset c) \<noteq> unat off"
      using Suc.prems n depth_children [OF c] by (auto simp: list_all_iff simp del: depth.simps simp flip: word_unat_eq_iff)
    then show "unat (tn_offset c) < 2 ^ 31 \<and> unat (tn_offset c) \<noteq> unat off \<and> 0 \<notin> set (tn_prefix c) \<and>
        read_trie fuel buf (unat (tn_offset c)) (pre @ tn_prefix c) =
        Some (Inr (map name_flags (exports (pre @ tn_prefix c) c)))"
      using Suc.IH stored_offset trie_ok_prefix by blast
  qed
  ultimately show ?case
    unfolding n by (simp add: next_byte_def cnt map_concat comp_def)
qed

subsection \<open>The size of the trie\<close>

lemma uleb_size_offset: "uleb_size (ucast (x :: u32)) \<le> 5"
proof -
  have "unat x < 2 ^ (7 * 5)" using unsigned_less [of x, where 'a = nat] by simp
  then have "unat (ucast x :: u64) < 2 ^ (7 * 5)" by (simp add: unat_ucast_le)
  then have "length (uleb (ucast x)) \<le> 5" by (simp only: length_uleb)
  then show ?thesis by (simp add: length_uleb_offset)
qed

lemma node_size_le:
  assumes "tn_leaf n \<longrightarrow> unat (tn_addr n) < 2 ^ 31"
  shows "node_size n \<le> 20 + (\<Sum>c\<leftarrow>tn_children n. length (tn_prefix c) + 6)"
proof -
  have "uleb_size (of_nat (leaf_size n)) \<le> 1" if "tn_leaf n"
  proof -
    have "unat (of_nat (leaf_size n) :: u64) < 128"
      using leaf_size_bounds [of n] assms that by (simp add: unat_of_nat)
    then show ?thesis using uleb_size_eq [of "of_nat (leaf_size n)"] by (simp add: uleb_small)
  qed
  moreover have "leaf_size n \<le> 18" if "tn_leaf n" using leaf_size_bounds [of n] assms that by auto
  moreover have "(\<Sum>c\<leftarrow>tn_children n. length (tn_prefix c) + 1 + uleb_size (ucast (tn_offset c)))
      \<le> (\<Sum>c\<leftarrow>tn_children n. length (tn_prefix c) + 6)"
    using uleb_size_offset by (intro sum_list_mono) (simp add: add.commute add_mono)
  ultimately show ?thesis by (auto simp: node_size_def)
qed

lemma set_offset_le:
  "trie_ok n \<Longrightarrow> snd (set_offset n b) \<le> 20 + 27 * sum_list (map weight (tn_children n))"
  "list_all trie_ok ns \<Longrightarrow> snd (set_offsets ns b) + 27 * (\<Sum>c\<leftarrow>ns. length (tn_prefix c))
     \<le> 20 * length ns + 27 * sum_list (map weight ns)"
proof (induction n b and ns b rule: set_offset_set_offsets.induct)
  case (1 p l f a off cs b)
  let ?n = "TrieNode p l f a off cs"
  have "node_size ?n \<le> 20 + (\<Sum>c\<leftarrow>cs. length (tn_prefix c) + 6)"
    using "1.prems" node_size_le [of ?n] by simp
  moreover have "snd (set_offsets cs (b + node_size ?n)) + 27 * (\<Sum>c\<leftarrow>cs. length (tn_prefix c))
     \<le> 20 * length cs + 27 * sum_list (map weight cs)"
    using "1.prems" by (intro "1.IH") auto
  moreover have "list_all (\<lambda>c. tn_prefix c \<noteq> []) cs \<Longrightarrow> length cs \<le> (\<Sum>c\<leftarrow>cs. length (tn_prefix c))" for cs
    by (induction cs) (auto simp: Suc_le_eq add_pos_nonneg add_le_mono simp flip: length_greater_0_conv)
  then have "length cs \<le> (\<Sum>c\<leftarrow>cs. length (tn_prefix c))" using "1.prems" by simp
  moreover have "(\<Sum>c\<leftarrow>cs. length (tn_prefix c) + 6) = (\<Sum>c\<leftarrow>cs. length (tn_prefix c)) + 6 * length cs"
    by (simp add: sum_list_addf sum_list_triv)
  ultimately show ?case by (auto simp: Let_def split: prod.splits)
next
  case (3 n ns b)
  have "snd (set_offset n b) \<le> 20 + 27 * sum_list (map weight (tn_children n))" using 3 by simp
  moreover have "weight n = length (tn_prefix n) + sum_list (map weight (tn_children n))" by (cases n) simp
  moreover have "snd (set_offsets ns (b + snd (set_offset n b))) + 27 * (\<Sum>c\<leftarrow>ns. length (tn_prefix c))
     \<le> 20 * length ns + 27 * sum_list (map weight ns)"
    using "3.IH"(2) [OF refl surjective_pairing [symmetric]] "3.prems" by simp
  ultimately show ?case by (auto simp: Let_def split: prod.splits)
qed simp

subsection \<open>The section as a whole\<close>

lemma stored_append: "stored buf n \<Longrightarrow> stored (buf @ r) n"
proof (induction n)
  case (TrieNode p l f a off cs)
  from TrieNode.prems obtain q where "drop (unat off) buf = node_bytes (TrieNode p l f a off cs) @ q"
    by (auto dest: drop_starts_with)
  then have "starts_with (drop (unat off) buf @ drop (unat off - length buf) r) (node_bytes (TrieNode p l f a off cs))"
    by simp
  with TrieNode show ?case by (auto simp: list_all_iff)
qed

lemma get_flags_small: "get_flags s AND 0x18 = 0 \<and> unat (get_flags s) < 2 ^ 31"
  by (cases "xs_weak s"; cases "xs_tlv s")
    (simp_all add: get_flags_def EXPORT_SYMBOL_FLAGS_WEAK_DEFINITION_def EXPORT_SYMBOL_FLAGS_KIND_THREAD_LOCAL_def)

lemma export_entries_flags: "e \<in> set (export_entries h objs) \<Longrightarrow> ent_flags e AND 0x18 = 0 \<and> unat (ent_flags e) < 2 ^ 31"
  by (auto simp: export_entries_def get_flags_small [THEN conjunct1] get_flags_small [THEN conjunct2, simplified]
      split: option.splits if_splits)

lemma sorted_by_name: "distinct (map ent_name es) \<Longrightarrow> by_name (sort_key ent_name es)"
proof -
  assume "distinct (map ent_name es)"
  then have "distinct (map ent_name (sort_key ent_name es))"
    by (simp add: distinct_map)
  then have "sorted_wrt (<) (map ent_name (sort_key ent_name es))" by (simp add: strict_sorted_iff)
  then show ?thesis by (simp only: sorted_wrt_map)
qed

lemma tle_trans: "tle a b \<Longrightarrow> tle b c \<Longrightarrow> tle a c" "tles as bs \<Longrightarrow> tles bs cs \<Longrightarrow> tles as cs"
proof (induction a b and as bs arbitrary: c and cs rule: tle_tles.induct)
  case (1 p l f a off cs p' l' f' a' off' cs')
  then show ?case by (cases c) auto
next
  case (3 x xs y ys)
  then show ?case by (cases cs) auto
qed simp_all

text \<open>The two passes over the offsets: what they leave in a buffer of the size they report.\<close>

lemma two_passes_stored:
  assumes "fresh n" and "trie_ok n" and "snd (set_offset n 0) < 2 ^ 31"
  defines "m \<equiv> fst (set_offset n 0)"
  assumes "snd (set_offset m 0) \<le> length buf"
  shows "\<exists>buf'. write_trie buf (fst (set_offset m 0)) = Inr buf' \<and> length buf' = length buf \<and>
    stored buf' (fst (set_offset m 0)) \<and> snd (set_offset m 0) < 2 ^ 31 \<and> tle (fst (set_offset m 0)) n"
proof -
  note mono = set_offset_mono(1) [OF set_offset_fresh(1) [OF assms(1), of 0], of 0 0, folded m_def]
  have le: "tle (fst (set_offset m 0)) m" "snd (set_offset m 0) \<le> snd (set_offset n 0)"
    using mono assms(3) by (simp_all add: m_def)
  have mn: "tle m n" unfolding m_def by (rule set_offset_fresh(1)) (fact assms(1))
  have ok: "trie_ok m" using tle_exports(1) [OF mn] assms(2) by simp
  obtain buf' where "write_trie buf (fst (set_offset m 0)) = Inr buf'" "same_off 0 (snd (set_offset m 0)) buf buf'"
      "\<forall>c. same_at 0 (snd (set_offset m 0)) buf' c \<longrightarrow> stored c (fst (set_offset m 0))"
    using set_offset_write(1) [OF le(1) ok, of buf] assms(3, 5) le(2) by auto
  moreover have "tle (fst (set_offset m 0)) n" by (rule tle_trans(1) [OF le(1) mn])
  ultimately show ?thesis using le(2) assms(3) by (auto simp: same_off_def same_at_def)
qed

lemma export_finish_ok:
  assumes "es \<noteq> []" and "distinct (map ent_name es)"
    and "list_all (\<lambda>e. entry_ok e \<and> length (ent_name e) < fuel) es"
    and "(\<Sum>e\<leftarrow>es. length (ent_name e)) < 2 ^ 26"
  shows "\<exists>n m. export_finish fuel es = Some (Inr (set_offset m 0)) \<and> fresh n \<and> trie_ok n \<and>
    m = fst (set_offset n 0) \<and> snd (set_offset n 0) < 2 ^ 31 \<and> depth n \<le> Suc fuel \<and>
    exports [] n = map entry_val (sort_key ent_name es)"
proof -
  let ?es = "sort_key ent_name es"
  have "?es \<noteq> []" using assms(1) by (metis length_0_conv length_sort)
  then have "trie_input 0 0 ?es"
    using assms(3) sorted_by_name [OF assms(2)] by (simp add: trie_input_def entry_ok_def list_all_iff)
  then obtain n where n: "construct_trie fuel ?es 0 = Some (Inr n)" "trie_ok n"
      "exports (tn_prefix n) n = map entry_val ?es" "weight n \<le> (\<Sum>e\<leftarrow>?es. length (ent_name e))"
    using construct_trie_ok [of 0 0 ?es fuel] assms(3) by (auto simp: list_all_iff)
  note fr = construct_trie_fresh [OF n(1)]
  have "(\<Sum>e\<leftarrow>?es. length (ent_name e)) = (\<Sum>e\<leftarrow>es. length (ent_name e))"
    using assms(2) by (simp add: sum_list_distinct_conv_sum_set distinct_map)
  then have w: "weight n < 2 ^ 26" using n(4) assms(4) by simp
  have root: "fresh (add_root n)" "trie_ok (add_root n)" "depth (add_root n) \<le> Suc fuel"
      "exports [] (add_root n) = map entry_val ?es" "sum_list (map weight (tn_children (add_root n))) \<le> weight n"
    using n fr by (cases n; auto simp: add_root_def)+
  moreover have "snd (set_offset (add_root n) 0) < 2 ^ 31"
    using set_offset_le(1) [OF root(2), of 0] root(5) w by simp
  ultimately show ?thesis using n(1) by (auto simp: export_finish_def)
qed

lemma set_offset_pos: "0 < snd (set_offset n b)"
  by (cases n) (simp add: Let_def node_size_def split: prod.splits)

lemma has_single_bit_8: "has_single_bit 8"
  unfolding has_single_bit_iff by (rule exI [of _ 3]) simp

lemma align_to_8: "s < 2 ^ 31 \<Longrightarrow> s \<le> unat (align_to (of_nat s) 8) \<and> 8 dvd unat (align_to (of_nat s) 8)"
proof -
  assume s: "s < 2 ^ 31"
  have "unat (align_to (of_nat s) 8) = (s + 8 - 1) div 8 * 8"
    using align_to_unat [of 8 "of_nat s"] s has_single_bit_8 by (simp add: unat_of_nat)
  then show ?thesis using round_up_least(1) [of 8 s] by simp
qed

lemma distinct_sorted_names: "distinct (map ent_name es) \<Longrightarrow> distinct (map ent_name (sort_key ent_name es))"
  by (simp add: distinct_map)

lemma map_of_sorted:
  assumes "distinct (map ent_name es)"
  shows "map_of (map (\<lambda>e. (ent_name e, ent_flags e)) (sort_key ent_name es)) = map_of (map (\<lambda>e. (ent_name e, ent_flags e)) es)"
  using assms distinct_sorted_names [OF assms] by (subst map_of_inject_set) (simp_all add: comp_def)

lemma foldl_add_export:
  "distinct (map fst xs) \<Longrightarrow> (\<And>x. x \<in> set xs \<Longrightarrow> fst x \<notin> dom ex) \<Longrightarrow>
     foldl add_export (ex, errs) xs = (ex ++ map_of xs, errs)"
proof (induction xs arbitrary: ex)
  case (Cons x xs)
  obtain a b where x: "x = (a, b)" by (cases x)
  have "ex a = None" using Cons.prems(2) [of x] x by auto
  then have "add_export (ex, errs) x = (ex(a \<mapsto> b), errs)" by (simp add: add_export_def x)
  moreover have "fst y \<notin> dom (ex(a \<mapsto> b))" if "y \<in> set xs" for y
    using Cons.prems that x by (cases y) force
  moreover have "map_of xs a = None" using Cons.prems(1) x by (simp add: map_of_eq_None_iff)
  ultimately show ?case using Cons x by (auto simp: map_add_def fun_eq_iff split: option.splits)
qed simp

subsection \<open>Properties\<close>

text \<open>
  C4: the export section holds exactly the exported symbols. Whenever the names of the exported
  symbols are distinct non-empty C strings of less than 64 MiB in total, at addresses within
  2 GiB of the header, \<open>compute_size\<close> returns (recursing no deeper than the longest name), the size is a
  multiple of 8, \<open>copy_buf\<close> writes the trie into a section of that size without leaving it,
  and \<open>read_trie\<close> on the output file, whatever follows the section, reads back the map of the
  symbols to their flags, without an inconsistency and without failing its \<^verbatim>\<open>assert\<close>.
\<close>

theorem export_section_roundtrip:
  assumes "es = export_entries hdr objs" and "es \<noteq> []" and "distinct (map ent_name es)"
    and "list_all (\<lambda>e. ent_name e \<noteq> [] \<and> 0 \<notin> set (ent_name e) \<and> unat (ent_addr e) < 2 ^ 31 \<and> length (ent_name e) < fuel) es"
    and "(\<Sum>e\<leftarrow>es. length (ent_name e)) < 2 ^ 26"
  shows "\<exists>root sz buf. export_compute_size fuel hdr objs = Some (Inr (root, sz)) \<and> 8 dvd sz \<and>
    export_copy_buf root sz = Inr buf \<and> length buf = sz \<and>
    parse_exports (Suc fuel) (buf @ rest) = Some (Inr (map_of (map (\<lambda>e. (ent_name e, ent_flags e)) es), []))"
proof -
  let ?es = "sort_key ent_name es"
  have "list_all (\<lambda>e. entry_ok e \<and> length (ent_name e) < fuel) es"
    using assms(1, 4) export_entries_flags by (fastforce simp: list_all_iff entry_ok_def)
  from export_finish_ok [OF assms(2, 3) this assms(5)] obtain n m where
    fin: "export_finish fuel es = Some (Inr (set_offset m 0))" and n: "fresh n" "trie_ok n" "snd (set_offset n 0) < 2 ^ 31"
      "depth n \<le> Suc fuel" "exports [] n = map entry_val ?es" and m: "m = fst (set_offset n 0)"
    by metis
  obtain root s where rs: "set_offset m 0 = (root, s)" by fastforce
  define sz where "sz = unat (align_to (of_nat s) 8)"
  note passes = two_passes_stored [OF n(1-3), folded m, unfolded rs, simplified]
  have s: "s < 2 ^ 31" "0 < s"
    using passes [of "replicate s 0"] set_offset_pos [of m 0] rs by auto
  have sz: "s \<le> sz" "8 dvd sz" using align_to_8 s(1) by (simp_all add: sz_def)
  from passes [of "replicate sz 0"] sz obtain buf where
    buf: "write_trie (replicate sz 0) root = Inr buf" "length buf = sz" "stored buf root" "tle root n" by auto
  have comp: "export_compute_size fuel hdr objs = Some (Inr (root, sz))"
    using fin rs assms(1, 2) by (simp add: export_compute_size_def sz_def Let_def)
  have copy: "export_copy_buf root sz = Inr buf" using buf(1) sz s by (simp add: export_copy_buf_def)
  have "tn_offset root = 0" using rs by (cases m) (auto simp: Let_def split: prod.splits)
  then have "read_trie (Suc fuel) (buf @ rest) 0 [] = Some (Inr (map name_flags (exports [] root)))"
    using read_trie_stored [OF stored_append [OF buf(3)], of "Suc fuel" rest "[]"] tle_exports(1) [OF buf(4), of "[]"] n by simp
  then have "read_trie (Suc fuel) (buf @ rest) 0 [] = Some (Inr (map (\<lambda>e. (ent_name e, ent_flags e)) ?es))"
    using tle_exports(1) [OF buf(4), of "[]"] n(5) by (simp add: entry_val_def comp_def)
  moreover have "foldl add_export (Map.empty, []) (map (\<lambda>e. (ent_name e, ent_flags e)) ?es) =
      (map_of (map (\<lambda>e. (ent_name e, ent_flags e)) es), [])"
    using assms(3) by (simp add: foldl_add_export comp_def distinct_sorted_names map_of_sorted)
  ultimately show ?thesis using comp copy buf(2) sz(2) by (auto simp: parse_exports_def)
qed

theorem export_section_roundtrip_witness:
  "\<exists>root sz buf. export_compute_size 9 0x100000000 [(0, [None, Some \<lparr> xs_name = str ''_f'', xs_file = 0,
       xs_visibility = SCOPE_GLOBAL, xs_weak = True, xs_tlv = False, xs_addr = 0x100001000 \<rparr>]),
     (1, [Some \<lparr> xs_name = str ''_fgh'', xs_file = 1, xs_visibility = SCOPE_GLOBAL, xs_weak = False,
       xs_tlv = True, xs_addr = 0x100002000 \<rparr>])] = Some (Inr (root, sz)) \<and> 8 dvd sz \<and>
    export_copy_buf root sz = Inr buf \<and> length buf = sz \<and>
    parse_exports 10 (buf @ [7]) = Some (Inr ([str ''_f'' \<mapsto> 4, str ''_fgh'' \<mapsto> 1], []))"
proof -
  let ?objs = "[(0, [None, Some \<lparr> xs_name = str ''_f'', xs_file = 0,
       xs_visibility = SCOPE_GLOBAL, xs_weak = True, xs_tlv = False, xs_addr = 0x100001000 \<rparr>]),
     (1, [Some \<lparr> xs_name = str ''_fgh'', xs_file = 1, xs_visibility = SCOPE_GLOBAL, xs_weak = False,
       xs_tlv = True, xs_addr = 0x100002000 \<rparr>])]"
  have es: "export_entries 0x100000000 ?objs =
      [\<lparr> ent_name = str ''_f'', ent_flags = 4, ent_addr = 0x1000 \<rparr>, \<lparr> ent_name = str ''_fgh'', ent_flags = 1, ent_addr = 0x2000 \<rparr>]"
    by (simp add: export_entries_def get_flags_def EXPORT_SYMBOL_FLAGS_WEAK_DEFINITION_def
        EXPORT_SYMBOL_FLAGS_KIND_THREAD_LOCAL_def)
  have "str ''_f'' \<noteq> str ''_fgh''" by (simp add: str_def)
  then show ?thesis
    using export_section_roundtrip [where hdr = "0x100000000" and objs = ?objs and fuel = "9" and rest = "[7]", OF refl]
    unfolding es
    by (simp add: str_def fun_upd_twist)
qed
end
