(* ===== verification/MachO_DeadStrip.thy ===== *)
theory MachO_DeadStrip
  imports MachO_Export Reach
begin

text \<open>
  Dead stripping of Mach-O subsections in \<^verbatim>\<open>src/macho/dead-strip.cc\<close>: a mark phase from the roots, repeated for
  the subsections that live as long as something they refer to, and a sweep. A subsection is an
  index into one list; a null pointer is \<open>None\<close>.
\<close>

subsection \<open>Subsections, symbols, object files\<close>

text \<open>A relocation refers to a symbol, which may be defined in a subsection, or to a subsection.\<close>

datatype ds_rel = RelSym "nat option" | RelSub nat

record DsUnwind =
  uw_subsec :: "nat option"
  uw_lsda :: "nat option"
  uw_personality :: "nat option option"
  uw_fde :: "(nat option \<times> nat option) option"

record DsSubsec =
  dss_type :: u32
  dss_attr :: u32
  dss_rels :: "ds_rel list"
  dss_unwind :: "DsUnwind list"

record DsSym =
  dsy_own_file :: bool
  dsy_no_dead_strip :: bool
  dsy_visibility :: scope
  dsy_subsec :: "nat option"

record DsObj =
  do_syms :: "DsSym option list"
  do_init_functions :: "nat option list"
  do_subsections :: "nat list"
  do_personalities :: "nat option list"

text \<open>
  \<open>dc_u\<close> are the symbols of \<^verbatim>\<open>-u\<close> that have a file; \<open>dc_entry\<close> and \<open>dc_stub_binder\<close> the subsections of the entry symbol
  and, if there is a stub helper, of \<^verbatim>\<open>dyld_stub_binder\<close>.
\<close>

record DsCtx =
  dc_subsecs :: "DsSubsec list"
  dc_objs :: "DsObj list"
  dc_output_type :: u32
  dc_u :: "nat option list"
  dc_entry :: "nat option"
  dc_stub_binder :: "nat option"

subsection \<open>Roots\<close>

definition ds_keep :: "DsCtx \<Rightarrow> DsSym \<Rightarrow> bool" where
  "ds_keep c s \<longleftrightarrow> dsy_no_dead_strip s \<or>
     (dc_output_type c = MH_DYLIB \<or> dc_output_type c = MH_BUNDLE) \<and> dsy_visibility s = SCOPE_GLOBAL"

definition ds_root_subsec :: "DsSubsec \<Rightarrow> bool" where
  "ds_root_subsec s \<longleftrightarrow> dss_attr s AND S_ATTR_NO_DEAD_STRIP \<noteq> 0 \<or>
     dss_type s = S_MOD_INIT_FUNC_POINTERS \<or> dss_type s = S_MOD_TERM_FUNC_POINTERS"

definition ds_obj_roots :: "DsCtx \<Rightarrow> DsObj \<Rightarrow> nat option list" where
  "ds_obj_roots c obj =
     [dsy_subsec s. Some s \<leftarrow> do_syms obj, dsy_own_file s \<and> ds_keep c s]
     @ do_init_functions obj
     @ [Some i. i \<leftarrow> do_subsections obj, i < length (dc_subsecs c) \<and> ds_root_subsec (dc_subsecs c ! i)]
     @ do_personalities obj"

definition ds_roots :: "DsCtx \<Rightarrow> nat option list" where
  "ds_roots c = concat (map (ds_obj_roots c) (dc_objs c)) @ dc_u c @ [dc_entry c, dc_stub_binder c]"

subsection \<open>Marking\<close>

definition rel_target :: "ds_rel \<Rightarrow> nat option" where
  "rel_target r = (case r of RelSym t \<Rightarrow> t | RelSub i \<Rightarrow> Some i)"

definition unwind_targets :: "DsUnwind \<Rightarrow> nat option list" where
  "unwind_targets u =
     [uw_subsec u, uw_lsda u]
     @ (case uw_personality u of None \<Rightarrow> [] | Some p \<Rightarrow> [p])
     @ (case uw_fde u of None \<Rightarrow> [] | Some (s, l) \<Rightarrow> [s, l])"

definition ds_targets :: "DsCtx \<Rightarrow> nat \<Rightarrow> nat option list" where
  "ds_targets c i =
     (if i < length (dc_subsecs c)
      then map rel_target (dss_rels (dc_subsecs c ! i)) @ concat (map unwind_targets (dss_unwind (dc_subsecs c ! i)))
      else [])"

text \<open>The recursion of \<open>visit\<close>, with the calls that are still to be made as a list.\<close>

function ds_visit :: "DsCtx \<Rightarrow> nat option list \<Rightarrow> nat set \<Rightarrow> nat set" where
  "ds_visit c [] V = V"
| "ds_visit c (None # ss) V = ds_visit c ss V"
| "ds_visit c (Some i # ss) V =
     (if i \<in> V then ds_visit c ss V else ds_visit c (ds_targets c i @ ss) (insert i V))"
  by pat_completeness auto
termination
proof (relation "measures [\<lambda>(c, ss, V). card ({..<length (dc_subsecs c)} - V), \<lambda>(c, ss, V). length ss]", goal_cases)
  case (4 c i ss V)
  show ?case
  proof (cases "i < length (dc_subsecs c)")
    case True
    then have "{..<length (dc_subsecs c)} - insert i V \<subset> {..<length (dc_subsecs c)} - V" using 4 by auto
    then have "card ({..<length (dc_subsecs c)} - insert i V) < card ({..<length (dc_subsecs c)} - V)"
      by (intro psubset_card_mono) auto
    then show ?thesis by simp
  next
    case False
    then have "{..<length (dc_subsecs c)} - insert i V = {..<length (dc_subsecs c)} - V" by auto
    then show ?thesis using False by (simp add: ds_targets_def)
  qed
qed auto

definition refers_to_live_subsection :: "DsCtx \<Rightarrow> nat set \<Rightarrow> nat \<Rightarrow> bool" where
  "refers_to_live_subsection c V i \<longleftrightarrow>
     i < length (dc_subsecs c) \<and>
     list_ex (\<lambda>r. case rel_target r of None \<Rightarrow> False | Some t \<Rightarrow> t \<in> V) (dss_rels (dc_subsecs c ! i))"

definition live_support :: "DsCtx \<Rightarrow> nat \<Rightarrow> bool" where
  "live_support c i \<longleftrightarrow> i < length (dc_subsecs c) \<and> dss_attr (dc_subsecs c ! i) AND S_ATTR_LIVE_SUPPORT \<noteq> 0"

definition ds_pass_step :: "DsCtx \<Rightarrow> nat \<Rightarrow> nat set \<times> bool \<Rightarrow> nat set \<times> bool" where
  "ds_pass_step c i st = (case st of (V, again) \<Rightarrow>
     if live_support c i \<and> i \<notin> V \<and> refers_to_live_subsection c V i then (ds_visit c [Some i] V, True) else (V, again))"

definition ds_all_subsections :: "DsCtx \<Rightarrow> nat list" where
  "ds_all_subsections c = concat (map do_subsections (dc_objs c))"

definition ds_pass :: "DsCtx \<Rightarrow> nat set \<Rightarrow> nat set \<times> bool" where
  "ds_pass c V = fold (ds_pass_step c) (ds_all_subsections c) (V, False)"

lemma ds_visit_props:
  "V \<subseteq> ds_visit c ss V \<and> {t. Some t \<in> set ss} \<subseteq> ds_visit c ss V \<and>
   (\<forall>x\<in>ds_visit c ss V - V. {t. Some t \<in> set (ds_targets c x)} \<subseteq> ds_visit c ss V)"
  by (induction c ss V rule: ds_visit.induct) auto

lemma ds_visit_sound:
  "V \<subseteq> S \<Longrightarrow> {t. Some t \<in> set ss} \<subseteq> S \<Longrightarrow> (\<And>x. x \<in> S \<Longrightarrow> {t. Some t \<in> set (ds_targets c x)} \<subseteq> S) \<Longrightarrow>
     ds_visit c ss V \<subseteq> S"
proof (induction c ss V rule: ds_visit.induct)
  case (3 c i ss V)
  show ?case
  proof (cases "i \<in> V")
    case True
    then show ?thesis using 3 by auto
  next
    case False
    have "ds_visit c (ds_targets c i @ ss) (insert i V) \<subseteq> S"
    proof (rule "3.IH"(2) [OF False])
      show "{t. Some t \<in> set (ds_targets c i @ ss)} \<subseteq> S" using "3.prems" by auto
    qed (use "3.prems" in auto)
    then show ?thesis using False by simp
  qed
qed auto

text \<open>A pass that visited nothing has changed nothing, and has found nothing to visit.\<close>

lemma ds_pass_fold:
  "V \<subseteq> fst (fold (ds_pass_step c) is (V, b)) \<and>
   (\<not> snd (fold (ds_pass_step c) is (V, b)) \<longrightarrow> \<not> b \<and> fst (fold (ds_pass_step c) is (V, b)) = V \<and>
      (\<forall>i\<in>set is. live_support c i \<longrightarrow> i \<notin> V \<longrightarrow> \<not> refers_to_live_subsection c V i)) \<and>
   (snd (fold (ds_pass_step c) is (V, b)) \<longrightarrow> b \<or> (\<exists>i<length (dc_subsecs c). i \<notin> V \<and> i \<in> fst (fold (ds_pass_step c) is (V, b))))"
proof (induction "is" arbitrary: V b)
  case (Cons i "is")
  show ?case
  proof (cases "live_support c i \<and> i \<notin> V \<and> refers_to_live_subsection c V i")
    case True
    let ?V = "ds_visit c [Some i] V"
    have "V \<subseteq> ?V" "i \<in> ?V" using ds_visit_props [of V c "[Some i]"] by auto
    moreover have "i < length (dc_subsecs c)" using True by (simp add: live_support_def)
    ultimately show ?thesis using Cons [of ?V True] True by (auto simp: ds_pass_step_def)
  next
    case False
    then show ?thesis using Cons [of V b] by (auto simp: ds_pass_step_def)
  qed
qed simp

function ds_repeat :: "DsCtx \<Rightarrow> nat set \<Rightarrow> nat set" where
  "ds_repeat c V = (case ds_pass c V of (V', again) \<Rightarrow> if again then ds_repeat c V' else V')"
  by pat_completeness auto
termination
proof (relation "measure (\<lambda>(c, V). card ({..<length (dc_subsecs c)} - V))", goal_cases)
  case (2 c V V' again)
  then obtain i where "i < length (dc_subsecs c)" "i \<notin> V" "i \<in> V'" "V \<subseteq> V'"
    using ds_pass_fold [of V c "ds_all_subsections c" False] by (cases "ds_pass c V") (auto simp: ds_pass_def)
  then have "{..<length (dc_subsecs c)} - V' \<subset> {..<length (dc_subsecs c)} - V" by auto
  then show ?case by (auto intro!: psubset_card_mono)
qed simp

declare ds_repeat.simps [simp del]

definition ds_mark :: "DsCtx \<Rightarrow> nat set" where
  "ds_mark c = ds_repeat c (ds_visit c (ds_roots c) {})"

subsection \<open>Sweeping\<close>

definition ds_sweep_sym :: "nat set \<Rightarrow> DsSym option \<Rightarrow> DsSym option" where
  "ds_sweep_sym V so = (case so of
       Some s \<Rightarrow> (if dsy_own_file s \<and> (case dsy_subsec s of None \<Rightarrow> False | Some i \<Rightarrow> i \<notin> V) then None else so)
     | None \<Rightarrow> None)"

definition ds_sweep :: "nat set \<Rightarrow> DsObj \<Rightarrow> DsObj" where
  "ds_sweep V obj =
     obj \<lparr> do_syms := map (ds_sweep_sym V) (do_syms obj), do_subsections := filter (\<lambda>i. i \<in> V) (do_subsections obj) \<rparr>"

definition dead_strip :: "DsCtx \<Rightarrow> DsCtx" where
  "dead_strip c = c \<lparr> dc_objs := map (ds_sweep (ds_mark c)) (dc_objs c) \<rparr>"

subsection \<open>What is live\<close>

text \<open>
  The edges: what a subsection refers to, and from a subsection to the live-support subsections
  that refer to it.
\<close>

definition ds_succs :: "DsCtx \<Rightarrow> nat \<Rightarrow> nat set" where
  "ds_succs c x = {t. Some t \<in> set (ds_targets c x)} \<union>
     {i \<in> set (ds_all_subsections c). live_support c i \<and> Some x \<in> rel_target ` set (dss_rels (dc_subsecs c ! i))}"

abbreviation ds_root_set :: "DsCtx \<Rightarrow> nat set" where
  "ds_root_set c \<equiv> {i. Some i \<in> set (ds_roots c)}"

lemma refers_iff:
  "live_support c i \<Longrightarrow> refers_to_live_subsection c V i \<longleftrightarrow>
     (\<exists>x\<in>V. Some x \<in> rel_target ` set (dss_rels (dc_subsecs c ! i)))"
  by (auto simp: refers_to_live_subsection_def live_support_def list_ex_iff image_iff split: option.splits)
    (metis option.exhaust option.inject)+

definition ds_closed :: "DsCtx \<Rightarrow> nat set \<Rightarrow> bool" where
  "ds_closed c V \<longleftrightarrow> (\<forall>x\<in>V. {t. Some t \<in> set (ds_targets c x)} \<subseteq> V)"

lemma ds_visit_closed: "ds_closed c V \<Longrightarrow> ds_closed c (ds_visit c ss V)"
  using ds_visit_props [of V c ss] unfolding ds_closed_def by blast

lemma ds_pass_inv:
  assumes S: "\<And>x. x \<in> S \<Longrightarrow> ds_succs c x \<subseteq> S"
  shows "set is \<subseteq> set (ds_all_subsections c) \<Longrightarrow> V \<subseteq> S \<Longrightarrow> ds_closed c V \<Longrightarrow>
    fst (fold (ds_pass_step c) is (V, b)) \<subseteq> S \<and> ds_closed c (fst (fold (ds_pass_step c) is (V, b)))"
proof (induction "is" arbitrary: V b)
  case (Cons i "is")
  show ?case
  proof (cases "live_support c i \<and> i \<notin> V \<and> refers_to_live_subsection c V i")
    case True
    let ?V = "ds_visit c [Some i] V"
    obtain x where "x \<in> V" "i \<in> ds_succs c x"
      using True Cons.prems(1) refers_iff [of c i V] by (auto simp: ds_succs_def)
    then have "i \<in> S" using S Cons.prems(2) by blast
    have T: "\<And>x. x \<in> S \<Longrightarrow> {t. Some t \<in> set (ds_targets c x)} \<subseteq> S" using S by (auto simp: ds_succs_def)
    have "?V \<subseteq> S" using \<open>i \<in> S\<close> Cons.prems(2) by (intro ds_visit_sound [OF _ _ T]) auto
    moreover have "ds_closed c ?V" using Cons.prems(3) by (rule ds_visit_closed)
    moreover have "fold (ds_pass_step c) (i # is) (V, b) = fold (ds_pass_step c) is (?V, True)"
      using True by (simp add: ds_pass_step_def [of c i])
    ultimately show ?thesis using Cons.IH [of ?V True] Cons.prems(1) by (simp del: fold.simps ds_visit.simps)
  next
    case False
    then have "ds_pass_step c i (V, b) = (V, b)" by (auto simp: ds_pass_step_def)
    then have "fold (ds_pass_step c) (i # is) (V, b) = fold (ds_pass_step c) is (V, b)" by simp
    then show ?thesis using Cons.IH [of V b] Cons.prems by (simp del: fold.simps)
  qed
qed simp

lemma ds_repeat_props:
  assumes S: "\<And>x. x \<in> S \<Longrightarrow> ds_succs c x \<subseteq> S"
  shows "V \<subseteq> S \<Longrightarrow> ds_closed c V \<Longrightarrow> V \<subseteq> ds_repeat c V \<and> ds_repeat c V \<subseteq> S \<and> ds_closed c (ds_repeat c V) \<and>
    (\<forall>i\<in>set (ds_all_subsections c). live_support c i \<longrightarrow> i \<notin> ds_repeat c V \<longrightarrow> \<not> refers_to_live_subsection c (ds_repeat c V) i)"
  using S
proof (induction c V rule: ds_repeat.induct)
  case (1 c V)
  obtain V' again where p: "ds_pass c V = (V', again)" by fastforce
  have V': "V' \<subseteq> S" "ds_closed c V'" "V \<subseteq> V'"
    using ds_pass_inv [OF "1.prems"(3), of "ds_all_subsections c" V False]
      ds_pass_fold [of V c "ds_all_subsections c" False] "1.prems" p by (auto simp: ds_pass_def)
  show ?case
  proof (cases again)
    case True
    then have "ds_repeat c V = ds_repeat c V'" using p by (simp add: ds_repeat.simps [of c V])
    then show ?thesis using "1.IH" [OF p [symmetric] True V'(1, 2) "1.prems"(3)] V'(3) by auto
  next
    case False
    then have "V' = V" "\<forall>i\<in>set (ds_all_subsections c). live_support c i \<longrightarrow> i \<notin> V \<longrightarrow> \<not> refers_to_live_subsection c V i"
      using ds_pass_fold [of V c "ds_all_subsections c" False] p by (auto simp: ds_pass_def)
    moreover have "ds_repeat c V = V'" using p False by (simp add: ds_repeat.simps [of c V])
    ultimately show ?thesis using V' by simp
  qed
qed

lemma ds_mark_props:
  fixes c
  defines "R \<equiv> reach (ds_succs c) {} (ds_root_set c)"
  shows "ds_root_set c \<subseteq> ds_mark c \<and> ds_mark c \<subseteq> R \<and> (\<forall>x\<in>ds_mark c. ds_succs c x \<subseteq> ds_mark c)"
proof -
  let ?V = "ds_visit c (ds_roots c) {}"
  have R: "\<And>x. x \<in> R \<Longrightarrow> ds_succs c x \<subseteq> R" by (auto simp: R_def intro: reach_step)
  then have T: "\<And>x. x \<in> R \<Longrightarrow> {t. Some t \<in> set (ds_targets c x)} \<subseteq> R" by (auto simp: ds_succs_def)
  have roots: "ds_root_set c \<subseteq> R" by (auto simp: R_def intro: reach_root)
  then have "?V \<subseteq> R" by (intro ds_visit_sound [OF _ _ T]) auto
  moreover have "ds_closed c ?V" by (rule ds_visit_closed) (simp add: ds_closed_def)
  ultimately have rep: "?V \<subseteq> ds_mark c" "ds_mark c \<subseteq> R" "ds_closed c (ds_mark c)"
      "\<forall>i\<in>set (ds_all_subsections c). live_support c i \<longrightarrow> i \<notin> ds_mark c \<longrightarrow> \<not> refers_to_live_subsection c (ds_mark c) i"
    using ds_repeat_props [OF R, of ?V] by (simp_all add: ds_mark_def)
  have "ds_succs c x \<subseteq> ds_mark c" if "x \<in> ds_mark c" for x
    using that rep(3, 4) refers_iff by (fastforce simp: ds_succs_def ds_closed_def)
  moreover have "ds_root_set c \<subseteq> ?V" using ds_visit_props [of "{}" c "ds_roots c"] by simp
  ultimately show ?thesis using rep by blast
qed

interpretation macho_ds: mark_phase "\<lambda>_. True" ds_succs "\<lambda>_. {}" ds_root_set ds_mark
  using ds_mark_props by unfold_locales auto

subsection \<open>Properties\<close>

text \<open>
  C24: dead stripping keeps exactly the live subsections. An object file keeps, in order,
  the subsections that can be reached from the roots along references, unwind records, and
  backwards from a live subsection to the live-support subsections that refer to it; a symbol of the
  file is dropped exactly if it is defined in a subsection that is not live, and other symbols are left alone.
\<close>

theorem dead_strip_exact:
  "dc_objs (dead_strip c) =
     map (\<lambda>obj. obj \<lparr>
       do_syms := map (\<lambda>so. case so of None \<Rightarrow> None
           | Some s \<Rightarrow> (if dsy_own_file s \<and> (\<exists>i. dsy_subsec s = Some i \<and> i \<notin> reach (ds_succs c) {} (ds_root_set c))
                       then None else Some s)) (do_syms obj),
       do_subsections := filter (\<lambda>i. i \<in> reach (ds_succs c) {} (ds_root_set c)) (do_subsections obj) \<rparr>) (dc_objs c)"
proof -
  have "ds_mark c = reach (ds_succs c) {} (ds_root_set c)" using macho_ds.marked_iff [OF TrueI, of _ c] by auto
  moreover have "ds_sweep_sym V = (\<lambda>so. case so of None \<Rightarrow> None
      | Some s \<Rightarrow> (if dsy_own_file s \<and> (\<exists>i. dsy_subsec s = Some i \<and> i \<notin> V) then None else Some s))" for V
    by (auto simp: ds_sweep_sym_def fun_eq_iff split: option.split)
  ultimately show ?thesis by (simp add: dead_strip_def ds_sweep_def)
qed

text \<open>Stripping once more finds the same roots and the same live subsections.\<close>

lemma ds_sweep_roots: "ds_root_set (dead_strip c) = ds_root_set c"
proof -
  have keep: "i \<in> ds_mark c" if "Some i \<in> set (ds_roots c)" for i using that ds_mark_props [of c] by auto
  have obj: "Some i \<in> set (ds_obj_roots (dead_strip c) (ds_sweep (ds_mark c) obj)) \<longleftrightarrow> Some i \<in> set (ds_obj_roots c obj)"
    if "obj \<in> set (dc_objs c)" for obj i
  proof -
    have live: "j \<in> ds_mark c" if "Some j \<in> set (ds_obj_roots c obj)" for j
      using that \<open>obj \<in> set (dc_objs c)\<close> by (intro keep) (auto simp: ds_roots_def)
    have c': "ds_keep (dead_strip c) = ds_keep c" "dc_subsecs (dead_strip c) = dc_subsecs c"
      by (simp_all add: dead_strip_def ds_keep_def fun_eq_iff)
    have syms: "Some i \<in> set [dsy_subsec s. Some s \<leftarrow> map (ds_sweep_sym V) ss, dsy_own_file s \<and> ds_keep c s] \<longleftrightarrow>
        Some i \<in> set [dsy_subsec s. Some s \<leftarrow> ss, dsy_own_file s \<and> ds_keep c s]"
      if "\<And>j. Some j \<in> set [dsy_subsec s. Some s \<leftarrow> ss, dsy_own_file s \<and> ds_keep c s] \<Longrightarrow> j \<in> V" for V ss
      using that by (induction ss) (auto simp: ds_sweep_sym_def split: option.splits if_splits)
    show ?thesis
      using syms [of "do_syms obj" "ds_mark c"] live
      by (auto simp: ds_obj_roots_def c' ds_sweep_def)
  qed
  then show ?thesis by (auto simp: ds_roots_def dead_strip_def)
qed

lemma ds_mark_idem: "ds_mark (dead_strip c) = ds_mark c"
proof -
  let ?c = "dead_strip c"
  have R: "ds_mark c = reach (ds_succs c) {} (ds_root_set c)" for c using macho_ds.marked_iff [OF TrueI, of _ c] by auto
  have tg: "ds_targets ?c = ds_targets c" "live_support ?c = live_support c" "dc_subsecs ?c = dc_subsecs c"
    by (auto simp: ds_targets_def live_support_def dead_strip_def fun_eq_iff)
  have all: "set (ds_all_subsections ?c) = set (ds_all_subsections c) \<inter> ds_mark c"
    by (auto simp: ds_all_subsections_def dead_strip_def ds_sweep_def)
  then have sub: "ds_succs ?c x \<subseteq> ds_succs c x" for x by (auto simp: ds_succs_def tg)
  have same: "ds_succs c x \<subseteq> ds_succs ?c x" if "x \<in> ds_mark c" for x
  proof
    fix y assume y: "y \<in> ds_succs c x"
    then have "y \<in> ds_mark c" using ds_mark_props [of c] that by blast
    with y all show "y \<in> ds_succs ?c x" unfolding ds_succs_def tg by blast
  qed
  have "reach (ds_succs ?c) {} (ds_root_set ?c) \<subseteq> ds_mark c"
    unfolding ds_sweep_roots by (rule reach_least) (use ds_mark_props [of c] sub in blast)+
  moreover have "reach (ds_succs c) {} (ds_root_set c) \<subseteq> ds_mark ?c \<inter> ds_mark c"
  proof (rule reach_least)
    show "ds_root_set c - {} \<subseteq> ds_mark ?c \<inter> ds_mark c"
      using ds_mark_props [of c] ds_mark_props [of ?c] by (auto simp: ds_sweep_roots)
    show "ds_succs c x - {} \<subseteq> ds_mark ?c \<inter> ds_mark c" if "x \<in> ds_mark ?c \<inter> ds_mark c" for x
      using that same ds_mark_props [of c] ds_mark_props [of ?c] by blast
  qed
  ultimately show ?thesis unfolding R [of c, symmetric] R [of ?c, symmetric] by blast
qed

text \<open>
  dead stripping is idempotent: what is left refers only to what is left, the same roots are found in it,
  and stripping it again changes nothing.
\<close>

theorem dead_strip_idempotent: "dead_strip (dead_strip c) = dead_strip c"
proof -
  have "ds_sweep_sym V (ds_sweep_sym V so) = ds_sweep_sym V so" for V so
    by (auto simp: ds_sweep_sym_def split: option.splits)
  then have "ds_sweep V (ds_sweep V obj) = ds_sweep V obj" for V obj
    by (simp add: ds_sweep_def comp_def)
  moreover have "dead_strip (dead_strip c) = dead_strip c \<lparr> dc_objs := map (ds_sweep (ds_mark c)) (dc_objs (dead_strip c)) \<rparr>"
    unfolding dead_strip_def [of "dead_strip c"] ds_mark_idem ..
  ultimately show ?thesis by (simp add: dead_strip_def comp_def)
qed

end
