(* ===== verification/Spec2Isabelle.thy ===== *)
theory Spec2Isabelle
  imports BitVector Leb Codec ConcurrentMap Glob Elf_Types Elf_Resolve Elf_Relr Elf_Hash Elf_GC Elf_X86_64_Accept Archive_Correct
    Elf_ICF_Example Elf_Thunks_Pass Elf_Layout_Sorted Elf_Layout_Load
    MachO_Types MachO_Rebase MachO_Bind MachO_Export MachO_DeadStrip
begin

text \<open>
  A verification library for \<^verbatim>\<open>forged\<close>, a linker with an ELF back end (\<^verbatim>\<open>src/elf\<close>), a Mach-O back end
  (\<^verbatim>\<open>src/macho\<close>) and code they share (\<^verbatim>\<open>src/common\<close>). Both back ends read object files into records of fixed
  layout, resolve symbols, drop what is not needed, lay out output sections and
  write tables that a dynamic loader reads at run time. The library follows that order: the shared utilities, the
  records of the file formats, the passes over the input, and the tables of the output.

  \<^bold>\<open>Shared code.\<close>
  \<^item> \<open>Prelude\<close>: byte strings, results with failures, monadic folds, and facts on words.
  \<^item> \<open>Integers\<close> (\<^verbatim>\<open>common/integers.h\<close>): integers stored in either byte order on hosts of either byte order.
  \<^item> \<open>Bits\<close>, \<open>BitVector\<close>, \<open>Leb\<close>, \<open>ConcurrentMap\<close> (\<^verbatim>\<open>common/common.h\<close>): alignment and bit fields, bit vectors, every
    overload of the LEB128 routines with its shift widths, and the hash map, whose \<^verbatim>\<open>insert\<close> is modelled both as a
    function and as a step relation with one step per atomic access of any number of threads.
  \<^item> \<open>Glob\<close> (\<^verbatim>\<open>common/glob.cc\<close>): the pattern compiler and the matcher against the language of a pattern.
  \<^item> \<open>File_Type\<close> (\<^verbatim>\<open>common/filetype.h\<close>), \<open>Archive\<close> and \<open>Archive_Correct\<close> (\<^verbatim>\<open>common/archive-file.h\<close>): recognition of
    input files and the archive readers, against an archive writer; which inputs they reject, and that they read nothing
    outside the file. The reader of thin archives is a partial function, because it may not return.
  \<^item> \<open>Reach\<close>: reachability, the interface \<open>mark_phase\<close> of a mark phase, and marking by parallel workers.

  \<^bold>\<open>File formats.\<close>
  \<^item> \<open>Codec\<close>: the interface \<open>codec\<close> of an encoder and a decoder of fixed size, closed under pairs, arrays
    and isomorphisms; \<open>BitFields\<close>: bit fields as compilers of either byte order lay them out; \<open>Strings\<close>: decimal printing.
  \<^item> \<open>Elf_Consts\<close>, \<open>Elf_Relocs\<close>, \<open>Elf_Types\<close> (\<^verbatim>\<open>elf/elf.h\<close>, \<^verbatim>\<open>elf/elf.cc\<close>): every enumerator, the names of relocations,
    the sixteen machine descriptions, and a record with its codec for every structure, parametric in the machine.
  \<^item> \<open>MachO_Consts\<close>, \<open>MachO_Types\<close> (\<^verbatim>\<open>macho/macho.h\<close>): the same for Mach-O.

  \<^bold>\<open>Passes.\<close>
  \<^item> \<open>Elf_Resolve\<close> (\<^verbatim>\<open>elf/input-files.cc\<close>, \<^verbatim>\<open>elf/passes.cc\<close>): symbol resolution. Every claim of an entry on its symbol is
    one atomic step; a symbol ends up with the definition of least rank in every order of the steps. Archive extraction
    interprets \<open>mark_phase\<close>, COMDAT elimination keeps the sections of one file per group, and the composition
    leaves no symbol bound to a file or section that was dropped.
  \<^item> \<open>Elf_GC\<close> (\<^verbatim>\<open>elf/gc-sections.cc\<close>) and \<open>MachO_DeadStrip\<close> (\<^verbatim>\<open>macho/dead-strip.cc\<close>): both collectors, whole. They
    interpret \<open>mark_phase\<close>; what is kept is exactly what is reachable, also when threads mark in parallel.

  \<^item> \<open>Elf_ICF\<close> (\<^verbatim>\<open>elf/icf.cc\<close>): identical code folding, with the digest as a parameter. \<open>Elf_ICF_Tree\<close>: the rounds
    end, and the classes found are those of equal unfoldings, the argument that the source omits. \<open>Elf_ICF_Label\<close>: the bytes
    given to the hash determine what is compared. \<open>Elf_ICF_Correct\<close>: who folds with whom, and that references stay the
    same. \<open>Elf_ICF_Example\<close>: the example of the source, and inputs on which folding goes wrong.

  \<^bold>\<open>Relocations.\<close>
  \<^item> \<open>Elf_Scan\<close> (\<^verbatim>\<open>elf/input-sections.cc\<close>, \<^verbatim>\<open>elf/tls.cc\<close>): the tables that choose an action for a relocation, the
    scanner that reserves what it needs and the writer that carries it out, for all machines. A word and the dynamic
    relocations on it, taken together by a dynamic loader, give the value the input asked for.
  \<^item> \<open>Buffer\<close>: stores into the bytes of a section. \<open>Elf_X86_64\<close> (\<^verbatim>\<open>elf/arch-x86-64.cc\<close>): the x86-64 back end, whole.
    \<open>Elf_X86_64_Meaning\<close>: its fields against the formulas of the psABI, its rewritten instructions against a small
    processor. \<open>Elf_X86_64_Accept\<close>: its two passes over a section agree.

  \<^bold>\<open>Layout.\<close>
  \<^item> \<open>Elf_Layout\<close> (\<^verbatim>\<open>elf/passes.cc\<close>, \<^verbatim>\<open>elf/output-chunks.cc\<close>): the order of the output chunks, their addresses and
    file offsets, with and without \<^verbatim>\<open>--section-order\<close>, and the program headers. \<open>Elf_Layout_Addr\<close>, \<open>Elf_Layout_Sorted\<close>: sorted
    chunks get aligned, disjoint addresses in pages of their own attributes. \<open>Elf_Layout_File\<close>, \<open>Elf_Layout_Load\<close>: the file
    has room for each chunk, and a loader that follows the program headers puts each chunk at its address.
    \<open>Elf_Layout_Example\<close> holds small outputs. That the size of the program headers becomes stable is not shown.
  \<^item> \<open>Elf_Thunks\<close> (\<^verbatim>\<open>elf/thunks.cc\<close>): range extension thunks of one output section. \<open>Elf_Thunks_Correct\<close>: the four
    pointers of the pass and its scans. \<open>Elf_Thunks_Reach\<close>, \<open>Elf_Thunks_Pass\<close>: its invariant; every branch reaches its target
    or an entry for it, when sections are small against a batch.

  \<^bold>\<open>Tables of the output.\<close>
  \<^item> \<open>Elf_Relr\<close>, \<open>Elf_Hash\<close> (\<^verbatim>\<open>elf/output-chunks.cc\<close>): packed relative relocations, the order of the dynamic
    symbols and both hash tables, against the reader of a dynamic loader.
  \<^item> \<open>MachO_Rebase\<close>, \<open>MachO_Bind\<close>, \<open>MachO_Export\<close> (\<^verbatim>\<open>macho/output-chunks.cc\<close>, \<^verbatim>\<open>macho/input-files.cc\<close>): rebase and bind
    opcodes against the machine of the loader, and the export trie against the linker's own reader.

  \<^bold>\<open>Conventions.\<close> A pointer to an object of an arena is its index. \<^verbatim>\<open>Fatal\<close> and undefined behaviour are values
  of the type \<open>failure\<close>; an assertion is a hypothesis or the value \<open>Unreachable\<close>. Loops are recursive functions with a
  proof of termination; where the reader of a table may loop on foreign input, it has fuel, and the theorems
  show that the fuel given there is enough. Machine integers are words of their width.

  \<^bold>\<open>Not modelled.\<close> Files, processes, threads pools, memory mapping, compression, cryptographic digests and the
  demangler are calls of the operating system or of libraries.
\<close>

end
